(* ===== verification/Py_Json.thy ===== *)
theory Py_Json
  imports Py_Prelude "HOL-Library.Multiset"
begin

text \<open>
  JSON values as the protocol stores and hashes them, and Python's
  \<open>json.dumps(data, ensure_ascii=False, sort_keys=True, separators=(",", ":"))\<close>, the canonical
  text every digest, hash chain and idempotency signature of the program is computed from.
  A float is held as the text Python's encoder writes for it. The main result is that the
  canonical text determines the value up to the order of object keys.
\<close>

section \<open>Values\<close>

datatype json =
    JNull
  | JBool bool
  | JInt int
  | JFloat string
  | JStr string
  | JArr "json list"
  | JObj "(string \<times> json) list"

type_synonym jobj = "(string, json) dict"

text \<open>\<open>d.get(k)\<close>, which is \<open>None\<close> for a missing key, and \<open>d[k]\<close>, which raises.\<close>

definition jget :: "jobj \<Rightarrow> string \<Rightarrow> json" where
  "jget d k = (case map_of d k of None \<Rightarrow> JNull | Some v \<Rightarrow> v)"

definition jitem :: "jobj \<Rightarrow> string \<Rightarrow> json res" where
  "jitem d k = (case map_of d k of None \<Rightarrow> Inl (KeyError k) | Some v \<Rightarrow> Inr v)"

text \<open>Python truthiness of a JSON value; a float is false when its digits are all zero.\<close>

definition float_zero :: "string \<Rightarrow> bool" where
  "float_zero t \<longleftrightarrow> (\<exists>c \<in> set t. is_digit c) \<and>
     (\<forall>c \<in> set (takeWhile (\<lambda>c. c \<noteq> CHR ''e'') t). is_digit c \<longrightarrow> c = CHR ''0'')"

fun truthy :: "json \<Rightarrow> bool" where
  "truthy JNull = False"
| "truthy (JBool b) = b"
| "truthy (JInt i) = (i \<noteq> 0)"
| "truthy (JFloat t) = (\<not> float_zero t)"
| "truthy (JStr s) = (s \<noteq> [])"
| "truthy (JArr xs) = (xs \<noteq> [])"
| "truthy (JObj d) = (d \<noteq> [])"

fun is_jobj :: "json \<Rightarrow> bool" where
  "is_jobj (JObj _) = True"
| "is_jobj _ = False"

fun is_jbool :: "json \<Rightarrow> bool" where
  "is_jbool (JBool _) = True"
| "is_jbool _ = False"

fun is_nonempty_str :: "json \<Rightarrow> bool" where
  "is_nonempty_str (JStr s) = (s \<noteq> [])"
| "is_nonempty_str _ = False"

fun opt_str :: "string option \<Rightarrow> json" where
  "opt_str None = JNull"
| "opt_str (Some s) = JStr s"

fun opt_int :: "int option \<Rightarrow> json" where
  "opt_int None = JNull"
| "opt_int (Some i) = JInt i"

fun opt_obj :: "jobj option \<Rightarrow> json" where
  "opt_obj None = JNull"
| "opt_obj (Some d) = JObj d"

text \<open>
  The value a Python set or dictionary compares by: lists and dictionaries are unhashable,
  \<open>True == 1\<close>, and an integral float written \<open>n.0\<close> equals the integer.
\<close>

definition float_as_int :: "string \<Rightarrow> int option" where
  "float_as_int t =
     (let n = length t - 2; body = take n t;
          neg = (body \<noteq> [] \<and> hd body = CHR ''-'');
          ds = (if neg then tl body else body)
      in if drop n t = ''.0'' \<and> ds \<noteq> [] \<and> list_all is_digit ds
         then Some (if neg then - int (read_nat ds) else int (read_nat ds)) else None)"

fun hash_key :: "json \<Rightarrow> json res" where
  "hash_key (JArr _) = Inl (TypeError ''unhashable type: list'')"
| "hash_key (JObj _) = Inl (TypeError ''unhashable type: dict'')"
| "hash_key (JBool b) = Inr (JInt (if b then 1 else 0))"
| "hash_key (JFloat t) = Inr (case float_as_int t of None \<Rightarrow> JFloat t | Some i \<Rightarrow> JInt i)"
| "hash_key j = Inr j"

text \<open>\<open>x in d\<close> for a dictionary or set of strings: only a string can be a member.\<close>

definition in_str_keys :: "json \<Rightarrow> string list \<Rightarrow> bool res" where
  "in_str_keys v ks = bindE (hash_key v) (\<lambda>k. Inr (case k of JStr s \<Rightarrow> s \<in> set ks | _ \<Rightarrow> False))"

text \<open>Python's \<open>==\<close> on JSON values: numbers compare by value, objects without regard to key order.\<close>

fun number_norm :: "json \<Rightarrow> json" where
  "number_norm (JBool b) = JInt (if b then 1 else 0)"
| "number_norm (JFloat t) = (case float_as_int t of None \<Rightarrow> JFloat t | Some i \<Rightarrow> JInt i)"
| "number_norm (JArr xs) = JArr (map number_norm xs)"
| "number_norm (JObj d) = JObj (sort_key fst (map (\<lambda>(k, v). (k, number_norm v)) d))"
| "number_norm j = j"

definition py_eq :: "json \<Rightarrow> json \<Rightarrow> bool" where
  "py_eq a b = (number_norm a = number_norm b)"

section \<open>The encoder\<close>

text \<open>Python's \<open>ESCAPE_DCT\<close>: two-character escapes, \<open>\u00XX\<close> for the other control characters.\<close>

definition hex_digit :: "nat \<Rightarrow> char" where
  "hex_digit n = (if n < 10 then char_of (48 + n) else char_of (87 + n))"

definition short_escape :: "char \<Rightarrow> char option" where
  "short_escape c =
     (if c = CHR 0x22 then Some (CHR 0x22)
      else if c = CHR 0x5C then Some (CHR 0x5C)
      else if c = CHR 0x08 then Some (CHR ''b'')
      else if c = CHR 0x0C then Some (CHR ''f'')
      else if c = CHR 0x0A then Some (CHR ''n'')
      else if c = CHR 0x0D then Some (CHR ''r'')
      else if c = CHR 0x09 then Some (CHR ''t'')
      else None)"

definition esc_char :: "char \<Rightarrow> string" where
  "esc_char c =
     (case short_escape c of
        Some e \<Rightarrow> [CHR 0x5C, e]
      | None \<Rightarrow> if (of_char c :: nat) < 32
                then [CHR 0x5C, CHR ''u'', CHR ''0'', CHR ''0'',
                      hex_digit (of_char c div 16), hex_digit (of_char c mod 16)]
                else [c])"

definition quote :: "string \<Rightarrow> string" where
  "quote s = CHR 0x22 # concat (map esc_char s) @ [CHR 0x22]"

text \<open>\<open>sort_keys=True\<close> sorts the members of every object; \<open>dumps\<close> then writes them in order.\<close>

fun sort_members :: "json \<Rightarrow> json" where
  "sort_members (JArr xs) = JArr (map sort_members xs)"
| "sort_members (JObj d) = JObj (sort_key fst (map (\<lambda>(k, v). (k, sort_members v)) d))"
| "sort_members j = j"

fun dumps :: "json \<Rightarrow> string" where
  "dumps JNull = ''null''"
| "dumps (JBool b) = (if b then ''true'' else ''false'')"
| "dumps (JInt i) = show_int i"
| "dumps (JFloat t) = t"
| "dumps (JStr s) = quote s"
| "dumps (JArr xs) = ''['' @ join '','' (map dumps xs) @ '']''"
| "dumps (JObj d) = ''{'' @ join '','' (map (\<lambda>(k, v). quote k @ '':'' @ dumps v) d) @ ''}''"

definition canonical_json :: "json \<Rightarrow> string" where
  "canonical_json j = dumps (sort_members j)"

text \<open>
  \<open>f"sha256:{sha256(text.encode('utf-8')).hexdigest()}"\<close>. The hash function is an argument
  of every definition that digests, so each theorem holds for every hash function.
\<close>

type_synonym hash = "string \<Rightarrow> string"

definition sha256_digest :: "hash \<Rightarrow> string \<Rightarrow> string" where
  "sha256_digest h bytes = ''sha256:'' @ h bytes"

definition digest_json :: "hash \<Rightarrow> json \<Rightarrow> string" where
  "digest_json h j = sha256_digest h (canonical_json j)"

section \<open>The encoding is injective\<close>

text \<open>
  A value is well formed when its objects have distinct keys, which every Python dictionary
  has, and its floats are written as Python writes them.
\<close>

definition float_chars :: "char set" where
  "float_chars = set ''0123456789+-.eaNInfity''"

definition float_text :: "string \<Rightarrow> bool" where
  "float_text t \<longleftrightarrow> t \<noteq> [] \<and> set t \<subseteq> float_chars \<and> hd t \<in> set ''0123456789-NI'' \<and>
     (\<exists>c \<in> set t. c \<in> set ''.eNI'')"

fun wf_json :: "json \<Rightarrow> bool" where
  "wf_json (JFloat t) = float_text t"
| "wf_json (JArr xs) = (\<forall>x \<in> set xs. wf_json x)"
| "wf_json (JObj d) = (distinct (map fst d) \<and> (\<forall>p \<in> set d. wf_json (snd p)))"
| "wf_json _ = True"

definition stop_char :: "char \<Rightarrow> bool" where
  "stop_char c \<longleftrightarrow> c \<in> set '',]}''"

definition stop :: "string \<Rightarrow> bool" where
  "stop xs \<longleftrightarrow> xs = [] \<or> stop_char (hd xs)"

lemma stop_Nil [simp]: "stop []"
  by (simp add: stop_def)

lemma stop_Cons [simp]: "stop (c # xs) \<longleftrightarrow> stop_char c"
  by (simp add: stop_def)

lemma stop_chars [simp]: "stop_char (CHR '','')" "stop_char (CHR '']'')" "stop_char (CHR ''}'')"
  by (simp_all add: stop_char_def)

lemma digit_not_stop: "is_digit c \<Longrightarrow> \<not> stop_char c"
  by (auto simp: is_digit_def stop_char_def)

lemma float_char_not_stop: "c \<in> float_chars \<Longrightarrow> \<not> stop_char c"
  by (auto simp: float_chars_def stop_char_def)

subsection \<open>Strings\<close>

lemma hex_digit_inj: "m < 16 \<Longrightarrow> n < 16 \<Longrightarrow> hex_digit m = hex_digit n \<Longrightarrow> m = n"
proof -
  assume b: "m < 16" "n < 16" and e: "hex_digit m = hex_digit n"
  have "(of_char (hex_digit k) :: nat) = (if k < 10 then 48 + k else 87 + k)" if "k < 16" for k
    using that by (simp add: hex_digit_def)
  from this[OF b(1)] this[OF b(2)] e
  have "(if m < 10 then 48 + m else 87 + m) = (if n < 10 then 48 + n else 87 + n)" by simp
  with b show "m = n" by (auto split: if_splits)
qed

lemma short_escape_inj: "short_escape c = Some e \<Longrightarrow> short_escape d = Some e \<Longrightarrow> c = d"
  by (auto simp: short_escape_def split: if_splits)

lemma short_escape_not_u: "short_escape c \<noteq> Some (CHR ''u'')"
  by (simp add: short_escape_def)

lemma esc_char_plain: "short_escape c = None \<Longrightarrow> \<not> (of_char c :: nat) < 32 \<Longrightarrow> c \<noteq> CHR 0x22 \<and> c \<noteq> CHR 0x5C"
  by (auto simp: short_escape_def)

lemma esc_char_hd: "esc_char c = x # r \<Longrightarrow> x \<noteq> CHR 0x22"
  by (auto simp: esc_char_def dest: esc_char_plain split: option.splits if_splits)

lemma esc_char_nonempty [simp]: "esc_char c \<noteq> []"
  by (auto simp: esc_char_def split: option.splits)

lemma esc_char_prefix:
  assumes "esc_char c @ u = esc_char d @ v"
  shows "c = d \<and> u = v"
proof -
  have low: "c = d" if "(of_char c :: nat) < 32" "(of_char d :: nat) < 32"
    "hex_digit (of_char c div 16) = hex_digit (of_char d div 16)"
    "hex_digit (of_char c mod 16) = hex_digit (of_char d mod 16)"
  proof -
    have "(of_char c :: nat) div 16 = of_char d div 16" "(of_char c :: nat) mod 16 = of_char d mod 16"
      using that by (auto intro!: hex_digit_inj)
    then have "(of_char c :: nat) = of_char d" by (metis div_mult_mod_eq)
    then show ?thesis by simp
  qed
  show ?thesis
    using assms
    by (auto simp: esc_char_def short_escape_not_u short_escape_not_u[THEN not_sym]
        dest: esc_char_plain short_escape_inj low split: option.splits if_splits)
qed

lemma quote_prefix:
  assumes "quote s @ xs = quote t @ ys"
  shows "s = t \<and> xs = ys"
proof -
  have "concat (map esc_char s) @ CHR 0x22 # xs = concat (map esc_char t) @ CHR 0x22 # ys \<Longrightarrow>
    s = t \<and> xs = ys"
  proof (induction s arbitrary: t)
    case Nil
    then show ?case
      by (cases t) (auto simp: Cons_eq_append_conv dest: esc_char_hd[OF sym])
  next
    case (Cons c s)
    show ?case
    proof (cases t)
      case Nil
      with Cons.prems show ?thesis
        by (auto simp: append_eq_Cons_conv dest: esc_char_hd esc_char_hd[OF sym])
    next
      case (Cons d t')
      with Cons.prems esc_char_prefix[of c _ d] Cons.IH[of t'] show ?thesis by auto
    qed
  qed
  with assms show ?thesis by (simp add: quote_def)
qed

subsection \<open>Scalars and sequences\<close>

fun is_scalar :: "json \<Rightarrow> bool" where
  "is_scalar (JStr _) = False"
| "is_scalar (JArr _) = False"
| "is_scalar (JObj _) = False"
| "is_scalar _ = True"

lemma show_int_chars: "c \<in> set (show_int i) \<Longrightarrow> is_digit c \<or> c = CHR ''-''"
  by (auto simp: show_int_def dest: show_nat_digits split: if_splits)

lemma show_int_nonempty [simp]: "show_int i \<noteq> []"
  by (simp add: show_int_def)

lemma minus_not_stop [simp]: "\<not> stop_char (CHR ''-'')"
  by (simp add: stop_char_def)

lemma scalar_no_stop: "is_scalar a \<Longrightarrow> wf_json a \<Longrightarrow> c \<in> set (dumps a) \<Longrightarrow> \<not> stop_char c"
proof (cases a)
  case (JInt i)
  assume "c \<in> set (dumps a)"
  with JInt show ?thesis by (auto dest!: show_int_chars dest: digit_not_stop)
next
  case (JFloat t)
  assume "wf_json a" "c \<in> set (dumps a)"
  with JFloat show ?thesis by (auto simp: float_text_def intro!: float_char_not_stop)
qed (auto simp: stop_char_def split: if_splits)

lemma scalar_hd: "is_scalar a \<Longrightarrow> wf_json a \<Longrightarrow>
    dumps a \<noteq> [] \<and> hd (dumps a) \<noteq> CHR 0x22 \<and> hd (dumps a) \<noteq> CHR ''['' \<and> hd (dumps a) \<noteq> CHR ''{''"
proof (cases a)
  case (JInt i)
  then show ?thesis using show_int_chars[of "hd (show_int i)" i] by (auto simp: is_digit_def)
qed (auto simp: float_text_def)

lemma scalar_lead:
  assumes "is_scalar a" "wf_json a" "dumps a @ us = c # vs"
  shows "c \<notin> {CHR 0x22, CHR ''['', CHR ''{''} \<and> \<not> stop_char c"
proof -
  obtain r where "dumps a = c # r"
    using assms(3) scalar_hd[OF assms(1,2)] by (cases "dumps a") auto
  with scalar_hd[OF assms(1,2)] scalar_no_stop[OF assms(1,2), of c] show ?thesis by auto
qed

lemma split_at_stop:
  assumes "s @ xs = t @ ys" "stop xs" "stop ys"
    and "\<forall>c \<in> set s. \<not> stop_char c" "\<forall>c \<in> set t. \<not> stop_char c"
  shows "s = t \<and> xs = ys"
proof -
  have "takeWhile (\<lambda>c. \<not> stop_char c) (u @ z) = u" if "\<forall>c \<in> set u. \<not> stop_char c" "stop z" for u z
    using that by (cases z) (auto simp: takeWhile_append)
  with assms have "s = t" by metis
  with assms(1) show ?thesis by simp
qed

lemma float_text_not_int: "float_text t \<Longrightarrow> t \<noteq> show_int i"
proof
  assume f: "float_text t" and e: "t = show_int i"
  from f obtain c where "c \<in> set t" "c \<in> set ''.eNI''" by (auto simp: float_text_def)
  with e show False by (auto simp: is_digit_def dest!: show_int_chars)
qed

lemma letters_not_int: "c \<in> set t \<Longrightarrow> c \<in> set ''lu'' \<Longrightarrow> t \<noteq> show_int i \<and> \<not> float_text t"
  by (auto simp: float_text_def float_chars_def is_digit_def dest!: show_int_chars)

lemma false_not_number: "''false'' \<noteq> show_int i" "\<not> float_text ''false''"
    "''true'' \<noteq> show_int i" "\<not> float_text ''true''" "''null'' \<noteq> show_int i" "\<not> float_text ''null''"
  using letters_not_int[of "CHR ''l''" "''false''" i] letters_not_int[of "CHR ''u''" "''true''" i]
    letters_not_int[of "CHR ''l''" "''null''" i] by simp_all

lemma scalar_dumps_inj:
  assumes "is_scalar a" "is_scalar b" "wf_json a" "wf_json b" "dumps a = dumps b"
  shows "a = b"
  using assms
  by (cases a; cases b)
    (auto split: if_splits simp: false_not_number false_not_number(1,3,5)[THEN not_sym]
      float_text_not_int float_text_not_int[THEN not_sym])

lemma join_as_tail:
  "join '','' (map f (x # xs)) = f x @ concat (map (\<lambda>y. CHR '','' # f y) xs)"
  by (induction xs arbitrary: x) auto

lemma tail_prefix:
  assumes pre: "\<And>a b us vs. a \<in> set as \<Longrightarrow> b \<in> set bs \<Longrightarrow> f a @ us = f b @ vs \<Longrightarrow>
      stop us \<Longrightarrow> stop vs \<Longrightarrow> a = b \<and> us = vs"
    and c: "stop_char c" "c \<noteq> CHR '',''"
    and eq: "concat (map (\<lambda>y. CHR '','' # f y) as) @ c # xs
      = concat (map (\<lambda>y. CHR '','' # f y) bs) @ c # ys"
  shows "as = bs \<and> xs = ys"
  using pre eq
proof (induction as arbitrary: bs)
  case Nil
  with c(2) show ?case by (cases bs) auto
next
  case (Cons a as)
  show ?case
  proof (cases bs)
    case Nil
    with Cons.prems(2) c(2) show ?thesis by auto
  next
    case (Cons b bs')
    have st: "stop (concat (map (\<lambda>y. CHR '','' # f y) zs) @ c # ws)" for zs ws
      using c(1) by (cases zs) auto
    from Cons.prems(2) Cons
    have "f a @ concat (map (\<lambda>y. CHR '','' # f y) as) @ c # xs
        = f b @ concat (map (\<lambda>y. CHR '','' # f y) bs') @ c # ys" by simp
    with Cons.prems(1)[of a b] Cons st
    have "a = b" "concat (map (\<lambda>y. CHR '','' # f y) as) @ c # xs
        = concat (map (\<lambda>y. CHR '','' # f y) bs') @ c # ys"
      by (auto simp del: append_assoc)
    moreover have "as = bs' \<and> xs = ys"
      using Cons.prems(1) Cons by (intro Cons.IH[OF _ calculation(2)]) auto
    ultimately show ?thesis using Cons by simp
  qed
qed

lemma join_prefix:
  assumes pre: "\<And>a b us vs. a \<in> set as \<Longrightarrow> b \<in> set bs \<Longrightarrow> f a @ us = f b @ vs \<Longrightarrow>
      stop us \<Longrightarrow> stop vs \<Longrightarrow> a = b \<and> us = vs"
    and c: "stop_char c" "c \<noteq> CHR '',''"
    and hd: "\<And>a us vs. a \<in> set as \<union> set bs \<Longrightarrow> f a @ us \<noteq> c # vs"
    and eq: "join '','' (map f as) @ c # xs = join '','' (map f bs) @ c # ys"
  shows "as = bs \<and> xs = ys"
proof (cases as)
  case Nil
  show ?thesis
  proof (cases bs)
    case (Cons b bs')
    with eq Nil hd[of b "concat (map (\<lambda>y. CHR '','' # f y) bs') @ c # ys" xs]
    show ?thesis by (simp add: join_as_tail del: list.map(2))
  qed (use eq Nil in simp)
next
  case (Cons a as')
  then have a: "a \<in> set as" by simp
  show ?thesis
  proof (cases bs)
    case Nil
    with eq hd[of a] \<open>as = a # as'\<close> show ?thesis
      by (auto simp: join_as_tail simp del: list.map(2))
  next
    case (Cons b bs')
    let ?t = "\<lambda>zs. concat (map (\<lambda>y. CHR '','' # f y) zs)"
    have st: "stop (?t zs @ c # ws)" for zs ws using c(1) by (cases zs) auto
    from eq \<open>as = a # as'\<close> Cons have "f a @ ?t as' @ c # xs = f b @ ?t bs' @ c # ys"
      by (simp add: join_as_tail del: list.map)
    with pre[of a b] a Cons st have "a = b" "?t as' @ c # xs = ?t bs' @ c # ys" by auto
    moreover have "as' = bs' \<and> xs = ys"
      using pre \<open>as = a # as'\<close> Cons
      by (intro tail_prefix[where f = f, OF _ c calculation(2)]) auto
    ultimately show ?thesis using \<open>as = a # as'\<close> Cons by simp
  qed
qed

subsection \<open>All values\<close>

lemma dumps_hd_not_close:
  assumes "wf_json a" "c \<in> set '']}''"
  shows "dumps a @ us \<noteq> c # vs"
proof (cases "is_scalar a")
  case True
  with assms scalar_lead[of a us c vs] show ?thesis by (auto simp: stop_char_def)
next
  case False
  with assms(2) show ?thesis by (cases a) (auto simp: quote_def)
qed

lemma dumps_lead:
  "\<not> is_scalar a \<Longrightarrow> \<exists>r. dumps a = (case a of JStr _ \<Rightarrow> CHR 0x22 | JArr _ \<Rightarrow> CHR ''['' | _ \<Rightarrow> CHR ''{'') # r"
  by (cases a) (auto simp: quote_def)

lemma dumps_same_lead:
  assumes "wf_json a" "wf_json b" "dumps a @ xs = dumps b @ ys"
  shows "is_scalar a = is_scalar b"
    and "\<exists>s. a = JStr s \<Longrightarrow> \<exists>s. b = JStr s"
    and "\<exists>s. a = JArr s \<Longrightarrow> \<exists>s. b = JArr s"
    and "\<exists>s. a = JObj s \<Longrightarrow> \<exists>s. b = JObj s"
proof -
  have mixed: False if "\<not> is_scalar u" "is_scalar v" "wf_json v" "dumps u @ xs = dumps v @ ys" for u v xs ys
  proof -
    from that(1) obtain c r where "dumps u = c # r" and c: "c \<in> {CHR 0x22, CHR ''['', CHR ''{''}"
      by (cases u) (auto simp: quote_def)
    with that(4) have "dumps v @ ys = c # (r @ xs)" by simp
    from scalar_lead[OF that(2,3) this] c show False by blast
  qed
  show sc: "is_scalar a = is_scalar b"
    using mixed[of a b xs ys] mixed[of b a ys xs] assms by metis
  show "\<exists>s. a = JStr s \<Longrightarrow> \<exists>s. b = JStr s" "\<exists>s. a = JArr s \<Longrightarrow> \<exists>s. b = JArr s"
    "\<exists>s. a = JObj s \<Longrightarrow> \<exists>s. b = JObj s"
    using assms sc by (cases b; auto simp: quote_def)+
qed

lemma dumps_prefix_scalar:
  assumes "is_scalar a" "wf_json a" "wf_json b" "dumps a @ xs = dumps b @ ys" "stop xs" "stop ys"
  shows "a = b \<and> xs = ys"
proof -
  have b: "is_scalar b" using dumps_same_lead(1)[OF assms(2-4)] assms(1) by simp
  have "dumps a = dumps b \<and> xs = ys"
    using assms b by (intro split_at_stop) (auto dest: scalar_no_stop)
  with assms b show ?thesis by (auto intro: scalar_dumps_inj)
qed

lemma dumps_prefix:
  assumes "wf_json a" "wf_json b" "dumps a @ xs = dumps b @ ys" "stop xs" "stop ys"
  shows "a = b \<and> xs = ys"
  using assms
proof (induction a arbitrary: b xs ys)
  case (JStr s)
  then obtain t where b: "b = JStr t" using dumps_same_lead(2)[OF JStr.prems(1-3)] by auto
  with JStr.prems(3) quote_prefix[of s xs t ys] show ?case by simp
next
  case (JArr as)
  then obtain bs where b: "b = JArr bs" using dumps_same_lead(3)[OF JArr.prems(1-3)] by auto
  from JArr.prems(3) b
  have "join '','' (map dumps as) @ CHR '']'' # xs = join '','' (map dumps bs) @ CHR '']'' # ys"
    by simp
  with JArr.prems JArr.IH b have "as = bs \<and> xs = ys"
    by (intro join_prefix[where f = dumps and c = "CHR '']''"]) (auto simp: dumps_hd_not_close)
  with b show ?case by simp
next
  case (JObj d)
  then obtain e where b: "b = JObj e" using dumps_same_lead(4)[OF JObj.prems(1-3)] by auto
  let ?f = "\<lambda>(k, v). quote k @ '':'' @ dumps v"
  have pre: "p = q \<and> us = vs"
    if *: "p \<in> set d" "q \<in> set e" "?f p @ us = ?f q @ vs" "stop us" "stop vs" for p q us vs
  proof -
    obtain k v l w where pq: "p = (k, v)" "q = (l, w)" by (cases p, cases q) auto
    with *(3) have "quote k @ '':'' @ dumps v @ us = quote l @ '':'' @ dumps w @ vs" by simp
    then have kl: "k = l" and "dumps v @ us = dumps w @ vs" by (auto dest!: quote_prefix)
    moreover have "wf_json v" "wf_json w" using JObj.prems(1,2) b *(1,2) pq by auto
    ultimately have "v = w \<and> us = vs"
      using JObj.IH[of "(k, v)" v w us vs] * pq by auto
    with kl pq show ?thesis by simp
  qed
  from JObj.prems(3) b
  have "join '','' (map ?f d) @ CHR ''}'' # xs = join '','' (map ?f e) @ CHR ''}'' # ys"
    by simp
  then have "d = e \<and> xs = ys"
    by (intro join_prefix[where f = ?f and c = "CHR ''}''", OF pre]) (auto simp: quote_def)
  with b show ?case by simp
qed (rule dumps_prefix_scalar; simp)+

lemma wf_sort_members: "wf_json a \<Longrightarrow> wf_json (sort_members a)"
proof (induction a)
  case (JObj d)
  let ?d' = "map (\<lambda>(k, v). (k, sort_members v)) d"
  have "map fst ?d' = map fst d" by (simp add: case_prod_beta comp_def)
  then have "distinct (map fst (sort_key fst ?d'))"
    using JObj.prems
    by (metis mset_map mset_sort mset_eq_imp_distinct_iff wf_json.simps(3))
  moreover have "\<forall>q \<in> set ?d'. wf_json (snd q)" using JObj by fastforce
  ultimately show ?case by simp
qed auto

text \<open>The canonical text of two well-formed values is the same exactly when they are the same up to key order.\<close>

lemma canonical_json_inject:
  assumes "wf_json a" "wf_json b"
  shows "canonical_json a = canonical_json b \<longleftrightarrow> sort_members a = sort_members b"
  using dumps_prefix[of "sort_members a" "sort_members b" "[]" "[]"] assms
  by (auto simp: canonical_json_def wf_sort_members)

text \<open>Reordering the members of an object does not change its canonical text.\<close>

lemma sort_key_perm:
  fixes f :: "'a \<Rightarrow> 'b :: linorder"
  assumes "mset d = mset e" "distinct (map f d)"
  shows "sort_key f d = sort_key f e"
proof (rule sort_key_inj_key_eq)
  show "mset d = mset (sort_key f e)" using assms(1) by simp
  show "inj_on f (set d)" using assms(2) by (simp add: distinct_map)
qed simp

end
