(* ===== verification/Core_Models.thy ===== *)
theory Core_Models
  imports Py_Json
begin

text \<open>
  \<open>core/models.py\<close>: the protocol's lifecycle enumerations and its records with their wire
  format (\<open>to_dict\<close>). Record fields carry a class prefix (\<open>ar_\<close> for ArtifactRef, \<open>pc_\<close>
  ProtocolConfig, \<open>ts_\<close> TaskSpec, \<open>tu_\<close> TaskUnit, \<open>tr_\<close> TaskRelation, \<open>cl_\<close> ClientRecord,
  \<open>ls_\<close> Lease, \<open>at_\<close> Attempt). A float field holds the text of the float. Records are typed:
  a document field of the wrong JSON type is a \<open>TypeError\<close> here, where Python would build an
  ill-typed object.
\<close>

section \<open>Lifecycle enumerations\<close>

datatype task_state =
    TS_CREATED | TS_BLOCKED | TS_READY | TS_PROCESSING | TS_WAITING_FOR_CHILDREN
  | TS_MERGE_READY | TS_MERGING | TS_COMPLETED | TS_MERGE_FAILED | TS_FAILED | TS_CANCELLED

fun task_state_value :: "task_state \<Rightarrow> string" where
  "task_state_value TS_CREATED = ''Created''"
| "task_state_value TS_BLOCKED = ''Blocked''"
| "task_state_value TS_READY = ''Ready''"
| "task_state_value TS_PROCESSING = ''Processing''"
| "task_state_value TS_WAITING_FOR_CHILDREN = ''WaitingForChildren''"
| "task_state_value TS_MERGE_READY = ''MergeReady''"
| "task_state_value TS_MERGING = ''Merging''"
| "task_state_value TS_COMPLETED = ''Completed''"
| "task_state_value TS_MERGE_FAILED = ''MergeFailed''"
| "task_state_value TS_FAILED = ''Failed''"
| "task_state_value TS_CANCELLED = ''Cancelled''"

datatype lease_state = LS_ACTIVE | LS_RELEASED | LS_EXPIRED | LS_REVOKED

fun lease_state_value :: "lease_state \<Rightarrow> string" where
  "lease_state_value LS_ACTIVE = ''Active''"
| "lease_state_value LS_RELEASED = ''Released''"
| "lease_state_value LS_EXPIRED = ''Expired''"
| "lease_state_value LS_REVOKED = ''Revoked''"

datatype attempt_state =
    AS_CREATED | AS_RUNNING | AS_SUBMITTED | AS_VERIFYING | AS_VERIFIED | AS_CANONICAL
  | AS_REJECTED | AS_FAILED | AS_SUPERSEDED

fun attempt_state_value :: "attempt_state \<Rightarrow> string" where
  "attempt_state_value AS_CREATED = ''Created''"
| "attempt_state_value AS_RUNNING = ''Running''"
| "attempt_state_value AS_SUBMITTED = ''Submitted''"
| "attempt_state_value AS_VERIFYING = ''Verifying''"
| "attempt_state_value AS_VERIFIED = ''Verified''"
| "attempt_state_value AS_CANONICAL = ''Canonical''"
| "attempt_state_value AS_REJECTED = ''Rejected''"
| "attempt_state_value AS_FAILED = ''Failed''"
| "attempt_state_value AS_SUPERSEDED = ''Superseded''"

lemma task_state_value_inject [simp]: "task_state_value s = task_state_value t \<longleftrightarrow> s = t"
  by (cases s; cases t) simp_all

lemma lease_state_value_inject [simp]: "lease_state_value s = lease_state_value t \<longleftrightarrow> s = t"
  by (cases s; cases t) simp_all

lemma attempt_state_value_inject [simp]: "attempt_state_value s = attempt_state_value t \<longleftrightarrow> s = t"
  by (cases s; cases t) simp_all

section \<open>Reading document fields\<close>

text \<open>\<open>data["k"]\<close> of a string field, and \<open>data.get("k")\<close> of an optional one.\<close>

definition str_item :: "jobj \<Rightarrow> string \<Rightarrow> string res" where
  "str_item d k = bindE (jitem d k) (\<lambda>v. case v of JStr s \<Rightarrow> Inr s | _ \<Rightarrow> Inl (TypeError k))"

definition opt_str_item :: "jobj \<Rightarrow> string \<Rightarrow> string option res" where
  "opt_str_item d k =
     (case jget d k of JNull \<Rightarrow> Inr None | JStr s \<Rightarrow> Inr (Some s) | _ \<Rightarrow> Inl (TypeError k))"

definition opt_int_item :: "jobj \<Rightarrow> string \<Rightarrow> int option res" where
  "opt_int_item d k =
     (case jget d k of JNull \<Rightarrow> Inr None | JInt i \<Rightarrow> Inr (Some i) | _ \<Rightarrow> Inl (TypeError k))"

definition str_default :: "jobj \<Rightarrow> string \<Rightarrow> string \<Rightarrow> string res" where
  "str_default d k dflt =
     (case map_of d k of None \<Rightarrow> Inr dflt | Some (JStr s) \<Rightarrow> Inr s | Some _ \<Rightarrow> Inl (TypeError k))"

text \<open>\<open>dict(data.get("k", {}))\<close>; a sequence of pairs is not modelled as a source.\<close>

definition dict_default :: "jobj \<Rightarrow> string \<Rightarrow> jobj res" where
  "dict_default d k =
     (case map_of d k of None \<Rightarrow> Inr []
      | Some (JObj e) \<Rightarrow> Inr e
      | Some (JArr []) \<Rightarrow> Inr []
      | Some (JStr []) \<Rightarrow> Inr []
      | Some _ \<Rightarrow> Inl (TypeError k))"

text \<open>
  Python's \<open>int(v)\<close>: booleans count as 0 and 1, a plain decimal float is truncated, a string is
  read as an optionally signed run of digits.
\<close>

definition read_int :: "string \<Rightarrow> int option" where
  "read_int s =
     (let neg = (s \<noteq> [] \<and> hd s = CHR ''-'');
          ds = (if s \<noteq> [] \<and> hd s \<in> set ''+-'' then tl s else s)
      in if ds \<noteq> [] \<and> list_all is_digit ds
         then Some (if neg then - int (read_nat ds) else int (read_nat ds)) else None)"

fun py_int :: "json \<Rightarrow> int res" where
  "py_int (JInt i) = Inr i"
| "py_int (JBool b) = Inr (if b then 1 else 0)"
| "py_int (JFloat t) =
     (case read_int (takeWhile (\<lambda>c. c \<noteq> CHR ''.'') t) of
        Some i \<Rightarrow> Inr i | None \<Rightarrow> Inl (ValueError ''cannot convert float to integer''))"
| "py_int (JStr s) =
     (case read_int s of
        Some i \<Rightarrow> Inr i | None \<Rightarrow> Inl (ValueError ''invalid literal for int() with base 10''))"
| "py_int _ = Inl (TypeError ''int() argument must be a string or a number'')"

section \<open>ArtifactRef\<close>

record artifact_ref =
  ar_artifact_id :: "string"
  ar_artifact_type :: "string"
  ar_uri :: "string"
  ar_content_hash :: "string"
  ar_size_bytes :: "int"
  ar_media_type :: "string"
  ar_artifact_schema_id :: "string"
  ar_artifact_schema_version :: "string"
  ar_source :: "jobj"
  ar_metadata :: "jobj"
  ar_created_at :: "string"
  ar_schema_version :: "string"

definition ar_to_dict :: "artifact_ref \<Rightarrow> jobj" where
  "ar_to_dict x =
     [(''schema_version'', JStr (ar_schema_version x)),
      (''artifact_id'', JStr (ar_artifact_id x)),
      (''artifact_type'', JStr (ar_artifact_type x)),
      (''uri'', JStr (ar_uri x)),
      (''content_hash'', JStr (ar_content_hash x)),
      (''size_bytes'', JInt (ar_size_bytes x)),
      (''media_type'', JStr (ar_media_type x)),
      (''artifact_schema_id'', JStr (ar_artifact_schema_id x)),
      (''artifact_schema_version'', JStr (ar_artifact_schema_version x)),
      (''source'', JObj (ar_source x)),
      (''metadata'', JObj (ar_metadata x)),
      (''created_at'', JStr (ar_created_at x))]"

definition ar_from_dict :: "jobj \<Rightarrow> artifact_ref res" where
  "ar_from_dict d =
     bindE (str_item d ''artifact_id'') (\<lambda>artifact_id.
     bindE (str_item d ''artifact_type'') (\<lambda>artifact_type.
     bindE (str_item d ''uri'') (\<lambda>uri.
     bindE (str_item d ''content_hash'') (\<lambda>content_hash.
     bindE (bindE (jitem d ''size_bytes'') py_int) (\<lambda>size_bytes.
     bindE (str_item d ''media_type'') (\<lambda>media_type.
     bindE (str_item d ''artifact_schema_id'') (\<lambda>schema_id.
     bindE (str_item d ''artifact_schema_version'') (\<lambda>schema_v.
     bindE (dict_default d ''source'') (\<lambda>source.
     bindE (dict_default d ''metadata'') (\<lambda>metadata.
     bindE (str_item d ''created_at'') (\<lambda>created_at.
     bindE (str_default d ''schema_version'' ''ArtifactRef.v1'') (\<lambda>schema_version.
     Inr \<lparr>ar_artifact_id = artifact_id, ar_artifact_type = artifact_type, ar_uri = uri,
          ar_content_hash = content_hash, ar_size_bytes = size_bytes, ar_media_type = media_type,
          ar_artifact_schema_id = schema_id, ar_artifact_schema_version = schema_v,
          ar_source = source, ar_metadata = metadata, ar_created_at = created_at,
          ar_schema_version = schema_version\<rparr>))))))))))))"

text \<open>\<open>_json_value\<close> on an optional reference and on a dictionary of references.\<close>

fun opt_ref :: "artifact_ref option \<Rightarrow> json" where
  "opt_ref None = JNull"
| "opt_ref (Some r) = JObj (ar_to_dict r)"

definition refs_json :: "(string, artifact_ref) dict \<Rightarrow> json" where
  "refs_json d = JObj (map (\<lambda>(k, r). (k, JObj (ar_to_dict r))) d)"

fun opt_float :: "string option \<Rightarrow> json" where
  "opt_float None = JNull"
| "opt_float (Some t) = JFloat t"

lemma ar_from_to_dict [simp]: "ar_from_dict (ar_to_dict r) = Inr r"
  by (simp add: ar_from_dict_def ar_to_dict_def str_item_def jitem_def dict_default_def str_default_def)

section \<open>ProtocolConfig\<close>

record protocol_config =
  pc_config_id :: "string"
  pc_lease_ttl_seconds :: "int"
  pc_heartbeat_interval_seconds :: "int"
  pc_max_retries :: "int"
  pc_retry_backoff_seconds :: "int"
  pc_allow_shadow_execution :: "bool"
  pc_scheduling_policy :: "string"
  pc_canonical_output_policy :: "string"
  pc_max_depth :: "int"
  pc_max_children_per_unit :: "int"
  pc_max_total_units :: "int"
  pc_max_expansions_per_unit :: "int"
  pc_artifact_store_uri :: "string"
  pc_event_log_uri :: "string"
  pc_base_reward_rates :: "jobj"
  pc_metadata :: "jobj"
  pc_schema_version :: "string"

definition pc_to_dict :: "protocol_config \<Rightarrow> jobj" where
  "pc_to_dict x =
     [(''schema_version'', JStr (pc_schema_version x)),
      (''config_id'', JStr (pc_config_id x)),
      (''lease_ttl_seconds'', JInt (pc_lease_ttl_seconds x)),
      (''heartbeat_interval_seconds'', JInt (pc_heartbeat_interval_seconds x)),
      (''max_retries'', JInt (pc_max_retries x)),
      (''retry_backoff_seconds'', JInt (pc_retry_backoff_seconds x)),
      (''allow_shadow_execution'', JBool (pc_allow_shadow_execution x)),
      (''scheduling_policy'', JStr (pc_scheduling_policy x)),
      (''canonical_output_policy'', JStr (pc_canonical_output_policy x)),
      (''max_depth'', JInt (pc_max_depth x)),
      (''max_children_per_unit'', JInt (pc_max_children_per_unit x)),
      (''max_total_units'', JInt (pc_max_total_units x)),
      (''max_expansions_per_unit'', JInt (pc_max_expansions_per_unit x)),
      (''artifact_store_uri'', JStr (pc_artifact_store_uri x)),
      (''event_log_uri'', JStr (pc_event_log_uri x)),
      (''base_reward_rates'', JObj (pc_base_reward_rates x)),
      (''metadata'', JObj (pc_metadata x))]"

definition pc_default :: "string \<Rightarrow> string \<Rightarrow> string \<Rightarrow> jobj option \<Rightarrow> protocol_config" where
  "pc_default config_id artifact_store_uri event_log_uri metadata =
     \<lparr>pc_config_id = config_id, pc_lease_ttl_seconds = 300, pc_heartbeat_interval_seconds = 60,
      pc_max_retries = 3, pc_retry_backoff_seconds = 30, pc_allow_shadow_execution = False,
      pc_scheduling_policy = ''fifo_ready'', pc_canonical_output_policy = ''first_verified_bundle'',
      pc_max_depth = 8, pc_max_children_per_unit = 16, pc_max_total_units = 1000,
      pc_max_expansions_per_unit = 1, pc_artifact_store_uri = artifact_store_uri,
      pc_event_log_uri = event_log_uri,
      pc_base_reward_rates = [(''root_completion'', JFloat ''1.0''), (''verified_output'', JFloat ''1.0''),
        (''expansion'', JFloat ''0.25'')],
      pc_metadata = (case metadata of None \<Rightarrow> [] | Some m \<Rightarrow> m),
      pc_schema_version = ''ProtocolConfig.v1''\<rparr>"

section \<open>TaskSpec\<close>

record task_spec =
  ts_task_id :: "string"
  ts_description :: "string"
  ts_plugin_id :: "string"
  ts_plugin_version :: "string"
  ts_split_strategy_id :: "string"
  ts_split_strategy_params :: "jobj"
  ts_root_input_ref :: "artifact_ref"
  ts_protocol_config :: "protocol_config"
  ts_metadata :: "jobj"
  ts_created_at :: "string"
  ts_root_budget :: "string option"
  ts_root_deadline :: "string option"
  ts_schema_version :: "string"

definition ts_to_dict :: "task_spec \<Rightarrow> jobj" where
  "ts_to_dict x =
     [(''schema_version'', JStr (ts_schema_version x)),
      (''task_id'', JStr (ts_task_id x)),
      (''description'', JStr (ts_description x)),
      (''plugin_id'', JStr (ts_plugin_id x)),
      (''plugin_version'', JStr (ts_plugin_version x)),
      (''split_strategy_id'', JStr (ts_split_strategy_id x)),
      (''split_strategy_params'', JObj (ts_split_strategy_params x)),
      (''root_input_ref'', JObj (ar_to_dict (ts_root_input_ref x))),
      (''root_budget'', opt_float (ts_root_budget x)),
      (''root_deadline'', opt_str (ts_root_deadline x)),
      (''protocol_config'', JObj (pc_to_dict (ts_protocol_config x))),
      (''metadata'', JObj (ts_metadata x)),
      (''created_at'', JStr (ts_created_at x))]"

section \<open>TaskUnit\<close>

record task_unit =
  tu_unit_id :: "string"
  tu_task_id :: "string"
  tu_parent_unit_id :: "string option"
  tu_depth :: "int"
  tu_unit_type :: "string"
  tu_state :: "task_state"
  tu_input_refs :: "(string, artifact_ref) dict"
  tu_canonical_output_refs :: "(string, artifact_ref) dict"
  tu_required_capabilities :: "jobj"
  tu_weight :: "string"
  tu_budget_limit :: "string option"
  tu_deadline :: "string option"
  tu_plugin_payload :: "jobj"
  tu_metadata :: "jobj"
  tu_created_at :: "string"
  tu_updated_at :: "string"
  tu_last_attempt_ordinal :: "int"
  tu_schema_version :: "string"

definition tu_to_dict :: "task_unit \<Rightarrow> jobj" where
  "tu_to_dict x =
     [(''schema_version'', JStr (tu_schema_version x)),
      (''unit_id'', JStr (tu_unit_id x)),
      (''task_id'', JStr (tu_task_id x)),
      (''parent_unit_id'', opt_str (tu_parent_unit_id x)),
      (''depth'', JInt (tu_depth x)),
      (''unit_type'', JStr (tu_unit_type x)),
      (''state'', JStr (task_state_value (tu_state x))),
      (''input_refs'', refs_json (tu_input_refs x)),
      (''canonical_output_refs'', refs_json (tu_canonical_output_refs x)),
      (''required_capabilities'', JObj (tu_required_capabilities x)),
      (''weight'', JFloat (tu_weight x)),
      (''budget_limit'', opt_float (tu_budget_limit x)),
      (''deadline'', opt_str (tu_deadline x)),
      (''plugin_payload'', JObj (tu_plugin_payload x)),
      (''metadata'', JObj (tu_metadata x)),
      (''created_at'', JStr (tu_created_at x)),
      (''updated_at'', JStr (tu_updated_at x)),
      (''last_attempt_ordinal'', JInt (tu_last_attempt_ordinal x))]"

text \<open>\<open>__post_init__\<close>: every construction of a TaskUnit goes through this check.\<close>

definition mk_task_unit :: "task_unit \<Rightarrow> task_unit res" where
  "mk_task_unit u =
     (if tu_last_attempt_ordinal u < -1
      then Inl (ValueError ''last_attempt_ordinal must be an integer >= -1'') else Inr u)"

definition create_root :: "task_spec \<Rightarrow> string \<Rightarrow> jobj \<Rightarrow> jobj \<Rightarrow> string \<Rightarrow> task_unit res" where
  "create_root task_spec unit_id required_capabilities plugin_payload now =
     mk_task_unit
       \<lparr>tu_unit_id = unit_id, tu_task_id = ts_task_id task_spec, tu_parent_unit_id = None,
        tu_depth = 0, tu_unit_type = ''root'', tu_state = TS_READY,
        tu_input_refs = [(''root_input'', ts_root_input_ref task_spec)],
        tu_canonical_output_refs = [], tu_required_capabilities = required_capabilities,
        tu_weight = ''1.0'', tu_budget_limit = ts_root_budget task_spec,
        tu_deadline = ts_root_deadline task_spec, tu_plugin_payload = plugin_payload,
        tu_metadata = ts_metadata task_spec, tu_created_at = now, tu_updated_at = now,
        tu_last_attempt_ordinal = -1, tu_schema_version = ''TaskUnit.v2''\<rparr>"

section \<open>TaskRelation\<close>

record task_relation =
  tr_relation_id :: "string"
  tr_task_id :: "string"
  tr_relation_type :: "string"
  tr_source_unit_id :: "string"
  tr_target_unit_id :: "string"
  tr_source_output_name :: "string option"
  tr_target_input_name :: "string option"
  tr_created_reason :: "string"
  tr_metadata :: "jobj"
  tr_created_at :: "string"
  tr_schema_version :: "string"

definition tr_to_dict :: "task_relation \<Rightarrow> jobj" where
  "tr_to_dict x =
     [(''schema_version'', JStr (tr_schema_version x)),
      (''relation_id'', JStr (tr_relation_id x)),
      (''task_id'', JStr (tr_task_id x)),
      (''relation_type'', JStr (tr_relation_type x)),
      (''source_unit_id'', JStr (tr_source_unit_id x)),
      (''target_unit_id'', JStr (tr_target_unit_id x)),
      (''source_output_name'', opt_str (tr_source_output_name x)),
      (''target_input_name'', opt_str (tr_target_input_name x)),
      (''created_reason'', JStr (tr_created_reason x)),
      (''metadata'', JObj (tr_metadata x)),
      (''created_at'', JStr (tr_created_at x))]"

section \<open>ClientRecord\<close>

record client_record =
  cl_client_id :: "string"
  cl_executor_type :: "string"
  cl_executor_id :: "string"
  cl_executor_version :: "string"
  cl_capabilities :: "jobj"
  cl_status :: "string"
  cl_stats :: "jobj"
  cl_metadata :: "jobj"
  cl_registered_at :: "string"
  cl_last_seen_at :: "string option"
  cl_schema_version :: "string"

definition cl_to_dict :: "client_record \<Rightarrow> jobj" where
  "cl_to_dict x =
     [(''schema_version'', JStr (cl_schema_version x)),
      (''client_id'', JStr (cl_client_id x)),
      (''executor_type'', JStr (cl_executor_type x)),
      (''executor_id'', JStr (cl_executor_id x)),
      (''executor_version'', JStr (cl_executor_version x)),
      (''capabilities'', JObj (cl_capabilities x)),
      (''status'', JStr (cl_status x)),
      (''stats'', JObj (cl_stats x)),
      (''metadata'', JObj (cl_metadata x)),
      (''registered_at'', JStr (cl_registered_at x)),
      (''last_seen_at'', opt_str (cl_last_seen_at x))]"

section \<open>Lease\<close>

record lease =
  ls_lease_id :: "string"
  ls_task_id :: "string"
  ls_unit_id :: "string"
  ls_attempt_id :: "string"
  ls_client_id :: "string"
  ls_state :: "lease_state"
  ls_fencing_token :: "string"
  ls_issued_at :: "string"
  ls_expires_at :: "string"
  ls_last_heartbeat_at :: "string option"
  ls_heartbeat_count :: "int"
  ls_lease_kind :: "string"
  ls_terminated_at :: "string option"
  ls_terminated_reason :: "string option"
  ls_metadata :: "jobj"
  ls_attempt_ordinal :: "int"
  ls_binding_digest :: "string option"
  ls_schema_version :: "string"

definition ls_to_dict :: "lease \<Rightarrow> jobj" where
  "ls_to_dict x =
     [(''schema_version'', JStr (ls_schema_version x)),
      (''lease_id'', JStr (ls_lease_id x)),
      (''task_id'', JStr (ls_task_id x)),
      (''unit_id'', JStr (ls_unit_id x)),
      (''attempt_id'', JStr (ls_attempt_id x)),
      (''client_id'', JStr (ls_client_id x)),
      (''state'', JStr (lease_state_value (ls_state x))),
      (''fencing_token'', JStr (ls_fencing_token x)),
      (''issued_at'', JStr (ls_issued_at x)),
      (''expires_at'', JStr (ls_expires_at x)),
      (''last_heartbeat_at'', opt_str (ls_last_heartbeat_at x)),
      (''heartbeat_count'', JInt (ls_heartbeat_count x)),
      (''lease_kind'', JStr (ls_lease_kind x)),
      (''terminated_at'', opt_str (ls_terminated_at x)),
      (''terminated_reason'', opt_str (ls_terminated_reason x)),
      (''metadata'', JObj (ls_metadata x)),
      (''attempt_ordinal'', JInt (ls_attempt_ordinal x)),
      (''binding_digest'', opt_str (ls_binding_digest x))]"

section \<open>Attempt\<close>

record attempt =
  at_attempt_id :: "string"
  at_task_id :: "string"
  at_unit_id :: "string"
  at_lease_id :: "string"
  at_client_id :: "string"
  at_state :: "attempt_state"
  at_attempt_kind :: "string"
  at_created_at :: "string"
  at_started_at :: "string option"
  at_submitted_at :: "string option"
  at_finished_at :: "string option"
  at_environment_summary :: "jobj option"
  at_input_artifact_refs :: "(string, artifact_ref) dict option"
  at_raw_output_ref :: "artifact_ref option"
  at_parsed_output_ref :: "artifact_ref option"
  at_candidate_output_refs :: "(string, artifact_ref) dict option"
  at_log_ref :: "artifact_ref option"
  at_failure_kind :: "string option"
  at_failure_reason :: "string option"
  at_superseded_by_attempt_id :: "string option"
  at_metadata :: "jobj option"
  at_attempt_ordinal :: "int"
  at_schema_version :: "string"

definition at_to_dict :: "attempt \<Rightarrow> jobj" where
  "at_to_dict x =
     [(''schema_version'', JStr (at_schema_version x)),
      (''attempt_id'', JStr (at_attempt_id x)),
      (''task_id'', JStr (at_task_id x)),
      (''unit_id'', JStr (at_unit_id x)),
      (''lease_id'', JStr (at_lease_id x)),
      (''client_id'', JStr (at_client_id x)),
      (''state'', JStr (attempt_state_value (at_state x))),
      (''attempt_kind'', JStr (at_attempt_kind x)),
      (''created_at'', JStr (at_created_at x)),
      (''started_at'', opt_str (at_started_at x)),
      (''submitted_at'', opt_str (at_submitted_at x)),
      (''finished_at'', opt_str (at_finished_at x)),
      (''environment_summary'', JObj (case at_environment_summary x of None \<Rightarrow> [] | Some d \<Rightarrow> d)),
      (''input_artifact_refs'', refs_json (case at_input_artifact_refs x of None \<Rightarrow> [] | Some d \<Rightarrow> d)),
      (''raw_output_ref'', opt_ref (at_raw_output_ref x)),
      (''parsed_output_ref'', opt_ref (at_parsed_output_ref x)),
      (''candidate_output_refs'', refs_json (case at_candidate_output_refs x of None \<Rightarrow> [] | Some d \<Rightarrow> d)),
      (''log_ref'', opt_ref (at_log_ref x)),
      (''failure_kind'', opt_str (at_failure_kind x)),
      (''failure_reason'', opt_str (at_failure_reason x)),
      (''superseded_by_attempt_id'', opt_str (at_superseded_by_attempt_id x)),
      (''metadata'', JObj (case at_metadata x of None \<Rightarrow> [] | Some d \<Rightarrow> d)),
      (''attempt_ordinal'', JInt (at_attempt_ordinal x))]"

end
