(* ===== verification/Dfs_Cycle.thy ===== *)
theory Dfs_Cycle
  imports Py_Prelude
begin

text \<open>
  The depth-first cycle check that the task graph and the decomposition proposal both carry:
  a recursive \<open>visit\<close> over the sets \<open>visiting\<close> and \<open>visited\<close>. The fuel stands for the call depth
  that is left; one more than the number of nodes is always enough, so the check raises the
  cycle error exactly when the graph has a cycle, and no other error.
\<close>

type_synonym 'a dfs = "'a list \<times> 'a list"

fun dfs_visit :: "py_error \<Rightarrow> nat \<Rightarrow> ('a \<Rightarrow> 'a list) \<Rightarrow> 'a \<Rightarrow> 'a dfs \<Rightarrow> 'a dfs res" where
  "dfs_visit err 0 succs u st = Inl (RuntimeError ''maximum recursion depth exceeded'')"
| "dfs_visit err (Suc n) succs u (visiting, visited) =
     (if u \<in> set visiting then Inl err
      else if u \<in> set visited then Inr (visiting, visited)
      else bindE (foldE (\<lambda>st v. dfs_visit err n succs v st) (u # visiting, visited) (succs u))
             (\<lambda>(visiting', visited'). Inr (removeAll u visiting', u # visited')))"

definition dfs_all :: "py_error \<Rightarrow> 'a list \<Rightarrow> ('a \<Rightarrow> 'a list) \<Rightarrow> unit res" where
  "dfs_all err nodes succs =
     bindE (foldE (\<lambda>st u. dfs_visit err (Suc (length nodes)) succs u st) ([], []) nodes)
       (\<lambda>_. Inr ())"

definition edge_rel :: "('a \<Rightarrow> 'a list) \<Rightarrow> ('a \<times> 'a) set" where
  "edge_rel succs = {(u, v). v \<in> set (succs u)}"

section \<open>A pass without error: the visited part is closed and free of cycles\<close>

definition dfs_inv :: "('a \<Rightarrow> 'a list) \<Rightarrow> 'a list \<Rightarrow> 'a list \<Rightarrow> bool" where
  "dfs_inv succs vg vd \<longleftrightarrow> set vg \<inter> set vd = {} \<and> edge_rel succs `` set vd \<subseteq> set vd \<and>
     (\<forall>x \<in> set vd. (x, x) \<notin> (edge_rel succs)\<^sup>+)"

lemma closed_trancl:
  assumes "(x, y) \<in> r\<^sup>+" "x \<in> A" "r `` A \<subseteq> A"
  shows "y \<in> A"
  using assms by (induction rule: trancl_induct) auto

lemma dfs_inv_finish:
  assumes "dfs_inv succs (u # vg) vd" "u \<notin> set vg" "set (succs u) \<subseteq> set vd"
  shows "dfs_inv succs vg (u # vd)"
proof -
  let ?E = "edge_rel succs"
  have cl: "?E `` set vd \<subseteq> set vd" and u: "u \<notin> set vd"
    using assms(1) by (auto simp: dfs_inv_def)
  have "(u, u) \<notin> ?E\<^sup>+"
  proof
    assume "(u, u) \<in> ?E\<^sup>+"
    then obtain v where "(u, v) \<in> ?E" "v = u \<or> (v, u) \<in> ?E\<^sup>+"
      by (metis converse_tranclE)
    with assms(3) cl u closed_trancl[of v u ?E "set vd"] show False
      by (auto simp: edge_rel_def)
  qed
  with assms show ?thesis by (auto simp: dfs_inv_def edge_rel_def)
qed

lemma dfs_visit_ok:
  assumes "dfs_visit err n succs u (vg, vd) = Inr (vg', vd')" "dfs_inv succs vg vd"
  shows "vg' = vg \<and> set vd \<subseteq> set vd' \<and> u \<in> set vd' \<and> dfs_inv succs vg vd'"
  using assms
proof (induction n arbitrary: u vg vd vg' vd')
  case (Suc n)
  have fold: "vg2 = vg1 \<and> set vd1 \<subseteq> set vd2 \<and> set us \<subseteq> set vd2 \<and> dfs_inv succs vg1 vd2"
    if "foldE (\<lambda>st v. dfs_visit err n succs v st) (vg1, vd1) us = Inr (vg2, vd2)" "dfs_inv succs vg1 vd1"
    for us vg1 vd1 vg2 vd2
    using that
  proof (induction us arbitrary: vg1 vd1)
    case (Cons v us)
    from Cons.prems(1) obtain vg3 vd3 where v: "dfs_visit err n succs v (vg1, vd1) = Inr (vg3, vd3)"
      and r: "foldE (\<lambda>st v. dfs_visit err n succs v st) (vg3, vd3) us = Inr (vg2, vd2)"
      by (auto simp: res_simps)
    from Suc.IH[OF v Cons.prems(2)] have "vg3 = vg1" "set vd1 \<subseteq> set vd3" "v \<in> set vd3"
      "dfs_inv succs vg1 vd3" by auto
    with Cons.IH[of vg1 vd3] r show ?case by auto
  qed auto
  show ?case
  proof (cases "u \<in> set vg \<or> u \<in> set vd")
    case True
    with Suc.prems show ?thesis by (auto split: if_splits)
  next
    case False
    with Suc.prems obtain vg3 vd3
      where f: "foldE (\<lambda>st v. dfs_visit err n succs v st) (u # vg, vd) (succs u) = Inr (vg3, vd3)"
        and r: "vg' = removeAll u vg3" "vd' = u # vd3"
      by (auto simp: res_simps split: if_splits)
    have "dfs_inv succs (u # vg) vd" using Suc.prems(2) False by (auto simp: dfs_inv_def)
    from fold[OF f this] False r show ?thesis by (auto intro: dfs_inv_finish)
  qed
qed simp

section \<open>An error is a cycle\<close>

lemma dfs_visit_visiting:
  "dfs_visit err n succs u (vg, vd) = Inr (vg', vd') \<Longrightarrow> vg' = vg"
proof (induction n arbitrary: u vg vd vg' vd')
  case (Suc n)
  have fold: "vg2 = vg1"
    if "foldE (\<lambda>st v. dfs_visit err n succs v st) (vg1, vd1) us = Inr (vg2, vd2)"
    for us vg1 vd1 vg2 vd2
    using that
    by (induction us arbitrary: vg1 vd1) (auto simp: res_simps dest!: Suc.IH)
  from Suc.prems show ?case by (auto simp: res_simps split: if_splits dest!: fold)
qed simp

lemma dfs_visit_err:
  assumes "dfs_visit err n succs u (vg, vd) = Inl e" "\<forall>w \<in> set vg. (w, u) \<in> (edge_rel succs)\<^sup>+"
    and "u \<in> U" "edge_rel succs `` U \<subseteq> U" "finite U" "card (U - set vg) < n"
  shows "e = err \<and> (\<exists>x \<in> U. (x, x) \<in> (edge_rel succs)\<^sup>+)"
  using assms
proof (induction n arbitrary: u vg vd)
  case (Suc n)
  show ?case
  proof (cases "u \<in> set vg \<or> u \<in> set vd")
    case True
    with Suc.prems show ?thesis by (auto split: if_splits)
  next
    case False
    with Suc.prems(1)
    have f: "foldE (\<lambda>st v. dfs_visit err n succs v st) (u # vg, vd) (succs u) = Inl e"
      by (auto simp: bindE_eq_Inl)
    have "U - set (u # vg) \<subset> U - set vg" using False Suc.prems(3) by auto
    then have card: "card (U - set (u # vg)) < n"
      using Suc.prems(5,6) psubset_card_mono[of "U - set vg" "U - set (u # vg)"] by simp
    have "e = err \<and> (\<exists>x \<in> U. (x, x) \<in> (edge_rel succs)\<^sup>+)"
      if "foldE (\<lambda>st v. dfs_visit err n succs v st) (u # vg, vd1) us = Inl e" "set us \<subseteq> set (succs u)"
      for us vd1
      using that
    proof (induction us arbitrary: vd1)
      case (Cons v us)
      have reach: "\<forall>w \<in> set (u # vg). (w, v) \<in> (edge_rel succs)\<^sup>+"
        using Suc.prems(2) Cons.prems(2) by (auto simp: edge_rel_def intro: trancl_into_trancl)
      have "v \<in> U" using Cons.prems(2) Suc.prems(3,4) by (auto simp: edge_rel_def)
      note err = Suc.IH[OF _ reach this Suc.prems(4,5) card]
      show ?case
      proof (cases "dfs_visit err n succs v (u # vg, vd1)")
        case (Inl e')
        with err Cons.prems(1) show ?thesis by simp
      next
        case (Inr st)
        then obtain vd2 where "dfs_visit err n succs v (u # vg, vd1) = Inr (u # vg, vd2)"
          using dfs_visit_visiting by (cases st) fastforce
        with Cons.prems Cons.IH[of vd2] show ?thesis by simp
      qed
    qed simp
    from this[OF f] show ?thesis by simp
  qed
qed simp

section \<open>The check decides acyclicity\<close>

theorem dfs_all_acyclic:
  assumes closed: "\<And>u v. u \<in> set nodes \<Longrightarrow> v \<in> set (succs u) \<Longrightarrow> v \<in> set nodes"
  shows "dfs_all err nodes succs =
    (if \<exists>x \<in> set nodes. (x, x) \<in> (edge_rel succs)\<^sup>+ then Inl err else Inr ())"
proof -
  let ?f = "\<lambda>st u. dfs_visit err (Suc (length nodes)) succs u st"
  have cl: "edge_rel succs `` set nodes \<subseteq> set nodes" using closed by (auto simp: edge_rel_def)
  have card: "card (set nodes - set []) < Suc (length nodes)" using card_length[of nodes] by simp
  have ok: "\<exists>vd2. st = ([], vd2) \<and> set vd \<subseteq> set vd2 \<and> set us \<subseteq> set vd2 \<and> dfs_inv succs [] vd2"
    if "foldE ?f ([], vd) us = Inr st" "dfs_inv succs [] vd" for us vd st
    using that
  proof (induction us arbitrary: vd)
    case (Cons v us)
    then obtain vg3 vd3 where v: "?f ([], vd) v = Inr (vg3, vd3)" and r: "foldE ?f (vg3, vd3) us = Inr st"
      by (auto simp: res_simps simp del: dfs_visit.simps)
    from dfs_visit_ok[OF v Cons.prems(2)] Cons.IH[of vd3] r show ?case by auto
  qed auto
  have bad: "e = err \<and> (\<exists>x \<in> set nodes. (x, x) \<in> (edge_rel succs)\<^sup>+)"
    if "foldE ?f ([], vd) us = Inl e" "set us \<subseteq> set nodes" for us vd e
    using that
  proof (induction us arbitrary: vd)
    case (Cons v us)
    show ?case
    proof (cases "?f ([], vd) v")
      case (Inl e')
      have "e' = err \<and> (\<exists>x \<in> set nodes. (x, x) \<in> (edge_rel succs)\<^sup>+)"
        using Cons.prems(2) by (intro dfs_visit_err[OF Inl _ _ cl _ card]) simp_all
      with Inl Cons.prems(1) show ?thesis by (simp del: dfs_visit.simps)
    next
      case (Inr st)
      obtain vg2 vd2 where st: "st = (vg2, vd2)" by (cases st)
      with dfs_visit_visiting[of err _ succs v "[]" vd vg2 vd2] Inr have "st = ([], vd2)" by blast
      with Inr Cons.prems have "foldE ?f ([], vd2) us = Inl e" by (simp del: dfs_visit.simps)
      with Cons.IH Cons.prems(2) show ?thesis by (simp del: dfs_visit.simps)
    qed
  qed simp
  have inv0: "dfs_inv succs [] []" by (simp add: dfs_inv_def)
  show ?thesis
  proof (cases "foldE ?f ([], []) nodes")
    case (Inl e)
    with bad[OF Inl] show ?thesis by (auto simp: dfs_all_def)
  next
    case (Inr st)
    with ok[OF Inr inv0] show ?thesis by (auto simp: dfs_all_def dfs_inv_def)
  qed
qed

end
