(* ===== verification/Core_Task_Graph.thy ===== *)
theory Core_Task_Graph
  imports Core_Models Dfs_Cycle
begin

text \<open>
  \<open>core/task_graph.py\<close>: the in-memory graph over units and relations, its validation on
  construction, and the ready and activatable units. Construction succeeds exactly for the
  graphs the specification \<open>graph_spec\<close> describes; in particular the relation is acyclic.
\<close>

record task_graph =
  tg_task_id :: string
  tg_units :: "(string, task_unit) dict"
  tg_relations :: "task_relation list"
  tg_canonical_outputs :: "(string, (string, artifact_ref) dict) dict"
  tg_protocol_config :: "protocol_config option"
  tg_out_edges :: "(string, task_relation list) dict"
  tg_in_edges :: "(string, task_relation list) dict"
  tg_max_depth_observed :: int

section \<open>Validation\<close>

text \<open>\<open>max((u.depth for u in units.values()), default=0)\<close>.\<close>

definition max_depth_of :: "(string, task_unit) dict \<Rightarrow> int" where
  "max_depth_of units =
     (case map (\<lambda>p. tu_depth (snd p)) units of [] \<Rightarrow> 0 | d # ds \<Rightarrow> fold max ds d)"

definition validate_units ::
  "string \<Rightarrow> protocol_config option \<Rightarrow> (string, task_unit) dict \<Rightarrow> unit res" where
  "validate_units task_id config units =
     seqE (checks (map (\<lambda>(unit_id, u).
         if unit_id \<noteq> tu_unit_id u
         then Inl (ValueError (''unit key does not match unit_id: '' @ unit_id))
         else if tu_task_id u \<noteq> task_id
         then Inl (ValueError (''unit task_id does not match graph task_id: '' @ unit_id))
         else Inr ()) units))
       (case config of
          None \<Rightarrow> Inr ()
        | Some c \<Rightarrow>
            if int (length units) > pc_max_total_units c
            then Inl (ValueError ''TaskGraph exceeds max_total_units'')
            else if max_depth_of units > pc_max_depth c
            then Inl (ValueError ''TaskGraph exceeds max_depth'')
            else Inr ())"

text \<open>An optional name that is missing or empty.\<close>

definition no_name :: "string option \<Rightarrow> bool" where
  "no_name x = (case x of None \<Rightarrow> True | Some s \<Rightarrow> s = [])"

definition validate_relation ::
  "string \<Rightarrow> (string, task_unit) dict \<Rightarrow> (string \<times> string option) list \<Rightarrow> task_relation
    \<Rightarrow> (string \<times> string option) list res" where
  "validate_relation task_id units seen r =
     (if tr_task_id r \<noteq> task_id
      then Inl (ValueError (''relation task_id does not match graph task_id: '' @ tr_relation_id r))
      else if \<not> dict_has units (tr_source_unit_id r)
      then Inl (ValueError (''unknown source_unit_id: '' @ tr_source_unit_id r))
      else if \<not> dict_has units (tr_target_unit_id r)
      then Inl (ValueError (''unknown target_unit_id: '' @ tr_target_unit_id r))
      else if tr_relation_type r = ''depends_on_output''
      then if no_name (tr_source_output_name r) \<or> no_name (tr_target_input_name r)
           then Inl (ValueError ''depends_on_output relation requires named source and target'')
           else if (tr_target_unit_id r, tr_target_input_name r) \<in> set seen
           then Inl (ValueError (''duplicate target input binding: '' @ tr_target_unit_id r))
           else Inr ((tr_target_unit_id r, tr_target_input_name r) # seen)
      else Inr seen)"

definition append_edge ::
  "string \<Rightarrow> task_relation \<Rightarrow> (string, task_relation list) dict \<Rightarrow> (string, task_relation list) dict" where
  "append_edge k r d = dict_set k (dict_get_default d k [] @ [r]) d"

definition validate_graph_acyclic ::
  "(string, task_unit) dict \<Rightarrow> (string, task_relation list) dict \<Rightarrow> unit res" where
  "validate_graph_acyclic units out_edges =
     dfs_all (ValueError ''TaskGraph contains a cycle'') (dict_keys units)
       (\<lambda>unit_id. map tr_target_unit_id (dict_get_default out_edges unit_id []))"

definition mk_task_graph ::
  "string \<Rightarrow> (string, task_unit) dict \<Rightarrow> task_relation list
    \<Rightarrow> (string, (string, artifact_ref) dict) dict \<Rightarrow> protocol_config option \<Rightarrow> task_graph res" where
  "mk_task_graph task_id units relations canonical_outputs config =
     seqE (validate_units task_id config units)
     (bindE (foldE (\<lambda>(seen, out_edges, in_edges) r.
               bindE (validate_relation task_id units seen r) (\<lambda>seen'.
                 Inr (seen', append_edge (tr_source_unit_id r) r out_edges,
                      append_edge (tr_target_unit_id r) r in_edges)))
             ([], map (\<lambda>k. (k, [])) (dict_keys units), map (\<lambda>k. (k, [])) (dict_keys units)) relations)
       (\<lambda>(seen, out_edges, in_edges).
         seqE (validate_graph_acyclic units out_edges)
           (Inr \<lparr>tg_task_id = task_id, tg_units = units, tg_relations = relations,
                 tg_canonical_outputs = canonical_outputs, tg_protocol_config = config,
                 tg_out_edges = out_edges, tg_in_edges = in_edges,
                 tg_max_depth_observed = max_depth_of units\<rparr>)))"

section \<open>Ready and activatable units\<close>

text \<open>
  \<open>units[source]\<close> cannot raise on a constructed graph, whose relations only name its units;
  a missing unit counts as an unsatisfied dependency here.
\<close>

definition relation_satisfied :: "task_graph \<Rightarrow> task_relation \<Rightarrow> bool" where
  "relation_satisfied g r =
     (if tr_relation_type r \<noteq> ''depends_on_output'' then True
      else case dict_get (tg_units g) (tr_source_unit_id r) of
        None \<Rightarrow> False
      | Some src \<Rightarrow>
          let outputs = dict_get_default (tg_canonical_outputs g) (tr_source_unit_id r)
                          (tu_canonical_output_refs src)
          in case tr_source_output_name r of None \<Rightarrow> False | Some n \<Rightarrow> dict_has outputs n)"

definition dependencies_are_satisfied :: "task_graph \<Rightarrow> string \<Rightarrow> bool" where
  "dependencies_are_satisfied g unit_id =
     list_all (relation_satisfied g) (dict_get_default (tg_in_edges g) unit_id [])"

definition ready_unit_ids :: "task_graph \<Rightarrow> string list" where
  "ready_unit_ids g =
     map fst (filter (\<lambda>(unit_id, u). tu_state u = TS_READY \<and> dependencies_are_satisfied g unit_id)
       (tg_units g))"

definition activatable_unit_ids :: "task_graph \<Rightarrow> string list" where
  "activatable_unit_ids g =
     map fst (filter (\<lambda>(unit_id, u). tu_state u = TS_BLOCKED \<and> dependencies_are_satisfied g unit_id)
       (tg_units g))"

section \<open>What construction accepts\<close>

definition graph_edges :: "task_relation list \<Rightarrow> (string \<times> string) set" where
  "graph_edges rels = (\<lambda>r. (tr_source_unit_id r, tr_target_unit_id r)) ` set rels"

definition dep_targets :: "task_relation list \<Rightarrow> (string \<times> string option) list" where
  "dep_targets rels = map (\<lambda>r. (tr_target_unit_id r, tr_target_input_name r))
     (filter (\<lambda>r. tr_relation_type r = ''depends_on_output'') rels)"

definition relation_ok :: "string \<Rightarrow> (string, task_unit) dict \<Rightarrow> task_relation \<Rightarrow> bool" where
  "relation_ok task_id units r \<longleftrightarrow>
     tr_task_id r = task_id \<and> dict_has units (tr_source_unit_id r) \<and> dict_has units (tr_target_unit_id r) \<and>
     (tr_relation_type r = ''depends_on_output'' \<longrightarrow>
        \<not> no_name (tr_source_output_name r) \<and> \<not> no_name (tr_target_input_name r))"

definition units_ok :: "string \<Rightarrow> protocol_config option \<Rightarrow> (string, task_unit) dict \<Rightarrow> bool" where
  "units_ok task_id config units \<longleftrightarrow>
     (\<forall>(unit_id, u) \<in> set units. tu_unit_id u = unit_id \<and> tu_task_id u = task_id) \<and>
     (case config of None \<Rightarrow> True
      | Some c \<Rightarrow> int (length units) \<le> pc_max_total_units c \<and> max_depth_of units \<le> pc_max_depth c)"

definition graph_spec ::
  "string \<Rightarrow> (string, task_unit) dict \<Rightarrow> task_relation list \<Rightarrow> protocol_config option \<Rightarrow> bool" where
  "graph_spec task_id units rels config \<longleftrightarrow>
     units_ok task_id config units \<and> (\<forall>r \<in> set rels. relation_ok task_id units r) \<and>
     distinct (dep_targets rels) \<and> acyclic (graph_edges rels)"

lemma validate_units_ok: "validate_units task_id config units = Inr () \<longleftrightarrow> units_ok task_id config units"
  by (auto simp: validate_units_def units_ok_def res_simps split: option.splits if_splits)

lemma validate_relation_ok:
  "validate_relation task_id units seen r = Inr seen' \<longleftrightarrow>
     relation_ok task_id units r \<and> set (dep_targets [r]) \<inter> set seen = {} \<and> seen' = dep_targets [r] @ seen"
  by (auto simp: validate_relation_def relation_ok_def dep_targets_def)

lemma validate_relations_ok:
  "foldE (validate_relation task_id units) seen rels = Inr seen' \<longleftrightarrow>
     (\<forall>r \<in> set rels. relation_ok task_id units r) \<and> distinct (dep_targets rels) \<and>
     set (dep_targets rels) \<inter> set seen = {} \<and> seen' = rev (dep_targets rels) @ seen"
proof (induction rels arbitrary: seen)
  case (Cons r rels)
  have "dep_targets (r # rels) = dep_targets [r] @ dep_targets rels" "rev (dep_targets [r]) = dep_targets [r]"
    "distinct (dep_targets [r])"
    by (auto simp: dep_targets_def)
  then show ?case
    by (auto simp: res_simps validate_relation_ok Cons.IH)
qed (auto simp: dep_targets_def)

lemma edge_loop:
  "foldE (\<lambda>(seen, out_edges, in_edges) r.
       bindE (validate_relation task_id units seen r) (\<lambda>seen'.
         Inr (seen', append_edge (tr_source_unit_id r) r out_edges,
              append_edge (tr_target_unit_id r) r in_edges))) (seen, oe, ie) rels
   = bindE (foldE (validate_relation task_id units) seen rels) (\<lambda>seen'.
       Inr (seen', fold (\<lambda>r. append_edge (tr_source_unit_id r) r) rels oe,
            fold (\<lambda>r. append_edge (tr_target_unit_id r) r) rels ie))"
  by (induction rels arbitrary: seen oe ie) (auto simp: bindE_def split: sum.splits)

lemma dict_get_default_set [simp]:
  "dict_get_default (dict_set k v d) k' dflt = (if k' = k then v else dict_get_default d k' dflt)"
  by (simp add: dict_get_default_def)

lemma fold_append_edge:
  "dict_get_default (fold (\<lambda>r. append_edge (f r) r) rels d) k []
     = dict_get_default d k [] @ filter (\<lambda>r. f r = k) rels"
  by (induction rels arbitrary: d) (auto simp: append_edge_def)

lemma dict_get_default_blank [simp]: "dict_get_default (map (\<lambda>k. (k, [])) ks) k [] = []"
  by (induction ks) (auto simp: dict_get_default_def split: option.splits)

text \<open>The adjacency a successful construction has stored.\<close>

definition graph_wf :: "task_graph \<Rightarrow> bool" where
  "graph_wf g \<longleftrightarrow> dict_ok (tg_units g) \<and>
     graph_spec (tg_task_id g) (tg_units g) (tg_relations g) (tg_protocol_config g) \<and>
     (\<forall>k. dict_get_default (tg_out_edges g) k [] = filter (\<lambda>r. tr_source_unit_id r = k) (tg_relations g)) \<and>
     (\<forall>k. dict_get_default (tg_in_edges g) k [] = filter (\<lambda>r. tr_target_unit_id r = k) (tg_relations g))"

lemma validate_graph_acyclic_eq:
  assumes rels: "\<forall>r \<in> set rels. relation_ok task_id units r"
    and out: "\<And>k. dict_get_default out_edges k [] = filter (\<lambda>r. tr_source_unit_id r = k) rels"
  shows "validate_graph_acyclic units out_edges =
    (if acyclic (graph_edges rels) then Inr () else Inl (ValueError ''TaskGraph contains a cycle''))"
proof -
  let ?s = "\<lambda>unit_id. map tr_target_unit_id (dict_get_default out_edges unit_id [])"
  have E: "edge_rel ?s = graph_edges rels"
    by (auto simp: edge_rel_def graph_edges_def out)
  have src: "(x, y) \<in> (graph_edges rels)\<^sup>+ \<Longrightarrow> x \<in> set (dict_keys units)" for x y
    by (induction rule: converse_trancl_induct)
      (use rels in \<open>auto simp: graph_edges_def relation_ok_def dict_has_iff\<close>)
  have "validate_graph_acyclic units out_edges =
    (if \<exists>x \<in> set (dict_keys units). (x, x) \<in> (edge_rel ?s)\<^sup>+
     then Inl (ValueError ''TaskGraph contains a cycle'') else Inr ())"
    unfolding validate_graph_acyclic_def
    by (rule dfs_all_acyclic) (use rels in \<open>auto simp: out relation_ok_def dict_has_iff\<close>)
  moreover have "(\<exists>x \<in> set (dict_keys units). (x, x) \<in> (graph_edges rels)\<^sup>+) \<longleftrightarrow> \<not> acyclic (graph_edges rels)"
    using src by (auto simp: acyclic_def)
  ultimately show ?thesis by (simp add: E)
qed

lemma mk_task_graph_eq:
  assumes "dict_ok units"
  shows "mk_task_graph task_id units rels outs config = Inr g \<longleftrightarrow>
    graph_spec task_id units rels config \<and>
    g = \<lparr>tg_task_id = task_id, tg_units = units, tg_relations = rels, tg_canonical_outputs = outs,
         tg_protocol_config = config,
         tg_out_edges = fold (\<lambda>r. append_edge (tr_source_unit_id r) r) rels (map (\<lambda>k. (k, [])) (dict_keys units)),
         tg_in_edges = fold (\<lambda>r. append_edge (tr_target_unit_id r) r) rels (map (\<lambda>k. (k, [])) (dict_keys units)),
         tg_max_depth_observed = max_depth_of units\<rparr>"
proof -
  have ac: "validate_graph_acyclic units
      (fold (\<lambda>r. append_edge (tr_source_unit_id r) r) rels (map (\<lambda>k. (k, [])) (dict_keys units))) = Inr ()
      \<longleftrightarrow> acyclic (graph_edges rels)" if "\<forall>r \<in> set rels. relation_ok task_id units r"
    using validate_graph_acyclic_eq[OF that] by (simp add: fold_append_edge del: map_map)
  show ?thesis
    using ac
    by (auto simp: mk_task_graph_def edge_loop res_simps validate_units_ok validate_relations_ok
        graph_spec_def simp del: map_map)
qed

lemma mk_task_graph_wf:
  assumes "dict_ok units" "mk_task_graph task_id units rels outs config = Inr g"
  shows "graph_wf g"
  using assms by (auto simp: mk_task_graph_eq graph_wf_def fold_append_edge simp del: map_map)

lemma mk_task_graph_fields:
  assumes "dict_ok units" "mk_task_graph task_id units rels outs config = Inr g"
  shows "tg_task_id g = task_id" "tg_units g = units" "tg_relations g = rels"
    "tg_canonical_outputs g = outs" "tg_protocol_config g = config"
  using assms(2) unfolding mk_task_graph_eq[OF assms(1)] by auto

text \<open>
  Building a TaskGraph from a dictionary of units succeeds exactly
  when every unit is filed under its own id and belongs to the task, the configured unit and
  depth limits hold, every relation belongs to the task and joins two known units, dependency
  relations name their source output and bind each target input once, and the graph has no
  directed cycle; the depth-first search never fails for another reason.
\<close>

theorem task_graph_construction:
  assumes "dict_ok units"
  shows "(\<exists>g. mk_task_graph task_id units rels outs config = Inr g) \<longleftrightarrow> graph_spec task_id units rels config"
  using mk_task_graph_eq[OF assms] by simp

section \<open>Ready units\<close>

text \<open>
  On a constructed graph a unit id is reported ready exactly when the
  unit is in state Ready and every dependency relation into it names an output that its
  source already has among its canonical outputs; the list has no duplicates and follows the
  order of the units.
\<close>

theorem ready_units_exact:
  assumes "mk_task_graph task_id units rels outs config = Inr g" and "dict_ok units"
  shows "distinct (ready_unit_ids g) \<and> (unit_id \<in> set (ready_unit_ids g) \<longleftrightarrow>
      (\<exists>u. dict_get units unit_id = Some u \<and> tu_state u = TS_READY \<and>
        (\<forall>r \<in> set rels. tr_target_unit_id r = unit_id \<longrightarrow> tr_relation_type r = ''depends_on_output'' \<longrightarrow>
           (\<exists>src n. dict_get units (tr_source_unit_id r) = Some src \<and> tr_source_output_name r = Some n \<and>
              dict_has (dict_get_default outs (tr_source_unit_id r) (tu_canonical_output_refs src)) n))))"
proof -
  have g: "tg_units g = units" "tg_canonical_outputs g = outs"
    "\<And>k. dict_get_default (tg_in_edges g) k [] = filter (\<lambda>r. tr_target_unit_id r = k) rels"
    using assms by (auto simp: mk_task_graph_eq fold_append_edge simp del: map_map)
  have sat: "dependencies_are_satisfied g unit_id \<longleftrightarrow>
      (\<forall>r \<in> set rels. tr_target_unit_id r = unit_id \<longrightarrow> tr_relation_type r = ''depends_on_output'' \<longrightarrow>
           (\<exists>src n. dict_get units (tr_source_unit_id r) = Some src \<and> tr_source_output_name r = Some n \<and>
              dict_has (dict_get_default outs (tr_source_unit_id r) (tu_canonical_output_refs src)) n))"
  proof -
    have "relation_satisfied g r \<longleftrightarrow> (tr_relation_type r = ''depends_on_output'' \<longrightarrow>
           (\<exists>src n. dict_get units (tr_source_unit_id r) = Some src \<and> tr_source_output_name r = Some n \<and>
              dict_has (dict_get_default outs (tr_source_unit_id r) (tu_canonical_output_refs src)) n))" for r
      by (cases "dict_get units (tr_source_unit_id r)"; cases "tr_source_output_name r")
        (auto simp: relation_satisfied_def g)
    then show ?thesis by (auto simp: dependencies_are_satisfied_def list_all_iff g)
  qed
  have "unit_id \<in> set (ready_unit_ids g) \<longleftrightarrow>
      (\<exists>u. dict_get units unit_id = Some u \<and> tu_state u = TS_READY \<and> dependencies_are_satisfied g unit_id)"
    using assms(2) by (force simp: ready_unit_ids_def g dict_ok_def)
  moreover have "distinct (ready_unit_ids g)"
    using assms(2) unfolding ready_unit_ids_def g dict_ok_def
    by (metis distinct_map distinct_filter filter_set inj_on_subset filter_is_subset)
  ultimately show ?thesis using sat by simp
qed

section \<open>A two-unit graph\<close>

definition sample_unit :: "string \<Rightarrow> task_state \<Rightarrow> task_unit" where
  "sample_unit unit_id st =
     \<lparr>tu_unit_id = unit_id, tu_task_id = ''task_1'', tu_parent_unit_id = None, tu_depth = 0,
      tu_unit_type = ''root'', tu_state = st, tu_input_refs = [], tu_canonical_output_refs = [],
      tu_required_capabilities = [(''executor'', JStr ''local'')], tu_weight = ''1.0'',
      tu_budget_limit = None, tu_deadline = None, tu_plugin_payload = [], tu_metadata = [],
      tu_created_at = ''2026-06-05T00:00:00Z'', tu_updated_at = ''2026-06-05T00:00:00Z'',
      tu_last_attempt_ordinal = -1, tu_schema_version = ''TaskUnit.v2''\<rparr>"

definition sample_relation :: "string \<Rightarrow> string \<Rightarrow> task_relation" where
  "sample_relation src tgt =
     \<lparr>tr_relation_id = ''rel_1'', tr_task_id = ''task_1'', tr_relation_type = ''depends_on_output'',
      tr_source_unit_id = src, tr_target_unit_id = tgt, tr_source_output_name = Some ''out'',
      tr_target_input_name = Some ''inp'', tr_created_reason = ''expansion'', tr_metadata = [],
      tr_created_at = ''2026-06-05T00:00:00Z'', tr_schema_version = ''TaskRelation.v1''\<rparr>"

definition sample_units :: "(string, task_unit) dict" where
  "sample_units = [(''a'', sample_unit ''a'' TS_READY), (''b'', sample_unit ''b'' TS_READY)]"

lemma sample_units_ok: "dict_ok sample_units"
  by (simp add: dict_ok_def sample_units_def)

lemma sample_graph_ok:
  "graph_spec ''task_1'' sample_units [sample_relation ''a'' ''b''] None"
proof -
  have "graph_edges [sample_relation ''a'' ''b''] = {(''a'', ''b'')}"
    by (simp add: graph_edges_def sample_relation_def)
  then have "acyclic (graph_edges [sample_relation ''a'' ''b''])"
    using acyclic_insert[of "''a''" "''b''" "{}"] by (simp add: wf_acyclic)
  then show ?thesis
    by (simp add: graph_spec_def units_ok_def sample_units_def sample_unit_def relation_ok_def
        sample_relation_def dict_has_def no_name_def dep_targets_def)
qed

lemma sample_cycle: "\<not> acyclic (graph_edges [sample_relation ''a'' ''b'', sample_relation ''b'' ''a''])"
proof -
  have "(''a'', ''b'') \<in> graph_edges [sample_relation ''a'' ''b'', sample_relation ''b'' ''a'']"
    "(''b'', ''a'') \<in> graph_edges [sample_relation ''a'' ''b'', sample_relation ''b'' ''a'']"
    by (simp_all add: graph_edges_def sample_relation_def)
  then have "(''a'', ''a'') \<in> (graph_edges [sample_relation ''a'' ''b'', sample_relation ''b'' ''a''])\<^sup>+"
    by (meson r_into_trancl trancl_into_trancl)
  then show ?thesis by (auto simp: acyclic_def)
qed

lemma task_graph_construction_witness:
  "(\<exists>g. mk_task_graph ''task_1'' sample_units [sample_relation ''a'' ''b''] [] None = Inr g) \<and>
   \<not> (\<exists>g. mk_task_graph ''task_1'' sample_units
          [sample_relation ''a'' ''b'', sample_relation ''b'' ''a''] [] None = Inr g)"
  using task_graph_construction[OF sample_units_ok] sample_graph_ok sample_cycle
  by (simp add: graph_spec_def)

lemma ready_units_exact_witness:
  "\<exists>g. mk_task_graph ''task_1'' sample_units [sample_relation ''a'' ''b''] [] None = Inr g \<and>
     ''a'' \<in> set (ready_unit_ids g) \<and> ''b'' \<notin> set (ready_unit_ids g)"
proof -
  obtain g where g: "mk_task_graph ''task_1'' sample_units [sample_relation ''a'' ''b''] [] None = Inr g"
    using mk_task_graph_eq[OF sample_units_ok] sample_graph_ok by blast
  note r = ready_units_exact[OF g sample_units_ok]
  have "''a'' \<in> set (ready_unit_ids g)"
    using r[of "''a''"] by (simp add: sample_units_def sample_unit_def sample_relation_def)
  moreover have "''b'' \<notin> set (ready_unit_ids g)"
    using r[of "''b''"]
    by (simp add: sample_units_def sample_unit_def sample_relation_def dict_get_default_def dict_has_def)
  ultimately show ?thesis using g by blast
qed

end
