(* ===== verification/Core_Scheduling.thy ===== *)
theory Core_Scheduling
  imports Core_Task_Graph "HOL-Library.Product_Lexorder"
begin

text \<open>
  \<open>core/scheduling.py\<close>: the FIFO scheduler with capability filtering. A decision names the
  oldest ready unit that some available client can run; the lemmas show that it is minimal in
  the queue order and that no decision means no eligible unit.
\<close>

record scheduling_decision =
  sd_decision_id :: string
  sd_task_id :: string
  sd_unit_id :: string
  sd_client_id :: string
  sd_policy_id :: string
  sd_matched_capabilities :: "string list"
  sd_lease_kind :: string
  sd_reason :: string
  sd_created_at :: string
  sd_input_summary :: "jobj option"
  sd_schema_version :: string

definition sd_to_dict :: "scheduling_decision \<Rightarrow> jobj" where
  "sd_to_dict x =
     [(''schema_version'', JStr (sd_schema_version x)),
      (''decision_id'', JStr (sd_decision_id x)),
      (''task_id'', JStr (sd_task_id x)),
      (''unit_id'', JStr (sd_unit_id x)),
      (''client_id'', JStr (sd_client_id x)),
      (''policy_id'', JStr (sd_policy_id x)),
      (''matched_capabilities'', JArr (map JStr (sd_matched_capabilities x))),
      (''lease_kind'', JStr (sd_lease_kind x)),
      (''reason'', JStr (sd_reason x)),
      (''created_at'', JStr (sd_created_at x)),
      (''input_summary'', JObj (case sd_input_summary x of None \<Rightarrow> [] | Some d \<Rightarrow> d))]"

section \<open>Capability matching\<close>

definition lower_char :: "char \<Rightarrow> char" where
  "lower_char c = (if 65 \<le> (of_char c :: nat) \<and> (of_char c :: nat) \<le> 90 then char_of ((of_char c :: nat) + 32) else c)"

definition client_is_available :: "string \<Rightarrow> bool" where
  "client_is_available status = (status = ''Available'' \<or> map lower_char status = ''active'')"

fun has_active_lease :: "json option \<Rightarrow> bool" where
  "has_active_lease None = False"
| "has_active_lease (Some JNull) = False"
| "has_active_lease (Some (JInt i)) = (i > 0)"
| "has_active_lease (Some (JBool b)) = b"
| "has_active_lease (Some (JArr xs)) = (length xs > 0)"
| "has_active_lease (Some (JObj d)) = (length d > 0)"
| "has_active_lease (Some v) = truthy v"

fun capability_matches :: "json \<Rightarrow> json \<Rightarrow> bool res" where
  "capability_matches (JArr req) (JArr cl) =
     bindE (mapE hash_key req) (\<lambda>rs. bindE (mapE hash_key cl) (\<lambda>cs. Inr (set rs \<subseteq> set cs)))"
| "capability_matches (JArr req) cl =
     bindE (mapE hash_key req) (\<lambda>rs. bindE (hash_key cl) (\<lambda>c. Inr (set rs = {c})))"
| "capability_matches req (JArr cl) =
     bindE (mapE hash_key cl) (\<lambda>cs. bindE (hash_key req) (\<lambda>r. Inr (r \<in> set cs)))"
| "capability_matches req cl = Inr (py_eq req cl)"

fun match_keys :: "(string \<times> json) list \<Rightarrow> jobj \<Rightarrow> string list \<Rightarrow> string list option res" where
  "match_keys [] caps matched = Inr (Some matched)"
| "match_keys ((key, v) # req) caps matched =
     (case dict_get caps key of
        None \<Rightarrow> Inr None
      | Some cv \<Rightarrow> bindE (capability_matches v cv) (\<lambda>ok.
          if ok then match_keys req caps (matched @ [key]) else Inr None))"

definition matched_capabilities :: "jobj \<Rightarrow> client_record \<Rightarrow> string list option res" where
  "matched_capabilities required client =
     (if \<not> client_is_available (cl_status client) then Inr None
      else match_keys required (cl_capabilities client) [])"

section \<open>Selection\<close>

text \<open>The inner loop over the clients, and the outer loop over the sorted ready units.\<close>

fun first_client :: "jobj \<Rightarrow> client_record list \<Rightarrow> (client_record \<times> string list) option res" where
  "first_client required [] = Inr None"
| "first_client required (c # cs) =
     bindE (matched_capabilities required c) (\<lambda>m.
       case m of None \<Rightarrow> first_client required cs | Some ks \<Rightarrow> Inr (Some (c, ks)))"

fun first_match ::
  "(string, task_unit) dict \<Rightarrow> client_record list \<Rightarrow> bool \<Rightarrow> (string, json) dict \<Rightarrow> string list
    \<Rightarrow> (string \<times> client_record \<times> string list) option res" where
  "first_match units clients allow_shadow leases [] = Inr None"
| "first_match units clients allow_shadow leases (unit_id # ids) =
     (if \<not> allow_shadow \<and> has_active_lease (dict_get leases unit_id)
      then first_match units clients allow_shadow leases ids
      else case dict_get units unit_id of
        None \<Rightarrow> Inl (KeyError unit_id)
      | Some u \<Rightarrow> bindE (first_client (tu_required_capabilities u) clients) (\<lambda>m.
          case m of None \<Rightarrow> first_match units clients allow_shadow leases ids
                  | Some (c, ks) \<Rightarrow> Inr (Some (unit_id, c, ks))))"

definition queue_key :: "task_graph \<Rightarrow> string \<Rightarrow> string \<times> string" where
  "queue_key g unit_id =
     (case dict_get (tg_units g) unit_id of None \<Rightarrow> [] | Some u \<Rightarrow> tu_created_at u, unit_id)"

definition ready_queue :: "task_graph \<Rightarrow> string list option \<Rightarrow> string list" where
  "ready_queue g allowed =
     sort_key (queue_key g)
       (filter (\<lambda>unit_id. case allowed of None \<Rightarrow> True | Some ids \<Rightarrow> unit_id \<in> set ids)
         (ready_unit_ids g))"

definition select_next ::
  "string \<Rightarrow> task_graph \<Rightarrow> client_record list \<Rightarrow> protocol_config \<Rightarrow> (string, json) dict \<Rightarrow> string
    \<Rightarrow> string \<Rightarrow> string \<Rightarrow> string list option \<Rightarrow> scheduling_decision option res" where
  "select_next policy_id g clients config leases now decision_id lease_kind allowed =
     (let queue = ready_queue g allowed
      in bindE (first_match (tg_units g) clients (pc_allow_shadow_execution config) leases queue) (\<lambda>m.
        Inr (case m of
           None \<Rightarrow> None
         | Some (unit_id, client, matched) \<Rightarrow> Some
             \<lparr>sd_decision_id = decision_id, sd_task_id = tg_task_id g, sd_unit_id = unit_id,
              sd_client_id = cl_client_id client, sd_policy_id = policy_id,
              sd_matched_capabilities = matched, sd_lease_kind = lease_kind,
              sd_reason = ''ready_and_available'', sd_created_at = now,
              sd_input_summary = Some [(''ready_queue_size'', JInt (int (length queue))),
                                       (''client_count'', JInt (int (length clients)))],
              sd_schema_version = ''phase2.scheduling_decision.v1''\<rparr>)))"

section \<open>The selection is first in, first out\<close>

text \<open>A unit is eligible when the scheduler may hand it to one of the clients.\<close>

definition can_run :: "task_unit \<Rightarrow> client_record \<Rightarrow> bool" where
  "can_run u c \<longleftrightarrow> (\<exists>ks. matched_capabilities (tu_required_capabilities u) c = Inr (Some ks))"

definition eligible_unit ::
  "task_graph \<Rightarrow> client_record list \<Rightarrow> protocol_config \<Rightarrow> (string, json) dict \<Rightarrow> string list option
    \<Rightarrow> string \<Rightarrow> bool" where
  "eligible_unit g clients config leases allowed unit_id \<longleftrightarrow>
     unit_id \<in> set (ready_unit_ids g) \<and>
     (case allowed of None \<Rightarrow> True | Some ids \<Rightarrow> unit_id \<in> set ids) \<and>
     (pc_allow_shadow_execution config \<or> \<not> has_active_lease (dict_get leases unit_id)) \<and>
     (\<exists>u c. dict_get (tg_units g) unit_id = Some u \<and> c \<in> set clients \<and> can_run u c)"

lemma match_keys_Some:
  "match_keys req caps acc = Inr (Some ks) \<Longrightarrow> ks = acc @ map fst req \<and>
     (\<forall>(k, v) \<in> set req. \<exists>cv. dict_get caps k = Some cv \<and> capability_matches v cv = Inr True)"
  by (induction req caps acc rule: match_keys.induct)
    (auto simp: res_simps split: option.splits if_splits)

lemma first_client_Some:
  "first_client req cs = Inr (Some (c, ks)) \<Longrightarrow> c \<in> set cs \<and> matched_capabilities req c = Inr (Some ks)"
  by (induction req cs rule: first_client.induct) (auto simp: res_simps split: option.splits)

lemma first_client_None:
  "first_client req cs = Inr None \<Longrightarrow> c \<in> set cs \<Longrightarrow> matched_capabilities req c \<noteq> Inr (Some ks)"
  by (induction req cs rule: first_client.induct) (auto simp: res_simps split: option.splits)

lemma first_match_Some:
  assumes "first_match units clients shadow leases ids = Inr (Some (i, c, ks))"
  shows "\<exists>pre post u. ids = pre @ i # post \<and> dict_get units i = Some u \<and> c \<in> set clients \<and>
    matched_capabilities (tu_required_capabilities u) c = Inr (Some ks) \<and>
    (shadow \<or> \<not> has_active_lease (dict_get leases i)) \<and>
    (\<forall>j \<in> set pre. \<not> shadow \<and> has_active_lease (dict_get leases j) \<or>
       (\<forall>u. dict_get units j = Some u \<longrightarrow> (\<forall>c \<in> set clients. \<not> can_run u c)))"
  using assms
proof (induction ids)
  case (Cons j ids)
  show ?case
  proof (cases "\<not> shadow \<and> has_active_lease (dict_get leases j)")
    case True
    with Cons obtain pre post u where "ids = pre @ i # post" and *: "dict_get units i = Some u" "c \<in> set clients"
      "matched_capabilities (tu_required_capabilities u) c = Inr (Some ks)"
      "shadow \<or> \<not> has_active_lease (dict_get leases i)"
      "\<forall>j \<in> set pre. \<not> shadow \<and> has_active_lease (dict_get leases j) \<or>
       (\<forall>u. dict_get units j = Some u \<longrightarrow> (\<forall>c \<in> set clients. \<not> can_run u c))" by auto
    with True show ?thesis by (intro exI[of _ "j # pre"] exI[of _ post] exI[of _ u]) auto
  next
    case False
    then obtain v where v: "dict_get units j = Some v" using Cons.prems by (auto split: option.splits)
    show ?thesis
    proof (cases "first_client (tu_required_capabilities v) clients = Inr None")
      case True
      then have none: "\<forall>c \<in> set clients. \<not> can_run v c" by (auto simp: can_run_def dest: first_client_None)
      from Cons False v True
      obtain pre post u where "ids = pre @ i # post" and *: "dict_get units i = Some u" "c \<in> set clients"
        "matched_capabilities (tu_required_capabilities u) c = Inr (Some ks)"
        "shadow \<or> \<not> has_active_lease (dict_get leases i)"
        "\<forall>j \<in> set pre. \<not> shadow \<and> has_active_lease (dict_get leases j) \<or>
         (\<forall>u. dict_get units j = Some u \<longrightarrow> (\<forall>c \<in> set clients. \<not> can_run u c))" by auto
      with none v show ?thesis by (intro exI[of _ "j # pre"] exI[of _ post] exI[of _ u]) auto
    next
      case Some: False
      with Cons.prems False v have "i = j" "first_client (tu_required_capabilities v) clients = Inr (Some (c, ks))"
        by (auto simp: res_simps split: option.splits if_splits)
      with False v show ?thesis
        by (intro exI[of _ "[]"] exI[of _ ids] exI[of _ v]) (auto dest: first_client_Some)
    qed
  qed
qed simp

lemma no_Some_pair [simp]: "(\<forall>a b. x \<noteq> Some (a, b)) \<longleftrightarrow> x = None"
  by (cases x) auto

lemma first_match_None:
  assumes "first_match units clients shadow leases ids = Inr None" "j \<in> set ids" "dict_get units j = Some u"
    and "shadow \<or> \<not> has_active_lease (dict_get leases j)" "c \<in> set clients"
  shows "\<not> can_run u c"
  using assms
  by (induction ids)
    (auto simp: res_simps can_run_def dest: first_client_None split: option.splits if_splits)

lemma ready_queue_set:
  "i \<in> set (ready_queue g allowed) \<longleftrightarrow> i \<in> set (ready_unit_ids g) \<and>
     (case allowed of None \<Rightarrow> True | Some ids \<Rightarrow> i \<in> set ids)"
  by (auto simp: ready_queue_def)

lemma ready_queue_before:
  assumes "ready_queue g allowed = pre @ i # post" "j \<in> set (ready_queue g allowed)" "j \<notin> set pre"
  shows "queue_key g i \<le> queue_key g j"
proof -
  have "sorted (map (queue_key g) (pre @ i # post))"
    unfolding assms(1)[symmetric] by (simp add: ready_queue_def)
  with assms show ?thesis by (auto simp: sorted_append)
qed

text \<open>
  When the scheduler returns a decision, the unit it names is ready, allowed,
  free of active leases unless shadow execution is on, and runnable by the client it names, with
  all required capabilities listed as matched; and no other eligible unit comes before it in the
  order of creation time and then id. When it returns nothing, no unit is eligible.
\<close>

theorem scheduler_fifo:
  assumes "select_next policy g clients config leases now did kind allowed = Inr r"
  shows "(case r of
      None \<Rightarrow> (\<forall>i. \<not> eligible_unit g clients config leases allowed i)
    | Some d \<Rightarrow> eligible_unit g clients config leases allowed (sd_unit_id d) \<and>
        (\<exists>u c. dict_get (tg_units g) (sd_unit_id d) = Some u \<and> c \<in> set clients \<and>
           cl_client_id c = sd_client_id d \<and> can_run u c \<and>
           sd_matched_capabilities d = dict_keys (tu_required_capabilities u)) \<and>
        (\<forall>j. eligible_unit g clients config leases allowed j \<longrightarrow>
           queue_key g (sd_unit_id d) \<le> queue_key g j))"
proof -
  let ?m = "first_match (tg_units g) clients (pc_allow_shadow_execution config) leases (ready_queue g allowed)"
  from assms obtain m where m: "?m = Inr m" by (auto simp: select_next_def Let_def res_simps)
  show ?thesis
  proof (cases m)
    case None
    with assms m have "r = None" by (simp add: select_next_def Let_def)
    moreover have False if e: "eligible_unit g clients config leases allowed i" for i
    proof -
      from e obtain u c where *: "dict_get (tg_units g) i = Some u" "c \<in> set clients" "can_run u c"
        "pc_allow_shadow_execution config \<or> \<not> has_active_lease (dict_get leases i)"
        and "i \<in> set (ready_queue g allowed)" by (auto simp: eligible_unit_def ready_queue_set)
      with first_match_None[of "tg_units g" clients _ leases _ i u c] m None show False by blast
    qed
    ultimately show ?thesis by auto
  next
    case (Some t)
    obtain i c ks where t: "t = (i, c, ks)" by (cases t)
    with assms m Some have "\<exists>d. r = Some d \<and> sd_unit_id d = i \<and> sd_client_id d = cl_client_id c \<and>
      sd_matched_capabilities d = ks" by (auto simp: select_next_def Let_def)
    then obtain d where d: "r = Some d" "sd_unit_id d = i" "sd_client_id d = cl_client_id c"
      "sd_matched_capabilities d = ks" by blast
    from first_match_Some[of "tg_units g" clients _ leases _ i c ks] m Some t
    obtain pre post u where q: "ready_queue g allowed = pre @ i # post"
      and u: "dict_get (tg_units g) i = Some u" and c: "c \<in> set clients"
      and ks: "matched_capabilities (tu_required_capabilities u) c = Inr (Some ks)"
      and free: "pc_allow_shadow_execution config \<or> \<not> has_active_lease (dict_get leases i)"
      and pre: "\<forall>j \<in> set pre. \<not> pc_allow_shadow_execution config \<and> has_active_lease (dict_get leases j) \<or>
        (\<forall>u. dict_get (tg_units g) j = Some u \<longrightarrow> (\<forall>c \<in> set clients. \<not> can_run u c))"
      by blast
    have run: "can_run u c" using ks by (auto simp: can_run_def)
    have "i \<in> set (ready_queue g allowed)" using q by simp
    with u c run free have "eligible_unit g clients config leases allowed i"
      by (auto simp: eligible_unit_def ready_queue_set)
    moreover have "ks = dict_keys (tu_required_capabilities u)"
      using ks match_keys_Some[of "tu_required_capabilities u" "cl_capabilities c" "[]" ks]
      by (auto simp: matched_capabilities_def split: if_splits)
    moreover have "queue_key g i \<le> queue_key g j"
      if j: "eligible_unit g clients config leases allowed j" for j
    proof (rule ready_queue_before[OF q])
      show "j \<in> set (ready_queue g allowed)" using j by (auto simp: eligible_unit_def ready_queue_set)
      show "j \<notin> set pre" using j pre by (auto simp: eligible_unit_def)
    qed
    ultimately show ?thesis using u c run d by auto
  qed
qed

definition sample_client :: client_record where
  "sample_client =
     \<lparr>cl_client_id = ''client_1'', cl_executor_type = ''mock'', cl_executor_id = ''mock_1'',
      cl_executor_version = ''1'', cl_capabilities = [(''executor'', JArr [JStr ''local'', JStr ''remote''])],
      cl_status = ''Available'', cl_stats = [], cl_metadata = [],
      cl_registered_at = ''2026-06-05T00:00:00Z'', cl_last_seen_at = None,
      cl_schema_version = ''ClientRecord.v1''\<rparr>"

definition sample_config :: protocol_config where
  "sample_config = pc_default ''config_1'' ''artifacts'' ''events.jsonl'' None"

lemma sample_first_client:
  "first_client [(''executor'', JStr ''local'')] [sample_client] = Inr (Some (sample_client, [''executor'']))"
  by (simp add: matched_capabilities_def sample_client_def client_is_available_def)

lemma sample_graph_queue:
  "\<exists>g. mk_task_graph ''task_1'' sample_units [sample_relation ''a'' ''b''] [] None = Inr g \<and>
     tg_task_id g = ''task_1'' \<and> tg_units g = sample_units \<and> ready_queue g None = [''a'']"
proof -
  obtain g where g: "mk_task_graph ''task_1'' sample_units [sample_relation ''a'' ''b''] [] None = Inr g"
    using mk_task_graph_eq[OF sample_units_ok] sample_graph_ok by blast
  note units = mk_task_graph_fields[OF sample_units_ok g]
  have inb: "\<And>k. dict_get_default (tg_in_edges g) k [] =
      filter (\<lambda>r. tr_target_unit_id r = k) [sample_relation ''a'' ''b'']"
    using mk_task_graph_wf[OF sample_units_ok g] by (simp add: graph_wf_def units)
  have "dependencies_are_satisfied g ''a''"
    by (simp add: dependencies_are_satisfied_def inb sample_relation_def)
  moreover have "\<not> relation_satisfied g (sample_relation ''a'' ''b'')"
    by (simp add: relation_satisfied_def units sample_relation_def sample_units_def sample_unit_def
        dict_get_default_def dict_has_def)
  then have "\<not> dependencies_are_satisfied g ''b''"
    by (simp add: dependencies_are_satisfied_def inb) (simp add: sample_relation_def)
  ultimately have "ready_unit_ids g = [''a'']"
    by (simp add: ready_unit_ids_def units sample_units_def sample_unit_def)
  then show ?thesis using g units by (simp add: ready_queue_def)
qed

lemma scheduler_fifo_witness:
  "\<exists>g d. mk_task_graph ''task_1'' sample_units [sample_relation ''a'' ''b''] [] None = Inr g \<and>
     select_next ''fifo_ready_v1'' g [sample_client] sample_config [] ''now'' ''d1'' ''primary'' None = Inr (Some d) \<and>
     eligible_unit g [sample_client] sample_config [] None (sd_unit_id d)"
proof -
  obtain g where g: "mk_task_graph ''task_1'' sample_units [sample_relation ''a'' ''b''] [] None = Inr g"
    "tg_units g = sample_units" "ready_queue g None = [''a'']"
    using sample_graph_queue by blast
  then obtain d where d: "select_next ''fifo_ready_v1'' g [sample_client] sample_config [] ''now'' ''d1'' ''primary'' None
      = Inr (Some d)"
    using sample_first_client by (simp add: select_next_def sample_units_def sample_unit_def)
  from scheduler_fifo[OF this] g d show ?thesis by auto
qed

end
