(* ===== verification/Py_Clock.thy ===== *)
theory Py_Clock
  imports Py_Prelude
begin

text \<open>
  Timestamps. \<open>_parse_utc\<close>, \<open>_format_utc\<close> and \<open>_add_seconds\<close> of \<open>core/leases.py\<close> (the first also in
  \<open>core/recovery.py\<close>) over a model of the part of \<open>datetime\<close> they use: an aware UTC instant is
  its number of microseconds since 0001-01-01T00:00:00, the calendar is the proleptic Gregorian
  one, and \<open>fromisoformat\<close> reads the extended forms \<open>YYYY-MM-DD\<close> and
  \<open>YYYY-MM-DDxHH[:MM[:SS[.f]]][+-HH[:MM[:SS[.f]]]]\<close> (\<open>x\<close> any separator character); the basic and
  the week-date forms, which the program never writes, are rejected.
  The main result is that parsing what formatting wrote gives the instant back.
\<close>

section \<open>The calendar\<close>

definition is_leap :: "int \<Rightarrow> bool" where
  "is_leap y \<longleftrightarrow> y mod 4 = 0 \<and> (y mod 100 \<noteq> 0 \<or> y mod 400 = 0)"

definition days_before_year :: "int \<Rightarrow> int" where
  "days_before_year y = (y - 1) * 365 + (y - 1) div 4 - (y - 1) div 100 + (y - 1) div 400"

definition month_starts :: "bool \<Rightarrow> int list" where
  "month_starts leap = (if leap then [0, 31, 60, 91, 121, 152, 182, 213, 244, 274, 305, 335, 366]
                        else [0, 31, 59, 90, 120, 151, 181, 212, 243, 273, 304, 334, 365])"

definition days_before_month :: "int \<Rightarrow> int \<Rightarrow> int" where
  "days_before_month y m = month_starts (is_leap y) ! nat (m - 1)"

definition days_in_month :: "int \<Rightarrow> int \<Rightarrow> int" where
  "days_in_month y m = month_starts (is_leap y) ! nat m - month_starts (is_leap y) ! nat (m - 1)"

definition ymd2ord :: "int \<Rightarrow> int \<Rightarrow> int \<Rightarrow> int" where
  "ymd2ord y m d = days_before_year y + days_before_month y m + d"

definition valid_date :: "int \<Rightarrow> int \<Rightarrow> int \<Rightarrow> bool" where
  "valid_date y m d \<longleftrightarrow> 1 \<le> y \<and> y \<le> 9999 \<and> 1 \<le> m \<and> m \<le> 12 \<and> 1 \<le> d \<and> d \<le> days_in_month y m"

definition month_day :: "bool \<Rightarrow> int \<Rightarrow> int \<times> int" where
  "month_day leap doy =
     (let s = month_starts leap;
          m = (if doy < s!1 then 1 else if doy < s!2 then 2 else if doy < s!3 then 3
               else if doy < s!4 then 4 else if doy < s!5 then 5 else if doy < s!6 then 6
               else if doy < s!7 then 7 else if doy < s!8 then 8 else if doy < s!9 then 9
               else if doy < s!10 then 10 else if doy < s!11 then 11 else (12::int))
      in (m, doy - s ! nat (m - 1) + 1))"

definition ord2ymd :: "int \<Rightarrow> int \<times> int \<times> int" where
  "ord2ymd n =
     (let n400 = (n - 1) div 146097; r = (n - 1) mod 146097;
          n100 = r div 36524; r1 = r mod 36524;
          n4 = r1 div 1461; r2 = r1 mod 1461;
          n1 = r2 div 365; doy = r2 mod 365;
          year = n400 * 400 + n100 * 100 + n4 * 4 + n1 + 1
      in if n1 = 4 \<or> n100 = 4 then (year - 1, 12, 31)
         else (year, month_day (n1 = 3 \<and> (n4 \<noteq> 24 \<or> n100 = 3)) doy))"

lemma days_before_year_parts:
  assumes "0 \<le> b" "b \<le> 3" "0 \<le> c" "c \<le> 24" "0 \<le> d" "d \<le> 3"
  shows "days_before_year (a * 400 + b * 100 + c * 4 + d + 1) = 146097 * a + 36524 * b + 1461 * c + 365 * d"
proof -
  have "(a * 400 + b * 100 + c * 4 + d) div 4 = 100 * a + 25 * b + c"
    by (rule int_div_pos_eq[of _ _ _ d]) (use assms in auto)
  moreover have "(a * 400 + b * 100 + c * 4 + d) div 100 = 4 * a + b"
    by (rule int_div_pos_eq[of _ _ _ "c * 4 + d"]) (use assms in auto)
  moreover have "(a * 400 + b * 100 + c * 4 + d) div 400 = a"
    by (rule int_div_pos_eq[of _ _ _ "b * 100 + c * 4 + d"]) (use assms in auto)
  ultimately show ?thesis by (simp add: days_before_year_def)
qed

lemma is_leap_parts:
  assumes "0 \<le> b" "b \<le> 3" "0 \<le> c" "c \<le> 24" "0 \<le> d" "d \<le> 3"
  shows "is_leap (a * 400 + b * 100 + c * 4 + d + 1) \<longleftrightarrow> d = 3 \<and> (c \<noteq> 24 \<or> b = 3)"
proof -
  let ?y = "a * 400 + b * 100 + c * 4 + d + 1"
  have m4: "?y mod 4 = (if d = 3 then 0 else d + 1)"
  proof (cases "d = 3")
    case True
    then have "?y = 4 * (100 * a + 25 * b + c + 1)" by simp
    then show ?thesis using True by (metis mod_mult_self1_is_0)
  next
    case False
    then show ?thesis using assms by (simp, intro int_mod_pos_eq[of _ _ "100 * a + 25 * b + c"]) auto
  qed
  have m100: "?y mod 100 = (if c = 24 \<and> d = 3 then 0 else c * 4 + d + 1)"
  proof (cases "c = 24 \<and> d = 3")
    case True
    then have "?y = 100 * (4 * a + b + 1)" by simp
    then show ?thesis using True by (metis mod_mult_self1_is_0)
  next
    case False
    then have "c * 4 + d + 1 < 100" using assms by auto
    then show ?thesis using False assms
      by (simp del: One_nat_def, intro impI int_mod_pos_eq[of _ _ "4 * a + b"]) auto
  qed
  have m400: "?y mod 400 = (if b = 3 \<and> c = 24 \<and> d = 3 then 0 else b * 100 + c * 4 + d + 1)"
  proof (cases "b = 3 \<and> c = 24 \<and> d = 3")
    case True
    then have "?y = 400 * (a + 1)" by simp
    then show ?thesis using True by (metis mod_mult_self1_is_0)
  next
    case False
    then have "b * 100 + c * 4 + d + 1 < 400" using assms by auto
    then show ?thesis using False assms
      by (simp del: One_nat_def, intro impI int_mod_pos_eq[of _ _ a]) auto
  qed
  show ?thesis unfolding is_leap_def m4 m100 m400 using assms by auto
qed

lemma month_day_correct:
  assumes "0 \<le> doy" "doy < (if leap then 366 else 365)" "month_day leap doy = (m, d)"
  shows "1 \<le> m \<and> m \<le> 12 \<and> 1 \<le> d \<and>
    d \<le> month_starts leap ! nat m - month_starts leap ! nat (m - 1) \<and>
    month_starts leap ! nat (m - 1) + d = doy + 1"
  using assms
  by (cases leap) (auto simp: month_day_def month_starts_def Let_def split: if_splits)

lemma divmod: "0 < k \<Longrightarrow> (x::int) = k * (x div k) + x mod k \<and> 0 \<le> x mod k \<and> x mod k < k"
  by simp

lemma ord2ymd_correct:
  assumes n: "1 \<le> n" "n \<le> 3652059" and o: "ord2ymd n = (y, m, d)"
  shows "valid_date y m d \<and> ymd2ord y m d = n"
proof -
  define a r b r1 c r2 e doy where "a = (n - 1) div 146097" and "r = (n - 1) mod 146097"
    and "b = r div 36524" and "r1 = r mod 36524" and "c = r1 div 1461" and "r2 = r1 mod 1461"
    and "e = r2 div 365" and "doy = r2 mod 365"
  have a: "n - 1 = 146097 * a + r" "0 \<le> r" "r \<le> 146096" "0 \<le> a" "a \<le> 24"
    using n divmod[of 146097 "n - 1", folded a_def r_def] by auto
  have b: "r = 36524 * b + r1" "0 \<le> r1" "r1 \<le> 36523" "0 \<le> b" "b \<le> 4"
    using a(2,3) divmod[of 36524 r, folded b_def r1_def] by auto
  have c: "r1 = 1461 * c + r2" "0 \<le> r2" "r2 \<le> 1460" "0 \<le> c" "c \<le> 24"
    using b(2,3) divmod[of 1461 r1, folded c_def r2_def] by auto
  have e: "r2 = 365 * e + doy" "0 \<le> doy" "doy \<le> 364" "0 \<le> e" "e \<le> 4"
    using c(2,3) divmod[of 365 r2, folded e_def doy_def] by auto
  let ?y = "a * 400 + b * 100 + c * 4 + e + 1"
  have o': "(y, m, d) = (if e = 4 \<or> b = 4 then (?y - 1, 12, 31)
      else (?y, month_day (e = 3 \<and> (c \<noteq> 24 \<or> b = 3)) doy))"
    using o[unfolded ord2ymd_def Let_def, folded a_def r_def, folded b_def r1_def, folded c_def r2_def,
        folded e_def doy_def, symmetric] .
  show ?thesis
  proof (cases "e = 4 \<or> b = 4")
    case True
    then have y: "y = ?y - 1" and md: "m = 12" "d = 31" using o' by auto
    obtain a' b' c' where y': "y = a' * 400 + b' * 100 + c' * 4 + 3 + 1"
      and bounds: "0 \<le> b'" "b' \<le> 3" "0 \<le> c'" "c' \<le> 24" "c' \<noteq> 24 \<or> b' = 3"
      and n': "n = 146097 * a' + 36524 * b' + 1461 * c' + 365 * 3 + 366" and yb: "1 \<le> y" "y \<le> 9999"
    proof (cases "b = 4")
      case True
      then have "r1 = 0" "c = 0" "e = 0" using a b c e by auto
      then show ?thesis using True a b c e n y by (intro that[of a 3 24]) auto
    next
      case False
      then have "e = 4" using True by simp
      then have "doy = 0" "c \<le> 23" "r2 = 1460" using b c e by auto
      then show ?thesis using False \<open>e = 4\<close> a b c e n y by (intro that[of a b c]) auto
    qed
    have "is_leap y" unfolding y' using is_leap_parts[of b' c' 3 a'] bounds by simp
    moreover have "days_before_year y = 146097 * a' + 36524 * b' + 1461 * c' + 365 * 3"
      unfolding y' using days_before_year_parts[of b' c' 3 a'] bounds by simp
    ultimately show ?thesis
      using md yb n' by (simp add: valid_date_def ymd2ord_def days_in_month_def days_before_month_def month_starts_def)
  next
    case False
    let ?leap = "e = 3 \<and> (c \<noteq> 24 \<or> b = 3)"
    have bd: "b \<le> 3" "e \<le> 3" using False b e by auto
    have y: "y = ?y" and md: "month_day ?leap doy = (m, d)" using False o' by auto
    have leap: "is_leap y = ?leap" unfolding y using is_leap_parts[of b c e a] b c e bd by simp
    have dby: "days_before_year y = 146097 * a + 36524 * b + 1461 * c + 365 * e"
      unfolding y using days_before_year_parts[of b c e a] b c e bd by simp
    have "doy < (if ?leap then 366 else 365)" using e by simp
    from month_day_correct[OF e(2) this md]
    have "1 \<le> m" "m \<le> 12" "1 \<le> d" "d \<le> days_in_month y m" "days_before_month y m + d = doy + 1"
      by (auto simp: days_in_month_def days_before_month_def leap)
    moreover have "1 \<le> y" "y \<le> 9999" using y a b c e n bd by auto
    moreover have "146097 * a + 36524 * b + 1461 * c + 365 * e + doy + 1 = n" using a b c e by linarith
    ultimately show ?thesis by (simp add: valid_date_def ymd2ord_def dby)
  qed
qed

section \<open>Instants and their text\<close>

definition us_per_day :: int where
  "us_per_day = 86400000000"

text \<open>9999-12-31T23:59:59.999999 is the last instant \<open>datetime\<close> can hold.\<close>

definition max_instant :: int where
  "max_instant = 3652059 * us_per_day"

definition in_range :: "int \<Rightarrow> bool" where
  "in_range t \<longleftrightarrow> 0 \<le> t \<and> t < max_instant"

definition d2 :: "int \<Rightarrow> string" where
  "d2 n = [digit_char (nat n div 10 mod 10), digit_char (nat n mod 10)]"

definition d4 :: "int \<Rightarrow> string" where
  "d4 n = [digit_char (nat n div 1000 mod 10), digit_char (nat n div 100 mod 10),
           digit_char (nat n div 10 mod 10), digit_char (nat n mod 10)]"

definition d6 :: "int \<Rightarrow> string" where
  "d6 n = [digit_char (nat n div 100000 mod 10), digit_char (nat n div 10000 mod 10),
           digit_char (nat n div 1000 mod 10), digit_char (nat n div 100 mod 10),
           digit_char (nat n div 10 mod 10), digit_char (nat n mod 10)]"

text \<open>\<open>value.astimezone(UTC).isoformat().replace("+00:00", "Z")\<close>.\<close>

definition format_utc :: "int \<Rightarrow> string" where
  "format_utc t =
     (let (y, m, d) = ord2ymd (t div us_per_day + 1);
          u = t mod us_per_day;
          us = u mod 1000000; sec = u div 1000000
      in d4 y @ ''-'' @ d2 m @ ''-'' @ d2 d @ ''T'' @ d2 (sec div 3600) @ '':'' @ d2 (sec div 60 mod 60)
         @ '':'' @ d2 (sec mod 60) @ (if us = 0 then [] else ''.'' @ d6 us) @ ''Z'')"

definition digits_val :: "string \<Rightarrow> int option" where
  "digits_val s = (if s \<noteq> [] \<and> list_all is_digit s then Some (int (read_nat s)) else None)"

text \<open>\<open>HH[:MM[:SS[.f]]]\<close> in microseconds, with the limits on the fields checked by the caller.\<close>

definition fraction :: "string \<Rightarrow> int option" where
  "fraction s =
     (case s of [] \<Rightarrow> Some 0
      | c # fs \<Rightarrow> if c \<in> set ''.,'' \<and> fs \<noteq> [] \<and> list_all is_digit fs
                  then Some (int (read_nat (take 6 (fs @ ''000000'')))) else None)"

fun clock_fields :: "string \<Rightarrow> (int \<times> int \<times> int \<times> int) option" where
  "clock_fields [a, b] = Option.bind (digits_val [a, b]) (\<lambda>h. Some (h, 0, 0, 0))"
| "clock_fields [a, b, s1, c, d] =
     (if s1 = CHR '':'' then Option.bind (digits_val [a, b]) (\<lambda>h.
        Option.bind (digits_val [c, d]) (\<lambda>m. Some (h, m, 0, 0))) else None)"
| "clock_fields (a # b # s1 # c # d # s2 # e # f # rest) =
     (if s1 = CHR '':'' \<and> s2 = CHR '':'' then Option.bind (digits_val [a, b]) (\<lambda>h.
        Option.bind (digits_val [c, d]) (\<lambda>m. Option.bind (digits_val [e, f]) (\<lambda>sec.
        Option.bind (fraction rest) (\<lambda>us. Some (h, m, sec, us))))) else None)"
| "clock_fields _ = None"

definition clock_us :: "int \<times> int \<times> int \<times> int \<Rightarrow> int" where
  "clock_us = (\<lambda>(h, m, s, us). ((h * 60 + m) * 60 + s) * 1000000 + us)"

definition bad_format :: py_error where
  "bad_format = ValueError ''Invalid isoformat string''"

text \<open>The time of day and the offset to UTC, both in microseconds; no offset means UTC.\<close>

definition parse_time :: "string \<Rightarrow> (int \<times> int) res" where
  "parse_time s =
     (let body = takeWhile (\<lambda>c. c \<noteq> CHR ''+'' \<and> c \<noteq> CHR ''-'') s;
          tz = drop (length body) s
      in case clock_fields body of None \<Rightarrow> Inl bad_format
       | Some (h, m, sec, us) \<Rightarrow>
         if \<not> (h < 24 \<and> m < 60 \<and> sec < 60) then Inl bad_format
         else case tz of [] \<Rightarrow> Inr (clock_us (h, m, sec, us), 0)
           | sign # off \<Rightarrow>
             (case clock_fields off of None \<Rightarrow> Inl bad_format
              | Some f \<Rightarrow> if clock_us f < us_per_day
                  then Inr (clock_us (h, m, sec, us),
                            if sign = CHR ''-'' then - clock_us f else clock_us f)
                  else Inl bad_format))"

text \<open>\<open>datetime.fromisoformat\<close> followed by the conversion to UTC.\<close>

fun from_isoformat :: "string \<Rightarrow> int res" where
  "from_isoformat (a # b # c # d # s1 # e # f # s2 # g # h # rest) =
     (if s1 = CHR ''-'' \<and> s2 = CHR ''-'' then
        case (digits_val [a, b, c, d], digits_val [e, f], digits_val [g, h]) of
          (Some y, Some m, Some dd) \<Rightarrow>
            if \<not> valid_date y m dd then Inl bad_format
            else bindE (case rest of [] \<Rightarrow> Inr (0, 0) | sep # time \<Rightarrow> parse_time time) (\<lambda>(tod, off).
              let t = (ymd2ord y m dd - 1) * us_per_day + tod - off
              in if in_range t then Inr t else Inl (OverflowError ''date value out of range''))
        | _ \<Rightarrow> Inl bad_format
      else Inl bad_format)"
| "from_isoformat _ = Inl bad_format"

text \<open>\<open>_parse_utc\<close>: \<open>fromisoformat(value.replace("Z", "+00:00"))\<close>, naive times read as UTC.\<close>

definition replace_Z :: "string \<Rightarrow> string" where
  "replace_Z s = concat (map (\<lambda>c. if c = CHR ''Z'' then ''+00:00'' else [c]) s)"

definition parse_utc :: "string \<Rightarrow> int res" where
  "parse_utc s = from_isoformat (replace_Z s)"

text \<open>\<open>_add_seconds\<close>: \<open>_format_utc(_parse_utc(value) + timedelta(seconds=seconds))\<close>.\<close>

definition add_seconds :: "string \<Rightarrow> int \<Rightarrow> string res" where
  "add_seconds s secs =
     bindE (parse_utc s) (\<lambda>t.
       let t' = t + secs * 1000000
       in if in_range t' then Inr (format_utc t') else Inl (OverflowError ''date value out of range''))"

section \<open>Parsing what formatting wrote\<close>

lemma digits_val_digits:
  "list_all (\<lambda>n. n < 10) (n # ns) \<Longrightarrow>
     digits_val (map digit_char (n # ns)) = Some (int (foldl (\<lambda>acc k. 10 * acc + k) 0 (n # ns)))"
proof -
  assume a: "list_all (\<lambda>n. n < 10) (n # ns)"
  have "foldl (\<lambda>acc c. 10 * acc + digit_val c) k (map digit_char xs) = foldl (\<lambda>acc k. 10 * acc + k) k xs"
    if "list_all (\<lambda>n. n < 10) xs" for k xs
    using that by (induction xs arbitrary: k) auto
  from this[OF a, of 0] a show ?thesis
    by (auto simp: digits_val_def read_nat_def list_all_iff)
qed

lemma horner2: "(x::nat) < 100 \<Longrightarrow> 10 * (x div 10 mod 10) + x mod 10 = x"
  by simp

lemma horner_step: "10 * ((x::nat) div (10 * k)) + x div k mod 10 = x div k"
  by (metis div_mult2_eq mult_div_mod_eq mult.commute)

lemma horner_10:
  "10 * ((x::nat) div 10) + x mod 10 = x"
  "10 * (x div 100) + x div 10 mod 10 = x div 10"
  "10 * (x div 1000) + x div 100 mod 10 = x div 100"
  "10 * (x div 10000) + x div 1000 mod 10 = x div 1000"
  "10 * (x div 100000) + x div 10000 mod 10 = x div 10000"
  using horner_step[of x 1] horner_step[of x 10] horner_step[of x 100] horner_step[of x 1000]
    horner_step[of x 10000]
  by simp_all

lemma horner4:
  assumes "(x::nat) < 10000"
  shows "10 * (10 * (10 * (x div 1000 mod 10) + x div 100 mod 10) + x div 10 mod 10) + x mod 10 = x"
proof -
  have "x div 1000 mod 10 = x div 1000" using assms by (intro mod_less) (simp add: less_mult_imp_div_less)
  then show ?thesis by (simp only: horner_10)
qed

lemma horner6:
  assumes "(x::nat) < 1000000"
  shows "10 * (10 * (10 * (10 * (10 * (x div 100000 mod 10) + x div 10000 mod 10)
    + x div 1000 mod 10) + x div 100 mod 10) + x div 10 mod 10) + x mod 10 = x"
proof -
  have "x div 100000 mod 10 = x div 100000" using assms by (intro mod_less) (simp add: less_mult_imp_div_less)
  then show ?thesis by (simp only: horner_10)
qed

lemma digits_val_d2: "0 \<le> n \<Longrightarrow> n < 100 \<Longrightarrow>
    digits_val [digit_char (nat n div 10 mod 10), digit_char (nat n mod 10)] = Some n"
  using digits_val_digits[of "nat n div 10 mod 10" "[nat n mod 10]"] horner2[of "nat n"] by simp

lemma digits_val_d4: "0 \<le> n \<Longrightarrow> n < 10000 \<Longrightarrow>
    digits_val [digit_char (nat n div 1000 mod 10), digit_char (nat n div 100 mod 10),
      digit_char (nat n div 10 mod 10), digit_char (nat n mod 10)] = Some n"
proof -
  assume n: "0 \<le> n" "n < 10000"
  let ?ns = "[nat n div 1000 mod 10, nat n div 100 mod 10, nat n div 10 mod 10, nat n mod 10]"
  have "foldl (\<lambda>acc k. 10 * acc + k) 0 ?ns = nat n"
    unfolding foldl.simps mult_0_right add_0_left by (rule horner4) (use n in simp)
  moreover have "digits_val (map digit_char ?ns) = Some (int (foldl (\<lambda>acc k. 10 * acc + k) 0 ?ns))"
    by (rule digits_val_digits) simp
  ultimately show ?thesis using n by (simp only: list.map int_nat_eq if_True)
qed

lemma read_d6: "0 \<le> n \<Longrightarrow> n < 1000000 \<Longrightarrow> read_nat (d6 n) = nat n"
proof -
  assume n: "0 \<le> n" "n < 1000000"
  have v: "digit_val (digit_char (k mod 10)) = k mod 10" for k by simp
  have "read_nat (d6 n) = 10 * (10 * (10 * (10 * (10 * (nat n div 100000 mod 10) + nat n div 10000 mod 10)
    + nat n div 1000 mod 10) + nat n div 100 mod 10) + nat n div 10 mod 10) + nat n mod 10"
    unfolding d6_def read_nat_def by (simp only: foldl.simps v mult_0_right add_0_left)
  also have "\<dots> = nat n" by (rule horner6) (use n in simp)
  finally show ?thesis .
qed

lemma digit_char_neq:
  "n < 10 \<Longrightarrow> digit_char n \<noteq> CHR ''Z'' \<and> digit_char n \<noteq> CHR ''+'' \<and> digit_char n \<noteq> CHR ''-''"
  using is_digit_digit_char[of n] by (auto simp: is_digit_def simp del: is_digit_digit_char)

lemma replace_Z_append [simp]: "replace_Z (xs @ ys) = replace_Z xs @ replace_Z ys"
  by (simp add: replace_Z_def)

lemma digit_char_mod_neq:
  "digit_char (k mod 10) \<noteq> CHR ''Z'' \<and> digit_char (k mod 10) \<noteq> CHR ''+'' \<and> digit_char (k mod 10) \<noteq> CHR ''-''"
  by (rule digit_char_neq) simp

lemma replace_Z_id: "CHR ''Z'' \<notin> set s \<Longrightarrow> replace_Z s = s"
  by (induction s) (auto simp: replace_Z_def)

lemma replace_Z_d [simp]: "replace_Z (d2 n) = d2 n" "replace_Z (d4 n) = d4 n" "replace_Z (d6 n) = d6 n"
  unfolding d2_def d4_def d6_def
  by (rule replace_Z_id, simp only: list.set insert_iff empty_iff digit_char_mod_neq[THEN conjunct1] not_sym
      [OF digit_char_mod_neq[THEN conjunct1]] simp_thms)+

lemma replace_Z_Cons [simp]:
  "replace_Z (c # s) = (if c = CHR ''Z'' then ''+00:00'' else [c]) @ replace_Z s" "replace_Z [] = []"
  by (simp_all add: replace_Z_def)

lemma no_sign_d: "c \<in> set (d2 n) \<union> set (d6 n) \<Longrightarrow> c \<noteq> CHR ''+'' \<and> c \<noteq> CHR ''-''"
  unfolding d2_def d6_def using digit_char_mod_neq by (simp only: list.set Un_iff insert_iff empty_iff) metis

lemma d6_all_digits: "list_all is_digit (d6 n)" "length (d6 n) = 6"
  unfolding d6_def by (simp_all only: list_all_iff list.set ball_simps is_digit_digit_char mod_less_divisor zero_less_numeral simp_thms list.size)

lemma fraction_d6: "0 \<le> us \<Longrightarrow> us < 1000000 \<Longrightarrow> fraction (''.'' @ d6 us) = Some us"
  using read_d6[of us] d6_all_digits[of us] by (auto simp: fraction_def)

lemma drop_length_append: "drop (length xs) (xs @ ys) = ys"
  by simp

lemma parse_time_formatted:
  assumes "0 \<le> h" "h < 24" "0 \<le> m" "m < 60" "0 \<le> sec" "sec < 60" "0 \<le> us" "us < 1000000"
  shows "parse_time (d2 h @ '':'' @ d2 m @ '':'' @ d2 sec @ (if us = 0 then [] else ''.'' @ d6 us) @ ''+00:00'')
    = Inr (clock_us (h, m, sec, us), 0)"
proof -
  let ?fr = "if us = 0 then [] else ''.'' @ d6 us"
  let ?body = "d2 h @ '':'' @ d2 m @ '':'' @ d2 sec @ ?fr"
  have fr: "fraction ?fr = Some us"
    using fraction_d6 assms by (auto simp: fraction_def)
  have "c \<noteq> CHR ''+'' \<and> c \<noteq> CHR ''-''" if "c \<in> set ?body" for c
    using that no_sign_d by (auto split: if_splits)
  then have "takeWhile (\<lambda>c. c \<noteq> CHR ''+'' \<and> c \<noteq> CHR ''-'') (?body @ ''+00:00'') = ?body"
    by (subst takeWhile_append2) auto
  then have tw: "takeWhile (\<lambda>c. c \<noteq> CHR ''+'' \<and> c \<noteq> CHR ''-'')
      (d2 h @ '':'' @ d2 m @ '':'' @ d2 sec @ ?fr @ ''+00:00'') = ?body" by simp
  have dr: "drop (length ?body) (d2 h @ '':'' @ d2 m @ '':'' @ d2 sec @ ?fr @ ''+00:00'') = ''+00:00''"
    using drop_length_append[of ?body "''+00:00''"] by (simp only: append.assoc)
  have cf: "clock_fields ?body = Some (h, m, sec, us)"
  proof -
    have dv: "digits_val (d2 k) = Some k" if "0 \<le> k" "k < 100" for k
      using digits_val_d2[OF that] by (simp add: d2_def)
    have "clock_fields (d2 h @ '':'' @ d2 m @ '':'' @ d2 sec @ r) =
        Option.bind (digits_val (d2 h)) (\<lambda>h. Option.bind (digits_val (d2 m)) (\<lambda>m.
        Option.bind (digits_val (d2 sec)) (\<lambda>sec. Option.bind (fraction r) (\<lambda>us. Some (h, m, sec, us)))))" for r
      by (simp add: d2_def)
    from this[of ?fr] show ?thesis using assms fr by (simp add: dv)
  qed
  have off: "clock_fields ''00:00'' = Some (0, 0, 0, 0)"
    by (simp add: digits_val_def is_digit_def read_nat_def digit_val_def)
  show ?thesis
    unfolding parse_time_def Let_def tw dr cf using assms off
    by (simp add: us_per_day_def) (simp add: clock_us_def)
qed

lemma from_isoformat_digits:
  assumes "valid_date y m d" "y < 10000" "m < 100" "d < 100"
  shows "from_isoformat (d4 y @ ''-'' @ d2 m @ ''-'' @ d2 d @ ''T'' @ time) =
    bindE (parse_time time) (\<lambda>(tod, off).
      let t = (ymd2ord y m d - 1) * us_per_day + tod - off
      in if in_range t then Inr t else Inl (OverflowError ''date value out of range''))"
proof -
  have nn: "0 \<le> y" "0 \<le> m" "0 \<le> d" using assms(1) by (auto simp: valid_date_def)
  obtain c1 c2 c3 c4 where y: "d4 y = [c1, c2, c3, c4]" by (simp add: d4_def)
  obtain c5 c6 where m: "d2 m = [c5, c6]" by (simp add: d2_def)
  obtain c7 c8 where d: "d2 d = [c7, c8]" by (simp add: d2_def)
  have "digits_val (d4 y) = Some y" "digits_val (d2 m) = Some m" "digits_val (d2 d) = Some d"
    unfolding d4_def d2_def using nn assms by (auto intro: digits_val_d4 digits_val_d2 simp only:)
  then have dv: "digits_val [c1, c2, c3, c4] = Some y" "digits_val [c5, c6] = Some m" "digits_val [c7, c8] = Some d"
    by (simp_all only: y m d)
  show ?thesis unfolding y m d by (simp add: dv assms(1))
qed

lemma clock_us_split:
  assumes "0 \<le> u" "u < us_per_day"
  defines "sec \<equiv> u div 1000000"
  shows "clock_us (sec div 3600, sec div 60 mod 60, sec mod 60, u mod 1000000) = u"
    and "sec div 3600 < 24" and "0 \<le> sec"
proof -
  have s: "0 \<le> sec" "sec < 86400" "sec * 1000000 + u mod 1000000 = u"
    using assms by (auto simp: us_per_day_def)
  then show "sec div 3600 < 24" "0 \<le> sec" by auto
  have "sec div 3600 = sec div 60 div 60" by (simp add: zdiv_zmult2_eq[of 60 sec 60, simplified])
  then have "(sec div 3600 * 60 + sec div 60 mod 60) * 60 + sec mod 60 = sec" by simp
  with s(3) show "clock_us (sec div 3600, sec div 60 mod 60, sec mod 60, u mod 1000000) = u"
    by (simp add: clock_us_def)
qed

lemma parse_format_utc:
  assumes "in_range t"
  shows "parse_utc (format_utc t) = Inr t"
proof -
  define u where "u = t mod us_per_day"
  obtain y m d where ymd: "ord2ymd (t div us_per_day + 1) = (y, m, d)" by (metis surj_pair)
  have u: "0 \<le> u" "u < us_per_day" by (simp_all add: u_def us_per_day_def)
  have t: "t = us_per_day * (t div us_per_day) + u" by (simp add: u_def)
  have "0 \<le> t div us_per_day" "t div us_per_day < 3652059"
    using assms by (auto simp: in_range_def max_instant_def us_per_day_def)
  with ord2ymd_correct[OF _ _ ymd] have v: "valid_date y m d" and o: "ymd2ord y m d = t div us_per_day + 1"
    by auto
  have dim: "days_in_month y m \<le> 31"
  proof -
    have "1 \<le> m" "m \<le> 12" using v by (auto simp: valid_date_def)
    then have "m = 1 \<or> m = 2 \<or> m = 3 \<or> m = 4 \<or> m = 5 \<or> m = 6 \<or> m = 7 \<or> m = 8 \<or> m = 9 \<or> m = 10 \<or> m = 11 \<or> m = 12"
      by arith
    then show ?thesis by (elim disjE) (simp_all add: days_in_month_def month_starts_def)
  qed
  define sec where "sec = u div 1000000"
  let ?time = "d2 (sec div 3600) @ '':'' @ d2 (sec div 60 mod 60) @ '':'' @ d2 (sec mod 60) @
      (if u mod 1000000 = 0 then [] else ''.'' @ d6 (u mod 1000000)) @ ''+00:00''"
  have "parse_utc (format_utc t) = from_isoformat (d4 y @ ''-'' @ d2 m @ ''-'' @ d2 d @ ''T'' @ ?time)"
    by (simp add: parse_utc_def format_utc_def ymd Let_def flip: u_def sec_def)
  also have "\<dots> = bindE (parse_time ?time) (\<lambda>(tod, off).
      let t = (ymd2ord y m d - 1) * us_per_day + tod - off
      in if in_range t then Inr t else Inl (OverflowError ''date value out of range''))"
    by (rule from_isoformat_digits) (use v dim in \<open>auto simp: valid_date_def\<close>)
  also have "parse_time ?time = Inr (clock_us (sec div 3600, sec div 60 mod 60, sec mod 60, u mod 1000000), 0)"
    by (rule parse_time_formatted) (simp_all add: clock_us_split[OF u, folded sec_def] pos_imp_zdiv_nonneg_iff)
  also note clock_us_split(1)[OF u, folded sec_def]
  finally have "parse_utc (format_utc t) =
      (let t = (ymd2ord y m d - 1) * us_per_day + u - 0
       in if in_range t then Inr t else Inl (OverflowError ''date value out of range''))" by simp
  moreover have "(ymd2ord y m d - 1) * us_per_day + u - 0 = t" by (simp add: o u_def)
  ultimately show ?thesis using assms by simp
qed

section \<open>The clock interface\<close>

text \<open>
  What the lease and the recovery rules rely on: timestamps are texts, a deadline is computed by
  adding seconds to a timestamp, and texts are compared by the instants they denote.
\<close>

locale utc_clock =
  fixes parse :: "string \<Rightarrow> int res"
    and fmt :: "int \<Rightarrow> string"
    and valid :: "int \<Rightarrow> bool"
    and add :: "string \<Rightarrow> int \<Rightarrow> string res"
  assumes parse_fmt: "valid t \<Longrightarrow> parse (fmt t) = Inr t"
    and parse_valid: "parse s = Inr t \<Longrightarrow> valid t"
    and add_inside: "parse s = Inr t \<Longrightarrow> valid (t + n * 1000000) \<Longrightarrow> add s n = Inr (fmt (t + n * 1000000))"
    and add_outside: "parse s = Inr t \<Longrightarrow> \<not> valid (t + n * 1000000) \<Longrightarrow> \<not> is_ok (add s n)"
    and add_unread: "parse s = Inl e \<Longrightarrow> \<not> is_ok (add s n)"
begin

lemma add_instant:
  assumes "add s n = Inr d"
  obtains t where "parse s = Inr t" and "parse d = Inr (t + n * 1000000)"
proof (cases "parse s")
  case (Inl e)
  then show ?thesis using add_unread[OF Inl, of n] assms by simp
next
  case (Inr t)
  then show ?thesis
    using add_inside[OF Inr, of n] add_outside[OF Inr, of n] parse_fmt[of "t + n * 1000000"] that assms
    by (cases "valid (t + n * 1000000)") auto
qed

lemma add_later: "add s n = Inr d \<Longrightarrow> 0 \<le> n \<Longrightarrow> parse s = Inr t \<Longrightarrow> parse d = Inr u \<Longrightarrow> t \<le> u"
  by (erule add_instant) simp

lemma add_mono:
  assumes "add s n = Inr d" "add s' n = Inr d'" "parse s = Inr t" "parse s' = Inr t'" "t \<le> t'"
    and "parse d = Inr u" "parse d' = Inr u'"
  shows "u \<le> u'"
proof -
  from assms(1) obtain x where "parse s = Inr x" "parse d = Inr (x + n * 1000000)" by (rule add_instant)
  moreover from assms(2) obtain y where "parse s' = Inr y" "parse d' = Inr (y + n * 1000000)"
    by (rule add_instant)
  ultimately show ?thesis using assms by simp
qed

lemma add_add: "add s m = Inr d \<Longrightarrow> add d n = Inr e \<Longrightarrow> add s (m + n) = Inr e"
proof (erule add_instant)
  fix t assume t: "parse s = Inr t" "parse d = Inr (t + m * 1000000)" and e: "add d n = Inr e"
  have v: "valid (t + m * 1000000 + n * 1000000)"
    using add_outside[OF t(2), of n] e by (cases "valid (t + m * 1000000 + n * 1000000)") auto
  have "e = fmt (t + m * 1000000 + n * 1000000)" using add_inside[OF t(2) v] e by simp
  moreover have "valid (t + (m + n) * 1000000)" using v by (simp add: algebra_simps)
  ultimately show ?thesis using add_inside[OF t(1), of "m + n"] by (simp add: algebra_simps)
qed

end

lemma from_isoformat_range: "from_isoformat s = Inr t \<Longrightarrow> in_range t"
  by (cases s rule: from_isoformat.cases)
    (auto simp: res_simps Let_def split: if_splits option.splits list.splits)

interpretation utc: utc_clock parse_utc format_utc in_range add_seconds
proof
  show "in_range t \<Longrightarrow> parse_utc (format_utc t) = Inr t" for t by (rule parse_format_utc)
  show "parse_utc s = Inr t \<Longrightarrow> in_range t" for s t
    by (simp add: parse_utc_def from_isoformat_range)
qed (auto simp: add_seconds_def Let_def)

end
