(* ===== verification/Core_Recovery.thy ===== *)
theory Core_Recovery
  imports Core_Models Py_Clock
begin

text \<open>
  \<open>core/recovery.py\<close>: whether a submission is still authorised by its lease, and whether a
  failure is retried. The lemmas characterise acceptance and show that the retry budget is
  spent exactly.
\<close>

section \<open>Retry triggers\<close>

definition supported_retry_triggers :: "string list" where
  "supported_retry_triggers =
     [''lease_expired'', ''executor_error'', ''parser_failure'', ''verification_rejected'',
      ''checker_rejected'', ''no_return'']"

definition retry_attempt_states :: "(string, attempt_state) dict" where
  "retry_attempt_states =
     [(''lease_expired'', AS_SUPERSEDED), (''no_return'', AS_SUPERSEDED), (''executor_error'', AS_FAILED),
      (''parser_failure'', AS_REJECTED), (''verification_rejected'', AS_REJECTED),
      (''checker_rejected'', AS_REJECTED)]"

definition retry_attempt_state :: "string \<Rightarrow> attempt_state res" where
  "retry_attempt_state trigger =
     (case dict_get retry_attempt_states trigger of None \<Rightarrow> Inl (KeyError trigger) | Some s \<Rightarrow> Inr s)"

section \<open>Submissions\<close>

record submission_view =
  sv_task_id :: string
  sv_unit_id :: string
  sv_attempt_id :: string
  sv_lease_id :: string
  sv_fencing_token :: string
  sv_submitted_at :: string

record acceptance_decision =
  ac_acceptance_status :: string
  ac_rejection_reason :: "string option"

definition accepted :: acceptance_decision where
  "accepted = \<lparr>ac_acceptance_status = ''accepted'', ac_rejection_reason = None\<rparr>"

definition rejected :: "string \<Rightarrow> acceptance_decision" where
  "rejected reason = \<lparr>ac_acceptance_status = ''rejected'', ac_rejection_reason = Some reason\<rparr>"

definition evaluate_submission_acceptance ::
  "submission_view \<Rightarrow> attempt \<Rightarrow> lease \<Rightarrow> acceptance_decision res" where
  "evaluate_submission_acceptance s a l =
     (if at_state a \<noteq> AS_RUNNING then Inr (rejected ''attempt_not_running'')
      else if ls_state l \<noteq> LS_ACTIVE then Inr (rejected ''lease_not_active'')
      else if sv_task_id s \<noteq> at_task_id a \<or> ls_task_id l \<noteq> at_task_id a
      then Inr (rejected ''task_id_mismatch'')
      else if sv_unit_id s \<noteq> at_unit_id a \<or> ls_unit_id l \<noteq> at_unit_id a
      then Inr (rejected ''unit_id_mismatch'')
      else if sv_attempt_id s \<noteq> at_attempt_id a \<or> ls_attempt_id l \<noteq> at_attempt_id a
      then Inr (rejected ''attempt_id_mismatch'')
      else if sv_lease_id s \<noteq> at_lease_id a \<or> ls_lease_id l \<noteq> at_lease_id a
      then Inr (rejected ''lease_id_mismatch'')
      else if sv_fencing_token s \<noteq> ls_fencing_token l
      then Inr (rejected ''fencing_token_mismatch'')
      else bindE (parse_utc (sv_submitted_at s)) (\<lambda>submitted.
           bindE (parse_utc (ls_expires_at l)) (\<lambda>deadline.
             if submitted > deadline then Inr (rejected ''lease_deadline_exceeded'')
             else Inr accepted)))"

section \<open>Retry decisions\<close>

record retry_decision =
  rd_trigger :: string
  rd_retry_allowed :: bool
  rd_next_task_state :: task_state
  rd_superseded_attempt_state :: attempt_state
  rd_retry_count :: int
  rd_reason :: string

text \<open>\<open>__post_init__\<close>; the tests on the types of the fields hold by typing.\<close>

definition mk_retry_decision :: "retry_decision \<Rightarrow> retry_decision res" where
  "mk_retry_decision d =
     seqE (require (rd_trigger d \<in> set supported_retry_triggers)
       (ValueError ''invalid RetryDecision: unsupported trigger''))
     (seqE (raise_if (rd_retry_count d < 0)
       (ValueError ''invalid RetryDecision: retry_count must be non-negative''))
     (bindE (retry_attempt_state (rd_trigger d)) (\<lambda>expected_attempt.
     (seqE (raise_if (rd_superseded_attempt_state d \<noteq> expected_attempt)
       (ValueError ''invalid RetryDecision: attempt state does not match trigger''))
     (seqE (raise_if (rd_next_task_state d \<noteq> (if rd_retry_allowed d then TS_READY else TS_FAILED))
       (ValueError ''invalid RetryDecision: task state does not match retry_allowed''))
     (seqE (raise_if (rd_reason d \<noteq> (if rd_retry_allowed d then rd_trigger d @ ''_retry''
                                     else ''retry_limit_reached''))
       (ValueError ''invalid RetryDecision: reason does not match retry conclusion''))
     (Inr d)))))))"

definition evaluate_retry :: "string \<Rightarrow> int \<Rightarrow> int \<Rightarrow> retry_decision res" where
  "evaluate_retry trigger retry_count max_retries =
     seqE (require (trigger \<in> set supported_retry_triggers)
       (ValueError (''unsupported recovery trigger: '' @ trigger)))
     (seqE (raise_if (retry_count < 0) (ValueError ''retry_count must be non-negative''))
     (seqE (raise_if (max_retries < 0) (ValueError ''max_retries must be non-negative''))
     (bindE (retry_attempt_state trigger) (\<lambda>attempt_state.
     (let retry_allowed = retry_count \<le> max_retries in
      mk_retry_decision
        \<lparr>rd_trigger = trigger, rd_retry_allowed = retry_allowed,
         rd_next_task_state = (if retry_allowed then TS_READY else TS_FAILED),
         rd_superseded_attempt_state = attempt_state, rd_retry_count = retry_count,
         rd_reason = (if retry_allowed then trigger @ ''_retry'' else ''retry_limit_reached'')\<rparr>)))))"

section \<open>What is accepted\<close>

lemma accepted_neq_rejected [simp]: "accepted \<noteq> rejected r" "rejected r \<noteq> accepted"
  by (simp_all add: accepted_def rejected_def)

lemma acceptance_iff:
  "evaluate_submission_acceptance s a l = Inr accepted \<longleftrightarrow>
     at_state a = AS_RUNNING \<and> ls_state l = LS_ACTIVE \<and>
     [sv_task_id s, sv_unit_id s, sv_attempt_id s, sv_lease_id s]
       = [at_task_id a, at_unit_id a, at_attempt_id a, at_lease_id a] \<and>
     [ls_task_id l, ls_unit_id l, ls_attempt_id l, ls_lease_id l]
       = [at_task_id a, at_unit_id a, at_attempt_id a, at_lease_id a] \<and>
     sv_fencing_token s = ls_fencing_token l \<and>
     (\<exists>t u. parse_utc (sv_submitted_at s) = Inr t \<and> parse_utc (ls_expires_at l) = Inr u \<and> t \<le> u)"
  by (auto simp: evaluate_submission_acceptance_def res_simps not_less cong: conj_cong)

lemma not_running_rejected:
  "at_state a \<noteq> AS_RUNNING \<Longrightarrow>
     evaluate_submission_acceptance s a l = Inr (rejected ''attempt_not_running'')"
  by (simp add: evaluate_submission_acceptance_def)

section \<open>The retry budget\<close>

lemma retry_attempt_state_supported:
  "trigger \<in> set supported_retry_triggers \<longleftrightarrow> is_ok (retry_attempt_state trigger)"
  by (auto simp: supported_retry_triggers_def retry_attempt_state_def retry_attempt_states_def)

lemma retry_attempt_state_terminal:
  "retry_attempt_state trigger = Inr s \<Longrightarrow> s \<in> {AS_SUPERSEDED, AS_FAILED, AS_REJECTED}"
  by (auto simp: retry_attempt_state_def retry_attempt_states_def split: if_splits)

lemma mk_retry_decision_ok:
  "mk_retry_decision d = Inr d' \<longleftrightarrow> d' = d \<and> rd_trigger d \<in> set supported_retry_triggers \<and>
     0 \<le> rd_retry_count d \<and> retry_attempt_state (rd_trigger d) = Inr (rd_superseded_attempt_state d) \<and>
     rd_next_task_state d = (if rd_retry_allowed d then TS_READY else TS_FAILED) \<and>
     rd_reason d = (if rd_retry_allowed d then rd_trigger d @ ''_retry'' else ''retry_limit_reached'')"
  by (auto simp: mk_retry_decision_def res_simps)

lemma evaluate_retry_ok:
  "evaluate_retry trigger n m = Inr d \<longleftrightarrow>
     trigger \<in> set supported_retry_triggers \<and> 0 \<le> n \<and> 0 \<le> m \<and>
     retry_attempt_state trigger = Inr (rd_superseded_attempt_state d) \<and>
     rd_trigger d = trigger \<and> rd_retry_count d = n \<and> rd_retry_allowed d = (n \<le> m) \<and>
     rd_next_task_state d = (if n \<le> m then TS_READY else TS_FAILED) \<and>
     rd_reason d = (if n \<le> m then trigger @ ''_retry'' else ''retry_limit_reached'')"
  by (cases d) (auto simp: evaluate_retry_def mk_retry_decision_ok res_simps Let_def)

lemma evaluate_retry_total:
  "trigger \<in> set supported_retry_triggers \<Longrightarrow> 0 \<le> n \<Longrightarrow> 0 \<le> m \<Longrightarrow>
     \<exists>d. evaluate_retry trigger n m = Inr d"
  by (auto simp: evaluate_retry_def mk_retry_decision_def retry_attempt_state_supported Let_def is_ok_iff)

text \<open>Whether the \<open>n\<close>-th failure of a unit sends it back to Ready.\<close>

definition retried :: "string \<Rightarrow> int \<Rightarrow> int \<Rightarrow> bool" where
  "retried trigger m n =
     (case evaluate_retry trigger n m of Inl _ \<Rightarrow> False | Inr d \<Rightarrow> rd_next_task_state d = TS_READY)"

lemma retried_iff:
  assumes "trigger \<in> set supported_retry_triggers" "0 \<le> m" "0 \<le> n"
  shows "retried trigger m n \<longleftrightarrow> n \<le> m"
proof -
  obtain d where d: "evaluate_retry trigger n m = Inr d" using evaluate_retry_total assms by blast
  then have "rd_next_task_state d = TS_READY \<longleftrightarrow> n \<le> m" by (simp add: evaluate_retry_ok)
  with d show ?thesis by (simp add: retried_def)
qed

text \<open>
  C22 retry_budget: with \<open>m\<close> replacements configured, of the failures numbered 1, 2, ..., k of
  a unit exactly the first min k m are retried, whatever supported trigger they have (so a unit
  is executed at most m + 1 times), and every decision names Ready or Failed for the unit and a
  terminal attempt state for the failed execution.
\<close>

theorem retry_budget:
  assumes "trigger \<in> set supported_retry_triggers" and "0 \<le> m"
  shows "length (filter (retried trigger m) [1..int k]) = min k (nat m) \<and>
    (\<forall>n. 0 \<le> n \<longrightarrow> (\<exists>d. evaluate_retry trigger n m = Inr d \<and>
      (rd_next_task_state d = TS_READY \<longleftrightarrow> n \<le> m) \<and> (rd_next_task_state d = TS_FAILED \<longleftrightarrow> m < n) \<and>
      rd_superseded_attempt_state d \<in> {AS_SUPERSEDED, AS_FAILED, AS_REJECTED}))"
proof (intro conjI allI impI)
  have "filter (retried trigger m) [1..int k] = filter (\<lambda>n. n \<le> m) [1..int k]"
    by (rule filter_cong) (auto simp: retried_iff assms)
  also have "\<dots> = [1..min (int k) m]"
  proof (cases "int k \<le> m")
    case True
    then show ?thesis by (simp add: min_def)
  next
    case False
    then have "[1..int k] = [1..m] @ [m + 1..int k]" using upto_split2[of 1 m "int k"] assms(2) by (cases "m = 0") auto
    moreover have "filter (\<lambda>n. n \<le> m) [1..m] = [1..m]" by (rule filter_True) auto
    moreover have "filter (\<lambda>n. n \<le> m) [m + 1..int k] = []" by (rule filter_False) auto
    ultimately show ?thesis using False by (simp add: min_def)
  qed
  finally show "length (filter (retried trigger m) [1..int k]) = min k (nat m)"
    using assms(2) by (auto simp: min_def)
next
  fix n :: int assume n: "0 \<le> n"
  then obtain d where d: "evaluate_retry trigger n m = Inr d" using evaluate_retry_total assms by blast
  from d have "(rd_next_task_state d = TS_READY \<longleftrightarrow> n \<le> m) \<and> (rd_next_task_state d = TS_FAILED \<longleftrightarrow> m < n)"
    and "retry_attempt_state trigger = Inr (rd_superseded_attempt_state d)"
    by (auto simp: evaluate_retry_ok)
  with d show "\<exists>d. evaluate_retry trigger n m = Inr d \<and>
      (rd_next_task_state d = TS_READY \<longleftrightarrow> n \<le> m) \<and> (rd_next_task_state d = TS_FAILED \<longleftrightarrow> m < n) \<and>
      rd_superseded_attempt_state d \<in> {AS_SUPERSEDED, AS_FAILED, AS_REJECTED}"
    using retry_attempt_state_terminal by blast
qed

lemma retry_budget_witness:
  "length (filter (retried ''lease_expired'' 3) [1..int 5]) = 3"
  using retry_budget[of "''lease_expired''" 3 5] by (simp add: supported_retry_triggers_def)

end
