(* ===== verification/Core_State_Machines.thy ===== *)
theory Core_State_Machines
  imports Core_Models
begin

text \<open>
  \<open>core/state_machines.py\<close>: the transition tables of TaskUnit, Lease and Attempt and the
  functions that apply one transition. The lemmas show which transitions succeed, what they
  keep, that terminal states have no way out, and what every attempt that was reached from
  \<open>Created\<close> by transitions looks like.
\<close>

section \<open>Transition tables\<close>

definition task_unit_transitions :: "(task_state \<times> task_state) list" where
  "task_unit_transitions =
     [(TS_CREATED, TS_READY), (TS_CREATED, TS_BLOCKED), (TS_BLOCKED, TS_READY),
      (TS_READY, TS_PROCESSING), (TS_PROCESSING, TS_READY), (TS_PROCESSING, TS_FAILED),
      (TS_PROCESSING, TS_COMPLETED), (TS_READY, TS_CANCELLED), (TS_PROCESSING, TS_CANCELLED),
      (TS_BLOCKED, TS_CANCELLED)]"

definition lease_transitions :: "(lease_state \<times> lease_state) list" where
  "lease_transitions =
     [(LS_ACTIVE, LS_ACTIVE), (LS_ACTIVE, LS_RELEASED), (LS_ACTIVE, LS_EXPIRED),
      (LS_ACTIVE, LS_REVOKED)]"

definition attempt_transitions :: "(attempt_state \<times> attempt_state) list" where
  "attempt_transitions =
     [(AS_CREATED, AS_RUNNING), (AS_CREATED, AS_SUPERSEDED), (AS_RUNNING, AS_SUBMITTED),
      (AS_RUNNING, AS_FAILED), (AS_RUNNING, AS_SUPERSEDED), (AS_SUBMITTED, AS_VERIFIED),
      (AS_SUBMITTED, AS_REJECTED), (AS_SUBMITTED, AS_FAILED), (AS_VERIFIED, AS_CANONICAL)]"

section \<open>Transitions\<close>

definition transition_task_unit ::
  "task_unit \<Rightarrow> task_state \<Rightarrow> string \<Rightarrow> string \<Rightarrow> string \<Rightarrow> task_unit res" where
  "transition_task_unit u target reason trigger changed_at =
     (if (tu_state u, target) \<notin> set task_unit_transitions
      then Inl (ValueError (''illegal TaskUnit transition: '' @ task_state_value (tu_state u) @ '' -> ''
             @ task_state_value target))
      else if reason = [] \<or> trigger = []
      then Inl (ValueError ''TaskUnit transition requires reason and trigger'')
      else mk_task_unit (u\<lparr>tu_state := target, tu_updated_at := changed_at\<rparr>))"

definition transition_lease :: "lease \<Rightarrow> lease_state \<Rightarrow> string \<Rightarrow> string \<Rightarrow> lease res" where
  "transition_lease l target changed_at reason =
     (if (ls_state l, target) \<notin> set lease_transitions
      then Inl (ValueError (''illegal Lease transition: '' @ lease_state_value (ls_state l) @ '' -> ''
             @ lease_state_value target))
      else if target = LS_ACTIVE then Inr l
      else Inr (l\<lparr>ls_state := target, ls_terminated_at := Some changed_at,
                 ls_terminated_reason := Some reason\<rparr>))"

text \<open>The optional keyword arguments of \<open>transition_attempt\<close>.\<close>

record attempt_args =
  aa_environment_summary :: "jobj option"
  aa_raw_output_ref :: "artifact_ref option"
  aa_parsed_output_ref :: "artifact_ref option"
  aa_candidate_output_refs :: "(string, artifact_ref) dict option"
  aa_log_ref :: "artifact_ref option"
  aa_failure_kind :: "string option"
  aa_failure_reason :: "string option"
  aa_superseded_by_attempt_id :: "string option"
  aa_metadata :: "jobj option"

definition no_args :: attempt_args where
  "no_args = \<lparr>aa_environment_summary = None, aa_raw_output_ref = None, aa_parsed_output_ref = None,
     aa_candidate_output_refs = None, aa_log_ref = None, aa_failure_kind = None,
     aa_failure_reason = None, aa_superseded_by_attempt_id = None, aa_metadata = None\<rparr>"

text \<open>\<open>x or default\<close> for optional strings and dictionaries, where empty counts as missing.\<close>

definition or_str :: "string option \<Rightarrow> string \<Rightarrow> string" where
  "or_str x dflt = (case x of None \<Rightarrow> dflt | Some s \<Rightarrow> if s = [] then dflt else s)"

definition or_opt :: "'a list option \<Rightarrow> 'a list option \<Rightarrow> 'a list option" where
  "or_opt x y = (case x of None \<Rightarrow> y | Some d \<Rightarrow> if d = [] then y else x)"

definition or_empty :: "'a list option \<Rightarrow> 'a list" where
  "or_empty x = (case x of None \<Rightarrow> [] | Some d \<Rightarrow> d)"

definition transition_attempt ::
  "attempt \<Rightarrow> attempt_state \<Rightarrow> string \<Rightarrow> string \<Rightarrow> attempt_args \<Rightarrow> attempt res" where
  "transition_attempt a target changed_at reason args =
     (if (at_state a, target) \<notin> set attempt_transitions
      then Inl (ValueError (''illegal Attempt transition: '' @ attempt_state_value (at_state a) @ '' -> ''
             @ attempt_state_value target))
      else if reason = [] then Inl (ValueError ''Attempt transition requires reason'')
      else Inr (case target of
          AS_RUNNING \<Rightarrow>
            a\<lparr>at_state := target, at_started_at := Some (or_str (at_started_at a) changed_at)\<rparr>
        | AS_SUBMITTED \<Rightarrow>
            a\<lparr>at_state := target, at_submitted_at := Some changed_at,
              at_environment_summary := or_opt (aa_environment_summary args) (at_environment_summary a),
              at_raw_output_ref := aa_raw_output_ref args,
              at_parsed_output_ref := aa_parsed_output_ref args,
              at_candidate_output_refs := Some (or_empty (aa_candidate_output_refs args)),
              at_log_ref := aa_log_ref args\<rparr>
        | AS_FAILED \<Rightarrow>
            a\<lparr>at_state := target, at_finished_at := Some changed_at,
              at_failure_kind := Some (or_str (aa_failure_kind args) ''executor_error''),
              at_failure_reason := Some (or_str (aa_failure_reason args) reason)\<rparr>
        | AS_VERIFIED \<Rightarrow> a\<lparr>at_state := target, at_finished_at := Some changed_at\<rparr>
        | AS_REJECTED \<Rightarrow>
            a\<lparr>at_state := target, at_finished_at := Some changed_at,
              at_failure_kind := Some (or_str (aa_failure_kind args) ''invalid_output''),
              at_failure_reason := Some (or_str (aa_failure_reason args) reason)\<rparr>
        | AS_CANONICAL \<Rightarrow>
            a\<lparr>at_state := target,
              at_metadata := Some (dict_update (or_empty (at_metadata a)) (or_empty (aa_metadata args)))\<rparr>
        | _ \<Rightarrow>
            a\<lparr>at_state := target, at_finished_at := Some changed_at,
              at_superseded_by_attempt_id := aa_superseded_by_attempt_id args\<rparr>))"

section \<open>One transition\<close>

lemma transition_task_unit_ok:
  "transition_task_unit u target reason trigger now = Inr v \<longleftrightarrow>
     (tu_state u, target) \<in> set task_unit_transitions \<and> reason \<noteq> [] \<and> trigger \<noteq> [] \<and>
     -1 \<le> tu_last_attempt_ordinal u \<and> v = u\<lparr>tu_state := target, tu_updated_at := now\<rparr>"
  by (auto simp: transition_task_unit_def mk_task_unit_def)

lemma transition_lease_ok:
  "transition_lease l target now reason = Inr m \<longleftrightarrow>
     ls_state l = LS_ACTIVE \<and>
     m = (if target = LS_ACTIVE then l
          else l\<lparr>ls_state := target, ls_terminated_at := Some now, ls_terminated_reason := Some reason\<rparr>)"
  by (cases target) (auto simp: transition_lease_def lease_transitions_def)

lemma transition_attempt_allowed:
  "transition_attempt a target now reason args = Inr b \<Longrightarrow>
     (at_state a, target) \<in> set attempt_transitions \<and> reason \<noteq> [] \<and> at_state b = target"
  by (cases target) (auto simp: transition_attempt_def split: if_splits)

lemma transition_attempt_total:
  "(at_state a, target) \<in> set attempt_transitions \<Longrightarrow> reason \<noteq> [] \<Longrightarrow>
     \<exists>b. transition_attempt a target now reason args = Inr b"
  by (simp add: transition_attempt_def)

text \<open>What an attempt is for: no transition changes which execution it stands for.\<close>

definition attempt_identity :: "attempt \<Rightarrow> string list \<times> int" where
  "attempt_identity a =
     ([at_attempt_id a, at_task_id a, at_unit_id a, at_lease_id a, at_client_id a, at_attempt_kind a,
       at_created_at a, at_schema_version a], at_attempt_ordinal a)"

lemma transition_attempt_identity:
  "transition_attempt a target now reason args = Inr b \<Longrightarrow> attempt_identity b = attempt_identity a"
  by (cases target) (auto simp: transition_attempt_def attempt_identity_def split: if_splits)

section \<open>Runs of transitions\<close>

text \<open>
  \<open>attempt_reach n a b\<close>: \<open>b\<close> comes from \<open>a\<close> by \<open>n\<close> successful calls of \<open>transition_attempt\<close>,
  with any times, reasons and keyword arguments.
\<close>

inductive attempt_reach :: "nat \<Rightarrow> attempt \<Rightarrow> attempt \<Rightarrow> bool" where
  attempt_refl: "attempt_reach 0 a a"
| attempt_step: "attempt_reach n a b \<Longrightarrow> transition_attempt b target now reason args = Inr c \<Longrightarrow>
     attempt_reach (Suc n) a c"

inductive_cases attempt_reach_SucE: "attempt_reach (Suc n) a c"

inductive task_unit_reach :: "task_unit \<Rightarrow> task_unit \<Rightarrow> bool" where
  unit_refl: "task_unit_reach u u"
| unit_step: "task_unit_reach u v \<Longrightarrow> transition_task_unit v target reason trigger now = Inr w \<Longrightarrow>
     task_unit_reach u w"

text \<open>How many transitions an attempt still has in front of it.\<close>

fun attempt_rank :: "attempt_state \<Rightarrow> nat" where
  "attempt_rank AS_CREATED = 4"
| "attempt_rank AS_RUNNING = 3"
| "attempt_rank AS_SUBMITTED = 2"
| "attempt_rank AS_VERIFIED = 1"
| "attempt_rank _ = 0"

lemma attempt_rank_step:
  "transition_attempt a target now reason args = Inr b \<Longrightarrow>
     attempt_rank (at_state b) < attempt_rank (at_state a)"
  by (drule transition_attempt_allowed) (auto simp: attempt_transitions_def)

lemma attempt_reach_rank:
  "attempt_reach n a b \<Longrightarrow> n + attempt_rank (at_state b) \<le> attempt_rank (at_state a)"
proof (induction rule: attempt_reach.induct)
  case (attempt_step n a b target now reason args c)
  with attempt_rank_step[OF attempt_step.hyps(2)] show ?case by linarith
qed simp

text \<open>The facts recorded on an attempt in each of its states.\<close>

definition nonempty_opt :: "string option \<Rightarrow> bool" where
  "nonempty_opt x \<longleftrightarrow> (\<exists>s. x = Some s \<and> s \<noteq> [])"

fun attempt_facts :: "attempt_state \<Rightarrow> attempt \<Rightarrow> bool" where
  "attempt_facts AS_CREATED a =
     (at_started_at a = None \<and> at_submitted_at a = None \<and> at_finished_at a = None \<and> at_failure_kind a = None)"
| "attempt_facts AS_RUNNING a =
     (at_started_at a \<noteq> None \<and> at_submitted_at a = None \<and> at_finished_at a = None \<and> at_failure_kind a = None)"
| "attempt_facts AS_SUBMITTED a =
     (at_submitted_at a \<noteq> None \<and> at_candidate_output_refs a \<noteq> None \<and> at_finished_at a = None
      \<and> at_failure_kind a = None)"
| "attempt_facts AS_VERIFIED a =
     (at_submitted_at a \<noteq> None \<and> at_candidate_output_refs a \<noteq> None \<and> at_finished_at a \<noteq> None
      \<and> at_failure_kind a = None)"
| "attempt_facts AS_CANONICAL a =
     (at_submitted_at a \<noteq> None \<and> at_candidate_output_refs a \<noteq> None \<and> at_finished_at a \<noteq> None
      \<and> at_failure_kind a = None \<and> at_metadata a \<noteq> None)"
| "attempt_facts AS_FAILED a =
     (at_started_at a \<noteq> None \<and> at_finished_at a \<noteq> None
      \<and> nonempty_opt (at_failure_kind a) \<and> nonempty_opt (at_failure_reason a))"
| "attempt_facts AS_REJECTED a =
     (at_submitted_at a \<noteq> None \<and> at_finished_at a \<noteq> None
      \<and> nonempty_opt (at_failure_kind a) \<and> nonempty_opt (at_failure_reason a))"
| "attempt_facts AS_SUPERSEDED a =
     (at_submitted_at a = None \<and> at_finished_at a \<noteq> None \<and> at_failure_kind a = None)"
| "attempt_facts AS_VERIFYING a = False"

definition attempt_ok :: "attempt \<Rightarrow> bool" where
  "attempt_ok a \<longleftrightarrow> attempt_facts (at_state a) a \<and>
     (at_state a \<in> {AS_SUBMITTED, AS_VERIFIED, AS_CANONICAL} \<longrightarrow> at_started_at a \<noteq> None)"

lemma or_str_nonempty: "dflt \<noteq> [] \<Longrightarrow> nonempty_opt (Some (or_str x dflt))"
  by (simp add: nonempty_opt_def or_str_def split: option.splits)

lemma attempt_ok_step:
  assumes t: "transition_attempt a target now reason args = Inr b" and ok: "attempt_ok a"
  shows "attempt_ok b"
proof -
  from transition_attempt_allowed[OF t]
  have tr: "(at_state a, target) \<in> set attempt_transitions" and r: "reason \<noteq> []" by auto
  show ?thesis
    using t ok tr r
    by (cases target; cases "at_state a")
      (auto simp: transition_attempt_def attempt_transitions_def attempt_ok_def or_str_nonempty)
qed

lemma attempt_reach_ok: "attempt_reach n a b \<Longrightarrow> attempt_ok a \<Longrightarrow> attempt_ok b"
  by (induction rule: attempt_reach.induct) (auto intro: attempt_ok_step)

lemma attempt_reach_identity: "attempt_reach n a b \<Longrightarrow> attempt_identity b = attempt_identity a"
  by (induction rule: attempt_reach.induct) (auto dest: transition_attempt_identity)

text \<open>
  Starting from a freshly created attempt, at most four transitions can
  ever succeed, whatever their arguments; every attempt on the way keeps its identity and
  carries exactly the facts of its state (a failed or rejected attempt has a failure kind and
  reason, a verified or canonical one has been submitted and finished without failure), and
  none is ever in the reserved state Verifying.
\<close>

theorem attempt_lifecycle:
  assumes "attempt_reach n a b" and "at_state a = AS_CREATED" and "attempt_ok a"
  shows "n \<le> 4 \<and> attempt_identity b = attempt_identity a \<and> attempt_ok b \<and> at_state b \<noteq> AS_VERIFYING"
proof -
  have "attempt_ok b" by (rule attempt_reach_ok[OF assms(1,3)])
  moreover from this have "at_state b \<noteq> AS_VERIFYING" by (auto simp: attempt_ok_def)
  ultimately show ?thesis
    using attempt_reach_rank[OF assms(1)] attempt_reach_identity[OF assms(1)] assms(2) by simp
qed

text \<open>The states a unit can be in after it was created Ready, and how it gets to a final state.\<close>

lemma task_unit_reach_states:
  "task_unit_reach u v \<Longrightarrow> tu_state u \<in> {TS_CREATED, TS_READY} \<Longrightarrow>
     tu_state v \<in> {TS_CREATED, TS_BLOCKED, TS_READY, TS_PROCESSING, TS_FAILED, TS_COMPLETED, TS_CANCELLED}"
  by (induction rule: task_unit_reach.induct)
    (auto simp: transition_task_unit_ok task_unit_transitions_def)

lemma task_unit_final:
  "tu_state u \<in> {TS_COMPLETED, TS_FAILED, TS_CANCELLED} \<Longrightarrow> task_unit_reach u v \<Longrightarrow> v = u"
proof (rotate_tac, induction rule: task_unit_reach.induct)
  case (unit_step u v target reason trigger now w)
  then show ?case by (auto simp: transition_task_unit_ok task_unit_transitions_def)
qed simp

definition sample_attempt :: attempt where
  "sample_attempt =
     \<lparr>at_attempt_id = ''attempt_1'', at_task_id = ''task_1'', at_unit_id = ''unit_1'',
      at_lease_id = ''lease_1'', at_client_id = ''client_1'', at_state = AS_CREATED,
      at_attempt_kind = ''primary'', at_created_at = ''2026-06-05T00:00:00Z'', at_started_at = None,
      at_submitted_at = None, at_finished_at = None, at_environment_summary = None,
      at_input_artifact_refs = None, at_raw_output_ref = None, at_parsed_output_ref = None,
      at_candidate_output_refs = None, at_log_ref = None, at_failure_kind = None,
      at_failure_reason = None, at_superseded_by_attempt_id = None, at_metadata = None,
      at_attempt_ordinal = 0, at_schema_version = ''phase2.attempt.v2''\<rparr>"

lemma attempt_lifecycle_witness:
  "let b = sample_attempt\<lparr>at_state := AS_RUNNING, at_started_at := Some ''2026-06-05T00:00:01Z''\<rparr>
   in (1::nat) \<le> 4 \<and> attempt_identity b = attempt_identity sample_attempt \<and> attempt_ok b
      \<and> at_state b \<noteq> AS_VERIFYING"
proof -
  let ?b = "sample_attempt\<lparr>at_state := AS_RUNNING, at_started_at := Some ''2026-06-05T00:00:01Z''\<rparr>"
  have "transition_attempt sample_attempt AS_RUNNING ''2026-06-05T00:00:01Z'' ''executor_started'' no_args = Inr ?b"
    by (simp add: transition_attempt_def attempt_transitions_def sample_attempt_def or_str_def)
  then have "attempt_reach 1 sample_attempt ?b"
    using attempt_step[OF attempt_refl] by simp
  from attempt_lifecycle[OF this] show ?thesis
    by (simp add: sample_attempt_def attempt_ok_def)
qed

end
