(* ===== verification/Core_Leases.thy ===== *)
theory Core_Leases
  imports Core_Scheduling Core_Recovery Core_State_Machines
begin

text \<open>
  \<open>core/leases.py\<close>: claiming a lease for a scheduling decision, renewing it by heartbeats and
  expiring it. \<open>lease_run\<close> is any sequence of the operations the program applies to a lease and
  its attempt; the theorems show what a submission accepted anywhere in such a run proves about
  its sender, that nothing is accepted after an expiry, and that at every moment exactly one of
  heartbeat and expiry is possible.
\<close>

record lease_claim =
  lc_lease :: lease
  lc_created_attempt :: attempt
  lc_running_attempt :: attempt
  lc_task_unit :: "task_unit option"

record lease_expiry_decision =
  le_lease :: lease
  le_attempt :: attempt
  le_recovery_action :: jobj
  le_next_task_state :: task_state
  le_retry_decision :: retry_decision

text \<open>The dataclass defaults of an \<open>Attempt\<close>.\<close>

definition claim_attempt :: "scheduling_decision \<Rightarrow> string \<Rightarrow> string \<Rightarrow> string \<Rightarrow> int \<Rightarrow> attempt" where
  "claim_attempt decision lease_id attempt_id now ordinal =
     \<lparr>at_attempt_id = attempt_id, at_task_id = sd_task_id decision, at_unit_id = sd_unit_id decision,
      at_lease_id = lease_id, at_client_id = sd_client_id decision, at_state = AS_CREATED,
      at_attempt_kind = sd_lease_kind decision, at_created_at = now, at_started_at = None,
      at_submitted_at = None, at_finished_at = None, at_environment_summary = None,
      at_input_artifact_refs = None, at_raw_output_ref = None, at_parsed_output_ref = None,
      at_candidate_output_refs = None, at_log_ref = None, at_failure_kind = None,
      at_failure_reason = None, at_superseded_by_attempt_id = None, at_metadata = None,
      at_attempt_ordinal = ordinal, at_schema_version = ''phase2.attempt.v2''\<rparr>"

definition claim ::
  "protocol_config \<Rightarrow> scheduling_decision \<Rightarrow> task_unit option \<Rightarrow> string \<Rightarrow> string \<Rightarrow> string
    \<Rightarrow> string option \<Rightarrow> string \<Rightarrow> lease_claim res" where
  "claim pc decision unit_opt lease_id attempt_id fencing_token binding_digest now =
     bindE (case unit_opt of
         Some u \<Rightarrow>
           if tu_task_id u \<noteq> sd_task_id decision \<or> tu_unit_id u \<noteq> sd_unit_id decision
           then Inl (ValueError ''claim task_unit does not match scheduling decision'')
           else (let ordinal = tu_last_attempt_ordinal u + 1 in
             bindE (mk_task_unit (u\<lparr>tu_last_attempt_ordinal := ordinal, tu_schema_version := ''TaskUnit.v2''\<rparr>))
               (\<lambda>claimed. Inr (ordinal, Some claimed)))
       | None \<Rightarrow> Inr (0, None)) (\<lambda>(ordinal, claimed).
     bindE (add_seconds now (pc_lease_ttl_seconds pc)) (\<lambda>expires_at.
     let l = \<lparr>ls_lease_id = lease_id, ls_task_id = sd_task_id decision, ls_unit_id = sd_unit_id decision,
              ls_attempt_id = attempt_id, ls_client_id = sd_client_id decision, ls_state = LS_ACTIVE,
              ls_fencing_token = fencing_token, ls_issued_at = now, ls_expires_at = expires_at,
              ls_last_heartbeat_at = None, ls_heartbeat_count = 0, ls_lease_kind = sd_lease_kind decision,
              ls_terminated_at = None, ls_terminated_reason = None, ls_metadata = [],
              ls_attempt_ordinal = ordinal, ls_binding_digest = binding_digest,
              ls_schema_version = ''phase2.lease.v2''\<rparr>;
         created = claim_attempt decision lease_id attempt_id now ordinal
     in bindE (transition_attempt created AS_RUNNING now ''executor_started'' no_args) (\<lambda>running.
        Inr \<lparr>lc_lease = l, lc_created_attempt = created, lc_running_attempt = running,
             lc_task_unit = claimed\<rparr>)))"

definition heartbeat :: "protocol_config \<Rightarrow> lease \<Rightarrow> string \<Rightarrow> lease res" where
  "heartbeat pc l now =
     seqE (raise_if (ls_state l \<noteq> LS_ACTIVE)
       (ValueError (''terminal lease cannot heartbeat: '' @ lease_state_value (ls_state l))))
     (bindE (parse_utc now) (\<lambda>t. bindE (parse_utc (ls_expires_at l)) (\<lambda>deadline.
     seqE (raise_if (t \<ge> deadline) (ValueError ''expired lease cannot heartbeat''))
     (bindE (add_seconds now (pc_lease_ttl_seconds pc)) (\<lambda>expires_at.
       Inr (l\<lparr>ls_last_heartbeat_at := Some now, ls_heartbeat_count := ls_heartbeat_count l + 1,
              ls_expires_at := expires_at\<rparr>))))))"

definition recovery_action ::
  "lease \<Rightarrow> attempt \<Rightarrow> task_unit \<Rightarrow> string \<Rightarrow> string \<Rightarrow> int \<Rightarrow> retry_decision \<Rightarrow> jobj" where
  "recovery_action l a u now recovery_action_id retry_count rd =
     [(''schema_version'', JStr ''phase2.recovery_action.v1''),
      (''recovery_action_id'', JStr recovery_action_id),
      (''task_id'', JStr (tu_task_id u)),
      (''unit_id'', JStr (tu_unit_id u)),
      (''trigger'', JStr ''lease_expired''),
      (''lease_id'', JStr (ls_lease_id l)),
      (''attempt_id'', JStr (at_attempt_id a)),
      (''old_task_state'', JStr (task_state_value (tu_state u))),
      (''new_task_state'', JStr (task_state_value (rd_next_task_state rd))),
      (''retry_count'', JInt retry_count),
      (''retry_allowed'', JBool (rd_retry_allowed rd)),
      (''reason'', JStr (rd_reason rd)),
      (''created_at'', JStr now),
      (''metadata'', JObj [])]"

definition expire ::
  "protocol_config \<Rightarrow> lease \<Rightarrow> attempt \<Rightarrow> task_unit \<Rightarrow> string \<Rightarrow> string \<Rightarrow> int
    \<Rightarrow> lease_expiry_decision res" where
  "expire pc l a u now recovery_action_id retry_count =
     seqE (raise_if (ls_task_id l \<noteq> at_task_id a \<or> tu_task_id u \<noteq> at_task_id a)
       (ValueError ''lease recovery task_id does not match attempt and task unit''))
     (seqE (raise_if (ls_unit_id l \<noteq> at_unit_id a \<or> tu_unit_id u \<noteq> at_unit_id a)
       (ValueError ''lease recovery unit_id does not match attempt and task unit''))
     (seqE (raise_if (ls_attempt_id l \<noteq> at_attempt_id a)
       (ValueError ''lease recovery attempt_id does not match attempt''))
     (seqE (raise_if (ls_lease_id l \<noteq> at_lease_id a)
       (ValueError ''lease recovery lease_id does not match attempt''))
     (seqE (raise_if (ls_client_id l \<noteq> at_client_id a)
       (ValueError ''lease recovery client_id does not match attempt''))
     (seqE (raise_if (ls_state l \<noteq> LS_ACTIVE)
       (ValueError (''only Active leases can expire: '' @ lease_state_value (ls_state l))))
     (bindE (parse_utc now) (\<lambda>t. bindE (parse_utc (ls_expires_at l)) (\<lambda>deadline.
     (seqE (raise_if (t < deadline) (ValueError ''lease has not reached expires_at''))
     (seqE (raise_if (at_state a \<noteq> AS_CREATED \<and> at_state a \<noteq> AS_RUNNING)
       (ValueError (''only Created or Running attempts can be superseded: ''
          @ attempt_state_value (at_state a))))
     (bindE (evaluate_retry ''lease_expired'' retry_count (pc_max_retries pc)) (\<lambda>rd.
     (bindE (transition_lease l LS_EXPIRED now ''lease_expired'') (\<lambda>expired_lease.
     (bindE (transition_attempt a (rd_superseded_attempt_state rd) now ''lease_expired'' no_args)
       (\<lambda>superseded.
       Inr \<lparr>le_lease = expired_lease, le_attempt = superseded,
            le_recovery_action = recovery_action l a u now recovery_action_id retry_count rd,
            le_next_task_state = rd_next_task_state rd, le_retry_decision = rd\<rparr>))))))))))))))))"

section \<open>Single operations\<close>

lemma claim_ok:
  assumes "claim pc d u lease_id attempt_id token digest now = Inr c"
  shows "ls_state (lc_lease c) = LS_ACTIVE" "at_state (lc_running_attempt c) = AS_RUNNING"
    "[ls_task_id (lc_lease c), ls_unit_id (lc_lease c), ls_attempt_id (lc_lease c), ls_lease_id (lc_lease c),
      ls_client_id (lc_lease c)] = [sd_task_id d, sd_unit_id d, attempt_id, lease_id, sd_client_id d]"
    "[at_task_id (lc_running_attempt c), at_unit_id (lc_running_attempt c), at_attempt_id (lc_running_attempt c),
      at_lease_id (lc_running_attempt c), at_client_id (lc_running_attempt c)]
       = [sd_task_id d, sd_unit_id d, attempt_id, lease_id, sd_client_id d]"
    "ls_fencing_token (lc_lease c) = token" "ls_last_heartbeat_at (lc_lease c) = None"
    "ls_issued_at (lc_lease c) = now"
    "add_seconds now (pc_lease_ttl_seconds pc) = Inr (ls_expires_at (lc_lease c))"
  using assms
  by (auto simp: claim_def res_simps Let_def claim_attempt_def transition_attempt_def attempt_transitions_def
      split: option.splits if_splits)

lemma heartbeat_ok:
  "heartbeat pc l now = Inr m \<longleftrightarrow>
     ls_state l = LS_ACTIVE \<and>
     (\<exists>t u e. parse_utc now = Inr t \<and> parse_utc (ls_expires_at l) = Inr u \<and> t < u \<and>
        add_seconds now (pc_lease_ttl_seconds pc) = Inr e \<and>
        m = l\<lparr>ls_last_heartbeat_at := Some now, ls_heartbeat_count := ls_heartbeat_count l + 1,
              ls_expires_at := e\<rparr>)"
  by (auto simp: heartbeat_def res_simps not_le)

text \<open>The attempt and the lease name the same execution.\<close>

definition same_execution :: "lease \<Rightarrow> attempt \<Rightarrow> bool" where
  "same_execution l a \<longleftrightarrow>
     [ls_task_id l, ls_unit_id l, ls_attempt_id l, ls_lease_id l, ls_client_id l]
       = [at_task_id a, at_unit_id a, at_attempt_id a, at_lease_id a, at_client_id a]"

lemma expire_ok:
  assumes "expire pc l a u now rid n = Inr d"
  shows "same_execution l a" "ls_state l = LS_ACTIVE"
    "\<exists>t e. parse_utc now = Inr t \<and> parse_utc (ls_expires_at l) = Inr e \<and> e \<le> t"
    "transition_lease l LS_EXPIRED now ''lease_expired'' = Inr (le_lease d)"
    "transition_attempt a AS_SUPERSEDED now ''lease_expired'' no_args = Inr (le_attempt d)"
    "evaluate_retry ''lease_expired'' n (pc_max_retries pc) = Inr (le_retry_decision d)"
    "le_next_task_state d = rd_next_task_state (le_retry_decision d)"
  using assms
  by (auto simp: expire_def res_simps same_execution_def evaluate_retry_ok retry_attempt_state_def
      retry_attempt_states_def not_less)

section \<open>Runs\<close>

text \<open>
  Everything that happens to a lease and its attempt after the claim: heartbeats, expiry, the
  release or revocation of the lease, and transitions of the attempt.
\<close>

inductive lease_run :: "protocol_config \<Rightarrow> lease \<times> attempt \<Rightarrow> lease \<times> attempt \<Rightarrow> bool" for pc s where
  run_start: "lease_run pc s s"
| run_heartbeat: "lease_run pc s (l, a) \<Longrightarrow> heartbeat pc l now = Inr m \<Longrightarrow> lease_run pc s (m, a)"
| run_expire: "lease_run pc s (l, a) \<Longrightarrow> expire pc l a u now rid n = Inr d \<Longrightarrow>
     lease_run pc s (le_lease d, le_attempt d)"
| run_lease: "lease_run pc s (l, a) \<Longrightarrow> transition_lease l target now reason = Inr m \<Longrightarrow>
     lease_run pc s (m, a)"
| run_attempt: "lease_run pc s (l, a) \<Longrightarrow> transition_attempt a target now reason args = Inr b \<Longrightarrow>
     lease_run pc s (l, b)"

text \<open>When the lease was last renewed: its latest heartbeat, or its issue.\<close>

definition renewed_at :: "lease \<Rightarrow> string" where
  "renewed_at l = (case ls_last_heartbeat_at l of None \<Rightarrow> ls_issued_at l | Some t \<Rightarrow> t)"

definition lease_inv :: "protocol_config \<Rightarrow> lease \<Rightarrow> attempt \<Rightarrow> lease \<times> attempt \<Rightarrow> bool" where
  "lease_inv pc l0 a0 = (\<lambda>(l, a).
     [ls_task_id l, ls_unit_id l, ls_attempt_id l, ls_lease_id l, ls_client_id l, ls_fencing_token l]
       = [ls_task_id l0, ls_unit_id l0, ls_attempt_id l0, ls_lease_id l0, ls_client_id l0, ls_fencing_token l0] \<and>
     attempt_identity a = attempt_identity a0 \<and>
     add_seconds (renewed_at l) (pc_lease_ttl_seconds pc) = Inr (ls_expires_at l))"

lemma lease_inv_transition:
  "lease_inv pc l0 a0 (l, a) \<Longrightarrow> transition_lease l target now reason = Inr m \<Longrightarrow> lease_inv pc l0 a0 (m, a)"
  by (auto simp: lease_inv_def transition_lease_ok renewed_at_def split: if_splits option.splits)

lemma lease_inv_attempt:
  "lease_inv pc l0 a0 (l, a) \<Longrightarrow> transition_attempt a target now reason args = Inr b \<Longrightarrow>
     lease_inv pc l0 a0 (l, b)"
  by (auto simp: lease_inv_def dest: transition_attempt_identity)

lemma lease_run_inv:
  "lease_run pc s s' \<Longrightarrow> lease_inv pc l0 a0 s \<Longrightarrow> lease_inv pc l0 a0 s'"
proof (induction rule: lease_run.induct)
  case (run_heartbeat l a now m)
  then show ?case by (auto simp: lease_inv_def heartbeat_ok renewed_at_def)
next
  case (run_expire l a u now rid n d)
  show ?case
    by (rule lease_inv_attempt[OF lease_inv_transition[OF run_expire.IH[OF run_expire.prems]
        expire_ok(4)[OF run_expire.hyps(2)]] expire_ok(5)[OF run_expire.hyps(2)]])
qed (auto intro: lease_inv_transition lease_inv_attempt)

lemma claim_inv:
  "claim pc d u lease_id attempt_id token digest now = Inr c \<Longrightarrow>
     lease_inv pc (lc_lease c) (lc_running_attempt c) (lc_lease c, lc_running_attempt c)"
  by (simp add: lease_inv_def renewed_at_def claim_ok)

text \<open>
  C8 accepted_submission_is_current: if a submission is accepted at any point of any run that
  starts with a claim, then it names the task, unit, attempt and lease of that claim, carries
  the fencing token of that claim, the lease is still Active, and it was submitted no later
  than the lease time to live after the last heartbeat (or after the issue, if there was none).
\<close>

theorem accepted_submission_is_current:
  assumes "claim pc d u lease_id attempt_id token digest now = Inr c"
    and "lease_run pc (lc_lease c, lc_running_attempt c) (l, a)"
    and "evaluate_submission_acceptance s a l = Inr accepted"
  shows "[sv_task_id s, sv_unit_id s, sv_attempt_id s, sv_lease_id s]
           = [sd_task_id d, sd_unit_id d, attempt_id, lease_id] \<and>
    sv_fencing_token s = token \<and> ls_state l = LS_ACTIVE \<and>
    (\<exists>submitted renewed. parse_utc (sv_submitted_at s) = Inr submitted \<and>
       parse_utc (renewed_at l) = Inr renewed \<and>
       submitted \<le> renewed + pc_lease_ttl_seconds pc * 1000000)"
proof -
  have inv: "lease_inv pc (lc_lease c) (lc_running_attempt c) (l, a)"
    by (rule lease_run_inv[OF assms(2) claim_inv[OF assms(1)]])
  then have "add_seconds (renewed_at l) (pc_lease_ttl_seconds pc) = Inr (ls_expires_at l)"
    by (simp add: lease_inv_def)
  then obtain r where "parse_utc (renewed_at l) = Inr r"
    "parse_utc (ls_expires_at l) = Inr (r + pc_lease_ttl_seconds pc * 1000000)"
    by (rule utc.add_instant)
  moreover have "[ls_task_id l, ls_unit_id l, ls_attempt_id l, ls_lease_id l]
      = [sd_task_id d, sd_unit_id d, attempt_id, lease_id]" "ls_fencing_token l = token"
    using inv claim_ok[OF assms(1)] by (auto simp: lease_inv_def)
  ultimately show ?thesis using assms(3) by (auto simp: acceptance_iff)
qed

text \<open>Superseded, failed, rejected and canonical attempts have no way out.\<close>

lemma attempt_final:
  "at_state a \<in> {AS_SUPERSEDED, AS_FAILED, AS_REJECTED, AS_CANONICAL} \<Longrightarrow>
     transition_attempt a target now reason args \<noteq> Inr b"
  by (auto dest!: transition_attempt_allowed simp: attempt_transitions_def)

lemma lease_run_ended:
  "lease_run pc s s' \<Longrightarrow> ls_state (fst s) = LS_EXPIRED \<Longrightarrow> at_state (snd s) = AS_SUPERSEDED \<Longrightarrow> s' = s"
proof (induction rule: lease_run.induct)
  case (run_attempt l a target now reason args b)
  then show ?case using attempt_final[of a] by auto
next
  case (run_expire l a u now rid n d)
  then show ?case using expire_ok(2)[OF run_expire.hyps(2)] by auto
qed (auto simp: heartbeat_ok transition_lease_ok)

text \<open>
  Once a lease has been expired, no later operation changes
  the lease or its attempt, and every submission, whoever sends it and whatever token it
  carries, is rejected.
\<close>

theorem nothing_accepted_after_expiry:
  assumes "expire pc l a u now rid n = Inr d"
    and "lease_run pc (le_lease d, le_attempt d) (l', a')"
  shows "l' = le_lease d \<and> a' = le_attempt d \<and> ls_state l' = LS_EXPIRED \<and>
    evaluate_submission_acceptance s a' l' = Inr (rejected ''attempt_not_running'')"
proof -
  have l: "ls_state (le_lease d) = LS_EXPIRED"
    using expire_ok(4)[OF assms(1)] by (auto simp: transition_lease_ok)
  have a: "at_state (le_attempt d) = AS_SUPERSEDED"
    using transition_attempt_allowed[OF expire_ok(5)[OF assms(1)]] by simp
  have "(l', a') = (le_lease d, le_attempt d)" using lease_run_ended[OF assms(2)] l a by simp
  with l a show ?thesis by (simp add: not_running_rejected)
qed

text \<open>
  An Active lease of a running attempt is at every readable moment
  either renewable or expirable and never both: before its deadline the heartbeat succeeds (as
  long as the new deadline is a date) and expiry is refused, from the deadline on the heartbeat
  is refused and expiry succeeds with any non-negative retry count.
\<close>

theorem heartbeat_or_expiry:
  assumes "same_execution l a" and "tu_task_id u = ls_task_id l" and "tu_unit_id u = ls_unit_id l"
    and "ls_state l = LS_ACTIVE" and "at_state a = AS_RUNNING"
    and "parse_utc now = Inr t" and "parse_utc (ls_expires_at l) = Inr deadline"
    and "in_range (t + pc_lease_ttl_seconds pc * 1000000)" and "0 \<le> pc_max_retries pc" and "0 \<le> n"
  shows "(is_ok (heartbeat pc l now) \<longleftrightarrow> t < deadline) \<and>
    (is_ok (expire pc l a u now rid n) \<longleftrightarrow> deadline \<le> t)"
proof
  show "is_ok (heartbeat pc l now) \<longleftrightarrow> t < deadline"
    using assms(4,6-8) utc.add_inside[OF assms(6,8)] by (auto simp: is_ok_iff heartbeat_ok)
  obtain rd where rd: "evaluate_retry ''lease_expired'' n (pc_max_retries pc) = Inr rd"
    using evaluate_retry_total[of "''lease_expired''"] assms(9,10) by (auto simp: supported_retry_triggers_def)
  then have "rd_superseded_attempt_state rd = AS_SUPERSEDED"
    by (simp add: evaluate_retry_ok retry_attempt_state_def retry_attempt_states_def)
  with rd assms show "is_ok (expire pc l a u now rid n) \<longleftrightarrow> deadline \<le> t"
    by (auto simp: expire_def same_execution_def raise_if_def transition_lease_def lease_transitions_def
        transition_attempt_def attempt_transitions_def)
qed

section \<open>A lease at work\<close>

definition sample_decision :: scheduling_decision where
  "sample_decision =
     \<lparr>sd_decision_id = ''decision_1'', sd_task_id = ''task_1'', sd_unit_id = ''u1'',
      sd_client_id = ''client_1'', sd_policy_id = ''fifo_ready'', sd_matched_capabilities = [],
      sd_lease_kind = ''primary'', sd_reason = ''fifo'', sd_created_at = ''2026-06-05T00:00:00Z'',
      sd_input_summary = None, sd_schema_version = ''SchedulingDecision.v1''\<rparr>"

definition t0 :: string where "t0 = ''2026-06-05T00:00:00Z''"
definition t1 :: string where "t1 = ''2026-06-05T00:04:00Z''"
definition t2 :: string where "t2 = ''2026-06-05T00:09:00Z''"

lemmas clock_eval = parse_utc_def replace_Z_def digits_val_def is_digit_def read_nat_def digit_val_def
  valid_date_def days_in_month_def month_starts_def is_leap_def parse_time_def clock_us_def fraction_def
  us_per_day_def ymd2ord_def days_before_year_def days_before_month_def in_range_def max_instant_def

lemma sample_times:
  "parse_utc t0 = Inr 63916214400000000" "parse_utc t1 = Inr 63916214640000000"
  "parse_utc t2 = Inr 63916214940000000"
  by (simp_all add: t0_def t1_def t2_def clock_eval)

lemma sample_format: "format_utc 63916214700000000 = ''2026-06-05T00:05:00Z''"
  by (simp add: format_utc_def ord2ymd_def month_day_def month_starts_def Let_def us_per_day_def
      d4_def d2_def digit_chars)

definition sample_claim :: "lease_claim res" where
  "sample_claim = claim sample_config sample_decision None ''lease_1'' ''attempt_1'' ''token_1'' None t0"

definition sample_lease :: lease where
  "sample_lease =
     \<lparr>ls_lease_id = ''lease_1'', ls_task_id = ''task_1'', ls_unit_id = ''u1'',
      ls_attempt_id = ''attempt_1'', ls_client_id = ''client_1'', ls_state = LS_ACTIVE,
      ls_fencing_token = ''token_1'', ls_issued_at = t0, ls_expires_at = ''2026-06-05T00:05:00Z'',
      ls_last_heartbeat_at = None, ls_heartbeat_count = 0, ls_lease_kind = ''primary'',
      ls_terminated_at = None, ls_terminated_reason = None, ls_metadata = [],
      ls_attempt_ordinal = 0, ls_binding_digest = None, ls_schema_version = ''phase2.lease.v2''\<rparr>"

definition sample_running :: attempt where
  "sample_running = (claim_attempt sample_decision ''lease_1'' ''attempt_1'' t0 0)
     \<lparr>at_state := AS_RUNNING, at_started_at := Some t0\<rparr>"

definition sample_submission :: submission_view where
  "sample_submission =
     \<lparr>sv_task_id = ''task_1'', sv_unit_id = ''u1'', sv_attempt_id = ''attempt_1'', sv_lease_id = ''lease_1'',
      sv_fencing_token = ''token_1'', sv_submitted_at = t1\<rparr>"

lemma sample_deadline:
  "parse_utc ''2026-06-05T00:05:00Z'' = Inr 63916214700000000"
  "add_seconds t0 300 = Inr ''2026-06-05T00:05:00Z''"
  by (simp_all add: add_seconds_def sample_times Let_def sample_format)
    (simp_all add: clock_eval)

lemma sample_config_fields: "pc_lease_ttl_seconds sample_config = 300" "pc_max_retries sample_config = 3"
  by (simp_all add: sample_config_def pc_default_def)

lemma sample_claim_eq:
  "sample_claim = Inr \<lparr>lc_lease = sample_lease,
     lc_created_attempt = claim_attempt sample_decision ''lease_1'' ''attempt_1'' t0 0,
     lc_running_attempt = sample_running, lc_task_unit = None\<rparr>"
  by (simp add: sample_claim_def claim_def sample_config_fields sample_deadline Let_def transition_attempt_def
      attempt_transitions_def claim_attempt_def or_str_def sample_lease_def sample_decision_def
      sample_running_def)

lemma accepted_submission_is_current_witness:
  "sv_fencing_token sample_submission = ''token_1'' \<and> ls_state sample_lease = LS_ACTIVE"
proof -
  have "evaluate_submission_acceptance sample_submission sample_running sample_lease = Inr accepted"
    by (simp add: acceptance_iff sample_submission_def sample_running_def sample_lease_def claim_attempt_def
        sample_decision_def sample_times sample_deadline)
  from accepted_submission_is_current[OF sample_claim_eq[unfolded sample_claim_def], of sample_lease sample_running,
      simplified, OF run_start this]
  show ?thesis by simp
qed

definition sample_claimed_unit :: task_unit where
  "sample_claimed_unit = sample_unit ''u1'' TS_PROCESSING"

lemma heartbeat_or_expiry_witness:
  "is_ok (heartbeat sample_config sample_lease t1) \<and>
   \<not> is_ok (expire sample_config sample_lease sample_running sample_claimed_unit t1 ''recovery_1'' 1)"
  using heartbeat_or_expiry[of sample_lease sample_running sample_claimed_unit t1 63916214640000000
      63916214700000000 sample_config 1 "''recovery_1''"]
  by (simp add: same_execution_def sample_lease_def sample_running_def claim_attempt_def sample_decision_def
      sample_claimed_unit_def sample_unit_def sample_config_fields sample_times sample_deadline in_range_def
      max_instant_def us_per_day_def)

lemma sample_expires:
  "is_ok (expire sample_config sample_lease sample_running sample_claimed_unit t2 ''recovery_1'' 1)"
  by (simp add: expire_def raise_if_def sample_lease_def sample_running_def claim_attempt_def sample_decision_def
      sample_claimed_unit_def sample_unit_def sample_config_fields sample_times sample_deadline
      transition_lease_def lease_transitions_def transition_attempt_def attempt_transitions_def
      evaluate_retry_def mk_retry_decision_def supported_retry_triggers_def retry_attempt_state_def
      retry_attempt_states_def)

lemma nothing_accepted_after_expiry_witness:
  "\<exists>d. expire sample_config sample_lease sample_running sample_claimed_unit t2 ''recovery_1'' 1 = Inr d \<and>
     evaluate_submission_acceptance sample_submission (le_attempt d) (le_lease d)
       = Inr (rejected ''attempt_not_running'')"
proof -
  obtain d where d: "expire sample_config sample_lease sample_running sample_claimed_unit t2 ''recovery_1'' 1 = Inr d"
    using sample_expires by (auto simp: is_ok_iff)
  from nothing_accepted_after_expiry[OF d run_start] d show ?thesis by blast
qed

end
