(* ===== verification/Py_Json_Read.thy ===== *)
theory Py_Json_Read
  imports Py_Json
begin

text \<open>
  \<open>json.loads\<close>: a recursive-descent parser for JSON text with the extensions of Python's decoder
  (\<open>NaN\<close>, \<open>Infinity\<close>, a repeated object key keeps its last value). The text of a float literal is
  kept as it is written. \<open>None\<close> is a \<open>JSONDecodeError\<close>. The main result is that
  reading what \<open>dumps\<close> wrote gives the value back.
\<close>

section \<open>The parser\<close>

definition is_ws :: "char \<Rightarrow> bool" where
  "is_ws c \<longleftrightarrow> c = CHR 0x20 \<or> c = CHR 0x09 \<or> c = CHR 0x0A \<or> c = CHR 0x0D"

definition skip_ws :: "string \<Rightarrow> string" where
  "skip_ws s = dropWhile is_ws s"

text \<open>Number tokens: \<open>(-?(?:0|[1-9]\d*))(\.\d+)?([eE][-+]?\d+)?\<close>.\<close>

definition starts_with_any :: "string \<Rightarrow> string \<Rightarrow> bool" where
  "starts_with_any cs s \<longleftrightarrow> s \<noteq> [] \<and> hd s \<in> set cs"

definition drop_sign :: "string \<Rightarrow> string \<Rightarrow> string" where
  "drop_sign cs s = (if starts_with_any cs s then tl s else s)"

definition drop_digits :: "string \<Rightarrow> string option" where
  "drop_digits s = (if starts_with_any ''0123456789'' s then Some (dropWhile is_digit s) else None)"

definition number_lit :: "string \<Rightarrow> bool" where
  "number_lit t =
     (let ip = drop_sign ''-'' t;
          digits = takeWhile is_digit ip
      in (digits = ''0'' \<or> (digits \<noteq> [] \<and> hd digits \<noteq> CHR ''0'')) \<and>
         Option.bind (drop_digits ip) (\<lambda>r.
         Option.bind (if starts_with_any ''.'' r then drop_digits (tl r) else Some r) (\<lambda>q.
           if starts_with_any ''eE'' q then drop_digits (drop_sign ''+-'' (tl q)) else Some q)) = Some [])"

definition float_token :: "string \<Rightarrow> bool" where
  "float_token t \<longleftrightarrow> t = ''NaN'' \<or> t = ''Infinity'' \<or> t = ''-Infinity'' \<or>
     (number_lit t \<and> (\<exists>c \<in> set t. c \<in> set ''.eE''))"

definition read_scalar :: "string \<Rightarrow> json option" where
  "read_scalar t =
     (if t = ''null'' then Some JNull
      else if t = ''true'' then Some (JBool True)
      else if t = ''false'' then Some (JBool False)
      else if float_token t then Some (JFloat t)
      else if number_lit t
      then Some (JInt (if starts_with_any ''-'' t then - int (read_nat (tl t)) else int (read_nat t)))
      else None)"

text \<open>
  A scalar has to be followed by white space, a comma, a closing bracket or the end of the
  text, so the longest run of other characters is its token.
\<close>

definition token_char :: "char \<Rightarrow> bool" where
  "token_char c \<longleftrightarrow> \<not> stop_char c \<and> \<not> is_ws c"

definition parse_scalar :: "string \<Rightarrow> (json \<times> string) option" where
  "parse_scalar s =
     Option.bind (read_scalar (takeWhile token_char s)) (\<lambda>v. Some (v, dropWhile token_char s))"

text \<open>String literals: escapes, with a surrogate pair joined to one code point.\<close>

definition hex_val :: "char \<Rightarrow> nat option" where
  "hex_val c =
     (let n = (of_char c :: nat)
      in if 48 \<le> n \<and> n \<le> 57 then Some (n - 48)
         else if 97 \<le> n \<and> n \<le> 102 then Some (n - 87)
         else if 65 \<le> n \<and> n \<le> 70 then Some (n - 55) else None)"

fun hex4 :: "string \<Rightarrow> nat option" where
  "hex4 (a # b # c # d # _) =
     (case (hex_val a, hex_val b, hex_val c, hex_val d) of
        (Some i, Some j, Some k, Some l) \<Rightarrow> Some (((i * 16 + j) * 16 + k) * 16 + l)
      | _ \<Rightarrow> None)"
| "hex4 _ = None"

definition utf8 :: "nat \<Rightarrow> string" where
  "utf8 n =
     map char_of
      (if n < 0x80 then [n]
       else if n < 0x800 then [0xC0 + n div 64, 0x80 + n mod 64]
       else if n < 0x10000 then [0xE0 + n div 4096, 0x80 + n div 64 mod 64, 0x80 + n mod 64]
       else [0xF0 + n div 262144, 0x80 + n div 4096 mod 64, 0x80 + n div 64 mod 64, 0x80 + n mod 64])"

definition low_surrogate :: "string \<Rightarrow> nat option" where
  "low_surrogate s =
     (if take 2 s = [CHR 0x5C, CHR ''u'']
      then Option.bind (hex4 (drop 2 s)) (\<lambda>n. if 0xDC00 \<le> n \<and> n \<le> 0xDFFF then Some n else None)
      else None)"

definition unescape :: "char \<Rightarrow> char option" where
  "unescape c =
     (if c = CHR 0x22 then Some (CHR 0x22)
      else if c = CHR 0x5C then Some (CHR 0x5C)
      else if c = CHR ''/'' then Some (CHR ''/'')
      else if c = CHR ''b'' then Some (CHR 0x08)
      else if c = CHR ''f'' then Some (CHR 0x0C)
      else if c = CHR ''n'' then Some (CHR 0x0A)
      else if c = CHR ''r'' then Some (CHR 0x0D)
      else if c = CHR ''t'' then Some (CHR 0x09)
      else None)"

definition with_prefix :: "string \<Rightarrow> (string \<times> string) option \<Rightarrow> (string \<times> string) option" where
  "with_prefix p m = Option.bind m (\<lambda>(x, r). Some (p @ x, r))"

text \<open>The body of a string literal, after its opening quote.\<close>

function (sequential) parse_str :: "string \<Rightarrow> (string \<times> string) option" where
  "parse_str [] = None"
| "parse_str (c # t) =
     (if c = CHR 0x22 then Some ([], t)
      else if c = CHR 0x5C then
        (if t = [] then None
         else if hd t = CHR ''u'' then
           (case hex4 (tl t) of None \<Rightarrow> None
            | Some n \<Rightarrow>
              (case (if 0xD800 \<le> n \<and> n \<le> 0xDBFF then low_surrogate (drop 5 t) else None) of
                 None \<Rightarrow> with_prefix (utf8 n) (parse_str (drop 5 t))
               | Some l \<Rightarrow> with_prefix (utf8 (0x10000 + (n - 0xD800) * 1024 + (l - 0xDC00)))
                             (parse_str (drop 11 t))))
         else (case unescape (hd t) of None \<Rightarrow> None
               | Some x \<Rightarrow> with_prefix [x] (parse_str (tl t))))
      else if (of_char c :: nat) < 32 then None
      else with_prefix [c] (parse_str t))"
  by pat_completeness auto
termination
  by (relation "measure length") auto

text \<open>Values, the elements of a non-empty array and the members of a non-empty object, by fuel.\<close>

fun parse_value :: "nat \<Rightarrow> string \<Rightarrow> (json \<times> string) option"
  and parse_elems :: "nat \<Rightarrow> string \<Rightarrow> (json list \<times> string) option"
  and parse_members :: "nat \<Rightarrow> string \<Rightarrow> ((string \<times> json) list \<times> string) option"
where
  "parse_value 0 s = None"
| "parse_value (Suc n) s =
     (if starts_with_any [CHR 0x22] s
      then Option.bind (parse_str (tl s)) (\<lambda>(x, r). Some (JStr x, r))
      else if starts_with_any ''['' s then
        (let t = skip_ws (tl s) in
         if starts_with_any '']'' t then Some (JArr [], tl t)
         else Option.bind (parse_elems n t) (\<lambda>(xs, r). Some (JArr xs, r)))
      else if starts_with_any ''{'' s then
        (let t = skip_ws (tl s) in
         if starts_with_any ''}'' t then Some (JObj [], tl t)
         else Option.bind (parse_members n t) (\<lambda>(ps, r). Some (JObj (dict_update [] ps), r)))
      else parse_scalar s)"
| "parse_elems 0 s = None"
| "parse_elems (Suc n) s =
     Option.bind (parse_value n s) (\<lambda>(v, r).
       let t = skip_ws r in
       if starts_with_any '','' t
       then Option.bind (parse_elems n (skip_ws (tl t))) (\<lambda>(vs, q). Some (v # vs, q))
       else if starts_with_any '']'' t then Some ([v], tl t) else None)"
| "parse_members 0 s = None"
| "parse_members (Suc n) s =
     (if \<not> starts_with_any [CHR 0x22] s then None
      else Option.bind (parse_str (tl s)) (\<lambda>(k, r).
       let u = skip_ws r in
       if \<not> starts_with_any '':'' u then None
       else Option.bind (parse_value n (skip_ws (tl u))) (\<lambda>(v, q).
         let t = skip_ws q in
         if starts_with_any '','' t
         then Option.bind (parse_members n (skip_ws (tl t))) (\<lambda>(ps, w). Some ((k, v) # ps, w))
         else if starts_with_any ''}'' t then Some ([(k, v)], tl t) else None)))"

text \<open>Every nested call drops a character, so the length of the text is enough fuel.\<close>

definition loads :: "string \<Rightarrow> json option" where
  "loads s = Option.bind (parse_value (Suc (length s)) (skip_ws s)) (\<lambda>(v, r).
     if skip_ws r = [] then Some v else None)"

section \<open>Reading strings and scalars back\<close>

lemma starts_with_any_simps [simp]:
  "\<not> starts_with_any cs []" "starts_with_any cs (c # s) \<longleftrightarrow> c \<in> set cs"
  by (simp_all add: starts_with_any_def)

lemma hex_val_digit: "n < 16 \<Longrightarrow> hex_val (hex_digit n) = Some n"
  by (auto simp: hex_val_def hex_digit_def Let_def)

lemma parse_str_esc:
  "parse_str (esc_char c @ t) = with_prefix [c] (parse_str t)"
proof (cases "short_escape c")
  case None
  show ?thesis
  proof (cases "(of_char c :: nat) < 32")
    case True
    have "hex4 (CHR ''0'' # CHR ''0'' # hex_digit (of_char c div 16) # hex_digit (of_char c mod 16) # t)
        = Some (of_char c)"
      using True by (simp add: hex_val_digit) (simp add: hex_val_def)
    moreover have "utf8 (of_char c) = [c]" using True by (simp add: utf8_def)
    ultimately show ?thesis using None True by (simp add: esc_char_def)
  next
    case False
    then show ?thesis using None esc_char_plain[OF None False] by (simp add: esc_char_def)
  qed
next
  case (Some e)
  then have "unescape e = Some c" "e \<noteq> CHR ''u''"
    by (auto simp: short_escape_def unescape_def split: if_splits)
  with Some show ?thesis by (simp add: esc_char_def)
qed

lemma parse_str_quote:
  "parse_str (concat (map esc_char s) @ CHR 0x22 # rest) = Some (s, rest)"
  by (induction s) (simp_all add: parse_str_esc with_prefix_def)

lemma parse_value_str: "parse_value (Suc n) (quote s @ rest) = Some (JStr s, rest)"
  by (simp add: quote_def parse_str_quote)

text \<open>Values whose floats are written as JSON writes them.\<close>

fun floats_ok :: "json \<Rightarrow> bool" where
  "floats_ok (JFloat t) = float_token t"
| "floats_ok (JArr xs) = (\<forall>x \<in> set xs. floats_ok x)"
| "floats_ok (JObj d) = (\<forall>p \<in> set d. floats_ok (snd p))"
| "floats_ok _ = True"

lemma show_nat_lead: "show_nat n = ''0'' \<or> hd (show_nat n) \<noteq> CHR ''0''"
proof (induction n rule: show_nat.induct)
  case (1 n)
  show ?case
  proof (cases "n < 10")
    case True
    have "digit_char n \<noteq> CHR ''0''" if "n \<noteq> 0"
    proof
      assume "digit_char n = CHR ''0''"
      then have "(of_char (digit_char n) :: nat) = 48" by simp
      with True that show False by (simp add: of_char_digit_char)
    qed
    then show ?thesis using True by (subst (1 2) show_nat.simps) (auto simp: digit_chars)
  next
    case False
    moreover have "show_nat (n div 10) \<noteq> ''0''"
    proof
      assume "show_nat (n div 10) = ''0''"
      then have "read_nat (show_nat (n div 10)) = 0" by (simp add: read_nat_def digit_val_def)
      with False show False by simp
    qed
    ultimately show ?thesis using 1 by (subst (2) show_nat.simps) simp
  qed
qed

lemma digit_starts: "is_digit c \<Longrightarrow> c \<in> set ''0123456789''"
proof -
  assume "is_digit c"
  then have n: "(of_char c :: nat) - 48 < 10" "(of_char c :: nat) = 48 + (of_char c - 48)"
    by (auto simp: is_digit_def)
  define n where "n = (of_char c :: nat) - 48"
  with n have n: "n < 10" "(of_char c :: nat) = 48 + n" by simp_all
  then have "c = digit_char n" by (metis digit_char_eq)
  moreover have "n \<in> {0,1,2,3,4,5,6,7,8,9}" using n by auto
  ultimately show ?thesis by (auto simp: digit_chars)
qed

lemma drop_sign_nat: "starts_with_any ''-'' (show_nat n) = False" "drop_sign ''-'' (show_nat n) = show_nat n"
proof -
  have "hd (show_nat n) \<noteq> CHR ''-''"
    using show_nat_digits[of "hd (show_nat n)" n] minus_not_digit by auto
  then show "starts_with_any ''-'' (show_nat n) = False" "drop_sign ''-'' (show_nat n) = show_nat n"
    by (simp_all add: drop_sign_def starts_with_any_def)
qed

lemma number_lit_digits: "number_lit (show_nat n)"
proof -
  have d: "\<forall>c \<in> set (show_nat n). is_digit c" using show_nat_digits by blast
  then have tw: "takeWhile is_digit (show_nat n) = show_nat n" "dropWhile is_digit (show_nat n) = []"
    by auto
  have "hd (show_nat n) \<in> set ''0123456789''" using d by (intro digit_starts) simp
  then have "drop_digits (show_nat n) = Some []"
    by (simp only: drop_digits_def starts_with_any_def tw show_nat_nonempty simp_thms if_True)
  moreover have "show_nat n = ''0'' \<or> (show_nat n \<noteq> [] \<and> hd (show_nat n) \<noteq> CHR ''0'')"
    using show_nat_lead[of n] by auto
  ultimately show ?thesis by (simp add: number_lit_def Let_def drop_sign_nat tw)
qed

lemma number_lit_int: "number_lit (show_int i)"
proof -
  have "number_lit (CHR ''-'' # show_nat n)" for n
  proof -
    have "drop_sign ''-'' (CHR ''-'' # show_nat n) = drop_sign ''-'' (show_nat n)"
      by (simp add: drop_sign_nat) (simp add: drop_sign_def)
    then show ?thesis using number_lit_digits[of n] by (simp only: number_lit_def)
  qed
  then show ?thesis using number_lit_digits by (simp add: show_int_def)
qed

lemma show_int_not_float: "\<not> float_token (show_int i)"
proof -
  have "c \<notin> set ''.eENI''" if "c \<in> set (show_int i)" for c
    using show_int_chars[OF that] by (auto simp: is_digit_def)
  moreover have "show_int i \<noteq> ''NaN''" "show_int i \<noteq> ''Infinity''" "show_int i \<noteq> ''-Infinity''"
    using calculation by (metis list.set_intros(1) list.set_intros(2))+
  ultimately show ?thesis by (auto simp: float_token_def)
qed

lemma read_scalar_dumps:
  assumes "is_scalar j" "wf_json j" "floats_ok j"
  shows "read_scalar (dumps j) = Some j"
proof (cases j)
  case (JInt i)
  have "show_int i \<noteq> ''null''" "show_int i \<noteq> ''true''" "show_int i \<noteq> ''false''"
    using false_not_number by metis+
  moreover have "starts_with_any ''-'' (show_int i) \<longleftrightarrow> i < 0"
    by (simp add: show_int_def drop_sign_nat)
  ultimately show ?thesis
    using JInt number_lit_int show_int_not_float by (auto simp: read_scalar_def show_int_def)
next
  case (JFloat t)
  then have "t \<noteq> ''null''" "t \<noteq> ''true''" "t \<noteq> ''false''"
    using false_not_number assms(2) by auto
  then show ?thesis using JFloat assms by (simp add: read_scalar_def)
qed (use assms in \<open>auto simp: read_scalar_def\<close>)

lemma ws_not_scalar: "is_scalar j \<Longrightarrow> wf_json j \<Longrightarrow> c \<in> set (dumps j) \<Longrightarrow> \<not> is_ws c"
proof (cases j)
  case (JInt i)
  assume "c \<in> set (dumps j)"
  with JInt show ?thesis by (auto dest!: show_int_chars simp: is_ws_def is_digit_def)
next
  case (JFloat t)
  assume "wf_json j" "c \<in> set (dumps j)"
  with JFloat show ?thesis by (auto simp: float_text_def float_chars_def is_ws_def)
qed (auto simp: is_ws_def split: if_splits)

lemma parse_scalar_dumps:
  assumes "is_scalar j" "wf_json j" "floats_ok j" "stop rest"
  shows "parse_scalar (dumps j @ rest) = Some (j, rest)"
proof -
  have t: "token_char c" if "c \<in> set (dumps j)" for c
    using that scalar_no_stop[OF assms(1,2)] ws_not_scalar[OF assms(1,2)] by (auto simp: token_char_def)
  have r: "takeWhile token_char rest = []" "dropWhile token_char rest = rest"
    using assms(4) by (cases rest; simp add: token_char_def)+
  have "takeWhile token_char (dumps j @ rest) = dumps j" "dropWhile token_char (dumps j @ rest) = rest"
    using t r by (simp_all add: takeWhile_append2 dropWhile_append2)
  then show ?thesis using read_scalar_dumps[OF assms(1-3)] by (simp add: parse_scalar_def)
qed

section \<open>Reading values back\<close>

lemma dumps_hd_plain: "wf_json j \<Longrightarrow> dumps j \<noteq> [] \<and> \<not> is_ws (hd (dumps j))"
proof (cases "is_scalar j")
  case True
  assume "wf_json j"
  with True show ?thesis using scalar_hd[of j] ws_not_scalar[of j "hd (dumps j)"] by simp
next
  case False
  then show ?thesis by (cases j) (auto simp: quote_def is_ws_def)
qed

lemma skip_ws_plain: "xs \<noteq> [] \<Longrightarrow> \<not> is_ws (hd xs) \<Longrightarrow> skip_ws (xs @ ys) = xs @ ys"
  by (cases xs) (simp_all add: skip_ws_def)

lemma skip_ws_Cons [simp]: "\<not> is_ws c \<Longrightarrow> skip_ws (c # s) = c # s"
  by (simp add: skip_ws_def)

lemma skip_ws_dumps [simp]: "wf_json j \<Longrightarrow> skip_ws (dumps j @ r) = dumps j @ r"
  using dumps_hd_plain skip_ws_plain by blast

lemma not_ws [simp]: "\<not> is_ws (CHR '','')" "\<not> is_ws (CHR '']'')" "\<not> is_ws (CHR ''}'')" "\<not> is_ws (CHR '':'')"
    "\<not> is_ws (CHR 0x22)"
  by (simp_all add: is_ws_def)

lemma skip_ws_quote [simp]: "skip_ws (quote k @ r) = quote k @ r"
  by (simp add: quote_def)

lemma dict_update_new: "distinct (map fst (d @ e)) \<Longrightarrow> dict_update d e = d @ e"
proof (induction e arbitrary: d)
  case Nil
  then show ?case by (simp add: dict_update_def)
next
  case (Cons p e)
  obtain k v where p: "p = (k, v)" by fastforce
  have "dict_update d (p # e) = dict_update (dict_set k v d) e" by (simp add: dict_update_def p)
  also have "dict_set k v d = d @ [(k, v)]" using Cons.prems p by (intro dict_set_new) auto
  also have "dict_update (d @ [(k, v)]) e = (d @ [(k, v)]) @ e" using Cons.prems p by (intro Cons.IH) simp
  finally show ?case using p by simp
qed

lemma parse_elems_join:
  assumes each: "\<And>x n r. x \<in> set xs \<Longrightarrow> length (dumps x) \<le> n \<Longrightarrow> stop r \<Longrightarrow> parse_value n (dumps x @ r) = Some (x, r)"
    and wf: "\<forall>x \<in> set xs. wf_json x" and "xs \<noteq> []"
    and n: "length (join '','' (map dumps xs)) < n"
  shows "parse_elems n (join '','' (map dumps xs) @ CHR '']'' # rest) = Some (xs, rest)"
  using assms
proof (induction xs arbitrary: n)
  case (Cons x xs)
  obtain m where m: "n = Suc m" using Cons.prems(4) by (cases n) auto
  show ?case
  proof (cases xs)
    case Nil
    then show ?thesis using Cons.prems m by simp
  next
    case (Cons y ys)
    have j: "join '','' (map dumps (x # xs)) = dumps x @ CHR '','' # join '','' (map dumps xs)"
      by (simp add: Cons)
    have len: "length (dumps x) \<le> m" "length (join '','' (map dumps xs)) < m"
      using Cons.prems(4)[unfolded j m] dumps_hd_plain[of x] Cons.prems(2) by auto
    have pv: "parse_value m (dumps x @ CHR '','' # r) = Some (x, CHR '','' # r)" for r
      using Cons.prems(1)[of x m] len by simp
    have ih: "parse_elems m (join '','' (map dumps xs) @ CHR '']'' # rest) = Some (xs, rest)"
      using Cons.prems len by (intro Cons.IH) (auto simp: Cons)
    have ws: "skip_ws (join '','' (map dumps xs) @ r) = join '','' (map dumps xs) @ r" for r
      using skip_ws_dumps[of y] Cons.prems(2) by (cases ys) (simp_all add: Cons)
    show ?thesis unfolding j m by (simp add: pv ih ws del: join.simps)
  qed
qed simp

definition member_text :: "string \<times> json \<Rightarrow> string" where
  "member_text = (\<lambda>(k, v). quote k @ '':'' @ dumps v)"

lemma parse_str_tl_quote: "parse_str (tl (quote k @ r)) = Some (k, r)"
  by (simp add: quote_def parse_str_quote)

lemma quote_starts: "starts_with_any [CHR 0x22] (quote k @ r)"
  by (simp add: quote_def)

lemma parse_members_join:
  assumes each: "\<And>p n r. p \<in> set d \<Longrightarrow> length (dumps (snd p)) \<le> n \<Longrightarrow> stop r \<Longrightarrow>
      parse_value n (dumps (snd p) @ r) = Some (snd p, r)"
    and wf: "\<forall>p \<in> set d. wf_json (snd p)" and "d \<noteq> []"
    and n: "length (join '','' (map member_text d)) < n"
  shows "parse_members n (join '','' (map member_text d) @ CHR ''}'' # rest) = Some (d, rest)"
  using assms
proof (induction d arbitrary: n)
  case (Cons p d)
  obtain m where m: "n = Suc m" using Cons.prems(4) by (cases n) auto
  obtain k v where p: "p = (k, v)" by fastforce
  have mt: "member_text (k, v) @ r = quote k @ CHR '':'' # dumps v @ r" for r by (simp add: member_text_def)
  have lp: "length (member_text p) = length (quote k) + 1 + length (dumps v)"
    by (simp add: member_text_def p)
  have wv: "wf_json v" using Cons.prems(2) p by simp
  show ?case
  proof (cases d)
    case Nil
    have "length (dumps v) \<le> m" using Cons.prems(4) m Nil lp by simp
    then have "parse_value m (dumps v @ CHR ''}'' # rest) = Some (v, CHR ''}'' # rest)"
      using Cons.prems(1)[of p m] p by simp
    then show ?thesis using Nil wv
      by (simp add: m mt quote_starts parse_str_tl_quote p)
  next
    case (Cons q d')
    have j: "join '','' (map member_text (p # d)) = member_text p @ CHR '','' # join '','' (map member_text d)"
      by (simp add: Cons)
    have len: "length (dumps v) \<le> m" "length (join '','' (map member_text d)) < m"
      using Cons.prems(4)[unfolded j m] lp by auto
    have pv: "parse_value m (dumps v @ CHR '','' # r) = Some (v, CHR '','' # r)" for r
      using Cons.prems(1)[of p m] len p by simp
    have ih: "parse_members m (join '','' (map member_text d) @ CHR ''}'' # rest) = Some (d, rest)"
      using Cons.prems len by (intro Cons.IH) (auto simp: Cons)
    have ws: "skip_ws (join '','' (map member_text d) @ r) = join '','' (map member_text d) @ r" for r
      by (cases d'; cases q) (simp_all add: Cons member_text_def)
    show ?thesis unfolding j m
      by (simp add: mt quote_starts parse_str_tl_quote p pv ih ws wv del: join.simps)
  qed
qed simp

lemma parse_value_scalar:
  assumes "is_scalar j" "wf_json j" "floats_ok j" "stop rest" "length (dumps j) \<le> n"
  shows "parse_value n (dumps j @ rest) = Some (j, rest)"
proof -
  obtain c r where c: "dumps j = c # r" using scalar_hd[OF assms(1,2)] by (cases "dumps j") auto
  with assms(5) obtain m where m: "n = Suc m" by (cases n) auto
  have "c \<notin> {CHR 0x22, CHR ''['', CHR ''{''}" using scalar_hd[OF assms(1,2)] c by simp
  then have "parse_value n (dumps j @ rest) = parse_scalar (dumps j @ rest)" by (simp add: m c)
  then show ?thesis using parse_scalar_dumps[OF assms(1-4)] by simp
qed

lemma parse_value_dumps:
  assumes "wf_json j" "floats_ok j" "stop rest" "length (dumps j) \<le> n"
  shows "parse_value n (dumps j @ rest) = Some (j, rest)"
  using assms
proof (induction j arbitrary: n rest)
  case (JStr s)
  then obtain m where "n = Suc m" by (cases n) (auto simp: quote_def)
  then show ?case by (simp add: quote_starts parse_str_tl_quote)
next
  case (JArr xs)
  then obtain m where m: "n = Suc m" by (cases n) auto
  show ?case
  proof (cases xs)
    case Nil
    then show ?thesis using m by simp
  next
    case (Cons x ys)
    let ?t = "join '','' (map dumps xs)"
    have "parse_elems m (?t @ CHR '']'' # rest) = Some (xs, rest)"
      using JArr Cons m by (intro parse_elems_join) auto
    moreover have "skip_ws (?t @ r) = ?t @ r" for r
      using skip_ws_dumps[of x] JArr.prems(1) by (cases ys) (simp_all add: Cons)
    moreover have "\<not> starts_with_any '']'' (?t @ r)" for r
    proof -
      have "dumps x @ u \<noteq> CHR '']'' # v" for u v using dumps_hd_not_close[of x] JArr.prems(1) Cons by simp
      then have "?t @ r \<noteq> CHR '']'' # v" for v using Cons by (cases ys) auto
      then show ?thesis by (cases "?t @ r") (auto simp: starts_with_any_def)
    qed
    ultimately show ?thesis by (simp add: m del: join.simps)
  qed
next
  case (JObj d)
  then obtain m where m: "n = Suc m" by (cases n) auto
  have mt: "(\<lambda>(k, v). quote k @ CHR '':'' # dumps v) = member_text" by (auto simp: member_text_def)
  show ?case
  proof (cases d)
    case Nil
    then show ?thesis using m by (simp add: is_ws_def)
  next
    case (Cons p d')
    let ?t = "join '','' (map member_text d)"
    have each: "parse_value k (dumps (snd p) @ r) = Some (snd p, r)"
      if "p \<in> set d" "length (dumps (snd p)) \<le> k" "stop r" for p k r
      using JObj.IH[OF that(1), of "snd p"] that JObj.prems by (metis wf_json.simps(3) floats_ok.simps(3) snds.intros)
    have "parse_members m (?t @ CHR ''}'' # rest) = Some (d, rest)"
      using JObj.prems Cons m by (intro parse_members_join each) (auto simp: mt)
    moreover obtain k r where "?t = quote k @ r"
      using Cons by (cases d'; cases p) (auto simp: member_text_def)
    then have "skip_ws (?t @ r) = ?t @ r" "\<not> starts_with_any ''}'' (?t @ r)" for r
      by (simp_all add: quote_def)
    moreover have "dict_update [] d = d" using JObj.prems(1) dict_update_new[of "[]" d] by simp
    ultimately show ?thesis by (simp add: m mt del: join.simps)
  qed
qed (rule parse_value_scalar; simp)+

text \<open>Reading the canonical text of a value gives the value with its object keys sorted.\<close>

lemma floats_ok_sort: "floats_ok a \<Longrightarrow> floats_ok (sort_members a)"
proof (induction a)
  case (JObj d)
  then show ?case by (simp add: case_prod_beta) (metis snds.intros)
qed auto

lemma loads_dumps: "wf_json j \<Longrightarrow> floats_ok j \<Longrightarrow> loads (dumps j) = Some j"
  using parse_value_dumps[of j "[]" "Suc (length (dumps j))"] skip_ws_dumps[of j "[]"]
  by (simp add: loads_def) (simp add: skip_ws_def)

lemma loads_canonical:
  "wf_json j \<Longrightarrow> floats_ok j \<Longrightarrow> loads (canonical_json j) = Some (sort_members j)"
  by (simp add: canonical_json_def loads_dumps wf_sort_members floats_ok_sort)

section \<open>Facts about canonical texts\<close>

text \<open>Sorting the members commutes with changing their values, so it is idempotent.\<close>

lemma sort_key_fst_map:
  fixes d :: "('k :: linorder \<times> 'a) list"
  shows "sort_key fst (map (\<lambda>(k, v). (k, g v)) d) = map (\<lambda>(k, v). (k, g v)) (sort_key fst d)"
proof -
  have ins: "insort_key fst (k, g v) (map (\<lambda>(k, v). (k, g v)) d) = map (\<lambda>(k, v). (k, g v)) (insort_key fst (k, v) d)"
    for k :: 'k and v d
    by (induction d) auto
  show ?thesis by (induction d) (auto simp: ins split: prod.split)
qed

lemma sort_members_idem [simp]: "sort_members (sort_members j) = sort_members j"
proof (induction j)
  case (JObj d)
  have "map (\<lambda>(k, v). (k, sort_members v)) (map (\<lambda>(k, v). (k, sort_members v)) d)
      = map (\<lambda>(k, v). (k, sort_members v)) d"
    using JObj by (auto simp: case_prod_beta)
  then have "map (\<lambda>(k, v). (k, sort_members v)) (sort_key fst (map (\<lambda>(k, v). (k, sort_members v)) d))
      = sort_key fst (map (\<lambda>(k, v). (k, sort_members v)) d)"
    by (metis sort_key_fst_map)
  then show ?case by (simp add: sort_key_id_if_sorted)
qed (auto simp: comp_def)

lemma canonical_json_sorted [simp]: "canonical_json (sort_members j) = canonical_json j"
  by (simp add: canonical_json_def)

text \<open>A canonical text has no control characters, so it fits on one line.\<close>

lemma dumps_printable: "wf_json j \<Longrightarrow> c \<in> set (dumps j) \<Longrightarrow> 32 \<le> (of_char c :: nat)"
proof -
  have esc: "c \<in> set (esc_char d) \<Longrightarrow> 32 \<le> (of_char c :: nat)" for c d
    by (auto simp: esc_char_def short_escape_def hex_digit_def split: option.splits if_splits)
  have quo: "c \<in> set (quote s) \<Longrightarrow> 32 \<le> (of_char c :: nat)" for c s
    using esc by (auto simp: quote_def)
  have joined: "c \<in> set (join '','' xs) \<Longrightarrow> c = CHR '','' \<or> (\<exists>x \<in> set xs. c \<in> set x)" for c xs
    by (induction "'',''" xs rule: join.induct) auto
  show "wf_json j \<Longrightarrow> c \<in> set (dumps j) \<Longrightarrow> 32 \<le> (of_char c :: nat)"
  proof (induction j)
    case (JInt i)
    then show ?case by (auto dest!: show_int_chars simp: is_digit_def)
  next
    case (JFloat t)
    then show ?case by (auto simp: float_text_def float_chars_def)
  next
    case (JStr s)
    then show ?case using quo by simp
  next
    case (JArr xs)
    then show ?case by (auto dest!: joined)
  next
    case (JObj d)
    then show ?case by (auto dest!: joined quo) (metis snd_conv snds.intros)
  qed (auto split: if_splits)
qed

lemma canonical_printable:
  "wf_json j \<Longrightarrow> c \<in> set (canonical_json j) \<Longrightarrow> 32 \<le> (of_char c :: nat)"
  unfolding canonical_json_def by (rule dumps_printable[OF wf_sort_members])

section \<open>Objects with sorted keys\<close>

text \<open>A dictionary as it is read back from its canonical text.\<close>

definition sort_obj :: "jobj \<Rightarrow> jobj" where
  "sort_obj d = sort_key fst (map (\<lambda>(k, v). (k, sort_members v)) d)"

lemma sort_members_obj: "sort_members (JObj d) = JObj (sort_obj d)"
  by (simp add: sort_obj_def)

lemma sort_members_sort_obj [simp]: "sort_members (JObj (sort_obj d)) = JObj (sort_obj d)"
  by (metis sort_members_idem sort_members_obj)

lemma sort_obj_idem [simp]: "sort_obj (sort_obj d) = sort_obj d"
  by (metis json.inject(6) sort_members_obj sort_members_sort_obj)

lemma sort_members_opt [simp]: "sort_members (opt_str x) = opt_str x" "sort_members (opt_int y) = opt_int y"
  by (cases x, simp, simp) (cases y, simp, simp)

definition wf_obj :: "jobj \<Rightarrow> bool" where
  "wf_obj d \<longleftrightarrow> wf_json (JObj d) \<and> floats_ok (JObj d)"

lemma wf_opt [simp]: "wf_json (opt_str x)" "wf_json (opt_int y)" "floats_ok (opt_str x)" "floats_ok (opt_int y)"
  by (cases x; cases y; simp)+

lemma map_of_sort_obj:
  assumes "distinct (map fst d)"
  shows "map_of (sort_obj d) = map_of (map (\<lambda>(k, v). (k, sort_members v)) d)"
proof -
  let ?d = "map (\<lambda>(k, v). (k, sort_members v)) d"
  have "map fst ?d = map fst d" by (simp add: case_prod_beta comp_def)
  then have "distinct (map fst ?d)" using assms by (simp only:)
  moreover have "distinct (map fst (sort_key fst ?d))"
    using calculation by (metis mset_map mset_sort mset_eq_imp_distinct_iff)
  ultimately show ?thesis unfolding sort_obj_def by (simp add: map_of_inject_set)
qed

lemma sort_obj_get:
  assumes "sort_obj d = sort_obj d'" "distinct (map fst d)" "distinct (map fst d')"
  shows "map_option sort_members (map_of d k) = map_option sort_members (map_of d' k)"
proof -
  have m: "map_of (map (\<lambda>(k, v). (k, sort_members v)) d) k = map_option sort_members (map_of d k)" for d
    by (induction d) auto
  from map_of_sort_obj[OF assms(2)] map_of_sort_obj[OF assms(3)] assms(1)
  have "map_of (map (\<lambda>(k, v). (k, sort_members v)) d) k = map_of (map (\<lambda>(k, v). (k, sort_members v)) d') k"
    by metis
  then show ?thesis by (simp only: m)
qed

text \<open>A hash function that is not injective has a collision.\<close>

definition collision :: "hash \<Rightarrow> bool" where
  "collision h \<longleftrightarrow> (\<exists>x y. x \<noteq> y \<and> h x = h y)"

lemma digest_json_eq:
  "digest_json h a = digest_json h b \<Longrightarrow> wf_json a \<Longrightarrow> wf_json b \<Longrightarrow> sort_members a = sort_members b \<or> collision h"
  by (auto simp: digest_json_def sha256_digest_def collision_def canonical_json_inject[symmetric])

text \<open>
  The canonical JSON text that every digest is computed from can be
  read back (to the same value with sorted keys), and two values have the same canonical text
  exactly when they are equal up to the order of object keys.
\<close>

theorem canonical_text_identifies:
  assumes "wf_json j" "floats_ok j" "wf_json k"
  shows "loads (canonical_json j) = Some (sort_members j) \<and>
    (canonical_json j = canonical_json k \<longleftrightarrow> sort_members j = sort_members k)"
  using assms by (simp add: loads_canonical canonical_json_inject)

definition sample_json :: json where
  "sample_json = JObj [(''b'', JArr [JInt (- 5), JFloat ''1.5e-3'', JNull]), (''a'', JStr ''say \"hi\"'')]"

lemma canonical_text_identifies_witness:
  "loads (canonical_json sample_json) = Some (sort_members sample_json)"
proof -
  have "wf_json sample_json" "floats_ok sample_json"
    by (simp_all add: sample_json_def float_text_def float_chars_def float_token_def number_lit_def
        drop_sign_def drop_digits_def starts_with_any_def is_digit_def Let_def)
  with canonical_text_identifies[of sample_json sample_json] show ?thesis by blast
qed

end
