(* ===== verification/Artifact_Store.thy ===== *)
theory Artifact_Store
  imports Core_Models Py_Json_Read
begin

text \<open>
  \<open>storage/artifacts.py\<close>: the content-hashed artifact store on a file system, which is a map from
  resolved paths (lists of components, no symbolic links) to bytes. \<open>h\<close> is the hash function; the
  process id and the random suffix of a temporary file are one argument, its \<open>nonce\<close>. Artifact ids
  name files, not directories, and contain no wild cards of \<open>glob\<close>. \<open>durability_hook\<close> only
  observes the steps of a commit; what a crash between them leaves on disk is \<open>crash_states\<close>.
\<close>

section \<open>Paths\<close>

type_synonym path = "string list"
type_synonym fs = "path \<Rightarrow> string option"

fun split_slash :: "string \<Rightarrow> string \<Rightarrow> string list" where
  "split_slash acc [] = [rev acc]"
| "split_slash acc (c # s) = (if c = CHR ''/'' then rev acc # split_slash [] s else split_slash (c # acc) s)"

text \<open>The components of a path text: empty ones and \<open>.\<close> disappear.\<close>

definition parts :: "string \<Rightarrow> string list" where
  "parts s = filter (\<lambda>p. p \<noteq> [] \<and> p \<noteq> ''.'') (split_slash [] s)"

text \<open>\<open>base / s\<close>: an absolute \<open>s\<close> replaces the base.\<close>

definition join_path :: "path \<Rightarrow> string \<Rightarrow> path" where
  "join_path base s = (if s \<noteq> [] \<and> hd s = CHR ''/'' then parts s else base @ parts s)"

definition resolve :: "path \<Rightarrow> path" where
  "resolve p = foldl (\<lambda>acc c. if c = ''..'' then butlast acc else acc @ [c]) [] p"

definition path_name :: "path \<Rightarrow> string" where
  "path_name p = (if p = [] then [] else last p)"

definition with_suffix :: "path \<Rightarrow> string \<Rightarrow> path" where
  "with_suffix p s = butlast p @ [path_name p @ s]"

definition file_exists :: "fs \<Rightarrow> path \<Rightarrow> bool" where
  "file_exists fs p \<longleftrightarrow> fs (resolve p) \<noteq> None"

definition read_file :: "fs \<Rightarrow> path \<Rightarrow> string res" where
  "read_file fs p = (case fs (resolve p) of None \<Rightarrow> Inl (FileNotFoundError (path_name p)) | Some d \<Rightarrow> Inr d)"

definition write_file :: "fs \<Rightarrow> path \<Rightarrow> string \<Rightarrow> fs" where
  "write_file fs p d = fs(resolve p \<mapsto> d)"

text \<open>\<open>open("xb")\<close>, which creates, and \<open>os.replace\<close>.\<close>

definition create_file :: "fs \<Rightarrow> path \<Rightarrow> string \<Rightarrow> fs res" where
  "create_file fs p d = (if file_exists fs p then Inl (FileExistsError (path_name p)) else Inr (write_file fs p d))"

definition replace_file :: "fs \<Rightarrow> path \<Rightarrow> path \<Rightarrow> fs" where
  "replace_file fs src dst = (fs(resolve src := None))(resolve dst := fs (resolve src))"

section \<open>Names\<close>

fun replace_char :: "char \<Rightarrow> char \<Rightarrow> string \<Rightarrow> string" where
  "replace_char a b s = map (\<lambda>c. if c = a then b else c) s"

definition artifact_filename :: "hash \<Rightarrow> string \<Rightarrow> string" where
  "artifact_filename h artifact_id =
     (if CHR '':'' \<notin> set artifact_id then artifact_id
      else replace_char (CHR '':'') (CHR ''_'') artifact_id @ ''--'' @ take 16 (h artifact_id))"

record artifact_store =
  st_root :: path
  st_dir_name :: string

definition artifact_dir :: "artifact_store \<Rightarrow> path" where
  "artifact_dir st = join_path (st_root st) (st_dir_name st)"

definition artifact_target :: "hash \<Rightarrow> artifact_store \<Rightarrow> string \<Rightarrow> path" where
  "artifact_target h st artifact_id = join_path (artifact_dir st) (artifact_filename h artifact_id)"

definition artifact_marker :: "hash \<Rightarrow> artifact_store \<Rightarrow> string \<Rightarrow> path" where
  "artifact_marker h st artifact_id =
     join_path (artifact_dir st) (artifact_filename h artifact_id @ ''.commit.json'')"

definition manifest_path :: "hash \<Rightarrow> artifact_store \<Rightarrow> string \<Rightarrow> path" where
  "manifest_path h st artifact_id =
     join_path (artifact_dir st) (artifact_filename h artifact_id @ ''.manifest.json'')"

definition data_temp :: "hash \<Rightarrow> path \<Rightarrow> string \<Rightarrow> path" where
  "data_temp h target nonce = butlast target @ [''.data-'' @ take 16 (h (path_name target)) @ ''.tmp.'' @ nonce]"

definition commit_temp :: "hash \<Rightarrow> path \<Rightarrow> string \<Rightarrow> path" where
  "commit_temp h marker nonce = butlast marker @ [''.commit-'' @ take 16 (h (path_name marker)) @ ''.tmp.'' @ nonce]"

definition is_prefix :: "string \<Rightarrow> string \<Rightarrow> bool" where
  "is_prefix p s \<longleftrightarrow> take (length p) s = p"

text \<open>\<open>_cleanup_stale_temps\<close>.\<close>

definition stale_temp :: "hash \<Rightarrow> path \<Rightarrow> path \<Rightarrow> bool" where
  "stale_temp h target p \<longleftrightarrow>
     p \<noteq> [] \<and> butlast p = resolve (butlast target) \<and>
     (is_prefix (''.data-'' @ take 16 (h (path_name target)) @ ''.tmp.'') (last p) \<or>
      (length (''.'' @ path_name target @ ''.tmp.*'') \<le> 255 \<and>
       is_prefix (''.'' @ path_name target @ ''.tmp.'') (last p)))"

definition cleanup_stale_temps :: "hash \<Rightarrow> fs \<Rightarrow> path \<Rightarrow> fs" where
  "cleanup_stale_temps h fs target = (\<lambda>p. if stale_temp h target p then None else fs p)"

section \<open>Committing bytes\<close>

definition commit_marker :: "hash \<Rightarrow> path \<Rightarrow> string \<Rightarrow> string" where
  "commit_marker h target data =
     canonical_json (JObj [(''schema_version'', JStr ''tokenshare.durable_file_commit.v1''),
       (''target_name'', JStr (path_name target)),
       (''content_hash'', JStr (sha256_digest h data)),
       (''size_bytes'', JInt (int (length data)))])"

definition ensure_commit_marker :: "hash \<Rightarrow> fs \<Rightarrow> path \<Rightarrow> path \<Rightarrow> string \<Rightarrow> string \<Rightarrow> fs res" where
  "ensure_commit_marker h fs target marker data nonce =
     (let encoded = commit_marker h target data in
      if file_exists fs marker
      then bindE (read_file fs marker) (\<lambda>m.
           if m \<noteq> encoded then Inl (ValueError (''durable commit marker mismatch: '' @ path_name marker))
           else Inr fs)
      else bindE (create_file fs (commit_temp h marker nonce) encoded) (\<lambda>fs1.
           Inr (replace_file fs1 (commit_temp h marker nonce) marker)))"

definition commit_bytes :: "hash \<Rightarrow> fs \<Rightarrow> path \<Rightarrow> string \<Rightarrow> path \<Rightarrow> string \<Rightarrow> fs res" where
  "commit_bytes h fs target data marker nonce =
     (if file_exists fs target
      then bindE (read_file fs target) (\<lambda>old.
           if sha256_digest h old \<noteq> sha256_digest h data
           then Inl (ValueError (''immutable target already exists with different content: '' @ path_name target))
           else bindE (ensure_commit_marker h fs target marker data nonce) (\<lambda>fs1.
                Inr (cleanup_stale_temps h fs1 target)))
      else bindE (create_file fs (data_temp h target nonce) data) (\<lambda>fs1.
           bindE (ensure_commit_marker h (replace_file fs1 (data_temp h target nonce) target) target marker
                    data nonce) (\<lambda>fs2.
           Inr (cleanup_stale_temps h fs2 target))))"

text \<open>
  What the disk can hold after a crash in the middle of a commit of a new file: nothing yet, a
  temporary file with some of the bytes, the renamed file, the temporary marker, or both files.
\<close>

definition crash_states :: "hash \<Rightarrow> fs \<Rightarrow> path \<Rightarrow> string \<Rightarrow> path \<Rightarrow> string \<Rightarrow> string \<Rightarrow> fs list" where
  "crash_states h fs target data marker nonce partial =
     (let temp = data_temp h target nonce; mtemp = commit_temp h marker nonce;
          renamed = replace_file (write_file fs temp data) temp target;
          mwritten = write_file renamed mtemp (commit_marker h target data)
      in [fs, write_file fs temp partial, write_file fs temp data, renamed,
          write_file renamed mtemp partial, mwritten, replace_file mwritten mtemp marker])"

section \<open>The store\<close>

record artifact_args =
  aa_artifact_type :: string
  aa_media_type :: string
  aa_artifact_schema_id :: string
  aa_artifact_schema_version :: string
  aa_source :: jobj
  aa_ref_metadata :: jobj
  aa_created_at :: string

definition write_manifest :: "hash \<Rightarrow> artifact_store \<Rightarrow> fs \<Rightarrow> artifact_ref \<Rightarrow> string \<Rightarrow> fs res" where
  "write_manifest h st fs ref nonce =
     (let mp = manifest_path h st (ar_artifact_id ref)
      in commit_bytes h fs mp (canonical_json (JObj (ar_to_dict ref))) (with_suffix mp ''.commit.json'') nonce)"

definition save_bytes ::
  "hash \<Rightarrow> artifact_store \<Rightarrow> fs \<Rightarrow> string \<Rightarrow> string \<Rightarrow> artifact_args \<Rightarrow> string \<Rightarrow> (fs \<times> artifact_ref) res" where
  "save_bytes h st fs data artifact_id args nonce =
     (let target = artifact_target h st artifact_id in
      seqE (if file_exists fs target
            then bindE (read_file fs target) (\<lambda>old.
                 raise_if (sha256_digest h old \<noteq> sha256_digest h data)
                   (ValueError (''artifact_id already exists with different content: '' @ artifact_id)))
            else Inr ())
      (bindE (commit_bytes h fs target data (artifact_marker h st artifact_id) nonce) (\<lambda>fs1.
       let ref = \<lparr>ar_artifact_id = artifact_id, ar_artifact_type = aa_artifact_type args,
                  ar_uri = st_dir_name st @ ''/'' @ artifact_filename h artifact_id,
                  ar_content_hash = sha256_digest h data, ar_size_bytes = int (length data),
                  ar_media_type = aa_media_type args, ar_artifact_schema_id = aa_artifact_schema_id args,
                  ar_artifact_schema_version = aa_artifact_schema_version args,
                  ar_source = aa_source args, ar_metadata = aa_ref_metadata args,
                  ar_created_at = aa_created_at args, ar_schema_version = ''ArtifactRef.v1''\<rparr>
       in bindE (write_manifest h st fs1 ref nonce) (\<lambda>fs2. Inr (fs2, ref)))))"

text \<open>\<open>str.removeprefix("sha256:")\<close> of the digest is the hexadecimal part.\<close>

definition remove_prefix :: "string \<Rightarrow> string \<Rightarrow> string" where
  "remove_prefix p s = (if is_prefix p s then drop (length p) s else s)"

definition save_content_addressed_bytes ::
  "hash \<Rightarrow> artifact_store \<Rightarrow> fs \<Rightarrow> string \<Rightarrow> artifact_args \<Rightarrow> string \<Rightarrow> (fs \<times> artifact_ref) res" where
  "save_content_addressed_bytes h st fs data args nonce =
     save_bytes h st fs data (remove_prefix ''sha256:'' (sha256_digest h data)) args nonce"

definition save_json ::
  "hash \<Rightarrow> artifact_store \<Rightarrow> fs \<Rightarrow> json \<Rightarrow> string \<Rightarrow> artifact_args \<Rightarrow> string \<Rightarrow> (fs \<times> artifact_ref) res" where
  "save_json h st fs data artifact_id args nonce =
     save_bytes h st fs (canonical_json data) artifact_id (args\<lparr>aa_media_type := ''application/json''\<rparr>) nonce"

text \<open>\<open>_resolve_uri\<close>, with \<open>urlparse\<close>'s scheme, and its path for a \<open>file\<close> URI.\<close>

definition is_letter :: "char \<Rightarrow> bool" where
  "is_letter c \<longleftrightarrow> (let n = (of_char c :: nat) in (65 \<le> n \<and> n \<le> 90) \<or> (97 \<le> n \<and> n \<le> 122))"

definition to_lower :: "char \<Rightarrow> char" where
  "to_lower c = (let n = (of_char c :: nat) in if 65 \<le> n \<and> n \<le> 90 then char_of (n + 32) else c)"

definition scheme_char :: "char \<Rightarrow> bool" where
  "scheme_char c \<longleftrightarrow> is_letter c \<or> is_digit c \<or> c \<in> set ''+-.''"

definition url_scheme :: "string \<Rightarrow> string" where
  "url_scheme uri =
     (let s = takeWhile (\<lambda>c. c \<noteq> CHR '':'') uri
      in if s \<noteq> uri \<and> s \<noteq> [] \<and> is_letter (hd s) \<and> list_all scheme_char s then map to_lower s else [])"

definition file_url_path :: "string \<Rightarrow> string" where
  "file_url_path uri =
     (let rest = tl (dropWhile (\<lambda>c. c \<noteq> CHR '':'') uri);
          body = (if is_prefix ''//'' rest then dropWhile (\<lambda>c. c \<notin> set ''/?#'') (drop 2 rest) else rest)
      in takeWhile (\<lambda>c. c \<notin> set ''?#'') body)"

definition resolve_uri :: "artifact_store \<Rightarrow> string \<Rightarrow> path res" where
  "resolve_uri st uri =
     bindE (if url_scheme uri = ''file'' then Inr (parts (file_url_path uri))
            else if url_scheme uri = [] then Inr (join_path (st_root st) uri)
            else Inl (ValueError (''unsupported artifact uri scheme: '' @ url_scheme uri))) (\<lambda>candidate.
     let root = resolve (st_root st); resolved = resolve candidate in
     if root \<noteq> resolved \<and> \<not> (length root < length resolved \<and> take (length root) resolved = root)
     then Inl (ValueError (''artifact uri escapes store root: '' @ uri))
     else Inr resolved)"

definition read_bytes :: "artifact_store \<Rightarrow> fs \<Rightarrow> artifact_ref \<Rightarrow> string res" where
  "read_bytes st fs ref = bindE (resolve_uri st (ar_uri ref)) (\<lambda>p. read_file fs p)"

definition verify_artifact :: "hash \<Rightarrow> artifact_store \<Rightarrow> fs \<Rightarrow> artifact_ref \<Rightarrow> bool res" where
  "verify_artifact h st fs ref =
     (case read_bytes st fs ref of
        Inl (FileNotFoundError _) \<Rightarrow> Inr False
      | Inl e \<Rightarrow> Inl e
      | Inr data \<Rightarrow> Inr (int (length data) = ar_size_bytes ref \<and> sha256_digest h data = ar_content_hash ref))"

text \<open>The marker exists, so \<open>_ensure_commit_marker\<close> only compares it here.\<close>

definition validate_commit_marker :: "hash \<Rightarrow> fs \<Rightarrow> path \<Rightarrow> path \<Rightarrow> string res" where
  "validate_commit_marker h fs target marker =
     (if \<not> file_exists fs target then Inl (FileNotFoundError (path_name target))
      else if \<not> file_exists fs marker
      then Inl (ValueError (''durable artifact commit is incomplete: '' @ path_name target))
      else bindE (read_file fs target) (\<lambda>data.
           bindE (ensure_commit_marker h fs target marker data []) (\<lambda>_. Inr data)))"

definition load_artifact_ref :: "hash \<Rightarrow> artifact_store \<Rightarrow> fs \<Rightarrow> string \<Rightarrow> artifact_ref res" where
  "load_artifact_ref h st fs artifact_id =
     (let mp = manifest_path h st artifact_id in
      bindE (validate_commit_marker h fs mp (with_suffix mp ''.commit.json'')) (\<lambda>manifest_bytes.
      bindE (case loads manifest_bytes of None \<Rightarrow> Inl (ValueError ''invalid JSON'') | Some j \<Rightarrow> Inr j) (\<lambda>body.
      bindE (case body of JObj d \<Rightarrow> ar_from_dict d | _ \<Rightarrow> Inl (TypeError ''artifact_id'')) (\<lambda>ref.
      bindE (if ar_artifact_id ref \<noteq> artifact_id then Inr False else verify_artifact h st fs ref) (\<lambda>ok.
      if \<not> ok then Inl (ValueError (''artifact commit is not valid: '' @ artifact_id))
      else bindE (validate_commit_marker h fs (artifact_target h st artifact_id)
                    (artifact_marker h st artifact_id)) (\<lambda>_. Inr ref))))))"

end
