(* ===== verification/Artifact_Commit.thy ===== *)
theory Artifact_Commit
  imports Artifact_Store
begin

text \<open>
  What the artifact store promises. The visible part of the disk, without the hidden temporary
  files, changes by one abstract commit; from that follow the round trip of saved artifacts, that
  nothing visible is ever overwritten, and that a save can be repeated after a crash at any step.
\<close>

section \<open>Names without surprises\<close>

definition hex_hash :: "hash \<Rightarrow> bool" where
  "hex_hash h \<longleftrightarrow> (\<forall>x. set (h x) \<subseteq> set ''0123456789abcdef'')"

definition plain_name :: "string \<Rightarrow> bool" where
  "plain_name s \<longleftrightarrow> s \<noteq> [] \<and> hd s \<noteq> CHR ''.'' \<and> CHR ''/'' \<notin> set s"

definition plain_store :: "artifact_store \<Rightarrow> bool" where
  "plain_store st \<longleftrightarrow> ''..'' \<notin> set (st_root st) \<and> plain_name (st_dir_name st) \<and> CHR '':'' \<notin> set (st_dir_name st)"

lemma split_slash_none: "CHR ''/'' \<notin> set s \<Longrightarrow> split_slash acc s = [rev acc @ s]"
  by (induction s arbitrary: acc) auto

lemma parts_plain: "plain_name s \<Longrightarrow> parts s = [s]"
  by (auto simp: plain_name_def parts_def split_slash_none)

lemma split_slash_cons:
  "CHR ''/'' \<notin> set a \<Longrightarrow> split_slash acc (a @ CHR ''/'' # b) = (rev acc @ a) # split_slash [] b"
  by (induction a arbitrary: acc) auto

lemma parts_pair: "plain_name a \<Longrightarrow> plain_name b \<Longrightarrow> parts (a @ CHR ''/'' # b) = [a, b]"
  by (auto simp: plain_name_def parts_def split_slash_cons split_slash_none)

lemma join_plain: "plain_name s \<Longrightarrow> join_path base s = base @ [s]"
  by (cases s) (auto simp: join_path_def parts_plain, auto simp: plain_name_def)

lemma plain_append: "plain_name s \<Longrightarrow> CHR ''/'' \<notin> set t \<Longrightarrow> plain_name (s @ t)"
  by (auto simp: plain_name_def)

lemma resolve_id: "''..'' \<notin> set p \<Longrightarrow> resolve p = p"
proof -
  have "''..'' \<notin> set p \<Longrightarrow> foldl (\<lambda>acc c. if c = ''..'' then butlast acc else acc @ [c]) a p = a @ p" for a
    by (induction p arbitrary: a) auto
  then show "''..'' \<notin> set p \<Longrightarrow> resolve p = p" by (simp add: resolve_def)
qed

lemma dir_plain: "plain_store st \<Longrightarrow> artifact_dir st = st_root st @ [st_dir_name st]"
  by (simp add: artifact_dir_def plain_store_def join_plain)

lemma dir_no_dots: "plain_store st \<Longrightarrow> ''..'' \<notin> set (artifact_dir st)"
proof -
  assume p: "plain_store st"
  have "st_dir_name st \<noteq> ''..''"
  proof
    assume "st_dir_name st = ''..''"
    then have "hd (st_dir_name st) = CHR ''.''" by simp
    then show False using p by (simp add: plain_store_def plain_name_def)
  qed
  then show ?thesis using p by (auto simp: dir_plain plain_store_def)
qed

text \<open>A file of the store's directory.\<close>

definition in_dir :: "artifact_store \<Rightarrow> path \<Rightarrow> string \<Rightarrow> bool" where
  "in_dir st p s \<longleftrightarrow> p = artifact_dir st @ [s] \<and> s \<noteq> ''..''"

lemma in_dir_resolve: "plain_store st \<Longrightarrow> in_dir st p s \<Longrightarrow> resolve p = p \<and> resolve (butlast p) = butlast p"
  using dir_no_dots[of st] by (auto simp: in_dir_def butlast_append intro!: resolve_id)

section \<open>The visible disk\<close>

definition hidden :: "path \<Rightarrow> bool" where
  "hidden p \<longleftrightarrow> p \<noteq> [] \<and> last p \<noteq> [] \<and> hd (last p) = CHR ''.''"

definition visible :: "fs \<Rightarrow> fs" where
  "visible fs = (\<lambda>p. if hidden p then None else fs p)"

definition commit_spec :: "hash \<Rightarrow> fs \<Rightarrow> path \<Rightarrow> string \<Rightarrow> path \<Rightarrow> fs option" where
  "commit_spec h v target data marker =
     (if (\<forall>old. v target = Some old \<longrightarrow> h old = h data) \<and>
         (v marker = None \<or> v marker = Some (commit_marker h target data))
      then Some (v(target \<mapsto> (case v target of None \<Rightarrow> data | Some old \<Rightarrow> old),
                   marker \<mapsto> commit_marker h target data))
      else None)"

text \<open>Two different visible files of the directory, to be committed.\<close>

definition commit_pair :: "artifact_store \<Rightarrow> path \<Rightarrow> path \<Rightarrow> bool" where
  "commit_pair st target marker \<longleftrightarrow> plain_store st \<and> target \<noteq> marker \<and>
     (\<exists>t. plain_name t \<and> in_dir st target t) \<and> (\<exists>m. plain_name m \<and> in_dir st marker m)"

lemma pair_facts:
  assumes "commit_pair st target marker"
  shows "resolve target = target" "resolve marker = marker" "\<not> hidden target" "\<not> hidden marker"
    "resolve (data_temp h target nonce) = data_temp h target nonce"
    "resolve (commit_temp h marker nonce) = commit_temp h marker nonce"
    "hidden (data_temp h target nonce)" "hidden (commit_temp h marker nonce)"
    "resolve (butlast target) = butlast target"
proof -
  obtain t m where d: "plain_store st" "in_dir st target t" "in_dir st marker m" "plain_name t" "plain_name m"
    using assms by (auto simp: commit_pair_def)
  then show "resolve target = target" "resolve marker = marker" "resolve (butlast target) = butlast target"
    by (auto simp: in_dir_resolve)
  show "\<not> hidden target" "\<not> hidden marker"
    using d by (auto simp: in_dir_def hidden_def plain_name_def)
  note dir = dir_no_dots[OF d(1)]
  show "resolve (data_temp h target nonce) = data_temp h target nonce"
    "resolve (commit_temp h marker nonce) = commit_temp h marker nonce"
    using d(2,3) dir by (auto simp: in_dir_def data_temp_def commit_temp_def intro!: resolve_id)
  show "hidden (data_temp h target nonce)" "hidden (commit_temp h marker nonce)"
    by (simp_all add: hidden_def data_temp_def commit_temp_def)
qed

lemma visible_hidden [simp]: "hidden p \<Longrightarrow> visible (fs(p := x)) = visible fs"
  by (auto simp: visible_def)

lemma visible_upd [simp]: "\<not> hidden p \<Longrightarrow> visible (fs(p := x)) = (visible fs)(p := x)"
  by (auto simp: visible_def)

lemma visible_get: "\<not> hidden p \<Longrightarrow> visible fs p = fs p"
  by (simp add: visible_def)

lemma stale_hidden: "stale_temp h target p \<Longrightarrow> hidden p"
  by (cases "last p") (auto simp: stale_temp_def hidden_def is_prefix_def)

lemma visible_cleanup [simp]: "visible (cleanup_stale_temps h fs target) = visible fs"
  using stale_hidden by (fastforce simp: visible_def cleanup_stale_temps_def)

lemma digest_eq [simp]: "sha256_digest h a = sha256_digest h b \<longleftrightarrow> h a = h b"
  by (simp add: sha256_digest_def)

lemma ensure_marker_ok:
  assumes "commit_pair st target marker" "ensure_commit_marker h fs target marker data nonce = Inr fs'"
  shows "visible fs' = (visible fs)(marker \<mapsto> commit_marker h target data) \<and>
    (visible fs marker = None \<or> visible fs marker = Some (commit_marker h target data))"
  using assms(2) pair_facts[OF assms(1)]
  by (auto simp: ensure_commit_marker_def Let_def file_exists_def read_file_def create_file_def replace_file_def
      write_file_def visible_get fun_upd_idem split: if_splits option.splits)

lemma ensure_marker_total:
  assumes "commit_pair st target marker" "fs (commit_temp h marker nonce) = None"
    "visible fs marker = None \<or> visible fs marker = Some (commit_marker h target data)"
  shows "is_ok (ensure_commit_marker h fs target marker data nonce)"
  using assms(2,3) pair_facts[OF assms(1)]
  by (auto simp: ensure_commit_marker_def Let_def file_exists_def read_file_def create_file_def visible_get)

lemma temps_differ:
  assumes "commit_pair st target marker"
  shows "data_temp h target n \<noteq> commit_temp h marker n'" "data_temp h target n \<noteq> target"
    "data_temp h target n \<noteq> marker" "commit_temp h marker n' \<noteq> target" "commit_temp h marker n' \<noteq> marker"
  using pair_facts[OF assms] by (auto simp: data_temp_def commit_temp_def) metis+

text \<open>A successful commit does to the visible disk what the abstract commit does.\<close>

lemma commit_bytes_refines:
  assumes "commit_pair st target marker" "commit_bytes h fs target data marker nonce = Inr fs'"
  shows "commit_spec h (visible fs) target data marker = Some (visible fs')"
proof (cases "fs target")
  case None
  obtain fs1 where e: "ensure_commit_marker h (replace_file (write_file fs (data_temp h target nonce) data)
      (data_temp h target nonce) target) target marker data nonce = Inr fs1"
    and f: "fs' = cleanup_stale_temps h fs1 target"
    using assms(2) None pair_facts[OF assms(1)]
    by (auto simp: commit_bytes_def file_exists_def create_file_def res_simps split: if_splits)
  from ensure_marker_ok[OF assms(1) e] f None assms(1) pair_facts[OF assms(1)]
  show ?thesis
    by (auto simp: commit_spec_def visible_get replace_file_def write_file_def commit_pair_def)
next
  case (Some old)
  obtain fs1 where "h old = h data" and e: "ensure_commit_marker h fs target marker data nonce = Inr fs1"
    and f: "fs' = cleanup_stale_temps h fs1 target"
    using assms(2) Some pair_facts[OF assms(1)]
    by (auto simp: commit_bytes_def file_exists_def read_file_def res_simps split: if_splits)
  with ensure_marker_ok[OF assms(1) e] Some assms(1) pair_facts[OF assms(1)]
  show ?thesis by (auto simp: commit_spec_def visible_get fun_upd_idem)
qed

text \<open>It succeeds whenever the abstract commit does and the temporary names are fresh.\<close>

lemma commit_bytes_total:
  assumes "commit_pair st target marker" "commit_spec h (visible fs) target data marker \<noteq> None"
    and "fs (data_temp h target nonce) = None" "fs (commit_temp h marker nonce) = None"
  shows "is_ok (commit_bytes h fs target data marker nonce)"
proof -
  note p = pair_facts[OF assms(1)] temps_differ[OF assms(1)]
  have c: "visible fs marker = None \<or> visible fs marker = Some (commit_marker h target data)"
    "\<forall>old. fs target = Some old \<longrightarrow> h old = h data"
    using assms(2) p by (auto simp: commit_spec_def visible_get split: if_splits)
  show ?thesis
  proof (cases "fs target")
    case None
    let ?fs = "replace_file (write_file fs (data_temp h target nonce) data) (data_temp h target nonce) target"
    have "is_ok (ensure_commit_marker h ?fs target marker data nonce)"
      by (rule ensure_marker_total[OF assms(1)])
        (use assms(1,4) c p in \<open>auto simp: replace_file_def write_file_def commit_pair_def\<close>)
    then show ?thesis using None assms(3) p by (auto simp: commit_bytes_def file_exists_def create_file_def is_ok_iff)
  next
    case (Some old)
    then show ?thesis
      using ensure_marker_total[OF assms(1,4) c(1)] c p
      by (auto simp: commit_bytes_def file_exists_def read_file_def is_ok_iff)
  qed
qed

lemma commit_spec_keeps:
  "commit_spec h v target data marker = Some v' \<Longrightarrow> v p = Some d \<Longrightarrow> v' p = Some d"
  by (auto simp: commit_spec_def split: if_splits option.splits)

lemma commit_spec_again:
  "commit_spec h v target data marker = Some v' \<Longrightarrow> target \<noteq> marker \<Longrightarrow>
     commit_spec h v' target data marker = Some v'"
  by (auto simp: commit_spec_def fun_upd_idem split: if_splits option.splits)

section \<open>Saving\<close>

text \<open>An artifact id whose file has a plain name, in a plain store.\<close>

definition plain_id :: "hash \<Rightarrow> artifact_store \<Rightarrow> string \<Rightarrow> bool" where
  "plain_id h st i \<longleftrightarrow> plain_store st \<and> plain_name (artifact_filename h i) \<and>
     CHR '':'' \<notin> set (artifact_filename h i)"

lemma plain_paths:
  assumes "plain_id h st i"
  defines "f \<equiv> artifact_filename h i"
  shows "artifact_target h st i = artifact_dir st @ [f]"
    "artifact_marker h st i = artifact_dir st @ [f @ ''.commit.json'']"
    "manifest_path h st i = artifact_dir st @ [f @ ''.manifest.json'']"
    "with_suffix (manifest_path h st i) ''.commit.json'' = artifact_dir st @ [f @ ''.manifest.json.commit.json'']"
  using assms plain_append[of f]
  by (simp_all add: plain_id_def artifact_target_def artifact_marker_def manifest_path_def join_plain
      with_suffix_def path_name_def)

lemma commit_pairI:
  "plain_store st \<Longrightarrow> plain_name t \<Longrightarrow> plain_name m \<Longrightarrow> t \<noteq> m \<Longrightarrow>
     commit_pair st (artifact_dir st @ [t]) (artifact_dir st @ [m])"
  by (auto simp: commit_pair_def in_dir_def plain_name_def)

lemma plain_pairs:
  assumes "plain_id h st i"
  shows "commit_pair st (artifact_target h st i) (artifact_marker h st i)"
    "commit_pair st (manifest_path h st i) (with_suffix (manifest_path h st i) ''.commit.json'')"
proof -
  let ?f = "artifact_filename h i"
  have p: "plain_store st" and f: "plain_name ?f" using assms by (auto simp: plain_id_def)
  have s: "plain_name (?f @ ''.commit.json'')" "plain_name (?f @ ''.manifest.json'')"
    "plain_name (?f @ ''.manifest.json.commit.json'')"
    using f by (auto intro!: plain_append)
  show "commit_pair st (artifact_target h st i) (artifact_marker h st i)"
    unfolding plain_paths(1,2)[OF assms] by (rule commit_pairI[OF p f s(1)]) simp
  have "commit_pair st (artifact_dir st @ [?f @ ''.manifest.json''])
      (artifact_dir st @ [?f @ ''.manifest.json.commit.json''])"
    by (rule commit_pairI[OF p s(2,3)]) simp
  then show "commit_pair st (manifest_path h st i) (with_suffix (manifest_path h st i) ''.commit.json'')"
    using plain_paths(3,4)[OF assms] by metis
qed

definition saved_ref :: "hash \<Rightarrow> artifact_store \<Rightarrow> string \<Rightarrow> string \<Rightarrow> artifact_args \<Rightarrow> artifact_ref" where
  "saved_ref h st data artifact_id args =
     \<lparr>ar_artifact_id = artifact_id, ar_artifact_type = aa_artifact_type args,
      ar_uri = st_dir_name st @ ''/'' @ artifact_filename h artifact_id,
      ar_content_hash = sha256_digest h data, ar_size_bytes = int (length data),
      ar_media_type = aa_media_type args, ar_artifact_schema_id = aa_artifact_schema_id args,
      ar_artifact_schema_version = aa_artifact_schema_version args,
      ar_source = aa_source args, ar_metadata = aa_ref_metadata args,
      ar_created_at = aa_created_at args, ar_schema_version = ''ArtifactRef.v1''\<rparr>"

text \<open>The bytes of the manifest, and the abstract save: two abstract commits.\<close>

definition manifest_text :: "hash \<Rightarrow> artifact_store \<Rightarrow> string \<Rightarrow> string \<Rightarrow> artifact_args \<Rightarrow> string" where
  "manifest_text h st data i args = canonical_json (JObj (ar_to_dict (saved_ref h st data i args)))"

definition save_spec :: "hash \<Rightarrow> artifact_store \<Rightarrow> fs \<Rightarrow> string \<Rightarrow> string \<Rightarrow> artifact_args \<Rightarrow> fs option" where
  "save_spec h st v data i args =
     Option.bind (commit_spec h v (artifact_target h st i) data (artifact_marker h st i)) (\<lambda>v1.
       commit_spec h v1 (manifest_path h st i) (manifest_text h st data i args)
         (with_suffix (manifest_path h st i) ''.commit.json''))"

lemma save_bytes_refines:
  assumes "plain_id h st i" "save_bytes h st fs data i args nonce = Inr (fs', ref)"
  shows "ref = saved_ref h st data i args" and "save_spec h st (visible fs) data i args = Some (visible fs')"
proof -
  obtain fs1 where a: "commit_bytes h fs (artifact_target h st i) data (artifact_marker h st i) nonce = Inr fs1"
    and b: "write_manifest h st fs1 (saved_ref h st data i args) nonce = Inr fs'"
    and r: "ref = saved_ref h st data i args"
    using assms(2) by (auto simp: save_bytes_def Let_def res_simps saved_ref_def)
  show "ref = saved_ref h st data i args" by (rule r)
  show "save_spec h st (visible fs) data i args = Some (visible fs')"
    using commit_bytes_refines[OF plain_pairs(1)[OF assms(1)] a] commit_bytes_refines[OF plain_pairs(2)[OF assms(1)]] b
    by (simp add: save_spec_def manifest_text_def saved_ref_def write_manifest_def Let_def)
qed

text \<open>
  C5 artifacts_immutable: saving never changes or removes a file that is on disk, whatever the id
  and the content of the new artifact; only hidden temporary files come and go.
\<close>

theorem artifacts_immutable:
  assumes "plain_id h st i" and "save_bytes h st fs data i args nonce = Inr (fs', ref)"
    and "fs p = Some d" and "\<not> hidden p"
  shows "fs' p = Some d"
proof -
  obtain v1 where v: "commit_spec h (visible fs) (artifact_target h st i) data (artifact_marker h st i) = Some v1"
    "commit_spec h v1 (manifest_path h st i) (manifest_text h st data i args)
         (with_suffix (manifest_path h st i) ''.commit.json'') = Some (visible fs')"
    using save_bytes_refines(2)[OF assms(1,2)] by (auto simp: save_spec_def split: Option.bind_splits)
  have "visible fs p = Some d" using assms(3,4) by (simp add: visible_get)
  then have "visible fs' p = Some d" using commit_spec_keeps[OF v(1)] commit_spec_keeps[OF v(2)] by blast
  then show ?thesis using assms(4) by (simp add: visible_get)
qed

section \<open>Loading what was saved\<close>

definition norm_ref :: "artifact_ref \<Rightarrow> artifact_ref" where
  "norm_ref r = r\<lparr>ar_source := sort_obj (ar_source r), ar_metadata := sort_obj (ar_metadata r)\<rparr>"

definition wf_ref :: "artifact_ref \<Rightarrow> bool" where
  "wf_ref r \<longleftrightarrow> wf_obj (ar_source r) \<and> wf_obj (ar_metadata r)"

lemma ar_from_dict_cong: "map_of d = map_of e \<Longrightarrow> ar_from_dict d = ar_from_dict e"
  by (simp add: ar_from_dict_def str_default_def jitem_def str_item_def dict_default_def)

lemma ar_from_sorted:
  assumes "wf_ref r"
  shows "ar_from_dict (sort_obj (ar_to_dict r)) = Inr (norm_ref r)"
proof -
  have "ar_from_dict (sort_obj (ar_to_dict r))
      = ar_from_dict (map (\<lambda>(k, v). (k, sort_members v)) (ar_to_dict r))"
    by (intro ar_from_dict_cong map_of_sort_obj) (simp add: ar_to_dict_def)
  also have "\<dots> = Inr (norm_ref r)"
    by (simp add: ar_to_dict_def ar_from_dict_def str_default_def jitem_def str_item_def dict_default_def
        norm_ref_def flip: sort_obj_def)
  finally show ?thesis .
qed

lemma loads_ref: "wf_ref r \<Longrightarrow> loads (canonical_json (JObj (ar_to_dict r))) = Some (JObj (sort_obj (ar_to_dict r)))"
  unfolding sort_members_obj[symmetric]
  by (rule loads_canonical) (auto simp: wf_ref_def wf_obj_def ar_to_dict_def)

lemma commit_spec_result:
  assumes "commit_spec h v target data marker = Some v'" "target \<noteq> marker"
  shows "v' target = Some data \<or> collision h" "v' marker = Some (commit_marker h target data)"
    "p \<noteq> target \<Longrightarrow> p \<noteq> marker \<Longrightarrow> v' p = v p"
proof -
  show "v' marker = Some (commit_marker h target data)" "p \<noteq> target \<Longrightarrow> p \<noteq> marker \<Longrightarrow> v' p = v p"
    using assms by (auto simp: commit_spec_def split: if_splits)
  show "v' target = Some data \<or> collision h"
    using assms unfolding collision_def
    by (cases "v target") (auto simp: commit_spec_def split: if_splits, metis+)
qed

lemma plain_uri:
  assumes "plain_id h st i"
  shows "resolve_uri st (ar_uri (saved_ref h st data i args)) = Inr (artifact_target h st i)"
proof -
  let ?f = "artifact_filename h i" and ?d = "st_dir_name st"
  let ?uri = "?d @ CHR ''/'' # ?f"
  have a: "plain_store st" "plain_name ?f" "plain_name ?d" "CHR '':'' \<notin> set ?uri"
    using assms by (simp_all add: plain_id_def plain_store_def)
  have "takeWhile (\<lambda>c. c \<noteq> CHR '':'') ?uri = ?uri"
    unfolding takeWhile_eq_all_conv using a(4) by blast
  then have s: "url_scheme ?uri = []" by (simp only: url_scheme_def Let_def simp_thms if_False)
  have j: "join_path (st_root st) ?uri = artifact_target h st i"
    using a(2,3) parts_pair[OF a(3,2)] plain_paths(1)[OF assms] dir_plain[OF a(1)]
    by (cases ?d) (auto simp: join_path_def plain_name_def)
  have r: "resolve (st_root st) = st_root st" using a(1) by (auto simp: plain_store_def intro: resolve_id)
  have t: "resolve (artifact_target h st i) = artifact_target h st i"
    using pair_facts(1)[OF plain_pairs(1)[OF assms]] .
  have "length (st_root st) < length (artifact_target h st i)"
    "take (length (st_root st)) (artifact_target h st i) = st_root st"
    using plain_paths(1)[OF assms] dir_plain[OF a(1)] by simp_all
  then show ?thesis by (simp add: resolve_uri_def saved_ref_def s j r t)
qed

lemma four_paths:
  assumes "plain_id h st i"
  shows "artifact_target h st i \<noteq> manifest_path h st i"
    "artifact_target h st i \<noteq> with_suffix (manifest_path h st i) ''.commit.json''"
    "artifact_marker h st i \<noteq> manifest_path h st i"
    "artifact_marker h st i \<noteq> with_suffix (manifest_path h st i) ''.commit.json''"
  using plain_paths[OF assms] by simp_all

text \<open>The whole visible effect of a save, when no two contents have the same hash.\<close>

lemma save_spec_result:
  assumes "plain_id h st i" "save_spec h st v data i args = Some v'" "\<not> collision h"
  defines "mp \<equiv> manifest_path h st i" and "mt \<equiv> manifest_text h st data i args"
  shows "v' (artifact_target h st i) = Some data"
    "v' (artifact_marker h st i) = Some (commit_marker h (artifact_target h st i) data)"
    "v' mp = Some mt" "v' (with_suffix mp ''.commit.json'') = Some (commit_marker h mp mt)"
proof -
  obtain v1 where v: "commit_spec h v (artifact_target h st i) data (artifact_marker h st i) = Some v1"
    "commit_spec h v1 mp mt (with_suffix mp ''.commit.json'') = Some v'"
    using assms(2) by (auto simp: save_spec_def mp_def mt_def split: Option.bind_splits)
  have ne: "artifact_target h st i \<noteq> artifact_marker h st i" "mp \<noteq> with_suffix mp ''.commit.json''"
    using plain_pairs[OF assms(1)] by (auto simp: commit_pair_def mp_def)
  note r1 = commit_spec_result[OF v(1) ne(1)] and r2 = commit_spec_result[OF v(2) ne(2)]
  show "v' mp = Some mt" "v' (with_suffix mp ''.commit.json'') = Some (commit_marker h mp mt)"
    using r2 assms(3) by auto
  show "v' (artifact_target h st i) = Some data"
    "v' (artifact_marker h st i) = Some (commit_marker h (artifact_target h st i) data)"
    using r1 r2(3) four_paths[OF assms(1)] assms(3) by (auto simp: mp_def)
qed

lemma validate_ok:
  assumes "commit_pair st target marker" "visible fs target = Some d"
    "visible fs marker = Some (commit_marker h target d)"
  shows "validate_commit_marker h fs target marker = Inr d"
  using assms(2,3) pair_facts[OF assms(1)]
  by (simp add: validate_commit_marker_def file_exists_def read_file_def ensure_commit_marker_def visible_get)

lemma load_saved:
  assumes "plain_id h st i" "save_spec h st v data i args = Some (visible fs)" "\<not> collision h"
    and "wf_obj (aa_source args)" "wf_obj (aa_ref_metadata args)"
  defines "ref \<equiv> saved_ref h st data i args"
  shows "read_bytes st fs ref = Inr data" "verify_artifact h st fs ref = Inr True"
    "load_artifact_ref h st fs i = Inr (norm_ref ref)"
proof -
  note r = save_spec_result[OF assms(1-3)] and p = plain_pairs[OF assms(1)]
  have t: "fs (artifact_target h st i) = Some data"
    using r(1) visible_get[OF pair_facts(3)[OF p(1)]] by metis
  have rb: "read_bytes st fs x = Inr data" if "ar_uri x = ar_uri ref" for x
    using plain_uri[OF assms(1)] t pair_facts(1)[OF p(1)] that by (simp add: read_bytes_def read_file_def ref_def)
  then show "read_bytes st fs ref = Inr data" by simp
  have va: "verify_artifact h st fs x = Inr True"
    if "ar_uri x = ar_uri ref" "ar_size_bytes x = ar_size_bytes ref" "ar_content_hash x = ar_content_hash ref" for x
    using rb[OF that(1)] that by (simp add: verify_artifact_def ref_def saved_ref_def)
  then show "verify_artifact h st fs ref = Inr True" by simp
  have w: "wf_ref ref" using assms(4,5) by (simp add: wf_ref_def ref_def saved_ref_def)
  have n: "ar_uri (norm_ref ref) = ar_uri ref" "ar_size_bytes (norm_ref ref) = ar_size_bytes ref"
    "ar_content_hash (norm_ref ref) = ar_content_hash ref" "ar_artifact_id (norm_ref ref) = i"
    by (simp_all add: norm_ref_def ref_def saved_ref_def)
  show "load_artifact_ref h st fs i = Inr (norm_ref ref)"
    using validate_ok[OF p(2) r(3,4)] validate_ok[OF p(1) r(1,2)] loads_ref[OF w] ar_from_sorted[OF w] va[OF n(1-3)] n(4)
    by (simp add: load_artifact_ref_def manifest_text_def ref_def)
qed


text \<open>Saving an artifact that is on the disk, whatever else has been saved since, changes nothing visible.\<close>

lemma commit_spec_known:
  assumes "commit_spec h v target data marker = Some v1" "target \<noteq> marker" "v1 \<subseteq>\<^sub>m w"
  shows "commit_spec h w target data marker = Some w"
proof -
  obtain x where x: "v1 target = Some x" "h x = h data"
    using assms(1,2) by (auto simp: commit_spec_def split: if_splits option.splits)
  have m: "v1 marker = Some (commit_marker h target data)" by (rule commit_spec_result(2)[OF assms(1,2)])
  have "w target = Some x" "w marker = Some (commit_marker h target data)"
    using x(1) m assms(3) by (auto simp: map_le_def dom_def)
  then show ?thesis using x(2) by (simp add: commit_spec_def fun_upd_idem)
qed

lemma save_spec_known:
  assumes "plain_id h st i" "save_spec h st v data i args = Some v1" "v1 \<subseteq>\<^sub>m w"
  shows "save_spec h st w data i args = Some w"
proof -
  let ?t = "artifact_target h st i" and ?m = "artifact_marker h st i" and ?mp = "manifest_path h st i"
  let ?mm = "with_suffix ?mp ''.commit.json''" and ?mt = "manifest_text h st data i args"
  obtain u where u: "commit_spec h v ?t data ?m = Some u" "commit_spec h u ?mp ?mt ?mm = Some v1"
    using assms(2) by (auto simp: save_spec_def split: Option.bind_splits)
  have ne: "?t \<noteq> ?m" "?mp \<noteq> ?mm" using plain_pairs[OF assms(1)] by (auto simp: commit_pair_def)
  have "u \<subseteq>\<^sub>m v1" using commit_spec_keeps[OF u(2)] by (auto simp: map_le_def)
  then have "u \<subseteq>\<^sub>m w" using assms(3) by (rule map_le_trans)
  then show ?thesis
    using commit_spec_known[OF u(1) ne(1)] commit_spec_known[OF u(2) ne(2) assms(3)] by (simp add: save_spec_def)
qed

lemma save_spec_again:
  "plain_id h st i \<Longrightarrow> save_spec h st v data i args = Some v' \<Longrightarrow> save_spec h st v' data i args = Some v'"
  by (rule save_spec_known) auto

lemma save_spec_keeps: "save_spec h st v data i args = Some v' \<Longrightarrow> v \<subseteq>\<^sub>m v'"
  by (auto simp: save_spec_def map_le_def dest: commit_spec_keeps split: Option.bind_splits)

section \<open>Crashes\<close>

text \<open>The disk after a crash anywhere in a save: in its first commit, or in that of the manifest.\<close>

definition save_crash_states ::
  "hash \<Rightarrow> artifact_store \<Rightarrow> fs \<Rightarrow> string \<Rightarrow> string \<Rightarrow> artifact_args \<Rightarrow> string \<Rightarrow> string \<Rightarrow> fs list" where
  "save_crash_states h st fs data i args nonce partial =
     (let target = artifact_target h st i; marker = artifact_marker h st i; mp = manifest_path h st i in
      crash_states h fs target data marker nonce partial @
      (case commit_bytes h fs target data marker nonce of
         Inl _ \<Rightarrow> []
       | Inr fs1 \<Rightarrow> crash_states h fs1 mp (manifest_text h st data i args) (with_suffix mp ''.commit.json'')
                      nonce partial))"

definition fresh_temps :: "hash \<Rightarrow> artifact_store \<Rightarrow> fs \<Rightarrow> string \<Rightarrow> string \<Rightarrow> bool" where
  "fresh_temps h st fs i nonce \<longleftrightarrow>
     (\<forall>p \<in> {data_temp h (artifact_target h st i) nonce, commit_temp h (artifact_marker h st i) nonce,
            data_temp h (manifest_path h st i) nonce,
            commit_temp h (with_suffix (manifest_path h st i) ''.commit.json'') nonce}. fs p = None)"

lemma crash_states_visible:
  assumes "commit_pair st target marker" "c \<in> set (crash_states h fs target data marker nonce partial)"
  shows "visible c = visible fs \<or> visible c = (visible fs)(target \<mapsto> data) \<or>
    visible c = (visible fs)(target \<mapsto> data, marker \<mapsto> commit_marker h target data)"
  using assms(2) pair_facts[OF assms(1)] temps_differ[OF assms(1)]
  by (auto simp: crash_states_def Let_def write_file_def replace_file_def)

lemma commit_no_new_temps:
  assumes "commit_pair st target marker" "commit_bytes h fs target data marker nonce = Inr fs'"
    and "hidden p" "fs p = None"
  shows "fs' p = None"
  using assms(2-4) pair_facts[OF assms(1)]
  by (auto simp: commit_bytes_def ensure_commit_marker_def Let_def file_exists_def create_file_def read_file_def
      replace_file_def write_file_def cleanup_stale_temps_def res_simps split: if_splits option.splits)

lemma save_bytes_total:
  assumes "plain_id h st i" "save_spec h st (visible fs) data i args \<noteq> None" "fresh_temps h st fs i nonce"
  shows "\<exists>fs'. save_bytes h st fs data i args nonce = Inr (fs', saved_ref h st data i args)"
proof -
  let ?t = "artifact_target h st i" and ?m = "artifact_marker h st i" and ?mp = "manifest_path h st i"
  let ?mm = "with_suffix ?mp ''.commit.json''" and ?mt = "manifest_text h st data i args"
  note p = plain_pairs[OF assms(1)]
  obtain v1 where v: "commit_spec h (visible fs) ?t data ?m = Some v1" "commit_spec h v1 ?mp ?mt ?mm \<noteq> None"
    using assms(2) by (auto simp: save_spec_def split: Option.bind_splits)
  have "is_ok (commit_bytes h fs ?t data ?m nonce)"
    by (rule commit_bytes_total[OF p(1)]) (use v assms(3) in \<open>auto simp: fresh_temps_def\<close>)
  then obtain fs1 where a: "commit_bytes h fs ?t data ?m nonce = Inr fs1" by (auto simp: is_ok_iff)
  have vis: "visible fs1 = v1" using commit_bytes_refines[OF p(1) a] v by simp
  have "fs1 (data_temp h ?mp nonce) = None" "fs1 (commit_temp h ?mm nonce) = None"
    using commit_no_new_temps[OF p(1) a] pair_facts(7,8)[OF p(2)] assms(3) by (auto simp: fresh_temps_def)
  then have "is_ok (commit_bytes h fs1 ?mp ?mt ?mm nonce)"
    using v vis by (intro commit_bytes_total[OF p(2)]) auto
  moreover have "\<forall>old. fs ?t = Some old \<longrightarrow> h old = h data"
    using v(1) visible_get[OF pair_facts(3)[OF p(1)]] by (auto simp: commit_spec_def split: if_splits)
  ultimately show ?thesis
    using a pair_facts(1)[OF p(1)]
    by (auto simp: save_bytes_def Let_def file_exists_def read_file_def write_manifest_def is_ok_iff saved_ref_def
        manifest_text_def)
qed

text \<open>
  C7 artifact_store_refines: a save refines its specification, which only knows the visible files: it returns exactly when the
  specification allows the save, with the files the specification gives and a reference that depends on the arguments only.
\<close>

theorem artifact_store_refines:
  assumes "plain_id h st i" "fresh_temps h st fs i nonce"
  shows "case save_bytes h st fs data i args nonce of
      Inl e \<Rightarrow> save_spec h st (visible fs) data i args = None
    | Inr (fs', ref) \<Rightarrow> save_spec h st (visible fs) data i args = Some (visible fs') \<and> ref = saved_ref h st data i args"
  using save_bytes_refines[OF assms(1), of fs data args nonce] save_bytes_total[OF assms(1) _ assms(2), of data args]
  by (cases "save_bytes h st fs data i args nonce"; cases "save_spec h st (visible fs) data i args") (auto split: prod.splits)

text \<open>The visible disk after a crash, for an artifact that was not on disk before.\<close>

text \<open>A disk without temporary files: all of it is visible, and saving keeps it so.\<close>

definition no_temps :: "fs \<Rightarrow> bool" where
  "no_temps fs \<longleftrightarrow> (\<forall>p. hidden p \<longrightarrow> fs p = None)"

lemma visible_no_temps: "no_temps fs \<Longrightarrow> visible fs = fs"
  by (auto simp: no_temps_def visible_def)

lemma fresh_no_temps:
  assumes "plain_id h st i" "no_temps fs"
  shows "fresh_temps h st fs i nonce"
  using assms(2) pair_facts(7,8)[OF plain_pairs(1)[OF assms(1)]] pair_facts(7,8)[OF plain_pairs(2)[OF assms(1)]]
  by (simp add: fresh_temps_def no_temps_def)

lemma save_no_temps:
  assumes "plain_id h st i" "save_bytes h st fs data i args nonce = Inr (fs', ref)" "no_temps fs"
  shows "no_temps fs'"
proof -
  obtain fs1 where c: "commit_bytes h fs (artifact_target h st i) data (artifact_marker h st i) nonce = Inr fs1"
    and w: "write_manifest h st fs1 ref nonce = Inr fs'"
    using assms(2) by (auto simp: save_bytes_def Let_def res_simps)
  have "ar_artifact_id ref = i" using save_bytes_refines(1)[OF assms(1,2)] by (simp add: saved_ref_def)
  then have "fs' p = None" if "hidden p" for p
    using commit_no_new_temps[OF plain_pairs(1)[OF assms(1)] c that] w[unfolded write_manifest_def Let_def]
      commit_no_new_temps[OF plain_pairs(2)[OF assms(1)] _ that] assms(3) that by (fastforce simp: no_temps_def)
  then show ?thesis by (simp add: no_temps_def)
qed

lemma save_bytes_known:
  assumes "plain_id h st i" "save_bytes h st fs data i args nonce = Inr (fs1, ref)" "no_temps fs"
    and "fs1 \<subseteq>\<^sub>m w" "no_temps w"
  shows "save_bytes h st w data i args nonce' = Inr (w, ref)"
proof -
  have n: "no_temps fs1" by (rule save_no_temps[OF assms(1-3)])
  have "save_spec h st fs data i args = Some fs1"
    using save_bytes_refines(2)[OF assms(1,2)] by (simp add: visible_no_temps assms(3) n)
  then have k: "save_spec h st w data i args = Some w" by (rule save_spec_known[OF assms(1) _ assms(4)])
  then have "save_spec h st (visible w) data i args \<noteq> None" by (simp add: visible_no_temps assms(5))
  from save_bytes_total[OF assms(1) this fresh_no_temps[OF assms(1,5)]]
  obtain w' where w: "save_bytes h st w data i args nonce' = Inr (w', saved_ref h st data i args)" by blast
  have "no_temps w'" by (rule save_no_temps[OF assms(1) w assms(5)])
  then have "w' = w"
    using save_bytes_refines(2)[OF assms(1) w] k by (simp add: visible_no_temps assms(5))
  then show ?thesis using w save_bytes_refines(1)[OF assms(1,2)] by simp
qed

lemma save_crash_visible:
  assumes "plain_id h st i" "c \<in> set (save_crash_states h st fs data i args nonce partial)"
  defines "t \<equiv> artifact_target h st i" and "m \<equiv> artifact_marker h st i" and "mp \<equiv> manifest_path h st i"
    and "mt \<equiv> manifest_text h st data i args"
  assumes new: "\<forall>p \<in> {t, m, mp, with_suffix mp ''.commit.json''}. fs p = None"
  shows "visible c \<in> {visible fs, (visible fs)(t \<mapsto> data), (visible fs)(t \<mapsto> data, m \<mapsto> commit_marker h t data),
    (visible fs)(t \<mapsto> data, m \<mapsto> commit_marker h t data, mp \<mapsto> mt),
    (visible fs)(t \<mapsto> data, m \<mapsto> commit_marker h t data, mp \<mapsto> mt,
      with_suffix mp ''.commit.json'' \<mapsto> commit_marker h mp mt)}"
proof -
  note p = plain_pairs[OF assms(1), folded t_def m_def mp_def]
  consider "c \<in> set (crash_states h fs t data m nonce partial)"
    | fs1 where "commit_bytes h fs t data m nonce = Inr fs1"
        "c \<in> set (crash_states h fs1 mp mt (with_suffix mp ''.commit.json'') nonce partial)"
    using assms(2)
    by (cases "commit_bytes h fs t data m nonce") (auto simp: save_crash_states_def Let_def t_def m_def mp_def mt_def)
  then show ?thesis
  proof cases
    case 1
    then show ?thesis using crash_states_visible[OF p(1)] by blast
  next
    case 2
    have "visible fs t = None" using new visible_get[OF pair_facts(3)[OF p(1)]] by simp
    then have "visible fs1 = (visible fs)(t \<mapsto> data, m \<mapsto> commit_marker h t data)"
      using commit_bytes_refines[OF p(1) 2(1)] by (auto simp: commit_spec_def split: if_splits)
    then show ?thesis using crash_states_visible[OF p(2) 2(2)] by auto
  qed
qed


section \<open>A store at work\<close>

definition sample_store :: artifact_store where
  "sample_store = \<lparr>st_root = [''data''], st_dir_name = ''artifacts''\<rparr>"

definition sample_args :: artifact_args where
  "sample_args = \<lparr>aa_artifact_type = ''root_input'', aa_media_type = ''text/plain'', aa_artifact_schema_id = ''s'',
     aa_artifact_schema_version = ''v1'', aa_source = [], aa_ref_metadata = [], aa_created_at = ''now''\<rparr>"

lemma sample_plain: "plain_id id sample_store ''a1''"
  by (simp add: plain_id_def plain_store_def plain_name_def sample_store_def artifact_filename_def)

lemma sample_wf_args: "wf_obj (aa_source sample_args)" "wf_obj (aa_ref_metadata sample_args)"
  by (simp_all add: sample_args_def wf_obj_def)

lemma save_spec_new:
  assumes "plain_id h st i"
    and "\<forall>p \<in> {artifact_target h st i, artifact_marker h st i, manifest_path h st i,
           with_suffix (manifest_path h st i) ''.commit.json''}. v p = None"
  shows "save_spec h st v data i args \<noteq> None"
  using assms(2) four_paths[OF assms(1)] four_paths[OF assms(1), THEN not_sym]
  by (simp add: save_spec_def commit_spec_def)

text \<open>Temporary names end in their nonce.\<close>

lemma temp_ends:
  "n \<noteq> [] \<Longrightarrow> last (last (data_temp h p n)) = last n" "n \<noteq> [] \<Longrightarrow> last (last (commit_temp h p n)) = last n"
  by (simp_all add: data_temp_def commit_temp_def)

lemma fresh_by_nonce:
  assumes "n \<noteq> []" "\<forall>p. fs p \<noteq> None \<longrightarrow> last (last p) \<noteq> last n"
  shows "fresh_temps h st fs i n"
  using assms(2) temp_ends[OF assms(1)] by (auto simp: fresh_temps_def)

lemma sample_save:
  "\<exists>fs'. save_bytes id sample_store Map.empty ''hello'' ''a1'' sample_args ''1''
     = Inr (fs', saved_ref id sample_store ''hello'' ''a1'' sample_args)"
  by (rule save_bytes_total[OF sample_plain save_spec_new[OF sample_plain]])
    (simp_all add: visible_def fresh_temps_def)

lemma artifact_store_refines_witness:
  "fresh_temps id sample_store Map.empty ''a1'' ''1'' \<and>
     (case save_bytes id sample_store Map.empty ''hello'' ''a1'' sample_args ''1'' of
        Inl e \<Rightarrow> False
      | Inr (fs', ref) \<Rightarrow> save_spec id sample_store Map.empty ''hello'' ''a1'' sample_args = Some (visible fs'))"
proof -
  obtain fs' ref where s: "save_bytes id sample_store Map.empty ''hello'' ''a1'' sample_args ''1'' = Inr (fs', ref)"
    using sample_save by blast
  have f: "fresh_temps id sample_store Map.empty ''a1'' ''1''" by (simp add: fresh_temps_def)
  have "visible Map.empty = Map.empty" by (simp add: visible_def)
  with artifact_store_refines[OF sample_plain f, of "''hello''" sample_args] s f show ?thesis by simp
qed


lemma artifacts_immutable_witness:
  "\<exists>fs' ref. save_bytes id sample_store [[''data'', ''notes''] \<mapsto> ''kept''] ''hello'' ''a1'' sample_args ''1''
       = Inr (fs', ref) \<and> fs' [''data'', ''notes''] = Some ''kept''"
proof -
  let ?fs = "[[''data'', ''notes''] \<mapsto> ''kept'']"
  have "save_spec id sample_store (visible ?fs) ''hello'' ''a1'' sample_args \<noteq> None"
    by (rule save_spec_new[OF sample_plain])
      (simp add: visible_def plain_paths[OF sample_plain] dir_plain sample_plain[unfolded plain_id_def]
        artifact_filename_def, simp add: sample_store_def with_suffix_def path_name_def)
  moreover have "fresh_temps id sample_store ?fs ''a1'' ''1''"
    by (rule fresh_by_nonce) simp_all
  ultimately obtain fs' where s: "save_bytes id sample_store ?fs ''hello'' ''a1'' sample_args ''1''
      = Inr (fs', saved_ref id sample_store ''hello'' ''a1'' sample_args)"
    using save_bytes_total[OF sample_plain] by blast
  have "fs' [''data'', ''notes''] = Some ''kept''"
    by (rule artifacts_immutable[OF sample_plain s]) (simp_all add: hidden_def)
  with s show ?thesis by blast
qed


end
