(* ===== verification/Event_Ledger.thy ===== *)
theory Event_Ledger
  imports Core_State_Machines Py_Json_Read
begin

text \<open>
  \<open>storage/events.py\<close>: the append-only JSONL event ledger with its sequence numbers, hash
  chain, idempotency keys and batches, over the bytes of its file. The hash function \<open>h\<close> and the
  readings of the wall clock (\<open>utc_now\<close>) are arguments. File contents are valid UTF-8, and the
  white space \<open>strip\<close> removes is the ASCII one. Every field carries the prefix \<open>ev_\<close>
  (LedgerEvent), \<open>dr_\<close> (EventDraft), \<open>sn_\<close> (VerifiedLedgerSnapshot) or \<open>el_\<close> (EventLedger).
\<close>

section \<open>Event types\<close>

datatype event_type =
    ARTIFACT_STORED | TASK_REGISTERED | TASK_UNIT_CREATED | TASK_RELATION_CREATED | CLIENT_REGISTERED
  | TASK_UNIT_STATE_CHANGED | CLIENT_STATE_CHANGED | LEASE_STATE_CHANGED | ATTEMPT_STATE_CHANGED
  | RECOVERY_ACTION_RECORDED | REGISTRY_SNAPSHOT_RECORDED | EXECUTION_REQUEST_RECORDED
  | EXECUTION_SUBMISSION_RECORDED | VERIFICATION_RECORDED | CANONICAL_OUTPUTS_BOUND
  | SPLIT_STRATEGY_INVOCATION_RECORDED | DECOMPOSITION_PROPOSAL_RECORDED | EXPANSION_DECISION_RECORDED
  | MERGE_PLAN_RECORDED | TASK_EXPANDED | MERGE_TASK_LINK_RECORDED | MERGE_RECORDED
  | EXPECTED_OUTPUT_RESOLVED | CONTRIBUTION_STATE_CHANGED | SETTLEMENT_RECORDED | SUBTREE_PRUNED

definition event_types :: "(event_type, string) dict" where
  "event_types =
     [(ARTIFACT_STORED, ''ARTIFACT_STORED''), (TASK_REGISTERED, ''TASK_REGISTERED''),
      (TASK_UNIT_CREATED, ''TASK_UNIT_CREATED''), (TASK_RELATION_CREATED, ''TASK_RELATION_CREATED''),
      (CLIENT_REGISTERED, ''CLIENT_REGISTERED''), (TASK_UNIT_STATE_CHANGED, ''TASK_UNIT_STATE_CHANGED''),
      (CLIENT_STATE_CHANGED, ''CLIENT_STATE_CHANGED''), (LEASE_STATE_CHANGED, ''LEASE_STATE_CHANGED''),
      (ATTEMPT_STATE_CHANGED, ''ATTEMPT_STATE_CHANGED''),
      (RECOVERY_ACTION_RECORDED, ''RECOVERY_ACTION_RECORDED''),
      (REGISTRY_SNAPSHOT_RECORDED, ''REGISTRY_SNAPSHOT_RECORDED''),
      (EXECUTION_REQUEST_RECORDED, ''EXECUTION_REQUEST_RECORDED''),
      (EXECUTION_SUBMISSION_RECORDED, ''EXECUTION_SUBMISSION_RECORDED''),
      (VERIFICATION_RECORDED, ''VERIFICATION_RECORDED''), (CANONICAL_OUTPUTS_BOUND, ''CANONICAL_OUTPUTS_BOUND''),
      (SPLIT_STRATEGY_INVOCATION_RECORDED, ''SPLIT_STRATEGY_INVOCATION_RECORDED''),
      (DECOMPOSITION_PROPOSAL_RECORDED, ''DECOMPOSITION_PROPOSAL_RECORDED''),
      (EXPANSION_DECISION_RECORDED, ''EXPANSION_DECISION_RECORDED''),
      (MERGE_PLAN_RECORDED, ''MERGE_PLAN_RECORDED''), (TASK_EXPANDED, ''TASK_EXPANDED''),
      (MERGE_TASK_LINK_RECORDED, ''MERGE_TASK_LINK_RECORDED''), (MERGE_RECORDED, ''MERGE_RECORDED''),
      (EXPECTED_OUTPUT_RESOLVED, ''EXPECTED_OUTPUT_RESOLVED''),
      (CONTRIBUTION_STATE_CHANGED, ''CONTRIBUTION_STATE_CHANGED''),
      (SETTLEMENT_RECORDED, ''SETTLEMENT_RECORDED''), (SUBTREE_PRUNED, ''SUBTREE_PRUNED'')]"

text \<open>\<open>EventType | str\<close>.\<close>

datatype event_kind = Known event_type | Other string

fun event_type_value :: "event_kind \<Rightarrow> string" where
  "event_type_value (Known t) = dict_get_default event_types t []"
| "event_type_value (Other s) = s"

definition parse_event_type :: "string \<Rightarrow> event_kind" where
  "parse_event_type s =
     (case find (\<lambda>(t, v). v = s) event_types of Some (t, _) \<Rightarrow> Known t | None \<Rightarrow> Other s)"

lemma event_types_distinct: "distinct (map fst event_types)" "distinct (map snd event_types)"
  by (simp_all add: event_types_def)

lemma event_types_all: "fst ` set event_types = UNIV"
proof -
  have "t \<in> fst ` set event_types" for t by (cases t) (simp_all add: event_types_def)
  then show ?thesis by blast
qed

lemma event_type_value_parse [simp]: "event_type_value (parse_event_type s) = s"
proof (cases "find (\<lambda>(t, v). v = s) event_types")
  case None
  then show ?thesis by (simp add: parse_event_type_def)
next
  case (Some p)
  then have "p \<in> set event_types" "snd p = s"
    by (auto simp: find_Some_iff) (metis nth_mem)
  then have "map_of event_types (fst p) = Some s"
    using event_types_distinct(1) by (metis map_of_is_SomeI prod.collapse)
  with Some show ?thesis by (cases p) (simp add: parse_event_type_def dict_get_default_def)
qed

lemma parse_event_type_value [simp]: "parse_event_type (event_type_value (Known t)) = Known t"
proof -
  obtain v where v: "(t, v) \<in> set event_types" using event_types_all by (metis UNIV_I imageE prod.collapse)
  then have val: "event_type_value (Known t) = v"
    using event_types_distinct(1) by (simp add: dict_get_default_def map_of_is_SomeI)
  have "find (\<lambda>(t, v'). v' = v) event_types = Some (t, v)"
  proof (cases "find (\<lambda>(t, v'). v' = v) event_types")
    case None
    with v show ?thesis by (auto simp: find_None_iff)
  next
    case (Some p)
    then have "p \<in> set event_types" "snd p = v" by (auto simp: find_Some_iff) (metis nth_mem)
    with v event_types_distinct(2) have "p = (t, v)"
      by (simp only: distinct_map) (metis inj_onD snd_conv)
    with Some show ?thesis by simp
  qed
  then show ?thesis by (simp only: parse_event_type_def val) simp
qed

section \<open>Events\<close>

record ledger_event =
  ev_event_seq :: int
  ev_event_id :: string
  ev_event_type :: event_kind
  ev_occurred_at :: string
  ev_task_id :: "string option"
  ev_object_type :: string
  ev_object_id :: string
  ev_actor :: jobj
  ev_correlation_id :: "string option"
  ev_causation_event_id :: "string option"
  ev_idempotency_key :: string
  ev_payload :: jobj
  ev_prev_event_hash :: "string option"
  ev_event_hash :: string
  ev_schema_version :: string
  ev_batch_id :: "string option"
  ev_batch_index :: "int option"
  ev_batch_size :: "int option"

definition ev_to_dict :: "ledger_event \<Rightarrow> jobj" where
  "ev_to_dict e =
     [(''schema_version'', JStr (ev_schema_version e)),
      (''event_seq'', JInt (ev_event_seq e)),
      (''event_id'', JStr (ev_event_id e)),
      (''event_type'', JStr (event_type_value (ev_event_type e))),
      (''occurred_at'', JStr (ev_occurred_at e)),
      (''task_id'', opt_str (ev_task_id e)),
      (''object_type'', JStr (ev_object_type e)),
      (''object_id'', JStr (ev_object_id e)),
      (''actor'', JObj (ev_actor e)),
      (''correlation_id'', opt_str (ev_correlation_id e)),
      (''causation_event_id'', opt_str (ev_causation_event_id e)),
      (''idempotency_key'', JStr (ev_idempotency_key e)),
      (''payload'', JObj (ev_payload e)),
      (''prev_event_hash'', opt_str (ev_prev_event_hash e)),
      (''event_hash'', JStr (ev_event_hash e))]
     @ (if ev_schema_version e = ''LedgerEvent.v2''
        then [(''batch_id'', opt_str (ev_batch_id e)),
              (''batch_index'', opt_int (ev_batch_index e)),
              (''batch_size'', opt_int (ev_batch_size e))]
        else [])"

definition ev_from_dict :: "jobj \<Rightarrow> ledger_event res" where
  "ev_from_dict d =
     bindE (str_default d ''schema_version'' ''LedgerEvent.v1'') (\<lambda>schema_version.
     bindE (bindE (jitem d ''event_seq'') py_int) (\<lambda>event_seq.
     bindE (str_item d ''event_id'') (\<lambda>event_id.
     bindE (str_item d ''event_type'') (\<lambda>event_type.
     bindE (str_item d ''occurred_at'') (\<lambda>occurred_at.
     bindE (opt_str_item d ''task_id'') (\<lambda>task_id.
     bindE (str_item d ''object_type'') (\<lambda>object_type.
     bindE (str_item d ''object_id'') (\<lambda>object_id.
     bindE (dict_default d ''actor'') (\<lambda>actor.
     bindE (opt_str_item d ''correlation_id'') (\<lambda>correlation_id.
     bindE (opt_str_item d ''causation_event_id'') (\<lambda>causation_event_id.
     bindE (str_item d ''idempotency_key'') (\<lambda>idempotency_key.
     bindE (dict_default d ''payload'') (\<lambda>payload.
     bindE (opt_str_item d ''prev_event_hash'') (\<lambda>prev_event_hash.
     bindE (str_item d ''event_hash'') (\<lambda>event_hash.
     bindE (opt_str_item d ''batch_id'') (\<lambda>batch_id.
     bindE (opt_int_item d ''batch_index'') (\<lambda>batch_index.
     bindE (opt_int_item d ''batch_size'') (\<lambda>batch_size.
     Inr \<lparr>ev_event_seq = event_seq, ev_event_id = event_id, ev_event_type = parse_event_type event_type,
          ev_occurred_at = occurred_at, ev_task_id = task_id, ev_object_type = object_type,
          ev_object_id = object_id, ev_actor = actor, ev_correlation_id = correlation_id,
          ev_causation_event_id = causation_event_id, ev_idempotency_key = idempotency_key,
          ev_payload = payload, ev_prev_event_hash = prev_event_hash, ev_event_hash = event_hash,
          ev_schema_version = schema_version, ev_batch_id = batch_id, ev_batch_index = batch_index,
          ev_batch_size = batch_size\<rparr>))))))))))))))))))"

record event_draft =
  dr_event_type :: event_kind
  dr_object_type :: string
  dr_object_id :: string
  dr_payload :: jobj
  dr_idempotency_key :: string
  dr_task_id :: "string option"
  dr_actor :: "jobj option"
  dr_correlation_id :: "string option"
  dr_causation_event_id :: "string option"
  dr_occurred_at :: "string option"

text \<open>\<open>_event_hash\<close> digests every field but the hash itself; \<open>_finalize_event\<close> fills it in.\<close>

definition event_hash :: "hash \<Rightarrow> jobj \<Rightarrow> string" where
  "event_hash h d = digest_json h (JObj (filter (\<lambda>(k, v). k \<noteq> ''event_hash'') d))"

definition finalize_event :: "hash \<Rightarrow> ledger_event \<Rightarrow> ledger_event" where
  "finalize_event h e = e\<lparr>ev_event_hash := event_hash h (ev_to_dict e)\<rparr>"

definition idempotency_signature ::
  "event_kind \<Rightarrow> string \<Rightarrow> string \<Rightarrow> string option \<Rightarrow> jobj
    \<Rightarrow> string \<times> string \<times> string \<times> string option \<times> string" where
  "idempotency_signature event_type object_type object_id task_id payload =
     (event_type_value event_type, object_type, object_id, task_id, canonical_json (JObj payload))"

definition event_signature :: "ledger_event \<Rightarrow> string \<times> string \<times> string \<times> string option \<times> string" where
  "event_signature e =
     idempotency_signature (ev_event_type e) (ev_object_type e) (ev_object_id e) (ev_task_id e) (ev_payload e)"

definition draft_signature :: "event_draft \<Rightarrow> string \<times> string \<times> string \<times> string option \<times> string" where
  "draft_signature d =
     idempotency_signature (dr_event_type d) (dr_object_type d) (dr_object_id d) (dr_task_id d) (dr_payload d)"

definition batch_event_matches :: "ledger_event \<Rightarrow> event_draft \<Rightarrow> string \<Rightarrow> int \<Rightarrow> int \<Rightarrow> bool" where
  "batch_event_matches e d batch_id batch_index batch_size \<longleftrightarrow>
     ev_schema_version e = ''LedgerEvent.v2'' \<and> ev_batch_id e = Some batch_id \<and>
     ev_batch_index e = Some batch_index \<and> ev_batch_size e = Some batch_size \<and>
     event_signature e = draft_signature d"

text \<open>\<open>f"event_{event_seq:012d}"\<close>.\<close>

definition event_id_of :: "int \<Rightarrow> string" where
  "event_id_of seq = ''event_'' @ pad_left 12 (CHR ''0'') (show_int seq)"

text \<open>The event a draft becomes at a given place of the ledger.\<close>

definition draft_event ::
  "hash \<Rightarrow> string \<Rightarrow> int \<Rightarrow> string option \<Rightarrow> event_draft \<Rightarrow> (string \<times> int \<times> int) option \<Rightarrow> ledger_event" where
  "draft_event h now seq prev d batch =
     finalize_event h
       \<lparr>ev_event_seq = seq, ev_event_id = event_id_of seq, ev_event_type = dr_event_type d,
        ev_occurred_at = or_str (dr_occurred_at d) now, ev_task_id = dr_task_id d,
        ev_object_type = dr_object_type d, ev_object_id = dr_object_id d,
        ev_actor = (case dr_actor d of None \<Rightarrow> [(''kind'', JStr ''protocol'')]
                    | Some a \<Rightarrow> if a = [] then [(''kind'', JStr ''protocol'')] else a),
        ev_correlation_id = dr_correlation_id d, ev_causation_event_id = dr_causation_event_id d,
        ev_idempotency_key = dr_idempotency_key d, ev_payload = dr_payload d,
        ev_prev_event_hash = prev, ev_event_hash = [], ev_schema_version = ''LedgerEvent.v2'',
        ev_batch_id = map_option fst batch, ev_batch_index = map_option (fst \<circ> snd) batch,
        ev_batch_size = map_option (snd \<circ> snd) batch\<rparr>"

section \<open>The file\<close>

definition event_line :: "ledger_event \<Rightarrow> string" where
  "event_line e = canonical_json (JObj (ev_to_dict e)) @ [CHR 0x0A]"

text \<open>
  Lines of a text file opened with universal newlines, and \<open>str.splitlines\<close>, which also splits
  at the other line boundaries of Unicode (here their UTF-8 bytes).
\<close>

fun file_lines_from :: "string \<Rightarrow> string \<Rightarrow> string list" where
  "file_lines_from acc [] = (if acc = [] then [] else [rev acc])"
| "file_lines_from acc (c # s) =
     (if c = CHR 0x0A then rev acc # file_lines_from [] s
      else if c = CHR 0x0D then rev acc # file_lines_from [] (if s \<noteq> [] \<and> hd s = CHR 0x0A then tl s else s)
      else file_lines_from (c # acc) s)"

definition file_lines :: "string \<Rightarrow> string list" where
  "file_lines s = file_lines_from [] s"

text \<open>The length of the line boundary a text starts with, 0 if it starts with none.\<close>

definition boundary :: "string \<Rightarrow> nat" where
  "boundary s =
     (if s = [] then 0
      else if take 2 s = [CHR 0x0D, CHR 0x0A] then 2
      else if hd s \<in> {CHR 0x0A, CHR 0x0D, CHR 0x0B, CHR 0x0C, CHR 0x1C, CHR 0x1D, CHR 0x1E} then 1
      else if take 2 s = [CHR 0xC2, CHR 0x85] then 2
      else if take 3 s = [CHR 0xE2, CHR 0x80, CHR 0xA8] \<or> take 3 s = [CHR 0xE2, CHR 0x80, CHR 0xA9] then 3
      else 0)"

function splitlines_from :: "string \<Rightarrow> string \<Rightarrow> string list" where
  "splitlines_from acc s =
     (if s = [] then (if acc = [] then [] else [rev acc])
      else if boundary s = 0 then splitlines_from (hd s # acc) (tl s)
      else rev acc # splitlines_from [] (drop (boundary s) s))"
  by pat_completeness auto
termination
  by (relation "measure (length \<circ> snd)") auto

declare splitlines_from.simps [simp del]

definition splitlines :: "string \<Rightarrow> string list" where
  "splitlines s = splitlines_from [] s"

definition strip_ws :: "char \<Rightarrow> bool" where
  "strip_ws c \<longleftrightarrow> (let n = (of_char c :: nat) in n = 32 \<or> (9 \<le> n \<and> n \<le> 13) \<or> (28 \<le> n \<and> n \<le> 31))"

definition strip :: "string \<Rightarrow> string" where
  "strip s = rev (dropWhile strip_ws (rev (dropWhile strip_ws s)))"

text \<open>One line of the file: \<open>None\<close> for a blank line, an error for a line that is no event.\<close>

definition invalid_line :: "nat \<Rightarrow> py_error" where
  "invalid_line n = ValueError (''invalid JSONL event at line '' @ show_nat n)"

fun event_from_json :: "json \<Rightarrow> ledger_event res" where
  "event_from_json (JObj d) = ev_from_dict d"
| "event_from_json _ = Inl (AttributeError ''get'')"

definition read_line :: "nat \<Rightarrow> string \<Rightarrow> ledger_event option res" where
  "read_line n line =
     (let s = strip line in
      if s = [] then Inr None
      else case loads s of None \<Rightarrow> Inl (invalid_line n)
           | Some j \<Rightarrow> bindE (event_from_json j) (\<lambda>e. Inr (Some e)))"

definition number_from :: "nat \<Rightarrow> 'a list \<Rightarrow> (nat \<times> 'a) list" where
  "number_from n xs = zip [n..<n + length xs] xs"

definition keep_some :: "'a option list \<Rightarrow> 'a list" where
  "keep_some xs = map the (filter (\<lambda>x. x \<noteq> None) xs)"

definition read_all :: "string \<Rightarrow> ledger_event list res" where
  "read_all file =
     bindE (mapE (\<lambda>(n, line). read_line n line) (number_from 1 (file_lines file))) (\<lambda>es.
     Inr (keep_some es))"

section \<open>The ledger\<close>

record event_ledger =
  el_file :: string
  el_events :: "ledger_event list"
  el_by_key :: "(string, ledger_event) dict"
  el_last_hash :: "string option"

definition last_hash :: "ledger_event list \<Rightarrow> string option" where
  "last_hash es = (if es = [] then None else Some (ev_event_hash (last es)))"

definition open_ledger :: "string \<Rightarrow> event_ledger res" where
  "open_ledger file =
     bindE (read_all file) (\<lambda>es.
     Inr \<lparr>el_file = file, el_events = es, el_by_key = dict_by ev_idempotency_key es,
          el_last_hash = last_hash es\<rparr>)"

definition append_event :: "hash \<Rightarrow> string \<Rightarrow> event_ledger \<Rightarrow> event_draft \<Rightarrow> (event_ledger \<times> ledger_event) res" where
  "append_event h now L d =
     (case dict_get (el_by_key L) (dr_idempotency_key d) of
        Some existing \<Rightarrow>
          if draft_signature d \<noteq> event_signature existing
          then Inl (ValueError (''idempotency key conflict: '' @ dr_idempotency_key d))
          else Inr (L, existing)
      | None \<Rightarrow>
          (let e = draft_event h now (int (length (el_events L)) + 1) (el_last_hash L) d None
           in Inr (\<lparr>el_file = el_file L @ event_line e, el_events = el_events L @ [e],
                    el_by_key = dict_set (dr_idempotency_key d) e (el_by_key L),
                    el_last_hash = Some (ev_event_hash e)\<rparr>, e)))"

text \<open>\<open>_build_batch_events\<close>: \<open>index\<close> counts from 1; \<open>clock i\<close> is the \<open>i\<close>-th reading of \<open>utc_now\<close>.\<close>

fun build_batch_events ::
  "hash \<Rightarrow> (nat \<Rightarrow> string) \<Rightarrow> int \<Rightarrow> string \<Rightarrow> int \<Rightarrow> nat \<Rightarrow> string option \<Rightarrow> event_draft list
    \<Rightarrow> ledger_event list" where
  "build_batch_events h clock next_seq batch_id batch_size index prev [] = []"
| "build_batch_events h clock next_seq batch_id batch_size index prev (d # ds) =
     (let e = draft_event h (clock index) (next_seq + int index - 1) prev d
                (Some (batch_id, int index, batch_size))
      in e # build_batch_events h clock next_seq batch_id batch_size (index + 1) (Some (ev_event_hash e)) ds)"

definition append_batch ::
  "hash \<Rightarrow> (nat \<Rightarrow> string) \<Rightarrow> event_ledger \<Rightarrow> event_draft list \<Rightarrow> string
    \<Rightarrow> (event_ledger \<times> ledger_event list) res" where
  "append_batch h clock L drafts batch_id =
     (let keys = map dr_idempotency_key drafts;
          found = map (dict_get (el_by_key L)) keys;
          existing = keep_some found;
          size = int (length drafts)
      in if drafts = [] then Inl (ValueError ''event batch cannot be empty'')
         else if batch_id = [] then Inl (ValueError ''batch_id is required'')
         else if \<not> distinct keys then Inl (ValueError ''duplicate idempotency key in batch'')
         else if length existing = length drafts
         then (case find (\<lambda>(i, d, e). \<not> batch_event_matches e d batch_id (int i) size)
                 (number_from 1 (zip drafts existing)) of
                 Some (_, d, _) \<Rightarrow> Inl (ValueError (''idempotency key conflict: '' @ dr_idempotency_key d))
               | None \<Rightarrow> Inr (L, existing))
         else if existing \<noteq> [] then Inl (ValueError ''partial existing batch'')
         else if list_ex (\<lambda>e. ev_batch_id e = Some batch_id) (el_events L)
         then Inl (ValueError (''batch_id conflict: '' @ batch_id))
         else (let new = build_batch_events h clock (int (length (el_events L)) + 1) batch_id size 1
                           (el_last_hash L) drafts
               in Inr (\<lparr>el_file = el_file L @ concat (map event_line new),
                        el_events = el_events L @ new,
                        el_by_key = fold (\<lambda>e acc. dict_set (ev_idempotency_key e) e acc) new (el_by_key L),
                        el_last_hash = Some (ev_event_hash (last new))\<rparr>, new)))"

section \<open>Verification\<close>

text \<open>\<open>verify_hash_chain\<close> reads the file again.\<close>

fun chain_holds :: "hash \<Rightarrow> int \<Rightarrow> string option \<Rightarrow> ledger_event list \<Rightarrow> bool" where
  "chain_holds h seq prev [] = True"
| "chain_holds h seq prev (e # es) =
     (if ev_event_seq e \<noteq> seq then False
      else if ev_prev_event_hash e \<noteq> prev then False
      else if event_hash h (ev_to_dict e) \<noteq> ev_event_hash e then False
      else chain_holds h (seq + 1) (Some (ev_event_hash e)) es)"

definition verify_hash_chain :: "hash \<Rightarrow> string \<Rightarrow> bool res" where
  "verify_hash_chain h file = bindE (read_all file) (\<lambda>es. Inr (chain_holds h 1 None es))"

fun verify_events_from ::
  "hash \<Rightarrow> int \<Rightarrow> string option \<Rightarrow> string list \<Rightarrow> string list \<Rightarrow> ledger_event list \<Rightarrow> unit res" where
  "verify_events_from h seq prev ids hashes [] = Inr ()"
| "verify_events_from h seq prev ids hashes (e # es) =
     (if ev_event_seq e \<noteq> seq
      then Inl (ValueError ''event ledger must have continuous event_seq starting at 1'')
      else if ev_event_id e \<in> set ids
      then Inl (ValueError (''duplicate event_id: '' @ ev_event_id e))
      else if ev_event_hash e \<in> set hashes
      then Inl (ValueError (''duplicate event_hash: '' @ ev_event_hash e))
      else if ev_prev_event_hash e \<noteq> prev
      then Inl (ValueError (''prev_event_hash mismatch at event_seq '' @ show_int (ev_event_seq e)))
      else if event_hash h (ev_to_dict e) \<noteq> ev_event_hash e
      then Inl (ValueError (''event_hash mismatch at event_seq '' @ show_int (ev_event_seq e)))
      else verify_events_from h (seq + 1) (Some (ev_event_hash e)) (ev_event_id e # ids)
             (ev_event_hash e # hashes) es)"

definition verify_snapshot_events :: "hash \<Rightarrow> ledger_event list \<Rightarrow> unit res" where
  "verify_snapshot_events h es = verify_events_from h 1 None [] [] es"

record ledger_snapshot =
  sn_events :: "ledger_event list"
  sn_ledger_bytes_digest :: string
  sn_ledger_events_digest :: string
  sn_event_count :: int
  sn_tip_event_seq :: "int option"
  sn_tip_event_id :: "string option"
  sn_tip_event_hash :: "string option"

text \<open>The \<open>except\<close> clause: every error but an AttributeError becomes the error of the line.\<close>

definition snapshot_line :: "nat \<Rightarrow> string \<Rightarrow> ledger_event option res" where
  "snapshot_line n line =
     (case read_line n line of
        Inl (KeyError _) \<Rightarrow> Inl (invalid_line n)
      | Inl (TypeError _) \<Rightarrow> Inl (invalid_line n)
      | Inl (ValueError _) \<Rightarrow> Inl (invalid_line n)
      | r \<Rightarrow> r)"

definition read_verified_snapshot :: "hash \<Rightarrow> string \<Rightarrow> ledger_snapshot res" where
  "read_verified_snapshot h file =
     bindE (mapE (\<lambda>(n, line). snapshot_line n line) (number_from 1 (splitlines file))) (\<lambda>opts.
     let es = keep_some opts; tip = (if es = [] then None else Some (last es)) in
     seqE (verify_snapshot_events h es)
     (Inr \<lparr>sn_events = es, sn_ledger_bytes_digest = sha256_digest h file,
           sn_ledger_events_digest = sha256_digest h (canonical_json (JArr (map (JObj \<circ> ev_to_dict) es))),
           sn_event_count = int (length es), sn_tip_event_seq = map_option ev_event_seq tip,
           sn_tip_event_id = map_option ev_event_id tip,
           sn_tip_event_hash = map_option ev_event_hash tip\<rparr>))"

end
