(* ===== verification/Event_Ledger_Integrity.thy ===== *)
theory Event_Ledger_Integrity
  imports Event_Ledger
begin

text \<open>
  What every ledger built by the operations of \<open>storage/events.py\<close> satisfies: what was written is
  read back, the hash chain verifies, idempotency keys are unique, and an append or a batch either
  extends the ledger or changes nothing. Tampering shows up as a failed check or as a collision
  of the hash function.
\<close>

section \<open>One event on disk\<close>

definition wf_event :: "ledger_event \<Rightarrow> bool" where
  "wf_event e \<longleftrightarrow> wf_obj (ev_payload e) \<and> wf_obj (ev_actor e) \<and> ev_schema_version e = ''LedgerEvent.v2''"

definition wf_draft :: "event_draft \<Rightarrow> bool" where
  "wf_draft d \<longleftrightarrow> wf_obj (dr_payload d) \<and> wf_obj (case dr_actor d of None \<Rightarrow> [] | Some a \<Rightarrow> a)"

text \<open>The event as it is read back: the keys of its payload and its actor are sorted.\<close>

definition norm_event :: "ledger_event \<Rightarrow> ledger_event" where
  "norm_event e = e\<lparr>ev_event_type := parse_event_type (event_type_value (ev_event_type e)),
     ev_actor := sort_obj (ev_actor e), ev_payload := sort_obj (ev_payload e)\<rparr>"

lemma norm_event_fields [simp]:
  "ev_event_seq (norm_event e) = ev_event_seq e" "ev_event_id (norm_event e) = ev_event_id e"
  "ev_prev_event_hash (norm_event e) = ev_prev_event_hash e" "ev_event_hash (norm_event e) = ev_event_hash e"
  "ev_idempotency_key (norm_event e) = ev_idempotency_key e" "ev_batch_id (norm_event e) = ev_batch_id e"
  "ev_schema_version (norm_event e) = ev_schema_version e" "ev_batch_index (norm_event e) = ev_batch_index e"
  "ev_batch_size (norm_event e) = ev_batch_size e"
  "event_type_value (ev_event_type (norm_event e)) = event_type_value (ev_event_type e)"
  by (simp_all add: norm_event_def)

lemma wf_event_dict: "wf_event e \<Longrightarrow> wf_obj (ev_to_dict e)"
  by (simp add: wf_event_def wf_obj_def ev_to_dict_def)

lemma ev_from_dict_cong: "map_of d = map_of e \<Longrightarrow> ev_from_dict d = ev_from_dict e"
  by (simp add: ev_from_dict_def str_default_def jitem_def jget_def str_item_def opt_str_item_def
      opt_int_item_def dict_default_def)

lemma opt_item_simps [simp]:
  "(case opt_str x of JNull \<Rightarrow> a | JStr s \<Rightarrow> f s | _ \<Rightarrow> b) = (case x of None \<Rightarrow> a | Some s \<Rightarrow> f s)"
  by (cases x) simp_all

lemma opt_int_item_simps [simp]:
  "(case opt_int y of JNull \<Rightarrow> a | JInt i \<Rightarrow> f i | _ \<Rightarrow> b) = (case y of None \<Rightarrow> a | Some i \<Rightarrow> f i)"
  by (cases y) simp_all

lemma case_opt_Inr [simp]: "(case x of None \<Rightarrow> Inr None | Some s \<Rightarrow> Inr (Some s)) = (Inr x :: 'a option res)"
  by (cases x) simp_all

lemma ev_from_to_dict:
  assumes "wf_event e"
  shows "ev_from_dict (sort_obj (ev_to_dict e)) = Inr (norm_event e)"
proof -
  have "distinct (map fst (ev_to_dict e))" using wf_event_dict[OF assms] by (simp add: wf_obj_def)
  then have "ev_from_dict (sort_obj (ev_to_dict e))
      = ev_from_dict (map (\<lambda>(k, v). (k, sort_members v)) (ev_to_dict e))"
    by (intro ev_from_dict_cong map_of_sort_obj)
  also have "\<dots> = Inr (norm_event e)"
    using assms
    by (simp add: wf_event_def ev_to_dict_def ev_from_dict_def str_default_def jitem_def jget_def str_item_def
        opt_str_item_def opt_int_item_def dict_default_def norm_event_def flip: sort_obj_def)
  finally show ?thesis .
qed

lemma canonical_obj_ends: "\<exists>m. canonical_json (JObj d) = CHR ''{'' # m @ ''}''"
  by (simp add: canonical_json_def)

lemma strip_plain: "\<not> strip_ws a \<Longrightarrow> \<not> strip_ws b \<Longrightarrow> strip (a # m @ [b]) = a # m @ [b]"
  by (simp add: strip_def)

lemma strip_canonical: "strip (canonical_json (JObj d)) = canonical_json (JObj d)" "canonical_json (JObj d) \<noteq> []"
proof -
  obtain m where "canonical_json (JObj d) = CHR ''{'' # m @ ''}''" using canonical_obj_ends by blast
  moreover have "\<not> strip_ws (CHR ''{'')" "\<not> strip_ws (CHR ''}'')" by (simp_all add: strip_ws_def)
  ultimately show "strip (canonical_json (JObj d)) = canonical_json (JObj d)" "canonical_json (JObj d) \<noteq> []"
    using strip_plain by auto
qed

lemma read_event_line:
  assumes "wf_event e"
  shows "read_line n (canonical_json (JObj (ev_to_dict e))) = Inr (Some (norm_event e))"
  using wf_event_dict[OF assms] ev_from_to_dict[OF assms]
  by (simp add: read_line_def strip_canonical loads_canonical wf_obj_def sort_members_obj del: sort_members.simps)

section \<open>The file\<close>

lemma file_lines_from_line:
  "\<forall>c \<in> set l. 32 \<le> (of_char c :: nat) \<Longrightarrow>
     file_lines_from acc (l @ CHR 0x0A # rest) = (rev acc @ l) # file_lines_from [] rest"
proof (induction l arbitrary: acc)
  case (Cons c l)
  then have "c \<noteq> CHR 0x0A" "c \<noteq> CHR 0x0D" by auto
  with Cons show ?case by simp
qed simp

lemma file_lines_events:
  assumes "\<forall>e \<in> set es. wf_event e"
  shows "file_lines (concat (map event_line es)) = map (\<lambda>e. canonical_json (JObj (ev_to_dict e))) es"
  using assms
proof (induction es)
  case Nil
  then show ?case by (simp add: file_lines_def)
next
  case (Cons e es)
  have "\<forall>c \<in> set (canonical_json (JObj (ev_to_dict e))). 32 \<le> (of_char c :: nat)"
    using wf_event_dict[of e] Cons.prems canonical_printable by (simp only: wf_obj_def list.set_intros) blast
  with Cons show ?case by (simp add: file_lines_def event_line_def file_lines_from_line)
qed

lemma number_from_mem: "(n, x) \<in> set (number_from k xs) \<Longrightarrow> x \<in> set xs"
  by (auto simp: number_from_def dest: set_zip_rightD)

lemma keep_some_Some [simp]: "keep_some (map (\<lambda>x. Some (f x)) xs) = map f xs"
  by (induction xs) (simp_all add: keep_some_def)

lemma read_all_events:
  assumes "\<forall>e \<in> set es. wf_event e"
  shows "read_all (concat (map event_line es)) = Inr (map norm_event es)"
proof -
  let ?texts = "map (\<lambda>e. canonical_json (JObj (ev_to_dict e))) es"
  have rl: "list_all2 (\<lambda>p e. (\<lambda>(n, line). read_line n line) p = Inr (Some (norm_event e))) (number_from 1 ?texts) es"
    using assms by (auto simp: list_all2_conv_all_nth number_from_def read_event_line Suc_le_eq)
  have "list_all2 (\<lambda>p y. (\<lambda>(n, line). read_line n line) p = Inr y) (number_from 1 ?texts)
      (map (\<lambda>e. Some (norm_event e)) es)"
    using rl by (simp add: list_all2_map2)
  then have "mapE (\<lambda>(n, line). read_line n line) (number_from 1 ?texts) = Inr (map (\<lambda>e. Some (norm_event e)) es)"
    by (simp only: mapE_list_all2)
  then show ?thesis by (simp only: read_all_def file_lines_events[OF assms] bindE_Inr keep_some_Some)
qed

section \<open>The hash chain\<close>

lemma event_hash_norm: "event_hash h (ev_to_dict (norm_event e)) = event_hash h (ev_to_dict e)"
proof -
  let ?f = "filter (\<lambda>(k, v). k \<noteq> ''event_hash'')"
  have s: "sort_obj d = sort_obj d'" if "map (\<lambda>(k, v). (k, sort_members v)) d = map (\<lambda>(k, v). (k, sort_members v)) d'"
    for d d' using that by (simp only: sort_obj_def)
  have "sort_members (JObj (?f (ev_to_dict (norm_event e)))) = sort_members (JObj (?f (ev_to_dict e)))"
    unfolding sort_members_obj
    by (rule arg_cong[where f = JObj], rule s)
      (simp add: ev_to_dict_def norm_event_def sort_members_obj del: sort_members.simps(2))
  then show ?thesis by (simp only: event_hash_def digest_json_def canonical_json_def)
qed

lemma event_hash_finalize:
  "event_hash h (ev_to_dict (finalize_event h e)) = ev_event_hash (finalize_event h e)"
  by (simp add: finalize_event_def event_hash_def ev_to_dict_def)

lemma chain_holds_norm: "chain_holds h n p (map norm_event es) = chain_holds h n p es"
  by (induction es arbitrary: n p) (simp_all add: event_hash_norm)

lemma chain_holds_append:
  "chain_holds h n p (es @ fs) \<longleftrightarrow> chain_holds h n p es \<and>
     chain_holds h (n + int (length es)) (if es = [] then p else last_hash es) fs"
  by (induction es arbitrary: n p) (auto simp: last_hash_def add.assoc add.commute)

lemma draft_event_fields [simp]:
  "ev_event_seq (draft_event h now seq prev d b) = seq"
  "ev_event_id (draft_event h now seq prev d b) = event_id_of seq"
  "ev_prev_event_hash (draft_event h now seq prev d b) = prev"
  "ev_idempotency_key (draft_event h now seq prev d b) = dr_idempotency_key d"
  "event_signature (draft_event h now seq prev d b) = draft_signature d"
  "ev_schema_version (draft_event h now seq prev d b) = ''LedgerEvent.v2''"
  "ev_batch_id (draft_event h now seq prev d b) = map_option fst b"
  "ev_batch_index (draft_event h now seq prev d b) = map_option (fst \<circ> snd) b"
  "ev_batch_size (draft_event h now seq prev d b) = map_option (snd \<circ> snd) b"
  by (simp_all add: draft_event_def finalize_event_def event_signature_def draft_signature_def)

lemma draft_event_hash:
  "event_hash h (ev_to_dict (draft_event h now seq prev d b)) = ev_event_hash (draft_event h now seq prev d b)"
  by (simp only: draft_event_def event_hash_finalize)

lemma wf_draft_event: "wf_draft d \<Longrightarrow> wf_event (draft_event h now seq prev d b)"
  by (auto simp: wf_draft_def wf_event_def draft_event_def finalize_event_def wf_obj_def split: option.splits)

section \<open>The ledger invariant\<close>

definition ledger_ok :: "hash \<Rightarrow> event_ledger \<Rightarrow> bool" where
  "ledger_ok h L \<longleftrightarrow>
     (\<forall>e \<in> set (el_events L). wf_event e \<and> ev_event_id e = event_id_of (ev_event_seq e)) \<and>
     chain_holds h 1 None (el_events L) \<and>
     distinct (map ev_idempotency_key (el_events L)) \<and>
     el_file L = concat (map event_line (el_events L)) \<and>
     el_by_key L = dict_by ev_idempotency_key (el_events L) \<and>
     el_last_hash L = last_hash (el_events L)"

lemma event_line_norm: "event_line (norm_event e) = event_line e"
proof -
  have s: "sort_obj d = sort_obj d'" if "map (\<lambda>(k, v). (k, sort_members v)) d = map (\<lambda>(k, v). (k, sort_members v)) d'"
    for d d' using that by (simp only: sort_obj_def)
  have "sort_members (JObj (ev_to_dict (norm_event e))) = sort_members (JObj (ev_to_dict e))"
    unfolding sort_members_obj
    by (rule arg_cong[where f = JObj], rule s)
      (simp add: ev_to_dict_def norm_event_def sort_members_obj del: sort_members.simps(2))
  then show ?thesis by (simp only: event_line_def canonical_json_def)
qed

lemma wf_norm_event: "wf_event e \<Longrightarrow> wf_event (norm_event e)"
  using wf_sort_members[of "JObj (ev_payload e)"] wf_sort_members[of "JObj (ev_actor e)"]
    floats_ok_sort[of "JObj (ev_payload e)"] floats_ok_sort[of "JObj (ev_actor e)"]
  by (simp add: wf_event_def wf_obj_def norm_event_def sort_members_obj del: sort_members.simps wf_json.simps floats_ok.simps)

lemma last_hash_norm: "last_hash (map norm_event es) = last_hash es"
  by (cases es rule: rev_cases) (simp_all add: last_hash_def)

lemma open_ledger_ok:
  assumes "ledger_ok h L"
  shows "\<exists>L'. open_ledger (el_file L) = Inr L' \<and> ledger_ok h L' \<and> el_file L' = el_file L \<and>
    el_events L' = map norm_event (el_events L)"
proof -
  have "read_all (el_file L) = Inr (map norm_event (el_events L))"
    using assms read_all_events[of "el_events L"] by (simp add: ledger_ok_def)
  moreover have "concat (map event_line (map norm_event es)) = concat (map event_line es)" for es
    by (simp add: comp_def event_line_norm)
  moreover have "map ev_idempotency_key (map norm_event es) = map ev_idempotency_key es" for es
    by simp
  ultimately show ?thesis
    using assms
    by (auto simp: open_ledger_def ledger_ok_def chain_holds_norm last_hash_norm wf_norm_event comp_def
        event_line_norm)
qed

lemma ledger_ok_extend:
  assumes "ledger_ok h L" and "\<forall>e \<in> set new. wf_event e \<and> ev_event_id e = event_id_of (ev_event_seq e)"
    and "chain_holds h (int (length (el_events L)) + 1) (el_last_hash L) new"
    and "distinct (map ev_idempotency_key new)" and "new \<noteq> []"
    and "\<forall>e \<in> set new. dict_get (el_by_key L) (ev_idempotency_key e) = None"
  shows "ledger_ok h \<lparr>el_file = el_file L @ concat (map event_line new), el_events = el_events L @ new,
    el_by_key = fold (\<lambda>e acc. dict_set (ev_idempotency_key e) e acc) new (el_by_key L),
    el_last_hash = Some (ev_event_hash (last new))\<rparr>"
proof -
  have "ev_idempotency_key ` set new \<inter> ev_idempotency_key ` set (el_events L) = {}"
  proof -
    have "\<not> dict_has (dict_by ev_idempotency_key (el_events L)) (ev_idempotency_key e)" if "e \<in> set new" for e
      using assms(1,6) that by (simp add: dict_has_def ledger_ok_def)
    then show ?thesis by (auto simp: dict_by_has)
  qed
  moreover have "chain_holds h 1 None (el_events L @ new)"
    using assms(1,3) by (auto simp: chain_holds_append ledger_ok_def last_hash_def add.commute split: if_splits)
  ultimately show ?thesis
    using assms by (auto simp: ledger_ok_def dict_by_def last_hash_def)
qed

lemma append_event_cases:
  assumes "append_event h now L d = Inr (L', e)"
  obtains (existing) "dict_get (el_by_key L) (dr_idempotency_key d) = Some e"
      "draft_signature d = event_signature e" "L' = L"
  | (new) "dict_get (el_by_key L) (dr_idempotency_key d) = None"
      "e = draft_event h now (int (length (el_events L)) + 1) (el_last_hash L) d None"
      "L' = \<lparr>el_file = el_file L @ event_line e, el_events = el_events L @ [e],
         el_by_key = dict_set (dr_idempotency_key d) e (el_by_key L), el_last_hash = Some (ev_event_hash e)\<rparr>"
  using assms by (auto simp: append_event_def Let_def split: option.splits if_splits)

lemma append_event_ok:
  assumes "ledger_ok h L" "wf_draft d" "append_event h now L d = Inr (L', e)"
  shows "ledger_ok h L'"
  using assms(3)
proof (cases rule: append_event_cases)
  case existing
  with assms show ?thesis by simp
next
  case new
  then show ?thesis
    using ledger_ok_extend[OF assms(1), of "[e]"] wf_draft_event[OF assms(2)] draft_event_hash by simp
qed

section \<open>Batches\<close>

lemma build_batch_length [simp]: "length (build_batch_events h clock n bid sz i prev ds) = length ds"
  by (induction ds arbitrary: i prev) (simp_all add: Let_def)

lemma build_batch_keys:
  "map ev_idempotency_key (build_batch_events h clock n bid sz i prev ds) = map dr_idempotency_key ds"
  by (induction ds arbitrary: i prev) (simp_all add: Let_def)

lemma build_batch_wf:
  "\<forall>d \<in> set ds. wf_draft d \<Longrightarrow>
     \<forall>e \<in> set (build_batch_events h clock n bid sz i prev ds). wf_event e \<and> ev_event_id e = event_id_of (ev_event_seq e)"
  by (induction ds arbitrary: i prev) (simp_all add: Let_def wf_draft_event)

lemma build_batch_chain:
  "chain_holds h (n + int i - 1) prev (build_batch_events h clock n bid sz i prev ds)"
proof (induction ds arbitrary: i prev)
  case (Cons d ds)
  show ?case using Cons.IH[of "Suc i"] by (simp add: Let_def draft_event_hash)
qed simp

lemma build_batch_matches:
  "(j, d, e) \<in> set (number_from i (zip ds (build_batch_events h clock n bid sz i prev ds))) \<Longrightarrow>
     batch_event_matches e d bid (int j) sz"
proof (induction ds arbitrary: i prev)
  case (Cons d' ds)
  have "number_from i (x # xs) = (i, x) # number_from (Suc i) xs" for x :: "event_draft \<times> ledger_event" and xs
    by (simp add: number_from_def upt_rec)
  with Cons show ?case by (auto simp: Let_def batch_event_matches_def)
qed (simp add: number_from_def)

lemma keep_some_all: "length (keep_some xs) = length xs \<Longrightarrow> map Some (keep_some xs) = xs"
proof (induction xs)
  case (Cons x xs)
  have "length (keep_some xs) \<le> length xs" by (simp add: keep_some_def)
  with Cons show ?case by (cases x) (auto simp: keep_some_def)
qed (simp add: keep_some_def)

lemma keep_some_none: "keep_some xs = [] \<longleftrightarrow> (\<forall>x \<in> set xs. x = None)"
  by (auto simp: keep_some_def filter_empty_conv)

text \<open>The two ways a batch succeeds: it is already there as a whole, or it is appended as a whole.\<close>

lemma append_batch_cases:
  assumes "append_batch h clock L ds bid = Inr (L', es)"
  obtains (existing) "L' = L" "map (dict_get (el_by_key L)) (map dr_idempotency_key ds) = map Some es"
      "\<forall>(j, d, e) \<in> set (number_from 1 (zip ds es)). batch_event_matches e d bid (int j) (int (length ds))"
      "ds \<noteq> []"
  | (new) "ds \<noteq> []" "distinct (map dr_idempotency_key ds)"
      "\<forall>d \<in> set ds. dict_get (el_by_key L) (dr_idempotency_key d) = None"
      "es = build_batch_events h clock (int (length (el_events L)) + 1) bid (int (length ds)) 1 (el_last_hash L) ds"
      "L' = \<lparr>el_file = el_file L @ concat (map event_line es), el_events = el_events L @ es,
         el_by_key = fold (\<lambda>e acc. dict_set (ev_idempotency_key e) e acc) es (el_by_key L),
         el_last_hash = Some (ev_event_hash (last es))\<rparr>"
      "\<forall>e \<in> set (el_events L). ev_batch_id e \<noteq> Some bid"
proof -
  let ?found = "map (dict_get (el_by_key L)) (map dr_idempotency_key ds)"
  consider (a) "length (keep_some ?found) = length ds" | (b) "length (keep_some ?found) \<noteq> length ds" by blast
  then show thesis
  proof cases
    case a
    have f: "find (\<lambda>(i, d, e). \<not> batch_event_matches e d bid (int i) (int (length ds)))
        (number_from 1 (zip ds (keep_some ?found))) = None" "L' = L" "es = keep_some ?found" "ds \<noteq> []"
      using assms a by (auto simp: append_batch_def Let_def split: option.splits if_splits)
    have "map Some (keep_some ?found) = ?found" using a by (intro keep_some_all) simp
    with f show thesis by (intro existing) (auto simp: find_None_iff)
  next
    case b
    then have "keep_some ?found = []" using assms by (auto simp: append_batch_def Let_def split: if_splits)
    then have none: "\<forall>x \<in> set ?found. x = None" by (simp only: keep_some_none)
    show thesis
      by (rule new) (use assms b none in \<open>auto simp: append_batch_def Let_def list_ex_iff split: if_splits\<close>)
  qed
qed

lemma append_batch_ok:
  assumes "ledger_ok h L" "\<forall>d \<in> set ds. wf_draft d" "append_batch h clock L ds bid = Inr (L', es)"
  shows "ledger_ok h L'"
  using assms(3)
proof (cases rule: append_batch_cases)
  case existing
  with assms show ?thesis by simp
next
  case new
  let ?es = "build_batch_events h clock (int (length (el_events L)) + 1) bid (int (length ds)) 1 (el_last_hash L) ds"
  have "?es \<noteq> []" using new(1) build_batch_length[of h clock] by (metis length_0_conv)
  moreover have "chain_holds h (int (length (el_events L)) + 1) (el_last_hash L) ?es"
    using build_batch_chain[of h "int (length (el_events L)) + 1" 1] by (simp add: add.commute)
  moreover have "\<forall>e \<in> set ?es. dict_get (el_by_key L) (ev_idempotency_key e) = None"
  proof
    fix e assume "e \<in> set ?es"
    then have "ev_idempotency_key e \<in> set (map dr_idempotency_key ds)"
      using build_batch_keys[of h clock] by (metis image_eqI list.set_map)
    then show "dict_get (el_by_key L) (ev_idempotency_key e) = None" using new(3) by auto
  qed
  ultimately show ?thesis
    using ledger_ok_extend[OF assms(1) build_batch_wf[OF assms(2)]] new build_batch_keys[of h clock]
    by simp
qed

section \<open>Every reachable ledger\<close>

text \<open>
  A ledger in use: opened on an empty file, extended by appends and batches, and at any moment
  closed and opened again from the bytes of its file.
\<close>

inductive ledger_reach :: "hash \<Rightarrow> event_ledger \<Rightarrow> bool" for h where
  ledger_new: "open_ledger [] = Inr L \<Longrightarrow> ledger_reach h L"
| ledger_append: "ledger_reach h L \<Longrightarrow> wf_draft d \<Longrightarrow> append_event h now L d = Inr (L', e) \<Longrightarrow>
     ledger_reach h L'"
| ledger_batch: "ledger_reach h L \<Longrightarrow> \<forall>d \<in> set ds. wf_draft d \<Longrightarrow>
     append_batch h clock L ds bid = Inr (L', es) \<Longrightarrow> ledger_reach h L'"
| ledger_reopen: "ledger_reach h L \<Longrightarrow> open_ledger (el_file L) = Inr L' \<Longrightarrow> ledger_reach h L'"

lemma open_empty: "open_ledger [] = Inr \<lparr>el_file = [], el_events = [], el_by_key = [], el_last_hash = None\<rparr>"
  by (simp add: open_ledger_def read_all_def file_lines_def number_from_def keep_some_def dict_by_def last_hash_def)

lemma ledger_reach_ok: "ledger_reach h L \<Longrightarrow> ledger_ok h L"
proof (induction rule: ledger_reach.induct)
  case (ledger_new L)
  then show ?case by (simp add: open_empty) (auto simp: ledger_ok_def dict_by_def last_hash_def)
next
  case (ledger_append L d now L' e)
  then show ?case using append_event_ok by blast
next
  case (ledger_batch L ds clock bid L' es)
  then show ?case using append_batch_ok by blast
next
  case (ledger_reopen L L')
  then show ?case using open_ledger_ok by fastforce
qed

lemma chain_holds_seq: "chain_holds h n p es \<Longrightarrow> map ev_event_seq es = map (\<lambda>i. n + int i) [0..<length es]"
proof (induction es arbitrary: n p)
  case (Cons e es)
  have "map (\<lambda>i. n + int i) [0..<length (e # es)] = n # map (\<lambda>i. n + 1 + int i) [0..<length es]"
    unfolding list.size(4) by (simp add: upt_conv_Cons comp_def flip: map_Suc_upt del: upt_Suc)
  with Cons show ?case by (auto split: if_splits)
qed simp

text \<open>
  C1 ledger_integrity: however a ledger was built, by any appends, batches and reopenings, reading
  its file gives back its events (with sorted payload keys), the file passes the hash chain
  verification, the events are numbered 1, 2, ..., and no two have the same idempotency key.
\<close>

theorem ledger_integrity:
  assumes "ledger_reach h L"
  shows "read_all (el_file L) = Inr (map norm_event (el_events L)) \<and>
    verify_hash_chain h (el_file L) = Inr True \<and>
    map ev_event_seq (el_events L) = map (\<lambda>i. 1 + int i) [0..<length (el_events L)] \<and>
    distinct (map ev_idempotency_key (el_events L))"
proof -
  have ok: "ledger_ok h L" by (rule ledger_reach_ok[OF assms])
  then have r: "read_all (el_file L) = Inr (map norm_event (el_events L))"
    using read_all_events by (simp add: ledger_ok_def)
  with ok show ?thesis
    using chain_holds_seq[of h 1 None "el_events L"]
    by (simp add: verify_hash_chain_def chain_holds_norm ledger_ok_def)
qed

end
