(* ===== verification/Event_Log.thy ===== *)
theory Event_Log
  imports Event_Ledger_Integrity
begin

text \<open>
  The event log as its clients see it: an interface of idempotent, append-only logs with the
  lemmas clients rest on (a sequence of appends extends the log, and running it again changes
  nothing), interpreted on the ledger of \<open>storage/events.py\<close>; and what the ledger's hash chain
  proves about its past.
\<close>

section \<open>The interface\<close>

fun append_all :: "('s \<Rightarrow> 'd \<Rightarrow> ('s \<times> 'e) res) \<Rightarrow> 's \<Rightarrow> 'd list \<Rightarrow> ('s \<times> 'e list) res" where
  "append_all app s [] = Inr (s, [])"
| "append_all app s (d # ds) =
     bindE (app s d) (\<lambda>(s', e). bindE (append_all app s' ds) (\<lambda>(s'', es). Inr (s'', e # es)))"

locale event_log =
  fixes inv :: "'s \<Rightarrow> bool"
    and entries :: "'s \<Rightarrow> 'e list"
    and entry_key :: "'e \<Rightarrow> string"
    and draft_key :: "'d \<Rightarrow> string"
    and good :: "'d \<Rightarrow> bool"
    and stands_for :: "'e \<Rightarrow> 'd \<Rightarrow> bool"
    and app :: "'s \<Rightarrow> 'd \<Rightarrow> ('s \<times> 'e) res"
  assumes keys_distinct: "inv s \<Longrightarrow> distinct (map entry_key (entries s))"
    and app_inv: "inv s \<Longrightarrow> good d \<Longrightarrow> app s d = Inr (s', e) \<Longrightarrow> inv s'"
    and app_stands: "inv s \<Longrightarrow> app s d = Inr (s', e) \<Longrightarrow> stands_for e d \<and> entry_key e = draft_key d"
    and app_grows: "inv s \<Longrightarrow> app s d = Inr (s', e) \<Longrightarrow>
      (s' = s \<and> e \<in> set (entries s)) \<or> entries s' = entries s @ [e]"
    and app_again: "inv s \<Longrightarrow> e \<in> set (entries s) \<Longrightarrow> entry_key e = draft_key d \<Longrightarrow> stands_for e d \<Longrightarrow>
      app s d = Inr (s, e)"
    and app_conflict: "inv s \<Longrightarrow> e \<in> set (entries s) \<Longrightarrow> entry_key e = draft_key d \<Longrightarrow> \<not> stands_for e d \<Longrightarrow>
      \<not> is_ok (app s d)"
begin

lemma app_mem: "inv s \<Longrightarrow> app s d = Inr (s', e) \<Longrightarrow> e \<in> set (entries s')"
  by (drule (1) app_grows) auto

lemma app_prefix: "inv s \<Longrightarrow> app s d = Inr (s', e) \<Longrightarrow> \<exists>new. entries s' = entries s @ new \<and> length new \<le> 1"
  by (drule (1) app_grows) auto

lemma append_all_ok:
  assumes "append_all app s ds = Inr (s', es)" and "inv s" and "\<forall>d \<in> set ds. good d"
  shows "inv s' \<and> (\<exists>new. entries s' = entries s @ new) \<and> set es \<subseteq> set (entries s') \<and>
    list_all2 (\<lambda>e d. stands_for e d \<and> entry_key e = draft_key d) es ds"
  using assms
proof (induction ds arbitrary: s es)
  case (Cons d ds)
  from Cons.prems(1) obtain s1 e es1 where a: "app s d = Inr (s1, e)" and r: "append_all app s1 ds = Inr (s', es1)"
    and es: "es = e # es1"
    by (auto simp: res_simps)
  have i: "inv s1" using app_inv[OF Cons.prems(2) _ a] Cons.prems(3) by simp
  obtain new where "entries s1 = entries s @ new" using app_prefix[OF Cons.prems(2) a] by blast
  moreover have "e \<in> set (entries s1)" by (rule app_mem[OF Cons.prems(2) a])
  moreover note Cons.IH[OF r i] app_stands[OF Cons.prems(2) a]
  ultimately show ?case using Cons.prems(3) es by auto
qed simp

lemma append_all_known:
  assumes "inv s" and "set es \<subseteq> set (entries s)"
    and "list_all2 (\<lambda>e d. stands_for e d \<and> entry_key e = draft_key d) es ds"
  shows "append_all app s ds = Inr (s, es)"
  using assms(3,2)
proof (induction es ds rule: list_all2_induct)
  case (Cons e es d ds)
  then show ?case using app_again[OF assms(1), of e d] by simp
qed simp

text \<open>Running the same appends again changes nothing and returns the same entries.\<close>

lemma append_all_again:
  assumes "append_all app s ds = Inr (s', es)" and "inv s" and "\<forall>d \<in> set ds. good d"
  shows "append_all app s' ds = Inr (s', es)"
  using append_all_ok[OF assms] append_all_known by blast

end

section \<open>The ledger is an event log\<close>

definition stands_for_draft :: "ledger_event \<Rightarrow> event_draft \<Rightarrow> bool" where
  "stands_for_draft e d \<longleftrightarrow> event_signature e = draft_signature d"

lemma ledger_get:
  assumes "ledger_ok h L" "e \<in> set (el_events L)"
  shows "dict_get (el_by_key L) (ev_idempotency_key e) = Some e"
  using assms dict_by_get_distinct[of ev_idempotency_key "el_events L" e] by (simp add: ledger_ok_def)

lemma ledger_get_mem:
  assumes "ledger_ok h L" "dict_get (el_by_key L) k = Some e"
  shows "e \<in> set (el_events L) \<and> ev_idempotency_key e = k"
  using assms dict_by_get_key[of ev_idempotency_key "el_events L"] by (simp add: ledger_ok_def)

interpretation ledger: event_log "ledger_ok h" el_events ev_idempotency_key dr_idempotency_key wf_draft
  stands_for_draft "append_event h now" for h now
proof
  show "distinct (map ev_idempotency_key (el_events L))" if "ledger_ok h L" for L
    using that by (simp add: ledger_ok_def)
  show "ledger_ok h L'" if "ledger_ok h L" "wf_draft d" "append_event h now L d = Inr (L', e)" for L d L' e
    using that by (rule append_event_ok)
next
  fix L L' e and d :: event_draft assume ok: "ledger_ok h L" and a: "append_event h now L d = Inr (L', e)"
  show "stands_for_draft e d \<and> ev_idempotency_key e = dr_idempotency_key d"
    using a by (cases rule: append_event_cases) (auto simp: stands_for_draft_def dest: ledger_get_mem[OF ok])
  show "L' = L \<and> e \<in> set (el_events L) \<or> el_events L' = el_events L @ [e]"
    using a by (cases rule: append_event_cases) (auto dest: ledger_get_mem[OF ok])
next
  fix L e and d :: event_draft assume ok: "ledger_ok h L" and e: "e \<in> set (el_events L)" "ev_idempotency_key e = dr_idempotency_key d"
  then have "dict_get (el_by_key L) (dr_idempotency_key d) = Some e" using ledger_get[OF ok] by metis
  then show "append_event h now L d = Inr (L, e)" if "stands_for_draft e d"
    using that by (simp add: append_event_def stands_for_draft_def)
  from \<open>dict_get (el_by_key L) (dr_idempotency_key d) = Some e\<close>
  show "\<not> is_ok (append_event h now L d)" if "\<not> stands_for_draft e d"
    using that by (simp add: append_event_def stands_for_draft_def)
qed

text \<open>
  Appending to a reachable ledger either leaves it as it is or adds exactly
  one event at the end; the event returned has the key and the signature of the draft; appending
  the draft again, at any later time of day, changes nothing and returns the same event; and a
  different draft under the same key is refused.
\<close>

theorem append_idempotent:
  assumes "ledger_reach h L" and "wf_draft d" and "append_event h now L d = Inr (L', e)"
  shows "(L' = L \<or> el_events L' = el_events L @ [e]) \<and>
    ev_idempotency_key e = dr_idempotency_key d \<and> event_signature e = draft_signature d \<and>
    append_event h later L' d = Inr (L', e) \<and>
    (\<forall>d'. dr_idempotency_key d' = dr_idempotency_key d \<longrightarrow> draft_signature d' \<noteq> draft_signature d \<longrightarrow>
      \<not> is_ok (append_event h later L' d'))"
proof -
  have ok: "ledger_ok h L" by (rule ledger_reach_ok[OF assms(1)])
  have ok': "ledger_ok h L'" by (rule append_event_ok[OF ok assms(2,3)])
  have m: "e \<in> set (el_events L')" by (rule ledger.app_mem[OF ok assms(3)])
  have s: "stands_for_draft e d" "ev_idempotency_key e = dr_idempotency_key d"
    using ledger.app_stands[OF ok assms(3)] by auto
  then show ?thesis
    using ledger.app_grows[OF ok assms(3)] ledger.app_again[OF ok' m s(2,1)] ledger.app_conflict[OF ok' m]
    by (auto simp: stands_for_draft_def)
qed

text \<open>What a successful batch shows, and when a batch is found again in a later ledger.\<close>

definition batch_stands :: "event_draft list \<Rightarrow> string \<Rightarrow> ledger_event list \<Rightarrow> bool" where
  "batch_stands ds bid es \<longleftrightarrow> ds \<noteq> [] \<and> bid \<noteq> [] \<and> distinct (map dr_idempotency_key ds) \<and>
     map ev_idempotency_key es = map dr_idempotency_key ds \<and>
     (\<forall>(j, d, e) \<in> set (number_from 1 (zip ds es)). batch_event_matches e d bid (int j) (int (length ds)))"

lemma append_batch_known:
  assumes "ledger_ok h M" and "set es \<subseteq> set (el_events M)" and "batch_stands ds bid es"
  shows "append_batch h clock M ds bid = Inr (M, es)"
proof -
  have s: "ds \<noteq> []" "bid \<noteq> []" "distinct (map dr_idempotency_key ds)" "map ev_idempotency_key es = map dr_idempotency_key ds"
    "\<forall>(j, d, e) \<in> set (number_from 1 (zip ds es)). batch_event_matches e d bid (int j) (int (length ds))"
    using assms(3) by (auto simp: batch_stands_def)
  have "dict_get (el_by_key M) (ev_idempotency_key e) = Some e" if "e \<in> set es" for e
    using ledger_get[OF assms(1)] that assms(2) by blast
  then have f: "map (dict_get (el_by_key M)) (map dr_idempotency_key ds) = map Some es"
    unfolding s(4)[symmetric] by simp
  have "keep_some (map Some es) = es" using keep_some_Some[of id es] by simp
  moreover have "length es = length ds" using s(4) by (metis length_map)
  moreover have "find (\<lambda>(i, d, e). \<not> batch_event_matches e d bid (int i) (int (length ds)))
      (number_from 1 (zip ds es)) = None"
    using s(5) by (auto simp: find_None_iff)
  ultimately show ?thesis using s(1-3) f by (simp add: append_batch_def Let_def del: map_map)
qed

lemma append_batch_stands:
  assumes "ledger_ok h L" and "append_batch h clock L ds bid = Inr (L', es)"
  shows "(L' = L \<and> set es \<subseteq> set (el_events L) \<or> el_events L' = el_events L @ es) \<and> batch_stands ds bid es"
proof -
  have n: "bid \<noteq> []" "distinct (map dr_idempotency_key ds)"
    using assms(2) by (auto simp: append_batch_def Let_def split: if_splits)
  show ?thesis
    using assms(2)
  proof (cases rule: append_batch_cases)
    case existing
    have l: "length es = length ds" using existing(2) by (metis length_map)
    have "dict_get (el_by_key L) (dr_idempotency_key (ds ! i)) = Some (es ! i)" if "i < length ds" for i
      using arg_cong[OF existing(2), of "\<lambda>xs. xs ! i"] that l by simp
    then have g: "es ! i \<in> set (el_events L) \<and> ev_idempotency_key (es ! i) = dr_idempotency_key (ds ! i)"
      if "i < length ds" for i
      using ledger_get_mem[OF assms(1)] that by blast
    then have "map ev_idempotency_key es = map dr_idempotency_key ds" "set es \<subseteq> set (el_events L)"
      using l by (auto simp: list_eq_iff_nth_eq in_set_conv_nth)
    then show ?thesis using existing n by (simp add: batch_stands_def)
  next
    case new
    have "map ev_idempotency_key es = map dr_idempotency_key ds" unfolding new(4) by (rule build_batch_keys)
    moreover have "\<forall>(j, d, e) \<in> set (number_from 1 (zip ds es)). batch_event_matches e d bid (int j) (int (length ds))"
      using build_batch_matches unfolding new(4) by blast
    ultimately show ?thesis using new(1,5) n by (simp add: batch_stands_def)
  qed
qed

text \<open>
  C2 batch_atomic: a batch that succeeds is either wholly new, and then the ledger grows by exactly
  one event per draft in the order of the drafts, or wholly present, and then the ledger is
  unchanged; in both cases committing the same batch again changes nothing and returns the same
  events.
\<close>

theorem batch_atomic:
  assumes "ledger_reach h L" and "\<forall>d \<in> set ds. wf_draft d" and "append_batch h clock L ds bid = Inr (L', es)"
  shows "(L' = L \<and> set es \<subseteq> set (el_events L) \<or> el_events L' = el_events L @ es) \<and>
    map ev_idempotency_key es = map dr_idempotency_key ds \<and>
    append_batch h clock' L' ds bid = Inr (L', es)"
proof -
  have ok: "ledger_ok h L" by (rule ledger_reach_ok[OF assms(1)])
  have "ledger_ok h L'" by (rule append_batch_ok[OF ok assms(2,3)])
  then show ?thesis
    using append_batch_stands[OF ok assms(3)] append_batch_known[of h L' es ds bid clock'] by (auto simp: batch_stands_def)
qed

section \<open>Tampering\<close>

definition wf_fields :: "ledger_event \<Rightarrow> bool" where
  "wf_fields e \<longleftrightarrow> wf_json (JObj (ev_to_dict e))"

lemma mset_sort_obj: "mset (sort_obj d) = image_mset (\<lambda>(k, v). (k, sort_members v)) (mset d)"
  by (simp add: sort_obj_def)

lemma sort_obj_mset:
  assumes "mset (sort_obj d) = mset (sort_obj d')" "distinct (map fst d)"
  shows "sort_obj d = sort_obj d'"
proof -
  have "distinct (map fst (map (\<lambda>(k, v). (k, sort_members v)) d))"
    using assms(2) by (simp add: case_prod_beta comp_def) 
  moreover have "mset (map (\<lambda>(k, v). (k, sort_members v)) d) = mset (map (\<lambda>(k, v). (k, sort_members v)) d')"
    using assms(1) by (simp add: mset_sort_obj)
  ultimately show ?thesis unfolding sort_obj_def by (intro sort_key_perm)
qed

definition hashed :: "ledger_event \<Rightarrow> jobj" where
  "hashed e = filter (\<lambda>(k, v). k \<noteq> ''event_hash'') (ev_to_dict e)"

lemma hashed_mset: "mset (ev_to_dict e) = add_mset (''event_hash'', JStr (ev_event_hash e)) (mset (hashed e))"
  by (simp add: hashed_def ev_to_dict_def)

lemma hashed_wf:
  assumes "wf_fields e"
  shows "wf_json (JObj (hashed e))"
proof -
  have "distinct (map fst (hashed e))" unfolding hashed_def
    using assms by (simp add: wf_fields_def distinct_map_filter)
  then show ?thesis using assms by (auto simp: hashed_def wf_fields_def)
qed

text \<open>Equal hashes mean equal content, or a collision.\<close>

lemma event_hash_eq:
  assumes "event_hash h (ev_to_dict e) = event_hash h (ev_to_dict f)"
    and "ev_event_hash e = ev_event_hash f" and "wf_fields e" and "wf_fields f"
  shows "(event_line e = event_line f \<and> ev_prev_event_hash e = ev_prev_event_hash f \<and>
    ev_event_seq e = ev_event_seq f) \<or> collision h"
proof -
  have "sort_members (JObj (hashed e)) = sort_members (JObj (hashed f)) \<or> collision h"
    using digest_json_eq[OF _ hashed_wf[OF assms(3)] hashed_wf[OF assms(4)]] assms(1)
    by (simp only: event_hash_def hashed_def)
  moreover have ?thesis if s: "sort_obj (hashed e) = sort_obj (hashed f)"
  proof -
    have d: "distinct (map fst (hashed e))" "distinct (map fst (hashed f))" "distinct (map fst (ev_to_dict e))"
      using hashed_wf assms(3,4) by (auto simp: wf_fields_def)
    have p: "map_of (hashed g) ''prev_event_hash'' = Some (opt_str (ev_prev_event_hash g))"
      "map_of (hashed g) ''event_seq'' = Some (JInt (ev_event_seq g))" for g
      by (simp_all add: hashed_def ev_to_dict_def)
    have "opt_str (ev_prev_event_hash e) = opt_str (ev_prev_event_hash f)" "ev_event_seq e = ev_event_seq f"
      using sort_obj_get[OF s d(1,2), of "''prev_event_hash''"] sort_obj_get[OF s d(1,2), of "''event_seq''"]
      by (simp_all add: p)
    moreover have "ev_prev_event_hash e = ev_prev_event_hash f"
      using calculation(1) by (cases "ev_prev_event_hash e"; cases "ev_prev_event_hash f") auto
    moreover have "image_mset (\<lambda>(k, v). (k, sort_members v)) (mset (hashed e))
        = image_mset (\<lambda>(k, v). (k, sort_members v)) (mset (hashed f))"
      using s by (simp only: flip: mset_sort_obj)
    then have "mset (sort_obj (ev_to_dict e)) = mset (sort_obj (ev_to_dict f))"
      by (simp only: mset_sort_obj hashed_mset assms(2) image_mset_add_mset)
    then have "sort_obj (ev_to_dict e) = sort_obj (ev_to_dict f)" using d(3) by (rule sort_obj_mset)
    then have "event_line e = event_line f"
      by (simp only: event_line_def canonical_json_def sort_members_obj)
    ultimately show ?thesis by simp
  qed
  ultimately show ?thesis by (auto simp: sort_members_obj simp del: sort_members.simps)
qed

lemma chain_last:
  "chain_holds h n p (es @ [e]) \<Longrightarrow> chain_holds h n p es \<and> event_hash h (ev_to_dict e) = ev_event_hash e \<and>
     ev_prev_event_hash e = (if es = [] then p else last_hash es)"
  by (auto simp: chain_holds_append split: if_splits)

lemma verify_events_chain: "verify_events_from h n p ids hs es = Inr () \<Longrightarrow> chain_holds h n p es"
  by (induction es arbitrary: n p ids hs) (auto split: if_splits)

lemma chain_determined:
  assumes "chain_holds h 1 None es" "chain_holds h 1 None fs" "last_hash es = last_hash fs"
    and "\<forall>e \<in> set es. wf_fields e" "\<forall>f \<in> set fs. wf_fields f"
  shows "map event_line es = map event_line fs \<or> collision h"
  using assms
proof (induction es arbitrary: fs rule: rev_induct)
  case Nil
  then show ?case by (simp add: last_hash_def split: if_splits)
next
  case (snoc e es)
  obtain fs' f where fs: "fs = fs' @ [f]"
    using snoc.prems(3) by (cases fs rule: rev_cases) (auto simp: last_hash_def)
  have e: "ev_event_hash e = ev_event_hash f" using snoc.prems(3) by (simp add: last_hash_def fs)
  note ce = chain_last[OF snoc.prems(1)] and cf = chain_last[OF snoc.prems(2)[unfolded fs]]
  have w: "wf_fields e" "wf_fields f" using snoc.prems(4,5) fs by auto
  have l: "(if gs = [] then None else last_hash gs) = last_hash gs" for gs by (simp add: last_hash_def)
  show ?case
  proof (cases "collision h")
    case False
    have "event_hash h (ev_to_dict e) = event_hash h (ev_to_dict f)" using ce cf e by metis
    from event_hash_eq[OF this e w] False
    have q: "event_line e = event_line f" "ev_prev_event_hash e = ev_prev_event_hash f" by blast+
    then have "last_hash es = last_hash fs'" using ce cf by (simp only: l)
    with snoc.IH[of fs'] ce cf snoc.prems(4,5) fs False have "map event_line es = map event_line fs'" by auto
    then show ?thesis using q fs by simp
  qed simp
qed


section \<open>A ledger at work\<close>

definition sample_draft :: "string \<Rightarrow> event_draft" where
  "sample_draft key =
     \<lparr>dr_event_type = Known TASK_REGISTERED, dr_object_type = ''TaskSpec'', dr_object_id = ''task_1'',
      dr_payload = [(''description'', JStr ''sum'')], dr_idempotency_key = key, dr_task_id = Some ''task_1'',
      dr_actor = None, dr_correlation_id = None, dr_causation_event_id = None,
      dr_occurred_at = Some ''2026-06-05T00:00:00Z''\<rparr>"

definition empty_ledger :: event_ledger where
  "empty_ledger = \<lparr>el_file = [], el_events = [], el_by_key = [], el_last_hash = None\<rparr>"

lemma empty_reach: "ledger_reach h empty_ledger"
  by (rule ledger_new) (simp add: open_empty empty_ledger_def)

lemma sample_draft_wf: "wf_draft (sample_draft k)"
  by (simp add: wf_draft_def sample_draft_def wf_obj_def)

lemma sample_append: "\<exists>L e. append_event h now empty_ledger (sample_draft k) = Inr (L, e) \<and>
    ledger_reach h L \<and> el_events L = [e]"
proof -
  obtain L e where a: "append_event h now empty_ledger (sample_draft k) = Inr (L, e)" "el_events L = [e]"
    by (simp add: append_event_def empty_ledger_def Let_def)
  then show ?thesis using ledger_append[OF empty_reach sample_draft_wf] by blast
qed

lemma append_idempotent_witness:
  "\<exists>L e. append_event id ''now'' empty_ledger (sample_draft ''k1'') = Inr (L, e) \<and>
     append_event id ''later'' L (sample_draft ''k1'') = Inr (L, e)"
proof -
  obtain L e where a: "append_event id ''now'' empty_ledger (sample_draft ''k1'') = Inr (L, e)"
    using sample_append by blast
  from append_idempotent[OF empty_reach sample_draft_wf a] a show ?thesis by blast
qed

lemma batch_atomic_witness:
  "\<exists>L es. append_batch id (\<lambda>_. ''now'') empty_ledger [sample_draft ''k1'', sample_draft ''k2''] ''batch_1''
       = Inr (L, es) \<and> length es = 2 \<and>
     append_batch id (\<lambda>_. ''later'') L [sample_draft ''k1'', sample_draft ''k2''] ''batch_1'' = Inr (L, es)"
proof -
  let ?ds = "[sample_draft ''k1'', sample_draft ''k2'']"
  obtain L es where a: "append_batch id (\<lambda>_. ''now'') empty_ledger ?ds ''batch_1'' = Inr (L, es)"
    by (simp add: append_batch_def empty_ledger_def Let_def sample_draft_def keep_some_def)
  have "\<forall>d \<in> set ?ds. wf_draft d" by (simp add: sample_draft_wf)
  from batch_atomic[OF empty_reach this a]
  have "map ev_idempotency_key es = map dr_idempotency_key ?ds"
    "append_batch id (\<lambda>_. ''later'') L ?ds ''batch_1'' = Inr (L, es)" by blast+
  moreover from this(1) have "length es = 2" by (metis length_map length_Cons list.size(3) numeral_2_eq_2)
  ultimately show ?thesis using a by blast
qed

lemma ledger_integrity_witness:
  "\<exists>(L :: event_ledger) e. el_events L = [e] \<and> read_all (el_file L) = Inr [norm_event e] \<and> verify_hash_chain id (el_file L) = Inr True"
proof -
  obtain L e where "ledger_reach id L" "el_events L = [e]" using sample_append by blast
  with ledger_integrity[OF this(1)] show ?thesis by (intro exI[of _ L] exI[of _ e]) simp
qed


end
