(* ===== verification/Core_Registration.thy ===== *)
theory Core_Registration
  imports Artifact_Commit Event_Log
begin

text \<open>
  \<open>core/registration.py\<close>: registering a root task stores the root input and appends three events.
  The registrar's state is the disk of the artifact store together with the ledger. The lemmas
  rest on the interface of the event log: a registration can be repeated without effect.
\<close>

record registration_request =
  rq_task_id :: string
  rq_root_unit_id :: string
  rq_root_artifact_id :: string
  rq_description :: string
  rq_plugin_id :: string
  rq_plugin_version :: string
  rq_split_strategy_id :: string
  rq_split_strategy_params :: jobj
  rq_root_input_bytes :: string
  rq_root_input_media_type :: string
  rq_root_input_schema_id :: string
  rq_root_input_schema_version :: string
  rq_protocol_config :: protocol_config
  rq_required_capabilities :: jobj
  rq_plugin_payload :: jobj
  rq_metadata :: jobj
  rq_created_at :: string
  rq_root_budget :: "string option"
  rq_root_deadline :: "string option"

record registration_result =
  rr_root_input_ref :: artifact_ref
  rr_task_spec :: task_spec
  rr_root_unit :: task_unit
  rr_events :: "ledger_event list"

definition request_args :: "registration_request \<Rightarrow> artifact_args" where
  "request_args q =
     \<lparr>aa_artifact_type = ''root_input'', aa_media_type = rq_root_input_media_type q,
      aa_artifact_schema_id = rq_root_input_schema_id q,
      aa_artifact_schema_version = rq_root_input_schema_version q,
      aa_source = [(''kind'', JStr ''client_input''), (''task_id'', JStr (rq_task_id q))],
      aa_ref_metadata = rq_metadata q, aa_created_at = rq_created_at q\<rparr>"

definition protocol_draft ::
  "event_type \<Rightarrow> string \<Rightarrow> string \<Rightarrow> string \<Rightarrow> string \<Rightarrow> jobj \<Rightarrow> string \<Rightarrow> event_draft" where
  "protocol_draft event_type object_type object_id task_id key payload occurred_at =
     \<lparr>dr_event_type = Known event_type, dr_object_type = object_type, dr_object_id = object_id,
      dr_payload = payload, dr_idempotency_key = key, dr_task_id = Some task_id,
      dr_actor = Some [(''kind'', JStr ''protocol'')], dr_correlation_id = None,
      dr_causation_event_id = None, dr_occurred_at = Some occurred_at\<rparr>"

definition artifact_draft :: "registration_request \<Rightarrow> artifact_ref \<Rightarrow> event_draft" where
  "artifact_draft q ref =
     protocol_draft ARTIFACT_STORED ''ArtifactRef'' (ar_artifact_id ref) (rq_task_id q)
       (''artifact:'' @ ar_content_hash ref) [(''artifact_ref'', JObj (ar_to_dict ref))] (rq_created_at q)"

definition request_task_spec :: "registration_request \<Rightarrow> artifact_ref \<Rightarrow> task_spec" where
  "request_task_spec q ref =
     \<lparr>ts_task_id = rq_task_id q, ts_description = rq_description q, ts_plugin_id = rq_plugin_id q,
      ts_plugin_version = rq_plugin_version q, ts_split_strategy_id = rq_split_strategy_id q,
      ts_split_strategy_params = rq_split_strategy_params q, ts_root_input_ref = ref,
      ts_protocol_config = rq_protocol_config q, ts_metadata = rq_metadata q, ts_created_at = rq_created_at q,
      ts_root_budget = rq_root_budget q, ts_root_deadline = rq_root_deadline q,
      ts_schema_version = ''TaskSpec.v1''\<rparr>"

definition task_draft :: "registration_request \<Rightarrow> task_spec \<Rightarrow> event_draft" where
  "task_draft q spec =
     protocol_draft TASK_REGISTERED ''TaskSpec'' (ts_task_id spec) (ts_task_id spec)
       (''register_task:'' @ ts_task_id spec) [(''task_spec'', JObj (ts_to_dict spec))] (rq_created_at q)"

definition unit_draft :: "registration_request \<Rightarrow> task_unit \<Rightarrow> event_draft" where
  "unit_draft q unit =
     protocol_draft TASK_UNIT_CREATED ''TaskUnit'' (tu_unit_id unit) (tu_task_id unit)
       (''task_unit_created:'' @ tu_unit_id unit) [(''task_unit'', JObj (tu_to_dict unit))] (rq_created_at q)"

definition register_root_task ::
  "hash \<Rightarrow> artifact_store \<Rightarrow> string \<Rightarrow> string \<Rightarrow> fs \<times> event_ledger \<Rightarrow> registration_request
    \<Rightarrow> ((fs \<times> event_ledger) \<times> registration_result) res" where
  "register_root_task h st nonce now = (\<lambda>(fs, L) q.
     bindE (save_bytes h st fs (rq_root_input_bytes q) (rq_root_artifact_id q) (request_args q) nonce) (\<lambda>(fs1, ref).
     bindE (append_event h now L (artifact_draft q ref)) (\<lambda>(L1, artifact_event).
     let spec = request_task_spec q ref in
     bindE (append_event h now L1 (task_draft q spec)) (\<lambda>(L2, task_event).
     bindE (create_root spec (rq_root_unit_id q) (rq_required_capabilities q) (rq_plugin_payload q)
              (rq_created_at q)) (\<lambda>unit.
     bindE (append_event h now L2 (unit_draft q unit)) (\<lambda>(L3, unit_event).
     Inr ((fs1, L3), \<lparr>rr_root_input_ref = ref, rr_task_spec = spec, rr_root_unit = unit,
       rr_events = [artifact_event, task_event, unit_event]\<rparr>)))))))"

section \<open>Requests that are Python values\<close>

definition wf_request :: "registration_request \<Rightarrow> bool" where
  "wf_request q \<longleftrightarrow> wf_obj (rq_metadata q) \<and> wf_obj (rq_split_strategy_params q) \<and>
     wf_obj (rq_required_capabilities q) \<and> wf_obj (rq_plugin_payload q) \<and>
     wf_obj (pc_to_dict (rq_protocol_config q)) \<and>
     (\<forall>b. rq_root_budget q = Some b \<longrightarrow> float_text b \<and> float_token b)"

lemma wf_obj_simps:
  "wf_obj d \<longleftrightarrow> distinct (map fst d) \<and> (\<forall>p \<in> set d. wf_json (snd p) \<and> floats_ok (snd p))"
  by (auto simp: wf_obj_def)

lemma wf_obj_in: "wf_obj d \<Longrightarrow> wf_json (JObj d) \<and> floats_ok (JObj d)"
  by (simp add: wf_obj_def)

definition root_unit :: "registration_request \<Rightarrow> artifact_ref \<Rightarrow> task_unit" where
  "root_unit q ref =
     \<lparr>tu_unit_id = rq_root_unit_id q, tu_task_id = rq_task_id q, tu_parent_unit_id = None, tu_depth = 0,
      tu_unit_type = ''root'', tu_state = TS_READY, tu_input_refs = [(''root_input'', ref)],
      tu_canonical_output_refs = [], tu_required_capabilities = rq_required_capabilities q,
      tu_weight = ''1.0'', tu_budget_limit = rq_root_budget q, tu_deadline = rq_root_deadline q,
      tu_plugin_payload = rq_plugin_payload q, tu_metadata = rq_metadata q, tu_created_at = rq_created_at q,
      tu_updated_at = rq_created_at q, tu_last_attempt_ordinal = -1, tu_schema_version = ''TaskUnit.v2''\<rparr>"

lemma create_root_eq:
  "create_root (request_task_spec q ref) (rq_root_unit_id q) (rq_required_capabilities q) (rq_plugin_payload q)
     (rq_created_at q) = Inr (root_unit q ref)"
  by (simp add: create_root_def mk_task_unit_def request_task_spec_def root_unit_def)

definition registration_drafts :: "registration_request \<Rightarrow> artifact_ref \<Rightarrow> event_draft list" where
  "registration_drafts q ref =
     [artifact_draft q ref, task_draft q (request_task_spec q ref), unit_draft q (root_unit q ref)]"

text \<open>A registration is a save followed by three appends.\<close>

lemma register_eq:
  "register_root_task h st nonce now (fs, L) q =
     bindE (save_bytes h st fs (rq_root_input_bytes q) (rq_root_artifact_id q) (request_args q) nonce) (\<lambda>(fs1, ref).
     bindE (append_all (append_event h now) L (registration_drafts q ref)) (\<lambda>(L3, es).
     Inr ((fs1, L3), \<lparr>rr_root_input_ref = ref, rr_task_spec = request_task_spec q ref, rr_root_unit = root_unit q ref,
       rr_events = es\<rparr>)))"
  by (auto simp: register_root_task_def registration_drafts_def create_root_eq Let_def bindE_def
      split: sum.splits prod.splits)

lemma wf_ref_dict: "wf_ref r \<Longrightarrow> wf_json (JObj (ar_to_dict r)) \<and> floats_ok (JObj (ar_to_dict r))"
  by (auto simp: wf_ref_def wf_obj_def ar_to_dict_def)

lemma wf_weight: "float_text ''1.0''" "float_token ''1.0''"
  by (simp_all add: float_text_def float_chars_def float_token_def number_lit_def drop_sign_def drop_digits_def
      starts_with_any_def is_digit_def Let_def)

lemma wf_opt_float: "(\<forall>b. x = Some b \<longrightarrow> float_text b \<and> float_token b) \<Longrightarrow>
    wf_json (opt_float x) \<and> floats_ok (opt_float x)"
  by (cases x) simp_all

lemma registration_drafts_wf:
  assumes "wf_request q" "wf_ref ref"
  shows "\<forall>d \<in> set (registration_drafts q ref). wf_draft d"
proof -
  have o: "wf_json (JObj d) \<and> floats_ok (JObj d)" if "wf_obj d" for d using that by (rule wf_obj_in)
  note w = wf_opt_float[of "rq_root_budget q"] wf_ref_dict[OF assms(2)] wf_weight
    o[of "rq_metadata q"] o[of "rq_split_strategy_params q"] o[of "rq_required_capabilities q"]
    o[of "rq_plugin_payload q"] o[of "pc_to_dict (rq_protocol_config q)"]
  have "wf_json (JObj (ts_to_dict (request_task_spec q ref))) \<and> floats_ok (JObj (ts_to_dict (request_task_spec q ref)))"
    using assms w by (simp add: ts_to_dict_def request_task_spec_def wf_request_def)
  moreover have "wf_json (JObj (tu_to_dict (root_unit q ref))) \<and> floats_ok (JObj (tu_to_dict (root_unit q ref)))"
    using assms w by (simp add: tu_to_dict_def root_unit_def wf_request_def refs_json_def)
  ultimately show ?thesis
    using w by (simp add: registration_drafts_def artifact_draft_def task_draft_def unit_draft_def protocol_draft_def
        wf_draft_def wf_obj_def)
qed

lemma wf_saved_ref: "wf_request q \<Longrightarrow> wf_ref (saved_ref h st data i (request_args q))"
  by (simp add: wf_ref_def saved_ref_def request_args_def wf_request_def wf_obj_def)

text \<open>
  C25 registration_idempotent: a successful registration appends at most its three events, ends in
  a reachable ledger, and leaves the root unit Ready at depth 0; registering the same request
  again, with fresh temporary names and at any later time, succeeds, changes neither the ledger
  nor any visible file, and returns the same result.
\<close>

theorem registration_idempotent:
  assumes "plain_id h st (rq_root_artifact_id q)" and "wf_request q" and "ledger_reach h L"
    and "register_root_task h st nonce now (fs, L) q = Inr ((fs', L'), r)"
    and "fresh_temps h st fs' (rq_root_artifact_id q) nonce'"
  shows "(\<exists>new. el_events L' = el_events L @ new) \<and> set (rr_events r) \<subseteq> set (el_events L') \<and>
    map ev_idempotency_key (rr_events r) =
      [''artifact:'' @ sha256_digest h (rq_root_input_bytes q), ''register_task:'' @ rq_task_id q,
       ''task_unit_created:'' @ rq_root_unit_id q] \<and>
    tu_state (rr_root_unit r) = TS_READY \<and> tu_depth (rr_root_unit r) = 0 \<and>
    (\<exists>fs''. register_root_task h st nonce' later (fs', L') q = Inr ((fs'', L'), r) \<and> visible fs'' = visible fs')"
proof -
  let ?data = "rq_root_input_bytes q" and ?i = "rq_root_artifact_id q" and ?args = "request_args q"
  obtain ref es where s: "save_bytes h st fs ?data ?i ?args nonce = Inr (fs', ref)"
    and a: "append_all (append_event h now) L (registration_drafts q ref) = Inr (L', es)"
    and r: "r = \<lparr>rr_root_input_ref = ref, rr_task_spec = request_task_spec q ref, rr_root_unit = root_unit q ref,
       rr_events = es\<rparr>"
    using assms(4) by (auto simp: register_eq res_simps)
  have ref: "ref = saved_ref h st ?data ?i ?args" by (rule save_bytes_refines(1)[OF assms(1) s])
  have wf: "\<forall>d \<in> set (registration_drafts q ref). wf_draft d"
    unfolding ref by (rule registration_drafts_wf[OF assms(2) wf_saved_ref[OF assms(2)]])
  have ok: "ledger_ok h L" by (rule ledger_reach_ok[OF assms(3)])
  note all = ledger.append_all_ok[OF a ok wf]
  have keys: "map ev_idempotency_key es = map dr_idempotency_key (registration_drafts q ref)"
    using all by (auto simp: list_all2_conv_all_nth intro!: nth_equalityI)
  have spec: "save_spec h st (visible fs) ?data ?i ?args = Some (visible fs')"
    by (rule save_bytes_refines(2)[OF assms(1) s])
  have again: "save_spec h st (visible fs') ?data ?i ?args = Some (visible fs')"
    by (rule save_spec_again[OF assms(1) spec])
  then obtain fs'' where s2: "save_bytes h st fs' ?data ?i ?args nonce' = Inr (fs'', ref)"
    using save_bytes_total[OF assms(1) _ assms(5)] ref by fastforce
  have "visible fs'' = visible fs'" using save_bytes_refines(2)[OF assms(1) s2] again by simp
  moreover have "append_all (append_event h later) L' (registration_drafts q ref) = Inr (L', es)"
    using all by (intro ledger.append_all_known) auto
  then have "register_root_task h st nonce' later (fs', L') q = Inr ((fs'', L'), r)"
    using s2 by (simp add: register_eq r)
  ultimately show ?thesis
    using all keys by (auto simp: r root_unit_def registration_drafts_def artifact_draft_def task_draft_def
        unit_draft_def protocol_draft_def request_task_spec_def ref saved_ref_def)
qed

text \<open>
  The artifact event is keyed by the content of the root input alone, so
  once a task is registered no task with another id and the same input bytes can be registered
  in that ledger.
\<close>

theorem same_input_conflict:
  assumes "plain_id h st (rq_root_artifact_id q)" and "wf_request q" and "ledger_reach h L"
    and "register_root_task h st nonce now (fs, L) q = Inr ((fs', L'), r)"
    and "plain_id h st (rq_root_artifact_id q')"
    and "rq_root_input_bytes q' = rq_root_input_bytes q" and "rq_task_id q' \<noteq> rq_task_id q"
  shows "\<not> is_ok (register_root_task h st nonce' later (fs', L') q')"
proof
  assume "is_ok (register_root_task h st nonce' later (fs', L') q')"
  then obtain fs2 ref' L2 e' where
    s': "save_bytes h st fs' (rq_root_input_bytes q') (rq_root_artifact_id q') (request_args q') nonce' = Inr (fs2, ref')"
    and a': "append_event h later L' (artifact_draft q' ref') = Inr (L2, e')"
    by (auto simp: register_eq registration_drafts_def is_ok_iff res_simps)
  obtain ref es where s: "save_bytes h st fs (rq_root_input_bytes q) (rq_root_artifact_id q) (request_args q) nonce
      = Inr (fs', ref)"
    and a: "append_all (append_event h now) L (registration_drafts q ref) = Inr (L', es)"
    using assms(4) by (auto simp: register_eq res_simps)
  have ref: "ref = saved_ref h st (rq_root_input_bytes q) (rq_root_artifact_id q) (request_args q)"
    "ref' = saved_ref h st (rq_root_input_bytes q') (rq_root_artifact_id q') (request_args q')"
    using save_bytes_refines(1) assms(1,5) s s' by blast+
  have wf: "\<forall>d \<in> set (registration_drafts q ref). wf_draft d"
    unfolding ref by (rule registration_drafts_wf[OF assms(2) wf_saved_ref[OF assms(2)]])
  note all = ledger.append_all_ok[OF a ledger_reach_ok[OF assms(3)] wf]
  then obtain e where e: "e \<in> set (el_events L')" "stands_for_draft e (artifact_draft q ref)"
    "ev_idempotency_key e = dr_idempotency_key (artifact_draft q ref)"
    by (auto simp: registration_drafts_def list_all2_Cons2)
  have "ev_idempotency_key e = dr_idempotency_key (artifact_draft q' ref')"
    using e(3) assms(6) by (simp add: artifact_draft_def protocol_draft_def ref saved_ref_def)
  moreover have "\<not> stands_for_draft e (artifact_draft q' ref')"
    using e(2) assms(7) by (simp add: stands_for_draft_def draft_signature_def idempotency_signature_def
        artifact_draft_def protocol_draft_def)
  ultimately have "\<not> is_ok (append_event h later L' (artifact_draft q' ref'))"
    using ledger.app_conflict[OF conjunct1[OF all] e(1)] by blast
  then show False using a' by simp
qed

section \<open>A registration at work\<close>

definition sample_request :: "string \<Rightarrow> registration_request" where
  "sample_request task_id =
     \<lparr>rq_task_id = task_id, rq_root_unit_id = ''u'' @ task_id, rq_root_artifact_id = ''a1'', rq_description = ''sum'',
      rq_plugin_id = ''toy'', rq_plugin_version = ''1'', rq_split_strategy_id = ''s'',
      rq_split_strategy_params = [], rq_root_input_bytes = ''hello'', rq_root_input_media_type = ''text/plain'',
      rq_root_input_schema_id = ''s'', rq_root_input_schema_version = ''v1'',
      rq_protocol_config = (pc_default ''config_1'' ''artifacts'' ''events'' None)\<lparr>pc_base_reward_rates := []\<rparr>,
      rq_required_capabilities = [], rq_plugin_payload = [], rq_metadata = [], rq_created_at = ''now'',
      rq_root_budget = None, rq_root_deadline = None\<rparr>"

lemma sample_request_wf: "wf_request (sample_request t)"
  by (simp add: wf_request_def sample_request_def wf_obj_def pc_to_dict_def pc_default_def)

lemma sample_registers:
  "\<exists>fs' L' r. register_root_task id sample_store ''1'' ''now'' (Map.empty, empty_ledger) (sample_request ''t1'')
     = Inr ((fs', L'), r)"
proof -
  let ?q = "sample_request ''t1''"
  have i: "rq_root_artifact_id ?q = ''a1''" "rq_root_input_bytes ?q = ''hello''" by (simp_all add: sample_request_def)
  have "\<exists>fs'. save_bytes id sample_store Map.empty ''hello'' ''a1'' (request_args ?q) ''1''
     = Inr (fs', saved_ref id sample_store ''hello'' ''a1'' (request_args ?q))"
    by (rule save_bytes_total[OF sample_plain save_spec_new[OF sample_plain]])
      (simp_all add: visible_def fresh_temps_def)
  then obtain fs' where s: "save_bytes id sample_store Map.empty ''hello'' ''a1'' (request_args ?q) ''1''
     = Inr (fs', saved_ref id sample_store ''hello'' ''a1'' (request_args ?q))" by blast
  let ?ref = "saved_ref id sample_store ''hello'' ''a1'' (request_args ?q)"
  have "is_ok (append_all (append_event id ''now'') empty_ledger (registration_drafts ?q ?ref))"
    by (simp add: registration_drafts_def append_event_def empty_ledger_def Let_def artifact_draft_def
        task_draft_def unit_draft_def protocol_draft_def)
  then obtain L' es where "append_all (append_event id ''now'') empty_ledger (registration_drafts ?q ?ref) = Inr (L', es)"
    by (auto simp: is_ok_iff)
  then show ?thesis using s by (simp add: register_eq i)
qed

lemma registration_idempotent_witness:
  "\<exists>fs' L' r fs''. register_root_task id sample_store ''1'' ''now'' (Map.empty, empty_ledger) (sample_request ''t1'')
       = Inr ((fs', L'), r) \<and>
     register_root_task id sample_store ''2'' ''later'' (fs', L') (sample_request ''t1'') = Inr ((fs'', L'), r)"
proof -
  let ?q = "sample_request ''t1''"
  obtain fs' L' r where g: "register_root_task id sample_store ''1'' ''now'' (Map.empty, empty_ledger) ?q = Inr ((fs', L'), r)"
    using sample_registers by blast
  have p: "plain_id id sample_store (rq_root_artifact_id ?q)" using sample_plain by (simp add: sample_request_def)
  obtain ref where s: "save_bytes id sample_store Map.empty (rq_root_input_bytes ?q) (rq_root_artifact_id ?q)
      (request_args ?q) ''1'' = Inr (fs', ref)"
    using g by (auto simp: register_eq res_simps)
  have "no_temps fs'" by (rule save_no_temps[OF p s]) (simp add: no_temps_def)
  then have "fresh_temps id sample_store fs' (rq_root_artifact_id ?q) ''2''" by (rule fresh_no_temps[OF p])
  from registration_idempotent[OF p sample_request_wf empty_reach g this] g show ?thesis by blast
qed

lemma same_input_conflict_witness:
  "\<exists>fs' L' r. register_root_task id sample_store ''1'' ''now'' (Map.empty, empty_ledger) (sample_request ''t1'')
       = Inr ((fs', L'), r) \<and>
     \<not> is_ok (register_root_task id sample_store ''2'' ''now'' (fs', L') (sample_request ''t2''))"
proof -
  obtain fs' L' r where g: "register_root_task id sample_store ''1'' ''now'' (Map.empty, empty_ledger)
      (sample_request ''t1'') = Inr ((fs', L'), r)"
    using sample_registers by blast
  have p: "plain_id id sample_store (rq_root_artifact_id (sample_request t))" for t
    using sample_plain by (simp add: sample_request_def)
  from same_input_conflict[OF p sample_request_wf empty_reach g p, of "''t2''"] g show ?thesis
    by (auto simp: sample_request_def)
qed

end
