(* ===== verification/Core_Contribution.thy ===== *)
theory Core_Contribution
  imports Event_Log
begin

text \<open>
  \<open>core/contribution.py\<close>: contribution records derived from canonical event batches, their
  lifecycle, and the deterministic settlement of an integer budget over the eligible ones. The
  lemmas show that a settlement spends the budget exactly and fairly and does not depend on the
  order of its input. Field prefixes: \<open>co_\<close> ContributionRecord, \<open>se_\<close> SettlementEntry, \<open>sr_\<close>
  SettlementRecord, \<open>sp_\<close> SubtreePruneRecord, \<open>bt_\<close> the batch objects of the projection.
\<close>

section \<open>Records\<close>

datatype contribution_state = CT_PENDING | CT_ELIGIBLE | CT_INVALIDATED | CT_SETTLED

fun contribution_state_value :: "contribution_state \<Rightarrow> string" where
  "contribution_state_value CT_PENDING = ''Pending''"
| "contribution_state_value CT_ELIGIBLE = ''Eligible''"
| "contribution_state_value CT_INVALIDATED = ''Invalidated''"
| "contribution_state_value CT_SETTLED = ''Settled''"

definition parse_contribution_state :: "string \<Rightarrow> contribution_state res" where
  "parse_contribution_state s =
     (if s = ''Pending'' then Inr CT_PENDING
      else if s = ''Eligible'' then Inr CT_ELIGIBLE
      else if s = ''Invalidated'' then Inr CT_INVALIDATED
      else if s = ''Settled'' then Inr CT_SETTLED
      else Inl (ValueError (s @ '' is not a valid ContributionState'')))"

definition contribution_kinds :: "string list" where
  "contribution_kinds = [''complete_canonical'', ''expand_canonical'', ''merge_canonical'']"

definition check_schema :: "string \<Rightarrow> string \<Rightarrow> unit res" where
  "check_schema actual expected =
     raise_if (actual \<noteq> expected)
       (ValueError (''invalid schema_version: expected '' @ expected @ '', got '' @ actual))"

definition require_non_empty :: "(string \<times> string) list \<Rightarrow> unit res" where
  "require_non_empty pairs =
     checks (map (\<lambda>(name, v). raise_if (v = []) (ValueError (name @ '' is required''))) pairs)"

definition require_positive :: "(string \<times> int) list \<Rightarrow> unit res" where
  "require_positive pairs =
     checks (map (\<lambda>(name, v). raise_if (v \<le> 0) (ValueError (name @ '' must be positive''))) pairs)"

record contribution_record =
  co_contribution_id :: string
  co_task_id :: string
  co_unit_id :: string
  co_kind :: string
  co_state :: contribution_state
  co_source_attempt_id :: string
  co_source_client_id :: string
  co_canonical_selection_id :: string
  co_canonical_event_seq :: int
  co_verification_report_id :: string
  co_verification_event_seq :: int
  co_source_decision_id :: "string option"
  co_merge_record_id :: "string option"
  co_source_batch_id :: string
  co_source_terminal_event_seq :: int
  co_reward_weight :: int
  co_created_at :: string
  co_updated_at :: string
  co_schema_version :: string

definition mk_contribution :: "contribution_record \<Rightarrow> contribution_record res" where
  "mk_contribution c =
     seqE (checks
       [check_schema (co_schema_version c) ''phase5.contribution_record.v1'',
        require_non_empty
          [(''contribution_id'', co_contribution_id c), (''task_id'', co_task_id c), (''unit_id'', co_unit_id c),
           (''kind'', co_kind c), (''source_attempt_id'', co_source_attempt_id c),
           (''source_client_id'', co_source_client_id c),
           (''canonical_selection_id'', co_canonical_selection_id c),
           (''verification_report_id'', co_verification_report_id c),
           (''source_batch_id'', co_source_batch_id c), (''created_at'', co_created_at c),
           (''updated_at'', co_updated_at c)],
        require (co_kind c \<in> set contribution_kinds) (ValueError (''invalid contribution kind: '' @ co_kind c)),
        raise_if ((co_kind c = ''complete_canonical'' \<or> co_kind c = ''expand_canonical'')
            \<and> or_empty (co_source_decision_id c) = [])
          (ValueError (co_kind c @ '' requires source_decision_id'')),
        raise_if (co_kind c = ''merge_canonical'' \<and> or_empty (co_merge_record_id c) = [])
          (ValueError ''merge_canonical requires merge_record_id''),
        require_positive
          [(''canonical_event_seq'', co_canonical_event_seq c),
           (''verification_event_seq'', co_verification_event_seq c),
           (''source_terminal_event_seq'', co_source_terminal_event_seq c)],
        raise_if (co_reward_weight c \<le> 0) (ValueError ''reward_weight must be positive'')])
     (Inr c)"

text \<open>\<open>_dataclass_dict\<close>: the schema version first, then the fields in their order.\<close>

definition co_to_dict :: "contribution_record \<Rightarrow> jobj" where
  "co_to_dict c =
     [(''schema_version'', JStr (co_schema_version c)),
      (''contribution_id'', JStr (co_contribution_id c)),
      (''task_id'', JStr (co_task_id c)),
      (''unit_id'', JStr (co_unit_id c)),
      (''kind'', JStr (co_kind c)),
      (''state'', JStr (contribution_state_value (co_state c))),
      (''source_attempt_id'', JStr (co_source_attempt_id c)),
      (''source_client_id'', JStr (co_source_client_id c)),
      (''canonical_selection_id'', JStr (co_canonical_selection_id c)),
      (''canonical_event_seq'', JInt (co_canonical_event_seq c)),
      (''verification_report_id'', JStr (co_verification_report_id c)),
      (''verification_event_seq'', JInt (co_verification_event_seq c)),
      (''source_decision_id'', opt_str (co_source_decision_id c)),
      (''merge_record_id'', opt_str (co_merge_record_id c)),
      (''source_batch_id'', JStr (co_source_batch_id c)),
      (''source_terminal_event_seq'', JInt (co_source_terminal_event_seq c)),
      (''reward_weight'', JInt (co_reward_weight c)),
      (''created_at'', JStr (co_created_at c)),
      (''updated_at'', JStr (co_updated_at c))]"

text \<open>\<open>ContributionRecord(**recorded)\<close>: every field but the schema version is required, no other key is allowed.\<close>

definition int_item :: "jobj \<Rightarrow> string \<Rightarrow> int res" where
  "int_item d k = bindE (jitem d k) (\<lambda>v. case v of JInt i \<Rightarrow> Inr i | _ \<Rightarrow> Inl (TypeError k))"

definition opt_str_required :: "jobj \<Rightarrow> string \<Rightarrow> string option res" where
  "opt_str_required d k = bindE (jitem d k) (\<lambda>_. opt_str_item d k)"

definition missing_argument :: "'a res \<Rightarrow> 'a res" where
  "missing_argument m = (case m of Inl (KeyError k) \<Rightarrow> Inl (TypeError (''missing argument: '' @ k)) | r \<Rightarrow> r)"

definition contribution_keys :: "string list" where
  "contribution_keys =
     [''schema_version'', ''contribution_id'', ''task_id'', ''unit_id'', ''kind'', ''state'', ''source_attempt_id'',
      ''source_client_id'', ''canonical_selection_id'', ''canonical_event_seq'', ''verification_report_id'',
      ''verification_event_seq'', ''source_decision_id'', ''merge_record_id'', ''source_batch_id'',
      ''source_terminal_event_seq'', ''reward_weight'', ''created_at'', ''updated_at'']"

definition co_from_kwargs :: "jobj \<Rightarrow> contribution_record res" where
  "co_from_kwargs d =
     seqE (require (set (dict_keys d) \<subseteq> set contribution_keys) (TypeError ''unexpected keyword argument''))
     (missing_argument (
     bindE (str_item d ''contribution_id'') (\<lambda>contribution_id.
     bindE (str_item d ''task_id'') (\<lambda>task_id.
     bindE (str_item d ''unit_id'') (\<lambda>unit_id.
     bindE (str_item d ''kind'') (\<lambda>kind.
     bindE (bindE (str_item d ''state'') parse_contribution_state) (\<lambda>state.
     bindE (str_item d ''source_attempt_id'') (\<lambda>source_attempt_id.
     bindE (str_item d ''source_client_id'') (\<lambda>source_client_id.
     bindE (str_item d ''canonical_selection_id'') (\<lambda>canonical_selection_id.
     bindE (int_item d ''canonical_event_seq'') (\<lambda>canonical_event_seq.
     bindE (str_item d ''verification_report_id'') (\<lambda>verification_report_id.
     bindE (int_item d ''verification_event_seq'') (\<lambda>verification_event_seq.
     bindE (opt_str_required d ''source_decision_id'') (\<lambda>source_decision_id.
     bindE (opt_str_required d ''merge_record_id'') (\<lambda>merge_record_id.
     bindE (str_item d ''source_batch_id'') (\<lambda>source_batch_id.
     bindE (int_item d ''source_terminal_event_seq'') (\<lambda>source_terminal_event_seq.
     bindE (int_item d ''reward_weight'') (\<lambda>reward_weight.
     bindE (str_item d ''created_at'') (\<lambda>created_at.
     bindE (str_item d ''updated_at'') (\<lambda>updated_at.
     bindE (str_default d ''schema_version'' ''phase5.contribution_record.v1'') (\<lambda>schema_version.
     mk_contribution
       \<lparr>co_contribution_id = contribution_id, co_task_id = task_id, co_unit_id = unit_id, co_kind = kind,
        co_state = state, co_source_attempt_id = source_attempt_id, co_source_client_id = source_client_id,
        co_canonical_selection_id = canonical_selection_id, co_canonical_event_seq = canonical_event_seq,
        co_verification_report_id = verification_report_id, co_verification_event_seq = verification_event_seq,
        co_source_decision_id = source_decision_id, co_merge_record_id = merge_record_id,
        co_source_batch_id = source_batch_id, co_source_terminal_event_seq = source_terminal_event_seq,
        co_reward_weight = reward_weight, co_created_at = created_at, co_updated_at = updated_at,
        co_schema_version = schema_version\<rparr>)))))))))))))))))))))"

record settlement_entry =
  se_settlement_entry_id :: string
  se_contribution_id :: string
  se_task_id :: string
  se_unit_id :: string
  se_kind :: string
  se_source_client_id :: string
  se_reward_weight :: int
  se_reward_units :: int
  se_rounding_remainder_rank :: int
  se_reason :: string
  se_schema_version :: string

definition mk_settlement_entry :: "settlement_entry \<Rightarrow> settlement_entry res" where
  "mk_settlement_entry e =
     seqE (checks
       [check_schema (se_schema_version e) ''phase5.settlement_entry.v1'',
        require_non_empty
          [(''settlement_entry_id'', se_settlement_entry_id e), (''contribution_id'', se_contribution_id e),
           (''task_id'', se_task_id e), (''unit_id'', se_unit_id e), (''kind'', se_kind e),
           (''source_client_id'', se_source_client_id e), (''reason'', se_reason e)],
        require (se_kind e \<in> set contribution_kinds) (ValueError (''invalid contribution kind: '' @ se_kind e)),
        raise_if (se_reward_weight e \<le> 0) (ValueError ''reward_weight must be positive''),
        raise_if (se_reward_units e < 0) (ValueError ''reward_units must be non-negative''),
        raise_if (se_rounding_remainder_rank e < 0) (ValueError ''rounding_remainder_rank must be non-negative'')])
     (Inr e)"

definition se_to_dict :: "settlement_entry \<Rightarrow> jobj" where
  "se_to_dict e =
     [(''schema_version'', JStr (se_schema_version e)),
      (''settlement_entry_id'', JStr (se_settlement_entry_id e)),
      (''contribution_id'', JStr (se_contribution_id e)),
      (''task_id'', JStr (se_task_id e)),
      (''unit_id'', JStr (se_unit_id e)),
      (''kind'', JStr (se_kind e)),
      (''source_client_id'', JStr (se_source_client_id e)),
      (''reward_weight'', JInt (se_reward_weight e)),
      (''reward_units'', JInt (se_reward_units e)),
      (''rounding_remainder_rank'', JInt (se_rounding_remainder_rank e)),
      (''reason'', JStr (se_reason e))]"

record settlement_record =
  sr_settlement_record_id :: string
  sr_task_id :: string
  sr_root_unit_id :: string
  sr_root_completion_event_seq :: int
  sr_settlement_policy_id :: string
  sr_settlement_policy_version :: string
  sr_root_budget :: int
  sr_scale :: string
  sr_total_reward :: int
  sr_entry_count :: int
  sr_settlement_entries_digest :: string
  sr_settlement_entries_ref :: json
  sr_settlement_summary :: json
  sr_created_at :: string
  sr_schema_version :: string

definition mk_settlement_record :: "settlement_record \<Rightarrow> settlement_record res" where
  "mk_settlement_record r =
     seqE (checks
       [check_schema (sr_schema_version r) ''phase5.settlement_record.v1'',
        require_non_empty
          [(''settlement_record_id'', sr_settlement_record_id r), (''task_id'', sr_task_id r),
           (''root_unit_id'', sr_root_unit_id r), (''settlement_policy_id'', sr_settlement_policy_id r),
           (''settlement_policy_version'', sr_settlement_policy_version r), (''scale'', sr_scale r),
           (''settlement_entries_digest'', sr_settlement_entries_digest r), (''created_at'', sr_created_at r)],
        raise_if (sr_root_completion_event_seq r \<le> 0) (ValueError ''root_completion_event_seq must be positive''),
        raise_if (sr_root_budget r < 0) (ValueError ''root_budget must be non-negative''),
        raise_if (sr_total_reward r \<noteq> sr_root_budget r) (ValueError ''total_reward must equal root_budget''),
        raise_if (sr_entry_count r \<le> 0) (ValueError ''entry_count must be positive''),
        require (is_jobj (sr_settlement_entries_ref r)) (ValueError ''settlement_entries_ref must be an object''),
        require (is_jobj (sr_settlement_summary r)) (ValueError ''settlement_summary must be an object'')])
     (Inr r)"

record subtree_prune_record =
  sp_subtree_prune_id :: string
  sp_task_id :: string
  sp_parent_unit_id :: string
  sp_parent_completed_event_seq :: int
  sp_pruning_policy_id :: string
  sp_pruning_policy_version :: string
  sp_pruning_policy_plugin_id :: string
  sp_pruning_policy_descriptor_digest :: string
  sp_policy_source_type :: string
  sp_policy_source_id :: string
  sp_policy_source_event_seq :: int
  sp_cancelled_unit_count :: int
  sp_cancelled_unit_ids_digest :: string
  sp_preserved_completed_unit_count :: int
  sp_reason :: string
  sp_created_at :: string
  sp_schema_version :: string

definition mk_subtree_prune_record :: "subtree_prune_record \<Rightarrow> subtree_prune_record res" where
  "mk_subtree_prune_record r =
     seqE (checks
       [check_schema (sp_schema_version r) ''phase5.subtree_prune_record.v1'',
        require_non_empty
          [(''subtree_prune_id'', sp_subtree_prune_id r), (''task_id'', sp_task_id r),
           (''parent_unit_id'', sp_parent_unit_id r), (''pruning_policy_id'', sp_pruning_policy_id r),
           (''pruning_policy_version'', sp_pruning_policy_version r),
           (''pruning_policy_plugin_id'', sp_pruning_policy_plugin_id r),
           (''pruning_policy_descriptor_digest'', sp_pruning_policy_descriptor_digest r),
           (''policy_source_type'', sp_policy_source_type r), (''policy_source_id'', sp_policy_source_id r),
           (''cancelled_unit_ids_digest'', sp_cancelled_unit_ids_digest r), (''reason'', sp_reason r),
           (''created_at'', sp_created_at r)],
        require (sp_policy_source_type r \<in> {''merge_policy'', ''merge_plan''}) (ValueError ''invalid policy_source_type''),
        require_positive
          [(''parent_completed_event_seq'', sp_parent_completed_event_seq r),
           (''policy_source_event_seq'', sp_policy_source_event_seq r)],
        raise_if (sp_cancelled_unit_count r < 0) (ValueError ''cancelled_unit_count must be non-negative''),
        raise_if (sp_preserved_completed_unit_count r < 0)
          (ValueError ''preserved_completed_unit_count must be non-negative'')])
     (Inr r)"

section \<open>Lifecycle\<close>

definition contribution_transitions :: "(contribution_state \<times> contribution_state) list" where
  "contribution_transitions =
     [(CT_PENDING, CT_ELIGIBLE), (CT_PENDING, CT_INVALIDATED), (CT_ELIGIBLE, CT_INVALIDATED),
      (CT_ELIGIBLE, CT_SETTLED)]"

definition transition_contribution ::
  "contribution_record \<Rightarrow> contribution_state \<Rightarrow> string \<Rightarrow> string \<Rightarrow> string option \<Rightarrow> contribution_record res" where
  "transition_contribution c target changed_at reason source_batch_kind =
     (if co_state c = CT_SETTLED then Inl (ValueError ''Settled contribution cannot transition again'')
      else if (co_state c, target) \<notin> set contribution_transitions
      then Inl (ValueError (''illegal Contribution transition: '' @ contribution_state_value (co_state c) @ '' -> ''
             @ contribution_state_value target))
      else if target = CT_SETTLED \<and> source_batch_kind \<noteq> Some ''settlement_batch'' \<and> reason \<noteq> ''settlement_batch''
      then Inl (ValueError ''Eligible -> Settled requires settlement_batch'')
      else mk_contribution (c\<lparr>co_state := target, co_updated_at := changed_at\<rparr>))"

section \<open>Settlement\<close>

fun entries_from ::
  "string \<Rightarrow> int \<Rightarrow> nat \<Rightarrow> (contribution_record \<times> int) list \<Rightarrow> settlement_entry list res" where
  "entries_from record_id remainder index [] = Inr []"
| "entries_from record_id remainder index ((c, base) # rest) =
     bindE (mk_settlement_entry
       \<lparr>se_settlement_entry_id = ''settlement_entry:'' @ record_id @ '':'' @ co_contribution_id c,
        se_contribution_id = co_contribution_id c, se_task_id = co_task_id c, se_unit_id = co_unit_id c,
        se_kind = co_kind c, se_source_client_id = co_source_client_id c,
        se_reward_weight = co_reward_weight c,
        se_reward_units = base + (if int index < remainder then 1 else 0),
        se_rounding_remainder_rank = int index,
        se_reason = ''eligible_contribution_at_root_completion'',
        se_schema_version = ''phase5.settlement_entry.v1''\<rparr>) (\<lambda>e.
     bindE (entries_from record_id remainder (index + 1) rest) (\<lambda>es. Inr (e # es)))"

definition eligible_at :: "int \<Rightarrow> contribution_record list \<Rightarrow> contribution_record list" where
  "eligible_at root_seq cs =
     sort_key co_contribution_id
       (filter (\<lambda>c. co_state c = CT_ELIGIBLE \<and> co_source_terminal_event_seq c \<le> root_seq) cs)"

definition build_settlement_entries ::
  "string \<Rightarrow> string \<Rightarrow> int \<Rightarrow> contribution_record list \<Rightarrow> int \<Rightarrow> settlement_entry list res" where
  "build_settlement_entries task_id root_unit_id root_seq eligible budget =
     (let contributions = eligible_at root_seq eligible;
          total_weight = sum_list (map co_reward_weight contributions);
          base = map (\<lambda>c. (budget * co_reward_weight c) div total_weight) contributions;
          remainder = budget - sum_list base;
          record_id = ''settlement:'' @ task_id @ '':'' @ root_unit_id @ '':'' @ show_int root_seq
      in if root_seq \<le> 0 then Inl (ValueError ''root_completion_event_seq must be positive'')
         else if budget < 0 then Inl (ValueError ''root_budget must be non-negative'')
         else if contributions = []
         then Inl (ValueError ''settlement requires at least one eligible contribution'')
         else entries_from record_id remainder 0 (zip contributions base))"

definition digest_contribution :: "hash \<Rightarrow> contribution_record \<Rightarrow> string" where
  "digest_contribution h c = digest_json h (JObj (co_to_dict c))"

definition digest_settlement_entries :: "hash \<Rightarrow> settlement_entry list \<Rightarrow> string" where
  "digest_settlement_entries h es =
     digest_json h (JArr (map (JObj \<circ> se_to_dict) (sort_key se_contribution_id es)))"

section \<open>Contributions from canonical batches\<close>

text \<open>The attributes of a projected batch that the coordinator reads.\<close>

record batch_view =
  bt_batch_id :: "string option"
  bt_events :: "ledger_event list"
  bt_task_expanded_visible :: bool

definition is_type :: "ledger_event \<Rightarrow> event_type \<Rightarrow> bool" where
  "is_type e t \<longleftrightarrow> event_type_value (ev_event_type e) = event_type_value (Known t)"

definition required_string :: "jobj \<Rightarrow> string \<Rightarrow> string res" where
  "required_string d k =
     (case jget d k of JStr s \<Rightarrow> if s = [] then Inl (ValueError (k @ '' is required'')) else Inr s
      | _ \<Rightarrow> Inl (ValueError (k @ '' is required'')))"

definition validated_batch_events :: "batch_view \<Rightarrow> string \<Rightarrow> (string \<times> ledger_event list) res" where
  "validated_batch_events b kind =
     (let es = bt_events b;
          incomplete = ValueError (''projection inconsistent: incomplete '' @ kind)
      in case bt_batch_id b of
           None \<Rightarrow> Inl incomplete
         | Some bid \<Rightarrow>
           if bid = [] \<or> es = [] then Inl incomplete
           else if remdups (map ev_batch_id es) \<noteq> [Some bid]
             \<or> remdups (map ev_batch_size es) \<noteq> [Some (int (length es))]
             \<or> map ev_batch_index es \<noteq> map (\<lambda>i. Some (int i)) [1..<length es + 1]
           then Inl incomplete
           else Inr (bid, es))"

definition single_event_of_type :: "ledger_event list \<Rightarrow> event_type \<Rightarrow> ledger_event res" where
  "single_event_of_type es t =
     (case filter (\<lambda>e. is_type e t) es of
        [e] \<Rightarrow> Inr e
      | _ \<Rightarrow> Inl (ValueError (''projection inconsistent: expected one '' @ event_type_value (Known t))))"

definition names_selection :: "string \<Rightarrow> ledger_event \<Rightarrow> bool" where
  "names_selection selection_id e \<longleftrightarrow>
     is_type e CANONICAL_OUTPUTS_BOUND \<and>
     (case jget (ev_payload e) ''canonical_selection'' of
        JObj s \<Rightarrow> jget s ''canonical_selection_id'' = JStr selection_id
      | _ \<Rightarrow> False)"

definition canonical_event_for_selection :: "ledger_event list \<Rightarrow> string \<Rightarrow> ledger_event res" where
  "canonical_event_for_selection es selection_id =
     (case find (names_selection selection_id) es of
        None \<Rightarrow> Inl (ValueError ''canonical selection event missing for contribution'')
      | Some e \<Rightarrow> Inr e)"

definition attempt_client :: "string \<Rightarrow> ledger_event \<Rightarrow> string option" where
  "attempt_client attempt_id e =
     (if \<not> is_type e ATTEMPT_STATE_CHANGED \<or> ev_object_id e \<noteq> attempt_id then None
      else case jget (ev_payload e) ''attempt'' of
        JObj a \<Rightarrow> (case jget a ''client_id'' of JStr c \<Rightarrow> if c = [] then None else Some c | _ \<Rightarrow> None)
      | _ \<Rightarrow> None)"

definition source_client_id :: "ledger_event list \<Rightarrow> string \<Rightarrow> string res" where
  "source_client_id es attempt_id =
     (case keep_some (map (attempt_client attempt_id) (rev es)) of
        [] \<Rightarrow> Inl (ValueError ''selected canonical attempt client missing for contribution'')
      | c # _ \<Rightarrow> Inr c)"

definition contribution_id_of :: "string \<Rightarrow> string \<Rightarrow> string \<Rightarrow> string \<Rightarrow> string" where
  "contribution_id_of kind task_id unit_id selection_id =
     ''contribution:'' @ kind @ '':'' @ task_id @ '':'' @ unit_id @ '':'' @ selection_id"

definition contribution_from_decision ::
  "string \<Rightarrow> contribution_state \<Rightarrow> string \<Rightarrow> ledger_event \<Rightarrow> ledger_event \<Rightarrow> string \<Rightarrow> ledger_event list
    \<Rightarrow> contribution_record res" where
  "contribution_from_decision kind state task_id decision terminal batch_id es =
     bindE (required_string (ev_payload decision) ''canonical_selection_id'') (\<lambda>selection_id.
     bindE (canonical_event_for_selection es selection_id) (\<lambda>canonical.
     bindE (case jget (ev_payload canonical) ''canonical_selection'' of
              JObj s \<Rightarrow> Inr s | _ \<Rightarrow> Inl (ValueError ''canonical selection payload missing'')) (\<lambda>selection.
     bindE (required_string selection ''selected_attempt_id'') (\<lambda>attempt_id.
     bindE (source_client_id es attempt_id) (\<lambda>client_id.
     bindE (required_string (ev_payload decision) ''unit_id'') (\<lambda>unit_id.
     bindE (required_string selection ''selected_verification_report_id'') (\<lambda>report_id.
     bindE (bindE (jitem selection ''selected_verification_event_seq'') py_int) (\<lambda>verification_seq.
     mk_contribution
       \<lparr>co_contribution_id = contribution_id_of kind task_id unit_id selection_id, co_task_id = task_id,
        co_unit_id = unit_id, co_kind = kind, co_state = state, co_source_attempt_id = attempt_id,
        co_source_client_id = client_id, co_canonical_selection_id = selection_id,
        co_canonical_event_seq = ev_event_seq canonical, co_verification_report_id = report_id,
        co_verification_event_seq = verification_seq, co_source_decision_id = Some (ev_object_id decision),
        co_merge_record_id = None, co_source_batch_id = batch_id,
        co_source_terminal_event_seq = ev_event_seq terminal, co_reward_weight = 1,
        co_created_at = ev_occurred_at terminal, co_updated_at = ev_occurred_at terminal,
        co_schema_version = ''phase5.contribution_record.v1''\<rparr>))))))))"

definition contribution_from_completion ::
  "string \<Rightarrow> ledger_event list \<Rightarrow> batch_view \<Rightarrow> (contribution_record \<times> ledger_event) res" where
  "contribution_from_completion task_id es b =
     bindE (validated_batch_events b ''completion_batch'') (\<lambda>(bid, bes).
       case bes of
         [decision, terminal] \<Rightarrow>
           if \<not> is_type decision EXPANSION_DECISION_RECORDED
             \<or> jget (ev_payload decision) ''action'' \<noteq> JStr ''complete''
             \<or> \<not> is_type terminal TASK_UNIT_STATE_CHANGED
             \<or> jget (ev_payload terminal) ''new_state'' \<noteq> JStr ''Completed''
           then Inl (ValueError ''projection inconsistent: incomplete completion_batch'')
           else bindE (contribution_from_decision ''complete_canonical'' CT_ELIGIBLE task_id decision terminal bid es)
                  (\<lambda>c. Inr (c, terminal))
       | _ \<Rightarrow> Inl (ValueError ''projection inconsistent: incomplete completion_batch''))"

definition contribution_from_expansion ::
  "string \<Rightarrow> ledger_event list \<Rightarrow> batch_view \<Rightarrow> (contribution_record \<times> ledger_event) res" where
  "contribution_from_expansion task_id es b =
     bindE (validated_batch_events b ''expansion_batch'') (\<lambda>(bid, bes).
     bindE (single_event_of_type bes EXPANSION_DECISION_RECORDED) (\<lambda>decision.
       let terminal = last bes in
       if \<not> bt_task_expanded_visible b \<or> jget (ev_payload decision) ''action'' \<noteq> JStr ''expand''
         \<or> \<not> is_type terminal TASK_EXPANDED
       then Inl (ValueError ''projection inconsistent: incomplete expansion_batch'')
       else bindE (contribution_from_decision ''expand_canonical'' CT_PENDING task_id decision terminal bid es)
              (\<lambda>c. Inr (c, terminal))))"

definition contribution_from_merge_resolution ::
  "string \<Rightarrow> ledger_event list \<Rightarrow> batch_view \<Rightarrow> (contribution_record \<times> ledger_event) res" where
  "contribution_from_merge_resolution task_id es b =
     bindE (validated_batch_events b ''merge_resolution_batch'') (\<lambda>(bid, bes).
       let merge = hd bes in
       if length bes < 2 \<or> \<not> is_type merge MERGE_RECORDED
         \<or> list_ex (\<lambda>e. \<not> is_type e EXPECTED_OUTPUT_RESOLVED) (tl bes)
       then Inl (ValueError ''projection inconsistent: incomplete merge_resolution_batch'')
       else case jget (ev_payload merge) ''merge_record'' of
         JObj mr \<Rightarrow>
           bindE (required_string mr ''merge_unit_id'') (\<lambda>unit_id.
           bindE (required_string mr ''canonical_selection_id'') (\<lambda>selection_id.
           bindE (required_string mr ''selected_attempt_id'') (\<lambda>attempt_id.
           bindE (source_client_id es attempt_id) (\<lambda>client_id.
           bindE (bindE (jitem mr ''canonical_event_seq'') py_int) (\<lambda>canonical_seq.
           bindE (required_string mr ''selected_verification_report_id'') (\<lambda>report_id.
           bindE (bindE (jitem mr ''selected_verification_event_seq'') py_int) (\<lambda>verification_seq.
           bindE (required_string mr ''merge_record_id'') (\<lambda>merge_record_id.
           bindE (mk_contribution
             \<lparr>co_contribution_id = contribution_id_of ''merge_canonical'' task_id unit_id selection_id,
              co_task_id = task_id, co_unit_id = unit_id, co_kind = ''merge_canonical'', co_state = CT_ELIGIBLE,
              co_source_attempt_id = attempt_id, co_source_client_id = client_id,
              co_canonical_selection_id = selection_id, co_canonical_event_seq = canonical_seq,
              co_verification_report_id = report_id, co_verification_event_seq = verification_seq,
              co_source_decision_id = None, co_merge_record_id = Some merge_record_id, co_source_batch_id = bid,
              co_source_terminal_event_seq = ev_event_seq merge, co_reward_weight = 1,
              co_created_at = ev_occurred_at merge, co_updated_at = ev_occurred_at merge,
              co_schema_version = ''phase5.contribution_record.v1''\<rparr>) (\<lambda>c. Inr (c, merge))))))))))
       | _ \<Rightarrow> Inl (ValueError ''merge_record payload missing''))"

definition creation_draft :: "contribution_record \<Rightarrow> ledger_event \<Rightarrow> string \<Rightarrow> string \<Rightarrow> event_draft" where
  "creation_draft c source now correlation_id =
     \<lparr>dr_event_type = Known CONTRIBUTION_STATE_CHANGED, dr_object_type = ''ContributionRecord'',
      dr_object_id = co_contribution_id c,
      dr_payload =
        [(''schema_version'', JStr ''phase5.contribution_state_changed.v1''),
         (''contribution'', JObj (co_to_dict c)),
         (''old_state'', JNull),
         (''new_state'', JStr (contribution_state_value (co_state c))),
         (''reason'', JStr ''canonical_contribution_created''),
         (''task_id'', JStr (co_task_id c)),
         (''unit_id'', JStr (co_unit_id c)),
         (''kind'', JStr (co_kind c)),
         (''canonical_selection_id'', JStr (co_canonical_selection_id c)),
         (''canonical_event_seq'', JInt (co_canonical_event_seq c)),
         (''source_batch_id'', JStr (co_source_batch_id c)),
         (''source_terminal_event_seq'', JInt (co_source_terminal_event_seq c)),
         (''changed_at'', JStr (co_updated_at c))],
      dr_idempotency_key = ''contribution:create:'' @ co_contribution_id c @ '':''
        @ contribution_state_value (co_state c),
      dr_task_id = Some (co_task_id c), dr_actor = Some [(''kind'', JStr ''contribution_coordinator'')],
      dr_correlation_id = Some correlation_id, dr_causation_event_id = Some (ev_event_id source),
      dr_occurred_at = Some now\<rparr>"

text \<open>An append that succeeded stays in the ledger even when its payload cannot be read back.\<close>

definition append_creation_event ::
  "hash \<Rightarrow> string \<Rightarrow> event_ledger \<Rightarrow> contribution_record \<Rightarrow> ledger_event \<Rightarrow> string \<Rightarrow> string
    \<Rightarrow> event_ledger \<times> (contribution_record \<times> ledger_event) res" where
  "append_creation_event h clock L c source now correlation_id =
     (case append_event h clock L (creation_draft c source now correlation_id) of
        Inl e \<Rightarrow> (L, Inl e)
      | Inr (L', e) \<Rightarrow>
        (L', bindE (case jget (ev_payload e) ''contribution'' of JObj d \<Rightarrow> co_from_kwargs d | _ \<Rightarrow> Inr c)
               (\<lambda>c'. Inr (c', e))))"

text \<open>
  The three loops, over one list of pending derivations. An error stops the method and leaves the
  events appended before it in the ledger, so the ledger is returned on every path.
\<close>

fun record_contributions ::
  "hash \<Rightarrow> string \<Rightarrow> event_ledger \<Rightarrow> string \<Rightarrow> string \<Rightarrow> (contribution_record \<times> ledger_event) res list
    \<Rightarrow> event_ledger \<times> (contribution_record \<times> ledger_event) list res" where
  "record_contributions h clock L now cid [] = (L, Inr [])"
| "record_contributions h clock L now cid (m # ms) =
     (case m of
        Inl e \<Rightarrow> (L, Inl e)
      | Inr (c, source) \<Rightarrow>
        (case append_creation_event h clock L c source now cid of
           (L1, Inl e) \<Rightarrow> (L1, Inl e)
         | (L1, Inr f) \<Rightarrow>
           (case record_contributions h clock L1 now cid ms of
              (L2, r) \<Rightarrow> (L2, bindE r (\<lambda>fs. Inr (f # fs))))))"

definition record_canonical_contributions ::
  "hash \<Rightarrow> string \<Rightarrow> event_ledger \<Rightarrow> string \<Rightarrow> batch_view list \<Rightarrow> batch_view list \<Rightarrow> batch_view list
    \<Rightarrow> string \<Rightarrow> string \<Rightarrow> event_ledger \<times> (contribution_record \<times> ledger_event) list res" where
  "record_canonical_contributions h clock L task_id completions expansions merges now cid =
     (case read_all (el_file L) of
        Inl e \<Rightarrow> (L, Inl e)
      | Inr es \<Rightarrow>
        record_contributions h clock L now cid
          (map (contribution_from_completion task_id es) completions @
           map (contribution_from_expansion task_id es) expansions @
           map (contribution_from_merge_resolution task_id es) merges))"

end
