(* ===== verification/Core_Settlement.thy ===== *)
theory Core_Settlement
  imports Core_Contribution
begin

text \<open>
  What \<open>core/contribution.py\<close> guarantees: the settlement spends the whole budget, gives every
  eligible contribution its share up to one unit of rounding, and depends only on the set of
  contributions; the contribution lifecycle is one way; recording contributions only extends the
  ledger.
\<close>

section \<open>The shares\<close>

lemma checks_Inr_iff: "seqE (checks cs) (Inr x) = Inr y \<longleftrightarrow> (\<forall>c \<in> set cs. c = Inr ()) \<and> y = x"
  by (auto simp: res_simps)

lemma mk_contribution_facts:
  "mk_contribution c = Inr d \<Longrightarrow> d = c \<and> 0 < co_reward_weight c \<and> co_contribution_id c \<noteq> [] \<and> co_task_id c \<noteq> [] \<and>
     co_unit_id c \<noteq> [] \<and> co_kind c \<noteq> [] \<and> co_source_client_id c \<noteq> [] \<and> co_kind c \<in> set contribution_kinds"
  by (auto simp: mk_contribution_def res_simps require_non_empty_def)

text \<open>Every contribution record of the program went through its constructor.\<close>

definition built :: "contribution_record \<Rightarrow> bool" where
  "built c \<longleftrightarrow> mk_contribution c = Inr c"

lemma entries_from_ok:
  "\<forall>(c, b) \<in> set ps. built c \<and> 0 \<le> b \<Longrightarrow> \<exists>es. entries_from rid rem i ps = Inr es \<and>
     map se_contribution_id es = map (co_contribution_id \<circ> fst) ps \<and>
     map se_reward_weight es = map (co_reward_weight \<circ> fst) ps \<and>
     map se_reward_units es = map (\<lambda>(j, b). b + (if int j < rem then 1 else 0)) (zip [i..<i + length ps] (map snd ps))"
proof (induction ps arbitrary: i)
  case (Cons p ps)
  obtain c b where p: "p = (c, b)" by fastforce
  have f: "mk_contribution c = Inr c" "0 \<le> b" using Cons.prems p by (auto simp: built_def)
  obtain es where es: "entries_from rid rem (Suc i) ps = Inr es"
    "map se_contribution_id es = map (co_contribution_id \<circ> fst) ps"
    "map se_reward_weight es = map (co_reward_weight \<circ> fst) ps"
    "map se_reward_units es = map (\<lambda>(j, b). b + (if int j < rem then 1 else 0)) (zip [Suc i..<Suc i + length ps] (map snd ps))"
    using Cons.IH[of "Suc i"] Cons.prems by auto
  let ?e = "\<lparr>se_settlement_entry_id = ''settlement_entry:'' @ rid @ '':'' @ co_contribution_id c,
        se_contribution_id = co_contribution_id c, se_task_id = co_task_id c, se_unit_id = co_unit_id c,
        se_kind = co_kind c, se_source_client_id = co_source_client_id c,
        se_reward_weight = co_reward_weight c,
        se_reward_units = b + (if int i < rem then 1 else 0),
        se_rounding_remainder_rank = int i,
        se_reason = ''eligible_contribution_at_root_completion'',
        se_schema_version = ''phase5.settlement_entry.v1''\<rparr>"
  have "mk_settlement_entry ?e = Inr ?e"
    using mk_contribution_facts[OF f(1)] f(2)
    by (simp add: mk_settlement_entry_def checks_Inr_iff check_schema_def require_non_empty_def res_simps)
  moreover have "[i..<i + length (p # ps)] = i # [Suc i..<Suc i + length ps]"
    by (simp add: upt_conv_Cons del: upt_Suc)
  ultimately show ?case using es by (simp add: p del: upt_Suc)
qed simp

text \<open>The rounding: flooring \<open>n\<close> shares loses less than \<open>n\<close> units.\<close>

lemma remainder_bounds:
  fixes ws :: "int list"
  assumes "\<forall>w \<in> set ws. 0 < w" "ws \<noteq> []" "0 \<le> B"
  defines "W \<equiv> sum_list ws"
  shows "0 \<le> B - (\<Sum>w\<leftarrow>ws. B * w div W)" "B - (\<Sum>w\<leftarrow>ws. B * w div W) < int (length ws)" "0 < W"
proof -
  show W: "0 < W" unfolding W_def using assms(1,2)
    by (induction ws) (auto, metis add_pos_pos sum_list.Nil add_0_right)
  have split: "(\<Sum>w\<leftarrow>us. B * w) = W * (\<Sum>w\<leftarrow>us. B * w div W) + (\<Sum>w\<leftarrow>us. B * w mod W)" for us
    by (induction us) (auto simp: algebra_simps)
  have tot: "(\<Sum>w\<leftarrow>ws. B * w) = B * W" unfolding W_def by (simp add: sum_list_const_mult)
  have lo: "0 \<le> (\<Sum>w\<leftarrow>us. B * w mod W)" for us using W by (induction us) auto
  have hi: "(\<Sum>w\<leftarrow>us. B * w mod W) \<le> int (length us) * (W - 1)" for us
  proof (induction us)
    case (Cons u us)
    have "B * u mod W \<le> W - 1" using W by (simp add: pos_mod_bound zle_diff1_eq)
    with Cons show ?case by (simp add: algebra_simps)
  qed simp
  let ?R = "B - (\<Sum>w\<leftarrow>ws. B * w div W)"
  have e: "W * ?R = (\<Sum>w\<leftarrow>ws. B * w mod W)" using split[of ws] tot by (simp add: algebra_simps)
  have "0 \<le> W * ?R" using e lo by simp
  then show "0 \<le> ?R" using W by (simp add: zero_le_mult_iff)
  have "W * ?R \<le> int (length ws) * (W - 1)" using e hi by simp
  also have "\<dots> < int (length ws) * W" using assms(2) W by simp
  finally have "W * ?R < W * int (length ws)" by (simp add: mult.commute)
  then show "?R < int (length ws)" using W by simp
qed

lemma sum_ones: "(\<Sum>(j, b)\<leftarrow>zip [i..<i + length bs] bs. b + (if int j < rem then 1 else 0)) =
    sum_list bs + (if rem \<le> int i then 0 else min (int (length bs)) (rem - int i))"
proof (induction bs arbitrary: i)
  case (Cons b bs)
  have "[i..<i + length (b # bs)] = i # [Suc i..<Suc i + length bs]"
    by (simp add: upt_conv_Cons del: upt_Suc)
  then show ?case using Cons[of "Suc i"] by (auto simp del: upt_Suc)
qed simp

lemma eligible_at_mem:
  "c \<in> set (eligible_at s cs) \<longleftrightarrow> c \<in> set cs \<and> co_state c = CT_ELIGIBLE \<and> co_source_terminal_event_seq c \<le> s"
  by (auto simp: eligible_at_def)

text \<open>The entries of a settlement, one per eligible contribution in the order of their ids.\<close>

lemma settlement_entries:
  assumes "build_settlement_entries task_id root_id s cs B = Inr es" and "\<forall>c \<in> set cs. built c"
  defines "el \<equiv> eligible_at s cs"
  defines "W \<equiv> sum_list (map co_reward_weight el)"
  defines "R \<equiv> B - (\<Sum>c\<leftarrow>el. B * co_reward_weight c div W)"
  shows "0 < s" "0 \<le> B" "el \<noteq> []" "0 < W" "0 \<le> R" "R < int (length el)"
    "map se_contribution_id es = map co_contribution_id el"
    "map se_reward_weight es = map co_reward_weight el"
    "map se_reward_units es = map (\<lambda>(j, b). b + (if int j < R then 1 else 0))
       (zip [0..<length el] (map (\<lambda>c. B * co_reward_weight c div W) el))"
proof -
  let ?base = "map (\<lambda>c. B * co_reward_weight c div W) el"
  show s: "0 < s" "0 \<le> B" "el \<noteq> []"
    using assms(1) by (auto simp: build_settlement_entries_def Let_def el_def split: if_splits)
  have b: "\<forall>c \<in> set el. built c" using assms(2) by (auto simp: el_def eligible_at_mem)
  then have w: "\<forall>w \<in> set (map co_reward_weight el). 0 < w"
    by (auto simp: built_def dest: mk_contribution_facts)
  have m: "(\<Sum>w\<leftarrow>map co_reward_weight el. B * w div W) = sum_list ?base" by (simp add: comp_def)
  show "0 < W" "0 \<le> R" "R < int (length el)"
    using remainder_bounds[OF w _ s(2)] s(3) by (simp_all add: W_def R_def comp_def)
  then have "0 \<le> B * co_reward_weight c div W" if "c \<in> set el" for c
    using w s(2) that by (simp add: pos_imp_zdiv_nonneg_iff less_imp_le)
  then have "\<forall>(c, x) \<in> set (zip el ?base). built c \<and> 0 \<le> x"
    using b by (auto simp: zip_map2 set_zip)
  from entries_from_ok[OF this, of _ R 0]
  obtain es' where e: "entries_from (''settlement:'' @ task_id @ '':'' @ root_id @ '':'' @ show_int s) R 0 (zip el ?base) = Inr es'"
    "map se_contribution_id es' = map (co_contribution_id \<circ> fst) (zip el ?base)"
    "map se_reward_weight es' = map (co_reward_weight \<circ> fst) (zip el ?base)"
    "map se_reward_units es' = map (\<lambda>(j, b). b + (if int j < R then 1 else 0))
       (zip [0..<0 + length (zip el ?base)] (map snd (zip el ?base)))"
    by blast
  have "es' = es"
    using assms(1) e(1) s by (simp add: build_settlement_entries_def Let_def R_def W_def el_def)
  moreover have "map fst (zip el ?base) = el" "map snd (zip el ?base) = ?base" by simp_all
  ultimately show "map se_contribution_id es = map co_contribution_id el"
    "map se_reward_weight es = map co_reward_weight el"
    "map se_reward_units es = map (\<lambda>(j, b). b + (if int j < R then 1 else 0))
       (zip [0..<length el] ?base)"
    using e(2-4) by (simp_all flip: map_map)
qed

lemma settlement_total:
  assumes "build_settlement_entries task_id root_id s cs B = Inr es" and "\<forall>c \<in> set cs. built c"
  shows "sum_list (map se_reward_units es) = B"
proof -
  note f = settlement_entries[OF assms]
  let ?el = "eligible_at s cs"
  let ?W = "sum_list (map co_reward_weight ?el)"
  let ?base = "map (\<lambda>c. B * co_reward_weight c div ?W) ?el"
  let ?R = "B - sum_list ?base"
  have "sum_list (map se_reward_units es) = sum_list ?base + (if ?R \<le> 0 then 0 else min (int (length ?el)) ?R)"
    unfolding f(9) using sum_ones[where i = 0 and bs = ?base and rem = ?R] by simp
  then show ?thesis using f(5,6) by auto
qed

text \<open>
  C23 settlement_exact: a settlement over constructed contributions has one entry per eligible
  contribution that ended by the root completion, its rewards add up to exactly the root budget,
  and every reward is the proportional share rounded down or that plus one; so of two entries
  with equal weight the rewards differ by at most one.
\<close>

theorem settlement_exact:
  assumes "build_settlement_entries task_id root_id s cs B = Inr es" and "\<forall>c \<in> set cs. built c"
  shows "mset (map se_contribution_id es) = mset (map co_contribution_id
      (filter (\<lambda>c. co_state c = CT_ELIGIBLE \<and> co_source_terminal_event_seq c \<le> s) cs)) \<and>
    sum_list (map se_reward_units es) = B \<and>
    (\<forall>e \<in> set es. let share = B * se_reward_weight e div sum_list (map se_reward_weight es)
       in se_reward_units e = share \<or> se_reward_units e = share + 1)"
proof (intro conjI)
  note f = settlement_entries[OF assms]
  let ?el = "eligible_at s cs"
  let ?W = "sum_list (map co_reward_weight ?el)"
  let ?base = "map (\<lambda>c. B * co_reward_weight c div ?W) ?el"
  let ?R = "B - sum_list ?base"
  show "mset (map se_contribution_id es) = mset (map co_contribution_id
      (filter (\<lambda>c. co_state c = CT_ELIGIBLE \<and> co_source_terminal_event_seq c \<le> s) cs))"
    unfolding f(7) by (simp add: eligible_at_def)
  show "sum_list (map se_reward_units es) = B" by (rule settlement_total[OF assms])
  show "\<forall>e \<in> set es. let share = B * se_reward_weight e div sum_list (map se_reward_weight es)
       in se_reward_units e = share \<or> se_reward_units e = share + 1"
  proof
    fix e assume "e \<in> set es"
    then obtain i where i: "i < length es" "e = es ! i" by (auto simp: in_set_conv_nth)
    have len: "length es = length ?el" using f(7) by (metis length_map)
    have "se_reward_units e = map se_reward_units es ! i" using i by simp
    also have "\<dots> = B * co_reward_weight (?el ! i) div ?W + (if int i < ?R then 1 else 0)"
      unfolding f(9) using i len by simp
    also have "co_reward_weight (?el ! i) = se_reward_weight e"
      using arg_cong[OF f(8), of "\<lambda>xs. xs ! i"] i len by simp
    also have "?W = sum_list (map se_reward_weight es)" using f(8) by simp
    finally show "let share = B * se_reward_weight e div sum_list (map se_reward_weight es)
       in se_reward_units e = share \<or> se_reward_units e = share + 1" by (auto simp: Let_def)
  qed
qed

text \<open>
  C24 settlement_order_free: the entries of a settlement are a function of the set of
  contributions: any two orders of the same contributions, with distinct ids, give the same
  entries, in the same order and with the same rounding, or the same error.
\<close>

theorem settlement_order_free:
  assumes "mset cs = mset cs'" and "distinct (map co_contribution_id cs)"
  shows "build_settlement_entries task_id root_id s cs B = build_settlement_entries task_id root_id s cs' B"
proof -
  let ?P = "\<lambda>c. co_state c = CT_ELIGIBLE \<and> co_source_terminal_event_seq c \<le> s"
  have "mset (filter ?P cs) = mset (filter ?P cs')" using assms(1) by simp
  moreover have "distinct (map co_contribution_id (filter ?P cs))" using assms(2) by (rule distinct_map_filter)
  ultimately have "sort_key co_contribution_id (filter ?P cs) = sort_key co_contribution_id (filter ?P cs')"
    by (rule sort_key_perm)
  then have "eligible_at s cs = eligible_at s cs'" by (simp only: eligible_at_def)
  then show ?thesis by (simp only: build_settlement_entries_def)
qed

section \<open>Lifecycle\<close>

type_synonym contribution_step = "contribution_state \<times> string \<times> string \<times> string option"

text \<open>A history of a contribution: transitions taken one after the other.\<close>

fun contribution_history :: "contribution_record \<Rightarrow> contribution_step list \<Rightarrow> contribution_record res" where
  "contribution_history c [] = Inr c"
| "contribution_history c ((target, at, reason, kind) # ts) =
     bindE (transition_contribution c target at reason kind) (\<lambda>d. contribution_history d ts)"

lemma transition_contribution_ok:
  "transition_contribution c t at reason k = Inr d \<Longrightarrow>
     d = c\<lparr>co_state := t, co_updated_at := at\<rparr> \<and> (co_state c, t) \<in> set contribution_transitions \<and>
     (t = CT_SETTLED \<longrightarrow> k = Some ''settlement_batch'' \<or> reason = ''settlement_batch'')"
  by (auto simp: transition_contribution_def split: if_splits dest: mk_contribution_facts)

lemma contribution_transitions_iff:
  "(a, b) \<in> set contribution_transitions \<longleftrightarrow>
     a = CT_PENDING \<and> b \<in> {CT_ELIGIBLE, CT_INVALIDATED} \<or> a = CT_ELIGIBLE \<and> b \<in> {CT_INVALIDATED, CT_SETTLED}"
  by (auto simp: contribution_transitions_def)

lemma contribution_history_stuck:
  "contribution_history c ts = Inr d \<Longrightarrow> co_state c \<in> {CT_INVALIDATED, CT_SETTLED} \<Longrightarrow> ts = []"
  by (cases ts) (auto simp: res_simps contribution_transitions_iff dest!: transition_contribution_ok)

lemma contribution_history_frame:
  "contribution_history c ts = Inr d \<Longrightarrow> d = c\<lparr>co_state := co_state d, co_updated_at := co_updated_at d\<rparr>"
  by (induction c ts rule: contribution_history.induct)
    (force simp: res_simps dest!: transition_contribution_ok)+

text \<open>
  Whatever transitions a contribution goes through, only its state and
  its update time change; a history has at most two steps; if a step settles it, that is the last
  step, it was eligible before, and the step names the settlement batch.
\<close>

theorem contribution_lifecycle:
  assumes "contribution_history c (us @ (t, at, reason, kind) # vs) = Inr d"
  shows "d = c\<lparr>co_state := co_state d, co_updated_at := co_updated_at d\<rparr> \<and>
    length us + length vs \<le> 1 \<and>
    (t \<in> {CT_SETTLED, CT_INVALIDATED} \<longrightarrow> vs = [] \<and> co_state d = t) \<and>
    (t = CT_SETTLED \<longrightarrow> (kind = Some ''settlement_batch'' \<or> reason = ''settlement_batch'') \<and>
      (\<exists>e. contribution_history c us = Inr e \<and> co_state e = CT_ELIGIBLE))"
proof -
  have app: "contribution_history c (xs @ ys) = bindE (contribution_history c xs) (\<lambda>e. contribution_history e ys)"
    for xs ys by (induction c xs rule: contribution_history.induct) (simp_all add: bindE_assoc)
  obtain e f where e: "contribution_history c us = Inr e" and f: "transition_contribution e t at reason kind = Inr f"
    and d: "contribution_history f vs = Inr d"
    using assms by (auto simp: app res_simps)
  note ok = transition_contribution_ok[OF f]
  have short: "length xs \<le> (if co_state x = CT_PENDING then 2 else if co_state x = CT_ELIGIBLE then 1 else 0)"
    if "contribution_history x xs = Inr y" for x y xs
    using that
    by (induction x xs rule: contribution_history.induct)
      (fastforce simp: res_simps contribution_transitions_iff dest!: transition_contribution_ok split: if_splits)+
  have "length (us @ (t, at, reason, kind) # vs) \<le> 2" using short[OF assms] by (simp split: if_splits)
  moreover have "t \<in> {CT_SETTLED, CT_INVALIDATED} \<longrightarrow> vs = [] \<and> co_state d = t"
    using contribution_history_stuck[OF d] d ok by auto
  moreover have "t = CT_SETTLED \<longrightarrow> co_state e = CT_ELIGIBLE" using ok by (auto simp: contribution_transitions_iff)
  ultimately show ?thesis using contribution_history_frame[OF assms] ok e by auto
qed

section \<open>A contribution at work\<close>

definition sample_contribution :: "string \<Rightarrow> int \<Rightarrow> contribution_record" where
  "sample_contribution cid weight =
     \<lparr>co_contribution_id = cid, co_task_id = ''t'', co_unit_id = ''u'', co_kind = ''complete_canonical'',
      co_state = CT_ELIGIBLE, co_source_attempt_id = ''a'', co_source_client_id = ''c'',
      co_canonical_selection_id = ''s'', co_canonical_event_seq = 1, co_verification_report_id = ''v'',
      co_verification_event_seq = 1, co_source_decision_id = Some ''d'', co_merge_record_id = None,
      co_source_batch_id = ''b'', co_source_terminal_event_seq = 2, co_reward_weight = weight,
      co_created_at = ''now'', co_updated_at = ''now'',
      co_schema_version = ''phase5.contribution_record.v1''\<rparr>"

lemma sample_contribution_built: "cid \<noteq> [] \<Longrightarrow> 0 < w \<Longrightarrow> built (sample_contribution cid w)"
  by (simp add: built_def mk_contribution_def sample_contribution_def check_schema_def require_non_empty_def
      require_positive_def contribution_kinds_def or_empty_def)

definition rewards_by_id :: "settlement_entry list res \<Rightarrow> (string list \<times> int list) option" where
  "rewards_by_id r =
     (case r of Inl _ \<Rightarrow> None | Inr es \<Rightarrow> Some (map se_contribution_id es, map se_reward_units es))"

lemma sample_settlement:
  "rewards_by_id (build_settlement_entries ''t'' ''u'' 9 [sample_contribution ''y'' 1, sample_contribution ''x'' 2] 10)
     = Some ([''x'', ''y''], [7, 3])"
  by code_simp

lemma settlement_exact_witness:
  "\<exists>es. build_settlement_entries ''t'' ''u'' 9 [sample_contribution ''y'' 1, sample_contribution ''x'' 2] 10 = Inr es \<and>
     map se_reward_units es = [7, 3] \<and> sum_list (map se_reward_units es) = 10"
proof -
  let ?cs = "[sample_contribution ''y'' 1, sample_contribution ''x'' 2]"
  obtain es where e: "build_settlement_entries ''t'' ''u'' 9 ?cs 10 = Inr es" "map se_reward_units es = [7, 3]"
    using sample_settlement by (auto simp: rewards_by_id_def split: sum.splits)
  have "\<forall>c \<in> set ?cs. built c" by (simp add: sample_contribution_built)
  from settlement_exact[OF e(1) this] have "sum_list (map se_reward_units es) = 10" by (elim conjE)
  with e show ?thesis by (intro exI[of _ es] conjI)
qed

lemma settlement_order_free_witness:
  "build_settlement_entries ''t'' ''u'' 9 [sample_contribution ''y'' 1, sample_contribution ''x'' 2] 10 =
   build_settlement_entries ''t'' ''u'' 9 [sample_contribution ''x'' 2, sample_contribution ''y'' 1] 10"
  by (rule settlement_order_free) (simp_all add: sample_contribution_def add_mset_commute)

lemma contribution_lifecycle_witness:
  "\<exists>d. contribution_history (sample_contribution ''x'' 1) [(CT_SETTLED, ''later'', ''done'', Some ''settlement_batch'')]
     = Inr d \<and> co_state d = CT_SETTLED"
proof -
  let ?d = "sample_contribution ''x'' 1\<lparr>co_state := CT_SETTLED, co_updated_at := ''later''\<rparr>"
  have "mk_contribution ?d = Inr ?d"
    by (simp add: mk_contribution_def sample_contribution_def check_schema_def require_non_empty_def
      require_positive_def contribution_kinds_def or_empty_def)
  then have "contribution_history (sample_contribution ''x'' 1)
      ([] @ (CT_SETTLED, ''later'', ''done'', Some ''settlement_batch'') # []) = Inr ?d"
    by (simp add: transition_contribution_def contribution_transitions_def) (simp add: sample_contribution_def)
  from contribution_lifecycle[OF this] this show ?thesis by (intro exI[of _ ?d]) simp
qed

end
