(* ===== verification/Core_Contribution_Log.thy ===== *)
theory Core_Contribution_Log
  imports Core_Contribution
begin

text \<open>
  Recording contributions in the ledger (\<open>core/contribution.py\<close>, \<open>ContributionCoordinator\<close>):
  the recording only adds events of contributions at the end of the ledger, an error leaves a ledger
  that can be used, and recording the same batches again adds nothing.
\<close>

section \<open>The creation event\<close>

lemma creation_draft_wf: "wf_draft (creation_draft c source now cid)"
  by (simp add: wf_draft_def wf_obj_def creation_draft_def co_to_dict_def)

lemma creation_draft_same:
  "draft_signature (creation_draft c source now cid) = draft_signature (creation_draft c source' now' cid')"
  "dr_idempotency_key (creation_draft c source now cid) = dr_idempotency_key (creation_draft c source' now' cid')"
  by (simp_all add: draft_signature_def creation_draft_def)

lemma append_creation_cases:
  assumes "append_creation_event h clock L c source now cid = (L', r)"
  obtains (refused) err where "append_event h clock L (creation_draft c source now cid) = Inl err" "L' = L" "r = Inl err"
  | (appended) e where "append_event h clock L (creation_draft c source now cid) = Inr (L', e)"
      "r = bindE (case jget (ev_payload e) ''contribution'' of JObj d \<Rightarrow> co_from_kwargs d | _ \<Rightarrow> Inr c) (\<lambda>c'. Inr (c', e))"
  using assms by (auto simp: append_creation_event_def split: sum.splits)

lemma append_creation_grows:
  assumes "append_creation_event h clock L c source now cid = (L', r)" and "ledger_reach h L"
  shows "ledger_reach h L' \<and> (\<exists>new. el_events L' = el_events L @ new \<and>
    (\<forall>e \<in> set new. is_type e CONTRIBUTION_STATE_CHANGED)) \<and> (\<forall>c' e. r = Inr (c', e) \<longrightarrow> e \<in> set (el_events L'))"
  using assms(1)
proof (cases rule: append_creation_cases)
  case refused
  then show ?thesis using assms(2) by simp
next
  case (appended e)
  have ok: "ledger_ok h L" by (rule ledger_reach_ok[OF assms(2)])
  have "event_signature e = draft_signature (creation_draft c source now cid)"
    using ledger.app_stands[OF ok appended(1)] by (simp add: stands_for_draft_def)
  then have "is_type e CONTRIBUTION_STATE_CHANGED"
    by (simp add: event_signature_def draft_signature_def idempotency_signature_def creation_draft_def is_type_def)
  then show ?thesis
    using ledger_append[OF assms(2) creation_draft_wf appended(1)] ledger.app_grows[OF ok appended(1)] appended(2)
    by (auto simp: res_simps)
qed

text \<open>A creation event that is in the ledger is found again, whatever the time and the source event.\<close>

lemma append_creation_again:
  assumes "append_creation_event h clock L c source now cid = (L', Inr (c', e))" and "ledger_reach h L"
    and "ledger_ok h M" and "e \<in> set (el_events M)"
  shows "append_creation_event h clock' M c source' now' cid' = (M, Inr (c', e))"
  using assms(1)
proof (cases rule: append_creation_cases)
  case (appended f)
  have f: "f = e" using appended(2)[symmetric] by (auto simp: res_simps)
  have ok: "ledger_ok h L" by (rule ledger_reach_ok[OF assms(2)])
  have "append_event h clock' M (creation_draft c source' now' cid') = Inr (M, e)"
    using ledger.app_stands[OF ok appended(1)] creation_draft_same[of c source now cid source' now' cid'] f
    by (intro ledger.app_again[OF assms(3,4)]) (simp_all add: stands_for_draft_def)
  then show ?thesis using appended(2) f by (simp add: append_creation_event_def)
qed simp

text \<open>The payload of a creation event names the contribution again.\<close>

lemma contribution_state_parse: "parse_contribution_state (contribution_state_value st) = Inr st"
  by (cases st) (simp_all add: parse_contribution_state_def)

lemma co_from_to_dict:
  assumes "mk_contribution c = Inr d"
  shows "co_from_kwargs (co_to_dict c) = Inr d"
proof -
  let ?c = "\<lparr>co_contribution_id = co_contribution_id c, co_task_id = co_task_id c, co_unit_id = co_unit_id c,
     co_kind = co_kind c, co_state = co_state c, co_source_attempt_id = co_source_attempt_id c,
     co_source_client_id = co_source_client_id c, co_canonical_selection_id = co_canonical_selection_id c,
     co_canonical_event_seq = co_canonical_event_seq c, co_verification_report_id = co_verification_report_id c,
     co_verification_event_seq = co_verification_event_seq c, co_source_decision_id = co_source_decision_id c,
     co_merge_record_id = co_merge_record_id c, co_source_batch_id = co_source_batch_id c,
     co_source_terminal_event_seq = co_source_terminal_event_seq c, co_reward_weight = co_reward_weight c,
     co_created_at = co_created_at c, co_updated_at = co_updated_at c, co_schema_version = co_schema_version c\<rparr>"
  have "dict_keys (co_to_dict c) = contribution_keys"
    by (simp add: co_to_dict_def contribution_keys_def)
  moreover have "opt_str_required (co_to_dict c) ''source_decision_id'' = Inr (co_source_decision_id c)"
    "opt_str_required (co_to_dict c) ''merge_record_id'' = Inr (co_merge_record_id c)"
    by (simp_all add: opt_str_required_def opt_str_item_def jitem_def jget_def dict_default_def co_to_dict_def)
  moreover have "str_item (co_to_dict c) ''state'' = Inr (contribution_state_value (co_state c))"
    by (simp add: str_item_def jitem_def co_to_dict_def)
  ultimately have "co_from_kwargs (co_to_dict c) = missing_argument (mk_contribution ?c)"
    by (simp add: co_from_kwargs_def contribution_state_parse
        str_item_def int_item_def jitem_def str_default_def co_to_dict_def)
  moreover have "?c = c" by simp
  ultimately show ?thesis using assms by (simp only: missing_argument_def sum.case)
qed

section \<open>The recording loop\<close>

lemma record_contributions_grows:
  assumes "record_contributions h clock L now cid ms = (L', r)" and "ledger_reach h L"
  shows "ledger_reach h L' \<and> (\<exists>new. el_events L' = el_events L @ new \<and>
    (\<forall>e \<in> set new. is_type e CONTRIBUTION_STATE_CHANGED)) \<and> (\<forall>fs. r = Inr fs \<longrightarrow> (\<forall>(c, e) \<in> set fs. e \<in> set (el_events L')))"
  using assms
proof (induction ms arbitrary: L r)
  case (Cons m ms)
  show ?case
  proof (cases "\<exists>c s. m = Inr (c, s)")
    case False
    with Cons.prems show ?thesis by (cases m) auto
  next
    case True
    then obtain c s where m: "m = Inr (c, s)" by blast
    obtain L1 r1 where a: "append_creation_event h clock L c s now cid = (L1, r1)" by fastforce
    note g = append_creation_grows[OF a Cons.prems(2)]
    show ?thesis
    proof (cases r1)
      case (Inl e)
      with Cons.prems m a g show ?thesis by auto
    next
      case (Inr f)
      obtain L2 r2 where b: "record_contributions h clock L1 now cid ms = (L2, r2)" by fastforce
      with Cons.prems m a Inr have "L' = L2" "r = bindE r2 (\<lambda>fs. Inr (f # fs))" by auto
      with Cons.IH[OF b[folded \<open>L' = L2\<close>]] g Inr show ?thesis by (cases f) (auto simp: res_simps)
    qed
  qed
qed simp

lemma record_contributions_again:
  assumes "record_contributions h clock L now cid ms = (L', Inr fs)" and "ledger_reach h L"
    and "ledger_ok h M" and "\<forall>(c, e) \<in> set fs. e \<in> set (el_events M)"
  shows "record_contributions h clock' M now' cid' ms = (M, Inr fs)"
  using assms
proof (induction ms arbitrary: L fs)
  case (Cons m ms)
  obtain c s where m: "m = Inr (c, s)" using Cons.prems(1) by (cases m) auto
  obtain L1 r1 where a: "append_creation_event h clock L c s now cid = (L1, r1)" by fastforce
  obtain f where f: "r1 = Inr f" using Cons.prems(1) m a by (cases r1) auto
  obtain L2 r2 where b: "record_contributions h clock L1 now cid ms = (L2, r2)" by fastforce
  obtain fs' where r: "r2 = Inr fs'" "fs = f # fs'" and "L' = L2" using Cons.prems(1) m a f b by (auto simp: res_simps)
  note g = append_creation_grows[OF a Cons.prems(2)]
  have "record_contributions h clock' M now' cid' ms = (M, Inr fs')"
    using Cons.IH[OF _ _ Cons.prems(3)] b r g Cons.prems(4) \<open>L' = L2\<close> by auto
  moreover have "append_creation_event h clock' M c s now' cid' = (M, Inr f)"
    using append_creation_again[OF _ Cons.prems(2,3)] a f r(2) Cons.prems(4) by (cases f) auto
  ultimately show ?case using m r by simp
qed simp

section \<open>Derivations look at the batches and the older events only\<close>

lemma find_skip: "find P ys = None \<Longrightarrow> find P (xs @ ys) = find P xs"
  by (induction xs) auto

lemma is_type_unique: "is_type e a \<Longrightarrow> is_type e b \<Longrightarrow> a = b"
  unfolding is_type_def by (metis event_kind.inject(1) parse_event_type_value)

lemma derivation_ignores:
  assumes "\<forall>e \<in> set new. is_type e CONTRIBUTION_STATE_CHANGED"
  shows "source_client_id (es @ new) a = source_client_id es a"
    and "canonical_event_for_selection (es @ new) s = canonical_event_for_selection es s"
proof -
  have n: "\<not> is_type e ATTEMPT_STATE_CHANGED" "\<not> is_type e CANONICAL_OUTPUTS_BOUND" if "e \<in> set new" for e
    using that assms is_type_unique by blast+
  have "keep_some (map (attempt_client a) (rev new)) = []"
    using n(1) by (simp add: keep_some_none attempt_client_def)
  then show "source_client_id (es @ new) a = source_client_id es a"
    by (simp add: source_client_id_def keep_some_def)
  have "find (names_selection s) new = None"
    using n(2) by (auto simp: find_None_iff names_selection_def)
  then show "canonical_event_for_selection (es @ new) s = canonical_event_for_selection es s"
    by (simp add: canonical_event_for_selection_def find_skip)
qed

lemma derivations_ignore:
  assumes "\<forall>e \<in> set new. is_type e CONTRIBUTION_STATE_CHANGED"
  shows "contribution_from_completion t (es @ new) = contribution_from_completion t es"
    and "contribution_from_expansion t (es @ new) = contribution_from_expansion t es"
    and "contribution_from_merge_resolution t (es @ new) = contribution_from_merge_resolution t es"
  by (intro ext, simp only: contribution_from_completion_def contribution_from_expansion_def
      contribution_from_merge_resolution_def contribution_from_decision_def derivation_ignores[OF assms])+

text \<open>
  Recording the contributions of any batches leaves a ledger that
  extends the old one by contribution events only, whether the recording succeeds or stops at an
  error; and when it succeeds, recording the same batches again, at any later time and under any
  correlation id, leaves the ledger as it is and returns the same contributions and events.
\<close>

theorem contributions_recorded_once:
  assumes "ledger_reach h L"
    and "record_canonical_contributions h clock L t completions expansions merges now cid = (L', r)"
  shows "ledger_reach h L' \<and>
    (\<exists>new. el_events L' = el_events L @ new \<and> (\<forall>e \<in> set new. is_type e CONTRIBUTION_STATE_CHANGED)) \<and>
    (\<forall>fs. r = Inr fs \<longrightarrow>
      record_canonical_contributions h clock' L' t completions expansions merges now' cid' = (L', Inr fs))"
proof -
  have read: "read_all (el_file M) = Inr (map norm_event (el_events M))" if "ledger_reach h M" for M
    using ledger_reach_ok[OF that] read_all_events[of "el_events M"] by (simp add: ledger_ok_def)
  let ?ms = "\<lambda>es. map (contribution_from_completion t es) completions @
    map (contribution_from_expansion t es) expansions @ map (contribution_from_merge_resolution t es) merges"
  have a: "record_contributions h clock L now cid (?ms (map norm_event (el_events L))) = (L', r)"
    using assms(2) read[OF assms(1)] by (simp add: record_canonical_contributions_def)
  from record_contributions_grows[OF a assms(1)] obtain new where
    r: "ledger_reach h L'" and n: "el_events L' = el_events L @ new" "\<forall>e \<in> set new. is_type e CONTRIBUTION_STATE_CHANGED"
    and m: "\<forall>fs. r = Inr fs \<longrightarrow> (\<forall>(c, e) \<in> set fs. e \<in> set (el_events L'))" by blast
  have "\<forall>e \<in> set (map norm_event new). is_type e CONTRIBUTION_STATE_CHANGED" using n(2) by (simp add: is_type_def)
  then have m': "?ms (map norm_event (el_events L')) = ?ms (map norm_event (el_events L))"
    using n(1) by (simp add: derivations_ignore)
  have "record_canonical_contributions h clock' L' t completions expansions merges now' cid' = (L', Inr fs)"
    if "r = Inr fs" for fs
  proof -
    have "record_contributions h clock' L' now' cid' (?ms (map norm_event (el_events L))) = (L', Inr fs)"
      using record_contributions_again[OF a[unfolded that] assms(1) ledger_reach_ok[OF r]] m that by blast
    then show ?thesis by (simp only: record_canonical_contributions_def read[OF r] sum.case m')
  qed
  with r n show ?thesis by blast
qed

section \<open>A recording at work\<close>

definition attempt_draft :: event_draft where
  "attempt_draft =
     \<lparr>dr_event_type = Known ATTEMPT_STATE_CHANGED, dr_object_type = ''Attempt'', dr_object_id = ''a'',
      dr_payload = [(''attempt'', JObj [(''client_id'', JStr ''c'')])], dr_idempotency_key = ''k'',
      dr_task_id = Some ''t'', dr_actor = None, dr_correlation_id = None, dr_causation_event_id = None,
      dr_occurred_at = Some ''now''\<rparr>"

definition merge_draft :: event_draft where
  "merge_draft = attempt_draft\<lparr>dr_event_type := Known MERGE_RECORDED,
     dr_payload := [(''merge_record'', JObj
       [(''merge_unit_id'', JStr ''u''), (''canonical_selection_id'', JStr ''s''), (''selected_attempt_id'', JStr ''a''),
        (''canonical_event_seq'', JInt 3), (''selected_verification_report_id'', JStr ''v''),
        (''selected_verification_event_seq'', JInt 2), (''merge_record_id'', JStr ''m'')])]\<rparr>"

definition merge_batch :: batch_view where
  "merge_batch = \<lparr>bt_batch_id = Some ''b'',
     bt_events =
       [draft_event id ''now'' 4 None merge_draft (Some (''b'', 1, 2)),
        draft_event id ''now'' 5 None (merge_draft\<lparr>dr_event_type := Known EXPECTED_OUTPUT_RESOLVED\<rparr>) (Some (''b'', 2, 2))],
     bt_task_expanded_visible = False\<rparr>"

lemma contributions_recorded_once_witness:
  "\<exists>L L' fs. ledger_reach id L \<and>
     record_canonical_contributions id ''now'' L ''t'' [] [] [merge_batch] ''now'' ''corr'' = (L', Inr fs) \<and> length fs = 1 \<and>
     record_canonical_contributions id ''later'' L' ''t'' [] [] [merge_batch] ''later'' ''corr2'' = (L', Inr fs)"
proof -
  have w: "wf_draft attempt_draft" by (simp add: wf_draft_def attempt_draft_def wf_obj_def)
  obtain L e where a: "append_event id ''now'' empty_ledger attempt_draft = Inr (L, e)" "el_events L = [e]"
    "e = draft_event id ''now'' 1 None attempt_draft None"
    by (simp add: append_event_def empty_ledger_def Let_def)
  have L: "ledger_reach id L" by (rule ledger_append[OF empty_reach w a(1)])
  have f: "read_all (el_file L) = Inr [norm_event e]"
    using ledger_reach_ok[OF L] read_all_events[of "el_events L"] a(2) by (simp add: ledger_ok_def)
  have "source_client_id [norm_event e] ''a'' = Inr ''c''"
    by (simp add: a(3) source_client_id_def attempt_client_def keep_some_def norm_event_def sort_obj_def is_type_def
        draft_event_def finalize_event_def attempt_draft_def jget_def dict_default_def)
  moreover have "validated_batch_events merge_batch ''merge_resolution_batch'' = Inr (''b'', bt_events merge_batch)"
    by (simp add: validated_batch_events_def merge_batch_def)
  moreover have "length (bt_events merge_batch) = 2" "is_type (hd (bt_events merge_batch)) MERGE_RECORDED"
    "list_all (\<lambda>e. is_type e EXPECTED_OUTPUT_RESOLVED) (tl (bt_events merge_batch))"
    "ev_payload (hd (bt_events merge_batch)) = dr_payload merge_draft"
    "ev_occurred_at (hd (bt_events merge_batch)) = ''now''" "ev_event_seq (hd (bt_events merge_batch)) = 4"
    by (simp_all add: merge_batch_def merge_draft_def attempt_draft_def is_type_def draft_event_def finalize_event_def or_str_def)
  ultimately obtain c s where c: "contribution_from_merge_resolution ''t'' [norm_event e] merge_batch = Inr (c, s)"
    "mk_contribution c = Inr c"
    by (simp add: contribution_from_merge_resolution_def Let_def list_ex_iff list_all_iff merge_draft_def jget_def
        dict_default_def required_string_def jitem_def mk_contribution_def check_schema_def
        require_non_empty_def require_positive_def contribution_kinds_def or_empty_def contribution_id_of_def)
  have "dict_get (el_by_key L) (dr_idempotency_key (creation_draft c s ''now'' ''corr'')) = None"
    using a(1) by (auto simp: append_event_def empty_ledger_def Let_def attempt_draft_def creation_draft_def)
  moreover have "jget (dr_payload (creation_draft c s ''now'' ''corr'')) ''contribution'' = JObj (co_to_dict c)"
    by (simp add: creation_draft_def jget_def dict_default_def)
  ultimately have "\<exists>L' fs. record_canonical_contributions id ''now'' L ''t'' [] [] [merge_batch] ''now'' ''corr''
    = (L', Inr fs) \<and> length fs = 1"
    by (simp add: record_canonical_contributions_def f c(1) append_creation_event_def append_event_def Let_def
        draft_event_def finalize_event_def co_from_to_dict[OF c(2)])
  then obtain L' fs where r: "record_canonical_contributions id ''now'' L ''t'' [] [] [merge_batch] ''now'' ''corr''
    = (L', Inr fs)" "length fs = 1" by blast
  from contributions_recorded_once[OF L r(1)] L r show ?thesis by blast
qed

end
