(* ===== verification/Core_Verification.thy ===== *)
theory Core_Verification
  imports Core_State_Machines
begin

text \<open>
  \<open>core/verification.py\<close>: verification reports with their six layers, and the selection of the
  canonical output bundle. The lemmas say exactly when a report is eligible and which report the
  selection picks. The hash function \<open>h\<close> is an argument of the definitions that digest.
\<close>

definition required_layers :: "string list" where
  "required_layers =
     [''schema_check'', ''artifact_integrity_check'', ''required_output_coverage_check'',
      ''evidence_reference_check'', ''plugin_domain_check'', ''audit_check'']"

definition allowed_statuses :: "string list" where
  "allowed_statuses = [''passed'', ''accepted'', ''rejected'', ''error'']"

definition allowed_layer_statuses :: "string list" where
  "allowed_layer_statuses = [''passed'', ''rejected'', ''error'', ''skipped'']"

section \<open>Reports\<close>

record verification_report =
  vr_verification_report_id :: string
  vr_task_id :: string
  vr_unit_id :: string
  vr_attempt_id :: string
  vr_submission_id :: string
  vr_submission_event_seq :: int
  vr_candidate_output_bundle_digest :: string
  vr_candidate_output_refs :: "(string, artifact_ref) dict"
  vr_required_output_names :: "string list"
  vr_output_contract_id :: string
  vr_validator_policy_id :: string
  vr_plugin_id :: string
  vr_plugin_version :: string
  vr_plugin_descriptor_digest :: string
  vr_status :: string
  vr_eligible_for_canonical :: bool
  vr_layer_results :: jobj
  vr_failure_summary :: "jobj option"
  vr_verification_environment :: jobj
  vr_verifier :: jobj
  vr_started_at :: string
  vr_completed_at :: string
  vr_metadata :: "jobj option"
  vr_schema_version :: string

definition require_schema_version :: "string \<Rightarrow> string \<Rightarrow> unit res" where
  "require_schema_version actual expected =
     raise_if (actual \<noteq> expected)
       (ValueError (''invalid schema_version: expected '' @ expected @ '', got '' @ actual))"

text \<open>The text of a status in an error message, for the scalars a status can be.\<close>

fun status_text :: "json \<Rightarrow> string" where
  "status_text (JStr s) = s"
| "status_text JNull = ''None''"
| "status_text (JBool b) = (if b then ''True'' else ''False'')"
| "status_text j = dumps j"

definition check_layer :: "jobj \<Rightarrow> string \<Rightarrow> unit res" where
  "check_layer layer_results name =
     (case dict_get layer_results name of
        None \<Rightarrow> Inl (ValueError (''verification layer missing required layer: '' @ name))
      | Some (JObj layer) \<Rightarrow>
          bindE (in_str_keys (jget layer ''status'') allowed_layer_statuses) (\<lambda>ok.
          require ok (ValueError (''invalid verification layer status for '' @ name @ '': ''
            @ status_text (jget layer ''status''))))
      | Some _ \<Rightarrow> Inl (ValueError (''verification layer must be an object: '' @ name)))"

definition validate_report_shape :: "string \<Rightarrow> jobj \<Rightarrow> unit res" where
  "validate_report_shape status layer_results =
     seqE (require (status \<in> set allowed_statuses) (ValueError (''invalid verification report status: '' @ status)))
     (checks (map (check_layer layer_results) required_layers))"

definition layer_passed :: "jobj \<Rightarrow> string \<Rightarrow> bool" where
  "layer_passed layer_results name =
     (case dict_get layer_results name of
        Some (JObj layer) \<Rightarrow> jget layer ''status'' = JStr ''passed''
      | _ \<Rightarrow> False)"

definition derive_eligible :: "string \<Rightarrow> jobj \<Rightarrow> bool" where
  "derive_eligible status layer_results =
     (if status \<noteq> ''passed'' \<and> status \<noteq> ''accepted'' then False
      else list_all (layer_passed layer_results) required_layers)"

text \<open>\<open>__post_init__\<close>: the eligibility is derived, whatever the caller said.\<close>

definition mk_verification_report :: "verification_report \<Rightarrow> verification_report res" where
  "mk_verification_report r =
     seqE (require_schema_version (vr_schema_version r) ''phase4.verification_report.v1'')
     (seqE (validate_report_shape (vr_status r) (vr_layer_results r))
     (let derived = derive_eligible (vr_status r) (vr_layer_results r) in
      seqE (raise_if (vr_eligible_for_canonical r \<and> \<not> derived)
        (ValueError ''eligible_for_canonical must be derived from passed layers''))
      (Inr (r\<lparr>vr_eligible_for_canonical := derived\<rparr>))))"

definition vr_to_dict :: "verification_report \<Rightarrow> jobj" where
  "vr_to_dict x =
     [(''schema_version'', JStr (vr_schema_version x)),
      (''verification_report_id'', JStr (vr_verification_report_id x)),
      (''task_id'', JStr (vr_task_id x)),
      (''unit_id'', JStr (vr_unit_id x)),
      (''attempt_id'', JStr (vr_attempt_id x)),
      (''submission_id'', JStr (vr_submission_id x)),
      (''submission_event_seq'', JInt (vr_submission_event_seq x)),
      (''candidate_output_bundle_digest'', JStr (vr_candidate_output_bundle_digest x)),
      (''candidate_output_refs'', refs_json (vr_candidate_output_refs x)),
      (''required_output_names'', JArr (map JStr (vr_required_output_names x))),
      (''output_contract_id'', JStr (vr_output_contract_id x)),
      (''validator_policy_id'', JStr (vr_validator_policy_id x)),
      (''plugin_id'', JStr (vr_plugin_id x)),
      (''plugin_version'', JStr (vr_plugin_version x)),
      (''plugin_descriptor_digest'', JStr (vr_plugin_descriptor_digest x)),
      (''status'', JStr (vr_status x)),
      (''eligible_for_canonical'', JBool (vr_eligible_for_canonical x)),
      (''layer_results'', JObj (vr_layer_results x)),
      (''failure_summary'', opt_obj (vr_failure_summary x)),
      (''verification_environment'', JObj (vr_verification_environment x)),
      (''verifier'', JObj (vr_verifier x)),
      (''started_at'', JStr (vr_started_at x)),
      (''completed_at'', JStr (vr_completed_at x)),
      (''metadata'', JObj (or_empty (vr_metadata x)))]"

section \<open>Layers\<close>

definition mk_layer :: "string \<Rightarrow> string \<Rightarrow> string \<Rightarrow> string list \<Rightarrow> json" where
  "mk_layer status reason_code summary evidence =
     JObj [(''status'', JStr status), (''reason_code'', JStr reason_code), (''summary'', JStr summary),
           (''evidence_refs'', JArr (map JStr evidence)), (''checked_at'', JNull)]"

definition required_outputs_layer :: "(string, artifact_ref) dict \<Rightarrow> string list \<Rightarrow> json" where
  "required_outputs_layer refs required =
     (let missing = filter (\<lambda>name. \<not> dict_has refs name) required in
      if missing \<noteq> []
      then mk_layer ''rejected'' ''missing_required_output'' (''missing required outputs: '' @ join '', '' missing) []
      else mk_layer ''passed'' ''required_outputs_present'' ''required outputs present'' [])"

fun artifact_integrity_layer :: "(string, artifact_ref) dict \<Rightarrow> (string, string) dict \<Rightarrow> json" where
  "artifact_integrity_layer [] expected =
     mk_layer ''passed'' ''artifact_digests_match'' ''artifact digests match expected values'' []"
| "artifact_integrity_layer ((output_name, ref) # refs) expected =
     (case dict_get expected output_name of
        Some e \<Rightarrow>
          if e \<noteq> ar_content_hash ref
          then mk_layer ''rejected'' ''artifact_digest_mismatch''
                 (''artifact digest mismatch for output '' @ output_name) [ar_artifact_id ref]
          else artifact_integrity_layer refs expected
      | None \<Rightarrow> artifact_integrity_layer refs expected)"

definition evidence_layer :: "string list \<Rightarrow> string list \<Rightarrow> json" where
  "evidence_layer required available =
     (let missing = filter (\<lambda>ref_id. ref_id \<notin> set available) required in
      if missing \<noteq> []
      then mk_layer ''rejected'' ''missing_evidence_ref'' (''missing evidence refs: '' @ join '', '' missing) missing
      else mk_layer ''passed'' ''evidence_refs_present'' ''required evidence refs are present'' [])"

text \<open>\<open>d.get(k, default)\<close> on a JSON object, and on a layer that need not exist.\<close>

definition jget_or :: "jobj \<Rightarrow> string \<Rightarrow> json \<Rightarrow> json" where
  "jget_or d k dflt = (case map_of d k of None \<Rightarrow> dflt | Some v \<Rightarrow> v)"

definition layer_of :: "jobj \<Rightarrow> string \<Rightarrow> jobj" where
  "layer_of layer_results name = (case dict_get layer_results name of Some (JObj l) \<Rightarrow> l | _ \<Rightarrow> [])"

fun first_failed_layer :: "jobj \<Rightarrow> string list \<Rightarrow> jobj option" where
  "first_failed_layer layer_results [] = None"
| "first_failed_layer layer_results (name # names) =
     (let layer = layer_of layer_results name in
      if jget layer ''status'' \<noteq> JStr ''passed''
      then Some [(''failure_kind'', jget_or layer ''reason_code'' (JStr ''verification_failed'')),
                 (''failed_layer'', JStr name),
                 (''message'', jget_or layer ''summary'' (JStr ''verification layer failed'')),
                 (''evidence_refs'', jget_or layer ''evidence_refs'' (JArr []))]
      else first_failed_layer layer_results names)"

definition first_failure_summary :: "jobj \<Rightarrow> string \<Rightarrow> jobj option" where
  "first_failure_summary layer_results status =
     (if status = ''error''
      then Some [(''failure_kind'', JStr ''verification_error''), (''failed_layer'', JNull),
                 (''message'', JStr ''verification status is error''), (''evidence_refs'', JArr [])]
      else first_failed_layer layer_results required_layers)"

text \<open>The keyword arguments of \<open>build_verification_report\<close>.\<close>

record report_input =
  ri_verification_report_id :: string
  ri_task_id :: string
  ri_unit_id :: string
  ri_attempt_id :: string
  ri_submission_id :: string
  ri_submission_event_seq :: int
  ri_candidate_output_refs :: "(string, artifact_ref) dict"
  ri_required_output_names :: "string list"
  ri_output_contract_id :: string
  ri_validator_policy_id :: string
  ri_plugin_id :: string
  ri_plugin_version :: string
  ri_plugin_descriptor_digest :: string
  ri_status :: string
  ri_expected_artifact_hashes :: "(string, string) dict"
  ri_required_evidence_ref_ids :: "string list"
  ri_available_evidence_ref_ids :: "string list"
  ri_plugin_domain_status :: string
  ri_audit_status :: string
  ri_verification_environment :: jobj
  ri_verifier :: jobj
  ri_started_at :: string
  ri_completed_at :: string
  ri_metadata :: "jobj option"

definition report_layers :: "report_input \<Rightarrow> jobj" where
  "report_layers i =
     [(''schema_check'', mk_layer ''passed'' ''schema_present'' ''candidate output structure checked'' []),
      (''artifact_integrity_check'',
        artifact_integrity_layer (ri_candidate_output_refs i) (ri_expected_artifact_hashes i)),
      (''required_output_coverage_check'',
        required_outputs_layer (ri_candidate_output_refs i) (ri_required_output_names i)),
      (''evidence_reference_check'',
        evidence_layer (ri_required_evidence_ref_ids i) (ri_available_evidence_ref_ids i)),
      (''plugin_domain_check'',
        mk_layer (ri_plugin_domain_status i) ''plugin_domain_result''
          (''plugin domain check '' @ ri_plugin_domain_status i) []),
      (''audit_check'',
        mk_layer (ri_audit_status i) ''audit_result'' (''audit check '' @ ri_audit_status i) [])]"

definition build_verification_report :: "hash \<Rightarrow> report_input \<Rightarrow> verification_report res" where
  "build_verification_report h i =
     (let layer_results = report_layers i;
          failure_summary = first_failure_summary layer_results (ri_status i)
      in mk_verification_report
        \<lparr>vr_verification_report_id = ri_verification_report_id i, vr_task_id = ri_task_id i,
         vr_unit_id = ri_unit_id i, vr_attempt_id = ri_attempt_id i, vr_submission_id = ri_submission_id i,
         vr_submission_event_seq = ri_submission_event_seq i,
         vr_candidate_output_bundle_digest = digest_json h (refs_json (ri_candidate_output_refs i)),
         vr_candidate_output_refs = ri_candidate_output_refs i,
         vr_required_output_names = ri_required_output_names i,
         vr_output_contract_id = ri_output_contract_id i, vr_validator_policy_id = ri_validator_policy_id i,
         vr_plugin_id = ri_plugin_id i, vr_plugin_version = ri_plugin_version i,
         vr_plugin_descriptor_digest = ri_plugin_descriptor_digest i, vr_status = ri_status i,
         vr_eligible_for_canonical = False, vr_layer_results = layer_results,
         vr_failure_summary = failure_summary,
         vr_verification_environment = ri_verification_environment i, vr_verifier = ri_verifier i,
         vr_started_at = ri_started_at i, vr_completed_at = ri_completed_at i,
         vr_metadata = Some (or_empty (ri_metadata i)),
         vr_schema_version = ''phase4.verification_report.v1''\<rparr>)"

section \<open>Canonical selection\<close>

record canonical_selection =
  cs_canonical_selection_id :: string
  cs_task_id :: string
  cs_unit_id :: string
  cs_selection_policy :: string
  cs_selection_policy_version :: string
  cs_selected_verification_report_id :: string
  cs_selected_verification_event_seq :: int
  cs_selected_submission_id :: string
  cs_selected_submission_event_seq :: int
  cs_selected_attempt_id :: string
  cs_canonical_output_bundle_digest :: string
  cs_canonical_output_refs :: "(string, artifact_ref) dict"
  cs_eligible_report_ids_considered :: "string list"
  cs_selection_reason :: string
  cs_bound_at :: string
  cs_metadata :: "jobj option"
  cs_schema_version :: string

definition mk_canonical_selection :: "canonical_selection \<Rightarrow> canonical_selection res" where
  "mk_canonical_selection s =
     seqE (require_schema_version (cs_schema_version s) ''phase4.canonical_selection.v1'') (Inr s)"

definition cs_to_dict :: "canonical_selection \<Rightarrow> jobj" where
  "cs_to_dict x =
     [(''schema_version'', JStr (cs_schema_version x)),
      (''canonical_selection_id'', JStr (cs_canonical_selection_id x)),
      (''task_id'', JStr (cs_task_id x)),
      (''unit_id'', JStr (cs_unit_id x)),
      (''selection_policy'', JStr (cs_selection_policy x)),
      (''selection_policy_version'', JStr (cs_selection_policy_version x)),
      (''selected_verification_report_id'', JStr (cs_selected_verification_report_id x)),
      (''selected_verification_event_seq'', JInt (cs_selected_verification_event_seq x)),
      (''selected_submission_id'', JStr (cs_selected_submission_id x)),
      (''selected_submission_event_seq'', JInt (cs_selected_submission_event_seq x)),
      (''selected_attempt_id'', JStr (cs_selected_attempt_id x)),
      (''canonical_output_bundle_digest'', JStr (cs_canonical_output_bundle_digest x)),
      (''canonical_output_refs'', refs_json (cs_canonical_output_refs x)),
      (''eligible_report_ids_considered'', JArr (map JStr (cs_eligible_report_ids_considered x))),
      (''selection_reason'', JStr (cs_selection_reason x)),
      (''bound_at'', JStr (cs_bound_at x)),
      (''metadata'', JObj (or_empty (cs_metadata x)))]"

definition is_candidate :: "string \<Rightarrow> string \<Rightarrow> verification_report \<Rightarrow> bool" where
  "is_candidate task_id unit_id r \<longleftrightarrow>
     vr_task_id r = task_id \<and> vr_unit_id r = unit_id \<and> vr_eligible_for_canonical r \<and>
     (vr_status r = ''passed'' \<or> vr_status r = ''accepted'')"

definition select_first_verified_bundle ::
  "string \<Rightarrow> string \<Rightarrow> (int \<times> verification_report) list \<Rightarrow> string \<Rightarrow> string option \<Rightarrow> jobj option
    \<Rightarrow> canonical_selection res" where
  "select_first_verified_bundle task_id unit_id reports bound_at selection_id metadata =
     (case sort_key fst (filter (\<lambda>(seq, r). is_candidate task_id unit_id r) reports) of
        [] \<Rightarrow> Inl (ValueError ''no eligible verification reports'')
      | (seq, r) # rest \<Rightarrow>
        mk_canonical_selection
        \<lparr>cs_canonical_selection_id =
           or_str selection_id (''canonical_selection:'' @ task_id @ '':'' @ unit_id),
         cs_task_id = task_id, cs_unit_id = unit_id, cs_selection_policy = ''first_verified_bundle'',
         cs_selection_policy_version = ''v1'',
         cs_selected_verification_report_id = vr_verification_report_id r,
         cs_selected_verification_event_seq = seq, cs_selected_submission_id = vr_submission_id r,
         cs_selected_submission_event_seq = vr_submission_event_seq r,
         cs_selected_attempt_id = vr_attempt_id r,
         cs_canonical_output_bundle_digest = vr_candidate_output_bundle_digest r,
         cs_canonical_output_refs = vr_candidate_output_refs r,
         cs_eligible_report_ids_considered = map (\<lambda>(_, q). vr_verification_report_id q) ((seq, r) # rest),
         cs_selection_reason = ''earliest_eligible_verification_event_seq'', cs_bound_at = bound_at,
         cs_metadata = Some (or_empty metadata), cs_schema_version = ''phase4.canonical_selection.v1''\<rparr>)"

section \<open>When a report is eligible\<close>

lemma mk_layer_status [simp]:
  "(case mk_layer st rc sm ev of JObj l \<Rightarrow> f l | _ \<Rightarrow> g) = f
     [(''status'', JStr st), (''reason_code'', JStr rc), (''summary'', JStr sm),
      (''evidence_refs'', JArr (map JStr ev)), (''checked_at'', JNull)]"
  by (simp add: mk_layer_def)

definition passes :: "json \<Rightarrow> bool" where
  "passes layer \<longleftrightarrow> (\<exists>l. layer = JObj l \<and> jget l ''status'' = JStr ''passed'')"

lemma passes_mk [simp]: "passes (mk_layer st rc sm ev) \<longleftrightarrow> st = ''passed''"
  by (auto simp: passes_def mk_layer_def jget_def)

lemma integrity_passes:
  "passes (artifact_integrity_layer refs expected) \<longleftrightarrow>
     (\<forall>(name, ref) \<in> set refs. \<forall>e. dict_get expected name = Some e \<longrightarrow> e = ar_content_hash ref)"
  by (induction refs expected rule: artifact_integrity_layer.induct) (auto split: option.splits)

lemma outputs_pass: "passes (required_outputs_layer refs required) \<longleftrightarrow> (\<forall>n \<in> set required. dict_has refs n)"
  by (auto simp: required_outputs_layer_def Let_def filter_empty_conv)

lemma evidence_passes: "passes (evidence_layer required available) \<longleftrightarrow> set required \<subseteq> set available"
  by (auto simp: evidence_layer_def Let_def filter_empty_conv)

lemma layer_passed_iff: "layer_passed d name \<longleftrightarrow> (\<exists>l. dict_get d name = Some l \<and> passes l)"
  by (auto simp: layer_passed_def passes_def split: option.splits json.splits)

lemma report_layers_pass:
  "list_all (layer_passed (report_layers i)) required_layers \<longleftrightarrow>
     passes (artifact_integrity_layer (ri_candidate_output_refs i) (ri_expected_artifact_hashes i)) \<and>
     passes (required_outputs_layer (ri_candidate_output_refs i) (ri_required_output_names i)) \<and>
     passes (evidence_layer (ri_required_evidence_ref_ids i) (ri_available_evidence_ref_ids i)) \<and>
     ri_plugin_domain_status i = ''passed'' \<and> ri_audit_status i = ''passed''"
  by (simp add: required_layers_def report_layers_def layer_passed_iff)

text \<open>What the inputs of a report have to be for it to be eligible.\<close>

definition inputs_pass :: "report_input \<Rightarrow> bool" where
  "inputs_pass i \<longleftrightarrow>
     (ri_status i = ''passed'' \<or> ri_status i = ''accepted'') \<and>
     ri_plugin_domain_status i = ''passed'' \<and> ri_audit_status i = ''passed'' \<and>
     (\<forall>n \<in> set (ri_required_output_names i). dict_has (ri_candidate_output_refs i) n) \<and>
     (\<forall>(n, ref) \<in> set (ri_candidate_output_refs i).
        \<forall>e. dict_get (ri_expected_artifact_hashes i) n = Some e \<longrightarrow> e = ar_content_hash ref) \<and>
     set (ri_required_evidence_ref_ids i) \<subseteq> set (ri_available_evidence_ref_ids i)"

lemma derive_report_eligible: "derive_eligible (ri_status i) (report_layers i) \<longleftrightarrow> inputs_pass i"
  by (simp add: derive_eligible_def report_layers_pass inputs_pass_def integrity_passes outputs_pass evidence_passes)
    auto

lemma build_report_fields:
  assumes "build_verification_report h i = Inr r"
  shows "vr_eligible_for_canonical r = derive_eligible (ri_status i) (report_layers i)"
    "vr_status r = ri_status i" "vr_failure_summary r = first_failure_summary (report_layers i) (ri_status i)"
    "vr_layer_results r = report_layers i"
    "vr_candidate_output_bundle_digest r = digest_json h (refs_json (vr_candidate_output_refs r))"
  using assms by (auto simp: build_verification_report_def mk_verification_report_def res_simps Let_def)

lemma no_failure_iff:
  "first_failed_layer d names = None \<longleftrightarrow> list_all (layer_passed d) names"
proof (induction names)
  case (Cons n names)
  have "jget (layer_of d n) ''status'' = JStr ''passed'' \<longleftrightarrow> layer_passed d n"
    by (auto simp: layer_of_def layer_passed_def jget_def split: option.splits json.splits)
  then show ?case using Cons by (simp add: Let_def)
qed simp

text \<open>
  A built report is eligible exactly when its status is passed or accepted,
  the plugin and the audit passed, every required output is present, every expected content hash
  matches and every required evidence reference is available; an eligible report carries no
  failure summary, and a report without failure summary is not eligible only because of its status.
\<close>

theorem report_eligibility:
  assumes "build_verification_report h i = Inr r"
  shows "(vr_eligible_for_canonical r \<longleftrightarrow> inputs_pass i) \<and>
    (vr_eligible_for_canonical r \<longleftrightarrow> vr_failure_summary r = None \<and> vr_status r \<in> {''passed'', ''accepted''})"
proof -
  have "vr_failure_summary r = None \<longleftrightarrow> ri_status i \<noteq> ''error'' \<and> list_all (layer_passed (report_layers i)) required_layers"
    using build_report_fields(3)[OF assms] by (simp add: first_failure_summary_def no_failure_iff)
  then show ?thesis
    using build_report_fields(1,2)[OF assms] derive_report_eligible[of i]
    by (auto simp: derive_eligible_def split: if_splits)
qed

section \<open>What the selection picks\<close>

lemma sorted_head: "sort_key f xs = y # ys \<Longrightarrow> y \<in> set xs \<and> (\<forall>x \<in> set xs. f y \<le> f x)"
proof -
  assume e: "sort_key f xs = y # ys"
  then have "sorted (map f (y # ys))" by (metis sorted_sort_key)
  moreover have "set (y # ys) = set xs" using e by (metis set_sort)
  ultimately show "y \<in> set xs \<and> (\<forall>x \<in> set xs. f y \<le> f x)" by (metis imageE list.set_intros(1) set_ConsD
    sorted_simps(2) list.simps(9) list.set_map image_eqI order_refl)
qed

text \<open>
  The selection succeeds exactly when some report of the unit is an eligible
  candidate, and then it binds a candidate of the smallest verification event sequence number,
  with the outputs and the digest of that report; all candidates are listed as considered.
\<close>

theorem selection_is_first:
  assumes "select_first_verified_bundle task_id unit_id reports bound_at sid meta = sel"
  shows "(is_ok sel \<longleftrightarrow> (\<exists>p \<in> set reports. is_candidate task_id unit_id (snd p))) \<and>
    (\<forall>s. sel = Inr s \<longrightarrow> (\<exists>seq r. (seq, r) \<in> set reports \<and> is_candidate task_id unit_id r \<and>
       cs_selected_verification_event_seq s = seq \<and>
       (\<forall>(seq', r') \<in> set reports. is_candidate task_id unit_id r' \<longrightarrow> seq \<le> seq') \<and>
       cs_canonical_output_refs s = vr_candidate_output_refs r \<and>
       cs_canonical_output_bundle_digest s = vr_candidate_output_bundle_digest r \<and>
       set (cs_eligible_report_ids_considered s) =
         {vr_verification_report_id r' |seq' r'. (seq', r') \<in> set reports \<and> is_candidate task_id unit_id r'}))"
proof -
  let ?c = "filter (\<lambda>(seq, r). is_candidate task_id unit_id r) reports"
  show ?thesis
  proof (cases "sort_key fst ?c")
    case Nil
    then have "set ?c = {}" by (metis set_empty set_sort)
    then show ?thesis using assms Nil by (auto simp: select_first_verified_bundle_def)
  next
    case (Cons p rest)
    obtain seq r where p: "p = (seq, r)" by fastforce
    note h = sorted_head[OF Cons]
    have mem: "set (p # rest) = set ?c" using Cons by (metis set_sort)
    have "sel = mk_canonical_selection
        \<lparr>cs_canonical_selection_id = or_str sid (''canonical_selection:'' @ task_id @ '':'' @ unit_id),
         cs_task_id = task_id, cs_unit_id = unit_id, cs_selection_policy = ''first_verified_bundle'',
         cs_selection_policy_version = ''v1'',
         cs_selected_verification_report_id = vr_verification_report_id r,
         cs_selected_verification_event_seq = seq, cs_selected_submission_id = vr_submission_id r,
         cs_selected_submission_event_seq = vr_submission_event_seq r,
         cs_selected_attempt_id = vr_attempt_id r,
         cs_canonical_output_bundle_digest = vr_candidate_output_bundle_digest r,
         cs_canonical_output_refs = vr_candidate_output_refs r,
         cs_eligible_report_ids_considered = map (\<lambda>(_, q). vr_verification_report_id q) (p # rest),
         cs_selection_reason = ''earliest_eligible_verification_event_seq'', cs_bound_at = bound_at,
         cs_metadata = Some (or_empty meta), cs_schema_version = ''phase4.canonical_selection.v1''\<rparr>"
      (is "_ = mk_canonical_selection ?s")
      using assms Cons by (simp add: select_first_verified_bundle_def p)
    then have s: "sel = Inr ?s" by (simp add: mk_canonical_selection_def require_schema_version_def)
    have ids: "set (map (\<lambda>(_, q). vr_verification_report_id q) (p # rest)) =
        {vr_verification_report_id r' |seq' r'. (seq', r') \<in> set reports \<and> is_candidate task_id unit_id r'}"
      unfolding set_map mem by (auto simp: image_iff)
    have "(seq, r) \<in> set reports" "is_candidate task_id unit_id r" using h p by auto
    moreover have "\<forall>(seq', r') \<in> set reports. is_candidate task_id unit_id r' \<longrightarrow> seq \<le> seq'"
      using h p by auto
    moreover have "\<exists>p \<in> set reports. is_candidate task_id unit_id (snd p)"
      using h p by (intro bexI[of _ "(seq, r)"]) auto
    ultimately show ?thesis using s ids by (auto simp del: list.map)
  qed
qed

section \<open>A report at work\<close>

definition sample_report_input :: report_input where
  "sample_report_input =
     \<lparr>ri_verification_report_id = ''report_1'', ri_task_id = ''task_1'', ri_unit_id = ''u1'',
      ri_attempt_id = ''attempt_1'', ri_submission_id = ''submission_1'', ri_submission_event_seq = 4,
      ri_candidate_output_refs = [], ri_required_output_names = [], ri_output_contract_id = ''c'',
      ri_validator_policy_id = ''v'', ri_plugin_id = ''p'', ri_plugin_version = ''1'',
      ri_plugin_descriptor_digest = ''d'', ri_status = ''passed'', ri_expected_artifact_hashes = [],
      ri_required_evidence_ref_ids = [], ri_available_evidence_ref_ids = [], ri_plugin_domain_status = ''passed'',
      ri_audit_status = ''passed'', ri_verification_environment = [], ri_verifier = [], ri_started_at = ''t'',
      ri_completed_at = ''t'', ri_metadata = None\<rparr>"

lemma sample_report_ok: "\<exists>r. build_verification_report id sample_report_input = Inr r \<and>
    vr_task_id r = ''task_1'' \<and> vr_unit_id r = ''u1'' \<and> vr_status r = ''passed''"
  by (simp add: build_verification_report_def mk_verification_report_def sample_report_input_def Let_def
      require_schema_version_def validate_report_shape_def allowed_statuses_def required_layers_def check_layer_def
      report_layers_def mk_layer_def required_outputs_layer_def evidence_layer_def in_str_keys_def jget_def
      allowed_layer_statuses_def)

lemma report_eligibility_witness:
  "\<exists>r. build_verification_report id sample_report_input = Inr r \<and> vr_eligible_for_canonical r"
proof -
  obtain r where r: "build_verification_report id sample_report_input = Inr r" using sample_report_ok by blast
  have "inputs_pass sample_report_input" by (simp add: inputs_pass_def sample_report_input_def)
  with report_eligibility[OF r] r show ?thesis by blast
qed

lemma selection_is_first_witness:
  "\<exists>r s. build_verification_report id sample_report_input = Inr r \<and>
     select_first_verified_bundle ''task_1'' ''u1'' [(9, r), (5, r)] ''now'' None None = Inr s \<and>
     cs_selected_verification_event_seq s = 5"
proof -
  obtain r where r: "build_verification_report id sample_report_input = Inr r" "vr_task_id r = ''task_1''"
    "vr_unit_id r = ''u1''" "vr_status r = ''passed''"
    using sample_report_ok by blast
  have "inputs_pass sample_report_input" by (simp add: inputs_pass_def sample_report_input_def)
  then have "vr_eligible_for_canonical r" using build_report_fields(1)[OF r(1)] derive_report_eligible by simp
  then have c: "is_candidate ''task_1'' ''u1'' r" using r by (simp add: is_candidate_def)
  note f = selection_is_first[OF refl, of "''task_1''" "''u1''" "[(9, r), (5, r)]" "''now''" None None]
  then obtain s where "select_first_verified_bundle ''task_1'' ''u1'' [(9, r), (5, r)] ''now'' None None = Inr s"
    using c by (auto simp: is_ok_iff)
  with f c r(1) show ?thesis by fastforce
qed

end
