(* ===== verification/Core_Proposal.thy ===== *)
theory Core_Proposal
  imports Core_Verification Core_Task_Graph
begin

text \<open>
  \<open>core/expansion.py\<close>, the decomposition proposal of a plugin: the validation of its header, children,
  dependency edges, merge slots, expected outputs and promotion guard, its limits, its digest, and
  the initial state of its children. The bodies of a proposal are JSON objects, so a field may hold
  any JSON value; keys are compared by their \<open>hash_key\<close>, and an unhashable one is a \<open>TypeError\<close>.
\<close>

section \<open>Field names\<close>

definition proposal_header_fields :: "string list" where
  "proposal_header_fields =
    [''proposal_id'', ''proposal_schema_version'', ''task_id'', ''parent_unit_id'',
     ''canonical_selection_id'', ''canonical_output_bundle_digest'', ''plugin_id'', ''plugin_version'',
     ''plugin_descriptor_digest'', ''split_strategy_id'', ''split_strategy_params_digest'',
     ''expansion_scope_hash'', ''proposal_digest'', ''created_at'']"

definition child_spec_fields :: "string list" where
  "child_spec_fields =
    [''child_logical_key'', ''unit_type'', ''input_bindings'', ''required_outputs'',
     ''output_contract_refs'', ''validator_policy_id'', ''weight'', ''required_capabilities'',
     ''plugin_payload'']"

definition dependency_edge_fields :: "string list" where
  "dependency_edge_fields =
    [''edge_logical_key'', ''source_child_key'', ''target_child_key'', ''source_output_name'',
     ''target_input_name'', ''relation_type'']"

definition expected_output_fields :: "string list" where
  "expected_output_fields =
    [''output_name'', ''schema_ref'', ''resolution_kind'', ''required'']"

definition merge_slot_fields :: "string list" where
  "merge_slot_fields =
    [''slot_id'', ''child_key'', ''child_output_name'', ''schema_ref'', ''required'', ''missing_policy'']"

definition authoritative_keys :: "string list" where
  "authoritative_keys =
    [''attempt_state'', ''canonical_output_bundle_digest'', ''canonical_output_refs'',
     ''canonical_outputs_by_unit_id'', ''canonical_selection_id'', ''desired_state'',
     ''expected_output_refs'', ''initial_state'', ''merge_readiness'', ''resolution_status'', ''state'',
     ''task_state'']"

section \<open>Shared checks\<close>

definition require_fields :: "jobj \<Rightarrow> string list \<Rightarrow> string \<Rightarrow> unit res" where
  "require_fields data names ctx =
     checks (map (\<lambda>f. require (dict_has data f) (ValueError (ctx @ '' missing required field: '' @ f))) names)"

definition no_authoritative_state :: "jobj \<Rightarrow> unit res" where
  "no_authoritative_state payload =
     (let blocked = sort (filter (\<lambda>k. dict_has payload k) authoritative_keys)
      in raise_if (blocked \<noteq> [])
           (ValueError (''plugin_payload must not specify state or output resolution authority: '' @ join '', '' blocked)))"

text \<open>The key of a body: not empty, hashable, and not among those \<open>seen\<close>.\<close>

definition fresh_key :: "json \<Rightarrow> py_error \<Rightarrow> string \<Rightarrow> json list \<Rightarrow> json res" where
  "fresh_key key missing duplicate seen =
     (if \<not> truthy key then Inl missing
      else bindE (hash_key key) (\<lambda>k.
        if k \<in> set seen then Inl (ValueError (duplicate @ status_text key)) else Inr k))"

text \<open>\<open>set(spec.get("required_outputs", []))\<close>, and \<open>x in s\<close> for such a set.\<close>

definition output_set :: "jobj \<Rightarrow> json list res" where
  "output_set spec =
     (case dict_get spec ''required_outputs'' of
        None \<Rightarrow> Inr []
      | Some (JArr xs) \<Rightarrow> mapE hash_key xs
      | Some v \<Rightarrow> Inl (TypeError ''required_outputs''))"

definition in_keys :: "json \<Rightarrow> json list \<Rightarrow> bool res" where
  "in_keys v ks = bindE (hash_key v) (\<lambda>k. Inr (k \<in> set ks))"

text \<open>\<open>{body[field]: body for body in bodies}\<close>.\<close>

definition by_key :: "string \<Rightarrow> jobj list \<Rightarrow> (json, jobj) dict res" where
  "by_key field bodies =
     bindE (mapE (\<lambda>b. bindE (jitem b field) (\<lambda>v. bindE (hash_key v) (\<lambda>k. Inr (k, b)))) bodies)
       (\<lambda>ps. Inr (dict_update [] ps))"

text \<open>\<open>value <= 0\<close>; a float is its text.\<close>

fun not_positive :: "json \<Rightarrow> bool res" where
  "not_positive (JInt i) = Inr (i \<le> 0)"
| "not_positive (JBool b) = Inr (\<not> b)"
| "not_positive (JFloat t) = Inr (float_zero t \<or> (t \<noteq> [] \<and> hd t = CHR ''-''))"
| "not_positive _ = Inl (TypeError ''<= not supported between instances'')"

section \<open>The parts of a proposal\<close>

definition validate_proposal_header :: "jobj \<Rightarrow> unit res" where
  "validate_proposal_header header =
     seqE (require_fields header proposal_header_fields ''proposal_header'')
     (raise_if (jget header ''proposal_schema_version'' \<noteq> JStr ''phase4.decomposition_proposal.v1'')
       (ValueError ''invalid proposal schema version''))"

text \<open>The declared outputs: a list that is not empty, each with an output contract.\<close>

definition check_required_outputs :: "jobj \<Rightarrow> unit res" where
  "check_required_outputs spec =
     (case jget spec ''required_outputs'' of
        JArr outs \<Rightarrow>
          if outs = [] then Inl (ValueError ''child required_outputs must be a non-empty list'')
          else (case jget spec ''output_contract_refs'' of
                  JObj refs \<Rightarrow>
                    bindE (mapE (\<lambda>out. in_str_keys out (dict_keys refs)) outs) (\<lambda>covered.
                    raise_if (False \<in> set covered)
                      (ValueError ''child output_contract_refs must cover required_outputs''))
                | _ \<Rightarrow> Inl (ValueError ''child output_contract_refs must be an object''))
      | _ \<Rightarrow> Inl (ValueError ''child required_outputs must be a non-empty list''))"

definition check_child_payload :: "jobj \<Rightarrow> unit res" where
  "check_child_payload spec =
     (case jget spec ''plugin_payload'' of
        JObj payload \<Rightarrow> no_authoritative_state payload
      | _ \<Rightarrow> Inl (ValueError ''child plugin_payload must be an object''))"

definition validate_child_spec :: "json list \<Rightarrow> jobj \<Rightarrow> json list res" where
  "validate_child_spec seen spec =
     seqE (require_fields spec child_spec_fields ''child_spec'')
     (bindE (fresh_key (jget spec ''child_logical_key'') (ValueError ''child logical key is required'')
              ''duplicate child logical key: '' seen) (\<lambda>k.
      seqE (checks
        [require (is_jobj (jget spec ''input_bindings'')) (ValueError ''child input_bindings must be an object''),
         check_required_outputs spec,
         require (is_jobj (jget spec ''required_capabilities''))
           (ValueError ''child required_capabilities must be an object''),
         check_child_payload spec,
         bindE (not_positive (jget spec ''weight'')) (\<lambda>bad.
           raise_if bad (ValueError ''child weight must be positive''))])
      (Inr (k # seen))))"

definition validate_child_specs :: "jobj list \<Rightarrow> unit res" where
  "validate_child_specs specs = bindE (foldE validate_child_spec [] specs) (\<lambda>_. Inr ())"

text \<open>The static bindings of the children, as pairs of a child and an input name.\<close>

definition static_inputs :: "jobj \<Rightarrow> (json \<times> json) list res" where
  "static_inputs spec =
     bindE (bindE (jitem spec ''child_logical_key'') hash_key) (\<lambda>k.
     case dict_get spec ''input_bindings'' of
       None \<Rightarrow> Inr []
     | Some (JObj d) \<Rightarrow> Inr (map (\<lambda>n. (k, JStr n)) (dict_keys d))
     | Some v \<Rightarrow> Inl (TypeError ''input_bindings''))"

record edge_state =
  es_keys :: "json list"
  es_inputs :: "(json \<times> json) list"
  es_out :: "(json, json list) dict"

definition validate_edge :: "(json, jobj) dict \<Rightarrow> edge_state \<Rightarrow> jobj \<Rightarrow> edge_state res" where
  "validate_edge specs st edge =
     seqE (require_fields edge dependency_edge_fields ''dependency_edge'')
     (bindE (fresh_key (jget edge ''edge_logical_key'') (ValueError ''dependency edge logical key is required'')
              ''duplicate edge logical key: '' (es_keys st)) (\<lambda>ek.
      if jget edge ''relation_type'' \<noteq> JStr ''depends_on_output''
      then Inl (ValueError ''dependency edge relation_type must be depends_on_output'')
      else
      bindE (hash_key (jget edge ''source_child_key'')) (\<lambda>src.
      case dict_get specs src of
        None \<Rightarrow> Inl (ValueError ''dependency edge source and target must exist'')
      | Some source_spec \<Rightarrow>
        bindE (hash_key (jget edge ''target_child_key'')) (\<lambda>tgt.
        if \<not> dict_has specs tgt then Inl (ValueError ''dependency edge source and target must exist'')
        else
        bindE (output_set source_spec) (\<lambda>outs.
        bindE (in_keys (jget edge ''source_output_name'') outs) (\<lambda>declared.
        if \<not> declared then Inl (ValueError ''dependency edge source output must be declared by source child'')
        else if \<not> truthy (jget edge ''target_input_name'')
        then Inl (ValueError ''dependency edge target_input_name is required'')
        else
        bindE (hash_key (jget edge ''target_input_name'')) (\<lambda>inp.
        if (tgt, inp) \<in> set (es_inputs st) then Inl (ValueError ''duplicate target input binding'')
        else Inr \<lparr>es_keys = ek # es_keys st, es_inputs = (tgt, inp) # es_inputs st,
                  es_out = dict_set src (dict_get_default (es_out st) src [] @ [tgt]) (es_out st)\<rparr>)))))))"

definition validate_dependency_edges :: "jobj list \<Rightarrow> jobj list \<Rightarrow> unit res" where
  "validate_dependency_edges specs edges =
     bindE (by_key ''child_logical_key'' specs) (\<lambda>by.
     bindE (mapE static_inputs specs) (\<lambda>inputs.
     bindE (foldE (validate_edge by)
             \<lparr>es_keys = [], es_inputs = concat inputs, es_out = map (\<lambda>k. (k, [])) (dict_keys by)\<rparr> edges) (\<lambda>st.
     dfs_all (ValueError ''proposal child graph contains a cycle'') (dict_keys (es_out st))
       (\<lambda>k. dict_get_default (es_out st) k []))))"

definition validate_merge_slot :: "(json, jobj) dict \<Rightarrow> json list \<Rightarrow> jobj \<Rightarrow> json list res" where
  "validate_merge_slot specs seen slot =
     seqE (require_fields slot merge_slot_fields ''merge_slot'')
     (bindE (fresh_key (jget slot ''slot_id'') (ValueError ''merge slot_id is required'')
              ''duplicate merge slot: '' seen) (\<lambda>k.
      if jget slot ''required'' \<noteq> JBool True then Inl (ValueError ''Phase 4 merge slots must be required'')
      else if jget slot ''missing_policy'' \<noteq> JStr ''block_merge''
      then Inl (ValueError ''Phase 4 merge slot missing_policy must be block_merge'')
      else
      bindE (hash_key (jget slot ''child_key'')) (\<lambda>child.
      case dict_get specs child of
        None \<Rightarrow> Inl (ValueError ''merge slot child_key must exist'')
      | Some spec \<Rightarrow>
        bindE (output_set spec) (\<lambda>outs.
        bindE (in_keys (jget slot ''child_output_name'') outs) (\<lambda>declared.
        if \<not> declared then Inl (ValueError ''merge slot child output must be declared'')
        else Inr (k # seen))))))"

definition validate_merge_slots :: "jobj list \<Rightarrow> jobj list \<Rightarrow> unit res" where
  "validate_merge_slots specs slots =
     bindE (by_key ''child_logical_key'' specs) (\<lambda>by.
     bindE (foldE (validate_merge_slot by) [] slots) (\<lambda>_. Inr ()))"

definition resolution_kinds :: "string list" where
  "resolution_kinds = [''direct_parent_output'', ''child_output'', ''merge_plan_output'']"

definition validate_expected_output ::
  "(json, jobj) dict \<Rightarrow> json list \<Rightarrow> json list \<Rightarrow> jobj \<Rightarrow> json list res" where
  "validate_expected_output specs slot_ids seen out =
     seqE (require_fields out expected_output_fields ''expected_output'')
     (bindE (hash_key (jget out ''output_name'')) (\<lambda>k.
      if k \<in> set seen
      then Inl (ValueError (''duplicate expected output: '' @ status_text (jget out ''output_name'')))
      else
      bindE (in_str_keys (jget out ''resolution_kind'') resolution_kinds) (\<lambda>known.
      if \<not> known then Inl (ValueError ''invalid expected output resolution_kind'')
      else if \<not> is_jbool (jget out ''required'')
      then Inl (ValueError ''expected output required must be boolean'')
      else if \<not> is_jobj (jget out ''schema_ref'')
      then Inl (ValueError ''expected output schema_ref must be an object'')
      else if jget out ''resolution_kind'' = JStr ''child_output''
      then
        bindE (hash_key (jget out ''child_key'')) (\<lambda>child.
        case dict_get specs child of
          None \<Rightarrow> Inl (ValueError ''expected output child_key must exist'')
        | Some spec \<Rightarrow>
          bindE (output_set spec) (\<lambda>outs.
          bindE (in_keys (jget out ''child_output_name'') outs) (\<lambda>declared.
          if \<not> declared then Inl (ValueError ''expected output child_output_name must be declared'')
          else Inr (k # seen))))
      else if jget out ''resolution_kind'' = JStr ''merge_plan_output''
      then
        (if jget out ''merge_slot_id'' = JNull
         then Inl (ValueError ''expected_output missing required field: merge_slot_id'')
         else
         bindE (in_keys (jget out ''merge_slot_id'') slot_ids) (\<lambda>exists.
         if \<not> exists then Inl (ValueError ''expected output merge_slot_id must exist'')
         else Inr (k # seen)))
      else Inr (k # seen))))"

definition validate_expected_outputs :: "jobj list \<Rightarrow> jobj list \<Rightarrow> jobj list \<Rightarrow> unit res" where
  "validate_expected_outputs specs slots outs =
     (if outs = [] then Inl (ValueError ''expected_outputs must not be empty'')
      else bindE (by_key ''child_logical_key'' specs) (\<lambda>by.
      bindE (mapE (\<lambda>s. bindE (jitem s ''slot_id'') hash_key) slots) (\<lambda>slot_ids.
      bindE (foldE (validate_expected_output by slot_ids) [] outs) (\<lambda>_. Inr ()))))"

definition guard_checks :: "string list" where
  "guard_checks = [''typed_io_checked'', ''independently_schedulable_checked'', ''validator_policy_checked'',
     ''output_contract_checked'', ''no_freeform_thought_checked'', ''max_depth_checked'', ''max_children_checked'']"

definition validate_promotion_guard :: "jobj \<Rightarrow> unit res" where
  "validate_promotion_guard guard =
     checks (map (\<lambda>c. require (jget guard c = JBool True)
       (ValueError (if c = ''no_freeform_thought_checked'' then ''freeform thought cannot be promoted to TaskUnit''
                    else ''promotion guard failed: '' @ c))) guard_checks)"

section \<open>The proposal\<close>

record decomposition_proposal =
  dp_proposal_header :: jobj
  dp_child_specs :: "jobj list"
  dp_dependency_edges :: "jobj list"
  dp_expected_outputs :: "jobj list"
  dp_merge_slots :: "jobj list"
  dp_promotion_guard_evidence :: jobj
  dp_schema_version :: string

definition mk_proposal :: "decomposition_proposal \<Rightarrow> decomposition_proposal res" where
  "mk_proposal p =
     seqE (checks
       [require_schema_version (dp_schema_version p) ''phase4.decomposition_proposal.v1'',
        validate_proposal_header (dp_proposal_header p),
        validate_child_specs (dp_child_specs p),
        validate_dependency_edges (dp_child_specs p) (dp_dependency_edges p),
        validate_merge_slots (dp_child_specs p) (dp_merge_slots p),
        validate_expected_outputs (dp_child_specs p) (dp_merge_slots p) (dp_expected_outputs p),
        validate_promotion_guard (dp_promotion_guard_evidence p)])
     (Inr p)"

definition objects :: "jobj list \<Rightarrow> json" where
  "objects ds = JArr (map JObj ds)"

definition dp_to_dict :: "decomposition_proposal \<Rightarrow> jobj" where
  "dp_to_dict p =
     [(''schema_version'', JStr (dp_schema_version p)),
      (''proposal_header'', JObj (dp_proposal_header p)),
      (''child_specs'', objects (dp_child_specs p)),
      (''dependency_edges'', objects (dp_dependency_edges p)),
      (''expected_outputs'', objects (dp_expected_outputs p)),
      (''merge_slots'', objects (dp_merge_slots p)),
      (''promotion_guard_evidence'', JObj (dp_promotion_guard_evidence p))]"

text \<open>The digest of the body leaves out the header fields that name it.\<close>

definition digest_decomposition_proposal_body :: "hash \<Rightarrow> decomposition_proposal \<Rightarrow> string" where
  "digest_decomposition_proposal_body h p =
     digest_json h (JObj (dict_set ''proposal_header''
       (JObj (dict_pop ''proposal_digest'' (dict_pop ''proposal_id'' (dp_proposal_header p)))) (dp_to_dict p)))"

definition validate_proposal_limits ::
  "decomposition_proposal \<Rightarrow> protocol_config \<Rightarrow> int \<Rightarrow> int \<Rightarrow> string list \<Rightarrow> int option \<Rightarrow> unit res" where
  "validate_proposal_limits p config parent_depth existing_unit_count parent_required max_per_strategy =
     (let child_count = int (length (dp_child_specs p));
          max_children = (case max_per_strategy of None \<Rightarrow> pc_max_children_per_unit config
                          | Some m \<Rightarrow> min (pc_max_children_per_unit config) m)
      in if child_count > max_children then Inl (ValueError ''child count exceeds configured limit'')
         else if parent_depth + 1 > pc_max_depth config then Inl (ValueError ''proposal exceeds max_depth'')
         else if existing_unit_count + child_count > pc_max_total_units config
         then Inl (ValueError ''proposal exceeds max_total_units'')
         else
         bindE (mapE (\<lambda>out. bindE (jitem out ''output_name'') hash_key)
                 (filter (\<lambda>out. jget out ''required'' = JBool True) (dp_expected_outputs p))) (\<lambda>covered.
         let missing = filter (\<lambda>n. JStr n \<notin> set covered) parent_required
         in raise_if (missing \<noteq> [])
              (ValueError (''proposal missing parent required output coverage: '' @ join '', '' missing))))"

section \<open>The initial state of a child\<close>

definition incoming_edges :: "decomposition_proposal \<Rightarrow> string \<Rightarrow> jobj list" where
  "incoming_edges p child =
     filter (\<lambda>e. jget e ''target_child_key'' = JStr child \<and> jget e ''relation_type'' = JStr ''depends_on_output'')
       (dp_dependency_edges p)"

fun bindings_state :: "string list \<Rightarrow> json list \<Rightarrow> task_state res" where
  "bindings_state parent_outputs [] = Inr TS_READY"
| "bindings_state parent_outputs (JObj b # bs) =
     (if jget b ''kind'' = JStr ''parent_output''
      then bindE (in_str_keys (jget b ''output_name'') parent_outputs) (\<lambda>available.
             if \<not> available then Inl (ValueError ''parent output binding missing canonical output'')
             else bindings_state parent_outputs bs)
      else bindE (in_str_keys (jget b ''kind'') [''dependency_output'', ''child_output'']) (\<lambda>waits.
             if waits then Inr TS_BLOCKED
             else bindE (in_str_keys (jget b ''kind'') [''artifact_ref'', ''constant'']) (\<lambda>given.
             if given then bindings_state parent_outputs bs else Inr TS_BLOCKED)))"
| "bindings_state parent_outputs (b # bs) = Inl (AttributeError ''get'')"

definition derive_child_initial_state :: "decomposition_proposal \<Rightarrow> string \<Rightarrow> string list \<Rightarrow> task_state res" where
  "derive_child_initial_state p child parent_outputs =
     bindE (by_key ''child_logical_key'' (dp_child_specs p)) (\<lambda>by.
     case dict_get by (JStr child) of
       None \<Rightarrow> Inl (ValueError (''unknown child logical key: '' @ child))
     | Some spec \<Rightarrow>
       if incoming_edges p child \<noteq> [] then Inr TS_BLOCKED
       else case dict_get spec ''input_bindings'' of
         None \<Rightarrow> Inr TS_READY
       | Some (JObj d) \<Rightarrow> bindings_state parent_outputs (dict_values d)
       | Some v \<Rightarrow> Inl (AttributeError ''values''))"

end
