(* ===== verification/Core_Proposal_Facts.thy ===== *)
theory Core_Proposal_Facts
  imports Core_Proposal Py_Json_Read
begin

text \<open>
  What the validation of a decomposition proposal (\<open>core/expansion.py\<close>) guarantees: it accepts
  exactly the child graphs whose edges join declared outputs to unbound inputs without a cycle, so
  an accepted proposal always has a child that can start; and what its digest depends on.
\<close>

section \<open>Hashable keys\<close>

definition hashable :: "json \<Rightarrow> bool" where
  "hashable j \<longleftrightarrow> is_ok (hash_key j)"

definition key_of :: "json \<Rightarrow> json" where
  "key_of j = (case hash_key j of Inr k \<Rightarrow> k | Inl _ \<Rightarrow> j)"

lemma hash_key_iff: "hash_key j = Inr k \<longleftrightarrow> hashable j \<and> k = key_of j"
  by (cases "hash_key j") (auto simp: hashable_def key_of_def)

lemma key_of_str [simp]: "key_of (JStr s) = JStr s" "hashable (JStr s)"
  by (simp_all add: key_of_def hashable_def)

lemma require_fields_iff: "require_fields d names ctx = Inr u \<longleftrightarrow> (\<forall>f \<in> set names. dict_has d f)"
  by (auto simp: require_fields_def res_simps)

lemma fresh_key_iff:
  "fresh_key key e m seen = Inr k \<longleftrightarrow> truthy key \<and> hashable key \<and> k = key_of key \<and> k \<notin> set seen"
  by (auto simp: fresh_key_def res_simps hash_key_iff)

lemma in_keys_iff: "in_keys v ks = Inr b \<longleftrightarrow> hashable v \<and> b = (key_of v \<in> set ks)"
  by (auto simp: in_keys_def res_simps hash_key_iff)

lemma in_str_keys_iff:
  "in_str_keys v ks = Inr b \<longleftrightarrow> hashable v \<and> b = (case key_of v of JStr s \<Rightarrow> s \<in> set ks | _ \<Rightarrow> False)"
  by (auto simp: in_str_keys_def res_simps hash_key_iff)

section \<open>Children\<close>

definition child_key :: "jobj \<Rightarrow> json" where
  "child_key spec = key_of (jget spec ''child_logical_key'')"

lemma validate_child_spec_ok:
  assumes "validate_child_spec seen spec = Inr seen'"
  shows "seen' = child_key spec # seen \<and> child_key spec \<notin> set seen \<and>
    (\<forall>f \<in> set child_spec_fields. dict_has spec f) \<and> hashable (jget spec ''child_logical_key'') \<and>
    (\<exists>d. jget spec ''input_bindings'' = JObj d) \<and> (\<exists>xs. jget spec ''required_outputs'' = JArr xs \<and> (\<forall>x \<in> set xs. hashable x))"
proof -
  have c: "check_required_outputs spec = Inr ()" "is_jobj (jget spec ''input_bindings'')"
    using assms by (auto simp: validate_child_spec_def res_simps)
  obtain xs where r: "jget spec ''required_outputs'' = JArr xs"
    using c(1) by (cases "jget spec ''required_outputs''") (auto simp: check_required_outputs_def)
  obtain refs where f: "jget spec ''output_contract_refs'' = JObj refs"
    using c(1) r by (cases "jget spec ''output_contract_refs''") (auto simp: check_required_outputs_def split: if_splits)
  obtain bs where m: "mapE (\<lambda>out. in_str_keys out (dict_keys refs)) xs = Inr bs"
    using c(1) r f by (auto simp: check_required_outputs_def res_simps split: if_splits)
  have "\<forall>x \<in> set xs. hashable x" using mapE_mem[OF m] by (auto simp: in_str_keys_iff)
  moreover have "\<exists>d. j = JObj d" if "is_jobj j" for j using that by (cases j) auto
  ultimately show ?thesis
    using assms r c(2)
    by (auto simp: validate_child_spec_def res_simps require_fields_iff fresh_key_iff child_key_def)
qed

lemma validate_child_specs_ok:
  assumes "validate_child_specs specs = Inr u"
  shows "distinct (map child_key specs) \<and> (\<forall>s \<in> set specs. (\<forall>f \<in> set child_spec_fields. dict_has s f) \<and>
    hashable (jget s ''child_logical_key'') \<and> (\<exists>d. jget s ''input_bindings'' = JObj d) \<and>
    (\<exists>xs. jget s ''required_outputs'' = JArr xs \<and> (\<forall>x \<in> set xs. hashable x)))"
proof -
  have "distinct (map child_key specs) \<and> set (map child_key specs) \<inter> set seen = {} \<and>
    (\<forall>s \<in> set specs. (\<forall>f \<in> set child_spec_fields. dict_has s f) \<and> hashable (jget s ''child_logical_key'') \<and>
      (\<exists>d. jget s ''input_bindings'' = JObj d) \<and> (\<exists>xs. jget s ''required_outputs'' = JArr xs \<and> (\<forall>x \<in> set xs. hashable x)))"
    if "foldE validate_child_spec seen specs = Inr seen'" for seen seen'
    using that
  proof (induction specs arbitrary: seen)
    case (Cons s specs)
    from Cons.prems obtain s1 where a: "validate_child_spec seen s = Inr s1" and b: "foldE validate_child_spec s1 specs = Inr seen'"
      by (auto simp: res_simps)
    show ?case using validate_child_spec_ok[OF a] Cons.IH[OF b] by auto
  qed simp
  then show ?thesis using assms by (auto simp: validate_child_specs_def res_simps)
qed

text \<open>What the later checks read of accepted children.\<close>

lemma dict_update_Nil: "distinct (map fst ps) \<Longrightarrow> dict_update [] ps = ps"
proof -
  have "distinct (map fst (acc @ ps)) \<Longrightarrow> fold (\<lambda>(k, v) acc. dict_set k v acc) ps acc = acc @ ps" for acc
    by (induction ps arbitrary: acc) (auto simp: dict_set_new)
  from this[of "[]"] show "distinct (map fst ps) \<Longrightarrow> dict_update [] ps = ps" by (simp add: dict_update_def)
qed

lemma jitem_has: "dict_has d k \<Longrightarrow> jitem d k = Inr (jget d k)"
  by (auto simp: jitem_def jget_def dict_has_def)

lemma children_by_key:
  assumes "validate_child_specs specs = Inr u"
  shows "by_key ''child_logical_key'' specs = Inr (map (\<lambda>s. (child_key s, s)) specs)"
proof -
  note c = validate_child_specs_ok[OF assms]
  have "bindE (jitem s ''child_logical_key'') (\<lambda>v. bindE (hash_key v) (\<lambda>k. Inr (k, s))) = Inr (child_key s, s)"
    if "s \<in> set specs" for s
    using c that by (auto simp: jitem_has child_spec_fields_def hash_key_iff[THEN iffD2] child_key_def)
  then have "mapE (\<lambda>b. bindE (jitem b ''child_logical_key'') (\<lambda>v. bindE (hash_key v) (\<lambda>k. Inr (k, b)))) specs
      = Inr (map (\<lambda>s. (child_key s, s)) specs)"
    by (rule mapE_ok)
  then show ?thesis using c by (simp add: by_key_def dict_update_Nil comp_def)
qed

definition child_inputs :: "jobj \<Rightarrow> (json \<times> json) list" where
  "child_inputs s = (case jget s ''input_bindings'' of JObj d \<Rightarrow> map (\<lambda>n. (child_key s, JStr n)) (dict_keys d) | _ \<Rightarrow> [])"

definition child_outputs :: "jobj \<Rightarrow> json set" where
  "child_outputs s = (case jget s ''required_outputs'' of JArr xs \<Rightarrow> key_of ` set xs | _ \<Rightarrow> {})"

lemma children_inputs:
  assumes "validate_child_specs specs = Inr u"
  shows "mapE static_inputs specs = Inr (map child_inputs specs)"
proof (rule mapE_ok)
  fix s assume "s \<in> set specs"
  with validate_child_specs_ok[OF assms] obtain d where
    s: "dict_has s ''child_logical_key''" "hashable (jget s ''child_logical_key'')" "dict_has s ''input_bindings''"
      "jget s ''input_bindings'' = JObj d"
    by (auto simp: child_spec_fields_def)
  then have "dict_get s ''input_bindings'' = Some (JObj d)" by (auto simp: jget_def dict_has_def)
  with s show "static_inputs s = Inr (child_inputs s)"
    by (simp add: static_inputs_def jitem_has hash_key_iff[THEN iffD2] child_inputs_def child_key_def)
qed

lemma children_outputs:
  assumes "validate_child_specs specs = Inr u" and "s \<in> set specs"
  obtains outs where "output_set s = Inr outs" and "set outs = child_outputs s"
proof -
  from validate_child_specs_ok[OF assms(1)] assms(2) obtain xs where
    s: "dict_has s ''required_outputs''" "jget s ''required_outputs'' = JArr xs" "\<forall>x \<in> set xs. hashable x"
    by (auto simp: child_spec_fields_def)
  then have "dict_get s ''required_outputs'' = Some (JArr xs)" by (auto simp: jget_def dict_has_def)
  moreover have "mapE hash_key xs = Inr (map key_of xs)"
    using s(3) by (intro mapE_ok) (simp add: hash_key_iff)
  ultimately show ?thesis using s(2) that by (simp add: output_set_def child_outputs_def)
qed

section \<open>Edges\<close>

definition edge_key :: "jobj \<Rightarrow> json" where
  "edge_key e = key_of (jget e ''edge_logical_key'')"

definition edge_source :: "jobj \<Rightarrow> json" where
  "edge_source e = key_of (jget e ''source_child_key'')"

definition edge_target :: "jobj \<Rightarrow> json" where
  "edge_target e = key_of (jget e ''target_child_key'')"

definition edge_input :: "jobj \<Rightarrow> json \<times> json" where
  "edge_input e = (edge_target e, key_of (jget e ''target_input_name''))"

text \<open>One edge on its own: complete, and from a declared output of a child to a child.\<close>

definition edge_ok :: "jobj list \<Rightarrow> jobj \<Rightarrow> bool" where
  "edge_ok specs e \<longleftrightarrow>
     (\<forall>f \<in> set dependency_edge_fields. dict_has e f) \<and>
     truthy (jget e ''edge_logical_key'') \<and> truthy (jget e ''target_input_name'') \<and>
     jget e ''relation_type'' = JStr ''depends_on_output'' \<and>
     (\<forall>f \<in> {''edge_logical_key'', ''source_child_key'', ''target_child_key'', ''source_output_name'', ''target_input_name''}.
        hashable (jget e f)) \<and>
     edge_target e \<in> child_key ` set specs \<and>
     (\<exists>s \<in> set specs. child_key s = edge_source e \<and> key_of (jget e ''source_output_name'') \<in> child_outputs s)"

lemma validate_edge_iff:
  assumes "validate_child_specs specs = Inr u"
  shows "validate_edge (map (\<lambda>s. (child_key s, s)) specs) st e = Inr st' \<longleftrightarrow>
    edge_ok specs e \<and> edge_key e \<notin> set (es_keys st) \<and> edge_input e \<notin> set (es_inputs st) \<and>
    st' = \<lparr>es_keys = edge_key e # es_keys st, es_inputs = edge_input e # es_inputs st,
           es_out = dict_set (edge_source e) (dict_get_default (es_out st) (edge_source e) [] @ [edge_target e]) (es_out st)\<rparr>"
    (is "?l \<longleftrightarrow> ?r")
proof -
  let ?by = "map (\<lambda>s. (child_key s, s)) specs"
  have d: "distinct (map fst ?by)" using validate_child_specs_ok[OF assms] by (simp add: comp_def)
  have get: "dict_get ?by k = Some s \<longleftrightarrow> s \<in> set specs \<and> child_key s = k" for k s
    using d by (auto simp: map_of_eq_Some_iff)
  have has: "dict_has ?by k \<longleftrightarrow> k \<in> child_key ` set specs" for k by (auto simp: dict_has_iff)
  have out: "output_set s = Inr outs \<longrightarrow> set outs = child_outputs s" "is_ok (output_set s)"
    if "s \<in> set specs" for s outs
    using children_outputs[OF assms that] by (metis sum.inject(2), metis is_ok.simps(2))
  show ?thesis
  proof
    assume ?l
    then show ?r
      using out
      by (auto simp: validate_edge_def res_simps require_fields_iff fresh_key_iff in_keys_iff hash_key_iff get has
          edge_ok_def edge_key_def edge_source_def edge_target_def edge_input_def
          split: option.split_asm if_split_asm)
  next
    assume r: ?r
    then obtain s where s: "s \<in> set specs" "child_key s = edge_source e"
      "key_of (jget e ''source_output_name'') \<in> child_outputs s" by (auto simp: edge_ok_def)
    obtain outs where o: "output_set s = Inr outs" "set outs = child_outputs s" by (rule children_outputs[OF assms s(1)])
    have g: "dict_get ?by (edge_source e) = Some s" using get s by blast
    have hk: "hash_key (jget e ''source_child_key'') = Inr (edge_source e)"
      "hash_key (jget e ''target_child_key'') = Inr (edge_target e)"
      "hash_key (jget e ''target_input_name'') = Inr (key_of (jget e ''target_input_name''))"
      "in_keys (jget e ''source_output_name'') outs = Inr True"
      using r s o by (auto simp: edge_ok_def hash_key_iff in_keys_iff edge_source_def edge_target_def)
    have "fresh_key (jget e ''edge_logical_key'') a b (es_keys st) = Inr (edge_key e)" for a b
      using r by (auto simp: edge_ok_def fresh_key_iff edge_key_def)
    moreover have "require_fields e dependency_edge_fields c = Inr ()" for c
      using r by (auto simp: edge_ok_def require_fields_iff)
    moreover have "edge_target e \<in> child_key ` set specs" "jget e ''relation_type'' = JStr ''depends_on_output''"
      "truthy (jget e ''target_input_name'')" using r by (auto simp: edge_ok_def)
    ultimately show ?l
      using r o g has hk by (simp add: validate_edge_def edge_input_def)
  qed
qed

lemma edge_ok_ends: "edge_ok specs e \<Longrightarrow> edge_source e \<in> child_key ` set specs \<and> edge_target e \<in> child_key ` set specs"
  unfolding edge_ok_def by (metis imageI)

definition child_graph :: "jobj list \<Rightarrow> (json \<times> json) set" where
  "child_graph edges = (\<lambda>e. (edge_source e, edge_target e)) ` set edges"

definition edges_spec :: "jobj list \<Rightarrow> jobj list \<Rightarrow> bool" where
  "edges_spec specs edges \<longleftrightarrow>
     (\<forall>e \<in> set edges. edge_ok specs e) \<and> distinct (map edge_key edges) \<and> distinct (map edge_input edges) \<and>
     edge_input ` set edges \<inter> set (concat (map child_inputs specs)) = {} \<and> acyclic (child_graph edges)"

definition add_edge :: "jobj \<Rightarrow> edge_state \<Rightarrow> edge_state" where
  "add_edge e st = \<lparr>es_keys = edge_key e # es_keys st, es_inputs = edge_input e # es_inputs st,
     es_out = dict_set (edge_source e) (dict_get_default (es_out st) (edge_source e) [] @ [edge_target e]) (es_out st)\<rparr>"

lemma edges_loop_iff:
  assumes "validate_child_specs specs = Inr u"
  shows "foldE (validate_edge (map (\<lambda>s. (child_key s, s)) specs)) st es = Inr st' \<longleftrightarrow>
    (\<forall>e \<in> set es. edge_ok specs e) \<and> distinct (map edge_key es) \<and> distinct (map edge_input es) \<and>
    edge_key ` set es \<inter> set (es_keys st) = {} \<and> edge_input ` set es \<inter> set (es_inputs st) = {} \<and>
    st' = fold add_edge es st"
proof (induction es arbitrary: st)
  case (Cons e es)
  have "es_keys (add_edge e st) = edge_key e # es_keys st" "es_inputs (add_edge e st) = edge_input e # es_inputs st"
    by (simp_all add: add_edge_def)
  with Cons[of "add_edge e st"] show ?case
    by (auto simp: res_simps validate_edge_iff[OF assms] add_edge_def[symmetric])
qed auto

lemma dict_set_keys: "dict_has d k \<Longrightarrow> dict_keys (dict_set k v d) = dict_keys d"
  by (induction k v d rule: dict_set.induct) (auto simp: dict_has_def split: if_splits)

lemma add_edges_out:
  assumes "\<forall>e \<in> set es. dict_has (es_out st) (edge_source e)"
  shows "dict_keys (es_out (fold add_edge es st)) = dict_keys (es_out st)"
    and "dict_get_default (es_out (fold add_edge es st)) k [] =
      dict_get_default (es_out st) k [] @ map edge_target (filter (\<lambda>e. edge_source e = k) es)"
  using assms
  by (induction es arbitrary: st) (auto simp: add_edge_def dict_set_keys dict_get_default_def)

lemma dfs_all_iff:
  assumes "edge_rel succs \<subseteq> set nodes \<times> set nodes"
  shows "dfs_all err nodes succs = Inr () \<longleftrightarrow> acyclic (edge_rel succs)"
proof -
  have "x \<in> set nodes" if "(x, x) \<in> (edge_rel succs)\<^sup>+" for x
    using that assms by (meson SigmaD1 subsetD tranclD)
  moreover have "v \<in> set nodes" if "v \<in> set (succs u)" for u v
    using that assms by (auto simp: edge_rel_def)
  ultimately show ?thesis using dfs_all_acyclic[of nodes succs err] by (auto simp: acyclic_def)
qed

lemma dependency_edges_iff:
  assumes "validate_child_specs specs = Inr u"
  shows "validate_dependency_edges specs edges = Inr () \<longleftrightarrow> edges_spec specs edges"
proof -
  let ?by = "map (\<lambda>s. (child_key s, s)) specs"
  let ?st = "\<lparr>es_keys = [], es_inputs = concat (map child_inputs specs), es_out = map (\<lambda>k. (k, [])) (map child_key specs)\<rparr>"
  let ?last = "fold add_edge edges ?st"
  let ?succs = "\<lambda>k. dict_get_default (es_out ?last) k []"
  have eq: "validate_dependency_edges specs edges =
    bindE (foldE (validate_edge ?by) ?st edges) (\<lambda>st.
      dfs_all (ValueError ''proposal child graph contains a cycle'') (dict_keys (es_out st))
        (\<lambda>k. dict_get_default (es_out st) k []))"
    by (simp add: validate_dependency_edges_def children_by_key[OF assms] children_inputs[OF assms] comp_def)
  have graph: "(dfs_all (ValueError ''proposal child graph contains a cycle'') (dict_keys (es_out ?last)) ?succs = Inr ())
      \<longleftrightarrow> acyclic (child_graph edges)" if ok: "\<forall>e \<in> set edges. edge_ok specs e"
  proof -
    have src: "dict_has (es_out ?st) (edge_source e)" if "e \<in> set edges" for e
      using edge_ok_ends[OF bspec[OF ok that]] by (simp add: dict_has_iff comp_def)
    note out = add_edges_out[of edges ?st]
    have nodes: "dict_keys (es_out ?last) = map child_key specs"
      using out(1) src by (simp add: comp_def)
    have none: "dict_get_default (map (\<lambda>k. (k, [])) ks) k [] = []" for k and ks :: "json list"
      by (induction ks) (auto simp: dict_get_default_def)
    have succs: "?succs k = map edge_target (filter (\<lambda>e. edge_source e = k) edges)" for k
      using out(2) src none[of "map child_key specs"] by simp
    have rel: "edge_rel ?succs = child_graph edges"
      unfolding edge_rel_def succs child_graph_def by auto
    have "child_graph edges \<subseteq> set (map child_key specs) \<times> set (map child_key specs)"
      using edge_ok_ends bspec[OF ok] by (auto simp: child_graph_def)
    then show ?thesis
      using dfs_all_iff[of ?succs "map child_key specs"] unfolding rel nodes by blast
  qed
  show ?thesis
    unfolding eq edges_spec_def using graph
    by (auto simp: res_simps edges_loop_iff[OF assms])
qed

text \<open>
  C26 proposal_graph_exact: an accepted proposal is stored as it was given, its child keys are
  distinct, and its dependency edges could be replaced by others exactly when those join declared
  outputs of its children to its children, name every edge and every target input once, bind no
  input that a child already binds, and have no cycle; its own edges therefore do.
\<close>

theorem proposal_graph_exact:
  assumes "mk_proposal p = Inr q"
  shows "q = p \<and> distinct (map child_key (dp_child_specs p)) \<and> edges_spec (dp_child_specs p) (dp_dependency_edges p) \<and>
    (is_ok (mk_proposal (p\<lparr>dp_dependency_edges := edges\<rparr>)) \<longleftrightarrow> edges_spec (dp_child_specs p) edges)"
proof -
  have v: "validate_child_specs (dp_child_specs p) = Inr ()"
    "validate_dependency_edges (dp_child_specs p) (dp_dependency_edges p) = Inr ()" "q = p"
    using assms by (auto simp: mk_proposal_def res_simps)
  have ok: "is_ok (validate_dependency_edges (dp_child_specs p) edges) \<longleftrightarrow> edges_spec (dp_child_specs p) edges"
    using dependency_edges_iff[OF v(1), of edges] by (cases "validate_dependency_edges (dp_child_specs p) edges") auto
  have "is_ok (mk_proposal (p\<lparr>dp_dependency_edges := edges\<rparr>)) \<longleftrightarrow>
    is_ok (validate_dependency_edges (dp_child_specs p) edges)"
    using assms by (cases "validate_dependency_edges (dp_child_specs p) edges") (auto simp: mk_proposal_def res_simps)
  then show ?thesis
    using ok v validate_child_specs_ok[OF v(1)] dependency_edges_iff[OF v(1), of "dp_dependency_edges p"] by blast
qed

section \<open>Starting the children\<close>

text \<open>A binding that is there from the start: a given value, or an output the parent has.\<close>

definition binding_given :: "string list \<Rightarrow> json \<Rightarrow> bool" where
  "binding_given outs b \<longleftrightarrow> (\<exists>d. b = JObj d \<and>
     (jget d ''kind'' \<in> {JStr ''artifact_ref'', JStr ''constant''} \<or>
      jget d ''kind'' = JStr ''parent_output'' \<and> (\<exists>n \<in> set outs. jget d ''output_name'' = JStr n)))"

lemma in_str_keys_str: "in_str_keys (JStr s) ks = Inr (s \<in> set ks)"
  by (simp add: in_str_keys_def)

lemma key_of_eq_str: "hashable v \<Longrightarrow> key_of v = JStr s \<longleftrightarrow> v = JStr s"
  by (cases v) (auto simp: key_of_def hashable_def split: option.splits)

lemma in_str_keys_mem: "in_str_keys v ks = Inr True \<longleftrightarrow> (\<exists>s \<in> set ks. v = JStr s)"
  by (auto simp: in_str_keys_iff key_of_eq_str split: json.splits)

lemma in_str_keys_not_mem: "in_str_keys v ks = Inr False \<Longrightarrow> v \<noteq> JStr s \<or> s \<notin> set ks"
  by (auto simp: in_str_keys_str)

lemma in_str_keys_cases:
  obtains (error) e where "in_str_keys v ks = Inl e" "\<forall>s. v \<noteq> JStr s"
  | (known) s where "in_str_keys v ks = Inr True" "v = JStr s" "s \<in> set ks"
  | (unknown) "in_str_keys v ks = Inr False" "\<forall>s \<in> set ks. v \<noteq> JStr s"
proof (cases "in_str_keys v ks")
  case (Inl e)
  then show ?thesis by (intro error[of e]) (auto simp: in_str_keys_str)
next
  case (Inr b)
  show ?thesis
  proof (cases b)
    case True
    then show ?thesis using Inr in_str_keys_mem[of v ks] known by auto
  next
    case False
    with Inr have "in_str_keys v ks = Inr False" by simp
    moreover from this have "\<forall>s \<in> set ks. v \<noteq> JStr s" by (auto simp: in_str_keys_str)
    ultimately show ?thesis by (rule unknown)
  qed
qed

lemma bindings_state_ready: "bindings_state outs bs = Inr TS_READY \<longleftrightarrow> list_all (binding_given outs) bs"
proof (induction outs bs rule: bindings_state.induct)
  case (2 outs b bs)
  show ?case
  proof (cases "jget b ''kind'' = JStr ''parent_output''")
    case True
    then show ?thesis using 2(1)[OF True]
      by (cases rule: in_str_keys_cases[of "jget b ''output_name''" outs]) (auto simp: binding_given_def)
  next
    case kind: False
    show ?thesis
    proof (cases rule: in_str_keys_cases[of "jget b ''kind''" "[''artifact_ref'', ''constant'']"])
      case (known s)
      then have "in_str_keys (jget b ''kind'') [''dependency_output'', ''child_output''] = Inr False"
        by (auto simp: in_str_keys_str)
      then show ?thesis using kind known 2(2)[OF kind] by (auto simp: binding_given_def)
    next
      case (error e)
      then show ?thesis using kind
        by (auto simp: binding_given_def res_simps split: if_splits)
    next
      case unknown
      then show ?thesis using kind
        by (auto simp: binding_given_def res_simps split: if_splits)
    qed
  qed
qed (simp_all add: binding_given_def)

lemma bindings_state_values: "bindings_state outs bs = Inr s \<Longrightarrow> s \<in> {TS_READY, TS_BLOCKED}"
  by (induction outs bs rule: bindings_state.induct) (auto simp: res_simps split: if_splits)

definition child_bindings :: "jobj \<Rightarrow> json list" where
  "child_bindings s = (case jget s ''input_bindings'' of JObj d \<Rightarrow> dict_values d | _ \<Rightarrow> [])"

lemma derive_child_state:
  assumes "validate_child_specs (dp_child_specs p) = Inr u" and "s \<in> set (dp_child_specs p)" and "child_key s = JStr c"
  shows "derive_child_initial_state p c outs =
    (if incoming_edges p c \<noteq> [] then Inr TS_BLOCKED else bindings_state outs (child_bindings s))"
proof -
  note c = validate_child_specs_ok[OF assms(1)]
  obtain d where d: "jget s ''input_bindings'' = JObj d" "dict_get s ''input_bindings'' = Some (JObj d)"
    using c assms(2) by (fastforce simp: child_spec_fields_def jget_def dict_has_def)
  have "distinct (map fst (map (\<lambda>s. (child_key s, s)) (dp_child_specs p)))" using c by (simp add: comp_def)
  then have "dict_get (map (\<lambda>s. (child_key s, s)) (dp_child_specs p)) (JStr c) = Some s"
    using assms(2,3) by (force simp: map_of_eq_Some_iff)
  then show ?thesis using d
    by (simp add: derive_child_initial_state_def children_by_key[OF assms(1)] child_bindings_def)
qed

text \<open>
  A child of an accepted proposal starts Ready exactly when no dependency
  edge leads to it and each of its bindings is given or names an output its parent has; the only
  other initial state is Blocked; and when every child has only such bindings, some child starts
  Ready, so an accepted expansion is never stuck from the beginning.
\<close>

theorem child_initial_state:
  assumes "mk_proposal p = Inr q" and "s \<in> set (dp_child_specs p)" and "jget s ''child_logical_key'' = JStr c"
  shows "(derive_child_initial_state p c outs = Inr TS_READY \<longleftrightarrow>
      incoming_edges p c = [] \<and> list_all (binding_given outs) (child_bindings s)) \<and>
    (\<forall>st. derive_child_initial_state p c outs = Inr st \<longrightarrow> st \<in> {TS_READY, TS_BLOCKED}) \<and>
    ((\<forall>t \<in> set (dp_child_specs p). list_all (binding_given outs) (child_bindings t) \<and>
        (\<exists>k. jget t ''child_logical_key'' = JStr k)) \<longrightarrow>
      (\<exists>k. derive_child_initial_state p k outs = Inr TS_READY))"
proof -
  have v: "validate_child_specs (dp_child_specs p) = Inr ()"
    "validate_dependency_edges (dp_child_specs p) (dp_dependency_edges p) = Inr ()"
    using assms(1) by (auto simp: mk_proposal_def res_simps)
  have e: "edges_spec (dp_child_specs p) (dp_dependency_edges p)" using dependency_edges_iff[OF v(1)] v(2) by blast
  have key: "child_key t = JStr k" if "jget t ''child_logical_key'' = JStr k" for t k using that by (simp add: child_key_def)
  note d = derive_child_state[OF v(1)]
  have start: "\<exists>k. derive_child_initial_state p k outs = Inr TS_READY"
    if all: "\<forall>t \<in> set (dp_child_specs p). list_all (binding_given outs) (child_bindings t) \<and>
        (\<exists>k. jget t ''child_logical_key'' = JStr k)"
  proof -
    let ?E = "child_graph (dp_dependency_edges p)"
    have "wf ?E" using e by (intro finite_acyclic_wf) (auto simp: edges_spec_def child_graph_def)
    then obtain z where z: "z \<in> child_key ` set (dp_child_specs p)"
      "\<And>y. (y, z) \<in> ?E \<Longrightarrow> y \<notin> child_key ` set (dp_child_specs p)"
      using wfE_min[of ?E "child_key s" "child_key ` set (dp_child_specs p)"] assms(2) by blast
    then obtain t k where t: "t \<in> set (dp_child_specs p)" "z = child_key t" "jget t ''child_logical_key'' = JStr k"
      using all by blast
    have "edge_target x \<noteq> JStr k" if "x \<in> set (dp_dependency_edges p)" for x
    proof
      assume "edge_target x = JStr k"
      then have "(edge_source x, z) \<in> ?E" using that t key by (auto simp: child_graph_def)
      moreover have "edge_source x \<in> child_key ` set (dp_child_specs p)"
        using edge_ok_ends e that by (auto simp: edges_spec_def)
      ultimately show False using z(2) by blast
    qed
    then have "jget x ''target_child_key'' \<noteq> JStr k" if "x \<in> set (dp_dependency_edges p)" for x
      using that by (metis edge_target_def key_of_str(1))
    then have "incoming_edges p k = []" by (auto simp: incoming_edges_def filter_empty_conv)
    with d[OF t(1) key[OF t(3)], of outs] all t(1) show ?thesis by (intro exI[of _ k]) (simp add: bindings_state_ready)
  qed
  show ?thesis
    using d[OF assms(2) key[OF assms(3)], of outs] start bindings_state_values
    by (auto simp: bindings_state_ready)
qed

section \<open>The digest\<close>

definition named_header :: "decomposition_proposal \<Rightarrow> jobj" where
  "named_header p = dict_pop ''proposal_digest'' (dict_pop ''proposal_id'' (dp_proposal_header p))"

definition wf_proposal :: "decomposition_proposal \<Rightarrow> bool" where
  "wf_proposal p \<longleftrightarrow> wf_json (JObj (dp_to_dict p))"

definition digest_body :: "decomposition_proposal \<Rightarrow> jobj" where
  "digest_body p = dict_set ''proposal_header'' (JObj (named_header p)) (dp_to_dict p)"

lemma digest_body_wf:
  assumes "wf_proposal p"
  shows "wf_json (JObj (digest_body p))"
proof -
  have "wf_json (JObj (named_header p))"
    using assms by (auto simp: wf_proposal_def named_header_def dict_pop_def dp_to_dict_def distinct_map_filter)
  then show ?thesis using assms by (simp add: digest_body_def wf_proposal_def dp_to_dict_def)
qed

lemma dict_pop_set: "dict_pop k (dict_set k v d) = dict_pop k d"
  by (induction k v d rule: dict_set.induct) (auto simp: dict_pop_def)

lemma dict_pop_commute: "dict_pop k (dict_pop l d) = dict_pop l (dict_pop k d)"
  by (simp add: dict_pop_def filter_filter conj_commute case_prod_beta)

definition same_content :: "decomposition_proposal \<Rightarrow> decomposition_proposal \<Rightarrow> bool" where
  "same_content p q \<longleftrightarrow>
     sort_members (JObj (named_header p)) = sort_members (JObj (named_header q)) \<and>
     sort_members (objects (dp_child_specs p)) = sort_members (objects (dp_child_specs q)) \<and>
     sort_members (objects (dp_dependency_edges p)) = sort_members (objects (dp_dependency_edges q)) \<and>
     sort_members (objects (dp_expected_outputs p)) = sort_members (objects (dp_expected_outputs q)) \<and>
     sort_members (objects (dp_merge_slots p)) = sort_members (objects (dp_merge_slots q)) \<and>
     sort_members (JObj (dp_promotion_guard_evidence p)) = sort_members (JObj (dp_promotion_guard_evidence q))"

text \<open>
  The digest of a proposal body does not change when the proposal id or the
  digest itself is written into the header, and it pins everything else: two proposals with the
  same digest have the same remaining header, children, edges, outputs, slots and guard up to the
  order of object keys, or they exhibit a collision of the hash function.
\<close>

theorem proposal_digest:
  assumes "wf_proposal p" and "wf_proposal q"
  shows "digest_decomposition_proposal_body h (p\<lparr>dp_proposal_header :=
      dict_set ''proposal_digest'' d (dict_set ''proposal_id'' i (dp_proposal_header p))\<rparr>)
      = digest_decomposition_proposal_body h p \<and>
    (digest_decomposition_proposal_body h p = digest_decomposition_proposal_body h q \<longrightarrow>
      (\<exists>x y. x \<noteq> y \<and> h x = h y) \<or> same_content p q)"
proof (intro conjI impI)
  have body: "digest_decomposition_proposal_body h x = digest_json h (JObj (digest_body x))" for x
    by (simp add: digest_decomposition_proposal_body_def digest_body_def named_header_def)
  let ?p = "p\<lparr>dp_proposal_header := dict_set ''proposal_digest'' d (dict_set ''proposal_id'' i (dp_proposal_header p))\<rparr>"
  have "named_header ?p = named_header p"
    by (simp add: named_header_def dict_pop_commute[of "''proposal_digest''" "''proposal_id''"] dict_pop_set)
      (simp add: dict_pop_commute[of "''proposal_id''" "''proposal_digest''"] dict_pop_set)
  then show "digest_decomposition_proposal_body h ?p = digest_decomposition_proposal_body h p"
    by (simp add: body digest_body_def dp_to_dict_def)
  assume "digest_decomposition_proposal_body h p = digest_decomposition_proposal_body h q"
  then have s: "sort_members (JObj (digest_body p)) = sort_members (JObj (digest_body q)) \<or> collision h"
    using digest_json_eq[OF _ digest_body_wf[OF assms(1)] digest_body_wf[OF assms(2)]] by (simp only: body)
  have get: "map_option sort_members (dict_get (digest_body p) k) = map_option sort_members (dict_get (digest_body q) k)"
    if "sort_members (JObj (digest_body p)) = sort_members (JObj (digest_body q))" for k
    using that digest_body_wf assms by (intro sort_obj_get) (auto simp: sort_members_obj simp del: sort_members.simps)
  have at: "dict_get (digest_body x) ''proposal_header'' = Some (JObj (named_header x))"
    "dict_get (digest_body x) ''child_specs'' = Some (objects (dp_child_specs x))"
    "dict_get (digest_body x) ''dependency_edges'' = Some (objects (dp_dependency_edges x))"
    "dict_get (digest_body x) ''expected_outputs'' = Some (objects (dp_expected_outputs x))"
    "dict_get (digest_body x) ''merge_slots'' = Some (objects (dp_merge_slots x))"
    "dict_get (digest_body x) ''promotion_guard_evidence'' = Some (JObj (dp_promotion_guard_evidence x))" for x
    by (simp_all add: digest_body_def dp_to_dict_def)
  show "(\<exists>x y. x \<noteq> y \<and> h x = h y) \<or> same_content p q"
  proof (cases "collision h")
    case True
    then show ?thesis by (simp add: collision_def)
  next
    case False
    with s have g: "map_option sort_members (dict_get (digest_body p) k) = map_option sort_members (dict_get (digest_body q) k)" for k
      using get by blast
    show ?thesis
      using g[of "''proposal_header''"] g[of "''child_specs''"] g[of "''dependency_edges''"] g[of "''expected_outputs''"]
        g[of "''merge_slots''"] g[of "''promotion_guard_evidence''"]
      by (simp add: at same_content_def del: sort_members.simps)
  qed
qed

section \<open>A proposal at work\<close>

definition sample_child :: "string \<Rightarrow> jobj" where
  "sample_child k =
     [(''child_logical_key'', JStr k), (''unit_type'', JStr ''leaf''),
      (''input_bindings'', JObj [(''given'', JObj [(''kind'', JStr ''constant'')])]),
      (''required_outputs'', JArr [JStr ''out'']), (''output_contract_refs'', JObj [(''out'', JStr ''contract'')]),
      (''validator_policy_id'', JStr ''v''), (''weight'', JInt 1), (''required_capabilities'', JObj []),
      (''plugin_payload'', JObj [])]"

definition sample_edge :: "string \<Rightarrow> string \<Rightarrow> jobj" where
  "sample_edge a b =
     [(''edge_logical_key'', JStr (a @ b)), (''source_child_key'', JStr a), (''target_child_key'', JStr b),
      (''source_output_name'', JStr ''out''), (''target_input_name'', JStr ''in''),
      (''relation_type'', JStr ''depends_on_output'')]"

definition sample_proposal :: "jobj list \<Rightarrow> decomposition_proposal" where
  "sample_proposal edges =
     \<lparr>dp_proposal_header = map (\<lambda>f. (f, JStr (if f = ''proposal_schema_version''
        then ''phase4.decomposition_proposal.v1'' else ''x''))) proposal_header_fields,
      dp_child_specs = [sample_child ''a'', sample_child ''b''], dp_dependency_edges = edges,
      dp_expected_outputs = [[(''output_name'', JStr ''o''), (''schema_ref'', JObj []),
        (''resolution_kind'', JStr ''child_output''), (''required'', JBool True), (''child_key'', JStr ''b''),
        (''child_output_name'', JStr ''out'')]],
      dp_merge_slots = [[(''slot_id'', JStr ''s''), (''child_key'', JStr ''a''), (''child_output_name'', JStr ''out''),
        (''schema_ref'', JObj []), (''required'', JBool True), (''missing_policy'', JStr ''block_merge'')]],
      dp_promotion_guard_evidence = map (\<lambda>c. (c, JBool True)) guard_checks,
      dp_schema_version = ''phase4.decomposition_proposal.v1''\<rparr>"

lemma sample_accepted: "is_ok (mk_proposal (sample_proposal [sample_edge ''a'' ''b'']))"
  by code_simp

lemma sample_cyclic: "\<not> is_ok (mk_proposal (sample_proposal [sample_edge ''a'' ''b'', sample_edge ''b'' ''a'']))"
  by code_simp

lemma sample_eq: "mk_proposal (sample_proposal [sample_edge ''a'' ''b'']) = Inr (sample_proposal [sample_edge ''a'' ''b''])"
  using sample_accepted by (cases "mk_proposal (sample_proposal [sample_edge ''a'' ''b''])") (auto simp: mk_proposal_def res_simps)

lemma proposal_graph_exact_witness:
  "edges_spec [sample_child ''a'', sample_child ''b''] [sample_edge ''a'' ''b''] \<and>
   \<not> edges_spec [sample_child ''a'', sample_child ''b''] [sample_edge ''a'' ''b'', sample_edge ''b'' ''a'']"
  using proposal_graph_exact[OF sample_eq, of "[sample_edge ''a'' ''b'', sample_edge ''b'' ''a'']"] sample_cyclic
  by (simp add: sample_proposal_def)

lemma child_initial_state_witness:
  "derive_child_initial_state (sample_proposal [sample_edge ''a'' ''b'']) ''a'' [] = Inr TS_READY \<and>
   derive_child_initial_state (sample_proposal [sample_edge ''a'' ''b'']) ''b'' [] \<noteq> Inr TS_READY"
proof -
  have "sample_child k \<in> set (dp_child_specs (sample_proposal [sample_edge ''a'' ''b'']))" if "k \<in> {''a'', ''b''}" for k
    using that by (auto simp: sample_proposal_def)
  moreover have "jget (sample_child k) ''child_logical_key'' = JStr k" for k
    by (simp add: sample_child_def jget_def)
  moreover have "incoming_edges (sample_proposal [sample_edge ''a'' ''b'']) ''a'' = []"
    "incoming_edges (sample_proposal [sample_edge ''a'' ''b'']) ''b'' \<noteq> []"
    by (simp_all add: incoming_edges_def sample_proposal_def sample_edge_def jget_def)
  moreover have "list_all (binding_given []) (child_bindings (sample_child ''a''))"
    by (simp add: child_bindings_def sample_child_def jget_def binding_given_def)
  ultimately show ?thesis
    using child_initial_state[OF sample_eq, of "sample_child ''a''" "''a''" "[]"]
      child_initial_state[OF sample_eq, of "sample_child ''b''" "''b''" "[]"] by auto
qed

lemma proposal_digest_witness:
  "digest_decomposition_proposal_body id (sample_proposal []) \<noteq>
   digest_decomposition_proposal_body id (sample_proposal [sample_edge ''a'' ''b''])"
proof
  assume eq: "digest_decomposition_proposal_body id (sample_proposal [])
    = digest_decomposition_proposal_body id (sample_proposal [sample_edge ''a'' ''b''])"
  have "wf_proposal (sample_proposal es)" if "\<forall>e \<in> set es. wf_json (JObj e)" for es
    using that by (auto simp: wf_proposal_def sample_proposal_def dp_to_dict_def objects_def sample_child_def
        proposal_header_fields_def guard_checks_def)
  then have "wf_proposal (sample_proposal [])" "wf_proposal (sample_proposal [sample_edge ''a'' ''b''])"
    by (simp_all add: sample_edge_def)
  from proposal_digest[OF this, of id JNull JNull] eq have "same_content (sample_proposal []) (sample_proposal [sample_edge ''a'' ''b''])"
    by auto
  then show False by (simp add: same_content_def sample_proposal_def objects_def)
qed

end
