(* ===== verification/Core_Merge.thy ===== *)
theory Core_Merge
  imports Core_Contribution Core_Expansion
begin

text \<open>
  \<open>core/merge.py\<close>: the records of a merge. A slot binding ties a required slot of a merge plan to the
  canonical output of a child, a link ties the plan to its merge unit and to the bindings, a merge
  record commits the output of the merge unit and a resolution gives it to an expected output. The
  lemmas show that the bindings of an accepted link are determined, up to their order, by its
  digest. Field prefixes: \<open>sb_\<close> RequiredSlotBinding, \<open>ml_\<close> MergeTaskLink, \<open>mr_\<close> MergeRecord, \<open>er_\<close>
  ExpectedOutputResolution.
\<close>

section \<open>Slot bindings\<close>

record slot_binding =
  sb_slot_key :: string
  sb_slot_id :: "string option"
  sb_source_child_logical_key :: string
  sb_source_child_unit_id :: string
  sb_source_output_name :: string
  sb_source_output_schema_digest :: string
  sb_canonical_selection_id :: string
  sb_canonical_event_seq :: int
  sb_canonical_output_ref :: json
  sb_canonical_output_digest :: string
  sb_canonical_output_bundle_digest :: string
  sb_selected_verification_report_id :: string
  sb_selected_attempt_id :: string
  sb_binding_source :: string
  sb_schema_version :: string

definition mk_slot_binding :: "slot_binding \<Rightarrow> slot_binding res" where
  "mk_slot_binding b =
     seqE (checks
       [require_schema_version (sb_schema_version b) ''phase5.required_slot_binding.v1'',
        require_non_empty
          [(''slot_key'', sb_slot_key b), (''source_child_logical_key'', sb_source_child_logical_key b),
           (''source_child_unit_id'', sb_source_child_unit_id b), (''source_output_name'', sb_source_output_name b),
           (''source_output_schema_digest'', sb_source_output_schema_digest b),
           (''canonical_selection_id'', sb_canonical_selection_id b),
           (''canonical_output_digest'', sb_canonical_output_digest b),
           (''canonical_output_bundle_digest'', sb_canonical_output_bundle_digest b),
           (''selected_verification_report_id'', sb_selected_verification_report_id b),
           (''selected_attempt_id'', sb_selected_attempt_id b)],
        require (sb_binding_source b = ''canonical_output'')
          (ValueError ''RequiredSlotBinding binding_source must be canonical_output''),
        raise_if (sb_canonical_event_seq b \<le> 0) (ValueError ''canonical_event_seq must be positive''),
        (case sb_canonical_output_ref b of
           JObj d \<Rightarrow> require (jget d ''artifact_type'' = JStr ''canonical_output'')
             (ValueError ''canonical_output_ref must reference a canonical output'')
         | _ \<Rightarrow> Inl (ValueError ''canonical_output_ref must be an object''))])
     (Inr b)"

definition sb_to_dict :: "slot_binding \<Rightarrow> jobj" where
  "sb_to_dict b =
     [(''schema_version'', JStr (sb_schema_version b)),
      (''slot_key'', JStr (sb_slot_key b)),
      (''slot_id'', opt_str (sb_slot_id b)),
      (''source_child_logical_key'', JStr (sb_source_child_logical_key b)),
      (''source_child_unit_id'', JStr (sb_source_child_unit_id b)),
      (''source_output_name'', JStr (sb_source_output_name b)),
      (''source_output_schema_digest'', JStr (sb_source_output_schema_digest b)),
      (''canonical_selection_id'', JStr (sb_canonical_selection_id b)),
      (''canonical_event_seq'', JInt (sb_canonical_event_seq b)),
      (''canonical_output_ref'', sb_canonical_output_ref b),
      (''canonical_output_digest'', JStr (sb_canonical_output_digest b)),
      (''canonical_output_bundle_digest'', JStr (sb_canonical_output_bundle_digest b)),
      (''selected_verification_report_id'', JStr (sb_selected_verification_report_id b)),
      (''selected_attempt_id'', JStr (sb_selected_attempt_id b)),
      (''binding_source'', JStr (sb_binding_source b))]"

definition slot_binding_keys :: "string list" where
  "slot_binding_keys =
     [''schema_version'', ''slot_key'', ''slot_id'', ''source_child_logical_key'', ''source_child_unit_id'',
      ''source_output_name'', ''source_output_schema_digest'', ''canonical_selection_id'', ''canonical_event_seq'',
      ''canonical_output_ref'', ''canonical_output_digest'', ''canonical_output_bundle_digest'',
      ''selected_verification_report_id'', ''selected_attempt_id'', ''binding_source'']"

text \<open>\<open>RequiredSlotBinding(**binding)\<close>: every field but the schema version is required, no other key is allowed.\<close>

definition sb_from_kwargs :: "jobj \<Rightarrow> slot_binding res" where
  "sb_from_kwargs d =
     seqE (require (set (dict_keys d) \<subseteq> set slot_binding_keys) (TypeError ''unexpected keyword argument''))
     (missing_argument (
     bindE (str_item d ''slot_key'') (\<lambda>slot_key.
     bindE (opt_str_required d ''slot_id'') (\<lambda>slot_id.
     bindE (str_item d ''source_child_logical_key'') (\<lambda>logical_key.
     bindE (str_item d ''source_child_unit_id'') (\<lambda>unit_id.
     bindE (str_item d ''source_output_name'') (\<lambda>output_name.
     bindE (str_item d ''source_output_schema_digest'') (\<lambda>schema_digest.
     bindE (str_item d ''canonical_selection_id'') (\<lambda>selection_id.
     bindE (int_item d ''canonical_event_seq'') (\<lambda>event_seq.
     bindE (jitem d ''canonical_output_ref'') (\<lambda>output_ref.
     bindE (str_item d ''canonical_output_digest'') (\<lambda>output_digest.
     bindE (str_item d ''canonical_output_bundle_digest'') (\<lambda>bundle_digest.
     bindE (str_item d ''selected_verification_report_id'') (\<lambda>report_id.
     bindE (str_item d ''selected_attempt_id'') (\<lambda>attempt_id.
     bindE (str_item d ''binding_source'') (\<lambda>binding_source.
     bindE (str_default d ''schema_version'' ''phase5.required_slot_binding.v1'') (\<lambda>schema_version.
     mk_slot_binding
       \<lparr>sb_slot_key = slot_key, sb_slot_id = slot_id, sb_source_child_logical_key = logical_key,
        sb_source_child_unit_id = unit_id, sb_source_output_name = output_name,
        sb_source_output_schema_digest = schema_digest, sb_canonical_selection_id = selection_id,
        sb_canonical_event_seq = event_seq, sb_canonical_output_ref = output_ref,
        sb_canonical_output_digest = output_digest, sb_canonical_output_bundle_digest = bundle_digest,
        sb_selected_verification_report_id = report_id, sb_selected_attempt_id = attempt_id,
        sb_binding_source = binding_source, sb_schema_version = schema_version\<rparr>)))))))))))))))))"

text \<open>A binding is given as the object or as its dictionary.\<close>

datatype binding_arg = Bound slot_binding | Given json

fun coerce_binding :: "binding_arg \<Rightarrow> slot_binding res" where
  "coerce_binding (Bound b) = Inr b"
| "coerce_binding (Given (JObj d)) = sb_from_kwargs d"
| "coerce_binding (Given _) = Inl (ValueError ''required_slot_bindings must contain RequiredSlotBinding objects'')"

definition sort_bindings :: "slot_binding list \<Rightarrow> slot_binding list" where
  "sort_bindings bs = sort_key sb_slot_key bs"

definition digest_required_slot_bindings :: "hash \<Rightarrow> binding_arg list \<Rightarrow> string res" where
  "digest_required_slot_bindings h bs =
     bindE (mapE coerce_binding bs) (\<lambda>cs.
     Inr (digest_json h (JArr (map (JObj \<circ> sb_to_dict) (sort_bindings cs)))))"

fun reject_duplicate_slots :: "string list \<Rightarrow> slot_binding list \<Rightarrow> unit res" where
  "reject_duplicate_slots seen [] = Inr ()"
| "reject_duplicate_slots seen (b # bs) =
     seqE (raise_if (sb_slot_key b \<in> set seen) (ValueError (''duplicate required slot: '' @ sb_slot_key b)))
     (reject_duplicate_slots (sb_slot_key b # seen) bs)"

section \<open>Links\<close>

record merge_task_link =
  ml_merge_task_link_id :: string
  ml_task_id :: string
  ml_parent_unit_id :: string
  ml_merge_plan_id :: string
  ml_expansion_decision_id :: string
  ml_merge_unit_id :: string
  ml_merge_input_bundle_ref :: json
  ml_merge_input_bundle_digest :: string
  ml_required_slot_bindings :: "binding_arg list"
  ml_required_slot_bindings_digest :: string
  ml_merge_policy_id :: string
  ml_merge_policy_version :: string
  ml_merge_policy_descriptor_digest :: string
  ml_source_merge_plan_event_seq :: int
  ml_source_task_expanded_event_seq :: int
  ml_optional_task_relation_id :: "string option"
  ml_readiness_reason :: string
  ml_created_at :: string
  ml_coordinator :: json
  ml_readiness_decision :: json
  ml_schema_version :: string

text \<open>The child units a decision selects: a non-empty list of different non-empty strings.\<close>

fun json_str :: "json \<Rightarrow> string option" where
  "json_str (JStr s) = Some s"
| "json_str _ = None"

definition selected_units :: "jobj \<Rightarrow> string list option" where
  "selected_units decision =
     (case jget decision ''selected_child_unit_ids'' of
        JArr xs \<Rightarrow>
          if xs = [] \<or> list_ex (\<lambda>x. \<not> is_nonempty_str x) xs \<or> \<not> distinct xs then None
          else Some (keep_some (map json_str xs))
      | _ \<Rightarrow> None)"

definition validate_readiness_decision :: "hash \<Rightarrow> json \<Rightarrow> string \<Rightarrow> unit res" where
  "validate_readiness_decision h decision reason =
     (case decision of
        JObj d \<Rightarrow> checks
          [require (jget d ''schema_version'' = JStr ''tokenshare.merge_readiness_decision.v1'')
             (ValueError ''unsupported merge readiness decision schema''),
           require (jget d ''status'' = JStr ''ready'') (ValueError ''merge task link requires a ready decision''),
           require (jget d ''reason'' = JStr reason) (ValueError ''readiness_reason must match readiness_decision''),
           require (jget d ''decision_digest'' = JStr (digest_json h (JObj (filter (\<lambda>(k, v). k \<noteq> ''decision_digest'') d))))
             (ValueError ''merge readiness decision digest mismatch''),
           require (selected_units d \<noteq> None) (ValueError ''ready decision must select unique child units'')]
      | _ \<Rightarrow> Inl (ValueError ''v2 merge task link requires readiness_decision''))"

definition link_v1 :: string where
  "link_v1 = ''phase5.merge_task_link.v1''"

definition link_v2 :: string where
  "link_v2 = ''phase5.merge_task_link.v2''"

definition check_readiness :: "hash \<Rightarrow> merge_task_link \<Rightarrow> unit res" where
  "check_readiness h l =
     (if ml_schema_version l = link_v1
      then checks
        [require (ml_readiness_reason l = ''all_required_slots_canonical'')
           (ValueError ''readiness_reason must be all_required_slots_canonical''),
         require (ml_readiness_decision l = JNull) (ValueError ''v1 merge task link cannot carry readiness_decision'')]
      else validate_readiness_decision h (ml_readiness_decision l) (ml_readiness_reason l))"

definition check_selected :: "json \<Rightarrow> slot_binding list \<Rightarrow> unit res" where
  "check_selected decision bs =
     (case decision of
        JObj d \<Rightarrow> (case selected_units d of
            Some us \<Rightarrow> require (set us = set (map sb_source_child_unit_id bs))
              (ValueError ''readiness selected child units must match slot bindings'')
          | None \<Rightarrow> Inr ())
      | _ \<Rightarrow> Inr ())"

definition check_link_fields :: "hash \<Rightarrow> merge_task_link \<Rightarrow> unit res" where
  "check_link_fields h l =
     checks
       [require (ml_schema_version l \<in> {link_v1, link_v2})
          (ValueError (''invalid schema_version: expected phase5.merge_task_link.v1 or phase5.merge_task_link.v2, got ''
             @ ml_schema_version l)),
        require_non_empty
          [(''merge_task_link_id'', ml_merge_task_link_id l), (''task_id'', ml_task_id l),
           (''parent_unit_id'', ml_parent_unit_id l), (''merge_plan_id'', ml_merge_plan_id l),
           (''expansion_decision_id'', ml_expansion_decision_id l), (''merge_unit_id'', ml_merge_unit_id l),
           (''merge_input_bundle_digest'', ml_merge_input_bundle_digest l),
           (''required_slot_bindings_digest'', ml_required_slot_bindings_digest l),
           (''merge_policy_id'', ml_merge_policy_id l), (''merge_policy_version'', ml_merge_policy_version l),
           (''merge_policy_descriptor_digest'', ml_merge_policy_descriptor_digest l),
           (''created_at'', ml_created_at l)],
        check_readiness h l,
        raise_if (ml_source_merge_plan_event_seq l \<le> 0 \<or> ml_source_task_expanded_event_seq l \<le> 0)
          (ValueError ''source event seq fields must be positive''),
        require (is_jobj (ml_merge_input_bundle_ref l)) (ValueError ''merge_input_bundle_ref must be an object''),
        require (is_jobj (ml_coordinator l)) (ValueError ''coordinator must be an object'')]"

definition mk_merge_task_link :: "hash \<Rightarrow> merge_task_link \<Rightarrow> merge_task_link res" where
  "mk_merge_task_link h l =
     seqE (check_link_fields h l)
     (bindE (mapE coerce_binding (ml_required_slot_bindings l)) (\<lambda>bs.
      seqE (reject_duplicate_slots [] bs)
      (bindE (digest_required_slot_bindings h (map Bound bs)) (\<lambda>expected_digest.
      seqE (require (ml_required_slot_bindings_digest l = expected_digest)
        (ValueError ''required_slot_bindings_digest mismatch''))
      (seqE (check_selected (ml_readiness_decision l) bs)
      (Inr (l\<lparr>ml_required_slot_bindings := map Bound (sort_bindings bs)\<rparr>)))))))"

fun binding_json :: "binding_arg \<Rightarrow> json" where
  "binding_json (Bound b) = JObj (sb_to_dict b)"
| "binding_json (Given j) = j"

definition ml_to_dict :: "merge_task_link \<Rightarrow> jobj" where
  "ml_to_dict l =
     [(''schema_version'', JStr (ml_schema_version l)),
      (''merge_task_link_id'', JStr (ml_merge_task_link_id l)),
      (''task_id'', JStr (ml_task_id l)),
      (''parent_unit_id'', JStr (ml_parent_unit_id l)),
      (''merge_plan_id'', JStr (ml_merge_plan_id l)),
      (''expansion_decision_id'', JStr (ml_expansion_decision_id l)),
      (''merge_unit_id'', JStr (ml_merge_unit_id l)),
      (''merge_input_bundle_ref'', ml_merge_input_bundle_ref l),
      (''merge_input_bundle_digest'', JStr (ml_merge_input_bundle_digest l)),
      (''required_slot_bindings'', JArr (map binding_json (ml_required_slot_bindings l))),
      (''required_slot_bindings_digest'', JStr (ml_required_slot_bindings_digest l)),
      (''merge_policy_id'', JStr (ml_merge_policy_id l)),
      (''merge_policy_version'', JStr (ml_merge_policy_version l)),
      (''merge_policy_descriptor_digest'', JStr (ml_merge_policy_descriptor_digest l)),
      (''source_merge_plan_event_seq'', JInt (ml_source_merge_plan_event_seq l)),
      (''source_task_expanded_event_seq'', JInt (ml_source_task_expanded_event_seq l)),
      (''optional_task_relation_id'', opt_str (ml_optional_task_relation_id l)),
      (''readiness_reason'', JStr (ml_readiness_reason l)),
      (''created_at'', JStr (ml_created_at l)),
      (''coordinator'', ml_coordinator l),
      (''readiness_decision'', ml_readiness_decision l)]"

section \<open>Merge records and resolutions\<close>

record merge_record =
  mr_merge_record_id :: string
  mr_task_id :: string
  mr_parent_unit_id :: string
  mr_merge_plan_id :: string
  mr_merge_unit_id :: string
  mr_merge_task_link_id :: string
  mr_merge_input_bundle_ref :: json
  mr_merge_input_bundle_digest :: string
  mr_required_slot_bindings_digest :: string
  mr_merge_policy_id :: string
  mr_merge_policy_version :: string
  mr_merge_policy_descriptor_digest :: string
  mr_merge_policy_params_digest :: string
  mr_canonical_selection_id :: string
  mr_canonical_event_seq :: int
  mr_selected_verification_report_id :: string
  mr_selected_verification_event_seq :: int
  mr_selected_submission_id :: string
  mr_selected_submission_event_seq :: int
  mr_selected_attempt_id :: string
  mr_merge_output_bundle_digest :: string
  mr_merge_output_refs :: json
  mr_parent_output_mapping_digest :: string
  mr_created_at :: string
  mr_schema_version :: string

definition mk_merge_record :: "merge_record \<Rightarrow> merge_record res" where
  "mk_merge_record r =
     seqE (checks
       [require_schema_version (mr_schema_version r) ''phase5.merge_record.v1'',
        require_non_empty
          [(''merge_record_id'', mr_merge_record_id r), (''task_id'', mr_task_id r),
           (''parent_unit_id'', mr_parent_unit_id r), (''merge_plan_id'', mr_merge_plan_id r),
           (''merge_unit_id'', mr_merge_unit_id r), (''merge_task_link_id'', mr_merge_task_link_id r),
           (''merge_input_bundle_digest'', mr_merge_input_bundle_digest r),
           (''required_slot_bindings_digest'', mr_required_slot_bindings_digest r),
           (''merge_policy_id'', mr_merge_policy_id r), (''merge_policy_version'', mr_merge_policy_version r),
           (''merge_policy_descriptor_digest'', mr_merge_policy_descriptor_digest r),
           (''merge_policy_params_digest'', mr_merge_policy_params_digest r),
           (''canonical_selection_id'', mr_canonical_selection_id r),
           (''selected_verification_report_id'', mr_selected_verification_report_id r),
           (''selected_submission_id'', mr_selected_submission_id r),
           (''selected_attempt_id'', mr_selected_attempt_id r),
           (''merge_output_bundle_digest'', mr_merge_output_bundle_digest r),
           (''parent_output_mapping_digest'', mr_parent_output_mapping_digest r),
           (''created_at'', mr_created_at r)],
        require_positive
          [(''canonical_event_seq'', mr_canonical_event_seq r),
           (''selected_verification_event_seq'', mr_selected_verification_event_seq r),
           (''selected_submission_event_seq'', mr_selected_submission_event_seq r)],
        require (is_jobj (mr_merge_input_bundle_ref r)) (ValueError ''merge_input_bundle_ref must be an object''),
        require (is_jobj (mr_merge_output_refs r) \<and> truthy (mr_merge_output_refs r))
          (ValueError ''merge_output_refs must be a non-empty object'')])
     (Inr r)"

definition mr_to_dict :: "merge_record \<Rightarrow> jobj" where
  "mr_to_dict r =
     [(''schema_version'', JStr (mr_schema_version r)),
      (''merge_record_id'', JStr (mr_merge_record_id r)),
      (''task_id'', JStr (mr_task_id r)),
      (''parent_unit_id'', JStr (mr_parent_unit_id r)),
      (''merge_plan_id'', JStr (mr_merge_plan_id r)),
      (''merge_unit_id'', JStr (mr_merge_unit_id r)),
      (''merge_task_link_id'', JStr (mr_merge_task_link_id r)),
      (''merge_input_bundle_ref'', mr_merge_input_bundle_ref r),
      (''merge_input_bundle_digest'', JStr (mr_merge_input_bundle_digest r)),
      (''required_slot_bindings_digest'', JStr (mr_required_slot_bindings_digest r)),
      (''merge_policy_id'', JStr (mr_merge_policy_id r)),
      (''merge_policy_version'', JStr (mr_merge_policy_version r)),
      (''merge_policy_descriptor_digest'', JStr (mr_merge_policy_descriptor_digest r)),
      (''merge_policy_params_digest'', JStr (mr_merge_policy_params_digest r)),
      (''canonical_selection_id'', JStr (mr_canonical_selection_id r)),
      (''canonical_event_seq'', JInt (mr_canonical_event_seq r)),
      (''selected_verification_report_id'', JStr (mr_selected_verification_report_id r)),
      (''selected_verification_event_seq'', JInt (mr_selected_verification_event_seq r)),
      (''selected_submission_id'', JStr (mr_selected_submission_id r)),
      (''selected_submission_event_seq'', JInt (mr_selected_submission_event_seq r)),
      (''selected_attempt_id'', JStr (mr_selected_attempt_id r)),
      (''merge_output_bundle_digest'', JStr (mr_merge_output_bundle_digest r)),
      (''merge_output_refs'', mr_merge_output_refs r),
      (''parent_output_mapping_digest'', JStr (mr_parent_output_mapping_digest r)),
      (''created_at'', JStr (mr_created_at r))]"

record output_resolution =
  er_expected_output_resolution_id :: string
  er_task_id :: string
  er_owner_unit_id :: string
  er_expected_output_id :: string
  er_expected_output_name :: string
  er_resolution_source_type :: string
  er_merge_record_id :: string
  er_merge_plan_id :: string
  er_merge_unit_id :: string
  er_merge_canonical_selection_id :: string
  er_resolved_output_ref :: json
  er_resolved_output_digest :: string
  er_resolved_at :: string
  er_schema_version :: string

definition mk_output_resolution :: "output_resolution \<Rightarrow> output_resolution res" where
  "mk_output_resolution r =
     seqE (checks
       [require_schema_version (er_schema_version r) ''phase5.expected_output_resolution.v1'',
        require_non_empty
          [(''expected_output_resolution_id'', er_expected_output_resolution_id r), (''task_id'', er_task_id r),
           (''owner_unit_id'', er_owner_unit_id r), (''expected_output_id'', er_expected_output_id r),
           (''expected_output_name'', er_expected_output_name r), (''merge_record_id'', er_merge_record_id r),
           (''merge_plan_id'', er_merge_plan_id r), (''merge_unit_id'', er_merge_unit_id r),
           (''merge_canonical_selection_id'', er_merge_canonical_selection_id r),
           (''resolved_output_digest'', er_resolved_output_digest r), (''resolved_at'', er_resolved_at r)],
        require (er_resolution_source_type r = ''merge_record'')
          (ValueError ''ExpectedOutputResolution v1 source must be merge_record''),
        require (is_jobj (er_resolved_output_ref r)) (ValueError ''resolved_output_ref must be an object'')])
     (Inr r)"

definition er_to_dict :: "output_resolution \<Rightarrow> jobj" where
  "er_to_dict r =
     [(''schema_version'', JStr (er_schema_version r)),
      (''expected_output_resolution_id'', JStr (er_expected_output_resolution_id r)),
      (''task_id'', JStr (er_task_id r)),
      (''owner_unit_id'', JStr (er_owner_unit_id r)),
      (''expected_output_id'', JStr (er_expected_output_id r)),
      (''expected_output_name'', JStr (er_expected_output_name r)),
      (''resolution_source_type'', JStr (er_resolution_source_type r)),
      (''merge_record_id'', JStr (er_merge_record_id r)),
      (''merge_plan_id'', JStr (er_merge_plan_id r)),
      (''merge_unit_id'', JStr (er_merge_unit_id r)),
      (''merge_canonical_selection_id'', JStr (er_merge_canonical_selection_id r)),
      (''resolved_output_ref'', er_resolved_output_ref r),
      (''resolved_output_digest'', JStr (er_resolved_output_digest r)),
      (''resolved_at'', JStr (er_resolved_at r))]"

section \<open>The bindings of an accepted link\<close>

lemma reject_duplicates_iff:
  "reject_duplicate_slots seen bs = Inr u \<longleftrightarrow>
     distinct (map sb_slot_key bs) \<and> set (map sb_slot_key bs) \<inter> set seen = {}"
  by (induction bs arbitrary: seen) (auto simp: res_simps)

lemma coerce_bound [simp]: "mapE coerce_binding (map Bound bs) = Inr bs"
  by (induction bs) simp_all

lemma mapE_projr:
  assumes "mapE f xs = Inr ys"
  shows "ys = map (projr \<circ> f) xs" "\<forall>x \<in> set xs. \<exists>y. f x = Inr y"
  using assms by (induction xs arbitrary: ys) (auto simp: res_simps)

lemma mapE_perm:
  assumes "mapE f xs = Inr ys" "mset xs = mset xs'"
  obtains ys' where "mapE f xs' = Inr ys'" "mset ys' = mset ys"
proof
  have "set xs' = set xs" using assms(2) by (metis set_mset_mset)
  then show "mapE f xs' = Inr (map (projr \<circ> f) xs')"
    using mapE_projr(2)[OF assms(1)] by (intro mapE_total) simp
  show "mset (map (projr \<circ> f) xs') = mset ys"
    using mapE_projr(1)[OF assms(1)] assms(2) by (metis mset_map)
qed

lemma link_accepted:
  assumes "mk_merge_task_link h l = Inr k"
  obtains bs where "mapE coerce_binding (ml_required_slot_bindings l) = Inr bs"
    "distinct (map sb_slot_key bs)" "check_selected (ml_readiness_decision l) bs = Inr ()"
    "ml_required_slot_bindings_digest l = digest_json h (JArr (map (JObj \<circ> sb_to_dict) (sort_bindings bs)))"
    "k = l\<lparr>ml_required_slot_bindings := map Bound (sort_bindings bs)\<rparr>"
  using assms by (auto simp: mk_merge_task_link_def res_simps reject_duplicates_iff digest_required_slot_bindings_def)

lemma link_digest:
  assumes "mk_merge_task_link h l = Inr k"
  shows "\<exists>bs. ml_required_slot_bindings_digest l = digest_json h (JArr (map (JObj \<circ> sb_to_dict) (sort_bindings bs))) \<and>
    ml_required_slot_bindings k = map Bound (sort_bindings bs)"
  by (rule link_accepted[OF assms]) auto

lemma link_fields_bindings [simp]: "check_link_fields h (l\<lparr>ml_required_slot_bindings := bs\<rparr>) = check_link_fields h l"
  by (simp add: check_link_fields_def check_readiness_def)

text \<open>
  An accepted merge task link does not depend on the order its slot
  bindings are given in: any rearrangement of them is accepted and gives the same link, with the
  bindings in the order of their slot keys, no two for one slot.
\<close>

theorem link_bindings_order_free:
  assumes "mk_merge_task_link h l = Inr k" and "mset bs' = mset (ml_required_slot_bindings l)"
  shows "mk_merge_task_link h (l\<lparr>ml_required_slot_bindings := bs'\<rparr>) = Inr k \<and>
    (\<exists>bs. ml_required_slot_bindings k = map Bound bs \<and> sorted (map sb_slot_key bs) \<and> distinct (map sb_slot_key bs))"
proof -
  from link_accepted[OF assms(1)] obtain bs where c: "mapE coerce_binding (ml_required_slot_bindings l) = Inr bs"
    and d: "distinct (map sb_slot_key bs)" and s: "check_selected (ml_readiness_decision l) bs = Inr ()"
    and dg: "ml_required_slot_bindings_digest l = digest_json h (JArr (map (JObj \<circ> sb_to_dict) (sort_bindings bs)))"
    and k: "k = l\<lparr>ml_required_slot_bindings := map Bound (sort_bindings bs)\<rparr>" .
  obtain cs where cs: "mapE coerce_binding bs' = Inr cs" "mset cs = mset bs"
    using mapE_perm[OF c assms(2)[symmetric]] .
  have eq: "sort_bindings cs = sort_bindings bs"
    unfolding sort_bindings_def by (rule sort_key_perm[symmetric]) (use cs(2) d in auto)
  have "set cs = set bs" using cs(2) by (metis set_mset_mset)
  then have "check_selected (ml_readiness_decision l) cs = Inr ()"
    using s by (simp add: check_selected_def split: json.splits option.splits)
  moreover have "distinct (map sb_slot_key cs)"
    using d cs(2) by (metis mset_eq_imp_distinct_iff mset_map)
  ultimately have "mk_merge_task_link h (l\<lparr>ml_required_slot_bindings := bs'\<rparr>) = Inr k"
    using assms(1) cs(1) dg k eq
    by (auto simp: mk_merge_task_link_def res_simps reject_duplicates_iff digest_required_slot_bindings_def)
  moreover have "distinct (map sb_slot_key (sort_bindings bs))"
    using d unfolding sort_bindings_def by (metis mset_eq_imp_distinct_iff mset_map mset_sort)
  ultimately show ?thesis using k by (auto simp: sort_bindings_def)
qed

text \<open>
  Two accepted links with the same bindings digest have the same
  bindings, up to the order of the members of an output reference, or show a collision of the hash.
\<close>

theorem bindings_digest_commits:
  assumes "mk_merge_task_link h l = Inr k" and "mk_merge_task_link h l' = Inr k'"
    and "ml_required_slot_bindings_digest l = ml_required_slot_bindings_digest l'"
    and "\<forall>b. Bound b \<in> set (ml_required_slot_bindings k) \<union> set (ml_required_slot_bindings k') \<longrightarrow>
           wf_json (sb_canonical_output_ref b)"
  shows "map (sort_members \<circ> binding_json) (ml_required_slot_bindings k) =
      map (sort_members \<circ> binding_json) (ml_required_slot_bindings k') \<or> (\<exists>x y. x \<noteq> y \<and> h x = h y)"
proof -
  obtain bs where b:
    "ml_required_slot_bindings_digest l = digest_json h (JArr (map (JObj \<circ> sb_to_dict) (sort_bindings bs)))"
    "ml_required_slot_bindings k = map Bound (sort_bindings bs)" using link_digest[OF assms(1)] by blast
  obtain cs where c:
    "ml_required_slot_bindings_digest l' = digest_json h (JArr (map (JObj \<circ> sb_to_dict) (sort_bindings cs)))"
    "ml_required_slot_bindings k' = map Bound (sort_bindings cs)" using link_digest[OF assms(2)] by blast
  have w: "wf_json (JObj (sb_to_dict x))" if "wf_json (sb_canonical_output_ref x)" for x
    using that by (simp add: sb_to_dict_def)
  have "\<forall>x \<in> set (sort_bindings bs) \<union> set (sort_bindings cs). wf_json (sb_canonical_output_ref x)"
    using assms(4) b(2) c(2) by auto
  then have "wf_json (JArr (map (JObj \<circ> sb_to_dict) (sort_bindings bs)))"
    "wf_json (JArr (map (JObj \<circ> sb_to_dict) (sort_bindings cs)))"
    using w by auto
  with digest_json_eq[OF assms(3)[unfolded b(1) c(1)]] show ?thesis
    by (auto simp: b(2) c(2) collision_def comp_def)
qed

section \<open>A link at work\<close>

definition sample_binding :: "string \<Rightarrow> slot_binding" where
  "sample_binding k =
     \<lparr>sb_slot_key = k, sb_slot_id = None, sb_source_child_logical_key = ''c'', sb_source_child_unit_id = ''u'' @ k,
      sb_source_output_name = ''out'', sb_source_output_schema_digest = ''d'', sb_canonical_selection_id = ''s'',
      sb_canonical_event_seq = 3, sb_canonical_output_ref = JObj [(''artifact_type'', JStr ''canonical_output'')],
      sb_canonical_output_digest = ''d'', sb_canonical_output_bundle_digest = ''d'',
      sb_selected_verification_report_id = ''v'', sb_selected_attempt_id = ''a'',
      sb_binding_source = ''canonical_output'', sb_schema_version = ''phase5.required_slot_binding.v1''\<rparr>"

definition sample_link :: "string \<Rightarrow> merge_task_link" where
  "sample_link t =
     \<lparr>ml_merge_task_link_id = ''l'', ml_task_id = t, ml_parent_unit_id = ''p'', ml_merge_plan_id = ''m'',
      ml_expansion_decision_id = ''e'', ml_merge_unit_id = ''mu'', ml_merge_input_bundle_ref = JObj [],
      ml_merge_input_bundle_digest = ''d'',
      ml_required_slot_bindings = [Bound (sample_binding ''y''), Bound (sample_binding ''x'')],
      ml_required_slot_bindings_digest =
        digest_json id (JArr (map (JObj \<circ> sb_to_dict) [sample_binding ''x'', sample_binding ''y''])),
      ml_merge_policy_id = ''p'', ml_merge_policy_version = ''1'', ml_merge_policy_descriptor_digest = ''d'',
      ml_source_merge_plan_event_seq = 4, ml_source_task_expanded_event_seq = 5, ml_optional_task_relation_id = None,
      ml_readiness_reason = ''all_required_slots_canonical'', ml_created_at = ''now'', ml_coordinator = JObj [],
      ml_readiness_decision = JNull, ml_schema_version = link_v1\<rparr>"

lemma sample_link_ok:
  assumes "t \<noteq> []"
  shows "mk_merge_task_link id (sample_link t) = Inr (sample_link t\<lparr>ml_required_slot_bindings :=
     [Bound (sample_binding ''x''), Bound (sample_binding ''y'')]\<rparr>)"
proof -
  have "sort_bindings [sample_binding ''y'', sample_binding ''x''] = [sample_binding ''x'', sample_binding ''y'']"
    by (simp add: sort_bindings_def sample_binding_def)
  moreover have "digest_json id (JArr []) \<noteq> []" by (simp add: digest_json_def sha256_digest_def)
  ultimately show ?thesis
    using assms by (simp add: sample_link_def mk_merge_task_link_def check_link_fields_def check_readiness_def require_non_empty_def
        digest_required_slot_bindings_def check_selected_def digest_json_def sha256_digest_def)
      (simp add: sample_binding_def)
qed

lemma link_bindings_order_free_witness:
  "\<exists>k. mk_merge_task_link id (sample_link ''t'') = Inr k \<and>
     mk_merge_task_link id (sample_link ''t''\<lparr>ml_required_slot_bindings :=
       [Bound (sample_binding ''x''), Bound (sample_binding ''y'')]\<rparr>) = Inr k"
proof -
  have m: "mset [Bound (sample_binding ''x''), Bound (sample_binding ''y'')]
      = mset (ml_required_slot_bindings (sample_link ''t''))"
    by (simp add: sample_link_def)
  have "mk_merge_task_link id (sample_link ''t'') = Inr (sample_link ''t''\<lparr>ml_required_slot_bindings :=
     [Bound (sample_binding ''x''), Bound (sample_binding ''y'')]\<rparr>)" by (rule sample_link_ok) simp
  from link_bindings_order_free[OF this m] this show ?thesis by blast
qed

lemma bindings_digest_commits_witness:
  "\<exists>k k'. mk_merge_task_link id (sample_link ''t'') = Inr k \<and> mk_merge_task_link id (sample_link ''u'') = Inr k' \<and>
     map (sort_members \<circ> binding_json) (ml_required_slot_bindings k) =
     map (sort_members \<circ> binding_json) (ml_required_slot_bindings k')"
proof -
  let ?bs = "[Bound (sample_binding ''x''), Bound (sample_binding ''y'')]"
  let ?k = "\<lambda>t. sample_link t\<lparr>ml_required_slot_bindings := ?bs\<rparr>"
  have k: "mk_merge_task_link id (sample_link ''t'') = Inr (?k ''t'')"
    "mk_merge_task_link id (sample_link ''u'') = Inr (?k ''u'')" by (rule sample_link_ok, simp)+
  have "\<forall>b. Bound b \<in> set ?bs \<union> set ?bs \<longrightarrow> wf_json (sb_canonical_output_ref b)"
    by (auto simp: sample_binding_def)
  moreover have "ml_required_slot_bindings_digest (sample_link ''t'') = ml_required_slot_bindings_digest (sample_link ''u'')"
    by (simp add: sample_link_def)
  ultimately show ?thesis using bindings_digest_commits[OF k] k by auto
qed

end
