(* ===== verification/Core_Merge_Coordinator.thy ===== *)
theory Core_Merge_Coordinator
  imports Core_Merge Core_Task_Graph Artifact_Store
begin

text \<open>
  \<open>core/merge_coordinator.py\<close>: once the expansion of a unit is wholly visible and the outputs of its
  children are canonical, the coordinator stages the merge input as an artifact and commits the
  merge unit and its link to the ledger as one batch. The state is the file system of the artifact
  store and the ledger. Field prefixes: \<open>mq_\<close> the arguments of \<open>create_ready_merge_tasks\<close>, \<open>mf_\<close>
  MergeTaskCreationFlowResult; \<open>BatchView\<close> is \<open>batch_view\<close> of \<open>Core_Contribution\<close>.
\<close>

section \<open>Batches\<close>

definition is_complete :: "batch_view \<Rightarrow> bool" where
  "is_complete b \<longleftrightarrow>
     bt_events b \<noteq> [] \<and> length (remdups (map ev_batch_id (bt_events b))) = 1 \<and>
     remdups (map ev_batch_size (bt_events b)) = [Some (int (length (bt_events b)))]"

definition has_final_marker :: "batch_view \<Rightarrow> bool" where
  "has_final_marker b \<longleftrightarrow>
     is_complete b \<and> bt_task_expanded_visible b \<and> is_type (last (bt_events b)) TASK_EXPANDED"

section \<open>The plan and the decision\<close>

definition merge_plan_keys :: "string list" where
  "merge_plan_keys =
     [''schema_version'', ''merge_plan_header'', ''merge_policy_ref'', ''required_slots'', ''parent_output_mapping'',
      ''hash_recording_requirements'', ''merge_validation_requirements'', ''plugin_payload'']"

definition obj_item :: "jobj \<Rightarrow> string \<Rightarrow> jobj res" where
  "obj_item d k = bindE (jitem d k) (\<lambda>v. case v of JObj e \<Rightarrow> Inr e | _ \<Rightarrow> Inl (TypeError k))"

definition objs_item :: "jobj \<Rightarrow> string \<Rightarrow> jobj list res" where
  "objs_item d k = bindE (jitem d k) (\<lambda>v. case v of
     JArr xs \<Rightarrow> mapE (\<lambda>x. case x of JObj e \<Rightarrow> Inr e | _ \<Rightarrow> Inl (TypeError k)) xs
   | _ \<Rightarrow> Inl (TypeError k))"

text \<open>\<open>MergePlan(**payload)\<close>.\<close>

definition mp_from_kwargs :: "jobj \<Rightarrow> merge_plan res" where
  "mp_from_kwargs d =
     seqE (require (set (dict_keys d) \<subseteq> set merge_plan_keys) (TypeError ''unexpected keyword argument''))
     (missing_argument (
     bindE (obj_item d ''merge_plan_header'') (\<lambda>header.
     bindE (obj_item d ''merge_policy_ref'') (\<lambda>policy.
     bindE (objs_item d ''required_slots'') (\<lambda>slots.
     bindE (objs_item d ''parent_output_mapping'') (\<lambda>mapping.
     bindE (obj_item d ''hash_recording_requirements'') (\<lambda>recording.
     bindE (obj_item d ''merge_validation_requirements'') (\<lambda>validation.
     bindE (obj_item d ''plugin_payload'') (\<lambda>payload.
     bindE (str_default d ''schema_version'' ''phase4.merge_plan.v1'') (\<lambda>schema_version.
     mk_merge_plan
       \<lparr>mp_merge_plan_header = header, mp_merge_policy_ref = policy, mp_required_slots = slots,
        mp_parent_output_mapping = mapping, mp_hash_recording_requirements = recording,
        mp_merge_validation_requirements = validation, mp_plugin_payload = payload,
        mp_schema_version = schema_version\<rparr>))))))))))"

definition merge_plan_id_from_event :: "ledger_event \<Rightarrow> string res" where
  "merge_plan_id_from_event e =
     (case jget (ev_payload e) ''merge_plan_id'' of
        JStr s \<Rightarrow> Inr s | _ \<Rightarrow> Inl (ValueError ''merge plan id missing''))"

text \<open>\<open>MergePlan(**json.loads(data))\<close>.\<close>

definition parse_merge_plan :: "string \<Rightarrow> merge_plan res" where
  "parse_merge_plan data =
     (case loads data of
        None \<Rightarrow> Inl (ValueError ''invalid JSON'')
      | Some (JObj p) \<Rightarrow> mp_from_kwargs p
      | Some _ \<Rightarrow> Inl (TypeError ''MergePlan''))"

definition load_merge_plan :: "hash \<Rightarrow> artifact_store \<Rightarrow> fs \<Rightarrow> ledger_event \<Rightarrow> merge_plan res" where
  "load_merge_plan h st fs e =
     (case jget (ev_payload e) ''merge_plan_ref'' of
        JObj d \<Rightarrow>
          bindE (ar_from_dict d) (\<lambda>ref.
          bindE (verify_artifact h st fs ref) (\<lambda>intact.
          if \<not> intact then Inl (ValueError ''merge plan artifact digest mismatch'')
          else bindE (read_bytes st fs ref) (\<lambda>data.
          bindE (parse_merge_plan data) (\<lambda>plan.
          bindE (jitem (mp_merge_plan_header plan) ''merge_plan_id'') (\<lambda>i.
          if i \<noteq> jget (ev_payload e) ''merge_plan_id'' then Inl (ValueError ''merge plan id mismatch'')
          else Inr plan)))))
      | _ \<Rightarrow> Inl (ValueError ''merge plan ref missing''))"

definition selected_child_unit_ids :: "jobj option \<Rightarrow> string list option res" where
  "selected_child_unit_ids decision =
     (case decision of
        None \<Rightarrow> Inr None
      | Some d \<Rightarrow>
        if jget d ''schema_version'' \<noteq> JStr ''tokenshare.merge_readiness_decision.v1'' \<or> jget d ''status'' \<noteq> JStr ''ready''
        then Inl (ValueError ''merge task creation requires a ready v1 decision'')
        else case selected_units d of
          None \<Rightarrow> Inl (ValueError ''ready decision must select unique child unit IDs'')
        | Some us \<Rightarrow> Inr (Some us))"

definition canonical_unit :: "ledger_event \<Rightarrow> string option" where
  "canonical_unit e =
     (if \<not> is_type e CANONICAL_OUTPUTS_BOUND then None
      else case jget (ev_payload e) ''canonical_selection'' of
        JObj s \<Rightarrow> json_str (jget s ''unit_id'')
      | _ \<Rightarrow> None)"

definition canonical_events_by_unit_id :: "ledger_event list \<Rightarrow> (string, ledger_event) dict" where
  "canonical_events_by_unit_id es =
     fold (\<lambda>e d. case canonical_unit e of None \<Rightarrow> d | Some u \<Rightarrow> dict_set u e d) es []"

section \<open>Binding the slots\<close>

definition canonical_output_ref :: "jobj \<Rightarrow> string \<Rightarrow> artifact_ref res" where
  "canonical_output_ref selection name =
     bindE (case dict_get selection ''canonical_output_refs'' of
              None \<Rightarrow> Inr [] | Some (JObj d) \<Rightarrow> Inr d | Some _ \<Rightarrow> Inl (TypeError ''canonical_output_refs'')) (\<lambda>refs.
     case dict_get refs name of
       None \<Rightarrow> Inl (ValueError ''required slots not canonical'')
     | Some (JObj r) \<Rightarrow>
       if jget r ''artifact_type'' \<noteq> JStr ''canonical_output''
       then Inl (ValueError ''required slot must reference a canonical output'')
       else ar_from_dict r
     | Some _ \<Rightarrow> Inl (ValueError ''canonical output ref must be an object''))"

definition slot_binding_of :: "jobj \<Rightarrow> string \<Rightarrow> string \<Rightarrow> int \<Rightarrow> jobj \<Rightarrow> artifact_ref \<Rightarrow> slot_binding res" where
  "slot_binding_of slot unit_id name event_seq selection ref =
     bindE (str_item slot ''slot_key'') (\<lambda>slot_key.
     bindE (opt_str_item slot ''slot_id'') (\<lambda>slot_id.
     bindE (str_item slot ''source_child_logical_key'') (\<lambda>logical_key.
     bindE (str_item slot ''output_schema_digest'') (\<lambda>schema_digest.
     bindE (str_item selection ''canonical_selection_id'') (\<lambda>selection_id.
     bindE (str_item selection ''canonical_output_bundle_digest'') (\<lambda>bundle_digest.
     bindE (str_item selection ''selected_verification_report_id'') (\<lambda>report_id.
     bindE (str_item selection ''selected_attempt_id'') (\<lambda>attempt_id.
     mk_slot_binding
       \<lparr>sb_slot_key = slot_key, sb_slot_id = slot_id, sb_source_child_logical_key = logical_key,
        sb_source_child_unit_id = unit_id, sb_source_output_name = name,
        sb_source_output_schema_digest = schema_digest, sb_canonical_selection_id = selection_id,
        sb_canonical_event_seq = event_seq, sb_canonical_output_ref = JObj (ar_to_dict ref),
        sb_canonical_output_digest = ar_content_hash ref,
        sb_canonical_output_bundle_digest = bundle_digest,
        sb_selected_verification_report_id = report_id, sb_selected_attempt_id = attempt_id,
        sb_binding_source = ''canonical_output'',
        sb_schema_version = ''phase5.required_slot_binding.v1''\<rparr>))))))))"

definition bind_canonical :: "jobj \<Rightarrow> string \<Rightarrow> ledger_event \<Rightarrow> slot_binding res" where
  "bind_canonical slot unit_id e =
     (case jget (ev_payload e) ''canonical_selection'' of
        JObj selection \<Rightarrow>
          bindE (str_item slot ''source_output_name'') (\<lambda>name.
          bindE (canonical_output_ref selection name) (\<lambda>ref.
          slot_binding_of slot unit_id name (ev_event_seq e) selection ref))
      | _ \<Rightarrow> Inl (ValueError ''canonical output missing canonical selection''))"

text \<open>One iteration over the slots: \<open>None\<close> for a slot whose child the decision does not select.\<close>

definition bind_slot :: "(string, ledger_event) dict \<Rightarrow> string list option \<Rightarrow> jobj \<Rightarrow> slot_binding option res" where
  "bind_slot canonical selected slot =
     bindE (jitem slot ''source_child_unit_id'') (\<lambda>v.
     bindE (hash_key v) (\<lambda>_.
     if (case selected of None \<Rightarrow> False | Some us \<Rightarrow> v \<notin> set (map JStr us)) then Inr None
     else case Option.bind (json_str v) (dict_get canonical) of
       None \<Rightarrow> Inl (ValueError ''required slots not canonical'')
     | Some e \<Rightarrow> bindE (bind_canonical slot (the (json_str v)) e) (\<lambda>b. Inr (Some b))))"

definition build_required_slot_bindings ::
  "merge_plan \<Rightarrow> (string, ledger_event) dict \<Rightarrow> string list option \<Rightarrow> slot_binding list res" where
  "build_required_slot_bindings plan canonical selected =
     bindE (mapE (bind_slot canonical selected) (mp_required_slots plan)) (\<lambda>bound.
     let bs = keep_some bound in
     seqE (case selected of
             None \<Rightarrow> Inr ()
           | Some us \<Rightarrow>
             let missing = sort (filter (\<lambda>u. u \<notin> set (map sb_source_child_unit_id bs)) us) in
             raise_if (missing \<noteq> [])
               (ValueError (''readiness selected child units do not resolve merge slots: '' @ join '', '' missing)))
     (Inr bs))"

section \<open>The merge input bundle\<close>

definition contains :: "string \<Rightarrow> string \<Rightarrow> bool" where
  "contains needle s \<longleftrightarrow> list_ex (\<lambda>i. take (length needle) (drop i s) = needle) [0..<length s + 1]"

definition coordinator_json :: "string \<Rightarrow> json" where
  "coordinator_json coordinator_id =
     JObj [(''coordinator_id'', JStr coordinator_id), (''coordinator_version'', JStr ''1'')]"

text \<open>\<open>canonical_selection\<close> is the id of the selection object when one is given; no caller gives one.\<close>

definition bundle_payload ::
  "hash \<Rightarrow> string \<Rightarrow> string \<Rightarrow> string \<Rightarrow> string \<Rightarrow> merge_plan \<Rightarrow> slot_binding list \<Rightarrow> string \<Rightarrow> jobj option
    \<Rightarrow> string option option \<Rightarrow> string \<Rightarrow> string \<Rightarrow> jobj" where
  "bundle_payload h task_id parent_unit_id plan_id decision_id plan bindings bindings_digest decision
     canonical_selection coordinator_id now =
     [(''schema_version'', JStr (if decision \<noteq> None then ''phase5.merge_input_bundle.v2'' else ''phase5.merge_input_bundle.v1'')),
      (''task_id'', JStr task_id),
      (''parent_unit_id'', JStr parent_unit_id),
      (''merge_plan_id'', JStr plan_id),
      (''expansion_decision_id'', JStr decision_id),
      (''merge_policy_ref'', JObj (mp_merge_policy_ref plan)),
      (''parent_output_mapping'', objects (mp_parent_output_mapping plan)),
      (''required_slot_bindings'', JArr (map (JObj \<circ> sb_to_dict) bindings)),
      (''required_slot_bindings_digest'', JStr bindings_digest),
      (''readiness_decision'', opt_obj decision),
      (''created_at'', JStr now),
      (''created_by'', coordinator_json coordinator_id)] @
     (case canonical_selection of None \<Rightarrow> [] | Some i \<Rightarrow> [(''canonical_selection_id'', opt_str i)])"

definition bundle_args :: "string \<Rightarrow> string \<Rightarrow> string \<Rightarrow> jobj option \<Rightarrow> string \<Rightarrow> artifact_args" where
  "bundle_args task_id parent_unit_id plan_id decision now =
     \<lparr>aa_artifact_type = ''MergeInputBundle'', aa_media_type = ''application/json'',
      aa_artifact_schema_id = ''phase5.merge_input_bundle'',
      aa_artifact_schema_version = (if decision \<noteq> None then ''v2'' else ''v1''),
      aa_source = [(''kind'', JStr ''merge_coordinator''), (''stage'', JStr ''staged'')],
      aa_ref_metadata = [(''task_id'', JStr task_id), (''parent_unit_id'', JStr parent_unit_id),
        (''merge_plan_id'', JStr plan_id)],
      aa_created_at = now\<rparr>"

definition bundle_id :: "string \<Rightarrow> string" where
  "bundle_id plan_id = ''merge_input_bundle:'' @ plan_id"

definition bundle_conflict :: "'a res \<Rightarrow> 'a res" where
  "bundle_conflict r =
     (case r of
        Inl (ValueError m) \<Rightarrow>
          if contains ''artifact_id already exists with different content'' m
          then Inl (ValueError ''merge task creation conflict: merge_input_bundle already exists with different content'')
          else Inl (ValueError m)
      | _ \<Rightarrow> r)"

definition stage_merge_input_bundle ::
  "hash \<Rightarrow> artifact_store \<Rightarrow> string \<Rightarrow> fs \<Rightarrow> string \<Rightarrow> string \<Rightarrow> merge_plan \<Rightarrow> slot_binding list
    \<Rightarrow> string option option \<Rightarrow> jobj option \<Rightarrow> string \<Rightarrow> string \<Rightarrow> (fs \<times> artifact_ref) res" where
  "stage_merge_input_bundle h st nonce fs task_id parent_unit_id plan bindings canonical_selection decision
     coordinator_id now =
     bindE (str_item (mp_merge_plan_header plan) ''merge_plan_id'') (\<lambda>plan_id.
     bindE (str_item (mp_merge_plan_header plan) ''expansion_decision_id'') (\<lambda>decision_id.
     bindE (digest_required_slot_bindings h (map Bound bindings)) (\<lambda>digest.
     bundle_conflict (save_json h st fs
       (JObj (bundle_payload h task_id parent_unit_id plan_id decision_id plan bindings digest decision
          canonical_selection coordinator_id now))
       (bundle_id plan_id) (bundle_args task_id parent_unit_id plan_id decision now) nonce))))"

section \<open>The link, the unit and their events\<close>

text \<open>
  \<open>str(v)\<close> of the reason. A reason that is not a text is refused by the link whatever its
  rendering, because the link compares the two.
\<close>

fun py_str :: "json \<Rightarrow> string" where
  "py_str (JStr s) = s"
| "py_str j = dumps j"

definition build_merge_task_link ::
  "hash \<Rightarrow> merge_plan \<Rightarrow> ledger_event \<Rightarrow> batch_view \<Rightarrow> artifact_ref \<Rightarrow> slot_binding list \<Rightarrow> jobj option \<Rightarrow> string
    \<Rightarrow> string \<Rightarrow> merge_task_link res" where
  "build_merge_task_link h plan plan_event batch ref bindings decision now coordinator_id =
     bindE (str_item (mp_merge_plan_header plan) ''merge_plan_id'') (\<lambda>plan_id.
     bindE (str_item (mp_merge_plan_header plan) ''task_id'') (\<lambda>task_id.
     bindE (str_item (mp_merge_plan_header plan) ''parent_unit_id'') (\<lambda>parent_unit_id.
     bindE (str_item (mp_merge_plan_header plan) ''expansion_decision_id'') (\<lambda>decision_id.
     bindE (digest_required_slot_bindings h (map Bound bindings)) (\<lambda>digest.
     bindE (str_item (mp_merge_policy_ref plan) ''merge_policy_id'') (\<lambda>policy_id.
     bindE (str_item (mp_merge_policy_ref plan) ''merge_policy_version'') (\<lambda>policy_version.
     bindE (str_item (mp_merge_policy_ref plan) ''merge_policy_descriptor_digest'') (\<lambda>policy_digest.
     bindE (case decision of None \<Rightarrow> Inr ''all_required_slots_canonical''
            | Some d \<Rightarrow> bindE (jitem d ''reason'') (\<lambda>v. Inr (py_str v))) (\<lambda>reason.
     mk_merge_task_link h
       \<lparr>ml_merge_task_link_id = ''merge_task_link:'' @ plan_id, ml_task_id = task_id,
        ml_parent_unit_id = parent_unit_id, ml_merge_plan_id = plan_id, ml_expansion_decision_id = decision_id,
        ml_merge_unit_id = ''merge_unit:'' @ plan_id, ml_merge_input_bundle_ref = JObj (ar_to_dict ref),
        ml_merge_input_bundle_digest = ar_content_hash ref, ml_required_slot_bindings = map Bound bindings,
        ml_required_slot_bindings_digest = digest, ml_merge_policy_id = policy_id,
        ml_merge_policy_version = policy_version, ml_merge_policy_descriptor_digest = policy_digest,
        ml_source_merge_plan_event_seq = ev_event_seq plan_event,
        ml_source_task_expanded_event_seq = ev_event_seq (last (bt_events batch)),
        ml_optional_task_relation_id = None, ml_readiness_reason = reason, ml_created_at = now,
        ml_coordinator = coordinator_json coordinator_id, ml_readiness_decision = opt_obj decision,
        ml_schema_version = (if decision = None then link_v1 else link_v2)\<rparr>)))))))))"

definition build_merge_unit :: "task_graph \<Rightarrow> merge_plan \<Rightarrow> artifact_ref \<Rightarrow> string \<Rightarrow> task_unit res" where
  "build_merge_unit graph plan ref now =
     bindE (str_item (mp_merge_plan_header plan) ''parent_unit_id'') (\<lambda>parent_unit_id.
     case dict_get (tg_units graph) parent_unit_id of
       None \<Rightarrow> Inl (KeyError parent_unit_id)
     | Some parent \<Rightarrow>
       bindE (str_item (mp_merge_plan_header plan) ''merge_plan_id'') (\<lambda>plan_id.
       bindE (str_item (mp_merge_plan_header plan) ''task_id'') (\<lambda>task_id.
       mk_task_unit
         \<lparr>tu_unit_id = ''merge_unit:'' @ plan_id, tu_task_id = task_id, tu_parent_unit_id = Some parent_unit_id,
          tu_depth = tu_depth parent + 1, tu_unit_type = ''merge'', tu_state = TS_READY,
          tu_input_refs = [(''merge_input_bundle'', ref)], tu_canonical_output_refs = [],
          tu_required_capabilities = [(''executor'', JStr ''local'')], tu_weight = ''1.0'', tu_budget_limit = None,
          tu_deadline = None, tu_plugin_payload = [], tu_metadata = [(''merge_plan_id'', JStr plan_id)],
          tu_created_at = now, tu_updated_at = now, tu_last_attempt_ordinal = -1,
          tu_schema_version = ''TaskUnit.v2''\<rparr>)))"

definition merge_draft_of ::
  "event_type \<Rightarrow> string \<Rightarrow> string \<Rightarrow> string \<Rightarrow> jobj \<Rightarrow> string \<Rightarrow> ledger_event \<Rightarrow> string \<Rightarrow> string \<Rightarrow> event_draft" where
  "merge_draft_of kind object_type object_id key payload task_id plan_event now correlation_id =
     \<lparr>dr_event_type = Known kind, dr_object_type = object_type, dr_object_id = object_id, dr_payload = payload,
      dr_idempotency_key = key, dr_task_id = Some task_id, dr_actor = Some [(''kind'', JStr ''merge_coordinator'')],
      dr_correlation_id = Some correlation_id, dr_causation_event_id = Some (ev_event_id plan_event),
      dr_occurred_at = Some now\<rparr>"

text \<open>The members the two payloads share at their end.\<close>

definition readiness_members :: "merge_task_link \<Rightarrow> artifact_ref \<Rightarrow> slot_binding list \<Rightarrow> jobj option \<Rightarrow> string \<Rightarrow> jobj" where
  "readiness_members link ref bindings decision now =
     [(''merge_input_bundle_ref'', JObj (ar_to_dict ref)),
      (''merge_input_bundle_digest'', JStr (ar_content_hash ref)),
      (''required_slot_bindings_digest'', JStr (ml_required_slot_bindings_digest link)),
      (''required_slot_count'', JInt (int (length bindings))),
      (''canonical_event_seqs'', JArr (map (JInt \<circ> sb_canonical_event_seq) bindings)),
      (''readiness_reason'', JStr (ml_readiness_reason link)),
      (''readiness_decision'', opt_obj decision),
      (''created_at'', JStr now)]"

definition build_merge_task_creation_drafts ::
  "string \<Rightarrow> ledger_event \<Rightarrow> merge_task_link \<Rightarrow> task_unit \<Rightarrow> artifact_ref \<Rightarrow> slot_binding list \<Rightarrow> jobj option \<Rightarrow> string
    \<Rightarrow> string \<Rightarrow> event_draft list" where
  "build_merge_task_creation_drafts task_id plan_event link unit ref bindings decision now correlation_id =
     (let record_version = (if decision \<noteq> None then ''v2'' else ''v1'');
          unit_payload =
            [(''schema_version'', JStr (''phase5.merge_task_unit_created.'' @ record_version)),
             (''task_unit'', JObj (tu_to_dict unit)),
             (''merge_task_link_id'', JStr (ml_merge_task_link_id link)),
             (''merge_plan_id'', JStr (ml_merge_plan_id link)),
             (''expansion_decision_id'', JStr (ml_expansion_decision_id link))] @
            readiness_members link ref bindings decision now;
          link_payload =
            [(''schema_version'', JStr (''phase5.merge_task_link_record.'' @ record_version)),
             (''merge_task_link'', JObj (ml_to_dict link)),
             (''task_id'', JStr task_id),
             (''parent_unit_id'', JStr (ml_parent_unit_id link)),
             (''merge_plan_id'', JStr (ml_merge_plan_id link)),
             (''expansion_decision_id'', JStr (ml_expansion_decision_id link)),
             (''merge_unit_id'', JStr (ml_merge_unit_id link))] @
            readiness_members link ref bindings decision now
      in [merge_draft_of TASK_UNIT_CREATED ''TaskUnit'' (tu_unit_id unit) (''task_unit:create:'' @ tu_unit_id unit)
            unit_payload task_id plan_event now correlation_id,
          merge_draft_of MERGE_TASK_LINK_RECORDED ''MergeTaskLink'' (ml_merge_task_link_id link)
            (''merge_task_link:'' @ ml_merge_plan_id link) link_payload task_id plan_event now correlation_id])"

section \<open>Creating the merge tasks\<close>

record merge_request =
  mq_task_id :: string
  mq_graph :: task_graph
  mq_merge_plan_events :: "ledger_event list"
  mq_expansion_batches :: "batch_view list"
  mq_canonical_events :: "ledger_event list"
  mq_now :: string
  mq_coordinator_id :: string
  mq_correlation_id :: string
  mq_readiness_decision :: "jobj option"

record merge_flow =
  mf_merge_task_link :: merge_task_link
  mf_merge_task_unit :: task_unit
  mf_merge_input_bundle_ref :: artifact_ref
  mf_events :: "ledger_event list"
  mf_optional_task_relation :: "task_relation option"

text \<open>The expansion batch a plan event belongs to, when it may be acted on.\<close>

definition visible_batch :: "batch_view list \<Rightarrow> ledger_event \<Rightarrow> batch_view res" where
  "visible_batch batches e =
     (case dict_get (dict_by bt_batch_id batches) (Some (or_empty (ev_batch_id e))) of
        None \<Rightarrow> Inl (ValueError ''projection inconsistent: expansion_batch not visible'')
      | Some b \<Rightarrow>
        if \<not> is_complete b then Inl (ValueError ''projection inconsistent: incomplete expansion_batch'')
        else if \<not> has_final_marker b then Inl (ValueError ''projection inconsistent: TASK_EXPANDED marker not visible'')
        else Inr b)"

text \<open>The body of the loop, for one plan event.\<close>

definition create_merge_task ::
  "hash \<Rightarrow> artifact_store \<Rightarrow> (nat \<Rightarrow> string) \<Rightarrow> string \<Rightarrow> merge_request \<Rightarrow> string list option
    \<Rightarrow> fs \<times> event_ledger \<Rightarrow> ledger_event \<Rightarrow> ((fs \<times> event_ledger) \<times> merge_flow) res" where
  "create_merge_task h st clock nonce q selected = (\<lambda>(fs, L) e.
     bindE (merge_plan_id_from_event e) (\<lambda>plan_id.
     bindE (visible_batch (mq_expansion_batches q) e) (\<lambda>batch.
     bindE (load_merge_plan h st fs e) (\<lambda>plan.
     bindE (build_required_slot_bindings plan (canonical_events_by_unit_id (mq_canonical_events q)) selected) (\<lambda>bindings.
     bindE (str_item (mp_merge_plan_header plan) ''parent_unit_id'') (\<lambda>parent_unit_id.
     bindE (stage_merge_input_bundle h st nonce fs (mq_task_id q) parent_unit_id plan bindings None
              (mq_readiness_decision q) (mq_coordinator_id q) (mq_now q)) (\<lambda>(fs1, ref).
     bindE (build_merge_task_link h plan e batch ref bindings (mq_readiness_decision q) (mq_now q)
              (mq_coordinator_id q)) (\<lambda>link.
     bindE (build_merge_unit (mq_graph q) plan ref (mq_now q)) (\<lambda>unit.
     bindE (append_batch h clock L
              (build_merge_task_creation_drafts (mq_task_id q) e link unit ref bindings (mq_readiness_decision q)
                 (mq_now q) (mq_correlation_id q))
              (''merge_task_creation_batch:'' @ plan_id)) (\<lambda>(L1, es).
     Inr ((fs1, L1), \<lparr>mf_merge_task_link = link, mf_merge_task_unit = unit, mf_merge_input_bundle_ref = ref,
       mf_events = es, mf_optional_task_relation = None\<rparr>)))))))))))"

text \<open>
  The loop over the plan events. An error ends it with the ledger it has reached; what a staged
  bundle has left on disk by then is not part of the result.
\<close>

fun create_merge_tasks ::
  "hash \<Rightarrow> artifact_store \<Rightarrow> (nat \<Rightarrow> string) \<Rightarrow> (nat \<Rightarrow> string) \<Rightarrow> merge_request \<Rightarrow> string list option
    \<Rightarrow> fs \<times> event_ledger \<Rightarrow> ledger_event list \<Rightarrow> event_ledger \<times> (fs \<times> merge_flow list) res" where
  "create_merge_tasks h st clock nonces q selected (fs, L) [] = (L, Inr (fs, []))"
| "create_merge_tasks h st clock nonces q selected (fs, L) (e # es) =
     (if \<not> is_type e MERGE_PLAN_RECORDED then create_merge_tasks h st clock nonces q selected (fs, L) es
      else case create_merge_task h st clock (nonces (length es)) q selected (fs, L) e of
        Inl err \<Rightarrow> (L, Inl err)
      | Inr ((fs1, L1), r) \<Rightarrow>
        (case create_merge_tasks h st clock nonces q selected (fs1, L1) es of
           (L2, res) \<Rightarrow> (L2, bindE res (\<lambda>(fs2, rs). Inr (fs2, r # rs)))))"

definition create_ready_merge_tasks ::
  "hash \<Rightarrow> artifact_store \<Rightarrow> (nat \<Rightarrow> string) \<Rightarrow> (nat \<Rightarrow> string) \<Rightarrow> fs \<times> event_ledger \<Rightarrow> merge_request
    \<Rightarrow> event_ledger \<times> (fs \<times> merge_flow list) res" where
  "create_ready_merge_tasks h st clock nonces = (\<lambda>(fs, L) q.
     case selected_child_unit_ids (mq_readiness_decision q) of
       Inl err \<Rightarrow> (L, Inl err)
     | Inr selected \<Rightarrow> create_merge_tasks h st clock nonces q selected (fs, L) (mq_merge_plan_events q))"

end
