(* ===== verification/Core_Merge_Facts.thy ===== *)
theory Core_Merge_Facts
  imports Core_Merge_Coordinator Artifact_Commit Core_Registration
begin

text \<open>
  Merge task creation (\<open>core/merge_coordinator.py\<close>): a merge task is created only for a visible,
  complete expansion all of whose (selected) slots have canonical outputs, and creating it again
  changes neither the disk nor the ledger.
\<close>

section \<open>What a created merge task rests on\<close>

text \<open>A slot is bound to the output that the latest canonical event of its child names.\<close>

definition slot_bound :: "ledger_event list \<Rightarrow> jobj \<Rightarrow> slot_binding \<Rightarrow> bool" where
  "slot_bound es slot b \<longleftrightarrow>
     jget slot ''slot_key'' = JStr (sb_slot_key b) \<and>
     jget slot ''source_child_unit_id'' = JStr (sb_source_child_unit_id b) \<and>
     jget slot ''source_output_name'' = JStr (sb_source_output_name b) \<and>
     (\<exists>e before after s refs r ref. es = before @ e # after \<and> canonical_unit e = Some (sb_source_child_unit_id b) \<and>
        (\<forall>x \<in> set after. canonical_unit x \<noteq> Some (sb_source_child_unit_id b)) \<and>
        ev_event_seq e = sb_canonical_event_seq b \<and>
        jget (ev_payload e) ''canonical_selection'' = JObj s \<and> jget s ''canonical_output_refs'' = JObj refs \<and>
        jget refs (sb_source_output_name b) = JObj r \<and> ar_from_dict r = Inr ref \<and>
        sb_canonical_output_digest b = ar_content_hash ref)"

definition slot_chosen :: "string list option \<Rightarrow> jobj \<Rightarrow> bool" where
  "slot_chosen selected slot \<longleftrightarrow>
     (case selected of None \<Rightarrow> True | Some us \<Rightarrow> jget slot ''source_child_unit_id'' \<in> set (map JStr us))"

lemma canonical_latest:
  assumes "dict_get (fold (\<lambda>e d. case canonical_unit e of None \<Rightarrow> d | Some u \<Rightarrow> dict_set u e d) es d) u = Some e"
  shows "dict_get d u = Some e \<and> (\<forall>x \<in> set es. canonical_unit x \<noteq> Some u) \<or>
    (\<exists>before after. es = before @ e # after \<and> canonical_unit e = Some u \<and> (\<forall>x \<in> set after. canonical_unit x \<noteq> Some u))"
  using assms
proof (induction es arbitrary: d)
  case (Cons x es)
  let ?d = "case canonical_unit x of None \<Rightarrow> d | Some u \<Rightarrow> dict_set u x d"
  from Cons have "dict_get ?d u = Some e \<and> (\<forall>x \<in> set es. canonical_unit x \<noteq> Some u) \<or>
    (\<exists>before after. es = before @ e # after \<and> canonical_unit e = Some u \<and> (\<forall>x \<in> set after. canonical_unit x \<noteq> Some u))"
    by simp
  then show ?case
  proof (elim disjE exE conjE)
    fix before after assume "es = before @ e # after" "canonical_unit e = Some u" "\<forall>x \<in> set after. canonical_unit x \<noteq> Some u"
    then have "x # es = (x # before) @ e # after \<and> canonical_unit e = Some u \<and> (\<forall>x \<in> set after. canonical_unit x \<noteq> Some u)"
      by simp
    then show ?thesis by blast
  next
    assume g: "dict_get ?d u = Some e" and n: "\<forall>x \<in> set es. canonical_unit x \<noteq> Some u"
    show ?thesis
    proof (cases "canonical_unit x = Some u")
      case True
      then have "x # es = [] @ e # es" using g by (simp add: map_of_dict_set)
      then show ?thesis using True n g by (metis list.inject append_Nil)
    next
      case False
      then show ?thesis using g n by (auto simp: map_of_dict_set split: option.splits if_splits)
    qed
  qed
qed simp

lemma str_item_ok: "str_item d k = Inr v \<Longrightarrow> jget d k = JStr v"
  by (cases "map_of d k") (auto simp: str_item_def jitem_def jget_def split: json.splits)

lemma canonical_output_ref_ok:
  assumes "canonical_output_ref s name = Inr ref"
  shows "\<exists>refs r. jget s ''canonical_output_refs'' = JObj refs \<and> jget refs name = JObj r \<and> ar_from_dict r = Inr ref"
proof (cases "dict_get s ''canonical_output_refs''")
  case (Some v)
  show ?thesis
  proof (cases v)
    case (JObj refs)
    note v = Some[unfolded JObj]
    show ?thesis
    proof (cases "dict_get refs name")
      case (Some w)
      then obtain r where "w = JObj r" using assms v by (cases w) (simp_all add: canonical_output_ref_def)
      then show ?thesis using assms v Some by (auto simp: canonical_output_ref_def jget_def split: if_splits)
    qed (use assms v in \<open>simp add: canonical_output_ref_def\<close>)
  qed (use assms Some in \<open>simp_all add: canonical_output_ref_def\<close>)
qed (use assms in \<open>simp add: canonical_output_ref_def\<close>)

lemma slot_binding_of_ok:
  assumes "slot_binding_of slot u name n s ref = Inr b"
  shows "jget slot ''slot_key'' = JStr (sb_slot_key b)" "sb_source_child_unit_id b = u" "sb_source_output_name b = name"
    "sb_canonical_event_seq b = n" "sb_canonical_output_ref b = JObj (ar_to_dict ref)"
    "sb_canonical_output_digest b = ar_content_hash ref"
  using assms by (auto simp: slot_binding_of_def mk_slot_binding_def res_simps dest: str_item_ok)

lemma bind_canonical_ok:
  assumes "bind_canonical slot u e = Inr b"
  obtains s refs r ref where "jget (ev_payload e) ''canonical_selection'' = JObj s"
    "jget s ''canonical_output_refs'' = JObj refs" "jget refs (sb_source_output_name b) = JObj r"
    "ar_from_dict r = Inr ref" "slot_binding_of slot u (sb_source_output_name b) (ev_event_seq e) s ref = Inr b"
    "jget slot ''source_output_name'' = JStr (sb_source_output_name b)"
proof -
  obtain s where s: "jget (ev_payload e) ''canonical_selection'' = JObj s"
    using assms by (auto simp: bind_canonical_def split: json.splits)
  then obtain name ref where n: "str_item slot ''source_output_name'' = Inr name"
    "canonical_output_ref s name = Inr ref" "slot_binding_of slot u name (ev_event_seq e) s ref = Inr b"
    using assms by (auto simp: bind_canonical_def res_simps)
  then show thesis
    using canonical_output_ref_ok[OF n(2)] slot_binding_of_ok(3)[OF n(3)] str_item_ok[OF n(1)] s that by metis
qed

lemma bind_slot_ok:
  assumes "bind_slot (canonical_events_by_unit_id es) selected slot = Inr x"
  shows "(x = None \<longleftrightarrow> \<not> slot_chosen selected slot) \<and> (\<forall>b. x = Some b \<longrightarrow> slot_bound es slot b)"
proof -
  let ?by = "canonical_events_by_unit_id es"
  obtain v where v: "jitem slot ''source_child_unit_id'' = Inr v"
    and x: "(if (case selected of None \<Rightarrow> False | Some us \<Rightarrow> v \<notin> set (map JStr us)) then Inr None
       else case Option.bind (json_str v) (dict_get ?by) of
         None \<Rightarrow> Inl (ValueError ''required slots not canonical'')
       | Some e \<Rightarrow> bindE (bind_canonical slot (the (json_str v)) e) (\<lambda>b. Inr (Some b))) = Inr x"
    using assms by (auto simp: bind_slot_def res_simps)
  have j: "jget slot ''source_child_unit_id'' = v"
    using v by (auto simp: jitem_def jget_def split: option.splits)
  have c: "slot_chosen selected slot \<longleftrightarrow> \<not> (case selected of None \<Rightarrow> False | Some us \<Rightarrow> v \<notin> set (map JStr us))"
    by (cases selected) (auto simp: slot_chosen_def j)
  show ?thesis
  proof (cases "slot_chosen selected slot")
    case False
    then show ?thesis using x c by simp
  next
    case True
    obtain e b where e: "Option.bind (json_str v) (dict_get ?by) = Some e"
      "bind_canonical slot (the (json_str v)) e = Inr b" "x = Some b"
      using x True c by (cases "Option.bind (json_str v) (dict_get ?by)") (auto simp: res_simps)
    then obtain u where u: "v = JStr u" "dict_get ?by u = Some e" "bind_canonical slot u e = Inr b"
      by (cases v) auto
    obtain before after where l: "es = before @ e # after" "canonical_unit e = Some u"
      "\<forall>x \<in> set after. canonical_unit x \<noteq> Some u"
      using canonical_latest[OF u(2)[unfolded canonical_events_by_unit_id_def]] by auto
    obtain s refs r ref where s: "jget (ev_payload e) ''canonical_selection'' = JObj s"
      "jget s ''canonical_output_refs'' = JObj refs" "jget refs (sb_source_output_name b) = JObj r"
      "ar_from_dict r = Inr ref" "slot_binding_of slot u (sb_source_output_name b) (ev_event_seq e) s ref = Inr b"
      "jget slot ''source_output_name'' = JStr (sb_source_output_name b)"
      using bind_canonical_ok[OF u(3)] .
    note b = slot_binding_of_ok[OF s(5)]
    have "slot_bound es slot b"
      unfolding slot_bound_def using b(1,2,6) s(6) j u(1) l
      by (intro conjI exI[of _ e] exI[of _ before] exI[of _ after] exI[of _ s] exI[of _ refs] exI[of _ r] exI[of _ ref])
        (simp_all add: s(1-4) b(4))
    then show ?thesis using True e(3) by simp
  qed
qed

text \<open>The bindings of a plan: one for each chosen slot, in the order of the slots.\<close>

lemma bindings_ok:
  assumes "build_required_slot_bindings plan (canonical_events_by_unit_id es) selected = Inr bs"
  shows "list_all2 (slot_bound es) (filter (slot_chosen selected) (mp_required_slots plan)) bs"
proof -
  obtain xs where m: "mapE (bind_slot (canonical_events_by_unit_id es) selected) (mp_required_slots plan) = Inr xs"
    and b: "bs = keep_some xs"
    using assms by (auto simp: build_required_slot_bindings_def Let_def res_simps)
  have "list_all2 (slot_bound es) (filter (slot_chosen selected) ss) (keep_some xs)"
    if "mapE (bind_slot (canonical_events_by_unit_id es) selected) ss = Inr xs" for ss xs
    using that
  proof (induction ss arbitrary: xs)
    case (Cons s ss)
    then obtain y ys where y: "bind_slot (canonical_events_by_unit_id es) selected s = Inr y"
      "mapE (bind_slot (canonical_events_by_unit_id es) selected) ss = Inr ys" "xs = y # ys"
      by (auto simp: res_simps)
    show ?case using bind_slot_ok[OF y(1)] Cons.IH[OF y(2)] y(3) by (cases y) (auto simp: keep_some_def)
  qed (simp add: keep_some_def)
  then show ?thesis using m b by blast
qed

lemma list_all2_right: "list_all2 P xs ys \<Longrightarrow> y \<in> set ys \<Longrightarrow> \<exists>x \<in> set xs. P x y"
  by (induction rule: list_all2_induct) auto

lemma selected_bound:
  assumes "build_required_slot_bindings plan (canonical_events_by_unit_id es) (Some us) = Inr bs"
  shows "set us = sb_source_child_unit_id ` set bs"
proof
  show "set us \<subseteq> sb_source_child_unit_id ` set bs"
  proof
    fix u assume u: "u \<in> set us"
    have "sort (filter (\<lambda>u. u \<notin> set (map sb_source_child_unit_id bs)) us) = []"
      using assms by (auto simp: build_required_slot_bindings_def Let_def res_simps)
    then have "set (sort (filter (\<lambda>u. u \<notin> set (map sb_source_child_unit_id bs)) us)) = {}" by simp
    then show "u \<in> sb_source_child_unit_id ` set bs" using u by auto
  qed
  show "sb_source_child_unit_id ` set bs \<subseteq> set us"
  proof clarify
    fix b assume "b \<in> set bs"
    then obtain s where "s \<in> set (filter (slot_chosen (Some us)) (mp_required_slots plan))" "slot_bound es s b"
      using list_all2_right[OF bindings_ok[OF assms]] by blast
    then show "sb_source_child_unit_id b \<in> set us" by (auto simp: slot_chosen_def slot_bound_def)
  qed
qed

lemma create_task_cases:
  assumes "create_merge_task h st clock nonce q selected (fs, L) e = Inr ((fs', L'), r)"
  obtains plan_id batch plan bs parent ref link unit es where
    "merge_plan_id_from_event e = Inr plan_id" "visible_batch (mq_expansion_batches q) e = Inr batch"
    "load_merge_plan h st fs e = Inr plan"
    "build_required_slot_bindings plan (canonical_events_by_unit_id (mq_canonical_events q)) selected = Inr bs"
    "str_item (mp_merge_plan_header plan) ''parent_unit_id'' = Inr parent"
    "stage_merge_input_bundle h st nonce fs (mq_task_id q) parent plan bs None (mq_readiness_decision q)
       (mq_coordinator_id q) (mq_now q) = Inr (fs', ref)"
    "build_merge_task_link h plan e batch ref bs (mq_readiness_decision q) (mq_now q) (mq_coordinator_id q) = Inr link"
    "build_merge_unit (mq_graph q) plan ref (mq_now q) = Inr unit"
    "append_batch h clock L (build_merge_task_creation_drafts (mq_task_id q) e link unit ref bs
       (mq_readiness_decision q) (mq_now q) (mq_correlation_id q)) (''merge_task_creation_batch:'' @ plan_id) = Inr (L', es)"
    "r = \<lparr>mf_merge_task_link = link, mf_merge_task_unit = unit, mf_merge_input_bundle_ref = ref,
       mf_events = es, mf_optional_task_relation = None\<rparr>"
  using assms by (auto simp: create_merge_task_def res_simps)

lemma visible_batch_ok:
  assumes "visible_batch bs e = Inr b"
  shows "b \<in> set bs \<and> bt_batch_id b = Some (or_empty (ev_batch_id e)) \<and> has_final_marker b"
  using assms dict_by_get_key[of bt_batch_id bs] by (auto simp: visible_batch_def split: option.splits if_splits)

lemma load_merge_plan_ok:
  assumes "load_merge_plan h st fs e = Inr plan"
  obtains d ref data where "jget (ev_payload e) ''merge_plan_ref'' = JObj d" "ar_from_dict d = Inr ref"
    "verify_artifact h st fs ref = Inr True" "read_bytes st fs ref = Inr data" "parse_merge_plan data = Inr plan"
    "jitem (mp_merge_plan_header plan) ''merge_plan_id'' = Inr (jget (ev_payload e) ''merge_plan_id'')"
proof -
  obtain d where d: "jget (ev_payload e) ''merge_plan_ref'' = JObj d"
    using assms by (auto simp: load_merge_plan_def split: json.splits)
  then show thesis
    using assms that by (auto simp: load_merge_plan_def res_simps split: if_splits)
qed

lemma link_ok:
  assumes "build_merge_task_link h plan e batch ref bs decision now cid = Inr link"
  shows "ml_required_slot_bindings link = map Bound (sort_bindings bs) \<and> distinct (map sb_slot_key bs) \<and>
    ml_required_slot_bindings_digest link = digest_json h (JArr (map (JObj \<circ> sb_to_dict) (sort_bindings bs))) \<and>
    ml_source_merge_plan_event_seq link = ev_event_seq e \<and>
    jget (mp_merge_plan_header plan) ''merge_plan_id'' = JStr (ml_merge_plan_id link)"
proof -
  obtain l where l: "mk_merge_task_link h l = Inr link" "ml_required_slot_bindings l = map Bound bs"
    "ml_source_merge_plan_event_seq l = ev_event_seq e"
    "str_item (mp_merge_plan_header plan) ''merge_plan_id'' = Inr (ml_merge_plan_id l)"
    using assms by (auto simp: build_merge_task_link_def res_simps)
  show ?thesis by (rule link_accepted[OF l(1)]) (use l(2-4) in \<open>auto dest: str_item_ok\<close>)
qed

lemma unit_ok:
  assumes "build_merge_unit graph plan ref now = Inr unit"
  shows "\<exists>p parent. tu_parent_unit_id unit = Some p \<and> dict_get (tg_units graph) p = Some parent \<and>
    tu_depth unit = tu_depth parent + 1 \<and> tu_state unit = TS_READY \<and>
    tu_input_refs unit = [(''merge_input_bundle'', ref)] \<and> tu_canonical_output_refs unit = []"
  using assms by (auto simp: build_merge_unit_def mk_task_unit_def res_simps split: option.splits)

section \<open>Merge tasks are gated\<close>

definition merge_gated :: "hash \<Rightarrow> merge_request \<Rightarrow> string list option \<Rightarrow> ledger_event \<Rightarrow> merge_plan \<Rightarrow> merge_flow \<Rightarrow> bool" where
  "merge_gated h q selected e plan r \<longleftrightarrow>
     (\<exists>b \<in> set (mq_expansion_batches q). bt_batch_id b = Some (or_empty (ev_batch_id e)) \<and> has_final_marker b) \<and>
     (\<exists>bs. list_all2 (slot_bound (mq_canonical_events q)) (filter (slot_chosen selected) (mp_required_slots plan)) bs \<and>
        (\<forall>us. selected = Some us \<longrightarrow> set us = sb_source_child_unit_id ` set bs) \<and> distinct (map sb_slot_key bs) \<and>
        ml_required_slot_bindings (mf_merge_task_link r) = map Bound (sort_bindings bs) \<and>
        ml_required_slot_bindings_digest (mf_merge_task_link r) =
          digest_json h (JArr (map (JObj \<circ> sb_to_dict) (sort_bindings bs)))) \<and>
     jget (ev_payload e) ''merge_plan_id'' = JStr (ml_merge_plan_id (mf_merge_task_link r)) \<and>
     (\<exists>p parent. tu_parent_unit_id (mf_merge_task_unit r) = Some p \<and> dict_get (tg_units (mq_graph q)) p = Some parent \<and>
        tu_depth (mf_merge_task_unit r) = tu_depth parent + 1) \<and>
     tu_state (mf_merge_task_unit r) = TS_READY \<and>
     tu_input_refs (mf_merge_task_unit r) = [(''merge_input_bundle'', mf_merge_input_bundle_ref r)]"

lemma create_task_gated:
  assumes "create_merge_task h st clock nonce q selected (fs, L) e = Inr ((fs', L'), r)"
  shows "\<exists>plan. load_merge_plan h st fs e = Inr plan \<and> merge_gated h q selected e plan r"
  using assms
proof (cases rule: create_task_cases)
  case (1 plan_id batch plan bs parent ref link unit es)
  have "jget (ev_payload e) ''merge_plan_id'' = jget (mp_merge_plan_header plan) ''merge_plan_id''"
    by (rule load_merge_plan_ok[OF 1(3)]) (auto simp: jitem_def jget_def split: option.splits)
  then have "merge_gated h q selected e plan r"
    using visible_batch_ok[OF 1(2)] bindings_ok[OF 1(4)] selected_bound[of plan "mq_canonical_events q" _ bs] 1(4)
      link_ok[OF 1(7)] unit_ok[OF 1(8)]
    unfolding merge_gated_def 1(10) by auto
  then show ?thesis using 1(3) by blast
qed


section \<open>Well-formed requests\<close>

text \<open>The JSON a request carries: dictionaries without repeated keys, floats as JSON writes them.\<close>

definition wf_merge_request :: "merge_request \<Rightarrow> bool" where
  "wf_merge_request q \<longleftrightarrow> (\<forall>e \<in> set (mq_canonical_events q). wf_obj (ev_payload e)) \<and>
     (\<forall>d. mq_readiness_decision q = Some d \<longrightarrow> wf_obj d)"

lemma wf_obj_member:
  assumes "wf_obj d" "map_of d k = Some v"
  shows "wf_json v \<and> floats_ok v"
  using assms map_of_SomeD[OF assms(2)] by (force simp: wf_obj_def)

lemma wf_obj_jget: "wf_obj d \<Longrightarrow> jget d k = JObj x \<Longrightarrow> wf_obj x"
  using wf_obj_member[of d k "JObj x"] by (cases "map_of d k") (simp_all add: jget_def wf_obj_def)

lemma wf_dict_default: "wf_obj d \<Longrightarrow> dict_default d k = Inr x \<Longrightarrow> wf_obj x"
proof (cases "map_of d k")
  case (Some v)
  assume "wf_obj d" "dict_default d k = Inr x"
  then show ?thesis using wf_obj_member[OF _ Some] Some
    by (cases v) (auto simp: dict_default_def wf_obj_def split: list.splits)
qed (simp add: dict_default_def wf_obj_def)

lemma wf_ar_from_dict: "wf_obj d \<Longrightarrow> ar_from_dict d = Inr ref \<Longrightarrow> wf_ref ref"
  by (auto simp: ar_from_dict_def wf_ref_def res_simps dest: wf_dict_default)

lemma slot_bound_wf:
  assumes "bind_slot (canonical_events_by_unit_id es) selected slot = Inr (Some b)" "\<forall>e \<in> set es. wf_obj (ev_payload e)"
  shows "wf_json (sb_canonical_output_ref b) \<and> floats_ok (sb_canonical_output_ref b)"
proof -
  obtain u e where u: "dict_get (canonical_events_by_unit_id es) u = Some e" "bind_canonical slot u e = Inr b"
    using assms(1) by (auto simp: bind_slot_def res_simps bind_eq_Some_conv split: if_splits option.splits)
  have "e \<in> set es" using canonical_latest[OF u(1)[unfolded canonical_events_by_unit_id_def]] by auto
  obtain s refs r ref where s: "jget (ev_payload e) ''canonical_selection'' = JObj s"
      "jget s ''canonical_output_refs'' = JObj refs" "jget refs (sb_source_output_name b) = JObj r"
      "ar_from_dict r = Inr ref" "slot_binding_of slot u (sb_source_output_name b) (ev_event_seq e) s ref = Inr b"
    using bind_canonical_ok[OF u(2)] .
  have "wf_obj (ev_payload e)" using assms(2) \<open>e \<in> set es\<close> by blast
  then have "wf_obj r" using s(1-3) wf_obj_jget by metis
  then show ?thesis using wf_ref_dict[OF wf_ar_from_dict[OF _ s(4)]] slot_binding_of_ok(5)[OF s(5)] by simp
qed

lemma bindings_wf:
  assumes "build_required_slot_bindings plan (canonical_events_by_unit_id es) selected = Inr bs"
    and "\<forall>e \<in> set es. wf_obj (ev_payload e)"
  shows "\<forall>b \<in> set bs. wf_json (JObj (sb_to_dict b)) \<and> floats_ok (JObj (sb_to_dict b))"
proof
  fix b assume b: "b \<in> set bs"
  obtain xs where m: "mapE (bind_slot (canonical_events_by_unit_id es) selected) (mp_required_slots plan) = Inr xs"
    and "bs = keep_some xs"
    using assms(1) by (auto simp: build_required_slot_bindings_def Let_def res_simps)
  then have "Some b \<in> set xs" using b by (auto simp: keep_some_def)
  then obtain slot where "bind_slot (canonical_events_by_unit_id es) selected slot = Inr (Some b)"
    using list_all2_right[OF m[unfolded mapE_list_all2]] by blast
  from slot_bound_wf[OF this assms(2)] show "wf_json (JObj (sb_to_dict b)) \<and> floats_ok (JObj (sb_to_dict b))"
    by (simp add: sb_to_dict_def)
qed

lemma wf_opt_obj: "(\<forall>d. x = Some d \<longrightarrow> wf_obj d) \<Longrightarrow> wf_json (opt_obj x) \<and> floats_ok (opt_obj x)"
  by (cases x) (simp_all add: wf_obj_def)

lemma link_wf:
  assumes "build_merge_task_link h plan e batch ref bs decision now cid = Inr link" "wf_ref ref"
    and "\<forall>b \<in> set bs. wf_json (JObj (sb_to_dict b)) \<and> floats_ok (JObj (sb_to_dict b))"
    and "\<forall>d. decision = Some d \<longrightarrow> wf_obj d"
  shows "wf_json (JObj (ml_to_dict link)) \<and> floats_ok (JObj (ml_to_dict link))"
proof -
  obtain l where l: "mk_merge_task_link h l = Inr link" "ml_required_slot_bindings l = map Bound bs"
    "ml_merge_input_bundle_ref l = JObj (ar_to_dict ref)" "ml_coordinator l = coordinator_json cid"
    "ml_readiness_decision l = opt_obj decision"
    using assms(1) by (auto simp: build_merge_task_link_def res_simps)
  have k: "link = l\<lparr>ml_required_slot_bindings := map Bound (sort_bindings bs)\<rparr>"
    by (rule link_accepted[OF l(1)]) (simp add: l(2))
  have "\<forall>j \<in> set (map (\<lambda>b. JObj (sb_to_dict b)) (sort_bindings bs)). wf_json j \<and> floats_ok j"
    using assms(3) by (auto simp: sort_bindings_def)
  then show ?thesis
    using wf_ref_dict[OF assms(2)] wf_opt_obj[OF assms(4)]
    by (simp add: ml_to_dict_def k l(3-5) coordinator_json_def comp_def)
qed

lemma unit_wf:
  assumes "build_merge_unit graph plan ref now = Inr unit" "wf_ref ref"
  shows "wf_json (JObj (tu_to_dict unit)) \<and> floats_ok (JObj (tu_to_dict unit))"
  using assms(1) wf_ref_dict[OF assms(2)] wf_weight
  by (auto simp: build_merge_unit_def mk_task_unit_def tu_to_dict_def refs_json_def res_simps split: option.splits)

lemma drafts_wf:
  assumes "wf_json (JObj (ml_to_dict link)) \<and> floats_ok (JObj (ml_to_dict link))" "wf_ref ref"
    and "wf_json (JObj (tu_to_dict unit)) \<and> floats_ok (JObj (tu_to_dict unit))"
    and "\<forall>d. decision = Some d \<longrightarrow> wf_obj d"
  shows "\<forall>d \<in> set (build_merge_task_creation_drafts t e link unit ref bs decision now cid). wf_draft d"
  using assms(1,3) wf_ref_dict[OF assms(2)] wf_opt_obj[OF assms(4)]
  by (simp add: build_merge_task_creation_drafts_def merge_draft_of_def readiness_members_def wf_draft_def wf_obj_def
      Let_def comp_def)

section \<open>Creating the merge tasks again\<close>

lemma bundle_conflict_ok [simp]: "bundle_conflict r = Inr x \<longleftrightarrow> r = Inr x"
  by (auto simp: bundle_conflict_def split: sum.splits py_error.splits)

lemma map_le_get: "m \<subseteq>\<^sub>m n \<Longrightarrow> m x = Some y \<Longrightarrow> n x = Some y"
  by (metis map_le_def domI)

lemma read_bytes_keeps: "read_bytes st fs ref = Inr data \<Longrightarrow> fs \<subseteq>\<^sub>m w \<Longrightarrow> read_bytes st w ref = Inr data"
  using map_le_get[of fs w]
  by (cases "resolve_uri st (ar_uri ref)") (auto simp: read_bytes_def read_file_def split: option.splits)

lemma load_merge_plan_keeps:
  assumes "load_merge_plan h st fs e = Inr plan" "fs \<subseteq>\<^sub>m w"
  shows "load_merge_plan h st w e = Inr plan"
proof (rule load_merge_plan_ok[OF assms(1)])
  fix d ref data
  assume a: "jget (ev_payload e) ''merge_plan_ref'' = JObj d" "ar_from_dict d = Inr ref"
    "verify_artifact h st fs ref = Inr True" "read_bytes st fs ref = Inr data" "parse_merge_plan data = Inr plan"
    "jitem (mp_merge_plan_header plan) ''merge_plan_id'' = Inr (jget (ev_payload e) ''merge_plan_id'')"
  have r: "read_bytes st w ref = Inr data" by (rule read_bytes_keeps[OF a(4) assms(2)])
  then have "verify_artifact h st w ref = Inr True" using a(3,4) by (simp add: verify_artifact_def)
  then show ?thesis using a r by (simp add: load_merge_plan_def)
qed

lemma stage_cases:
  assumes "stage_merge_input_bundle h st nonce fs t p plan bs None decision cid now = Inr (fs1, ref)"
  obtains pid data args where "jget (mp_merge_plan_header plan) ''merge_plan_id'' = JStr pid"
    "wf_obj (aa_source args)" "wf_obj (aa_ref_metadata args)"
    "\<And>w nonce'. stage_merge_input_bundle h st nonce' w t p plan bs None decision cid now =
       bundle_conflict (save_bytes h st w data (bundle_id pid) args nonce')"
proof -
  obtain pid did dg where "str_item (mp_merge_plan_header plan) ''merge_plan_id'' = Inr pid"
    "str_item (mp_merge_plan_header plan) ''expansion_decision_id'' = Inr did"
    "digest_required_slot_bindings h (map Bound bs) = Inr dg"
    using assms by (auto simp: stage_merge_input_bundle_def res_simps)
  then show thesis
    by (intro that[of pid "bundle_args t p pid decision now\<lparr>aa_media_type := ''application/json''\<rparr>"])
      (auto simp: stage_merge_input_bundle_def save_json_def bundle_args_def wf_obj_def dest: str_item_ok)
qed

lemma stage_facts:
  assumes "stage_merge_input_bundle h st nonce fs t p plan bs None decision cid now = Inr (fs1, ref)"
    and "no_temps fs" and "\<forall>pid. jget (mp_merge_plan_header plan) ''merge_plan_id'' = JStr pid \<longrightarrow> plain_id h st (bundle_id pid)"
  shows "no_temps fs1 \<and> fs \<subseteq>\<^sub>m fs1 \<and> wf_ref ref \<and>
    (\<forall>w nonce'. fs1 \<subseteq>\<^sub>m w \<longrightarrow> no_temps w \<longrightarrow>
       stage_merge_input_bundle h st nonce' w t p plan bs None decision cid now = Inr (w, ref))"
proof (rule stage_cases[OF assms(1)])
  fix pid data args
  assume a: "jget (mp_merge_plan_header plan) ''merge_plan_id'' = JStr pid"
    "wf_obj (aa_source args)" "wf_obj (aa_ref_metadata args)"
    "\<And>w nonce'. stage_merge_input_bundle h st nonce' w t p plan bs None decision cid now =
       bundle_conflict (save_bytes h st w data (bundle_id pid) args nonce')"
  have p: "plain_id h st (bundle_id pid)" using assms(3) a(1) by blast
  have s: "save_bytes h st fs data (bundle_id pid) args nonce = Inr (fs1, ref)" using assms(1) a(4) by simp
  have n: "no_temps fs1" by (rule save_no_temps[OF p s assms(2)])
  have "fs \<subseteq>\<^sub>m fs1"
    using save_spec_keeps[OF save_bytes_refines(2)[OF p s]] by (simp add: visible_no_temps assms(2) n)
  moreover have "wf_ref ref" using save_bytes_refines(1)[OF p s] a(2,3) by (simp add: saved_ref_def wf_ref_def)
  ultimately show ?thesis using n a(4) save_bytes_known[OF p s assms(2)] by simp
qed

definition plain_plan :: "hash \<Rightarrow> artifact_store \<Rightarrow> ledger_event \<Rightarrow> bool" where
  "plain_plan h st e \<longleftrightarrow>
     (\<forall>pid. jget (ev_payload e) ''merge_plan_id'' = JStr pid \<longrightarrow> plain_id h st (bundle_id pid))"

text \<open>The events of a merge task carry the keys of its unit and of its plan.\<close>

definition merge_keys :: "merge_flow \<Rightarrow> string list" where
  "merge_keys r =
     [''task_unit:create:'' @ tu_unit_id (mf_merge_task_unit r),
      ''merge_task_link:'' @ ml_merge_plan_id (mf_merge_task_link r)]"

lemma create_task_step:
  assumes "create_merge_task h st clock nonce q selected (fs, L) e = Inr ((fs1, L1), r)"
    and "no_temps fs" and "ledger_reach h L" and "wf_merge_request q" and "plain_plan h st e"
  shows "no_temps fs1 \<and> fs \<subseteq>\<^sub>m fs1 \<and> ledger_reach h L1 \<and> (\<exists>new. el_events L1 = el_events L @ new) \<and>
    set (mf_events r) \<subseteq> set (el_events L1) \<and> map ev_idempotency_key (mf_events r) = merge_keys r \<and>
    (\<forall>w M clock' nonce'. fs1 \<subseteq>\<^sub>m w \<longrightarrow> no_temps w \<longrightarrow> ledger_ok h M \<longrightarrow> set (mf_events r) \<subseteq> set (el_events M) \<longrightarrow>
       create_merge_task h st clock' nonce' q selected (w, M) e = Inr ((w, M), r))"
  using assms(1)
proof (cases rule: create_task_cases)
  case (1 plan_id batch plan bs parent ref link unit es)
  let ?ds = "build_merge_task_creation_drafts (mq_task_id q) e link unit ref bs (mq_readiness_decision q) (mq_now q)
    (mq_correlation_id q)" and ?bid = "''merge_task_creation_batch:'' @ plan_id"
  have "jget (mp_merge_plan_header plan) ''merge_plan_id'' = jget (ev_payload e) ''merge_plan_id''"
    by (rule load_merge_plan_ok[OF 1(3)]) (auto simp: jitem_def jget_def split: option.splits)
  then have "\<forall>pid. jget (mp_merge_plan_header plan) ''merge_plan_id'' = JStr pid \<longrightarrow> plain_id h st (bundle_id pid)"
    using assms(5) by (simp add: plain_plan_def)
  note st = stage_facts[OF 1(6) assms(2) this]
  have q: "\<forall>e \<in> set (mq_canonical_events q). wf_obj (ev_payload e)" "\<forall>d. mq_readiness_decision q = Some d \<longrightarrow> wf_obj d"
    using assms(4) by (simp_all add: wf_merge_request_def)
  have wf: "\<forall>d \<in> set ?ds. wf_draft d"
    using st by (intro drafts_wf link_wf[OF 1(7)] unit_wf[OF 1(8)] bindings_wf[OF 1(4)] q) blast+
  have L1: "ledger_reach h L1" by (rule ledger_batch[OF assms(3) wf 1(9)])
  note b = append_batch_stands[OF ledger_reach_ok[OF assms(3)] 1(9)]
  have keys: "map ev_idempotency_key es = map dr_idempotency_key ?ds" using b by (simp add: batch_stands_def)
  have "create_merge_task h st clock' nonce' q selected (w, M) e = Inr ((w, M), r)"
    if "fs1 \<subseteq>\<^sub>m w" "no_temps w" "ledger_ok h M" "set (mf_events r) \<subseteq> set (el_events M)" for w M clock' nonce'
  proof -
    have "fs \<subseteq>\<^sub>m w" using st that(1) map_le_trans by blast
    then have p: "load_merge_plan h st w e = Inr plan" by (rule load_merge_plan_keeps[OF 1(3)])
    have "append_batch h clock' M ?ds ?bid = Inr (M, es)"
      using b that(4) 1(10) by (intro append_batch_known[OF that(3)]) auto
    then show ?thesis using 1 p st that(1,2) by (simp add: create_merge_task_def)
  qed
  then show ?thesis
    using st L1 b 1(10) keys
    by (auto simp: merge_keys_def build_merge_task_creation_drafts_def merge_draft_of_def Let_def)
qed

lemma create_tasks_facts:
  assumes "create_merge_tasks h st clock nonces q selected (fs, L) es = (L', Inr (fs', rs))"
    and "no_temps fs" and "ledger_reach h L" and "wf_merge_request q" and "\<forall>e \<in> set es. plain_plan h st e"
  shows "no_temps fs' \<and> fs \<subseteq>\<^sub>m fs' \<and> ledger_reach h L' \<and> (\<exists>new. el_events L' = el_events L @ new) \<and>
    (\<forall>r \<in> set rs. set (mf_events r) \<subseteq> set (el_events L') \<and> map ev_idempotency_key (mf_events r) = merge_keys r) \<and>
    (\<forall>w M clock' nonces'. fs' \<subseteq>\<^sub>m w \<longrightarrow> no_temps w \<longrightarrow> ledger_ok h M \<longrightarrow> set (el_events L') \<subseteq> set (el_events M) \<longrightarrow>
       create_merge_tasks h st clock' nonces' q selected (w, M) es = (M, Inr (w, rs)))"
  using assms(1-3,5)
proof (induction es arbitrary: fs L rs)
  case (Cons e es)
  show ?case
  proof (cases "is_type e MERGE_PLAN_RECORDED")
    case True
    then obtain fs1 L1 r where c: "create_merge_task h st clock (nonces (length es)) q selected (fs, L) e
        = Inr ((fs1, L1), r)"
      using Cons.prems(1) by (auto split: sum.splits)
    then obtain rs' where l: "create_merge_tasks h st clock nonces q selected (fs1, L1) es = (L', Inr (fs', rs'))"
      and rs: "rs = r # rs'"
      using Cons.prems(1) True by (auto simp: res_simps split: prod.splits)
    have "plain_plan h st e" using Cons.prems(4) by simp
    note s = create_task_step[OF c Cons.prems(2,3) assms(4) this]
    have "\<forall>e \<in> set es. plain_plan h st e" using Cons.prems(4) by simp
    note t = Cons.IH[OF l conjunct1[OF s] _ this]
    have t: "no_temps fs' \<and> fs1 \<subseteq>\<^sub>m fs' \<and> ledger_reach h L' \<and> (\<exists>new. el_events L' = el_events L1 @ new) \<and>
      (\<forall>r \<in> set rs'. set (mf_events r) \<subseteq> set (el_events L') \<and> map ev_idempotency_key (mf_events r) = merge_keys r) \<and>
      (\<forall>w M clock' nonces'. fs' \<subseteq>\<^sub>m w \<longrightarrow> no_temps w \<longrightarrow> ledger_ok h M \<longrightarrow> set (el_events L') \<subseteq> set (el_events M) \<longrightarrow>
         create_merge_tasks h st clock' nonces' q selected (w, M) es = (M, Inr (w, rs')))"
      using t s by blast
    have "set (el_events L1) \<subseteq> set (el_events L')" using t by auto
    moreover have "create_merge_tasks h st clock' nonces' q selected (w, M) (e # es) = (M, Inr (w, rs))"
      if "fs' \<subseteq>\<^sub>m w" "no_temps w" "ledger_ok h M" "set (el_events L') \<subseteq> set (el_events M)" for w M clock' nonces'
    proof -
      have "fs1 \<subseteq>\<^sub>m w" using t that(1) map_le_trans by blast
      moreover have "set (mf_events r) \<subseteq> set (el_events M)"
        using s \<open>set (el_events L1) \<subseteq> set (el_events L')\<close> that(4) by blast
      ultimately have "create_merge_task h st clock' (nonces' (length es)) q selected (w, M) e = Inr ((w, M), r)"
        using s that(2,3) by blast
      moreover have "create_merge_tasks h st clock' nonces' q selected (w, M) es = (M, Inr (w, rs'))"
        using t that by blast
      ultimately show ?thesis using True rs by simp
    qed
    moreover have "fs \<subseteq>\<^sub>m fs'" using s t map_le_trans by blast
    ultimately show ?thesis using s t rs by auto
  qed (use Cons in simp)
qed auto

text \<open>
  C28 merge_creation_idempotent: on a disk without temporary files and a reachable ledger, a
  successful \<open>create_ready_merge_tasks\<close> loses nothing that was on the disk or in the ledger, and
  each merge task has exactly its two events in the ledger, under the keys of its unit and of its
  plan. Running it again, with any clock and any temporary names, leaves the disk and the ledger
  as they are and returns the same merge tasks.
\<close>

theorem merge_creation_idempotent:
  assumes "no_temps fs" and "ledger_reach h L" and "wf_merge_request q"
    and "\<forall>e \<in> set (mq_merge_plan_events q). plain_plan h st e"
    and "create_ready_merge_tasks h st clock nonces (fs, L) q = (L', Inr (fs', rs))"
  shows "ledger_reach h L' \<and> (\<exists>new. el_events L' = el_events L @ new) \<and> fs \<subseteq>\<^sub>m fs' \<and>
    (\<forall>r \<in> set rs. set (mf_events r) \<subseteq> set (el_events L') \<and> map ev_idempotency_key (mf_events r) = merge_keys r) \<and>
    create_ready_merge_tasks h st clock' nonces' (fs', L') q = (L', Inr (fs', rs))"
proof -
  obtain selected where s: "selected_child_unit_ids (mq_readiness_decision q) = Inr selected"
    "create_merge_tasks h st clock nonces q selected (fs, L) (mq_merge_plan_events q) = (L', Inr (fs', rs))"
    using assms(5) by (auto simp: create_ready_merge_tasks_def split: sum.splits)
  note f = create_tasks_facts[OF s(2) assms(1-4)]
  then have "create_merge_tasks h st clock' nonces' q selected (fs', L') (mq_merge_plan_events q) = (L', Inr (fs', rs))"
    using ledger_reach_ok[of h L'] by auto
  then show ?thesis using f s(1) by (simp add: create_ready_merge_tasks_def)
qed

end
