(* ===== verification/Core_Merge_Sample.thy ===== *)
theory Core_Merge_Sample
  imports Core_Merge_Facts
begin

text \<open>
  A run of \<open>create_ready_merge_tasks\<close> on a concrete plan, which shows that the hypotheses of its
  theorems can be met.
\<close>

section \<open>A merge task at work\<close>

text \<open>A plan on disk, its event, and the canonical event of its only child; a hash of one letter.\<close>

definition flat :: hash where
  "flat s = ''h''"

definition plan_text :: string where
  "plan_text = canonical_json (JObj (mp_to_dict sample_plan))"

definition loaded_plan :: "merge_plan res" where
  "loaded_plan = mp_from_kwargs (sort_obj (mp_to_dict sample_plan))"

definition sample_event :: "event_type \<Rightarrow> int \<Rightarrow> jobj \<Rightarrow> ledger_event" where
  "sample_event kind seq payload =
     \<lparr>ev_event_seq = seq, ev_event_id = ''e'', ev_event_type = Known kind, ev_occurred_at = ''now'',
      ev_task_id = Some ''t'', ev_object_type = ''o'', ev_object_id = ''o'', ev_actor = [], ev_correlation_id = None,
      ev_causation_event_id = None, ev_idempotency_key = ''k'', ev_payload = payload, ev_prev_event_hash = None,
      ev_event_hash = [], ev_schema_version = ''LedgerEvent.v2'', ev_batch_id = Some ''b'', ev_batch_index = Some 1,
      ev_batch_size = Some 1\<rparr>"

definition plan_event :: ledger_event where
  "plan_event = sample_event MERGE_PLAN_RECORDED 4
     [(''merge_plan_id'', JStr ''x''),
      (''merge_plan_ref'', JObj [(''artifact_id'', JStr ''p''), (''artifact_type'', JStr ''MergePlan''),
        (''uri'', JStr ''artifacts/p''), (''content_hash'', JStr ''sha256:h''),
        (''size_bytes'', JInt (int (length plan_text))), (''media_type'', JStr ''m''), (''artifact_schema_id'', JStr ''s''),
        (''artifact_schema_version'', JStr ''v''), (''created_at'', JStr ''now'')])]"

definition child_event :: ledger_event where
  "child_event = sample_event CANONICAL_OUTPUTS_BOUND 3
     [(''canonical_selection'', JObj
        [(''unit_id'', JStr ''u''), (''canonical_selection_id'', JStr ''s''), (''canonical_output_bundle_digest'', JStr ''d''),
         (''selected_verification_report_id'', JStr ''v''), (''selected_attempt_id'', JStr ''a''),
         (''canonical_output_refs'', JObj [(''out'', JObj
           [(''artifact_id'', JStr ''a''), (''artifact_type'', JStr ''canonical_output''), (''uri'', JStr ''artifacts/a''),
            (''content_hash'', JStr ''d''), (''size_bytes'', JInt 1), (''media_type'', JStr ''m''),
            (''artifact_schema_id'', JStr ''s''), (''artifact_schema_version'', JStr ''v''),
            (''created_at'', JStr ''now'')])])])]"

definition sample_merge_request :: merge_request where
  "sample_merge_request =
     \<lparr>mq_task_id = ''x'',
      mq_graph = \<lparr>tg_task_id = ''x'', tg_units = [(''x'', root_unit (sample_request ''x'') (saved_ref flat sample_store [] ''a'' sample_args))],
        tg_relations = [], tg_canonical_outputs = [], tg_protocol_config = None, tg_out_edges = [], tg_in_edges = [], tg_max_depth_observed = 0\<rparr>,
      mq_merge_plan_events = [plan_event],
      mq_expansion_batches = [\<lparr>bt_batch_id = Some ''b'', bt_events = [sample_event TASK_EXPANDED 5 []],
        bt_task_expanded_visible = True\<rparr>],
      mq_canonical_events = [child_event], mq_now = ''now'', mq_coordinator_id = ''c'', mq_correlation_id = ''c'',
      mq_readiness_decision = None\<rparr>"

definition plan_disk :: fs where
  "plan_disk = [[''data'', ''artifacts'', ''p''] \<mapsto> plan_text]"

fun res_option :: "'a res \<Rightarrow> 'a option" where
  "res_option (Inl _) = None"
| "res_option (Inr x) = Some x"

lemma loaded_plan_ok: "is_ok loaded_plan"
  by code_simp

definition sample_bindings :: "slot_binding list res" where
  "sample_bindings = bindE loaded_plan (\<lambda>p. build_required_slot_bindings p (canonical_events_by_unit_id [child_event]) None)"

lemma sample_bindings_ok: "is_ok sample_bindings"
  by code_simp

lemma plan_text_loads: "parse_merge_plan plan_text = loaded_plan"
proof -
  have "wf_json (JObj (mp_to_dict sample_plan)) \<and> floats_ok (JObj (mp_to_dict sample_plan))"
    by (simp add: mp_to_dict_def objects_def sample_plan_def merge_plan_header_fields_def merge_policy_ref_fields_def
        hash_recording_fields_def merge_validation_fields_def)
  then have "loads plan_text = Some (JObj (sort_obj (mp_to_dict sample_plan)))"
    unfolding plan_text_def sort_members_obj[symmetric] by (intro loads_canonical) auto
  then show ?thesis by (simp add: parse_merge_plan_def loaded_plan_def)
qed

lemma plan_uri: "resolve_uri sample_store ''artifacts/p'' = Inr [''data'', ''artifacts'', ''p'']"
  by code_simp

lemma plan_id: "map_option (\<lambda>p. jitem (mp_merge_plan_header p) ''merge_plan_id'') (res_option loaded_plan) = Some (Inr (JStr ''x''))"
  by code_simp

lemma plan_loads:
  assumes "loaded_plan = Inr p"
  shows "load_merge_plan flat sample_store plan_disk plan_event = Inr p"
proof -
  obtain ref where r: "ar_from_dict [(''artifact_id'', JStr ''p''), (''artifact_type'', JStr ''MergePlan''),
        (''uri'', JStr ''artifacts/p''), (''content_hash'', JStr ''sha256:h''),
        (''size_bytes'', JInt (int (length plan_text))), (''media_type'', JStr ''m''), (''artifact_schema_id'', JStr ''s''),
        (''artifact_schema_version'', JStr ''v''), (''created_at'', JStr ''now'')] = Inr ref"
    and f: "ar_uri ref = ''artifacts/p''" "ar_content_hash ref = ''sha256:h''" "ar_size_bytes ref = int (length plan_text)"
    by (simp add: ar_from_dict_def str_item_def jitem_def dict_default_def str_default_def)
  have d: "read_bytes sample_store plan_disk ref = Inr plan_text"
    by (simp add: read_bytes_def f plan_uri plan_disk_def read_file_def resolve_def)
  then have "verify_artifact flat sample_store plan_disk ref = Inr True"
    by (simp add: verify_artifact_def f sha256_digest_def flat_def)
  moreover have "jitem (mp_merge_plan_header p) ''merge_plan_id'' = Inr (JStr ''x'')"
    using plan_id unfolding assms by simp
  moreover have "parse_merge_plan plan_text = Inr p" using plan_text_loads unfolding assms .
  ultimately show ?thesis
    using r d by (simp add: load_merge_plan_def plan_event_def sample_event_def jget_def)
qed

lemma plan_plain: "plain_plan flat sample_store plan_event"
  by (simp add: plain_plan_def plan_event_def sample_event_def jget_def bundle_id_def plain_id_def plain_store_def
      plain_name_def sample_store_def artifact_filename_def flat_def)

lemma sample_request_ok: "wf_merge_request sample_merge_request" "no_temps plan_disk"
  by (auto simp: wf_merge_request_def sample_merge_request_def child_event_def sample_event_def wf_obj_def
      no_temps_def plan_disk_def hidden_def)

lemma sample_batch: "visible_batch (mq_expansion_batches sample_merge_request) plan_event =
    Inr \<lparr>bt_batch_id = Some ''b'', bt_events = [sample_event TASK_EXPANDED 5 []], bt_task_expanded_visible = True\<rparr>"
  by (simp add: visible_batch_def sample_merge_request_def plan_event_def sample_event_def has_final_marker_def
      is_complete_def is_type_def or_empty_def dict_by_def)

text \<open>The link and the unit of the loaded plan, for any bundle.\<close>

definition sample_header :: "string list res" where
  "sample_header = bindE loaded_plan (\<lambda>p.
     mapE (str_item (mp_merge_plan_header p)) [''merge_plan_id'', ''task_id'', ''parent_unit_id'', ''expansion_decision_id''])"

definition sample_policy :: "string list res" where
  "sample_policy = bindE loaded_plan (\<lambda>p.
     mapE (str_item (mp_merge_policy_ref p)) [''merge_policy_id'', ''merge_policy_version'', ''merge_policy_descriptor_digest''])"

lemma sample_plan_strings: "sample_header = Inr [''x'', ''x'', ''x'', ''x'']" "sample_policy = Inr [''x'', ''x'', ''x'']"
  by code_simp+

lemma sample_bindings_one: "map_option length (res_option sample_bindings) = Some 1"
  by code_simp

lemma bundle_plain: "plain_id flat sample_store (bundle_id ''x'')"
  using plan_plain by (simp add: plain_plan_def plan_event_def sample_event_def jget_def)

lemma bundle_file: "artifact_dir sample_store = [''data'', ''artifacts'']"
    "artifact_filename flat (bundle_id ''x'') = ''merge_input_bundle_x--h''"
  using dir_plain[of sample_store] bundle_plain
  by (simp_all add: plain_id_def sample_store_def artifact_filename_def bundle_id_def flat_def)

lemma plan_disk_bundle: "save_spec flat sample_store plan_disk data (bundle_id ''x'') args \<noteq> None"
  by (rule save_spec_new[OF bundle_plain])
    (simp add: plain_paths[OF bundle_plain] bundle_file plan_disk_def with_suffix_def path_name_def)

lemma sample_creates:
  "\<exists>fs' L' rs. create_ready_merge_tasks flat sample_store clock nonces (plan_disk, empty_ledger) sample_merge_request
     = (L', Inr (fs', rs))"
proof -
  let ?q = sample_merge_request
  let ?b = "\<lparr>bt_batch_id = Some ''b'', bt_events = [sample_event TASK_EXPANDED 5 []], bt_task_expanded_visible = True\<rparr>"
  obtain p where p: "loaded_plan = Inr p" using loaded_plan_ok unfolding is_ok_iff by blast
  have hd: "str_item (mp_merge_plan_header p) ''merge_plan_id'' = Inr ''x''" "str_item (mp_merge_plan_header p) ''task_id'' = Inr ''x''"
    "str_item (mp_merge_plan_header p) ''parent_unit_id'' = Inr ''x''"
    "str_item (mp_merge_plan_header p) ''expansion_decision_id'' = Inr ''x''"
    using sample_plan_strings(1) unfolding sample_header_def p by (simp_all add: res_simps)
  have po: "str_item (mp_merge_policy_ref p) ''merge_policy_id'' = Inr ''x''"
    "str_item (mp_merge_policy_ref p) ''merge_policy_version'' = Inr ''x''"
    "str_item (mp_merge_policy_ref p) ''merge_policy_descriptor_digest'' = Inr ''x''"
    using sample_plan_strings(2) unfolding sample_policy_def p by (simp_all add: res_simps)
  obtain bs where bs: "build_required_slot_bindings p (canonical_events_by_unit_id [child_event]) None = Inr bs"
    using sample_bindings_ok unfolding sample_bindings_def p by (auto simp: is_ok_iff)
  have "length bs = 1" using sample_bindings_one unfolding sample_bindings_def p by (simp add: bs)
  then obtain b where b: "bs = [b]" by (cases bs) auto
  have "\<exists>fs1. save_bytes flat sample_store plan_disk data (bundle_id ''x'') args nonce
      = Inr (fs1, saved_ref flat sample_store data (bundle_id ''x'') args)" for data args nonce
    using save_bytes_total[OF bundle_plain _ fresh_no_temps[OF bundle_plain sample_request_ok(2)]] plan_disk_bundle
    by (simp add: visible_no_temps sample_request_ok(2))
  then obtain fs1 ref where st: "stage_merge_input_bundle flat sample_store (nonces 0) plan_disk ''x'' ''x'' p bs None None ''c'' ''now''
      = Inr (fs1, ref)" and ref: "ar_content_hash ref = ''sha256:h''"
    by (simp add: stage_merge_input_bundle_def hd digest_required_slot_bindings_def save_json_def saved_ref_def
        sha256_digest_def flat_def) (metis artifact_ref.select_convs(4))
  have "is_ok (build_merge_task_link flat p plan_event ?b ref bs None ''now'' ''c'')"
    by (simp add: build_merge_task_link_def hd po digest_required_slot_bindings_def mk_merge_task_link_def
        check_link_fields_def check_readiness_def require_non_empty_def ref digest_json_def sha256_digest_def
        plan_event_def sample_event_def coordinator_json_def b check_selected_def)
  then obtain link where li: "build_merge_task_link flat p plan_event ?b ref bs None ''now'' ''c'' = Inr link"
    by (auto simp: is_ok_iff)
  obtain unit where un: "build_merge_unit (mq_graph ?q) p ref ''now'' = Inr unit"
    by (simp add: build_merge_unit_def hd sample_merge_request_def mk_task_unit_def)
  have "is_ok (append_batch flat clock empty_ledger
      (build_merge_task_creation_drafts ''x'' plan_event link unit ref bs None ''now'' ''c'') (''merge_task_creation_batch:'' @ ''x''))"
    by (simp add: append_batch_def empty_ledger_def build_merge_task_creation_drafts_def merge_draft_of_def Let_def keep_some_def)
  then obtain L1 es where ap: "append_batch flat clock empty_ledger
      (build_merge_task_creation_drafts ''x'' plan_event link unit ref bs None ''now'' ''c'') (''merge_task_creation_batch:'' @ ''x'') = Inr (L1, es)"
    by (auto simp: is_ok_iff)
  have q: "mq_canonical_events ?q = [child_event]" "mq_task_id ?q = ''x''" "mq_now ?q = ''now''" "mq_coordinator_id ?q = ''c''"
    "mq_correlation_id ?q = ''c''" "mq_readiness_decision ?q = None" "mq_merge_plan_events ?q = [plan_event]"
    by (simp_all add: sample_merge_request_def)
  have id: "merge_plan_id_from_event plan_event = Inr ''x''" "is_type plan_event MERGE_PLAN_RECORDED"
    by (simp_all add: merge_plan_id_from_event_def plan_event_def sample_event_def jget_def is_type_def)
  have "\<exists>r. create_merge_task flat sample_store clock (nonces 0) ?q None (plan_disk, empty_ledger) plan_event = Inr ((fs1, L1), r)"
    using ap by (simp add: create_merge_task_def q id sample_batch plan_loads[OF p] bs hd st li un)
  then show ?thesis
    by (auto simp: create_ready_merge_tasks_def q selected_child_unit_ids_def id)
qed


lemma merge_creation_idempotent_witness:
  "\<exists>L' fs' rs. create_ready_merge_tasks flat sample_store (\<lambda>_. ''now'') (\<lambda>_. ''1'') (plan_disk, empty_ledger) sample_merge_request
     = (L', Inr (fs', rs)) \<and>
     create_ready_merge_tasks flat sample_store (\<lambda>_. ''later'') (\<lambda>_. ''2'') (fs', L') sample_merge_request = (L', Inr (fs', rs))"
proof -
  obtain fs' L' rs where g: "create_ready_merge_tasks flat sample_store (\<lambda>_. ''now'') (\<lambda>_. ''1'') (plan_disk, empty_ledger)
      sample_merge_request = (L', Inr (fs', rs))"
    using sample_creates by blast
  have "\<forall>e \<in> set (mq_merge_plan_events sample_merge_request). plain_plan flat sample_store e"
    using plan_plain by (simp add: sample_merge_request_def)
  from merge_creation_idempotent[OF sample_request_ok(2) empty_reach sample_request_ok(1) this g] g
  show ?thesis by blast
qed

end
