(* ===== verification/Event_Snapshot.thy ===== *)
theory Event_Snapshot
  imports Event_Log
begin

text \<open>
  \<open>read_verified_snapshot\<close> of \<open>storage/events.py\<close> on the ledgers the program writes. It splits the
  file with \<open>str.splitlines\<close>, so it reads the ledger back when no event text contains one of the
  Unicode line boundaries that JSON does not escape, and it fails on a valid ledger otherwise.
\<close>

section \<open>Splitting at line boundaries\<close>

definition no_boundary :: "string \<Rightarrow> bool" where
  "no_boundary s \<longleftrightarrow> (\<forall>i < length s. boundary (drop i s) = 0)"

lemma no_boundary_Cons: "no_boundary (c # s) \<longleftrightarrow> boundary (c # s) = 0 \<and> no_boundary s"
  unfolding no_boundary_def by (simp add: All_less_Suc2)

lemma boundary_newline: "boundary (c # s) = 0 \<Longrightarrow> boundary (c # s @ CHR 0x0A # r) = 0"
  by (cases s; cases "tl s") (auto simp: boundary_def split: if_splits)

lemma splitlines_line:
  "no_boundary l \<Longrightarrow> splitlines_from acc (l @ CHR 0x0A # rest) = (rev acc @ l) # splitlines_from [] rest"
proof (induction l arbitrary: acc)
  case Nil
  then show ?case by (subst splitlines_from.simps) (simp add: boundary_def)
next
  case (Cons c l)
  then have "boundary ((c # l) @ CHR 0x0A # rest) = 0" by (simp add: no_boundary_Cons boundary_newline)
  then show ?case using Cons by (subst splitlines_from.simps) (simp add: no_boundary_Cons)
qed

definition one_line :: "ledger_event \<Rightarrow> bool" where
  "one_line e \<longleftrightarrow> no_boundary (canonical_json (JObj (ev_to_dict e)))"

lemma splitlines_events:
  "\<forall>e \<in> set es. one_line e \<Longrightarrow>
     splitlines (concat (map event_line es)) = map (\<lambda>e. canonical_json (JObj (ev_to_dict e))) es"
proof (induction es)
  case Nil
  then show ?case by (simp add: splitlines_def splitlines_from.simps)
next
  case (Cons e es)
  then show ?case by (simp add: splitlines_def event_line_def one_line_def splitlines_line)
qed

lemma snapshot_lines:
  assumes "\<forall>e \<in> set es. wf_event e" "\<forall>e \<in> set es. one_line e"
  shows "mapE (\<lambda>(n, line). snapshot_line n line) (number_from 1 (splitlines (concat (map event_line es))))
    = Inr (map (\<lambda>e. Some (norm_event e)) es)"
proof -
  let ?texts = "map (\<lambda>e. canonical_json (JObj (ev_to_dict e))) es"
  have "list_all2 (\<lambda>p e. (\<lambda>(n, line). snapshot_line n line) p = Inr (Some (norm_event e))) (number_from 1 ?texts) es"
    using assms(1) by (auto simp: list_all2_conv_all_nth number_from_def read_event_line Suc_le_eq snapshot_line_def)
  then have "list_all2 (\<lambda>p y. (\<lambda>(n, line). snapshot_line n line) p = Inr y) (number_from 1 ?texts)
      (map (\<lambda>e. Some (norm_event e)) es)"
    by (simp add: list_all2_map2)
  then show ?thesis by (simp only: mapE_list_all2 splitlines_events[OF assms(2)])
qed

section \<open>Distinct ids and hashes\<close>

lemma read_pad: "read_nat (pad_left n (CHR ''0'') s) = read_nat s"
proof -
  have "foldl (\<lambda>acc c. 10 * acc + digit_val c) 0 (replicate k (CHR ''0'')) = 0" for k
    by (induction k) (simp_all add: digit_val_def)
  then show ?thesis by (simp add: pad_left_def read_nat_def)
qed

lemma event_id_inj: "0 \<le> m \<Longrightarrow> 0 \<le> n \<Longrightarrow> event_id_of m = event_id_of n \<Longrightarrow> m = n"
  using arg_cong[of _ _ read_nat] read_pad read_show_nat
  by (auto simp: event_id_of_def show_int_def) (metis nat_0_le read_pad read_show_nat)

lemma verify_events_ok:
  assumes "chain_holds h n p es" "0 \<le> n"
    and "\<forall>e \<in> set es. ev_event_id e = event_id_of (ev_event_seq e) \<and> wf_fields e"
    and "\<forall>i \<in> set ids. \<exists>m. 0 \<le> m \<and> m < n \<and> i = event_id_of m"
    and "\<forall>x \<in> set hs. \<exists>f. wf_fields f \<and> x = ev_event_hash f \<and> event_hash h (ev_to_dict f) = x \<and> ev_event_seq f < n"
  shows "verify_events_from h n p ids hs es = Inr () \<or> collision h"
  using assms
proof (induction es arbitrary: n p ids hs)
  case (Cons e es)
  have e: "ev_event_seq e = n" "ev_prev_event_hash e = p" "event_hash h (ev_to_dict e) = ev_event_hash e"
    and r: "chain_holds h (n + 1) (Some (ev_event_hash e)) es"
    using Cons.prems(1) by (auto split: if_splits)
  show ?case
  proof (cases "collision h")
    case False
    have "ev_event_id e \<notin> set ids"
      using Cons.prems(2,3,4) e event_id_inj by (metis less_irrefl list.set_intros(1))
    moreover have "ev_event_hash e \<notin> set hs"
    proof
      assume "ev_event_hash e \<in> set hs"
      then obtain f where f: "wf_fields f" "ev_event_hash e = ev_event_hash f"
        "event_hash h (ev_to_dict f) = ev_event_hash e" "ev_event_seq f < n"
        using Cons.prems(5) by blast
      have "wf_fields e" using Cons.prems(3) by simp
      from event_hash_eq[OF _ f(2) this f(1)] e f False show False by (metis less_irrefl)
    qed
    moreover have "verify_events_from h (n + 1) (Some (ev_event_hash e)) (ev_event_id e # ids)
        (ev_event_hash e # hs) es = Inr () \<or> collision h"
    proof (rule Cons.IH[OF r])
      show "\<forall>i \<in> set (ev_event_id e # ids). \<exists>m. 0 \<le> m \<and> m < n + 1 \<and> i = event_id_of m"
      proof
        fix i assume "i \<in> set (ev_event_id e # ids)"
        then consider "i = event_id_of n" | "i \<in> set ids" using Cons.prems(3) e by auto
        then show "\<exists>m. 0 \<le> m \<and> m < n + 1 \<and> i = event_id_of m"
        proof cases
          case 1
          then show ?thesis using Cons.prems(2) by (intro exI[of _ n]) simp
        next
          case 2
          then show ?thesis using Cons.prems(4) by (metis add_strict_increasing2 less_add_one less_trans zero_le_one)
        qed
      qed
      show "\<forall>x \<in> set (ev_event_hash e # hs). \<exists>f. wf_fields f \<and> x = ev_event_hash f \<and>
          event_hash h (ev_to_dict f) = x \<and> ev_event_seq f < n + 1"
      proof
        fix x assume "x \<in> set (ev_event_hash e # hs)"
        then consider "x = ev_event_hash e" | "x \<in> set hs" by auto
        then show "\<exists>f. wf_fields f \<and> x = ev_event_hash f \<and> event_hash h (ev_to_dict f) = x \<and> ev_event_seq f < n + 1"
        proof cases
          case 1
          then show ?thesis using e Cons.prems(3) by (intro exI[of _ e]) simp
        next
          case 2
          then obtain f where "wf_fields f" "x = ev_event_hash f" "event_hash h (ev_to_dict f) = x" "ev_event_seq f < n"
            using Cons.prems(5) by blast
          then show ?thesis by (intro exI[of _ f]) simp
        qed
      qed
    qed (use Cons.prems in auto)
    ultimately show ?thesis using e False by simp
  qed simp
qed simp

section \<open>Snapshots of reachable ledgers\<close>

text \<open>
  On the file of any reachable ledger whose events each fit on one line, the
  verified snapshot is taken and holds exactly the events of the ledger with the hash of its tip,
  unless two events exhibit a collision of the hash function.
\<close>

theorem snapshot_of_ledger:
  assumes "ledger_reach h L" and "\<forall>e \<in> set (el_events L). one_line e"
  shows "(\<exists>s. read_verified_snapshot h (el_file L) = Inr s \<and> sn_events s = map norm_event (el_events L) \<and>
      sn_event_count s = int (length (el_events L)) \<and> sn_tip_event_hash s = el_last_hash L)
    \<or> (\<exists>x y. x \<noteq> y \<and> h x = h y)"
proof -
  have ok: "ledger_ok h L" by (rule ledger_reach_ok[OF assms(1)])
  let ?es = "map norm_event (el_events L)"
  have w: "\<forall>e \<in> set ?es. ev_event_id e = event_id_of (ev_event_seq e) \<and> wf_fields e"
    using ok wf_norm_event wf_event_dict by (auto simp: ledger_ok_def wf_fields_def wf_obj_def)
  have "verify_events_from h 1 None [] [] ?es = Inr () \<or> collision h"
    using ok w by (intro verify_events_ok) (auto simp: ledger_ok_def chain_holds_norm)
  moreover have "mapE (\<lambda>(n, line). snapshot_line n line) (number_from 1 (splitlines (el_file L)))
      = Inr (map (\<lambda>e. Some (norm_event e)) (el_events L))"
    using snapshot_lines[of "el_events L"] assms(2) ok by (simp add: ledger_ok_def)
  moreover have "map_option ev_event_hash (if ?es = [] then None else Some (last ?es)) = el_last_hash L"
    using ok by (cases "el_events L" rule: rev_cases) (auto simp: ledger_ok_def last_hash_def)
  ultimately show ?thesis
    by (auto simp: read_verified_snapshot_def verify_snapshot_events_def Let_def collision_def split del: if_split
        cong: if_cong)
qed

lemma snapshot_of_ledger_witness:
  "\<exists>s. read_verified_snapshot id (el_file empty_ledger) = Inr s \<and> sn_event_count s = 0"
  using snapshot_of_ledger[OF empty_reach[of id]] by (auto simp: empty_ledger_def)

section \<open>An event the snapshot cannot read\<close>

text \<open>The payload holds U+2028, which the canonical JSON writes unescaped and \<open>splitlines\<close> splits at.\<close>

definition separator_draft :: event_draft where
  "separator_draft = \<lparr>dr_event_type = Other ''X'', dr_object_type = ''o'', dr_object_id = ''i'',
     dr_payload = [(''t'', JStr [CHR 0xE2, CHR 0x80, CHR 0xA8])], dr_idempotency_key = ''k'',
     dr_task_id = None, dr_actor = None, dr_correlation_id = None, dr_causation_event_id = None,
     dr_occurred_at = Some ''t''\<rparr>"

lemma separator_file:
  "is_ok (read_verified_snapshot (\<lambda>_. ''00'') (event_line (draft_event (\<lambda>_. ''00'') [] 1 None separator_draft None)))
     = False"
  by code_simp

text \<open>
  There is a reachable ledger, with one event whose payload is a
  string holding the line separator U+2028, that passes the hash chain verification and that
  \<open>read_verified_snapshot\<close> nevertheless refuses.
\<close>

theorem snapshot_rejects_separator:
  "\<exists>h L. ledger_reach h L \<and> length (el_events L) = 1 \<and> verify_hash_chain h (el_file L) = Inr True \<and>
     \<not> is_ok (read_verified_snapshot h (el_file L))"
proof -
  let ?h = "\<lambda>_. ''00''"
  let ?e = "draft_event ?h [] 1 None separator_draft None"
  obtain L where a: "append_event ?h [] empty_ledger separator_draft = Inr (L, ?e)"
    and L: "el_events L = [?e]" "el_file L = event_line ?e"
    by (simp add: append_event_def empty_ledger_def Let_def)
  have "wf_draft separator_draft" by (simp add: wf_draft_def separator_draft_def wf_obj_def)
  then have r: "ledger_reach ?h L" using ledger_append[OF empty_reach _ a] by blast
  have ok: "ledger_ok ?h L" by (rule ledger_reach_ok[OF r])
  then have "verify_hash_chain ?h (el_file L) = Inr True"
    using read_all_events[of "el_events L"] by (simp add: verify_hash_chain_def chain_holds_norm ledger_ok_def)
  with r L separator_file show ?thesis by (intro exI[of _ ?h] exI[of _ L]) simp
qed

end
