(* ===== verification/Py_Heap.thy ===== *)
theory Py_Heap
  imports Py_Prelude "HOL-Library.Multiset"
begin

text \<open>
  Python's \<open>heapq\<close> as the program uses it: \<open>heappush\<close> inserts, \<open>heappop\<close> removes and returns an item
  with the least key, \<open>heap[0]\<close> is that item. The interface is a locale of priority queues with the
  lemmas its clients need; the model is the list of the items in the order of their keys, which is
  what any sequence of pushes and pops of a binary heap with distinct keys shows to its client.
\<close>

locale priority_queue =
  fixes inv :: "'q \<Rightarrow> bool"
    and contents :: "'q \<Rightarrow> 'a multiset"
    and key :: "'a \<Rightarrow> 'k :: linorder"
    and push :: "'a \<Rightarrow> 'q \<Rightarrow> 'q"
    and pop :: "'q \<Rightarrow> ('a \<times> 'q) option"
  assumes push_inv: "inv q \<Longrightarrow> inv (push x q)"
    and push_contents: "inv q \<Longrightarrow> contents (push x q) = add_mset x (contents q)"
    and pop_empty: "inv q \<Longrightarrow> pop q = None \<longleftrightarrow> contents q = {#}"
    and pop_inv: "inv q \<Longrightarrow> pop q = Some (x, q') \<Longrightarrow> inv q'"
    and pop_contents: "inv q \<Longrightarrow> pop q = Some (x, q') \<Longrightarrow> contents q = add_mset x (contents q')"
    and pop_least: "inv q \<Longrightarrow> pop q = Some (x, q') \<Longrightarrow> y \<in># contents q \<Longrightarrow> key x \<le> key y"
begin

lemma pop_some: "inv q \<Longrightarrow> contents q \<noteq> {#} \<Longrightarrow> \<exists>x q'. pop q = Some (x, q')"
  using pop_empty by fastforce

lemma pop_mem: "inv q \<Longrightarrow> pop q = Some (x, q') \<Longrightarrow> x \<in># contents q"
  using pop_contents by auto

lemma pop_rest: "inv q \<Longrightarrow> pop q = Some (x, q') \<Longrightarrow> y \<in># contents q' \<Longrightarrow> key x \<le> key y"
  using pop_contents pop_least by (metis insert_noteq_member mset_add add_mset_commute union_single_eq_member)

text \<open>Popping until the queue is empty gives the contents in the order of the keys.\<close>

fun pop_all :: "nat \<Rightarrow> 'q \<Rightarrow> 'a list" where
  "pop_all 0 q = []"
| "pop_all (Suc n) q = (case pop q of None \<Rightarrow> [] | Some (x, q') \<Rightarrow> x # pop_all n q')"

lemma pop_all_sorted:
  assumes "inv q" "size (contents q) = n"
  shows "mset (pop_all n q) = contents q \<and> sorted (map key (pop_all n q))"
  using assms
proof (induction n arbitrary: q)
  case (Suc n)
  then obtain x q' where p: "pop q = Some (x, q')" using pop_some by (metis size_empty nat.distinct(1))
  have "size (contents q') = n" using pop_contents[OF Suc.prems(1) p] Suc.prems(2) by simp
  with Suc.IH[of q'] pop_inv[OF Suc.prems(1) p] have i: "mset (pop_all n q') = contents q'" "sorted (map key (pop_all n q'))"
    by auto
  then show ?case
    using p pop_contents[OF Suc.prems(1) p] pop_rest[OF Suc.prems(1) p]
    by (auto simp flip: i(1))
qed simp

end

definition heappush :: "('a \<Rightarrow> 'k :: linorder) \<Rightarrow> 'a \<Rightarrow> 'a list \<Rightarrow> 'a list" where
  "heappush key x q = insort_key key x q"

fun heappop :: "'a list \<Rightarrow> ('a \<times> 'a list) option" where
  "heappop [] = None"
| "heappop (x # q) = Some (x, q)"

definition heap_ok :: "('a \<Rightarrow> 'k :: linorder) \<Rightarrow> 'a list \<Rightarrow> bool" where
  "heap_ok key q \<longleftrightarrow> sorted (map key q)"

interpretation heap: priority_queue "heap_ok key" mset key "heappush key" heappop for key
proof
  show "heap_ok key (heappush key x q)" if "heap_ok key q" for q x
    using that by (simp add: heap_ok_def heappush_def sorted_insort_key)
  show "mset (heappush key x q) = add_mset x (mset q)" if "heap_ok key q" for q x
    by (simp add: heappush_def)
  show "heappop q = None \<longleftrightarrow> mset q = {#}" if "heap_ok key q" for q :: "'a list"
    by (cases q) simp_all
  show "heap_ok key q'" if "heap_ok key q" "heappop q = Some (x, q')" for q x q'
    using that by (cases q) (auto simp: heap_ok_def)
  show "mset q = add_mset x (mset q')" if "heap_ok key q" "heappop q = Some (x, q')" for q x q'
    using that by (cases q) auto
  show "key x \<le> key y" if "heap_ok key q" "heappop q = Some (x, q')" "y \<in># mset q" for q x q' y
    using that by (cases q) (auto simp: heap_ok_def)
qed

end
