(* ===== verification/Logical_Scheduler.thy ===== *)
theory Logical_Scheduler
  imports Py_Heap Py_Clock Core_Models "HOL-Library.Product_Lexorder"
begin

text \<open>
  \<open>local_runtime/logical_scheduler.py\<close>: the discrete event scheduler of logical time, with its events,
  its checkpoints and their JSON form, and the list-scheduling makespan. Field prefixes: \<open>le_\<close>
  LogicalScheduledEvent, \<open>cp_\<close> LogicalSchedulerCheckpoint, \<open>sc_\<close> LogicalSourceLatencyScheduler. The
  fields of events and checkpoints are typed, so the checks of types appear where JSON is read.
\<close>

section \<open>Events\<close>

definition event_kinds :: "string list" where
  "event_kinds = [''worker_completion'', ''early_stop'', ''lease_deadline'', ''worker_death'', ''retry'', ''requeue'']"

definition event_priority_by_kind :: "(string, int) dict" where
  "event_priority_by_kind =
     [(''worker_completion'', 10), (''lease_deadline'', 20), (''worker_death'', 30), (''early_stop'', 40),
      (''retry'', 50), (''requeue'', 60)]"

record logical_event =
  le_event_kind :: string
  le_logical_time_ms :: int
  le_event_priority :: int
  le_task_id :: string
  le_unit_id :: string
  le_attempt_ordinal :: int
  le_sequence :: int
  le_logical_start_ms :: "int option"
  le_source_latency_ms :: "int option"
  le_schema_version :: string

definition non_negative :: "string \<Rightarrow> int \<Rightarrow> unit res" where
  "non_negative name v = raise_if (v < 0) (ValueError (name @ '' must be non-negative''))"

definition non_empty :: "string \<Rightarrow> string \<Rightarrow> unit res" where
  "non_empty name v = raise_if (v = []) (ValueError (name @ '' must be a non-empty string''))"

definition check_delivery :: "logical_event \<Rightarrow> unit res" where
  "check_delivery e =
     (case (le_logical_start_ms e, le_source_latency_ms e) of
        (None, None) \<Rightarrow> Inr ()
      | (Some start, Some latency) \<Rightarrow>
          checks
            [non_negative ''logical_start_ms'' start, non_negative ''source_latency_ms'' latency,
             raise_if (le_logical_time_ms e \<noteq> start + latency)
               (ValueError ''logical finish must equal logical start plus source latency'')]
      | _ \<Rightarrow> Inl (ValueError ''logical delivery requires both start and source latency''))"

definition mk_event :: "logical_event \<Rightarrow> logical_event res" where
  "mk_event e =
     seqE (checks
       [raise_if (le_schema_version e \<noteq> ''tokenshare.logical_scheduled_event.v1'')
          (ValueError ''unsupported logical scheduled event schema''),
        require (le_event_kind e \<in> set event_kinds) (ValueError (''unsupported logical event kind: '' @ le_event_kind e)),
        non_negative ''logical_time_ms'' (le_logical_time_ms e),
        non_negative ''event_priority'' (le_event_priority e),
        non_empty ''task_id'' (le_task_id e),
        non_empty ''unit_id'' (le_unit_id e),
        non_negative ''attempt_ordinal'' (le_attempt_ordinal e),
        non_negative ''sequence'' (le_sequence e),
        check_delivery e])
     (Inr e)"

type_synonym ordering_key = "int \<times> int \<times> string \<times> string \<times> int"

definition key_of_event :: "logical_event \<Rightarrow> ordering_key" where
  "key_of_event e =
     (le_logical_time_ms e, le_event_priority e, le_task_id e, le_unit_id e, le_attempt_ordinal e)"

definition le_to_dict :: "logical_event \<Rightarrow> jobj" where
  "le_to_dict e =
     [(''schema_version'', JStr (le_schema_version e)),
      (''event_kind'', JStr (le_event_kind e)),
      (''logical_time_ms'', JInt (le_logical_time_ms e)),
      (''event_priority'', JInt (le_event_priority e)),
      (''task_id'', JStr (le_task_id e)),
      (''unit_id'', JStr (le_unit_id e)),
      (''attempt_ordinal'', JInt (le_attempt_ordinal e)),
      (''sequence'', JInt (le_sequence e)),
      (''logical_start_ms'', opt_int (le_logical_start_ms e)),
      (''source_latency_ms'', opt_int (le_source_latency_ms e))]"

text \<open>Reading from JSON: exactly the known fields, then the checks of \<open>mk_event\<close> with those of types.\<close>

definition logical_event_fields :: "string list" where
  "logical_event_fields =
     [''schema_version'', ''event_kind'', ''logical_time_ms'', ''event_priority'', ''task_id'', ''unit_id'',
      ''attempt_ordinal'', ''sequence'', ''logical_start_ms'', ''source_latency_ms'']"

definition require_exact_fields :: "jobj \<Rightarrow> string list \<Rightarrow> string \<Rightarrow> unit res" where
  "require_exact_fields d expected label =
     raise_if (set (dict_keys d) \<noteq> set expected) (ValueError (label @ '' fields mismatch''))"

definition json_nat :: "string \<Rightarrow> json \<Rightarrow> int res" where
  "json_nat name v =
     (case v of JInt i \<Rightarrow> seqE (non_negative name i) (Inr i) | _ \<Rightarrow> Inl (TypeError (name @ '' must be an integer'')))"

definition json_text :: "string \<Rightarrow> json \<Rightarrow> string res" where
  "json_text name v =
     (case v of JStr s \<Rightarrow> seqE (non_empty name s) (Inr s)
      | _ \<Rightarrow> Inl (ValueError (name @ '' must be a non-empty string'')))"

definition json_delivery :: "int \<Rightarrow> json \<Rightarrow> json \<Rightarrow> (int option \<times> int option) res" where
  "json_delivery finish start latency =
     (if start = JNull \<and> latency = JNull then Inr (None, None)
      else if start = JNull \<or> latency = JNull
      then Inl (ValueError ''logical delivery requires both start and source latency'')
      else bindE (json_nat ''logical_start_ms'' start) (\<lambda>s.
        bindE (json_nat ''source_latency_ms'' latency) (\<lambda>l.
        if finish \<noteq> s + l then Inl (ValueError ''logical finish must equal logical start plus source latency'')
        else Inr (Some s, Some l))))"

definition event_from_dict :: "jobj \<Rightarrow> logical_event res" where
  "event_from_dict d =
     seqE (require_exact_fields d logical_event_fields ''logical scheduled event'')
     (if jget d ''schema_version'' \<noteq> JStr ''tokenshare.logical_scheduled_event.v1''
      then Inl (ValueError ''unsupported logical scheduled event schema'')
      else
      bindE (in_str_keys (jget d ''event_kind'') event_kinds) (\<lambda>known.
      case (known, jget d ''event_kind'') of
        (True, JStr kind) \<Rightarrow>
          bindE (json_nat ''logical_time_ms'' (jget d ''logical_time_ms'')) (\<lambda>time.
          bindE (json_nat ''event_priority'' (jget d ''event_priority'')) (\<lambda>priority.
          bindE (json_text ''task_id'' (jget d ''task_id'')) (\<lambda>task.
          bindE (json_text ''unit_id'' (jget d ''unit_id'')) (\<lambda>unit.
          bindE (json_nat ''attempt_ordinal'' (jget d ''attempt_ordinal'')) (\<lambda>ordinal.
          bindE (json_nat ''sequence'' (jget d ''sequence'')) (\<lambda>sequence.
          bindE (json_delivery time (jget d ''logical_start_ms'') (jget d ''source_latency_ms'')) (\<lambda>(start, latency).
          Inr \<lparr>le_event_kind = kind, le_logical_time_ms = time, le_event_priority = priority, le_task_id = task,
               le_unit_id = unit, le_attempt_ordinal = ordinal, le_sequence = sequence, le_logical_start_ms = start,
               le_source_latency_ms = latency,
               le_schema_version = ''tokenshare.logical_scheduled_event.v1''\<rparr>)))))))
      | _ \<Rightarrow> Inl (ValueError ''unsupported logical event kind'')))"

section \<open>The wall-clock origin\<close>

text \<open>The offset of a time of day to UTC is written and is zero.\<close>

definition utc_offset_zero :: "string \<Rightarrow> bool" where
  "utc_offset_zero time =
     (case drop (length (takeWhile (\<lambda>c. c \<noteq> CHR ''+'' \<and> c \<noteq> CHR ''-'') time)) time of
        [] \<Rightarrow> False
      | sign # off \<Rightarrow> (case clock_fields off of None \<Rightarrow> False | Some f \<Rightarrow> clock_us f = 0))"

definition parse_origin :: "string \<Rightarrow> int res" where
  "parse_origin s =
     (if s = [] then Inl (ValueError ''wall-clock origin must be a non-empty timestamp'')
      else bindE (from_isoformat (replace_Z s)) (\<lambda>t.
        if utc_offset_zero (drop 11 (replace_Z s)) then Inr t
        else Inl (ValueError ''wall-clock origin must be UTC'')))"

section \<open>Checkpoints\<close>

record checkpoint =
  cp_clock_ms :: int
  cp_next_sequence :: int
  cp_pending_events :: "logical_event list"
  cp_used_ordering_keys :: "ordering_key list"
  cp_wall_clock_origin :: "string option"
  cp_wall_clock_origin_logical_ms :: "int option"
  cp_schema_version :: string

definition check_origin :: "string option \<Rightarrow> int option \<Rightarrow> unit res" where
  "check_origin origin ms =
     (case (origin, ms) of
        (None, None) \<Rightarrow> Inr ()
      | (Some s, Some m) \<Rightarrow> bindE (parse_origin s) (\<lambda>_. non_negative ''wall_clock_origin_logical_ms'' m)
      | _ \<Rightarrow> Inl (ValueError ''checkpoint wall-clock origin fields must be paired''))"

definition mk_checkpoint :: "checkpoint \<Rightarrow> checkpoint res" where
  "mk_checkpoint c =
     (let keys = map key_of_event (cp_pending_events c) in
      seqE (checks
        [raise_if (cp_schema_version c \<noteq> ''tokenshare.logical_scheduler_checkpoint.v1'')
           (ValueError ''unsupported logical scheduler checkpoint schema''),
         non_negative ''clock_ms'' (cp_clock_ms c),
         non_negative ''next_sequence'' (cp_next_sequence c),
         require (sort_key key_of_event (cp_pending_events c) = cp_pending_events c)
           (ValueError ''checkpoint pending_events must use canonical order''),
         require (distinct keys) (ValueError ''checkpoint contains duplicate pending ordering key''),
         require (distinct (cp_used_ordering_keys c)) (ValueError ''checkpoint contains duplicate used ordering key''),
         require (set keys \<subseteq> set (cp_used_ordering_keys c))
           (ValueError ''checkpoint pending keys must be registered as used''),
         raise_if (list_ex (\<lambda>e. le_logical_time_ms e < cp_clock_ms c) (cp_pending_events c))
           (ValueError ''checkpoint contains an event before its clock''),
         raise_if (list_ex (\<lambda>e. le_sequence e \<ge> cp_next_sequence c) (cp_pending_events c))
           (ValueError ''checkpoint next_sequence does not follow pending events''),
         check_origin (cp_wall_clock_origin c) (cp_wall_clock_origin_logical_ms c)])
      (Inr c))"

fun key_to_json :: "ordering_key \<Rightarrow> json" where
  "key_to_json (time, priority, task, unit, ordinal) = JArr [JInt time, JInt priority, JStr task, JStr unit, JInt ordinal]"

definition cp_to_dict :: "checkpoint \<Rightarrow> jobj" where
  "cp_to_dict c =
     [(''schema_version'', JStr (cp_schema_version c)),
      (''clock_ms'', JInt (cp_clock_ms c)),
      (''next_sequence'', JInt (cp_next_sequence c)),
      (''pending_events'', JArr (map (JObj \<circ> le_to_dict) (cp_pending_events c))),
      (''used_ordering_keys'', JArr (map key_to_json (cp_used_ordering_keys c))),
      (''wall_clock_origin'', opt_str (cp_wall_clock_origin c)),
      (''wall_clock_origin_logical_ms'', opt_int (cp_wall_clock_origin_logical_ms c))]"

definition checkpoint_fields :: "string list" where
  "checkpoint_fields =
     [''schema_version'', ''clock_ms'', ''next_sequence'', ''pending_events'', ''used_ordering_keys'',
      ''wall_clock_origin'', ''wall_clock_origin_logical_ms'']"

fun key_from_json :: "json \<Rightarrow> ordering_key res" where
  "key_from_json (JArr [time, priority, task, unit, ordinal]) =
     bindE (json_nat ''logical_time_ms'' time) (\<lambda>t.
     bindE (json_nat ''event_priority'' priority) (\<lambda>p.
     bindE (json_text ''task_id'' task) (\<lambda>k.
     bindE (json_text ''unit_id'' unit) (\<lambda>u.
     bindE (json_nat ''attempt_ordinal'' ordinal) (\<lambda>a. Inr (t, p, k, u, a))))))"
| "key_from_json _ = Inl (TypeError ''logical ordering key must be a five-item array'')"

fun event_from_json_value :: "json \<Rightarrow> logical_event res" where
  "event_from_json_value (JObj d) = event_from_dict d"
| "event_from_json_value _ = Inl (TypeError ''checkpoint pending event must be an object'')"

definition json_origin :: "json \<Rightarrow> json \<Rightarrow> (string option \<times> int option) res" where
  "json_origin origin ms =
     (if (origin = JNull) \<noteq> (ms = JNull)
      then Inl (ValueError ''checkpoint wall-clock origin fields must be paired'')
      else case origin of
        JNull \<Rightarrow> Inr (None, None)
      | JStr s \<Rightarrow> bindE (parse_origin s) (\<lambda>_. bindE (json_nat ''wall_clock_origin_logical_ms'' ms) (\<lambda>m. Inr (Some s, Some m)))
      | _ \<Rightarrow> Inl (ValueError ''wall-clock origin must be a non-empty timestamp''))"

text \<open>The constructor's checks come in its order: the origin last, the types where the fields are read.\<close>

definition checkpoint_from_dict :: "jobj \<Rightarrow> checkpoint res" where
  "checkpoint_from_dict d =
     seqE (require_exact_fields d checkpoint_fields ''logical scheduler checkpoint'')
     (case (jget d ''pending_events'', jget d ''used_ordering_keys'') of
        (JArr pending, JArr used) \<Rightarrow>
          if list_ex (\<lambda>v. \<not> is_jobj v) pending then Inl (TypeError ''checkpoint pending event must be an object'')
          else
          bindE (mapE event_from_json_value pending) (\<lambda>events.
          bindE (mapE key_from_json used) (\<lambda>keys.
          if jget d ''schema_version'' \<noteq> JStr ''tokenshare.logical_scheduler_checkpoint.v1''
          then Inl (ValueError ''unsupported logical scheduler checkpoint schema'')
          else
          bindE (json_nat ''clock_ms'' (jget d ''clock_ms'')) (\<lambda>clock.
          bindE (json_nat ''next_sequence'' (jget d ''next_sequence'')) (\<lambda>next_sequence.
          bindE (mk_checkpoint
            \<lparr>cp_clock_ms = clock, cp_next_sequence = next_sequence, cp_pending_events = events,
             cp_used_ordering_keys = keys, cp_wall_clock_origin = None, cp_wall_clock_origin_logical_ms = None,
             cp_schema_version = ''tokenshare.logical_scheduler_checkpoint.v1''\<rparr>) (\<lambda>c.
          bindE (json_origin (jget d ''wall_clock_origin'') (jget d ''wall_clock_origin_logical_ms'')) (\<lambda>(origin, ms).
          Inr (c\<lparr>cp_wall_clock_origin := origin, cp_wall_clock_origin_logical_ms := ms\<rparr>)))))))
      | _ \<Rightarrow> Inl (TypeError ''checkpoint queue and used keys must be arrays''))"

section \<open>The scheduler\<close>

record scheduler =
  sc_clock_ms :: int
  sc_next_sequence :: int
  sc_queue :: "logical_event list"
  sc_used :: "ordering_key list"
  sc_pop_history :: "logical_event list"
  sc_origin :: "string option"
  sc_origin_ms :: "int option"

definition new_scheduler :: "int \<Rightarrow> scheduler res" where
  "new_scheduler start_ms =
     seqE (non_negative ''start_ms'' start_ms)
     (Inr \<lparr>sc_clock_ms = start_ms, sc_next_sequence = 0, sc_queue = [], sc_used = [], sc_pop_history = [],
           sc_origin = None, sc_origin_ms = None\<rparr>)"

definition bind_origin :: "scheduler \<Rightarrow> string \<Rightarrow> scheduler res" where
  "bind_origin s timestamp =
     bindE (parse_origin timestamp) (\<lambda>t.
     case sc_origin s of
       None \<Rightarrow> Inr (s\<lparr>sc_origin := Some (format_utc t), sc_origin_ms := Some (sc_clock_ms s)\<rparr>)
     | Some o' \<Rightarrow>
       if o' \<noteq> format_utc t then Inl (ValueError ''logical scheduler wall-clock origin is already bound'')
       else Inr s)"

definition now_timestamp :: "scheduler \<Rightarrow> string res" where
  "now_timestamp s =
     (case (sc_origin s, sc_origin_ms s) of
        (Some origin, Some ms) \<Rightarrow>
          bindE (parse_origin origin) (\<lambda>t.
          let t' = t + (sc_clock_ms s - ms) * 1000
          in if in_range t' then Inr (format_utc t') else Inl (OverflowError ''date value out of range''))
      | _ \<Rightarrow> Inl (RuntimeError ''logical scheduler wall-clock origin is not bound''))"

definition schedule :: "scheduler \<Rightarrow> logical_event \<Rightarrow> (scheduler \<times> logical_event) res" where
  "schedule s request =
     (if le_logical_time_ms request < sc_clock_ms s
      then Inl (ValueError ''logical event cannot be scheduled before current clock'')
      else
      bindE (mk_event (request\<lparr>le_sequence := sc_next_sequence s,
               le_schema_version := ''tokenshare.logical_scheduled_event.v1''\<rparr>)) (\<lambda>e.
      if key_of_event e \<in> set (sc_used s) then Inl (ValueError ''duplicate logical event ordering key'')
      else Inr (s\<lparr>sc_next_sequence := sc_next_sequence s + 1,
                 sc_used := key_of_event e # sc_used s,
                 sc_queue := heappush key_of_event e (sc_queue s)\<rparr>, e)))"

definition event_request ::
  "string \<Rightarrow> int \<Rightarrow> int \<Rightarrow> string \<Rightarrow> string \<Rightarrow> int \<Rightarrow> int option \<Rightarrow> int option \<Rightarrow> logical_event" where
  "event_request kind time priority task unit ordinal start latency =
     \<lparr>le_event_kind = kind, le_logical_time_ms = time, le_event_priority = priority, le_task_id = task,
      le_unit_id = unit, le_attempt_ordinal = ordinal, le_sequence = 0, le_logical_start_ms = start,
      le_source_latency_ms = latency, le_schema_version = []\<rparr>"

definition schedule_delivery ::
  "scheduler \<Rightarrow> string \<Rightarrow> string \<Rightarrow> int \<Rightarrow> int \<Rightarrow> int \<Rightarrow> int option \<Rightarrow> string \<Rightarrow> (scheduler \<times> logical_event) res" where
  "schedule_delivery s task unit ordinal latency priority start kind =
     (let start_ms = (case start of None \<Rightarrow> sc_clock_ms s | Some m \<Rightarrow> m) in
      seqE (checks
        [non_negative ''logical_start_ms'' start_ms, non_negative ''source_latency_ms'' latency,
         raise_if (start_ms < sc_clock_ms s) (ValueError ''logical delivery cannot start before current clock'')])
      (schedule s (event_request kind (start_ms + latency) priority task unit ordinal (Some start_ms) (Some latency))))"

definition schedule_event ::
  "scheduler \<Rightarrow> string \<Rightarrow> int \<Rightarrow> int \<Rightarrow> string \<Rightarrow> string \<Rightarrow> int \<Rightarrow> (scheduler \<times> logical_event) res" where
  "schedule_event s kind time priority task unit ordinal =
     schedule s (event_request kind time priority task unit ordinal None None)"

definition peek_next :: "scheduler \<Rightarrow> logical_event res" where
  "peek_next s =
     (case heappop (sc_queue s) of
        None \<Rightarrow> Inl (IndexError ''logical scheduler queue is empty'') | Some (e, _) \<Rightarrow> Inr e)"

text \<open>An event in the past is lost with the error that reports it, so the state is returned too.\<close>

definition pop_next :: "scheduler \<Rightarrow> scheduler \<times> logical_event res" where
  "pop_next s =
     (case heappop (sc_queue s) of
        None \<Rightarrow> (s, Inl (IndexError ''logical scheduler queue is empty''))
      | Some (e, q) \<Rightarrow>
        if le_logical_time_ms e < sc_clock_ms s
        then (s\<lparr>sc_queue := q\<rparr>, Inl (RuntimeError ''logical scheduler clock would move backwards''))
        else (s\<lparr>sc_queue := q, sc_clock_ms := le_logical_time_ms e, sc_pop_history := sc_pop_history s @ [e]\<rparr>, Inr e))"

fun pop_times :: "nat \<Rightarrow> scheduler \<Rightarrow> scheduler \<times> logical_event list res" where
  "pop_times 0 s = (s, Inr [])"
| "pop_times (Suc n) s =
     (case pop_next s of
        (s1, Inl e) \<Rightarrow> (s1, Inl e)
      | (s1, Inr e) \<Rightarrow> (case pop_times n s1 of (s2, r) \<Rightarrow> (s2, bindE r (\<lambda>es. Inr (e # es)))))"

definition drain :: "scheduler \<Rightarrow> scheduler \<times> logical_event list res" where
  "drain s = pop_times (length (sc_queue s)) s"

definition take_checkpoint :: "scheduler \<Rightarrow> checkpoint res" where
  "take_checkpoint s =
     mk_checkpoint
       \<lparr>cp_clock_ms = sc_clock_ms s, cp_next_sequence = sc_next_sequence s,
        cp_pending_events = sort_key key_of_event (sc_queue s),
        cp_used_ordering_keys = sort (sc_used s), cp_wall_clock_origin = sc_origin s,
        cp_wall_clock_origin_logical_ms = sc_origin_ms s,
        cp_schema_version = ''tokenshare.logical_scheduler_checkpoint.v1''\<rparr>"

definition from_checkpoint :: "checkpoint \<Rightarrow> scheduler res" where
  "from_checkpoint c =
     bindE (new_scheduler (cp_clock_ms c)) (\<lambda>s.
     Inr (s\<lparr>sc_next_sequence := cp_next_sequence c, sc_used := cp_used_ordering_keys c,
            sc_origin := cp_wall_clock_origin c, sc_origin_ms := cp_wall_clock_origin_logical_ms c,
            sc_queue := fold (heappush key_of_event) (cp_pending_events c) []\<rparr>))"

section \<open>List scheduling\<close>

fun assign_all :: "(int \<times> int) list \<Rightarrow> int \<Rightarrow> int list \<Rightarrow> int res" where
  "assign_all workers makespan [] = Inr makespan"
| "assign_all workers makespan (l # ls) =
     (case heappop workers of
        None \<Rightarrow> Inl (IndexError ''index out of range'')
      | Some ((available_at, worker_id), rest) \<Rightarrow>
        let finished_at = available_at + l
        in assign_all (heappush (\<lambda>w. w) (finished_at, worker_id) rest) (max makespan finished_at) ls)"

definition makespan_ms :: "int list \<Rightarrow> int \<Rightarrow> int res" where
  "makespan_ms latencies worker_count =
     (if worker_count < 1 then Inl (ValueError ''worker_count must be positive'')
      else seqE (checks (map (non_negative ''source_latency_ms'') latencies))
        (if latencies = [] then Inr 0
         else assign_all (map (\<lambda>i. (0, int i)) [0..<nat worker_count]) 0 latencies))"

end
