(* ===== verification/Logical_Scheduler_Facts.thy ===== *)
theory Logical_Scheduler_Facts
  imports Logical_Scheduler
begin

text \<open>
  The logical scheduler at work (\<open>local_runtime/logical_scheduler.py\<close>): in every state its operations
  reach, the clock never moves backwards, each event is delivered once and in the total order of the
  keys, a checkpoint can be taken and restores the same scheduler, also through its JSON form; and the
  bounds of list scheduling.
\<close>

section \<open>Reachable schedulers\<close>

inductive sched_reach :: "scheduler \<Rightarrow> bool" where
  sched_new: "new_scheduler t = Inr s \<Longrightarrow> sched_reach s"
| sched_schedule: "sched_reach s \<Longrightarrow> schedule s r = Inr (s', e) \<Longrightarrow> sched_reach s'"
| sched_pop: "sched_reach s \<Longrightarrow> pop_next s = (s', r) \<Longrightarrow> sched_reach s'"
| sched_bind: "sched_reach s \<Longrightarrow> bind_origin s t = Inr s' \<Longrightarrow> sched_reach s'"
| sched_restore: "sched_reach s \<Longrightarrow> take_checkpoint s = Inr c \<Longrightarrow> from_checkpoint c = Inr s' \<Longrightarrow> sched_reach s'"

definition origin_ok :: "string option \<Rightarrow> int option \<Rightarrow> bool" where
  "origin_ok o' ms \<longleftrightarrow> check_origin o' ms = Inr ()"

fun key_ok :: "ordering_key \<Rightarrow> bool" where
  "key_ok (time, priority, task, unit, ordinal) \<longleftrightarrow> 0 \<le> time \<and> 0 \<le> priority \<and> task \<noteq> [] \<and> unit \<noteq> [] \<and> 0 \<le> ordinal"

definition sched_ok :: "scheduler \<Rightarrow> bool" where
  "sched_ok s \<longleftrightarrow>
     0 \<le> sc_clock_ms s \<and> 0 \<le> sc_next_sequence s \<and>
     sorted (map key_of_event (sc_queue s)) \<and>
     distinct (map key_of_event (sc_pop_history s @ sc_queue s)) \<and>
     distinct (sc_used s) \<and> key_of_event ` set (sc_pop_history s @ sc_queue s) \<subseteq> set (sc_used s) \<and>
     (\<forall>e \<in> set (sc_queue s). sc_clock_ms s \<le> le_logical_time_ms e \<and> le_sequence e < sc_next_sequence s \<and> mk_event e = Inr e) \<and>
     sorted (map le_logical_time_ms (sc_pop_history s)) \<and>
     (\<forall>e \<in> set (sc_pop_history s). le_logical_time_ms e \<le> sc_clock_ms s) \<and>
     (\<forall>k \<in> set (sc_used s). key_ok k) \<and> origin_ok (sc_origin s) (sc_origin_ms s)"

lemma key_time: "key_of_event d \<le> key_of_event e \<Longrightarrow> le_logical_time_ms d \<le> le_logical_time_ms e"
  by (auto simp: key_of_event_def less_eq_prod_def)

lemma mk_event_id: "mk_event e = Inr d \<Longrightarrow> d = e"
  by (auto simp: mk_event_def res_simps)

lemma mk_event_facts: "mk_event e = Inr d \<Longrightarrow> d = e \<and> key_ok (key_of_event e) \<and> 0 \<le> le_sequence e \<and>
    le_event_kind e \<in> set event_kinds \<and> le_schema_version e = ''tokenshare.logical_scheduled_event.v1'' \<and> check_delivery e = Inr ()"
  by (auto simp: mk_event_def res_simps key_of_event_def non_negative_def non_empty_def)

lemma schedule_cases:
  assumes "schedule s r = Inr (s', e)"
  shows "e = r\<lparr>le_sequence := sc_next_sequence s, le_schema_version := ''tokenshare.logical_scheduled_event.v1''\<rparr> \<and>
    mk_event e = Inr e \<and> sc_clock_ms s \<le> le_logical_time_ms e \<and> key_of_event e \<notin> set (sc_used s) \<and>
    s' = s\<lparr>sc_next_sequence := sc_next_sequence s + 1, sc_used := key_of_event e # sc_used s,
           sc_queue := heappush key_of_event e (sc_queue s)\<rparr>"
  using assms by (auto simp: schedule_def res_simps dest: mk_event_id split: if_splits)

lemma schedule_ok:
  assumes "sched_ok s" "schedule s r = Inr (s', e)"
  shows "sched_ok s'"
proof -
  note c = schedule_cases[OF assms(2)]
  have "distinct (map key_of_event (heappush key_of_event e q)) \<longleftrightarrow> distinct (map key_of_event q) \<and> key_of_event e \<notin> key_of_event ` set q"
    for q
  proof -
    have "mset (map key_of_event (heappush key_of_event e q)) = mset (map key_of_event (e # q))"
      by (simp add: heappush_def)
    then show ?thesis by (metis (no_types) distinct.simps(2) image_set list.simps(9) mset_eq_imp_distinct_iff conj_commute)
  qed
  then show ?thesis
    using assms(1) c mk_event_facts[of e e]
    by (auto simp: sched_ok_def heappush_def sorted_insort_key set_insort_key)
qed

lemma pop_next_cases:
  assumes "sched_ok s" "sc_queue s = e # q"
  shows "pop_next s = (s\<lparr>sc_queue := q, sc_clock_ms := le_logical_time_ms e, sc_pop_history := sc_pop_history s @ [e]\<rparr>, Inr e)"
  using assms by (auto simp: pop_next_def sched_ok_def)

lemma pop_next_ok:
  assumes "sched_ok s" "pop_next s = (s', r)"
  shows "sched_ok s'"
proof (cases "sc_queue s")
  case Nil
  then show ?thesis using assms by (auto simp: pop_next_def)
next
  case (Cons e q)
  have k: "\<forall>x \<in> set q. key_of_event e \<le> key_of_event x" using assms(1) Cons by (auto simp: sched_ok_def)
  have "s' = s\<lparr>sc_queue := q, sc_clock_ms := le_logical_time_ms e, sc_pop_history := sc_pop_history s @ [e]\<rparr>"
    using assms(2) pop_next_cases[OF assms(1) Cons] by simp
  moreover have "sc_clock_ms s \<le> le_logical_time_ms e" "0 \<le> sc_clock_ms s" using assms(1) Cons by (auto simp: sched_ok_def)
  ultimately show ?thesis
    using assms(1) Cons k key_time by (fastforce simp: sched_ok_def sorted_append)
qed

lemma format_offset: "utc_offset_zero (drop 11 (replace_Z (format_utc t)))"
proof -
  obtain y m d where ymd: "ord2ymd (t div us_per_day + 1) = (y, m, d)" by (metis surj_pair)
  define u where "u = t mod us_per_day"
  let ?body = "d2 (u div 1000000 div 3600) @ '':'' @ d2 (u div 1000000 div 60 mod 60) @ '':'' @ d2 (u div 1000000 mod 60) @
      (if u mod 1000000 = 0 then [] else ''.'' @ d6 (u mod 1000000))"
  let ?sign = "\<lambda>c. c \<noteq> CHR ''+'' \<and> c \<noteq> CHR ''-''"
  have "replace_Z (format_utc t) = (d4 y @ ''-'' @ d2 m @ ''-'' @ d2 d @ ''T'') @ ?body @ ''+00:00''"
    by (simp add: format_utc_def ymd Let_def u_def)
  moreover have "length (d4 y @ ''-'' @ d2 m @ ''-'' @ d2 d @ ''T'') = 11" by (simp add: d4_def d2_def)
  ultimately have "drop 11 (replace_Z (format_utc t)) = ?body @ ''+00:00''"
    by (metis drop_length_append)
  moreover have "?sign c" if "c \<in> set ?body" for c using that no_sign_d by (auto split: if_splits)
  then have "takeWhile ?sign (?body @ ''+00:00'') = ?body" by (subst takeWhile_append2) auto
  then have "drop (length (takeWhile ?sign (?body @ ''+00:00''))) (?body @ ''+00:00'') = ''+00:00''"
    by (simp only: drop_length_append)
  moreover have "clock_fields ''00:00'' = Some (0, 0, 0, 0)"
    by (simp add: digits_val_def is_digit_def read_nat_def digit_val_def)
  ultimately show ?thesis by (simp add: utc_offset_zero_def clock_us_def del: append_assoc)
qed

lemma parse_origin_format: "in_range t \<Longrightarrow> parse_origin (format_utc t) = Inr t"
  using parse_format_utc[of t] format_offset[of t]
  by (auto simp: parse_origin_def parse_utc_def format_utc_def Let_def split: prod.splits)

lemma parse_origin_range: "parse_origin s = Inr t \<Longrightarrow> in_range t"
  by (auto simp: parse_origin_def res_simps from_isoformat_range split: if_splits)

lemma bind_origin_ok:
  assumes "sched_ok s" "bind_origin s t = Inr s'"
  shows "sched_ok s'"
proof -
  obtain i where i: "parse_origin t = Inr i" using assms(2) by (auto simp: bind_origin_def res_simps)
  then have "origin_ok (Some (format_utc i)) (Some (sc_clock_ms s))"
    using assms(1) parse_origin_format[OF parse_origin_range[OF i]]
    by (simp add: origin_ok_def check_origin_def non_negative_def sched_ok_def)
  moreover have "s' = s \<or> s' = s\<lparr>sc_origin := Some (format_utc i), sc_origin_ms := Some (sc_clock_ms s)\<rparr>"
    using assms(2) i by (auto simp: bind_origin_def split: option.splits if_splits)
  ultimately show ?thesis using assms(1) by (elim disjE) (simp_all add: sched_ok_def)
qed

section \<open>Checkpoints\<close>

definition checkpoint_of :: "scheduler \<Rightarrow> checkpoint" where
  "checkpoint_of s =
     \<lparr>cp_clock_ms = sc_clock_ms s, cp_next_sequence = sc_next_sequence s, cp_pending_events = sc_queue s,
      cp_used_ordering_keys = sort (sc_used s), cp_wall_clock_origin = sc_origin s,
      cp_wall_clock_origin_logical_ms = sc_origin_ms s,
      cp_schema_version = ''tokenshare.logical_scheduler_checkpoint.v1''\<rparr>"

lemma sort_key_sorted: "sorted (map f xs) \<Longrightarrow> sort_key f xs = xs"
  by (induction xs) (auto simp: insort_is_Cons)

lemma take_checkpoint_eq:
  assumes "sched_ok s"
  shows "take_checkpoint s = Inr (checkpoint_of s)"
proof -
  have "sort_key key_of_event (sc_queue s) = sc_queue s"
    using assms by (simp add: sched_ok_def sort_key_sorted)
  then show ?thesis
    using assms
    by (auto simp: take_checkpoint_def mk_checkpoint_def checkpoint_of_def sched_ok_def origin_ok_def non_negative_def
        list_ex_iff Let_def res_simps image_subset_iff)
qed

lemma json_nat_int: "0 \<le> i \<Longrightarrow> json_nat name (JInt i) = Inr i"
  by (simp add: json_nat_def non_negative_def)

lemma json_text_str: "s \<noteq> [] \<Longrightarrow> json_text name (JStr s) = Inr s"
  by (simp add: json_text_def non_empty_def)

lemma event_json:
  assumes "mk_event e = Inr e"
  shows "event_from_dict (le_to_dict e) = Inr e"
proof -
  note f = mk_event_facts[OF assms]
  have n: "0 \<le> le_logical_time_ms e" "0 \<le> le_event_priority e" "le_task_id e \<noteq> []" "le_unit_id e \<noteq> []"
    "0 \<le> le_attempt_ordinal e" using f by (auto simp: key_of_event_def)
  have g: "jget (le_to_dict e) ''schema_version'' = JStr ''tokenshare.logical_scheduled_event.v1''"
    "jget (le_to_dict e) ''event_kind'' = JStr (le_event_kind e)" "jget (le_to_dict e) ''logical_time_ms'' = JInt (le_logical_time_ms e)"
    "jget (le_to_dict e) ''event_priority'' = JInt (le_event_priority e)" "jget (le_to_dict e) ''task_id'' = JStr (le_task_id e)"
    "jget (le_to_dict e) ''unit_id'' = JStr (le_unit_id e)" "jget (le_to_dict e) ''attempt_ordinal'' = JInt (le_attempt_ordinal e)"
    "jget (le_to_dict e) ''sequence'' = JInt (le_sequence e)" "jget (le_to_dict e) ''logical_start_ms'' = opt_int (le_logical_start_ms e)"
    "jget (le_to_dict e) ''source_latency_ms'' = opt_int (le_source_latency_ms e)"
    using f by (simp_all add: le_to_dict_def jget_def)
  have x: "require_exact_fields (le_to_dict e) logical_event_fields l = Inr ()" for l
    by (simp add: require_exact_fields_def le_to_dict_def logical_event_fields_def)
  have d: "json_delivery (le_logical_time_ms e) (opt_int (le_logical_start_ms e)) (opt_int (le_source_latency_ms e))
      = Inr (le_logical_start_ms e, le_source_latency_ms e)"
    using f by (auto simp: check_delivery_def json_delivery_def json_nat_def non_negative_def res_simps split: option.splits)
  have "in_str_keys (JStr (le_event_kind e)) event_kinds = Inr True" using f by (simp add: in_str_keys_def)
  then show ?thesis
    using n f by (simp add: event_from_dict_def g x json_nat_int json_text_str d)
qed

lemma key_json: "key_ok k \<Longrightarrow> key_from_json (key_to_json k) = Inr k"
  by (cases k) (simp add: json_nat_int json_text_str)

lemma mapE_inverse: "\<forall>x \<in> set xs. f (g x) = Inr x \<Longrightarrow> mapE f (map g xs) = Inr xs"
  by (induction xs) auto

lemma origin_json:
  assumes "check_origin o' ms = Inr ()"
  shows "json_origin (opt_str o') (opt_int ms) = Inr (o', ms)"
  using assms by (auto simp: check_origin_def json_origin_def res_simps json_nat_def split: option.splits)

lemma checkpoint_json:
  assumes "sched_ok s"
  shows "checkpoint_from_dict (cp_to_dict (checkpoint_of s)) = Inr (checkpoint_of s)"
proof -
  let ?c = "checkpoint_of s"
  let ?d = "cp_to_dict ?c"
  have g: "jget ?d ''pending_events'' = JArr (map (JObj \<circ> le_to_dict) (sc_queue s))"
    "jget ?d ''used_ordering_keys'' = JArr (map key_to_json (sort (sc_used s)))"
    "jget ?d ''schema_version'' = JStr ''tokenshare.logical_scheduler_checkpoint.v1''"
    "jget ?d ''clock_ms'' = JInt (sc_clock_ms s)" "jget ?d ''next_sequence'' = JInt (sc_next_sequence s)"
    "jget ?d ''wall_clock_origin'' = opt_str (sc_origin s)" "jget ?d ''wall_clock_origin_logical_ms'' = opt_int (sc_origin_ms s)"
    by (simp_all add: cp_to_dict_def checkpoint_of_def jget_def)
  have x: "require_exact_fields ?d checkpoint_fields l = Inr ()" for l
    by (simp add: require_exact_fields_def cp_to_dict_def checkpoint_fields_def)
  have e: "mapE event_from_json_value (map (JObj \<circ> le_to_dict) (sc_queue s)) = Inr (sc_queue s)"
    using assms by (intro mapE_inverse) (simp add: sched_ok_def event_json)
  have k: "mapE key_from_json (map key_to_json (sort (sc_used s))) = Inr (sort (sc_used s))"
    using assms by (intro mapE_inverse) (simp add: sched_ok_def key_json)
  have o: "json_origin (opt_str (sc_origin s)) (opt_int (sc_origin_ms s)) = Inr (sc_origin s, sc_origin_ms s)"
    using assms by (intro origin_json) (simp add: sched_ok_def origin_ok_def)
  have ok0: "sched_ok (s\<lparr>sc_origin := None, sc_origin_ms := None\<rparr>)"
    using assms by (simp add: sched_ok_def origin_ok_def check_origin_def)
  have m: "mk_checkpoint (?c\<lparr>cp_wall_clock_origin := None, cp_wall_clock_origin_logical_ms := None\<rparr>)
      = Inr (?c\<lparr>cp_wall_clock_origin := None, cp_wall_clock_origin_logical_ms := None\<rparr>)"
    using take_checkpoint_eq[OF ok0] assms
    by (simp add: take_checkpoint_def checkpoint_of_def sched_ok_def sort_key_sorted)
  have n: "0 \<le> sc_clock_ms s" "0 \<le> sc_next_sequence s" using assms by (simp_all add: sched_ok_def)
  show ?thesis
    using m n
    by (simp add: checkpoint_from_dict_def g x e k o json_nat_int list_ex_iff)
      (simp add: checkpoint_of_def)
qed

text \<open>The scheduler a checkpoint restores: without the history, and with the used keys in order.\<close>

definition restored :: "scheduler \<Rightarrow> scheduler" where
  "restored s = s\<lparr>sc_pop_history := [], sc_used := sort (sc_used s)\<rparr>"

lemma fold_heappush_sorted:
  "sorted (map key_of_event (q @ es)) \<Longrightarrow> distinct (map key_of_event (q @ es)) \<Longrightarrow> fold (heappush key_of_event) es q = q @ es"
proof (induction es arbitrary: q)
  case (Cons e es)
  have "heappush key_of_event e q = q @ [e]"
  proof -
    have "\<forall>x \<in> set q. key_of_event x \<le> key_of_event e" using Cons.prems by (auto simp: sorted_append)
    moreover have "\<forall>x \<in> set q. key_of_event x \<noteq> key_of_event e" using Cons.prems(2) by (simp, metis imageI)
    ultimately have "\<forall>x \<in> set q. \<not> key_of_event e \<le> key_of_event x" by force
    then show ?thesis by (induction q) (auto simp: heappush_def)
  qed
  with Cons show ?case by simp
qed simp

lemma from_checkpoint_eq:
  assumes "sched_ok s"
  shows "from_checkpoint (checkpoint_of s) = Inr (restored s)"
  using assms fold_heappush_sorted[of "[]" "sc_queue s"]
  by (auto simp: from_checkpoint_def checkpoint_of_def restored_def new_scheduler_def non_negative_def sched_ok_def)

lemma restored_ok: "sched_ok s \<Longrightarrow> sched_ok (restored s)"
  by (auto simp: sched_ok_def restored_def)

lemma sched_reach_ok: "sched_reach s \<Longrightarrow> sched_ok s"
proof (induction rule: sched_reach.induct)
  case (sched_new t s)
  then show ?case
    by (auto simp: new_scheduler_def res_simps sched_ok_def non_negative_def origin_ok_def check_origin_def)
next
  case (sched_restore s c s')
  then show ?case using take_checkpoint_eq from_checkpoint_eq restored_ok by force
qed (auto intro: schedule_ok pop_next_ok bind_origin_ok)

text \<open>
  C36 scheduler_order: in every state the scheduler can reach, a pending event can be taken; the
  event taken has the least ordering key of all pending events; the clock moves to its time and
  never backwards; and over the whole history the delivery times never decrease and no ordering
  key is delivered twice.
\<close>

theorem scheduler_order:
  assumes "sched_reach s" and "sc_queue s \<noteq> []"
  shows "\<exists>s' e. pop_next s = (s', Inr e) \<and> peek_next s = Inr e \<and>
    (\<forall>x \<in> set (sc_queue s). key_of_event e \<le> key_of_event x) \<and>
    sc_clock_ms s \<le> sc_clock_ms s' \<and> sc_clock_ms s' = le_logical_time_ms e \<and>
    sc_pop_history s' = sc_pop_history s @ [e] \<and> mset (sc_queue s) = add_mset e (mset (sc_queue s')) \<and>
    sorted (map le_logical_time_ms (sc_pop_history s')) \<and> distinct (map key_of_event (sc_pop_history s'))"
proof -
  have ok: "sched_ok s" by (rule sched_reach_ok[OF assms(1)])
  obtain e q where q: "sc_queue s = e # q" using assms(2) by (cases "sc_queue s") auto
  note p = pop_next_cases[OF ok q]
  have ok': "sched_ok (fst (pop_next s))" using pop_next_ok[OF ok] by (metis prod.collapse)
  have h: "heap_ok key_of_event (sc_queue s)" "heappop (sc_queue s) = Some (e, q)"
    using ok q by (simp_all add: sched_ok_def heap_ok_def)
  show ?thesis
    using p ok' ok q heap.pop_least[OF h] heap.pop_contents[OF h]
    by (auto simp: sched_ok_def peek_next_def)
qed

lemma pop_times_all:
  assumes "sched_ok s" "length (sc_queue s) = n"
  shows "\<exists>s'. pop_times n s = (s', Inr (heap.pop_all n (sc_queue s))) \<and> sc_queue s' = []"
  using assms
proof (induction n arbitrary: s)
  case (Suc n)
  then obtain e q where q: "sc_queue s = e # q" by (cases "sc_queue s") auto
  note p = pop_next_cases[OF Suc.prems(1) q]
  let ?s = "s\<lparr>sc_queue := q, sc_clock_ms := le_logical_time_ms e, sc_pop_history := sc_pop_history s @ [e]\<rparr>"
  have "sched_ok ?s" by (rule pop_next_ok[OF Suc.prems(1) p])
  from Suc.IH[OF this] Suc.prems(2) q obtain s' where "pop_times n ?s = (s', Inr (heap.pop_all n q))" "sc_queue s' = []"
    by auto
  then show ?case using p q by simp
qed simp

text \<open>
  C37 scheduler_drain: draining a reachable scheduler succeeds, empties the queue, and delivers
  exactly the pending events in the order of their keys.
\<close>

theorem scheduler_drain:
  assumes "sched_reach s"
  shows "\<exists>s' es. drain s = (s', Inr es) \<and> sc_queue s' = [] \<and> mset es = mset (sc_queue s) \<and> sorted (map key_of_event es)"
proof -
  have ok: "sched_ok s" by (rule sched_reach_ok[OF assms])
  have "heap_ok key_of_event (sc_queue s)" using ok by (simp add: heap_ok_def sched_ok_def)
  from heap.pop_all_sorted[OF this] pop_times_all[OF ok refl] show ?thesis
    unfolding drain_def by (metis size_mset)
qed

text \<open>
  C38 checkpoint_restores: in every reachable state a checkpoint can be taken, it is read back from
  its JSON form unchanged, and the scheduler restored from it has the same clock, sequence counter, queue, origin and set of used keys, so
  every later request gets the same answer from both.
\<close>

theorem checkpoint_restores:
  assumes "sched_reach s"
  shows "\<exists>c s'. take_checkpoint s = Inr c \<and> checkpoint_from_dict (cp_to_dict c) = Inr c \<and> from_checkpoint c = Inr s' \<and>
    sc_clock_ms s' = sc_clock_ms s \<and> sc_next_sequence s' = sc_next_sequence s \<and> sc_queue s' = sc_queue s \<and>
    set (sc_used s') = set (sc_used s) \<and> sc_origin s' = sc_origin s \<and> sc_origin_ms s' = sc_origin_ms s \<and>
    now_timestamp s' = now_timestamp s \<and> snd (drain s') = snd (drain s) \<and>
    (\<forall>r. map_sum id snd (schedule s' r) = map_sum id snd (schedule s r))"
proof -
  have ok: "sched_ok s" by (rule sched_reach_ok[OF assms])
  have d: "snd (drain (restored s)) = snd (drain s)"
    using pop_times_all[OF ok refl] pop_times_all[OF restored_ok[OF ok] refl]
    by (auto simp: drain_def restored_def)
  have "map_sum id snd (schedule (restored s) r) = map_sum id snd (schedule s r)" for r
    by (simp add: schedule_def restored_def bindE_def split: sum.split)
  moreover have "now_timestamp (restored s) = now_timestamp s"
    by (simp add: now_timestamp_def restored_def split: option.split)
  ultimately show ?thesis
    using take_checkpoint_eq[OF ok] from_checkpoint_eq[OF ok] d checkpoint_json[OF ok]
    by (intro exI[of _ "checkpoint_of s"] exI[of _ "restored s"]) (simp add: restored_def)
qed

section \<open>List scheduling\<close>

lemma sum_least:
  fixes ws :: "(int \<times> int) list"
  assumes "sorted (w # ws)"
  shows "int (length (w # ws)) * fst w \<le> sum_list (map fst (w # ws))"
proof -
  have "fst w \<le> fst v" if "v \<in> set ws" for v
    using assms that by (auto simp: less_eq_prod_def)
  then have "int (length ws) * fst w \<le> sum_list (map fst ws)"
    by (induction ws) (auto simp: algebra_simps, fastforce)
  then show ?thesis by (simp add: algebra_simps)
qed

lemma sum_bound:
  fixes ws :: "(int \<times> int) list"
  assumes "\<forall>w \<in> set ws. fst w \<le> m"
  shows "sum_list (map fst ws) \<le> int (length ws) * m"
  using assms by (induction ws) (auto simp: algebra_simps)

lemma heappush_facts: "length (heappush f x q) = Suc (length q)" "set (heappush f x q) = insert x (set q)"
  "sum_list (map fst (heappush f x q)) = (fst x :: int) + sum_list (map fst q)"
proof -
  show "length (heappush f x q) = Suc (length q)" "set (heappush f x q) = insert x (set q)"
    by (simp_all add: heappush_def set_insort_key)
  show "sum_list (map fst (heappush f x q)) = fst x + sum_list (map fst q)"
    unfolding heappush_def by (induction q) auto
qed

lemma assign_all_bounds:
  assumes "sorted ws" "ws \<noteq> []" "\<forall>w \<in> set ws. fst w \<le> mk" "\<forall>l \<in> set ls. 0 \<le> l \<and> l \<le> M"
  shows "\<exists>m. assign_all ws mk ls = Inr m \<and> mk \<le> m \<and> (\<forall>w \<in> set ws. \<forall>l \<in> set ls. fst (hd ws) + l \<le> m) \<and>
    sum_list (map fst ws) + sum_list ls \<le> int (length ws) * m \<and>
    int (length ws) * m \<le> max (int (length ws) * mk) (sum_list (map fst ws) + sum_list ls + (int (length ws) - 1) * M)"
  using assms
proof (induction ls arbitrary: ws mk)
  case Nil
  then show ?case using sum_bound[OF Nil(3)] by simp
next
  case (Cons l ls)
  obtain a i rest where ws: "ws = (a, i) # rest" using Cons.prems(2) by (cases ws) auto
  let ?w = "(a + l, i)" and ?n = "int (length ws)"
  let ?ws = "heappush (\<lambda>w. w) ?w rest"
  have l: "0 \<le> l" "l \<le> M" using Cons.prems(4) by auto
  have ok: "sorted ?ws" "?ws \<noteq> []" "\<forall>w \<in> set ?ws. fst w \<le> max mk (a + l)" "\<forall>x \<in> set ls. 0 \<le> x \<and> x \<le> M"
  proof -
    show "sorted ?ws" using Cons.prems(1) ws by (simp add: heappush_def sorted_insort)
    show "?ws \<noteq> []" using heappush_facts(1)[of "\<lambda>w. w" ?w rest] by auto
    show "\<forall>w \<in> set ?ws. fst w \<le> max mk (a + l)" using Cons.prems(3) ws by (auto simp: heappush_facts)
    show "\<forall>x \<in> set ls. 0 \<le> x \<and> x \<le> M" using Cons.prems(4) by auto
  qed
  from Cons.IH[OF ok] obtain m where m: "assign_all ?ws (max mk (a + l)) ls = Inr m" "max mk (a + l) \<le> m"
    "\<forall>w \<in> set ?ws. \<forall>x \<in> set ls. fst (hd ?ws) + x \<le> m" "sum_list (map fst ?ws) + sum_list ls \<le> int (length ?ws) * m"
    "int (length ?ws) * m \<le> max (int (length ?ws) * max mk (a + l)) (sum_list (map fst ?ws) + sum_list ls + (int (length ?ws) - 1) * M)"
    by blast
  have len: "int (length ?ws) = ?n" and sum: "sum_list (map fst ?ws) = sum_list (map fst ws) + l"
    by (simp_all add: heappush_facts ws)
  have least: "?n * a \<le> sum_list (map fst ws)" using sum_least[of "(a, i)" rest] Cons.prems(1) ws by simp
  have nn: "0 \<le> sum_list ls" using ok(4) by (induction ls) auto
  have "(?n - 1) * l \<le> (?n - 1) * M" using l ws by (intro mult_left_mono) auto
  then have fin: "?n * (a + l) \<le> sum_list (map fst ws) + sum_list (l # ls) + (?n - 1) * M"
    using least nn by (simp add: algebra_simps)
  have hd: "a \<le> fst (hd ?ws)"
  proof -
    have "hd ?ws \<in> set ?ws" using ok(2) by (rule hd_in_set)
    then have "hd ?ws = ?w \<or> hd ?ws \<in> set rest" by (simp add: heappush_facts)
    moreover have "a \<le> fst w" if "w \<in> set rest" for w
    proof -
      have "(a, i) \<le> w" using Cons.prems(1) ws that by simp
      then show ?thesis by (cases w) auto
    qed
    ultimately show ?thesis using l by fastforce
  qed
  have "?n * max mk (a + l) = max (?n * mk) (?n * (a + l))" by (simp add: max_def mult_le_cancel_left)
  then have up: "?n * m \<le> max (?n * mk) (sum_list (map fst ws) + sum_list (l # ls) + (?n - 1) * M)"
    using m(5) fin unfolding len sum by (simp add: algebra_simps) 
  have "a + x \<le> m" if "x \<in> set (l # ls)" for x
  proof (cases "x = l")
    case False
    then have "x \<in> set ls" using that by simp
    then have "fst (hd ?ws) + x \<le> m" using m(3) ok(2) by (metis hd_in_set)
    then show ?thesis using hd by simp
  qed (use m(2) in simp)
  then show ?case
    using m up ws by (simp add: len sum algebra_simps)
qed

text \<open>
  List scheduling succeeds for every positive number of workers and all
  non-negative latencies; its makespan is at least every latency and at least the average load,
  and at most the average load plus the largest latency times (1 - 1/workers): Graham's bound.
\<close>

theorem makespan_bounds:
  assumes "1 \<le> n" and "\<forall>l \<in> set ls. 0 \<le> l \<and> l \<le> M" and "0 \<le> M"
  shows "\<exists>m. makespan_ms ls n = Inr m \<and> (\<forall>l \<in> set ls. l \<le> m) \<and> sum_list ls \<le> n * m \<and>
    n * m \<le> sum_list ls + (n - 1) * M"
proof (cases "ls = []")
  case True
  then show ?thesis using assms by (auto simp: makespan_ms_def)
next
  case False
  let ?ws = "map (\<lambda>i. (0 :: int, int i)) [0..<nat n]"
  have s: "sorted ?ws" by (simp add: sorted_iff_nth_mono less_eq_prod_def)
  have z: "sum_list (map fst ?ws) = 0" by (simp add: comp_def)
  have w: "?ws \<noteq> []" "\<forall>w \<in> set ?ws. fst w \<le> 0" "int (length ?ws) = n" "fst (hd ?ws) = 0"
    using assms(1) by (auto simp: hd_map)
  obtain m where m: "assign_all ?ws 0 ls = Inr m" "0 \<le> m" "\<forall>w \<in> set ?ws. \<forall>l \<in> set ls. fst (hd ?ws) + l \<le> m"
    "sum_list (map fst ?ws) + sum_list ls \<le> int (length ?ws) * m"
    "int (length ?ws) * m \<le> max (int (length ?ws) * 0) (sum_list (map fst ?ws) + sum_list ls + (int (length ?ws) - 1) * M)"
    using assign_all_bounds[OF s w(1,2) assms(2)] by blast
  have "0 \<le> sum_list ls" using assms(2) by (induction ls) auto
  then have b: "0 \<le> sum_list ls + (n - 1) * M" using assms by simp
  have "\<forall>l \<in> set ls. l \<le> m" using m(3) w by (metis add_0 hd_in_set)
  moreover have "checks (map (non_negative f) ls) = Inr ()" for f
    using assms(2) by (auto simp: res_simps non_negative_def)
  ultimately show ?thesis
    using m(1,4,5) False assms(1) b unfolding w(3) z by (auto simp: makespan_ms_def)
qed

section \<open>A scheduler at work\<close>

definition sample_scheduler :: "scheduler res" where
  "sample_scheduler =
     bindE (new_scheduler 0) (\<lambda>s.
     bindE (schedule_delivery s ''t'' ''u1'' 0 500 10 None ''worker_completion'') (\<lambda>(s1, e1).
     bindE (schedule_event s1 ''lease_deadline'' 300 20 ''t'' ''u1'' 0) (\<lambda>(s2, e2). Inr s2)))"

lemma schedule_delivery_reach:
  "sched_reach s \<Longrightarrow> schedule_delivery s t u k l p st kind = Inr (s', e) \<Longrightarrow> sched_reach s'"
  by (auto simp: schedule_delivery_def res_simps Let_def intro: sched_schedule)

lemma schedule_event_reach:
  "sched_reach s \<Longrightarrow> schedule_event s kind t p task u k = Inr (s', e) \<Longrightarrow> sched_reach s'"
  by (auto simp: schedule_event_def intro: sched_schedule)

definition scheduler_times :: "scheduler res \<Rightarrow> int list" where
  "scheduler_times r = (case r of Inl _ \<Rightarrow> [] | Inr s \<Rightarrow> map le_logical_time_ms (sc_queue s))"

lemma scheduled_times: "scheduler_times sample_scheduler = [300, 500]"
  by code_simp

lemma scheduler_times_of: "scheduler_times (Inl x) = []" "scheduler_times (Inr s) = map le_logical_time_ms (sc_queue s)"
  unfolding scheduler_times_def by (simp_all only: sum.case)

lemma sample_scheduler_reach:
  obtains s where "sample_scheduler = Inr s" "sched_reach s" "map le_logical_time_ms (sc_queue s) = [300, 500]"
proof (cases sample_scheduler)
  case (Inl x)
  then show ?thesis using scheduled_times unfolding Inl scheduler_times_of by simp
next
  case (Inr s)
  then have "sched_reach s" unfolding sample_scheduler_def
    by (auto simp: res_simps dest!: sched_new dest: schedule_delivery_reach schedule_event_reach)
  moreover have "map le_logical_time_ms (sc_queue s) = [300, 500]"
    using scheduled_times unfolding Inr scheduler_times_of .
  ultimately show ?thesis using Inr by (intro that)
qed

lemma scheduler_order_witness:
  "\<exists>s s' e. sample_scheduler = Inr s \<and> pop_next s = (s', Inr e) \<and> le_logical_time_ms e = 300 \<and> sc_clock_ms s' = 300"
proof -
  obtain s where s: "sample_scheduler = Inr s" "sched_reach s" "map le_logical_time_ms (sc_queue s) = [300, 500]"
    by (rule sample_scheduler_reach)
  then have "sc_queue s \<noteq> []" by auto
  from scheduler_order[OF s(2) this] obtain s' e where p: "pop_next s = (s', Inr e)" "sc_clock_ms s' = le_logical_time_ms e"
    "mset (sc_queue s) = add_mset e (mset (sc_queue s'))" "\<forall>x \<in> set (sc_queue s). key_of_event e \<le> key_of_event x" by blast
  obtain x y where q: "sc_queue s = [x, y]" "le_logical_time_ms x = 300" "le_logical_time_ms y = 500" using s(3) by auto
  have "e \<in># mset (sc_queue s)" using p(3) by simp
  then have "e = x \<or> e = y" using q by auto
  moreover have "le_logical_time_ms e \<le> 300" using p(4) q key_time[of e x] by auto
  ultimately have "le_logical_time_ms e = 300" using q by auto
  with s p show ?thesis by auto
qed

lemma scheduler_drain_witness:
  "\<exists>s s' es. sample_scheduler = Inr s \<and> drain s = (s', Inr es) \<and> length es = 2 \<and> sc_queue s' = []"
proof -
  obtain s where s: "sample_scheduler = Inr s" "sched_reach s" "map le_logical_time_ms (sc_queue s) = [300, 500]"
    by (rule sample_scheduler_reach)
  from scheduler_drain[OF s(2)] obtain s' es where d: "drain s = (s', Inr es)" "sc_queue s' = []" "mset es = mset (sc_queue s)"
    by blast
  have "length (sc_queue s) = 2" using arg_cong[OF s(3), of length] by simp
  then have "length es = 2" using d(3) by (metis size_mset)
  with s d show ?thesis by blast
qed

lemma checkpoint_restores_witness:
  "\<exists>s c s'. sample_scheduler = Inr s \<and> take_checkpoint s = Inr c \<and> checkpoint_from_dict (cp_to_dict c) = Inr c \<and>
     from_checkpoint c = Inr s' \<and> sc_queue s' = sc_queue s"
proof -
  obtain s where s: "sample_scheduler = Inr s" "sched_reach s" "map le_logical_time_ms (sc_queue s) = [300, 500]"
    by (rule sample_scheduler_reach)
  from checkpoint_restores[OF s(2)] s(1) show ?thesis by blast
qed

lemma makespan_bounds_witness: "\<exists>m. makespan_ms [3, 3, 2] 2 = Inr m \<and> 8 \<le> 2 * m \<and> 2 * m \<le> 11"
  using makespan_bounds[of 2 "[3, 3, 2]" 3] by auto

end
