(* ===== verification/Py_Decimal.thy ===== *)
theory Py_Decimal
  imports Py_Prelude
begin

text \<open>
  Decimal texts: Python's \<open>str.isdecimal\<close> and \<open>int(text)\<close> on such a text, \<open>math.isqrt\<close>, and the
  arithmetic the factorization plugin rests on. \<open>isdecimal\<close> accepts every Unicode digit of category
  \<open>Nd\<close>, not only ASCII, so the text is decoded to code points first. The lemmas show that reading a
  printed number gives it back, what the integer square root is, and that a number with no divisor
  up to its square root is prime.
\<close>

section \<open>Code points and decimal digits\<close>

text \<open>The code points of a well formed UTF-8 text.\<close>

definition continuation :: "string \<Rightarrow> nat \<Rightarrow> nat" where
  "continuation s n = foldl (\<lambda>acc c. 64 * acc + (of_char c - 128)) 0 (take n s)"

function code_points :: "string \<Rightarrow> nat list" where
  "code_points [] = []"
| "code_points (c # s) =
     (let b = of_char c :: nat in
      if b < 0x80 then b # code_points s
      else if b < 0xE0 then ((b - 0xC0) * 64 + continuation s 1) # code_points (drop 1 s)
      else if b < 0xF0 then ((b - 0xE0) * 4096 + continuation s 2) # code_points (drop 2 s)
      else ((b - 0xF0) * 262144 + continuation s 3) # code_points (drop 3 s))"
  by pat_completeness auto
termination
  by (relation "measure length") auto

text \<open>The zeros of the runs of ten decimal digits of Unicode 14, the database of Python 3.11.\<close>

definition decimal_zeros :: "nat list" where
  "decimal_zeros =
    [48, 1632, 1776, 1984, 2406, 2534, 2662, 2790, 2918, 3046, 3174, 3302, 3430, 3558, 3664, 3792, 3872,
     4160, 4240, 6112, 6160, 6470, 6608, 6784, 6800, 6992, 7088, 7232, 7248, 42528, 43216, 43264, 43472,
     43504, 43600, 44016, 65296, 66720, 68912, 69734, 69872, 69942, 70096, 70384, 70736, 70864, 71248,
     71360, 71472, 71904, 72016, 72784, 73040, 73120, 92768, 92864, 93008, 120782, 120792, 120802, 120812,
     120822, 123200, 123632, 125264, 130032]"

definition decimal_value :: "nat \<Rightarrow> nat option" where
  "decimal_value c = map_option (\<lambda>z. c - z) (find (\<lambda>z. z \<le> c \<and> c < z + 10) decimal_zeros)"

definition isdecimal :: "string \<Rightarrow> bool" where
  "isdecimal s \<longleftrightarrow> s \<noteq> [] \<and> (\<forall>c \<in> set (code_points s). decimal_value c \<noteq> None)"

text \<open>\<open>int(text)\<close> for a decimal text; CPython refuses more than 4300 digits.\<close>

definition max_str_digits :: nat where
  "max_str_digits = 4300"

definition int_of_decimal :: "string \<Rightarrow> int res" where
  "int_of_decimal s =
     (if length (code_points s) > max_str_digits
      then Inl (ValueError ''Exceeds the limit (4300 digits) for integer string conversion'')
      else Inr (int (foldl (\<lambda>acc c. 10 * acc + the (decimal_value c)) 0 (code_points s))))"

text \<open>The test for a leading zero looks for the ASCII one.\<close>

definition leading_zero :: "string \<Rightarrow> bool" where
  "leading_zero s \<longleftrightarrow> length (code_points s) > 1 \<and> hd s = CHR ''0''"

section \<open>Printed numbers\<close>

lemma decimal_value_ascii: "n < 10 \<Longrightarrow> decimal_value (48 + n) = Some n"
  unfolding decimal_value_def decimal_zeros_def by (subst find.simps) simp

lemma code_points_ascii: "\<forall>c \<in> set s. is_digit c \<Longrightarrow> code_points s = map of_char s"
  by (induction s) (auto simp: is_digit_def)

lemma decimal_value_digit: "is_digit c \<Longrightarrow> decimal_value (of_char c) = Some (digit_val c)"
  using decimal_value_ascii[of "of_char c - 48"] by (auto simp: is_digit_def digit_val_def)

lemma isdecimal_ascii: "s \<noteq> [] \<Longrightarrow> \<forall>c \<in> set s. is_digit c \<Longrightarrow> isdecimal s"
  by (auto simp: isdecimal_def code_points_ascii decimal_value_digit)

lemma foldl_digits:
  "\<forall>c \<in> set s. is_digit c \<Longrightarrow>
    foldl (\<lambda>acc c. 10 * acc + the (decimal_value c)) a (map of_char s) = foldl (\<lambda>acc c. 10 * acc + digit_val c) a s"
  by (induction s arbitrary: a) (auto simp: decimal_value_digit)

lemma int_of_decimal_ascii:
  "\<forall>c \<in> set s. is_digit c \<Longrightarrow> length s \<le> max_str_digits \<Longrightarrow> int_of_decimal s = Inr (int (read_nat s))"
  by (simp add: int_of_decimal_def code_points_ascii foldl_digits read_nat_def)

lemma show_nat_isdecimal [simp]: "isdecimal (show_nat n)"
  by (rule isdecimal_ascii) (auto dest: show_nat_digits)

lemma show_nat_int_of [simp]: "length (show_nat n) \<le> max_str_digits \<Longrightarrow> int_of_decimal (show_nat n) = Inr (int n)"
  by (subst int_of_decimal_ascii) (auto dest: show_nat_digits)

lemma show_nat_hd: "n > 0 \<Longrightarrow> hd (show_nat n) \<noteq> CHR ''0''"
proof (induction n rule: show_nat.induct)
  case (1 n)
  then show ?case
    by (cases "n < 10") (auto simp: show_nat.simps[of n] digit_char_def dest: arg_cong[of _ _ "of_char :: char \<Rightarrow> nat"])
qed

lemma show_nat_small: "n < 10 \<Longrightarrow> length (show_nat n) = 1"
  by (simp add: show_nat.simps[of n])

lemma show_nat_leading [simp]: "\<not> leading_zero (show_nat n)"
proof (cases "n = 0")
  case True
  have "code_points (show_nat n) = map of_char (show_nat n)"
    by (rule code_points_ascii) (auto dest: show_nat_digits)
  then show ?thesis using show_nat_small[of n] True by (simp only: leading_zero_def length_map) simp
next
  case False
  then show ?thesis using show_nat_hd[of n] by (simp add: leading_zero_def)
qed

lemma show_nat_mono: "m \<le> n \<Longrightarrow> length (show_nat m) \<le> length (show_nat n)"
proof (induction n arbitrary: m rule: show_nat.induct)
  case (1 n)
  show ?case
  proof (cases "n < 10")
    case True
    then show ?thesis using 1(2) by (simp add: show_nat.simps[of m] show_nat.simps[of n])
  next
    case False
    have "m div 10 \<le> n div 10" using 1(2) by (rule div_le_mono)
    from 1(1)[OF False this] show ?thesis
      using False by (cases "m < 10") (simp_all add: show_nat.simps[of m] show_nat.simps[of n])
  qed
qed

section \<open>The length of a number\<close>

lemma decimal_value_less: "decimal_value c = Some v \<Longrightarrow> v < 10"
  by (auto simp: decimal_value_def find_Some_iff)

lemma foldl_decimal_less:
  "\<forall>c \<in> set cs. decimal_value c \<noteq> None \<Longrightarrow>
    foldl (\<lambda>acc c. 10 * acc + the (decimal_value c)) a cs < (a + 1) * 10 ^ length cs"
proof (induction cs arbitrary: a)
  case (Cons c cs)
  then obtain v where v: "decimal_value c = Some v" by auto
  have "foldl (\<lambda>acc c. 10 * acc + the (decimal_value c)) (10 * a + v) cs < (10 * a + v + 1) * 10 ^ length cs"
    using Cons by simp
  also have "\<dots> \<le> (10 * (a + 1)) * 10 ^ length cs"
    using decimal_value_less[OF v] by (intro mult_right_mono) auto
  finally show ?case by (simp add: v algebra_simps)
qed simp

lemma show_nat_length: "n < 10 ^ k \<Longrightarrow> 1 \<le> k \<Longrightarrow> length (show_nat n) \<le> k"
proof (induction n arbitrary: k rule: show_nat.induct)
  case (1 n)
  show ?case
  proof (cases "n < 10")
    case True
    then show ?thesis using 1(3) by (simp add: show_nat_small)
  next
    case False
    then obtain j where j: "k = Suc j" "1 \<le> j" using 1(2,3) by (cases k; cases "k - 1") auto
    have "n div 10 < 10 ^ j" using 1(2) by (simp add: j(1) less_mult_imp_div_less mult.commute)
    from 1(1)[OF False this j(2)] show ?thesis using False by (simp add: show_nat.simps[of n] j(1))
  qed
qed

lemma decimal_digits:
  assumes "isdecimal t" and "int_of_decimal t = Inr n"
  shows "0 \<le> n \<and> length (show_nat (nat n)) \<le> max_str_digits"
proof -
  let ?cs = "code_points t"
  have cs: "length ?cs \<le> max_str_digits" "1 \<le> length ?cs"
    using assms(2) apply (simp add: int_of_decimal_def split: if_split_asm)
    using assms(1) by (cases t) (simp_all add: isdecimal_def Let_def)
  have "nat n < 10 ^ length ?cs"
    using foldl_decimal_less[of ?cs 0] assms by (auto simp: isdecimal_def int_of_decimal_def split: if_splits)
  from show_nat_length[OF this cs(2)] show ?thesis
    using cs assms by (auto simp: int_of_decimal_def split: if_splits)
qed

section \<open>The integer square root\<close>

function isqrt :: "int \<Rightarrow> int" where
  "isqrt n =
     (if n < 1 then 0
      else let r = 2 * isqrt (n div 4) in if (r + 1) * (r + 1) \<le> n then r + 1 else r)"
  by pat_completeness auto
termination
  by (relation "measure nat") auto

declare isqrt.simps [simp del]

lemma isqrt_spec: "0 \<le> n \<Longrightarrow> 0 \<le> isqrt n \<and> isqrt n * isqrt n \<le> n \<and> n < (isqrt n + 1) * (isqrt n + 1)"
proof (induction n rule: isqrt.induct)
  case (1 n)
  show ?case
  proof (cases "n < 1")
    case True
    then show ?thesis using 1(2) by (simp add: isqrt.simps)
  next
    case False
    define q where "q = isqrt (n div 4)"
    have q: "0 \<le> q" "q * q \<le> n div 4" "n div 4 < (q + 1) * (q + 1)"
      using 1(1)[OF False] False by (auto simp: q_def)
    then have lo: "4 * (q * q) \<le> n" by linarith
    have "n < 4 * (n div 4) + 4" by linarith
    then have hi: "n < 4 * ((q + 1) * (q + 1))" using q(3) by linarith
    have e: "isqrt n = (if (2 * q + 1) * (2 * q + 1) \<le> n then 2 * q + 1 else 2 * q)"
      using False by (simp add: isqrt.simps[of n] q_def Let_def)
    show ?thesis using q(1) lo hi by (auto simp: e algebra_simps)
  qed
qed

lemma isqrt_nonneg [simp]: "0 \<le> isqrt n"
  using isqrt_spec[of n] by (cases "0 \<le> n") (auto simp: isqrt.simps)

lemma isqrt_le: "0 \<le> n \<Longrightarrow> isqrt n \<le> n"
proof (cases "isqrt n = 0")
  case False
  assume n: "0 \<le> n"
  have "isqrt n * 1 \<le> isqrt n * isqrt n" using False isqrt_nonneg[of n] by (intro mult_left_mono) linarith+
  then show ?thesis using isqrt_spec[OF n] by linarith
qed simp

lemma le_isqrt: "0 \<le> n \<Longrightarrow> 0 \<le> d \<Longrightarrow> d \<le> isqrt n \<longleftrightarrow> d * d \<le> n"
proof
  assume n: "0 \<le> n" and d: "0 \<le> d" "d \<le> isqrt n"
  then have "d * d \<le> isqrt n * isqrt n" by (simp add: mult_mono)
  then show "d * d \<le> n" using isqrt_spec[OF n] by linarith
next
  assume n: "0 \<le> n" and d: "0 \<le> d" "d * d \<le> n"
  show "d \<le> isqrt n"
  proof (rule ccontr)
    assume "\<not> d \<le> isqrt n"
    then have "(isqrt n + 1) * (isqrt n + 1) \<le> d * d" using isqrt_nonneg[of n] by (intro mult_mono) linarith+
    then show False using isqrt_spec[OF n] d by linarith
  qed
qed

section \<open>Primes\<close>

definition prime_number :: "int \<Rightarrow> bool" where
  "prime_number p \<longleftrightarrow> 2 \<le> p \<and> (\<forall>d. 2 \<le> d \<and> d < p \<longrightarrow> \<not> d dvd p)"

text \<open>A composite number has a divisor up to its square root.\<close>

lemma small_divisor:
  fixes n d :: int
  assumes "2 \<le> d" and "d < n" and "d dvd n"
  shows "\<exists>e. 2 \<le> e \<and> e \<le> isqrt n \<and> e dvd n"
proof -
  obtain k where k: "n = d * k" using assms(3) by (rule dvdE)
  have "k > 1" using assms by (auto simp: k zero_less_mult_iff intro: ccontr)
  show ?thesis
  proof (cases "d \<le> k")
    case True
    then have "d * d \<le> n" using assms(1) by (simp add: k mult_left_mono)
    then show ?thesis using le_isqrt[of n d] assms by auto
  next
    case False
    then have "k * k \<le> n" using \<open>k > 1\<close> by (simp add: k mult_right_mono)
    moreover have "k dvd n" by (simp add: k)
    ultimately show ?thesis using le_isqrt[of n k] assms \<open>k > 1\<close> by (intro exI[of _ k]) auto
  qed
qed

lemma prime_by_trial:
  "2 \<le> n \<Longrightarrow> prime_number n \<longleftrightarrow> (\<forall>d. 2 \<le> d \<and> d \<le> isqrt n \<longrightarrow> \<not> d dvd n)"
proof
  assume n: "2 \<le> n" and p: "prime_number n"
  have "d < n" if "2 \<le> d" "d \<le> isqrt n" for d
  proof -
    have "d * d \<le> n" using le_isqrt[of n d] that n by simp
    moreover have "2 * d \<le> d * d" using that by (intro mult_right_mono) auto
    ultimately show ?thesis using that by linarith
  qed
  then show "\<forall>d. 2 \<le> d \<and> d \<le> isqrt n \<longrightarrow> \<not> d dvd n" using p by (auto simp: prime_number_def)
next
  assume "2 \<le> n" and "\<forall>d. 2 \<le> d \<and> d \<le> isqrt n \<longrightarrow> \<not> d dvd n"
  then show "prime_number n" using small_divisor by (auto simp: prime_number_def)
qed

end
