(* ===== verification/Fact_Models.thy ===== *)
theory Fact_Models
  imports Core_Expansion Py_Decimal
begin

text \<open>
  \<open>plugins/factorization/models.py\<close> and \<open>schemas.py\<close>: the records of the factorization plugin with the
  validation of their constructors. Field prefixes: \<open>ri_\<close> RootInput, \<open>fs_\<close> FactorIntegerSubject, \<open>pp_\<close>
  CandidateRangePartitionParams, \<open>cv_\<close> CandidateRangeCoverageProof, \<open>sr_\<close> FactorSearchRangeInput, \<open>fi_\<close>
  FactorSearchInstruction, \<open>rr_\<close> RangeResult, \<open>fm_\<close> FactorizationMergeResult, \<open>pf_\<close> PrimeFactor, \<open>fr_\<close>
  PrimeFactorizationResult. A record that the code builds from a parsed document
  (\<open>RangeResult(**body)\<close>) is built here from the same keyword arguments with any JSON value in them;
  the others take typed fields. Numbers travel as decimal texts.
\<close>

section \<open>Schemas\<close>

text \<open>\<open>schema_version.rsplit(".", 1)\<close>; every caller passes a version with a dot in it.\<close>

definition schema_ref :: "string \<Rightarrow> jobj" where
  "schema_ref v =
     (let version = rev (takeWhile (\<lambda>c. c \<noteq> CHR ''.'') (rev v))
      in [(''schema_version'', JStr v),
          (''artifact_schema_id'', JStr (take (length v - length version - 1) v)),
          (''artifact_schema_version'', JStr version)])"

definition partition_strategy_id :: string where
  "partition_strategy_id = ''factorization.candidate_range_partition.v1''"

definition witness_or_all_policy_id :: string where
  "witness_or_all_policy_id = ''factorization.factor_witness_or_all_ranges.v2''"

definition trial_division_policy_id :: string where
  "trial_division_policy_id = ''factorization.trial_division_primality.v1''"

definition range_result_schema :: string where
  "range_result_schema = ''factorization.range_result.v1''"

definition prime_factorization_schema :: string where
  "prime_factorization_schema = ''factorization.prime_factorization_result.v1''"

definition range_result_kinds :: "string list" where
  "range_result_kinds = [''found_factor'', ''no_factor_in_range'']"

definition merge_result_kinds :: "string list" where
  "merge_result_kinds = [''prime_certificate'', ''prime_factorization_result'', ''nontrivial_factor_found'']"

section \<open>Field checks\<close>

definition parse_decimal_integer :: "string \<Rightarrow> string \<Rightarrow> int \<Rightarrow> int res" where
  "parse_decimal_integer field v min_value =
     (if \<not> isdecimal v then Inl (ValueError (field @ '' must be a decimal string''))
      else if leading_zero v then Inl (ValueError (field @ '' must be a decimal string without leading zeros''))
      else bindE (int_of_decimal v) (\<lambda>parsed.
        if parsed < min_value then Inl (ValueError (field @ '' must be >= '' @ show_int min_value)) else Inr parsed))"

text \<open>The same check on a document value.\<close>

definition parse_decimal_field :: "string \<Rightarrow> json \<Rightarrow> int \<Rightarrow> int res" where
  "parse_decimal_field field j min_value =
     (case j of JStr v \<Rightarrow> parse_decimal_integer field v min_value
      | _ \<Rightarrow> Inl (TypeError (field @ '' must be a decimal string'')))"

definition require_int :: "string \<Rightarrow> json \<Rightarrow> int res" where
  "require_int field j = (case j of JInt i \<Rightarrow> Inr i | _ \<Rightarrow> Inl (TypeError (field @ '' must be an integer'')))"

definition require_schema :: "json \<Rightarrow> string \<Rightarrow> unit res" where
  "require_schema actual expected = require (actual = JStr expected) (ValueError (''schema_version must be '' @ expected))"

definition require_text :: "string \<Rightarrow> json \<Rightarrow> unit res" where
  "require_text field j = require (is_nonempty_str j) (ValueError (field @ '' must be a non-empty string''))"

definition is_sha256 :: "string \<Rightarrow> bool" where
  "is_sha256 s \<longleftrightarrow> take 7 s = ''sha256:''"

definition require_digest :: "string \<Rightarrow> json \<Rightarrow> unit res" where
  "require_digest field j =
     require (case j of JStr s \<Rightarrow> is_sha256 s | _ \<Rightarrow> False) (ValueError (field @ '' must be a sha256 digest''))"

definition set_or_check_digest :: "string \<Rightarrow> string option \<Rightarrow> string \<Rightarrow> string res" where
  "set_or_check_digest field current expected =
     (case current of
        None \<Rightarrow> Inr expected
      | Some d \<Rightarrow> if d \<noteq> expected then Inl (ValueError (field @ '' must match canonical JSON digest'')) else Inr d)"

text \<open>The bounds of a range: \<open>2 \<le> start \<le> end \<le> isqrt(target_n)\<close>.\<close>

definition check_range :: "json \<Rightarrow> json \<Rightarrow> json \<Rightarrow> (int \<times> int \<times> int) res" where
  "check_range target_n range_start range_end =
     bindE (parse_decimal_field ''target_n'' target_n 2) (\<lambda>t.
     bindE (parse_decimal_field ''range_start'' range_start 2) (\<lambda>s.
     bindE (parse_decimal_field ''range_end'' range_end 2) (\<lambda>e.
     if s > e then Inl (ValueError ''range_start must be <= range_end'')
     else if e > isqrt t then Inl (ValueError ''range_end must be <= floor_sqrt(target_n)'')
     else Inr (t, s, e))))"

section \<open>Keyword arguments\<close>

text \<open>
  \<open>Class(**args)\<close> of a keyword-only dataclass: an unexpected name is reported first, then the
  required ones that are missing.
\<close>

definition quoted :: "string \<Rightarrow> string" where
  "quoted n = CHR 0x27 # n @ [CHR 0x27]"

definition names_text :: "string list \<Rightarrow> string" where
  "names_text ns =
     (let q = map quoted ns
      in case q of [a] \<Rightarrow> a | [a, b] \<Rightarrow> a @ '' and '' @ b | _ \<Rightarrow> join '', '' (butlast q) @ '', and '' @ last q)"

definition bind_kwargs :: "string \<Rightarrow> string list \<Rightarrow> string list \<Rightarrow> jobj \<Rightarrow> unit res" where
  "bind_kwargs cls params required args =
     (case find (\<lambda>k. k \<notin> set params) (dict_keys args) of
        Some k \<Rightarrow> Inl (TypeError (cls @ ''.__init__() got '' @
                   (if k = ''self'' then ''multiple values for argument '' else ''an unexpected keyword argument '') @ quoted k))
      | None \<Rightarrow>
          (let missing = filter (\<lambda>k. \<not> dict_has args k) required
           in raise_if (missing \<noteq> [])
                (TypeError (cls @ ''.__init__() missing '' @ show_nat (length missing) @ '' required keyword-only argument'' @
                   (if length missing = 1 then '': '' else ''s: '') @ names_text missing))))"

definition arg_default :: "jobj \<Rightarrow> string \<Rightarrow> json \<Rightarrow> json" where
  "arg_default args k dflt = (case dict_get args k of None \<Rightarrow> dflt | Some v \<Rightarrow> v)"

text \<open>The text, number or object in a value that has passed its check.\<close>

fun text_of :: "json \<Rightarrow> string" where
  "text_of (JStr s) = s"
| "text_of _ = []"

fun object_of :: "json \<Rightarrow> jobj" where
  "object_of (JObj d) = d"
| "object_of _ = []"

fun text_option :: "json \<Rightarrow> string option" where
  "text_option (JStr s) = Some s"
| "text_option _ = None"

section \<open>Range results\<close>

record range_result =
  rr_range_result_id :: string
  rr_result_kind :: string
  rr_target_n :: string
  rr_range_start :: string
  rr_range_end :: string
  rr_coverage_id :: string
  rr_child_index :: int
  rr_partition_params_digest :: string
  rr_found_factor :: "string option"
  rr_cofactor :: "string option"
  rr_checked_divisor_count :: int
  rr_executor_summary :: jobj
  rr_created_at :: string

definition range_result_params :: "string list" where
  "range_result_params =
    [''range_result_id'', ''result_kind'', ''target_n'', ''range_start'', ''range_end'', ''coverage_id'',
     ''child_index'', ''partition_params_digest'', ''found_factor'', ''cofactor'', ''checked_divisor_count'',
     ''executor_summary'', ''created_at'']"

definition check_found_factor :: "json \<Rightarrow> json \<Rightarrow> int \<Rightarrow> int \<Rightarrow> int \<Rightarrow> unit res" where
  "check_found_factor factor_field cofactor_field t s e =
     seqE (checks
       [raise_if (factor_field = JNull) (ValueError ''found_factor result requires found_factor''),
        raise_if (cofactor_field = JNull) (ValueError ''found_factor result requires cofactor'')])
     (bindE (parse_decimal_field ''found_factor'' factor_field 2) (\<lambda>f.
      bindE (parse_decimal_field ''cofactor'' cofactor_field 2) (\<lambda>c.
      checks
        [require (s \<le> f \<and> f \<le> e) (ValueError ''found_factor must be inside range''),
         raise_if (f \<ge> t) (ValueError ''found_factor must be smaller than target_n''),
         raise_if (t mod f \<noteq> 0) (ValueError ''found_factor must divide target_n''),
         raise_if (t div f \<noteq> c) (ValueError ''cofactor must equal target_n / found_factor'')])))"

definition check_no_factor :: "json \<Rightarrow> json \<Rightarrow> unit res" where
  "check_no_factor factor_field cofactor_field =
     require (factor_field = JNull \<and> cofactor_field = JNull)
       (ValueError ''no_factor_in_range requires found_factor and cofactor to be null'')"

text \<open>The checks of \<open>__post_init__\<close> up to the bounds, and those after them.\<close>

definition check_result_head :: "jobj \<Rightarrow> unit res" where
  "check_result_head args =
     checks
       [require_schema (arg_default args ''schema_version'' (JStr range_result_schema)) range_result_schema,
        require_text ''range_result_id'' (jget args ''range_result_id''),
        require (jget args ''result_kind'' \<in> JStr ` set range_result_kinds)
          (ValueError ''result_kind must be found_factor or no_factor_in_range'')]"

definition check_result_body :: "jobj \<Rightarrow> int \<Rightarrow> int \<Rightarrow> int \<Rightarrow> (int \<times> int) res" where
  "check_result_body args t s e =
     seqE (require_text ''coverage_id'' (jget args ''coverage_id''))
     (bindE (require_int ''child_index'' (jget args ''child_index'')) (\<lambda>index.
      seqE (raise_if (index < 0) (ValueError ''child_index must be >= 0''))
      (seqE (require_digest ''partition_params_digest'' (jget args ''partition_params_digest''))
      (bindE (require_int ''checked_divisor_count'' (jget args ''checked_divisor_count'')) (\<lambda>count.
      seqE (checks
        [raise_if (count < 0) (ValueError ''checked_divisor_count must be >= 0''),
         require (is_jobj (jget args ''executor_summary'')) (ValueError ''executor_summary must be an object''),
         require_text ''created_at'' (jget args ''created_at''),
         if jget args ''result_kind'' = JStr ''found_factor''
         then check_found_factor (jget args ''found_factor'') (jget args ''cofactor'') t s e
         else check_no_factor (jget args ''found_factor'') (jget args ''cofactor'')])
      (Inr (index, count)))))))"

definition mk_range_result :: "jobj \<Rightarrow> range_result res" where
  "mk_range_result args =
     seqE (bind_kwargs ''RangeResult'' (''schema_version'' # range_result_params) range_result_params args)
     (seqE (check_result_head args)
     (bindE (check_range (jget args ''target_n'') (jget args ''range_start'') (jget args ''range_end'')) (\<lambda>(t, s, e).
      bindE (check_result_body args t s e) (\<lambda>(index, count). Inr
        \<lparr>rr_range_result_id = text_of (jget args ''range_result_id''),
         rr_result_kind = text_of (jget args ''result_kind''),
         rr_target_n = text_of (jget args ''target_n''),
         rr_range_start = text_of (jget args ''range_start''),
         rr_range_end = text_of (jget args ''range_end''),
         rr_coverage_id = text_of (jget args ''coverage_id''),
         rr_child_index = index,
         rr_partition_params_digest = text_of (jget args ''partition_params_digest''),
         rr_found_factor = text_option (jget args ''found_factor''),
         rr_cofactor = text_option (jget args ''cofactor''),
         rr_checked_divisor_count = count,
         rr_executor_summary = object_of (jget args ''executor_summary''),
         rr_created_at = text_of (jget args ''created_at'')\<rparr>))))"

definition rr_to_dict :: "range_result \<Rightarrow> jobj" where
  "rr_to_dict x =
     [(''schema_version'', JStr range_result_schema),
      (''range_result_id'', JStr (rr_range_result_id x)),
      (''result_kind'', JStr (rr_result_kind x)),
      (''target_n'', JStr (rr_target_n x)),
      (''range_start'', JStr (rr_range_start x)),
      (''range_end'', JStr (rr_range_end x)),
      (''coverage_id'', JStr (rr_coverage_id x)),
      (''child_index'', JInt (rr_child_index x)),
      (''partition_params_digest'', JStr (rr_partition_params_digest x)),
      (''found_factor'', opt_str (rr_found_factor x)),
      (''cofactor'', opt_str (rr_cofactor x)),
      (''checked_divisor_count'', JInt (rr_checked_divisor_count x)),
      (''executor_summary'', JObj (rr_executor_summary x)),
      (''created_at'', JStr (rr_created_at x))]"

section \<open>Range inputs and search instructions\<close>

record range_input =
  sr_target_n :: string
  sr_range_start :: string
  sr_range_end :: string
  sr_coverage_id :: string
  sr_child_index :: int
  sr_child_count :: int
  sr_partition_params_digest :: string
  sr_range_digest :: "string option"
  sr_schema_version :: string

definition sr_digest_body :: "range_input \<Rightarrow> jobj" where
  "sr_digest_body x =
     [(''schema_version'', JStr (sr_schema_version x)),
      (''target_n'', JStr (sr_target_n x)),
      (''range_start'', JStr (sr_range_start x)),
      (''range_end'', JStr (sr_range_end x)),
      (''coverage_id'', JStr (sr_coverage_id x)),
      (''child_index'', JInt (sr_child_index x)),
      (''child_count'', JInt (sr_child_count x)),
      (''partition_params_digest'', JStr (sr_partition_params_digest x))]"

definition sr_to_dict :: "range_input \<Rightarrow> jobj" where
  "sr_to_dict x = sr_digest_body x @ [(''range_digest'', opt_str (sr_range_digest x))]"

definition mk_range_input :: "hash \<Rightarrow> range_input \<Rightarrow> range_input res" where
  "mk_range_input h x =
     seqE (require_schema (JStr (sr_schema_version x)) ''factorization.factor_search_range_input.v1'')
     (bindE (check_range (JStr (sr_target_n x)) (JStr (sr_range_start x)) (JStr (sr_range_end x))) (\<lambda>_.
      seqE (checks
        [require_text ''coverage_id'' (JStr (sr_coverage_id x)),
         raise_if (sr_child_index x < 0) (ValueError ''child_index must be >= 0''),
         raise_if (sr_child_count x < 1) (ValueError ''child_count must be >= 1''),
         raise_if (sr_child_index x \<ge> sr_child_count x) (ValueError ''child_index must be < child_count''),
         require_digest ''partition_params_digest'' (JStr (sr_partition_params_digest x))])
      (bindE (set_or_check_digest ''range_digest'' (sr_range_digest x) (digest_json h (JObj (sr_digest_body x)))) (\<lambda>d.
       Inr (x\<lparr>sr_range_digest := Some d\<rparr>)))))"

record search_instruction =
  fi_instruction_id :: string
  fi_request_id :: string
  fi_unit_id :: string
  fi_target_n :: string
  fi_range_start :: string
  fi_range_end :: string
  fi_output_schema_version :: string
  fi_allowed_result_kinds :: "string list"
  fi_determinism_requirement :: string
  fi_schema_version :: string

definition mk_search_instruction :: "search_instruction \<Rightarrow> search_instruction res" where
  "mk_search_instruction x =
     seqE (checks
       [require_schema (JStr (fi_schema_version x)) ''factorization.factor_search_instruction.v1'',
        require_text ''instruction_id'' (JStr (fi_instruction_id x)),
        require_text ''request_id'' (JStr (fi_request_id x)),
        require_text ''unit_id'' (JStr (fi_unit_id x))])
     (bindE (check_range (JStr (fi_target_n x)) (JStr (fi_range_start x)) (JStr (fi_range_end x))) (\<lambda>_.
      seqE (checks
        [require (fi_output_schema_version x = range_result_schema)
           (ValueError ''output_schema_version must be factorization.range_result.v1''),
         require (fi_allowed_result_kinds x = range_result_kinds)
           (ValueError ''allowed_result_kinds must be found_factor, no_factor_in_range''),
         require (fi_determinism_requirement x = ''range_recheckable'')
           (ValueError ''determinism_requirement must be range_recheckable'')])
      (Inr x)))"

definition fi_to_dict :: "search_instruction \<Rightarrow> jobj" where
  "fi_to_dict x =
     [(''schema_version'', JStr (fi_schema_version x)),
      (''instruction_id'', JStr (fi_instruction_id x)),
      (''request_id'', JStr (fi_request_id x)),
      (''unit_id'', JStr (fi_unit_id x)),
      (''target_n'', JStr (fi_target_n x)),
      (''range_start'', JStr (fi_range_start x)),
      (''range_end'', JStr (fi_range_end x)),
      (''output_schema_version'', JStr (fi_output_schema_version x)),
      (''allowed_result_kinds'', JArr (map JStr (fi_allowed_result_kinds x))),
      (''determinism_requirement'', JStr (fi_determinism_requirement x))]"

section \<open>Partition parameters and coverage proof\<close>

record partition_params =
  pp_strategy_id :: string
  pp_target_n :: string
  pp_min_divisor :: string
  pp_max_divisor :: string
  pp_requested_child_count :: int
  pp_actual_child_count :: int
  pp_range_policy :: string
  pp_small_prime_precheck :: jobj
  pp_params_digest :: "string option"
  pp_schema_version :: string

definition pp_digest_body :: "partition_params \<Rightarrow> jobj" where
  "pp_digest_body x =
     [(''schema_version'', JStr (pp_schema_version x)),
      (''strategy_id'', JStr (pp_strategy_id x)),
      (''target_n'', JStr (pp_target_n x)),
      (''min_divisor'', JStr (pp_min_divisor x)),
      (''max_divisor'', JStr (pp_max_divisor x)),
      (''requested_child_count'', JInt (pp_requested_child_count x)),
      (''actual_child_count'', JInt (pp_actual_child_count x)),
      (''range_policy'', JStr (pp_range_policy x)),
      (''small_prime_precheck'', JObj (pp_small_prime_precheck x))]"

definition pp_to_dict :: "partition_params \<Rightarrow> jobj" where
  "pp_to_dict x = pp_digest_body x @ [(''params_digest'', opt_str (pp_params_digest x))]"

definition mk_partition_params :: "hash \<Rightarrow> partition_params \<Rightarrow> partition_params res" where
  "mk_partition_params h x =
     seqE (checks
       [require_schema (JStr (pp_schema_version x)) ''factorization.candidate_range_partition_params.v1'',
        require (pp_strategy_id x = partition_strategy_id)
          (ValueError ''strategy_id must be factorization.candidate_range_partition.v1'')])
     (bindE (parse_decimal_integer ''target_n'' (pp_target_n x) 2) (\<lambda>t.
      bindE (parse_decimal_integer ''min_divisor'' (pp_min_divisor x) 2) (\<lambda>lo.
      bindE (parse_decimal_integer ''max_divisor'' (pp_max_divisor x) 0) (\<lambda>hi.
      seqE (checks
        [raise_if (pp_requested_child_count x < 1) (ValueError ''requested_child_count must be >= 1''),
         raise_if (pp_actual_child_count x < 0) (ValueError ''actual_child_count must be >= 0''),
         raise_if (pp_actual_child_count x > pp_requested_child_count x)
           (ValueError ''actual_child_count must be <= requested_child_count''),
         raise_if (hi \<ge> lo \<and> pp_actual_child_count x < 1)
           (ValueError ''actual_child_count must be >= 1 for a non-empty domain''),
         raise_if (hi > isqrt t) (ValueError ''max_divisor must be <= floor_sqrt(target_n)''),
         require (pp_range_policy x = ''contiguous'') (ValueError ''range_policy must be contiguous'')])
      (bindE (set_or_check_digest ''params_digest'' (pp_params_digest x) (digest_json h (JObj (pp_digest_body x)))) (\<lambda>d.
       Inr (x\<lparr>pp_params_digest := Some d\<rparr>)))))))"

record coverage_proof =
  cv_coverage_id :: string
  cv_target_n :: string
  cv_domain_start :: string
  cv_domain_end :: string
  cv_range_count :: int
  cv_ranges_digest :: string
  cv_no_gap :: bool
  cv_no_overlap :: bool
  cv_full_domain_covered :: bool
  cv_sqrt_bound_checked :: bool
  cv_created_by_strategy_id :: string
  cv_schema_version :: string

definition mk_coverage_proof :: "coverage_proof \<Rightarrow> coverage_proof res" where
  "mk_coverage_proof x =
     seqE (checks
       [require_schema (JStr (cv_schema_version x)) ''factorization.candidate_range_coverage_proof.v1'',
        require_text ''coverage_id'' (JStr (cv_coverage_id x))])
     (bindE (parse_decimal_integer ''target_n'' (cv_target_n x) 2) (\<lambda>t.
      bindE (parse_decimal_integer ''domain_start'' (cv_domain_start x) 2) (\<lambda>lo.
      bindE (parse_decimal_integer ''domain_end'' (cv_domain_end x) 0) (\<lambda>hi.
      seqE (checks
        [raise_if (lo \<le> hi \<and> hi > isqrt t) (ValueError ''domain_end must be <= floor_sqrt(target_n)''),
         raise_if (cv_range_count x < 0) (ValueError ''range_count must be >= 0''),
         require_digest ''ranges_digest'' (JStr (cv_ranges_digest x)),
         require (cv_no_gap x \<and> cv_no_overlap x \<and> cv_full_domain_covered x \<and> cv_sqrt_bound_checked x)
           (ValueError ''coverage proof flags must all be true''),
         require (cv_created_by_strategy_id x = partition_strategy_id)
           (ValueError ''created_by_strategy_id must be factorization.candidate_range_partition.v1'')])
      (Inr x)))))"

definition cv_to_dict :: "coverage_proof \<Rightarrow> jobj" where
  "cv_to_dict x =
     [(''schema_version'', JStr (cv_schema_version x)),
      (''coverage_id'', JStr (cv_coverage_id x)),
      (''target_n'', JStr (cv_target_n x)),
      (''domain_start'', JStr (cv_domain_start x)),
      (''domain_end'', JStr (cv_domain_end x)),
      (''range_count'', JInt (cv_range_count x)),
      (''ranges_digest'', JStr (cv_ranges_digest x)),
      (''no_gap'', JBool (cv_no_gap x)),
      (''no_overlap'', JBool (cv_no_overlap x)),
      (''full_domain_covered'', JBool (cv_full_domain_covered x)),
      (''sqrt_bound_checked'', JBool (cv_sqrt_bound_checked x)),
      (''created_by_strategy_id'', JStr (cv_created_by_strategy_id x))]"

section \<open>Prime factorizations\<close>

record prime_factor =
  pf_prime :: string
  pf_exponent :: int

definition mk_prime_factor :: "prime_factor \<Rightarrow> prime_factor res" where
  "mk_prime_factor x =
     bindE (parse_decimal_integer ''prime'' (pf_prime x) 2) (\<lambda>_.
     seqE (raise_if (pf_exponent x < 1) (ValueError ''exponent must be a positive integer'')) (Inr x))"

definition pf_to_dict :: "prime_factor \<Rightarrow> jobj" where
  "pf_to_dict x = [(''prime'', JStr (pf_prime x)), (''exponent'', JInt (pf_exponent x))]"

record prime_factorization =
  fr_result_id :: string
  fr_target_n :: string
  fr_prime_factors :: "prime_factor list"
  fr_source_kind :: string
  fr_created_at :: string
  fr_source_merge_result_id :: "string option"
  fr_factor_multiset_digest :: "string option"
  fr_product_check_passed :: bool
  fr_primality_check_policy_id :: string
  fr_primality_evidence :: "jobj option"
  fr_schema_version :: string

definition fr_to_dict :: "prime_factorization \<Rightarrow> jobj" where
  "fr_to_dict x =
     [(''schema_version'', JStr (fr_schema_version x)),
      (''result_id'', JStr (fr_result_id x)),
      (''target_n'', JStr (fr_target_n x)),
      (''prime_factors'', objects (map pf_to_dict (fr_prime_factors x))),
      (''factor_multiset_digest'', opt_str (fr_factor_multiset_digest x)),
      (''product_check_passed'', JBool (fr_product_check_passed x)),
      (''primality_check_policy_id'', JStr (fr_primality_check_policy_id x)),
      (''primality_evidence'', opt_obj (fr_primality_evidence x)),
      (''source_kind'', JStr (fr_source_kind x)),
      (''source_merge_result_id'', opt_str (fr_source_merge_result_id x)),
      (''created_at'', JStr (fr_created_at x))]"

definition validate_primality_evidence :: "jobj option \<Rightarrow> int list \<Rightarrow> string \<Rightarrow> unit res" where
  "validate_primality_evidence evidence primes policy_id =
     (case evidence of
        None \<Rightarrow> Inl (ValueError ''primality_evidence is required for prime_factors'')
      | Some ev \<Rightarrow>
          seqE (require (jget ev ''policy_id'' = JStr policy_id) (ValueError ''primality_evidence policy_id mismatch''))
          (bindE (in_str_keys (jget ev ''verification_scope'') [''merge_policy_budgeted_check'', ''direct_small_prime_check'']) (\<lambda>scope.
           seqE (require scope (ValueError ''primality_evidence verification_scope mismatch''))
           (case jget ev ''verified_prime_values'' of
              JArr vs \<Rightarrow>
                if \<exists>v \<in> set vs. text_option v = None
                then Inl (ValueError ''primality_evidence verified_prime_values must be decimal strings'')
                else require (vs = map (\<lambda>p. JStr (show_int p)) primes)
                       (ValueError ''primality_evidence verified_prime_values mismatch'')
            | _ \<Rightarrow> Inl (ValueError ''primality_evidence verified_prime_values must be decimal strings'')))))"

definition mk_prime_factorization :: "hash \<Rightarrow> prime_factorization \<Rightarrow> prime_factorization res" where
  "mk_prime_factorization h x =
     seqE (checks
       [require_schema (JStr (fr_schema_version x)) prime_factorization_schema,
        require_text ''result_id'' (JStr (fr_result_id x))])
     (bindE (parse_decimal_integer ''target_n'' (fr_target_n x) 2) (\<lambda>t.
      seqE (checks
        [raise_if (fr_prime_factors x = []) (ValueError ''prime_factors must not be empty''),
         require (fr_source_kind x \<in> {''prime_certificate'', ''semiprime_merge''})
           (ValueError ''source_kind must be prime_certificate or semiprime_merge''),
         require (fr_primality_check_policy_id x = trial_division_policy_id)
           (ValueError ''primality_check_policy_id must be factorization.trial_division_primality.v1''),
         require (fr_product_check_passed x) (ValueError ''product_check_passed must be true'')])
      (bindE (mapE (\<lambda>f. int_of_decimal (pf_prime f)) (fr_prime_factors x)) (\<lambda>primes.
      seqE (checks
        [raise_if (primes \<noteq> sort primes) (ValueError ''prime_factors must be in numeric ascending order''),
         require (distinct primes) (ValueError ''prime_factors must contain unique prime entries''),
         validate_primality_evidence (fr_primality_evidence x) primes (fr_primality_check_policy_id x),
         raise_if (fold (\<lambda>(p, f) acc. acc * p ^ nat (pf_exponent f)) (zip primes (fr_prime_factors x)) 1 \<noteq> t)
           (ValueError ''prime factor product must equal target_n'')])
      (bindE (set_or_check_digest ''factor_multiset_digest'' (fr_factor_multiset_digest x)
               (digest_json h (objects (map pf_to_dict (fr_prime_factors x))))) (\<lambda>d.
       seqE (require_text ''created_at'' (JStr (fr_created_at x)))
       (Inr (x\<lparr>fr_factor_multiset_digest := Some d\<rparr>))))))))"

section \<open>Merge results\<close>

record fact_merge_result =
  fm_merge_result_id :: string
  fm_target_n :: string
  fm_coverage_id :: string
  fm_partition_params_digest :: string
  fm_result_kind :: string
  fm_range_result_count :: int
  fm_required_slot_count :: int
  fm_coverage_digest :: string
  fm_slot_result_digests :: "string list"
  fm_found_factor :: "string option"
  fm_cofactor :: "string option"
  fm_prime_factorization_ref :: "jobj option"
  fm_created_at :: string
  fm_limitation_reason :: "string option"
  fm_schema_version :: string

definition check_merge_factors :: "fact_merge_result \<Rightarrow> int \<Rightarrow> unit res" where
  "check_merge_factors x t =
     (if fm_result_kind x = ''prime_certificate''
      then raise_if (fm_found_factor x \<noteq> None \<or> fm_cofactor x \<noteq> None)
             (ValueError ''prime_certificate must not include found_factor or cofactor'')
      else case (fm_found_factor x, fm_cofactor x) of
        (Some f, Some c) \<Rightarrow>
          bindE (parse_decimal_integer ''found_factor'' f 2) (\<lambda>fv.
          bindE (parse_decimal_integer ''cofactor'' c 2) (\<lambda>cv.
          raise_if (t \<noteq> fv * cv) (ValueError ''found_factor and cofactor product must equal target_n'')))
      | _ \<Rightarrow> Inl (ValueError (fm_result_kind x @ '' requires found_factor and cofactor'')))"

definition mk_fact_merge_result :: "fact_merge_result \<Rightarrow> fact_merge_result res" where
  "mk_fact_merge_result x =
     seqE (checks
       [require_schema (JStr (fm_schema_version x)) ''factorization.merge_result.v2'',
        require_text ''merge_result_id'' (JStr (fm_merge_result_id x))])
     (bindE (parse_decimal_integer ''target_n'' (fm_target_n x) 2) (\<lambda>t.
      seqE (checks
        [require_text ''coverage_id'' (JStr (fm_coverage_id x)),
         require_digest ''partition_params_digest'' (JStr (fm_partition_params_digest x)),
         require (fm_result_kind x \<in> set merge_result_kinds)
           (ValueError ''result_kind must be a supported factorization merge result kind''),
         raise_if (fm_range_result_count x < 1) (ValueError ''range_result_count must be >= 1''),
         raise_if (fm_required_slot_count x < 1) (ValueError ''required_slot_count must be >= 1''),
         raise_if (fm_range_result_count x > fm_required_slot_count x)
           (ValueError ''range_result_count must not exceed required_slot_count''),
         raise_if (fm_result_kind x = ''prime_certificate'' \<and> fm_range_result_count x \<noteq> fm_required_slot_count x)
           (ValueError ''prime certificate range_result_count must equal required_slot_count''),
         require_digest ''coverage_digest'' (JStr (fm_coverage_digest x)),
         require (list_all is_sha256 (fm_slot_result_digests x))
           (ValueError ''slot_result_digests must contain sha256 digests''),
         raise_if (int (length (fm_slot_result_digests x)) \<noteq> fm_range_result_count x)
           (ValueError ''slot_result_digests must match range_result_count''),
         check_merge_factors x t,
         raise_if (fm_result_kind x = ''prime_factorization_result'' \<and> fm_prime_factorization_ref x = None)
           (ValueError ''prime_factorization_result requires prime_factorization_ref''),
         raise_if (fm_result_kind x = ''nontrivial_factor_found'' \<and> fm_prime_factorization_ref x \<noteq> None)
           (ValueError ''nontrivial_factor_found must not include prime_factorization_ref''),
         require_text ''created_at'' (JStr (fm_created_at x))])
      (Inr x)))"

definition fm_to_dict :: "fact_merge_result \<Rightarrow> jobj" where
  "fm_to_dict x =
     [(''schema_version'', JStr (fm_schema_version x)),
      (''merge_result_id'', JStr (fm_merge_result_id x)),
      (''target_n'', JStr (fm_target_n x)),
      (''coverage_id'', JStr (fm_coverage_id x)),
      (''partition_params_digest'', JStr (fm_partition_params_digest x)),
      (''result_kind'', JStr (fm_result_kind x)),
      (''range_result_count'', JInt (fm_range_result_count x)),
      (''required_slot_count'', JInt (fm_required_slot_count x)),
      (''coverage_digest'', JStr (fm_coverage_digest x)),
      (''slot_result_digests'', JArr (map JStr (fm_slot_result_digests x))),
      (''found_factor'', opt_str (fm_found_factor x)),
      (''cofactor'', opt_str (fm_cofactor x)),
      (''prime_factorization_ref'', opt_obj (fm_prime_factorization_ref x)),
      (''limitation_reason'', opt_str (fm_limitation_reason x)),
      (''created_at'', JStr (fm_created_at x))]"

end
