(* ===== verification/Fact_Partition.thy ===== *)
theory Fact_Partition
  imports Fact_Models
begin

text \<open>
  \<open>plugins/factorization/split_strategy.py\<close>, the partition of the candidate divisors of a number into
  contiguous ranges (\<open>pr_\<close> CandidateRangePartitionResult). The lemmas show that the ranges tile the
  domain, that their sizes differ by at most one, that the partition exists for every number above
  three, and what an accepted partition contains.
\<close>

section \<open>Arguments\<close>

text \<open>\<open>str(value)\<close> of an integer, which CPython limits like \<open>int(text)\<close>.\<close>

definition str_of_int :: "int \<Rightarrow> string res" where
  "str_of_int i =
     (if length (show_nat (nat \<bar>i\<bar>)) > max_str_digits
      then Inl (ValueError ''Exceeds the limit (4300 digits) for integer string conversion'') else Inr (show_int i))"

text \<open>A decimal argument is an integer or a text.\<close>

definition normalize_decimal_integer :: "string \<Rightarrow> json \<Rightarrow> int \<Rightarrow> (int \<times> string) res" where
  "normalize_decimal_integer field v min_value =
     bindE (case v of
        JInt i \<Rightarrow> bindE (str_of_int i) (\<lambda>s. Inr (i, s))
      | JStr s \<Rightarrow>
          if \<not> isdecimal s then Inl (ValueError (field @ '' must be a decimal string''))
          else if leading_zero s then Inl (ValueError (field @ '' must be a decimal string without leading zeros''))
          else bindE (int_of_decimal s) (\<lambda>i. Inr (i, s))
      | _ \<Rightarrow> Inl (TypeError (field @ '' must be a decimal string or integer''))) (\<lambda>(i, s).
     if i < min_value then Inl (ValueError (field @ '' must be >= '' @ show_int min_value)) else Inr (i, s))"

definition require_positive_count :: "string \<Rightarrow> int \<Rightarrow> unit res" where
  "require_positive_count field v = raise_if (v < 1) (ValueError (field @ '' must be >= 1''))"

definition split_profiles :: "(string, int) dict" where
  "split_profiles = [(''factorization.exp2_contiguous_20way.v1'', 20)]"

definition resolve_requested_child_count :: "jobj \<Rightarrow> int res" where
  "resolve_requested_child_count params =
     (if jget params ''split_profile_id'' \<noteq> JNull
      then case jget params ''split_profile_id'' of
        JStr profile \<Rightarrow>
          (case dict_get split_profiles profile of
             None \<Rightarrow> Inl (ValueError ''unsupported factorization split_profile_id'')
           | Some n \<Rightarrow>
               if dict_has params ''requested_child_count''
               then Inl (ValueError ''split profile and requested_child_count are mutually exclusive'') else Inr n)
      | _ \<Rightarrow> Inl (ValueError ''unsupported factorization split_profile_id'')
      else case jget params ''requested_child_count'' of
        JInt n \<Rightarrow> seqE (require_positive_count ''requested_child_count'' n) (Inr n)
      | _ \<Rightarrow> Inl (TypeError ''requested_child_count must be an integer''))"

section \<open>The ranges\<close>

text \<open>The loop of \<open>_partition_contiguous_ranges\<close>: the first \<open>extra\<close> ranges are one longer.\<close>

fun cut_ranges :: "int \<Rightarrow> int \<Rightarrow> int \<Rightarrow> nat \<Rightarrow> nat \<Rightarrow> (int \<times> int) list" where
  "cut_ranges next base extra index 0 = []"
| "cut_ranges next base extra index (Suc k) =
     (let range_end = next + (base + (if int index < extra then 1 else 0)) - 1
      in (next, range_end) # cut_ranges (range_end + 1) base extra (Suc index) k)"

definition partition_contiguous_ranges :: "int \<Rightarrow> int \<Rightarrow> int \<Rightarrow> (int \<times> int) list" where
  "partition_contiguous_ranges first last_one range_count =
     (if range_count = 0 then []
      else let domain_size = last_one - first + 1
           in cut_ranges first (domain_size div range_count) (domain_size mod range_count) 0 (nat range_count))"

record partition_result =
  pr_params :: partition_params
  pr_coverage_proof :: coverage_proof
  pr_ranges :: "range_input list"

definition partition_params_for :: "string \<Rightarrow> string \<Rightarrow> string \<Rightarrow> int \<Rightarrow> int \<Rightarrow> partition_params" where
  "partition_params_for target lo hi requested actual =
     \<lparr>pp_strategy_id = partition_strategy_id, pp_target_n = target, pp_min_divisor = lo, pp_max_divisor = hi,
      pp_requested_child_count = requested, pp_actual_child_count = actual, pp_range_policy = ''contiguous'',
      pp_small_prime_precheck =
        [(''policy_id'', JStr ''factorization.small_prime_precheck.v1''), (''applied'', JBool False),
         (''reason'', JStr ''candidate_range_partition_only'')],
      pp_params_digest = None, pp_schema_version = ''factorization.candidate_range_partition_params.v1''\<rparr>"

definition range_input_for :: "string \<Rightarrow> string \<Rightarrow> int \<Rightarrow> string \<Rightarrow> nat \<times> int \<times> int \<Rightarrow> range_input" where
  "range_input_for target coverage_id children params_digest item =
     (case item of (index, first, last_one) \<Rightarrow>
       \<lparr>sr_target_n = target, sr_range_start = show_int first, sr_range_end = show_int last_one,
        sr_coverage_id = coverage_id, sr_child_index = int index, sr_child_count = children,
        sr_partition_params_digest = params_digest, sr_range_digest = None,
        sr_schema_version = ''factorization.factor_search_range_input.v1''\<rparr>)"

definition coverage_proof_for :: "hash \<Rightarrow> string \<Rightarrow> string \<Rightarrow> string \<Rightarrow> string \<Rightarrow> range_input list \<Rightarrow> coverage_proof" where
  "coverage_proof_for h coverage_id target lo hi ranges =
     \<lparr>cv_coverage_id = coverage_id, cv_target_n = target, cv_domain_start = lo, cv_domain_end = hi,
      cv_range_count = int (length ranges), cv_ranges_digest = digest_json h (objects (map sr_to_dict ranges)),
      cv_no_gap = True, cv_no_overlap = True, cv_full_domain_covered = True, cv_sqrt_bound_checked = True,
      cv_created_by_strategy_id = partition_strategy_id,
      cv_schema_version = ''factorization.candidate_range_coverage_proof.v1''\<rparr>"

text \<open>The bounds of the domain: an explicit upper bound must not pass the square root.\<close>

definition divisor_domain :: "json \<Rightarrow> json \<Rightarrow> json option \<Rightarrow> (string \<times> int \<times> string \<times> int \<times> string) res" where
  "divisor_domain target_n min_divisor max_divisor =
     bindE (normalize_decimal_integer ''target_n'' target_n 2) (\<lambda>(t, t_text).
     bindE (normalize_decimal_integer ''min_divisor'' min_divisor 2) (\<lambda>(lo, lo_text).
     bindE (case max_divisor of
              None \<Rightarrow> Inr (isqrt t, show_int (isqrt t))
            | Some v \<Rightarrow> normalize_decimal_integer ''max_divisor'' v 0) (\<lambda>(hi, hi_text).
     if hi > isqrt t then Inl (ValueError ''max_divisor must be <= floor_sqrt(target_n)'')
     else Inr (t_text, lo, lo_text, hi, hi_text))))"

definition partition_candidate_ranges ::
  "hash \<Rightarrow> json \<Rightarrow> int \<Rightarrow> int \<Rightarrow> json \<Rightarrow> json option \<Rightarrow> partition_result res" where
  "partition_candidate_ranges h target_n requested max_children min_divisor max_divisor =
     bindE (divisor_domain target_n min_divisor max_divisor) (\<lambda>(t, lo, lo_text, hi, hi_text).
     seqE (require_positive_count ''requested_child_count'' requested)
     (seqE (require_positive_count ''max_children_per_unit'' max_children)
     (let domain_size = max 0 (hi - lo + 1); actual = min domain_size (min requested max_children)
      in seqE (raise_if (domain_size = 0)
                (ValueError ''candidate domain is empty; use direct complete or invalid result''))
      (bindE (mk_partition_params h (partition_params_for t lo_text hi_text requested actual)) (\<lambda>params.
       let digest = or_empty (pp_params_digest params);
           coverage_id = ''coverage:'' @ digest_json h (JObj [(''target_n'', JStr t)]) @ '':'' @ digest
       in bindE (mapE (\<lambda>item. mk_range_input h (range_input_for t coverage_id actual digest item))
                  (enumerate 0 (partition_contiguous_ranges lo hi actual))) (\<lambda>ranges.
          bindE (mk_coverage_proof (coverage_proof_for h coverage_id t lo_text hi_text ranges)) (\<lambda>cover.
          Inr \<lparr>pr_params = params, pr_coverage_proof = cover, pr_ranges = ranges\<rparr>)))))))"

definition pr_to_dict :: "partition_result \<Rightarrow> jobj" where
  "pr_to_dict x =
     [(''params'', JObj (pp_to_dict (pr_params x))),
      (''coverage_proof'', JObj (cv_to_dict (pr_coverage_proof x))),
      (''ranges'', objects (map sr_to_dict (pr_ranges x)))]"

section \<open>Tilings\<close>

text \<open>A list of ranges tiles \<open>[lo, hi]\<close> when each starts where the one before it stopped.\<close>

fun tiles :: "int \<Rightarrow> int \<Rightarrow> (int \<times> int) list \<Rightarrow> bool" where
  "tiles lo hi [] \<longleftrightarrow> lo = hi + 1"
| "tiles lo hi ((s, e) # rs) \<longleftrightarrow> s = lo \<and> s \<le> e \<and> tiles (e + 1) hi rs"

lemma tiles_bounds: "tiles lo hi rs \<Longrightarrow> lo \<le> hi + 1"
  by (induction lo hi rs rule: tiles.induct) auto

lemma tiles_range: "tiles lo hi rs \<Longrightarrow> (s, e) \<in> set rs \<Longrightarrow> lo \<le> s \<and> s \<le> e \<and> e \<le> hi"
  by (induction lo hi rs rule: tiles.induct) (auto dest: tiles_bounds)

lemma tiles_cover: "tiles lo hi rs \<Longrightarrow> lo \<le> d \<Longrightarrow> d \<le> hi \<Longrightarrow> \<exists>(s, e) \<in> set rs. s \<le> d \<and> d \<le> e"
proof (induction lo hi rs rule: tiles.induct)
  case (2 lo hi s e rs)
  then show ?case by (cases "d \<le> e") auto
qed auto

lemma tiles_disjoint:
  "tiles lo hi rs \<Longrightarrow> i < j \<Longrightarrow> j < length rs \<Longrightarrow> snd (rs ! i) < fst (rs ! j)"
proof (induction lo hi rs arbitrary: i j rule: tiles.induct)
  case (2 lo hi s e rs)
  show ?case
  proof (cases i)
    case 0
    obtain k where j: "j = Suc k" "k < length rs" using 2(3,4) 0 by (cases j) auto
    then have "(fst (rs ! k), snd (rs ! k)) \<in> set rs" by simp
    from tiles_range[OF _ this, of "e + 1" hi] 2(2) show ?thesis by (simp add: 0 j)
  next
    case (Suc i')
    then show ?thesis using 2 by (cases j) auto
  qed
qed simp

lemma cut_ranges_length [simp]: "length (cut_ranges lo base extra i k) = k"
  by (induction k arbitrary: lo i) (auto simp: Let_def)

lemma cut_ranges_sizes:
  "(s, e) \<in> set (cut_ranges lo base extra i k) \<Longrightarrow> e - s + 1 = base \<or> e - s + 1 = base + 1"
  by (induction k arbitrary: lo i) (auto simp: Let_def split: if_splits)

lemma cut_ranges_tiles:
  "1 \<le> base \<Longrightarrow> tiles lo (lo + base * int k + min (int k) (max 0 (extra - int i)) - 1) (cut_ranges lo base extra i k)"
proof (induction k arbitrary: lo i)
  case (Suc k)
  show ?case
    using Suc.IH[of "lo + base + (if int i < extra then 1 else 0)" "Suc i"] Suc.prems
    by (auto simp: Let_def algebra_simps min_def max_def split: if_splits)
qed simp

lemma partition_contiguous_tiles:
  assumes "1 \<le> n" and "n \<le> hi - lo + 1"
  shows "tiles lo hi (partition_contiguous_ranges lo hi n)"
proof -
  let ?size = "hi - lo + 1"
  have "1 \<le> ?size div n" using zdiv_mono1[of n ?size n] assms by simp
  moreover have "min n (?size mod n) = ?size mod n" using pos_mod_bound[of n ?size] assms by simp
  moreover have "(?size div n) * n + ?size mod n = ?size" by simp
  ultimately show ?thesis
    using cut_ranges_tiles[of "?size div n" lo "nat n" "?size mod n" 0] assms
    by (simp add: partition_contiguous_ranges_def Let_def)
qed

lemma partition_contiguous_length: "1 \<le> n \<Longrightarrow> length (partition_contiguous_ranges lo hi n) = nat n"
  by (simp add: partition_contiguous_ranges_def Let_def)

lemma partition_contiguous_sizes:
  assumes "(s, e) \<in> set (partition_contiguous_ranges lo hi n)"
  shows "e - s + 1 \<in> {(hi - lo + 1) div n, (hi - lo + 1) div n + 1}"
  using assms by (auto simp: partition_contiguous_ranges_def Let_def split: if_splits dest!: cut_ranges_sizes)

section \<open>Accepted records\<close>

lemma parse_decimal_show:
  "\<lbrakk>min_value \<le> i; 0 \<le> i; length (show_int i) \<le> max_str_digits\<rbrakk> \<Longrightarrow> parse_decimal_integer field (show_int i) min_value = Inr i"
  by (simp add: parse_decimal_integer_def show_int_def)

lemma parse_decimal_ok:
  "parse_decimal_integer field v m = Inr i \<Longrightarrow> m \<le> i \<and> int_of_decimal v = Inr i \<and> isdecimal v \<and> \<not> leading_zero v"
  by (auto simp: parse_decimal_integer_def res_simps split: if_splits)

lemma check_range_iff:
  "check_range t s e = Inr (tv, sv, ev) \<longleftrightarrow>
    parse_decimal_field ''target_n'' t 2 = Inr tv \<and> parse_decimal_field ''range_start'' s 2 = Inr sv \<and>
    parse_decimal_field ''range_end'' e 2 = Inr ev \<and> sv \<le> ev \<and> ev \<le> isqrt tv"
  by (auto simp: check_range_def bindE_def split: sum.splits if_splits)

lemma parse_decimal_field_JStr [simp]: "parse_decimal_field f (JStr v) m = parse_decimal_integer f v m"
  by (simp add: parse_decimal_field_def)

text \<open>The value of a decimal text, and the bounds of a range as numbers.\<close>

definition decimal_of :: "string \<Rightarrow> int" where
  "decimal_of s = (case int_of_decimal s of Inr i \<Rightarrow> i | Inl _ \<Rightarrow> 0)"

definition range_of :: "range_input \<Rightarrow> int \<times> int" where
  "range_of x = (decimal_of (sr_range_start x), decimal_of (sr_range_end x))"

lemma decimal_of_ok: "int_of_decimal s = Inr i \<Longrightarrow> decimal_of s = i"
  by (simp add: decimal_of_def)

lemma int_of_show: "int_of_decimal (show_int i) = Inr j \<Longrightarrow> 0 \<le> i \<Longrightarrow> j = i"
proof -
  assume a: "int_of_decimal (show_int i) = Inr j" and i: "0 \<le> i"
  have d: "code_points (show_nat (nat i)) = map of_char (show_nat (nat i))"
    by (rule code_points_ascii) (auto dest: show_nat_digits)
  have "length (show_nat (nat i)) \<le> max_str_digits"
    using a i by (auto simp: int_of_decimal_def show_int_def d split: if_splits)
  then show "j = i" using a i by (simp add: show_int_def)
qed

lemma parse_show: "parse_decimal_integer f (show_int i) m = Inr j \<Longrightarrow> 0 \<le> i \<Longrightarrow> j = i \<and> decimal_of (show_int i) = i"
  using int_of_show by (auto dest!: parse_decimal_ok simp: decimal_of_def split: sum.splits)

lemma normalize_ok:
  assumes "normalize_decimal_integer f v m = Inr (i, s)" and "0 \<le> m"
  shows "m \<le> i \<and> int_of_decimal s = Inr i \<and> isdecimal s \<and> \<not> leading_zero s"
proof (cases v)
  case (JInt k)
  then show ?thesis using assms
    by (auto simp: normalize_decimal_integer_def str_of_int_def show_int_def res_simps split: if_splits)
next
  case (JStr x)
  then show ?thesis using assms by (auto simp: normalize_decimal_integer_def res_simps split: if_splits)
qed (use assms in \<open>auto simp: normalize_decimal_integer_def\<close>)

lemma divisor_domain_ok:
  assumes "divisor_domain t lo hi = Inr (ts, l, ls, u, us)"
  obtains n where "int_of_decimal ts = Inr n" "2 \<le> n" "int_of_decimal ls = Inr l" "2 \<le> l" "0 \<le> u" "u \<le> isqrt n"
    "hi = None \<and> u = isqrt n \<and> us = show_int u \<or> int_of_decimal us = Inr u"
  using assms normalize_ok
  by (fastforce simp: divisor_domain_def res_simps split: prod.splits option.splits if_splits)

lemma mk_params_ok:
  assumes "mk_partition_params h x = Inr y"
  shows "(\<exists>d. y = x\<lparr>pp_params_digest := Some d\<rparr>) \<and>
    (\<exists>t l u. parse_decimal_integer ''target_n'' (pp_target_n x) 2 = Inr t \<and>
       parse_decimal_integer ''min_divisor'' (pp_min_divisor x) 2 = Inr l \<and>
       parse_decimal_integer ''max_divisor'' (pp_max_divisor x) 0 = Inr u \<and> u \<le> isqrt t)"
  using assms by (auto simp: mk_partition_params_def res_simps)

lemma mk_range_input_ok:
  assumes "mk_range_input h x = Inr y"
  shows "(\<exists>d. y = x\<lparr>sr_range_digest := Some d\<rparr>) \<and>
    (\<exists>t s e. check_range (JStr (sr_target_n x)) (JStr (sr_range_start x)) (JStr (sr_range_end x)) = Inr (t, s, e))"
  using assms by (auto simp: mk_range_input_def res_simps)

lemma mk_range_input_for:
  assumes "mk_range_input h (range_input_for t c n d (i, s, e)) = Inr y" and "0 \<le> s" "0 \<le> e"
  shows "range_of y = (s, e) \<and> sr_child_index y = int i \<and> sr_child_count y = n \<and> sr_target_n y = t \<and>
    sr_coverage_id y = c \<and> sr_partition_params_digest y = d"
  using mk_range_input_ok[OF assms(1)] assms(2,3)
  by (auto simp: range_input_for_def check_range_iff range_of_def dest!: parse_show)

lemma range_inputs_ok:
  assumes "mapE (\<lambda>item. mk_range_input h (range_input_for t c n d item)) (enumerate k rs) = Inr ys"
    and "\<forall>(s, e) \<in> set rs. 0 \<le> s \<and> 0 \<le> e"
  shows "map range_of ys = rs \<and> map sr_child_index ys = map int [k..<k + length rs] \<and>
    (\<forall>y \<in> set ys. sr_target_n y = t \<and> sr_coverage_id y = c \<and> sr_child_count y = n \<and> sr_partition_params_digest y = d)"
  using assms
proof (induction rs arbitrary: k ys)
  case (Cons r rs)
  obtain s e where r: "r = (s, e)" by (cases r)
  from Cons.prems obtain y zs where
    y: "mk_range_input h (range_input_for t c n d (k, s, e)) = Inr y" and
    zs: "mapE (\<lambda>item. mk_range_input h (range_input_for t c n d item)) (enumerate (Suc k) rs) = Inr zs" and
    ys: "ys = y # zs"
    by (auto simp: r res_simps)
  from Cons.IH[OF zs] Cons.prems(2) mk_range_input_for[OF y] show ?case
    by (auto simp: r ys upt_rec[of k "Suc (k + length zs)"] simp del: upt_Suc)
qed simp

definition partition_domain :: "partition_result \<Rightarrow> int \<times> int" where
  "partition_domain p = (decimal_of (pp_min_divisor (pr_params p)), decimal_of (pp_max_divisor (pr_params p)))"

text \<open>What an accepted partition consists of.\<close>

lemma partition_parts:
  assumes "partition_candidate_ranges h target requested max_children lo hi = Inr p"
  obtains ts l ls u us n d c where
    "divisor_domain target lo hi = Inr (ts, l, ls, u, us)" "l \<le> u" "n = min (u - l + 1) (min requested max_children)" "1 \<le> n"
    "pr_params p = (partition_params_for ts ls us requested n)\<lparr>pp_params_digest := Some d\<rparr>"
    "c = ''coverage:'' @ digest_json h (JObj [(''target_n'', JStr ts)]) @ '':'' @ d"
    "mapE (\<lambda>item. mk_range_input h (range_input_for ts c n d item)) (enumerate 0 (partition_contiguous_ranges l u n))
       = Inr (pr_ranges p)"
    "pr_coverage_proof p = coverage_proof_for h c ts ls us (pr_ranges p)"
    "decimal_of us = u" "decimal_of ls = l" "2 \<le> l"
proof -
  from assms obtain ts l ls u us where dom: "divisor_domain target lo hi = Inr (ts, l, ls, u, us)"
    by (auto simp: partition_candidate_ranges_def res_simps)
  define n where "n = min (max 0 (u - l + 1)) (min requested max_children)"
  from assms obtain params where
    req: "1 \<le> requested" "1 \<le> max_children" "l \<le> u" and
    params: "mk_partition_params h (partition_params_for ts ls us requested n) = Inr params" and
    rest: "bindE (mapE (\<lambda>item. mk_range_input h (range_input_for ts
        (''coverage:'' @ digest_json h (JObj [(''target_n'', JStr ts)]) @ '':'' @ or_empty (pp_params_digest params)) n
        (or_empty (pp_params_digest params)) item)) (enumerate 0 (partition_contiguous_ranges l u n))) (\<lambda>ranges.
      bindE (mk_coverage_proof (coverage_proof_for h
        (''coverage:'' @ digest_json h (JObj [(''target_n'', JStr ts)]) @ '':'' @ or_empty (pp_params_digest params)) ts ls us ranges))
        (\<lambda>cover. Inr \<lparr>pr_params = params, pr_coverage_proof = cover, pr_ranges = ranges\<rparr>)) = Inr p"
    by (auto simp: partition_candidate_ranges_def dom res_simps Let_def require_positive_count_def n_def)
  from mk_params_ok[OF params] obtain d t where
    d: "params = (partition_params_for ts ls us requested n)\<lparr>pp_params_digest := Some d\<rparr>"
    by auto
  have n: "n = min (u - l + 1) (min requested max_children)" "1 \<le> n"
    using req by (auto simp: n_def)
  have cover: "mk_coverage_proof x = Inr y \<Longrightarrow> y = x" for x y
    by (auto simp: mk_coverage_proof_def res_simps)
  have us: "decimal_of us = u \<and> decimal_of ls = l \<and> 2 \<le> l"
    using dom mk_params_ok[OF params]
    by (auto elim!: divisor_domain_ok simp: partition_params_for_def decimal_of_ok dest!: parse_show)
  show ?thesis
    by (rule that[OF dom req(3) n _ refl, of d]) (use rest us cover in \<open>auto simp: res_simps d or_empty_def\<close>)
qed

section \<open>A partition exists\<close>

lemma is_sha256_digest [simp]: "is_sha256 (digest_json h j)" "is_sha256 (sha256_digest h b)"
  by (simp_all add: is_sha256_def digest_json_def sha256_digest_def)

lemma digest_nonempty [simp]: "digest_json h j \<noteq> []"
  by (simp add: digest_json_def sha256_digest_def)

lemma printable_le:
  assumes "isdecimal t" "int_of_decimal t = Inr n" "0 \<le> i" "i \<le> n"
  shows "length (show_int i) \<le> max_str_digits"
proof -
  have "length (show_nat (nat i)) \<le> length (show_nat (nat n))" using assms by (intro show_nat_mono) simp
  then show ?thesis using decimal_digits[OF assms(1,2)] assms(3) by (simp add: show_int_def)
qed

lemma range_input_exists:
  assumes "parse_decimal_integer ''target_n'' t 2 = Inr n" "2 \<le> s" "s \<le> e" "e \<le> isqrt n" "i < k" "c \<noteq> []" "is_sha256 d"
  shows "\<exists>y. mk_range_input h (range_input_for t c (int k) d (i, s, e)) = Inr y"
proof -
  have n: "isdecimal t" "int_of_decimal t = Inr n" using parse_decimal_ok[OF assms(1)] by auto
  have "isqrt n \<le> n" using parse_decimal_ok[OF assms(1)] by (intro isqrt_le) simp
  then have "parse_decimal_integer f (show_int s) 2 = Inr s" "parse_decimal_integer f (show_int e) 2 = Inr e" for f
    using assms(2-4) by (auto intro!: parse_decimal_show printable_le[OF n])
  then show ?thesis
    using assms
    by (auto simp: mk_range_input_def range_input_for_def check_range_def require_schema_def require_text_def
        require_digest_def set_or_check_digest_def)
qed

lemma partition_exists:
  assumes t: "parse_decimal_integer ''target_n'' t 2 = Inr n" and "4 \<le> n" "1 \<le> requested" "1 \<le> max_children"
  shows "\<exists>p. partition_candidate_ranges h (JStr t) requested max_children (JStr ''2'') None = Inr p \<and>
    partition_domain p = (2, isqrt n) \<and> pp_target_n (pr_params p) = t \<and>
    pp_min_divisor (pr_params p) = ''2'' \<and> pp_max_divisor (pr_params p) = show_int (isqrt n)"
proof -
  let ?u = "isqrt n"
  define k where "k = min (?u - 1) (min requested max_children)"
  have u: "2 \<le> ?u" using le_isqrt[of n 2] assms(2) by simp
  have n: "isdecimal t" "\<not> leading_zero t" "int_of_decimal t = Inr n" "2 \<le> n" using parse_decimal_ok[OF t] by auto
  have "?u \<le> n" using n by (intro isqrt_le) simp
  then have pu: "parse_decimal_integer f (show_int ?u) 0 = Inr ?u" for f
    using u by (intro parse_decimal_show printable_le[OF n(1,3)]) auto
  have p2: "parse_decimal_integer f ''2'' 2 = Inr 2" for f
    using parse_decimal_show[of 2 2 f] by (simp add: show_int_def show_nat.simps digit_chars max_str_digits_def)
  have dom: "divisor_domain (JStr t) (JStr ''2'') None = Inr (t, 2, ''2'', ?u, show_int ?u)"
    using p2[of "''min_divisor''"] n by (auto simp: divisor_domain_def normalize_decimal_integer_def parse_decimal_integer_def res_simps split: if_splits)
  have k: "1 \<le> k" "k \<le> ?u - 1" "k \<le> requested" using u assms by (auto simp: k_def)
  let ?d = "digest_json h (JObj (pp_digest_body (partition_params_for t ''2'' (show_int ?u) requested k)))"
  have params: "mk_partition_params h (partition_params_for t ''2'' (show_int ?u) requested k)
     = Inr ((partition_params_for t ''2'' (show_int ?u) requested k)\<lparr>pp_params_digest := Some ?d\<rparr>)"
    using t p2 pu u k assms
    by (simp add: mk_partition_params_def partition_params_for_def require_schema_def set_or_check_digest_def)
  let ?c = "''coverage:'' @ digest_json h (JObj [(''target_n'', JStr t)]) @ '':'' @ ?d"
  have tiled: "tiles 2 ?u (partition_contiguous_ranges 2 ?u k)"
    by (rule partition_contiguous_tiles) (use k in auto)
  have "\<forall>item \<in> set (enumerate 0 (partition_contiguous_ranges 2 ?u k)). \<exists>y. mk_range_input h (range_input_for t ?c k ?d item) = Inr y"
  proof
    fix item assume "item \<in> set (enumerate 0 (partition_contiguous_ranges 2 ?u k))"
    then obtain i s e where item: "item = (i, s, e)" "i < nat k" "(s, e) \<in> set (partition_contiguous_ranges 2 ?u k)"
      using partition_contiguous_length[OF k(1), of 2 ?u] nth_mem[of "fst item" "partition_contiguous_ranges 2 ?u k"]
      by (cases item rule: prod_cases3) (auto simp: in_set_enumerate_eq)
    have b: "2 \<le> s" "s \<le> e" "e \<le> ?u" using tiles_range[OF tiled item(3)] by auto
    have "\<exists>y. mk_range_input h (range_input_for t ?c (int (nat k)) ?d (i, s, e)) = Inr y"
      by (rule range_input_exists[OF t b item(2)]) simp_all
    moreover have "int (nat k) = k" using k(1) by linarith
    ultimately show "\<exists>y. mk_range_input h (range_input_for t ?c k ?d item) = Inr y" by (simp only: item(1))
  qed
  then have "\<exists>rs. mapE (\<lambda>item. mk_range_input h (range_input_for t ?c k ?d item))
      (enumerate 0 (partition_contiguous_ranges 2 ?u k)) = Inr rs"
    by (intro exI, rule mapE_total)
  then obtain rs where rs: "mapE (\<lambda>item. mk_range_input h (range_input_for t ?c k ?d item))
      (enumerate 0 (partition_contiguous_ranges 2 ?u k)) = Inr rs" ..
  have cover: "mk_coverage_proof (coverage_proof_for h ?c t ''2'' (show_int ?u) rs) = Inr (coverage_proof_for h ?c t ''2'' (show_int ?u) rs)"
    using t p2 pu by (simp add: mk_coverage_proof_def coverage_proof_for_def require_schema_def require_text_def require_digest_def)
  have "partition_candidate_ranges h (JStr t) requested max_children (JStr ''2'') None =
    Inr \<lparr>pr_params = (partition_params_for t ''2'' (show_int ?u) requested k)\<lparr>pp_params_digest := Some ?d\<rparr>,
         pr_coverage_proof = coverage_proof_for h ?c t ''2'' (show_int ?u) rs, pr_ranges = rs\<rparr>"
    using u assms params rs cover
    by (simp add: partition_candidate_ranges_def dom require_positive_count_def Let_def k_def[symmetric] or_empty_def)
  then show ?thesis
    using pu[THEN parse_show] p2[THEN parse_decimal_ok] u
    by (simp add: partition_domain_def partition_params_for_def decimal_of_ok)
qed

text \<open>The shape of an accepted partition.\<close>

lemma partition_sound:
  assumes "partition_candidate_ranges h target requested max_children lo hi = Inr p"
    and "partition_domain p = (l, u)"
  shows "2 \<le> l \<and> u \<le> isqrt (decimal_of (pp_target_n (pr_params p))) \<and>
    tiles l u (map range_of (pr_ranges p)) \<and>
    int (length (pr_ranges p)) = min (u - l + 1) (min requested max_children) \<and>
    (\<forall>(s, e) \<in> range_of ` set (pr_ranges p). \<forall>(s', e') \<in> range_of ` set (pr_ranges p). \<bar>(e - s) - (e' - s')\<bar> \<le> 1) \<and>
    map sr_child_index (pr_ranges p) = map int [0..<length (pr_ranges p)] \<and>
    (\<forall>r \<in> set (pr_ranges p). sr_target_n r = pp_target_n (pr_params p) \<and>
       sr_coverage_id r = cv_coverage_id (pr_coverage_proof p) \<and>
       Some (sr_partition_params_digest r) = pp_params_digest (pr_params p) \<and>
       sr_child_count r = int (length (pr_ranges p)))"
proof -
  obtain ts ls us n d c where dom: "divisor_domain target lo hi = Inr (ts, l, ls, u, us)"
    and n: "l \<le> u" "n = min (u - l + 1) (min requested max_children)" "1 \<le> n"
    and params: "pr_params p = (partition_params_for ts ls us requested n)\<lparr>pp_params_digest := Some d\<rparr>"
    and ranges: "mapE (\<lambda>item. mk_range_input h (range_input_for ts c n d item))
      (enumerate 0 (partition_contiguous_ranges l u n)) = Inr (pr_ranges p)"
    and cover: "pr_coverage_proof p = coverage_proof_for h c ts ls us (pr_ranges p)" and l: "2 \<le> l"
    using assms by (elim partition_parts) (auto simp: partition_domain_def partition_params_for_def)
  have tiled: "tiles l u (partition_contiguous_ranges l u n)"
    by (rule partition_contiguous_tiles) (use n in auto)
  have nonneg: "\<forall>(s, e) \<in> set (partition_contiguous_ranges l u n). 0 \<le> s \<and> 0 \<le> e"
    using tiles_range[OF tiled] l by fastforce
  note r = range_inputs_ok[OF ranges nonneg]
  have len: "int (length (pr_ranges p)) = n"
    using arg_cong[OF r[THEN conjunct1], of length] n partition_contiguous_length[of n l u] by simp
  have "u \<le> isqrt (decimal_of ts)"
    using dom by (auto elim!: divisor_domain_ok simp: decimal_of_ok)
  moreover have "\<forall>(s, e) \<in> set (partition_contiguous_ranges l u n). \<forall>(s', e') \<in> set (partition_contiguous_ranges l u n).
      \<bar>(e - s) - (e' - s')\<bar> \<le> 1"
    by (auto dest!: partition_contiguous_sizes)
  moreover have "map sr_child_index (pr_ranges p) = map int [0..<length (pr_ranges p)]"
    using r by (metis add_0 length_map)
  moreover have "range_of ` set (pr_ranges p) = set (partition_contiguous_ranges l u n)"
    using r by (metis set_map)
  ultimately show ?thesis
    using r tiled l len n(2) by (simp add: params cover partition_params_for_def coverage_proof_for_def)
qed

text \<open>
  C35 partition_exact: an accepted partition of the candidate divisors of a number cuts its domain
  \<open>[min_divisor, max_divisor]\<close>, which ends at the square root of the number at the latest, into ranges
  that follow one another without gap or overlap. Their number is the smallest of the domain's size,
  the requested count and the limit of children, their sizes differ by at most one, and they are
  numbered from zero and carry the same target, coverage id and parameter digest.
\<close>

theorem partition_exact:
  assumes "partition_candidate_ranges h target requested max_children lo hi = Inr p"
    and "partition_domain p = (l, u)"
  shows "2 \<le> l \<and> u \<le> isqrt (decimal_of (pp_target_n (pr_params p))) \<and>
    tiles l u (map range_of (pr_ranges p)) \<and>
    int (length (pr_ranges p)) = min (u - l + 1) (min requested max_children) \<and>
    (\<forall>(s, e) \<in> range_of ` set (pr_ranges p). \<forall>(s', e') \<in> range_of ` set (pr_ranges p). \<bar>(e - s) - (e' - s')\<bar> \<le> 1) \<and>
    map sr_child_index (pr_ranges p) = map int [0..<length (pr_ranges p)] \<and>
    (\<forall>r \<in> set (pr_ranges p). sr_target_n r = pp_target_n (pr_params p) \<and>
       sr_coverage_id r = cv_coverage_id (pr_coverage_proof p) \<and>
       Some (sr_partition_params_digest r) = pp_params_digest (pr_params p) \<and>
       sr_child_count r = int (length (pr_ranges p)))"
  using assms by (rule partition_sound)

lemma partition_exact_witness:
  "\<exists>p. partition_candidate_ranges (\<lambda>_. ''0'') (JStr ''91'') 3 8 (JStr ''2'') None = Inr p \<and>
    tiles 2 9 (map range_of (pr_ranges p)) \<and> length (pr_ranges p) = 3"
proof -
  have "''91'' = show_int 91" by (simp add: show_int_def show_nat.simps digit_chars)
  then have "parse_decimal_integer ''target_n'' ''91'' 2 = Inr 91" "isqrt 91 = 9"
    using parse_decimal_show[of 2 91] by (auto simp: isqrt.simps show_int_def show_nat.simps max_str_digits_def)
  then obtain p where p: "partition_candidate_ranges (\<lambda>_. ''0'') (JStr ''91'') 3 8 (JStr ''2'') None = Inr p"
    and "partition_domain p = (2, 9)"
    using partition_exists[of "''91''" 91 3 8 "\<lambda>_. ''0''"] by auto
  from partition_exact[OF this] p show ?thesis by auto
qed

end
