(* ===== verification/Fact_Validator.thy ===== *)
theory Fact_Validator
  imports Fact_Partition
begin

text \<open>
  \<open>plugins/factorization/validator.py\<close>: the parser of range results and their deterministic recheck
  (\<open>rv_\<close> RangeVerificationResult, \<open>ap_\<close> FactorizationAIParseResult). The lemmas show which results the
  recheck accepts, and that a printed result is parsed back.
\<close>

section \<open>Verification verdicts\<close>

record range_verification =
  rv_accepted :: bool
  rv_status :: string
  rv_layer_summary :: jobj
  rv_failure_summary :: "jobj option"

definition verdict_layer :: "string \<Rightarrow> string \<Rightarrow> string \<Rightarrow> jobj \<Rightarrow> jobj" where
  "verdict_layer status reason summary details =
     [(''status'', JStr status), (''reason_code'', JStr reason), (''summary'', JStr summary),
      (''details'', JObj details), (''evidence_refs'', JArr []), (''checked_at'', JNull)]"

definition range_accepted :: "string \<Rightarrow> string \<Rightarrow> jobj \<Rightarrow> range_verification" where
  "range_accepted reason summary details =
     \<lparr>rv_accepted = True, rv_status = ''passed'', rv_layer_summary = verdict_layer ''passed'' reason summary details,
      rv_failure_summary = None\<rparr>"

definition range_rejected :: "string \<Rightarrow> string \<Rightarrow> jobj \<Rightarrow> range_verification" where
  "range_rejected reason summary details =
     \<lparr>rv_accepted = False, rv_status = ''rejected'', rv_layer_summary = verdict_layer ''rejected'' reason summary details,
      rv_failure_summary =
        Some [(''failure_kind'', JStr ''invalid_output''), (''failed_layer'', JStr ''plugin_domain_check''),
              (''message'', JStr summary), (''evidence_refs'', JArr [])]\<rparr>"

definition about_field :: "string \<Rightarrow> jobj" where
  "about_field f = [(''field'', JStr f)]"

text \<open>The first verdict of a list of checks.\<close>

fun first_verdict :: "range_verification option list \<Rightarrow> range_verification option" where
  "first_verdict [] = None"
| "first_verdict (None # vs) = first_verdict vs"
| "first_verdict (Some v # vs) = Some v"

definition reject_if :: "bool \<Rightarrow> string \<Rightarrow> string \<Rightarrow> jobj \<Rightarrow> range_verification option" where
  "reject_if b reason summary details = (if b then Some (range_rejected reason summary details) else None)"

section \<open>The envelope of a range result\<close>

definition envelope_strings :: "string list" where
  "envelope_strings =
    [''range_result_id'', ''result_kind'', ''target_n'', ''range_start'', ''range_end'', ''coverage_id'',
     ''partition_params_digest'', ''created_at'']"

fun not_natural :: "json \<Rightarrow> bool" where
  "not_natural (JInt i) \<longleftrightarrow> i < 0"
| "not_natural _ \<longleftrightarrow> True"

definition check_range_result_envelope :: "jobj \<Rightarrow> range_verification option" where
  "check_range_result_envelope body =
     (let found = jget body ''found_factor'' \<noteq> JNull; cofactor = jget body ''cofactor'' \<noteq> JNull
      in first_verdict
       ([reject_if (jget body ''schema_version'' \<noteq> JStr range_result_schema) ''invalid_output''
           ''range_result schema_version must be factorization.range_result.v1'' (about_field ''schema_version'')] @
        map (\<lambda>f. reject_if (\<not> is_nonempty_str (jget body f)) ''invalid_output'' (f @ '' must be a non-empty string'')
          (about_field f)) envelope_strings @
        [reject_if (\<not> is_sha256 (text_of (jget body ''partition_params_digest''))) ''invalid_output''
           ''partition_params_digest must be a sha256 digest'' (about_field ''partition_params_digest''),
         reject_if (jget body ''result_kind'' \<notin> JStr ` set range_result_kinds) ''invalid_result_kind''
           ''result_kind must be found_factor or no_factor_in_range'' (about_field ''result_kind''),
         reject_if (not_natural (jget body ''child_index'')) ''invalid_output''
           ''child_index must be a non-negative integer'' (about_field ''child_index''),
         reject_if (not_natural (jget body ''checked_divisor_count'')) ''invalid_output''
           ''checked_divisor_count must be a non-negative integer'' (about_field ''checked_divisor_count''),
         reject_if (\<not> is_jobj (jget body ''executor_summary'')) ''invalid_output''
           ''executor_summary must be an object'' (about_field ''executor_summary''),
         reject_if (jget body ''result_kind'' = JStr ''found_factor'' \<and> \<not> (found \<and> cofactor)) ''invalid_output''
           ''found_factor result requires found_factor and cofactor'' [],
         reject_if (jget body ''result_kind'' = JStr ''no_factor_in_range'' \<and> (found \<or> cofactor)) ''invalid_output''
           ''no_factor_in_range must not include found_factor or cofactor'' []]))"

definition alignment_checks :: "(string \<times> string \<times> string) list" where
  "alignment_checks =
    [(''target_n'', ''target_mismatch'', ''target_n does not match child input''),
     (''range_start'', ''range_mismatch'', ''range_start does not match child input''),
     (''range_end'', ''range_mismatch'', ''range_end does not match child input''),
     (''coverage_id'', ''coverage_mismatch'', ''coverage_id does not match child input''),
     (''partition_params_digest'', ''partition_params_mismatch'', ''partition_params_digest does not match child input''),
     (''child_index'', ''child_index_mismatch'', ''child_index does not match child input'')]"

definition check_child_input_alignment :: "jobj \<Rightarrow> range_input \<Rightarrow> range_verification option" where
  "check_child_input_alignment body child =
     first_verdict (map (\<lambda>(f, reason, summary).
       reject_if (\<not> py_eq (jget body f) (jget (sr_to_dict child) f)) reason summary (about_field f)) alignment_checks)"

section \<open>The recheck\<close>

definition parse_positive_int :: "json \<Rightarrow> int option res" where
  "parse_positive_int v =
     (case v of
        JStr s \<Rightarrow>
          if \<not> isdecimal s \<or> leading_zero s then Inr None
          else bindE (int_of_decimal s) (\<lambda>i. Inr (if i < 1 then None else Some i))
      | _ \<Rightarrow> Inr None)"

definition judge_found_factor :: "int \<Rightarrow> int \<Rightarrow> int \<Rightarrow> int \<Rightarrow> int \<Rightarrow> range_verification" where
  "judge_found_factor t s e f c =
     (if f \<le> 1 \<or> f \<ge> t
      then range_rejected ''invalid_factor'' ''found_factor must be greater than 1 and smaller than target_n'' []
      else if f < s \<or> f > e
      then range_rejected ''factor_outside_range'' ''found_factor is outside the bounded child range''
             [(''factor'', JStr (show_int f))]
      else if t mod f \<noteq> 0 then range_rejected ''non_divisor'' ''found_factor does not divide target_n'' []
      else if t div f \<noteq> c then range_rejected ''cofactor_mismatch'' ''cofactor must equal target_n / found_factor'' []
      else range_accepted ''found_factor_rechecked'' ''found_factor is in range and divides target_n''
             [(''factor'', JStr (show_int f)), (''cofactor'', JStr (show_int c))])"

definition verify_found_factor :: "jobj \<Rightarrow> range_verification res" where
  "verify_found_factor body =
     bindE (parse_positive_int (jget body ''target_n'')) (\<lambda>target.
     bindE (parse_positive_int (jget body ''range_start'')) (\<lambda>start.
     bindE (parse_positive_int (jget body ''range_end'')) (\<lambda>last_one.
     bindE (parse_positive_int (jget body ''found_factor'')) (\<lambda>factor.
     bindE (parse_positive_int (jget body ''cofactor'')) (\<lambda>cofactor.
     Inr (case target of
        None \<Rightarrow> range_rejected ''invalid_target'' ''target_n must be a decimal string'' []
      | Some t \<Rightarrow> (case (start, last_one) of
          (Some s, Some e) \<Rightarrow> (case factor of
              None \<Rightarrow> range_rejected ''invalid_output'' ''found_factor must be a decimal string'' []
            | Some f \<Rightarrow> (case cofactor of
                None \<Rightarrow> range_rejected ''invalid_output'' ''cofactor must be a decimal string'' []
              | Some c \<Rightarrow> judge_found_factor t s e f c))
        | _ \<Rightarrow> range_rejected ''invalid_range'' ''range bounds must be decimal strings'' [])))))))"

text \<open>\<open>for divisor in range(d, d + k)\<close>: the first one that divides \<open>t\<close>.\<close>

fun first_divisor :: "int \<Rightarrow> int \<Rightarrow> nat \<Rightarrow> int option" where
  "first_divisor t d 0 = None"
| "first_divisor t d (Suc k) = (if t mod d = 0 then Some d else first_divisor t (d + 1) k)"

definition judge_no_factor :: "int \<Rightarrow> int \<Rightarrow> int \<Rightarrow> int \<Rightarrow> range_verification" where
  "judge_no_factor budget t s e =
     (let divisor_count = e - s + 1
      in if divisor_count > budget
         then range_rejected ''range_recheck_budget_exceeded'' ''no_factor_in_range claim exceeds deterministic recheck budget''
                [(''requested_divisor_count'', JInt divisor_count), (''max_divisor_count'', JInt budget)]
         else case first_divisor t s (nat divisor_count) of
           Some d \<Rightarrow> range_rejected ''divisor_exists_in_range'' ''no_factor_in_range claim is false''
                      [(''divisor'', JStr (show_int d))]
         | None \<Rightarrow> range_accepted ''no_factor_range_rechecked'' ''range was brute-force checked and contains no divisor''
                    [(''checked_divisor_count'', JInt divisor_count)])"

definition verify_no_factor :: "jobj \<Rightarrow> int \<Rightarrow> range_verification res" where
  "verify_no_factor body budget =
     (if budget < 1
      then Inr (range_rejected ''invalid_verifier_budget'' ''no_factor_recheck_max_divisors must be a positive integer'' [])
      else if jget body ''found_factor'' \<noteq> JNull \<or> jget body ''cofactor'' \<noteq> JNull
      then Inr (range_rejected ''invalid_output'' ''no_factor_in_range must not include found_factor or cofactor'' [])
      else
      bindE (parse_positive_int (jget body ''target_n'')) (\<lambda>target.
      bindE (parse_positive_int (jget body ''range_start'')) (\<lambda>start.
      bindE (parse_positive_int (jget body ''range_end'')) (\<lambda>last_one.
      Inr (case target of
         None \<Rightarrow> range_rejected ''invalid_target'' ''target_n must be a decimal string'' []
       | Some t \<Rightarrow> (case (start, last_one) of
           (Some s, Some e) \<Rightarrow>
             if s > e then range_rejected ''invalid_range'' ''range bounds must be valid decimal strings'' []
             else judge_no_factor budget t s e
         | _ \<Rightarrow> range_rejected ''invalid_range'' ''range bounds must be valid decimal strings'' []))))))"

text \<open>A \<open>RangeResult\<close> is passed as its \<open>to_dict\<close>.\<close>

definition verify_range_body :: "jobj \<Rightarrow> range_input \<Rightarrow> int \<Rightarrow> range_verification res" where
  "verify_range_body body child budget =
     (case check_range_result_envelope body of
        Some v \<Rightarrow> Inr v
      | None \<Rightarrow> (case check_child_input_alignment body child of
          Some v \<Rightarrow> Inr v
        | None \<Rightarrow>
            if jget body ''result_kind'' = JStr ''found_factor'' then verify_found_factor body
            else if jget body ''result_kind'' = JStr ''no_factor_in_range'' then verify_no_factor body budget
            else Inr (range_rejected ''invalid_result_kind'' ''result_kind must be found_factor or no_factor_in_range'' [])))"

definition verify_range_result :: "json \<Rightarrow> range_input \<Rightarrow> int \<Rightarrow> range_verification res" where
  "verify_range_result result child budget =
     (case result of
        JObj body \<Rightarrow> verify_range_body body child budget
      | _ \<Rightarrow> Inr (range_rejected ''invalid_output'' ''range_result must be a structured object'' []))"

definition default_no_factor_budget :: int where
  "default_no_factor_budget = 100000"

definition build_factor_search_instruction :: "string \<Rightarrow> string \<Rightarrow> range_input \<Rightarrow> search_instruction res" where
  "build_factor_search_instruction request_id unit_id child =
     mk_search_instruction
       \<lparr>fi_instruction_id = ''factor_search_instruction:'' @ request_id, fi_request_id = request_id, fi_unit_id = unit_id,
        fi_target_n = sr_target_n child, fi_range_start = sr_range_start child, fi_range_end = sr_range_end child,
        fi_output_schema_version = range_result_schema, fi_allowed_result_kinds = range_result_kinds,
        fi_determinism_requirement = ''range_recheckable'',
        fi_schema_version = ''factorization.factor_search_instruction.v1''\<rparr>"

section \<open>Parsing\<close>

definition range_result_required :: "string list" where
  "range_result_required = ''schema_version'' # range_result_params"

fun error_text :: "py_error \<Rightarrow> string" where
  "error_text (ValueError m) = m"
| "error_text (TypeError m) = m"
| "error_text (KeyError m) = quoted m"
| "error_text (IndexError m) = m"
| "error_text (AttributeError m) = m"
| "error_text (RuntimeError m) = m"
| "error_text (OverflowError m) = m"
| "error_text (FileNotFoundError m) = m"
| "error_text (FileExistsError m) = m"

definition structured_json_object :: "json \<Rightarrow> jobj res" where
  "structured_json_object payload =
     (case payload of
        JStr text \<Rightarrow>
          (case loads text of
             Some (JObj d) \<Rightarrow> Inr d
           | _ \<Rightarrow> Inl (ValueError ''range_result parser requires a structured JSON object''))
      | JObj d \<Rightarrow> Inr d
      | _ \<Rightarrow> Inl (TypeError ''range_result parser requires a structured JSON object''))"

definition parse_range_result :: "json \<Rightarrow> range_result res" where
  "parse_range_result payload =
     bindE (structured_json_object payload) (\<lambda>body.
     let missing = sort (filter (\<lambda>f. \<not> dict_has body f) range_result_required)
     in if missing \<noteq> []
        then Inl (ValueError (''invalid structured range_result: missing required fields: '' @ join '', '' missing))
        else (case mk_range_result body of
                Inl exc \<Rightarrow> Inl (ValueError (''invalid structured range_result: '' @ error_text exc))
              | Inr r \<Rightarrow> Inr r))"

text \<open>\<open>text[:n]\<close> in characters: a byte that continues a character is kept with its first byte.\<close>

definition continues :: "char \<Rightarrow> bool" where
  "continues c \<longleftrightarrow> (0x80 :: nat) \<le> of_char c \<and> (of_char c :: nat) < 0xC0"

fun take_characters :: "nat \<Rightarrow> string \<Rightarrow> string" where
  "take_characters n [] = []"
| "take_characters n (c # s) =
     (if continues c then c # take_characters n s
      else case n of 0 \<Rightarrow> [] | Suc m \<Rightarrow> c # take_characters m s)"

definition raw_excerpt :: "json \<Rightarrow> json" where
  "raw_excerpt raw =
     (if raw = JNull then JNull
      else let text = (case raw of JStr s \<Rightarrow> s | _ \<Rightarrow> canonical_json raw)
           in JStr (if length (filter (\<lambda>c. \<not> continues c) text) \<le> 200 then text else take_characters 200 text @ ''...''))"

definition has_substring :: "string \<Rightarrow> string \<Rightarrow> bool" where
  "has_substring p s \<longleftrightarrow> list_ex (\<lambda>i. take (length p) (drop i s) = p) [0..<Suc (length s)]"

definition parse_failure_kind :: "py_error \<Rightarrow> string" where
  "parse_failure_kind exc =
     (if has_substring ''structured JSON object'' (error_text exc) then ''invalid_json_object''
      else ''invalid_structured_range_result'')"

record ai_parse_result =
  ap_succeeded :: bool
  ap_result_kind :: string
  ap_parser_id :: string
  ap_required_output_name :: "string option"
  ap_parsed_artifact_schema_id :: "string option"
  ap_parsed_artifact_schema_version :: "string option"
  ap_parsed_artifact_body :: "jobj option"
  ap_candidate_output_artifact_bodies :: "(string, jobj) dict"
  ap_parse_failure_artifact_body :: "jobj option"

definition range_result_parser_id :: string where
  "range_result_parser_id = ''factorization.range_result.parser.v1''"

definition parse_failure_result :: "string \<Rightarrow> string \<Rightarrow> json \<Rightarrow> jobj \<Rightarrow> string \<Rightarrow> ai_parse_result" where
  "parse_failure_result failure_kind message raw ref_summary created_at =
     \<lparr>ap_succeeded = False, ap_result_kind = ''parse_failed'', ap_parser_id = range_result_parser_id,
      ap_required_output_name = None, ap_parsed_artifact_schema_id = None, ap_parsed_artifact_schema_version = None,
      ap_parsed_artifact_body = None, ap_candidate_output_artifact_bodies = [],
      ap_parse_failure_artifact_body = Some
        [(''schema_version'', JStr ''phase3.parse_failure_report.v1''), (''parser_id'', JStr range_result_parser_id),
         (''failure_kind'', JStr failure_kind), (''message'', JStr message), (''raw_excerpt'', raw_excerpt raw),
         (''raw_output_ref_summary'', JObj ref_summary), (''candidate_outputs'', JObj []), (''created_at'', JStr created_at)]\<rparr>"

text \<open>The raw output is a text, an object or \<open>None\<close>.\<close>

definition parse_factorization_ai_output :: "json \<Rightarrow> jobj \<Rightarrow> string \<Rightarrow> bool \<Rightarrow> ai_parse_result" where
  "parse_factorization_ai_output raw ref_summary created_at raw_only =
     (if raw_only \<or> raw = JNull
      then parse_failure_result ''raw_only_not_allowed''
             ''Factorization requires parsed range_result output; raw-only is not allowed'' raw ref_summary created_at
      else case parse_range_result raw of
        Inl exc \<Rightarrow> parse_failure_result (parse_failure_kind exc) (error_text exc) raw ref_summary created_at
      | Inr parsed \<Rightarrow>
          \<lparr>ap_succeeded = True, ap_result_kind = ''parsed'', ap_parser_id = range_result_parser_id,
           ap_required_output_name = Some ''range_result'', ap_parsed_artifact_schema_id = Some ''factorization.range_result'',
           ap_parsed_artifact_schema_version = Some ''v1'', ap_parsed_artifact_body = Some (rr_to_dict parsed),
           ap_candidate_output_artifact_bodies = [(''range_result'', rr_to_dict parsed)],
           ap_parse_failure_artifact_body = None\<rparr>)"

section \<open>What a constructed result contains\<close>

lemma first_verdict_None: "first_verdict vs = None \<longleftrightarrow> (\<forall>v \<in> set vs. v = None)"
  by (induction vs rule: first_verdict.induct) auto

lemma reject_if_None [simp]: "reject_if b r s d = None \<longleftrightarrow> \<not> b"
  by (simp add: reject_if_def)

lemma py_eq_JStr [simp]: "py_eq v (JStr s) \<longleftrightarrow> v = JStr s"
  by (cases v) (auto simp: py_eq_def split: option.splits)

lemma is_nonempty_str_iff: "is_nonempty_str v \<longleftrightarrow> (\<exists>s. v = JStr s \<and> s \<noteq> [])"
  by (cases v) auto

lemma parse_decimal_field_iff:
  "parse_decimal_field f v m = Inr i \<longleftrightarrow> (\<exists>s. v = JStr s \<and> parse_decimal_integer f s m = Inr i)"
  by (cases v) (auto simp: parse_decimal_field_def)

lemma parse_decimal_iff:
  "parse_decimal_integer f v m = Inr i \<longleftrightarrow> isdecimal v \<and> \<not> leading_zero v \<and> int_of_decimal v = Inr i \<and> m \<le> i"
  by (cases "int_of_decimal v") (auto simp: parse_decimal_integer_def)

lemma parse_positive_ok:
  "parse_decimal_integer f v m = Inr i \<Longrightarrow> 1 \<le> i \<Longrightarrow> parse_positive_int (JStr v) = Inr (Some i)"
  by (auto simp: parse_positive_int_def parse_decimal_iff)

definition factor_fields_ok :: "range_result \<Rightarrow> int \<Rightarrow> int \<Rightarrow> int \<Rightarrow> bool" where
  "factor_fields_ok r t s e \<longleftrightarrow>
     (if rr_result_kind r = ''found_factor''
      then \<exists>f c fv cv. rr_found_factor r = Some f \<and> rr_cofactor r = Some c \<and>
             parse_decimal_integer ''found_factor'' f 2 = Inr fv \<and> parse_decimal_integer ''cofactor'' c 2 = Inr cv \<and>
             s \<le> fv \<and> fv \<le> e \<and> fv < t \<and> fv * cv = t
      else rr_found_factor r = None \<and> rr_cofactor r = None)"

lemma check_found_factor_iff:
  "check_found_factor jf jc t s e = Inr () \<longleftrightarrow>
    (\<exists>f c fv cv. jf = JStr f \<and> jc = JStr c \<and> parse_decimal_integer ''found_factor'' f 2 = Inr fv \<and>
       parse_decimal_integer ''cofactor'' c 2 = Inr cv \<and> s \<le> fv \<and> fv \<le> e \<and> fv < t \<and> fv * cv = t)"
proof (cases "\<exists>f c fv cv. jf = JStr f \<and> jc = JStr c \<and> parse_decimal_integer ''found_factor'' f 2 = Inr fv \<and>
       parse_decimal_integer ''cofactor'' c 2 = Inr cv")
  case True
  then obtain f c fv cv where p: "jf = JStr f" "jc = JStr c" "parse_decimal_integer ''found_factor'' f 2 = Inr fv"
    "parse_decimal_integer ''cofactor'' c 2 = Inr cv"
    by blast
  then have "2 \<le> fv" by (simp add: parse_decimal_iff)
  then have "t mod fv = 0 \<and> t div fv = cv \<longleftrightarrow> fv * cv = t" by (auto simp: mod_eq_0_iff_dvd)
  then show ?thesis by (simp add: check_found_factor_def p res_simps) (auto simp: not_le)
next
  case False
  then show ?thesis by (simp add: check_found_factor_def res_simps parse_decimal_field_iff) blast
qed

lemma opt_str_text_option: "v = JNull \<or> (\<exists>s. v = JStr s) \<Longrightarrow> opt_str (text_option v) = v"
  by (cases v) auto

text \<open>
  The checks of the constructor as one condition, and the record they admit: its \<open>to_dict\<close> holds the
  arguments it was built from.
\<close>

definition rr_ok :: "range_result \<Rightarrow> bool" where
  "rr_ok r \<longleftrightarrow>
     rr_range_result_id r \<noteq> [] \<and> rr_result_kind r \<in> set range_result_kinds \<and> rr_coverage_id r \<noteq> [] \<and>
     0 \<le> rr_child_index r \<and> is_sha256 (rr_partition_params_digest r) \<and> 0 \<le> rr_checked_divisor_count r \<and>
     rr_created_at r \<noteq> [] \<and>
     (\<exists>t s e. check_range (JStr (rr_target_n r)) (JStr (rr_range_start r)) (JStr (rr_range_end r)) = Inr (t, s, e) \<and>
        factor_fields_ok r t s e)"

lemma mk_range_result_facts:
  assumes "mk_range_result args = Inr r"
  shows "rr_ok r \<and>
    (\<forall>(k, v) \<in> set (rr_to_dict r). v = (if k = ''schema_version'' then JStr range_result_schema else jget args k))"
proof -
  from assms obtain t s e index cnt where
    head: "check_result_head args = Inr ()" and
    bounds: "check_range (jget args ''target_n'') (jget args ''range_start'') (jget args ''range_end'') = Inr (t, s, e)" and
    body: "check_result_body args t s e = Inr (index, cnt)" and
    r: "r = \<lparr>rr_range_result_id = text_of (jget args ''range_result_id''),
         rr_result_kind = text_of (jget args ''result_kind''),
         rr_target_n = text_of (jget args ''target_n''),
         rr_range_start = text_of (jget args ''range_start''),
         rr_range_end = text_of (jget args ''range_end''),
         rr_coverage_id = text_of (jget args ''coverage_id''),
         rr_child_index = index,
         rr_partition_params_digest = text_of (jget args ''partition_params_digest''),
         rr_found_factor = text_option (jget args ''found_factor''),
         rr_cofactor = text_option (jget args ''cofactor''),
         rr_checked_divisor_count = cnt,
         rr_executor_summary = object_of (jget args ''executor_summary''),
         rr_created_at = text_of (jget args ''created_at'')\<rparr>"
    by (auto simp: mk_range_result_def res_simps)
  obtain i k where h: "jget args ''range_result_id'' = JStr i" "i \<noteq> []" "jget args ''result_kind'' = JStr k" "k \<in> set range_result_kinds"
    using head by (auto simp: check_result_head_def res_simps require_text_def is_nonempty_str_iff)
  obtain t' s' e' where b: "jget args ''target_n'' = JStr t'" "jget args ''range_start'' = JStr s'" "jget args ''range_end'' = JStr e'"
    using bounds by (auto simp: check_range_iff parse_decimal_field_iff)
  obtain c d a x where g: "jget args ''coverage_id'' = JStr c" "c \<noteq> []" "jget args ''partition_params_digest'' = JStr d" "is_sha256 d"
    "jget args ''created_at'' = JStr a" "a \<noteq> []" "jget args ''executor_summary'' = JObj x"
    using body by (auto simp: check_result_body_def res_simps require_text_def is_nonempty_str_iff require_digest_def
        split: json.splits elim: is_jobj.elims)
  have n: "jget args ''child_index'' = JInt index" "0 \<le> index" "jget args ''checked_divisor_count'' = JInt cnt" "0 \<le> cnt"
    using body by (auto simp: check_result_body_def res_simps require_int_def split: json.splits)
  have f: "if k = ''found_factor'' then check_found_factor (jget args ''found_factor'') (jget args ''cofactor'') t s e = Inr ()
      else jget args ''found_factor'' = JNull \<and> jget args ''cofactor'' = JNull"
    using body h(3) by (auto simp: check_result_body_def res_simps check_no_factor_def)
  then have ff: "factor_fields_ok r t s e" and
    o: "opt_str (rr_found_factor r) = jget args ''found_factor''" "opt_str (rr_cofactor r) = jget args ''cofactor''"
    using h(3) by (auto simp: factor_fields_ok_def r check_found_factor_iff split: if_splits)
  show ?thesis
    using bounds b h g n ff o by (auto simp: r rr_ok_def rr_to_dict_def)
qed

lemma rr_to_dict_kwargs:
  "bind_kwargs ''RangeResult'' (''schema_version'' # range_result_params) range_result_params (rr_to_dict r) = Inr ()"
  by (simp add: bind_kwargs_def rr_to_dict_def range_result_params_def dict_has_def)

lemma jget_rr:
  "jget (rr_to_dict r) ''range_result_id'' = JStr (rr_range_result_id r)"
  "jget (rr_to_dict r) ''result_kind'' = JStr (rr_result_kind r)"
  "jget (rr_to_dict r) ''target_n'' = JStr (rr_target_n r)"
  "jget (rr_to_dict r) ''range_start'' = JStr (rr_range_start r)"
  "jget (rr_to_dict r) ''range_end'' = JStr (rr_range_end r)"
  "jget (rr_to_dict r) ''coverage_id'' = JStr (rr_coverage_id r)"
  "jget (rr_to_dict r) ''child_index'' = JInt (rr_child_index r)"
  "jget (rr_to_dict r) ''partition_params_digest'' = JStr (rr_partition_params_digest r)"
  "jget (rr_to_dict r) ''found_factor'' = opt_str (rr_found_factor r)"
  "jget (rr_to_dict r) ''cofactor'' = opt_str (rr_cofactor r)"
  "jget (rr_to_dict r) ''checked_divisor_count'' = JInt (rr_checked_divisor_count r)"
  "jget (rr_to_dict r) ''executor_summary'' = JObj (rr_executor_summary r)"
  "jget (rr_to_dict r) ''created_at'' = JStr (rr_created_at r)"
  "jget (rr_to_dict r) ''schema_version'' = JStr range_result_schema"
  "dict_get (rr_to_dict r) ''schema_version'' = Some (JStr range_result_schema)"
  by (simp_all add: rr_to_dict_def jget_def)

text \<open>The well-formed results are those the constructor returns; it accepts the dictionary of each.\<close>

lemma mk_range_result_again:
  assumes "rr_ok r"
  shows "mk_range_result (rr_to_dict r) = Inr r"
proof -
  note f = assms[unfolded rr_ok_def]
  then obtain t s e where b: "check_range (JStr (rr_target_n r)) (JStr (rr_range_start r)) (JStr (rr_range_end r)) = Inr (t, s, e)"
    and ff: "factor_fields_ok r t s e" by blast
  have head: "check_result_head (rr_to_dict r) = Inr ()"
    using f by (auto simp: check_result_head_def jget_rr require_schema_def require_text_def arg_default_def)
  have "if rr_result_kind r = ''found_factor''
      then check_found_factor (opt_str (rr_found_factor r)) (opt_str (rr_cofactor r)) t s e = Inr ()
      else check_no_factor (opt_str (rr_found_factor r)) (opt_str (rr_cofactor r)) = Inr ()"
    using ff by (auto simp: factor_fields_ok_def check_found_factor_iff check_no_factor_def split: if_splits)
  then have "check_result_body (rr_to_dict r) t s e = Inr (rr_child_index r, rr_checked_divisor_count r)"
    using f by (simp add: check_result_body_def jget_rr require_text_def require_int_def require_digest_def split: if_splits)
  moreover have "text_option (opt_str v) = v" for v by (cases v) simp_all
  ultimately show ?thesis
    using head b by (simp add: mk_range_result_def rr_to_dict_kwargs jget_rr)
qed

section \<open>Printing and parsing\<close>

definition sorted_summary :: "range_result \<Rightarrow> range_result" where
  "sorted_summary r = r\<lparr>rr_executor_summary := sort_obj (rr_executor_summary r)\<rparr>"

lemma sort_obj_keys: "set (dict_keys (sort_obj d)) = set (dict_keys d)"
  by (auto simp: sort_obj_def image_image case_prod_beta)

lemma wf_rr_to_dict: "wf_obj (rr_executor_summary r) \<Longrightarrow> wf_obj (rr_to_dict r)"
  by (simp add: wf_obj_def rr_to_dict_def)

lemma jget_sort_obj: "distinct (map fst d) \<Longrightarrow> jget (sort_obj d) k = sort_members (jget d k)"
  by (auto simp: jget_def map_of_sort_obj map_of_map split: option.splits)

text \<open>The constructor only looks its arguments up, so their order does not matter.\<close>

lemma mk_range_result_cong:
  assumes "\<And>k. jget args k = jget args' k" and "\<And>k. dict_get args k = dict_get args' k"
    and "set (dict_keys args) \<subseteq> set (''schema_version'' # range_result_params)"
    and "set (dict_keys args') = set (dict_keys args)"
  shows "mk_range_result args' = mk_range_result args"
proof -
  have "find (\<lambda>k. k \<notin> set (''schema_version'' # range_result_params)) (dict_keys a) = None" if "set (dict_keys a) \<subseteq> set (''schema_version'' # range_result_params)" for a :: jobj
    using that by (auto simp: find_None_iff)
  then have "bind_kwargs c (''schema_version'' # range_result_params) range_result_params args' =
    bind_kwargs c (''schema_version'' # range_result_params) range_result_params args" for c
    using assms by (simp add: bind_kwargs_def dict_has_def)
  moreover have "check_result_head args' = check_result_head args"
    by (simp add: check_result_head_def arg_default_def assms(1,2)[symmetric])
  moreover have "check_result_body args' t s e = check_result_body args t s e" for t s e
    by (simp add: check_result_body_def assms(1)[symmetric])
  ultimately show ?thesis by (simp add: mk_range_result_def assms(1)[symmetric])
qed

text \<open>
  A range result that the constructor accepted, printed as canonical JSON,
  is parsed back to itself (its executor summary with sorted keys), whether it arrives as a text or as
  an object.
\<close>

theorem range_result_roundtrip:
  assumes "mk_range_result args = Inr r" and "wf_obj (rr_executor_summary r)"
  shows "parse_range_result (JStr (canonical_json (JObj (rr_to_dict r)))) = Inr (sorted_summary r) \<and>
    parse_range_result (JObj (rr_to_dict r)) = Inr r"
proof -
  let ?d = "rr_to_dict r" and ?s = "rr_to_dict (sorted_summary r)"
  have wf: "wf_json (JObj ?d)" "floats_ok (JObj ?d)" using wf_rr_to_dict[OF assms(2)] by (simp_all add: wf_obj_def)
  then have read: "loads (canonical_json (JObj ?d)) = Some (JObj (sort_obj ?d))"
    by (simp only: loads_canonical sort_members_obj)
  have dist: "distinct (dict_keys ?d)" by (simp add: rr_to_dict_def)
  have keys: "dict_keys ?s = dict_keys ?d" "set (dict_keys ?d) = set (''schema_version'' # range_result_params)"
    by (auto simp: rr_to_dict_def sorted_summary_def range_result_params_def)
  have get: "dict_get (sort_obj ?d) k = dict_get ?s k" for k
  proof -
    have "map (\<lambda>(k, v). (k, sort_members v)) ?d = ?s"
      by (simp add: rr_to_dict_def sorted_summary_def sort_members_obj del: sort_members.simps(2))
    then show ?thesis using map_of_sort_obj[OF dist] by simp
  qed
  then have jg: "jget (sort_obj ?d) k = jget ?s k" for k by (simp add: jget_def)
  have "rr_ok r" using mk_range_result_facts[OF assms(1)] by blast
  moreover have "factor_fields_ok (sorted_summary r) t s e = factor_fields_ok r t s e" for t s e
    by (simp add: factor_fields_ok_def sorted_summary_def)
  ultimately have "rr_ok (sorted_summary r)" by (simp add: rr_ok_def) (simp add: sorted_summary_def)
  note ok = mk_range_result_again[OF this] mk_range_result_again[OF \<open>rr_ok r\<close>]
  have "mk_range_result (sort_obj ?d) = Inr (sorted_summary r)"
    using ok(1) mk_range_result_cong[of ?s "sort_obj ?d"] get jg keys sort_obj_keys[of ?d] by simp
  moreover have "filter (\<lambda>f. \<not> dict_has (sort_obj ?d) f) range_result_required = []" "filter (\<lambda>f. \<not> dict_has ?d f) range_result_required = []"
    using keys sort_obj_keys[of ?d] by (simp_all add: dict_has_iff filter_empty_conv range_result_required_def)
  ultimately show ?thesis
    using ok(2) read by (simp add: parse_range_result_def structured_json_object_def)
qed

section \<open>What the recheck accepts\<close>

lemma first_divisor_None: "first_divisor t d k = None \<longleftrightarrow> (\<forall>x. d \<le> x \<and> x < d + int k \<longrightarrow> \<not> x dvd t)"
proof (induction k arbitrary: d)
  case (Suc k)
  have "(\<forall>x. d \<le> x \<and> x < d + int (Suc k) \<longrightarrow> \<not> x dvd t) \<longleftrightarrow>
      \<not> d dvd t \<and> (\<forall>x. d + 1 \<le> x \<and> x < d + 1 + int k \<longrightarrow> \<not> x dvd t)"
    by (auto simp: order_le_less zless_imp_add1_zle dest: zless_imp_add1_zle)
  then show ?case by (simp add: Suc mod_eq_0_iff_dvd)
qed auto

definition no_divisor_between :: "int \<Rightarrow> int \<Rightarrow> int \<Rightarrow> bool" where
  "no_divisor_between t s e \<longleftrightarrow> (\<forall>d. s \<le> d \<and> d \<le> e \<longrightarrow> \<not> d dvd t)"

lemma judge_no_factor_iff:
  "s \<le> e \<Longrightarrow> rv_accepted (judge_no_factor budget t s e) \<longleftrightarrow> e - s + 1 \<le> budget \<and> no_divisor_between t s e"
proof -
  assume se: "s \<le> e"
  then have "first_divisor t s (nat (e - s + 1)) = None \<longleftrightarrow> no_divisor_between t s e"
    by (auto simp: first_divisor_None no_divisor_between_def)
  then show ?thesis
    by (auto simp: judge_no_factor_def Let_def range_rejected_def range_accepted_def split: option.splits)
qed

lemma judge_found_factor_iff:
  "rv_accepted (judge_found_factor t s e f c) \<longleftrightarrow> 1 < f \<and> f < t \<and> s \<le> f \<and> f \<le> e \<and> f * c = t"
  by (auto simp: judge_found_factor_def range_rejected_def range_accepted_def mod_eq_0_iff_dvd) (metis dvd_triv_left)

definition aligned :: "jobj \<Rightarrow> range_input \<Rightarrow> bool" where
  "aligned body child \<longleftrightarrow>
     jget body ''target_n'' = JStr (sr_target_n child) \<and> jget body ''range_start'' = JStr (sr_range_start child) \<and>
     jget body ''range_end'' = JStr (sr_range_end child) \<and> jget body ''coverage_id'' = JStr (sr_coverage_id child) \<and>
     jget body ''partition_params_digest'' = JStr (sr_partition_params_digest child) \<and>
     jget body ''child_index'' = JInt (sr_child_index child)"

lemma jget_sr:
  "jget (sr_to_dict x) ''target_n'' = JStr (sr_target_n x)" "jget (sr_to_dict x) ''range_start'' = JStr (sr_range_start x)"
  "jget (sr_to_dict x) ''range_end'' = JStr (sr_range_end x)" "jget (sr_to_dict x) ''coverage_id'' = JStr (sr_coverage_id x)"
  "jget (sr_to_dict x) ''child_index'' = JInt (sr_child_index x)"
  "jget (sr_to_dict x) ''partition_params_digest'' = JStr (sr_partition_params_digest x)"
  by (simp_all add: sr_to_dict_def sr_digest_body_def jget_def)

lemma alignment_iff:
  assumes "\<not> not_natural (jget body ''child_index'')"
  shows "check_child_input_alignment body child = None \<longleftrightarrow> aligned body child"
proof -
  obtain i where "jget body ''child_index'' = JInt i" using assms by (cases "jget body ''child_index''") auto
  then show ?thesis
    by (auto simp: check_child_input_alignment_def alignment_checks_def first_verdict_None jget_sr aligned_def py_eq_def[of "JInt _"])
qed

lemma envelope_facts:
  assumes "check_range_result_envelope body = None"
  shows "\<not> not_natural (jget body ''child_index'') \<and> jget body ''result_kind'' \<in> JStr ` set range_result_kinds"
  using assms by (auto simp: check_range_result_envelope_def Let_def first_verdict_None)

text \<open>A check that gives a verdict rejects.\<close>

definition rejection :: "range_verification option \<Rightarrow> bool" where
  "rejection r \<longleftrightarrow> (\<forall>v. r = Some v \<longrightarrow> \<not> rv_accepted v)"

lemma not_accepted [simp]: "\<not> rv_accepted (range_rejected r m d)"
  by (simp add: range_rejected_def)

lemma rejection_reject_if [simp]: "rejection (reject_if b r m d)"
  by (simp add: rejection_def reject_if_def)

lemma rejection_first: "\<forall>r \<in> set rs. rejection r \<Longrightarrow> rejection (first_verdict rs)"
  by (induction rs rule: first_verdict.induct) (auto simp: rejection_def)

lemma rejection_envelope: "rejection (check_range_result_envelope body)"
  unfolding check_range_result_envelope_def Let_def by (rule rejection_first) auto

lemma rejection_alignment: "rejection (check_child_input_alignment body child)"
  unfolding check_child_input_alignment_def by (rule rejection_first) auto

lemma verify_range_body_ok:
  assumes "verify_range_body body child budget = Inr v" "rv_accepted v"
  shows "aligned body child \<and>
    (jget body ''result_kind'' = JStr ''found_factor'' \<and> verify_found_factor body = Inr v \<or>
     jget body ''result_kind'' = JStr ''no_factor_in_range'' \<and> verify_no_factor body budget = Inr v)"
proof -
  have e: "check_range_result_envelope body = None" and a: "check_child_input_alignment body child = None"
    using assms rejection_envelope[of body] rejection_alignment[of body child]
    by (auto simp: verify_range_body_def rejection_def split: option.splits)
  then have "aligned body child" using envelope_facts alignment_iff by blast
  then show ?thesis using assms by (auto simp: verify_range_body_def e a split: if_splits)
qed

lemma parse_positive_Some: "parse_positive_int v = Inr (Some i) \<Longrightarrow> \<exists>s. v = JStr s \<and> int_of_decimal s = Inr i \<and> 1 \<le> i"
  by (auto simp: parse_positive_int_def res_simps split: json.splits if_splits)

lemma child_bounds:
  assumes "mk_range_input h x = Inr child"
  obtains t s e where "range_of child = (s, e)" "decimal_of (sr_target_n child) = t" "2 \<le> s" "s \<le> e" "e \<le> isqrt t"
    "parse_positive_int (JStr (sr_target_n child)) = Inr (Some t)" "parse_positive_int (JStr (sr_range_start child)) = Inr (Some s)"
    "parse_positive_int (JStr (sr_range_end child)) = Inr (Some e)" "2 \<le> t"
proof -
  from mk_range_input_ok[OF assms] obtain t s e where
    b: "check_range (JStr (sr_target_n child)) (JStr (sr_range_start child)) (JStr (sr_range_end child)) = Inr (t, s, e)"
    by auto
  then show ?thesis
    by (intro that[of s e t])
      (auto simp: check_range_iff parse_decimal_iff range_of_def decimal_of_ok parse_positive_int_def)
qed

lemma verify_found_factor_ok:
  assumes "verify_found_factor body = Inr v" "rv_accepted v"
    and p: "parse_positive_int (jget body ''target_n'') = Inr (Some t)" "parse_positive_int (jget body ''range_start'') = Inr (Some s)"
      "parse_positive_int (jget body ''range_end'') = Inr (Some e)"
  shows "\<exists>f c. jget body ''found_factor'' = JStr f \<and> jget body ''cofactor'' = JStr c \<and>
    rv_accepted (judge_found_factor t s e (decimal_of f) (decimal_of c))"
proof -
  obtain fo co where o: "parse_positive_int (jget body ''found_factor'') = Inr fo" "parse_positive_int (jget body ''cofactor'') = Inr co"
    using assms by (auto simp: verify_found_factor_def res_simps)
  then obtain f c where "fo = Some f" "co = Some c" "v = judge_found_factor t s e f c"
    using assms by (cases fo; cases co) (auto simp: verify_found_factor_def)
  then show ?thesis using o assms(2) by (auto simp: decimal_of_ok dest!: parse_positive_Some)
qed

lemma recheck_accepted:
  assumes child: "mk_range_input h x = Inr child" and v: "verify_range_result result child budget = Inr v" "rv_accepted v"
    and bounds: "range_of child = (s, e)" "decimal_of (sr_target_n child) = t"
  shows "\<exists>body. result = JObj body \<and> aligned body child \<and>
    (jget body ''result_kind'' = JStr ''no_factor_in_range'' \<and> e - s + 1 \<le> budget \<and> no_divisor_between t s e \<or>
     jget body ''result_kind'' = JStr ''found_factor'' \<and>
       (\<exists>f c. jget body ''found_factor'' = JStr f \<and> jget body ''cofactor'' = JStr c \<and> 1 < decimal_of f \<and> decimal_of f < t \<and>
          s \<le> decimal_of f \<and> decimal_of f \<le> e \<and> decimal_of f * decimal_of c = t))"
proof -
  obtain body where body: "result = JObj body" "verify_range_body body child budget = Inr v"
    using v by (auto simp: verify_range_result_def split: json.splits)
  note al = verify_range_body_ok[OF body(2) v(2)]
  then have p: "parse_positive_int (jget body ''target_n'') = Inr (Some t)" "parse_positive_int (jget body ''range_start'') = Inr (Some s)"
    "parse_positive_int (jget body ''range_end'') = Inr (Some e)" "s \<le> e"
    using child_bounds[OF child] bounds by (auto simp: aligned_def)
  have none: "jget body ''result_kind'' = JStr ''no_factor_in_range'' \<Longrightarrow> e - s + 1 \<le> budget \<and> no_divisor_between t s e"
    using al p v(2) by (auto simp: verify_no_factor_def judge_no_factor_iff split: if_splits)
  have "\<exists>f c. jget body ''found_factor'' = JStr f \<and> jget body ''cofactor'' = JStr c \<and> 1 < decimal_of f \<and> decimal_of f < t \<and>
      s \<le> decimal_of f \<and> decimal_of f \<le> e \<and> decimal_of f * decimal_of c = t"
    if "jget body ''result_kind'' = JStr ''found_factor''"
    using al that verify_found_factor_ok[OF _ v(2) p(1-3)] by (auto simp: judge_found_factor_iff)
  then show ?thesis using body(1) al none by blast
qed

text \<open>
  C32 recheck_sound: a range result that the recheck accepts against its child input tells the truth. Either
  it says that there is no factor, and then no number of the range divides the target and the range is
  within the verifier's budget; or it names a factor inside the range, and then factor and cofactor
  multiply to the target and the factor is not trivial.
\<close>

theorem recheck_sound:
  assumes child: "mk_range_input h x = Inr child" and v: "verify_range_result result child budget = Inr v" "rv_accepted v"
    and bounds: "range_of child = (s, e)" "decimal_of (sr_target_n child) = t"
  shows "\<exists>body. result = JObj body \<and> aligned body child \<and>
    (jget body ''result_kind'' = JStr ''no_factor_in_range'' \<and> e - s + 1 \<le> budget \<and> no_divisor_between t s e \<or>
     jget body ''result_kind'' = JStr ''found_factor'' \<and>
       (\<exists>f c. jget body ''found_factor'' = JStr f \<and> jget body ''cofactor'' = JStr c \<and> 1 < decimal_of f \<and> decimal_of f < t \<and>
          s \<le> decimal_of f \<and> decimal_of f \<le> e \<and> decimal_of f * decimal_of c = t))"
  using assms by (rule recheck_accepted)

lemma recheck_verdict:
  assumes r: "mk_range_result args = Inr r" and child: "mk_range_input h x = Inr child" and "1 \<le> budget"
    and bounds: "range_of child = (s, e)" "decimal_of (sr_target_n child) = t"
  shows "\<exists>v. verify_range_result (JObj (rr_to_dict r)) child budget = Inr v \<and>
    (rv_accepted v \<longleftrightarrow> aligned (rr_to_dict r) child \<and>
       (rr_result_kind r = ''found_factor'' \<or> e - s + 1 \<le> budget \<and> no_divisor_between t s e))"
proof -
  let ?b = "rr_to_dict r"
  have ok: "rr_ok r" using mk_range_result_facts[OF r] by blast
  then obtain t' s' e' where
    cr: "check_range (JStr (rr_target_n r)) (JStr (rr_range_start r)) (JStr (rr_range_end r)) = Inr (t', s', e')" and
    ff: "factor_fields_ok r t' s' e'"
    by (auto simp: rr_ok_def)
  have nonempty: "rr_target_n r \<noteq> []" "rr_range_start r \<noteq> []" "rr_range_end r \<noteq> []" "rr_partition_params_digest r \<noteq> []"
    using cr ok by (auto simp: check_range_iff parse_decimal_iff isdecimal_def rr_ok_def is_sha256_def)
  have env: "check_range_result_envelope ?b = None"
    using ok ff nonempty
    by (auto simp: check_range_result_envelope_def Let_def first_verdict_None jget_rr envelope_strings_def rr_ok_def
        range_result_kinds_def factor_fields_ok_def)
  show ?thesis
  proof (cases "aligned ?b child")
    case False
    then obtain v where "check_child_input_alignment ?b child = Some v"
      using alignment_iff envelope_facts[OF env] by (cases "check_child_input_alignment ?b child") auto
    then show ?thesis
      using rejection_alignment[of ?b child] False
      by (simp add: verify_range_result_def verify_range_body_def env rejection_def)
  next
    case True
    then have a: "check_child_input_alignment ?b child = None" using alignment_iff envelope_facts[OF env] by blast
    have p: "parse_positive_int (JStr (rr_target_n r)) = Inr (Some t)" "parse_positive_int (JStr (rr_range_start r)) = Inr (Some s)"
      "parse_positive_int (JStr (rr_range_end r)) = Inr (Some e)" "s \<le> e" "t' = t" "s' = s" "e' = e"
      using child_bounds[OF child] bounds True cr
      by (auto simp: aligned_def jget_rr check_range_iff parse_decimal_iff range_of_def decimal_of_ok)
    show ?thesis
    proof (cases "rr_result_kind r = ''found_factor''")
      case found: True
      then obtain f c fv cv where "rr_found_factor r = Some f" "rr_cofactor r = Some c"
        "parse_decimal_integer ''found_factor'' f 2 = Inr fv" "parse_decimal_integer ''cofactor'' c 2 = Inr cv"
        "s \<le> fv" "fv \<le> e" "fv < t" "fv * cv = t"
        using ff p by (auto simp: factor_fields_ok_def)
      moreover from this have "parse_positive_int (JStr f) = Inr (Some fv)" "parse_positive_int (JStr c) = Inr (Some cv)" "1 < fv"
        by (auto intro!: parse_positive_ok simp: parse_decimal_iff)
      ultimately show ?thesis
        using found True p
        by (simp add: verify_range_result_def verify_range_body_def env a jget_rr verify_found_factor_def judge_found_factor_iff)
    next
      case none: False
      then have "rr_result_kind r = ''no_factor_in_range''" "rr_found_factor r = None" "rr_cofactor r = None"
        using ok ff by (auto simp: rr_ok_def range_result_kinds_def factor_fields_ok_def)
      then show ?thesis
        using True p assms(3)
        by (simp add: verify_range_result_def verify_range_body_def env a jget_rr verify_no_factor_def judge_no_factor_iff)
    qed
  qed
qed

text \<open>
  C33 recheck_exact: for a result and a child input that their constructors accepted the recheck always
  returns a verdict, and it accepts exactly when the result belongs to the child and either names a
  factor or claims that a range no longer than the budget has none, and no number of the range divides
  the target. (A false factor cannot be constructed, so that it is not checked again is no loss.)
\<close>

theorem recheck_exact:
  assumes r: "mk_range_result args = Inr r" and child: "mk_range_input h x = Inr child" and "1 \<le> budget"
    and bounds: "range_of child = (s, e)" "decimal_of (sr_target_n child) = t"
  shows "\<exists>v. verify_range_result (JObj (rr_to_dict r)) child budget = Inr v \<and>
    (rv_accepted v \<longleftrightarrow> aligned (rr_to_dict r) child \<and>
       (rr_result_kind r = ''found_factor'' \<or> e - s + 1 \<le> budget \<and> no_divisor_between t s e))"
  using assms by (rule recheck_verdict)


section \<open>Two findings\<close>

text \<open>
  The parser accepts the decimal digits of every script, and its test for a leading zero knows only the
  ASCII zero: the texts ARABIC-INDIC FOUR and ARABIC-INDIC ZERO FOUR are two more names of the number 4.
\<close>

lemma unicode_digits_accepted:
  "parse_decimal_integer f [CHR 0xD9, CHR 0xA4] 2 = Inr 4" "parse_decimal_integer f [CHR 0xD9, CHR 0xA0, CHR 0xD9, CHR 0xA4] 2 = Inr 4"
proof -
  have c: "code_points [CHR 0xD9, CHR 0xA4] = [1636]" "code_points [CHR 0xD9, CHR 0xA0, CHR 0xD9, CHR 0xA4] = [1632, 1636]"
    by (simp_all add: Let_def continuation_def)
  have d: "decimal_value 1636 = Some 4" "decimal_value 1632 = Some 0"
    by (simp_all add: decimal_value_def decimal_zeros_def)
  show "parse_decimal_integer f [CHR 0xD9, CHR 0xA4] 2 = Inr 4"
    "parse_decimal_integer f [CHR 0xD9, CHR 0xA0, CHR 0xD9, CHR 0xA4] 2 = Inr 4"
    unfolding parse_decimal_integer_def isdecimal_def leading_zero_def int_of_decimal_def c
    by (simp_all add: d max_str_digits_def)
qed

text \<open>A factor of more digits than \<open>int(text)\<close> takes makes the recheck raise; it is not rejected.\<close>

lemma oversized_factor_raises:
  assumes "parse_positive_int (jget body ''target_n'') = Inr t" "parse_positive_int (jget body ''range_start'') = Inr s"
    "parse_positive_int (jget body ''range_end'') = Inr e" "jget body ''found_factor'' = JStr f"
    and "isdecimal f" "\<not> leading_zero f" "length (code_points f) > max_str_digits"
  shows "verify_found_factor body = Inl (ValueError ''Exceeds the limit (4300 digits) for integer string conversion'')"
  using assms by (simp add: verify_found_factor_def parse_positive_int_def int_of_decimal_def)

section \<open>Examples\<close>

definition sample_result :: range_result where
  "sample_result =
     \<lparr>rr_range_result_id = [CHR ''r''], rr_result_kind = ''found_factor'', rr_target_n = show_int 91,
      rr_range_start = show_int 2, rr_range_end = show_int 9, rr_coverage_id = [CHR ''c''], rr_child_index = 0,
      rr_partition_params_digest = ''sha256:0'', rr_found_factor = Some (show_int 7), rr_cofactor = Some (show_int 13),
      rr_checked_divisor_count = 6, rr_executor_summary = [], rr_created_at = [CHR ''t'']\<rparr>"

definition sample_range :: range_input where
  "sample_range = range_input_for (show_int 91) [CHR ''c''] 1 ''sha256:0'' (0, 2, 9)"

lemma parse_numeral: "0 \<le> i \<Longrightarrow> i < 100 \<Longrightarrow> m \<le> i \<Longrightarrow> parse_decimal_integer f (show_int i) m = Inr i"
proof -
  assume i: "0 \<le> i" "i < 100" "m \<le> i"
  then have "length (show_nat (nat i)) \<le> 2" by (intro show_nat_length) auto
  then show ?thesis using i by (intro parse_decimal_show) (auto simp: show_int_def max_str_digits_def)
qed

lemma isqrt_91: "isqrt 91 = 9"
  by (simp add: isqrt.simps)

lemma sample_range_ok: "\<exists>child. mk_range_input (\<lambda>_. ''0'') sample_range = Inr child \<and>
    range_of child = (2, 9) \<and> decimal_of (sr_target_n child) = 91 \<and> aligned (rr_to_dict sample_result) child"
proof -
  have "\<exists>y. mk_range_input (\<lambda>_. ''0'') (range_input_for (show_int 91) [CHR ''c''] (int 1) ''sha256:0'' (0, 2, 9)) = Inr y"
    by (rule range_input_exists[of _ 91]) (simp_all add: parse_numeral isqrt_91 is_sha256_def)
  then obtain y where y: "mk_range_input (\<lambda>_. ''0'') (range_input_for (show_int 91) [CHR ''c''] 1 ''sha256:0'' (0, 2, 9)) = Inr y"
    by auto
  note f = mk_range_input_for[OF y]
  have "sr_range_start y = show_int 2" "sr_range_end y = show_int 9"
    using mk_range_input_ok[OF y] by (auto simp: range_input_for_def)
  moreover have "decimal_of (show_int 91) = 91"
    using parse_numeral[of 91 2 f] by (auto simp: decimal_of_ok dest: parse_decimal_ok)
  ultimately show ?thesis
    using y f by (auto simp: sample_range_def aligned_def jget_rr sample_result_def)
qed

lemma sample_result_ok: "mk_range_result (rr_to_dict sample_result) = Inr sample_result"
proof (rule mk_range_result_again)
  have "check_range (JStr (show_int 91)) (JStr (show_int 2)) (JStr (show_int 9)) = Inr (91, 2, 9)"
    by (simp add: check_range_iff parse_numeral isqrt_91)
  moreover have "factor_fields_ok sample_result 91 2 9"
    by (simp add: factor_fields_ok_def sample_result_def parse_numeral)
  ultimately show "rr_ok sample_result"
    by (auto simp: rr_ok_def sample_result_def range_result_kinds_def is_sha256_def)
qed

lemma range_result_roundtrip_witness:
  "parse_range_result (JStr (canonical_json (JObj (rr_to_dict sample_result)))) = Inr (sorted_summary sample_result)"
  using range_result_roundtrip[OF sample_result_ok] by (simp add: wf_obj_def sample_result_def)

lemma recheck_exact_witness:
  "\<exists>child v. mk_range_input (\<lambda>_. ''0'') sample_range = Inr child \<and>
     verify_range_result (JObj (rr_to_dict sample_result)) child 1 = Inr v \<and> rv_accepted v"
proof -
  obtain child where c: "mk_range_input (\<lambda>_. ''0'') sample_range = Inr child" "range_of child = (2, 9)"
    "decimal_of (sr_target_n child) = 91" "aligned (rr_to_dict sample_result) child"
    using sample_range_ok by blast
  from recheck_exact[OF sample_result_ok c(1) _ c(2,3), of 1] c show ?thesis by (auto simp: sample_result_def)
qed

lemma recheck_sound_witness:
  "\<exists>child v f. mk_range_input (\<lambda>_. ''0'') sample_range = Inr child \<and>
     verify_range_result (JObj (rr_to_dict sample_result)) child 1 = Inr v \<and> f dvd 91 \<and> 1 < f \<and> f < (91 :: int)"
proof -
  obtain child where c: "mk_range_input (\<lambda>_. ''0'') sample_range = Inr child" "range_of child = (2, 9)"
    "decimal_of (sr_target_n child) = 91" "aligned (rr_to_dict sample_result) child"
    using sample_range_ok by blast
  obtain v where v: "verify_range_result (JObj (rr_to_dict sample_result)) child 1 = Inr v" "rv_accepted v"
    using recheck_verdict[OF sample_result_ok c(1) _ c(2,3), of 1] c(4) by (auto simp: sample_result_def)
  have "jget (rr_to_dict sample_result) ''result_kind'' = JStr ''found_factor''" by (simp add: jget_rr sample_result_def)
  with recheck_sound[OF c(1) v c(2,3)] obtain f d where f: "1 < f" "f < 91" "f * d = (91 :: int)" by auto
  have "f dvd f * d" by simp
  then show ?thesis using c(1) v(1) f by metis
qed

end
