(* ===== verification/Fact_Split.thy ===== *)
theory Fact_Split
  imports Fact_Validator
begin

text \<open>
  The rest of \<open>plugins/factorization/split_strategy.py\<close>: the decomposition proposal and the merge plan that
  the plugin builds from a partition, and the split strategy action (\<open>fs_\<close> FactorIntegerSubject, \<open>sp_\<close>
  FactorizationSplitPlanResult, \<open>ac_\<close> FactorizationSplitStrategyActionResult). \<open>str.isalnum\<close> on a code
  point is an argument, \<open>alnum\<close>.
\<close>

section \<open>The subject\<close>

record factor_subject =
  fs_subject_id :: string
  fs_task_id :: string
  fs_unit_id :: string
  fs_target_n :: string
  fs_source_kind :: string
  fs_source_ref :: jobj
  fs_requested_output :: string
  fs_created_at :: string
  fs_target_n_digest :: "string option"
  fs_schema_version :: string

definition fs_to_dict :: "factor_subject \<Rightarrow> jobj" where
  "fs_to_dict x =
     [(''schema_version'', JStr (fs_schema_version x)),
      (''subject_id'', JStr (fs_subject_id x)),
      (''task_id'', JStr (fs_task_id x)),
      (''unit_id'', JStr (fs_unit_id x)),
      (''target_n'', JStr (fs_target_n x)),
      (''target_n_digest'', opt_str (fs_target_n_digest x)),
      (''source_kind'', JStr (fs_source_kind x)),
      (''source_ref'', JObj (fs_source_ref x)),
      (''requested_output'', JStr (fs_requested_output x)),
      (''created_at'', JStr (fs_created_at x))]"

section \<open>Identifiers\<close>

definition child_logical_key :: "range_input \<Rightarrow> string" where
  "child_logical_key r = ''range:'' @ sr_coverage_id r @ '':'' @ show_int (sr_child_index r)"

definition range_slot_key :: "range_input \<Rightarrow> string" where
  "range_slot_key r = child_logical_key r @ '':range_result''"

definition stable_id_component :: "(nat \<Rightarrow> bool) \<Rightarrow> string \<Rightarrow> string" where
  "stable_id_component alnum v = concat (map (\<lambda>c. if alnum c \<or> c = 95 then utf8 c else ''_'') (code_points v))"

definition remove_sha256 :: "string \<Rightarrow> string" where
  "remove_sha256 d = (if take 7 d = ''sha256:'' then drop 7 d else d)"

definition derive_child_unit_id :: "(nat \<Rightarrow> bool) \<Rightarrow> string \<Rightarrow> string \<Rightarrow> string \<Rightarrow> string" where
  "derive_child_unit_id alnum proposal_digest parent_unit_id key =
     ''unit_'' @ stable_id_component alnum parent_unit_id @ ''_'' @ stable_id_component alnum (remove_sha256 proposal_digest) @
     ''_'' @ stable_id_component alnum key"

section \<open>The proposal\<close>

definition child_plugin_payload :: "range_input \<Rightarrow> jobj" where
  "child_plugin_payload r =
     [(''schema_version'', JStr ''factorization.factor_search_range_plugin_payload.v1''),
      (''summary'', JObj
        [(''coverage_id'', JStr (sr_coverage_id r)), (''child_index'', JInt (sr_child_index r)),
         (''child_count'', JInt (sr_child_count r)), (''range_digest'', opt_str (sr_range_digest r)),
         (''partition_params_digest'', JStr (sr_partition_params_digest r))]),
      (''validation_requirements'', JObj
        [(''bounded_range_required'', JBool True), (''range_input_digest_required'', JBool True),
         (''coverage_id_consistency_required'', JBool True), (''partition_params_digest_consistency_required'', JBool True),
         (''range_result_schema_version'', JStr range_result_schema)])]"

definition factor_child_spec :: "range_input \<Rightarrow> jobj" where
  "factor_child_spec r =
     [(''child_logical_key'', JStr (child_logical_key r)),
      (''unit_type'', JStr ''factor_search_range''),
      (''input_bindings'', JObj [(''range_input'', JObj
        [(''kind'', JStr ''constant''), (''schema_version'', JStr ''factorization.factor_search_range_input.v1''),
         (''body'', JObj (sr_to_dict r)), (''body_digest'', opt_str (sr_range_digest r))])]),
      (''required_outputs'', JArr [JStr ''range_result'']),
      (''output_contract_refs'', JObj [(''range_result'', JObj
        [(''output_contract_id'', JStr ''factorization.range_result.contract.v1''),
         (''schema_ref'', JObj (schema_ref range_result_schema))])]),
      (''validator_policy_id'', JStr ''factorization.range_result.validator.v1''),
      (''budget_limit'', JNull),
      (''deadline'', JNull),
      (''weight'', JFloat ''1.0''),
      (''required_capabilities'', JObj [(''executor'', JStr ''mock_ai''), (''bounded_factor_search'', JBool True)]),
      (''plugin_payload'', JObj (child_plugin_payload r)),
      (''promotion_guard_ref'', JNull)]"

definition proposal_merge_slot :: "range_input \<Rightarrow> jobj" where
  "proposal_merge_slot r =
     [(''slot_id'', JStr (range_slot_key r)), (''child_key'', JStr (child_logical_key r)),
      (''child_output_name'', JStr ''range_result''), (''schema_ref'', JObj (schema_ref range_result_schema)),
      (''required'', JBool True), (''missing_policy'', JStr ''block_merge'')]"

text \<open>What a split is made for: the identities that the caller passes in.\<close>

record split_request =
  sq_canonical_selection_id :: string
  sq_canonical_output_bundle_digest :: string
  sq_plugin_descriptor_digest :: string
  sq_expansion_scope_hash :: string
  sq_expansion_decision_id :: string
  sq_created_at :: string

definition proposal_header :: "factor_subject \<Rightarrow> split_request \<Rightarrow> partition_result \<Rightarrow> string \<Rightarrow> string \<Rightarrow> jobj" where
  "proposal_header subject q p proposal_id proposal_digest =
     [(''proposal_id'', JStr proposal_id),
      (''proposal_schema_version'', JStr ''phase4.decomposition_proposal.v1''),
      (''task_id'', JStr (fs_task_id subject)),
      (''parent_unit_id'', JStr (fs_unit_id subject)),
      (''canonical_selection_id'', JStr (sq_canonical_selection_id q)),
      (''canonical_output_bundle_digest'', JStr (sq_canonical_output_bundle_digest q)),
      (''plugin_id'', JStr ''factorization''),
      (''plugin_version'', JStr ''0.1.0''),
      (''plugin_descriptor_digest'', JStr (sq_plugin_descriptor_digest q)),
      (''split_strategy_id'', JStr partition_strategy_id),
      (''split_strategy_params_digest'', opt_str (pp_params_digest (pr_params p))),
      (''expansion_scope_hash'', JStr (sq_expansion_scope_hash q)),
      (''proposal_digest'', JStr proposal_digest),
      (''created_at'', JStr (sq_created_at q))]"

definition factor_expected_output :: "jobj list \<Rightarrow> json \<Rightarrow> jobj" where
  "factor_expected_output slots first_slot_id =
     [(''output_name'', JStr ''prime_factorization_result''),
      (''schema_ref'', JObj (schema_ref prime_factorization_schema)),
      (''resolution_kind'', JStr ''merge_plan_output''),
      (''child_key'', JNull),
      (''child_output_name'', JNull),
      (''merge_slot_id'', first_slot_id),
      (''merge_slot_policy'', JStr ''factor_witness_or_all_ranges''),
      (''merge_slot_count'', JInt (int (length slots))),
      (''merge_slot_keys'', JArr (map (\<lambda>s. jget s ''slot_id'') slots)),
      (''required'', JBool True)]"

definition factor_guard_evidence :: "partition_result \<Rightarrow> jobj" where
  "factor_guard_evidence p =
     [(''typed_io_checked'', JBool True), (''independently_schedulable_checked'', JBool True),
      (''validator_policy_checked'', JBool True), (''output_contract_checked'', JBool True),
      (''no_freeform_thought_checked'', JBool True), (''max_depth_checked'', JBool True),
      (''max_children_checked'', JBool True), (''evidence_ref'', JNull),
      (''factorization_coverage'', JObj (cv_to_dict (pr_coverage_proof p)))]"

definition build_proposal ::
  "factor_subject \<Rightarrow> split_request \<Rightarrow> partition_result \<Rightarrow> string \<Rightarrow> string \<Rightarrow> decomposition_proposal res" where
  "build_proposal subject q p proposal_id proposal_digest =
     (case map proposal_merge_slot (pr_ranges p) of
        [] \<Rightarrow> Inl (IndexError ''list index out of range'')
      | slot # slots \<Rightarrow>
          mk_proposal
            \<lparr>dp_proposal_header = proposal_header subject q p proposal_id proposal_digest,
             dp_child_specs = map factor_child_spec (pr_ranges p), dp_dependency_edges = [],
             dp_expected_outputs = [factor_expected_output (slot # slots) (jget slot ''slot_id'')],
             dp_merge_slots = slot # slots, dp_promotion_guard_evidence = factor_guard_evidence p,
             dp_schema_version = ''phase4.decomposition_proposal.v1''\<rparr>)"

section \<open>The merge plan\<close>

definition factor_required_slot :: "hash \<Rightarrow> range_input \<Rightarrow> string \<Rightarrow> jobj" where
  "factor_required_slot h r child_unit_id =
     [(''slot_key'', JStr (range_slot_key r)), (''source_child_logical_key'', JStr (child_logical_key r)),
      (''source_child_unit_id'', JStr child_unit_id), (''source_output_name'', JStr ''range_result''),
      (''output_schema_ref'', JObj (schema_ref range_result_schema)),
      (''output_schema_digest'', JStr (digest_json h (JObj (schema_ref range_result_schema)))),
      (''required'', JBool True), (''missing_policy'', JStr ''block_merge'')]"

definition merge_summary :: "partition_result \<Rightarrow> jobj" where
  "merge_summary p =
     [(''merge_policy'', JStr ''factor_witness_or_all_ranges''),
      (''target_n'', JStr (pp_target_n (pr_params p))),
      (''coverage_id'', JStr (cv_coverage_id (pr_coverage_proof p))),
      (''range_count'', JInt (int (length (pr_ranges p)))),
      (''ranges_digest'', JStr (cv_ranges_digest (pr_coverage_proof p))),
      (''partition_params_digest'', opt_str (pp_params_digest (pr_params p)))]"

definition merge_plugin_defined_body :: "partition_result \<Rightarrow> jobj" where
  "merge_plugin_defined_body p =
     [(''schema_version'', JStr ''factorization.merge_plan_plugin_payload.v2''),
      (''summary'', JObj (merge_summary p)),
      (''validation_requirements'', JObj
        [(''factorization_coverage_check_required'', JBool True), (''coverage_id_consistency_required'', JBool True),
         (''partition_params_digest_consistency_required'', JBool True), (''verified_factor_witness_sufficient'', JBool True),
         (''all_required_range_slots_required_for_no_factor'', JBool True),
         (''range_result_schema_version'', JStr range_result_schema)])]"

definition factor_merge_header :: "factor_subject \<Rightarrow> split_request \<Rightarrow> string \<Rightarrow> string \<Rightarrow> string \<Rightarrow> jobj" where
  "factor_merge_header subject q proposal_id plan_id plan_digest =
     [(''merge_plan_id'', JStr plan_id), (''merge_plan_schema_version'', JStr ''phase4.merge_plan.v1''),
      (''task_id'', JStr (fs_task_id subject)), (''parent_unit_id'', JStr (fs_unit_id subject)),
      (''canonical_selection_id'', JStr (sq_canonical_selection_id q)), (''decomposition_proposal_id'', JStr proposal_id),
      (''expansion_decision_id'', JStr (sq_expansion_decision_id q)), (''created_by_plugin_id'', JStr ''factorization''),
      (''created_by_plugin_version'', JStr ''0.1.0''), (''merge_plan_digest'', JStr plan_digest),
      (''created_at'', JStr (sq_created_at q))]"

definition factor_output_mapping :: "hash \<Rightarrow> json list \<Rightarrow> jobj" where
  "factor_output_mapping h slot_keys =
     [(''parent_output_name'', JStr ''prime_factorization_result''), (''resolution_kind'', JStr ''merge_plan_output''),
      (''merge_slot_keys'', JArr slot_keys),
      (''result_schema_ref'', JObj (schema_ref prime_factorization_schema)),
      (''result_schema_digest'', JStr (digest_json h (JObj (schema_ref prime_factorization_schema))))]"

definition build_merge_plan ::
  "hash \<Rightarrow> factor_subject \<Rightarrow> split_request \<Rightarrow> string \<Rightarrow> partition_result \<Rightarrow> (string, string) dict \<Rightarrow> string \<Rightarrow> string \<Rightarrow> merge_plan res" where
  "build_merge_plan h subject q proposal_id p unit_ids plan_id plan_digest =
     bindE (mapE (\<lambda>r. case dict_get unit_ids (child_logical_key r) of
                     None \<Rightarrow> Inl (KeyError (child_logical_key r))
                   | Some u \<Rightarrow> Inr (factor_required_slot h r u)) (pr_ranges p)) (\<lambda>slots.
     mk_merge_plan
       \<lparr>mp_merge_plan_header = factor_merge_header subject q proposal_id plan_id plan_digest,
        mp_merge_policy_ref =
          [(''plugin_id'', JStr ''factorization''), (''plugin_version'', JStr ''0.1.0''),
           (''merge_policy_id'', JStr witness_or_all_policy_id), (''merge_policy_version'', JStr ''v2''),
           (''merge_policy_descriptor_digest'', JStr (sq_plugin_descriptor_digest q)),
           (''merge_policy_params_digest'', opt_str (pp_params_digest (pr_params p)))],
        mp_required_slots = slots,
        mp_parent_output_mapping =
          [factor_output_mapping h (map (\<lambda>s. jget s ''slot_key'') slots)],
        mp_hash_recording_requirements =
          [(''record_child_canonical_output_digest'', JBool True), (''record_slot_source_artifact_digest'', JBool True),
           (''record_merge_input_bundle_digest'', JBool True)],
        mp_merge_validation_requirements =
          [(''all_required_slots_canonical'', JBool False), (''verified_factor_witness_sufficient'', JBool True),
           (''all_required_slots_canonical_for_no_factor'', JBool True), (''slot_schema_check_required'', JBool True),
           (''merged_output_schema_check_required'', JBool True),
           (''plugin_merge_validator_policy_id'', JStr ''factorization.merge_result.validator.v1'')],
        mp_plugin_payload =
          [(''plugin_defined_schema_ref'', JObj (schema_ref ''factorization.merge_plan_plugin_payload.v2'')),
           (''plugin_defined_body_digest'', JStr (digest_json h (JObj (merge_plugin_defined_body p)))),
           (''plugin_defined_body'', JObj (merge_plugin_defined_body p))],
        mp_schema_version = ''phase4.merge_plan.v1''\<rparr>)"

section \<open>The split plan and the action\<close>

record split_plan =
  sp_partition :: partition_result
  sp_proposal :: decomposition_proposal
  sp_merge_plan :: merge_plan
  sp_child_unit_ids :: "(string, string) dict"

definition require_complete_candidate_domain :: "string \<Rightarrow> partition_result \<Rightarrow> unit res" where
  "require_complete_candidate_domain target p =
     bindE (if pp_min_divisor (pr_params p) \<noteq> ''2'' then Inr True
            else bindE (int_of_decimal target) (\<lambda>n. Inr (pp_max_divisor (pr_params p) \<noteq> show_int (isqrt n)))) (\<lambda>incomplete.
     raise_if incomplete
       (ValueError ''factorization split plan requires complete candidate domain [2, floor_sqrt(target_n)]''))"

definition build_split_plan ::
  "hash \<Rightarrow> (nat \<Rightarrow> bool) \<Rightarrow> factor_subject \<Rightarrow> split_request \<Rightarrow> int \<Rightarrow> int \<Rightarrow> json \<Rightarrow> json option \<Rightarrow> split_plan res" where
  "build_split_plan h alnum subject q requested max_children min_divisor max_divisor =
     bindE (partition_candidate_ranges h (JStr (fs_target_n subject)) requested max_children min_divisor max_divisor) (\<lambda>p.
     seqE (raise_if (pr_ranges p = []) (ValueError ''factorization split plan requires a non-empty candidate domain''))
     (seqE (require_complete_candidate_domain (fs_target_n subject) p)
     (bindE (build_proposal subject q p ''decomposition_proposal_pending'' ''sha256:pending_proposal_digest'') (\<lambda>pending.
      let digest = digest_decomposition_proposal_body h pending;
          proposal_id = ''decomposition_proposal_'' @ remove_sha256 digest
      in bindE (build_proposal subject q p proposal_id digest) (\<lambda>proposal.
         let unit_ids = dict_update [] (map (\<lambda>r. (child_logical_key r, derive_child_unit_id alnum digest (fs_unit_id subject) (child_logical_key r)))
                          (pr_ranges p))
         in bindE (build_merge_plan h subject q proposal_id p unit_ids ''merge_plan_pending'' ''sha256:pending_merge_plan_digest'') (\<lambda>pending_plan.
            let plan_digest = digest_merge_plan_body h pending_plan
            in bindE (build_merge_plan h subject q proposal_id p unit_ids (''merge_plan_'' @ remove_sha256 plan_digest) plan_digest) (\<lambda>plan.
            Inr \<lparr>sp_partition = p, sp_proposal = proposal, sp_merge_plan = plan, sp_child_unit_ids = unit_ids\<rparr>)))))))"

definition direct_prime_factorization :: "hash \<Rightarrow> factor_subject \<Rightarrow> string \<Rightarrow> string \<Rightarrow> prime_factorization res" where
  "direct_prime_factorization h subject merge_id created_at =
     bindE (mk_prime_factor \<lparr>pf_prime = fs_target_n subject, pf_exponent = 1\<rparr>) (\<lambda>f.
     mk_prime_factorization h
       \<lparr>fr_result_id = ''prime_factorization:'' @ merge_id, fr_target_n = fs_target_n subject, fr_prime_factors = [f],
        fr_source_kind = ''prime_certificate'', fr_created_at = created_at, fr_source_merge_result_id = Some merge_id,
        fr_factor_multiset_digest = None, fr_product_check_passed = True, fr_primality_check_policy_id = trial_division_policy_id,
        fr_primality_evidence = Some
          [(''policy_id'', JStr trial_division_policy_id), (''verified_prime_values'', JArr [JStr (fs_target_n subject)]),
           (''verification_scope'', JStr ''direct_small_prime_check'')],
        fr_schema_version = prime_factorization_schema\<rparr>)"

record split_action =
  ac_split_strategy_result :: split_result
  ac_split_plan :: "split_plan option"
  ac_prime_factorization_result :: "prime_factorization option"

definition strategy_identity :: "split_request \<Rightarrow> jobj" where
  "strategy_identity q =
     [(''plugin_id'', JStr ''factorization''), (''plugin_version'', JStr ''0.1.0''),
      (''plugin_descriptor_digest'', JStr (sq_plugin_descriptor_digest q)), (''split_strategy_id'', JStr partition_strategy_id)]"

definition complete_action :: "hash \<Rightarrow> factor_subject \<Rightarrow> split_request \<Rightarrow> split_action res" where
  "complete_action h subject q =
     bindE (direct_prime_factorization h subject (''direct_complete:'' @ sq_expansion_decision_id q) (sq_created_at q)) (\<lambda>f.
     bindE (mk_split_result
       \<lparr>rs_action = ''complete'', rs_expansion_scope_hash = sq_expansion_scope_hash q,
        rs_split_strategy_identity = strategy_identity q,
        rs_complete = Some
          [(''completion_kind'', JStr ''direct_small_prime''), (''completed_output_name'', JStr ''prime_factorization_result''),
           (''completed_output_schema_ref'', JObj (schema_ref prime_factorization_schema)),
           (''target_n'', JStr (fs_target_n subject)), (''prime_factorization_result_id'', JStr (fr_result_id f))],
        rs_expand = None,
        rs_generation_evidence =
          [(''policy_id'', JStr ''factorization.small_prime_direct_complete.v1''), (''target_n'', JStr (fs_target_n subject)),
           (''candidate_domain_empty'', JBool True), (''reason'', JStr ''target_n in {2, 3}''),
           (''canonical_selection_id'', JStr (sq_canonical_selection_id q)),
           (''canonical_output_bundle_digest'', JStr (sq_canonical_output_bundle_digest q))],
        rs_created_at = sq_created_at q, rs_schema_version = ''phase4.split_strategy_result.v1''\<rparr>) (\<lambda>r.
     Inr \<lparr>ac_split_strategy_result = r, ac_split_plan = None, ac_prime_factorization_result = Some f\<rparr>))"

definition expand_action :: "split_request \<Rightarrow> string \<Rightarrow> split_plan \<Rightarrow> split_action res" where
  "expand_action q target plan =
     bindE (mk_split_result
       \<lparr>rs_action = ''expand'', rs_expansion_scope_hash = sq_expansion_scope_hash q,
        rs_split_strategy_identity = strategy_identity q, rs_complete = None,
        rs_expand = Some
          [(''proposal_id'', jget (dp_proposal_header (sp_proposal plan)) ''proposal_id''),
           (''proposal_digest'', jget (dp_proposal_header (sp_proposal plan)) ''proposal_digest''),
           (''merge_plan_id'', jget (mp_merge_plan_header (sp_merge_plan plan)) ''merge_plan_id''),
           (''merge_plan_digest'', jget (mp_merge_plan_header (sp_merge_plan plan)) ''merge_plan_digest'')],
        rs_generation_evidence =
          [(''policy_id'', JStr partition_strategy_id), (''target_n'', JStr target),
           (''range_count'', JInt (int (length (pr_ranges (sp_partition plan))))),
           (''coverage_id'', JStr (cv_coverage_id (pr_coverage_proof (sp_partition plan))))],
        rs_created_at = sq_created_at q, rs_schema_version = ''phase4.split_strategy_result.v1''\<rparr>) (\<lambda>r.
     Inr \<lparr>ac_split_strategy_result = r, ac_split_plan = Some plan, ac_prime_factorization_result = None\<rparr>)"

definition build_split_strategy_result ::
  "hash \<Rightarrow> (nat \<Rightarrow> bool) \<Rightarrow> factor_subject \<Rightarrow> split_request \<Rightarrow> int \<Rightarrow> int \<Rightarrow> json \<Rightarrow> json option \<Rightarrow> split_action res" where
  "build_split_strategy_result h alnum subject q requested max_children min_divisor max_divisor =
     bindE (int_of_decimal (fs_target_n subject)) (\<lambda>n.
     if n \<in> {2, 3} then complete_action h subject q
     else bindE (build_split_plan h alnum subject q requested max_children min_divisor max_divisor) (expand_action q (fs_target_n subject)))"

end
