(* ===== verification/Fact_Split_Facts.thy ===== *)
theory Fact_Split_Facts
  imports Fact_Split
begin

text \<open>
  What the factorization plugin hands to the core is what the core accepts: the lemmas follow a partition
  through the proposal and the merge plan built from it, and the split strategy through its two actions.
\<close>

section \<open>Loops over fresh keys\<close>

lemma foldE_map: "foldE f s (map g xs) = foldE (\<lambda>s x. f s (g x)) s xs"
  by (induction xs arbitrary: s) (simp_all add: bindE_def split: sum.splits)

lemma foldE_fresh:
  assumes "\<And>x seen. x \<in> set xs \<Longrightarrow> key x \<notin> set seen \<Longrightarrow> step seen (g x) = Inr (key x # seen)"
    and "distinct (map key xs)"
  shows "\<exists>keys. foldE step [] (map g xs) = Inr keys"
proof -
  have "\<exists>keys. foldE (\<lambda>s x. step s (g x)) seen xs = Inr keys"
    if "distinct (map key xs)" "key ` set xs \<inter> set seen = {}"
      "\<And>x seen. x \<in> set xs \<Longrightarrow> key x \<notin> set seen \<Longrightarrow> step seen (g x) = Inr (key x # seen)" for seen
    using that
  proof (induction xs arbitrary: seen)
    case (Cons x xs)
    then have "foldE (\<lambda>s x. step s (g x)) seen (x # xs) = foldE (\<lambda>s x. step s (g x)) (key x # seen) xs" by simp
    moreover have "\<exists>keys. foldE (\<lambda>s x. step s (g x)) (key x # seen) xs = Inr keys"
      by (rule Cons.IH) (use Cons.prems in auto)
    ultimately show ?case by simp
  qed simp
  then show ?thesis using assms by (auto simp: foldE_map)
qed

lemma require_fields_ok: "\<forall>f \<in> set names. dict_has d f \<Longrightarrow> require_fields d names ctx = Inr ()"
  by (simp add: require_fields_iff)

section \<open>The children of a partition\<close>

lemma child_spec_valid:
  assumes "JStr (child_logical_key r) \<notin> set seen"
  shows "validate_child_spec seen (factor_child_spec r) = Inr (JStr (child_logical_key r) # seen)"
proof -
  have k: "jget (factor_child_spec r) ''child_logical_key'' = JStr (child_logical_key r)"
    by (simp add: factor_child_spec_def jget_def)
  have "fresh_key (JStr (child_logical_key r)) e m seen = Inr (JStr (child_logical_key r))" for e m
    using assms by (simp add: fresh_key_iff child_logical_key_def)
  moreover have "require_fields (factor_child_spec r) child_spec_fields c = Inr ()" for c
    by (simp add: require_fields_iff child_spec_fields_def factor_child_spec_def dict_has_def)
  moreover have "check_required_outputs (factor_child_spec r) = Inr ()"
    by (simp add: check_required_outputs_def factor_child_spec_def jget_def in_str_keys_str)
  moreover have "check_child_payload (factor_child_spec r) = Inr ()"
    by (simp add: check_child_payload_def factor_child_spec_def jget_def child_plugin_payload_def
        no_authoritative_state_def authoritative_keys_def dict_has_def)
  moreover have "not_positive (jget (factor_child_spec r) ''weight'') = Inr False"
    by (simp add: factor_child_spec_def jget_def float_zero_def is_digit_def)
  moreover have "is_jobj (jget (factor_child_spec r) ''input_bindings'')" "is_jobj (jget (factor_child_spec r) ''required_capabilities'')"
    by (simp_all add: factor_child_spec_def jget_def)
  ultimately show ?thesis by (simp add: validate_child_spec_def k)
qed

lemma slot_valid:
  assumes "dict_get by (JStr (child_logical_key r)) = Some (factor_child_spec r)"
    and "JStr (range_slot_key r) \<notin> set seen"
  shows "validate_merge_slot by seen (proposal_merge_slot r) = Inr (JStr (range_slot_key r) # seen)"
proof -
  have "fresh_key (JStr (range_slot_key r)) e m seen = Inr (JStr (range_slot_key r))" for e m
    using assms by (simp add: fresh_key_iff range_slot_key_def child_logical_key_def)
  moreover have "output_set (factor_child_spec r) = Inr [JStr ''range_result'']"
    by (simp add: output_set_def factor_child_spec_def)
  moreover have "require_fields (proposal_merge_slot r) merge_slot_fields c = Inr ()" for c
    by (simp add: require_fields_iff merge_slot_fields_def proposal_merge_slot_def dict_has_def)
  ultimately show ?thesis
    using assms(1) by (simp add: validate_merge_slot_def proposal_merge_slot_def jget_def in_keys_def)
qed

lemma required_slot_valid:
  assumes "JStr (range_slot_key r) \<notin> set seen"
  shows "validate_required_slot seen (factor_required_slot h r u) = Inr (JStr (range_slot_key r) # seen)"
proof -
  have "fresh_key (JStr (range_slot_key r)) e m seen = Inr (JStr (range_slot_key r))" for e m
    using assms by (simp add: fresh_key_iff range_slot_key_def child_logical_key_def)
  moreover have "require_fields (factor_required_slot h r u) required_slot_fields c = Inr ()" for c
    by (simp add: require_fields_iff required_slot_fields_def factor_required_slot_def dict_has_def)
  ultimately show ?thesis
    by (simp add: validate_required_slot_def factor_required_slot_def jget_def)
qed

text \<open>The ranges of a partition have distinct keys.\<close>

definition keyed_ranges :: "range_input list \<Rightarrow> bool" where
  "keyed_ranges rs \<longleftrightarrow> rs \<noteq> [] \<and> distinct (map child_logical_key rs)"

lemma slot_key_inject: "range_slot_key r = range_slot_key r' \<longleftrightarrow> child_logical_key r = child_logical_key r'"
  by (simp add: range_slot_key_def)

lemma distinct_slot_keys: "keyed_ranges rs \<Longrightarrow> distinct (map (\<lambda>r. JStr (range_slot_key r)) rs)"
  by (auto simp: keyed_ranges_def distinct_map inj_on_def slot_key_inject)

lemma distinct_child_keys: "keyed_ranges rs \<Longrightarrow> distinct (map (\<lambda>r. JStr (child_logical_key r)) rs)"
  by (auto simp: keyed_ranges_def distinct_map inj_on_def)

lemma children_valid:
  assumes "keyed_ranges rs"
  shows "validate_child_specs (map factor_child_spec rs) = Inr ()"
proof -
  have "\<exists>keys. foldE validate_child_spec [] (map factor_child_spec rs) = Inr keys"
    by (rule foldE_fresh) (rule child_spec_valid distinct_child_keys[OF assms]; assumption?)+
  then show ?thesis by (auto simp: validate_child_specs_def)
qed

lemma child_key_spec [simp]: "child_key (factor_child_spec r) = JStr (child_logical_key r)"
  by (simp add: child_key_def factor_child_spec_def jget_def)

lemma slots_valid:
  assumes "keyed_ranges rs"
  shows "validate_merge_slots (map factor_child_spec rs) (map proposal_merge_slot rs) = Inr ()"
proof -
  let ?by = "map (\<lambda>r. (JStr (child_logical_key r), factor_child_spec r)) rs"
  have index: "by_key ''child_logical_key'' (map factor_child_spec rs) = Inr ?by"
    using children_by_key[OF children_valid[OF assms]] by (simp add: comp_def)
  have "dict_get ?by (JStr (child_logical_key r)) = Some (factor_child_spec r)" if "r \<in> set rs" for r
    using distinct_child_keys[OF assms] that by (intro map_of_is_SomeI) (auto simp: comp_def)
  then have "\<exists>keys. foldE (validate_merge_slot ?by) [] (map proposal_merge_slot rs) = Inr keys"
    by (intro foldE_fresh[where key = "\<lambda>r. JStr (range_slot_key r)"] slot_valid distinct_slot_keys[OF assms])
  then show ?thesis by (auto simp: validate_merge_slots_def index)
qed

lemma slot_ids:
  "mapE (\<lambda>s. bindE (jitem s ''slot_id'') hash_key) (map proposal_merge_slot rs) = Inr (map (\<lambda>r. JStr (range_slot_key r)) rs)"
  by (induction rs) (simp_all add: proposal_merge_slot_def jitem_def)

lemma expected_output_valid:
  assumes "r \<in> set rs"
  shows "validate_expected_output by (map (\<lambda>r. JStr (range_slot_key r)) rs) [] (factor_expected_output slots (JStr (range_slot_key r)))
    = Inr [JStr ''prime_factorization_result'']"
proof -
  have "require_fields (factor_expected_output slots (JStr (range_slot_key r))) expected_output_fields c = Inr ()" for c
    by (simp add: require_fields_iff expected_output_fields_def factor_expected_output_def dict_has_def)
  then show ?thesis
    using assms by (simp add: validate_expected_output_def factor_expected_output_def jget_def in_str_keys_str
        resolution_kinds_def in_keys_def)
qed

lemma proposal_valid:
  assumes "keyed_ranges (pr_ranges p)"
  shows "\<exists>d. build_proposal subject q p i g = Inr d \<and> dp_proposal_header d = proposal_header subject q p i g \<and>
    dp_child_specs d = map factor_child_spec (pr_ranges p)"
proof -
  obtain r rs where r: "pr_ranges p = r # rs" using assms by (cases "pr_ranges p") (auto simp: keyed_ranges_def)
  let ?specs = "map factor_child_spec (r # rs)" and ?slots = "map proposal_merge_slot (r # rs)"
  have k: "keyed_ranges (r # rs)" using assms by (simp add: r)
  have "validate_dependency_edges ?specs [] = Inr ()"
    unfolding dependency_edges_iff[OF children_valid[OF k]] by (simp add: edges_spec_def child_graph_def acyclic_def)
  moreover have "validate_expected_outputs ?specs ?slots [factor_expected_output slots (JStr (range_slot_key r))] = Inr ()" for slots
    using children_by_key[OF children_valid[OF k]] slot_ids[of "r # rs"] expected_output_valid[of r "r # rs"]
    by (simp add: validate_expected_outputs_def del: mapE.simps list.map)
  moreover have "jget (proposal_merge_slot r) ''slot_id'' = JStr (range_slot_key r)"
    by (simp add: proposal_merge_slot_def jget_def)
  moreover have "require_fields (proposal_header subject q p i g) proposal_header_fields c = Inr ()" for c
    by (simp add: require_fields_iff proposal_header_fields_def proposal_header_def dict_has_def)
  then have "validate_proposal_header (proposal_header subject q p i g) = Inr ()"
    by (simp add: validate_proposal_header_def) (simp add: proposal_header_def jget_def)
  moreover have "validate_promotion_guard (factor_guard_evidence p) = Inr ()"
    by (simp add: validate_promotion_guard_def guard_checks_def factor_guard_evidence_def jget_def)
  ultimately show ?thesis
    using children_valid[OF k] slots_valid[OF k]
    by (simp add: build_proposal_def mk_proposal_def r require_schema_version_def)
qed

section \<open>The merge plan of a partition\<close>

lemma slot_key_value: "jget (factor_required_slot h r u) ''slot_key'' = JStr (range_slot_key r)"
  by (simp add: factor_required_slot_def jget_def)

lemma merge_slots_of:
  assumes "\<And>r. r \<in> set rs \<Longrightarrow> dict_get ids (child_logical_key r) = Some (unit_of r)"
  shows "mapE (\<lambda>r. case dict_get ids (child_logical_key r) of None \<Rightarrow> Inl (KeyError (child_logical_key r))
      | Some u \<Rightarrow> Inr (factor_required_slot h r u)) rs = Inr (map (\<lambda>r. factor_required_slot h r (unit_of r)) rs)"
  by (rule mapE_ok) (simp add: assms)

lemma required_slots_valid:
  assumes "keyed_ranges rs"
  shows "validate_required_slots (map (\<lambda>r. factor_required_slot h r (unit_of r)) rs) = Inr ()"
proof -
  have "\<exists>keys. foldE validate_required_slot [] (map (\<lambda>r. factor_required_slot h r (unit_of r)) rs) = Inr keys"
    by (intro foldE_fresh[where key = "\<lambda>r. JStr (range_slot_key r)"] required_slot_valid distinct_slot_keys[OF assms])
  then show ?thesis using assms by (auto simp: validate_required_slots_def keyed_ranges_def)
qed

lemma required_slot_keys:
  "mapE (\<lambda>s. bindE (jitem s ''slot_key'') hash_key) (map (\<lambda>r. factor_required_slot h r (unit_of r)) rs)
    = Inr (map (\<lambda>r. JStr (range_slot_key r)) rs)"
  by (induction rs) (simp_all add: factor_required_slot_def jitem_def)

lemma slots_known_all: "set ks \<subseteq> set keys \<Longrightarrow> \<forall>k \<in> set ks. \<exists>s. k = JStr s \<Longrightarrow> slots_known keys ks = Inr True"
  by (induction ks) (auto simp: in_keys_def)

lemma output_mapping_valid:
  assumes "rs \<noteq> []"
  shows "validate_parent_output_mapping
    [factor_output_mapping h (map (\<lambda>s. jget s ''slot_key'') (map (\<lambda>r. factor_required_slot h r (unit_of r)) rs))]
    (map (\<lambda>r. factor_required_slot h r (unit_of r)) rs) = Inr ()"
proof -
  let ?keys = "map (\<lambda>r. JStr (range_slot_key r)) rs"
  have keys: "map (\<lambda>s. jget s ''slot_key'') (map (\<lambda>r. factor_required_slot h r (unit_of r)) rs) = ?keys"
    by (simp add: comp_def slot_key_value)
  have "slots_known ?keys ?keys = Inr True" by (rule slots_known_all) auto
  moreover have "require_fields (factor_output_mapping h ?keys) parent_output_mapping_fields c = Inr ()" for c
    by (simp add: require_fields_iff parent_output_mapping_fields_def factor_output_mapping_def dict_has_def)
  ultimately have "validate_mapping ?keys [] (factor_output_mapping h ?keys) = Inr [JStr ''prime_factorization_result'']"
    using assms by (simp add: validate_mapping_def) (simp add: factor_output_mapping_def jget_def fresh_key_def)
  then show ?thesis
    by (simp only: validate_parent_output_mapping_def required_slot_keys keys) simp
qed

text \<open>What the merge policy reads of a plan beside its slots.\<close>

definition merge_contract :: "partition_result \<Rightarrow> merge_plan \<Rightarrow> bool" where
  "merge_contract p m \<longleftrightarrow>
     jget (mp_plugin_payload m) ''plugin_defined_body'' = JObj (merge_plugin_defined_body p) \<and>
     jget (mp_merge_policy_ref m) ''merge_policy_id'' = JStr witness_or_all_policy_id \<and>
     jget (mp_merge_policy_ref m) ''merge_policy_version'' = JStr ''v2''"

lemma merge_plan_valid:
  assumes "keyed_ranges (pr_ranges p)"
    and "\<And>r. r \<in> set (pr_ranges p) \<Longrightarrow> dict_get ids (child_logical_key r) = Some (unit_of r)"
  shows "\<exists>m. build_merge_plan h subject q proposal_id p ids i g = Inr m \<and>
    mp_merge_plan_header m = factor_merge_header subject q proposal_id i g \<and>
    mp_required_slots m = map (\<lambda>r. factor_required_slot h r (unit_of r)) (pr_ranges p) \<and>
    merge_contract p m"
proof -
  let ?slots = "map (\<lambda>r. factor_required_slot h r (unit_of r)) (pr_ranges p)"
  have header: "require_fields (factor_merge_header subject q proposal_id i g) merge_plan_header_fields c = Inr ()" for c
    by (simp add: require_fields_iff merge_plan_header_fields_def factor_merge_header_def dict_has_def)
  then have "validate_merge_plan_header (factor_merge_header subject q proposal_id i g) = Inr ()"
    by (simp add: validate_merge_plan_header_def) (simp add: factor_merge_header_def jget_def)
  moreover have "validate_parent_output_mapping [factor_output_mapping h (map (\<lambda>s. jget s ''slot_key'') ?slots)] ?slots = Inr ()"
    by (rule output_mapping_valid) (use assms in \<open>simp add: keyed_ranges_def\<close>)
  moreover have "validate_merge_plugin_payload
    [(''plugin_defined_schema_ref'', JObj ref), (''plugin_defined_body_digest'', JStr d), (''plugin_defined_body'', JObj body)] = Inr ()"
    for ref d body
    by (simp add: validate_merge_plugin_payload_def require_fields_ok merge_plugin_payload_fields_def
        no_authoritative_state_def authoritative_keys_def dict_has_def jget_def)
  moreover have "validate_hash_recording [(''record_child_canonical_output_digest'', JBool True),
      (''record_slot_source_artifact_digest'', JBool True), (''record_merge_input_bundle_digest'', JBool True)] = Inr ()"
    by (simp add: validate_hash_recording_def require_fields_ok hash_recording_fields_def dict_has_def jget_def)
  moreover have "validate_merge_validation
    [(''all_required_slots_canonical'', JBool False), (''verified_factor_witness_sufficient'', JBool True),
     (''all_required_slots_canonical_for_no_factor'', JBool True), (''slot_schema_check_required'', JBool True),
     (''merged_output_schema_check_required'', JBool True),
     (''plugin_merge_validator_policy_id'', JStr ''factorization.merge_result.validator.v1'')] = Inr ()"
    by (simp add: validate_merge_validation_def require_fields_ok merge_validation_fields_def dict_has_def jget_def)
  moreover have "require_fields
    [(''plugin_id'', JStr ''factorization''), (''plugin_version'', JStr ''0.1.0''),
     (''merge_policy_id'', JStr witness_or_all_policy_id), (''merge_policy_version'', JStr ''v2''),
     (''merge_policy_descriptor_digest'', a), (''merge_policy_params_digest'', b)] merge_policy_ref_fields c = Inr ()" for a b c
    by (simp add: require_fields_ok merge_policy_ref_fields_def dict_has_def)
  moreover have "jget [(''plugin_defined_schema_ref'', JObj ref), (''plugin_defined_body_digest'', JStr d),
      (''plugin_defined_body'', JObj body)] ''plugin_defined_body'' = JObj body" for ref d body
    by (simp add: jget_def)
  moreover have "jget ((''plugin_id'', a) # (''plugin_version'', b) # (''merge_policy_id'', c) # rest) ''merge_policy_id'' = c"
    "jget ((''plugin_id'', a) # (''plugin_version'', b) # (''merge_policy_id'', c) # (''merge_policy_version'', d) # rest) ''merge_policy_version'' = d"
    for a b c d rest
    by (simp_all add: jget_def)
  ultimately show ?thesis
    using required_slots_valid[OF assms(1), of h unit_of]
    by (simp add: build_merge_plan_def merge_slots_of[OF assms(2)] mk_merge_plan_def require_schema_version_def
        merge_contract_def del: list.map map_map)
qed

section \<open>The split plan\<close>

lemma partition_keyed:
  assumes "partition_candidate_ranges h target requested max_children lo hi = Inr p"
  shows "keyed_ranges (pr_ranges p)"
proof -
  obtain l u where lu: "partition_domain p = (l, u)" by (cases "partition_domain p")
  note s = partition_sound[OF assms lu]
  have "pr_ranges p \<noteq> []"
    using assms by (auto elim!: partition_parts dest!: mapE_length simp: enumerate_eq_zip partition_contiguous_length)
  moreover have "map sr_child_index (pr_ranges p) = map int [0..<length (pr_ranges p)]" using s by blast
  then have "distinct (map sr_child_index (pr_ranges p))" by (simp only: distinct_map distinct_upt) simp
  moreover have "\<forall>r \<in> set (pr_ranges p). sr_coverage_id r = cv_coverage_id (pr_coverage_proof p)" using s by blast
  ultimately show ?thesis by (simp add: keyed_ranges_def distinct_map inj_on_def child_logical_key_def)
qed

text \<open>The names of a plan are digests of its own bodies.\<close>

definition self_naming :: "hash \<Rightarrow> split_plan \<Rightarrow> bool" where
  "self_naming h plan \<longleftrightarrow>
     (let d = digest_decomposition_proposal_body h (sp_proposal plan); m = digest_merge_plan_body h (sp_merge_plan plan);
          header = dp_proposal_header (sp_proposal plan); plan_header = mp_merge_plan_header (sp_merge_plan plan)
      in jget header ''proposal_digest'' = JStr d \<and>
         jget header ''proposal_id'' = JStr (''decomposition_proposal_'' @ remove_sha256 d) \<and>
         jget plan_header ''merge_plan_digest'' = JStr m \<and>
         jget plan_header ''merge_plan_id'' = JStr (''merge_plan_'' @ remove_sha256 m) \<and>
         jget plan_header ''decomposition_proposal_id'' = jget header ''proposal_id'')"

lemma proposal_digest_fixed:
  assumes "build_proposal subject q p i g = Inr d" "build_proposal subject q p i' g' = Inr d'"
  shows "digest_decomposition_proposal_body h d = digest_decomposition_proposal_body h d'"
proof -
  obtain c where "\<And>a b. dict_pop ''proposal_digest'' (dict_pop ''proposal_id'' (proposal_header subject q p a b)) = c"
    by (simp add: proposal_header_def dict_pop_def)
  then show ?thesis
    using assms
    by (auto simp: build_proposal_def mk_proposal_def res_simps digest_decomposition_proposal_body_def dp_to_dict_def
        split: list.splits)
qed

lemma plan_digest_fixed:
  assumes "build_merge_plan h subject q pid p ids i g = Inr m" "build_merge_plan h subject q pid p ids i' g' = Inr m'"
  shows "digest_merge_plan_body h m = digest_merge_plan_body h m'"
proof -
  obtain c where "\<And>a b. dict_pop ''merge_plan_digest'' (dict_pop ''merge_plan_id'' (factor_merge_header subject q pid a b)) = c"
    by (simp add: factor_merge_header_def dict_pop_def)
  then show ?thesis
    using assms
    by (auto simp: build_merge_plan_def mk_merge_plan_def res_simps digest_merge_plan_body_def mp_to_dict_def)
qed

definition range_unit_id :: "(nat \<Rightarrow> bool) \<Rightarrow> hash \<Rightarrow> factor_subject \<Rightarrow> decomposition_proposal \<Rightarrow> range_input \<Rightarrow> string" where
  "range_unit_id alnum h subject d r =
     derive_child_unit_id alnum (digest_decomposition_proposal_body h d) (fs_unit_id subject) (child_logical_key r)"

text \<open>What a split plan consists of.\<close>

definition plan_for ::
  "hash \<Rightarrow> (nat \<Rightarrow> bool) \<Rightarrow> factor_subject \<Rightarrow> split_request \<Rightarrow> partition_result \<Rightarrow> split_plan \<Rightarrow> bool" where
  "plan_for h alnum subject q p plan \<longleftrightarrow>
     sp_partition plan = p \<and> self_naming h plan \<and> merge_contract p (sp_merge_plan plan) \<and>
     dp_child_specs (sp_proposal plan) = map factor_child_spec (pr_ranges p) \<and>
     mp_required_slots (sp_merge_plan plan) =
       map (\<lambda>r. factor_required_slot h r (range_unit_id alnum h subject (sp_proposal plan) r)) (pr_ranges p) \<and>
     sp_child_unit_ids plan =
       map (\<lambda>r. (child_logical_key r, range_unit_id alnum h subject (sp_proposal plan) r)) (pr_ranges p)"

lemma split_plan_of_partition:
  assumes p: "partition_candidate_ranges h (JStr (fs_target_n subject)) requested max_children lo hi = Inr p"
    and complete: "require_complete_candidate_domain (fs_target_n subject) p = Inr ()"
  shows "\<exists>plan. build_split_plan h alnum subject q requested max_children lo hi = Inr plan \<and> plan_for h alnum subject q p plan"
proof -
  note k = partition_keyed[OF p]
  obtain d where d: "build_proposal subject q p ''decomposition_proposal_pending'' ''sha256:pending_proposal_digest'' = Inr d"
    using proposal_valid[OF k] by blast
  let ?g = "digest_decomposition_proposal_body h d"
  let ?i = "''decomposition_proposal_'' @ remove_sha256 ?g"
  obtain d' where d': "build_proposal subject q p ?i ?g = Inr d'" "dp_proposal_header d' = proposal_header subject q p ?i ?g"
      "dp_child_specs d' = map factor_child_spec (pr_ranges p)"
    using proposal_valid[OF k] by blast
  have same: "digest_decomposition_proposal_body h d' = ?g" using proposal_digest_fixed[OF d'(1) d] .
  let ?unit = "range_unit_id alnum h subject d'"
  let ?ids = "map (\<lambda>r. (child_logical_key r, ?unit r)) (pr_ranges p)"
  have dist: "distinct (dict_keys ?ids)" using k by (simp add: keyed_ranges_def comp_def)
  have ids: "dict_update [] (map (\<lambda>r. (child_logical_key r, derive_child_unit_id alnum ?g (fs_unit_id subject) (child_logical_key r)))
      (pr_ranges p)) = ?ids"
    using dict_update_Nil[OF dist] by (simp add: range_unit_id_def same)
  have unit: "dict_get ?ids (child_logical_key r) = Some (?unit r)" if "r \<in> set (pr_ranges p)" for r
    using dist that by (intro map_of_is_SomeI) auto
  obtain m where m: "build_merge_plan h subject q ?i p ?ids ''merge_plan_pending'' ''sha256:pending_merge_plan_digest'' = Inr m"
    using merge_plan_valid[OF k unit] by blast
  let ?h = "digest_merge_plan_body h m"
  obtain m' where m': "build_merge_plan h subject q ?i p ?ids (''merge_plan_'' @ remove_sha256 ?h) ?h = Inr m'"
      "mp_merge_plan_header m' = factor_merge_header subject q ?i (''merge_plan_'' @ remove_sha256 ?h) ?h"
      "mp_required_slots m' = map (\<lambda>r. factor_required_slot h r (?unit r)) (pr_ranges p)" "merge_contract p m'"
    using merge_plan_valid[OF k unit] by blast
  have same_plan: "digest_merge_plan_body h m' = ?h" using plan_digest_fixed[OF m'(1) m] .
  let ?plan = "\<lparr>sp_partition = p, sp_proposal = d', sp_merge_plan = m', sp_child_unit_ids = ?ids\<rparr>"
  have "build_split_plan h alnum subject q requested max_children lo hi = Inr ?plan"
    using k by (simp add: build_split_plan_def p complete keyed_ranges_def d Let_def d'(1) ids m m'(1) del: append_Cons)
  moreover have "self_naming h ?plan"
    by (simp add: self_naming_def same same_plan d'(2) m'(2) Let_def) (simp add: proposal_header_def factor_merge_header_def jget_def)
  ultimately show ?thesis using d' m' by (intro exI[of _ ?plan]) (simp add: plan_for_def)
qed

lemma split_plan_total:
  assumes "parse_decimal_integer ''target_n'' (fs_target_n subject) 2 = Inr n" "4 \<le> n" "1 \<le> requested" "1 \<le> max_children"
  shows "\<exists>p plan. partition_candidate_ranges h (JStr (fs_target_n subject)) requested max_children (JStr ''2'') None = Inr p \<and>
    build_split_plan h alnum subject q requested max_children (JStr ''2'') None = Inr plan \<and> plan_for h alnum subject q p plan \<and>
    partition_domain p = (2, isqrt n)"
proof -
  obtain p where p: "partition_candidate_ranges h (JStr (fs_target_n subject)) requested max_children (JStr ''2'') None = Inr p"
      "partition_domain p = (2, isqrt n)" "pp_min_divisor (pr_params p) = ''2''" "pp_max_divisor (pr_params p) = show_int (isqrt n)"
    using partition_exists[OF assms] by blast
  have "require_complete_candidate_domain (fs_target_n subject) p = Inr ()"
    using p assms(1) by (simp add: require_complete_candidate_domain_def parse_decimal_iff)
  from split_plan_of_partition[OF p(1) this] p show ?thesis by blast
qed

section \<open>The action\<close>

lemma direct_prime_ok:
  assumes "n \<in> {2, 3}" "fs_target_n subject = show_int n" "created_at \<noteq> []"
  shows "\<exists>f. direct_prime_factorization h subject m created_at = Inr f \<and>
    fr_prime_factors f = [\<lparr>pf_prime = show_int n, pf_exponent = 1\<rparr>] \<and> fr_target_n f = show_int n"
proof -
  have parse: "parse_decimal_integer field (show_int n) 2 = Inr n" for field
    using assms(1) by (intro parse_numeral) auto
  then have "int_of_decimal (show_int n) = Inr n" using parse_decimal_ok[of _ "show_int n" 2] by blast
  then show ?thesis
    using assms(2,3) parse
    by (simp add: direct_prime_factorization_def mk_prime_factor_def mk_prime_factorization_def require_schema_def require_text_def
        validate_primality_evidence_def jget_def in_str_keys_str set_or_check_digest_def)
qed

lemma complete_action_ok:
  assumes "n \<in> {2, 3}" "fs_target_n subject = show_int n" "sq_created_at q \<noteq> []"
  shows "\<exists>a f. complete_action h subject q = Inr a \<and> rs_action (ac_split_strategy_result a) = ''complete'' \<and>
    ac_split_plan a = None \<and> ac_prime_factorization_result a = Some f \<and>
    fr_prime_factors f = [\<lparr>pf_prime = show_int n, pf_exponent = 1\<rparr>]"
proof -
  obtain f where "direct_prime_factorization h subject (''direct_complete:'' @ sq_expansion_decision_id q) (sq_created_at q) = Inr f"
    "fr_prime_factors f = [\<lparr>pf_prime = show_int n, pf_exponent = 1\<rparr>]"
    using direct_prime_ok[OF assms] by blast
  then show ?thesis
    by (simp add: complete_action_def mk_split_result_def require_schema_version_def del: append_Cons)
qed

lemma expand_action_ok:
  assumes "self_naming h plan"
  shows "\<exists>a. expand_action q target plan = Inr a \<and> rs_action (ac_split_strategy_result a) = ''expand'' \<and>
    ac_split_plan a = Some plan \<and> ac_prime_factorization_result a = None"
proof -
  have "truthy (jget (dp_proposal_header (sp_proposal plan)) ''proposal_digest'')" "truthy (jget (mp_merge_plan_header (sp_merge_plan plan)) ''merge_plan_digest'')"
    using assms by (simp_all add: self_naming_def Let_def digest_decomposition_proposal_body_def digest_merge_plan_body_def)
  then show ?thesis
    by (simp add: expand_action_def mk_split_result_def require_schema_version_def) (simp add: jget_def)
qed

lemma prime_2_3: "n \<in> {2, 3} \<Longrightarrow> prime_number n"
  using prime_by_trial[of n] by (auto simp: isqrt.simps)

lemma split_action_total:
  assumes n: "fs_target_n subject = show_int n" "2 \<le> n" "length (show_int n) \<le> max_str_digits"
    and c: "1 \<le> requested" "1 \<le> max_children" "sq_created_at q \<noteq> []"
  shows "\<exists>a. build_split_strategy_result h alnum subject q requested max_children (JStr ''2'') None = Inr a \<and>
    (if n < 4
     then rs_action (ac_split_strategy_result a) = ''complete'' \<and> ac_split_plan a = None \<and> prime_number n \<and>
       (\<exists>f. ac_prime_factorization_result a = Some f \<and> fr_prime_factors f = [\<lparr>pf_prime = show_int n, pf_exponent = 1\<rparr>])
     else rs_action (ac_split_strategy_result a) = ''expand'' \<and> ac_prime_factorization_result a = None \<and>
       (\<exists>plan p. ac_split_plan a = Some plan \<and> plan_for h alnum subject q p plan \<and> partition_domain p = (2, isqrt n)))"
proof -
  have parse: "parse_decimal_integer ''target_n'' (fs_target_n subject) 2 = Inr n"
    unfolding n(1) by (rule parse_decimal_show) (use n in auto)
  then have i: "int_of_decimal (fs_target_n subject) = Inr n" by (simp add: parse_decimal_iff)
  show ?thesis
  proof (cases "n < 4")
    case True
    then have "n \<in> {2, 3}" using n(2) by auto
    then show ?thesis
      using complete_action_ok[OF _ n(1) c(3), of h] prime_2_3[of n] True i
      by (auto simp: build_split_strategy_result_def)
  next
    case False
    then obtain p plan where plan: "build_split_plan h alnum subject q requested max_children (JStr ''2'') None = Inr plan"
      "plan_for h alnum subject q p plan" "partition_domain p = (2, isqrt n)"
      using split_plan_total[OF parse _ c(1,2), of h alnum q] by auto
    then have "self_naming h plan" by (simp add: plan_for_def)
    from expand_action_ok[OF this, of q "fs_target_n subject"] plan False i show ?thesis
      by (auto simp: build_split_strategy_result_def)
  qed
qed


definition sample_subject :: factor_subject where
  "sample_subject =
     \<lparr>fs_subject_id = ''s'', fs_task_id = ''t'', fs_unit_id = ''u'', fs_target_n = show_int 91, fs_source_kind = ''root_input'',
      fs_source_ref = [(''k'', JNull)], fs_requested_output = ''prime_factorization_result'', fs_created_at = ''now'',
      fs_target_n_digest = None, fs_schema_version = ''factorization.factor_integer_subject.v1''\<rparr>"

definition sample_split_request :: split_request where
  "sample_split_request =
     \<lparr>sq_canonical_selection_id = ''c'', sq_canonical_output_bundle_digest = ''b'', sq_plugin_descriptor_digest = ''d'',
      sq_expansion_scope_hash = ''e'', sq_expansion_decision_id = ''x'', sq_created_at = ''now''\<rparr>"


end
