(* ===== verification/Fact_Merge_Facts.thy ===== *)
theory Fact_Merge_Facts
  imports Fact_Merge
begin

text \<open>
  The correctness of the factorization merge: from the recheck of the ranges and the coverage of the
  merge to primes whose product is the target.
\<close>

section \<open>Coverage and primality\<close>

lemma check_coverage_iff: "check_coverage lo rs = Inr x \<longleftrightarrow> tiles lo (x - 1) rs"
  by (induction lo rs rule: check_coverage.induct) auto

text \<open>A target is prime when the ranges that tile its candidate divisors contain no divisor.\<close>

lemma tiles_prime:
  assumes "tiles 2 (isqrt t) rs" "2 \<le> t" "\<forall>(s, e) \<in> set rs. no_divisor_between t s e"
  shows "prime_number t"
proof -
  have "\<not> d dvd t" if d: "2 \<le> d" "d \<le> isqrt t" for d
    using tiles_cover[OF assms(1) d] assms(3) by (auto simp: no_divisor_between_def)
  then show ?thesis using prime_by_trial[OF assms(2)] by blast
qed

lemma same_value_ok: "same_value f xs m = Inr v \<Longrightarrow> xs \<noteq> [] \<and> (\<forall>x \<in> set xs. f x = v)"
proof -
  assume "same_value f xs m = Inr v"
  then have r: "remdups (map f xs) = [v]" by (auto simp: same_value_def split: list.splits)
  have "f ` set xs = {v}" using arg_cong[OF r, of set] by simp
  then show ?thesis by auto
qed

section \<open>Verified results\<close>

text \<open>A result that the recheck has accepted against some child input.\<close>

definition verified_result :: "range_result \<Rightarrow> bool" where
  "verified_result r \<longleftrightarrow> (\<exists>h x child budget v. mk_range_input h x = Inr child \<and>
     verify_range_result (JObj (rr_to_dict r)) child budget = Inr v \<and> rv_accepted v)"

lemma verified_no_factor:
  assumes "verified_result r" "rr_result_kind r = ''no_factor_in_range''" "result_interval r = Inr (s, e)"
  shows "no_divisor_between (decimal_of (rr_target_n r)) s e"
proof -
  obtain h x child budget v where c: "mk_range_input h x = Inr child"
    "verify_range_result (JObj (rr_to_dict r)) child budget = Inr v" "rv_accepted v"
    using assms(1) by (auto simp: verified_result_def)
  note a = recheck_accepted[OF c prod.collapse[symmetric] refl]
  then have al: "aligned (rr_to_dict r) child" by auto
  have "s = fst (range_of child)" "e = snd (range_of child)" "rr_target_n r = sr_target_n child"
    using al assms(3) by (auto simp: aligned_def jget_rr result_interval_def range_of_def res_simps decimal_of_ok)
  then show ?thesis using a assms(2) by (auto simp: jget_rr)
qed

section \<open>The factors found\<close>

lemma smallest_mem: "smallest_by_fst b ps \<in> insert b (set ps)"
  by (induction b ps rule: smallest_by_fst.induct) (auto split: if_splits)

text \<open>A pair that multiplies to the target of a result, both factors above one.\<close>

definition splits_target :: "int \<times> int \<Rightarrow> range_result \<Rightarrow> bool" where
  "splits_target p r \<longleftrightarrow> 1 < fst p \<and> 1 < snd p \<and> fst p * snd p = decimal_of (rr_target_n r)"

lemma rr_ok_bounds:
  assumes "rr_ok r"
  obtains t s e where "decimal_of (rr_target_n r) = t" "result_interval r = Inr (s, e)" "2 \<le> t" "2 \<le> s" "s \<le> e" "e \<le> isqrt t"
    "factor_fields_ok r t s e"
proof -
  from assms obtain t s e where
    b: "check_range (JStr (rr_target_n r)) (JStr (rr_range_start r)) (JStr (rr_range_end r)) = Inr (t, s, e)" and
    f: "factor_fields_ok r t s e"
    by (auto simp: rr_ok_def)
  show ?thesis
    by (rule that[of t s e]) (use b f in \<open>auto simp: check_range_iff parse_decimal_iff decimal_of_ok result_interval_def\<close>)
qed

lemma found_factors_ok:
  "found_factors rs = Inr ps \<Longrightarrow> \<forall>r \<in> set rs. rr_ok r \<Longrightarrow>
    (\<forall>p \<in> set ps. \<exists>r \<in> set rs. splits_target p r) \<and>
    (ps = [] \<longrightarrow> (\<forall>r \<in> set rs. rr_result_kind r = ''no_factor_in_range''))"
proof (induction rs arbitrary: ps)
  case (Cons r rs)
  show ?case
  proof (cases "rr_result_kind r = ''no_factor_in_range''")
    case True
    then show ?thesis using Cons by auto
  next
    case False
    then obtain f c fv cv qs where f: "rr_found_factor r = Some f" "rr_cofactor r = Some c"
      "int_of_decimal f = Inr fv" "int_of_decimal c = Inr cv" "found_factors rs = Inr qs" "ps = (fv, cv) # qs"
      "rr_result_kind r = ''found_factor''"
      using Cons.prems(1) by (auto simp: res_simps split: if_splits option.splits)
    have "splits_target (fv, cv) r"
      using Cons.prems(2) f
      by (auto elim!: rr_ok_bounds simp: factor_fields_ok_def parse_decimal_iff splits_target_def)
    then show ?thesis using Cons.IH[OF f(5)] Cons.prems(2) f(6) by auto
  qed
qed simp

lemma smallest_found_ok:
  assumes "smallest_found_factor rs = Inr found" "\<forall>r \<in> set rs. rr_ok r"
  shows "case found of None \<Rightarrow> \<forall>r \<in> set rs. rr_result_kind r = ''no_factor_in_range'' | Some p \<Rightarrow> \<exists>r \<in> set rs. splits_target p r"
proof -
  obtain ps where ps: "found_factors rs = Inr ps" "found = (case ps of [] \<Rightarrow> None | p # ps \<Rightarrow> Some (smallest_by_fst p ps))"
    using assms(1) by (auto simp: smallest_found_factor_def res_simps)
  note f = found_factors_ok[OF ps(1) assms(2)]
  show ?thesis
  proof (cases ps)
    case (Cons p qs)
    have "smallest_by_fst p qs \<in> set ps" using smallest_mem[of p qs] Cons by auto
    then show ?thesis using f ps(2) Cons by auto
  qed (use f ps(2) in auto)
qed

section \<open>The prime factorization\<close>

definition factor_product :: "prime_factorization \<Rightarrow> int" where
  "factor_product f = prod_list (map (\<lambda>p. decimal_of (pf_prime p) ^ nat (pf_exponent p)) (fr_prime_factors f))"

lemma fold_product:
  "mapE (\<lambda>f. int_of_decimal (pf_prime f)) fs = Inr ps \<Longrightarrow>
    fold (\<lambda>(p, f) acc. acc * p ^ nat (pf_exponent f)) (zip ps fs) a =
    a * prod_list (map (\<lambda>p. decimal_of (pf_prime p) ^ nat (pf_exponent p)) fs)"
  by (induction fs arbitrary: ps a) (auto simp: res_simps decimal_of_ok)

lemma mk_prime_factorization_ok:
  assumes "mk_prime_factorization h x = Inr y"
  shows "(\<exists>d. y = x\<lparr>fr_factor_multiset_digest := Some d\<rparr>) \<and> factor_product y = decimal_of (fr_target_n y)"
  using assms
  by (auto simp: mk_prime_factorization_def res_simps factor_product_def fold_product parse_decimal_iff decimal_of_ok)

lemma prime_factors_values:
  assumes "mapE (\<lambda>p. mk_prime_factor \<lparr>pf_prime = show_int p, pf_exponent = n p\<rparr>) vs = Inr fs" "\<forall>p \<in> set vs. 0 \<le> p"
  shows "map (\<lambda>f. decimal_of (pf_prime f)) fs = vs \<and> (\<forall>f \<in> set fs. 1 \<le> pf_exponent f)"
  using assms
proof (induction vs arbitrary: fs)
  case (Cons v vs)
  then obtain g gs where "fs = g # gs" "mk_prime_factor \<lparr>pf_prime = show_int v, pf_exponent = n v\<rparr> = Inr g"
    "mapE (\<lambda>p. mk_prime_factor \<lparr>pf_prime = show_int p, pf_exponent = n p\<rparr>) vs = Inr gs"
    by (auto simp: res_simps)
  then show ?case
    using Cons by (auto simp: mk_prime_factor_def res_simps dest!: parse_show)
qed simp

text \<open>What a factorization of the merge says, when the values it is built from are prime.\<close>

lemma prime_factorization_of_ok:
  assumes "prime_factorization_of h t primes k m c = Inr f" "\<forall>p \<in> set primes. prime_number p" "0 \<le> t"
  shows "(\<forall>p \<in> set (fr_prime_factors f). prime_number (decimal_of (pf_prime p)) \<and> 1 \<le> pf_exponent p) \<and>
    sorted (map (\<lambda>p. decimal_of (pf_prime p)) (fr_prime_factors f)) \<and>
    distinct (map (\<lambda>p. decimal_of (pf_prime p)) (fr_prime_factors f)) \<and> factor_product f = t"
proof -
  let ?vs = "sort (remdups primes)"
  obtain fs x where fs: "mapE (\<lambda>p. mk_prime_factor \<lparr>pf_prime = show_int p, pf_exponent = int (length (filter (\<lambda>q. q = p) primes))\<rparr>) ?vs = Inr fs"
    and x: "mk_prime_factorization h x = Inr f" "fr_prime_factors x = fs" "fr_target_n x = show_int t"
    using assms(1) by (auto simp: prime_factorization_of_def Let_def res_simps)
  have "\<forall>p \<in> set ?vs. 0 \<le> p" using assms(2) by (auto simp: prime_number_def)
  from prime_factors_values[OF fs this] have v: "map (\<lambda>f. decimal_of (pf_prime f)) fs = ?vs" "\<forall>f \<in> set fs. 1 \<le> pf_exponent f"
    by auto
  note m = mk_prime_factorization_ok[OF x(1)]
  then have ff: "fr_prime_factors f = fs" "fr_target_n f = show_int t" using x by auto
  have "\<exists>i. parse_decimal_integer ''target_n'' (show_int t) 2 = Inr i"
    using x by (auto simp: mk_prime_factorization_def res_simps)
  then have "decimal_of (show_int t) = t" using parse_show assms(3) by blast
  moreover have "\<forall>q \<in> set fs. decimal_of (pf_prime q) \<in> set primes"
    using arg_cong[OF v(1), of set] by auto
  ultimately show ?thesis
    using v m ff assms(2) by simp
qed

section \<open>The selected slots\<close>

lemma slot_inputs_by_key_ok:
  "slot_inputs_by_key xs d = Inr d' \<Longrightarrow> distinct (dict_keys d) \<Longrightarrow>
    d' = d @ map (\<lambda>x. (sm_slot_key x, x)) xs \<and> distinct (dict_keys d')"
proof (induction xs d rule: slot_inputs_by_key.induct)
  case (2 x xs d)
  then have x: "sm_slot_key x \<notin> set (dict_keys d)" and xs: "slot_inputs_by_key xs (dict_set (sm_slot_key x) x d) = Inr d'"
    by (auto simp: dict_has_iff split: if_splits)
  have "\<not> dict_has d (sm_slot_key x)" using x by (simp add: dict_has_iff)
  moreover have "distinct (dict_keys (dict_set (sm_slot_key x) x d))" using x 2(3) by (auto simp: dict_set_new)
  ultimately have "d' = dict_set (sm_slot_key x) x d @ map (\<lambda>x. (sm_slot_key x, x)) xs \<and> distinct (dict_keys d')"
    using 2(1) xs by blast
  then show ?case unfolding dict_set_new[OF x] append_assoc append_Cons append_Nil list.map by blast
qed simp

lemma sort_Nil_iff: "sort xs = [] \<longleftrightarrow> xs = []"
  by (metis set_empty set_sort)

lemma hash_key_JStr: "hash_key j = Inr (JStr k) \<Longrightarrow> j = JStr k"
  by (cases j) (auto split: option.splits)

lemma reject_unexpected_ok:
  assumes "reject_unexpected_slots required provided = Inr ()" "k \<in> set (dict_keys provided)"
  shows "JStr k \<in> set required"
proof -
  obtain keys where keys: "mapE hash_key required = Inr keys" "JStr k \<in> set keys"
    using assms by (auto simp: reject_unexpected_slots_def res_simps Let_def sort_Nil_iff filter_empty_conv)
  have "\<exists>j \<in> set required. hash_key j = Inr y" if "mapE hash_key js = Inr ys" "y \<in> set ys" "set js \<subseteq> set required" for js ys y
    using that by (induction js arbitrary: ys) (auto simp: res_simps)
  then show ?thesis using keys hash_key_JStr by blast
qed

lemma jitem_jget: "jitem d k = Inr v \<Longrightarrow> jget d k = v"
  by (auto simp: jitem_def jget_def split: option.splits)

text \<open>The slots selected for a merge hold exactly the inputs that were given.\<close>

lemma selected_inputs:
  assumes "mapE (\<lambda>s. jitem s ''slot_key'') slots = Inr required"
    and "slot_inputs_by_key inputs [] = Inr provided" and "reject_unexpected_slots required provided = Inr ()"
  shows "(\<lambda>p. snd p) ` set (selected_slots slots provided) = set inputs"
proof -
  from slot_inputs_by_key_ok[OF assms(2)] have p: "provided = map (\<lambda>x. (sm_slot_key x, x)) inputs" "distinct (dict_keys provided)"
    by auto
  have "x \<in> set inputs" if "slot_provided provided j = Some x" for j x
    using that p(1) by (auto simp: slot_provided_def split: json.splits dest!: map_of_SomeD)
  moreover have "\<exists>s \<in> set slots. slot_provided provided (jget s ''slot_key'') = Some x" if x: "x \<in> set inputs" for x
  proof -
    have k: "(sm_slot_key x, x) \<in> set provided" using x p(1) by auto
    then have "JStr (sm_slot_key x) \<in> set required" using reject_unexpected_ok[OF assms(3)] by force
    then obtain s where "s \<in> set slots" "jget s ''slot_key'' = JStr (sm_slot_key x)"
      using mapE_source[OF assms(1)] jitem_jget by blast
    moreover have "dict_get provided (sm_slot_key x) = Some x" by (rule map_of_is_SomeI[OF p(2) k])
    ultimately show ?thesis by (intro bexI[of _ s]) (simp_all add: slot_provided_def)
  qed
  ultimately show ?thesis by (force simp: selected_slots_def image_iff split: option.splits)
qed

lemma complete_coverage_ok:
  assumes "validate_complete_candidate_coverage t rs = Inr ()"
  shows "\<exists>intervals. mapE result_interval rs = Inr intervals \<and> tiles 2 (isqrt t) (sort intervals)"
proof -
  obtain intervals x where "mapE result_interval rs = Inr intervals" "check_coverage 2 (sort intervals) = Inr x" "x - 1 = isqrt t"
    using assms by (auto simp: validate_complete_candidate_coverage_def res_simps)
  then show ?thesis by (auto simp: check_coverage_iff)
qed

lemma merged_target_ok:
  assumes "merged_target keys provided rs found summary = Inr t"
  shows "(\<forall>r \<in> set rs. decimal_of (rr_target_n r) = t) \<and>
    (found = None \<longrightarrow> (\<exists>intervals. mapE result_interval rs = Inr intervals \<and> tiles 2 (isqrt t) (sort intervals)))"
proof (cases "length provided = length keys")
  case True
  then show ?thesis
    using assms complete_coverage_ok
    by (auto simp: merged_target_def validate_complete_range_result_set_def res_simps decimal_of_ok dest!: same_value_ok)
next
  case False
  then show ?thesis
    using assms
    by (auto simp: merged_target_def validate_factor_witness_result_set_def res_simps decimal_of_ok dest!: same_value_ok split: if_splits)
qed

section \<open>The result\<close>

lemma mk_fact_merge_result_ok:
  assumes "mk_fact_merge_result x = Inr y"
  shows "y = x \<and> (\<exists>t. parse_decimal_integer ''target_n'' (fm_target_n x) 2 = Inr t \<and> check_merge_factors x t = Inr ())"
  using assms by (auto simp: mk_fact_merge_result_def res_simps)

lemma merge_result_of_ok:
  assumes "merge_result_of h mid t summary kind n digests cd factors pf lim ca = Inr m" "2 \<le> t"
  shows "decimal_of (fm_target_n m) = t \<and> fm_result_kind m = kind \<and> fm_found_factor m = map_option (\<lambda>p. show_int (fst p)) factors \<and>
    fm_cofactor m = map_option (\<lambda>p. show_int (snd p)) factors"
  using assms by (auto simp: merge_result_of_def res_simps dest!: mk_fact_merge_result_ok parse_show)

text \<open>
  A merge result is right for a target: a resolved one lists primes, in ascending order and each once, whose
  powers multiply to the target; an unresolved one names two factors above one that multiply to it.
\<close>

definition right_for :: "merge_policy_result \<Rightarrow> int \<Rightarrow> bool" where
  "right_for res t \<longleftrightarrow>
     decimal_of (fm_target_n (mr_merge_result res)) = t \<and>
     (case mr_prime_factorization_result res of
        Some f \<Rightarrow>
          mr_expected_output_resolvable res \<and>
          (\<forall>p \<in> set (fr_prime_factors f). prime_number (decimal_of (pf_prime p)) \<and> 1 \<le> pf_exponent p) \<and>
          sorted (map (\<lambda>p. decimal_of (pf_prime p)) (fr_prime_factors f)) \<and>
          distinct (map (\<lambda>p. decimal_of (pf_prime p)) (fr_prime_factors f)) \<and> factor_product f = t
      | None \<Rightarrow>
          \<not> mr_expected_output_resolvable res \<and>
          (\<exists>a b. 1 < a \<and> 1 < b \<and> a * b = t \<and> fm_found_factor (mr_merge_result res) = Some (show_int a) \<and>
             fm_cofactor (mr_merge_result res) = Some (show_int b)))"

lemma conclude_merge_right:
  assumes "conclude_merge h mid t summary n digests found budget ca = Inr res" "2 \<le> t"
    and "found = None \<Longrightarrow> prime_number t"
    and "\<And>a b. found = Some (a, b) \<Longrightarrow> 1 < a \<and> 1 < b \<and> a * b = t"
  shows "right_for res t"
proof (cases found)
  case None
  then obtain f m cd where f: "prime_factorization_of h t [t] ''prime_certificate'' mid ca = Inr f"
    and m: "merge_result_of h mid t summary ''prime_certificate'' n digests cd None (Some f) None ca = Inr m"
    and res: "res = resolved_result m f"
    using assms(1) by (auto simp: conclude_merge_def res_simps Let_def)
  have "\<forall>p \<in> set [t]. prime_number p" "0 \<le> t" using assms(2,3) None by auto
  from prime_factorization_of_ok[OF f this] merge_result_of_ok[OF m assms(2)] show ?thesis
    by (auto simp: right_for_def res resolved_result_def)
next
  case (Some p)
  obtain a b where p: "found = Some (a, b)" using Some by (cases p) auto
  note ab = assms(4)[OF p]
  show ?thesis
  proof (cases "is_prime_with_budget a budget = Some True \<and> is_prime_with_budget b budget = Some True")
    case True
    then obtain f m cd where f: "prime_factorization_of h t [a, b] ''semiprime_merge'' mid ca = Inr f"
      and m: "merge_result_of h mid t summary ''prime_factorization_result'' n digests cd (Some (a, b)) (Some f) None ca = Inr m"
      and res: "res = resolved_result m f"
      using assms(1) by (auto simp: conclude_merge_def p res_simps Let_def)
    have "\<forall>p \<in> set [a, b]. prime_number p" "0 \<le> t" using prime_budget_Some True assms(2) by auto
    from prime_factorization_of_ok[OF f this] merge_result_of_ok[OF m assms(2)] show ?thesis
      by (auto simp: right_for_def res resolved_result_def)
  next
    case False
    then obtain m cd lim where
      m: "merge_result_of h mid t summary ''nontrivial_factor_found'' n digests cd (Some (a, b)) None lim ca = Inr m"
      and res: "res = unresolved_result m"
      using assms(1) by (auto simp: conclude_merge_def p res_simps Let_def split: if_splits)
    from merge_result_of_ok[OF m assms(2)] ab show ?thesis
      by (auto simp: right_for_def res unresolved_result_def)
  qed
qed

text \<open>The slots of a merge hold results their constructor accepted; those without a factor were rechecked.\<close>

definition honest_slots :: "hash \<Rightarrow> slot_arg list \<Rightarrow> bool" where
  "honest_slots h slots \<longleftrightarrow>
     (\<forall>a \<in> set slots. \<forall>x. coerce_slot_input h a = Inr x \<longrightarrow> rr_ok (sm_range_result x) \<and>
       (rr_result_kind (sm_range_result x) = ''no_factor_in_range'' \<longrightarrow> verified_result (sm_range_result x)))"

lemma merge_right:
  assumes "merge_required_range_results h plan slots mu ca budget integrity = Inr res" and "honest_slots h slots"
  shows "\<exists>t. right_for res t \<and> (\<forall>a \<in> set slots. \<forall>x. coerce_slot_input h a = Inr x \<longrightarrow> decimal_of (rr_target_n (sm_range_result x)) = t)"
proof -
  obtain required inputs provided where
    req: "mapE (\<lambda>s. jitem s ''slot_key'') (mp_required_slots plan) = Inr required" and
    inp: "mapE (coerce_slot_input h) slots = Inr inputs" and
    prov: "slot_inputs_by_key inputs [] = Inr provided" and
    unex: "reject_unexpected_slots required provided = Inr ()" and
    ne: "selected_slots (mp_required_slots plan) provided \<noteq> []" and
    rest: "\<exists>summary found t mid digests. smallest_found_factor (map (\<lambda>p. sm_range_result (snd p)) (selected_slots (mp_required_slots plan) provided)) = Inr found \<and>
      merged_target required provided (map (\<lambda>p. sm_range_result (snd p)) (selected_slots (mp_required_slots plan) provided)) found summary = Inr t \<and>
      conclude_merge h mid t summary (length required) digests found budget ca = Inr res"
    using assms(1) unfolding merge_required_range_results_def res_simps raise_if_eq_Inr Let_def by (elim exE conjE) blast
  let ?rs = "map (\<lambda>p. sm_range_result (snd p)) (selected_slots (mp_required_slots plan) provided)"
  from rest obtain summary found t mid digests where found: "smallest_found_factor ?rs = Inr found"
    and t: "merged_target required provided ?rs found summary = Inr t"
    and c: "conclude_merge h mid t summary (length required) digests found budget ca = Inr res"
    by blast
  have sel: "(\<lambda>p. snd p) ` set (selected_slots (mp_required_slots plan) provided) = set inputs"
    by (rule selected_inputs[OF req prov unex])
  have rs: "set ?rs = sm_range_result ` set inputs" by (simp only: set_map sel[symmetric] image_image)
  have ok: "rr_ok r \<and> (rr_result_kind r = ''no_factor_in_range'' \<longrightarrow> verified_result r)" if "r \<in> set ?rs" for r
    using that mapE_source[OF inp] assms(2) unfolding rs honest_slots_def by fastforce
  note target = merged_target_ok[OF t]
  have two: "2 \<le> t"
  proof -
    obtain r where r: "r \<in> set ?rs" using ne by (cases "selected_slots (mp_required_slots plan) provided") auto
    then show ?thesis using ok[OF r] target by (auto elim!: rr_ok_bounds)
  qed
  have f: "case found of None \<Rightarrow> \<forall>r \<in> set ?rs. rr_result_kind r = ''no_factor_in_range'' | Some p \<Rightarrow> \<exists>r \<in> set ?rs. splits_target p r"
    by (rule smallest_found_ok[OF found]) (use ok in blast)
  have prime: "prime_number t" if "found = None"
  proof -
    from target that obtain ivs where ivs: "mapE result_interval ?rs = Inr ivs" "tiles 2 (isqrt t) (sort ivs)" by blast
    have none: "rr_result_kind r = ''no_factor_in_range''" if "r \<in> set ?rs" for r
      using f \<open>found = None\<close> that by auto
    have "no_divisor_between t s e" if se: "(s, e) \<in> set (sort ivs)" for s e
    proof -
      have "(s, e) \<in> set ivs" using se by simp
      from mapE_source[OF ivs(1) this] obtain r where r: "r \<in> set ?rs" "result_interval r = Inr (s, e)" by blast
      then show ?thesis using verified_no_factor[OF _ none[OF r(1)] r(2)] ok[OF r(1)] none[OF r(1)] target by auto
    qed
    then show ?thesis using tiles_prime[OF ivs(2) two] by blast
  qed
  have pair: "1 < a \<and> 1 < b \<and> a * b = t" if "found = Some (a, b)" for a b
    using f[unfolded that option.case] ok target by (auto simp: splits_target_def)
  have "right_for res t" by (rule conclude_merge_right[OF c two prime pair])
  moreover have "decimal_of (rr_target_n (sm_range_result x)) = t" if "a \<in> set slots" "coerce_slot_input h a = Inr x" for a x
    using mapE_mem[OF inp that(1)] that(2) rs target by auto
  ultimately show ?thesis by blast
qed


definition sample_slot :: slot_input where
  "sample_slot = \<lparr>sm_slot_key = ''range:c:0:range_result'', sm_range_result = sample_result, sm_canonical_output_digest = ''sha256:1''\<rparr>"

definition sample_summary :: jobj where
  "sample_summary =
    [(''target_n'', JStr (show_int 91)), (''coverage_id'', JStr [CHR ''c'']), (''range_count'', JInt 1),
     (''ranges_digest'', JStr ''sha256:2''), (''partition_params_digest'', JStr ''sha256:0'')]"

definition sample_merge_plan :: merge_plan where
  "sample_merge_plan =
     \<lparr>mp_merge_plan_header = [(''merge_plan_id'', JStr ''p'')],
      mp_merge_policy_ref = [(''merge_policy_id'', JStr witness_or_all_policy_id), (''merge_policy_version'', JStr ''v2'')],
      mp_required_slots = [[(''slot_key'', JStr ''range:c:0:range_result''), (''source_child_logical_key'', JStr ''range:c:0'')]],
      mp_parent_output_mapping = [], mp_hash_recording_requirements = [], mp_merge_validation_requirements = [],
      mp_plugin_payload = [(''plugin_defined_body'', JObj [(''summary'', JObj
        sample_summary)])],
      mp_schema_version = ''phase4.merge_plan.v1''\<rparr>"

lemma int_of_numeral: "0 \<le> i \<Longrightarrow> i < 100 \<Longrightarrow> int_of_decimal (show_int i) = Inr i"
  using parse_numeral[of i 0] parse_decimal_ok by blast

lemma sample_merge_ok:
  "\<exists>res. merge_required_range_results (\<lambda>_. ''0'') sample_merge_plan [SlotInput sample_slot] ''u'' ''t'' 10 True = Inr res"
proof -
  have key: "range_child_key sample_result = ''range:c:0''"
    by (simp add: range_child_key_def sample_result_def show_int_def show_nat.simps digit_chars)
  have found: "smallest_found_factor [sample_result] = Inr (Some (7, 13))"
    by (simp add: smallest_found_factor_def sample_result_def int_of_numeral)
  have target: "merged_target [JStr ''range:c:0:range_result''] [(k, x)] [sample_result] f
      sample_summary = Inr 91" for k x f
    by (simp add: merged_target_def validate_complete_range_result_set_def same_value_def sample_result_def int_of_numeral
        sample_summary_def jget_def is_sha256_def py_eq_def validate_complete_candidate_coverage_def result_interval_def isqrt_91)
  have prime: "is_prime_with_budget 7 10 = Some True" "is_prime_with_budget 13 10 = Some True"
    by (simp_all add: is_prime_with_budget_def isqrt.simps odd_divisor_loop.simps)
  have fact: "is_ok (prime_factorization_of h 91 [7, 13] ''semiprime_merge'' (CHR ''f'' # m) ''t'')" for h m
    by (simp add: prime_factorization_of_def Let_def mk_prime_factor_def parse_numeral mk_prime_factorization_def require_schema_def
        require_text_def validate_primality_evidence_def trial_division_policy_id_def in_str_keys_def jget_def int_of_numeral
        set_or_check_digest_def)
  have res: "is_ok (merge_result_of h (CHR ''f'' # m) 91
      sample_summary ''prime_factorization_result'' 1
      [''sha256:1''] ''sha256:2'' (Some (7, 13)) (Some f) None ''t'')" for h m f
    by (simp add: merge_result_of_def sample_summary_def jitem_def mk_fact_merge_result_def require_schema_def require_text_def parse_numeral
        require_digest_def is_sha256_def merge_result_kinds_def check_merge_factors_def)
  have conclude: "is_ok (conclude_merge h (CHR ''f'' # m) 91 sample_summary 1 [''sha256:1''] (Some (7, 13)) 10 ''t'')" for h m
  proof -
    obtain f where f: "prime_factorization_of h 91 [7, 13] ''semiprime_merge'' (CHR ''f'' # m) ''t'' = Inr f"
      using fact[of h m] by (auto simp only: is_ok_iff)
    have "jitem sample_summary ''ranges_digest'' = Inr (JStr ''sha256:2'')" by (simp add: sample_summary_def jitem_def)
    then show ?thesis using res[of h m f] by (simp only: conclude_merge_def bindE_Inr f prime option.case prod.case Let_def simp_thms if_True status_text.simps is_ok_bindE) (auto simp: is_ok_iff)
  qed
  have "is_ok (merge_required_range_results (\<lambda>_. ''0'') sample_merge_plan [SlotInput sample_slot] ''u'' ''t'' 10 True)"
    using found target conclude
    by (simp add: merge_required_range_results_def sample_merge_plan_def sample_slot_def validate_policy_ref_def jget_def jitem_def
        reject_unexpected_slots_def dict_has_def selected_slots_def slot_provided_def key plugin_summary_def)
  then show ?thesis by (simp only: is_ok_iff)
qed


end
