(* ===== verification/Fact_Pipeline.thy ===== *)
theory Fact_Pipeline
  imports Fact_Split_Facts Fact_Merge_Facts
begin

text \<open>
  The factorization plugin from end to end: a split plan, results of its ranges that the validator accepts, and
  the merge of these results. The lemmas follow the records the three parts exchange: what the split writes into
  the merge plan is what the merge reads back from it.
\<close>

section \<open>A merge that can be written down\<close>

definition printable :: "int \<Rightarrow> bool" where
  "printable t \<longleftrightarrow> length (show_int t) \<le> max_str_digits"

lemma printable_below:
  assumes "printable t" "0 \<le> i" "i \<le> t"
  shows "printable i"
proof -
  have "length (show_nat (nat i)) \<le> length (show_nat (nat t))" using assms by (intro show_nat_mono) simp
  then show ?thesis using assms by (simp add: printable_def show_int_def)
qed

lemma parse_printable: "printable i \<Longrightarrow> 0 \<le> i \<Longrightarrow> m \<le> i \<Longrightarrow> parse_decimal_integer f (show_int i) m = Inr i"
  by (simp add: printable_def parse_decimal_show)

lemma int_of_printable: "printable i \<Longrightarrow> 0 \<le> i \<Longrightarrow> int_of_decimal (show_int i) = Inr i"
  using parse_printable[of i i] parse_decimal_ok by blast

lemma factor_bounds:
  fixes a b :: int
  assumes "1 < a" "1 < b" "a * b = t"
  shows "a < t" "b < t"
  using assms by (auto simp: mult_less_cancel_left1 mult_less_cancel_right1)

definition powers_of :: "int list \<Rightarrow> prime_factor list" where
  "powers_of ps = map (\<lambda>p. \<lparr>pf_prime = show_int p, pf_exponent = int (length (filter (\<lambda>q. q = p) ps))\<rparr>) (sort (remdups ps))"

lemma powers_mapE:
  assumes "\<forall>p \<in> set ps. 2 \<le> p \<and> printable p"
  shows "mapE (\<lambda>p. mk_prime_factor \<lparr>pf_prime = show_int p, pf_exponent = int (length (filter (\<lambda>q. q = p) ps))\<rparr>) (sort (remdups ps))
    = Inr (powers_of ps)"
  unfolding powers_of_def
proof (rule mapE_ok)
  fix p assume "p \<in> set (sort (remdups ps))"
  then have p: "p \<in> set ps" by simp
  then have "filter (\<lambda>q. q = p) ps \<noteq> []" by (auto simp: filter_empty_conv)
  then show "mk_prime_factor \<lparr>pf_prime = show_int p, pf_exponent = int (length (filter (\<lambda>q. q = p) ps))\<rparr> =
      Inr \<lparr>pf_prime = show_int p, pf_exponent = int (length (filter (\<lambda>q. q = p) ps))\<rparr>"
    using assms p parse_printable[of p 2 "''prime''"] by (simp add: mk_prime_factor_def)
qed

lemma powers_values:
  assumes "\<forall>p \<in> set ps. 2 \<le> p \<and> printable p"
  shows "mapE (\<lambda>f. int_of_decimal (pf_prime f)) (powers_of ps) = Inr (sort (remdups ps))"
proof -
  have read: "mapE (\<lambda>f. int_of_decimal (pf_prime f)) (map g vs) = Inr vs"
    if "\<forall>v \<in> set vs. int_of_decimal (pf_prime (g v)) = Inr v" for g vs
    using that by (induction vs) auto
  show ?thesis unfolding powers_of_def by (rule read) (use assms in \<open>auto intro!: int_of_printable\<close>)
qed

text \<open>The product of the powers, for the one or two factors of a merge.\<close>

lemma powers_product:
  assumes "ps = [a] \<or> ps = [a, b]"
  shows "fold (\<lambda>(p, f) acc. acc * p ^ nat (pf_exponent f)) (zip (sort (remdups ps)) (powers_of ps)) (1::int) = prod_list ps"
  using assms by (auto simp: powers_of_def power2_eq_square)

lemma factorization_exists:
  assumes ps: "ps = [a] \<or> ps = [a, b]" "\<forall>p \<in> set ps. 2 \<le> p \<and> printable p" "prod_list ps = t"
    and t: "2 \<le> t" "printable t" and kind: "kind \<in> {''prime_certificate'', ''semiprime_merge''}" and c: "created_at \<noteq> []"
  shows "\<exists>f. prime_factorization_of h t ps kind m created_at = Inr f \<and> fr_prime_factors f = powers_of ps"
proof -
  have ne: "powers_of ps \<noteq> []" using ps(1) by (auto simp: powers_of_def sort_Nil_iff)
  have "parse_decimal_integer ''target_n'' (show_int t) 2 = Inr t" using t by (intro parse_printable) auto
  then show ?thesis
    using c kind ne powers_values[OF ps(2)] powers_product[OF ps(1)] ps(3)
    by (simp add: prime_factorization_of_def Let_def sorted_sort_id[OF sorted_sort] powers_mapE[OF ps(2)] mk_prime_factorization_def require_schema_def
        require_text_def validate_primality_evidence_def trial_division_policy_id_def jget_def in_str_keys_str set_or_check_digest_def)
qed

text \<open>What the merge reads from the summary of a plan.\<close>

definition merge_summary_ok :: "jobj \<Rightarrow> bool" where
  "merge_summary_ok summary \<longleftrightarrow>
     (\<exists>c p d. jitem summary ''coverage_id'' = Inr (JStr c) \<and> c \<noteq> [] \<and>
        jitem summary ''partition_params_digest'' = Inr (JStr p) \<and> is_sha256 p \<and>
        jitem summary ''ranges_digest'' = Inr (JStr d) \<and> is_sha256 d)"

lemma merge_result_exists:
  assumes "merge_summary_ok summary" "is_sha256 cd" "list_all is_sha256 digests" "digests \<noteq> []" "n = length digests"
    and "2 \<le> t" "printable t" "merge_id \<noteq> []" "created_at \<noteq> []"
    and "kind = ''prime_certificate'' \<and> factors = None \<and> pf \<noteq> None \<or>
      (\<exists>a b. factors = Some (a, b) \<and> 1 < a \<and> 1 < b \<and> a * b = t) \<and>
        (kind = ''prime_factorization_result'' \<and> pf \<noteq> None \<or> kind = ''nontrivial_factor_found'' \<and> pf = None)"
  shows "\<exists>m. merge_result_of h merge_id t summary kind n digests cd factors pf lim created_at = Inr m"
proof -
  have t: "parse_decimal_integer ''target_n'' (show_int t) 2 = Inr t" using assms(6,7) by (intro parse_printable) auto
  have len: "1 \<le> length digests" using assms(4) by (cases digests) auto
  have split: "parse_decimal_integer f (show_int a) 2 = Inr a \<and> parse_decimal_integer f (show_int b) 2 = Inr b"
    if "1 < a" "1 < b" "a * b = t" for a b f
    using factor_bounds[OF that] that printable_below[OF assms(7), of a] printable_below[OF assms(7), of b]
    by (auto intro!: parse_printable)
  show ?thesis
    using assms(1-5,8-10) t len
    by (auto simp: merge_result_of_def merge_summary_ok_def mk_fact_merge_result_def require_schema_def require_text_def
        require_digest_def merge_result_kinds_def check_merge_factors_def split)
qed

lemma conclude_merge_exists:
  assumes s: "merge_summary_ok summary" and d: "list_all is_sha256 digests" "digests \<noteq> []" "n = length digests"
    and t: "2 \<le> t" "printable t" and c: "merge_id \<noteq> []" "created_at \<noteq> []"
    and f: "found = None \<or> (\<exists>a b. found = Some (a, b) \<and> 1 < a \<and> 1 < b \<and> a * b = t)"
  shows "\<exists>res. conclude_merge h merge_id t summary n digests found budget created_at = Inr res"
proof -
  obtain cd where cd: "jitem summary ''ranges_digest'' = Inr (JStr cd)" "is_sha256 cd"
    using s by (auto simp: merge_summary_ok_def)
  note result = merge_result_exists[OF s cd(2) d t c]
  show ?thesis
  proof (cases found)
    case None
    obtain g where g: "prime_factorization_of h t [t] ''prime_certificate'' merge_id created_at = Inr g"
      using factorization_exists[of "[t]" t t t "''prime_certificate''" created_at h merge_id] t c by auto
    obtain m where "merge_result_of h merge_id t summary ''prime_certificate'' n digests cd None (Some g) None created_at = Inr m"
      using result[of "''prime_certificate''" None "Some g"] by auto
    then show ?thesis using None g cd by (simp add: conclude_merge_def)
  next
    case (Some p)
    then obtain a b where p: "found = Some (a, b)" "1 < a" "1 < b" "a * b = t" using f by auto
    note below = factor_bounds[OF p(2-4)]
    have "\<forall>p \<in> set [a, b]. 2 \<le> p \<and> printable p"
      using p below printable_below[OF t(2)] by auto
    from factorization_exists[OF _ this, of a b t "''semiprime_merge''" created_at h merge_id] p t c
    obtain g where g: "prime_factorization_of h t [a, b] ''semiprime_merge'' merge_id created_at = Inr g"
      by auto
    obtain m where "merge_result_of h merge_id t summary ''prime_factorization_result'' n digests cd (Some (a, b)) (Some g) None created_at = Inr m"
      using result[of "''prime_factorization_result''" "Some (a, b)" "Some g"] p by auto
    moreover have "\<exists>m. merge_result_of h merge_id t summary ''nontrivial_factor_found'' n digests cd (Some (a, b)) None lim created_at = Inr m" for lim
      using result[of "''nontrivial_factor_found''" "Some (a, b)" None] p by auto
    ultimately show ?thesis
      using p(1) g cd by (auto simp: conclude_merge_def Let_def) (metis bindE_Inr)+
  qed
qed

section \<open>Results for the ranges of a plan\<close>

text \<open>A slot whose result its constructor accepts and the validator accepts for the range.\<close>

definition accepted_for :: "range_input \<Rightarrow> slot_input \<Rightarrow> bool" where
  "accepted_for r x \<longleftrightarrow>
     sm_slot_key x = range_slot_key r \<and> is_sha256 (sm_canonical_output_digest x) \<and> rr_ok (sm_range_result x) \<and>
     (\<exists>budget v. verify_range_result (JObj (rr_to_dict (sm_range_result x))) r budget = Inr v \<and> rv_accepted v)"

lemma accepted_agrees:
  assumes "accepted_for r x" and "mk_range_input h y = Inr r"
  shows "rr_target_n (sm_range_result x) = sr_target_n r \<and> rr_coverage_id (sm_range_result x) = sr_coverage_id r \<and>
    rr_partition_params_digest (sm_range_result x) = sr_partition_params_digest r \<and>
    range_child_key (sm_range_result x) = child_logical_key r \<and> result_interval (sm_range_result x) = Inr (range_of r) \<and>
    verified_result (sm_range_result x)"
proof -
  obtain budget v where v: "verify_range_result (JObj (rr_to_dict (sm_range_result x))) r budget = Inr v" "rv_accepted v"
    using assms(1) by (auto simp: accepted_for_def)
  from recheck_accepted[OF assms(2) v prod.collapse[symmetric] refl]
  have al: "aligned (rr_to_dict (sm_range_result x)) r" by auto
  then have f: "rr_target_n (sm_range_result x) = sr_target_n r" "rr_coverage_id (sm_range_result x) = sr_coverage_id r"
    "rr_partition_params_digest (sm_range_result x) = sr_partition_params_digest r"
    "rr_child_index (sm_range_result x) = sr_child_index r" "rr_range_start (sm_range_result x) = sr_range_start r"
    "rr_range_end (sm_range_result x) = sr_range_end r"
    by (auto simp: aligned_def jget_rr)
  have "rr_ok (sm_range_result x)" using assms(1) by (simp add: accepted_for_def)
  then have "result_interval (sm_range_result x) = Inr (range_of r)"
    by (elim rr_ok_bounds) (auto simp: range_of_def result_interval_def res_simps decimal_of_ok f)
  moreover have "verified_result (sm_range_result x)" unfolding verified_result_def using v assms(2) by blast
  ultimately show ?thesis using f by (auto simp: range_child_key_def child_logical_key_def)
qed

lemma found_factors_total: "\<forall>r \<in> set rs. rr_ok r \<Longrightarrow> \<exists>ps. found_factors rs = Inr ps"
proof (induction rs)
  case (Cons r rs)
  then obtain ps where ps: "found_factors rs = Inr ps" by auto
  have "rr_result_kind r = ''no_factor_in_range'' \<or> rr_result_kind r = ''found_factor''"
    using Cons.prems by (auto simp: rr_ok_def range_result_kinds_def)
  then show ?case
    using Cons.prems ps by (auto elim!: rr_ok_bounds simp: factor_fields_ok_def parse_decimal_iff)
qed simp

lemma slot_inputs_distinct:
  "distinct (dict_keys d @ map sm_slot_key xs) \<Longrightarrow> slot_inputs_by_key xs d = Inr (d @ map (\<lambda>x. (sm_slot_key x, x)) xs)"
  by (induction xs d rule: slot_inputs_by_key.induct) (auto simp: dict_has_iff dict_set_new)

lemma selected_zip:
  "list_all2 (\<lambda>s x. slot_provided provided (jget s ''slot_key'') = Some x) slots xs \<Longrightarrow> selected_slots slots provided = zip slots xs"
  by (induction slots xs rule: list_all2_induct) (auto simp: selected_slots_def)

lemma bindings_valid:
  "list_all2 (\<lambda>s x. jget s ''source_child_logical_key'' = JStr (range_child_key (sm_range_result x)) \<and>
      jget s ''slot_key'' = JStr (range_child_key (sm_range_result x) @ '':range_result'') \<and>
      sm_slot_key x = range_child_key (sm_range_result x) @ '':range_result'') slots xs \<Longrightarrow>
    validate_slot_result_bindings (zip slots xs) = Inr ()"
  by (induction slots xs rule: list_all2_induct) (simp_all add: Let_def)

lemma same_value_all:
  assumes "xs \<noteq> []" "\<forall>x \<in> set xs. f x = v"
  shows "same_value f xs m = Inr v"
proof -
  have s: "set (remdups (map f xs)) = {v}" using assms by (cases xs) auto
  then have "length (remdups (map f xs)) = 1" by (metis distinct_card distinct_remdups is_singletonI is_singleton_altdef)
  with s have "remdups (map f xs) = [v]" by (cases "remdups (map f xs)") auto
  then show ?thesis by (simp add: same_value_def)
qed

lemma tiles_sorted: "tiles l u rs \<Longrightarrow> sorted rs"
proof (induction l u rs rule: tiles.induct)
  case (2 l u s e rs)
  have "(s, e) \<le> p" if "p \<in> set rs" for p
    using tiles_range[of "e + 1" u rs "fst p" "snd p"] that 2(2) by (simp add: less_eq_prod_def)
  then show ?case using 2 by simp
qed simp

section \<open>The merge of a plan's results\<close>

lemma plan_summary:
  assumes "merge_contract p m" "mk_summary = merge_summary p"
  shows "validate_policy_ref m = Inr ()" "plugin_summary m = Inr mk_summary"
  using assms by (simp_all add: merge_contract_def validate_policy_ref_def plugin_summary_def merge_plugin_defined_body_def)
    (simp add: jget_def)

text \<open>The ranges of a partition of a target, and what they have in common.\<close>

definition ranges_of_target :: "hash \<Rightarrow> string \<Rightarrow> partition_result \<Rightarrow> bool" where
  "ranges_of_target h target p \<longleftrightarrow>
     pp_target_n (pr_params p) = target \<and> keyed_ranges (pr_ranges p) \<and> is_sha256 (cv_ranges_digest (pr_coverage_proof p)) \<and>
     (\<forall>r \<in> set (pr_ranges p). (\<exists>x. mk_range_input h x = Inr r) \<and> sr_target_n r = target \<and>
        sr_coverage_id r = cv_coverage_id (pr_coverage_proof p) \<and> Some (sr_partition_params_digest r) = pp_params_digest (pr_params p))"

lemma partition_ranges_of_target:
  assumes "partition_candidate_ranges h (JStr t) requested max_children lo hi = Inr p" "pp_target_n (pr_params p) = t"
  shows "ranges_of_target h t p"
proof -
  obtain l u where lu: "partition_domain p = (l, u)" by (cases "partition_domain p")
  have "is_sha256 (cv_ranges_digest (pr_coverage_proof p)) \<and> (\<forall>r \<in> set (pr_ranges p). \<exists>x. mk_range_input h x = Inr r)"
    using assms(1) by (elim partition_parts) (auto simp: coverage_proof_for_def dest: mapE_source)
  then show ?thesis
    using partition_sound[OF assms(1) lu] assms(2) partition_keyed[OF assms(1)] by (simp add: ranges_of_target_def)
qed

text \<open>A slot with a result that was accepted for one of these ranges.\<close>

definition agrees :: "partition_result \<Rightarrow> string \<Rightarrow> range_input \<Rightarrow> slot_input \<Rightarrow> bool" where
  "agrees p target r x \<longleftrightarrow>
     sm_slot_key x = range_slot_key r \<and> range_child_key (sm_range_result x) = child_logical_key r \<and>
     rr_target_n (sm_range_result x) = target \<and>
     rr_coverage_id (sm_range_result x) = cv_coverage_id (pr_coverage_proof p) \<and>
     Some (rr_partition_params_digest (sm_range_result x)) = pp_params_digest (pr_params p) \<and>
     result_interval (sm_range_result x) = Inr (range_of r) \<and>
     rr_ok (sm_range_result x) \<and> verified_result (sm_range_result x) \<and> is_sha256 (sm_canonical_output_digest x)"

lemma accepted_agree:
  assumes "list_all2 accepted_for (pr_ranges p) xs" "ranges_of_target h target p"
  shows "list_all2 (agrees p target) (pr_ranges p) xs"
  using assms(1)
proof (rule list_all2_weaken)
  fix r x assume "r \<in> set (pr_ranges p)" and a: "accepted_for r x"
  with assms(2) obtain y where y: "mk_range_input h y = Inr r" and r: "sr_target_n r = target"
    "sr_coverage_id r = cv_coverage_id (pr_coverage_proof p)" "Some (sr_partition_params_digest r) = pp_params_digest (pr_params p)"
    by (auto simp: ranges_of_target_def)
  from accepted_agrees[OF a y] a r show "agrees p target r x"
    by (simp add: agrees_def accepted_for_def)
qed

lemma agree_members: "list_all2 (agrees p target) rs xs \<Longrightarrow> x \<in> set xs \<Longrightarrow> \<exists>r \<in> set rs. agrees p target r x"
  by (induction rs xs rule: list_all2_induct) auto

lemma complete_set_valid:
  assumes a: "list_all2 (agrees p target) (pr_ranges p) xs" and r: "ranges_of_target h target p"
    and t: "int_of_decimal target = Inr t" and tiled: "tiles 2 (isqrt t) (map range_of (pr_ranges p))"
  shows "validate_complete_range_result_set (map sm_range_result xs) (length xs) (merge_summary p) = Inr t"
proof -
  let ?rs = "map sm_range_result xs"
  obtain q where "q \<in> set (pr_ranges p)" using r by (cases "pr_ranges p") (auto simp: ranges_of_target_def keyed_ranges_def)
  with r obtain d where d: "pp_params_digest (pr_params p) = Some d" by (fastforce simp: ranges_of_target_def)
  have ne: "?rs \<noteq> []" using a r by (cases xs) (auto simp: ranges_of_target_def keyed_ranges_def)
  have all: "\<forall>x \<in> set ?rs. rr_target_n x = target \<and> rr_coverage_id x = cv_coverage_id (pr_coverage_proof p) \<and> rr_partition_params_digest x = d"
    using agree_members[OF a] d by (fastforce simp: agrees_def)
  then have same: "same_value rr_target_n ?rs m = Inr target" "same_value rr_coverage_id ?rs m = Inr (cv_coverage_id (pr_coverage_proof p))"
    "same_value rr_partition_params_digest ?rs m = Inr d" for m
    by (auto intro!: same_value_all ne)
  have intervals: "mapE result_interval ?rs = Inr (map range_of (pr_ranges p))"
    using a by (simp add: mapE_list_all2 list.rel_map list_all2_conv_all_nth agrees_def)
  have "validate_complete_candidate_coverage t ?rs = Inr ()"
    using check_coverage_iff[of 2 "map range_of (pr_ranges p)" "isqrt t + 1"] tiled
    by (simp add: validate_complete_candidate_coverage_def intervals sorted_sort_id tiles_sorted[OF tiled])
  moreover have "jget (merge_summary p) ''target_n'' = JStr target" "jget (merge_summary p) ''coverage_id'' = JStr (cv_coverage_id (pr_coverage_proof p))"
    "jget (merge_summary p) ''partition_params_digest'' = JStr d" "jget (merge_summary p) ''range_count'' = JInt (int (length (pr_ranges p)))"
    "is_sha256 (text_of (jget (merge_summary p) ''ranges_digest''))"
    using r by (simp_all add: merge_summary_def jget_def d ranges_of_target_def)
  moreover have "length (pr_ranges p) = length xs" using a by (rule list_all2_lengthD)
  ultimately show ?thesis
    by (simp add: validate_complete_range_result_set_def same t py_eq_def)
qed

lemma slot_fields:
  "jget (factor_required_slot h r u) ''source_child_logical_key'' = JStr (child_logical_key r)"
  "jitem (factor_required_slot h r u) ''slot_key'' = Inr (JStr (range_slot_key r))"
  by (simp_all add: factor_required_slot_def jget_def jitem_def)

lemma merge_of_plan:
  assumes plan: "plan_for h alnum subject q p plan" and r: "ranges_of_target h target p"
    and t: "parse_decimal_integer ''target_n'' target 2 = Inr t" and tiled: "tiles 2 (isqrt t) (map range_of (pr_ranges p))"
    and a: "list_all2 (agrees p target) (pr_ranges p) xs" and b: "1 \<le> budget" "created_at \<noteq> []"
  shows "\<exists>res. merge_required_range_results h (sp_merge_plan plan) (map SlotInput xs) merge_unit_id created_at budget True = Inr res"
proof -
  let ?m = "sp_merge_plan plan" and ?rs = "map sm_range_result xs"
  let ?slots = "map (\<lambda>r. factor_required_slot h r (range_unit_id alnum h subject (sp_proposal plan) r)) (pr_ranges p)"
  let ?provided = "map (\<lambda>x. (sm_slot_key x, x)) xs"
  have slots: "mp_required_slots ?m = ?slots" and contract: "merge_contract p ?m" and naming: "self_naming h plan"
    using plan by (simp_all add: plan_for_def)
  have len: "length (pr_ranges p) = length xs" using a by (rule list_all2_lengthD)
  have k: "keyed_ranges (pr_ranges p)" using r by (simp add: ranges_of_target_def)
  have ne: "xs \<noteq> []" using len k by (auto simp: keyed_ranges_def)
  have "map sm_slot_key xs = map range_slot_key (pr_ranges p)"
    using a by (intro nth_equalityI) (auto simp: list_all2_conv_all_nth agrees_def)
  then have keys: "map sm_slot_key xs = map range_slot_key (pr_ranges p)" "distinct (map sm_slot_key xs)"
    using distinct_slot_keys[OF k] by (simp_all add: distinct_map inj_on_def)
  let ?required = "map (\<lambda>r. JStr (range_slot_key r)) (pr_ranges p)"
  have required: "mapE (\<lambda>s. jitem s ''slot_key'') ?slots = Inr ?required"
    unfolding mapE_list_all2 by (simp add: list_all2_conv_all_nth slot_fields)
  have coerced: "mapE (coerce_slot_input h) (map SlotInput xs) = Inr xs" by (induction xs) simp_all
  have provided: "slot_inputs_by_key xs [] = Inr ?provided" using slot_inputs_distinct[of "[]" xs] keys by simp
  have hashed: "mapE hash_key ?required = Inr ?required"
    unfolding mapE_list_all2 by (simp add: list_all2_conv_all_nth)
  have "set (map sm_slot_key xs) = set (map range_slot_key (pr_ranges p))" by (simp only: keys(1))
  then have "filter (\<lambda>k. JStr k \<notin> set ?required) (dict_keys ?provided) = []" by (auto simp: filter_empty_conv)
  then have unexpected: "reject_unexpected_slots ?required ?provided = Inr ()"
    by (simp only: reject_unexpected_slots_def hashed bindE_Inr Let_def) simp
  have selected: "selected_slots ?slots ?provided = zip ?slots xs"
  proof (rule selected_zip)
    have "dict_get ?provided (range_slot_key (pr_ranges p ! i)) = Some (xs ! i)" if i: "i < length xs" for i
    proof -
      have "sm_slot_key (xs ! i) = range_slot_key (pr_ranges p ! i)" using a i by (simp add: list_all2_conv_all_nth agrees_def)
      then show ?thesis using keys(2) i by (intro map_of_is_SomeI) (auto simp: comp_def intro: rev_image_eqI nth_mem)
    qed
    then show "list_all2 (\<lambda>s x. slot_provided ?provided (jget s ''slot_key'') = Some x) ?slots xs"
      by (simp add: list_all2_conv_all_nth len slot_key_value slot_provided_def)
  qed
  have bindings: "validate_slot_result_bindings (zip ?slots xs) = Inr ()"
    using a by (intro bindings_valid) (auto simp: list_all2_conv_all_nth agrees_def slot_key_value slot_fields range_slot_key_def)
  have results: "map (\<lambda>p. f (snd p)) (zip ?slots xs) = map f xs" for f :: "slot_input \<Rightarrow> 'b"
    using len by (intro nth_equalityI) auto
  have ok: "\<forall>r \<in> set ?rs. rr_ok r" using agree_members[OF a] by (fastforce simp: agrees_def)
  obtain ps where "found_factors ?rs = Inr ps" using found_factors_total[OF ok] by blast
  then obtain found where found: "smallest_found_factor ?rs = Inr found" by (auto simp: smallest_found_factor_def)
  have target: "int_of_decimal target = Inr t" "2 \<le> t" "isdecimal target" using t by (auto simp: parse_decimal_iff)
  note whole = complete_set_valid[OF a r target(1) tiled]
  have pair: "found = None \<or> (\<exists>x y. found = Some (x, y) \<and> 1 < x \<and> 1 < y \<and> x * y = t)"
  proof (cases found)
    case (Some f)
    then obtain z where "z \<in> set ?rs" "splits_target f z" using smallest_found_ok[OF found ok] by auto
    moreover have "decimal_of (rr_target_n z) = t" if "z \<in> set ?rs" for z
      using agree_members[OF a] that target(1) by (fastforce simp: agrees_def decimal_of_ok)
    ultimately show ?thesis using Some by (cases f) (auto simp: splits_target_def)
  qed simp
  have summary: "merge_summary_ok (merge_summary p)"
  proof -
    obtain x where x: "x \<in> set xs" using ne by (cases xs) auto
    then obtain z where "agrees p target z x" using agree_members[OF a] by blast
    then have "cv_coverage_id (pr_coverage_proof p) \<noteq> []"
      "opt_str (pp_params_digest (pr_params p)) = JStr (rr_partition_params_digest (sm_range_result x))"
      "is_sha256 (rr_partition_params_digest (sm_range_result x))"
      by (auto simp: agrees_def rr_ok_def dest: sym[of "Some _"])
    then show ?thesis using r by (simp add: merge_summary_ok_def merge_summary_def jitem_def ranges_of_target_def)
  qed
  have printable: "printable t" unfolding printable_def using target by (intro printable_le) auto
  have digests: "list_all is_sha256 (map sm_canonical_output_digest xs)"
    using agree_members[OF a] by (fastforce simp: list_all_iff agrees_def)
  obtain i where i: "jitem (mp_merge_plan_header ?m) ''merge_plan_id'' = Inr (JStr i)"
    using naming by (auto simp: self_naming_def Let_def jget_def jitem_def split: option.splits)
  have "\<exists>res. conclude_merge h (''factorization_merge:'' @ i @ '':'' @ merge_unit_id) t (merge_summary p) (length ?required)
      (map sm_canonical_output_digest xs) found budget created_at = Inr res"
    using ne len target(2) printable b pair digests by (intro conclude_merge_exists[OF summary]) auto
  then obtain res where res: "conclude_merge h (''factorization_merge:'' @ i @ '':'' @ merge_unit_id) t (merge_summary p) (length ?required)
      (map sm_canonical_output_digest xs) found budget created_at = Inr res" ..
  have merged: "merged_target ?required ?provided ?rs found (merge_summary p) = Inr t"
    using whole len by (simp add: merged_target_def)
  have nonempty: "zip ?slots xs \<noteq> []" using ne len k by (cases "pr_ranges p"; cases xs) (auto simp: keyed_ranges_def)
  show ?thesis
    unfolding merge_required_range_results_def slots required coerced bindE_Inr provided unexpected seqE_Inr Let_def selected results
      plan_summary(1)[OF contract refl] plan_summary(2)[OF contract refl] found merged i status_text.simps res bindings
    using b nonempty by simp
qed

section \<open>An honest executor\<close>

text \<open>The answer to a range that trial division gives.\<close>

definition honest_result :: "range_input \<Rightarrow> int \<Rightarrow> int option \<Rightarrow> range_result" where
  "honest_result r t d =
     \<lparr>rr_range_result_id = ''r'',
      rr_result_kind = (if d = None then ''no_factor_in_range'' else ''found_factor''),
      rr_target_n = sr_target_n r, rr_range_start = sr_range_start r, rr_range_end = sr_range_end r,
      rr_coverage_id = sr_coverage_id r, rr_child_index = sr_child_index r,
      rr_partition_params_digest = sr_partition_params_digest r, rr_found_factor = map_option show_int d,
      rr_cofactor = map_option (\<lambda>f. show_int (t div f)) d, rr_checked_divisor_count = 1, rr_executor_summary = [],
      rr_created_at = ''t''\<rparr>"

lemma honest_result_ok:
  assumes r: "mk_range_input h y = Inr r" and b: "range_of r = (s, e)" "decimal_of (sr_target_n r) = t"
    and d: "case d of None \<Rightarrow> no_divisor_between t s e | Some f \<Rightarrow> s \<le> f \<and> f \<le> e \<and> f dvd t"
  shows "rr_ok (honest_result r t d) \<and> aligned (rr_to_dict (honest_result r t d)) r"
proof -
  have cr: "check_range (JStr (sr_target_n r)) (JStr (sr_range_start r)) (JStr (sr_range_end r)) = Inr (t, s, e)"
    using mk_range_input_ok[OF r] b by (auto simp: check_range_iff parse_decimal_iff range_of_def decimal_of_ok)
  then have t: "2 \<le> t" "2 \<le> s" "s \<le> e" "e \<le> isqrt t" "isdecimal (sr_target_n r)" "int_of_decimal (sr_target_n r) = Inr t"
    by (auto simp: check_range_iff parse_decimal_iff)
  have printable: "printable t" unfolding printable_def by (rule printable_le[OF t(5,6)]) (use t in auto)
  have "factor_fields_ok (honest_result r t d) t s e"
  proof (cases d)
    case (Some f)
    then have f: "s \<le> f" "f \<le> e" "f dvd t" using d by auto
    define g where "g = t div f"
    have g: "f * g = t" using f(3) by (simp add: g_def)
    have "f * f \<le> t" using f t le_isqrt[of t f] by (simp add: power2_eq_square)
    then have "f \<le> g" using g f t by (metis mult_le_cancel_left_pos order.strict_trans2 zero_less_numeral)
    then have "2 \<le> f" "2 \<le> g" "f < t" "f \<le> t" "g \<le> t" using f t factor_bounds[of f g t] g by auto
    then have "parse_decimal_integer n (show_int f) 2 = Inr f" "parse_decimal_integer n (show_int g) 2 = Inr g" for n
      using printable_below[OF printable, of f] printable_below[OF printable, of g] by (auto intro!: parse_printable)
    then show ?thesis
      using Some f g \<open>f < t\<close> by (simp add: factor_fields_ok_def honest_result_def g_def[symmetric])
  qed (simp add: factor_fields_ok_def honest_result_def)
  moreover have "sr_coverage_id r \<noteq> []" "0 \<le> sr_child_index r" "is_sha256 (sr_partition_params_digest r)"
    using r by (auto simp: mk_range_input_def res_simps require_text_def require_digest_def)
  ultimately show ?thesis
    using cr by (auto simp: rr_ok_def honest_result_def range_result_kinds_def aligned_def jget_rr)
qed

lemma honest_answer:
  assumes "mk_range_input h y = Inr r"
  shows "\<exists>x. accepted_for r x"
proof -
  obtain s e where se: "range_of r = (s, e)" by (cases "range_of r")
  obtain t where t: "decimal_of (sr_target_n r) = t" by blast
  define d where "d = (if no_divisor_between t s e then None else Some (SOME f. s \<le> f \<and> f \<le> e \<and> f dvd t))"
  have d: "case d of None \<Rightarrow> no_divisor_between t s e | Some f \<Rightarrow> s \<le> f \<and> f \<le> e \<and> f dvd t"
    by (auto simp: d_def no_divisor_between_def intro: someI2_ex)
  let ?r = "honest_result r t d"
  note ok = honest_result_ok[OF assms se t d]
  define budget where "budget = max 1 (e - s + 1)"
  have b: "1 \<le> budget" "e - s + 1 \<le> budget" by (simp_all add: budget_def)
  have "mk_range_result (rr_to_dict ?r) = Inr ?r" by (rule mk_range_result_again) (use ok in blast)
  from recheck_verdict[OF this assms b(1) se t] obtain v where
    v: "verify_range_result (JObj (rr_to_dict ?r)) r budget = Inr v"
      "rv_accepted v \<longleftrightarrow> aligned (rr_to_dict ?r) r \<and> (rr_result_kind ?r = ''found_factor'' \<or> e - s + 1 \<le> budget \<and> no_divisor_between t s e)"
    by blast
  have "rv_accepted v" using v(2) ok b d by (cases d) (auto simp: honest_result_def)
  then have "accepted_for r \<lparr>sm_slot_key = range_slot_key r, sm_range_result = ?r, sm_canonical_output_digest = digest_json h JNull\<rparr>"
    using ok v(1) by (auto simp: accepted_for_def)
  then show ?thesis by blast
qed

section \<open>From the subject to the factors\<close>

lemma pipeline:
  assumes n: "parse_decimal_integer ''target_n'' (fs_target_n subject) 2 = Inr n" "4 \<le> n"
    and c: "1 \<le> requested" "1 \<le> max_children" "1 \<le> budget" "created_at \<noteq> []"
  shows "\<exists>plan. build_split_plan h alnum subject q requested max_children (JStr ''2'') None = Inr plan \<and>
    (\<exists>xs. list_all2 accepted_for (pr_ranges (sp_partition plan)) xs) \<and>
    (\<forall>xs. list_all2 accepted_for (pr_ranges (sp_partition plan)) xs \<longrightarrow>
      (\<exists>res. merge_required_range_results h (sp_merge_plan plan) (map SlotInput xs) merge_unit_id created_at budget True = Inr res \<and>
        right_for res n))"
proof -
  obtain p plan where p: "partition_candidate_ranges h (JStr (fs_target_n subject)) requested max_children (JStr ''2'') None = Inr p"
    and plan: "build_split_plan h alnum subject q requested max_children (JStr ''2'') None = Inr plan" "plan_for h alnum subject q p plan"
    and domain: "partition_domain p = (2, isqrt n)"
    using split_plan_total[OF n c(1,2)] by blast
  have "pp_target_n (pr_params p) = fs_target_n subject" using partition_exists[OF n c(1,2), of h] p by auto
  note r = partition_ranges_of_target[OF p this]
  have same: "sp_partition plan = p" using plan(2) by (simp add: plan_for_def)
  have tiled: "tiles 2 (isqrt n) (map range_of (pr_ranges p))" using partition_sound[OF p domain] by blast
  have "\<forall>z \<in> set (pr_ranges p). \<exists>x. accepted_for z x" using r honest_answer by (auto simp: ranges_of_target_def)
  then obtain f where f: "\<forall>z \<in> set (pr_ranges p). accepted_for z (f z)" by metis
  have "list_all2 accepted_for (pr_ranges p) (map f (pr_ranges p))"
    using f by (simp add: list_all2_conv_all_nth)
  moreover have "\<exists>res. merge_required_range_results h (sp_merge_plan plan) (map SlotInput xs) merge_unit_id created_at budget True = Inr res \<and>
      right_for res n" if xs: "list_all2 accepted_for (pr_ranges p) xs" for xs
  proof -
    note a = accepted_agree[OF xs r]
    obtain res where res: "merge_required_range_results h (sp_merge_plan plan) (map SlotInput xs) merge_unit_id created_at budget True = Inr res"
      using merge_of_plan[OF plan(2) r n(1) tiled a c(3,4)] by blast
    have good: "rr_ok (sm_range_result x) \<and> verified_result (sm_range_result x) \<and> decimal_of (rr_target_n (sm_range_result x)) = n"
      if "x \<in> set xs" for x
      using agree_members[OF a that] n(1) by (auto simp: agrees_def decimal_of_ok parse_decimal_iff)
    then have "honest_slots h (map SlotInput xs)" by (auto simp: honest_slots_def)
    from merge_right[OF res this] obtain t where t: "right_for res t"
      "\<forall>b \<in> set (map SlotInput xs). \<forall>x. coerce_slot_input h b = Inr x \<longrightarrow> decimal_of (rr_target_n (sm_range_result x)) = t"
      by blast
    have "pr_ranges p \<noteq> []" using r by (simp add: ranges_of_target_def keyed_ranges_def)
    then obtain x where "x \<in> set xs" using list_all2_lengthD[OF xs] by (cases xs) auto
    then have "t = n" using t(2) good[of x] by auto
    then show ?thesis using res t(1) by blast
  qed
  ultimately show ?thesis using plan(1) same by blast
qed

text \<open>
  C29 factorization_pipeline: for every target of at least four the plugin's split plan exists; every range of
  the plan has a result that the validator accepts; and with any such results in its slots the merge of the
  plan returns a result that is right for the target: primes whose powers multiply to it, or two factors
  above one. So a prime target comes out as its own factorization whatever executors answered.
\<close>

theorem factorization_pipeline:
  assumes "parse_decimal_integer ''target_n'' (fs_target_n subject) 2 = Inr n" "4 \<le> n"
    and "1 \<le> requested" "1 \<le> max_children" "1 \<le> budget" "created_at \<noteq> []"
  shows "\<exists>plan. build_split_plan h alnum subject q requested max_children (JStr ''2'') None = Inr plan \<and>
    (\<exists>xs. list_all2 accepted_for (pr_ranges (sp_partition plan)) xs) \<and>
    (\<forall>xs. list_all2 accepted_for (pr_ranges (sp_partition plan)) xs \<longrightarrow>
      (\<exists>res. merge_required_range_results h (sp_merge_plan plan) (map SlotInput xs) merge_unit_id created_at budget True = Inr res \<and>
        right_for res n))"
  using assms by (rule pipeline)

lemma factorization_pipeline_witness:
  "\<exists>plan xs res. build_split_plan (\<lambda>_. ''0'') (\<lambda>_. True) sample_subject sample_split_request 3 8 (JStr ''2'') None = Inr plan \<and>
    merge_required_range_results (\<lambda>_. ''0'') (sp_merge_plan plan) (map SlotInput xs) ''u'' ''t'' 10 True = Inr res \<and> right_for res 91"
proof -
  have "parse_decimal_integer ''target_n'' (fs_target_n sample_subject) 2 = Inr 91"
    by (simp add: sample_subject_def parse_numeral)
  from factorization_pipeline[OF this, of 3 8 10 "''t''" "\<lambda>_. ''0''" "\<lambda>_. True" sample_split_request "''u''"] show ?thesis by fastforce
qed

end
