(* ===== verification/Fact_Subject.thy ===== *)
theory Fact_Subject
  imports Fact_Split_Facts
begin

text \<open>
  The entry of the factorization plugin: \<open>RootInput\<close> and the constructor of \<open>FactorIntegerSubject\<close> of
  \<open>plugins/factorization/models.py\<close>, and \<open>verify_factor_integer_subject\<close> of \<open>validator.py\<close>, which binds a
  subject to the artifact of its root input (\<open>ri_\<close> RootInput).
\<close>

section \<open>Root inputs\<close>

record root_input =
  ri_target_n :: string
  ri_requested_output :: string
  ri_case_label :: json
  ri_input_digest :: string

definition ri_digest_body :: "string \<Rightarrow> string \<Rightarrow> json \<Rightarrow> jobj" where
  "ri_digest_body target requested label =
     [(''schema_version'', JStr ''factorization.root_input.v1''), (''target_n'', JStr target),
      (''requested_output'', JStr requested), (''case_label'', label)]"

definition ri_to_dict :: "root_input \<Rightarrow> jobj" where
  "ri_to_dict x = ri_digest_body (ri_target_n x) (ri_requested_output x) (ri_case_label x) @ [(''input_digest'', JStr (ri_input_digest x))]"

text \<open>\<open>current\<close> may be any value: only \<open>None\<close> and the expected digest pass.\<close>

definition check_digest_field :: "string \<Rightarrow> json \<Rightarrow> string \<Rightarrow> unit res" where
  "check_digest_field field current expected =
     require (current = JNull \<or> current = JStr expected) (ValueError (field @ '' must match canonical JSON digest''))"

definition root_input_params :: "string list" where
  "root_input_params = [''target_n'', ''requested_output'', ''case_label'', ''input_digest'', ''schema_version'']"

definition mk_root_input :: "hash \<Rightarrow> jobj \<Rightarrow> root_input res" where
  "mk_root_input h args =
     (let expected = digest_json h (JObj (ri_digest_body (text_of (jget args ''target_n'')) (text_of (jget args ''requested_output''))
                       (jget args ''case_label'')))
      in seqE (bind_kwargs ''RootInput'' root_input_params [''target_n'', ''requested_output''] args)
         (seqE (require_schema (arg_default args ''schema_version'' (JStr ''factorization.root_input.v1'')) ''factorization.root_input.v1'')
         (bindE (parse_decimal_field ''target_n'' (jget args ''target_n'') 2) (\<lambda>_.
          seqE (checks
            [require (jget args ''requested_output'' = JStr ''prime_factorization_result'')
               (ValueError ''requested_output must be prime_factorization_result''),
             check_digest_field ''input_digest'' (jget args ''input_digest'') expected])
          (Inr \<lparr>ri_target_n = text_of (jget args ''target_n''), ri_requested_output = text_of (jget args ''requested_output''),
                ri_case_label = jget args ''case_label'', ri_input_digest = expected\<rparr>)))))"

section \<open>Subjects\<close>

definition target_digest :: "hash \<Rightarrow> string \<Rightarrow> string" where
  "target_digest h target = digest_json h (JObj [(''target_n'', JStr target)])"

definition factor_subject_required :: "string list" where
  "factor_subject_required =
     [''subject_id'', ''task_id'', ''unit_id'', ''target_n'', ''source_kind'', ''source_ref'', ''requested_output'', ''created_at'']"

definition mk_factor_subject :: "hash \<Rightarrow> jobj \<Rightarrow> factor_subject res" where
  "mk_factor_subject h args =
     (let schema = ''factorization.factor_integer_subject.v1''; expected = target_digest h (text_of (jget args ''target_n''))
      in seqE (bind_kwargs ''FactorIntegerSubject'' (factor_subject_required @ [''target_n_digest'', ''schema_version'']) factor_subject_required args)
         (seqE (require_schema (arg_default args ''schema_version'' (JStr schema)) schema)
         (bindE (parse_decimal_field ''target_n'' (jget args ''target_n'') 2) (\<lambda>_.
          seqE (checks
            [require_text ''subject_id'' (jget args ''subject_id''),
             require_text ''task_id'' (jget args ''task_id''),
             require_text ''unit_id'' (jget args ''unit_id'')])
          (bindE (in_str_keys (jget args ''source_kind'') [''root_input'', ''recursive_factor'', ''merge_output'']) (\<lambda>known.
           seqE (checks
             [require known (ValueError ''source_kind must be root_input, recursive_factor, or merge_output''),
              require (is_jobj (jget args ''source_ref'') \<and> object_of (jget args ''source_ref'') \<noteq> [])
                (ValueError ''source_ref must be a non-empty object''),
              require (jget args ''requested_output'' = JStr ''prime_factorization_result'')
                (ValueError ''requested_output must be prime_factorization_result''),
              require_text ''created_at'' (jget args ''created_at''),
              check_digest_field ''target_n_digest'' (jget args ''target_n_digest'') expected])
           (Inr \<lparr>fs_subject_id = text_of (jget args ''subject_id''), fs_task_id = text_of (jget args ''task_id''),
                 fs_unit_id = text_of (jget args ''unit_id''), fs_target_n = text_of (jget args ''target_n''),
                 fs_source_kind = text_of (jget args ''source_kind''), fs_source_ref = object_of (jget args ''source_ref''),
                 fs_requested_output = text_of (jget args ''requested_output''), fs_created_at = text_of (jget args ''created_at''),
                 fs_target_n_digest = Some expected, fs_schema_version = schema\<rparr>)))))))"

section \<open>The check of a subject\<close>

text \<open>A subject comes as an object of the class or as its keyword arguments.\<close>

datatype subject_arg = SubjectObject factor_subject | SubjectDict jobj

fun coerce_subject :: "hash \<Rightarrow> subject_arg \<Rightarrow> factor_subject res" where
  "coerce_subject h (SubjectObject s) = Inr s"
| "coerce_subject h (SubjectDict d) = mk_factor_subject h d"

definition judge_subject :: "factor_subject \<Rightarrow> root_input \<Rightarrow> artifact_ref \<Rightarrow> range_verification" where
  "judge_subject s root ref =
     (case first_verdict
        [reject_if (fs_source_kind s \<noteq> ''root_input'') ''invalid_source_kind'' ''factor_integer subject must come from root_input'' [],
         reject_if (fs_requested_output s \<noteq> ''prime_factorization_result'') ''invalid_requested_output''
           ''factor_integer subject requested_output must be prime_factorization_result'' [],
         reject_if (\<not> py_eq (JObj (fs_source_ref s)) (JObj (ar_to_dict ref))) ''source_ref_mismatch''
           ''factor_integer subject source_ref mismatch'' [],
         reject_if (ri_target_n root \<noteq> fs_target_n s) ''target_mismatch'' ''factor_integer subject target_n mismatch'' [],
         reject_if (ri_requested_output root \<noteq> fs_requested_output s) ''requested_output_mismatch''
           ''factor_integer subject requested_output does not match root input'' []] of
        Some v \<Rightarrow> v
      | None \<Rightarrow> range_accepted ''factor_integer_subject_checked'' ''factor_integer subject matches root input artifact''
          [(''target_n'', JStr (fs_target_n s)), (''root_input_artifact_id'', JStr (ar_artifact_id ref)),
           (''root_input_digest'', JStr (ri_input_digest root))])"

definition verify_factor_integer_subject :: "hash \<Rightarrow> subject_arg \<Rightarrow> artifact_ref \<Rightarrow> jobj \<Rightarrow> range_verification res" where
  "verify_factor_integer_subject h subject ref body =
     (case bindE (coerce_subject h subject) (\<lambda>s. bindE (mk_root_input h body) (\<lambda>root. Inr (s, root))) of
        Inr (s, root) \<Rightarrow> Inr (judge_subject s root ref)
      | Inl (TypeError m) \<Rightarrow> Inr (range_rejected ''invalid_factor_integer_subject'' m [])
      | Inl (ValueError m) \<Rightarrow> Inr (range_rejected ''invalid_factor_integer_subject'' m [])
      | Inl e \<Rightarrow> Inl e)"

section \<open>The constructors raise only what the check catches\<close>

definition caught :: "'a res \<Rightarrow> bool" where
  "caught m \<longleftrightarrow> (\<forall>e. m = Inl e \<longrightarrow> (\<exists>t. e = TypeError t \<or> e = ValueError t))"

named_theorems caught_intros \<open>steps that raise type and value errors only\<close>

lemma caught_ret [caught_intros]: "caught (Inr x)"
  by (simp add: caught_def)

lemma caught_bind [caught_intros]: "caught m \<Longrightarrow> (\<And>x. caught (f x)) \<Longrightarrow> caught (bindE m f)"
  by (auto simp: caught_def bindE_eq_Inl)

lemma caught_seq [caught_intros]: "caught m \<Longrightarrow> caught n \<Longrightarrow> caught (seqE m n)"
  by (auto simp: caught_def seqE_eq_Inl)

lemma caught_checks [caught_intros]: "caught (checks [])" "caught c \<Longrightarrow> caught (checks cs) \<Longrightarrow> caught (checks (c # cs))"
  by (auto simp: caught_def seqE_eq_Inl)

lemma caught_require [caught_intros]: "caught (require b (ValueError t))" "caught (require b (TypeError t))"
  by (auto simp: caught_def)

lemma caught_fields [caught_intros]:
  "caught (require_schema j t)" "caught (require_text f j)" "caught (check_digest_field f j t)" "caught (bind_kwargs c ps rs args)"
  by (auto simp: caught_def require_schema_def require_text_def check_digest_field_def bind_kwargs_def Let_def split: option.splits)

lemma caught_decimal [caught_intros]: "caught (parse_decimal_field f j m)"
  by (auto simp: caught_def parse_decimal_field_def parse_decimal_integer_def int_of_decimal_def res_simps split: json.splits if_splits option.splits)

lemma caught_keys [caught_intros]: "caught (in_str_keys v ks)"
  by (cases v) (auto simp: caught_def in_str_keys_def res_simps split: option.splits)

lemma caught_root: "caught (mk_root_input h args)"
  unfolding mk_root_input_def Let_def by (intro caught_intros)

lemma caught_subject: "caught (mk_factor_subject h args)"
  unfolding mk_factor_subject_def Let_def by (intro caught_intros)

section \<open>The verdict\<close>

text \<open>What an accepted subject is: its constructors accept it and it names the artifact and the target of its root input.\<close>

definition subject_of_root :: "factor_subject \<Rightarrow> root_input \<Rightarrow> artifact_ref \<Rightarrow> bool" where
  "subject_of_root s root ref \<longleftrightarrow>
     fs_source_kind s = ''root_input'' \<and> fs_requested_output s = ''prime_factorization_result'' \<and>
     ri_requested_output root = ''prime_factorization_result'' \<and>
     py_eq (JObj (fs_source_ref s)) (JObj (ar_to_dict ref)) \<and> ri_target_n root = fs_target_n s"

lemma judge_subject_iff: "rv_accepted (judge_subject s root ref) \<longleftrightarrow> subject_of_root s root ref"
proof (cases "subject_of_root s root ref")
  case True
  then show ?thesis
    unfolding judge_subject_def by (simp add: subject_of_root_def reject_if_def range_accepted_def)
next
  case False
  let ?checks = "first_verdict
    [reject_if (fs_source_kind s \<noteq> ''root_input'') ''invalid_source_kind'' ''factor_integer subject must come from root_input'' [],
     reject_if (fs_requested_output s \<noteq> ''prime_factorization_result'') ''invalid_requested_output''
       ''factor_integer subject requested_output must be prime_factorization_result'' [],
     reject_if (\<not> py_eq (JObj (fs_source_ref s)) (JObj (ar_to_dict ref))) ''source_ref_mismatch''
       ''factor_integer subject source_ref mismatch'' [],
     reject_if (ri_target_n root \<noteq> fs_target_n s) ''target_mismatch'' ''factor_integer subject target_n mismatch'' [],
     reject_if (ri_requested_output root \<noteq> fs_requested_output s) ''requested_output_mismatch''
       ''factor_integer subject requested_output does not match root input'' []]"
  have "?checks \<noteq> None" using False unfolding first_verdict_None by (auto simp: subject_of_root_def)
  moreover have "rejection ?checks" by (rule rejection_first) auto
  ultimately show ?thesis unfolding judge_subject_def using False by (auto simp: rejection_def)
qed

lemma root_input_ok: "mk_root_input h body = Inr root \<Longrightarrow> \<exists>n. parse_decimal_integer ''target_n'' (ri_target_n root) 2 = Inr n"
  by (auto simp: mk_root_input_def Let_def res_simps parse_decimal_field_def split: json.splits)

lemma subject_verdict:
  "\<exists>v. verify_factor_integer_subject h subject ref body = Inr v \<and>
    (rv_accepted v \<longleftrightarrow> (\<exists>s root. coerce_subject h subject = Inr s \<and> mk_root_input h body = Inr root \<and> subject_of_root s root ref \<and>
       (\<exists>n. parse_decimal_integer ''target_n'' (fs_target_n s) 2 = Inr n)))"
proof (cases "bindE (coerce_subject h subject) (\<lambda>s. bindE (mk_root_input h body) (\<lambda>root. Inr (s, root)))")
  case (Inl e)
  have "caught (coerce_subject h subject)" by (cases subject) (auto intro: caught_ret caught_subject)
  then have "caught (bindE (coerce_subject h subject) (\<lambda>s. bindE (mk_root_input h body) (\<lambda>root. Inr (s, root))))"
    by (intro caught_bind caught_root caught_ret)
  then obtain t where "e = TypeError t \<or> e = ValueError t" using Inl by (auto simp: caught_def)
  then have "\<exists>v. verify_factor_integer_subject h subject ref body = Inr v \<and> \<not> rv_accepted v"
    unfolding verify_factor_integer_subject_def Inl by auto
  moreover have "\<not> (\<exists>s root. coerce_subject h subject = Inr s \<and> mk_root_input h body = Inr root)" using Inl by auto
  ultimately show ?thesis by blast
next
  case (Inr p)
  then obtain s root where s: "coerce_subject h subject = Inr s" "mk_root_input h body = Inr root" "p = (s, root)"
    by (auto simp: res_simps)
  have "verify_factor_integer_subject h subject ref body = Inr (judge_subject s root ref)"
    unfolding verify_factor_integer_subject_def Inr s(3) by simp
  moreover have "\<exists>n. parse_decimal_integer ''target_n'' (fs_target_n s) 2 = Inr n" if "subject_of_root s root ref"
    using root_input_ok[OF s(2)] that by (simp add: subject_of_root_def)
  ultimately show ?thesis using s(1,2) judge_subject_iff[of s root ref] by auto
qed

text \<open>
  C34 subject_check_exact: the check of a subject always returns a verdict, whatever JSON it is given as the
  subject and as the body of the root input: what the constructors raise becomes a rejection. It accepts
  exactly the subjects that are constructed, come from the root input, carry the reference of its artifact
  and have its target, which is then a decimal number above one.
\<close>

theorem subject_check_exact:
  "\<exists>v. verify_factor_integer_subject h subject ref body = Inr v \<and>
    (rv_accepted v \<longleftrightarrow> (\<exists>s root. coerce_subject h subject = Inr s \<and> mk_root_input h body = Inr root \<and> subject_of_root s root ref \<and>
       (\<exists>n. parse_decimal_integer ''target_n'' (fs_target_n s) 2 = Inr n)))"
  by (rule subject_verdict)

section \<open>A finding\<close>

text \<open>
  The direct completion of two and three writes the text of the target into its evidence, where the
  constructor of the factorization expects the number's own text. A subject whose target is one of these
  numbers in other decimal digits is accepted, but the split strategy raises.
\<close>

lemma direct_completion_raises:
  assumes "parse_decimal_integer ''target_n'' (fs_target_n subject) 2 = Inr n" "n \<in> {2, 3}" "fs_target_n subject \<noteq> show_int n"
  shows "build_split_strategy_result h alnum subject q requested max_children lo hi =
    Inl (ValueError ''primality_evidence verified_prime_values mismatch'')"
proof -
  have t: "int_of_decimal (fs_target_n subject) = Inr n" using assms(1) by (simp add: parse_decimal_iff)
  have "parse_decimal_integer f (fs_target_n subject) 2 = Inr n" for f using assms(1) by (simp add: parse_decimal_iff)
  then have "direct_prime_factorization h subject m c = Inl (ValueError ''primality_evidence verified_prime_values mismatch'')" for m c
    using assms(3) t by (simp add: direct_prime_factorization_def mk_prime_factor_def mk_prime_factorization_def require_schema_def
        require_text_def validate_primality_evidence_def jget_def in_str_keys_str)
  then show ?thesis using assms(2) t by (simp add: build_split_strategy_result_def complete_action_def)
qed

end
