(* ===== verification/Exec_Contracts.thy ===== *)
theory Exec_Contracts
  imports Core_Models
begin

text \<open>
  \<open>plugins/contracts.py\<close> and \<open>executors/contracts.py\<close>: what plugins and executors declare about themselves, and
  the request and submission of one execution (\<open>oc_\<close> OutputContract, \<open>sx_\<close> SplitStrategyContract, \<open>pd_\<close>
  PluginDescriptor, \<open>en_\<close> EnvironmentRef, \<open>xe_\<close> ExecutorDescriptor, \<open>pk_\<close> PromptPackage, \<open>xr_\<close> ExecutionRequest,
  \<open>xs_\<close> ExecutionSubmission). \<open>_json_value\<close> is the identity on JSON.
\<close>

text \<open>A dictionary of objects as JSON.\<close>

definition named_objects :: "(string, jobj) dict \<Rightarrow> json" where
  "named_objects d = JObj (map (\<lambda>(k, v). (k, JObj v)) d)"

section \<open>Plugin contracts\<close>

record output_contract =
  oc_output_contract_id :: string
  oc_required_outputs :: "string list"
  oc_output_schema_refs :: "(string, jobj) dict"
  oc_raw_output_policy :: jobj
  oc_optional_outputs :: "string list option"
  oc_parsed_output_schema_ref :: "jobj option"
  oc_candidate_bundle_schema_ref :: "jobj option"
  oc_parse_failure_schema_ref :: "jobj option"
  oc_schema_version :: string

definition oc_to_dict :: "output_contract \<Rightarrow> jobj" where
  "oc_to_dict x =
     [(''schema_version'', JStr (oc_schema_version x)),
      (''output_contract_id'', JStr (oc_output_contract_id x)),
      (''required_outputs'', JArr (map JStr (oc_required_outputs x))),
      (''optional_outputs'', JArr (map JStr (case oc_optional_outputs x of None \<Rightarrow> [] | Some os \<Rightarrow> os))),
      (''output_schema_refs'', named_objects (oc_output_schema_refs x)),
      (''raw_output_policy'', JObj (oc_raw_output_policy x)),
      (''parsed_output_schema_ref'', opt_obj (oc_parsed_output_schema_ref x)),
      (''candidate_bundle_schema_ref'', opt_obj (oc_candidate_bundle_schema_ref x)),
      (''parse_failure_schema_ref'', opt_obj (oc_parse_failure_schema_ref x))]"

record strategy_contract =
  sx_split_strategy_id :: string
  sx_params_schema_ref :: jobj
  sx_allowed_unit_types :: "string list"
  sx_child_input_port_schema_refs :: "(string, jobj) dict"
  sx_child_output_contract_refs :: "(string, jobj) dict"
  sx_validator_policy_id :: string
  sx_merge_policy_id :: string
  sx_durable_subgoal_policy :: jobj
  sx_candidate_artifact_policy :: jobj
  sx_max_children_per_expansion :: "int option"
  sx_schema_version :: string

definition sx_to_dict :: "strategy_contract \<Rightarrow> jobj" where
  "sx_to_dict x =
     [(''schema_version'', JStr (sx_schema_version x)),
      (''split_strategy_id'', JStr (sx_split_strategy_id x)),
      (''params_schema_ref'', JObj (sx_params_schema_ref x)),
      (''allowed_unit_types'', JArr (map JStr (sx_allowed_unit_types x))),
      (''child_input_port_schema_refs'', named_objects (sx_child_input_port_schema_refs x)),
      (''child_output_contract_refs'', named_objects (sx_child_output_contract_refs x)),
      (''validator_policy_id'', JStr (sx_validator_policy_id x)),
      (''merge_policy_id'', JStr (sx_merge_policy_id x)),
      (''durable_subgoal_policy'', JObj (sx_durable_subgoal_policy x)),
      (''candidate_artifact_policy'', JObj (sx_candidate_artifact_policy x)),
      (''max_children_per_expansion'', opt_int (sx_max_children_per_expansion x))]"

record plugin_descriptor =
  pd_plugin_id :: string
  pd_plugin_version :: string
  pd_supported_task_types :: "string list"
  pd_input_contract :: jobj
  pd_output_contracts :: "(string, output_contract) dict"
  pd_execution_contracts :: "(string, jobj) dict"
  pd_split_strategies :: "(string, strategy_contract) dict option"
  pd_validator_policy_id :: "string option"
  pd_merge_policy_id :: "string option"
  pd_metadata :: "jobj option"
  pd_schema_version :: string

definition or_nothing :: "'a list option \<Rightarrow> 'a list" where
  "or_nothing x = (case x of None \<Rightarrow> [] | Some xs \<Rightarrow> xs)"

definition pd_body :: "plugin_descriptor \<Rightarrow> jobj" where
  "pd_body x =
     [(''schema_version'', JStr (pd_schema_version x)),
      (''plugin_id'', JStr (pd_plugin_id x)),
      (''plugin_version'', JStr (pd_plugin_version x)),
      (''supported_task_types'', JArr (map JStr (pd_supported_task_types x))),
      (''input_contract'', JObj (pd_input_contract x)),
      (''output_contracts'', named_objects (map (\<lambda>(n, c). (n, oc_to_dict c)) (pd_output_contracts x))),
      (''execution_contracts'', named_objects (pd_execution_contracts x)),
      (''split_strategies'', named_objects (map (\<lambda>(n, c). (n, sx_to_dict c)) (or_nothing (pd_split_strategies x)))),
      (''validator_policy_id'', opt_str (pd_validator_policy_id x)),
      (''merge_policy_id'', opt_str (pd_merge_policy_id x)),
      (''metadata'', JObj (or_nothing (pd_metadata x)))]"

definition pd_digest :: "hash \<Rightarrow> plugin_descriptor \<Rightarrow> string" where
  "pd_digest h x = digest_json h (JObj (pd_body x))"

definition pd_to_dict :: "hash \<Rightarrow> plugin_descriptor \<Rightarrow> jobj" where
  "pd_to_dict h x = pd_body x @ [(''descriptor_digest'', JStr (pd_digest h x))]"

section \<open>Executors\<close>

datatype executor_status = XS_AVAILABLE | XS_BUSY | XS_OFFLINE | XS_DISABLED

fun executor_status_value :: "executor_status \<Rightarrow> string" where
  "executor_status_value XS_AVAILABLE = ''Available''"
| "executor_status_value XS_BUSY = ''Busy''"
| "executor_status_value XS_OFFLINE = ''Offline''"
| "executor_status_value XS_DISABLED = ''Disabled''"

definition executor_statuses :: "executor_status list" where
  "executor_statuses = [XS_AVAILABLE, XS_BUSY, XS_OFFLINE, XS_DISABLED]"

record environment_ref =
  en_environment_id :: string
  en_environment_digest :: string
  en_runtime :: string
  en_tool_versions :: jobj
  en_resource_limits :: jobj
  en_fixture_profile_digest :: string
  en_seed :: "int option"
  en_clock_policy :: string
  en_created_at :: string
  en_schema_version :: string

definition en_to_dict :: "environment_ref \<Rightarrow> jobj" where
  "en_to_dict x =
     [(''schema_version'', JStr (en_schema_version x)),
      (''environment_id'', JStr (en_environment_id x)),
      (''environment_digest'', JStr (en_environment_digest x)),
      (''runtime'', JStr (en_runtime x)),
      (''tool_versions'', JObj (en_tool_versions x)),
      (''resource_limits'', JObj (en_resource_limits x)),
      (''fixture_profile_digest'', JStr (en_fixture_profile_digest x)),
      (''seed'', opt_int (en_seed x)),
      (''clock_policy'', JStr (en_clock_policy x)),
      (''created_at'', JStr (en_created_at x))]"

text \<open>The status is the text of an \<open>ExecutorStatus\<close> or any other text; an enumeration member is its text.\<close>

record executor_descriptor =
  xe_executor_id :: string
  xe_executor_type :: string
  xe_executor_version :: string
  xe_supported_request_schema_versions :: "string list"
  xe_capabilities :: jobj
  xe_environment_policy :: jobj
  xe_status :: string
  xe_metadata :: "jobj option"
  xe_schema_version :: string

definition normalized_status :: "executor_descriptor \<Rightarrow> executor_status res" where
  "normalized_status x =
     (case find (\<lambda>s. executor_status_value s = xe_status x) executor_statuses of
        Some s \<Rightarrow> Inr s
      | None \<Rightarrow> Inl (ValueError (CHR 0x27 # xe_status x @ CHR 0x27 # '' is not a valid ExecutorStatus'')))"

definition xe_body :: "executor_descriptor \<Rightarrow> jobj res" where
  "xe_body x =
     bindE (normalized_status x) (\<lambda>s.
     Inr [(''schema_version'', JStr (xe_schema_version x)),
      (''executor_id'', JStr (xe_executor_id x)),
      (''executor_type'', JStr (xe_executor_type x)),
      (''executor_version'', JStr (xe_executor_version x)),
      (''supported_request_schema_versions'', JArr (map JStr (xe_supported_request_schema_versions x))),
      (''capabilities'', JObj (xe_capabilities x)),
      (''environment_policy'', JObj (xe_environment_policy x)),
      (''status'', JStr (executor_status_value s)),
      (''metadata'', JObj (or_nothing (xe_metadata x)))])"

definition xe_digest :: "hash \<Rightarrow> executor_descriptor \<Rightarrow> string res" where
  "xe_digest h x = bindE (xe_body x) (\<lambda>b. Inr (digest_json h (JObj b)))"

definition xe_to_dict :: "hash \<Rightarrow> executor_descriptor \<Rightarrow> jobj res" where
  "xe_to_dict h x = bindE (xe_body x) (\<lambda>b. bindE (xe_digest h x) (\<lambda>d. Inr (b @ [(''descriptor_digest'', JStr d)])))"

record prompt_package =
  pk_prompt_package_id :: string
  pk_request_id :: string
  pk_task_id :: string
  pk_unit_id :: string
  pk_prompt_text :: string
  pk_input_summary :: jobj
  pk_output_schema :: jobj
  pk_constraints :: jobj
  pk_seed :: "int option"
  pk_fixture_profile :: string
  pk_created_at :: string
  pk_schema_version :: string

definition pk_to_dict :: "prompt_package \<Rightarrow> jobj" where
  "pk_to_dict x =
     [(''schema_version'', JStr (pk_schema_version x)),
      (''prompt_package_id'', JStr (pk_prompt_package_id x)),
      (''request_id'', JStr (pk_request_id x)),
      (''task_id'', JStr (pk_task_id x)),
      (''unit_id'', JStr (pk_unit_id x)),
      (''prompt_text'', JStr (pk_prompt_text x)),
      (''input_summary'', JObj (pk_input_summary x)),
      (''output_schema'', JObj (pk_output_schema x)),
      (''constraints'', JObj (pk_constraints x)),
      (''seed'', opt_int (pk_seed x)),
      (''fixture_profile'', JStr (pk_fixture_profile x)),
      (''created_at'', JStr (pk_created_at x))]"

section \<open>Requests and submissions\<close>

record execution_request =
  xr_request_id :: string
  xr_task_id :: string
  xr_unit_id :: string
  xr_attempt_id :: string
  xr_lease_id :: string
  xr_fencing_token :: string
  xr_plugin :: jobj
  xr_executor :: jobj
  xr_registry_snapshot_id :: string
  xr_allocation_decision :: jobj
  xr_capability_snapshot :: jobj
  xr_task_unit_snapshot :: jobj
  xr_input_artifact_refs :: "(string, artifact_ref) dict"
  xr_output_contract :: output_contract
  xr_hard_requirements :: jobj
  xr_soft_hints :: "jobj option"
  xr_environment_ref :: environment_ref
  xr_execution_instruction_ref :: "artifact_ref option"
  xr_prompt_package_ref :: "artifact_ref option"
  xr_limits :: jobj
  xr_created_at :: string
  xr_attempt_ordinal :: int
  xr_source_binding_digest :: "string option"
  xr_schema_version :: string

definition xr_to_dict :: "execution_request \<Rightarrow> jobj" where
  "xr_to_dict x =
     [(''schema_version'', JStr (xr_schema_version x)),
      (''request_id'', JStr (xr_request_id x)),
      (''task_id'', JStr (xr_task_id x)),
      (''unit_id'', JStr (xr_unit_id x)),
      (''attempt_id'', JStr (xr_attempt_id x)),
      (''lease_id'', JStr (xr_lease_id x)),
      (''fencing_token'', JStr (xr_fencing_token x)),
      (''plugin'', JObj (xr_plugin x)),
      (''executor'', JObj (xr_executor x)),
      (''registry_snapshot_id'', JStr (xr_registry_snapshot_id x)),
      (''allocation_decision'', JObj (xr_allocation_decision x)),
      (''capability_snapshot'', JObj (xr_capability_snapshot x)),
      (''task_unit_snapshot'', JObj (xr_task_unit_snapshot x)),
      (''input_artifact_refs'', refs_json (xr_input_artifact_refs x)),
      (''output_contract'', JObj (oc_to_dict (xr_output_contract x))),
      (''hard_requirements'', JObj (xr_hard_requirements x)),
      (''soft_hints'', JObj (or_nothing (xr_soft_hints x))),
      (''environment_ref'', JObj (en_to_dict (xr_environment_ref x))),
      (''execution_instruction_ref'', opt_ref (xr_execution_instruction_ref x)),
      (''prompt_package_ref'', opt_ref (xr_prompt_package_ref x)),
      (''limits'', JObj (xr_limits x)),
      (''created_at'', JStr (xr_created_at x)),
      (''attempt_ordinal'', JInt (xr_attempt_ordinal x)),
      (''source_binding_digest'', opt_str (xr_source_binding_digest x))]"

record execution_submission =
  xs_submission_id :: string
  xs_request_id :: string
  xs_task_id :: string
  xs_unit_id :: string
  xs_attempt_id :: string
  xs_lease_id :: string
  xs_fencing_token :: string
  xs_executor_id :: string
  xs_executor_version :: string
  xs_result_kind :: string
  xs_raw_output_ref :: "artifact_ref option"
  xs_parsed_output_ref :: "artifact_ref option"
  xs_candidate_output_refs :: "(string, artifact_ref) dict"
  xs_parse_failure_ref :: "artifact_ref option"
  xs_log_ref :: "artifact_ref option"
  xs_environment_ref :: environment_ref
  xs_environment_summary :: jobj
  xs_provenance_ref :: "artifact_ref option"
  xs_usage_summary :: "jobj option"
  xs_error :: "jobj option"
  xs_submitted_at :: string
  xs_schema_version :: string

definition xs_to_dict :: "execution_submission \<Rightarrow> jobj" where
  "xs_to_dict x =
     [(''schema_version'', JStr (xs_schema_version x)),
      (''submission_id'', JStr (xs_submission_id x)),
      (''request_id'', JStr (xs_request_id x)),
      (''task_id'', JStr (xs_task_id x)),
      (''unit_id'', JStr (xs_unit_id x)),
      (''attempt_id'', JStr (xs_attempt_id x)),
      (''lease_id'', JStr (xs_lease_id x)),
      (''fencing_token'', JStr (xs_fencing_token x)),
      (''executor_id'', JStr (xs_executor_id x)),
      (''executor_version'', JStr (xs_executor_version x)),
      (''result_kind'', JStr (xs_result_kind x)),
      (''raw_output_ref'', opt_ref (xs_raw_output_ref x)),
      (''parsed_output_ref'', opt_ref (xs_parsed_output_ref x)),
      (''candidate_output_refs'', refs_json (xs_candidate_output_refs x)),
      (''parse_failure_ref'', opt_ref (xs_parse_failure_ref x)),
      (''log_ref'', opt_ref (xs_log_ref x)),
      (''environment_ref'', JObj (en_to_dict (xs_environment_ref x))),
      (''environment_summary'', JObj (xs_environment_summary x)),
      (''provenance_ref'', opt_ref (xs_provenance_ref x)),
      (''usage_summary'', JObj (or_nothing (xs_usage_summary x))),
      (''error'', opt_obj (xs_error x)),
      (''submitted_at'', JStr (xs_submitted_at x))]"

end
