(* ===== verification/Exec_Registry.thy ===== *)
theory Exec_Registry
  imports Exec_Contracts Core_Scheduling Artifact_Commit "HOL-Library.Product_Lexorder"
begin

text \<open>
  \<open>executors/registry.py\<close> and \<open>plugins/registry.py\<close>: the two registries that a run is set up with, the matching
  of executors, and the frozen snapshot whose descriptors are artifacts (\<open>xg_\<close> ExecutorRegistry, \<open>pg_\<close>
  PluginRegistry, \<open>gs_\<close> RegistrySnapshot). \<open>_capability_matches\<close> is the function of \<open>core/scheduling.py\<close>. The
  dictionary of a registry is in the order of registration. The locale \<open>registry\<close> is what both registries
  promise.
\<close>

section \<open>The executor registry\<close>

record executor_registry =
  xg_executors :: "(string, executor_descriptor) dict"
  xg_frozen :: bool

definition empty_executor_registry :: executor_registry where
  "empty_executor_registry = \<lparr>xg_executors = [], xg_frozen = False\<rparr>"

definition register_executor :: "executor_registry \<Rightarrow> executor_descriptor \<Rightarrow> executor_registry res" where
  "register_executor g d =
     (if xg_frozen g then Inl (ValueError ''executor registry is frozen'')
      else if dict_has (xg_executors g) (xe_executor_id d)
      then Inl (ValueError (''duplicate executor descriptor: '' @ xe_executor_id d))
      else Inr (g\<lparr>xg_executors := dict_set (xe_executor_id d) d (xg_executors g)\<rparr>))"

definition sorted_executors :: "executor_registry \<Rightarrow> executor_descriptor list" where
  "sorted_executors g = sort_key (\<lambda>d. (xe_executor_id d, xe_executor_version d)) (dict_values (xg_executors g))"

text \<open>The reason why an executor does not match, if there is one.\<close>

fun requirement_failure :: "(string \<times> json) list \<Rightarrow> jobj \<Rightarrow> string option res" where
  "requirement_failure [] caps = Inr None"
| "requirement_failure ((key, required) # rest) caps =
     (case dict_get caps key of
        None \<Rightarrow> Inr (Some (''missing_capability:'' @ key))
      | Some actual \<Rightarrow> bindE (capability_matches required actual) (\<lambda>ok.
          if ok then requirement_failure rest caps else Inr (Some (''capability_mismatch:'' @ key))))"

definition match_failure :: "executor_descriptor \<Rightarrow> string \<Rightarrow> jobj \<Rightarrow> string \<Rightarrow> string option res" where
  "match_failure d executor_type hard_requirements schema_version =
     bindE (normalized_status d) (\<lambda>status.
     if status \<noteq> XS_AVAILABLE then Inr (Some (''status:'' @ executor_status_value status))
     else if xe_executor_type d \<noteq> executor_type then Inr (Some (''executor_type:'' @ xe_executor_type d))
     else if schema_version \<notin> set (xe_supported_request_schema_versions d)
     then Inr (Some (''request_schema:'' @ schema_version))
     else requirement_failure hard_requirements (xe_capabilities d))"

definition match_failures :: "executor_registry \<Rightarrow> string \<Rightarrow> jobj \<Rightarrow> string \<Rightarrow> (executor_descriptor \<times> string option) list res" where
  "match_failures g executor_type hard_requirements schema_version =
     mapE (\<lambda>d. bindE (match_failure d executor_type hard_requirements schema_version) (\<lambda>f. Inr (d, f))) (sorted_executors g)"

definition match_available :: "executor_registry \<Rightarrow> string \<Rightarrow> jobj \<Rightarrow> string \<Rightarrow> executor_descriptor list res" where
  "match_available g executor_type hard_requirements schema_version =
     bindE (match_failures g executor_type hard_requirements schema_version) (\<lambda>fs.
     Inr (map fst (filter (\<lambda>p. snd p = None) fs)))"

definition no_match_reasons :: "executor_registry \<Rightarrow> string \<Rightarrow> jobj \<Rightarrow> string \<Rightarrow> (string, string) dict res" where
  "no_match_reasons g executor_type hard_requirements schema_version =
     bindE (match_failures g executor_type hard_requirements schema_version) (\<lambda>fs.
     Inr (dict_update [] [(xe_executor_id d, reason). (d, Some reason) \<leftarrow> fs]))"

definition executor_descriptor_id :: "executor_descriptor \<Rightarrow> string" where
  "executor_descriptor_id d = ''executor_descriptor_'' @ xe_executor_id d @ ''_'' @ xe_executor_version d"

definition executor_args :: "executor_descriptor \<Rightarrow> string \<Rightarrow> artifact_args" where
  "executor_args d frozen_at =
     \<lparr>aa_artifact_type = ''ExecutorDescriptor'', aa_media_type = ''application/json'',
      aa_artifact_schema_id = ''phase3.executor_descriptor'', aa_artifact_schema_version = ''v1'',
      aa_source = [(''kind'', JStr ''executor_registry'')],
      aa_ref_metadata = [(''executor_id'', JStr (xe_executor_id d)), (''executor_version'', JStr (xe_executor_version d))],
      aa_created_at = frozen_at\<rparr>"

definition executor_entry :: "executor_descriptor \<Rightarrow> artifact_ref \<Rightarrow> string \<Rightarrow> executor_status \<Rightarrow> jobj" where
  "executor_entry d ref digest status =
     [(''executor_id'', JStr (xe_executor_id d)), (''executor_type'', JStr (xe_executor_type d)),
      (''executor_version'', JStr (xe_executor_version d)), (''descriptor_ref'', JObj (ar_to_dict ref)),
      (''descriptor_digest'', JStr digest), (''status'', JStr (executor_status_value status)),
      (''capabilities_summary'', JObj (xe_capabilities d))]"

text \<open>One descriptor is saved; \<open>nonce\<close> names the temporary files of the save.\<close>

definition freeze_executor ::
  "hash \<Rightarrow> artifact_store \<Rightarrow> string \<Rightarrow> fs \<Rightarrow> executor_descriptor \<Rightarrow> string \<Rightarrow> (fs \<times> jobj) res" where
  "freeze_executor h st frozen_at fs d nonce =
     bindE (xe_to_dict h d) (\<lambda>body.
     bindE (save_json h st fs (JObj body) (executor_descriptor_id d) (executor_args d frozen_at) nonce) (\<lambda>(fs1, ref).
     bindE (xe_digest h d) (\<lambda>digest.
     bindE (normalized_status d) (\<lambda>status.
     Inr (fs1, executor_entry d ref digest status)))))"

text \<open>A loop that saves one descriptor after another; each save has a name of its own.\<close>

fun freeze_all :: "(fs \<Rightarrow> 'd \<Rightarrow> string \<Rightarrow> (fs \<times> jobj) res) \<Rightarrow> fs \<Rightarrow> ('d \<times> string) list \<Rightarrow> (fs \<times> jobj list) res" where
  "freeze_all freeze fs [] = Inr (fs, [])"
| "freeze_all freeze fs ((d, nonce) # ds) =
     bindE (freeze fs d nonce) (\<lambda>(fs1, entry).
     bindE (freeze_all freeze fs1 ds) (\<lambda>(fs2, entries). Inr (fs2, entry # entries)))"

text \<open>The descriptors with the random names of their saves.\<close>

definition with_nonces :: "(nat \<Rightarrow> string) \<Rightarrow> 'd list \<Rightarrow> ('d \<times> string) list" where
  "with_nonces nonces ds = map (\<lambda>(i, d). (d, nonces i)) (enumerate 0 ds)"

definition freeze_entries ::
  "hash \<Rightarrow> artifact_store \<Rightarrow> (nat \<Rightarrow> string) \<Rightarrow> executor_registry \<Rightarrow> fs \<Rightarrow> string \<Rightarrow> (fs \<times> jobj list) res" where
  "freeze_entries h st nonces g fs frozen_at =
     freeze_all (freeze_executor h st frozen_at) fs (with_nonces nonces (sorted_executors g))"

definition mark_frozen :: "executor_registry \<Rightarrow> executor_registry" where
  "mark_frozen g = g\<lparr>xg_frozen := True\<rparr>"

section \<open>The plugin registry\<close>

record plugin_registry =
  pg_plugins :: "(string \<times> string, plugin_descriptor) dict"
  pg_frozen :: bool

definition empty_plugin_registry :: plugin_registry where
  "empty_plugin_registry = \<lparr>pg_plugins = [], pg_frozen = False\<rparr>"

definition plugin_key :: "plugin_descriptor \<Rightarrow> string \<times> string" where
  "plugin_key d = (pd_plugin_id d, pd_plugin_version d)"

definition exclusive_task_types :: "plugin_descriptor \<Rightarrow> string list res" where
  "exclusive_task_types d =
     (let bad = Inl (ValueError ''exclusive_task_types metadata must be a list of non-empty strings'')
      in case jget (or_nothing (pd_metadata d)) ''exclusive_task_types'' of
           JNull \<Rightarrow> Inr []
         | JArr xs \<Rightarrow> if list_all is_nonempty_str xs then Inr (map (\<lambda>j. case j of JStr s \<Rightarrow> s | _ \<Rightarrow> []) xs) else bad
         | _ \<Rightarrow> bad)"

text \<open>\<open>sorted(a.intersection(b))\<close> for two sets of texts.\<close>

definition shared_types :: "string list \<Rightarrow> string list \<Rightarrow> string list" where
  "shared_types xs ys = sort (remdups (filter (\<lambda>x. x \<in> set ys) xs))"

definition check_exclusive_against :: "string list \<Rightarrow> string list \<Rightarrow> plugin_descriptor \<Rightarrow> unit res" where
  "check_exclusive_against new_supported new_exclusive existing =
     bindE (exclusive_task_types existing) (\<lambda>existing_exclusive.
     let by_existing = shared_types existing_exclusive new_supported;
         by_new = shared_types new_exclusive (pd_supported_task_types existing)
     in checks
       [raise_if (by_existing \<noteq> []) (ValueError (''exclusive task type already claimed: '' @ join '', '' by_existing)),
        raise_if (by_new \<noteq> []) (ValueError (''exclusive task type already registered: '' @ join '', '' by_new))])"

definition check_exclusive_task_types :: "plugin_registry \<Rightarrow> plugin_descriptor \<Rightarrow> unit res" where
  "check_exclusive_task_types g d =
     bindE (exclusive_task_types d) (\<lambda>new_exclusive.
     foldE (\<lambda>_ existing. check_exclusive_against (pd_supported_task_types d) new_exclusive existing) () (dict_values (pg_plugins g)))"

definition register_plugin :: "plugin_registry \<Rightarrow> plugin_descriptor \<Rightarrow> plugin_registry res" where
  "register_plugin g d =
     (if pg_frozen g then Inl (ValueError ''plugin registry is frozen'')
      else if dict_has (pg_plugins g) (plugin_key d)
      then Inl (ValueError (''duplicate plugin descriptor: '' @ pd_plugin_id d @ ''@'' @ pd_plugin_version d))
      else seqE (check_exclusive_task_types g d)
             (Inr (g\<lparr>pg_plugins := dict_set (plugin_key d) d (pg_plugins g)\<rparr>)))"

record registry_snapshot =
  gs_registry_snapshot_id :: string
  gs_task_id :: string
  gs_plugin_entries :: "jobj list"
  gs_executor_entries :: "jobj list"
  gs_frozen_at :: string
  gs_metadata :: "jobj option"
  gs_schema_version :: string

definition gs_to_dict :: "registry_snapshot \<Rightarrow> jobj" where
  "gs_to_dict x =
     [(''schema_version'', JStr (gs_schema_version x)),
      (''registry_snapshot_id'', JStr (gs_registry_snapshot_id x)),
      (''task_id'', JStr (gs_task_id x)),
      (''plugin_entries'', JArr (map JObj (gs_plugin_entries x))),
      (''executor_entries'', JArr (map JObj (gs_executor_entries x))),
      (''frozen_at'', JStr (gs_frozen_at x)),
      (''metadata'', JObj (or_nothing (gs_metadata x)))]"

definition plugin_descriptor_id :: "plugin_descriptor \<Rightarrow> string" where
  "plugin_descriptor_id d = ''plugin_descriptor_'' @ pd_plugin_id d @ ''_'' @ pd_plugin_version d"

definition plugin_args :: "plugin_descriptor \<Rightarrow> string \<Rightarrow> artifact_args" where
  "plugin_args d frozen_at =
     \<lparr>aa_artifact_type = ''PluginDescriptor'', aa_media_type = ''application/json'',
      aa_artifact_schema_id = ''phase3.plugin_descriptor'', aa_artifact_schema_version = ''v1'',
      aa_source = [(''kind'', JStr ''plugin_registry'')],
      aa_ref_metadata = [(''plugin_id'', JStr (pd_plugin_id d)), (''plugin_version'', JStr (pd_plugin_version d))],
      aa_created_at = frozen_at\<rparr>"

definition plugin_entry :: "hash \<Rightarrow> plugin_descriptor \<Rightarrow> artifact_ref \<Rightarrow> jobj" where
  "plugin_entry h d ref =
     [(''plugin_id'', JStr (pd_plugin_id d)), (''plugin_version'', JStr (pd_plugin_version d)),
      (''descriptor_ref'', JObj (ar_to_dict ref)), (''descriptor_digest'', JStr (pd_digest h d)),
      (''supported_task_types'', JArr (map JStr (pd_supported_task_types d))),
      (''split_strategy_ids'', JArr (map JStr (sort (dict_keys (or_nothing (pd_split_strategies d))))))]"

definition freeze_plugin ::
  "hash \<Rightarrow> artifact_store \<Rightarrow> string \<Rightarrow> fs \<Rightarrow> plugin_descriptor \<Rightarrow> string \<Rightarrow> (fs \<times> jobj) res" where
  "freeze_plugin h st frozen_at fs d nonce =
     bindE (save_json h st fs (JObj (pd_to_dict h d)) (plugin_descriptor_id d) (plugin_args d frozen_at) nonce) (\<lambda>(fs1, ref).
     Inr (fs1, plugin_entry h d ref))"

text \<open>What is frozen for: the task, the id of the snapshot, the time and the metadata.\<close>

record freeze_request =
  fz_task_id :: string
  fz_registry_snapshot_id :: string
  fz_frozen_at :: string
  fz_metadata :: "jobj option"

definition sorted_plugins :: "plugin_registry \<Rightarrow> plugin_descriptor list" where
  "sorted_plugins g = sort_key plugin_key (dict_values (pg_plugins g))"

definition freeze_registries ::
  "hash \<Rightarrow> artifact_store \<Rightarrow> (nat \<Rightarrow> string) \<Rightarrow> (nat \<Rightarrow> string) \<Rightarrow> fs \<Rightarrow> plugin_registry \<times> executor_registry \<Rightarrow> freeze_request
    \<Rightarrow> (fs \<times> (plugin_registry \<times> executor_registry) \<times> registry_snapshot) res" where
  "freeze_registries h st plugin_nonces executor_nonces fs = (\<lambda>(g, xg) q.
     bindE (freeze_all (freeze_plugin h st (fz_frozen_at q)) fs (with_nonces plugin_nonces (sorted_plugins g))) (\<lambda>(fs1, plugins).
     bindE (freeze_entries h st executor_nonces xg fs1 (fz_frozen_at q)) (\<lambda>(fs2, executors).
     Inr (fs2, (g\<lparr>pg_frozen := True\<rparr>, mark_frozen xg),
       \<lparr>gs_registry_snapshot_id = fz_registry_snapshot_id q, gs_task_id = fz_task_id q, gs_plugin_entries = plugins,
        gs_executor_entries = executors, gs_frozen_at = fz_frozen_at q, gs_metadata = Some (or_nothing (fz_metadata q)),
        gs_schema_version = ''phase3.registry_snapshot.v1''\<rparr>))))"

section \<open>The contract of a registry\<close>

locale registry =
  fixes register :: "'r \<Rightarrow> 'd \<Rightarrow> 'r res" and entries :: "'r \<Rightarrow> ('k, 'd) dict" and frozen :: "'r \<Rightarrow> bool" and key :: "'d \<Rightarrow> 'k"
  assumes register_ok: "register r d = Inr r' \<Longrightarrow>
      \<not> frozen r \<and> key d \<notin> set (dict_keys (entries r)) \<and> entries r' = entries r @ [(key d, d)] \<and> \<not> frozen r'"
    and register_frozen: "frozen r \<Longrightarrow> \<exists>e. register r d = Inl e"
begin

lemma register_all:
  assumes "foldE register r ds = Inr r'"
  shows "entries r' = entries r @ map (\<lambda>d. (key d, d)) ds" "frozen r' \<longleftrightarrow> frozen r"
    "distinct (dict_keys (entries r)) \<Longrightarrow> distinct (dict_keys (entries r'))"
proof -
  have "entries r' = entries r @ map (\<lambda>d. (key d, d)) ds \<and> (frozen r' \<longleftrightarrow> frozen r) \<and>
    (distinct (dict_keys (entries r)) \<longrightarrow> distinct (dict_keys (entries r')))"
    using assms
  proof (induction ds arbitrary: r)
    case (Cons d ds)
    then obtain r1 where r1: "register r d = Inr r1" "foldE register r1 ds = Inr r'" by (auto simp: res_simps)
    note ih = Cons.IH[OF r1(2)] and step = register_ok[OF r1(1)]
    have "distinct (dict_keys (entries r)) \<longrightarrow> distinct (dict_keys (entries r1))" using step by simp
    then have "distinct (dict_keys (entries r)) \<longrightarrow> distinct (dict_keys (entries r'))" using ih by blast
    moreover have "entries r' = entries r @ map (\<lambda>d. (key d, d)) (d # ds)" using ih step by simp
    ultimately show ?case using ih step by blast
  qed simp
  then show "entries r' = entries r @ map (\<lambda>d. (key d, d)) ds" "frozen r' \<longleftrightarrow> frozen r"
    "distinct (dict_keys (entries r)) \<Longrightarrow> distinct (dict_keys (entries r'))" by blast+
qed

text \<open>Every registered descriptor is found under its own key, in the order of registration.\<close>

lemma registered:
  assumes "foldE register r ds = Inr r'" "entries r = []"
  shows "dict_values (entries r') = ds" "distinct (map key ds)" "d \<in> set ds \<Longrightarrow> dict_get (entries r') (key d) = Some d"
proof -
  note a = register_all[OF assms(1)]
  show "dict_values (entries r') = ds" using a(1) assms(2) by (simp add: comp_def)
  show d: "distinct (map key ds)" using a(1,3) assms(2) by (simp add: comp_def)
  show "d \<in> set ds \<Longrightarrow> dict_get (entries r') (key d) = Some d"
    using a(1) assms(2) d by (auto intro!: map_of_is_SomeI simp: comp_def)
qed

end

lemma executor_register_ok:
  "register_executor r d = Inr r' \<Longrightarrow> \<not> xg_frozen r \<and> xe_executor_id d \<notin> set (dict_keys (xg_executors r)) \<and>
    xg_executors r' = xg_executors r @ [(xe_executor_id d, d)] \<and> \<not> xg_frozen r'"
  by (auto simp: register_executor_def dict_has_iff dict_set_new split: if_splits)

lemma plugin_register_ok:
  "register_plugin r d = Inr r' \<Longrightarrow> \<not> pg_frozen r \<and> plugin_key d \<notin> set (dict_keys (pg_plugins r)) \<and>
    pg_plugins r' = pg_plugins r @ [(plugin_key d, d)] \<and> \<not> pg_frozen r'"
  by (auto simp: register_plugin_def res_simps dict_has_iff dict_set_new split: if_splits)

interpretation executors: registry register_executor xg_executors xg_frozen xe_executor_id
  by unfold_locales (erule executor_register_ok, simp add: register_executor_def)

interpretation plugins: registry register_plugin pg_plugins pg_frozen plugin_key
  by unfold_locales (erule plugin_register_ok, simp add: register_plugin_def)

end
