(* ===== verification/Exec_Registry_Facts.thy ===== *)
theory Exec_Registry_Facts
  imports Exec_Registry
begin

text \<open>
  The registries keep their promises: exclusive task types stay exclusive, matching splits the executors
  into those that can run a request and those with a reason, and a frozen snapshot pins every descriptor.
\<close>

section \<open>Exclusive task types\<close>

definition claims :: "plugin_descriptor \<Rightarrow> string \<Rightarrow> bool" where
  "claims d t \<longleftrightarrow> (\<exists>ts. exclusive_task_types d = Inr ts \<and> t \<in> set ts)"

text \<open>A plugin that claims a task type is the only one that supports it.\<close>

definition exclusive_ok :: "plugin_descriptor \<Rightarrow> plugin_descriptor \<Rightarrow> bool" where
  "exclusive_ok d e \<longleftrightarrow>
     (\<forall>t. claims d t \<longrightarrow> t \<notin> set (pd_supported_task_types e)) \<and> (\<forall>t. claims e t \<longrightarrow> t \<notin> set (pd_supported_task_types d))"

lemma shared_types_Nil: "shared_types xs ys = [] \<longleftrightarrow> set xs \<inter> set ys = {}"
proof -
  have "shared_types xs ys = [] \<longleftrightarrow> set (shared_types xs ys) = {}" by (metis set_empty)
  then show ?thesis by (auto simp: shared_types_def)
qed

lemma check_exclusive_iff:
  assumes "exclusive_task_types d = Inr ts"
  shows "check_exclusive_against (pd_supported_task_types d) ts e = Inr () \<longleftrightarrow>
    (\<exists>us. exclusive_task_types e = Inr us) \<and> exclusive_ok d e"
proof (cases "exclusive_task_types e")
  case (Inr us)
  then show ?thesis
    using assms by (auto simp: check_exclusive_against_def Let_def res_simps shared_types_Nil exclusive_ok_def claims_def)
qed (simp add: check_exclusive_against_def)

lemma foldE_unit: "foldE (\<lambda>_ x. f x) () xs = Inr u \<longleftrightarrow> (\<forall>x \<in> set xs. f x = Inr ())"
  by (induction xs) (auto simp: res_simps)

lemma register_plugin_iff:
  "(\<exists>g'. register_plugin g d = Inr g') \<longleftrightarrow>
    \<not> pg_frozen g \<and> plugin_key d \<notin> set (dict_keys (pg_plugins g)) \<and> (\<exists>ts. exclusive_task_types d = Inr ts) \<and>
    (\<forall>e \<in> set (dict_values (pg_plugins g)). (\<exists>us. exclusive_task_types e = Inr us) \<and> exclusive_ok d e)"
  by (cases "exclusive_task_types d")
    (auto simp: register_plugin_def check_exclusive_task_types_def res_simps dict_has_iff foldE_unit check_exclusive_iff)

lemma plugins_registered:
  assumes "foldE register_plugin empty_plugin_registry ds = Inr g"
  shows "dict_values (pg_plugins g) = ds \<and> distinct (map plugin_key ds) \<and> \<not> pg_frozen g \<and>
    (\<forall>d \<in> set ds. \<exists>ts. exclusive_task_types d = Inr ts) \<and> sorted_wrt (\<lambda>e d. exclusive_ok d e) ds"
  using assms
proof (induction ds arbitrary: g rule: rev_induct)
  case (snoc d ds)
  then obtain g1 where g1: "foldE register_plugin empty_plugin_registry ds = Inr g1" "register_plugin g1 d = Inr g"
    by (auto simp: foldE_append res_simps)
  note ih = snoc.IH[OF g1(1)] and step = plugin_register_ok[OF g1(2)]
  have "(\<exists>ts. exclusive_task_types d = Inr ts) \<and> (\<forall>e \<in> set ds. exclusive_ok d e)"
    using register_plugin_iff[of g1 d] g1(2) ih by auto
  moreover have "distinct (map plugin_key (ds @ [d]))"
    using plugins.registered(2)[OF snoc.prems] by (simp add: empty_plugin_registry_def)
  ultimately show ?case using ih step by (auto simp: sorted_wrt_append)
qed (simp add: empty_plugin_registry_def)

text \<open>
  Plugins can be registered one after another exactly when their ids and versions
  are distinct, their metadata is well formed, and no two of them support a task type that one of them
  claims as exclusive; the order of registration does not matter for that, and the registry holds them
  in this order under their keys.
\<close>

theorem exclusive_claims_kept:
  "(\<exists>g. foldE register_plugin empty_plugin_registry ds = Inr g \<and> pg_plugins g = map (\<lambda>d. (plugin_key d, d)) ds) \<longleftrightarrow>
    distinct (map plugin_key ds) \<and> list_all (\<lambda>d. is_ok (exclusive_task_types d)) ds \<and>
    sorted_wrt (\<lambda>d e. exclusive_ok d e) ds"
proof -
  have sym: "exclusive_ok d e \<longleftrightarrow> exclusive_ok e d" for d e by (auto simp: exclusive_ok_def)
  have "\<exists>g. foldE register_plugin empty_plugin_registry ds = Inr g"
    if "distinct (map plugin_key ds)" "list_all (\<lambda>d. is_ok (exclusive_task_types d)) ds" "sorted_wrt exclusive_ok ds"
    using that
  proof (induction ds rule: rev_induct)
    case (snoc d ds)
    then obtain g where g: "foldE register_plugin empty_plugin_registry ds = Inr g" by (auto simp: sorted_wrt_append)
    have e: "pg_plugins g = map (\<lambda>d. (plugin_key d, d)) ds" using plugins.register_all(1)[OF g] by (simp add: empty_plugin_registry_def)
    have "\<exists>g'. register_plugin g d = Inr g'"
      unfolding register_plugin_iff using snoc.prems plugins_registered[OF g] e
      by (auto simp: sorted_wrt_append is_ok_iff sym[of d])
    then show ?case using g by (auto simp: foldE_append)
  qed simp
  moreover have "distinct (map plugin_key ds) \<and> list_all (\<lambda>d. is_ok (exclusive_task_types d)) ds \<and> sorted_wrt exclusive_ok ds"
    if "foldE register_plugin empty_plugin_registry ds = Inr g" for g
    using plugins_registered[OF that] by (auto simp: list_all_iff is_ok_iff sym intro: sorted_wrt_mono_rel[rotated])
  ultimately show ?thesis
    using plugins.register_all(1)[of empty_plugin_registry ds] by (fastforce simp: empty_plugin_registry_def)
qed

section \<open>Matching\<close>

text \<open>What an executor needs to run a request.\<close>

definition can_execute :: "executor_descriptor \<Rightarrow> string \<Rightarrow> jobj \<Rightarrow> string \<Rightarrow> bool" where
  "can_execute d executor_type hard_requirements schema_version \<longleftrightarrow>
     xe_status d = ''Available'' \<and> xe_executor_type d = executor_type \<and>
     schema_version \<in> set (xe_supported_request_schema_versions d) \<and>
     (\<forall>(k, v) \<in> set hard_requirements. \<exists>c. dict_get (xe_capabilities d) k = Some c \<and> capability_matches v c = Inr True)"

lemma requirement_failure_None:
  "requirement_failure req caps = Inr f \<Longrightarrow>
    f = None \<longleftrightarrow> (\<forall>(k, v) \<in> set req. \<exists>c. dict_get caps k = Some c \<and> capability_matches v c = Inr True)"
proof (induction req)
  case (Cons p req)
  then show ?case by (cases p) (auto simp: res_simps split: option.splits if_splits)
qed simp

lemma normalized_available: "normalized_status d = Inr s \<Longrightarrow> s = XS_AVAILABLE \<longleftrightarrow> xe_status d = ''Available''"
  by (auto simp: normalized_status_def executor_statuses_def split: if_splits option.splits)

lemma match_failure_None:
  "match_failure d t req v = Inr f \<Longrightarrow> f = None \<longleftrightarrow> can_execute d t req v"
  by (auto simp: match_failure_def res_simps can_execute_def dest!: normalized_available requirement_failure_None split: if_splits)

lemma sorted_executors_facts:
  assumes "foldE register_executor empty_executor_registry ds = Inr g"
  shows "set (sorted_executors g) = set ds \<and> distinct (map xe_executor_id (sorted_executors g)) \<and>
    sorted (map (\<lambda>d. (xe_executor_id d, xe_executor_version d)) (sorted_executors g))"
proof -
  have v: "dict_values (xg_executors g) = ds" "distinct (map xe_executor_id ds)"
    using executors.registered(1,2)[OF assms] by (simp_all add: empty_executor_registry_def)
  have "mset (map xe_executor_id (sorted_executors g)) = mset (map xe_executor_id ds)" by (simp add: sorted_executors_def v)
  then have "distinct (map xe_executor_id (sorted_executors g))" using v(2) by (metis distinct_count_atmost_1 set_mset_mset)
  then show ?thesis by (simp add: sorted_executors_def v)
qed

lemma match_failures_ok:
  assumes "match_failures g t req v = Inr fs"
  shows "map fst fs = sorted_executors g \<and> (\<forall>(d, f) \<in> set fs. match_failure d t req v = Inr f)"
proof -
  have "map fst fs = ds \<and> (\<forall>(d, f) \<in> set fs. match_failure d t req v = Inr f)"
    if "mapE (\<lambda>d. bindE (match_failure d t req v) (\<lambda>f. Inr (d, f))) ds = Inr fs" for ds
    using that by (induction ds arbitrary: fs) (auto simp: res_simps)
  then show ?thesis using assms by (simp add: match_failures_def)
qed

lemma dict_update_keys: "set (dict_keys (dict_update d ps)) = set (dict_keys d) \<union> fst ` set ps"
proof (induction ps arbitrary: d)
  case (Cons p ps)
  obtain k v where p: "p = (k, v)" by (cases p)
  have "dict_update d (p # ps) = dict_update (dict_set k v d) ps" by (simp add: dict_update_def p)
  then show ?case using Cons[of "dict_set k v d"] by (simp add: p dict_keys_set[unfolded set_map])
qed (simp add: dict_update_def)

lemma sorted_map_fst: "sorted (map (\<lambda>x. (f x, g x)) xs) \<Longrightarrow> sorted (map f xs)"
  by (induction xs) (auto simp: less_eq_prod_def)

lemma split_by_null:
  assumes "\<And>d f. (d, f) \<in> set fs \<Longrightarrow> f = None \<longleftrightarrow> P d"
  shows "fst ` {p \<in> set fs. snd p = None} = {d \<in> fst ` set fs. P d}" "fst ` {p \<in> set fs. snd p \<noteq> None} = {d \<in> fst ` set fs. \<not> P d}"
proof -
  have null: "snd p = None \<longleftrightarrow> P (fst p)" if "p \<in> set fs" for p using assms[of "fst p" "snd p"] that by simp
  then have "{p \<in> set fs. snd p = None} = {p \<in> set fs. P (fst p)}" "{p \<in> set fs. snd p \<noteq> None} = {p \<in> set fs. \<not> P (fst p)}"
    by (simp_all cong: conj_cong)
  moreover have "fst ` {p \<in> set fs. R (fst p)} = {d \<in> fst ` set fs. R d}" for R by auto
  ultimately show "fst ` {p \<in> set fs. snd p = None} = {d \<in> fst ` set fs. P d}" "fst ` {p \<in> set fs. snd p \<noteq> None} = {d \<in> fst ` set fs. \<not> P d}"
    by (simp_all only:)
qed

text \<open>
  C40 matching_exact: when a request can be matched against the registered executors, every executor is either
  among the available ones or has a reason, never both; the available ones are exactly those that are
  Available, of the type, take the schema version and have every required capability, in the order of their
  ids; and both questions raise for the same registries.
\<close>

theorem matching_exact:
  assumes "foldE register_executor empty_executor_registry ds = Inr g" and "match_available g t req v = Inr ms"
  shows "\<exists>reasons. no_match_reasons g t req v = Inr reasons \<and>
    set ms = {d \<in> set ds. can_execute d t req v} \<and> sorted (map xe_executor_id ms) \<and> distinct (map xe_executor_id ms) \<and>
    set (dict_keys reasons) = xe_executor_id ` {d \<in> set ds. \<not> can_execute d t req v} \<and>
    set (dict_keys reasons) \<inter> xe_executor_id ` set ms = {}"
proof -
  obtain fs where fs: "match_failures g t req v = Inr fs" "ms = map fst (filter (\<lambda>p. snd p = None) fs)"
    using assms(2) by (auto simp: match_available_def res_simps)
  let ?reasons = "[(xe_executor_id d, reason). (d, Some reason) \<leftarrow> fs]"
  note f = match_failures_ok[OF fs(1)] and srt = sorted_executors_facts[OF assms(1)]
  have null: "f = None \<longleftrightarrow> can_execute d t req v" if "(d, f) \<in> set fs" for d f
    using f that match_failure_None by blast
  have all: "fst ` set fs = set ds" using f srt by (metis set_map)
  have ms: "set ms = {d \<in> set ds. can_execute d t req v}"
    using split_by_null(1)[of fs, OF null] all by (simp add: fs(2))
  have ids: "map xe_executor_id (sorted_executors g) = map (\<lambda>p. xe_executor_id (fst p)) fs"
    using f by (metis (no_types, lifting) list.map_comp comp_def map_eq_conv)
  have map_ms: "map xe_executor_id ms = map (\<lambda>p. xe_executor_id (fst p)) (filter (\<lambda>p. snd p = None) fs)"
    by (simp add: fs(2))
  have "sorted (map xe_executor_id (sorted_executors g))" using srt sorted_map_fst by blast
  then have "sorted (map xe_executor_id ms)" unfolding map_ms ids by (rule sorted_filter)
  moreover have d: "distinct (map (\<lambda>p. xe_executor_id (fst p)) fs)" using srt ids by simp
  then have "distinct (map xe_executor_id ms)" unfolding map_ms by (rule distinct_map_filter)
  moreover have keys: "fst ` set ?reasons = xe_executor_id ` {d \<in> set ds. \<not> can_execute d t req v}"
  proof -
    have "fst ` set ?reasons = xe_executor_id ` fst ` {p \<in> set fs. snd p \<noteq> None}" by (force simp: image_image)
    also have "\<dots> = xe_executor_id ` {d \<in> set ds. \<not> can_execute d t req v}"
      using split_by_null(2)[of fs, OF null] all by simp
    finally show ?thesis .
  qed
  moreover have "xe_executor_id ` {d \<in> set ds. \<not> can_execute d t req v} \<inter> xe_executor_id ` set ms = {}"
  proof -
    have "inj_on xe_executor_id (set ds)" using srt by (metis distinct_map)
    then show ?thesis using ms by (auto simp: inj_on_def)
  qed
  moreover have "no_match_reasons g t req v = Inr (dict_update [] ?reasons)" by (simp add: no_match_reasons_def fs(1))
  ultimately show ?thesis using ms dict_update_keys[of "[]" ?reasons] by auto
qed

section \<open>Frozen descriptors\<close>

text \<open>A loop that saves a document for each item and makes an entry of its reference.\<close>

locale freezing =
  fixes h :: hash and st :: artifact_store and freeze :: "fs \<Rightarrow> 'd \<Rightarrow> string \<Rightarrow> (fs \<times> jobj) res"
    and doc :: "'d \<Rightarrow> string res" and name :: "'d \<Rightarrow> string" and args :: "'d \<Rightarrow> artifact_args" and ent :: "'d \<Rightarrow> artifact_ref \<Rightarrow> jobj"
  assumes freeze_saves: "freeze fs d nonce =
    bindE (doc d) (\<lambda>body. bindE (save_bytes h st fs body (name d) (args d) nonce) (\<lambda>(fs1, ref). Inr (fs1, ent d ref)))"
    and args_wf: "wf_obj (aa_source (args d))" "wf_obj (aa_ref_metadata (args d))"
begin

definition entry_of :: "'d \<Rightarrow> string \<Rightarrow> jobj" where
  "entry_of d body = ent d (saved_ref h st body (name d) (args d))"

text \<open>What a completed loop leaves on a disk, and on every disk that has grown from it.\<close>

lemma freeze_all_known:
  assumes "freeze_all freeze fs ds = Inr (fs', entries)" "no_temps fs" "\<forall>(d, n) \<in> set ds. plain_id h st (name d)"
  shows "no_temps fs' \<and> fs \<subseteq>\<^sub>m fs' \<and>
    list_all2 (\<lambda>(d, n) e. \<exists>body. doc d = Inr body \<and> e = entry_of d body) ds entries \<and>
    (\<forall>w ds'. fs' \<subseteq>\<^sub>m w \<longrightarrow> no_temps w \<longrightarrow> map fst ds' = map fst ds \<longrightarrow> freeze_all freeze w ds' = Inr (w, entries)) \<and>
    (\<forall>w. fs' \<subseteq>\<^sub>m w \<longrightarrow> no_temps w \<longrightarrow> \<not> collision h \<longrightarrow>
      (\<forall>(d, n) \<in> set ds. \<exists>body. doc d = Inr body \<and> read_bytes st w (saved_ref h st body (name d) (args d)) = Inr body))"
  using assms
proof (induction ds arbitrary: fs entries)
  case (Cons x ds)
  obtain d nonce where x: "x = (d, nonce)" by (cases x)
  from Cons.prems(1) obtain body fs1 es ref where t: "doc d = Inr body"
    and s: "save_bytes h st fs body (name d) (args d) nonce = Inr (fs1, ref)"
    and rest: "freeze_all freeze fs1 ds = Inr (fs', es)" and e: "entries = ent d ref # es"
    by (auto simp: x freeze_saves[of fs d nonce] res_simps)
  have p: "plain_id h st (name d)" using Cons.prems(3) x by simp
  note n1 = save_no_temps[OF p s Cons.prems(2)] and ref = save_bytes_refines(1)[OF p s]
  have ih: "no_temps fs' \<and> fs1 \<subseteq>\<^sub>m fs' \<and>
    list_all2 (\<lambda>(d, n) e. \<exists>body. doc d = Inr body \<and> e = entry_of d body) ds es \<and>
    (\<forall>w ds'. fs' \<subseteq>\<^sub>m w \<longrightarrow> no_temps w \<longrightarrow> map fst ds' = map fst ds \<longrightarrow> freeze_all freeze w ds' = Inr (w, es)) \<and>
    (\<forall>w. fs' \<subseteq>\<^sub>m w \<longrightarrow> no_temps w \<longrightarrow> \<not> collision h \<longrightarrow>
      (\<forall>(d, n) \<in> set ds. \<exists>body. doc d = Inr body \<and> read_bytes st w (saved_ref h st body (name d) (args d)) = Inr body))"
    using Cons.IH[OF rest n1] Cons.prems(3) by simp
  have spec: "save_spec h st fs body (name d) (args d) = Some fs1"
    using save_bytes_refines(2)[OF p s] by (simp add: visible_no_temps Cons.prems(2) n1)
  have grow: "fs \<subseteq>\<^sub>m fs'" using save_spec_keeps[OF spec] ih map_le_trans by blast
  have again: "freeze_all freeze w ds' = Inr (w, entries)"
    if w: "fs' \<subseteq>\<^sub>m w" "no_temps w" "map fst ds' = map fst (x # ds)" for w ds'
  proof -
    obtain nonce' rest' where ds': "ds' = (d, nonce') # rest'" "map fst rest' = map fst ds"
      using w(3) by (cases ds') (auto simp: x)
    have "fs1 \<subseteq>\<^sub>m w" using ih w(1) map_le_trans by blast
    from save_bytes_known[OF p s Cons.prems(2) this w(2)]
    have "freeze w d nonce' = Inr (w, ent d ref)" by (simp add: freeze_saves[of w d nonce'] t)
    moreover have "freeze_all freeze w rest' = Inr (w, es)" using ih w ds'(2) by blast
    ultimately show ?thesis by (simp add: ds'(1) e)
  qed
  have reads: "read_bytes st w (saved_ref h st body (name d) (args d)) = Inr body"
    if w: "fs' \<subseteq>\<^sub>m w" "no_temps w" "\<not> collision h" for w
  proof -
    have "fs1 \<subseteq>\<^sub>m w" using ih w(1) map_le_trans by blast
    from save_spec_known[OF p spec this] have "save_spec h st w body (name d) (args d) = Some w" .
    then have "save_spec h st w body (name d) (args d) = Some (visible w)" by (simp add: visible_no_temps w(2))
    from load_saved(1)[OF p this w(3) args_wf] show ?thesis .
  qed
  show ?case
    using ih grow again reads t e ref by (simp add: x entry_of_def)
qed simp

end

definition executor_body :: "hash \<Rightarrow> executor_descriptor \<Rightarrow> string res" where
  "executor_body h d = bindE (xe_to_dict h d) (\<lambda>b. Inr (canonical_json (JObj b)))"

definition executor_saved_entry :: "hash \<Rightarrow> executor_descriptor \<Rightarrow> artifact_ref \<Rightarrow> jobj" where
  "executor_saved_entry h d ref = executor_entry d ref (projr (xe_digest h d)) (projr (normalized_status d))"

lemma plain_source: "wf_obj [(k, JStr a)]" "k \<noteq> k' \<Longrightarrow> wf_obj [(k, JStr a), (k', JStr b)]"
  by (simp_all add: wf_obj_def)

interpretation frozen_plugins: freezing h st "freeze_plugin h st t" "\<lambda>d. Inr (canonical_json (JObj (pd_to_dict h d)))"
  plugin_descriptor_id "\<lambda>d. plugin_args d t" "plugin_entry h" for h st t
  by unfold_locales (simp_all add: freeze_plugin_def save_json_def plugin_args_def plain_source)

interpretation frozen_executors: freezing h st "freeze_executor h st t" "executor_body h"
  executor_descriptor_id "\<lambda>d. executor_args d t" "executor_saved_entry h" for h st t
proof unfold_locales
  fix fs d nonce
  show "freeze_executor h st t fs d nonce = bindE (executor_body h d) (\<lambda>body.
      bindE (save_bytes h st fs body (executor_descriptor_id d) (executor_args d t) nonce) (\<lambda>(fs1, ref). Inr (fs1, executor_saved_entry h d ref)))"
    by (cases "normalized_status d")
      (simp_all add: freeze_executor_def executor_body_def xe_to_dict_def xe_digest_def xe_body_def save_json_def executor_args_def
        executor_saved_entry_def)
qed (simp_all add: executor_args_def plain_source)

lemma with_nonces_fst: "map fst (with_nonces f ds) = ds"
  by (simp add: with_nonces_def comp_def case_prod_beta)

text \<open>The documents of a freeze have plain names.\<close>

definition plain_descriptors :: "hash \<Rightarrow> artifact_store \<Rightarrow> plugin_registry \<times> executor_registry \<Rightarrow> bool" where
  "plain_descriptors h st = (\<lambda>(g, xg).
     (\<forall>d \<in> set (dict_values (pg_plugins g)). plain_id h st (plugin_descriptor_id d)) \<and>
     (\<forall>d \<in> set (dict_values (xg_executors xg)). plain_id h st (executor_descriptor_id d)))"

lemma with_nonces_set: "(d, n) \<in> set (with_nonces f ds) \<Longrightarrow> d \<in> set ds"
  by (auto simp: with_nonces_def in_set_enumerate_eq)

lemma entries_of: "list_all2 (\<lambda>(d, n) e. P d e) (with_nonces f ds) es \<Longrightarrow> list_all2 P ds es"
  by (simp add: with_nonces_def list_all2_conv_all_nth nth_enumerate_eq)

lemma reads_of:
  "(\<forall>(d, n) \<in> set (with_nonces f ds). P d) \<Longrightarrow> d \<in> set ds \<Longrightarrow> P d"
  using with_nonces_fst[of f ds] by (metis (no_types, lifting) case_prodD imageE list.set_map prod.collapse)

lemma freeze_facts:
  assumes f: "freeze_registries h st pn xn fs (g, xg) q = Inr (fs', (g', xg'), snap)"
    and "no_temps fs" "plain_descriptors h st (g, xg)"
  shows "g' = g\<lparr>pg_frozen := True\<rparr> \<and> xg' = xg\<lparr>xg_frozen := True\<rparr> \<and> no_temps fs' \<and> fs \<subseteq>\<^sub>m fs' \<and>
    freeze_registries h st pn' xn' fs' (g', xg') q = Inr (fs', (g', xg'), snap) \<and>
    list_all2 (\<lambda>d e. e = plugin_entry h d (saved_ref h st (canonical_json (JObj (pd_to_dict h d))) (plugin_descriptor_id d)
        (plugin_args d (fz_frozen_at q)))) (sorted_plugins g) (gs_plugin_entries snap) \<and>
    (\<not> collision h \<longrightarrow> (\<forall>d \<in> set (sorted_plugins g). read_bytes st fs' (saved_ref h st (canonical_json (JObj (pd_to_dict h d)))
        (plugin_descriptor_id d) (plugin_args d (fz_frozen_at q))) = Inr (canonical_json (JObj (pd_to_dict h d)))))"
proof -
  obtain fs1 ps es where p: "freeze_all (freeze_plugin h st (fz_frozen_at q)) fs (with_nonces pn (sorted_plugins g)) = Inr (fs1, ps)"
    and e: "freeze_all (freeze_executor h st (fz_frozen_at q)) fs1 (with_nonces xn (sorted_executors xg)) = Inr (fs', es)"
    and out: "g' = g\<lparr>pg_frozen := True\<rparr>" "xg' = xg\<lparr>xg_frozen := True\<rparr>" "gs_plugin_entries snap = ps"
      "snap = \<lparr>gs_registry_snapshot_id = fz_registry_snapshot_id q, gs_task_id = fz_task_id q, gs_plugin_entries = ps,
        gs_executor_entries = es, gs_frozen_at = fz_frozen_at q, gs_metadata = Some (or_nothing (fz_metadata q)),
        gs_schema_version = ''phase3.registry_snapshot.v1''\<rparr>"
    using f by (auto simp: freeze_registries_def freeze_entries_def mark_frozen_def res_simps)
  have plain: "\<forall>(d, n) \<in> set (with_nonces pn (sorted_plugins g)). plain_id h st (plugin_descriptor_id d)"
    "\<forall>(d, n) \<in> set (with_nonces xn (sorted_executors xg)). plain_id h st (executor_descriptor_id d)"
    using assms(3) by (auto dest!: with_nonces_set simp: plain_descriptors_def sorted_plugins_def sorted_executors_def)
  note kp = frozen_plugins.freeze_all_known[OF p assms(2) plain(1)]
  then have n1: "no_temps fs1" by blast
  note ke = frozen_executors.freeze_all_known[OF e n1 plain(2)]
  have same: "sorted_plugins g' = sorted_plugins g" "sorted_executors xg' = sorted_executors xg"
    by (simp_all add: out sorted_plugins_def sorted_executors_def)
  have n: "no_temps fs'" "fs1 \<subseteq>\<^sub>m fs'" using ke by blast+
  have p2: "freeze_all (freeze_plugin h st (fz_frozen_at q)) fs' (with_nonces pn' (sorted_plugins g)) = Inr (fs', ps)"
    using kp n by (simp add: with_nonces_fst)
  have e2: "freeze_all (freeze_executor h st (fz_frozen_at q)) fs' (with_nonces xn' (sorted_executors xg)) = Inr (fs', es)"
    using ke n by (simp add: with_nonces_fst)
  have again: "freeze_registries h st pn' xn' fs' (g', xg') q = Inr (fs', (g', xg'), snap)"
    by (simp add: freeze_registries_def freeze_entries_def same p2 e2 mark_frozen_def) (simp add: out)
  have "list_all2 (\<lambda>d e. e = plugin_entry h d (saved_ref h st (canonical_json (JObj (pd_to_dict h d))) (plugin_descriptor_id d)
        (plugin_args d (fz_frozen_at q)))) (sorted_plugins g) ps"
  proof (rule entries_of[of _ pn])
    show "list_all2 (\<lambda>(d, m) e. e = plugin_entry h d (saved_ref h st (canonical_json (JObj (pd_to_dict h d))) (plugin_descriptor_id d)
        (plugin_args d (fz_frozen_at q)))) (with_nonces pn (sorted_plugins g)) ps"
      by (rule list_all2_mono[OF kp[THEN conjunct2, THEN conjunct2, THEN conjunct1]])
        (simp only: frozen_plugins.entry_of_def split_beta sum.inject, blast)
  qed
  moreover have "read_bytes st fs' (saved_ref h st (canonical_json (JObj (pd_to_dict h d)))
        (plugin_descriptor_id d) (plugin_args d (fz_frozen_at q))) = Inr (canonical_json (JObj (pd_to_dict h d)))"
    if "\<not> collision h" "d \<in> set (sorted_plugins g)" for d
  proof (rule reads_of[OF _ that(2)])
    show "\<forall>(d, m) \<in> set (with_nonces pn (sorted_plugins g)). read_bytes st fs' (saved_ref h st (canonical_json (JObj (pd_to_dict h d)))
        (plugin_descriptor_id d) (plugin_args d (fz_frozen_at q))) = Inr (canonical_json (JObj (pd_to_dict h d)))"
      using kp[THEN conjunct2, THEN conjunct2, THEN conjunct2, THEN conjunct2, rule_format, OF n(2,1) that(1)] by auto
  qed
  moreover have "fs \<subseteq>\<^sub>m fs'" using kp n(2) map_le_trans by blast
  ultimately show ?thesis using out(1,2,3) n(1) again by blast
qed


section \<open>A finding\<close>

text \<open>
  The artifact id of a descriptor joins its id and its version with an underscore, so two descriptors that the
  registry holds under different keys can have one artifact id. The freeze of such a registry raises.
\<close>

lemma descriptor_names_collide:
  "plugin_descriptor_id (d\<lparr>pd_plugin_id := ''a_b'', pd_plugin_version := ''c''\<rparr>) =
   plugin_descriptor_id (d\<lparr>pd_plugin_id := ''a'', pd_plugin_version := ''b_c''\<rparr>)"
  by (simp add: plugin_descriptor_id_def)

lemma colliding_freeze_raises:
  assumes "plain_id h st (plugin_descriptor_id d)" "plugin_descriptor_id e = plugin_descriptor_id d" "\<not> collision h"
    and "canonical_json (JObj (pd_to_dict h d)) \<noteq> canonical_json (JObj (pd_to_dict h e))"
  shows "\<not> is_ok (freeze_all (freeze_plugin h st t) fs [(d, n), (e, m)])"
proof
  let ?i = "plugin_descriptor_id d" and ?x = "canonical_json (JObj (pd_to_dict h d))" and ?y = "canonical_json (JObj (pd_to_dict h e))"
  assume "is_ok (freeze_all (freeze_plugin h st t) fs [(d, n), (e, m)])"
  then obtain fs1 p1 fs2 p2 where f: "freeze_plugin h st t fs d n = Inr (fs1, p1)" "freeze_plugin h st t fs1 e m = Inr (fs2, p2)"
    by (simp add: is_ok_iff res_simps split_paired_Ex) (elim exE conjE)
  obtain r where s: "save_bytes h st fs ?x ?i (plugin_args d t) n = Inr (fs1, r)"
    using f(1) by (simp add: frozen_plugins.freeze_saves[of h st t fs d n] res_simps) (elim exE conjE)
  obtain r2 where s2: "save_bytes h st fs1 ?y ?i (plugin_args e t) m = Inr (fs2, r2)"
    using f(2) assms(2) by (simp add: frozen_plugins.freeze_saves[of h st t fs1 e m] res_simps) (elim exE conjE)
  from save_bytes_refines(2)[OF assms(1) s] save_bytes_refines(2)[OF assms(1) s2]
  have "visible fs1 (artifact_target h st ?i) = Some ?x" "visible fs2 (artifact_target h st ?i) = Some ?y" "visible fs1 \<subseteq>\<^sub>m visible fs2"
    using save_spec_result(1)[OF assms(1) _ assms(3)] save_spec_keeps by blast+
  then show False using assms(4) by (auto simp: map_le_def dom_def)
qed

section \<open>A run is set up\<close>

definition sample_plugin :: plugin_descriptor where
  "sample_plugin =
     \<lparr>pd_plugin_id = ''p'', pd_plugin_version = ''1'', pd_supported_task_types = [''t''], pd_input_contract = [],
      pd_output_contracts = [], pd_execution_contracts = [], pd_split_strategies = None, pd_validator_policy_id = None,
      pd_merge_policy_id = None, pd_metadata = Some [(''exclusive_task_types'', JArr [JStr ''t''])],
      pd_schema_version = ''phase3.plugin_descriptor.v1''\<rparr>"

definition sample_executor :: "string \<Rightarrow> string \<Rightarrow> executor_descriptor" where
  "sample_executor i status =
     \<lparr>xe_executor_id = i, xe_executor_type = ''ai_api'', xe_executor_version = ''1'',
      xe_supported_request_schema_versions = [''v2''], xe_capabilities = [(''modes'', JArr [JStr ''text'', JStr ''json''])],
      xe_environment_policy = [], xe_status = status, xe_metadata = None, xe_schema_version = ''phase3.executor_descriptor.v1''\<rparr>"

lemma matching_exact_witness:
  "\<exists>g ms. foldE register_executor empty_executor_registry [sample_executor ''b'' ''Available'', sample_executor ''a'' ''Busy''] = Inr g \<and>
    match_available g ''ai_api'' [(''modes'', JStr ''json'')] ''v2'' = Inr ms \<and> xe_executor_id ` set ms = {''b''}"
proof -
  let ?ds = "[sample_executor ''b'' ''Available'', sample_executor ''a'' ''Busy'']"
  have "is_ok (bindE (foldE register_executor empty_executor_registry ?ds) (\<lambda>g. match_available g ''ai_api'' [(''modes'', JStr ''json'')] ''v2''))"
    by code_simp
  then obtain g ms where g: "foldE register_executor empty_executor_registry ?ds = Inr g"
    "match_available g ''ai_api'' [(''modes'', JStr ''json'')] ''v2'' = Inr ms"
    unfolding is_ok_iff by (auto simp: res_simps)
  have "capability_matches (JStr ''json'') (JArr [JStr ''text'', JStr ''json'']) = Inr True" by code_simp
  then have "can_execute (sample_executor ''b'' ''Available'') ''ai_api'' [(''modes'', JStr ''json'')] ''v2''"
    "\<not> can_execute (sample_executor ''a'' ''Busy'') ''ai_api'' [(''modes'', JStr ''json'')] ''v2''"
    by (simp_all add: can_execute_def sample_executor_def)
  then have "{d \<in> set ?ds. can_execute d ''ai_api'' [(''modes'', JStr ''json'')] ''v2''} = {sample_executor ''b'' ''Available''}"
    by auto
  with matching_exact[OF g] have "set ms = {sample_executor ''b'' ''Available''}" by (elim exE conjE) simp
  with g show ?thesis by (intro exI conjI) (assumption, assumption, simp add: sample_executor_def)
qed

definition sample_freeze :: freeze_request where
  "sample_freeze = \<lparr>fz_task_id = ''t'', fz_registry_snapshot_id = ''s'', fz_frozen_at = ''now'', fz_metadata = None\<rparr>"


end
