(* ===== verification/Engine_Base.thy ===== *)
theory Engine_Base
  imports Core_Leases Core_Contribution Exec_Registry Event_Log
begin

text \<open>
  \<open>protocol_engine.py\<close>: what its operations share. The engine keeps no state of its own: it reads the
  ledger file, and the latest snapshot of a lease or an attempt in it is the authoritative one. An
  operation with one write is a function into \<open>res\<close>; one with several is a program of the state
  \<open>'s \<Rightarrow> 's \<times> 'a res\<close>, which keeps what was written before an error.
\<close>

section \<open>Programs with several writes\<close>

type_synonym ('s, 'a) prog = "'s \<Rightarrow> 's \<times> 'a res"

definition lift_res :: "'a res \<Rightarrow> ('s, 'a) prog" where
  "lift_res r = (\<lambda>s. (s, r))"

definition bindS :: "('s, 'a) prog \<Rightarrow> ('a \<Rightarrow> ('s, 'b) prog) \<Rightarrow> ('s, 'b) prog" where
  "bindS m f = (\<lambda>s. case m s of (s', Inl e) \<Rightarrow> (s', Inl e) | (s', Inr x) \<Rightarrow> f x s')"

definition to_prog :: "('s \<Rightarrow> ('s \<times> 'a) res) \<Rightarrow> ('s, 'a) prog" where
  "to_prog f = (\<lambda>s. case f s of Inl e \<Rightarrow> (s, Inl e) | Inr (s', x) \<Rightarrow> (s', Inr x))"

lemma bindS_eq_Inr [res_simps]:
  "bindS m f s = (s', Inr y) \<longleftrightarrow> (\<exists>s1 x. m s = (s1, Inr x) \<and> f x s1 = (s', Inr y))"
  by (auto simp: bindS_def split: prod.splits sum.splits)

lemma lift_res_eq_Inr [res_simps]: "lift_res r s = (s', Inr y) \<longleftrightarrow> s' = s \<and> r = Inr y"
  by (auto simp: lift_res_def)

lemma to_prog_eq_Inr [res_simps]: "to_prog f s = (s', Inr y) \<longleftrightarrow> f s = Inr (s', y)"
  by (auto simp: to_prog_def split: sum.splits)

lemma lift_res_Inr [simp]: "lift_res (Inr x) s = (s, Inr x)"
  by (simp add: lift_res_def)

lemma list_all2_left: "list_all2 P xs ys \<Longrightarrow> x \<in> set xs \<Longrightarrow> \<exists>y \<in> set ys. P x y"
  by (induction rule: list_all2_induct) auto

section \<open>Events\<close>

definition engine_draft ::
  "event_type \<Rightarrow> string \<Rightarrow> string \<Rightarrow> string \<Rightarrow> string \<Rightarrow> string option \<Rightarrow> string \<Rightarrow> jobj \<Rightarrow> string \<Rightarrow> event_draft" where
  "engine_draft event_type object_type object_id task_id cid cause key payload occurred_at =
     \<lparr>dr_event_type = Known event_type, dr_object_type = object_type, dr_object_id = object_id,
      dr_payload = payload, dr_idempotency_key = key, dr_task_id = Some task_id,
      dr_actor = Some [(''kind'', JStr ''protocol_engine'')], dr_correlation_id = Some cid,
      dr_causation_event_id = cause, dr_occurred_at = Some occurred_at\<rparr>"

definition task_unit_state_change ::
  "task_unit \<Rightarrow> task_state \<Rightarrow> task_state \<Rightarrow> string \<Rightarrow> string \<Rightarrow> string \<Rightarrow> string option \<Rightarrow> string \<Rightarrow> jobj option \<Rightarrow> jobj" where
  "task_unit_state_change u old_state new_state reason trigger cid cause changed_at state_context =
     [(''schema_version'', JStr ''phase2.task_unit_state_change.v1''),
      (''task_id'', JStr (tu_task_id u)),
      (''unit_id'', JStr (tu_unit_id u)),
      (''old_state'', JStr (task_state_value old_state)),
      (''new_state'', JStr (task_state_value new_state)),
      (''reason'', JStr reason),
      (''trigger'', JStr trigger),
      (''correlation_id'', JStr cid),
      (''causation_event_id'', opt_str cause),
      (''changed_at'', JStr changed_at),
      (''state_context'', JObj (or_nothing state_context))]"

definition first_event_id_for_batch :: "ledger_event list \<Rightarrow> string \<Rightarrow> string option" where
  "first_event_id_for_batch es batch_id =
     map_option ev_event_id (find (\<lambda>e. ev_batch_id e = Some batch_id \<and> ev_batch_index e = Some 1) es)"

text \<open>\<open>_first_event_id_for_batch(...) or f"event_{len(current_events) + 1:012d}"\<close>.\<close>

definition batch_first_id :: "ledger_event list \<Rightarrow> string \<Rightarrow> string" where
  "batch_first_id es batch_id =
     or_str (first_event_id_for_batch es batch_id) (event_id_of (int (length es) + 1))"

text \<open>\<open>int(event_id.removeprefix("event_"))\<close>.\<close>

definition event_number :: "string \<Rightarrow> int res" where
  "event_number s = py_int (JStr (if take 6 s = ''event_'' then drop 6 s else s))"

definition require_store :: "artifact_store option \<Rightarrow> artifact_store res" where
  "require_store st =
     (case st of None \<Rightarrow> Inl (ValueError ''artifact_store is required for Phase 3 execution artifacts'') | Some s \<Rightarrow> Inr s)"

section \<open>Snapshots\<close>

text \<open>The latest event of a type about an object; its document is \<open>_latest_attempt_snapshot\<close> or \<open>_latest_lease_snapshot\<close>.\<close>

definition latest_event :: "event_type \<Rightarrow> ledger_event list \<Rightarrow> string \<Rightarrow> ledger_event option" where
  "latest_event t es object_id = find (\<lambda>e. is_type e t \<and> ev_object_id e = object_id) (rev es)"

definition latest_attempt_snapshot :: "ledger_event list \<Rightarrow> string \<Rightarrow> jobj option res" where
  "latest_attempt_snapshot es attempt_id =
     (case latest_event ATTEMPT_STATE_CHANGED es attempt_id of
        None \<Rightarrow> Inr None
      | Some e \<Rightarrow> (case jget (ev_payload e) ''attempt'' of
          JObj d \<Rightarrow> Inr (Some d) | _ \<Rightarrow> Inl (ValueError ''latest attempt snapshot is malformed'')))"

definition latest_lease_snapshot :: "ledger_event list \<Rightarrow> string \<Rightarrow> jobj option res" where
  "latest_lease_snapshot es lease_id =
     (case latest_event LEASE_STATE_CHANGED es lease_id of
        None \<Rightarrow> Inr None
      | Some e \<Rightarrow> (case jget (ev_payload e) ''lease'' of
          JObj d \<Rightarrow> Inr (Some d) | _ \<Rightarrow> Inl (ValueError ''latest lease snapshot is malformed'')))"

definition snapshot_required_string :: "jobj \<Rightarrow> string \<Rightarrow> string res" where
  "snapshot_required_string d f =
     (case jget d f of
        JStr s \<Rightarrow> if s = [] then Inl (ValueError (''latest snapshot field must be a non-empty string: '' @ f)) else Inr s
      | _ \<Rightarrow> Inl (ValueError (''latest snapshot field must be a non-empty string: '' @ f)))"

definition snapshot_optional_string :: "jobj \<Rightarrow> string \<Rightarrow> string option res" where
  "snapshot_optional_string d f =
     (case jget d f of
        JNull \<Rightarrow> Inr None
      | JStr s \<Rightarrow> Inr (Some s)
      | _ \<Rightarrow> Inl (ValueError (''latest snapshot field must be a string or null: '' @ f)))"

definition snapshot_json_object :: "jobj \<Rightarrow> string \<Rightarrow> jobj res" where
  "snapshot_json_object d f =
     (case jget d f of
        JNull \<Rightarrow> Inr []
      | JObj x \<Rightarrow> Inr x
      | _ \<Rightarrow> Inl (ValueError (''latest snapshot field must be an object: '' @ f)))"

definition snapshot_optional_artifact_ref :: "jobj \<Rightarrow> string \<Rightarrow> artifact_ref option res" where
  "snapshot_optional_artifact_ref d f =
     (case jget d f of
        JNull \<Rightarrow> Inr None
      | JObj x \<Rightarrow> bindE (ar_from_dict x) (\<lambda>r. Inr (Some r))
      | _ \<Rightarrow> Inl (ValueError (''latest snapshot artifact ref is malformed: '' @ f)))"

definition artifact_refs_from_dict :: "(string \<times> json) list \<Rightarrow> (string, artifact_ref) dict res" where
  "artifact_refs_from_dict d =
     mapE (\<lambda>(name, j). case j of
        JObj x \<Rightarrow> bindE (ar_from_dict x) (\<lambda>r. Inr (name, r)) | _ \<Rightarrow> Inl (TypeError name)) d"

definition snapshot_artifact_refs :: "jobj \<Rightarrow> string \<Rightarrow> (string, artifact_ref) dict res" where
  "snapshot_artifact_refs d f =
     (let bad = Inl (ValueError (''latest snapshot artifact refs are malformed: '' @ f))
      in case jget d f of
           JNull \<Rightarrow> Inr []
         | JObj x \<Rightarrow> if list_all (\<lambda>(k, v). is_jobj v) x then artifact_refs_from_dict x else bad
         | _ \<Rightarrow> bad)"

definition snapshot_non_negative_int :: "jobj \<Rightarrow> string \<Rightarrow> int \<Rightarrow> int res" where
  "snapshot_non_negative_int d f legacy_default =
     (case dict_get_default d f (JInt legacy_default) of
        JInt i \<Rightarrow> if i < 0 then Inl (ValueError (''latest snapshot field must be a non-negative integer: '' @ f)) else Inr i
      | _ \<Rightarrow> Inl (ValueError (''latest snapshot field must be a non-negative integer: '' @ f)))"

definition attempt_states :: "attempt_state list" where
  "attempt_states =
     [AS_CREATED, AS_RUNNING, AS_SUBMITTED, AS_VERIFYING, AS_VERIFIED, AS_CANONICAL, AS_REJECTED, AS_FAILED, AS_SUPERSEDED]"

definition attempt_state_of :: "string \<Rightarrow> attempt_state res" where
  "attempt_state_of s =
     (case find (\<lambda>x. attempt_state_value x = s) attempt_states of
        None \<Rightarrow> Inl (ValueError (s @ '' is not a valid AttemptState'')) | Some x \<Rightarrow> Inr x)"

definition lease_states :: "lease_state list" where
  "lease_states = [LS_ACTIVE, LS_RELEASED, LS_EXPIRED, LS_REVOKED]"

definition lease_state_of :: "string \<Rightarrow> lease_state res" where
  "lease_state_of s =
     (case find (\<lambda>x. lease_state_value x = s) lease_states of
        None \<Rightarrow> Inl (ValueError (s @ '' is not a valid LeaseState'')) | Some x \<Rightarrow> Inr x)"

definition attempt_from_snapshot :: "jobj \<Rightarrow> attempt res" where
  "attempt_from_snapshot d =
     bindE (snapshot_required_string d ''attempt_id'') (\<lambda>attempt_id.
     bindE (snapshot_required_string d ''task_id'') (\<lambda>task_id.
     bindE (snapshot_required_string d ''unit_id'') (\<lambda>unit_id.
     bindE (snapshot_required_string d ''lease_id'') (\<lambda>lease_id.
     bindE (snapshot_required_string d ''client_id'') (\<lambda>client_id.
     bindE (bindE (snapshot_required_string d ''state'') attempt_state_of) (\<lambda>state.
     bindE (snapshot_required_string d ''attempt_kind'') (\<lambda>attempt_kind.
     bindE (snapshot_required_string d ''created_at'') (\<lambda>created_at.
     bindE (snapshot_optional_string d ''started_at'') (\<lambda>started_at.
     bindE (snapshot_optional_string d ''submitted_at'') (\<lambda>submitted_at.
     bindE (snapshot_optional_string d ''finished_at'') (\<lambda>finished_at.
     bindE (snapshot_json_object d ''environment_summary'') (\<lambda>environment_summary.
     bindE (snapshot_artifact_refs d ''input_artifact_refs'') (\<lambda>input_artifact_refs.
     bindE (snapshot_optional_artifact_ref d ''raw_output_ref'') (\<lambda>raw_output_ref.
     bindE (snapshot_optional_artifact_ref d ''parsed_output_ref'') (\<lambda>parsed_output_ref.
     bindE (snapshot_artifact_refs d ''candidate_output_refs'') (\<lambda>candidate_output_refs.
     bindE (snapshot_optional_artifact_ref d ''log_ref'') (\<lambda>log_ref.
     bindE (snapshot_optional_string d ''failure_kind'') (\<lambda>failure_kind.
     bindE (snapshot_optional_string d ''failure_reason'') (\<lambda>failure_reason.
     bindE (snapshot_optional_string d ''superseded_by_attempt_id'') (\<lambda>superseded_by.
     bindE (snapshot_json_object d ''metadata'') (\<lambda>metadata.
     bindE (snapshot_non_negative_int d ''attempt_ordinal'' 0) (\<lambda>attempt_ordinal.
     bindE (snapshot_required_string d ''schema_version'') (\<lambda>schema_version.
     Inr \<lparr>at_attempt_id = attempt_id, at_task_id = task_id, at_unit_id = unit_id, at_lease_id = lease_id,
          at_client_id = client_id, at_state = state, at_attempt_kind = attempt_kind, at_created_at = created_at,
          at_started_at = started_at, at_submitted_at = submitted_at, at_finished_at = finished_at,
          at_environment_summary = Some environment_summary, at_input_artifact_refs = Some input_artifact_refs,
          at_raw_output_ref = raw_output_ref, at_parsed_output_ref = parsed_output_ref,
          at_candidate_output_refs = Some candidate_output_refs, at_log_ref = log_ref, at_failure_kind = failure_kind,
          at_failure_reason = failure_reason, at_superseded_by_attempt_id = superseded_by, at_metadata = Some metadata,
          at_attempt_ordinal = attempt_ordinal, at_schema_version = schema_version\<rparr>)))))))))))))))))))))))"

definition heartbeat_count_of :: "jobj \<Rightarrow> int res" where
  "heartbeat_count_of d =
     (let bad = Inl (ValueError ''latest snapshot field must be a non-negative integer: heartbeat_count'')
      in case jget d ''heartbeat_count'' of JInt i \<Rightarrow> if i < 0 then bad else Inr i | _ \<Rightarrow> bad)"

definition lease_from_snapshot :: "jobj \<Rightarrow> lease res" where
  "lease_from_snapshot d =
     bindE (heartbeat_count_of d) (\<lambda>heartbeat_count.
     bindE (snapshot_required_string d ''lease_id'') (\<lambda>lease_id.
     bindE (snapshot_required_string d ''task_id'') (\<lambda>task_id.
     bindE (snapshot_required_string d ''unit_id'') (\<lambda>unit_id.
     bindE (snapshot_required_string d ''attempt_id'') (\<lambda>attempt_id.
     bindE (snapshot_required_string d ''client_id'') (\<lambda>client_id.
     bindE (bindE (snapshot_required_string d ''state'') lease_state_of) (\<lambda>state.
     bindE (snapshot_required_string d ''fencing_token'') (\<lambda>fencing_token.
     bindE (snapshot_required_string d ''issued_at'') (\<lambda>issued_at.
     bindE (snapshot_required_string d ''expires_at'') (\<lambda>expires_at.
     bindE (snapshot_optional_string d ''last_heartbeat_at'') (\<lambda>last_heartbeat_at.
     bindE (snapshot_required_string d ''lease_kind'') (\<lambda>lease_kind.
     bindE (snapshot_optional_string d ''terminated_at'') (\<lambda>terminated_at.
     bindE (snapshot_optional_string d ''terminated_reason'') (\<lambda>terminated_reason.
     bindE (snapshot_json_object d ''metadata'') (\<lambda>metadata.
     bindE (snapshot_non_negative_int d ''attempt_ordinal'' 0) (\<lambda>attempt_ordinal.
     bindE (snapshot_optional_string d ''binding_digest'') (\<lambda>binding_digest.
     bindE (snapshot_required_string d ''schema_version'') (\<lambda>schema_version.
     Inr \<lparr>ls_lease_id = lease_id, ls_task_id = task_id, ls_unit_id = unit_id, ls_attempt_id = attempt_id,
          ls_client_id = client_id, ls_state = state, ls_fencing_token = fencing_token, ls_issued_at = issued_at,
          ls_expires_at = expires_at, ls_last_heartbeat_at = last_heartbeat_at, ls_heartbeat_count = heartbeat_count,
          ls_lease_kind = lease_kind, ls_terminated_at = terminated_at, ls_terminated_reason = terminated_reason,
          ls_metadata = metadata, ls_attempt_ordinal = attempt_ordinal, ls_binding_digest = binding_digest,
          ls_schema_version = schema_version\<rparr>))))))))))))))))))"

definition authoritative_attempt :: "ledger_event list \<Rightarrow> attempt \<Rightarrow> attempt res" where
  "authoritative_attempt es supplied =
     bindE (latest_attempt_snapshot es (at_attempt_id supplied)) (\<lambda>s.
       case s of None \<Rightarrow> Inr supplied | Some d \<Rightarrow> attempt_from_snapshot d)"

definition authoritative_lease :: "ledger_event list \<Rightarrow> lease \<Rightarrow> lease res" where
  "authoritative_lease es supplied =
     bindE (latest_lease_snapshot es (ls_lease_id supplied)) (\<lambda>s.
       case s of None \<Rightarrow> Inr supplied | Some d \<Rightarrow> lease_from_snapshot d)"

section \<open>Active leases\<close>

definition latest_leases :: "ledger_event list \<Rightarrow> (string, jobj) dict" where
  "latest_leases es =
     fold (\<lambda>e acc. if is_type e LEASE_STATE_CHANGED
       then (case jget (ev_payload e) ''lease'' of
               JObj d \<Rightarrow> (case jget d ''lease_id'' of JStr i \<Rightarrow> dict_set i d acc | _ \<Rightarrow> acc)
             | _ \<Rightarrow> acc)
       else acc) es []"

definition active_leases_by_unit_id :: "ledger_event list \<Rightarrow> (string, string list) dict" where
  "active_leases_by_unit_id es =
     fold (\<lambda>(lease_id, d) acc.
       if jget d ''state'' \<noteq> JStr (lease_state_value LS_ACTIVE) then acc
       else case jget d ''unit_id'' of
              JStr u \<Rightarrow> dict_set u (dict_get_default acc u [] @ [lease_id]) acc
            | _ \<Rightarrow> acc) (latest_leases es) []"

definition merge_active_lease_maps :: "(string, string list) dict \<Rightarrow> (string, json) dict \<Rightarrow> (string, json) dict" where
  "merge_active_lease_maps ledger_active supplied =
     dict_update (map (\<lambda>(u, ids). (u, JArr (map JStr ids))) ledger_active) supplied"

end
