(* ===== verification/Engine_Execution.thy ===== *)
theory Engine_Execution
  imports Engine_Base Exec_Registry
begin

text \<open>
  \<open>protocol_engine.py\<close>: registry snapshots, execution requests and execution submissions. Each saves a document
  and then appends events one at a time, so the state of these programs is the disk and the ledger: what was
  written before an error stays.
\<close>

type_synonym disk_ledger = "fs \<times> event_ledger"

definition save_doc :: "hash \<Rightarrow> artifact_store \<Rightarrow> jobj \<Rightarrow> string \<Rightarrow> artifact_args \<Rightarrow> string \<Rightarrow> (disk_ledger, artifact_ref) prog" where
  "save_doc h st body artifact_id args nonce = (\<lambda>(fs, L).
     case save_json h st fs (JObj body) artifact_id args nonce of
       Inl e \<Rightarrow> ((fs, L), Inl e) | Inr (fs', ref) \<Rightarrow> ((fs', L), Inr ref))"

definition append_prog :: "hash \<Rightarrow> string \<Rightarrow> event_draft \<Rightarrow> (disk_ledger, ledger_event) prog" where
  "append_prog h now d = (\<lambda>(fs, L).
     case append_event h now L d of Inl e \<Rightarrow> ((fs, L), Inl e) | Inr (L', e) \<Rightarrow> ((fs, L'), Inr e))"

definition read_prog :: "(disk_ledger, ledger_event list) prog" where
  "read_prog = (\<lambda>(fs, L). ((fs, L), read_all (el_file L)))"

text \<open>The arguments of the saves of the engine.\<close>

definition engine_args :: "string \<Rightarrow> string \<Rightarrow> jobj \<Rightarrow> string \<Rightarrow> artifact_args" where
  "engine_args artifact_type schema_id metadata created_at =
     \<lparr>aa_artifact_type = artifact_type, aa_media_type = ''application/json'', aa_artifact_schema_id = schema_id,
      aa_artifact_schema_version = ''v1'', aa_source = [(''kind'', JStr ''protocol_engine'')],
      aa_ref_metadata = metadata, aa_created_at = created_at\<rparr>"

section \<open>Registry snapshots\<close>

definition registry_plugin_entry_summary :: "jobj \<Rightarrow> jobj" where
  "registry_plugin_entry_summary entry =
     [(''plugin_id'', jget entry ''plugin_id''),
      (''plugin_version'', jget entry ''plugin_version''),
      (''descriptor_digest'', jget entry ''descriptor_digest''),
      (''descriptor_ref'', jget entry ''descriptor_ref''),
      (''supported_task_types'', dict_get_default entry ''supported_task_types'' (JArr []))]"

definition registry_executor_entry_summary :: "jobj \<Rightarrow> jobj" where
  "registry_executor_entry_summary entry =
     [(''executor_id'', jget entry ''executor_id''),
      (''executor_type'', jget entry ''executor_type''),
      (''executor_version'', jget entry ''executor_version''),
      (''descriptor_digest'', jget entry ''descriptor_digest''),
      (''descriptor_ref'', jget entry ''descriptor_ref''),
      (''status'', jget entry ''status'')]"

definition snapshot_args :: "freeze_request \<Rightarrow> artifact_args" where
  "snapshot_args q = engine_args ''RegistrySnapshot'' ''phase3.registry_snapshot'' [(''task_id'', JStr (fz_task_id q))] (fz_frozen_at q)"

definition snapshot_draft :: "freeze_request \<Rightarrow> registry_snapshot \<Rightarrow> artifact_ref \<Rightarrow> string \<Rightarrow> event_draft" where
  "snapshot_draft q snap ref cid =
     engine_draft REGISTRY_SNAPSHOT_RECORDED ''RegistrySnapshot'' (fz_registry_snapshot_id q) (fz_task_id q) cid None
       (''registry_snapshot:'' @ fz_registry_snapshot_id q)
       [(''schema_version'', JStr ''phase3.registry_snapshot_record.v1''),
        (''registry_snapshot_id'', JStr (fz_registry_snapshot_id q)),
        (''task_id'', JStr (fz_task_id q)),
        (''registry_snapshot_ref'', JObj (ar_to_dict ref)),
        (''registry_snapshot_digest'', JStr (ar_content_hash ref)),
        (''plugin_entries'', JArr (map (JObj \<circ> registry_plugin_entry_summary) (gs_plugin_entries snap))),
        (''executor_entries'', JArr (map (JObj \<circ> registry_executor_entry_summary) (gs_executor_entries snap))),
        (''frozen_at'', JStr (fz_frozen_at q))] (fz_frozen_at q)"

text \<open>
  The state has the registries too, which the freeze closes. \<open>q\<close> has no metadata: the engine gives none. The names
  \<open>pn\<close>, \<open>xn\<close> and \<open>nonce\<close> are those of the temporary files.
\<close>

definition record_registry_snapshot ::
  "hash \<Rightarrow> artifact_store option \<Rightarrow> string \<Rightarrow> (nat \<Rightarrow> string) \<Rightarrow> (nat \<Rightarrow> string) \<Rightarrow> string \<Rightarrow> freeze_request \<Rightarrow> string
    \<Rightarrow> (disk_ledger \<times> plugin_registry \<times> executor_registry, registry_snapshot \<times> artifact_ref \<times> ledger_event) prog" where
  "record_registry_snapshot h store clock pn xn nonce q cid = (\<lambda>((fs, L), regs).
     case require_store store of Inl e \<Rightarrow> (((fs, L), regs), Inl e) | Inr st \<Rightarrow>
     (case freeze_registries h st pn xn fs regs q of Inl e \<Rightarrow> (((fs, L), regs), Inl e) | Inr (fs1, regs1, snap) \<Rightarrow>
       (case bindS (save_doc h st (gs_to_dict snap) (fz_registry_snapshot_id q) (snapshot_args q) nonce) (\<lambda>ref.
             bindS (append_prog h clock (snapshot_draft q snap ref cid)) (\<lambda>e. lift_res (Inr (snap, ref, e)))) (fs1, L) of
          (s, r) \<Rightarrow> ((s, regs1), r))))"

section \<open>Execution requests\<close>

definition request_doc_args :: "execution_request \<Rightarrow> artifact_args" where
  "request_doc_args q = engine_args ''ExecutionRequest'' ''phase3.execution_request''
     [(''task_id'', JStr (xr_task_id q)), (''attempt_id'', JStr (xr_attempt_id q))] (xr_created_at q)"

definition request_draft :: "execution_request \<Rightarrow> artifact_ref \<Rightarrow> string \<Rightarrow> string option \<Rightarrow> event_draft" where
  "request_draft q ref cid cause =
     engine_draft EXECUTION_REQUEST_RECORDED ''ExecutionRequest'' (xr_request_id q) (xr_task_id q) cid cause
       (''execution_request:'' @ xr_request_id q)
       [(''schema_version'', JStr ''phase3.execution_request_record.v1''),
        (''request_id'', JStr (xr_request_id q)),
        (''task_id'', JStr (xr_task_id q)),
        (''unit_id'', JStr (xr_unit_id q)),
        (''attempt_id'', JStr (xr_attempt_id q)),
        (''lease_id'', JStr (xr_lease_id q)),
        (''request_ref'', JObj (ar_to_dict ref)),
        (''request_digest'', JStr (ar_content_hash ref)),
        (''plugin_id'', jget (xr_plugin q) ''plugin_id''),
        (''executor_id'', jget (xr_executor q) ''executor_id''),
        (''created_at'', JStr (xr_created_at q))] (xr_created_at q)"

definition record_execution_request ::
  "hash \<Rightarrow> artifact_store option \<Rightarrow> string \<Rightarrow> string \<Rightarrow> execution_request \<Rightarrow> string \<Rightarrow> string option
    \<Rightarrow> (disk_ledger, execution_request \<times> artifact_ref \<times> ledger_event) prog" where
  "record_execution_request h store clock nonce q cid cause =
     bindS (lift_res (require_store store)) (\<lambda>st.
     bindS (save_doc h st (xr_to_dict q) (xr_request_id q) (request_doc_args q) nonce) (\<lambda>ref.
     bindS (append_prog h clock (request_draft q ref cid cause)) (\<lambda>e.
     lift_res (Inr (q, ref, e)))))"

section \<open>Execution submissions\<close>

definition submission_view_of :: "execution_submission \<Rightarrow> submission_view" where
  "submission_view_of x =
     \<lparr>sv_task_id = xs_task_id x, sv_unit_id = xs_unit_id x, sv_attempt_id = xs_attempt_id x, sv_lease_id = xs_lease_id x,
      sv_fencing_token = xs_fencing_token x, sv_submitted_at = xs_submitted_at x\<rparr>"

definition submission_doc_args :: "execution_submission \<Rightarrow> artifact_args" where
  "submission_doc_args x = engine_args ''ExecutionSubmission'' ''phase3.execution_submission''
     [(''task_id'', JStr (xs_task_id x)), (''attempt_id'', JStr (xs_attempt_id x))] (xs_submitted_at x)"

definition submission_draft ::
  "execution_submission \<Rightarrow> artifact_ref \<Rightarrow> acceptance_decision \<Rightarrow> string \<Rightarrow> string option \<Rightarrow> event_draft" where
  "submission_draft x ref d cid cause =
     engine_draft EXECUTION_SUBMISSION_RECORDED ''ExecutionSubmission'' (xs_submission_id x) (xs_task_id x) cid cause
       (''execution_submission:'' @ xs_submission_id x)
       [(''schema_version'', JStr ''phase3.execution_submission_record.v2''),
        (''submission_id'', JStr (xs_submission_id x)),
        (''request_id'', JStr (xs_request_id x)),
        (''task_id'', JStr (xs_task_id x)),
        (''unit_id'', JStr (xs_unit_id x)),
        (''attempt_id'', JStr (xs_attempt_id x)),
        (''lease_id'', JStr (xs_lease_id x)),
        (''submission_ref'', JObj (ar_to_dict ref)),
        (''submission_digest'', JStr (ar_content_hash ref)),
        (''result_kind'', JStr (xs_result_kind x)),
        (''submitted_at'', JStr (xs_submitted_at x)),
        (''acceptance_status'', JStr (ac_acceptance_status d)),
        (''rejection_reason'', opt_str (ac_rejection_reason d))] (xs_submitted_at x)"

definition submitted_args :: "execution_submission \<Rightarrow> attempt_args" where
  "submitted_args x = no_args\<lparr>
     aa_environment_summary := Some (xs_environment_summary x), aa_raw_output_ref := xs_raw_output_ref x,
     aa_parsed_output_ref := xs_parsed_output_ref x, aa_candidate_output_refs := Some (xs_candidate_output_refs x),
     aa_log_ref := xs_log_ref x\<rparr>"

definition submitted_draft :: "attempt \<Rightarrow> string \<Rightarrow> string \<Rightarrow> string \<Rightarrow> event_draft" where
  "submitted_draft a cid cause at =
     engine_draft ATTEMPT_STATE_CHANGED ''Attempt'' (at_attempt_id a) (at_task_id a) cid (Some cause)
       (''attempt:state:'' @ at_attempt_id a @ '':Running:Submitted:'' @ cid)
       [(''old_state'', JStr (attempt_state_value AS_RUNNING)), (''new_state'', JStr (attempt_state_value AS_SUBMITTED)),
        (''attempt'', JObj (at_to_dict a)), (''reason'', JStr ''execution_submission_recorded''),
        (''correlation_id'', JStr cid)] at"

record submission_flow =
  xf_submission :: execution_submission
  xf_submission_ref :: artifact_ref
  xf_event :: ledger_event
  xf_acceptance :: acceptance_decision
  xf_attempt :: "attempt option"
  xf_attempt_event :: "ledger_event option"

text \<open>After the first event: an accepted submission moves the attempt on.\<close>

definition submission_flow_of ::
  "execution_submission \<Rightarrow> artifact_ref \<Rightarrow> ledger_event \<Rightarrow> acceptance_decision \<Rightarrow> attempt option \<Rightarrow> ledger_event option \<Rightarrow> submission_flow" where
  "submission_flow_of x ref e d b ae =
     \<lparr>xf_submission = x, xf_submission_ref = ref, xf_event = e, xf_acceptance = d, xf_attempt = b, xf_attempt_event = ae\<rparr>"

definition advance_submitted ::
  "hash \<Rightarrow> string \<Rightarrow> execution_submission \<Rightarrow> attempt \<Rightarrow> string \<Rightarrow> artifact_ref \<Rightarrow> ledger_event \<Rightarrow> acceptance_decision
    \<Rightarrow> (disk_ledger, submission_flow) prog" where
  "advance_submitted h now x current cid ref e d =
     (if ac_acceptance_status d \<noteq> ''accepted'' then lift_res (Inr (submission_flow_of x ref e d None None))
      else
        bindS (lift_res (transition_attempt current AS_SUBMITTED (xs_submitted_at x) ''execution_submission_recorded''
          (submitted_args x))) (\<lambda>b.
        bindS (append_prog h now (submitted_draft b cid (ev_event_id e) (xs_submitted_at x))) (\<lambda>ae.
        lift_res (Inr (submission_flow_of x ref e d (Some b) (Some ae))))))"

definition record_execution_submission ::
  "hash \<Rightarrow> artifact_store option \<Rightarrow> (nat \<Rightarrow> string) \<Rightarrow> string \<Rightarrow> execution_submission \<Rightarrow> attempt \<Rightarrow> lease \<Rightarrow> string \<Rightarrow> string option
    \<Rightarrow> (disk_ledger, submission_flow) prog" where
  "record_execution_submission h store clock nonce x a l cid cause =
     bindS (lift_res (require_store store)) (\<lambda>st.
     bindS read_prog (\<lambda>es.
     bindS (lift_res (authoritative_attempt es a)) (\<lambda>current.
     bindS (lift_res (authoritative_lease es l)) (\<lambda>current_lease.
     bindS (lift_res (evaluate_submission_acceptance (submission_view_of x) current current_lease)) (\<lambda>d.
     bindS (save_doc h st (xs_to_dict x) (xs_submission_id x) (submission_doc_args x) nonce) (\<lambda>ref.
     bindS (append_prog h (clock 0) (submission_draft x ref d cid cause)) (\<lambda>e.
     advance_submitted h (clock 1) x current cid ref e d)))))))"

end
