(* ===== verification/Engine_Scheduling.thy ===== *)
theory Engine_Scheduling
  imports Engine_Base
begin

text \<open>
  \<open>protocol_engine.py\<close>: handing out ready units, heartbeats, and recovery. The schedule of a unit and a
  recovery are one batch each; the events of a batch name their causes by the ids the ledger is going to
  give them. \<open>clock\<close> is the clock of the ledger, which is read only for events without a time.
\<close>

section \<open>Scheduling\<close>

record schedule_request =
  su_graph :: task_graph
  su_clients :: "client_record list"
  su_now :: string
  su_correlation_id :: string
  su_decision_id :: string
  su_lease_id :: string
  su_attempt_id :: string
  su_fencing_token :: string
  su_active_leases :: "(string, json) dict"
  su_allowed_unit_ids :: "string list option"

record scheduling_flow =
  sf_lease :: lease
  sf_attempt :: attempt
  sf_task_unit :: task_unit
  sf_decision :: scheduling_decision
  sf_events :: "ledger_event list"

text \<open>The four events of a schedule; \<open>first\<close>, \<open>created\<close> and \<open>running\<close> are the predicted ids of the first three.\<close>

definition schedule_drafts ::
  "lease_claim \<Rightarrow> scheduling_decision \<Rightarrow> task_unit \<Rightarrow> string \<Rightarrow> string \<Rightarrow> string \<Rightarrow> string \<Rightarrow> string \<Rightarrow> event_draft list" where
  "schedule_drafts c decision unit cid now first created running =
     (let l = lc_lease c; a = lc_created_attempt c; b = lc_running_attempt c in
     [engine_draft LEASE_STATE_CHANGED ''Lease'' (ls_lease_id l) (ls_task_id l) cid None (''lease:create:'' @ ls_lease_id l)
        [(''old_state'', JNull), (''new_state'', JStr (lease_state_value LS_ACTIVE)), (''lease'', JObj (ls_to_dict l)),
         (''scheduling_decision'', JObj (sd_to_dict decision)), (''reason'', JStr ''scheduled''),
         (''correlation_id'', JStr cid)] now,
      engine_draft ATTEMPT_STATE_CHANGED ''Attempt'' (at_attempt_id a) (at_task_id a) cid (Some first)
        (''attempt:state:'' @ at_attempt_id a @ '':null:Created:'' @ cid)
        [(''old_state'', JNull), (''new_state'', JStr (attempt_state_value AS_CREATED)), (''attempt'', JObj (at_to_dict a)),
         (''reason'', JStr ''scheduled''), (''correlation_id'', JStr cid)] now,
      engine_draft ATTEMPT_STATE_CHANGED ''Attempt'' (at_attempt_id b) (at_task_id b) cid (Some created)
        (''attempt:state:'' @ at_attempt_id b @ '':Created:Running:'' @ cid)
        [(''old_state'', JStr (attempt_state_value AS_CREATED)), (''new_state'', JStr (attempt_state_value AS_RUNNING)),
         (''attempt'', JObj (at_to_dict b)), (''reason'', JStr ''executor_started''), (''correlation_id'', JStr cid)] now,
      engine_draft TASK_UNIT_STATE_CHANGED ''TaskUnit'' (tu_unit_id unit) (tu_task_id unit) cid (Some running)
        (''task_unit:state:'' @ tu_unit_id unit @ '':Ready:Processing:'' @ cid)
        [(''task_unit_state_change'', JObj (task_unit_state_change unit TS_READY TS_PROCESSING ''scheduled'' ''scheduler''
            cid (Some running) now None)),
         (''task_unit'', JObj (tu_to_dict unit))] now])"

definition schedule_batch_id :: "attempt \<Rightarrow> string" where
  "schedule_batch_id a = ''schedule_batch:'' @ at_attempt_id a"

definition schedule_ready_unit ::
  "hash \<Rightarrow> (nat \<Rightarrow> string) \<Rightarrow> string \<Rightarrow> protocol_config \<Rightarrow> event_ledger \<Rightarrow> schedule_request
    \<Rightarrow> (event_ledger \<times> scheduling_flow) res" where
  "schedule_ready_unit h clock policy_id pc L q =
     bindE (read_all (el_file L)) (\<lambda>es.
     let leases = merge_active_lease_maps (active_leases_by_unit_id es) (su_active_leases q) in
     bindE (select_next policy_id (su_graph q) (su_clients q) pc leases (su_now q) (su_decision_id q) ''primary''
       (su_allowed_unit_ids q)) (\<lambda>selected.
     case selected of
       None \<Rightarrow> Inl (ValueError ''no schedulable ready unit'')
     | Some decision \<Rightarrow>
       (case dict_get (tg_units (su_graph q)) (sd_unit_id decision) of
          None \<Rightarrow> Inl (KeyError (sd_unit_id decision))
        | Some u \<Rightarrow>
          bindE (claim pc decision (Some u) (su_lease_id q) (su_attempt_id q) (su_fencing_token q) None (su_now q)) (\<lambda>c.
          case lc_task_unit c of
            None \<Rightarrow> Inl (RuntimeError ''scheduled claim did not return its persisted task unit'')
          | Some claimed \<Rightarrow>
            bindE (transition_task_unit claimed TS_PROCESSING ''scheduled'' ''scheduler'' (su_now q)) (\<lambda>processing.
            let batch_id = schedule_batch_id (lc_running_attempt c); first = batch_first_id es batch_id in
            bindE (event_number first) (\<lambda>n.
            bindE (append_batch h clock L
              (schedule_drafts c decision processing (su_correlation_id q) (su_now q) first (event_id_of (n + 1))
                (event_id_of (n + 2))) batch_id) (\<lambda>(L', events).
            Inr (L', \<lparr>sf_lease = lc_lease c, sf_attempt = lc_running_attempt c, sf_task_unit = processing,
              sf_decision = decision, sf_events = events\<rparr>))))))))"

section \<open>Heartbeats\<close>

definition heartbeat_draft :: "lease \<Rightarrow> string \<Rightarrow> string \<Rightarrow> event_draft" where
  "heartbeat_draft l cid now =
     engine_draft LEASE_STATE_CHANGED ''Lease'' (ls_lease_id l) (ls_task_id l) cid None
       (''lease:heartbeat:'' @ ls_lease_id l @ '':'' @ show_int (ls_heartbeat_count l))
       [(''old_state'', JStr (lease_state_value LS_ACTIVE)), (''new_state'', JStr (lease_state_value LS_ACTIVE)),
        (''lease'', JObj (ls_to_dict l)), (''reason'', JStr ''heartbeat''), (''correlation_id'', JStr cid)] now"

definition record_lease_heartbeat ::
  "hash \<Rightarrow> string \<Rightarrow> protocol_config \<Rightarrow> event_ledger \<Rightarrow> lease \<Rightarrow> string \<Rightarrow> string
    \<Rightarrow> (event_ledger \<times> lease \<times> ledger_event) res" where
  "record_lease_heartbeat h clock pc L l now cid =
     bindE (read_all (el_file L)) (\<lambda>es.
     bindE (authoritative_lease es l) (\<lambda>current.
     bindE (heartbeat pc current now) (\<lambda>renewed.
     bindE (append_event h clock L (heartbeat_draft renewed cid now)) (\<lambda>(L', e).
     Inr (L', renewed, e)))))"

section \<open>Recovery\<close>

record recovery_request =
  rc_decision :: retry_decision
  rc_attempt :: attempt
  rc_lease :: lease
  rc_task_unit :: task_unit
  rc_recovery_action_id :: string
  rc_now :: string
  rc_correlation_id :: string
  rc_causation_event_id :: "string option"

record recovery_flow =
  rf_lease :: lease
  rf_attempt :: attempt
  rf_task_unit :: task_unit
  rf_recovery_action :: jobj
  rf_events :: "ledger_event list"

definition recovery_batch_id :: "recovery_request \<Rightarrow> string" where
  "recovery_batch_id q = ''recovery_batch:'' @ rc_recovery_action_id q"

definition attempt_was_terminal :: "recovery_request \<Rightarrow> bool" where
  "attempt_was_terminal q \<longleftrightarrow> at_state (rc_attempt q) = rd_superseded_attempt_state (rc_decision q)"

definition check_recovery_objects :: "recovery_request \<Rightarrow> unit res" where
  "check_recovery_objects q =
     (let a = rc_attempt q; l = rc_lease q; u = rc_task_unit q in checks
       [raise_if (at_task_id a \<noteq> tu_task_id u \<or> at_unit_id a \<noteq> tu_unit_id u)
          (ValueError ''recovery attempt does not match task unit''),
        raise_if (ls_task_id l \<noteq> at_task_id a \<or> ls_unit_id l \<noteq> at_unit_id a)
          (ValueError ''recovery lease does not match task unit''),
        raise_if (ls_attempt_id l \<noteq> at_attempt_id a) (ValueError ''recovery lease does not match attempt''),
        raise_if (ls_lease_id l \<noteq> at_lease_id a) (ValueError ''recovery lease does not match attempt''),
        raise_if (ls_client_id l \<noteq> at_client_id a) (ValueError ''recovery lease does not match attempt client'')])"

text \<open>A recovery that is not yet in the ledger must be about the latest lease and attempt.\<close>

definition check_recovery_latest :: "ledger_event list \<Rightarrow> recovery_request \<Rightarrow> unit res" where
  "check_recovery_latest es q =
     (if first_event_id_for_batch es (recovery_batch_id q) \<noteq> None then Inr ()
      else
        bindE (latest_lease_snapshot es (ls_lease_id (rc_lease q))) (\<lambda>ls.
        seqE (raise_if (case ls of None \<Rightarrow> False | Some d \<Rightarrow> \<not> py_eq (JObj d) (JObj (ls_to_dict (rc_lease q))))
          (ValueError ''recovery lease is not latest in the ledger''))
        (bindE (latest_attempt_snapshot es (at_attempt_id (rc_attempt q))) (\<lambda>as.
        seqE (raise_if (case as of None \<Rightarrow> False | Some d \<Rightarrow> \<not> py_eq (JObj d) (JObj (at_to_dict (rc_attempt q))))
          (ValueError ''recovery attempt is not latest in the ledger''))
        (raise_if (attempt_was_terminal q \<and> as = None) (ValueError ''terminal attempt is not recorded in the ledger''))))))"

definition recovered_attempt :: "recovery_request \<Rightarrow> retry_decision \<Rightarrow> attempt res" where
  "recovered_attempt q d =
     (if attempt_was_terminal q then Inr (rc_attempt q)
      else transition_attempt (rc_attempt q) (rd_superseded_attempt_state d) (rc_now q) (rd_trigger d)
        (no_args\<lparr>
          aa_failure_kind :=
            (if rd_superseded_attempt_state d = AS_FAILED then Some (rd_trigger d)
             else if rd_superseded_attempt_state d = AS_REJECTED then Some ''invalid_output'' else None),
          aa_failure_reason :=
            (if rd_superseded_attempt_state d \<in> {AS_FAILED, AS_REJECTED} then Some (rd_reason d) else None)\<rparr>))"

text \<open>The lease and the attempt after the recovery.\<close>

definition recovered_pair :: "protocol_config \<Rightarrow> recovery_request \<Rightarrow> retry_decision \<Rightarrow> (lease \<times> attempt) res" where
  "recovered_pair pc q d =
     (if rd_trigger d = ''lease_expired''
      then bindE (expire pc (rc_lease q) (rc_attempt q) (rc_task_unit q) (rc_now q) (rc_recovery_action_id q) (rd_retry_count d))
        (\<lambda>expiry.
        seqE (raise_if (le_retry_decision expiry \<noteq> d) (ValueError ''lease expiry decision does not match recovery decision''))
          (Inr (le_lease expiry, le_attempt expiry)))
      else bindE (transition_lease (rc_lease q) LS_RELEASED (rc_now q) (rd_trigger d)) (\<lambda>l.
        bindE (recovered_attempt q d) (\<lambda>a. Inr (l, a))))"

definition engine_recovery_action :: "recovery_request \<Rightarrow> retry_decision \<Rightarrow> task_unit \<Rightarrow> jobj" where
  "engine_recovery_action q d unit =
     [(''schema_version'', JStr ''phase2.recovery_action.v1''),
      (''recovery_action_id'', JStr (rc_recovery_action_id q)),
      (''task_id'', JStr (tu_task_id (rc_task_unit q))),
      (''unit_id'', JStr (tu_unit_id (rc_task_unit q))),
      (''trigger'', JStr (rd_trigger d)),
      (''lease_id'', JStr (ls_lease_id (rc_lease q))),
      (''attempt_id'', JStr (at_attempt_id (rc_attempt q))),
      (''old_task_state'', JStr (task_state_value (tu_state (rc_task_unit q)))),
      (''new_task_state'', JStr (task_state_value (tu_state unit))),
      (''retry_count'', JInt (rd_retry_count d)),
      (''retry_allowed'', JBool (rd_retry_allowed d)),
      (''reason'', JStr (rd_reason d)),
      (''created_at'', JStr (rc_now q)),
      (''metadata'', JObj [])]"

definition recovery_lease_draft :: "recovery_request \<Rightarrow> retry_decision \<Rightarrow> lease \<Rightarrow> event_draft" where
  "recovery_lease_draft q d l =
     engine_draft LEASE_STATE_CHANGED ''Lease'' (ls_lease_id l) (ls_task_id l) (rc_correlation_id q) (rc_causation_event_id q)
       (''lease:terminal:'' @ ls_lease_id l @ '':'' @ lease_state_value (ls_state l))
       [(''old_state'', JStr (lease_state_value (ls_state (rc_lease q)))), (''new_state'', JStr (lease_state_value (ls_state l))),
        (''lease'', JObj (ls_to_dict l)), (''reason'', JStr (rd_trigger d)),
        (''correlation_id'', JStr (rc_correlation_id q))] (rc_now q)"

definition recovery_attempt_draft :: "recovery_request \<Rightarrow> retry_decision \<Rightarrow> attempt \<Rightarrow> string \<Rightarrow> event_draft" where
  "recovery_attempt_draft q d a cause =
     engine_draft ATTEMPT_STATE_CHANGED ''Attempt'' (at_attempt_id a) (at_task_id a) (rc_correlation_id q) (Some cause)
       (''attempt:state:'' @ at_attempt_id (rc_attempt q) @ '':'' @ attempt_state_value (at_state (rc_attempt q)) @ '':'' @
         attempt_state_value (at_state a) @ '':'' @ rc_correlation_id q)
       [(''old_state'', JStr (attempt_state_value (at_state (rc_attempt q)))),
        (''new_state'', JStr (attempt_state_value (at_state a))), (''attempt'', JObj (at_to_dict a)),
        (''reason'', JStr (rd_trigger d)), (''correlation_id'', JStr (rc_correlation_id q))] (rc_now q)"

definition recovery_action_draft :: "recovery_request \<Rightarrow> retry_decision \<Rightarrow> jobj \<Rightarrow> string \<Rightarrow> event_draft" where
  "recovery_action_draft q d action cause =
     engine_draft RECOVERY_ACTION_RECORDED ''RecoveryAction'' (rc_recovery_action_id q) (tu_task_id (rc_task_unit q))
       (rc_correlation_id q) (Some cause)
       (''recovery:'' @ tu_unit_id (rc_task_unit q) @ '':'' @ rd_trigger d @ '':'' @ at_attempt_id (rc_attempt q) @ '':'' @
         show_int (rd_retry_count d))
       [(''recovery_action'', JObj action)] (rc_now q)"

definition recovery_unit_draft :: "recovery_request \<Rightarrow> retry_decision \<Rightarrow> task_unit \<Rightarrow> string \<Rightarrow> event_draft" where
  "recovery_unit_draft q d unit cause =
     engine_draft TASK_UNIT_STATE_CHANGED ''TaskUnit'' (tu_unit_id unit) (tu_task_id unit) (rc_correlation_id q) (Some cause)
       (''task_unit:state:'' @ tu_unit_id unit @ '':'' @ task_state_value (tu_state (rc_task_unit q)) @ '':'' @
         task_state_value (tu_state unit) @ '':'' @ rc_correlation_id q)
       [(''task_unit_state_change'', JObj (task_unit_state_change unit (tu_state (rc_task_unit q)) (tu_state unit) (rd_reason d)
          ''recovery'' (rc_correlation_id q) (Some cause) (rc_now q) (Some [(''retry_count'', JInt (rd_retry_count d))]))),
        (''task_unit'', JObj (tu_to_dict unit))] (rc_now q)"

text \<open>\<open>first\<close> is the id of the first event and \<open>n\<close> its number.\<close>

definition recovery_drafts ::
  "recovery_request \<Rightarrow> retry_decision \<Rightarrow> lease \<Rightarrow> attempt \<Rightarrow> task_unit \<Rightarrow> jobj \<Rightarrow> string \<Rightarrow> int \<Rightarrow> event_draft list" where
  "recovery_drafts q d l a unit action first n =
     [recovery_lease_draft q d l] @
     (if attempt_was_terminal q then [] else [recovery_attempt_draft q d a first]) @
     [recovery_action_draft q d action (if attempt_was_terminal q then first else event_id_of (n + 1)),
      recovery_unit_draft q d unit (event_id_of (n + (if attempt_was_terminal q then 1 else 2)))]"

definition record_recovery_decision ::
  "hash \<Rightarrow> (nat \<Rightarrow> string) \<Rightarrow> protocol_config \<Rightarrow> event_ledger \<Rightarrow> recovery_request \<Rightarrow> (event_ledger \<times> recovery_flow) res" where
  "record_recovery_decision h clock pc L q =
     bindE (evaluate_retry (rd_trigger (rc_decision q)) (rd_retry_count (rc_decision q)) (pc_max_retries pc)) (\<lambda>d.
     seqE (raise_if (rc_decision q \<noteq> d) (ValueError ''recovery decision does not match protocol config''))
     (seqE (check_recovery_objects q)
     (bindE (read_all (el_file L)) (\<lambda>es.
     seqE (check_recovery_latest es q)
     (bindE (recovered_pair pc q d) (\<lambda>(l, a).
     bindE (transition_task_unit (rc_task_unit q) (rd_next_task_state d) (rd_reason d) ''recovery'' (rc_now q)) (\<lambda>unit.
     let action = engine_recovery_action q d unit; first = batch_first_id es (recovery_batch_id q) in
     bindE (event_number first) (\<lambda>n.
     bindE (append_batch h clock L (recovery_drafts q d l a unit action first n) (recovery_batch_id q)) (\<lambda>(L', events).
     Inr (L', \<lparr>rf_lease = l, rf_attempt = a, rf_task_unit = unit, rf_recovery_action = action, rf_events = events\<rparr>))))))))))"

definition record_lease_expiry ::
  "hash \<Rightarrow> (nat \<Rightarrow> string) \<Rightarrow> protocol_config \<Rightarrow> event_ledger \<Rightarrow> recovery_request \<Rightarrow> int \<Rightarrow> (event_ledger \<times> recovery_flow) res" where
  "record_lease_expiry h clock pc L q retry_count =
     bindE (evaluate_retry ''lease_expired'' retry_count (pc_max_retries pc)) (\<lambda>d.
     record_recovery_decision h clock pc L (q\<lparr>rc_decision := d\<rparr>))"

end
