(* ===== verification/Engine_Scheduling_Facts.thy ===== *)
theory Engine_Scheduling_Facts
  imports Engine_Scheduling Core_Registration
begin

text \<open>
  What holds of every ledger the engine has written. \<open>ledger_view\<close> is the ledger as the engine reads it
  back. \<open>holds_lease\<close> is the abstract content of its lease events; the invariant is that at most one
  lease of a unit is active.
\<close>

section \<open>The ledger as it is read\<close>

definition ledger_view :: "event_ledger \<Rightarrow> ledger_event list" where
  "ledger_view L = map norm_event (el_events L)"

lemma read_ledger [simp]: "ledger_ok h L \<Longrightarrow> read_all (el_file L) = Inr (ledger_view L)"
  using read_all_events[of "el_events L"] by (simp add: ledger_ok_def ledger_view_def)

lemma jget_sorted: "distinct (map fst d) \<Longrightarrow> jget (sort_obj d) k = sort_members (jget d k)"
proof -
  assume "distinct (map fst d)"
  then have "map_of (sort_obj d) k = map_option sort_members (map_of d k)"
    by (simp add: map_of_sort_obj) (induction d, auto)
  then show ?thesis by (cases "map_of d k") (simp_all add: jget_def)
qed

lemma is_type_norm [simp]: "is_type (norm_event e) t = is_type e t"
  by (simp add: is_type_def)

lemma norm_event_draft:
  "ev_payload (norm_event (draft_event h now n p d b)) = sort_obj (dr_payload d)"
  "is_type (draft_event h now n p d b) t \<longleftrightarrow> event_type_value (dr_event_type d) = event_type_value (Known t)"
  "ev_object_id (norm_event (draft_event h now n p d b)) = dr_object_id d"
  by (simp_all add: norm_event_def draft_event_def finalize_event_def is_type_def)

text \<open>What a draft becomes in the view, and how a write extends the view.\<close>

definition from_draft :: "ledger_event \<Rightarrow> event_draft \<Rightarrow> bool" where
  "from_draft e d \<longleftrightarrow> ev_payload e = sort_obj (dr_payload d) \<and> ev_object_id e = dr_object_id d \<and>
     ev_idempotency_key e = dr_idempotency_key d \<and>
     (\<forall>t. is_type e t \<longleftrightarrow> event_type_value (dr_event_type d) = event_type_value (Known t))"

lemma from_draft_event: "from_draft (norm_event (draft_event h now n p d b)) d"
  by (simp add: from_draft_def norm_event_draft)

lemma append_event_view:
  assumes "append_event h now L d = Inr (L', e)"
  shows "\<exists>new. ledger_view L' = ledger_view L @ new \<and> (\<forall>x \<in> set new. from_draft x d) \<and> length new \<le> 1"
  using assms by (cases rule: append_event_cases) (simp_all add: ledger_view_def from_draft_event)

lemma append_batch_view:
  assumes "append_batch h clock L ds bid = Inr (L', es)"
  shows "\<exists>new. ledger_view L' = ledger_view L @ new \<and> (new = [] \<or> list_all2 from_draft new ds)"
proof -
  have b: "list_all2 from_draft (map norm_event (build_batch_events h clock n bid sz i p ds)) ds" for n sz i p
    by (induction ds arbitrary: i p) (simp_all add: Let_def from_draft_event)
  show ?thesis using assms by (cases rule: append_batch_cases) (simp_all add: ledger_view_def b)
qed

section \<open>Leases in the ledger\<close>

definition lease_of :: "ledger_event \<Rightarrow> (string \<times> jobj) option" where
  "lease_of e =
     (if is_type e LEASE_STATE_CHANGED
      then (case jget (ev_payload e) ''lease'' of
              JObj d \<Rightarrow> (case jget d ''lease_id'' of JStr i \<Rightarrow> Some (i, d) | _ \<Rightarrow> None)
            | _ \<Rightarrow> None)
      else None)"

lemma latest_leases_snoc:
  "latest_leases (es @ [e]) = (case lease_of e of None \<Rightarrow> latest_leases es | Some (i, d) \<Rightarrow> dict_set i d (latest_leases es))"
  by (simp add: latest_leases_def lease_of_def split: json.split)

lemma latest_leases_ok: "dict_ok (latest_leases es)"
  by (induction es rule: rev_induct)
    (auto simp: latest_leases_snoc split: option.splits, simp add: latest_leases_def dict_ok_def)

definition holds_lease :: "ledger_event list \<Rightarrow> string \<Rightarrow> string \<Rightarrow> bool" where
  "holds_lease es i u \<longleftrightarrow> (\<exists>d. dict_get (latest_leases es) i = Some d \<and>
     jget d ''state'' = JStr ''Active'' \<and> jget d ''unit_id'' = JStr u)"

definition active_step :: "string \<times> jobj \<Rightarrow> (string, string list) dict \<Rightarrow> (string, string list) dict" where
  "active_step = (\<lambda>(lease_id, d) acc.
     if jget d ''state'' \<noteq> JStr (lease_state_value LS_ACTIVE) then acc
     else case jget d ''unit_id'' of
            JStr u \<Rightarrow> dict_set u (dict_get_default acc u [] @ [lease_id]) acc
          | _ \<Rightarrow> acc)"

lemma active_fold:
  "dict_get_default (fold active_step ps []) u [] =
     map fst (filter (\<lambda>(i, d). jget d ''state'' = JStr ''Active'' \<and> jget d ''unit_id'' = JStr u) ps)"
proof (induction ps rule: rev_induct)
  case (snoc p ps)
  then show ?case
    by (cases p) (auto simp: active_step_def dict_get_default_def split: json.split option.splits)
qed (simp add: dict_get_default_def)

lemma active_leases_are:
  "set (dict_get_default (active_leases_by_unit_id es) u []) = {i. holds_lease es i u}"
proof -
  have "active_leases_by_unit_id es = fold active_step (latest_leases es) []"
    by (simp add: active_leases_by_unit_id_def active_step_def)
  moreover have "(i, d) \<in> set (latest_leases es) \<longleftrightarrow> dict_get (latest_leases es) i = Some d" for i d
    using latest_leases_ok[of es] by (simp add: dict_ok_def)
  ultimately show ?thesis
    by (auto simp: active_fold holds_lease_def image_iff)
qed

lemma active_leases_distinct: "distinct (dict_get_default (active_leases_by_unit_id es) u [])"
proof -
  have "active_leases_by_unit_id es = fold active_step (latest_leases es) []"
    by (simp add: active_leases_by_unit_id_def active_step_def)
  then show ?thesis
    using latest_leases_ok[of es] by (simp add: active_fold dict_ok_def distinct_map_filter)
qed

text \<open>A draft that writes a lease, and the lease as it is read back.\<close>

definition lease_draft :: "event_draft \<Rightarrow> lease \<Rightarrow> bool" where
  "lease_draft d l \<longleftrightarrow> dr_event_type d = Known LEASE_STATE_CHANGED \<and> dr_object_id d = ls_lease_id l \<and>
     distinct (map fst (dr_payload d)) \<and> jget (dr_payload d) ''lease'' = JObj (ls_to_dict l)"

lemma sorted_lease_fields:
  "jget (sort_obj (ls_to_dict l)) ''lease_id'' = JStr (ls_lease_id l)"
  "jget (sort_obj (ls_to_dict l)) ''state'' = JStr (lease_state_value (ls_state l))"
  "jget (sort_obj (ls_to_dict l)) ''unit_id'' = JStr (ls_unit_id l)"
  by (simp_all add: jget_sorted ls_to_dict_def) (simp_all add: jget_def)

lemma lease_of_draft:
  "lease_draft d l \<Longrightarrow> from_draft e d \<Longrightarrow> is_type e LEASE_STATE_CHANGED \<and> ev_object_id e = ls_lease_id l \<and>
    lease_of e = Some (ls_lease_id l, sort_obj (ls_to_dict l))"
  by (simp add: lease_draft_def from_draft_def lease_of_def jget_sorted sort_members_obj sorted_lease_fields
      del: sort_members.simps)

lemma lease_of_other:
  "from_draft e d \<Longrightarrow> event_type_value (dr_event_type d) \<noteq> ''LEASE_STATE_CHANGED'' \<Longrightarrow> \<not> is_type e LEASE_STATE_CHANGED"
  by (simp add: from_draft_def dict_get_default_def event_types_def)

lemma lease_of_type: "\<not> is_type e LEASE_STATE_CHANGED \<Longrightarrow> lease_of e = None"
  by (simp add: lease_of_def)

lemma holds_lease_snoc:
  "lease_of e = None \<Longrightarrow> holds_lease (es @ [e]) i u = holds_lease es i u"
  "lease_of e = Some (j, d) \<Longrightarrow> holds_lease (es @ [e]) i u =
     (if i = j then jget d ''state'' = JStr ''Active'' \<and> jget d ''unit_id'' = JStr u else holds_lease es i u)"
  by (simp_all add: holds_lease_def latest_leases_snoc)

lemma holds_lease_others:
  "\<forall>e \<in> set new. \<not> is_type e LEASE_STATE_CHANGED \<Longrightarrow> holds_lease (es @ new) i u = holds_lease es i u"
proof (induction new rule: rev_induct)
  case (snoc e new)
  then show ?case using holds_lease_snoc(1)[OF lease_of_type, of e "es @ new"] by simp
qed simp

text \<open>Every lease event is about the lease in its document, and a unit has at most one active lease.\<close>

definition lease_events_ok :: "ledger_event list \<Rightarrow> bool" where
  "lease_events_ok es \<longleftrightarrow> (\<forall>e \<in> set es. is_type e LEASE_STATE_CHANGED \<longrightarrow> (\<exists>d. lease_of e = Some (ev_object_id e, d)))"

definition one_active :: "ledger_event list \<Rightarrow> bool" where
  "one_active es \<longleftrightarrow> (\<forall>u i j. holds_lease es i u \<longrightarrow> holds_lease es j u \<longrightarrow> i = j)"

lemma latest_event_snoc:
  "latest_event t (es @ [e]) i = (if is_type e t \<and> ev_object_id e = i then Some e else latest_event t es i)"
  by (simp add: latest_event_def)

lemma latest_lease_event:
  assumes "lease_events_ok es"
  shows "dict_get (latest_leases es) i = (case latest_event LEASE_STATE_CHANGED es i of None \<Rightarrow> None
    | Some e \<Rightarrow> map_option snd (lease_of e))"
  using assms
proof (induction es rule: rev_induct)
  case Nil
  then show ?case by (simp add: latest_leases_def latest_event_def)
next
  case (snoc e es)
  then have ih: "dict_get (latest_leases es) i = (case latest_event LEASE_STATE_CHANGED es i of None \<Rightarrow> None
    | Some e \<Rightarrow> map_option snd (lease_of e))" by (simp add: lease_events_ok_def)
  show ?case
  proof (cases "is_type e LEASE_STATE_CHANGED")
    case True
    then obtain d where "lease_of e = Some (ev_object_id e, d)" using snoc.prems by (auto simp: lease_events_ok_def)
    then show ?thesis using ih True by (simp add: latest_leases_snoc latest_event_snoc)
  next
    case False
    then show ?thesis using ih by (simp add: latest_leases_snoc latest_event_snoc lease_of_type)
  qed
qed

lemma lease_extend:
  assumes "lease_events_ok es" "one_active es"
    and "new = [] \<or> list_all2 from_draft new (d # ds)" and "lease_draft d l"
    and "\<forall>x \<in> set ds. event_type_value (dr_event_type x) \<noteq> ''LEASE_STATE_CHANGED''"
    and "ls_state l = LS_ACTIVE \<longrightarrow> (\<forall>j. holds_lease es j (ls_unit_id l) \<longrightarrow> j = ls_lease_id l)"
  shows "lease_events_ok (es @ new) \<and> one_active (es @ new)"
proof (cases "new = []")
  case False
  then obtain e rest where new: "new = e # rest" and e: "from_draft e d" and rest: "list_all2 from_draft rest ds"
    using assms(3) by (cases new) auto
  note le = lease_of_draft[OF assms(4) e]
  have r: "\<forall>x \<in> set rest. \<not> is_type x LEASE_STATE_CHANGED"
  proof
    fix x assume "x \<in> set rest"
    then show "\<not> is_type x LEASE_STATE_CHANGED" using list_all2_left[OF rest] assms(5) lease_of_other by blast
  qed
  have h: "holds_lease (es @ new) i u =
      (if i = ls_lease_id l then ls_state l = LS_ACTIVE \<and> u = ls_unit_id l else holds_lease es i u)" for i u
  proof -
    have "holds_lease ((es @ [e]) @ rest) i u = holds_lease (es @ [e]) i u" by (rule holds_lease_others[OF r])
    also have "\<dots> = (if i = ls_lease_id l then ls_state l = LS_ACTIVE \<and> u = ls_unit_id l else holds_lease es i u)"
      using holds_lease_snoc(2)[of e "ls_lease_id l" "sort_obj (ls_to_dict l)" es] le
        lease_state_value_inject[of "ls_state l" LS_ACTIVE] by (auto simp: sorted_lease_fields simp del: lease_state_value_inject)
    finally show ?thesis by (simp add: new)
  qed
  have one: "i = j" if "holds_lease es i u" "holds_lease es j u" for u i j using assms(2) that by (simp add: one_active_def)
  have "i = j" if "holds_lease (es @ new) i u" "holds_lease (es @ new) j u" for u i j
  proof -
    have "holds_lease es i u \<or> i = ls_lease_id l \<and> u = ls_unit_id l \<and> ls_state l = LS_ACTIVE"
      "holds_lease es j u \<or> j = ls_lease_id l \<and> u = ls_unit_id l \<and> ls_state l = LS_ACTIVE"
      using that unfolding h by (simp_all split: if_split_asm)
    then show ?thesis using assms(6) one[of i u j] by blast
  qed
  then have "one_active (es @ new)" unfolding one_active_def by blast
  moreover have "lease_events_ok (es @ new)" using assms(1) r le by (auto simp: lease_events_ok_def new)
  ultimately show ?thesis by simp
qed (use assms in simp)

section \<open>The operations keep the invariant\<close>

definition lease_log_inv :: "hash \<Rightarrow> event_ledger \<Rightarrow> bool" where
  "lease_log_inv h L \<longleftrightarrow> ledger_ok h L \<and> lease_events_ok (ledger_view L) \<and> one_active (ledger_view L)"

definition wf_unit :: "task_unit \<Rightarrow> bool" where
  "wf_unit u \<longleftrightarrow> wf_obj (tu_to_dict u)"

definition wf_attempt :: "attempt \<Rightarrow> bool" where
  "wf_attempt a \<longleftrightarrow> wf_obj (at_to_dict a)"

definition wf_lease :: "lease \<Rightarrow> bool" where
  "wf_lease l \<longleftrightarrow> wf_obj (ls_metadata l)"

lemma wf_lease_dict: "wf_lease l \<longleftrightarrow> wf_obj (ls_to_dict l)"
  by (simp add: wf_lease_def wf_obj_def ls_to_dict_def)

lemma wf_engine_draft: "wf_draft (engine_draft t ot oid tid cid cause key payload now) \<longleftrightarrow> wf_obj payload"
  by (simp add: wf_draft_def engine_draft_def wf_obj_def)

lemma engine_draft_fields [simp]:
  "dr_event_type (engine_draft t ot oid tid cid cause key payload now) = Known t"
  "dr_object_id (engine_draft t ot oid tid cid cause key payload now) = oid"
  "dr_payload (engine_draft t ot oid tid cid cause key payload now) = payload"
  "dr_idempotency_key (engine_draft t ot oid tid cid cause key payload now) = key"
  by (simp_all add: engine_draft_def)

text \<open>A schedule hands out a unit that no lease in the ledger is active for.\<close>

lemma selected_unit_free:
  assumes "select_next policy_id g clients pc (merge_active_lease_maps A []) now did kind allowed = Inr (Some d)"
    and "\<not> pc_allow_shadow_execution pc"
  shows "dict_get_default A (sd_unit_id d) [] = []"
proof -
  have m: "dict_get (merge_active_lease_maps A []) u = map_option (\<lambda>ids. JArr (map JStr ids)) (dict_get A u)" for u
    by (induction A) (auto simp: merge_active_lease_maps_def dict_update_def)
  have "eligible_unit g clients pc (merge_active_lease_maps A []) allowed (sd_unit_id d)"
    using scheduler_fifo[OF assms(1)] by simp
  then show ?thesis
    using assms(2) by (auto simp: eligible_unit_def m dict_get_default_def split: option.splits)
qed

lemma schedule_drafts_lease:
  "\<exists>d ds. schedule_drafts c decision unit cid now first created running = d # ds \<and> lease_draft d (lc_lease c) \<and>
    (\<forall>x \<in> set ds. event_type_value (dr_event_type x) \<noteq> ''LEASE_STATE_CHANGED'')"
  by (simp add: schedule_drafts_def Let_def lease_draft_def jget_def dict_get_default_def event_types_def)

text \<open>The parts of a successful schedule.\<close>

definition scheduled ::
  "hash \<Rightarrow> (nat \<Rightarrow> string) \<Rightarrow> string \<Rightarrow> protocol_config \<Rightarrow> event_ledger \<Rightarrow> schedule_request \<Rightarrow> event_ledger \<Rightarrow> scheduling_flow
    \<Rightarrow> task_unit \<Rightarrow> lease_claim \<Rightarrow> int \<Rightarrow> bool" where
  "scheduled h clock policy_id pc L q L' r u c n \<longleftrightarrow>
     (let es = ledger_view L; bid = schedule_batch_id (lc_running_attempt c); first = batch_first_id es bid in
     select_next policy_id (su_graph q) (su_clients q) pc
       (merge_active_lease_maps (active_leases_by_unit_id es) (su_active_leases q)) (su_now q) (su_decision_id q) ''primary''
       (su_allowed_unit_ids q) = Inr (Some (sf_decision r)) \<and>
     dict_get (tg_units (su_graph q)) (sd_unit_id (sf_decision r)) = Some u \<and>
     claim pc (sf_decision r) (Some u) (su_lease_id q) (su_attempt_id q) (su_fencing_token q) None (su_now q) = Inr c \<and>
     sf_lease r = lc_lease c \<and> sf_attempt r = lc_running_attempt c \<and> tu_state u = TS_READY \<and>
     sf_task_unit r = u\<lparr>tu_state := TS_PROCESSING, tu_updated_at := su_now q,
       tu_last_attempt_ordinal := tu_last_attempt_ordinal u + 1, tu_schema_version := ''TaskUnit.v2''\<rparr> \<and>
     event_number first = Inr n \<and>
     append_batch h clock L (schedule_drafts c (sf_decision r) (sf_task_unit r) (su_correlation_id q) (su_now q) first
       (event_id_of (n + 1)) (event_id_of (n + 2))) bid = Inr (L', sf_events r))"

lemma claim_task_unit:
  "claim pc d (Some u) i a tok b now = Inr c \<Longrightarrow>
    lc_task_unit c = Some (u\<lparr>tu_last_attempt_ordinal := tu_last_attempt_ordinal u + 1, tu_schema_version := ''TaskUnit.v2''\<rparr>) \<and>
    ls_metadata (lc_lease c) = [] \<and>
    lc_created_attempt c = claim_attempt d i a now (tu_last_attempt_ordinal u + 1) \<and>
    transition_attempt (lc_created_attempt c) AS_RUNNING now ''executor_started'' no_args = Inr (lc_running_attempt c)"
  by (auto simp: claim_def res_simps Let_def mk_task_unit_def split: if_splits)

lemma schedule_facts:
  assumes "ledger_ok h L" "schedule_ready_unit h clock policy_id pc L q = Inr (L', r)"
  shows "\<exists>u c n. scheduled h clock policy_id pc L q L' r u c n"
proof -
  obtain d where d: "select_next policy_id (su_graph q) (su_clients q) pc
      (merge_active_lease_maps (active_leases_by_unit_id (ledger_view L)) (su_active_leases q)) (su_now q) (su_decision_id q)
      ''primary'' (su_allowed_unit_ids q) = Inr (Some d)"
    using assms by (auto simp: schedule_ready_unit_def res_simps Let_def split: option.splits)
  obtain u where u: "dict_get (tg_units (su_graph q)) (sd_unit_id d) = Some u"
    using assms d by (auto simp: schedule_ready_unit_def res_simps Let_def split: option.splits)
  obtain c where c: "claim pc d (Some u) (su_lease_id q) (su_attempt_id q) (su_fencing_token q) None (su_now q) = Inr c"
    using assms d u by (auto simp: schedule_ready_unit_def res_simps Let_def)
  note t = claim_task_unit[OF c]
  obtain p where p: "transition_task_unit (u\<lparr>tu_last_attempt_ordinal := tu_last_attempt_ordinal u + 1, tu_schema_version := ''TaskUnit.v2''\<rparr>)
      TS_PROCESSING ''scheduled'' ''scheduler'' (su_now q) = Inr p"
    using assms d u c t by (auto simp: schedule_ready_unit_def res_simps Let_def)
  let ?bid = "schedule_batch_id (lc_running_attempt c)"
  let ?first = "batch_first_id (ledger_view L) ?bid"
  obtain n where n: "event_number ?first = Inr n"
    using assms d u c t p by (auto simp: schedule_ready_unit_def res_simps Let_def)
  have "append_batch h clock L (schedule_drafts c d p (su_correlation_id q) (su_now q) ?first
       (event_id_of (n + 1)) (event_id_of (n + 2))) ?bid = Inr (L', sf_events r) \<and> sf_decision r = d \<and> sf_task_unit r = p \<and>
      sf_lease r = lc_lease c \<and> sf_attempt r = lc_running_attempt c"
    using assms d u c t p n by (auto simp: schedule_ready_unit_def res_simps Let_def)
  then have "scheduled h clock policy_id pc L q L' r u c n"
    unfolding scheduled_def Let_def using d u c n p by (auto simp: transition_task_unit_ok task_unit_transitions_def)
  then show ?thesis by blast
qed

lemma wf_running:
  assumes "transition_attempt a AS_RUNNING now reason args = Inr b" "wf_attempt a"
  shows "wf_attempt b"
proof -
  have b: "b = a\<lparr>at_state := AS_RUNNING, at_started_at := Some (or_str (at_started_at a) now)\<rparr>"
    using assms(1) by (auto simp: transition_attempt_def split: if_splits)
  show ?thesis using assms(2) unfolding b by (simp add: wf_attempt_def wf_obj_def at_to_dict_def)
qed

lemma select_next_summary:
  "select_next policy_id g clients pc leases now did kind allowed = Inr (Some d) \<Longrightarrow>
    \<exists>x y. sd_input_summary d = Some [(''ready_queue_size'', JInt x), (''client_count'', JInt y)]"
  by (auto simp: select_next_def Let_def res_simps split: option.splits)

lemma schedule_drafts_wf:
  assumes "claim pc d (Some u) i a tok b now = Inr c" "wf_unit u"
    and "unit = u\<lparr>tu_state := TS_PROCESSING, tu_updated_at := now, tu_last_attempt_ordinal := k, tu_schema_version := v\<rparr>"
    and "sd_input_summary d = Some [(''ready_queue_size'', JInt x), (''client_count'', JInt y)]"
  shows "\<forall>x \<in> set (schedule_drafts c d unit cid now first created running). wf_draft x"
proof -
  note t = claim_task_unit[OF assms(1)]
  have "wf_lease (lc_lease c)" using t by (simp add: wf_lease_def wf_obj_def)
  then have "wf_obj (ls_to_dict (lc_lease c))" by (simp only: wf_lease_dict)
  moreover have a: "wf_attempt (lc_created_attempt c)"
    using t by (simp add: claim_attempt_def at_to_dict_def wf_obj_def refs_json_def wf_attempt_def)
  moreover have "wf_attempt (lc_running_attempt c)" using t wf_running[OF _ a] by blast
  moreover have "wf_obj (tu_to_dict unit)" using assms(2,3) by (simp add: wf_unit_def wf_obj_def tu_to_dict_def)
  moreover have "wf_obj (sd_to_dict d)" using assms(4) by (simp add: sd_to_dict_def wf_obj_def)
  ultimately show ?thesis
    by (simp add: schedule_drafts_def Let_def wf_engine_draft wf_attempt_def wf_obj_def task_unit_state_change_def or_nothing_def)
qed

lemma schedule_keeps:
  assumes i: "lease_log_inv h L" and s: "schedule_ready_unit h clock policy_id pc L q = Inr (L', r)"
    and "su_active_leases q = []" "\<not> pc_allow_shadow_execution pc" "\<forall>u \<in> set (dict_values (tg_units (su_graph q))). wf_unit u"
  shows "lease_log_inv h L'"
proof -
  have ok: "ledger_ok h L" using i by (simp add: lease_log_inv_def)
  obtain u c n where f: "scheduled h clock policy_id pc L q L' r u c n" using schedule_facts[OF ok s] by blast
  note f = f[unfolded scheduled_def Let_def assms(3)]
  let ?d = "sf_decision r"
  have sel: "select_next policy_id (su_graph q) (su_clients q) pc
       (merge_active_lease_maps (active_leases_by_unit_id (ledger_view L)) []) (su_now q) (su_decision_id q) ''primary''
       (su_allowed_unit_ids q) = Inr (Some ?d)"
    and c: "claim pc ?d (Some u) (su_lease_id q) (su_attempt_id q) (su_fencing_token q) None (su_now q) = Inr c"
    and u: "dict_get (tg_units (su_graph q)) (sd_unit_id ?d) = Some u"
    using f by blast+
  obtain ds bid where b: "append_batch h clock L ds bid = Inr (L', sf_events r)"
    and ds: "\<exists>first created running. ds = schedule_drafts c ?d (sf_task_unit r) (su_correlation_id q) (su_now q) first created running"
    using f by blast
  have "wf_unit u" using u assms(5) by (metis (no_types) dict_get_mem imageI list.set_map snd_conv)
  moreover have "sf_task_unit r = u\<lparr>tu_state := TS_PROCESSING, tu_updated_at := su_now q,
       tu_last_attempt_ordinal := tu_last_attempt_ordinal u + 1, tu_schema_version := ''TaskUnit.v2''\<rparr>" using f by blast
  moreover have "\<exists>x y. sd_input_summary ?d = Some [(''ready_queue_size'', JInt x), (''client_count'', JInt y)]"
    by (rule select_next_summary[OF sel])
  ultimately have "\<forall>x \<in> set ds. wf_draft x" using schedule_drafts_wf[OF c] ds by blast
  then have ok': "ledger_ok h L'" using append_batch_ok[OF ok _ b] by blast
  have free: "\<not> holds_lease (ledger_view L) j (ls_unit_id (lc_lease c))" for j
    using selected_unit_free[OF sel assms(4)] active_leases_are[of "ledger_view L" "sd_unit_id ?d"] claim_ok(3)[OF c] by auto
  obtain new where v: "ledger_view L' = ledger_view L @ new" and n: "new = [] \<or> list_all2 from_draft new ds"
    using append_batch_view[OF b] by blast
  obtain d' ds' where d: "ds = d' # ds'" "lease_draft d' (lc_lease c)"
    "\<forall>x \<in> set ds'. event_type_value (dr_event_type x) \<noteq> ''LEASE_STATE_CHANGED''"
    using schedule_drafts_lease ds by metis
  have "lease_events_ok (ledger_view L @ new) \<and> one_active (ledger_view L @ new)"
    by (rule lease_extend[OF _ _ n[unfolded d(1)] d(2,3)]) (use i free in \<open>auto simp: lease_log_inv_def\<close>)
  then show ?thesis using ok' v by (simp add: lease_log_inv_def)
qed

text \<open>A heartbeat renews the lease that the ledger has last; an unknown lease is taken as it is given.\<close>

lemma lease_state_of_value: "lease_state_of s = Inr x \<Longrightarrow> s = lease_state_value x"
  by (auto simp: lease_state_of_def lease_states_def split: if_splits)

lemma snapshot_required_iff: "snapshot_required_string d f = Inr s \<longleftrightarrow> jget d f = JStr s \<and> s \<noteq> []"
  by (auto simp: snapshot_required_string_def split: json.splits)

lemma lease_from_snapshot_fields:
  assumes "lease_from_snapshot d = Inr l"
  shows "jget d ''lease_id'' = JStr (ls_lease_id l)" "jget d ''unit_id'' = JStr (ls_unit_id l)"
    "jget d ''state'' = JStr (lease_state_value (ls_state l))" "ls_metadata l = [] \<or> jget d ''metadata'' = JObj (ls_metadata l)"
proof -
  have m: "x = [] \<or> jget d ''metadata'' = JObj x" if "snapshot_json_object d ''metadata'' = Inr x" for x
    using that by (auto simp: snapshot_json_object_def split: json.splits)
  show "jget d ''lease_id'' = JStr (ls_lease_id l)" "jget d ''unit_id'' = JStr (ls_unit_id l)"
    "jget d ''state'' = JStr (lease_state_value (ls_state l))" "ls_metadata l = [] \<or> jget d ''metadata'' = JObj (ls_metadata l)"
    using assms by (auto simp: lease_from_snapshot_def res_simps snapshot_required_iff dest: lease_state_of_value m)
qed

text \<open>The lease that a supplied one stands for: the latest in the ledger, which must have one.\<close>

definition recorded_lease :: "event_ledger \<Rightarrow> lease \<Rightarrow> bool" where
  "recorded_lease L l \<longleftrightarrow> latest_event LEASE_STATE_CHANGED (ledger_view L) (ls_lease_id l) \<noteq> None"

lemma wf_view: "ledger_ok h L \<Longrightarrow> e \<in> set (ledger_view L) \<Longrightarrow> wf_event e"
  by (auto simp: ledger_view_def ledger_ok_def wf_norm_event)

lemma jget_wf: "wf_obj d \<Longrightarrow> jget d k = JObj x \<Longrightarrow> wf_obj x"
proof -
  assume "wf_obj d" "jget d k = JObj x"
  then have "(k, JObj x) \<in> set d" "\<forall>p \<in> set d. wf_json (snd p) \<and> floats_ok (snd p)"
    by (auto simp: jget_def wf_obj_def split: option.splits dest!: map_of_SomeD)
  then show ?thesis by (force simp: wf_obj_def)
qed

lemma latest_event_mem: "latest_event t es i = Some e \<Longrightarrow> e \<in> set es \<and> is_type e t \<and> ev_object_id e = i"
proof -
  assume "latest_event t es i = Some e"
  then obtain k where "k < length (rev es)" "rev es ! k = e" "is_type e t" "ev_object_id e = i"
    by (auto simp: latest_event_def find_Some_iff)
  then show ?thesis by (metis nth_mem set_rev)
qed

lemma authoritative_recorded:
  assumes "lease_log_inv h L" "recorded_lease L l" "authoritative_lease (ledger_view L) l = Inr m"
  shows "ls_lease_id m = ls_lease_id l \<and> wf_lease m \<and>
    (ls_state m = LS_ACTIVE \<longrightarrow> holds_lease (ledger_view L) (ls_lease_id m) (ls_unit_id m))"
proof -
  obtain e where e: "latest_event LEASE_STATE_CHANGED (ledger_view L) (ls_lease_id l) = Some e"
    using assms(2) by (auto simp: recorded_lease_def)
  obtain d where d: "jget (ev_payload e) ''lease'' = JObj d" "lease_from_snapshot d = Inr m"
    using assms(3) e by (auto simp: authoritative_lease_def latest_lease_snapshot_def res_simps split: json.splits)
  note f = lease_from_snapshot_fields[OF d(2)]
  have m: "e \<in> set (ledger_view L)" "is_type e LEASE_STATE_CHANGED" "ev_object_id e = ls_lease_id l"
    using latest_event_mem[OF e] by auto
  then have le: "lease_of e = Some (ls_lease_id l, d)"
    using assms(1) d(1) unfolding lease_log_inv_def lease_events_ok_def by (auto simp: lease_of_def f(1))
  then have id: "ls_lease_id m = ls_lease_id l" using m(2) d(1) f(1) by (simp add: lease_of_def)
  have "dict_get (latest_leases (ledger_view L)) (ls_lease_id l) = Some d"
    using latest_lease_event[of "ledger_view L" "ls_lease_id l"] assms(1) e le by (simp add: lease_log_inv_def)
  then have "ls_state m = LS_ACTIVE \<longrightarrow> holds_lease (ledger_view L) (ls_lease_id m) (ls_unit_id m)"
    using f id by (simp add: holds_lease_def)
  moreover have "wf_event e" using wf_view m(1) assms(1) by (auto simp: lease_log_inv_def)
  then have "wf_obj (ev_payload e)" by (simp add: wf_event_def)
  then have "wf_obj d" by (rule jget_wf[OF _ d(1)])
  then have "ls_metadata m = [] \<or> wf_obj (ls_metadata m)" using f(4) jget_wf by metis
  then have "wf_lease m" by (auto simp: wf_lease_def wf_obj_def)
  ultimately show ?thesis using id by simp
qed

lemma heartbeat_keeps:
  assumes i: "lease_log_inv h L" and b: "record_lease_heartbeat h clock pc L l now cid = Inr (L', m, e)"
    and "recorded_lease L l"
  shows "lease_log_inv h L'"
proof -
  have ok: "ledger_ok h L" using i by (simp add: lease_log_inv_def)
  obtain c where c: "authoritative_lease (ledger_view L) l = Inr c" and hb: "heartbeat pc c now = Inr m"
    and a: "append_event h clock L (heartbeat_draft m cid now) = Inr (L', e)"
    using b ok by (auto simp: record_lease_heartbeat_def res_simps)
  note r = authoritative_recorded[OF i assms(3) c]
  have m: "ls_state c = LS_ACTIVE" "ls_lease_id m = ls_lease_id c" "ls_unit_id m = ls_unit_id c" "wf_lease m"
    using hb r by (auto simp: heartbeat_ok wf_lease_def)
  have "wf_draft (heartbeat_draft m cid now)"
    using m(4) by (simp add: heartbeat_draft_def wf_engine_draft wf_lease_dict) (simp add: wf_obj_def)
  then have ok': "ledger_ok h L'" by (rule append_event_ok[OF ok _ a])
  obtain new where v: "ledger_view L' = ledger_view L @ new" and n: "\<forall>x \<in> set new. from_draft x (heartbeat_draft m cid now)" "length new \<le> 1"
    using append_event_view[OF a] by blast
  have n': "new = [] \<or> list_all2 from_draft new [heartbeat_draft m cid now]"
    using n by (cases new) auto
  have l: "lease_draft (heartbeat_draft m cid now) m" by (simp add: lease_draft_def heartbeat_draft_def jget_def)
  have "\<forall>j. holds_lease (ledger_view L) j (ls_unit_id m) \<longrightarrow> j = ls_lease_id m"
    using i r m unfolding lease_log_inv_def one_active_def by metis
  then have "lease_events_ok (ledger_view L @ new) \<and> one_active (ledger_view L @ new)"
    by (intro lease_extend[OF _ _ n' l]) (use i in \<open>auto simp: lease_log_inv_def\<close>)
  then show ?thesis using ok' v by (simp add: lease_log_inv_def)
qed

text \<open>The parts of a successful recovery.\<close>

definition recovered ::
  "hash \<Rightarrow> (nat \<Rightarrow> string) \<Rightarrow> protocol_config \<Rightarrow> event_ledger \<Rightarrow> recovery_request \<Rightarrow> event_ledger \<Rightarrow> recovery_flow \<Rightarrow> int \<Rightarrow> bool" where
  "recovered h clock pc L q L' r n \<longleftrightarrow>
     (let es = ledger_view L; d = rc_decision q; first = batch_first_id es (recovery_batch_id q) in
     evaluate_retry (rd_trigger d) (rd_retry_count d) (pc_max_retries pc) = Inr d \<and>
     check_recovery_objects q = Inr () \<and> check_recovery_latest es q = Inr () \<and>
     recovered_pair pc q d = Inr (rf_lease r, rf_attempt r) \<and>
     transition_task_unit (rc_task_unit q) (rd_next_task_state d) (rd_reason d) ''recovery'' (rc_now q) = Inr (rf_task_unit r) \<and>
     rf_recovery_action r = engine_recovery_action q d (rf_task_unit r) \<and>
     event_number first = Inr n \<and>
     append_batch h clock L (recovery_drafts q d (rf_lease r) (rf_attempt r) (rf_task_unit r) (rf_recovery_action r) first n)
       (recovery_batch_id q) = Inr (L', rf_events r))"

lemma recovery_facts:
  assumes "ledger_ok h L" "record_recovery_decision h clock pc L q = Inr (L', r)"
  shows "\<exists>n. recovered h clock pc L q L' r n"
  using assms unfolding record_recovery_decision_def recovered_def Let_def
  by (auto simp: res_simps)

lemma wf_attempt_cong:
  "at_environment_summary b = at_environment_summary a \<and> at_input_artifact_refs b = at_input_artifact_refs a \<and>
   at_raw_output_ref b = at_raw_output_ref a \<and> at_parsed_output_ref b = at_parsed_output_ref a \<and>
   at_candidate_output_refs b = at_candidate_output_refs a \<and> at_log_ref b = at_log_ref a \<and> at_metadata b = at_metadata a \<Longrightarrow>
   wf_attempt b = wf_attempt a"
  by (simp add: wf_attempt_def wf_obj_def at_to_dict_def)

lemma wf_ended:
  assumes "transition_attempt a target now reason args = Inr b" "target \<in> {AS_SUPERSEDED, AS_FAILED, AS_REJECTED}" "wf_attempt a"
  shows "wf_attempt b"
  using assms by (subst wf_attempt_cong[of b a]) (auto simp: transition_attempt_def split: if_splits)

lemma recovered_pair_facts:
  assumes "recovered_pair pc q d = Inr (l, a)" "evaluate_retry (rd_trigger d) (rd_retry_count d) (pc_max_retries pc) = Inr d"
    and "rc_decision q = d"
  shows "ls_state (rc_lease q) = LS_ACTIVE" "ls_lease_id l = ls_lease_id (rc_lease q)" "ls_unit_id l = ls_unit_id (rc_lease q)"
    "ls_metadata l = ls_metadata (rc_lease q)" "ls_state l \<noteq> LS_ACTIVE"
    "wf_attempt (rc_attempt q) \<Longrightarrow> wf_attempt a" "at_state a = rd_superseded_attempt_state d"
    "at_attempt_id a = at_attempt_id (rc_attempt q)"
proof -
  have t: "rd_superseded_attempt_state d \<in> {AS_SUPERSEDED, AS_FAILED, AS_REJECTED}"
    using assms(2) retry_attempt_state_terminal by (auto simp: evaluate_retry_ok)
  have step: "(wf_attempt (rc_attempt q) \<longrightarrow> wf_attempt b) \<and> at_state b = rd_superseded_attempt_state d \<and>
      at_attempt_id b = at_attempt_id (rc_attempt q)"
    if "transition_attempt (rc_attempt q) (rd_superseded_attempt_state d) now reason args = Inr b" for b now reason args
    using wf_ended[OF that t] transition_attempt_allowed[OF that] transition_attempt_identity[OF that]
    by (auto simp: attempt_identity_def)
  have "ls_state (rc_lease q) = LS_ACTIVE \<and> ls_lease_id l = ls_lease_id (rc_lease q) \<and> ls_unit_id l = ls_unit_id (rc_lease q) \<and>
    ls_metadata l = ls_metadata (rc_lease q) \<and> ls_state l \<noteq> LS_ACTIVE \<and>
    (wf_attempt (rc_attempt q) \<longrightarrow> wf_attempt a) \<and> at_state a = rd_superseded_attempt_state d \<and>
    at_attempt_id a = at_attempt_id (rc_attempt q)"
  proof (cases "rd_trigger d = ''lease_expired''")
    case True
    then obtain x where x: "expire pc (rc_lease q) (rc_attempt q) (rc_task_unit q) (rc_now q) (rc_recovery_action_id q) (rd_retry_count d) = Inr x"
      and la: "l = le_lease x" "a = le_attempt x" and d: "le_retry_decision x = d"
      using assms(1) by (auto simp: recovered_pair_def res_simps)
    have "rd_superseded_attempt_state d = AS_SUPERSEDED"
      using assms(2) True by (simp add: evaluate_retry_ok retry_attempt_state_def retry_attempt_states_def)
    then show ?thesis
      using step[of _ _ _ "le_attempt x"] expire_ok(4,5)[OF x] la by (auto simp: transition_lease_ok)
  next
    case False
    then have l: "transition_lease (rc_lease q) LS_RELEASED (rc_now q) (rd_trigger d) = Inr l" and a: "recovered_attempt q d = Inr a"
      using assms(1) by (auto simp: recovered_pair_def res_simps)
    then show ?thesis
      using step assms(3) by (auto simp: recovered_attempt_def transition_lease_ok attempt_was_terminal_def split: if_splits)
  qed
  then show "ls_state (rc_lease q) = LS_ACTIVE" "ls_lease_id l = ls_lease_id (rc_lease q)" "ls_unit_id l = ls_unit_id (rc_lease q)"
    "ls_metadata l = ls_metadata (rc_lease q)" "ls_state l \<noteq> LS_ACTIVE"
    "wf_attempt (rc_attempt q) \<Longrightarrow> wf_attempt a" "at_state a = rd_superseded_attempt_state d"
    "at_attempt_id a = at_attempt_id (rc_attempt q)" by auto
qed

definition wf_recovery :: "recovery_request \<Rightarrow> bool" where
  "wf_recovery q \<longleftrightarrow> wf_attempt (rc_attempt q) \<and> wf_lease (rc_lease q) \<and> wf_unit (rc_task_unit q)"

lemma recovery_drafts_lease:
  "\<exists>x ds. recovery_drafts q d l a unit action first n = x # ds \<and> lease_draft x l \<and>
    (\<forall>x \<in> set ds. event_type_value (dr_event_type x) \<noteq> ''LEASE_STATE_CHANGED'')"
  by (simp add: recovery_drafts_def recovery_lease_draft_def recovery_attempt_draft_def recovery_action_draft_def
      recovery_unit_draft_def lease_draft_def jget_def dict_get_default_def event_types_def)

lemma recovery_drafts_wf:
  assumes "wf_recovery q" "wf_attempt a" "ls_metadata l = ls_metadata (rc_lease q)"
    and "transition_task_unit (rc_task_unit q) target reason trigger now = Inr unit" "action = engine_recovery_action q d unit"
  shows "\<forall>x \<in> set (recovery_drafts q d l a unit action first n). wf_draft x"
proof -
  have "wf_lease l" using assms(1,3) by (simp add: wf_recovery_def wf_lease_def)
  then have "wf_obj (ls_to_dict l)" by (simp only: wf_lease_dict)
  moreover have "wf_unit unit"
    using assms(1,4) by (auto simp: wf_recovery_def wf_unit_def wf_obj_def tu_to_dict_def transition_task_unit_ok)
  ultimately show ?thesis
    using assms(2) by (simp add: recovery_drafts_def recovery_lease_draft_def recovery_attempt_draft_def recovery_action_draft_def
        recovery_unit_draft_def wf_engine_draft wf_attempt_def wf_unit_def wf_obj_def task_unit_state_change_def or_nothing_def
        engine_recovery_action_def assms(5))
qed

lemma recovery_keeps:
  assumes i: "lease_log_inv h L" and b: "record_recovery_decision h clock pc L q = Inr (L', r)" and "wf_recovery q"
  shows "lease_log_inv h L'"
proof -
  have ok: "ledger_ok h L" using i by (simp add: lease_log_inv_def)
  obtain n where f: "recovered h clock pc L q L' r n" using recovery_facts[OF ok b] by blast
  note f = f[unfolded recovered_def Let_def]
  let ?d = "rc_decision q"
  have rp: "recovered_pair pc q ?d = Inr (rf_lease r, rf_attempt r)"
    and er: "evaluate_retry (rd_trigger ?d) (rd_retry_count ?d) (pc_max_retries pc) = Inr ?d"
    and u: "transition_task_unit (rc_task_unit q) (rd_next_task_state ?d) (rd_reason ?d) ''recovery'' (rc_now q) = Inr (rf_task_unit r)"
    and a: "rf_recovery_action r = engine_recovery_action q ?d (rf_task_unit r)"
    using f by blast+
  obtain ds where ap: "append_batch h clock L ds (recovery_batch_id q) = Inr (L', rf_events r)"
    and ds: "\<exists>first. ds = recovery_drafts q ?d (rf_lease r) (rf_attempt r) (rf_task_unit r) (rf_recovery_action r) first n"
    using f by blast
  note p = recovered_pair_facts[OF rp er refl]
  have "\<forall>x \<in> set ds. wf_draft x"
    using recovery_drafts_wf[OF assms(3) _ p(4) u a] p(6) assms(3) ds by (auto simp: wf_recovery_def)
  then have ok': "ledger_ok h L'" using append_batch_ok[OF ok _ ap] by blast
  obtain new where v: "ledger_view L' = ledger_view L @ new" and nw: "new = [] \<or> list_all2 from_draft new ds"
    using append_batch_view[OF ap] by blast
  obtain d' ds' where d: "ds = d' # ds'" "lease_draft d' (rf_lease r)"
    "\<forall>x \<in> set ds'. event_type_value (dr_event_type x) \<noteq> ''LEASE_STATE_CHANGED''"
    using recovery_drafts_lease ds by metis
  have "lease_events_ok (ledger_view L @ new) \<and> one_active (ledger_view L @ new)"
    by (rule lease_extend[OF _ _ nw[unfolded d(1)] d(2,3)]) (use i p(5) in \<open>simp_all add: lease_log_inv_def\<close>)
  then show ?thesis using ok' v by (simp add: lease_log_inv_def)
qed

section \<open>Runs of the engine\<close>

text \<open>
  Any sequence of schedules, heartbeats of recorded leases and recoveries, between which any other part of the
  program may append events that are not about leases, and after any of which the ledger may be closed and
  opened again.
\<close>

definition not_a_lease :: "event_draft \<Rightarrow> bool" where
  "not_a_lease d \<longleftrightarrow> wf_draft d \<and> event_type_value (dr_event_type d) \<noteq> ''LEASE_STATE_CHANGED''"

inductive engine_run :: "hash \<Rightarrow> string \<Rightarrow> protocol_config \<Rightarrow> event_ledger \<Rightarrow> bool" for h policy_id pc where
  run_start: "engine_run h policy_id pc \<lparr>el_file = [], el_events = [], el_by_key = [], el_last_hash = None\<rparr>"
| run_schedule: "engine_run h policy_id pc L \<Longrightarrow> schedule_ready_unit h clock policy_id pc L q = Inr (L', r) \<Longrightarrow>
    su_active_leases q = [] \<Longrightarrow> \<forall>u \<in> set (dict_values (tg_units (su_graph q))). wf_unit u \<Longrightarrow> engine_run h policy_id pc L'"
| run_heartbeat: "engine_run h policy_id pc L \<Longrightarrow> record_lease_heartbeat h now pc L l at cid = Inr (L', m, e) \<Longrightarrow>
    recorded_lease L l \<Longrightarrow> engine_run h policy_id pc L'"
| run_recovery: "engine_run h policy_id pc L \<Longrightarrow> record_recovery_decision h clock pc L q = Inr (L', rf) \<Longrightarrow> wf_recovery q \<Longrightarrow>
    engine_run h policy_id pc L'"
| run_event: "engine_run h policy_id pc L \<Longrightarrow> append_event h now L d = Inr (L', e) \<Longrightarrow> not_a_lease d \<Longrightarrow> engine_run h policy_id pc L'"
| run_batch: "engine_run h policy_id pc L \<Longrightarrow> append_batch h clock L ds bid = Inr (L', es) \<Longrightarrow> \<forall>d \<in> set ds. not_a_lease d \<Longrightarrow>
    engine_run h policy_id pc L'"
| run_reopen: "engine_run h policy_id pc L \<Longrightarrow> open_ledger (el_file L) = Inr L' \<Longrightarrow> engine_run h policy_id pc L'"

lemma holds_lease_keep:
  assumes "lease_log_inv h L" "ledger_ok h L'" "ledger_view L' = ledger_view L @ new" "\<forall>e \<in> set new. \<not> is_type e LEASE_STATE_CHANGED"
  shows "lease_log_inv h L'"
  using assms by (auto simp: lease_log_inv_def lease_events_ok_def one_active_def holds_lease_others)

lemma norm_event_idem [simp]: "norm_event (norm_event e) = norm_event e"
  by (simp add: norm_event_def)

lemma engine_run_inv:
  "engine_run h policy_id pc L \<Longrightarrow> \<not> pc_allow_shadow_execution pc \<Longrightarrow> lease_log_inv h L"
proof (induction rule: engine_run.induct)
  case run_start
  have "ledger_ok h \<lparr>el_file = [], el_events = [], el_by_key = [], el_last_hash = None\<rparr>"
    by (simp add: ledger_ok_def dict_by_def last_hash_def)
  then show ?case
    by (simp add: lease_log_inv_def lease_events_ok_def one_active_def ledger_view_def holds_lease_def latest_leases_def)
next
  case (run_event L now d L' e)
  then have i: "lease_log_inv h L" "ledger_ok h L" "wf_draft d" by (auto simp: lease_log_inv_def not_a_lease_def)
  obtain new where v: "ledger_view L' = ledger_view L @ new" "\<forall>x \<in> set new. from_draft x d"
    using append_event_view[OF run_event.hyps(2)] by blast
  then have "\<forall>x \<in> set new. \<not> is_type x LEASE_STATE_CHANGED" using lease_of_other run_event.hyps(3) by (auto simp: not_a_lease_def)
  then show ?case using holds_lease_keep[OF i(1) append_event_ok[OF i(2,3) run_event.hyps(2)] v(1)] by blast
next
  case (run_batch L clock ds bid L' es)
  then have i: "lease_log_inv h L" "ledger_ok h L" "\<forall>d \<in> set ds. wf_draft d" by (auto simp: lease_log_inv_def not_a_lease_def)
  obtain new where v: "ledger_view L' = ledger_view L @ new" "new = [] \<or> list_all2 from_draft new ds"
    using append_batch_view[OF run_batch.hyps(2)] by blast
  have "\<not> is_type x LEASE_STATE_CHANGED" if "x \<in> set new" for x
    using that v(2) list_all2_left[of from_draft new ds x] lease_of_other run_batch.hyps(3) by (auto simp: not_a_lease_def)
  then show ?case using holds_lease_keep[OF i(1) append_batch_ok[OF i(2,3) run_batch.hyps(2)] v(1)] by blast
next
  case (run_reopen L L')
  then have i: "lease_log_inv h L" "ledger_ok h L" by (auto simp: lease_log_inv_def)
  from open_ledger_ok[OF i(2)] run_reopen.hyps(2) have "ledger_ok h L'" "ledger_view L' = ledger_view L"
    by (auto simp: ledger_view_def)
  then show ?case using i by (simp add: lease_log_inv_def)
qed (blast intro: schedule_keeps heartbeat_keeps recovery_keeps)+


end
