(* ===== verification/Engine_Schedule_Claims.thy ===== *)
theory Engine_Schedule_Claims
  imports Engine_Scheduling_Facts
begin

text \<open>
  What a schedule and a recovery write: the chain of causes in their batches, that a fresh schedule goes
  through, and that a recovery can be repeated.
\<close>

section \<open>Predicted event ids\<close>

lemma read_nat_zeros: "read_nat (replicate n (CHR ''0'') @ s) = read_nat s"
  by (induction n) (simp_all add: read_nat_def digit_val_def)

lemma event_number_of: "0 \<le> n \<Longrightarrow> event_number (event_id_of n) = Inr n"
proof -
  assume "0 \<le> n"
  then obtain m where n: "n = int m" by (metis nonneg_int_cases)
  obtain k where p: "pad_left 12 (CHR ''0'') (show_int n) = replicate k (CHR ''0'') @ show_nat m"
    by (simp add: pad_left_def show_int_def n)
  let ?s = "replicate k (CHR ''0'') @ show_nat m"
  have d: "list_all is_digit ?s" "?s \<noteq> []"
    using show_nat_digits by (auto simp: list_all_iff is_digit_def)
  then have "hd ?s \<notin> set ''+-''" by (cases ?s) (auto simp: is_digit_def)
  then have "read_int ?s = Some n" using d by (simp add: read_int_def Let_def n read_nat_zeros)
  then show ?thesis by (simp add: event_number_def event_id_of_def p)
qed

section \<open>A fresh schedule goes through\<close>

definition fresh_batch :: "event_ledger \<Rightarrow> string \<Rightarrow> event_draft list \<Rightarrow> bool" where
  "fresh_batch L bid ds \<longleftrightarrow> (\<forall>e \<in> set (el_events L). ev_batch_id e \<noteq> Some bid \<and>
     ev_idempotency_key e \<notin> dr_idempotency_key ` set ds)"

lemma append_batch_fresh:
  assumes "ledger_ok h L" "fresh_batch L bid ds" "ds \<noteq> []" "bid \<noteq> []" "distinct (map dr_idempotency_key ds)"
  shows "\<exists>L' es. append_batch h clock L ds bid = Inr (L', es)"
proof -
  have "dict_get (el_by_key L) (dr_idempotency_key d) = None" if "d \<in> set ds" for d
    by (cases "dict_get (el_by_key L) (dr_idempotency_key d)")
      (use ledger_get_mem[OF assms(1)] that assms(2) in \<open>fastforce simp: fresh_batch_def\<close>)+
  then have n: "map (dict_get (el_by_key L)) (map dr_idempotency_key ds) = map (\<lambda>_. None) ds" by simp
  have "keep_some (map (\<lambda>_. None :: ledger_event option) ds) = []" by (simp add: keep_some_none)
  moreover have "\<not> list_ex (\<lambda>e. ev_batch_id e = Some bid) (el_events L)"
    using assms(2) by (auto simp: fresh_batch_def list_ex_iff)
  ultimately show ?thesis
    using assms(3-5) unfolding append_batch_def Let_def n by simp
qed

lemma schedule_drafts_keys:
  "map dr_idempotency_key (schedule_drafts c d u cid now e1 e2 e3) =
     [''lease:create:'' @ ls_lease_id (lc_lease c),
      ''attempt:state:'' @ at_attempt_id (lc_created_attempt c) @ '':null:Created:'' @ cid,
      ''attempt:state:'' @ at_attempt_id (lc_running_attempt c) @ '':Created:Running:'' @ cid,
      ''task_unit:state:'' @ tu_unit_id u @ '':Ready:Processing:'' @ cid]"
  by (simp add: schedule_drafts_def Let_def)

lemma batch_first_id_fresh:
  "\<forall>e \<in> set es. ev_batch_id e \<noteq> Some bid \<Longrightarrow> batch_first_id es bid = event_id_of (int (length es) + 1)"
proof -
  assume "\<forall>e \<in> set es. ev_batch_id e \<noteq> Some bid"
  then have "find (\<lambda>e. ev_batch_id e = Some bid \<and> ev_batch_index e = Some 1) es = None" by (auto simp: find_None_iff)
  then show ?thesis by (simp only: batch_first_id_def first_event_id_for_batch_def) (simp add: or_str_def)
qed

lemma view_batch_ids: "(\<forall>e \<in> set (ledger_view L). ev_batch_id e \<noteq> Some b) = (\<forall>e \<in> set (el_events L). ev_batch_id e \<noteq> Some b)"
  by (simp add: ledger_view_def)

definition claim_keys :: "string \<Rightarrow> string \<Rightarrow> string \<Rightarrow> string \<Rightarrow> string list" where
  "claim_keys lease_id attempt_id unit_id cid =
     [''lease:create:'' @ lease_id, ''attempt:state:'' @ attempt_id @ '':null:Created:'' @ cid,
      ''attempt:state:'' @ attempt_id @ '':Created:Running:'' @ cid,
      ''task_unit:state:'' @ unit_id @ '':Ready:Processing:'' @ cid]"

lemma claim_exists:
  assumes "tu_task_id u = sd_task_id d" "tu_unit_id u = sd_unit_id d" "-2 \<le> tu_last_attempt_ordinal u"
    and "is_ok (add_seconds now (pc_lease_ttl_seconds pc))"
  shows "\<exists>c. claim pc d (Some u) lease_id attempt_id tok b now = Inr c"
  using assms by (auto simp: claim_def is_ok_iff mk_task_unit_def Let_def claim_attempt_def transition_attempt_def
      attempt_transitions_def)

lemma created_id:
  "claim pc d (Some u) lease_id attempt_id tok b now = Inr c \<Longrightarrow> at_attempt_id (lc_created_attempt c) = attempt_id"
  using claim_task_unit by (auto simp: claim_attempt_def)

lemma schedule_succeeds:
  assumes "ledger_ok h L"
    and "select_next policy_id (su_graph q) (su_clients q) pc
      (merge_active_lease_maps (active_leases_by_unit_id (ledger_view L)) (su_active_leases q)) (su_now q) (su_decision_id q)
      ''primary'' (su_allowed_unit_ids q) = Inr (Some d)"
    and "dict_get (tg_units (su_graph q)) (sd_unit_id d) = Some u" "tu_task_id u = sd_task_id d" "tu_unit_id u = sd_unit_id d"
    and "tu_state u = TS_READY" "-2 \<le> tu_last_attempt_ordinal u"
    and "is_ok (add_seconds (su_now q) (pc_lease_ttl_seconds pc))"
    and "\<forall>e \<in> set (el_events L). ev_batch_id e \<noteq> Some (''schedule_batch:'' @ su_attempt_id q) \<and>
      ev_idempotency_key e \<notin> set (claim_keys (su_lease_id q) (su_attempt_id q) (sd_unit_id d) (su_correlation_id q))"
  shows "\<exists>L' r. schedule_ready_unit h clock policy_id pc L q = Inr (L', r) \<and> sf_decision r = d"
proof -
  obtain c where c: "claim pc d (Some u) (su_lease_id q) (su_attempt_id q) (su_fencing_token q) None (su_now q) = Inr c"
    using claim_exists[OF assms(4,5,7,8)] by blast
  note cu = claim_task_unit[OF c] created_id[OF c] claim_ok(3,4)[OF c]
  let ?p = "(u\<lparr>tu_last_attempt_ordinal := tu_last_attempt_ordinal u + 1, tu_schema_version := ''TaskUnit.v2''\<rparr>)"
  obtain p where p: "transition_task_unit ?p TS_PROCESSING ''scheduled'' ''scheduler'' (su_now q) = Inr p" "tu_unit_id p = sd_unit_id d"
    using assms(5-7) by (auto simp: transition_task_unit_ok task_unit_transitions_def)
  let ?bid = "schedule_batch_id (lc_running_attempt c)"
  have bid: "?bid = ''schedule_batch:'' @ su_attempt_id q" using cu by (simp add: schedule_batch_id_def)
  have first: "batch_first_id (ledger_view L) ?bid = event_id_of (int (length (ledger_view L)) + 1)"
    using assms(9) by (intro batch_first_id_fresh) (simp add: view_batch_ids bid)
  let ?first = "event_id_of (int (length (ledger_view L)) + 1)"
  define n where "n = int (length (ledger_view L)) + 1"
  have n: "event_number (event_id_of n) = Inr n" by (intro event_number_of) (simp add: n_def)
  let ?ds = "schedule_drafts c d p (su_correlation_id q) (su_now q) (event_id_of n) (event_id_of (n + 1)) (event_id_of (n + 2))"
  have k: "map dr_idempotency_key ?ds = claim_keys (su_lease_id q) (su_attempt_id q) (sd_unit_id d) (su_correlation_id q)"
    using cu p(2) unfolding schedule_drafts_keys claim_keys_def by simp
  then have "dr_idempotency_key ` set ?ds = set (claim_keys (su_lease_id q) (su_attempt_id q) (sd_unit_id d) (su_correlation_id q))"
    by (metis list.set_map)
  then have "fresh_batch L ?bid ?ds" using assms(9) by (simp add: fresh_batch_def bid)
  moreover have "?ds \<noteq> []" by (simp add: schedule_drafts_def Let_def)
  moreover have "distinct (map dr_idempotency_key ?ds)" unfolding k by (simp add: claim_keys_def)
  ultimately obtain L' es where "append_batch h clock L ?ds ?bid = Inr (L', es)"
    using append_batch_fresh[OF assms(1)] by (metis bid append_is_Nil_conv list.distinct(1))
  then show ?thesis
    using assms(1-3) c cu(1) p(1) first n by (simp add: schedule_ready_unit_def Let_def n_def)
qed

section \<open>A run with a schedule\<close>

definition sample_schedule :: "task_graph \<Rightarrow> schedule_request" where
  "sample_schedule g =
     \<lparr>su_graph = g, su_clients = [sample_client], su_now = t0, su_correlation_id = ''corr'', su_decision_id = ''d1'',
      su_lease_id = ''lease_1'', su_attempt_id = ''attempt_1'', su_fencing_token = ''token_1'', su_active_leases = [],
      su_allowed_unit_ids = None\<rparr>"

lemma sample_unit_wf: "wf_unit (sample_unit i st)"
  by (simp add: wf_unit_def wf_obj_def tu_to_dict_def sample_unit_def refs_json_def wf_weight)

lemma empty_ok: "ledger_ok h empty_ledger" "ledger_view empty_ledger = []" "el_events empty_ledger = []"
  by (simp_all add: ledger_ok_def empty_ledger_def dict_by_def last_hash_def ledger_view_def)

lemma sample_scheduled:
  "\<exists>g L' r. tg_units g = sample_units \<and>
     schedule_ready_unit h clock ''fifo_ready_v1'' sample_config empty_ledger (sample_schedule g) = Inr (L', r) \<and>
     sd_unit_id (sf_decision r) = ''a''"
proof -
  obtain g where g: "tg_task_id g = ''task_1''" "tg_units g = sample_units" "ready_queue g None = [''a'']"
    using sample_graph_queue by blast
  then obtain d where d: "select_next ''fifo_ready_v1'' g [sample_client] sample_config [] t0 ''d1'' ''primary'' None = Inr (Some d)"
    "sd_unit_id d = ''a''" "sd_task_id d = ''task_1''"
    using sample_first_client by (simp add: select_next_def sample_units_def sample_unit_def)
  have m: "merge_active_lease_maps (active_leases_by_unit_id []) [] = []"
    by (simp add: active_leases_by_unit_id_def latest_leases_def merge_active_lease_maps_def dict_update_def)
  have "\<exists>L' r. schedule_ready_unit h clock ''fifo_ready_v1'' sample_config empty_ledger (sample_schedule g) = Inr (L', r) \<and>
      sf_decision r = d"
    by (rule schedule_succeeds[OF empty_ok(1), where u = "sample_unit ''a'' TS_READY"])
      (use g d m in \<open>simp_all add: empty_ok sample_schedule_def sample_units_def sample_unit_def sample_config_fields sample_deadline\<close>)
  then show ?thesis using g d by blast
qed


section \<open>What a schedule commits\<close>

lemma build_batch_ids:
  "map ev_event_id (build_batch_events h clock n bid sz i p ds) = map (\<lambda>k. event_id_of (n + int i - 1 + int k)) [0..<length ds]"
proof (induction ds arbitrary: i p)
  case (Cons d ds)
  have "map (\<lambda>k. event_id_of (n + int i + int k)) [0..<length ds] = map (\<lambda>k. event_id_of (n + int i - 1 + int k)) [Suc 0..<Suc (length ds)]"
    by (simp add: map_Suc_upt[symmetric] comp_def algebra_simps del: upt_Suc)
  moreover have "ev_event_id (draft_event h (clock i) (n + int i - 1) p d b) = event_id_of (n + int i - 1)" for b
    by (simp add: draft_event_def finalize_event_def)
  ultimately show ?case
    by (simp add: Let_def Cons.IH upt_rec[of 0] del: upt_Suc)
qed simp

lemma build_batch_same:
  "map ev_event_type (build_batch_events h clock n bid sz i p ds) = map dr_event_type ds"
  "map ev_causation_event_id (build_batch_events h clock n bid sz i p ds) = map dr_causation_event_id ds"
  by (induction ds arbitrary: i p) (simp_all add: Let_def draft_event_def finalize_event_def)

text \<open>A batch under an id that the ledger does not have is new.\<close>

lemma fresh_batch_new:
  assumes "ledger_ok h L" "append_batch h clock L ds bid = Inr (L', es)" "\<forall>e \<in> set (el_events L). ev_batch_id e \<noteq> Some bid"
  shows "el_events L' = el_events L @ es \<and>
    es = build_batch_events h clock (int (length (el_events L)) + 1) bid (int (length ds)) 1 (el_last_hash L) ds"
  using assms(2)
proof (cases rule: append_batch_cases)
  case existing
  then obtain d ds' e es' where c: "ds = d # ds'" "es = e # es'" by (cases ds; cases es) auto
  then have "e \<in> set (el_events L)" using existing(2) ledger_get_mem[OF assms(1)] by auto
  moreover have "ev_batch_id e = Some bid" using existing(3) c by (simp add: number_from_def batch_event_matches_def upt_rec)
  ultimately show ?thesis using assms(3) by blast
qed simp

lemma claim_ordinals:
  "claim pc d (Some u) i a tok b now = Inr c \<Longrightarrow> ls_attempt_ordinal (lc_lease c) = tu_last_attempt_ordinal u + 1 \<and>
    at_attempt_ordinal (lc_running_attempt c) = tu_last_attempt_ordinal u + 1 \<and> tu_unit_id u = sd_unit_id d"
  by (auto simp: claim_def res_simps Let_def mk_task_unit_def claim_attempt_def transition_attempt_def attempt_transitions_def
      split: if_splits)

lemma schedule_drafts_types:
  "map dr_event_type (schedule_drafts c d u cid now e1 e2 e3) =
     map Known [LEASE_STATE_CHANGED, ATTEMPT_STATE_CHANGED, ATTEMPT_STATE_CHANGED, TASK_UNIT_STATE_CHANGED]"
  by (simp add: schedule_drafts_def Let_def)

lemma schedule_drafts_causes:
  "map dr_causation_event_id (schedule_drafts c d u cid now e1 e2 e3) = [None, Some e1, Some e2, Some e3]"
  by (simp add: schedule_drafts_def Let_def) (simp add: engine_draft_def)

text \<open>
  C10 schedule_commits: a schedule under a new attempt id appends exactly four events, the lease, the attempt created, the
  attempt running and the unit processing, each caused by the one before it; and the lease, the attempt and the unit
  it returns are Active, Running and Processing, name each other, and carry the next attempt number of a unit that was
  Ready.
\<close>

theorem schedule_commits:
  assumes "ledger_reach h L" "schedule_ready_unit h clock policy_id pc L q = Inr (L', r)"
    and "\<forall>e \<in> set (el_events L). ev_batch_id e \<noteq> Some (''schedule_batch:'' @ su_attempt_id q)"
  shows "el_events L' = el_events L @ sf_events r \<and>
    map ev_event_type (sf_events r) = map Known [LEASE_STATE_CHANGED, ATTEMPT_STATE_CHANGED, ATTEMPT_STATE_CHANGED, TASK_UNIT_STATE_CHANGED] \<and>
    map ev_causation_event_id (sf_events r) = None # map (Some \<circ> ev_event_id) (butlast (sf_events r)) \<and>
    ls_state (sf_lease r) = LS_ACTIVE \<and> at_state (sf_attempt r) = AS_RUNNING \<and> tu_state (sf_task_unit r) = TS_PROCESSING \<and>
    [ls_lease_id (sf_lease r), ls_attempt_id (sf_lease r), ls_unit_id (sf_lease r)] =
      [at_lease_id (sf_attempt r), at_attempt_id (sf_attempt r), at_unit_id (sf_attempt r)] \<and>
    (\<exists>u. dict_get (tg_units (su_graph q)) (ls_unit_id (sf_lease r)) = Some u \<and> tu_state u = TS_READY \<and>
      [ls_attempt_ordinal (sf_lease r), at_attempt_ordinal (sf_attempt r), tu_last_attempt_ordinal (sf_task_unit r)] =
        replicate 3 (tu_last_attempt_ordinal u + 1) \<and> tu_unit_id (sf_task_unit r) = ls_unit_id (sf_lease r))"
proof -
  have ok: "ledger_ok h L" by (rule ledger_reach_ok[OF assms(1)])
  obtain u c n where "scheduled h clock policy_id pc L q L' r u c n" using schedule_facts[OF ok assms(2)] by blast
  note f = this[unfolded scheduled_def Let_def]
  let ?bid = "schedule_batch_id (lc_running_attempt c)" and ?l = "int (length (el_events L)) + 1"
  have c: "claim pc (sf_decision r) (Some u) (su_lease_id q) (su_attempt_id q) (su_fencing_token q) None (su_now q) = Inr c"
    using f by blast
  note cl = claim_ok(1,2,3,4)[OF c] claim_ordinals[OF c]
  have bid: "\<forall>e \<in> set (el_events L). ev_batch_id e \<noteq> Some ?bid" using assms(3) cl(4) by (simp add: schedule_batch_id_def)
  then have first: "batch_first_id (ledger_view L) ?bid = event_id_of ?l"
    using batch_first_id_fresh[of "ledger_view L" ?bid] by (simp add: view_batch_ids) (simp add: ledger_view_def)
  then have n: "n = ?l" using f event_number_of[of ?l] by simp
  obtain ds where ap: "append_batch h clock L ds ?bid = Inr (L', sf_events r)"
    and ds: "ds = schedule_drafts c (sf_decision r) (sf_task_unit r) (su_correlation_id q) (su_now q) (event_id_of ?l)
      (event_id_of (?l + 1)) (event_id_of (?l + 2))"
    using f unfolding first n by blast
  note b = fresh_batch_new[OF ok ap bid]
  have m: "map ev_event_type (sf_events r) = map dr_event_type ds" "map ev_causation_event_id (sf_events r) = map dr_causation_event_id ds"
    using b build_batch_same by metis+
  have l: "length ds = 4" by (simp add: ds schedule_drafts_def Let_def)
  have "map ev_event_id (sf_events r) = map (\<lambda>k. event_id_of (?l + int 1 - 1 + int k)) [0..<length ds]"
    using b build_batch_ids by metis
  then have "map ev_event_id (sf_events r) = [event_id_of ?l, event_id_of (?l + 1), event_id_of (?l + 2), event_id_of (?l + 3)]"
    unfolding l by (simp add: upt_rec add.commute)
  then have "map (Some \<circ> ev_event_id) (butlast (sf_events r)) = map Some [event_id_of ?l, event_id_of (?l + 1), event_id_of (?l + 2)]"
    unfolding map_map[symmetric] map_butlast by simp
  then have "map ev_causation_event_id (sf_events r) = None # map (Some \<circ> ev_event_id) (butlast (sf_events r))"
    unfolding m(2) ds schedule_drafts_causes by simp
  moreover have "map ev_event_type (sf_events r) =
      map Known [LEASE_STATE_CHANGED, ATTEMPT_STATE_CHANGED, ATTEMPT_STATE_CHANGED, TASK_UNIT_STATE_CHANGED]"
    unfolding m(1) ds schedule_drafts_types by simp
  moreover have g: "sf_lease r = lc_lease c" "sf_attempt r = lc_running_attempt c" "tu_state u = TS_READY"
    "dict_get (tg_units (su_graph q)) (sd_unit_id (sf_decision r)) = Some u"
    "sf_task_unit r = u\<lparr>tu_state := TS_PROCESSING, tu_updated_at := su_now q,
       tu_last_attempt_ordinal := tu_last_attempt_ordinal u + 1, tu_schema_version := ''TaskUnit.v2''\<rparr>"
    using f by blast+
  moreover have "[ls_lease_id (lc_lease c), ls_attempt_id (lc_lease c), ls_unit_id (lc_lease c)] =
      [at_lease_id (lc_running_attempt c), at_attempt_id (lc_running_attempt c), at_unit_id (lc_running_attempt c)]"
    "ls_unit_id (lc_lease c) = sd_unit_id (sf_decision r)"
    using cl(3,4) by simp_all
  ultimately show ?thesis using b cl(1,2,5) by (simp add: numeral_3_eq_3)
qed

lemma schedule_commits_witness:
  "\<exists>g L' r. schedule_ready_unit id (\<lambda>_. ''now'') ''fifo_ready_v1'' sample_config empty_ledger (sample_schedule g) = Inr (L', r) \<and>
     el_events L' = sf_events r \<and> length (sf_events r) = 4"
proof -
  obtain g L' r where s: "schedule_ready_unit id (\<lambda>_. ''now'') ''fifo_ready_v1'' sample_config empty_ledger (sample_schedule g) = Inr (L', r)"
    using sample_scheduled by metis
  have "\<forall>e \<in> set (el_events empty_ledger). ev_batch_id e \<noteq> Some (''schedule_batch:'' @ su_attempt_id (sample_schedule g))"
    by (simp add: empty_ok)
  note c = schedule_commits[OF empty_reach s this]
  then have "map ev_event_type (sf_events r) = map Known [LEASE_STATE_CHANGED, ATTEMPT_STATE_CHANGED, ATTEMPT_STATE_CHANGED, TASK_UNIT_STATE_CHANGED]"
    by blast
  from arg_cong[OF this, of length] have "length (sf_events r) = 4" by simp
  moreover have "el_events L' = sf_events r" using c by (simp add: empty_ok)
  ultimately show ?thesis using s by blast
qed

section \<open>A recovery can be repeated\<close>

lemma first_of_batch:
  assumes "\<forall>e \<in> set es. ev_batch_id e \<noteq> Some bid" "ds \<noteq> []"
  shows "first_event_id_for_batch (es @ map norm_event (build_batch_events h clock n bid sz 1 p ds)) bid = Some (event_id_of n)"
proof -
  have "find P (es @ ys) = find P ys" if "\<forall>e \<in> set es. \<not> P e" for P :: "ledger_event \<Rightarrow> bool" and ys
    using that by (induction es) auto
  from this[of "\<lambda>e. ev_batch_id e = Some bid \<and> ev_batch_index e = Some 1"]
  show ?thesis using assms
    by (cases ds) (simp_all add: first_event_id_for_batch_def Let_def draft_event_def finalize_event_def)
qed

text \<open>Writing a batch leaves the id of its first event as it was predicted.\<close>

lemma batch_first_id_stable:
  assumes "ledger_ok h L" "append_batch h clock L ds bid = Inr (L', es)"
  shows "batch_first_id (ledger_view L') bid = batch_first_id (ledger_view L) bid \<and>
    (L' = L \<or> first_event_id_for_batch (ledger_view L') bid \<noteq> None)"
  using assms(2)
proof (cases rule: append_batch_cases)
  case new
  have v: "ledger_view L' = ledger_view L @ map norm_event es" using new(5) by (simp add: ledger_view_def)
  have f: "first_event_id_for_batch (ledger_view L') bid = Some (event_id_of (int (length (ledger_view L)) + 1))"
    unfolding v new(4) using first_of_batch[OF _ new(1)] new(6) by (simp add: ledger_view_def)
  have "batch_first_id (ledger_view L) bid = event_id_of (int (length (ledger_view L)) + 1)"
    by (rule batch_first_id_fresh) (use new(6) in \<open>simp add: view_batch_ids\<close>)
  moreover have "event_id_of k \<noteq> []" for k by (simp add: event_id_of_def)
  ultimately show ?thesis using f by (simp add: batch_first_id_def or_str_def)
qed simp

text \<open>
  C11 recovery_repeats: recording a recovery a second time, with the ledger as the first left it and at any time of day,
  writes nothing and returns the same lease, attempt, unit, action and events.
\<close>

theorem recovery_repeats:
  assumes "ledger_reach h L" "wf_recovery q" "record_recovery_decision h clock pc L q = Inr (L', r)"
  shows "record_recovery_decision h later pc L' q = Inr (L', r)"
proof -
  have ok: "ledger_ok h L" by (rule ledger_reach_ok[OF assms(1)])
  obtain n where "recovered h clock pc L q L' r n" using recovery_facts[OF ok assms(3)] by blast
  note f = this[unfolded recovered_def Let_def]
  let ?d = "rc_decision q" and ?bid = "recovery_batch_id q"
  define ds where "ds = recovery_drafts q ?d (rf_lease r) (rf_attempt r) (rf_task_unit r) (rf_recovery_action r)
    (batch_first_id (ledger_view L) ?bid) n"
  have ap: "append_batch h clock L ds ?bid = Inr (L', rf_events r)" using f unfolding ds_def by blast
  have rp: "recovered_pair pc q ?d = Inr (rf_lease r, rf_attempt r)"
    and er: "evaluate_retry (rd_trigger ?d) (rd_retry_count ?d) (pc_max_retries pc) = Inr ?d"
    and u: "transition_task_unit (rc_task_unit q) (rd_next_task_state ?d) (rd_reason ?d) ''recovery'' (rc_now q) = Inr (rf_task_unit r)"
    and a: "rf_recovery_action r = engine_recovery_action q ?d (rf_task_unit r)"
    using f by blast+
  note p = recovered_pair_facts[OF rp er refl]
  have "\<forall>x \<in> set ds. wf_draft x" unfolding ds_def
    using recovery_drafts_wf[OF assms(2) _ p(4) u a] p(6) assms(2) by (auto simp: wf_recovery_def)
  then have ok': "ledger_ok h L'" using append_batch_ok[OF ok _ ap] by blast
  note st = append_batch_stands[OF ok ap]
  then have again: "append_batch h later L' ds ?bid = Inr (L', rf_events r)"
    by (intro append_batch_known[OF ok']) auto
  note stable = batch_first_id_stable[OF ok ap]
  have "check_recovery_latest (ledger_view L) q = Inr ()" using f by blast
  then have "check_recovery_latest (ledger_view L') q = Inr ()" using stable by (auto simp: check_recovery_latest_def)
  moreover have "event_number (batch_first_id (ledger_view L') ?bid) = Inr n" "check_recovery_objects q = Inr ()"
    using f stable by simp_all
  moreover have "append_batch h later L' (recovery_drafts q ?d (rf_lease r) (rf_attempt r) (rf_task_unit r)
      (engine_recovery_action q ?d (rf_task_unit r)) (batch_first_id (ledger_view L') ?bid) n) ?bid = Inr (L', rf_events r)"
    using again stable by (simp add: ds_def a)
  ultimately show ?thesis
    using er rp u ok' a by (simp add: record_recovery_decision_def Let_def)
qed

definition sample_recovery :: "retry_decision \<Rightarrow> recovery_request" where
  "sample_recovery d =
     \<lparr>rc_decision = d, rc_attempt = sample_running, rc_lease = sample_lease, rc_task_unit = sample_claimed_unit,
      rc_recovery_action_id = ''recovery_1'', rc_now = t2, rc_correlation_id = ''corr'', rc_causation_event_id = None\<rparr>"

lemma sample_recovery_wf: "wf_recovery (sample_recovery d)"
  by (simp add: wf_recovery_def sample_recovery_def wf_lease_def sample_lease_def sample_claimed_unit_def sample_unit_wf)
    (simp add: wf_attempt_def wf_obj_def at_to_dict_def sample_running_def claim_attempt_def refs_json_def)

lemma recovery_drafts_keys:
  "map dr_idempotency_key (recovery_drafts q d l a u action first n) =
     [''lease:terminal:'' @ ls_lease_id l @ '':'' @ lease_state_value (ls_state l)] @
     (if attempt_was_terminal q then []
      else [''attempt:state:'' @ at_attempt_id (rc_attempt q) @ '':'' @ attempt_state_value (at_state (rc_attempt q)) @ '':'' @
         attempt_state_value (at_state a) @ '':'' @ rc_correlation_id q]) @
     [''recovery:'' @ tu_unit_id (rc_task_unit q) @ '':'' @ rd_trigger d @ '':'' @ at_attempt_id (rc_attempt q) @ '':'' @ show_int (rd_retry_count d),
      ''task_unit:state:'' @ tu_unit_id u @ '':'' @ task_state_value (tu_state (rc_task_unit q)) @ '':'' @
         task_state_value (tu_state u) @ '':'' @ rc_correlation_id q]"
  by (simp add: recovery_drafts_def recovery_lease_draft_def recovery_attempt_draft_def recovery_action_draft_def recovery_unit_draft_def)

lemma sample_recovers:
  "\<exists>d L' r. record_recovery_decision h clock sample_config empty_ledger (sample_recovery d) = Inr (L', r)"
proof -
  obtain x where x: "expire sample_config sample_lease sample_running sample_claimed_unit t2 ''recovery_1'' 1 = Inr x"
    using sample_expires by (auto simp: is_ok_iff)
  let ?d = "le_retry_decision x" and ?q = "sample_recovery (le_retry_decision x)"
  have d: "evaluate_retry ''lease_expired'' 1 (pc_max_retries sample_config) = Inr ?d" by (rule expire_ok(6)[OF x])
  then have r: "rd_trigger ?d = ''lease_expired''" "rd_retry_count ?d = 1" "rd_next_task_state ?d = TS_READY" "rd_reason ?d \<noteq> []"
    by (simp_all add: evaluate_retry_ok sample_config_fields)
  have rp: "recovered_pair sample_config ?q ?d = Inr (le_lease x, le_attempt x)"
    using x r by (simp add: recovered_pair_def sample_recovery_def)
  have "\<exists>u. transition_task_unit sample_claimed_unit TS_READY (rd_reason ?d) ''recovery'' t2 = Inr u"
    using r(4) by (auto simp: transition_task_unit_ok sample_claimed_unit_def sample_unit_def task_unit_transitions_def)
  then obtain u where u: "transition_task_unit sample_claimed_unit TS_READY (rd_reason ?d) ''recovery'' t2 = Inr u" by blast
  have o: "check_recovery_objects ?q = Inr ()"
    by (simp add: check_recovery_objects_def sample_recovery_def raise_if_def sample_lease_def sample_running_def claim_attempt_def
        sample_decision_def sample_claimed_unit_def sample_unit_def Let_def)
  have s: "rd_superseded_attempt_state ?d = AS_SUPERSEDED"
    using d by (simp add: evaluate_retry_ok retry_attempt_state_def retry_attempt_states_def)
  then have t: "\<not> attempt_was_terminal ?q"
    by (simp add: attempt_was_terminal_def sample_recovery_def sample_running_def)
  then have l: "check_recovery_latest [] ?q = Inr ()"
    by (simp add: check_recovery_latest_def latest_lease_snapshot_def latest_attempt_snapshot_def latest_event_def raise_if_def
        first_event_id_for_batch_def)
  have first: "batch_first_id [] (recovery_batch_id ?q) = event_id_of 1" by (simp add: batch_first_id_fresh)
  let ?ds = "recovery_drafts ?q ?d (le_lease x) (le_attempt x) u (engine_recovery_action ?q ?d u) (event_id_of 1) 1"
  have "distinct (map dr_idempotency_key ?ds)" unfolding recovery_drafts_keys by (auto simp: t)
  then obtain L' es where "append_batch h clock empty_ledger ?ds (recovery_batch_id ?q) = Inr (L', es)"
    using append_batch_fresh[OF empty_ok(1), of "recovery_batch_id ?q" ?ds h clock]
    by (auto simp: fresh_batch_def empty_ok recovery_batch_id_def recovery_drafts_def)
  then have "record_recovery_decision h clock sample_config empty_ledger ?q = Inr (L',
      \<lparr>rf_lease = le_lease x, rf_attempt = le_attempt x, rf_task_unit = u, rf_recovery_action = engine_recovery_action ?q ?d u, rf_events = es\<rparr>)"
    using d rp u o l first event_number_of[of 1] r
    by (simp add: record_recovery_decision_def Let_def empty_ok) (simp add: sample_recovery_def)
  then show ?thesis by blast
qed

lemma recovery_repeats_witness:
  "\<exists>d L' r. record_recovery_decision id (\<lambda>_. ''now'') sample_config empty_ledger (sample_recovery d) = Inr (L', r) \<and>
     record_recovery_decision id (\<lambda>_. ''later'') sample_config L' (sample_recovery d) = Inr (L', r)"
proof -
  obtain d L' r where s: "record_recovery_decision id (\<lambda>_. ''now'') sample_config empty_ledger (sample_recovery d) = Inr (L', r)"
    using sample_recovers by blast
  from recovery_repeats[OF empty_reach sample_recovery_wf s] s show ?thesis by blast
qed

section \<open>Leases in and out of the ledger\<close>

definition lease_fields_ok :: "lease \<Rightarrow> bool" where
  "lease_fields_ok l \<longleftrightarrow> list_all (\<lambda>s. s \<noteq> [])
     [ls_lease_id l, ls_task_id l, ls_unit_id l, ls_attempt_id l, ls_client_id l, ls_fencing_token l, ls_issued_at l,
      ls_expires_at l, ls_lease_kind l, ls_schema_version l] \<and> 0 \<le> ls_heartbeat_count l \<and> 0 \<le> ls_attempt_ordinal l"

lemma lease_state_of_inverse [simp]: "lease_state_of (lease_state_value s) = Inr s"
  by (cases s) (simp_all add: lease_state_of_def lease_states_def)

lemma lease_state_nonempty [simp]: "lease_state_value s \<noteq> []"
  by (cases s) simp_all

lemma snapshot_opt: "jget d f = opt_str x \<Longrightarrow> snapshot_optional_string d f = Inr x"
  by (cases x) (simp_all add: snapshot_optional_string_def)

lemma sort_members_opt_str [simp]: "sort_members (opt_str x) = opt_str x"
  by (cases x) simp_all

lemma lease_snapshot_eq:
  assumes "lease_fields_ok l"
  shows "lease_from_snapshot (sort_obj (ls_to_dict l)) = Inr (l\<lparr>ls_metadata := sort_obj (ls_metadata l)\<rparr>)"
proof -
  let ?d = "sort_obj (ls_to_dict l)"
  have j: "jget ?d f = sort_members (jget (ls_to_dict l) f)" for f
    by (rule jget_sorted) (simp add: ls_to_dict_def)
  have g: "dict_get ?d ''attempt_ordinal'' = Some (JInt (ls_attempt_ordinal l))"
    by (subst map_of_sort_obj) (simp_all add: ls_to_dict_def)
  have r: "snapshot_required_string ?d f = Inr s" if "jget (ls_to_dict l) f = JStr s" "s \<noteq> []" for f s
    using that by (simp add: snapshot_required_iff j)
  have o: "snapshot_optional_string ?d f = Inr x" if "jget (ls_to_dict l) f = opt_str x" for f x
    using that by (intro snapshot_opt) (simp add: j)
  have fields: "list_all (\<lambda>s. s \<noteq> []) [ls_lease_id l, ls_task_id l, ls_unit_id l, ls_attempt_id l, ls_client_id l, ls_fencing_token l,
      ls_issued_at l, ls_expires_at l, ls_lease_kind l, ls_schema_version l]" "0 \<le> ls_heartbeat_count l" "0 \<le> ls_attempt_ordinal l"
    using assms unfolding lease_fields_ok_def by simp_all
  note get = jget_def ls_to_dict_def
  have req: "snapshot_required_string ?d ''lease_id'' = Inr (ls_lease_id l)"
    "snapshot_required_string ?d ''task_id'' = Inr (ls_task_id l)"
    "snapshot_required_string ?d ''unit_id'' = Inr (ls_unit_id l)"
    "snapshot_required_string ?d ''attempt_id'' = Inr (ls_attempt_id l)"
    "snapshot_required_string ?d ''client_id'' = Inr (ls_client_id l)"
    "snapshot_required_string ?d ''fencing_token'' = Inr (ls_fencing_token l)"
    "snapshot_required_string ?d ''issued_at'' = Inr (ls_issued_at l)"
    "snapshot_required_string ?d ''expires_at'' = Inr (ls_expires_at l)"
    "snapshot_required_string ?d ''lease_kind'' = Inr (ls_lease_kind l)"
    "snapshot_required_string ?d ''schema_version'' = Inr (ls_schema_version l)"
    "snapshot_required_string ?d ''state'' = Inr (lease_state_value (ls_state l))"
    by (rule r, simp add: get, use fields(1) in simp)+
  have opt: "snapshot_optional_string ?d ''last_heartbeat_at'' = Inr (ls_last_heartbeat_at l)"
    "snapshot_optional_string ?d ''terminated_at'' = Inr (ls_terminated_at l)"
    "snapshot_optional_string ?d ''terminated_reason'' = Inr (ls_terminated_reason l)"
    "snapshot_optional_string ?d ''binding_digest'' = Inr (ls_binding_digest l)"
    by (rule o, simp add: get)+
  have "jget (ls_to_dict l) ''metadata'' = JObj (ls_metadata l)" "jget (ls_to_dict l) ''heartbeat_count'' = JInt (ls_heartbeat_count l)"
    by (simp_all add: get)
  then have jm: "jget ?d ''metadata'' = JObj (sort_obj (ls_metadata l))" "jget ?d ''heartbeat_count'' = JInt (ls_heartbeat_count l)"
    by (simp_all only: j sort_members_obj) simp
  then have m: "snapshot_json_object ?d ''metadata'' = Inr (sort_obj (ls_metadata l))"
    and n: "snapshot_non_negative_int ?d ''attempt_ordinal'' 0 = Inr (ls_attempt_ordinal l)" "heartbeat_count_of ?d = Inr (ls_heartbeat_count l)"
    using fields(2,3) g
    by (simp_all add: snapshot_json_object_def snapshot_non_negative_int_def dict_get_default_def heartbeat_count_of_def Let_def)
  show ?thesis by (simp add: lease_from_snapshot_def req opt m n)
qed

lemma heartbeat_draft_lease: "lease_draft (heartbeat_draft m cid now) m"
  by (simp add: lease_draft_def heartbeat_draft_def jget_def)

lemma latest_snapshot_of_draft:
  assumes "from_draft e d" "lease_draft d m"
  shows "latest_lease_snapshot (es @ [e]) (ls_lease_id m) = Inr (Some (sort_obj (ls_to_dict m)))"
proof -
  have "is_type e LEASE_STATE_CHANGED" "ev_object_id e = ls_lease_id m" using lease_of_draft[OF assms(2,1)] by simp_all
  moreover have "jget (ev_payload e) ''lease'' = JObj (sort_obj (ls_to_dict m))"
    using assms by (simp add: from_draft_def lease_draft_def jget_sorted sort_members_obj del: sort_members.simps)
  ultimately show ?thesis by (simp add: latest_lease_snapshot_def latest_event_snoc)
qed

text \<open>
  C12 heartbeat_reads_back: after a heartbeat that wrote an event, every copy of the lease, however old, stands for the renewed
  one: reading the lease back from the ledger gives what the heartbeat returned, with its metadata in the order of the
  file.
\<close>

theorem heartbeat_reads_back:
  assumes "ledger_reach h L" "record_lease_heartbeat h now pc L l at cid = Inr (L', m, e)" "el_events L' \<noteq> el_events L"
    and "lease_fields_ok m" "ls_lease_id old = ls_lease_id m" "read_all (el_file L') = Inr es"
    and "wf_lease m"
  shows "authoritative_lease es old = Inr (m\<lparr>ls_metadata := sort_obj (ls_metadata m)\<rparr>)"
proof -
  have ok: "ledger_ok h L" by (rule ledger_reach_ok[OF assms(1)])
  have a: "append_event h now L (heartbeat_draft m cid at) = Inr (L', e)"
    using assms(2) ok by (auto simp: record_lease_heartbeat_def res_simps)
  have "wf_obj (ls_to_dict m)" using assms(7) by (simp only: wf_lease_dict)
  then have "wf_draft (heartbeat_draft m cid at)" by (simp add: heartbeat_draft_def wf_engine_draft wf_obj_def)
  then have "ledger_ok h L'" by (rule append_event_ok[OF ok _ a])
  from read_ledger[OF this] have es: "es = ledger_view L'" using assms(6) by simp
  have "\<exists>x. ledger_view L' = ledger_view L @ [x] \<and> from_draft x (heartbeat_draft m cid at)"
    using a assms(3) by (cases rule: append_event_cases) (simp_all add: ledger_view_def from_draft_event)
  then obtain x where x: "es = ledger_view L @ [x]" "from_draft x (heartbeat_draft m cid at)" using es by auto
  have "latest_lease_snapshot es (ls_lease_id old) = Inr (Some (sort_obj (ls_to_dict m)))"
    unfolding x(1) assms(5) by (rule latest_snapshot_of_draft[OF x(2) heartbeat_draft_lease])
  then show ?thesis by (simp add: authoritative_lease_def lease_snapshot_eq[OF assms(4)])
qed

lemma add_seconds_nonempty: "add_seconds s n \<noteq> Inr []"
  by (auto simp: add_seconds_def res_simps Let_def format_utc_def split: prod.splits if_splits)

lemma heartbeat_reads_back_witness:
  "\<exists>L' m e es. record_lease_heartbeat id ''now'' sample_config empty_ledger sample_lease t1 ''corr'' = Inr (L', m, e) \<and>
     read_all (el_file L') = Inr es \<and> authoritative_lease es sample_lease = Inr m"
proof -
  have "is_ok (add_seconds t1 300)"
    by (simp add: add_seconds_def sample_times Let_def in_range_def max_instant_def us_per_day_def)
  then have "is_ok (heartbeat sample_config sample_lease t1)"
    by (auto simp: is_ok_iff heartbeat_ok sample_lease_def sample_config_fields sample_times sample_deadline)
  then obtain m where m: "heartbeat sample_config sample_lease t1 = Inr m" by (auto simp: is_ok_iff)
  have "wf_draft (heartbeat_draft m ''corr'' t1)" 
    using m by (auto simp: heartbeat_ok heartbeat_draft_def wf_engine_draft wf_obj_def ls_to_dict_def sample_lease_def)
  have a: "authoritative_lease [] sample_lease = Inr sample_lease"
    by (simp add: authoritative_lease_def latest_lease_snapshot_def latest_event_def)
  obtain L' e where e: "append_event id ''now'' empty_ledger (heartbeat_draft m ''corr'' t1) = Inr (L', e)" "el_events L' \<noteq> []"
    by (simp add: append_event_def empty_ledger_def Let_def)
  have r: "record_lease_heartbeat id ''now'' sample_config empty_ledger sample_lease t1 ''corr'' = Inr (L', m, e)"
    using a m e by (simp add: record_lease_heartbeat_def empty_ok)
  have f: "lease_fields_ok m" "ls_lease_id sample_lease = ls_lease_id m" "wf_lease m" "ls_metadata m = []" "wf_draft (heartbeat_draft m ''corr'' t1)"
    using m \<open>wf_draft _\<close> by (auto simp: heartbeat_ok sample_lease_def lease_fields_ok_def wf_lease_def wf_obj_def t0_def
      add_seconds_nonempty)
  have "ledger_ok id L'" by (rule append_event_ok[OF empty_ok(1) f(5) e(1)])
  from heartbeat_reads_back[OF empty_reach r _ f(1,2) read_ledger[OF this] f(3)] r e(2) f(4) read_ledger[OF this]
  show ?thesis by (auto simp: empty_ok sort_obj_def)
qed

end
