(* ===== verification/Engine_Attempts.thy ===== *)
theory Engine_Attempts
  imports Engine_Schedule_Claims
begin

text \<open>
  The attempts that the engine reads back from the ledger: they are well formed when the ledger is, and an event
  about something else leaves them as they are.
\<close>

definition wf_refs :: "(string, artifact_ref) dict \<Rightarrow> bool" where
  "wf_refs d \<longleftrightarrow> distinct (map fst d) \<and> (\<forall>p \<in> set d. wf_ref (snd p))"

definition wf_opt_ref :: "artifact_ref option \<Rightarrow> bool" where
  "wf_opt_ref r \<longleftrightarrow> (case r of None \<Rightarrow> True | Some x \<Rightarrow> wf_ref x)"

lemma wf_ar_to_dict: "wf_obj (ar_to_dict r) = wf_ref r"
  by (auto simp: wf_obj_def wf_ref_def ar_to_dict_def)

lemma wf_json_ref: "wf_json (JObj (ar_to_dict r)) \<and> floats_ok (JObj (ar_to_dict r)) \<longleftrightarrow> wf_ref r"
  using wf_ar_to_dict by (simp add: wf_obj_def)

lemma wf_refs_json: "wf_json (refs_json d) \<and> floats_ok (refs_json d) \<longleftrightarrow> wf_refs d"
proof -
  have m: "map fst (map (\<lambda>(k, r). (k, JObj (ar_to_dict r))) d) = map fst d" by auto
  have "wf_json (refs_json d) \<and> floats_ok (refs_json d) \<longleftrightarrow>
      distinct (map fst d) \<and> (\<forall>p \<in> set d. wf_json (JObj (ar_to_dict (snd p))) \<and> floats_ok (JObj (ar_to_dict (snd p))))"
    unfolding refs_json_def wf_json.simps floats_ok.simps m by (auto simp: split_beta)
  then show ?thesis by (simp only: wf_json_ref wf_refs_def)
qed

lemma wf_json_opt_ref: "wf_json (opt_ref r) \<and> floats_ok (opt_ref r) \<longleftrightarrow> wf_opt_ref r"
  using wf_json_ref by (cases r) (simp_all add: wf_opt_ref_def)

lemma wf_attempt_iff:
  "wf_attempt a \<longleftrightarrow> wf_obj (or_nothing (at_environment_summary a)) \<and> wf_refs (or_empty (at_input_artifact_refs a)) \<and>
     wf_opt_ref (at_raw_output_ref a) \<and> wf_opt_ref (at_parsed_output_ref a) \<and> wf_refs (or_empty (at_candidate_output_refs a)) \<and>
     wf_opt_ref (at_log_ref a) \<and> wf_obj (or_nothing (at_metadata a))"
proof -
  have "wf_attempt a \<longleftrightarrow> (\<forall>j \<in> {JObj (or_nothing (at_environment_summary a)), refs_json (or_empty (at_input_artifact_refs a)),
      opt_ref (at_raw_output_ref a), opt_ref (at_parsed_output_ref a), refs_json (or_empty (at_candidate_output_refs a)),
      opt_ref (at_log_ref a), JObj (or_nothing (at_metadata a))}. wf_json j \<and> floats_ok j)"
    unfolding wf_attempt_def wf_obj_def at_to_dict_def or_nothing_def or_empty_def by (simp del: ball_simps) auto
  then show ?thesis
    using wf_refs_json wf_json_opt_ref by (simp add: wf_obj_def)
qed

section \<open>Attempts read from the ledger\<close>

lemma wf_member: "wf_obj d \<Longrightarrow> dict_get d k = Some (JObj x) \<Longrightarrow> wf_obj x"
  using jget_wf[of d k x] by (simp add: jget_def)

lemma dict_default_wf: "wf_obj d \<Longrightarrow> dict_default d k = Inr x \<Longrightarrow> wf_obj x"
  using wf_member[of d k x] by (auto simp: dict_default_def wf_obj_def split: option.splits json.splits list.splits)

lemma ar_from_dict_wf:
  assumes "wf_obj d" "ar_from_dict d = Inr r"
  shows "wf_ref r"
proof -
  obtain x y where "dict_default d ''source'' = Inr x" "dict_default d ''metadata'' = Inr y" "ar_source r = x" "ar_metadata r = y"
    using assms(2) by (auto simp: ar_from_dict_def res_simps)
  then show ?thesis using dict_default_wf[OF assms(1)] by (simp add: wf_ref_def)
qed

lemma artifact_refs_from_dict_wf:
  assumes "wf_obj d" "artifact_refs_from_dict d = Inr rs"
  shows "wf_refs rs \<and> map fst rs = map fst d"
proof -
  have l: "list_all2 (\<lambda>p q. \<exists>x r. p = (fst p, JObj x) \<and> ar_from_dict x = Inr r \<and> q = (fst p, r)) d rs"
    using assms(2) unfolding artifact_refs_from_dict_def mapE_list_all2
    by (rule list_all2_weaken) (auto simp: res_simps split: json.splits)
  then have k: "map fst rs = map fst d" by (induction rule: list_all2_induct) auto
  have "wf_ref (snd q)" if q: "q \<in> set rs" for q
  proof -
    obtain i where i: "i < length rs" "q = rs ! i" using q by (auto simp: in_set_conv_nth)
    then have n: "i < length d" using l by (simp add: list_all2_lengthD)
    have "\<exists>x r. d ! i = (fst (d ! i), JObj x) \<and> ar_from_dict x = Inr r \<and> rs ! i = (fst (d ! i), r)"
      by (rule list_all2_nthD[OF l n])
    then obtain x r where x: "d ! i = (fst (d ! i), JObj x)" "ar_from_dict x = Inr r" "rs ! i = (fst (d ! i), r)" by blast
    have "(fst (d ! i), JObj x) \<in> set d" using nth_mem[OF n] x(1) by simp
    then have "dict_get d (fst (d ! i)) = Some (JObj x)" using assms(1) by (simp add: wf_obj_def)
    from ar_from_dict_wf[OF wf_member[OF assms(1) this] x(2)] show ?thesis using x(3) i(2) by simp
  qed
  then show ?thesis using k assms(1) by (simp add: wf_refs_def wf_obj_def)
qed

lemma snapshot_refs_wf:
  assumes "wf_obj d" "snapshot_artifact_refs d k = Inr rs"
  shows "wf_refs rs"
proof (cases "rs = []")
  case False
  then obtain x where x: "jget d k = JObj x" "artifact_refs_from_dict x = Inr rs"
    using assms(2) by (auto simp: snapshot_artifact_refs_def Let_def split: json.splits if_splits)
  show ?thesis using artifact_refs_from_dict_wf[OF jget_wf[OF assms(1) x(1)] x(2)] by simp
qed (simp add: wf_refs_def)

lemma snapshot_ref_wf: "wf_obj d \<Longrightarrow> snapshot_optional_artifact_ref d k = Inr r \<Longrightarrow> wf_opt_ref r"
  using ar_from_dict_wf jget_wf[of d k]
  by (auto simp: snapshot_optional_artifact_ref_def wf_opt_ref_def res_simps split: json.splits)

lemma snapshot_object_wf: "wf_obj d \<Longrightarrow> snapshot_json_object d k = Inr x \<Longrightarrow> wf_obj x"
  using jget_wf[of d k] by (auto simp: snapshot_json_object_def wf_obj_def split: json.splits)

lemma attempt_state_of_value: "attempt_state_of s = Inr x \<Longrightarrow> s = attempt_state_value x"
  by (auto simp: attempt_state_of_def attempt_states_def split: if_splits)

lemma attempt_from_snapshot_fields:
  assumes "attempt_from_snapshot d = Inr a"
  shows "jget d ''attempt_id'' = JStr (at_attempt_id a)" "jget d ''state'' = JStr (attempt_state_value (at_state a))"
    "wf_obj d \<Longrightarrow> wf_attempt a"
proof -
  obtain env ins raw par cand lg md where f: "snapshot_json_object d ''environment_summary'' = Inr env"
    "snapshot_artifact_refs d ''input_artifact_refs'' = Inr ins" "snapshot_optional_artifact_ref d ''raw_output_ref'' = Inr raw"
    "snapshot_optional_artifact_ref d ''parsed_output_ref'' = Inr par" "snapshot_artifact_refs d ''candidate_output_refs'' = Inr cand"
    "snapshot_optional_artifact_ref d ''log_ref'' = Inr lg" "snapshot_json_object d ''metadata'' = Inr md"
    "at_environment_summary a = Some env" "at_input_artifact_refs a = Some ins" "at_raw_output_ref a = raw"
    "at_parsed_output_ref a = par" "at_candidate_output_refs a = Some cand" "at_log_ref a = lg" "at_metadata a = Some md"
    "jget d ''attempt_id'' = JStr (at_attempt_id a)" "jget d ''state'' = JStr (attempt_state_value (at_state a))"
    using assms unfolding attempt_from_snapshot_def
    by (auto simp: res_simps snapshot_required_iff dest!: attempt_state_of_value)
  show "jget d ''attempt_id'' = JStr (at_attempt_id a)" "jget d ''state'' = JStr (attempt_state_value (at_state a))" by fact+
  assume w: "wf_obj d"
  show "wf_attempt a" unfolding wf_attempt_iff f(8-14)
    using snapshot_object_wf[OF w] snapshot_refs_wf[OF w] snapshot_ref_wf[OF w] f(1-7)
    by (simp add: or_nothing_def or_empty_def)
qed

lemma latest_snapshot_wf:
  assumes "ledger_ok h L" "latest_attempt_snapshot (ledger_view L) i = Inr (Some d)"
  shows "wf_obj d"
proof -
  obtain e where e: "latest_event ATTEMPT_STATE_CHANGED (ledger_view L) i = Some e" "jget (ev_payload e) ''attempt'' = JObj d"
    using assms(2) by (auto simp: latest_attempt_snapshot_def split: option.splits json.splits)
  have "wf_event e" using wf_view[OF assms(1)] latest_event_mem[OF e(1)] by blast
  then show ?thesis using jget_wf e(2) by (auto simp: wf_event_def)
qed

lemma authoritative_attempt_wf:
  "ledger_ok h L \<Longrightarrow> authoritative_attempt (ledger_view L) a = Inr b \<Longrightarrow> wf_attempt a \<Longrightarrow> wf_attempt b"
  using attempt_from_snapshot_fields(3) latest_snapshot_wf
  by (fastforce simp: authoritative_attempt_def res_simps split: option.splits)

text \<open>Other events do not touch the snapshots.\<close>

lemma latest_event_others: "\<forall>e \<in> set new. \<not> is_type e t \<Longrightarrow> latest_event t (es @ new) i = latest_event t es i"
  by (induction new rule: rev_induct) (simp_all add: latest_event_snoc flip: append_assoc)

lemma authoritative_others:
  "\<forall>e \<in> set new. \<not> is_type e ATTEMPT_STATE_CHANGED \<Longrightarrow> authoritative_attempt (es @ new) a = authoritative_attempt es a"
  "\<forall>e \<in> set new. \<not> is_type e LEASE_STATE_CHANGED \<Longrightarrow> authoritative_lease (es @ new) l = authoritative_lease es l"
  by (simp_all add: authoritative_attempt_def authoritative_lease_def latest_attempt_snapshot_def latest_lease_snapshot_def
      latest_event_others)

text \<open>A draft that writes an attempt, and the attempt as it is read back.\<close>

definition attempt_draft_of :: "event_draft \<Rightarrow> attempt \<Rightarrow> bool" where
  "attempt_draft_of d a \<longleftrightarrow> dr_event_type d = Known ATTEMPT_STATE_CHANGED \<and> dr_object_id d = at_attempt_id a \<and>
     distinct (map fst (dr_payload d)) \<and> jget (dr_payload d) ''attempt'' = JObj (at_to_dict a)"

lemma latest_attempt_of_draft:
  assumes "from_draft e d" "attempt_draft_of d a"
  shows "latest_attempt_snapshot (es @ [e]) (at_attempt_id a) = Inr (Some (sort_obj (at_to_dict a)))"
proof -
  have "is_type e ATTEMPT_STATE_CHANGED" "ev_object_id e = at_attempt_id a"
    using assms by (simp_all add: from_draft_def attempt_draft_of_def)
  moreover have "jget (ev_payload e) ''attempt'' = JObj (sort_obj (at_to_dict a))"
    using assms by (simp add: from_draft_def attempt_draft_of_def jget_sorted sort_members_obj del: sort_members.simps)
  ultimately show ?thesis by (simp add: latest_attempt_snapshot_def latest_event_snoc)
qed

lemma attempt_state_inject [simp]: "attempt_state_value x = attempt_state_value y \<longleftrightarrow> x = y"
  by (cases x; cases y) simp_all

lemma latest_attempt_state:
  assumes "latest_attempt_snapshot es (at_attempt_id old) = Inr (Some (sort_obj (at_to_dict a)))"
    and "authoritative_attempt es old = Inr b"
  shows "at_state b = at_state a \<and> at_attempt_id b = at_attempt_id a"
proof -
  have b: "attempt_from_snapshot (sort_obj (at_to_dict a)) = Inr b" using assms by (simp add: authoritative_attempt_def)
  have "jget (sort_obj (at_to_dict a)) ''state'' = JStr (attempt_state_value (at_state a))"
    "jget (sort_obj (at_to_dict a)) ''attempt_id'' = JStr (at_attempt_id a)"
    by (simp_all add: jget_sorted at_to_dict_def) (simp_all add: jget_def)
  then show ?thesis using attempt_from_snapshot_fields(1,2)[OF b] by simp
qed

section \<open>Writing and reading an attempt\<close>

definition norm_refs :: "(string, artifact_ref) dict \<Rightarrow> (string, artifact_ref) dict" where
  "norm_refs d = map (\<lambda>(k, r). (k, norm_ref r)) (sort_key fst d)"

definition norm_attempt :: "attempt \<Rightarrow> attempt" where
  "norm_attempt a = a\<lparr>
     at_environment_summary := Some (sort_obj (or_nothing (at_environment_summary a))),
     at_input_artifact_refs := Some (norm_refs (or_empty (at_input_artifact_refs a))),
     at_raw_output_ref := map_option norm_ref (at_raw_output_ref a),
     at_parsed_output_ref := map_option norm_ref (at_parsed_output_ref a),
     at_candidate_output_refs := Some (norm_refs (or_empty (at_candidate_output_refs a))),
     at_log_ref := map_option norm_ref (at_log_ref a),
     at_metadata := Some (sort_obj (or_nothing (at_metadata a)))\<rparr>"

definition attempt_fields_ok :: "attempt \<Rightarrow> bool" where
  "attempt_fields_ok a \<longleftrightarrow> list_all (\<lambda>s. s \<noteq> [])
     [at_attempt_id a, at_task_id a, at_unit_id a, at_lease_id a, at_client_id a, at_attempt_kind a, at_created_at a,
      at_schema_version a] \<and> 0 \<le> at_attempt_ordinal a"

lemma sort_key_map: "(\<And>x. fst (f x) = fst x) \<Longrightarrow> sort_key fst (map f d) = map f (sort_key fst d)"
proof (induction d)
  case (Cons x d)
  have "insort_key fst (f x) (map f ys) = map f (insort_key fst x ys)" for ys
    using Cons.prems by (induction ys) simp_all
  then show ?case using Cons by simp
qed simp

lemma sorted_refs:
  "sort_obj (map (\<lambda>(k, r). (k, JObj (ar_to_dict r))) d) = map (\<lambda>(k, r). (k, JObj (sort_obj (ar_to_dict r)))) (sort_key fst d)"
proof -
  have m: "map (\<lambda>(k, v). (k, sort_members v)) (map (\<lambda>(k, r). (k, JObj (ar_to_dict r))) d) =
      map (\<lambda>(k, r). (k, JObj (sort_obj (ar_to_dict r)))) d"
    by (simp add: comp_def case_prod_beta sort_members_obj del: sort_members.simps)
  show ?thesis unfolding sort_obj_def m by (rule sort_key_map) (simp add: case_prod_beta)
qed

lemma read_sorted_refs:
  assumes "wf_refs d"
  shows "artifact_refs_from_dict (sort_obj (map (\<lambda>(k, r). (k, JObj (ar_to_dict r))) d)) = Inr (norm_refs d)"
proof -
  have "artifact_refs_from_dict (map (\<lambda>(k, r). (k, JObj (sort_obj (ar_to_dict r)))) ps) = Inr (map (\<lambda>(k, r). (k, norm_ref r)) ps)"
    if "\<forall>p \<in> set ps. wf_ref (snd p)" for ps
    using that by (induction ps) (auto simp: artifact_refs_from_dict_def ar_from_sorted)
  then show ?thesis unfolding sorted_refs norm_refs_def using assms by (simp add: wf_refs_def)
qed

lemma attempt_state_of_inverse [simp]: "attempt_state_of (attempt_state_value s) = Inr s"
  by (cases s) (simp_all add: attempt_state_of_def attempt_states_def)

lemma attempt_state_nonempty [simp]: "attempt_state_value s \<noteq> []"
  by (cases s) simp_all

lemma sort_opt_ref: "sort_members (opt_ref r) = (case r of None \<Rightarrow> JNull | Some x \<Rightarrow> JObj (sort_obj (ar_to_dict x)))"
  by (cases r) (simp_all add: sort_members_obj del: sort_members.simps(2))

lemma attempt_snapshot_eq:
  assumes "attempt_fields_ok a" "wf_attempt a"
  shows "attempt_from_snapshot (sort_obj (at_to_dict a)) = Inr (norm_attempt a)"
proof -
  let ?d = "sort_obj (at_to_dict a)"
  have j: "jget ?d f = sort_members (jget (at_to_dict a) f)" for f
    by (rule jget_sorted) (simp add: at_to_dict_def)
  have g: "dict_get ?d ''attempt_ordinal'' = Some (JInt (at_attempt_ordinal a))"
    by (subst map_of_sort_obj) (simp_all add: at_to_dict_def)
  have r: "snapshot_required_string ?d f = Inr s" if "jget (at_to_dict a) f = JStr s" "s \<noteq> []" for f s
    using that by (simp add: snapshot_required_iff j)
  have o: "snapshot_optional_string ?d f = Inr x" if "jget (at_to_dict a) f = opt_str x" for f x
    using that by (intro snapshot_opt) (simp add: j)
  have ob: "snapshot_json_object ?d f = Inr (sort_obj x)" if "jget (at_to_dict a) f = JObj x" for f x
    using that by (simp add: snapshot_json_object_def j sort_members_obj del: sort_members.simps)
  have rf: "snapshot_optional_artifact_ref ?d f = Inr (map_option norm_ref x)" if "jget (at_to_dict a) f = opt_ref x" "wf_opt_ref x" for f x
    using that by (cases x) (simp_all add: snapshot_optional_artifact_ref_def j sort_opt_ref wf_opt_ref_def ar_from_sorted del: opt_ref.simps)
  have rs: "snapshot_artifact_refs ?d f = Inr (norm_refs x)" if "jget (at_to_dict a) f = refs_json x" "wf_refs x" for f x
  proof -
    have "jget ?d f = JObj (sort_obj (map (\<lambda>(k, r). (k, JObj (ar_to_dict r))) x))"
      using that(1) by (simp add: j refs_json_def sort_members_obj del: sort_members.simps)
    moreover have "list_all (\<lambda>(k, v). is_jobj v) (sort_obj (map (\<lambda>(k, r). (k, JObj (ar_to_dict r))) x))"
      unfolding sorted_refs by (auto simp: list_all_iff)
    ultimately show ?thesis using read_sorted_refs[OF that(2)] by (simp add: snapshot_artifact_refs_def Let_def)
  qed
  have fields: "list_all (\<lambda>s. s \<noteq> []) [at_attempt_id a, at_task_id a, at_unit_id a, at_lease_id a, at_client_id a, at_attempt_kind a,
      at_created_at a, at_schema_version a]" "0 \<le> at_attempt_ordinal a"
    using assms(1) unfolding attempt_fields_ok_def by simp_all
  note w = assms(2)[unfolded wf_attempt_iff]
  note get = jget_def at_to_dict_def or_nothing_def or_empty_def
  have req: "snapshot_required_string ?d ''attempt_id'' = Inr (at_attempt_id a)"
    "snapshot_required_string ?d ''task_id'' = Inr (at_task_id a)"
    "snapshot_required_string ?d ''unit_id'' = Inr (at_unit_id a)"
    "snapshot_required_string ?d ''lease_id'' = Inr (at_lease_id a)"
    "snapshot_required_string ?d ''client_id'' = Inr (at_client_id a)"
    "snapshot_required_string ?d ''attempt_kind'' = Inr (at_attempt_kind a)"
    "snapshot_required_string ?d ''created_at'' = Inr (at_created_at a)"
    "snapshot_required_string ?d ''schema_version'' = Inr (at_schema_version a)"
    "snapshot_required_string ?d ''state'' = Inr (attempt_state_value (at_state a))"
    by (rule r, simp add: get, use fields(1) in simp)+
  have opt: "snapshot_optional_string ?d ''started_at'' = Inr (at_started_at a)"
    "snapshot_optional_string ?d ''submitted_at'' = Inr (at_submitted_at a)"
    "snapshot_optional_string ?d ''finished_at'' = Inr (at_finished_at a)"
    "snapshot_optional_string ?d ''failure_kind'' = Inr (at_failure_kind a)"
    "snapshot_optional_string ?d ''failure_reason'' = Inr (at_failure_reason a)"
    "snapshot_optional_string ?d ''superseded_by_attempt_id'' = Inr (at_superseded_by_attempt_id a)"
    by (rule o, simp add: get)+
  have ref: "snapshot_optional_artifact_ref ?d ''raw_output_ref'' = Inr (map_option norm_ref (at_raw_output_ref a))"
    "snapshot_optional_artifact_ref ?d ''parsed_output_ref'' = Inr (map_option norm_ref (at_parsed_output_ref a))"
    "snapshot_optional_artifact_ref ?d ''log_ref'' = Inr (map_option norm_ref (at_log_ref a))"
    by (rule rf, simp add: get, use w in simp)+
  have refs: "snapshot_artifact_refs ?d ''input_artifact_refs'' = Inr (norm_refs (or_empty (at_input_artifact_refs a)))"
    "snapshot_artifact_refs ?d ''candidate_output_refs'' = Inr (norm_refs (or_empty (at_candidate_output_refs a)))"
    by (rule rs, simp add: get, use w in simp)+
  have obj: "snapshot_json_object ?d ''environment_summary'' = Inr (sort_obj (or_nothing (at_environment_summary a)))"
    "snapshot_json_object ?d ''metadata'' = Inr (sort_obj (or_nothing (at_metadata a)))"
    by (rule ob, simp add: get)+
  have n: "snapshot_non_negative_int ?d ''attempt_ordinal'' 0 = Inr (at_attempt_ordinal a)"
    using fields(2) g by (simp add: snapshot_non_negative_int_def dict_get_default_def)
  show ?thesis by (simp add: attempt_from_snapshot_def norm_attempt_def req opt ref refs obj n)
qed

end
