(* ===== verification/Engine_Execution_Facts.thy ===== *)
theory Engine_Execution_Facts
  imports Engine_Execution Engine_Attempts Core_Registration
begin

text \<open>
  Submissions: what a successful one consists of, that one interrupted between its two events can be sent again, and
  that an attempt takes at most one.
\<close>

section \<open>The parts of a submission\<close>

lemma save_doc_eq: "save_doc h st body i args nonce (fs, L) = (s, Inr ref) \<longleftrightarrow>
    (\<exists>fs'. save_json h st fs (JObj body) i args nonce = Inr (fs', ref) \<and> s = (fs', L))"
  by (auto simp: save_doc_def split: sum.splits)

lemma append_prog_eq: "append_prog h now d (fs, L) = (s, Inr e) \<longleftrightarrow>
    (\<exists>L'. append_event h now L d = Inr (L', e) \<and> s = (fs, L'))"
  by (auto simp: append_prog_def split: sum.splits)

lemma read_prog_eq: "read_prog (fs, L) = (s, Inr es) \<longleftrightarrow> s = (fs, L) \<and> read_all (el_file L) = Inr es"
  by (auto simp: read_prog_def)

lemmas prog_eqs = save_doc_eq append_prog_eq read_prog_eq lift_res_eq_Inr

lemma require_store_ok [simp]: "require_store s = Inr st \<longleftrightarrow> s = Some st"
  by (cases s) (simp_all add: require_store_def)

text \<open>The verdict and the objects of a submission, and its two writes.\<close>

definition judged :: "ledger_event list \<Rightarrow> execution_submission \<Rightarrow> attempt \<Rightarrow> lease \<Rightarrow> attempt \<Rightarrow> acceptance_decision \<Rightarrow> bool" where
  "judged es x a l current d \<longleftrightarrow> authoritative_attempt es a = Inr current \<and>
     (\<exists>m. authoritative_lease es l = Inr m \<and> evaluate_submission_acceptance (submission_view_of x) current m = Inr d)"

definition second_write ::
  "hash \<Rightarrow> string \<Rightarrow> execution_submission \<Rightarrow> attempt \<Rightarrow> string \<Rightarrow> event_ledger \<Rightarrow> event_ledger \<Rightarrow> submission_flow \<Rightarrow> bool" where
  "second_write h now x current cid L1 L' r \<longleftrightarrow>
     (if xf_acceptance r = accepted
      then \<exists>b ae. transition_attempt current AS_SUBMITTED (xs_submitted_at x) ''execution_submission_recorded'' (submitted_args x) = Inr b \<and>
        append_event h now L1 (submitted_draft b cid (ev_event_id (xf_event r)) (xs_submitted_at x)) = Inr (L', ae) \<and>
        xf_attempt r = Some b \<and> xf_attempt_event r = Some ae
      else L' = L1 \<and> xf_attempt r = None \<and> xf_attempt_event r = None)"

lemma verdict_cases:
  "evaluate_submission_acceptance s a l = Inr d \<Longrightarrow> ac_acceptance_status d \<noteq> ''accepted'' \<longleftrightarrow> d \<noteq> accepted"
  by (auto simp: evaluate_submission_acceptance_def rejected_def accepted_def res_simps split: if_splits)

lemma advance_parts:
  assumes "(ac_acceptance_status d \<noteq> ''accepted'') = (d \<noteq> accepted)"
  shows "advance_submitted h now x current cid ref e d (fs, L1) = ((fs', L'), Inr r) \<longleftrightarrow>
    fs' = fs \<and> xf_submission r = x \<and> xf_submission_ref r = ref \<and> xf_event r = e \<and> xf_acceptance r = d \<and>
    second_write h now x current cid L1 L' r"
  using assms
  by (cases r) (auto simp: advance_submitted_def second_write_def submission_flow_of_def bindS_eq_Inr prog_eqs)

lemma submission_parts:
  assumes "ledger_ok h L"
  shows "record_execution_submission h (Some st) clock nonce x a l cid cause (fs, L) = ((fs', L'), Inr r) \<longleftrightarrow>
    xf_submission r = x \<and>
    (\<exists>current L1. judged (ledger_view L) x a l current (xf_acceptance r) \<and>
      save_json h st fs (JObj (xs_to_dict x)) (xs_submission_id x) (submission_doc_args x) nonce = Inr (fs', xf_submission_ref r) \<and>
      append_event h (clock 0) L (submission_draft x (xf_submission_ref r) (xf_acceptance r) cid cause) = Inr (L1, xf_event r) \<and>
      second_write h (clock 1) x current cid L1 L' r)"
    (is "?l = ?r")
proof
  assume ?l
  then obtain current m d ref fs1 L1 e where c: "authoritative_attempt (ledger_view L) a = Inr current"
    "authoritative_lease (ledger_view L) l = Inr m" "evaluate_submission_acceptance (submission_view_of x) current m = Inr d"
    "save_json h st fs (JObj (xs_to_dict x)) (xs_submission_id x) (submission_doc_args x) nonce = Inr (fs1, ref)"
    "append_event h (clock 0) L (submission_draft x ref d cid cause) = Inr (L1, e)"
    and t: "advance_submitted h (clock 1) x current cid ref e d (fs1, L1) = ((fs', L'), Inr r)"
    using assms by (auto simp: record_execution_submission_def bindS_eq_Inr prog_eqs)
  note t = t[unfolded advance_parts[OF verdict_cases[OF c(3)]]]
  then show ?r using c by (auto simp: judged_def)
next
  assume ?r
  then obtain current m L1 where c: "xf_submission r = x" "authoritative_attempt (ledger_view L) a = Inr current"
    "authoritative_lease (ledger_view L) l = Inr m" "evaluate_submission_acceptance (submission_view_of x) current m = Inr (xf_acceptance r)"
    "save_json h st fs (JObj (xs_to_dict x)) (xs_submission_id x) (submission_doc_args x) nonce = Inr (fs', xf_submission_ref r)"
    "append_event h (clock 0) L (submission_draft x (xf_submission_ref r) (xf_acceptance r) cid cause) = Inr (L1, xf_event r)"
    "second_write h (clock 1) x current cid L1 L' r" by (auto simp: judged_def)
  then have "advance_submitted h (clock 1) x current cid (xf_submission_ref r) (xf_event r) (xf_acceptance r) (fs', L1) = ((fs', L'), Inr r)"
    unfolding advance_parts[OF verdict_cases[OF c(4)]] by simp
  then show ?l
    unfolding record_execution_submission_def bindS_def lift_res_def read_prog_def save_doc_def append_prog_def
    using assms c by (simp add: require_store_def)
qed

section \<open>The drafts\<close>

definition wf_submission :: "execution_submission \<Rightarrow> bool" where
  "wf_submission x \<longleftrightarrow> wf_obj (xs_environment_summary x) \<and> wf_opt_ref (xs_raw_output_ref x) \<and> wf_opt_ref (xs_parsed_output_ref x) \<and>
     wf_refs (xs_candidate_output_refs x) \<and> wf_opt_ref (xs_log_ref x)"

lemma engine_args_ref: "wf_obj md \<Longrightarrow> wf_ref (saved_ref h st data i (engine_args ty sid md at))"
  by (simp add: wf_ref_def saved_ref_def engine_args_def wf_obj_def)

lemma submission_draft_wf:
  assumes "ref = saved_ref h st data i (submission_doc_args x)"
  shows "wf_draft (submission_draft x ref d cid cause)"
proof -
  have "wf_ref ref" unfolding assms submission_doc_args_def by (rule engine_args_ref) (simp add: wf_obj_def)
  then have "wf_obj (ar_to_dict ref)" by (simp only: wf_ar_to_dict)
  then show ?thesis by (simp add: submission_draft_def wf_engine_draft wf_obj_def)
qed

lemma submitted_attempt:
  assumes "transition_attempt a AS_SUBMITTED at reason (submitted_args x) = Inr b"
  shows "at_state b = AS_SUBMITTED" "at_attempt_id b = at_attempt_id a" "at_candidate_output_refs b = Some (xs_candidate_output_refs x)"
    "wf_attempt a \<Longrightarrow> wf_submission x \<Longrightarrow> wf_attempt b"
proof -
  have b: "b = a\<lparr>at_state := AS_SUBMITTED, at_submitted_at := Some at,
      at_environment_summary := or_opt (Some (xs_environment_summary x)) (at_environment_summary a),
      at_raw_output_ref := xs_raw_output_ref x, at_parsed_output_ref := xs_parsed_output_ref x,
      at_candidate_output_refs := Some (xs_candidate_output_refs x), at_log_ref := xs_log_ref x\<rparr>"
    using assms by (auto simp: transition_attempt_def submitted_args_def no_args_def or_empty_def split: if_splits)
  show "at_state b = AS_SUBMITTED" "at_attempt_id b = at_attempt_id a" "at_candidate_output_refs b = Some (xs_candidate_output_refs x)"
    by (simp_all add: b)
  have e: "or_nothing (or_opt (Some u) v) = (if u = [] then or_nothing v else u)" for u :: jobj and v
    by (simp add: or_nothing_def or_opt_def)
  show "wf_attempt b" if "wf_attempt a" "wf_submission x"
    using that unfolding wf_attempt_iff wf_submission_def b by (simp add: e) (simp add: or_empty_def)
qed

lemma submitted_draft_wf: "wf_attempt b \<Longrightarrow> wf_draft (submitted_draft b cid cause at)"
  by (simp add: submitted_draft_def wf_engine_draft wf_attempt_def wf_obj_def)

lemma submission_draft_type: "dr_event_type (submission_draft x ref d cid cause) = Known EXECUTION_SUBMISSION_RECORDED"
  by (simp add: submission_draft_def)

lemma other_type: "from_draft e (submission_draft x ref d cid cause) \<Longrightarrow>
    \<not> is_type e ATTEMPT_STATE_CHANGED \<and> \<not> is_type e LEASE_STATE_CHANGED"
  by (simp add: from_draft_def submission_draft_type dict_get_default_def event_types_def)

lemma submitted_type: "from_draft e (submitted_draft b cid cause at) \<Longrightarrow> \<not> is_type e LEASE_STATE_CHANGED"
  by (simp add: from_draft_def submitted_draft_def dict_get_default_def event_types_def)

text \<open>The time of day does not matter to an event that has a time of its own.\<close>

lemma append_event_clock:
  assumes "dr_occurred_at d = Some t" "t \<noteq> []"
  shows "append_event h now L d = append_event h later L d"
proof -
  have "draft_event h now n p d b = draft_event h later n p d b" for n p b
    using assms by (simp add: draft_event_def or_str_def)
  then show ?thesis by (simp only: append_event_def Let_def)
qed

lemma parsed_nonempty: "parse_utc t = Inr n \<Longrightarrow> t \<noteq> []"
  by (auto simp: parse_utc_def)

section \<open>Sending a submission again\<close>

text \<open>Between the two events of a submission the ledger gives the same verdict on it.\<close>

lemma judged_after_first:
  assumes "append_event h now L (submission_draft x ref d cid cause) = Inr (L1, e)"
  shows "judged (ledger_view L1) x a l current d' = judged (ledger_view L) x a l current d'"
proof -
  obtain new where v: "ledger_view L1 = ledger_view L @ new" "\<forall>y \<in> set new. from_draft y (submission_draft x ref d cid cause)"
    using append_event_view[OF assms] by blast
  then have "\<forall>y \<in> set new. \<not> is_type y ATTEMPT_STATE_CHANGED" "\<forall>y \<in> set new. \<not> is_type y LEASE_STATE_CHANGED"
    using other_type by blast+
  then show ?thesis unfolding judged_def v(1) by (simp add: authoritative_others)
qed

lemma append_event_known:
  assumes "ledger_ok h L" "wf_draft d" "append_event h now L d = Inr (L1, e)"
  shows "append_event h later L1 d = Inr (L1, e)"
  using ledger.app_again[OF append_event_ok[OF assms] ledger.app_mem[OF assms(1,3)]] ledger.app_stands[OF assms(1,3)] by blast

lemma submission_doc_ref:
  "plain_id h st (xs_submission_id x) \<Longrightarrow>
    save_json h st fs (JObj (xs_to_dict x)) (xs_submission_id x) (submission_doc_args x) nonce = Inr (fs', ref) \<Longrightarrow>
    ref = saved_ref h st (canonical_json (JObj (xs_to_dict x))) (xs_submission_id x) (submission_doc_args x)"
  by (drule save_bytes_refines(1)[of h st _ fs _ _ nonce fs' ref]) (simp_all add: save_json_def submission_doc_args_def engine_args_def)

text \<open>
  C14 submission_resumes: a submission that was interrupted after its document and its first event can be sent again, at any
  later time and with other temporary names: the disk stays as it is, the ledger becomes what it would have
  become without the interruption, and the result is the same.
\<close>

theorem submission_resumes:
  assumes "ledger_reach h L" "plain_id h st (xs_submission_id x)" "no_temps fs" "wf_submission x" "wf_attempt a"
    and "record_execution_submission h (Some st) clock nonce x a l cid cause (fs, L) = ((fs', L'), Inr r)"
    and "append_event h (clock 0) L (submission_draft x (xf_submission_ref r) (xf_acceptance r) cid cause) = Inr (L1, e)"
  shows "record_execution_submission h (Some st) later nonce' x a l cid cause (fs', L1) = ((fs', L'), Inr r)"
proof -
  have ok: "ledger_ok h L" by (rule ledger_reach_ok[OF assms(1)])
  obtain current where p: "xf_submission r = x" "judged (ledger_view L) x a l current (xf_acceptance r)"
    "save_json h st fs (JObj (xs_to_dict x)) (xs_submission_id x) (submission_doc_args x) nonce = Inr (fs', xf_submission_ref r)"
    "xf_event r = e" "second_write h (clock 1) x current cid L1 L' r"
    using assms(6,7) unfolding submission_parts[OF ok] by auto
  have wf: "wf_draft (submission_draft x (xf_submission_ref r) (xf_acceptance r) cid cause)"
    by (rule submission_draft_wf[OF submission_doc_ref[OF assms(2) p(3)]])
  have ok1: "ledger_ok h L1" by (rule append_event_ok[OF ok wf assms(7)])
  have n: "no_temps fs'" by (rule save_no_temps[OF assms(2) p(3)[unfolded save_json_def] assms(3)])
  have save: "save_json h st fs' (JObj (xs_to_dict x)) (xs_submission_id x) (submission_doc_args x) nonce' = Inr (fs', xf_submission_ref r)"
    unfolding save_json_def by (rule save_bytes_known[OF assms(2) p(3)[unfolded save_json_def] assms(3) map_le_refl n])
  have first: "append_event h (later 0) L1 (submission_draft x (xf_submission_ref r) (xf_acceptance r) cid cause) = Inr (L1, xf_event r)"
    unfolding p(4) by (rule append_event_known[OF ok wf assms(7)])
  have "xs_submitted_at x \<noteq> []" if "xf_acceptance r = accepted"
    using p(2) that parsed_nonempty by (auto simp: judged_def acceptance_iff submission_view_of_def)
  then have "second_write h (later 1) x current cid L1 L' r"
    using p(5) append_event_clock[of "submitted_draft _ cid (ev_event_id (xf_event r)) (xs_submitted_at x)" "xs_submitted_at x" h "clock 1" L1 "later 1"]
    by (cases "xf_acceptance r = accepted") (auto simp: second_write_def submitted_draft_def engine_draft_def)
  then show ?thesis
    unfolding submission_parts[OF ok1] judged_after_first[OF assms(7)] using p save first by blast
qed

text \<open>The verdict of an accepted submission is in its event.\<close>

lemma verdict_recorded:
  assumes "stands_for_draft e (submission_draft x ref d cid cause)" "stands_for_draft e (submission_draft x' ref' d' cid' cause')"
    and "wf_draft (submission_draft x ref d cid cause)" "wf_draft (submission_draft x' ref' d' cid' cause')"
  shows "ac_acceptance_status d = ac_acceptance_status d'"
proof -
  let ?p = "dr_payload (submission_draft x ref d cid cause)" and ?q = "dr_payload (submission_draft x' ref' d' cid' cause')"
  have "canonical_json (JObj ?p) = canonical_json (JObj ?q)"
    using assms(1,2) by (simp add: stands_for_draft_def draft_signature_def idempotency_signature_def event_signature_def)
  then have "sort_members (JObj ?p) = sort_members (JObj ?q)"
    using assms(3,4) by (subst (asm) canonical_json_inject) (auto simp: wf_draft_def wf_obj_def)
  then have s: "sort_obj ?p = sort_obj ?q" by (simp only: sort_members_obj json.inject)
  have "jget (sort_obj ?p) ''acceptance_status'' = JStr (ac_acceptance_status d)"
    "jget (sort_obj ?q) ''acceptance_status'' = JStr (ac_acceptance_status d')"
    by (simp_all add: jget_sorted submission_draft_def) (simp_all add: jget_def)
  then show ?thesis by (simp add: s)
qed

text \<open>What an accepted submission leaves in the ledger.\<close>

lemma accepted_submission_left:
  assumes ok: "ledger_ok h L" and plain: "plain_id h st (xs_submission_id x)" and wfs: "wf_submission x" "wf_attempt a"
    and run: "record_execution_submission h (Some st) clock nonce x a l cid cause (fs, L) = ((fs', L'), Inr r)"
    and new: "xf_attempt r = Some b" "xf_attempt_event r = Some ae" "ae \<notin> set (el_events L)"
  defines "d \<equiv> submission_draft x (xf_submission_ref r) (xf_acceptance r) cid cause"
  shows "ledger_ok h L' \<and> xf_acceptance r = accepted \<and> at_state b = AS_SUBMITTED \<and> wf_draft d \<and>
    latest_attempt_snapshot (ledger_view L') (at_attempt_id b) = Inr (Some (sort_obj (at_to_dict b))) \<and>
    xf_event r \<in> set (el_events L') \<and> stands_for_draft (xf_event r) d \<and> ev_idempotency_key (xf_event r) = dr_idempotency_key d"
proof -
  obtain current L1 where p: "judged (ledger_view L) x a l current (xf_acceptance r)"
    "save_json h st fs (JObj (xs_to_dict x)) (xs_submission_id x) (submission_doc_args x) nonce = Inr (fs', xf_submission_ref r)"
    "append_event h (clock 0) L d = Inr (L1, xf_event r)" "second_write h (clock 1) x current cid L1 L' r"
    using run unfolding submission_parts[OF ok] d_def by auto
  have acc: "xf_acceptance r = accepted" using p(4) new(1) by (auto simp: second_write_def split: if_splits)
  let ?b = "submitted_draft b cid (ev_event_id (xf_event r)) (xs_submitted_at x)"
  have t: "transition_attempt current AS_SUBMITTED (xs_submitted_at x) ''execution_submission_recorded'' (submitted_args x) = Inr b"
    and ap: "append_event h (clock 1) L1 ?b = Inr (L', ae)"
    using p(4) acc new by (auto simp: second_write_def)
  have wf: "wf_draft d" unfolding d_def by (rule submission_draft_wf[OF submission_doc_ref[OF plain p(2)]])
  have ok1: "ledger_ok h L1" by (rule append_event_ok[OF ok wf p(3)])
  have "wf_attempt b"
    using submitted_attempt(4)[OF t authoritative_attempt_wf[OF ok _ wfs(2)] wfs(1)] p(1) by (auto simp: judged_def)
  then have wb: "wf_draft ?b" by (rule submitted_draft_wf)
  have ab: "attempt_draft_of ?b b" by (simp add: attempt_draft_of_def submitted_draft_def jget_def)
  note s = ledger.app_stands[OF ok p(3)]
  have "dr_idempotency_key ?b \<noteq> dr_idempotency_key d" by (simp add: submitted_draft_def submission_draft_def d_def)
  then have "ae \<noteq> xf_event r" using ledger.app_stands[OF ok1 ap] s by metis
  then have n: "ae \<notin> set (el_events L1)" using new(3) ledger.app_grows[OF ok p(3)] by auto
  then have "el_events L' = el_events L1 @ [ae]" using ledger.app_grows[OF ok1 ap] by blast
  moreover have "from_draft (norm_event ae) ?b"
    using ap n by (cases rule: append_event_cases) (auto simp: from_draft_event dest: ledger_get_mem[OF ok1])
  ultimately have "latest_attempt_snapshot (ledger_view L') (at_attempt_id b) = Inr (Some (sort_obj (at_to_dict b)))"
    "xf_event r \<in> set (el_events L')"
    using latest_attempt_of_draft[OF _ ab] ledger.app_mem[OF ok p(3)] by (simp_all add: ledger_view_def)
  then show ?thesis using append_event_ok[OF ok1 wb ap] acc submitted_attempt(1)[OF t] wf s by blast
qed


section \<open>A submission at work\<close>

definition sample_environment :: environment_ref where
  "sample_environment =
     \<lparr>en_environment_id = ''env'', en_environment_digest = ''d'', en_runtime = ''python'', en_tool_versions = [],
      en_resource_limits = [], en_fixture_profile_digest = ''d'', en_seed = None, en_clock_policy = ''fixed'',
      en_created_at = ''now'', en_schema_version = ''phase3.environment_ref.v1''\<rparr>"

definition sample_answer :: "string \<Rightarrow> execution_submission" where
  "sample_answer i =
     \<lparr>xs_submission_id = i, xs_request_id = ''request_1'', xs_task_id = ''task_1'', xs_unit_id = ''u1'',
      xs_attempt_id = ''attempt_1'', xs_lease_id = ''lease_1'', xs_fencing_token = ''token_1'', xs_executor_id = ''mock_1'',
      xs_executor_version = ''1'', xs_result_kind = ''candidate'', xs_raw_output_ref = None, xs_parsed_output_ref = None,
      xs_candidate_output_refs = [], xs_parse_failure_ref = None, xs_log_ref = None, xs_environment_ref = sample_environment,
      xs_environment_summary = [], xs_provenance_ref = None, xs_usage_summary = None, xs_error = None,
      xs_submitted_at = t1, xs_schema_version = ''phase3.execution_submission.v1''\<rparr>"

lemma sample_answer_wf: "wf_submission (sample_answer i)"
  by (simp add: wf_submission_def sample_answer_def wf_obj_def wf_opt_ref_def wf_refs_def)

lemma sample_answer_id: "xs_submission_id (sample_answer i) = i" "xs_submitted_at (sample_answer i) = t1"
  by (simp_all add: sample_answer_def)

lemma sample_running_wf: "wf_attempt sample_running"
  by (simp add: wf_attempt_iff sample_running_def claim_attempt_def wf_obj_def wf_opt_ref_def wf_refs_def or_nothing_def or_empty_def)

lemma sample_id_plain: "i \<in> {''a1'', ''a2''} \<Longrightarrow> plain_id id sample_store i"
  by (auto simp: plain_id_def plain_store_def plain_name_def sample_store_def artifact_filename_def)

lemma sample_doc_saved:
  assumes "i \<in> {''a1'', ''a2''}"
  shows "\<exists>fs' ref. save_json id sample_store Map.empty body i args ''1'' = Inr (fs', ref)"
proof -
  note p = sample_id_plain[OF assms]
  have "\<exists>fs'. save_bytes id sample_store Map.empty data i ar ''1'' = Inr (fs', saved_ref id sample_store data i ar)" for data ar
    by (rule save_bytes_total[OF p save_spec_new[OF p]]) (simp_all add: visible_def fresh_temps_def)
  then show ?thesis unfolding save_json_def by blast
qed

text \<open>A new key is accepted by any ledger.\<close>

lemma append_event_fresh:
  assumes "ledger_ok h L" "dr_idempotency_key d \<notin> ev_idempotency_key ` set (el_events L)"
  shows "\<exists>L' e. append_event h now L d = Inr (L', e) \<and> el_events L' = el_events L @ [e] \<and> ev_idempotency_key e = dr_idempotency_key d"
proof -
  have "dict_get (el_by_key L) (dr_idempotency_key d) = None"
    using assms(2) ledger_get_mem[OF assms(1), of "dr_idempotency_key d"]
    by (cases "dict_get (el_by_key L) (dr_idempotency_key d)") (auto simp: image_iff)
  then show ?thesis by (simp add: append_event_def Let_def draft_event_def finalize_event_def)
qed

lemma sample_judged: "judged [] (sample_answer i) sample_running sample_lease sample_running accepted"
proof -
  have "authoritative_attempt [] sample_running = Inr sample_running" "authoritative_lease [] sample_lease = Inr sample_lease"
    by (simp_all add: authoritative_attempt_def authoritative_lease_def latest_attempt_snapshot_def latest_lease_snapshot_def latest_event_def)
  moreover have "evaluate_submission_acceptance (submission_view_of (sample_answer i)) sample_running sample_lease = Inr accepted"
    by (simp add: acceptance_iff submission_view_of_def sample_answer_def sample_running_def sample_lease_def claim_attempt_def
        sample_decision_def sample_times sample_deadline)
  ultimately show ?thesis by (simp add: judged_def)
qed

lemma sample_transition:
  "\<exists>b. transition_attempt sample_running AS_SUBMITTED t1 ''execution_submission_recorded'' (submitted_args (sample_answer i)) = Inr b \<and>
     at_attempt_id b = ''attempt_1'' \<and> attempt_fields_ok b"
  by (simp add: transition_attempt_def attempt_transitions_def sample_running_def claim_attempt_def attempt_fields_ok_def
      sample_decision_def t0_def)

lemma sample_accepted_run:
  assumes "i \<in> {''a1'', ''a2''}"
  obtains fs' L1 L' r b ae where "record_execution_submission id (Some sample_store) (\<lambda>_. ''now'') ''1'' (sample_answer i) sample_running sample_lease
      ''corr'' None (Map.empty, empty_ledger) = ((fs', L'), Inr r)"
    "append_event id ''now'' empty_ledger (submission_draft (sample_answer i) (xf_submission_ref r) (xf_acceptance r) ''corr'' None) = Inr (L1, xf_event r)"
    "xf_attempt r = Some b" "xf_attempt_event r = Some ae" "at_attempt_id b = ''attempt_1''" "attempt_fields_ok b" "wf_attempt b"
    "ev_idempotency_key ` set (el_events L') = {''execution_submission:'' @ i, ''attempt:state:attempt_1:Running:Submitted:corr''}"
    "authoritative_lease (ledger_view L') sample_lease = Inr sample_lease"
proof -
  let ?x = "sample_answer i"
  obtain fs' ref where s: "save_json id sample_store Map.empty (JObj (xs_to_dict ?x)) i (submission_doc_args ?x) ''1'' = Inr (fs', ref)"
    using sample_doc_saved[OF assms] by blast
  let ?d = "submission_draft ?x ref accepted ''corr'' None"
  obtain L1 e where e: "append_event id ''now'' empty_ledger ?d = Inr (L1, e)" "el_events L1 = [e]" "ev_idempotency_key e = dr_idempotency_key ?d"
    using append_event_fresh[OF empty_ok(1), of ?d id "''now''"] by (auto simp: empty_ok)
  obtain b where b: "transition_attempt sample_running AS_SUBMITTED t1 ''execution_submission_recorded'' (submitted_args ?x) = Inr b"
    "at_attempt_id b = ''attempt_1''" "attempt_fields_ok b" using sample_transition by blast
  have "wf_draft ?d"
    by (rule submission_draft_wf[OF submission_doc_ref[of id sample_store]]) (use s assms sample_id_plain in \<open>simp_all add: sample_answer_id\<close>)
  then have ok1: "ledger_ok id L1" using append_event_ok[OF empty_ok(1) _ e(1)] by blast
  let ?b = "submitted_draft b ''corr'' (ev_event_id e) t1"
  have "dr_idempotency_key ?b \<noteq> dr_idempotency_key ?d" by (simp add: submitted_draft_def submission_draft_def)
  then obtain L' ae where ae: "append_event id ''now'' L1 ?b = Inr (L', ae)" "el_events L' = [e, ae]"
      "ev_idempotency_key ae = dr_idempotency_key ?b"
    using append_event_fresh[OF ok1, of ?b "''now''"] e(2,3) by auto
  have keys: "ev_idempotency_key ` set (el_events L') = {''execution_submission:'' @ i, ''attempt:state:attempt_1:Running:Submitted:corr''}"
    using ae(2,3) e(3) b(2) by (simp add: submission_draft_def submitted_draft_def sample_answer_id)
  obtain n1 n2 where v: "ledger_view L' = n1 @ n2" "\<forall>y \<in> set n1. from_draft y ?d" "\<forall>y \<in> set n2. from_draft y ?b"
    using append_event_view[OF e(1)] append_event_view[OF ae(1)] by (metis append_Nil empty_ok(2))
  have "\<not> is_type y LEASE_STATE_CHANGED" if "y \<in> set (ledger_view L')" for y
    using that unfolding v(1) using v(2,3) submitted_type other_type by (metis Un_iff set_append)
  then have lease: "authoritative_lease (ledger_view L') sample_lease = Inr sample_lease"
    using authoritative_others(2)[of "ledger_view L'" "[]" sample_lease] sample_judged[of i]
    by (simp add: authoritative_lease_def latest_lease_snapshot_def latest_event_def)
  let ?r = "\<lparr>xf_submission = ?x, xf_submission_ref = ref, xf_event = e, xf_acceptance = accepted, xf_attempt = Some b, xf_attempt_event = Some ae\<rparr>"
  have sw: "second_write id ''now'' ?x sample_running ''corr'' L1 L' ?r"
    using b(1) ae(1) by (simp add: second_write_def sample_answer_id)
  have "record_execution_submission id (Some sample_store) (\<lambda>_. ''now'') ''1'' ?x sample_running sample_lease ''corr'' None (Map.empty, empty_ledger)
      = ((fs', L'), Inr ?r)"
    unfolding submission_parts[OF empty_ok(1)] empty_ok(2) sample_answer_id
    using sample_judged[of i] s e(1) sw by auto
  moreover have "wf_attempt b" by (rule submitted_attempt(4)[OF b(1) sample_running_wf sample_answer_wf])
  ultimately show thesis using e(1) b keys lease by (intro that[of fs' L' ?r L1 b ae]) simp_all
qed

lemma submission_resumes_witness:
  "\<exists>fs' L1 L' r. record_execution_submission id (Some sample_store) (\<lambda>_. ''now'') ''1'' (sample_answer ''a1'') sample_running sample_lease
      ''corr'' None (Map.empty, empty_ledger) = ((fs', L'), Inr r) \<and>
    record_execution_submission id (Some sample_store) (\<lambda>_. ''later'') ''2'' (sample_answer ''a1'') sample_running sample_lease
      ''corr'' None (fs', L1) = ((fs', L'), Inr r)"
proof -
  obtain fs' L1 L' r where s: "record_execution_submission id (Some sample_store) (\<lambda>_. ''now'') ''1'' (sample_answer ''a1'') sample_running
      sample_lease ''corr'' None (Map.empty, empty_ledger) = ((fs', L'), Inr r)"
    "append_event id ''now'' empty_ledger (submission_draft (sample_answer ''a1'') (xf_submission_ref r) (xf_acceptance r) ''corr'' None) = Inr (L1, xf_event r)"
    by (rule sample_accepted_run[of "''a1''"]) simp_all
  have p: "plain_id id sample_store (xs_submission_id (sample_answer ''a1''))" by (simp add: sample_answer_id sample_id_plain)
  have n: "no_temps Map.empty" by (simp add: no_temps_def)
  from submission_resumes[OF empty_reach p n sample_answer_wf sample_running_wf s] s(1) show ?thesis by blast
qed


end
