(* ===== verification/Engine_Verification.thy ===== *)
theory Engine_Verification
  imports Engine_Execution_Facts Core_Merge_Coordinator
begin

text \<open>
  \<open>protocol_engine.py\<close>: recording verification reports, and binding the canonical outputs of a unit. Both append
  two events one after the other; the state is the ledger.
\<close>

definition append_ledger :: "hash \<Rightarrow> string \<Rightarrow> event_draft \<Rightarrow> (event_ledger, ledger_event) prog" where
  "append_ledger h now d = to_prog (\<lambda>L. append_event h now L d)"

definition read_ledger_prog :: "(event_ledger, ledger_event list) prog" where
  "read_ledger_prog = (\<lambda>L. (L, read_all (el_file L)))"

text \<open>Equality of two dictionaries of artifact references.\<close>

definition same_refs :: "(string, artifact_ref) dict \<Rightarrow> (string, artifact_ref) dict \<Rightarrow> bool" where
  "same_refs a b \<longleftrightarrow> py_eq (refs_json a) (refs_json b)"

section \<open>Recording a report\<close>

text \<open>The report is constructed again, so that it cannot have been changed since; then it is compared with the attempt.\<close>

definition remade_report :: "verification_report \<Rightarrow> verification_report res" where
  "remade_report r = mk_verification_report (r\<lparr>
     vr_failure_summary := (case vr_failure_summary r of Some d \<Rightarrow> if d = [] then None else Some d | None \<Rightarrow> None),
     vr_metadata := Some (or_empty (vr_metadata r))\<rparr>)"

definition passed_status :: "string \<Rightarrow> bool" where
  "passed_status s \<longleftrightarrow> s = ''passed'' \<or> s = ''accepted''"

definition check_report_for_attempt :: "hash \<Rightarrow> verification_report \<Rightarrow> attempt \<Rightarrow> unit res" where
  "check_report_for_attempt h v a = checks
     [raise_if (vr_candidate_output_bundle_digest v \<noteq> digest_json h (refs_json (vr_candidate_output_refs v)))
        (ValueError ''verification report candidate output bundle digest mismatch''),
      raise_if (passed_status (vr_status v) \<and> \<not> vr_eligible_for_canonical v)
        (ValueError ''passed verification report must have all required layers passed''),
      raise_if (vr_status v \<in> {''rejected'', ''error''} \<and> vr_eligible_for_canonical v)
        (ValueError ''non-passed verification report cannot be canonical eligible''),
      raise_if (filter (\<lambda>n. \<not> dict_has (vr_candidate_output_refs v) n) (vr_required_output_names v) \<noteq> [] \<and>
          jget (layer_of (vr_layer_results v) ''required_output_coverage_check'') ''status'' = JStr ''passed'')
        (ValueError ''required output coverage layer contradicts candidate outputs''),
      raise_if (case at_candidate_output_refs a of None \<Rightarrow> False | Some refs \<Rightarrow> \<not> same_refs refs (vr_candidate_output_refs v))
        (ValueError ''verification report candidate outputs do not match attempt'')]"

definition validate_verification_report_for_attempt ::
  "hash \<Rightarrow> verification_report \<Rightarrow> attempt \<Rightarrow> verification_report res" where
  "validate_verification_report_for_attempt h r a =
     seqE (raise_if (at_state a \<noteq> AS_SUBMITTED) (ValueError ''attempt must be Submitted before verification recording''))
     (seqE (raise_if (vr_task_id r \<noteq> at_task_id a \<or> vr_unit_id r \<noteq> at_unit_id a \<or> vr_attempt_id r \<noteq> at_attempt_id a)
        (ValueError ''verification report does not match attempt''))
     (bindE (remade_report r) (\<lambda>v. seqE (check_report_for_attempt h v a) (Inr v))))"

definition verification_failure_message :: "verification_report \<Rightarrow> string" where
  "verification_failure_message r =
     (case or_nothing (vr_failure_summary r) of [] \<Rightarrow> ''verification rejected''
      | d \<Rightarrow> (case jget d ''message'' of JStr s \<Rightarrow> if s = [] then ''verification rejected'' else s | _ \<Rightarrow> ''verification rejected''))"

definition verification_draft :: "hash \<Rightarrow> verification_report \<Rightarrow> string \<Rightarrow> string option \<Rightarrow> event_draft" where
  "verification_draft h v cid cause =
     engine_draft VERIFICATION_RECORDED ''VerificationReport'' (vr_verification_report_id v) (vr_task_id v) cid cause
       (''verification:'' @ vr_submission_id v @ '':'' @ vr_validator_policy_id v)
       [(''schema_version'', JStr ''phase4.verification_record.v1''),
        (''verification_report'', JObj (vr_to_dict v)),
        (''verification_report_digest'', JStr (digest_json h (JObj (vr_to_dict v)))),
        (''status'', JStr (vr_status v)),
        (''eligible_for_canonical'', JBool (vr_eligible_for_canonical v)),
        (''task_id'', JStr (vr_task_id v)),
        (''unit_id'', JStr (vr_unit_id v)),
        (''attempt_id'', JStr (vr_attempt_id v)),
        (''submission_id'', JStr (vr_submission_id v)),
        (''submission_event_seq'', JInt (vr_submission_event_seq v)),
        (''candidate_output_bundle_digest'', JStr (vr_candidate_output_bundle_digest v)),
        (''validator_policy_id'', JStr (vr_validator_policy_id v)),
        (''plugin_id'', JStr (vr_plugin_id v)),
        (''plugin_version'', JStr (vr_plugin_version v)),
        (''completed_at'', JStr (vr_completed_at v))] (vr_completed_at v)"

definition verified_state :: "verification_report \<Rightarrow> attempt_state" where
  "verified_state v = (if passed_status (vr_status v) then AS_VERIFIED else AS_REJECTED)"

definition verified_reason :: "verification_report \<Rightarrow> string" where
  "verified_reason v = (if verified_state v = AS_VERIFIED then ''verification_passed'' else ''verification_rejected'')"

definition verified_attempt :: "verification_report \<Rightarrow> attempt \<Rightarrow> attempt res" where
  "verified_attempt v a =
     transition_attempt a (verified_state v) (vr_completed_at v) (verified_reason v)
       (no_args\<lparr>aa_failure_kind := (if verified_state v = AS_REJECTED then Some ''invalid_output'' else None),
          aa_failure_reason := (if verified_state v = AS_REJECTED then Some (verification_failure_message v) else None)\<rparr>)"

definition verified_draft :: "verification_report \<Rightarrow> attempt \<Rightarrow> string \<Rightarrow> string \<Rightarrow> event_draft" where
  "verified_draft v b cid cause =
     engine_draft ATTEMPT_STATE_CHANGED ''Attempt'' (at_attempt_id b) (at_task_id b) cid (Some cause)
       (''attempt:state:'' @ at_attempt_id b @ '':Submitted:'' @ attempt_state_value (verified_state v) @ '':verification:'' @
         vr_verification_report_id v)
       [(''old_state'', JStr (attempt_state_value AS_SUBMITTED)),
        (''new_state'', JStr (attempt_state_value (verified_state v))),
        (''attempt'', JObj (at_to_dict b)),
        (''reason'', JStr (verified_reason v)),
        (''verification_report_id'', JStr (vr_verification_report_id v)),
        (''correlation_id'', JStr cid)] (vr_completed_at v)"

record verification_flow =
  vf_report :: verification_report
  vf_event :: ledger_event
  vf_attempt :: "attempt option"
  vf_attempt_event :: "ledger_event option"

definition record_verification ::
  "hash \<Rightarrow> (nat \<Rightarrow> string) \<Rightarrow> verification_report \<Rightarrow> attempt \<Rightarrow> string \<Rightarrow> string option \<Rightarrow> (event_ledger, verification_flow) prog" where
  "record_verification h clock r a cid cause =
     bindS (lift_res (validate_verification_report_for_attempt h r a)) (\<lambda>v.
     bindS (append_ledger h (clock 0) (verification_draft h v cid cause)) (\<lambda>e.
     if vr_status v = ''error''
     then lift_res (Inr \<lparr>vf_report = v, vf_event = e, vf_attempt = None, vf_attempt_event = None\<rparr>)
     else
       bindS (lift_res (verified_attempt v a)) (\<lambda>b.
       bindS (append_ledger h (clock 1) (verified_draft v b cid (ev_event_id e))) (\<lambda>ae.
       lift_res (Inr \<lparr>vf_report = v, vf_event = e, vf_attempt = Some b, vf_attempt_event = Some ae\<rparr>)))))"

section \<open>Reading reports and selections\<close>

definition dict_item :: "jobj \<Rightarrow> string \<Rightarrow> jobj res" where
  "dict_item d k = bindE (jitem d k) (\<lambda>_. dict_default d k)"

definition strs_item :: "jobj \<Rightarrow> string \<Rightarrow> string list res" where
  "strs_item d k = bindE (jitem d k) (\<lambda>v. case v of
     JArr xs \<Rightarrow> mapE (\<lambda>x. case x of JStr s \<Rightarrow> Inr s | _ \<Rightarrow> Inl (TypeError k)) xs
   | _ \<Rightarrow> Inl (TypeError k))"

definition refs_item :: "jobj \<Rightarrow> string \<Rightarrow> (string, artifact_ref) dict res" where
  "refs_item d k = bindE (obj_item d k) artifact_refs_from_dict"

definition verification_report_from_payload :: "jobj \<Rightarrow> verification_report res" where
  "verification_report_from_payload d =
     bindE (str_item d ''verification_report_id'') (\<lambda>report_id.
     bindE (str_item d ''task_id'') (\<lambda>task_id.
     bindE (str_item d ''unit_id'') (\<lambda>unit_id.
     bindE (str_item d ''attempt_id'') (\<lambda>attempt_id.
     bindE (str_item d ''submission_id'') (\<lambda>submission_id.
     bindE (bindE (jitem d ''submission_event_seq'') py_int) (\<lambda>submission_event_seq.
     bindE (str_item d ''candidate_output_bundle_digest'') (\<lambda>bundle_digest.
     bindE (refs_item d ''candidate_output_refs'') (\<lambda>refs.
     bindE (strs_item d ''required_output_names'') (\<lambda>required.
     bindE (str_item d ''output_contract_id'') (\<lambda>output_contract_id.
     bindE (str_item d ''validator_policy_id'') (\<lambda>validator_policy_id.
     bindE (str_item d ''plugin_id'') (\<lambda>plugin_id.
     bindE (str_item d ''plugin_version'') (\<lambda>plugin_version.
     bindE (str_item d ''plugin_descriptor_digest'') (\<lambda>plugin_descriptor_digest.
     bindE (str_item d ''status'') (\<lambda>status.
     bindE (jitem d ''eligible_for_canonical'') (\<lambda>eligible.
     bindE (dict_item d ''layer_results'') (\<lambda>layer_results.
     bindE (if truthy (jget d ''failure_summary'') then bindE (dict_item d ''failure_summary'') (\<lambda>s. Inr (Some s)) else Inr None)
       (\<lambda>failure_summary.
     bindE (dict_item d ''verification_environment'') (\<lambda>environment.
     bindE (dict_item d ''verifier'') (\<lambda>verifier.
     bindE (str_item d ''started_at'') (\<lambda>started_at.
     bindE (str_item d ''completed_at'') (\<lambda>completed_at.
     bindE (dict_default d ''metadata'') (\<lambda>metadata.
     bindE (str_default d ''schema_version'' ''phase4.verification_report.v1'') (\<lambda>schema_version.
     mk_verification_report
       \<lparr>vr_verification_report_id = report_id, vr_task_id = task_id, vr_unit_id = unit_id, vr_attempt_id = attempt_id,
        vr_submission_id = submission_id, vr_submission_event_seq = submission_event_seq,
        vr_candidate_output_bundle_digest = bundle_digest, vr_candidate_output_refs = refs,
        vr_required_output_names = required, vr_output_contract_id = output_contract_id,
        vr_validator_policy_id = validator_policy_id, vr_plugin_id = plugin_id, vr_plugin_version = plugin_version,
        vr_plugin_descriptor_digest = plugin_descriptor_digest, vr_status = status,
        vr_eligible_for_canonical = truthy eligible, vr_layer_results = layer_results,
        vr_failure_summary = failure_summary, vr_verification_environment = environment, vr_verifier = verifier,
        vr_started_at = started_at, vr_completed_at = completed_at, vr_metadata = Some metadata,
        vr_schema_version = schema_version\<rparr>))))))))))))))))))))))))"

definition verification_reports_from_events :: "ledger_event list \<Rightarrow> (int \<times> verification_report) list res" where
  "verification_reports_from_events es =
     mapE (\<lambda>(seq, d). bindE (verification_report_from_payload d) (\<lambda>r. Inr (seq, r)))
       (keep_some (map (\<lambda>e. if is_type e VERIFICATION_RECORDED
          then (case jget (ev_payload e) ''verification_report'' of JObj d \<Rightarrow> Some (ev_event_seq e, d) | _ \<Rightarrow> None)
          else None) es))"

definition recorded_verification_events_for_binding :: "ledger_event list \<Rightarrow> ledger_event list \<Rightarrow> ledger_event list res" where
  "recorded_verification_events_for_binding given es =
     (let by_id = dict_by ev_event_id es
      in mapE (\<lambda>e. case dict_get by_id (ev_event_id e) of
           None \<Rightarrow> Inl (ValueError ''recorded verification event is required for canonical binding'')
         | Some r \<Rightarrow>
             if \<not> is_type r VERIFICATION_RECORDED \<or> \<not> is_type e VERIFICATION_RECORDED \<or>
                ev_event_seq r \<noteq> ev_event_seq e \<or> ev_event_hash r \<noteq> ev_event_hash e
             then Inl (ValueError ''recorded verification event is required for canonical binding'')
             else Inr r) given)"

definition existing_canonical_event :: "ledger_event list \<Rightarrow> string \<Rightarrow> string \<Rightarrow> ledger_event option" where
  "existing_canonical_event es task_id unit_id =
     find (\<lambda>e. is_type e CANONICAL_OUTPUTS_BOUND \<and> jget (ev_payload e) ''task_id'' = JStr task_id \<and>
       jget (ev_payload e) ''unit_id'' = JStr unit_id) es"

definition canonical_selection_from_payload :: "jobj \<Rightarrow> canonical_selection res" where
  "canonical_selection_from_payload d =
     bindE (str_item d ''canonical_selection_id'') (\<lambda>selection_id.
     bindE (str_item d ''task_id'') (\<lambda>task_id.
     bindE (str_item d ''unit_id'') (\<lambda>unit_id.
     bindE (str_item d ''selection_policy'') (\<lambda>selection_policy.
     bindE (str_item d ''selection_policy_version'') (\<lambda>policy_version.
     bindE (str_item d ''selected_verification_report_id'') (\<lambda>report_id.
     bindE (bindE (jitem d ''selected_verification_event_seq'') py_int) (\<lambda>verification_seq.
     bindE (str_item d ''selected_submission_id'') (\<lambda>submission_id.
     bindE (bindE (jitem d ''selected_submission_event_seq'') py_int) (\<lambda>submission_seq.
     bindE (str_item d ''selected_attempt_id'') (\<lambda>attempt_id.
     bindE (str_item d ''canonical_output_bundle_digest'') (\<lambda>bundle_digest.
     bindE (refs_item d ''canonical_output_refs'') (\<lambda>refs.
     bindE (strs_item d ''eligible_report_ids_considered'') (\<lambda>considered.
     bindE (str_item d ''selection_reason'') (\<lambda>reason.
     bindE (str_item d ''bound_at'') (\<lambda>bound_at.
     bindE (dict_default d ''metadata'') (\<lambda>metadata.
     bindE (str_default d ''schema_version'' ''phase4.canonical_selection.v1'') (\<lambda>schema_version.
     mk_canonical_selection
       \<lparr>cs_canonical_selection_id = selection_id, cs_task_id = task_id, cs_unit_id = unit_id,
        cs_selection_policy = selection_policy, cs_selection_policy_version = policy_version,
        cs_selected_verification_report_id = report_id, cs_selected_verification_event_seq = verification_seq,
        cs_selected_submission_id = submission_id, cs_selected_submission_event_seq = submission_seq,
        cs_selected_attempt_id = attempt_id, cs_canonical_output_bundle_digest = bundle_digest,
        cs_canonical_output_refs = refs, cs_eligible_report_ids_considered = considered, cs_selection_reason = reason,
        cs_bound_at = bound_at, cs_metadata = Some metadata, cs_schema_version = schema_version\<rparr>)))))))))))))))))"

definition same_canonical_commitment :: "canonical_selection \<Rightarrow> canonical_selection \<Rightarrow> bool" where
  "same_canonical_commitment x y \<longleftrightarrow>
     cs_task_id x = cs_task_id y \<and> cs_unit_id x = cs_unit_id y \<and> cs_selection_policy x = cs_selection_policy y \<and>
     cs_selection_policy_version x = cs_selection_policy_version y \<and>
     cs_selected_verification_report_id x = cs_selected_verification_report_id y \<and>
     cs_selected_verification_event_seq x = cs_selected_verification_event_seq y \<and>
     cs_selected_submission_id x = cs_selected_submission_id y \<and>
     cs_selected_submission_event_seq x = cs_selected_submission_event_seq y \<and>
     cs_selected_attempt_id x = cs_selected_attempt_id y \<and>
     cs_canonical_output_bundle_digest x = cs_canonical_output_bundle_digest y \<and>
     same_refs (cs_canonical_output_refs x) (cs_canonical_output_refs y)"

section \<open>Binding canonical outputs\<close>

definition selection_draft :: "hash \<Rightarrow> canonical_selection \<Rightarrow> string \<Rightarrow> string \<Rightarrow> string \<Rightarrow> string \<Rightarrow> event_draft" where
  "selection_draft h s task_id unit_id cid now =
     engine_draft CANONICAL_OUTPUTS_BOUND ''CanonicalSelection'' (cs_canonical_selection_id s) (cs_task_id s) cid None
       (''canonical_outputs:'' @ task_id @ '':'' @ unit_id)
       [(''schema_version'', JStr ''phase4.canonical_outputs_bound.v1''),
        (''canonical_selection'', JObj (cs_to_dict s)),
        (''canonical_selection_digest'', JStr (digest_json h (JObj (cs_to_dict s)))),
        (''task_id'', JStr (cs_task_id s)),
        (''unit_id'', JStr (cs_unit_id s)),
        (''selection_policy'', JStr (cs_selection_policy s)),
        (''selection_policy_version'', JStr (cs_selection_policy_version s)),
        (''selected_verification_report_id'', JStr (cs_selected_verification_report_id s)),
        (''selected_verification_event_seq'', JInt (cs_selected_verification_event_seq s)),
        (''selected_submission_id'', JStr (cs_selected_submission_id s)),
        (''selected_submission_event_seq'', JInt (cs_selected_submission_event_seq s)),
        (''selected_attempt_id'', JStr (cs_selected_attempt_id s)),
        (''canonical_output_bundle_digest'', JStr (cs_canonical_output_bundle_digest s)),
        (''canonical_output_refs'', refs_json (cs_canonical_output_refs s)),
        (''bound_at'', JStr (cs_bound_at s))] now"

definition canonical_attempt :: "canonical_selection \<Rightarrow> attempt \<Rightarrow> string \<Rightarrow> attempt res" where
  "canonical_attempt s a now =
     transition_attempt a AS_CANONICAL now ''canonical_outputs_bound''
       (no_args\<lparr>aa_metadata := Some
          [(''canonical_selection_id'', JStr (cs_canonical_selection_id s)),
           (''canonical_output_bundle_digest'', JStr (cs_canonical_output_bundle_digest s))]\<rparr>)"

definition canonical_draft :: "canonical_selection \<Rightarrow> attempt \<Rightarrow> string \<Rightarrow> string \<Rightarrow> string \<Rightarrow> event_draft" where
  "canonical_draft s b cid cause now =
     engine_draft ATTEMPT_STATE_CHANGED ''Attempt'' (at_attempt_id b) (at_task_id b) cid (Some cause)
       (''attempt:state:'' @ at_attempt_id b @ '':Verified:Canonical:'' @ cs_canonical_selection_id s)
       [(''old_state'', JStr (attempt_state_value AS_VERIFIED)),
        (''new_state'', JStr (attempt_state_value AS_CANONICAL)),
        (''attempt'', JObj (at_to_dict b)),
        (''reason'', JStr ''canonical_outputs_bound''),
        (''canonical_selection_id'', JStr (cs_canonical_selection_id s)),
        (''correlation_id'', JStr cid)] now"

record binding_request =
  bq_task_id :: string
  bq_unit_id :: string
  bq_verification_events :: "ledger_event list"
  bq_attempts_by_id :: "(string, attempt) dict"
  bq_policy :: string
  bq_now :: string
  bq_correlation_id :: string

record binding_flow =
  bf_canonical_selection :: canonical_selection
  bf_event :: ledger_event
  bf_attempt :: "attempt option"
  bf_attempt_event :: "ledger_event option"

definition bound_selection :: "binding_request \<Rightarrow> ledger_event list \<Rightarrow> canonical_selection res" where
  "bound_selection q es =
     bindE (recorded_verification_events_for_binding (bq_verification_events q) es) (\<lambda>recorded.
     bindE (verification_reports_from_events recorded) (\<lambda>reports.
     select_first_verified_bundle (bq_task_id q) (bq_unit_id q) reports (bq_now q) None None))"

text \<open>The unit has a selection already: it must be the same.\<close>

definition rebind :: "binding_request \<Rightarrow> canonical_selection \<Rightarrow> ledger_event \<Rightarrow> binding_flow res" where
  "rebind q s existing =
     bindE (bindE (obj_item (ev_payload existing) ''canonical_selection'') canonical_selection_from_payload) (\<lambda>old.
     seqE (raise_if (\<not> same_canonical_commitment old s)
       (ValueError (''canonical outputs already bound for '' @ bq_task_id q @ ''/'' @ bq_unit_id q)))
     (Inr \<lparr>bf_canonical_selection = old, bf_event = existing,
        bf_attempt = dict_get (bq_attempts_by_id q) (cs_selected_attempt_id old), bf_attempt_event = None\<rparr>))"

definition selected_attempt :: "binding_request \<Rightarrow> canonical_selection \<Rightarrow> attempt res" where
  "selected_attempt q s =
     (case dict_get (bq_attempts_by_id q) (cs_selected_attempt_id s) of
        None \<Rightarrow> Inl (ValueError (''selected attempt not supplied: '' @ cs_selected_attempt_id s))
      | Some a \<Rightarrow>
          if at_state a \<noteq> AS_VERIFIED then Inl (ValueError ''selected attempt must be Verified before canonical binding'')
          else Inr a)"

definition bind_new :: "hash \<Rightarrow> (nat \<Rightarrow> string) \<Rightarrow> binding_request \<Rightarrow> canonical_selection \<Rightarrow> (event_ledger, binding_flow) prog" where
  "bind_new h clock q s =
     bindS (lift_res (selected_attempt q s)) (\<lambda>a.
     bindS (append_ledger h (clock 0) (selection_draft h s (bq_task_id q) (bq_unit_id q) (bq_correlation_id q) (bq_now q))) (\<lambda>e.
     bindS (lift_res (canonical_attempt s a (bq_now q))) (\<lambda>b.
     bindS (append_ledger h (clock 1) (canonical_draft s b (bq_correlation_id q) (ev_event_id e) (bq_now q))) (\<lambda>ae.
     lift_res (Inr \<lparr>bf_canonical_selection = s, bf_event = e, bf_attempt = Some b, bf_attempt_event = Some ae\<rparr>)))))"

definition bind_canonical_outputs ::
  "hash \<Rightarrow> (nat \<Rightarrow> string) \<Rightarrow> binding_request \<Rightarrow> (event_ledger, binding_flow) prog" where
  "bind_canonical_outputs h clock q =
     (if bq_policy q \<noteq> ''first_verified_bundle''
      then lift_res (Inl (ValueError (''unsupported canonical output policy: '' @ bq_policy q)))
      else
        bindS read_ledger_prog (\<lambda>es.
        bindS (lift_res (bound_selection q es)) (\<lambda>s.
        case existing_canonical_event es (bq_task_id q) (bq_unit_id q) of
          Some existing \<Rightarrow> lift_res (rebind q s existing)
        | None \<Rightarrow> bind_new h clock q s)))"

end
