(* ===== verification/Engine_Decision.thy ===== *)
theory Engine_Decision
  imports Engine_Verification Py_Decimal
begin

text \<open>
  \<open>protocol_engine.py\<close>: the record of a split strategy invocation, and what an accepted decision needs: a succeeded
  invocation, the canonical selection of the unit, the frozen descriptor of the plugin, and for a completion the
  verification report that was selected. Then the recording of a complete decision.
\<close>

definition read_disk :: "(disk_ledger, fs) prog" where
  "read_disk = (\<lambda>(fs, L). ((fs, L), Inr fs))"

definition batch_prog :: "hash \<Rightarrow> (nat \<Rightarrow> string) \<Rightarrow> event_draft list \<Rightarrow> string \<Rightarrow> (disk_ledger, ledger_event list) prog" where
  "batch_prog h clock ds bid = (\<lambda>(fs, L).
     case append_batch h clock L ds bid of Inl e \<Rightarrow> ((fs, L), Inl e) | Inr (L', es) \<Rightarrow> ((fs, L'), Inr es))"

text \<open>Equality of two artifact references.\<close>

definition same_ref :: "artifact_ref \<Rightarrow> artifact_ref \<Rightarrow> bool" where
  "same_ref a b \<longleftrightarrow> py_eq (JObj (ar_to_dict a)) (JObj (ar_to_dict b))"

definition require_same :: "jobj \<Rightarrow> string \<Rightarrow> string option \<Rightarrow> string \<Rightarrow> unit res" where
  "require_same source k expected label = raise_if (jget source k \<noteq> opt_str expected) (ValueError (label @ '' mismatch''))"

section \<open>Invocations\<close>

definition split_invocation_summary :: "split_invocation \<Rightarrow> jobj" where
  "split_invocation_summary x =
     [(''schema_version'', JStr (iv_schema_version x)),
      (''invocation_id'', JStr (iv_invocation_id x)),
      (''invocation_attempt_no'', JInt (iv_invocation_attempt_no x)),
      (''expansion_scope_hash'', JStr (iv_expansion_scope_hash x)),
      (''task_id'', JStr (iv_task_id x)),
      (''unit_id'', JStr (iv_unit_id x)),
      (''canonical_selection_id'', JStr (iv_canonical_selection_id x)),
      (''canonical_output_bundle_digest'', JStr (iv_canonical_output_bundle_digest x)),
      (''plugin_id'', JStr (iv_plugin_id x)),
      (''plugin_version'', JStr (iv_plugin_version x)),
      (''plugin_descriptor_digest'', JStr (iv_plugin_descriptor_digest x)),
      (''split_strategy_id'', JStr (iv_split_strategy_id x)),
      (''split_strategy_params_digest'', JStr (iv_split_strategy_params_digest x)),
      (''status'', JStr (iv_status x)),
      (''result_action'', opt_str (iv_result_action x)),
      (''result_digest'', opt_str (iv_result_digest x)),
      (''error_kind'', opt_str (iv_error_kind x)),
      (''error_summary'', opt_str (iv_error_summary x)),
      (''started_at'', JStr (iv_started_at x)),
      (''completed_at'', JStr (iv_completed_at x))]"

definition invocation_draft :: "split_invocation \<Rightarrow> string \<Rightarrow> string option \<Rightarrow> event_draft" where
  "invocation_draft x cid cause =
     engine_draft SPLIT_STRATEGY_INVOCATION_RECORDED ''SplitStrategyInvocation'' (iv_invocation_id x) (iv_task_id x) cid cause
       (''split_invocation:'' @ iv_expansion_scope_hash x @ '':attempt:'' @ show_int (iv_invocation_attempt_no x))
       [(''schema_version'', JStr ''phase4.split_strategy_invocation_record.v1''),
        (''invocation'', JObj (split_invocation_summary x)),
        (''task_id'', JStr (iv_task_id x)),
        (''unit_id'', JStr (iv_unit_id x)),
        (''canonical_selection_id'', JStr (iv_canonical_selection_id x)),
        (''canonical_output_bundle_digest'', JStr (iv_canonical_output_bundle_digest x)),
        (''plugin_id'', JStr (iv_plugin_id x)),
        (''plugin_version'', JStr (iv_plugin_version x)),
        (''plugin_descriptor_digest'', JStr (iv_plugin_descriptor_digest x)),
        (''split_strategy_id'', JStr (iv_split_strategy_id x)),
        (''split_strategy_params_digest'', JStr (iv_split_strategy_params_digest x)),
        (''expansion_scope_hash'', JStr (iv_expansion_scope_hash x)),
        (''status'', JStr (iv_status x)),
        (''result_action'', opt_str (iv_result_action x)),
        (''result_digest'', opt_str (iv_result_digest x)),
        (''error_kind'', opt_str (iv_error_kind x)),
        (''error_summary'', opt_str (iv_error_summary x)),
        (''started_at'', JStr (iv_started_at x)),
        (''completed_at'', JStr (iv_completed_at x))] (iv_completed_at x)"

definition record_split_strategy_invocation ::
  "hash \<Rightarrow> string \<Rightarrow> split_invocation \<Rightarrow> string \<Rightarrow> string option \<Rightarrow> (disk_ledger, split_invocation \<times> ledger_event) prog" where
  "record_split_strategy_invocation h now x cid cause =
     bindS (append_prog h now (invocation_draft x cid cause)) (\<lambda>e. lift_res (Inr (x, e)))"

definition find_split_invocation_event :: "ledger_event list \<Rightarrow> string \<Rightarrow> ledger_event option" where
  "find_split_invocation_event es invocation_id =
     find (\<lambda>e. is_type e SPLIT_STRATEGY_INVOCATION_RECORDED \<and> ev_object_id e = invocation_id) es"

definition invocation_keys :: "string list" where
  "invocation_keys =
     [''task_id'', ''unit_id'', ''canonical_selection_id'', ''canonical_output_bundle_digest'', ''plugin_id'',
      ''plugin_version'', ''plugin_descriptor_digest'', ''split_strategy_id'', ''split_strategy_params_digest'',
      ''expansion_scope_hash'', ''status'', ''result_action'', ''result_digest'', ''error_kind'', ''error_summary'',
      ''started_at'', ''completed_at'']"

definition split_invocation_payload :: "ledger_event \<Rightarrow> jobj" where
  "split_invocation_payload e =
     (case jget (ev_payload e) ''invocation'' of
        JObj invo \<Rightarrow> fold (\<lambda>k merged. case dict_get (ev_payload e) k of None \<Rightarrow> merged | Some v \<Rightarrow> dict_set k v merged) invocation_keys invo
      | _ \<Rightarrow> ev_payload e)"

definition validate_decision_against_invocation :: "expansion_decision \<Rightarrow> jobj \<Rightarrow> unit res" where
  "validate_decision_against_invocation x invo = checks
     [raise_if (jget invo ''status'' \<noteq> JStr ''succeeded'')
        (ValueError ''source invocation must be succeeded before accepted decision''),
      raise_if (jget invo ''result_action'' \<noteq> JStr (xd_action x)) (ValueError ''source invocation result_action mismatch''),
      require_same invo ''task_id'' (Some (xd_task_id x)) ''task'',
      require_same invo ''unit_id'' (Some (xd_unit_id x)) ''unit'',
      require_same invo ''expansion_scope_hash'' (Some (xd_expansion_scope_hash x)) ''scope'',
      require_same invo ''canonical_selection_id'' (Some (xd_canonical_selection_id x)) ''canonical selection'',
      require_same invo ''canonical_output_bundle_digest'' (Some (xd_canonical_output_bundle_digest x)) ''canonical bundle digest'',
      require_same invo ''plugin_id'' (Some (xd_plugin_id x)) ''plugin'',
      require_same invo ''plugin_version'' (Some (xd_plugin_version x)) ''plugin'',
      require_same invo ''plugin_descriptor_digest'' (Some (xd_plugin_descriptor_digest x)) ''descriptor'',
      require_same invo ''split_strategy_id'' (Some (xd_split_strategy_id x)) ''strategy'',
      require_same invo ''split_strategy_params_digest'' (Some (xd_split_strategy_params_digest x)) ''split strategy params digest'']"

section \<open>The canonical selection and its report\<close>

definition find_canonical_event :: "ledger_event list \<Rightarrow> string \<Rightarrow> ledger_event option" where
  "find_canonical_event es selection_id =
     find (\<lambda>e. is_type e CANONICAL_OUTPUTS_BOUND \<and>
       (ev_object_id e = selection_id \<or>
        (case jget (ev_payload e) ''canonical_selection'' of
           JObj s \<Rightarrow> jget s ''canonical_selection_id'' = JStr selection_id | _ \<Rightarrow> False))) es"

definition validate_decision_against_canonical_selection :: "expansion_decision \<Rightarrow> jobj \<Rightarrow> canonical_selection \<Rightarrow> unit res" where
  "validate_decision_against_canonical_selection x invo s = checks
     [raise_if (cs_task_id s \<noteq> xd_task_id x) (ValueError ''canonical selection task mismatch''),
      raise_if (cs_unit_id s \<noteq> xd_unit_id x) (ValueError ''canonical selection unit mismatch''),
      raise_if (cs_canonical_selection_id s \<noteq> xd_canonical_selection_id x) (ValueError ''canonical selection mismatch''),
      raise_if (cs_canonical_output_bundle_digest s \<noteq> xd_canonical_output_bundle_digest x)
        (ValueError ''canonical output bundle digest mismatch''),
      raise_if (jget invo ''canonical_output_bundle_digest'' \<noteq> JStr (cs_canonical_output_bundle_digest s))
        (ValueError ''canonical output bundle digest mismatch'')]"

definition validate_selected_report_against_canonical_selection :: "verification_report \<Rightarrow> canonical_selection \<Rightarrow> unit res" where
  "validate_selected_report_against_canonical_selection r s =
     raise_if (vr_verification_report_id r \<noteq> cs_selected_verification_report_id s \<or> vr_task_id r \<noteq> cs_task_id s \<or>
         vr_unit_id r \<noteq> cs_unit_id s \<or> vr_submission_id r \<noteq> cs_selected_submission_id s \<or>
         vr_submission_event_seq r \<noteq> cs_selected_submission_event_seq s \<or> vr_attempt_id r \<noteq> cs_selected_attempt_id s \<or>
         vr_candidate_output_bundle_digest r \<noteq> cs_canonical_output_bundle_digest s \<or>
         \<not> same_refs (vr_candidate_output_refs r) (cs_canonical_output_refs s))
       (ValueError ''selected verification report mismatch'')"

definition find_selected_verification_report :: "ledger_event list \<Rightarrow> canonical_selection \<Rightarrow> verification_report res" where
  "find_selected_verification_report es s =
     (case find (\<lambda>e. ev_event_seq e = cs_selected_verification_event_seq s) es of
        None \<Rightarrow> Inl (ValueError ''selected verification report missing for completion evidence'')
      | Some e \<Rightarrow>
          if \<not> is_type e VERIFICATION_RECORDED then Inl (ValueError ''selected verification report mismatch'')
          else case jget (ev_payload e) ''verification_report'' of
            JObj d \<Rightarrow>
              bindE (verification_report_from_payload d) (\<lambda>r.
              seqE (validate_selected_report_against_canonical_selection r s) (Inr r))
          | _ \<Rightarrow> Inl (ValueError ''selected verification report missing for completion evidence''))"

section \<open>The frozen descriptor\<close>

definition load_descriptor :: "hash \<Rightarrow> artifact_store \<Rightarrow> fs \<Rightarrow> string \<Rightarrow> string \<Rightarrow> string \<Rightarrow> jobj \<Rightarrow> jobj res" where
  "load_descriptor h st fs plugin_id version digest entry =
     (case jget entry ''descriptor_ref'' of
        JObj d \<Rightarrow>
          bindE (ar_from_dict d) (\<lambda>ref.
          bindE (verify_artifact h st fs ref) (\<lambda>ok.
          seqE (require ok (ValueError ''descriptor artifact digest mismatch''))
          (bindE (read_bytes st fs ref) (\<lambda>data.
          case loads data of
            None \<Rightarrow> Inl (ValueError ''invalid JSON'')
          | Some (JObj descriptor) \<Rightarrow>
              seqE (raise_if (jget descriptor ''descriptor_digest'' \<noteq> JStr digest)
                (ValueError ''descriptor digest mismatch''))
              (seqE (raise_if (jget descriptor ''plugin_id'' \<noteq> JStr plugin_id \<or>
                   jget descriptor ''plugin_version'' \<noteq> JStr version)
                (ValueError ''descriptor plugin identity mismatch''))
              (Inr descriptor))
          | Some _ \<Rightarrow> Inl (AttributeError ''get'')))))
      | _ \<Rightarrow> Inl (ValueError ''descriptor ref missing from registry snapshot''))"

text \<open>The entries of one snapshot: whether the plugin was seen, and its descriptor once the digest fits.\<close>

fun scan_entries :: "(jobj \<Rightarrow> jobj res) \<Rightarrow> string \<Rightarrow> string \<Rightarrow> string \<Rightarrow> bool \<Rightarrow> json list \<Rightarrow> (bool \<times> jobj option) res" where
  "scan_entries load plugin_id version digest seen [] = Inr (seen, None)"
| "scan_entries load plugin_id version digest seen (JObj entry # entries) =
     (if jget entry ''plugin_id'' \<noteq> JStr plugin_id \<or> jget entry ''plugin_version'' \<noteq> JStr version
      then scan_entries load plugin_id version digest seen entries
      else if jget entry ''descriptor_digest'' \<noteq> JStr digest then scan_entries load plugin_id version digest True entries
      else bindE (load entry) (\<lambda>d. Inr (True, Some d)))"
| "scan_entries load plugin_id version digest seen (_ # entries) = scan_entries load plugin_id version digest seen entries"

definition plugin_entries_of :: "ledger_event \<Rightarrow> json list res" where
  "plugin_entries_of e =
     (case dict_get_default (ev_payload e) ''plugin_entries'' (JArr []) of JArr xs \<Rightarrow> Inr xs | _ \<Rightarrow> Inl (TypeError ''plugin_entries''))"

fun scan_snapshots :: "(jobj \<Rightarrow> jobj res) \<Rightarrow> string \<Rightarrow> string \<Rightarrow> string \<Rightarrow> bool \<Rightarrow> ledger_event list \<Rightarrow> jobj res" where
  "scan_snapshots load plugin_id version digest seen [] =
     Inl (ValueError (if seen then ''descriptor digest mismatch'' else ''descriptor not found for plugin/version''))"
| "scan_snapshots load plugin_id version digest seen (e # es) =
     (if \<not> is_type e REGISTRY_SNAPSHOT_RECORDED then scan_snapshots load plugin_id version digest seen es
      else
        bindE (plugin_entries_of e) (\<lambda>entries.
        bindE (scan_entries load plugin_id version digest seen entries) (\<lambda>(seen', found).
        case found of Some d \<Rightarrow> Inr d | None \<Rightarrow> scan_snapshots load plugin_id version digest seen' es)))"

definition load_frozen_plugin_descriptor ::
  "hash \<Rightarrow> artifact_store \<Rightarrow> fs \<Rightarrow> ledger_event list \<Rightarrow> string \<Rightarrow> string \<Rightarrow> string \<Rightarrow> jobj res" where
  "load_frozen_plugin_descriptor h st fs es plugin_id version digest =
     scan_snapshots (load_descriptor h st fs plugin_id version digest) plugin_id version digest False es"

section \<open>What a decision needs\<close>

definition completion_fields :: "string list" where
  "completion_fields =
     [''completion_kind'', ''validator_policy_id'', ''verification_report_id'', ''canonical_selection_id'',
      ''canonical_output_bundle_digest'', ''completed_output_refs'', ''plugin_completion_summary'']"

definition completed_covers :: "(string, artifact_ref) dict \<Rightarrow> (string, artifact_ref) dict \<Rightarrow> bool" where
  "completed_covers completed canonical \<longleftrightarrow>
     list_all (\<lambda>(n, r). case dict_get completed n of None \<Rightarrow> False | Some c \<Rightarrow> same_ref c r) canonical"

definition validate_complete_action_body :: "expansion_decision \<Rightarrow> canonical_selection \<Rightarrow> verification_report \<Rightarrow> unit res" where
  "validate_complete_action_body x s r =
     (case jget (xd_action_body x) ''completion_evidence'' of
        JObj ev \<Rightarrow>
          (let missing = sort (filter (\<lambda>f. \<not> dict_has ev f) completion_fields)
           in seqE (checks
                [raise_if (missing \<noteq> []) (ValueError (''completion_evidence missing required fields: '' @ join '', '' missing)),
                 raise_if (jget ev ''canonical_selection_id'' \<noteq> JStr (xd_canonical_selection_id x))
                   (ValueError ''completion_evidence canonical selection mismatch''),
                 raise_if (jget ev ''canonical_output_bundle_digest'' \<noteq> JStr (xd_canonical_output_bundle_digest x))
                   (ValueError ''completion_evidence canonical bundle mismatch''),
                 raise_if (vr_verification_report_id r \<noteq> cs_selected_verification_report_id s)
                   (ValueError ''selected verification report mismatch''),
                 raise_if (jget ev ''verification_report_id'' \<noteq> JStr (cs_selected_verification_report_id s))
                   (ValueError ''completion_evidence verification report mismatch''),
                 raise_if (jget ev ''validator_policy_id'' \<noteq> JStr (vr_validator_policy_id r))
                   (ValueError ''completion_evidence validator policy mismatch'')])
              (bindE (refs_item ev ''completed_output_refs'') (\<lambda>completed.
               require (completed_covers completed (cs_canonical_output_refs s))
                 (ValueError ''completion_evidence must include canonical output refs''))))
      | _ \<Rightarrow> Inl (ValueError ''complete decision requires inline completion_evidence''))"

record decision_facts =
  df_invocation_id :: json
  df_selection :: canonical_selection
  df_descriptor :: jobj
  df_split_strategy :: json

text \<open>\<open>descriptor["split_strategies"][id]\<close>.\<close>

definition declared_strategy :: "jobj \<Rightarrow> string \<Rightarrow> json res" where
  "declared_strategy descriptor strategy_id =
     (case dict_get_default descriptor ''split_strategies'' (JObj []) of
        JObj d \<Rightarrow> (case dict_get d strategy_id of
            None \<Rightarrow> Inl (ValueError (''split strategy id not declared in descriptor: '' @ strategy_id))
          | Some j \<Rightarrow> Inr j)
      | _ \<Rightarrow> Inl (TypeError ''split_strategies''))"

definition selection_of_decision :: "ledger_event list \<Rightarrow> expansion_decision \<Rightarrow> canonical_selection res" where
  "selection_of_decision es x =
     (case find_canonical_event es (xd_canonical_selection_id x) of
        None \<Rightarrow> Inl (ValueError ''missing canonical selection for expansion decision'')
      | Some e \<Rightarrow> bindE (obj_item (ev_payload e) ''canonical_selection'') canonical_selection_from_payload)"

definition validate_accepted_decision_prerequisites ::
  "hash \<Rightarrow> artifact_store \<Rightarrow> fs \<Rightarrow> ledger_event list \<Rightarrow> expansion_decision \<Rightarrow> decision_facts res" where
  "validate_accepted_decision_prerequisites h st fs es x =
     (case find_split_invocation_event es (xd_source_invocation_id x) of
        None \<Rightarrow> Inl (ValueError ''missing source invocation for expansion decision'')
      | Some e \<Rightarrow>
          (let invo = split_invocation_payload e in
           seqE (validate_decision_against_invocation x invo)
           (bindE (selection_of_decision es x) (\<lambda>s.
            seqE (validate_decision_against_canonical_selection x invo s)
            (bindE (load_frozen_plugin_descriptor h st fs es (xd_plugin_id x) (xd_plugin_version x) (xd_plugin_descriptor_digest x)) (\<lambda>descriptor.
             bindE (declared_strategy descriptor (xd_split_strategy_id x)) (\<lambda>strategy.
             seqE (if xd_action x = ''complete''
                   then bindE (find_selected_verification_report es s) (validate_complete_action_body x s) else Inr ())
             (bindE (jitem invo ''invocation_id'') (\<lambda>invocation_id.
              Inr \<lparr>df_invocation_id = invocation_id, df_selection = s, df_descriptor = descriptor,
                   df_split_strategy = strategy\<rparr>)))))))))"

section \<open>A complete decision\<close>

definition validate_task_unit_for_decision :: "expansion_decision \<Rightarrow> task_unit \<Rightarrow> unit res" where
  "validate_task_unit_for_decision x u =
     seqE (raise_if (xd_task_id x \<noteq> tu_task_id u \<or> xd_unit_id x \<noteq> tu_unit_id u)
       (ValueError ''complete decision does not match task unit''))
     (raise_if (tu_state u \<noteq> TS_PROCESSING) (ValueError ''expansion decision requires Processing task unit''))"

definition decision_payload :: "hash \<Rightarrow> expansion_decision \<Rightarrow> jobj" where
  "decision_payload h x =
     [(''schema_version'', JStr ''phase4.expansion_decision_record.v1''),
      (''expansion_decision'', JObj (xd_to_dict x)),
      (''expansion_decision_digest'', JStr (digest_json h (JObj (xd_to_dict x)))),
      (''task_id'', JStr (xd_task_id x)),
      (''unit_id'', JStr (xd_unit_id x)),
      (''canonical_selection_id'', JStr (xd_canonical_selection_id x)),
      (''canonical_output_bundle_digest'', JStr (xd_canonical_output_bundle_digest x)),
      (''expansion_scope_hash'', JStr (xd_expansion_scope_hash x)),
      (''action'', JStr (xd_action x)),
      (''source_invocation_id'', JStr (xd_source_invocation_id x)),
      (''proposal_id'', opt_str (xd_proposal_id x)),
      (''proposal_digest'', opt_str (xd_proposal_digest x)),
      (''merge_plan_id'', opt_str (xd_merge_plan_id x)),
      (''merge_plan_digest'', opt_str (xd_merge_plan_digest x)),
      (''action_body'', JObj (xd_action_body x)),
      (''decided_at'', JStr (xd_decided_at x))]"

definition decision_draft :: "hash \<Rightarrow> expansion_decision \<Rightarrow> string \<Rightarrow> string option \<Rightarrow> event_draft" where
  "decision_draft h x cid cause =
     engine_draft EXPANSION_DECISION_RECORDED ''ExpansionDecision'' (xd_expansion_decision_id x) (xd_task_id x) cid cause
       (''expansion_decision:'' @ xd_expansion_scope_hash x) (decision_payload h x) (xd_decided_at x)"

definition completed_unit_draft ::
  "expansion_decision \<Rightarrow> decision_facts \<Rightarrow> task_unit \<Rightarrow> task_unit \<Rightarrow> string \<Rightarrow> string \<Rightarrow> event_draft" where
  "completed_unit_draft x facts u completed cid first =
     engine_draft TASK_UNIT_STATE_CHANGED ''TaskUnit'' (tu_unit_id completed) (tu_task_id completed) cid (Some first)
       (''task_unit:state:'' @ tu_unit_id completed @ '':'' @ task_state_value (tu_state u) @ '':Completed:'' @
         xd_expansion_decision_id x)
       [(''schema_version'', JStr ''phase4.complete_task_unit_state_change_record.v1''),
        (''old_state'', JStr (task_state_value (tu_state u))),
        (''new_state'', JStr (task_state_value TS_COMPLETED)),
        (''task_unit_state_change'', JObj (task_unit_state_change completed (tu_state u) TS_COMPLETED
           ''complete_decision_accepted'' ''split_strategy'' cid (Some first) (xd_decided_at x)
           (Some [(''expansion_decision_id'', JStr (xd_expansion_decision_id x)),
                  (''source_invocation_id'', JStr (xd_source_invocation_id x)),
                  (''canonical_selection_id'', JStr (xd_canonical_selection_id x)),
                  (''canonical_output_bundle_digest'', JStr (xd_canonical_output_bundle_digest x))]))),
        (''task_unit'', JObj (tu_to_dict completed)),
        (''reason'', JStr ''complete_decision_accepted''),
        (''expansion_decision_id'', JStr (xd_expansion_decision_id x)),
        (''source_invocation_id'', df_invocation_id facts),
        (''canonical_selection_id'', JStr (cs_canonical_selection_id (df_selection facts))),
        (''correlation_id'', JStr cid)] (xd_decided_at x)"

definition completion_batch_id :: "expansion_decision \<Rightarrow> string" where
  "completion_batch_id x = ''completion_batch:'' @ xd_expansion_decision_id x"

definition completion_drafts ::
  "hash \<Rightarrow> expansion_decision \<Rightarrow> decision_facts \<Rightarrow> task_unit \<Rightarrow> task_unit \<Rightarrow> string \<Rightarrow> string option \<Rightarrow> string \<Rightarrow> event_draft list" where
  "completion_drafts h x facts u completed cid cause first =
     [decision_draft h x cid cause, completed_unit_draft x facts u completed cid first]"

record completion_flow =
  kf_decision :: expansion_decision
  kf_task_unit :: task_unit
  kf_events :: "ledger_event list"

definition record_complete_decision ::
  "hash \<Rightarrow> artifact_store option \<Rightarrow> (nat \<Rightarrow> string) \<Rightarrow> expansion_decision \<Rightarrow> task_unit \<Rightarrow> string \<Rightarrow> string option
    \<Rightarrow> (disk_ledger, completion_flow) prog" where
  "record_complete_decision h store clock x u cid cause =
     (if xd_action x \<noteq> ''complete'' then lift_res (Inl (ValueError ''record_complete_decision requires action=complete''))
      else
        bindS (lift_res (validate_task_unit_for_decision x u)) (\<lambda>_.
        bindS read_prog (\<lambda>es.
        bindS (lift_res (require_store store)) (\<lambda>st.
        bindS read_disk (\<lambda>fs.
        bindS (lift_res (validate_accepted_decision_prerequisites h st fs es x)) (\<lambda>facts.
        bindS (lift_res (transition_task_unit u TS_COMPLETED ''complete_decision_accepted'' ''split_strategy'' (xd_decided_at x)))
          (\<lambda>completed.
        bindS (batch_prog h clock (completion_drafts h x facts u completed cid cause (batch_first_id es (completion_batch_id x)))
          (completion_batch_id x)) (\<lambda>events.
        lift_res (Inr \<lparr>kf_decision = x, kf_task_unit = completed, kf_events = events\<rparr>)))))))))"

end
