(* ===== verification/Engine_Expansion.thy ===== *)
theory Engine_Expansion
  imports Engine_Decision Core_Expansion
begin

text \<open>
  \<open>protocol_engine.py\<close>: the recording of an expand decision. The proposal and the merge plan are saved first, then
  compared with the decision; the children, their relations and the expected outputs are derived from the proposal;
  the whole expansion is one batch of events. \<open>alnum\<close> is \<open>str.isalnum\<close> on a code point.
\<close>

text \<open>An optional string in an f-string.\<close>

definition opt_text :: "string option \<Rightarrow> string" where
  "opt_text x = (case x of None \<Rightarrow> ''None'' | Some s \<Rightarrow> s)"

section \<open>Identifiers\<close>

definition engine_id_component :: "(nat \<Rightarrow> bool) \<Rightarrow> string \<Rightarrow> string" where
  "engine_id_component alnum v = concat (map (\<lambda>c. if alnum c \<or> c = 95 then utf8 c else ''_'') (code_points v))"

definition digest_suffix :: "(nat \<Rightarrow> bool) \<Rightarrow> string \<Rightarrow> string" where
  "digest_suffix alnum d = engine_id_component alnum (if take 7 d = ''sha256:'' then drop 7 d else d)"

definition expansion_child_unit_id :: "(nat \<Rightarrow> bool) \<Rightarrow> string \<Rightarrow> string \<Rightarrow> string \<Rightarrow> string" where
  "expansion_child_unit_id alnum proposal_digest parent_unit_id key =
     ''unit_'' @ engine_id_component alnum parent_unit_id @ ''_'' @ digest_suffix alnum proposal_digest @ ''_'' @
     engine_id_component alnum key"

definition expansion_relation_id ::
  "(nat \<Rightarrow> bool) \<Rightarrow> string \<Rightarrow> string \<Rightarrow> string \<Rightarrow> string \<Rightarrow> string \<Rightarrow> string" where
  "expansion_relation_id alnum proposal_digest source_key target_key source_output target_input =
     ''relation_'' @ digest_suffix alnum proposal_digest @ ''_'' @ engine_id_component alnum source_key @ ''_'' @
     engine_id_component alnum target_key @ ''_'' @ engine_id_component alnum source_output @ ''_'' @
     engine_id_component alnum target_input"

section \<open>The documents fit the decision\<close>

definition strategy_get :: "json \<Rightarrow> string \<Rightarrow> json res" where
  "strategy_get strategy k = (case strategy of JObj d \<Rightarrow> Inr (jget d k) | _ \<Rightarrow> Inl (AttributeError ''get''))"

definition names_in :: "jobj \<Rightarrow> string \<Rightarrow> string list option" where
  "names_in payload k =
     (case jget payload k of
        JArr xs \<Rightarrow> if list_all (\<lambda>x. case x of JStr s \<Rightarrow> s \<noteq> [] | _ \<Rightarrow> False) xs
                   then Some (map (\<lambda>x. case x of JStr s \<Rightarrow> s | _ \<Rightarrow> []) xs) else None
      | _ \<Rightarrow> None)"

definition parent_required_output_names :: "task_unit \<Rightarrow> canonical_selection \<Rightarrow> string list" where
  "parent_required_output_names u s =
     (case names_in (tu_plugin_payload u) ''required_outputs'' of
        Some ns \<Rightarrow> ns
      | None \<Rightarrow> (case names_in (tu_plugin_payload u) ''requested_outputs'' of
          Some ns \<Rightarrow> ns
        | None \<Rightarrow> (case jget (tu_plugin_payload u) ''requested_output'' of
            JStr n \<Rightarrow> if n \<noteq> [] then [n] else dict_keys (cs_canonical_output_refs s)
          | _ \<Rightarrow> dict_keys (cs_canonical_output_refs s))))"

text \<open>\<open>evidence.get(field) != n\<close>.\<close>

definition validate_expand_evidence_against_documents :: "expansion_decision \<Rightarrow> decomposition_proposal \<Rightarrow> merge_plan \<Rightarrow> unit res" where
  "validate_expand_evidence_against_documents x p m =
     (case jget (xd_action_body x) ''expand_evidence'' of
        JObj ev \<Rightarrow> checks (map (\<lambda>(f, n). require (py_eq (jget ev f) (JInt (int n))) (ValueError (''expand_evidence '' @ f @ '' mismatch'')))
          [(''child_count'', length (dp_child_specs p)), (''relation_count'', length (dp_dependency_edges p)),
           (''expected_output_count'', length (dp_expected_outputs p)), (''required_merge_slot_count'', length (mp_required_slots m))])
      | _ \<Rightarrow> Inl (ValueError ''expand_evidence missing''))"

definition proposal_matches :: "hash \<Rightarrow> expansion_decision \<Rightarrow> decomposition_proposal \<Rightarrow> unit res" where
  "proposal_matches h x p =
     (let header = dp_proposal_header p in checks
     [require_same header ''proposal_id'' (xd_proposal_id x) ''proposal'',
      require_same header ''task_id'' (Some (xd_task_id x)) ''task'',
      require_same header ''parent_unit_id'' (Some (xd_unit_id x)) ''unit'',
      require_same header ''canonical_selection_id'' (Some (xd_canonical_selection_id x)) ''canonical selection'',
      require_same header ''canonical_output_bundle_digest'' (Some (xd_canonical_output_bundle_digest x)) ''canonical bundle digest'',
      require_same header ''plugin_id'' (Some (xd_plugin_id x)) ''plugin'',
      require_same header ''plugin_version'' (Some (xd_plugin_version x)) ''plugin'',
      require_same header ''plugin_descriptor_digest'' (Some (xd_plugin_descriptor_digest x)) ''descriptor'',
      require_same header ''split_strategy_id'' (Some (xd_split_strategy_id x)) ''strategy'',
      require_same header ''split_strategy_params_digest'' (Some (xd_split_strategy_params_digest x)) ''split strategy params digest'',
      require_same header ''expansion_scope_hash'' (Some (xd_expansion_scope_hash x)) ''scope'',
      require_same header ''proposal_digest'' (xd_proposal_digest x) ''proposal'',
      raise_if (Some (digest_decomposition_proposal_body h p) \<noteq> xd_proposal_digest x) (ValueError ''proposal body digest mismatch'')])"

definition plan_matches :: "hash \<Rightarrow> expansion_decision \<Rightarrow> merge_plan \<Rightarrow> unit res" where
  "plan_matches h x m =
     (let header = mp_merge_plan_header m in checks
     [require_same header ''merge_plan_id'' (xd_merge_plan_id x) ''merge plan'',
      require_same header ''task_id'' (Some (xd_task_id x)) ''task'',
      require_same header ''parent_unit_id'' (Some (xd_unit_id x)) ''unit'',
      require_same header ''canonical_selection_id'' (Some (xd_canonical_selection_id x)) ''canonical selection'',
      require_same header ''decomposition_proposal_id'' (xd_proposal_id x) ''proposal'',
      require_same header ''expansion_decision_id'' (Some (xd_expansion_decision_id x)) ''expansion decision'',
      require_same header ''created_by_plugin_id'' (Some (xd_plugin_id x)) ''plugin'',
      require_same header ''created_by_plugin_version'' (Some (xd_plugin_version x)) ''plugin'',
      require_same header ''merge_plan_digest'' (xd_merge_plan_digest x) ''merge plan'',
      raise_if (Some (digest_merge_plan_body h m) \<noteq> xd_merge_plan_digest x) (ValueError ''merge plan body digest mismatch'')])"

definition policy_matches :: "expansion_decision \<Rightarrow> merge_plan \<Rightarrow> json \<Rightarrow> unit res" where
  "policy_matches x m strategy =
     (let ref = mp_merge_policy_ref m in checks
     [require_same ref ''plugin_id'' (Some (xd_plugin_id x)) ''plugin'',
      require_same ref ''plugin_version'' (Some (xd_plugin_version x)) ''plugin'',
      require_same ref ''merge_policy_descriptor_digest'' (Some (xd_plugin_descriptor_digest x)) ''merge policy descriptor'',
      bindE (strategy_get strategy ''merge_policy_id'') (\<lambda>policy.
        require (py_eq (jget ref ''merge_policy_id'') policy) (ValueError ''merge policy mismatch''))])"

definition allowed_unit_types :: "json \<Rightarrow> json list res" where
  "allowed_unit_types strategy =
     bindE (case strategy of JObj d \<Rightarrow> Inr (dict_get_default d ''allowed_unit_types'' (JArr [])) | _ \<Rightarrow> Inl (AttributeError ''get'')) (\<lambda>v.
     case v of JArr xs \<Rightarrow> mapE hash_key xs | _ \<Rightarrow> Inl (TypeError ''allowed_unit_types''))"

definition check_unit_types :: "json list \<Rightarrow> jobj list \<Rightarrow> unit res" where
  "check_unit_types allowed specs =
     checks (map (\<lambda>spec. bindE (in_keys (jget spec ''unit_type'') allowed) (\<lambda>ok.
       require ok (ValueError ''child unit_type not allowed by split strategy''))) specs)"

definition max_children_of :: "json \<Rightarrow> int option res" where
  "max_children_of strategy =
     bindE (strategy_get strategy ''max_children_per_expansion'') (\<lambda>v. case v of
       JNull \<Rightarrow> Inr None | JInt i \<Rightarrow> Inr (Some i) | JBool b \<Rightarrow> Inr (Some (if b then 1 else 0))
     | _ \<Rightarrow> Inl (TypeError ''max_children_per_expansion''))"

definition graph_config :: "task_graph \<Rightarrow> protocol_config" where
  "graph_config g = (case tg_protocol_config g of Some c \<Rightarrow> c | None \<Rightarrow> pc_default ''config_from_engine'' [] [] None)"

definition validate_expand_documents ::
  "hash \<Rightarrow> expansion_decision \<Rightarrow> decomposition_proposal \<Rightarrow> merge_plan \<Rightarrow> task_unit \<Rightarrow> task_graph \<Rightarrow> decision_facts \<Rightarrow> unit res" where
  "validate_expand_documents h x p m parent g facts =
     seqE (case dict_get (tg_units g) (tu_unit_id parent) of
         None \<Rightarrow> Inl (ValueError ''parent unit missing from task graph'')
       | Some u \<Rightarrow> raise_if (tu_task_id u \<noteq> tu_task_id parent) (ValueError ''parent unit graph entry mismatch''))
     (seqE (proposal_matches h x p)
     (seqE (validate_expand_evidence_against_documents x p m)
     (seqE (plan_matches h x m)
     (seqE (policy_matches x m (df_split_strategy facts))
     (bindE (allowed_unit_types (df_split_strategy facts)) (\<lambda>allowed.
      seqE (check_unit_types allowed (dp_child_specs p))
      (bindE (max_children_of (df_split_strategy facts)) (\<lambda>max_children.
       seqE (validate_proposal_limits p (graph_config g) (tu_depth parent) (int (length (tg_units g)))
         (parent_required_output_names parent (df_selection facts)) max_children)
       (raise_if (jget (df_descriptor facts) ''descriptor_digest'' \<noteq> JStr (xd_plugin_descriptor_digest x))
         (ValueError ''descriptor digest mismatch''))))))))))"

section \<open>The children\<close>

definition child_input_ref :: "(string, artifact_ref) dict \<Rightarrow> json \<Rightarrow> artifact_ref option res" where
  "child_input_ref parent_refs binding =
     (case binding of
        JObj b \<Rightarrow>
          if jget b ''kind'' = JStr ''parent_output''
          then bindE (in_str_keys (jget b ''output_name'') (dict_keys parent_refs)) (\<lambda>known.
            case jget b ''output_name'' of
              JStr n \<Rightarrow> (case dict_get parent_refs n of
                  None \<Rightarrow> Inl (ValueError ''parent output binding missing canonical output'') | Some r \<Rightarrow> Inr (Some r))
            | _ \<Rightarrow> Inl (ValueError ''parent output binding missing canonical output''))
          else if jget b ''kind'' = JStr ''artifact_ref''
          then (case jget b ''artifact_ref'' of
              JObj d \<Rightarrow> bindE (ar_from_dict d) (\<lambda>r. Inr (Some r))
            | _ \<Rightarrow> Inl (ValueError ''artifact_ref binding requires artifact_ref''))
          else bindE (in_str_keys (jget b ''kind'') [''constant'', ''dependency_output'', ''child_output'']) (\<lambda>none.
            if none then Inr None
            else Inl (ValueError (''unsupported child input binding kind: '' @ status_text (jget b ''kind''))))
      | _ \<Rightarrow> Inl (AttributeError ''get''))"

definition child_input_refs :: "jobj \<Rightarrow> (string, artifact_ref) dict \<Rightarrow> (string, artifact_ref) dict res" where
  "child_input_refs spec parent_refs =
     (case dict_get_default spec ''input_bindings'' (JObj []) of
        JObj d \<Rightarrow> bindE (mapE (\<lambda>(n, b). bindE (child_input_ref parent_refs b) (\<lambda>r. Inr (n, r))) d) (\<lambda>rs.
          Inr [(n, r). (n, Some r) \<leftarrow> rs])
      | _ \<Rightarrow> Inl (AttributeError ''items''))"

text \<open>
  \<open>float(weight)\<close>, as the text that is written for it. A whole number of more than fifteen digits would be rounded;
  it is refused here.
\<close>

fun py_float :: "json \<Rightarrow> string res" where
  "py_float (JFloat t) = Inr t"
| "py_float (JBool b) = Inr (if b then ''1.0'' else ''0.0'')"
| "py_float (JInt i) =
     (if \<bar>i\<bar> < 10 ^ 15 then Inr (show_int i @ ''.0'') else Inl (ValueError ''weight beyond fifteen digits''))"
| "py_float _ = Inl (TypeError ''float() argument must be a string or a real number'')"

definition opt_float_item :: "jobj \<Rightarrow> string \<Rightarrow> string option res" where
  "opt_float_item d k = (case jget d k of JNull \<Rightarrow> Inr None | JFloat t \<Rightarrow> Inr (Some t) | _ \<Rightarrow> Inl (TypeError k))"

definition list_item :: "jobj \<Rightarrow> string \<Rightarrow> json res" where
  "list_item d k = bindE (jitem d k) (\<lambda>v. case v of JArr xs \<Rightarrow> Inr (JArr xs) | _ \<Rightarrow> Inl (TypeError k))"

definition build_child_unit ::
  "(nat \<Rightarrow> bool) \<Rightarrow> expansion_decision \<Rightarrow> decomposition_proposal \<Rightarrow> task_unit \<Rightarrow> (string, artifact_ref) dict \<Rightarrow> jobj \<Rightarrow> (string \<times> task_unit) res" where
  "build_child_unit alnum x p parent parent_refs spec =
     bindE (str_item spec ''child_logical_key'') (\<lambda>key.
     bindE (child_input_refs spec parent_refs) (\<lambda>input_refs.
     bindE (derive_child_initial_state p key (dict_keys parent_refs)) (\<lambda>state.
     bindE (str_item spec ''unit_type'') (\<lambda>unit_type.
     bindE (dict_item spec ''required_capabilities'') (\<lambda>capabilities.
     bindE (bindE (jitem spec ''weight'') py_float) (\<lambda>weight.
     bindE (opt_float_item spec ''budget_limit'') (\<lambda>budget.
     bindE (opt_str_item spec ''deadline'') (\<lambda>deadline.
     bindE (dict_item spec ''plugin_payload'') (\<lambda>payload.
     bindE (list_item spec ''required_outputs'') (\<lambda>outputs.
     bindE (dict_item spec ''output_contract_refs'') (\<lambda>contracts.
     bindE (jitem spec ''validator_policy_id'') (\<lambda>policy.
     bindE (mk_task_unit
       \<lparr>tu_unit_id = expansion_child_unit_id alnum (or_empty (xd_proposal_digest x)) (tu_unit_id parent) key,
        tu_task_id = xd_task_id x, tu_parent_unit_id = Some (tu_unit_id parent), tu_depth = tu_depth parent + 1,
        tu_unit_type = unit_type, tu_state = state, tu_input_refs = input_refs, tu_canonical_output_refs = [],
        tu_required_capabilities = capabilities, tu_weight = weight, tu_budget_limit = budget, tu_deadline = deadline,
        tu_plugin_payload = payload,
        tu_metadata =
          [(''child_logical_key'', JStr key), (''source_proposal_id'', opt_str (xd_proposal_id x)),
           (''source_expansion_decision_id'', JStr (xd_expansion_decision_id x)),
           (''canonical_selection_id'', JStr (xd_canonical_selection_id x)), (''required_outputs'', outputs),
           (''output_contract_refs'', JObj contracts), (''validator_policy_id'', policy)],
        tu_created_at = xd_decided_at x, tu_updated_at = xd_decided_at x, tu_last_attempt_ordinal = -1,
        tu_schema_version = ''TaskUnit.v2''\<rparr>) (\<lambda>u. Inr (key, u))))))))))))))"

text \<open>The children with their logical keys, which the code reads back from their metadata.\<close>

definition build_expansion_child_units ::
  "(nat \<Rightarrow> bool) \<Rightarrow> expansion_decision \<Rightarrow> decomposition_proposal \<Rightarrow> task_unit \<Rightarrow> (string, artifact_ref) dict \<Rightarrow> (string \<times> task_unit) list res" where
  "build_expansion_child_units alnum x p parent parent_refs = mapE (build_child_unit alnum x p parent parent_refs) (dp_child_specs p)"

definition child_unit_ids_by_key :: "(string \<times> task_unit) list \<Rightarrow> (string, string) dict" where
  "child_unit_ids_by_key cs = dict_update [] (map (\<lambda>(k, u). (k, tu_unit_id u)) cs)"

definition dict_at :: "(string, 'a) dict \<Rightarrow> string \<Rightarrow> 'a res" where
  "dict_at d k = (case dict_get d k of None \<Rightarrow> Inl (KeyError k) | Some v \<Rightarrow> Inr v)"

definition build_relation ::
  "(nat \<Rightarrow> bool) \<Rightarrow> expansion_decision \<Rightarrow> (string, string) dict \<Rightarrow> jobj \<Rightarrow> (json \<times> task_relation) res" where
  "build_relation alnum x ids edge =
     bindE (str_item edge ''source_child_key'') (\<lambda>source_key.
     bindE (str_item edge ''target_child_key'') (\<lambda>target_key.
     bindE (str_item edge ''source_output_name'') (\<lambda>source_output.
     bindE (str_item edge ''target_input_name'') (\<lambda>target_input.
     bindE (str_item edge ''relation_type'') (\<lambda>relation_type.
     bindE (dict_at ids source_key) (\<lambda>source_id.
     bindE (dict_at ids target_key) (\<lambda>target_id.
     bindE (jitem edge ''edge_logical_key'') (\<lambda>edge_key.
     Inr (edge_key,
       \<lparr>tr_relation_id = expansion_relation_id alnum (or_empty (xd_proposal_digest x)) source_key target_key source_output target_input,
        tr_task_id = xd_task_id x, tr_relation_type = relation_type, tr_source_unit_id = source_id, tr_target_unit_id = target_id,
        tr_source_output_name = Some source_output, tr_target_input_name = Some target_input,
        tr_created_reason = ''expansion_decision_accepted'',
        tr_metadata = [(''edge_logical_key'', edge_key), (''source_proposal_id'', opt_str (xd_proposal_id x)),
          (''source_expansion_decision_id'', JStr (xd_expansion_decision_id x))],
        tr_created_at = xd_decided_at x, tr_schema_version = ''TaskRelation.v1''\<rparr>)))))))))"

definition build_expansion_relations ::
  "(nat \<Rightarrow> bool) \<Rightarrow> expansion_decision \<Rightarrow> decomposition_proposal \<Rightarrow> (string, string) dict \<Rightarrow> (json \<times> task_relation) list res" where
  "build_expansion_relations alnum x p ids = mapE (build_relation alnum x ids) (dp_dependency_edges p)"

definition validate_merge_plan_child_ids :: "merge_plan \<Rightarrow> (string, string) dict \<Rightarrow> unit res" where
  "validate_merge_plan_child_ids m ids =
     checks (map (\<lambda>slot. bindE (in_str_keys (jget slot ''source_child_logical_key'') (dict_keys ids)) (\<lambda>known.
       if \<not> known then Inl (ValueError ''merge plan slot child logical key mismatch'')
       else case jget slot ''source_child_logical_key'' of
         JStr k \<Rightarrow> raise_if (jget slot ''source_child_unit_id'' \<noteq> opt_str (dict_get ids k))
           (ValueError ''merge plan slot child unit id mismatch'')
       | _ \<Rightarrow> Inl (ValueError ''merge plan slot child logical key mismatch''))) (mp_required_slots m))"

section \<open>The batch\<close>

definition expansion_batch_id :: "expansion_decision \<Rightarrow> string" where
  "expansion_batch_id x = ''expansion_batch:'' @ xd_expansion_decision_id x"

definition final_event_seq_for_batch :: "ledger_event list \<Rightarrow> string \<Rightarrow> int \<Rightarrow> int" where
  "final_event_seq_for_batch es bid fallback =
     (case find (\<lambda>e. ev_batch_id e = Some bid \<and> is_type e TASK_EXPANDED) es of None \<Rightarrow> fallback | Some e \<Rightarrow> ev_event_seq e)"

definition expected_output_refs ::
  "expansion_decision \<Rightarrow> decomposition_proposal \<Rightarrow> (string, string) dict \<Rightarrow> int \<Rightarrow> expected_output_ref list res" where
  "expected_output_refs x p ids seq =
     mapE (\<lambda>(position, out). from_expected_output out (xd_task_id x) (xd_unit_id x) (xd_canonical_selection_id x)
         (xd_canonical_output_bundle_digest x) (or_empty (xd_proposal_id x)) (xd_expansion_decision_id x) seq (int position) ids
         (xd_merge_plan_id x))
       (number_from 0 (dp_expected_outputs p))"

text \<open>The ids and times of the two documents, as their headers give them.\<close>

record document_ids =
  di_proposal_id :: string
  di_proposal_created_at :: string
  di_plan_id :: string
  di_plan_created_at :: string

definition proposal_draft :: "expansion_decision \<Rightarrow> decomposition_proposal \<Rightarrow> artifact_ref \<Rightarrow> document_ids \<Rightarrow> string \<Rightarrow> string option \<Rightarrow> event_draft" where
  "proposal_draft x p ref ids cid cause =
     engine_draft DECOMPOSITION_PROPOSAL_RECORDED ''DecompositionProposal'' (di_proposal_id ids) (xd_task_id x) cid cause
       (''decomposition_proposal:'' @ xd_expansion_scope_hash x @ '':'' @ opt_text (xd_proposal_digest x))
       [(''schema_version'', JStr ''phase4.decomposition_proposal_record.v1''),
        (''proposal_id'', JStr (di_proposal_id ids)),
        (''task_id'', JStr (xd_task_id x)),
        (''parent_unit_id'', JStr (xd_unit_id x)),
        (''canonical_selection_id'', JStr (xd_canonical_selection_id x)),
        (''proposal_ref'', JObj (ar_to_dict ref)),
        (''proposal_digest'', opt_str (xd_proposal_digest x)),
        (''expansion_scope_hash'', JStr (xd_expansion_scope_hash x)),
        (''plugin_id'', JStr (xd_plugin_id x)),
        (''plugin_version'', JStr (xd_plugin_version x)),
        (''split_strategy_id'', JStr (xd_split_strategy_id x)),
        (''child_count'', JInt (int (length (dp_child_specs p)))),
        (''dependency_edge_count'', JInt (int (length (dp_dependency_edges p)))),
        (''expected_output_count'', JInt (int (length (dp_expected_outputs p)))),
        (''merge_slot_count'', JInt (int (length (dp_merge_slots p)))),
        (''created_at'', JStr (di_proposal_created_at ids))] (di_proposal_created_at ids)"

definition merge_plan_draft :: "expansion_decision \<Rightarrow> merge_plan \<Rightarrow> artifact_ref \<Rightarrow> document_ids \<Rightarrow> string \<Rightarrow> event_draft" where
  "merge_plan_draft x m ref ids cid =
     engine_draft MERGE_PLAN_RECORDED ''MergePlan'' (di_plan_id ids) (xd_task_id x) cid (Some (xd_expansion_decision_id x))
       (''merge_plan:'' @ xd_expansion_scope_hash x @ '':'' @ opt_text (xd_proposal_digest x) @ '':'' @ opt_text (xd_merge_plan_digest x))
       [(''schema_version'', JStr ''phase4.merge_plan_record.v1''),
        (''merge_plan_id'', JStr (di_plan_id ids)),
        (''task_id'', JStr (xd_task_id x)),
        (''parent_unit_id'', JStr (xd_unit_id x)),
        (''canonical_selection_id'', JStr (xd_canonical_selection_id x)),
        (''decomposition_proposal_id'', opt_str (xd_proposal_id x)),
        (''expansion_decision_id'', JStr (xd_expansion_decision_id x)),
        (''merge_plan_ref'', JObj (ar_to_dict ref)),
        (''merge_plan_digest'', opt_str (xd_merge_plan_digest x)),
        (''merge_policy_id'', jget (mp_merge_policy_ref m) ''merge_policy_id''),
        (''merge_policy_version'', jget (mp_merge_policy_ref m) ''merge_policy_version''),
        (''required_slot_count'', JInt (int (length (mp_required_slots m)))),
        (''parent_output_mapping_count'', JInt (int (length (mp_parent_output_mapping m)))),
        (''created_at'', JStr (di_plan_created_at ids))] (di_plan_created_at ids)"

definition child_draft :: "expansion_decision \<Rightarrow> string \<Rightarrow> string \<times> task_unit \<Rightarrow> event_draft" where
  "child_draft x cid = (\<lambda>(key, u).
     engine_draft TASK_UNIT_CREATED ''TaskUnit'' (tu_unit_id u) (tu_task_id u) cid (Some (xd_expansion_decision_id x))
       (''task_unit:create:'' @ tu_unit_id u)
       [(''schema_version'', JStr ''phase4.expansion_task_unit_created.v1''),
        (''task_unit'', JObj (tu_to_dict u)),
        (''expansion_decision_id'', JStr (xd_expansion_decision_id x)),
        (''proposal_id'', opt_str (xd_proposal_id x)),
        (''proposal_digest'', opt_str (xd_proposal_digest x)),
        (''parent_unit_id'', JStr (xd_unit_id x)),
        (''child_logical_key'', JStr key),
        (''initial_state_derivation'', JStr ''phase4.child_initial_state.v1'')] (tu_created_at u))"

definition relation_draft :: "expansion_decision \<Rightarrow> string \<Rightarrow> json \<times> task_relation \<Rightarrow> event_draft" where
  "relation_draft x cid = (\<lambda>(edge_key, r).
     engine_draft TASK_RELATION_CREATED ''TaskRelation'' (tr_relation_id r) (tr_task_id r) cid (Some (xd_expansion_decision_id x))
       (''task_relation:create:'' @ tr_relation_id r)
       [(''schema_version'', JStr ''phase4.expansion_task_relation_created.v1''),
        (''task_relation'', JObj (tr_to_dict r)),
        (''expansion_decision_id'', JStr (xd_expansion_decision_id x)),
        (''proposal_id'', opt_str (xd_proposal_id x)),
        (''proposal_digest'', opt_str (xd_proposal_digest x)),
        (''edge_logical_key'', edge_key)] (tr_created_at r))"

definition expanded_draft ::
  "expansion_decision \<Rightarrow> (string \<times> task_unit) list \<Rightarrow> (json \<times> task_relation) list \<Rightarrow> expected_output_ref list \<Rightarrow> string \<Rightarrow> event_draft" where
  "expanded_draft x cs rs outs cid =
     engine_draft TASK_EXPANDED ''TaskExpansion'' (xd_expansion_decision_id x) (xd_task_id x) cid (Some (xd_expansion_decision_id x))
       (''task_expanded:'' @ xd_expansion_decision_id x)
       [(''schema_version'', JStr ''phase4.task_expanded.v1''),
        (''task_id'', JStr (xd_task_id x)),
        (''parent_unit_id'', JStr (xd_unit_id x)),
        (''expansion_decision_id'', JStr (xd_expansion_decision_id x)),
        (''canonical_selection_id'', JStr (xd_canonical_selection_id x)),
        (''proposal_id'', opt_str (xd_proposal_id x)),
        (''proposal_digest'', opt_str (xd_proposal_digest x)),
        (''merge_plan_id'', opt_str (xd_merge_plan_id x)),
        (''merge_plan_digest'', opt_str (xd_merge_plan_digest x)),
        (''child_unit_ids'', JArr (map (\<lambda>(k, u). JStr (tu_unit_id u)) cs)),
        (''relation_ids'', JArr (map (\<lambda>(k, r). JStr (tr_relation_id r)) rs)),
        (''expected_output_ids'', JArr (map (JStr \<circ> eo_expected_output_id) outs)),
        (''expanded_at'', JStr (xd_decided_at x))] (xd_decided_at x)"

record expansion_request =
  er_decision :: expansion_decision
  er_proposal :: decomposition_proposal
  er_merge_plan :: merge_plan
  er_parent_unit :: task_unit
  er_graph :: task_graph
  er_correlation_id :: string
  er_causation_event_id :: "string option"

text \<open>What is derived from an accepted decision: the children, the relations and the expected outputs.\<close>

record expansion_parts =
  ep_children :: "(string \<times> task_unit) list"
  ep_relations :: "(json \<times> task_relation) list"
  ep_expected_outputs :: "expected_output_ref list"

definition expansion_parts_of ::
  "hash \<Rightarrow> (nat \<Rightarrow> bool) \<Rightarrow> artifact_store \<Rightarrow> fs \<Rightarrow> ledger_event list \<Rightarrow> expansion_request \<Rightarrow> expansion_parts res" where
  "expansion_parts_of h alnum st fs es q =
     (let x = er_decision q; p = er_proposal q; m = er_merge_plan q; parent = er_parent_unit q in
      bindE (validate_accepted_decision_prerequisites h st fs es x) (\<lambda>facts.
      seqE (validate_expand_documents h x p m parent (er_graph q) facts)
      (bindE (build_expansion_child_units alnum x p parent (cs_canonical_output_refs (df_selection facts))) (\<lambda>cs.
       let ids = child_unit_ids_by_key cs in
       bindE (build_expansion_relations alnum x p ids) (\<lambda>rs.
       seqE (validate_merge_plan_child_ids m ids)
       (bindE (expected_output_refs x p ids
           (final_event_seq_for_batch es (expansion_batch_id x) (int (length es + (4 + length cs + length rs))))) (\<lambda>outs.
        Inr \<lparr>ep_children = cs, ep_relations = rs, ep_expected_outputs = outs\<rparr>)))))))"

definition expansion_drafts ::
  "hash \<Rightarrow> expansion_request \<Rightarrow> expansion_parts \<Rightarrow> document_ids \<Rightarrow> artifact_ref \<Rightarrow> artifact_ref \<Rightarrow> event_draft list" where
  "expansion_drafts h q made ids proposal_ref plan_ref =
     (let x = er_decision q; cid = er_correlation_id q; cause = er_causation_event_id q in
      [proposal_draft x (er_proposal q) proposal_ref ids cid cause, decision_draft h x cid cause,
       merge_plan_draft x (er_merge_plan q) plan_ref ids cid] @
      map (child_draft x cid) (ep_children made) @ map (relation_draft x cid) (ep_relations made) @
      [expanded_draft x (ep_children made) (ep_relations made) (ep_expected_outputs made) cid])"

definition expanded_graph :: "task_graph \<Rightarrow> expansion_parts \<Rightarrow> task_graph res" where
  "expanded_graph g made =
     mk_task_graph (tg_task_id g) (dict_update (tg_units g) (map (\<lambda>(k, u). (tu_unit_id u, u)) (ep_children made)))
       (tg_relations g @ map snd (ep_relations made)) (tg_canonical_outputs g) (tg_protocol_config g)"

definition staged_args :: "expansion_decision \<Rightarrow> string \<Rightarrow> string \<Rightarrow> string \<Rightarrow> artifact_args" where
  "staged_args x ty schema_id created_at =
     (engine_args ty schema_id
       [(''task_id'', JStr (xd_task_id x)), (''unit_id'', JStr (xd_unit_id x)),
        (''expansion_decision_id'', JStr (xd_expansion_decision_id x))] created_at)
       \<lparr>aa_source := [(''kind'', JStr ''protocol_engine''), (''stage'', JStr ''staged'')]\<rparr>"

record expand_flow =
  pf_decision :: expansion_decision
  pf_proposal_ref :: artifact_ref
  pf_merge_plan_ref :: artifact_ref
  pf_child_units :: "task_unit list"
  pf_relations :: "task_relation list"
  pf_expected_output_refs :: "expected_output_ref list"
  pf_task_graph :: task_graph
  pf_events :: "ledger_event list"

definition save_documents ::
  "hash \<Rightarrow> artifact_store \<Rightarrow> (nat \<Rightarrow> string) \<Rightarrow> expansion_request \<Rightarrow> (disk_ledger, document_ids \<times> artifact_ref \<times> artifact_ref) prog" where
  "save_documents h st nonce q =
     (let x = er_decision q; p = er_proposal q; m = er_merge_plan q in
      bindS (lift_res (str_item (dp_proposal_header p) ''proposal_id'')) (\<lambda>proposal_id.
      bindS (lift_res (str_item (dp_proposal_header p) ''created_at'')) (\<lambda>proposal_at.
      bindS (save_doc h st (dp_to_dict p) proposal_id
        (staged_args x ''DecompositionProposal'' ''phase4.decomposition_proposal'' proposal_at) (nonce 0)) (\<lambda>proposal_ref.
      bindS (lift_res (str_item (mp_merge_plan_header m) ''merge_plan_id'')) (\<lambda>plan_id.
      bindS (lift_res (str_item (mp_merge_plan_header m) ''created_at'')) (\<lambda>plan_at.
      bindS (save_doc h st (mp_to_dict m) plan_id (staged_args x ''MergePlan'' ''phase4.merge_plan'' plan_at) (nonce 1)) (\<lambda>plan_ref.
      lift_res (Inr (\<lparr>di_proposal_id = proposal_id, di_proposal_created_at = proposal_at, di_plan_id = plan_id,
        di_plan_created_at = plan_at\<rparr>, proposal_ref, plan_ref)))))))))"

definition record_expand_decision ::
  "hash \<Rightarrow> (nat \<Rightarrow> bool) \<Rightarrow> artifact_store option \<Rightarrow> (nat \<Rightarrow> string) \<Rightarrow> (nat \<Rightarrow> string) \<Rightarrow> expansion_request
    \<Rightarrow> (disk_ledger, expand_flow) prog" where
  "record_expand_decision h alnum store clock nonce q =
     (let x = er_decision q in
      if xd_action x \<noteq> ''expand'' then lift_res (Inl (ValueError ''record_expand_decision requires action=expand''))
      else
        bindS (lift_res (validate_task_unit_for_decision x (er_parent_unit q))) (\<lambda>_.
        bindS (lift_res (require_store store)) (\<lambda>st.
        bindS (save_documents h st nonce q) (\<lambda>(ids, proposal_ref, plan_ref).
        bindS read_prog (\<lambda>es.
        bindS read_disk (\<lambda>fs.
        bindS (lift_res (expansion_parts_of h alnum st fs es q)) (\<lambda>made.
        bindS (batch_prog h clock (expansion_drafts h q made ids proposal_ref plan_ref) (expansion_batch_id x)) (\<lambda>events.
        bindS (lift_res (expanded_graph (er_graph q) made)) (\<lambda>g.
        lift_res (Inr \<lparr>pf_decision = x, pf_proposal_ref = proposal_ref, pf_merge_plan_ref = plan_ref,
          pf_child_units = map snd (ep_children made), pf_relations = map snd (ep_relations made),
          pf_expected_output_refs = ep_expected_outputs made, pf_task_graph = g, pf_events = events\<rparr>))))))))))"

end
