(* ===== verification/Engine_Verification_Facts.thy ===== *)
theory Engine_Verification_Facts
  imports Engine_Verification
begin

text \<open>
  A recorded verification moves the attempt as its layers say; what is bound as canonical for a unit comes from a
  recorded, eligible report, and stays.
\<close>

section \<open>Programs over the ledger\<close>

lemma append_ledger_eq: "append_ledger h now d L = (s, Inr e) \<longleftrightarrow> append_event h now L d = Inr (s, e)"
  by (simp add: append_ledger_def to_prog_eq_Inr)

lemma read_ledger_prog_eq: "read_ledger_prog L = (s, Inr es) \<longleftrightarrow> s = L \<and> read_all (el_file L) = Inr es"
  by (auto simp: read_ledger_prog_def)

lemmas ledger_prog_eqs = bindS_eq_Inr append_ledger_eq read_ledger_prog_eq lift_res_eq_Inr

section \<open>Verification\<close>

definition verification_ok :: "hash \<Rightarrow> verification_report \<Rightarrow> attempt \<Rightarrow> bool" where
  "verification_ok h v a \<longleftrightarrow>
     vr_candidate_output_bundle_digest v = digest_json h (refs_json (vr_candidate_output_refs v)) \<and>
     vr_eligible_for_canonical v = derive_eligible (vr_status v) (vr_layer_results v) \<and>
     vr_eligible_for_canonical v = passed_status (vr_status v) \<and>
     (case at_candidate_output_refs a of None \<Rightarrow> True | Some refs \<Rightarrow> same_refs refs (vr_candidate_output_refs v))"

lemma mk_report_fields:
  assumes "mk_verification_report r = Inr v"
  shows "v = r\<lparr>vr_eligible_for_canonical := derive_eligible (vr_status r) (vr_layer_results r)\<rparr>" "vr_status r \<in> set allowed_statuses"
  using assms by (auto simp: mk_verification_report_def validate_report_shape_def res_simps Let_def)

lemma remade_fields:
  assumes "remade_report r = Inr v"
  shows "vr_task_id v = vr_task_id r" "vr_unit_id v = vr_unit_id r" "vr_attempt_id v = vr_attempt_id r" "vr_status v = vr_status r"
    "vr_layer_results v = vr_layer_results r" "vr_candidate_output_refs v = vr_candidate_output_refs r"
    "vr_eligible_for_canonical v = derive_eligible (vr_status v) (vr_layer_results v)" "vr_status v \<in> set allowed_statuses"
  using mk_report_fields[OF assms[unfolded remade_report_def]] by simp_all

lemma validated_report:
  assumes "validate_verification_report_for_attempt h r a = Inr v"
  shows "at_state a = AS_SUBMITTED" "remade_report r = Inr v" "verification_ok h v a"
    "[vr_task_id v, vr_unit_id v, vr_attempt_id v] = [at_task_id a, at_unit_id a, at_attempt_id a]"
proof -
  have m: "at_state a = AS_SUBMITTED" "remade_report r = Inr v" "check_report_for_attempt h v a = Inr ()"
    "vr_task_id r = at_task_id a" "vr_unit_id r = at_unit_id a" "vr_attempt_id r = at_attempt_id a"
    using assms by (auto simp: validate_verification_report_for_attempt_def res_simps)
  then show "at_state a = AS_SUBMITTED" "remade_report r = Inr v"
    "[vr_task_id v, vr_unit_id v, vr_attempt_id v] = [at_task_id a, at_unit_id a, at_attempt_id a]"
    using remade_fields[OF m(2)] by simp_all
  have "vr_eligible_for_canonical v \<Longrightarrow> passed_status (vr_status v)"
    using remade_fields(7)[OF m(2)] by (auto simp: derive_eligible_def passed_status_def split: if_splits)
  then show "verification_ok h v a"
    using m(3) remade_fields(7)[OF m(2)]
    by (auto simp: verification_ok_def check_report_for_attempt_def res_simps split: option.splits)
qed

text \<open>
  C15 verification_outcome: a verification is recorded only for a Submitted attempt, under the ids, the outputs and the digest of
  that attempt; it makes the attempt Verified exactly when the status is passed or accepted and every layer passed, whatever the
  report said about its eligibility, and Rejected exactly when the status is rejected; a status of error leaves the
  attempt as it is.
\<close>

theorem verification_outcome:
  assumes "record_verification h clock r a cid cause L = (L', Inr f)"
  shows "at_state a = AS_SUBMITTED \<and> [vr_task_id r, vr_unit_id r, vr_attempt_id r] = [at_task_id a, at_unit_id a, at_attempt_id a] \<and>
    vr_candidate_output_bundle_digest (vf_report f) = digest_json h (refs_json (vr_candidate_output_refs r)) \<and>
    (\<forall>refs. at_candidate_output_refs a = Some refs \<longrightarrow> same_refs refs (vr_candidate_output_refs r)) \<and>
    (case vf_attempt f of
       None \<Rightarrow> vr_status r = ''error''
     | Some b \<Rightarrow> at_attempt_id b = at_attempt_id a \<and>
         (at_state b = AS_VERIFIED \<longleftrightarrow> derive_eligible (vr_status r) (vr_layer_results r)) \<and>
         (at_state b = AS_REJECTED \<longleftrightarrow> vr_status r = ''rejected'') \<and> at_state b \<in> {AS_VERIFIED, AS_REJECTED})"
proof -
  obtain v where v: "validate_verification_report_for_attempt h r a = Inr v" "vf_report f = v"
    and b: "case vf_attempt f of None \<Rightarrow> vr_status v = ''error'' | Some b \<Rightarrow> vr_status v \<noteq> ''error'' \<and> verified_attempt v a = Inr b"
    using assms by (auto simp: record_verification_def ledger_prog_eqs split: if_splits)
  note w = validated_report[OF v(1)] and rm = remade_fields[OF validated_report(2)[OF v(1)]]
  have "case vf_attempt f of None \<Rightarrow> vr_status r = ''error'' | Some b \<Rightarrow> at_attempt_id b = at_attempt_id a \<and>
      (at_state b = AS_VERIFIED \<longleftrightarrow> derive_eligible (vr_status r) (vr_layer_results r)) \<and>
      (at_state b = AS_REJECTED \<longleftrightarrow> vr_status r = ''rejected'') \<and> at_state b \<in> {AS_VERIFIED, AS_REJECTED}"
  proof (cases "vf_attempt f")
    case (Some b)
    then have t: "verified_attempt v a = Inr b" and ne: "vr_status v \<noteq> ''error''" using b by simp_all
    have s: "at_state b = verified_state v" "at_attempt_id b = at_attempt_id a"
      using transition_attempt_allowed[OF t[unfolded verified_attempt_def]] transition_attempt_identity[OF t[unfolded verified_attempt_def]]
      by (simp_all add: attempt_identity_def)
    have "passed_status (vr_status v) = derive_eligible (vr_status r) (vr_layer_results r)"
      using w(3) rm by (simp add: verification_ok_def)
    moreover have "passed_status (vr_status v) \<or> vr_status v = ''rejected''" "\<not> (passed_status (vr_status v) \<and> vr_status v = ''rejected'')"
      using rm(8) ne by (auto simp: passed_status_def allowed_statuses_def)
    ultimately show ?thesis using Some s rm(4) by (auto simp: verified_state_def)
  qed (use b rm(4) in simp)
  moreover have "\<forall>refs. at_candidate_output_refs a = Some refs \<longrightarrow> same_refs refs (vr_candidate_output_refs r)"
    using w(3) rm by (auto simp: verification_ok_def)
  ultimately show ?thesis using w v(2) rm by (auto simp: verification_ok_def)
qed

section \<open>Selections\<close>

text \<open>The report that a selection names.\<close>

definition selects :: "canonical_selection \<Rightarrow> int \<Rightarrow> verification_report \<Rightarrow> bool" where
  "selects s seq v \<longleftrightarrow> cs_selected_verification_event_seq s = seq \<and>
     cs_selected_verification_report_id s = vr_verification_report_id v \<and>
     cs_selected_submission_id s = vr_submission_id v \<and> cs_selected_submission_event_seq s = vr_submission_event_seq v \<and>
     cs_selected_attempt_id s = vr_attempt_id v \<and>
     cs_canonical_output_bundle_digest s = vr_candidate_output_bundle_digest v \<and>
     same_refs (cs_canonical_output_refs s) (vr_candidate_output_refs v)"

lemma same_refs_refl [simp]: "same_refs d d"
  by (simp add: same_refs_def py_eq_def)

lemma same_refs_trans: "same_refs a b \<Longrightarrow> same_refs b c \<Longrightarrow> same_refs a c"
  by (simp add: same_refs_def py_eq_def)

lemma selection_parts:
  assumes "select_first_verified_bundle t u reports now sid md = Inr s"
  shows "\<exists>seq v. (seq, v) \<in> set reports \<and> is_candidate t u v \<and> selects s seq v \<and> cs_canonical_output_refs s = vr_candidate_output_refs v"
    "cs_task_id s = t" "cs_unit_id s = u" "cs_metadata s = Some (or_empty md)" "cs_schema_version s = ''phase4.canonical_selection.v1''"
proof -
  obtain p rest where c: "sort_key fst (filter (\<lambda>(seq, r). is_candidate t u r) reports) = p # rest"
    using assms by (cases "sort_key fst (filter (\<lambda>(seq, r). is_candidate t u r) reports)") (auto simp: select_first_verified_bundle_def)
  have m: "p \<in> set reports" "is_candidate t u (snd p)" using sorted_head[OF c] by (auto simp: split_beta)
  have "mk_canonical_selection x = Inr s \<longleftrightarrow> cs_schema_version x = ''phase4.canonical_selection.v1'' \<and> s = x" for x
    by (auto simp: mk_canonical_selection_def require_schema_version_def res_simps)
  note f = assms[unfolded select_first_verified_bundle_def c, simplified, unfolded split_beta this]
  show "\<exists>seq v. (seq, v) \<in> set reports \<and> is_candidate t u v \<and> selects s seq v \<and> cs_canonical_output_refs s = vr_candidate_output_refs v"
    using f m by (intro exI[of _ "fst p"] exI[of _ "snd p"]) (simp add: selects_def)
  show "cs_task_id s = t" "cs_unit_id s = u" "cs_metadata s = Some (or_empty md)" "cs_schema_version s = ''phase4.canonical_selection.v1''"
    using f by simp_all
qed

lemma same_commitment_selects:
  "same_canonical_commitment x y \<Longrightarrow> selects y seq v \<Longrightarrow> selects x seq v"
  by (auto simp: same_canonical_commitment_def selects_def intro: same_refs_trans)

lemma recorded_events:
  "recorded_verification_events_for_binding given es = Inr rs \<Longrightarrow> set rs \<subseteq> {e \<in> set es. is_type e VERIFICATION_RECORDED}"
  using dict_by_get_key[of ev_event_id es]
  by (auto simp: recorded_verification_events_for_binding_def Let_def split: option.splits if_splits dest!: mapE_source)

lemma reports_from_events:
  assumes "verification_reports_from_events es = Inr reports" "(seq, v) \<in> set reports"
  shows "\<exists>e d. e \<in> set es \<and> is_type e VERIFICATION_RECORDED \<and> seq = ev_event_seq e \<and>
    jget (ev_payload e) ''verification_report'' = JObj d \<and> verification_report_from_payload d = Inr v"
  using assms
  by (fastforce simp: verification_reports_from_events_def keep_some_def res_simps dest!: mapE_source split: if_splits json.splits)

text \<open>A report that the ledger has.\<close>

definition recorded_report :: "ledger_event list \<Rightarrow> int \<Rightarrow> verification_report \<Rightarrow> bool" where
  "recorded_report es seq v \<longleftrightarrow> (\<exists>e d. e \<in> set es \<and> is_type e VERIFICATION_RECORDED \<and> ev_event_seq e = seq \<and>
     jget (ev_payload e) ''verification_report'' = JObj d \<and> verification_report_from_payload d = Inr v)"

lemma bound_selection_parts:
  assumes "bound_selection q es = Inr s"
  shows "\<exists>seq v. recorded_report es seq v \<and> is_candidate (bq_task_id q) (bq_unit_id q) v \<and> selects s seq v \<and>
      cs_canonical_output_refs s = vr_candidate_output_refs v"
    "cs_task_id s = bq_task_id q" "cs_unit_id s = bq_unit_id q"
proof -
  obtain rs reports where r: "recorded_verification_events_for_binding (bq_verification_events q) es = Inr rs"
    "verification_reports_from_events rs = Inr reports"
    "select_first_verified_bundle (bq_task_id q) (bq_unit_id q) reports (bq_now q) None None = Inr s"
    using assms by (auto simp: bound_selection_def res_simps)
  note p = selection_parts[OF r(3)]
  then obtain seq v where v: "(seq, v) \<in> set reports" "is_candidate (bq_task_id q) (bq_unit_id q) v" "selects s seq v"
    "cs_canonical_output_refs s = vr_candidate_output_refs v" by blast
  have "recorded_report es seq v"
    using reports_from_events[OF r(2) v(1)] recorded_events[OF r(1)] unfolding recorded_report_def by blast
  then show "\<exists>seq v. recorded_report es seq v \<and> is_candidate (bq_task_id q) (bq_unit_id q) v \<and> selects s seq v \<and>
      cs_canonical_output_refs s = vr_candidate_output_refs v" using v by blast
  show "cs_task_id s = bq_task_id q" "cs_unit_id s = bq_unit_id q" by fact+
qed

section \<open>What a binding leaves\<close>

lemma existing_stays: "existing_canonical_event es t u = Some e \<Longrightarrow> existing_canonical_event (es @ later) t u = Some e"
  unfolding existing_canonical_event_def by (induction es) (auto split: if_splits)

lemma binding_cases:
  assumes "ledger_ok h L" "bind_canonical_outputs h clock q L = (L', Inr r)"
  obtains (old) s e where "bound_selection q (ledger_view L) = Inr s" "existing_canonical_event (ledger_view L) (bq_task_id q) (bq_unit_id q) = Some e"
      "rebind q s e = Inr r" "L' = L"
  | (new) s where "bound_selection q (ledger_view L) = Inr s"
      "existing_canonical_event (ledger_view L) (bq_task_id q) (bq_unit_id q) = None" "bind_new h clock q s L = (L', Inr r)"
proof -
  obtain s where s: "bound_selection q (ledger_view L) = Inr s"
    and c: "(case existing_canonical_event (ledger_view L) (bq_task_id q) (bq_unit_id q) of
      Some existing \<Rightarrow> lift_res (rebind q s existing) | None \<Rightarrow> bind_new h clock q s) L = (L', Inr r)"
    using assms by (auto simp: bind_canonical_outputs_def ledger_prog_eqs split: if_splits)
  then show thesis
    by (cases "existing_canonical_event (ledger_view L) (bq_task_id q) (bq_unit_id q)") (auto simp: lift_res_eq_Inr intro: old new)
qed

lemma candidate_derived:
  assumes "is_candidate t u v" "recorded_report es seq v"
  shows "derive_eligible (vr_status v) (vr_layer_results v)"
proof -
  obtain d where "verification_report_from_payload d = Inr v" using assms(2) by (auto simp: recorded_report_def)
  then obtain x where "mk_verification_report x = Inr v" by (auto simp: verification_report_from_payload_def res_simps)
  then show ?thesis using mk_report_fields(1)[of x v] assms(1) by (simp add: is_candidate_def)
qed

text \<open>
  C16 canonical_outputs_verified: what a binding returns as canonical for a unit is what a report says that is recorded in the
  ledger for that unit, has status passed or accepted, and all of whose layers passed.
\<close>

theorem canonical_outputs_verified:
  assumes "ledger_reach h L" "bind_canonical_outputs h clock q L = (L', Inr r)"
  shows "\<exists>seq v. recorded_report (ledger_view L) seq v \<and> selects (bf_canonical_selection r) seq v \<and>
    vr_task_id v = bq_task_id q \<and> vr_unit_id v = bq_unit_id q \<and> vr_status v \<in> {''passed'', ''accepted''} \<and>
    derive_eligible (vr_status v) (vr_layer_results v)"
proof -
  have c: "\<exists>s. bound_selection q (ledger_view L) = Inr s \<and> (\<forall>seq v. selects s seq v \<longrightarrow> selects (bf_canonical_selection r) seq v)"
    using ledger_reach_ok[OF assms(1)] assms(2)
  proof (cases rule: binding_cases)
    case (old s ev)
    then have "same_canonical_commitment (bf_canonical_selection r) s" by (auto simp: rebind_def res_simps)
    then show ?thesis using old(1) same_commitment_selects by blast
  next
    case (new s)
    then show ?thesis by (auto simp: bind_new_def ledger_prog_eqs)
  qed
  then obtain s where s: "bound_selection q (ledger_view L) = Inr s" "\<And>seq v. selects s seq v \<Longrightarrow> selects (bf_canonical_selection r) seq v"
    by blast
  from bound_selection_parts(1)[OF s(1)] obtain seq v where v: "recorded_report (ledger_view L) seq v"
    "is_candidate (bq_task_id q) (bq_unit_id q) v" "selects s seq v" by blast
  have "derive_eligible (vr_status v) (vr_layer_results v)" by (rule candidate_derived[OF v(2,1)])
  then show ?thesis using v(1) s(2)[OF v(3)] v(2) unfolding is_candidate_def by blast
qed

section \<open>Writing and reading a selection\<close>

definition norm_selection :: "canonical_selection \<Rightarrow> canonical_selection" where
  "norm_selection s = s\<lparr>cs_canonical_output_refs := norm_refs (cs_canonical_output_refs s),
     cs_metadata := Some (sort_obj (or_empty (cs_metadata s)))\<rparr>"

definition wf_selection :: "canonical_selection \<Rightarrow> bool" where
  "wf_selection s \<longleftrightarrow> wf_refs (cs_canonical_output_refs s) \<and> wf_obj (or_empty (cs_metadata s)) \<and>
     cs_schema_version s = ''phase4.canonical_selection.v1''"

lemma strs_sorted: "sort_members (JArr (map JStr xs)) = JArr (map JStr xs)"
  by (simp add: comp_def)

lemma mapE_JStr: "mapE (\<lambda>x. case x of JStr s \<Rightarrow> Inr s | _ \<Rightarrow> Inl (e x)) (map JStr xs) = Inr xs"
  by (induction xs) simp_all

lemma strs_item_ok: "jitem d k = Inr (JArr (map JStr xs)) \<Longrightarrow> strs_item d k = Inr xs"
  using mapE_JStr[of "\<lambda>_. TypeError k" xs] by (simp add: strs_item_def)

lemma selection_reads_back:
  assumes "wf_selection s"
  shows "canonical_selection_from_payload (sort_obj (cs_to_dict s)) = Inr (norm_selection s)"
proof -
  let ?d = "sort_obj (cs_to_dict s)"
  have g: "map_of ?d f = map_option sort_members (map_of (cs_to_dict s) f)" for f
    by (subst map_of_sort_obj) (simp_all add: cs_to_dict_def)
  have st: "str_item ?d f = Inr x" if "map_of (cs_to_dict s) f = Some (JStr x)" for f x
    using that by (simp add: str_item_def jitem_def g)
  have it: "bindE (jitem ?d f) py_int = Inr x" if "map_of (cs_to_dict s) f = Some (JInt x)" for f x
    using that by (simp add: jitem_def g)
  note get = cs_to_dict_def
  have strs: "str_item ?d ''canonical_selection_id'' = Inr (cs_canonical_selection_id s)"
    "str_item ?d ''task_id'' = Inr (cs_task_id s)"
    "str_item ?d ''unit_id'' = Inr (cs_unit_id s)"
    "str_item ?d ''selection_policy'' = Inr (cs_selection_policy s)"
    "str_item ?d ''selection_policy_version'' = Inr (cs_selection_policy_version s)"
    "str_item ?d ''selected_verification_report_id'' = Inr (cs_selected_verification_report_id s)"
    "str_item ?d ''selected_submission_id'' = Inr (cs_selected_submission_id s)"
    "str_item ?d ''selected_attempt_id'' = Inr (cs_selected_attempt_id s)"
    "str_item ?d ''canonical_output_bundle_digest'' = Inr (cs_canonical_output_bundle_digest s)"
    "str_item ?d ''selection_reason'' = Inr (cs_selection_reason s)"
    "str_item ?d ''bound_at'' = Inr (cs_bound_at s)"
    by (rule st, simp add: get)+
  have ints: "bindE (jitem ?d ''selected_verification_event_seq'') py_int = Inr (cs_selected_verification_event_seq s)"
    "bindE (jitem ?d ''selected_submission_event_seq'') py_int = Inr (cs_selected_submission_event_seq s)"
    by (rule it, simp add: get)+
  have "map_of (cs_to_dict s) ''eligible_report_ids_considered'' = Some (JArr (map JStr (cs_eligible_report_ids_considered s)))"
    by (simp add: get)
  then have considered: "strs_item ?d ''eligible_report_ids_considered'' = Inr (cs_eligible_report_ids_considered s)"
    by (intro strs_item_ok) (simp add: jitem_def g strs_sorted del: sort_members.simps)
  have "map_of (cs_to_dict s) ''canonical_output_refs'' = Some (refs_json (cs_canonical_output_refs s))"
    "map_of (cs_to_dict s) ''metadata'' = Some (JObj (or_empty (cs_metadata s)))" by (simp_all add: get)
  then have m: "map_of ?d ''canonical_output_refs'' =
      Some (JObj (sort_obj (map (\<lambda>(k, r). (k, JObj (ar_to_dict r))) (cs_canonical_output_refs s))))"
    "map_of ?d ''metadata'' = Some (JObj (sort_obj (or_empty (cs_metadata s))))"
    by (simp_all add: g refs_json_def sort_members_obj del: sort_members.simps)
  have refs: "refs_item ?d ''canonical_output_refs'' = Inr (norm_refs (cs_canonical_output_refs s))"
    using read_sorted_refs assms by (simp add: refs_item_def obj_item_def jitem_def m(1) wf_selection_def)
  have md: "dict_default ?d ''metadata'' = Inr (sort_obj (or_empty (cs_metadata s)))" by (simp add: dict_default_def m(2))
  have "map_of (cs_to_dict s) ''schema_version'' = Some (JStr (cs_schema_version s))" by (simp add: get)
  then have sv: "str_default ?d ''schema_version'' ''phase4.canonical_selection.v1'' = Inr (cs_schema_version s)"
    by (simp add: str_default_def g)
  show ?thesis
    using assms
    by (simp add: canonical_selection_from_payload_def strs ints considered refs md sv mk_canonical_selection_def
        require_schema_version_def norm_selection_def wf_selection_def)
qed

lemma report_refs_wf:
  assumes "wf_obj d" "verification_report_from_payload d = Inr v"
  shows "wf_refs (vr_candidate_output_refs v)"
proof -
  obtain rs x where r: "refs_item d ''candidate_output_refs'' = Inr rs" "mk_verification_report x = Inr v" "vr_candidate_output_refs x = rs"
    using assms(2) by (auto simp: verification_report_from_payload_def res_simps)
  then obtain ob where "dict_get d ''candidate_output_refs'' = Some (JObj ob)" "artifact_refs_from_dict ob = Inr rs"
    by (auto simp: refs_item_def obj_item_def jitem_def res_simps split: option.splits json.splits)
  then have "wf_refs rs" using artifact_refs_from_dict_wf wf_member[OF assms(1)] by blast
  then show ?thesis using mk_report_fields(1)[OF r(2)] r(3) by simp
qed

lemma bound_selection_wf:
  assumes "ledger_ok h L" "bound_selection q (ledger_view L) = Inr s"
  shows "wf_selection s"
proof -
  obtain seq v where v: "recorded_report (ledger_view L) seq v" "cs_canonical_output_refs s = vr_candidate_output_refs v"
    using bound_selection_parts(1)[OF assms(2)] by blast
  obtain e d where e: "e \<in> set (ledger_view L)" "jget (ev_payload e) ''verification_report'' = JObj d" "verification_report_from_payload d = Inr v"
    using v(1) by (auto simp: recorded_report_def)
  have "wf_obj (ev_payload e)" using wf_view[OF assms(1) e(1)] by (simp add: wf_event_def)
  then have "wf_refs (vr_candidate_output_refs v)" using report_refs_wf e(3) jget_wf[OF _ e(2)] by blast
  moreover obtain rs reports where "select_first_verified_bundle (bq_task_id q) (bq_unit_id q) reports (bq_now q) None None = Inr s"
    using assms(2) by (auto simp: bound_selection_def res_simps)
  note selection_parts(4,5)[OF this]
  ultimately show ?thesis using v(2) by (simp add: wf_selection_def or_empty_def wf_obj_def)
qed

section \<open>A binding is final\<close>

lemma sort_key_idem: "sort_key f (sort_key f xs) = sort_key f xs"
  by (simp add: sort_key_id_if_sorted)

lemma number_norm_sorted [simp]: "number_norm (sort_members j) = number_norm j"
proof (induction j)
  case (JObj d)
  have n: "map (\<lambda>(k, v). (k, number_norm v)) (map (\<lambda>(k, v). (k, sort_members v)) d) = map (\<lambda>(k, v). (k, number_norm v)) d"
    using JObj by (fastforce simp: snds.simps)
  have "sort_key fst (map (\<lambda>(k, v). (k, number_norm v)) (sort_key fst e)) = sort_key fst (map (\<lambda>(k, v). (k, number_norm v)) e)" for e
    by (simp add: sort_key_map case_prod_beta sort_key_idem)
  from this[of "map (\<lambda>(k, v). (k, sort_members v)) d"] show ?case
    unfolding sort_members.simps number_norm.simps n by simp
qed (simp_all add: comp_def)

lemma same_refs_norm: "same_refs (norm_refs d) d"
proof -
  have a: "sort_obj (ar_to_dict (norm_ref r)) = sort_obj (ar_to_dict r)" for r
    using sort_obj_idem[unfolded sort_obj_def] by (simp add: sort_obj_def ar_to_dict_def norm_ref_def)
  have "sort_members (refs_json (norm_refs d)) = sort_members (refs_json d)"
    unfolding refs_json_def sort_members_obj sorted_refs by (simp add: norm_refs_def sort_key_map sort_key_idem case_prod_beta a comp_def)
  then have "number_norm (refs_json (norm_refs d)) = number_norm (refs_json d)" by (metis number_norm_sorted)
  then show ?thesis by (simp add: same_refs_def py_eq_def)
qed

lemma same_commitment_norm: "same_canonical_commitment (norm_selection s) s"
  by (simp add: same_canonical_commitment_def norm_selection_def same_refs_norm)

lemma same_commitment_refl [simp]: "same_canonical_commitment s s"
  by (simp add: same_canonical_commitment_def)

lemma selection_draft_wf:
  assumes "wf_selection s"
  shows "wf_draft (selection_draft h s t u cid now)"
proof -
  have "wf_json (refs_json (cs_canonical_output_refs s)) \<and> floats_ok (refs_json (cs_canonical_output_refs s))"
    "wf_json (JObj (or_empty (cs_metadata s))) \<and> floats_ok (JObj (or_empty (cs_metadata s)))"
    using assms wf_refs_json by (simp_all add: wf_selection_def wf_obj_def)
  then show ?thesis
    by (simp add: selection_draft_def wf_engine_draft wf_obj_def cs_to_dict_def del: wf_json.simps(6) floats_ok.simps(6)) simp
qed

lemma appended_event:
  assumes "ledger_ok h L" "wf_draft d" "append_event h now L d = Inr (L', e)"
  shows "norm_event e \<in> set (ledger_view L')" "from_draft (norm_event e) d"
proof -
  have m: "e \<in> set (el_events L')" by (rule ledger.app_mem[OF assms(1,3)])
  then show v: "norm_event e \<in> set (ledger_view L')" by (simp add: ledger_view_def)
  note st = ledger.app_stands[OF assms(1,3)]
  have "wf_event (norm_event e)" by (rule wf_view[OF append_event_ok[OF assms] v])
  have "wf_event e" using append_event_ok[OF assms] m by (auto simp: ledger_ok_def)
  then have "sort_members (JObj (ev_payload e)) = sort_members (JObj (dr_payload d))"
    using st assms(2) canonical_json_inject[of "JObj (ev_payload e)" "JObj (dr_payload d)"]
    by (simp add: stands_for_draft_def event_signature_def draft_signature_def idempotency_signature_def wf_event_def wf_draft_def wf_obj_def
        del: sort_members.simps)
  then have "sort_obj (ev_payload e) = sort_obj (dr_payload d)" by (simp add: sort_members_obj del: sort_members.simps)
  then show "from_draft (norm_event e) d"
    using st by (simp add: from_draft_def stands_for_draft_def event_signature_def draft_signature_def idempotency_signature_def
        norm_event_def is_type_def)
qed

definition binds :: "string \<Rightarrow> string \<Rightarrow> ledger_event \<Rightarrow> bool" where
  "binds t u e \<longleftrightarrow> is_type e CANONICAL_OUTPUTS_BOUND \<and> jget (ev_payload e) ''task_id'' = JStr t \<and> jget (ev_payload e) ''unit_id'' = JStr u"

lemma existing_canonical: "existing_canonical_event es t u = find (binds t u) es"
  by (simp add: existing_canonical_event_def binds_def[abs_def])

lemma find_only: "find P xs = None \<Longrightarrow> length new \<le> 1 \<Longrightarrow> y \<in> set (xs @ new) \<Longrightarrow> P y \<Longrightarrow> find P (xs @ new) = Some y"
  by (cases new) (auto simp: find_None_iff find_Some_iff nth_append intro!: exI[of _ "length xs"])

lemma selection_payload:
  assumes "from_draft e (selection_draft h s t u cid now)"
  shows "binds (cs_task_id s) (cs_unit_id s) e" "jget (ev_payload e) ''canonical_selection'' = JObj (sort_obj (cs_to_dict s))"
proof -
  let ?p = "dr_payload (selection_draft h s t u cid now)"
  have g: "jget (ev_payload e) f = sort_members (jget ?p f)" for f
    using assms by (simp add: from_draft_def) (rule jget_sorted, simp add: selection_draft_def engine_draft_def)
  have p: "jget ?p ''task_id'' = JStr (cs_task_id s)" "jget ?p ''unit_id'' = JStr (cs_unit_id s)"
    "jget ?p ''canonical_selection'' = JObj (cs_to_dict s)"
    by (simp_all add: selection_draft_def engine_draft_def jget_def)
  have "is_type e CANONICAL_OUTPUTS_BOUND" using assms by (simp add: from_draft_def selection_draft_def engine_draft_def)
  then show "binds (cs_task_id s) (cs_unit_id s) e" by (simp add: binds_def g p)
  show "jget (ev_payload e) ''canonical_selection'' = JObj (sort_obj (cs_to_dict s))"
    by (simp add: g p sort_members_obj del: sort_members.simps)
qed

lemma bound_event:
  assumes "ledger_ok h L" "bound_selection q (ledger_view L) = Inr s"
    and "existing_canonical_event (ledger_view L) (bq_task_id q) (bq_unit_id q) = None" "bind_new h clock q s L = (L', Inr r)"
  shows "existing_canonical_event (ledger_view L') (bq_task_id q) (bq_unit_id q) = Some (norm_event (bf_event r))"
    "jget (ev_payload (norm_event (bf_event r))) ''canonical_selection'' = JObj (sort_obj (cs_to_dict s))"
    "bf_canonical_selection r = s"
proof -
  let ?d = "selection_draft h s (bq_task_id q) (bq_unit_id q) (bq_correlation_id q) (bq_now q)"
  obtain L1 d2 ae where a: "append_event h (clock 0) L ?d = Inr (L1, bf_event r)" "append_event h (clock 1) L1 d2 = Inr (L', ae)"
    and r: "bf_canonical_selection r = s"
    using assms(4) by (auto simp: bind_new_def ledger_prog_eqs)
  note e = appended_event[OF assms(1) selection_draft_wf[OF bound_selection_wf[OF assms(1,2)]] a(1)]
  note p = selection_payload[OF e(2)]
  obtain new where n: "ledger_view L1 = ledger_view L @ new" "length new \<le> 1" using append_event_view[OF a(1)] by blast
  have "existing_canonical_event (ledger_view L1) (bq_task_id q) (bq_unit_id q) = Some (norm_event (bf_event r))"
    unfolding n(1) existing_canonical using e(1) p(1) assms(3) bound_selection_parts(2,3)[OF assms(2)] n
    by (intro find_only) (simp_all add: existing_canonical)
  then show "existing_canonical_event (ledger_view L') (bq_task_id q) (bq_unit_id q) = Some (norm_event (bf_event r))"
    using append_event_view[OF a(2)] existing_stays by auto
  show "jget (ev_payload (norm_event (bf_event r))) ''canonical_selection'' = JObj (sort_obj (cs_to_dict s))" by (rule p(2))
  show "bf_canonical_selection r = s" by (rule r)
qed

text \<open>What a binding leaves in the ledger is its event, from which its selection is read back.\<close>

lemma binding_left:
  assumes "ledger_ok h L" "bind_canonical_outputs h clock q L = (L', Inr r)"
  obtains e d old where "existing_canonical_event (ledger_view L') (bq_task_id q) (bq_unit_id q) = Some e"
    "norm_event (bf_event r) = norm_event e" "jget (ev_payload e) ''canonical_selection'' = JObj d"
    "canonical_selection_from_payload d = Inr old" "same_canonical_commitment old (bf_canonical_selection r)"
  using assms
proof (cases rule: binding_cases)
  case (old s e)
  obtain d where "jget (ev_payload e) ''canonical_selection'' = JObj d" "canonical_selection_from_payload d = Inr (bf_canonical_selection r)"
    "bf_event r = e"
    using old(3) by (auto simp: rebind_def obj_item_def jitem_def jget_def res_simps split: option.splits json.splits)
  with old(2,4) show thesis by (intro that[of e d "bf_canonical_selection r"]) simp_all
next
  case (new s)
  note e = bound_event[OF assms(1) new]
  show thesis
  proof (rule that[OF e(1) _ e(2) selection_reads_back[OF bound_selection_wf[OF assms(1) new(1)]]])
    show "same_canonical_commitment (norm_selection s) (bf_canonical_selection r)" unfolding e(3) by (rule same_commitment_norm)
  qed simp
qed

text \<open>
  C17 canonical_outputs_final: once the canonical outputs of a unit are bound, every later binding of the unit, whatever reports,
  attempts and time are given and whatever else the ledger has got since, changes nothing, and returns the same event and the
  same report, submission, attempt and outputs, or is refused.
\<close>

theorem canonical_outputs_final:
  assumes "ledger_reach h L" "bind_canonical_outputs h clock q L = (L', Inr r)"
    and "ledger_reach h M" "ledger_view M = ledger_view L' @ later"
    and "bind_canonical_outputs h clock2 q2 M = (M', Inr r2)" "bq_task_id q2 = bq_task_id q" "bq_unit_id q2 = bq_unit_id q"
  shows "M' = M \<and> bf_attempt_event r2 = None \<and> norm_event (bf_event r2) = norm_event (bf_event r) \<and>
    same_canonical_commitment (bf_canonical_selection r2) (bf_canonical_selection r)"
proof -
  note ok = ledger_reach_ok[OF assms(1)] ledger_reach_ok[OF assms(3)]
  obtain e d old where e: "existing_canonical_event (ledger_view L') (bq_task_id q) (bq_unit_id q) = Some e"
    "norm_event (bf_event r) = norm_event e" "jget (ev_payload e) ''canonical_selection'' = JObj d"
    "canonical_selection_from_payload d = Inr old" "same_canonical_commitment old (bf_canonical_selection r)"
    by (rule binding_left[OF ok(1) assms(2)])
  have x: "existing_canonical_event (ledger_view M) (bq_task_id q2) (bq_unit_id q2) = Some e"
    unfolding assms(4,6,7) by (rule existing_stays[OF e(1)])
  from ok(2) assms(5) obtain s where "rebind q2 s e = Inr r2" "M' = M"
    by (cases rule: binding_cases) (simp_all add: x)
  moreover from this have "bf_canonical_selection r2 = old" "bf_event r2 = e" "bf_attempt_event r2 = None"
    using e(3,4) by (auto simp: rebind_def obj_item_def jitem_def jget_def res_simps split: option.splits json.splits)
  ultimately show ?thesis using e(2,5) by simp
qed

end
