(* ===== verification/Engine_Verification_Flow.thy ===== *)
theory Engine_Verification_Flow
  imports Engine_Verification_Facts
begin

text \<open>
  A verification that passed can be bound: the report is read back from the ledger as it was recorded, and the unit gets
  its canonical outputs.
\<close>

section \<open>Writing and reading a report\<close>

definition wf_report :: "verification_report \<Rightarrow> bool" where
  "wf_report v \<longleftrightarrow> wf_refs (vr_candidate_output_refs v) \<and> wf_obj (vr_layer_results v) \<and> wf_obj (or_nothing (vr_failure_summary v)) \<and>
     wf_obj (vr_verification_environment v) \<and> wf_obj (vr_verifier v) \<and> wf_obj (or_empty (vr_metadata v))"

definition norm_report :: "verification_report \<Rightarrow> verification_report" where
  "norm_report v = v\<lparr>vr_candidate_output_refs := norm_refs (vr_candidate_output_refs v),
     vr_layer_results := sort_obj (vr_layer_results v),
     vr_failure_summary := (if or_nothing (vr_failure_summary v) = [] then None else Some (sort_obj (or_nothing (vr_failure_summary v)))),
     vr_verification_environment := sort_obj (vr_verification_environment v), vr_verifier := sort_obj (vr_verifier v),
     vr_metadata := Some (sort_obj (or_empty (vr_metadata v)))\<rparr>"

lemma sort_obj_get_member:
  "wf_obj d \<Longrightarrow> dict_get (sort_obj d) k = map_option sort_members (dict_get d k)"
  by (subst map_of_sort_obj) (auto simp: wf_obj_def map_of_map)

lemma in_str_keys_sorted [simp]: "in_str_keys (sort_members j) ks = in_str_keys j ks"
  by (cases j) (simp_all add: in_str_keys_def)

lemma sorted_layer:
  assumes "wf_obj d" "dict_get d n = Some (JObj l)"
  shows "dict_get (sort_obj d) n = Some (JObj (sort_obj l))" "jget (sort_obj l) f = sort_members (jget l f)"
proof -
  show "dict_get (sort_obj d) n = Some (JObj (sort_obj l))"
    by (simp add: sort_obj_get_member[OF assms(1)] assms(2) sort_members_obj del: sort_members.simps)
  have "wf_obj l" using wf_member[OF assms] .
  then show "jget (sort_obj l) f = sort_members (jget l f)" by (intro jget_sorted) (simp add: wf_obj_def)
qed

lemma check_layer_sorted: "wf_obj d \<Longrightarrow> check_layer d n = Inr () \<Longrightarrow> check_layer (sort_obj d) n = Inr ()"
  using sorted_layer[of d n] by (auto simp: check_layer_def res_simps split: option.splits json.splits)

lemma layer_passed_sorted:
  assumes "wf_obj d" "layer_passed d n"
  shows "layer_passed (sort_obj d) n"
proof -
  obtain l where l: "dict_get d n = Some (JObj l)" "jget l ''status'' = JStr ''passed''"
    using assms(2) by (auto simp: layer_passed_def split: option.splits json.splits)
  show ?thesis by (simp add: layer_passed_def sorted_layer[OF assms(1) l(1)] l(2))
qed

lemma layer_passed_unsorted:
  assumes "wf_obj d" "check_layer d n = Inr ()" "layer_passed (sort_obj d) n"
  shows "layer_passed d n"
proof -
  obtain l where l: "dict_get d n = Some (JObj l)" using assms(2) by (auto simp: check_layer_def split: option.splits json.splits)
  have "sort_members (jget l ''status'') = JStr ''passed''" using assms(3) by (simp add: layer_passed_def sorted_layer[OF assms(1) l])
  then have "jget l ''status'' = JStr ''passed''" by (cases "jget l ''status''") simp_all
  then show ?thesis by (simp add: layer_passed_def l)
qed

lemma made_report_sorted:
  assumes "mk_verification_report x = Inr v" "wf_report v"
  shows "mk_verification_report (norm_report v) = Inr (norm_report v)"
proof -
  have v: "vr_schema_version v = ''phase4.verification_report.v1''" "validate_report_shape (vr_status v) (vr_layer_results v) = Inr ()"
    "vr_eligible_for_canonical v = derive_eligible (vr_status v) (vr_layer_results v)"
    using assms(1) by (auto simp: mk_verification_report_def require_schema_version_def res_simps Let_def)
  have w: "wf_obj (vr_layer_results v)" using assms(2) by (simp add: wf_report_def)
  have c: "\<forall>n \<in> set required_layers. check_layer (vr_layer_results v) n = Inr ()"
    using v(2) by (auto simp: validate_report_shape_def res_simps required_layers_def)
  have "checks (map (check_layer (sort_obj (vr_layer_results v))) ns) = Inr ()" if "set ns \<subseteq> set required_layers" for ns
    using that c check_layer_sorted[OF w] by (induction ns) auto
  then have sh: "validate_report_shape (vr_status v) (sort_obj (vr_layer_results v)) = Inr ()"
    using v(2) by (auto simp: validate_report_shape_def res_simps)
  have "layer_passed (sort_obj (vr_layer_results v)) n = layer_passed (vr_layer_results v) n" if "n \<in> set required_layers" for n
    using that c layer_passed_sorted[OF w] layer_passed_unsorted[OF w] by blast
  then have "derive_eligible (vr_status v) (sort_obj (vr_layer_results v)) = derive_eligible (vr_status v) (vr_layer_results v)"
    by (simp add: derive_eligible_def list_all_iff)
  then show ?thesis
    using v sh by (simp add: mk_verification_report_def norm_report_def require_schema_version_def Let_def)
qed

lemma sort_obj_nil: "sort_obj d = [] \<longleftrightarrow> d = []"
proof -
  have "length (sort_obj d) = length d" by (simp add: sort_obj_def)
  then show ?thesis by (metis length_0_conv)
qed

lemma report_reads_back:
  assumes "mk_verification_report x = Inr v" "wf_report v"
  shows "verification_report_from_payload (sort_obj (vr_to_dict v)) = Inr (norm_report v)"
proof -
  let ?d = "sort_obj (vr_to_dict v)"
  note get = vr_to_dict_def
  have g: "map_of ?d f = map_option sort_members (map_of (vr_to_dict v) f)" for f
    by (subst map_of_sort_obj) (simp_all add: get)
  have st: "str_item ?d f = Inr x" if "map_of (vr_to_dict v) f = Some (JStr x)" for f x
    using that by (simp add: str_item_def jitem_def g)
  have ob: "dict_item ?d f = Inr (sort_obj x)" if "map_of (vr_to_dict v) f = Some (JObj x)" for f x
    using that by (simp add: dict_item_def dict_default_def jitem_def g sort_members_obj del: sort_members.simps)
  have strs: "str_item ?d ''verification_report_id'' = Inr (vr_verification_report_id v)"
    "str_item ?d ''task_id'' = Inr (vr_task_id v)" "str_item ?d ''unit_id'' = Inr (vr_unit_id v)"
    "str_item ?d ''attempt_id'' = Inr (vr_attempt_id v)" "str_item ?d ''submission_id'' = Inr (vr_submission_id v)"
    "str_item ?d ''candidate_output_bundle_digest'' = Inr (vr_candidate_output_bundle_digest v)"
    "str_item ?d ''output_contract_id'' = Inr (vr_output_contract_id v)"
    "str_item ?d ''validator_policy_id'' = Inr (vr_validator_policy_id v)"
    "str_item ?d ''plugin_id'' = Inr (vr_plugin_id v)" "str_item ?d ''plugin_version'' = Inr (vr_plugin_version v)"
    "str_item ?d ''plugin_descriptor_digest'' = Inr (vr_plugin_descriptor_digest v)"
    "str_item ?d ''status'' = Inr (vr_status v)"
    "str_item ?d ''started_at'' = Inr (vr_started_at v)" "str_item ?d ''completed_at'' = Inr (vr_completed_at v)"
    by (rule st, simp add: get)+
  have objs: "dict_item ?d ''layer_results'' = Inr (sort_obj (vr_layer_results v))"
    "dict_item ?d ''verification_environment'' = Inr (sort_obj (vr_verification_environment v))"
    "dict_item ?d ''verifier'' = Inr (sort_obj (vr_verifier v))"
    by (rule ob, simp add: get)+
  have raw: "map_of (vr_to_dict v) ''submission_event_seq'' = Some (JInt (vr_submission_event_seq v))"
    "map_of (vr_to_dict v) ''eligible_for_canonical'' = Some (JBool (vr_eligible_for_canonical v))"
    "map_of (vr_to_dict v) ''schema_version'' = Some (JStr (vr_schema_version v))"
    "map_of (vr_to_dict v) ''required_output_names'' = Some (JArr (map JStr (vr_required_output_names v)))"
    "map_of (vr_to_dict v) ''candidate_output_refs'' = Some (refs_json (vr_candidate_output_refs v))"
    "map_of (vr_to_dict v) ''metadata'' = Some (JObj (or_empty (vr_metadata v)))"
    "map_of (vr_to_dict v) ''failure_summary'' = Some (opt_obj (vr_failure_summary v))" by (simp_all add: get)
  have scalars: "bindE (jitem ?d ''submission_event_seq'') py_int = Inr (vr_submission_event_seq v)"
    "jitem ?d ''eligible_for_canonical'' = Inr (JBool (vr_eligible_for_canonical v))"
    "str_default ?d ''schema_version'' ''phase4.verification_report.v1'' = Inr (vr_schema_version v)"
    by (simp_all add: jitem_def str_default_def g raw)
  have required: "strs_item ?d ''required_output_names'' = Inr (vr_required_output_names v)"
    by (intro strs_item_ok) (simp add: jitem_def g raw strs_sorted del: sort_members.simps)
  have "map_of ?d ''candidate_output_refs'' =
      Some (JObj (sort_obj (map (\<lambda>(k, r). (k, JObj (ar_to_dict r))) (vr_candidate_output_refs v))))"
    by (simp add: g raw refs_json_def sort_members_obj del: sort_members.simps)
  then have refs: "refs_item ?d ''candidate_output_refs'' = Inr (norm_refs (vr_candidate_output_refs v))"
    using read_sorted_refs assms(2) by (simp add: refs_item_def obj_item_def jitem_def wf_report_def)
  have md: "dict_default ?d ''metadata'' = Inr (sort_obj (or_empty (vr_metadata v)))"
    by (simp add: dict_default_def g raw sort_members_obj del: sort_members.simps)
  have fs: "(if truthy (jget ?d ''failure_summary'') then bindE (dict_item ?d ''failure_summary'') (\<lambda>s. Inr (Some s)) else Inr None) =
      Inr (if or_nothing (vr_failure_summary v) = [] then None else Some (sort_obj (or_nothing (vr_failure_summary v))))"
    by (cases "vr_failure_summary v")
      (simp_all add: jget_def dict_item_def dict_default_def jitem_def g raw or_nothing_def sort_members_obj sort_obj_nil del: sort_members.simps(2))
  show ?thesis
    unfolding made_report_sorted[OF assms, symmetric]
    by (simp add: verification_report_from_payload_def strs objs scalars required refs md fs norm_report_def split del: if_split)
      (rule arg_cong[where f = mk_verification_report], rule verification_report.equality, simp_all split del: if_split)
qed

section \<open>A verified unit gets its canonical outputs\<close>

lemma distinct_ids:
  assumes "ledger_ok h L"
  shows "distinct (map ev_event_id (ledger_view L))"
proof -
  have s: "map ev_event_seq (el_events L) = map (\<lambda>i. 1 + int i) [0..<length (el_events L)]"
    using assms chain_holds_seq[of h 1 None "el_events L"] by (simp add: ledger_ok_def)
  have "map ev_event_id (ledger_view L) = map event_id_of (map ev_event_seq (el_events L))"
    using assms by (simp add: ledger_view_def ledger_ok_def)
  also have "\<dots> = map (\<lambda>i. event_id_of (1 + int i)) [0..<length (el_events L)]" unfolding s by simp
  finally have m: "map ev_event_id (ledger_view L) = map (\<lambda>i. event_id_of (1 + int i)) [0..<length (el_events L)]" .
  have "i = j" if "event_id_of (1 + int i) = event_id_of (1 + int j)" for i j
  proof -
    have "event_number (event_id_of (1 + int i)) = Inr (1 + int i)" "event_number (event_id_of (1 + int j)) = Inr (1 + int j)"
      by (rule event_number_of, simp)+
    then show ?thesis unfolding that by simp
  qed
  then have "inj_on (\<lambda>i. event_id_of (1 + int i)) A" for A by (rule inj_onI)
  then show ?thesis unfolding m distinct_map by simp
qed

lemma recorded_found:
  assumes "ledger_ok h L" "e \<in> set (ledger_view L)" "is_type e VERIFICATION_RECORDED"
  shows "recorded_verification_events_for_binding [e] (ledger_view L) = Inr [e]"
  using dict_by_get_distinct[OF distinct_ids[OF assms(1)] assms(2)] assms(3)
  by (simp add: recorded_verification_events_for_binding_def)

lemma verification_draft_wf:
  assumes "wf_report v"
  shows "wf_draft (verification_draft h v cid cause)"
proof -
  have "wf_json (refs_json (vr_candidate_output_refs v)) \<and> floats_ok (refs_json (vr_candidate_output_refs v))"
    using assms wf_refs_json by (simp add: wf_report_def)
  moreover have "wf_obj (vr_layer_results v)" "wf_obj (vr_verification_environment v)" "wf_obj (vr_verifier v)" "wf_obj (or_empty (vr_metadata v))"
    using assms by (simp_all add: wf_report_def)
  moreover have "wf_json (opt_obj (vr_failure_summary v)) \<and> floats_ok (opt_obj (vr_failure_summary v))"
    using assms by (cases "vr_failure_summary v") (simp_all add: wf_report_def wf_obj_def or_nothing_def)
  ultimately show ?thesis
    by (simp add: verification_draft_def wf_engine_draft wf_obj_def vr_to_dict_def del: wf_json.simps(6) floats_ok.simps(6)) simp
qed

lemma verification_payload:
  assumes "from_draft e (verification_draft h v cid cause)"
  shows "is_type e VERIFICATION_RECORDED" "jget (ev_payload e) ''verification_report'' = JObj (sort_obj (vr_to_dict v))"
proof -
  show "is_type e VERIFICATION_RECORDED" using assms by (simp add: from_draft_def verification_draft_def engine_draft_def)
  let ?p = "dr_payload (verification_draft h v cid cause)"
  have g: "jget (ev_payload e) f = sort_members (jget ?p f)" for f
    using assms by (simp add: from_draft_def) (rule jget_sorted, simp add: verification_draft_def engine_draft_def)
  have "jget ?p ''verification_report'' = JObj (vr_to_dict v)" by (simp add: verification_draft_def engine_draft_def jget_def)
  then show "jget (ev_payload e) ''verification_report'' = JObj (sort_obj (vr_to_dict v))"
    by (simp add: g sort_members_obj del: sort_members.simps)
qed

lemma verified_attempt_wf:
  assumes "verified_attempt v a = Inr b" "wf_attempt a"
  shows "wf_attempt b"
proof -
  have "\<exists>s t k x. b = a\<lparr>at_state := s, at_finished_at := t, at_failure_kind := k, at_failure_reason := x\<rparr>"
    using assms(1) by (cases a) (auto simp: verified_attempt_def transition_attempt_def verified_state_def split: if_splits)
  then show ?thesis using assms(2) by (auto simp: wf_attempt_iff)
qed

lemma recorded_verification:
  assumes "ledger_ok h L" "wf_report r" "wf_attempt a" "record_verification h clock r a cid cause L = (L', Inr f)"
    and "vf_attempt f = Some b"
  defines "v \<equiv> vf_report f"
  shows "ledger_ok h L'" "ledger_reach h L \<Longrightarrow> ledger_reach h L'" "norm_event (vf_event f) \<in> set (ledger_view L')" "is_type (vf_event f) VERIFICATION_RECORDED"
    "jget (ev_payload (norm_event (vf_event f))) ''verification_report'' = JObj (sort_obj (vr_to_dict v))"
    "verification_report_from_payload (sort_obj (vr_to_dict v)) = Inr (norm_report v)"
    "verified_attempt v a = Inr b" "wf_attempt b" "verification_ok h v a" "vr_attempt_id v = at_attempt_id a"
    "vr_task_id v = vr_task_id r" "vr_unit_id v = vr_unit_id r"
proof -
  obtain L1 ae where p: "validate_verification_report_for_attempt h r a = Inr v"
    "append_event h (clock 0) L (verification_draft h v cid cause) = Inr (L1, vf_event f)" "verified_attempt v a = Inr b"
    "append_event h (clock 1) L1 (verified_draft v b cid (ev_event_id (vf_event f))) = Inr (L', ae)"
    using assms(4,5) unfolding v_def by (auto simp: record_verification_def ledger_prog_eqs split: if_splits)
  note w = validated_report[OF p(1)]
  have x: "v = r\<lparr>vr_failure_summary := vr_failure_summary v, vr_metadata := Some (or_empty (vr_metadata r)),
      vr_eligible_for_canonical := vr_eligible_for_canonical v\<rparr>" "or_nothing (vr_failure_summary v) = or_nothing (vr_failure_summary r)"
    using mk_report_fields(1)[OF w(2)[unfolded remade_report_def]] by (auto simp: or_nothing_def split: option.splits if_splits)
  have wv: "wf_report v" using assms(2) x(2) unfolding wf_report_def
    by (subst (1 2 3 4 5 6) x(1)) (simp add: or_empty_def)
  show rb: "verification_report_from_payload (sort_obj (vr_to_dict v)) = Inr (norm_report v)"
    using w(2) unfolding remade_report_def by (rule report_reads_back[OF _ wv])
  have dw: "wf_draft (verification_draft h v cid cause)" by (rule verification_draft_wf[OF wv])
  note ok1 = append_event_ok[OF assms(1) dw p(2)]
  note e = appended_event[OF assms(1) dw p(2)]
  show wb: "wf_attempt b" by (rule verified_attempt_wf[OF p(3) assms(3)])
  then have dw2: "wf_draft (verified_draft v b cid (ev_event_id (vf_event f)))"
    by (simp add: verified_draft_def wf_engine_draft wf_attempt_def wf_obj_def)
  show "ledger_ok h L'" by (rule append_event_ok[OF ok1 dw2 p(4)])
  show "ledger_reach h L'" if "ledger_reach h L" by (rule ledger_append[OF ledger_append[OF that dw p(2)] dw2 p(4)])
  show "norm_event (vf_event f) \<in> set (ledger_view L')" using e(1) append_event_view[OF p(4)] by auto
  show "is_type (vf_event f) VERIFICATION_RECORDED"
    "jget (ev_payload (norm_event (vf_event f))) ''verification_report'' = JObj (sort_obj (vr_to_dict v))"
    using verification_payload[OF e(2)] by simp_all
  show "verified_attempt v a = Inr b" "verification_ok h v a" "vr_attempt_id v = at_attempt_id a"
    "vr_task_id v = vr_task_id r" "vr_unit_id v = vr_unit_id r"
    using p(3) w remade_fields[OF w(2)] by simp_all
qed

lemma wf_obj_set:
  assumes "wf_obj d" "wf_json v" "floats_ok v"
  shows "wf_obj (dict_set k v d)"
proof -
  have "set (dict_set k v d) \<subseteq> insert (k, v) (set d)" by (induction k v d rule: dict_set.induct) auto
  moreover have "distinct (map fst (dict_set k v d))" using dict_ok_set[of d k v] assms(1) by (simp add: dict_ok_def wf_obj_def)
  ultimately show ?thesis using assms by (auto simp: wf_obj_def)
qed

lemma canonical_attempt_wf:
  assumes "canonical_attempt s a now = Inr b" "wf_attempt a"
  shows "wf_attempt b"
proof -
  have m: "or_empty x = or_nothing x" for x :: "jobj option" by (simp add: or_empty_def or_nothing_def)
  have b: "b = a\<lparr>at_state := AS_CANONICAL, at_metadata := Some (dict_set ''canonical_output_bundle_digest''
      (JStr (cs_canonical_output_bundle_digest s)) (dict_set ''canonical_selection_id'' (JStr (cs_canonical_selection_id s)) (or_empty (at_metadata a))))\<rparr>"
    using assms(1) by (auto simp: canonical_attempt_def transition_attempt_def dict_update_def or_empty_def split: if_splits)
  have "wf_obj (or_nothing (at_metadata a))" using assms(2) by (simp add: wf_attempt_iff)
  note wf_obj_set[OF wf_obj_set[OF this]]
  then show ?thesis using assms(2) unfolding b wf_attempt_iff m by (simp add: or_nothing_def)
qed

lemma binding_grows:
  assumes "ledger_ok h L" "bind_canonical_outputs h clock q L = (L', Inr r)"
  shows "\<exists>new. ledger_view L' = ledger_view L @ new"
  using assms
proof (cases rule: binding_cases)
  case (new s)
  then obtain d1 d2 L1 e ae where "append_event h (clock 0) L d1 = Inr (L1, e)" "append_event h (clock 1) L1 d2 = Inr (L', ae)"
    by (auto simp: bind_new_def ledger_prog_eqs)
  then show ?thesis using append_event_view[of h "clock 0" L d1] append_event_view[of h "clock 1" L1 d2] by auto
qed simp

lemma binding_reach:
  assumes "ledger_reach h L" "\<forall>p \<in> set (bq_attempts_by_id q). wf_attempt (snd p)" "bind_canonical_outputs h clock q L = (L', Inr r)"
  shows "ledger_reach h L'"
  using ledger_reach_ok[OF assms(1)] assms(3)
proof (cases rule: binding_cases)
  case (new s)
  then obtain a b L1 e ae where p: "selected_attempt q s = Inr a" "canonical_attempt s a (bq_now q) = Inr b"
    "append_event h (clock 0) L (selection_draft h s (bq_task_id q) (bq_unit_id q) (bq_correlation_id q) (bq_now q)) = Inr (L1, e)"
    "append_event h (clock 1) L1 (canonical_draft s b (bq_correlation_id q) (ev_event_id e) (bq_now q)) = Inr (L', ae)"
    by (auto simp: bind_new_def ledger_prog_eqs)
  have "wf_attempt a" using p(1) assms(2) by (auto simp: selected_attempt_def split: option.splits if_splits dest!: dict_get_mem)
  then have "wf_draft (canonical_draft s b (bq_correlation_id q) (ev_event_id e) (bq_now q))"
    using canonical_attempt_wf[OF p(2)] by (simp add: canonical_draft_def wf_engine_draft wf_attempt_def wf_obj_def)
  then show ?thesis
    using ledger_append[OF ledger_append[OF assms(1) selection_draft_wf[OF bound_selection_wf[OF ledger_reach_ok[OF assms(1)] new(1)]] p(3)] _ p(4)]
    by blast
qed (use assms(1) in simp)

lemma verified_binds:
  assumes "ledger_reach h L" "wf_report r" "wf_attempt a" "record_verification h clock r a cid cause L = (L', Inr f)"
    and "vf_attempt f = Some b" "at_state b = AS_VERIFIED"
    and "existing_canonical_event (ledger_view L') (vr_task_id r) (vr_unit_id r) = None"
    and "ev_idempotency_key ` set (el_events L') \<inter>
      {''canonical_outputs:'' @ vr_task_id r @ '':'' @ vr_unit_id r,
       ''attempt:state:'' @ at_attempt_id b @ '':Verified:Canonical:canonical_selection:'' @ vr_task_id r @ '':'' @ vr_unit_id r} = {}"
  shows "\<exists>M g c. bind_canonical_outputs h clock2 \<lparr>bq_task_id = vr_task_id r, bq_unit_id = vr_unit_id r,
      bq_verification_events = [norm_event (vf_event f)], bq_attempts_by_id = [(at_attempt_id b, b)],
      bq_policy = ''first_verified_bundle'', bq_now = now, bq_correlation_id = cid2\<rparr> L' = (M, Inr g) \<and>
    bf_attempt g = Some c \<and> at_attempt_id c = at_attempt_id a \<and> at_state c = AS_CANONICAL \<and>
    selects (bf_canonical_selection g) (ev_event_seq (vf_event f)) (norm_report (vf_report f))"
proof -
  define v where "v = vf_report f"
  define w where "w = norm_report v"
  let ?t = "vr_task_id r" and ?u = "vr_unit_id r" and ?e = "norm_event (vf_event f)"
  let ?q = "\<lparr>bq_task_id = ?t, bq_unit_id = ?u, bq_verification_events = [?e], bq_attempts_by_id = [(at_attempt_id b, b)],
      bq_policy = ''first_verified_bundle'', bq_now = now, bq_correlation_id = cid2\<rparr>"
  note rec = recorded_verification[OF ledger_reach_ok[OF assms(1)] assms(2-5), folded v_def]
  have b: "at_attempt_id b = at_attempt_id a" "passed_status (vr_status v)"
    using transition_attempt_allowed[OF rec(7)[unfolded verified_attempt_def]]
      transition_attempt_identity[OF rec(7)[unfolded verified_attempt_def]] assms(6)
    by (auto simp: attempt_identity_def verified_state_def split: if_splits)
  have c: "is_candidate ?t ?u w" using rec(9,11,12) b(2)
    by (auto simp: is_candidate_def w_def norm_report_def verification_ok_def passed_status_def)
  obtain s where s: "select_first_verified_bundle ?t ?u [(ev_event_seq (vf_event f), w)] now None None = Inr s"
    "cs_canonical_selection_id s = ''canonical_selection:'' @ ?t @ '':'' @ ?u"
    using c by (simp add: select_first_verified_bundle_def mk_canonical_selection_def require_schema_version_def or_str_def)
  have sel: "selects s (ev_event_seq (vf_event f)) w" using selection_parts(1)[OF s(1)] by auto
  have "verification_reports_from_events [?e] = Inr [(ev_event_seq (vf_event f), w)]"
    using rec(4,5,6) by (simp add: verification_reports_from_events_def keep_some_def w_def)
  then have bound: "bound_selection ?q (ledger_view L') = Inr s"
    using recorded_found[OF rec(1,3)] rec(4) s(1) by (simp add: bound_selection_def)
  have id: "cs_selected_attempt_id s = at_attempt_id b" using sel rec(10) b(1) by (simp add: selects_def w_def norm_report_def)
  obtain d where d: "canonical_attempt s b now = Inr d" "at_state d = AS_CANONICAL" "at_attempt_id d = at_attempt_id b"
    using assms(6) by (simp add: canonical_attempt_def transition_attempt_def attempt_transitions_def)
  let ?d1 = "selection_draft h s ?t ?u cid2 now"
  obtain M1 e1 where e1: "append_event h (clock2 0) L' ?d1 = Inr (M1, e1)" "el_events M1 = el_events L' @ [e1]"
    "ev_idempotency_key e1 = dr_idempotency_key ?d1"
    using append_event_fresh[OF rec(1), of ?d1 "clock2 0"] assms(8) by (auto simp: selection_draft_def engine_draft_def)
  have "wf_draft ?d1" by (rule selection_draft_wf[OF bound_selection_wf[OF rec(1) bound]])
  note ok = append_event_ok[OF rec(1) this e1(1)]
  let ?d2 = "canonical_draft s d cid2 (ev_event_id e1) now"
  have k: "dr_idempotency_key ?d2 = ''attempt:state:'' @ at_attempt_id b @ '':Verified:Canonical:canonical_selection:'' @ ?t @ '':'' @ ?u"
    by (simp add: canonical_draft_def engine_draft_def d(3) s(2))
  obtain M e2 where e2: "append_event h (clock2 1) M1 ?d2 = Inr (M, e2)"
    using append_event_fresh[OF ok, of ?d2 "clock2 1"] assms(8) e1(2,3) k by (auto simp: selection_draft_def engine_draft_def)
  let ?g = "\<lparr>bf_canonical_selection = s, bf_event = e1, bf_attempt = Some d, bf_attempt_event = Some e2\<rparr>"
  have "bind_new h clock2 ?q s L' = (M, Inr ?g)"
    using e1(1) e2 d(1) id assms(6) by (simp add: bind_new_def ledger_prog_eqs selected_attempt_def)
  then have "bind_canonical_outputs h clock2 ?q L' = (M, Inr ?g)"
    using bound assms(7) rec(1) by (simp add: bind_canonical_outputs_def ledger_prog_eqs)
  then show ?thesis using d(2,3) b(1) sel unfolding w_def v_def by (intro exI[of _ M] exI[of _ ?g] exI[of _ d]) simp
qed

text \<open>
  C18 verified_unit_binds: when a verification made an attempt Verified and its unit has no canonical outputs yet, binding the unit
  to the recorded event succeeds: the attempt becomes Canonical and the selection names the recorded report and event.
\<close>

theorem verified_unit_binds:
  assumes "ledger_reach h L" "wf_report r" "wf_attempt a" "record_verification h clock r a cid cause L = (L', Inr f)"
    and "vf_attempt f = Some b" "at_state b = AS_VERIFIED"
    and "existing_canonical_event (ledger_view L') (vr_task_id r) (vr_unit_id r) = None"
    and "ev_idempotency_key ` set (el_events L') \<inter>
      {''canonical_outputs:'' @ vr_task_id r @ '':'' @ vr_unit_id r,
       ''attempt:state:'' @ at_attempt_id b @ '':Verified:Canonical:canonical_selection:'' @ vr_task_id r @ '':'' @ vr_unit_id r} = {}"
  shows "\<exists>M g c. bind_canonical_outputs h clock2 \<lparr>bq_task_id = vr_task_id r, bq_unit_id = vr_unit_id r,
      bq_verification_events = [norm_event (vf_event f)], bq_attempts_by_id = [(at_attempt_id b, b)],
      bq_policy = ''first_verified_bundle'', bq_now = now, bq_correlation_id = cid2\<rparr> L' = (M, Inr g) \<and>
    bf_attempt g = Some c \<and> at_attempt_id c = at_attempt_id a \<and> at_state c = AS_CANONICAL \<and>
    selects (bf_canonical_selection g) (ev_event_seq (vf_event f)) (norm_report (vf_report f))"
  by (rule verified_binds[OF assms])

section \<open>A verification at work\<close>

definition sample_submitted :: attempt where
  "sample_submitted = sample_running\<lparr>at_state := AS_SUBMITTED\<rparr>"

lemma sample_report_made:
  obtains r where "build_verification_report id sample_report_input = Inr r" "remade_report r = Inr r" "wf_report r"
    "check_report_for_attempt id r sample_submitted = Inr ()"
    "[vr_task_id r, vr_unit_id r, vr_attempt_id r, vr_status r, vr_submission_id r, vr_validator_policy_id r] =
      [''task_1'', ''u1'', ''attempt_1'', ''passed'', ''submission_1'', ''v'']"
    "derive_eligible (vr_status r) (vr_layer_results r)"
proof -
  let ?i = sample_report_input
  define r where "r = projr (build_verification_report id ?i)"
  note defs = build_verification_report_def mk_verification_report_def sample_report_input_def Let_def
      require_schema_version_def validate_report_shape_def allowed_statuses_def required_layers_def check_layer_def
      report_layers_def mk_layer_def required_outputs_layer_def evidence_layer_def in_str_keys_def jget_def
      allowed_layer_statuses_def
  have f: "build_verification_report id ?i = Inr r" "vr_failure_summary r = None" "vr_metadata r = Some []" "vr_candidate_output_refs r = []"
    "vr_candidate_output_bundle_digest r = digest_json id (refs_json [])" "vr_required_output_names r = []" "vr_verification_environment r = []"
    "vr_verifier r = []" "vr_layer_results r = report_layers ?i"
    and ids: "[vr_task_id r, vr_unit_id r, vr_attempt_id r, vr_status r, vr_submission_id r, vr_validator_policy_id r] =
      [''task_1'', ''u1'', ''attempt_1'', ''passed'', ''submission_1'', ''v'']"
    unfolding r_def by (simp_all add: defs first_failure_summary_def layer_of_def or_empty_def)
  obtain x where x: "mk_verification_report x = Inr r" using f(1) by (auto simp: build_verification_report_def Let_def)
  have el: "derive_eligible (vr_status r) (vr_layer_results r)" using ids f(9)
    by (simp add: derive_eligible_def layer_passed_def defs)
  have el2: "vr_eligible_for_canonical r" using mk_report_fields(1)[OF x] el by simp
  have "mk_verification_report r = Inr r"
    using x el by (auto simp: mk_verification_report_def Let_def res_simps)
  moreover have u: "r\<lparr>vr_failure_summary := None, vr_metadata := Some []\<rparr> = r" using f(2,3) by (cases r) simp
  have "remade_report r = mk_verification_report (r\<lparr>vr_failure_summary := None, vr_metadata := Some []\<rparr>)"
    by (simp add: remade_report_def f or_empty_def)
  ultimately have rr: "remade_report r = Inr r" unfolding u by simp
  moreover have wr: "wf_report r" unfolding wf_report_def f or_nothing_def or_empty_def
    by (simp add: wf_refs_def wf_obj_def defs)
  moreover have cr: "check_report_for_attempt id r sample_submitted = Inr ()"
    using ids el el2 f by (simp add: check_report_for_attempt_def sample_submitted_def sample_running_def claim_attempt_def passed_status_def or_empty_def)
  ultimately show thesis by (intro that[OF f(1) rr wr cr ids el])
qed

lemma sample_verification_run:
  obtains r L' f b where "record_verification id (\<lambda>_. ''now'') r sample_submitted ''corr'' None empty_ledger = (L', Inr f)"
    "vf_attempt f = Some b" "at_state b = AS_VERIFIED" "at_attempt_id b = ''attempt_1''" "wf_report r" "wf_attempt sample_submitted"
    "vr_task_id r = ''task_1''" "vr_unit_id r = ''u1''" "derive_eligible (vr_status r) (vr_layer_results r)"
    "ev_idempotency_key ` set (el_events L') =
      {''verification:submission_1:v'', ''attempt:state:attempt_1:Submitted:Verified:verification:'' @ vr_verification_report_id r}"
    "existing_canonical_event (ledger_view L') t u = None"
proof -
  obtain r where r: "remade_report r = Inr r" "wf_report r" "check_report_for_attempt id r sample_submitted = Inr ()"
    "[vr_task_id r, vr_unit_id r, vr_attempt_id r, vr_status r, vr_submission_id r, vr_validator_policy_id r] =
      [''task_1'', ''u1'', ''attempt_1'', ''passed'', ''submission_1'', ''v'']"
    "derive_eligible (vr_status r) (vr_layer_results r)"
    by (rule sample_report_made)
  have a: "at_state sample_submitted = AS_SUBMITTED" "at_task_id sample_submitted = ''task_1''" "at_unit_id sample_submitted = ''u1''"
    "at_attempt_id sample_submitted = ''attempt_1''"
    by (simp_all add: sample_submitted_def sample_running_def claim_attempt_def sample_decision_def)
  have v: "validate_verification_report_for_attempt id r sample_submitted = Inr r"
    using r by (simp add: validate_verification_report_for_attempt_def a)
  obtain b where b: "verified_attempt r sample_submitted = Inr b" "at_state b = AS_VERIFIED" "at_attempt_id b = ''attempt_1''"
    using r(4) by (simp add: verified_attempt_def transition_attempt_def verified_state_def verified_reason_def passed_status_def
        attempt_transitions_def a)
  have wa: "wf_attempt sample_submitted" using sample_running_wf by (simp add: wf_attempt_iff sample_submitted_def)
  let ?d1 = "verification_draft id r ''corr'' None"
  have k1: "dr_idempotency_key ?d1 = ''verification:submission_1:v''" using r(4) by (simp add: verification_draft_def engine_draft_def)
  obtain L1 e where e: "append_event id ''now'' empty_ledger ?d1 = Inr (L1, e)" "el_events L1 = [e]" "ev_idempotency_key e = dr_idempotency_key ?d1"
    using append_event_fresh[OF empty_ok(1), of ?d1 id "''now''"] by (auto simp: empty_ok)
  note ok1 = append_event_ok[OF empty_ok(1) verification_draft_wf[OF r(2)] e(1)]
  let ?d2 = "verified_draft r b ''corr'' (ev_event_id e)"
  have k2: "dr_idempotency_key ?d2 = ''attempt:state:attempt_1:Submitted:Verified:verification:'' @ vr_verification_report_id r"
    using r(4) by (simp add: verified_draft_def engine_draft_def b(3) verified_state_def passed_status_def)
  obtain L' ae where ae: "append_event id ''now'' L1 ?d2 = Inr (L', ae)" "el_events L' = [e, ae]" "ev_idempotency_key ae = dr_idempotency_key ?d2"
    using append_event_fresh[OF ok1, of ?d2 "''now''"] e(2,3) k1 k2 by auto
  obtain n1 n2 where n: "ledger_view L' = n1 @ n2" "\<forall>y \<in> set n1. from_draft y ?d1" "\<forall>y \<in> set n2. from_draft y ?d2"
    using append_event_view[OF e(1)] append_event_view[OF ae(1)] by (metis append_Nil empty_ok(2))
  have "\<not> is_type y CANONICAL_OUTPUTS_BOUND" if "y \<in> set (ledger_view L')" for y
    using that n by (auto simp: from_draft_def verification_draft_def verified_draft_def engine_draft_def dict_get_default_def event_types_def)
  then have x: "existing_canonical_event (ledger_view L') t u = None" by (auto simp: existing_canonical_event_def find_None_iff)
  have keys: "ev_idempotency_key ` set (el_events L') =
      {''verification:submission_1:v'', ''attempt:state:attempt_1:Submitted:Verified:verification:'' @ vr_verification_report_id r}"
    unfolding ae(2) by (simp only: list.set image_insert image_empty ae(3) e(3) k1 k2)
  have run: "record_verification id (\<lambda>_. ''now'') r sample_submitted ''corr'' None empty_ledger =
      (L', Inr \<lparr>vf_report = r, vf_event = e, vf_attempt = Some b, vf_attempt_event = Some ae\<rparr>)"
    using v r(4) e(1) b(1) ae(1) by (simp add: record_verification_def ledger_prog_eqs)
  show thesis by (rule that[OF run _ b(2,3) r(2) wa _ _ r(5) keys x]) (use r(4) in simp_all)
qed

lemma verification_outcome_witness:
  "\<exists>r L' f b. record_verification id (\<lambda>_. ''now'') r sample_submitted ''corr'' None empty_ledger = (L', Inr f) \<and>
     vf_attempt f = Some b \<and> at_state b = AS_VERIFIED"
proof -
  obtain r L' f b where "record_verification id (\<lambda>_. ''now'') r sample_submitted ''corr'' None empty_ledger = (L', Inr f)" "vf_attempt f = Some b"
    "derive_eligible (vr_status r) (vr_layer_results r)" by (rule sample_verification_run)
  with verification_outcome[OF this(1)] show ?thesis by auto
qed

lemma sample_key_free:
  "{''verification:submission_1:v'', ''attempt:state:attempt_1:Submitted:Verified:verification:'' @ i} \<inter>
     {''canonical_outputs:task_1:u1'', ''attempt:state:attempt_1:Verified:Canonical:canonical_selection:task_1:u1''} = {}"
  by simp

lemma verified_unit_binds_witness:
  "\<exists>r L' f b q M g c. record_verification id (\<lambda>_. ''now'') r sample_submitted ''corr'' None empty_ledger = (L', Inr f) \<and>
     bind_canonical_outputs id (\<lambda>_. ''now'') q L' = (M, Inr g) \<and> vf_attempt f = Some b \<and> bf_attempt g = Some c \<and>
     bq_attempts_by_id q = [(''attempt_1'', b)] \<and> at_state c = AS_CANONICAL"
proof -
  obtain r L' f b where s: "record_verification id (\<lambda>_. ''now'') r sample_submitted ''corr'' None empty_ledger = (L', Inr f)"
    "vf_attempt f = Some b" "at_state b = AS_VERIFIED" "at_attempt_id b = ''attempt_1''" "wf_report r" "wf_attempt sample_submitted"
    "vr_task_id r = ''task_1''" "vr_unit_id r = ''u1''"
    "ev_idempotency_key ` set (el_events L') =
      {''verification:submission_1:v'', ''attempt:state:attempt_1:Submitted:Verified:verification:'' @ vr_verification_report_id r}"
    "existing_canonical_event (ledger_view L') ''task_1'' ''u1'' = None"
    by (rule sample_verification_run[of "''task_1''" "''u1''"])
  have k: "ev_idempotency_key ` set (el_events L') \<inter>
      {''canonical_outputs:'' @ vr_task_id r @ '':'' @ vr_unit_id r,
       ''attempt:state:'' @ at_attempt_id b @ '':Verified:Canonical:canonical_selection:'' @ vr_task_id r @ '':'' @ vr_unit_id r} = {}"
    unfolding s(4,7,8,9) using sample_key_free by simp
  from verified_unit_binds[OF empty_reach s(5,6,1,2,3) s(10)[folded s(7,8)] k, of "\<lambda>_. ''now''" "''now''" "''corr''"] s(1,2,4)
  show ?thesis by (metis binding_request.select_convs(4))
qed

lemma sample_binding_run:
  obtains L' q M g where "ledger_reach id L'" "bind_canonical_outputs id (\<lambda>_. ''now'') q L' = (M, Inr g)" "ledger_reach id M"
    "bound_selection q (ledger_view L') = Inr (bf_canonical_selection g)" "bf_attempt g \<noteq> None" "bq_policy q = ''first_verified_bundle''"
    "bound_selection q (ledger_view M) = Inr (bf_canonical_selection g)"
proof -
  obtain r L' f b where s: "record_verification id (\<lambda>_. ''now'') r sample_submitted ''corr'' None empty_ledger = (L', Inr f)"
    "vf_attempt f = Some b" "at_state b = AS_VERIFIED" "at_attempt_id b = ''attempt_1''" "wf_report r" "wf_attempt sample_submitted"
    "vr_task_id r = ''task_1''" "vr_unit_id r = ''u1''"
    "ev_idempotency_key ` set (el_events L') =
      {''verification:submission_1:v'', ''attempt:state:attempt_1:Submitted:Verified:verification:'' @ vr_verification_report_id r}"
    "existing_canonical_event (ledger_view L') ''task_1'' ''u1'' = None"
    by (rule sample_verification_run[of "''task_1''" "''u1''"])
  note rec = recorded_verification[OF empty_ok(1) s(5,6,1,2)]
  have k: "ev_idempotency_key ` set (el_events L') \<inter>
      {''canonical_outputs:'' @ vr_task_id r @ '':'' @ vr_unit_id r,
       ''attempt:state:'' @ at_attempt_id b @ '':Verified:Canonical:canonical_selection:'' @ vr_task_id r @ '':'' @ vr_unit_id r} = {}"
    unfolding s(4,7,8,9) using sample_key_free by simp
  define q where "q = \<lparr>bq_task_id = vr_task_id r, bq_unit_id = vr_unit_id r,
      bq_verification_events = [norm_event (vf_event f)], bq_attempts_by_id = [(at_attempt_id b, b)],
      bq_policy = ''first_verified_bundle'', bq_now = ''now'', bq_correlation_id = ''corr''\<rparr>"
  have q: "bq_task_id q = ''task_1''" "bq_unit_id q = ''u1''" "bq_policy q = ''first_verified_bundle''"
    "\<forall>p \<in> set (bq_attempts_by_id q). wf_attempt (snd p)"
    using rec(8) by (simp_all add: q_def s(7,8))
  obtain M g c where g: "bind_canonical_outputs id (\<lambda>_. ''now'') q L' = (M, Inr g)" "bf_attempt g = Some c"
    unfolding q_def using verified_binds[OF empty_reach s(5,6,1,2,3) s(10)[folded s(7,8)] k, of "\<lambda>_. ''now''" "''now''" "''corr''"] by blast
  have l: "ledger_reach id L'" by (rule rec(2)[OF empty_reach])
  obtain x where x: "bound_selection q (ledger_view L') = Inr x" "bind_new id (\<lambda>_. ''now'') q x L' = (M, Inr g)"
    using rec(1) g(1) by (cases rule: binding_cases) (use s(10) q in auto)
  have "bf_canonical_selection g = x" using x(2) by (auto simp: bind_new_def ledger_prog_eqs)
  moreover have m: "ledger_reach id M" by (rule binding_reach[OF l q(4) g(1)])
  have "norm_event (vf_event f) \<in> set (ledger_view M)" using binding_grows[OF rec(1) g(1)] rec(3) by auto
  then have "bound_selection q (ledger_view M) = bound_selection q (ledger_view L')"
    using recorded_found[OF ledger_reach_ok[OF m]] recorded_found[OF rec(1)] rec(3,4) by (simp add: bound_selection_def q_def)
  ultimately show thesis using x(1) g(2) by (intro that[OF l g(1) m _ _ q(3)]) simp_all
qed

lemma canonical_outputs_verified_witness:
  "\<exists>L' q M g (v :: verification_report). bind_canonical_outputs id (\<lambda>_. ''now'') q L' = (M, Inr g) \<and> vr_status v \<in> {''passed'', ''accepted''} \<and>
     cs_selected_verification_report_id (bf_canonical_selection g) = vr_verification_report_id v"
proof -
  obtain L' q M g where "ledger_reach id L'" "bind_canonical_outputs id (\<lambda>_. ''now'') q L' = (M, Inr g)" by (rule sample_binding_run)
  note b = this(2)
  from canonical_outputs_verified[OF \<open>ledger_reach id L'\<close> b] obtain seq v where
    "selects (bf_canonical_selection g) seq v" "vr_status v \<in> {''passed'', ''accepted''}" by blast
  then have "bind_canonical_outputs id (\<lambda>_. ''now'') q L' = (M, Inr g) \<and> vr_status v \<in> {''passed'', ''accepted''} \<and>
      cs_selected_verification_report_id (bf_canonical_selection g) = vr_verification_report_id v"
    using b unfolding selects_def by simp
  then show ?thesis by blast
qed

lemma rebinds:
  assumes "ledger_ok h L" "bind_canonical_outputs h clock q L = (M, Inr g)" "ledger_ok h M"
    and "bound_selection q (ledger_view M) = Inr (bf_canonical_selection g)" "bq_policy q = ''first_verified_bundle''"
  shows "\<exists>g'. bind_canonical_outputs h clock2 q M = (M, Inr g')"
proof -
  obtain e d old where "existing_canonical_event (ledger_view M) (bq_task_id q) (bq_unit_id q) = Some e"
    "jget (ev_payload e) ''canonical_selection'' = JObj d" "canonical_selection_from_payload d = Inr old"
    "same_canonical_commitment old (bf_canonical_selection g)"
    by (rule binding_left[OF assms(1,2)])
  then show ?thesis
    using assms(3-5)
    by (auto simp: bind_canonical_outputs_def ledger_prog_eqs rebind_def obj_item_def jitem_def jget_def res_simps split: option.splits)
qed

lemma canonical_outputs_final_witness:
  "\<exists>L' q M g g'. bind_canonical_outputs id (\<lambda>_. ''now'') q L' = (M, Inr g) \<and> bf_attempt g \<noteq> None \<and>
     bind_canonical_outputs id (\<lambda>_. ''later'') q M = (M, Inr g') \<and> bf_attempt_event g' = None"
proof -
  obtain L' q M g where s: "ledger_reach id L'" "bind_canonical_outputs id (\<lambda>_. ''now'') q L' = (M, Inr g)" "ledger_reach id M"
    "bf_attempt g \<noteq> None" "bq_policy q = ''first_verified_bundle''"
    "bound_selection q (ledger_view M) = Inr (bf_canonical_selection g)"
    by (rule sample_binding_run)
  obtain g' where g: "bind_canonical_outputs id (\<lambda>_. ''later'') q M = (M, Inr g')"
    using rebinds[OF ledger_reach_ok[OF s(1)] s(2) ledger_reach_ok[OF s(3)] s(6,5)] by blast
  have "ledger_view M = ledger_view M @ []" by simp
  from canonical_outputs_final[OF s(1-3) this g refl refl] s(2,4) g show ?thesis by blast
qed

section \<open>Well-formed values only\<close>

lemma bound_attempt_wf:
  assumes "ledger_ok h L" "\<forall>p \<in> set (bq_attempts_by_id q). wf_attempt (snd p)" "bind_canonical_outputs h clock q L = (L', Inr r)"
    and "bf_attempt r = Some c"
  shows "wf_attempt c"
  using assms(1,3)
proof (cases rule: binding_cases)
  case (old s e)
  then obtain i where "dict_get (bq_attempts_by_id q) i = Some c" using assms(4) by (auto simp: rebind_def res_simps)
  from dict_get_mem[OF this] show ?thesis using assms(2) by auto
next
  case (new s)
  then obtain a where "selected_attempt q s = Inr a" "canonical_attempt s a (bq_now q) = Inr c"
    using assms(4) by (auto simp: bind_new_def ledger_prog_eqs)
  moreover from this have "wf_attempt a" using assms(2) by (auto simp: selected_attempt_def split: option.splits if_splits dest!: dict_get_mem)
  ultimately show ?thesis using canonical_attempt_wf by blast
qed



end
