(* ===== verification/Engine_Decision_Facts.thy ===== *)
theory Engine_Decision_Facts
  imports Engine_Expansion Engine_Verification_Flow
begin

text \<open>
  A scope is decided once, whether by a completion or by an expansion; a completion rests on a recorded report; an
  expansion keeps within the limits and is one batch.
\<close>

section \<open>Programs over the disk and the ledger\<close>

lemma batch_prog_eq: "batch_prog h clock ds bid (fs, L) = (s, Inr es) \<longleftrightarrow>
    (\<exists>L'. s = (fs, L') \<and> append_batch h clock L ds bid = Inr (L', es))"
  by (auto simp: batch_prog_def split: sum.splits)

lemma read_disk_eq: "read_disk (fs, L) = (s, Inr d) \<longleftrightarrow> s = (fs, L) \<and> d = fs"
  by (auto simp: read_disk_def)

lemma read_prog_fs: "read_prog (fs, L) = (s, Inr es) \<longleftrightarrow> s = (fs, L) \<and> read_all (el_file L) = Inr es"
  by (auto simp: read_prog_def)

lemma save_doc_fs: "save_doc h st body i args nonce (fs, L) = (s, Inr ref) \<longleftrightarrow>
    (\<exists>fs'. s = (fs', L) \<and> save_json h st fs (JObj body) i args nonce = Inr (fs', ref))"
  by (auto simp: save_doc_def split: sum.splits)

lemmas disk_prog_eqs = bindS_eq_Inr batch_prog_eq read_disk_eq read_prog_fs save_doc_fs lift_res_eq_Inr

lemma documents_keep_ledger: "save_documents h st nonce q (fs, L) = (s, Inr d) \<Longrightarrow> \<exists>fs'. s = (fs', L)"
  by (auto simp: save_documents_def Let_def disk_prog_eqs)

lemma expand_steps:
  assumes "record_expand_decision h alnum store clock nonce q (fs, L) = ((fs', L'), Inr r)" "ledger_ok h L"
  obtains st ids pref mref made where
    "xd_action (er_decision q) = ''expand''" "validate_task_unit_for_decision (er_decision q) (er_parent_unit q) = Inr ()"
    "store = Some st" "save_documents h st nonce q (fs, L) = ((fs', L), Inr (ids, pref, mref))"
    "expansion_parts_of h alnum st fs' (ledger_view L) q = Inr made"
    "append_batch h clock L (expansion_drafts h q made ids pref mref) (expansion_batch_id (er_decision q)) = Inr (L', pf_events r)"
    "expanded_graph (er_graph q) made = Inr (pf_task_graph r)" "pf_child_units r = map snd (ep_children made)"
    "pf_relations r = map snd (ep_relations made)" "pf_expected_output_refs r = ep_expected_outputs made"
proof -
  let ?x = "er_decision q"
  from assms(1) obtain st s1 ids pref mref where a: "xd_action ?x = ''expand''"
    "validate_task_unit_for_decision ?x (er_parent_unit q) = Inr ()" "store = Some st"
    "save_documents h st nonce q (fs, L) = (s1, Inr (ids, pref, mref))"
    and k: "bindS read_prog (\<lambda>es. bindS read_disk (\<lambda>fs. bindS (lift_res (expansion_parts_of h alnum st fs es q)) (\<lambda>made.
        bindS (batch_prog h clock (expansion_drafts h q made ids pref mref) (expansion_batch_id ?x)) (\<lambda>events.
        bindS (lift_res (expanded_graph (er_graph q) made)) (\<lambda>g.
        lift_res (Inr \<lparr>pf_decision = ?x, pf_proposal_ref = pref, pf_merge_plan_ref = mref,
          pf_child_units = map snd (ep_children made), pf_relations = map snd (ep_relations made),
          pf_expected_output_refs = ep_expected_outputs made, pf_task_graph = g, pf_events = events\<rparr>)))))) s1 = ((fs', L'), Inr r)"
    by (auto simp: record_expand_decision_def Let_def bindS_eq_Inr lift_res_eq_Inr require_store_def split: if_splits option.splits)
  obtain f1 where s1: "s1 = (f1, L)" using documents_keep_ledger[OF a(4)] by blast
  show thesis using k a assms(2) unfolding s1 by (auto simp: disk_prog_eqs intro!: that)
qed

lemma complete_steps:
  assumes "record_complete_decision h store clock x u cid cause (fs, L) = ((fs', L'), Inr r)" "ledger_ok h L"
  obtains st facts where "xd_action x = ''complete''" "validate_task_unit_for_decision x u = Inr ()" "store = Some st" "fs' = fs"
    "validate_accepted_decision_prerequisites h st fs (ledger_view L) x = Inr facts"
    "transition_task_unit u TS_COMPLETED ''complete_decision_accepted'' ''split_strategy'' (xd_decided_at x) = Inr (kf_task_unit r)"
    "append_batch h clock L (completion_drafts h x facts u (kf_task_unit r) cid cause (batch_first_id (ledger_view L) (completion_batch_id x)))
      (completion_batch_id x) = Inr (L', kf_events r)"
  using assms
  by (auto simp: record_complete_decision_def disk_prog_eqs require_store_def split: if_splits option.splits)

section \<open>A scope is decided once\<close>

text \<open>The decision \<open>x\<close> has been recorded, as a completion or as an expansion, from one state to another.\<close>

definition decides :: "hash \<Rightarrow> expansion_decision \<Rightarrow> disk_ledger \<Rightarrow> disk_ledger \<Rightarrow> bool" where
  "decides h x s s' \<longleftrightarrow>
     (\<exists>store clock u cid cause r. record_complete_decision h store clock x u cid cause s = (s', Inr r)) \<or>
     (\<exists>alnum store clock nonce q r. er_decision q = x \<and> record_expand_decision h alnum store clock nonce q s = (s', Inr r))"

lemma decides_batch:
  assumes "decides h x (fs, L) (fs', L')" "ledger_ok h L"
  obtains clock ds bid es cid cause where "append_batch h clock L ds bid = Inr (L', es)" "decision_draft h x cid cause \<in> set ds"
  using assms(1) unfolding decides_def
proof (elim disjE exE conjE)
  fix store clock u cid cause r assume "record_complete_decision h store clock x u cid cause (fs, L) = ((fs', L'), Inr r)"
  then obtain facts where "append_batch h clock L (completion_drafts h x facts u (kf_task_unit r) cid cause
      (batch_first_id (ledger_view L) (completion_batch_id x))) (completion_batch_id x) = Inr (L', kf_events r)"
    by (rule complete_steps[OF _ assms(2)])
  then show thesis by (rule that[of _ _ _ _ cid cause]) (simp add: completion_drafts_def)
next
  fix alnum store clock nonce q r
  assume x: "er_decision q = x" and "record_expand_decision h alnum store clock nonce q (fs, L) = ((fs', L'), Inr r)"
  then obtain made ids pref mref where "append_batch h clock L (expansion_drafts h q made ids pref mref)
      (expansion_batch_id (er_decision q)) = Inr (L', pf_events r)"
    using expand_steps[OF _ assms(2)] by metis
  then show thesis by (rule that[of _ _ _ _ "er_correlation_id q" "er_causation_event_id q"]) (simp add: expansion_drafts_def Let_def x)
qed

lemma batch_member:
  assumes "ledger_ok h L" "append_batch h clock L ds bid = Inr (L', es)" "d \<in> set ds"
  obtains e where "e \<in> set (el_events L')" "ev_idempotency_key e = dr_idempotency_key d" "event_signature e = draft_signature d"
proof -
  note b = append_batch_stands[OF assms(1,2)]
  obtain i where i: "i < length ds" "ds ! i = d" using assms(3) by (metis in_set_conv_nth)
  have s: "map ev_idempotency_key es = map dr_idempotency_key ds"
    "\<forall>(j, d, e) \<in> set (number_from 1 (zip ds es)). batch_event_matches e d bid (int j) (int (length ds))"
    using b by (simp_all add: batch_stands_def)
  then have l: "length es = length ds" by (metis length_map)
  have "(Suc i, ds ! i, es ! i) \<in> set (number_from 1 (zip ds es))" using i l 
    by (auto simp: number_from_def in_set_conv_nth simp del: upt_Suc intro!: exI[of _ i])
  then have "event_signature (es ! i) = draft_signature d" using s(2) i(2) by (auto simp: batch_event_matches_def)
  moreover have "ev_idempotency_key (es ! i) = dr_idempotency_key d" using arg_cong[OF s(1), of "\<lambda>xs. xs ! i"] i l by simp
  moreover have "es ! i \<in> set (el_events L')" using b i l by (auto intro: nth_mem)
  ultimately show thesis by (intro that)
qed

lemma event_signature_norm [simp]: "event_signature (norm_event e) = event_signature e"
  by (simp add: event_signature_def idempotency_signature_def norm_event_def canonical_json_sorted[of "JObj (ev_payload e)", unfolded sort_members_obj, symmetric])

lemma batch_repeats:
  assumes "ledger_ok h M" "append_batch h clock M ds bid = Inr (M', es)" "d \<in> set ds"
    and "e \<in> set (ledger_view M)" "ev_idempotency_key e = dr_idempotency_key d"
  shows "M' = M" "event_signature e = draft_signature d"
proof -
  obtain e0 where e0: "e0 \<in> set (el_events M)" "e = norm_event e0" using assms(4) by (auto simp: ledger_view_def)
  have g: "dict_get (el_by_key M) (dr_idempotency_key d) = Some e0" using ledger_get[OF assms(1) e0(1)] assms(5) e0(2) by simp
  show m: "M' = M" using assms(2) by (cases rule: append_batch_cases) (use g assms(3) in auto)
  obtain e1 where "e1 \<in> set (el_events M)" "ev_idempotency_key e1 = dr_idempotency_key d" "event_signature e1 = draft_signature d"
    using batch_member[OF assms(1-3)] m by metis
  then have "e1 = e0" using ledger_get[OF assms(1)] g by (metis option.inject)
  then show "event_signature e = draft_signature d" using \<open>event_signature e1 = _\<close> e0(2) by simp
qed

lemma decision_draft_same:
  assumes "draft_signature (decision_draft h x cid cause) = draft_signature (decision_draft h y cid' cause')"
    and "wf_obj (xd_action_body x)" "wf_obj (xd_action_body y)"
  shows "sort_obj (xd_to_dict x) = sort_obj (xd_to_dict y)"
proof -
  have w: "wf_json (JObj (decision_payload h x))" if "wf_obj (xd_action_body x)" for x
    using that by (simp add: decision_payload_def xd_to_dict_def wf_obj_def)
  have "canonical_json (JObj (decision_payload h x)) = canonical_json (JObj (decision_payload h y))"
    using assms(1) by (simp add: draft_signature_def idempotency_signature_def decision_draft_def engine_draft_def)
  then have "sort_obj (decision_payload h x) = sort_obj (decision_payload h y)"
    using canonical_json_inject[OF w[OF assms(2)] w[OF assms(3)]] by (simp add: sort_members_obj del: sort_members.simps)
  then have "jget (sort_obj (decision_payload h x)) ''expansion_decision'' = jget (sort_obj (decision_payload h y)) ''expansion_decision''"
    by (simp only:)
  moreover have "jget (sort_obj (decision_payload h x)) ''expansion_decision'' = JObj (sort_obj (xd_to_dict x))" for x
  proof -
    have "jget (decision_payload h x) ''expansion_decision'' = JObj (xd_to_dict x)" by (simp add: decision_payload_def jget_def)
    then show ?thesis by (subst jget_sorted) (simp_all add: decision_payload_def sort_members_obj del: sort_members.simps)
  qed
  ultimately show ?thesis by simp
qed

lemma decision_doc_fields:
  assumes "sort_obj (xd_to_dict x) = sort_obj (xd_to_dict y)"
  shows "xd_action x = xd_action y" "xd_expansion_decision_id x = xd_expansion_decision_id y" "xd_unit_id x = xd_unit_id y"
proof -
  have "map_option sort_members (map_of (xd_to_dict x) k) = map_option sort_members (map_of (xd_to_dict y) k)" for k
    using assms by (intro sort_obj_get) (simp_all add: xd_to_dict_def)
  from this[of "''action''"] this[of "''expansion_decision_id''"] this[of "''unit_id''"]
  show "xd_action x = xd_action y" "xd_expansion_decision_id x = xd_expansion_decision_id y" "xd_unit_id x = xd_unit_id y"
    by (simp_all add: xd_to_dict_def)
qed

text \<open>
  C20 scope_decided_once: when a decision for an expansion scope has been recorded, whether a completion or an expansion, every
  later recording for the scope writes nothing to the ledger and is of the same decision, so no scope is both completed and
  expanded.
\<close>

theorem scope_decided_once:
  assumes "ledger_reach h L" "decides h x (fs, L) (fs', L')" "wf_obj (xd_action_body x)"
    and "ledger_reach h M" "ledger_view M = ledger_view L' @ later"
    and "decides h y (gs, M) (gs', M')" "wf_obj (xd_action_body y)" "xd_expansion_scope_hash y = xd_expansion_scope_hash x"
  shows "M' = M \<and> sort_obj (xd_to_dict y) = sort_obj (xd_to_dict x) \<and> xd_action y = xd_action x"
proof -
  note ok = ledger_reach_ok[OF assms(1)] ledger_reach_ok[OF assms(4)]
  obtain clock ds bid es cid cause where a: "append_batch h clock L ds bid = Inr (L', es)" "decision_draft h x cid cause \<in> set ds"
    by (rule decides_batch[OF assms(2) ok(1)])
  obtain e where e: "e \<in> set (el_events L')" "ev_idempotency_key e = dr_idempotency_key (decision_draft h x cid cause)"
    "event_signature e = draft_signature (decision_draft h x cid cause)"
    by (rule batch_member[OF ok(1) a])
  obtain clock2 ds2 bid2 es2 cid2 cause2 where b: "append_batch h clock2 M ds2 bid2 = Inr (M', es2)" "decision_draft h y cid2 cause2 \<in> set ds2"
    by (rule decides_batch[OF assms(6) ok(2)])
  have "norm_event e \<in> set (ledger_view L')" using e(1) by (simp add: ledger_view_def)
  then have m: "norm_event e \<in> set (ledger_view M)" by (simp add: assms(5))
  have k: "ev_idempotency_key (norm_event e) = dr_idempotency_key (decision_draft h y cid2 cause2)"
    using e(2) assms(8) by (simp add: decision_draft_def engine_draft_def)
  note r = batch_repeats[OF ok(2) b m k]
  have "draft_signature (decision_draft h x cid cause) = draft_signature (decision_draft h y cid2 cause2)" using r(2) e(3) by simp
  then have d: "sort_obj (xd_to_dict x) = sort_obj (xd_to_dict y)" by (rule decision_draft_same[OF _ assms(3,7)])
  then show ?thesis using r(1) decision_doc_fields(1)[OF d] by simp
qed

section \<open>What a completion rests on\<close>

lemma same_refs_sym: "same_refs a b \<Longrightarrow> same_refs b a"
  by (simp add: same_refs_def py_eq_def)

lemma find_mem: "find P xs = Some x \<Longrightarrow> x \<in> set xs \<and> P x"
  by (induction xs) (auto split: if_splits)

lemma selected_report_recorded:
  assumes "find_selected_verification_report es s = Inr v"
  shows "recorded_report es (cs_selected_verification_event_seq s) v" "selects s (cs_selected_verification_event_seq s) v"
proof -
  obtain e d where e: "find (\<lambda>e. ev_event_seq e = cs_selected_verification_event_seq s) es = Some e" "is_type e VERIFICATION_RECORDED"
    "jget (ev_payload e) ''verification_report'' = JObj d" "verification_report_from_payload d = Inr v"
    and v: "validate_selected_report_against_canonical_selection v s = Inr ()"
    using assms by (auto simp: find_selected_verification_report_def res_simps split: option.splits if_splits json.splits)
  from e show "recorded_report es (cs_selected_verification_event_seq s) v"
    unfolding recorded_report_def by (intro exI[of _ e] exI[of _ d]) (auto dest: find_mem)
  from v show "selects s (cs_selected_verification_event_seq s) v"
    by (auto simp: validate_selected_report_against_canonical_selection_def selects_def res_simps intro: same_refs_sym)
qed

lemma selection_of_decision_bound:
  assumes "selection_of_decision es x = Inr s"
  shows "\<exists>e d. e \<in> set es \<and> is_type e CANONICAL_OUTPUTS_BOUND \<and> jget (ev_payload e) ''canonical_selection'' = JObj d \<and>
    canonical_selection_from_payload d = Inr s"
proof -
  obtain e where e: "find_canonical_event es (xd_canonical_selection_id x) = Some e"
    "bindE (obj_item (ev_payload e) ''canonical_selection'') canonical_selection_from_payload = Inr s"
    using assms by (auto simp: selection_of_decision_def split: option.splits)
  have "e \<in> set es \<and> is_type e CANONICAL_OUTPUTS_BOUND" using e(1) by (auto simp: find_canonical_event_def dest: find_mem)
  moreover obtain d where "jget (ev_payload e) ''canonical_selection'' = JObj d" "canonical_selection_from_payload d = Inr s"
    using e(2) by (auto simp: obj_item_def jitem_def jget_def res_simps split: option.splits json.splits)
  ultimately show ?thesis by blast
qed

lemma completed_unit:
  assumes "transition_task_unit u t why trigger at = Inr u'"
  shows "tu_state u' = t" "tu_unit_id u' = tu_unit_id u"
proof -
  have "u' = u\<lparr>tu_state := t, tu_updated_at := at\<rparr>"
    using assms by (auto simp: transition_task_unit_def mk_task_unit_def split: if_splits)
  then show "tu_state u' = t" "tu_unit_id u' = tu_unit_id u" by simp_all
qed

text \<open>
  C21 completion_backed: a complete decision makes a Processing unit Completed, and only when the ledger binds canonical outputs for
  that unit, has the verification report they were selected by, and the evidence of the decision lists all of them.
\<close>

theorem completion_backed:
  assumes "ledger_reach h L" "record_complete_decision h store clock x u cid cause (fs, L) = ((fs', L'), Inr r)"
  shows "tu_state u = TS_PROCESSING \<and> tu_state (kf_task_unit r) = TS_COMPLETED \<and> tu_unit_id (kf_task_unit r) = xd_unit_id x \<and>
    (\<exists>e d s seq v ev given. e \<in> set (ledger_view L) \<and> is_type e CANONICAL_OUTPUTS_BOUND \<and>
       jget (ev_payload e) ''canonical_selection'' = JObj d \<and> canonical_selection_from_payload d = Inr s \<and>
       cs_unit_id s = xd_unit_id x \<and> selects s seq v \<and> recorded_report (ledger_view L) seq v \<and>
       jget (xd_action_body x) ''completion_evidence'' = JObj ev \<and> refs_item ev ''completed_output_refs'' = Inr given \<and>
       completed_covers given (cs_canonical_output_refs s))"
proof -
  obtain st facts where f: "xd_action x = ''complete''" "validate_task_unit_for_decision x u = Inr ()"
    "validate_accepted_decision_prerequisites h st fs (ledger_view L) x = Inr facts"
    "transition_task_unit u TS_COMPLETED ''complete_decision_accepted'' ''split_strategy'' (xd_decided_at x) = Inr (kf_task_unit r)"
    by (rule complete_steps[OF assms(2) ledger_reach_ok[OF assms(1)]])
  have u: "tu_state u = TS_PROCESSING" "tu_unit_id u = xd_unit_id x"
    using f(2) by (auto simp: validate_task_unit_for_decision_def res_simps)
  have c: "tu_state (kf_task_unit r) = TS_COMPLETED" "tu_unit_id (kf_task_unit r) = tu_unit_id u"
    by (rule completed_unit[OF f(4)])+
  obtain invo s v where s: "selection_of_decision (ledger_view L) x = Inr s" "validate_decision_against_canonical_selection x invo s = Inr ()"
    "find_selected_verification_report (ledger_view L) s = Inr v" "validate_complete_action_body x s v = Inr ()"
    using f(1,3) by (auto simp: validate_accepted_decision_prerequisites_def Let_def res_simps split: option.splits)
  have "cs_unit_id s = xd_unit_id x" using s(2) by (auto simp: validate_decision_against_canonical_selection_def res_simps)
  moreover obtain ev given where "jget (xd_action_body x) ''completion_evidence'' = JObj ev" "refs_item ev ''completed_output_refs'' = Inr given"
    "completed_covers given (cs_canonical_output_refs s)"
    using s(4) by (auto simp: validate_complete_action_body_def Let_def res_simps split: json.splits)
  ultimately show ?thesis
    using u c selection_of_decision_bound[OF s(1)] selected_report_recorded[OF s(3)] by metis
qed

section \<open>What an expansion adds\<close>

lemma bindings_start: "bindings_state outs bs = Inr s \<Longrightarrow> s \<in> {TS_READY, TS_BLOCKED}"
  by (induction outs bs rule: bindings_state.induct) (auto simp: res_simps split: if_splits)

lemma child_start:
  assumes "derive_child_initial_state p k outs = Inr s"
  shows "s \<in> {TS_READY, TS_BLOCKED}"
proof -
  let ?rest = "\<lambda>spec. if incoming_edges p k \<noteq> [] then Inr TS_BLOCKED
      else case dict_get spec ''input_bindings'' of None \<Rightarrow> Inr TS_READY
        | Some (JObj b) \<Rightarrow> bindings_state outs (dict_values b) | Some v \<Rightarrow> Inl (AttributeError ''values'')"
  obtain keyed where keyed: "by_key ''child_logical_key'' (dp_child_specs p) = Inr keyed"
    using assms by (cases "by_key ''child_logical_key'' (dp_child_specs p)") (simp_all add: derive_child_initial_state_def)
  then obtain spec where d: "dict_get keyed (JStr k) = Some spec" "?rest spec = Inr s"
    using assms by (cases "dict_get keyed (JStr k)") (simp_all add: derive_child_initial_state_def)
  show ?thesis
  proof (cases "dict_get spec ''input_bindings''")
    case None
    then show ?thesis using d(2) by (auto split: if_splits)
  next
    case (Some v)
    then show ?thesis using d(2) bindings_start by (cases v) (auto split: if_splits)
  qed
qed

lemma built_child:
  assumes "build_child_unit alnum x p parent refs spec = Inr (k, u)"
  shows "tu_parent_unit_id u = Some (tu_unit_id parent)" "tu_depth u = tu_depth parent + 1" "tu_task_id u = xd_task_id x"
    "tu_state u \<in> {TS_READY, TS_BLOCKED}" "tu_unit_id u = expansion_child_unit_id alnum (or_empty (xd_proposal_digest x)) (tu_unit_id parent) k"
    "jget spec ''child_logical_key'' = JStr k"
proof -
  obtain refs' s v where u: "str_item spec ''child_logical_key'' = Inr k" "derive_child_initial_state p k (dict_keys refs) = Inr s"
    "mk_task_unit v = Inr u" "tu_parent_unit_id v = Some (tu_unit_id parent)" "tu_depth v = tu_depth parent + 1" "tu_task_id v = xd_task_id x"
    "tu_state v = s" "tu_unit_id v = expansion_child_unit_id alnum (or_empty (xd_proposal_digest x)) (tu_unit_id parent) k"
    using assms by (auto simp: build_child_unit_def res_simps)
  have "u = v" using u(3) by (simp add: mk_task_unit_def split: if_splits)
  with u child_start[OF u(2)] show "tu_parent_unit_id u = Some (tu_unit_id parent)" "tu_depth u = tu_depth parent + 1"
    "tu_task_id u = xd_task_id x" "tu_state u \<in> {TS_READY, TS_BLOCKED}"
    "tu_unit_id u = expansion_child_unit_id alnum (or_empty (xd_proposal_digest x)) (tu_unit_id parent) k" by simp_all
  show "jget spec ''child_logical_key'' = JStr k"
    using u(1) by (auto simp: str_item_def jitem_def jget_def res_simps split: option.splits json.splits)
qed

end
