(* ===== verification/Engine_Decision_Sample.thy ===== *)
theory Engine_Decision_Sample
  imports Engine_Decision_Facts
begin

text \<open>A run of the engine to a complete decision: it can be recorded, and recorded again.\<close>

section \<open>One more event\<close>

lemma append_fresh_view:
  assumes "ledger_ok h L" "wf_draft d" "dr_idempotency_key d \<notin> ev_idempotency_key ` set (el_events L)"
  obtains L' e where "append_event h now L d = Inr (L', e)" "el_events L' = el_events L @ [e]" "ledger_ok h L'" "ledger_view L' = ledger_view L @ [norm_event e]"
    "from_draft (norm_event e) d" "ev_idempotency_key ` set (el_events L') = insert (dr_idempotency_key d) (ev_idempotency_key ` set (el_events L))"
    "ev_batch_id e = None" "ledger_reach h L \<Longrightarrow> ledger_reach h L'"
proof -
  have n: "dict_get (el_by_key L) (dr_idempotency_key d) = None"
    using assms(3) ledger_get_mem[OF assms(1), of "dr_idempotency_key d"]
    by (cases "dict_get (el_by_key L) (dr_idempotency_key d)") (auto simp: image_iff)
  obtain L' e where a: "append_event h now L d = Inr (L', e)" "el_events L' = el_events L @ [e]" "ev_idempotency_key e = dr_idempotency_key d"
    using append_event_fresh[OF assms(1,3)] by blast
  obtain m p where e: "e = draft_event h now m p d None"
    using a(1) by (cases rule: append_event_cases) (use n in auto)
  have "from_draft (norm_event e) d" unfolding e by (rule from_draft_event)
  moreover have "ev_batch_id e = None" by (simp add: e draft_event_def finalize_event_def)
  ultimately show thesis
    using a by (intro that[OF a(1,2) append_event_ok[OF assms(1,2) a(1)]]) (auto simp: ledger_view_def intro: ledger_append[OF _ assms(2)])
qed

section \<open>Reading an invocation back\<close>

lemma fold_set_get:
  "dict_get (fold (\<lambda>k merged. case dict_get p k of None \<Rightarrow> merged | Some v \<Rightarrow> dict_set k v merged) ks m) k =
     (if k \<in> set ks \<and> dict_get p k \<noteq> None then dict_get p k else dict_get m k)"
  by (induction ks arbitrary: m) (auto split: option.splits)

lemma sorted_has: "distinct (map fst d) \<Longrightarrow> dict_get (sort_obj d) k = None \<longleftrightarrow> dict_get d k = None"
  by (simp add: map_of_sort_obj map_of_eq_None_iff) (auto simp: image_iff split_beta)

lemma invocation_reads_back:
  assumes "from_draft e (invocation_draft x cid cause)"
  shows "k \<in> set invocation_keys \<Longrightarrow>
      jget (split_invocation_payload e) k = sort_members (jget (dr_payload (invocation_draft x cid cause)) k)"
    "jget (split_invocation_payload e) ''invocation_id'' = JStr (iv_invocation_id x)"
proof -
  let ?p = "dr_payload (invocation_draft x cid cause)"
  have p: "ev_payload e = sort_obj ?p" using assms by (simp add: from_draft_def)
  have dist: "distinct (map fst ?p)" by (simp add: invocation_draft_def engine_draft_def)
  have ds: "distinct (map fst (split_invocation_summary x))" by (simp add: split_invocation_summary_def)
  have "jget ?p ''invocation'' = JObj (split_invocation_summary x)" by (simp add: invocation_draft_def engine_draft_def jget_def)
  then have i: "jget (ev_payload e) ''invocation'' = JObj (sort_obj (split_invocation_summary x))"
    unfolding p by (subst jget_sorted[OF dist]) (simp add: sort_members_obj del: sort_members.simps)
  note get = fold_set_get[of "ev_payload e" invocation_keys "sort_obj (split_invocation_summary x)"]
  have j: "split_invocation_payload e = fold (\<lambda>k merged. case dict_get (ev_payload e) k of None \<Rightarrow> merged | Some v \<Rightarrow> dict_set k v merged)
      invocation_keys (sort_obj (split_invocation_summary x))"
    by (simp only: split_invocation_payload_def i json.case)
  show "jget (split_invocation_payload e) k = sort_members (jget ?p k)" if "k \<in> set invocation_keys"
  proof -
    have "dict_get ?p k \<noteq> None" using that by (auto simp: invocation_keys_def invocation_draft_def engine_draft_def)
    then have "dict_get (ev_payload e) k \<noteq> None" unfolding p using sorted_has[OF dist] by metis
    then have "jget (split_invocation_payload e) k = jget (ev_payload e) k" using that unfolding j jget_def get by simp
    then show ?thesis unfolding p by (simp add: jget_sorted[OF dist])
  qed
  have "''invocation_id'' \<notin> set invocation_keys" by (simp add: invocation_keys_def)
  then have "jget (split_invocation_payload e) ''invocation_id'' = jget (sort_obj (split_invocation_summary x)) ''invocation_id''"
    unfolding j jget_def get by simp
  also have "\<dots> = sort_members (jget (split_invocation_summary x) ''invocation_id'')" by (rule jget_sorted[OF ds])
  finally show "jget (split_invocation_payload e) ''invocation_id'' = JStr (iv_invocation_id x)"
    by (simp add: split_invocation_summary_def jget_def)
qed

section \<open>What the decision is about\<close>

definition sample_descriptor :: jobj where
  "sample_descriptor =
     [(''descriptor_digest'', JStr ''d1''), (''plugin_id'', JStr ''p1''), (''plugin_version'', JStr ''1''),
      (''split_strategies'', JObj [(''s1'', JNull)])]"

definition sample_snapshot :: "artifact_ref \<Rightarrow> event_draft" where
  "sample_snapshot ref =
     engine_draft REGISTRY_SNAPSHOT_RECORDED ''RegistrySnapshot'' ''snapshot_1'' ''task_1'' ''corr'' None ''registry:snapshot_1''
       [(''plugin_entries'', JArr [JObj [(''descriptor_digest'', JStr ''d1''), (''descriptor_ref'', JObj (ar_to_dict ref)),
          (''plugin_id'', JStr ''p1''), (''plugin_version'', JStr ''1'')]])] ''now''"

definition sample_selection :: "verification_report \<Rightarrow> int \<Rightarrow> canonical_selection" where
  "sample_selection r seq =
     \<lparr>cs_canonical_selection_id = ''sel_1'', cs_task_id = ''task_1'', cs_unit_id = ''u1'', cs_selection_policy = ''first_verified_bundle'',
      cs_selection_policy_version = ''v1'', cs_selected_verification_report_id = vr_verification_report_id r,
      cs_selected_verification_event_seq = seq, cs_selected_submission_id = vr_submission_id r,
      cs_selected_submission_event_seq = vr_submission_event_seq r, cs_selected_attempt_id = vr_attempt_id r,
      cs_canonical_output_bundle_digest = vr_candidate_output_bundle_digest r, cs_canonical_output_refs = [],
      cs_eligible_report_ids_considered = [], cs_selection_reason = ''first'', cs_bound_at = ''now'', cs_metadata = Some [],
      cs_schema_version = ''phase4.canonical_selection.v1''\<rparr>"

definition sample_invocation :: "string \<Rightarrow> split_invocation" where
  "sample_invocation bundle =
     \<lparr>iv_invocation_id = ''i1'', iv_invocation_attempt_no = 1, iv_expansion_scope_hash = ''scope_1'', iv_task_id = ''task_1'', iv_unit_id = ''u1'',
      iv_canonical_selection_id = ''sel_1'', iv_canonical_output_bundle_digest = bundle, iv_plugin_id = ''p1'', iv_plugin_version = ''1'',
      iv_plugin_descriptor_digest = ''d1'', iv_split_strategy_id = ''s1'', iv_split_strategy_params_digest = ''q1'', iv_status = ''succeeded'',
      iv_started_at = ''now'', iv_completed_at = ''now'', iv_result_action = Some ''complete'', iv_result_digest = Some ''r1'', iv_error_kind = None,
      iv_error_summary = None, iv_metadata = None, iv_schema_version = ''phase4.split_strategy_invocation.v1''\<rparr>"

definition sample_completion :: "verification_report \<Rightarrow> expansion_decision" where
  "sample_completion r =
     \<lparr>xd_expansion_decision_id = ''x1'', xd_task_id = ''task_1'', xd_unit_id = ''u1'', xd_canonical_selection_id = ''sel_1'',
      xd_canonical_output_bundle_digest = vr_candidate_output_bundle_digest r, xd_expansion_scope_hash = ''scope_1'', xd_action = ''complete'',
      xd_plugin_id = ''p1'', xd_plugin_version = ''1'', xd_plugin_descriptor_digest = ''d1'', xd_split_strategy_id = ''s1'',
      xd_split_strategy_params_digest = ''q1'', xd_source_invocation_id = ''i1'',
      xd_action_body = [(''completion_evidence'', JObj
        [(''completion_kind'', JStr ''atomic''), (''validator_policy_id'', JStr (vr_validator_policy_id r)),
         (''verification_report_id'', JStr (vr_verification_report_id r)), (''canonical_selection_id'', JStr ''sel_1''),
         (''canonical_output_bundle_digest'', JStr (vr_candidate_output_bundle_digest r)), (''completed_output_refs'', JObj []),
         (''plugin_completion_summary'', JStr ''ok'')])],
      xd_decided_at = ''now'', xd_proposal_id = None, xd_proposal_digest = None, xd_merge_plan_id = None, xd_merge_plan_digest = None,
      xd_schema_version = ''phase4.expansion_decision.v1''\<rparr>"

definition sample_ref :: artifact_ref where
  "sample_ref = saved_ref id sample_store (canonical_json (JObj sample_descriptor)) ''a1'' sample_args"

lemma sample_ref_wf: "wf_ref sample_ref" "norm_ref sample_ref = sample_ref"
  by (simp_all add: sample_ref_def saved_ref_def sample_args_def wf_ref_def wf_obj_def norm_ref_def sort_obj_def)

lemma sample_descriptor_saved:
  obtains fs where "save_bytes id sample_store Map.empty (canonical_json (JObj sample_descriptor)) ''a1'' sample_args ''1'' = Inr (fs, sample_ref)"
    "verify_artifact id sample_store fs sample_ref = Inr True"
    "read_bytes sample_store fs sample_ref = Inr (canonical_json (JObj sample_descriptor))"
proof -
  obtain fs where s: "save_bytes id sample_store Map.empty (canonical_json (JObj sample_descriptor)) ''a1'' sample_args ''1'' = Inr (fs, sample_ref)"
    unfolding sample_ref_def using save_bytes_total[OF sample_plain save_spec_new[OF sample_plain]] by (fastforce simp: visible_def fresh_temps_def)
  moreover have "\<not> collision id" by (simp add: collision_def)
  ultimately show thesis
    using that load_saved(1,2)[OF sample_plain save_bytes_refines(2)[OF sample_plain s] _ sample_wf_args] by (simp add: sample_ref_def)
qed

lemma sample_descriptor_loads: "loads (canonical_json (JObj sample_descriptor)) = Some (JObj sample_descriptor)"
proof -
  have "wf_json (JObj sample_descriptor)" "floats_ok (JObj sample_descriptor)" by (simp_all add: sample_descriptor_def)
  moreover have "sort_members (JObj sample_descriptor) = JObj sample_descriptor" by (simp add: sample_descriptor_def)
  ultimately show ?thesis using loads_canonical by metis
qed

text \<open>Events that record no registry do not count.\<close>

lemma scan_others:
  "\<forall>e \<in> set pre. \<not> is_type e REGISTRY_SNAPSHOT_RECORDED \<Longrightarrow> scan_snapshots load p v d seen (pre @ es) = scan_snapshots load p v d seen es"
  by (induction pre) simp_all

lemma sample_descriptor_found:
  assumes "verify_artifact id sample_store fs sample_ref = Inr True"
    "read_bytes sample_store fs sample_ref = Inr (canonical_json (JObj sample_descriptor))"
    "from_draft g (sample_snapshot sample_ref)" "\<forall>e \<in> set pre. \<not> is_type e REGISTRY_SNAPSHOT_RECORDED"
  shows "load_frozen_plugin_descriptor id sample_store fs (pre @ g # later) ''p1'' ''1'' ''d1'' = Inr sample_descriptor"
proof -
  let ?e = "[(''descriptor_digest'', JStr ''d1''), (''descriptor_ref'', JObj (sort_obj (ar_to_dict sample_ref))),
      (''plugin_id'', JStr ''p1''), (''plugin_version'', JStr ''1'')]"
  have "load_descriptor id sample_store fs ''p1'' ''1'' ''d1'' ?e = Inr sample_descriptor"
    using assms(1,2) ar_from_sorted[OF sample_ref_wf(1)]
    by (simp add: load_descriptor_def jget_def sample_ref_wf(2) sample_descriptor_loads)
      (simp add: sample_descriptor_def sample_completion_def jget_def)
  moreover have "is_type g REGISTRY_SNAPSHOT_RECORDED" "plugin_entries_of g = Inr [JObj ?e]"
    using assms(3) by (simp_all add: from_draft_def sample_snapshot_def engine_draft_def plugin_entries_of_def sort_obj_def dict_get_default_def)
  ultimately show ?thesis
    by (simp add: load_frozen_plugin_descriptor_def scan_others[OF assms(4)])
      (simp add: sample_completion_def jget_def)
qed

lemma from_type: "from_draft e d \<Longrightarrow> dr_event_type d = Known t' \<Longrightarrow> is_type e t \<longleftrightarrow> event_type_value (Known t') = event_type_value (Known t)"
  by (simp add: from_draft_def)

lemma sample_types:
  assumes "from_draft v (verification_draft h r cid c)" "from_draft s (selection_draft h sel t u cid now)"
    "from_draft i (invocation_draft iv cid' c')" "from_draft g (sample_snapshot ref)"
  shows "is_type v VERIFICATION_RECORDED" "\<not> is_type v CANONICAL_OUTPUTS_BOUND" "\<not> is_type v SPLIT_STRATEGY_INVOCATION_RECORDED"
    "\<not> is_type v REGISTRY_SNAPSHOT_RECORDED" "is_type s CANONICAL_OUTPUTS_BOUND" "\<not> is_type s SPLIT_STRATEGY_INVOCATION_RECORDED"
    "\<not> is_type s REGISTRY_SNAPSHOT_RECORDED" "is_type i SPLIT_STRATEGY_INVOCATION_RECORDED" "\<not> is_type i REGISTRY_SNAPSHOT_RECORDED"
proof -
  have d: "dr_event_type (verification_draft h r cid c) = Known VERIFICATION_RECORDED"
    "dr_event_type (selection_draft h sel t u cid now) = Known CANONICAL_OUTPUTS_BOUND"
    "dr_event_type (invocation_draft iv cid' c') = Known SPLIT_STRATEGY_INVOCATION_RECORDED"
    by (simp_all add: verification_draft_def selection_draft_def invocation_draft_def engine_draft_def)
  note f = from_type[OF assms(1) d(1)] from_type[OF assms(2) d(2)] from_type[OF assms(3) d(3)]
  show "is_type v VERIFICATION_RECORDED" "\<not> is_type v CANONICAL_OUTPUTS_BOUND" "\<not> is_type v SPLIT_STRATEGY_INVOCATION_RECORDED"
    "\<not> is_type v REGISTRY_SNAPSHOT_RECORDED" "is_type s CANONICAL_OUTPUTS_BOUND" "\<not> is_type s SPLIT_STRATEGY_INVOCATION_RECORDED"
    "\<not> is_type s REGISTRY_SNAPSHOT_RECORDED" "is_type i SPLIT_STRATEGY_INVOCATION_RECORDED" "\<not> is_type i REGISTRY_SNAPSHOT_RECORDED"
    by (simp_all add: f) (simp_all add: event_types_def dict_get_default_def)
qed

lemma sample_invocation_fits:
  assumes "from_draft i (invocation_draft (sample_invocation bundle) cid cause)" "bundle = vr_candidate_output_bundle_digest r"
  shows "validate_decision_against_invocation (sample_completion r) (split_invocation_payload i) = Inr ()"
    "jget (split_invocation_payload i) ''canonical_output_bundle_digest'' = JStr bundle"
    "jitem (split_invocation_payload i) ''invocation_id'' = Inr (JStr ''i1'')"
proof -
  have g: "jget (split_invocation_payload i) k = jget (dr_payload (invocation_draft (sample_invocation bundle) cid cause)) k"
    if "k \<in> set [''task_id'', ''unit_id'', ''canonical_selection_id'', ''canonical_output_bundle_digest'', ''plugin_id'', ''plugin_version'',
      ''plugin_descriptor_digest'', ''split_strategy_id'', ''split_strategy_params_digest'', ''expansion_scope_hash'', ''status'', ''result_action'']" for k
    using that invocation_reads_back(1)[OF assms(1), of k]
    by (elim set_ConsD[THEN disjE]) (simp_all add: invocation_keys_def invocation_draft_def engine_draft_def jget_def sample_invocation_def)
  show "validate_decision_against_invocation (sample_completion r) (split_invocation_payload i) = Inr ()"
    by (simp add: validate_decision_against_invocation_def require_same_def g)
      (simp add: invocation_draft_def engine_draft_def jget_def sample_invocation_def sample_completion_def assms(2))
  show "jget (split_invocation_payload i) ''canonical_output_bundle_digest'' = JStr bundle"
    by (simp add: g) (simp add: invocation_draft_def engine_draft_def jget_def sample_invocation_def)
  show "jitem (split_invocation_payload i) ''invocation_id'' = Inr (JStr ''i1'')"
    using invocation_reads_back(2)[OF assms(1)]
    by (auto simp: jitem_def jget_def sample_invocation_def split: option.splits)
qed

text \<open>The ledger when the decision is made, whatever was written after.\<close>

definition sample_decision_log :: "verification_report \<Rightarrow> ledger_event list \<Rightarrow> bool" where
  "sample_decision_log r es \<longleftrightarrow> (\<exists>v s i g later. es = v # s # i # g # later \<and>
     from_draft v (verification_draft id r ''corr'' None) \<and>
     from_draft s (selection_draft id (sample_selection r (ev_event_seq v)) ''task_1'' ''u1'' ''corr'' ''now'') \<and>
     from_draft i (invocation_draft (sample_invocation (vr_candidate_output_bundle_digest r)) ''corr'' None) \<and>
     from_draft g (sample_snapshot sample_ref))"

lemma sample_prerequisites:
  assumes "sample_decision_log r es" "verify_artifact id sample_store fs sample_ref = Inr True"
    and "read_bytes sample_store fs sample_ref = Inr (canonical_json (JObj sample_descriptor))"
    and r: "build_verification_report id sample_report_input = Inr r" "wf_report r" "vr_candidate_output_refs r = []"
      "vr_task_id r = ''task_1''" "vr_unit_id r = ''u1''"
  shows "validate_accepted_decision_prerequisites id sample_store fs es (sample_completion r) =
    Inr \<lparr>df_invocation_id = JStr ''i1'', df_selection = sample_selection r (ev_event_seq (hd es)), df_descriptor = sample_descriptor,
      df_split_strategy = JNull\<rparr>"
proof -
  let ?x = "sample_completion r"
  obtain v s i g later where es: "es = v # s # i # g # later" and d: "from_draft v (verification_draft id r ''corr'' None)"
    "from_draft s (selection_draft id (sample_selection r (ev_event_seq v)) ''task_1'' ''u1'' ''corr'' ''now'')"
    "from_draft i (invocation_draft (sample_invocation (vr_candidate_output_bundle_digest r)) ''corr'' None)"
    "from_draft g (sample_snapshot sample_ref)"
    using assms(1) unfolding sample_decision_log_def by blast
  let ?s = "sample_selection r (ev_event_seq v)"
  note ty = sample_types[OF d]
  have io: "ev_object_id i = ''i1''" using d(3) by (simp add: from_draft_def invocation_draft_def engine_draft_def sample_invocation_def)
  have i: "find_split_invocation_event es (xd_source_invocation_id ?x) = Some i"
    by (simp add: es find_split_invocation_event_def ty io) (simp add: sample_completion_def)
  have so: "ev_object_id s = ''sel_1''" using d(2) by (simp add: from_draft_def selection_draft_def engine_draft_def sample_selection_def)
  have c: "find_canonical_event es (xd_canonical_selection_id ?x) = Some s"
    by (simp add: es find_canonical_event_def ty so) (simp add: sample_completion_def)
  have ws: "wf_selection ?s" by (simp add: wf_selection_def sample_selection_def or_empty_def wf_refs_def wf_obj_def)
  have "jget (ev_payload s) ''canonical_selection'' = JObj (sort_obj (cs_to_dict ?s))"
    using d(2) by (simp add: from_draft_def)
      (subst jget_sorted; simp add: selection_draft_def engine_draft_def jget_def sort_members_obj del: sort_members.simps)
  moreover have ns: "norm_selection ?s = ?s" by (simp add: norm_selection_def sample_selection_def or_empty_def norm_refs_def sort_obj_def)
  ultimately have sel: "selection_of_decision es ?x = Inr ?s"
    using selection_reads_back[OF ws] by (auto simp: selection_of_decision_def c obj_item_def jitem_def jget_def split: option.splits)
  obtain y where "mk_verification_report y = Inr r" using r(1) by (auto simp: build_verification_report_def Let_def)
  note reads = report_reads_back[OF this r(2)]
  have "jget (ev_payload v) ''verification_report'' = JObj (sort_obj (vr_to_dict r))"
    using d(1) by (simp add: from_draft_def)
      (subst jget_sorted; simp add: verification_draft_def engine_draft_def jget_def sort_members_obj del: sort_members.simps)
  then have rep: "find_selected_verification_report es ?s = Inr (norm_report r)"
    using reads r(3-5) by (simp add: find_selected_verification_report_def es ty sample_selection_def
      validate_selected_report_against_canonical_selection_def norm_report_def norm_refs_def sort_obj_def)
  have body: "validate_complete_action_body ?x ?s (norm_report r) = Inr ()"
    by (simp add: validate_complete_action_body_def sample_completion_def sample_selection_def jget_def completion_fields_def
      refs_item_def obj_item_def jitem_def artifact_refs_from_dict_def completed_covers_def norm_report_def dict_has_def)
  have desc: "load_frozen_plugin_descriptor id sample_store fs es (xd_plugin_id ?x) (xd_plugin_version ?x) (xd_plugin_descriptor_digest ?x) = Inr sample_descriptor"
    using sample_descriptor_found[OF assms(2,3) d(4), of "[v, s, i]" later] by (simp add: es ty sample_completion_def)
  have strat: "declared_strategy sample_descriptor (xd_split_strategy_id ?x) = Inr JNull"
    by (simp add: declared_strategy_def sample_descriptor_def sample_completion_def dict_get_default_def)
  note fits = sample_invocation_fits[OF d(3) refl]
  have cs: "validate_decision_against_canonical_selection ?x (split_invocation_payload i) ?s = Inr ()"
    by (simp add: validate_decision_against_canonical_selection_def fits(2)) (simp add: sample_completion_def sample_selection_def)
  have act: "xd_action ?x = ''complete''" by (simp add: sample_completion_def)
  show ?thesis
    by (simp add: validate_accepted_decision_prerequisites_def i Let_def fits(1) sel cs desc strat act rep body fits(3)) (simp add: es)
qed

section \<open>The run\<close>

lemma completion_runs:
  assumes "ledger_ok h L" "xd_action x = ''complete''" "validate_task_unit_for_decision x u = Inr ()"
    "validate_accepted_decision_prerequisites h st fs (ledger_view L) x = Inr facts"
    "transition_task_unit u TS_COMPLETED ''complete_decision_accepted'' ''split_strategy'' (xd_decided_at x) = Inr c"
    "append_batch h clock L (completion_drafts h x facts u c cid cause (batch_first_id (ledger_view L) (completion_batch_id x)))
      (completion_batch_id x) = Inr (L', es)"
  shows "record_complete_decision h (Some st) clock x u cid cause (fs, L) =
    ((fs, L'), Inr \<lparr>kf_decision = x, kf_task_unit = c, kf_events = es\<rparr>)"
  using assms by (simp add: record_complete_decision_def disk_prog_eqs require_store_def)

text \<open>A completion can be recorded again, as long as what it needs is still read the same.\<close>

lemma completion_again:
  assumes "ledger_ok h L" "ledger_ok h L'" "record_complete_decision h (Some st) clock x u cid cause (fs, L) = ((fs, L'), Inr f)"
    "validate_accepted_decision_prerequisites h st fs (ledger_view L') x = validate_accepted_decision_prerequisites h st fs (ledger_view L) x"
  shows "record_complete_decision h (Some st) clock2 x u cid cause (fs, L') = ((fs, L'), Inr f)"
proof -
  obtain st' facts where a: "xd_action x = ''complete''" "validate_task_unit_for_decision x u = Inr ()" "Some st = Some st'"
    "validate_accepted_decision_prerequisites h st' fs (ledger_view L) x = Inr facts"
    "transition_task_unit u TS_COMPLETED ''complete_decision_accepted'' ''split_strategy'' (xd_decided_at x) = Inr (kf_task_unit f)"
    and b: "append_batch h clock L (completion_drafts h x facts u (kf_task_unit f) cid cause (batch_first_id (ledger_view L) (completion_batch_id x)))
      (completion_batch_id x) = Inr (L', kf_events f)"
    by (rule complete_steps[OF assms(3,1)])
  have "set (kf_events f) \<subseteq> set (el_events L')" using append_batch_stands[OF assms(1) b] by auto
  then have "append_batch h clock2 L' (completion_drafts h x facts u (kf_task_unit f) cid cause (batch_first_id (ledger_view L') (completion_batch_id x)))
      (completion_batch_id x) = Inr (L', kf_events f)"
    using append_batch_known[OF assms(2)] append_batch_stands[OF assms(1) b] batch_first_id_stable[OF assms(1) b] by simp
  moreover have "kf_decision f = x" using assms(1,3) by (auto simp: record_complete_decision_def disk_prog_eqs require_store_def split: if_splits)
  ultimately show ?thesis
    using completion_runs[OF assms(2) a(1,2) _ a(5), of st fs facts] a(3,4) assms(4) by simp
qed

lemma completion_drafts_wf:
  assumes "wf_obj (xd_action_body x)" "wf_unit c" "wf_json (df_invocation_id facts)" "floats_ok (df_invocation_id facts)"
  shows "\<forall>d \<in> set (completion_drafts h x facts u c cid cause first). wf_draft d"
  using assms by (simp add: completion_drafts_def wf_draft_def decision_draft_def engine_draft_def decision_payload_def xd_to_dict_def
      completed_unit_draft_def task_unit_state_change_def wf_obj_def wf_unit_def or_nothing_def)

lemma sample_completion_run:
  obtains r fs L L' f where "ledger_reach id L" "ledger_reach id L'" "wf_obj (xd_action_body (sample_completion r))"
    "record_complete_decision id (Some sample_store) (\<lambda>_. ''now'') (sample_completion r) sample_claimed_unit ''corr'' None (fs, L) = ((fs, L'), Inr f)"
    "record_complete_decision id (Some sample_store) (\<lambda>_. ''later'') (sample_completion r) sample_claimed_unit ''corr'' None (fs, L') = ((fs, L'), Inr f)"
proof -
  obtain r where r: "build_verification_report id sample_report_input = Inr r" "wf_report r" 
    "[vr_task_id r, vr_unit_id r, vr_attempt_id r, vr_status r, vr_submission_id r, vr_validator_policy_id r] =
      [''task_1'', ''u1'', ''attempt_1'', ''passed'', ''submission_1'', ''v'']"
    by (rule sample_report_made)
  have rr: "vr_candidate_output_refs r = []" "vr_task_id r = ''task_1''" "vr_unit_id r = ''u1''" using r(1,3)
    by (auto simp: build_verification_report_def mk_verification_report_def sample_report_input_def Let_def res_simps)
  obtain fs where fs: "verify_artifact id sample_store fs sample_ref = Inr True"
    "read_bytes sample_store fs sample_ref = Inr (canonical_json (JObj sample_descriptor))"
    by (rule sample_descriptor_saved)
  let ?x = "sample_completion r"
  let ?d1 = "verification_draft id r ''corr'' None"
  obtain L1 e1 where e1: "el_events L1 = [e1]" "ledger_ok id L1" "ledger_view L1 = [norm_event e1]" "from_draft (norm_event e1) ?d1"
    "ev_idempotency_key ` set (el_events L1) = {dr_idempotency_key ?d1}" "ev_batch_id e1 = None" "ledger_reach id L1"
    by (rule append_fresh_view[OF empty_ok(1) verification_draft_wf[OF r(2)], where now = "''now''"]) (use empty_reach in \<open>simp_all add: empty_ok\<close>)
  have k1: "dr_idempotency_key ?d1 = ''verification:submission_1:v''" using r(3) by (simp add: verification_draft_def engine_draft_def)
  let ?d2 = "selection_draft id (sample_selection r (ev_event_seq (norm_event e1))) ''task_1'' ''u1'' ''corr'' ''now''"
  have k2: "dr_idempotency_key ?d2 = ''canonical_outputs:task_1:u1''" by (simp add: selection_draft_def engine_draft_def)
  have w2: "wf_draft ?d2" by (rule selection_draft_wf) (simp add: wf_selection_def sample_selection_def or_empty_def wf_refs_def wf_obj_def)
  obtain L2 e2 where e2: "el_events L2 = [e1, e2]" "ledger_ok id L2" "ledger_view L2 = [norm_event e1, norm_event e2]" "from_draft (norm_event e2) ?d2"
    "ev_idempotency_key ` set (el_events L2) = {dr_idempotency_key ?d2, dr_idempotency_key ?d1}" "ev_batch_id e2 = None" "ledger_reach id L2"
    by (rule append_fresh_view[OF e1(2) w2, where now = "''now''"]) (use e1 k1 k2 in simp_all)
  let ?d3 = "invocation_draft (sample_invocation (vr_candidate_output_bundle_digest r)) ''corr'' None"
  have k3: "dr_idempotency_key ?d3 = ''split_invocation:scope_1:attempt:'' @ show_int 1" by (simp add: invocation_draft_def engine_draft_def sample_invocation_def)
  have w3: "wf_draft ?d3" by (simp add: wf_draft_def invocation_draft_def engine_draft_def sample_invocation_def split_invocation_summary_def wf_obj_def)
  obtain L3 e3 where e3: "el_events L3 = [e1, e2, e3]" "ledger_ok id L3" "ledger_view L3 = [norm_event e1, norm_event e2, norm_event e3]"
    "from_draft (norm_event e3) ?d3" "ev_idempotency_key ` set (el_events L3) = {dr_idempotency_key ?d3, dr_idempotency_key ?d2, dr_idempotency_key ?d1}"
    "ev_batch_id e3 = None" "ledger_reach id L3"
    by (rule append_fresh_view[OF e2(2) w3, where now = "''now''"]) (use e2 k1 k2 k3 in simp_all)
  let ?d4 = "sample_snapshot sample_ref"
  have k4: "dr_idempotency_key ?d4 = ''registry:snapshot_1''" by (simp add: sample_snapshot_def engine_draft_def)
  have w4: "wf_draft ?d4" using sample_ref_wf(1) by (simp add: wf_draft_def sample_snapshot_def engine_draft_def wf_obj_def ar_to_dict_def wf_ref_def)
  obtain L e4 where e4: "el_events L = [e1, e2, e3, e4]" "ledger_ok id L" "ledger_view L = [norm_event e1, norm_event e2, norm_event e3, norm_event e4]"
    "from_draft (norm_event e4) ?d4"
    "ev_idempotency_key ` set (el_events L) = {dr_idempotency_key ?d4, dr_idempotency_key ?d3, dr_idempotency_key ?d2, dr_idempotency_key ?d1}"
    "ev_batch_id e4 = None" "ledger_reach id L"
    by (rule append_fresh_view[OF e3(2) w4, where now = "''now''"]) (use e3 k1 k2 k3 k4 in simp_all)
  have log: "sample_decision_log r (ledger_view L @ later)" for later
    unfolding sample_decision_log_def e4(3) using e1(4) e2(4) e3(4) e4(4) by auto
  note pre = sample_prerequisites[OF _ fs r(1,2) rr]
  obtain facts where facts: "validate_accepted_decision_prerequisites id sample_store fs (ledger_view L) ?x = Inr facts" "df_invocation_id facts = JStr ''i1''"
    using pre[OF log[of "[]", simplified]] by simp
  let ?u = sample_claimed_unit
  define c where "c = ?u\<lparr>tu_state := TS_COMPLETED, tu_updated_at := xd_decided_at ?x\<rparr>"
  have c: "transition_task_unit ?u TS_COMPLETED ''complete_decision_accepted'' ''split_strategy'' (xd_decided_at ?x) = Inr c"
    by (simp add: transition_task_unit_def task_unit_transitions_def mk_task_unit_def sample_claimed_unit_def sample_unit_def c_def)
  have wc: "wf_unit c" using sample_unit_wf[of "''u1''" TS_PROCESSING] by (simp add: c_def sample_claimed_unit_def wf_unit_def wf_obj_def tu_to_dict_def)
  have v: "validate_task_unit_for_decision ?x ?u = Inr ()"
    by (simp add: validate_task_unit_for_decision_def sample_completion_def sample_claimed_unit_def sample_unit_def)
  have x: "xd_action ?x = ''complete''" by (simp add: sample_completion_def)
  have wx: "wf_obj (xd_action_body ?x)" by (simp add: sample_completion_def wf_obj_def)
  define ds where "ds = completion_drafts id ?x facts ?u c ''corr'' None (batch_first_id (ledger_view L) (completion_batch_id ?x))"
  have wds: "\<forall>d \<in> set ds. wf_draft d" unfolding ds_def by (rule completion_drafts_wf[OF wx wc]) (simp_all add: facts(2))
  have kds: "map dr_idempotency_key ds = [''expansion_decision:scope_1'', ''task_unit:state:u1:Processing:Completed:x1'']"
    by (simp add: ds_def completion_drafts_def decision_draft_def completed_unit_draft_def engine_draft_def sample_completion_def
      sample_claimed_unit_def sample_unit_def c_def)
  then have sds: "dr_idempotency_key ` set ds = {''expansion_decision:scope_1'', ''task_unit:state:u1:Processing:Completed:x1''}"
    unfolding set_map[symmetric] by (simp only: list.set)
  have "ev_idempotency_key ` set (el_events L) \<inter> dr_idempotency_key ` set ds = {}" unfolding e4(5) sds k1 k2 k3 k4 by simp
  then have "fresh_batch L (completion_batch_id ?x) ds"
    using e1(6) e2(6) e3(6) e4(6) by (auto simp: fresh_batch_def e4(1))
  moreover have "ds \<noteq> []" "completion_batch_id ?x \<noteq> []" "distinct (map dr_idempotency_key ds)"
    by (simp_all add: kds) (simp_all add: ds_def completion_drafts_def completion_batch_id_def)
  ultimately obtain L' es where b: "append_batch id (\<lambda>_. ''now'') L ds (completion_batch_id ?x) = Inr (L', es)"
    using append_batch_fresh[OF e4(2)] by blast
  note run = completion_runs[OF e4(2) x v facts(1) c b[unfolded ds_def]]
  have reach: "ledger_reach id L'" by (rule ledger_batch[OF e4(7) wds b])
  obtain new where new: "ledger_view L' = ledger_view L @ new" using append_batch_view[OF b] by blast
  have "validate_accepted_decision_prerequisites id sample_store fs (ledger_view L') ?x =
      validate_accepted_decision_prerequisites id sample_store fs (ledger_view L) ?x"
    using pre[OF log[of "[]", simplified]] pre[OF log[of new]] by (simp add: new e4(3))
  from completion_again[OF e4(2) ledger_reach_ok[OF reach] run this] show thesis
    by (intro that[OF e4(7) reach wx run])
qed

lemma scope_decided_once_witness:
  "\<exists>r fs L L'. decides id (sample_completion r) (fs, L) (fs, L') \<and> decides id (sample_completion r) (fs, L') (fs, L') \<and>
     xd_action (sample_completion r) = ''complete''"
proof -
  obtain r fs L L' f where s: "ledger_reach id L" "ledger_reach id L'" "wf_obj (xd_action_body (sample_completion r))"
    "record_complete_decision id (Some sample_store) (\<lambda>_. ''now'') (sample_completion r) sample_claimed_unit ''corr'' None (fs, L) = ((fs, L'), Inr f)"
    "record_complete_decision id (Some sample_store) (\<lambda>_. ''later'') (sample_completion r) sample_claimed_unit ''corr'' None (fs, L') = ((fs, L'), Inr f)"
    by (rule sample_completion_run)
  have d: "decides id (sample_completion r) (fs, L) (fs, L')" "decides id (sample_completion r) (fs, L') (fs, L')"
    unfolding decides_def using s(4,5) by blast+
  have "ledger_view L' = ledger_view L' @ []" by simp
  from scope_decided_once[OF s(1) d(1) s(3) s(2) this d(2) s(3) refl] d show ?thesis by (auto simp: sample_completion_def)
qed

lemma completion_backed_witness:
  "\<exists>r fs L L' f. record_complete_decision id (Some sample_store) (\<lambda>_. ''now'') (sample_completion r) sample_claimed_unit ''corr'' None (fs, L)
       = ((fs, L'), Inr f) \<and> tu_state (kf_task_unit f) = TS_COMPLETED"
proof -
  obtain r fs L L' f where s: "ledger_reach id L"
    "record_complete_decision id (Some sample_store) (\<lambda>_. ''now'') (sample_completion r) sample_claimed_unit ''corr'' None (fs, L) = ((fs, L'), Inr f)"
    by (rule sample_completion_run)
  from completion_backed[OF s] s(2) show ?thesis by blast
qed

end
