(* ===== verification/Engine_Completion.thy ===== *)
theory Engine_Completion
  imports Engine_Expansion
begin

text \<open>
  \<open>protocol_engine.py\<close>: the resolution of a merge into the expected outputs of a parent, the completion of an expanded
  parent, its failure by a child, and the activation of a blocked unit.
\<close>

section \<open>Batches that were recorded\<close>

definition batch_ledger :: "hash \<Rightarrow> (nat \<Rightarrow> string) \<Rightarrow> event_draft list \<Rightarrow> string \<Rightarrow> (event_ledger, ledger_event list) prog" where
  "batch_ledger h clock ds bid = to_prog (\<lambda>L. append_batch h clock L ds bid)"

text \<open>\<open>sorted(..., key=lambda event: event.batch_index or 0)\<close>.\<close>

definition recorded_batch :: "ledger_event list \<Rightarrow> string \<Rightarrow> ledger_event list" where
  "recorded_batch es bid =
     sort_key (\<lambda>e. case ev_batch_index e of None \<Rightarrow> 0 | Some i \<Rightarrow> i) (filter (\<lambda>e. ev_batch_id e = Some bid) es)"

text \<open>At least two events, of one size, which is their number, numbered from 1.\<close>

definition batch_numbered :: "ledger_event list \<Rightarrow> bool" where
  "batch_numbered batch \<longleftrightarrow> 2 \<le> length batch \<and> list_all (\<lambda>e. ev_batch_size e = Some (int (length batch))) batch \<and>
     map ev_batch_index batch = map (Some \<circ> int) [1..<length batch + 1]"

definition is_complete_merge_resolution_batch :: "ledger_event list \<Rightarrow> string \<Rightarrow> string \<Rightarrow> bool" where
  "is_complete_merge_resolution_batch es bid merge_record_id \<longleftrightarrow>
     (let batch = recorded_batch es bid in
      batch_numbered batch \<and> is_type (hd batch) MERGE_RECORDED \<and> ev_object_id (hd batch) = merge_record_id \<and>
      list_all (\<lambda>e. is_type e EXPECTED_OUTPUT_RESOLVED) (tl batch))"

section \<open>What a merge record needs\<close>

definition merge_resolution_batch_id :: "string \<Rightarrow> string" where
  "merge_resolution_batch_id i = ''merge_resolution_batch:'' @ i"

definition reject_incomplete_merge_resolution_batch :: "ledger_event list \<Rightarrow> merge_record \<Rightarrow> unit res" where
  "reject_incomplete_merge_resolution_batch es r =
     (let bid = merge_resolution_batch_id (mr_merge_record_id r) in
      raise_if (list_ex (\<lambda>e. ev_batch_id e = Some bid \<or> is_type e MERGE_RECORDED \<and> ev_object_id e = mr_merge_record_id r) es \<and>
          \<not> is_complete_merge_resolution_batch es bid (mr_merge_record_id r))
        (ValueError ''projection inconsistent: incomplete merge_resolution_batch''))"

definition conflicting_merge_record :: "merge_record \<Rightarrow> ledger_event \<Rightarrow> bool" where
  "conflicting_merge_record r e \<longleftrightarrow> is_type e MERGE_RECORDED \<and>
     (case jget (ev_payload e) ''merge_record'' of
        JObj old \<Rightarrow> jget old ''merge_plan_id'' = JStr (mr_merge_plan_id r) \<and> \<not> py_eq (JObj old) (JObj (mr_to_dict r))
      | _ \<Rightarrow> False)"

definition reject_existing_merge_record_conflict :: "ledger_event list \<Rightarrow> merge_record \<Rightarrow> unit res" where
  "reject_existing_merge_record_conflict es r =
     raise_if (list_ex (conflicting_merge_record r) es) (ValueError ''merge record conflict for merge_plan_id'')"

definition merge_unit_canonical_event :: "ledger_event list \<Rightarrow> merge_record \<Rightarrow> ledger_event res" where
  "merge_unit_canonical_event es r =
     (case find (\<lambda>e. is_type e CANONICAL_OUTPUTS_BOUND \<and> jget (ev_payload e) ''task_id'' = JStr (mr_task_id r) \<and>
         jget (ev_payload e) ''unit_id'' = JStr (mr_merge_unit_id r) \<and>
         (case jget (ev_payload e) ''canonical_selection'' of
            JObj s \<Rightarrow> jget s ''canonical_selection_id'' = JStr (mr_canonical_selection_id r) | _ \<Rightarrow> False)) es of
        None \<Rightarrow> Inl (ValueError ''merge unit CANONICAL_OUTPUTS_BOUND is required before MERGE_RECORDED'')
      | Some e \<Rightarrow>
          if ev_event_seq e \<noteq> mr_canonical_event_seq r then Inl (ValueError ''canonical selection event seq mismatch'') else Inr e)"

definition merge_task_link_payload :: "ledger_event list \<Rightarrow> merge_record \<Rightarrow> jobj res" where
  "merge_task_link_payload es r =
     (case find (\<lambda>e. is_type e MERGE_TASK_LINK_RECORDED \<and> jget (ev_payload e) ''merge_plan_id'' = JStr (mr_merge_plan_id r)) es of
        None \<Rightarrow> Inl (ValueError ''merge task link not found for merge resolution'')
      | Some e \<Rightarrow> (case jget (ev_payload e) ''merge_task_link'' of
            JObj link \<Rightarrow>
              if jget link ''merge_task_link_id'' \<noteq> JStr (mr_merge_task_link_id r) then Inl (ValueError ''merge task link mismatch'')
              else Inr link
          | _ \<Rightarrow> Inl (ValueError ''merge task link payload missing'')))"

text \<open>\<open>dict(mapping)\<close> of a value that is an object.\<close>

fun as_dict :: "json \<Rightarrow> jobj res" where
  "as_dict (JObj d) = Inr d"
| "as_dict _ = Inl (TypeError ''object expected'')"

definition check_bundle :: "hash \<Rightarrow> merge_record \<Rightarrow> jobj \<Rightarrow> jobj list res" where
  "check_bundle h r bundle =
     seqE (raise_if (jget bundle ''merge_plan_id'' \<noteq> JStr (mr_merge_plan_id r)) (ValueError ''merge input bundle merge_plan_id mismatch''))
     (seqE (raise_if (jget bundle ''parent_unit_id'' \<noteq> JStr (mr_parent_unit_id r)) (ValueError ''merge input bundle parent_unit_id mismatch''))
     (case jget bundle ''parent_output_mapping'' of
        JArr ms \<Rightarrow>
          seqE (raise_if (ms = []) (ValueError ''merge input bundle parent_output_mapping missing''))
          (seqE (raise_if (digest_json h (JArr ms) \<noteq> mr_parent_output_mapping_digest r) (ValueError ''parent output mapping digest mismatch''))
          (mapE as_dict ms))
      | _ \<Rightarrow> Inl (ValueError ''merge input bundle parent_output_mapping missing'')))"

definition validate_merge_input_bundle :: "hash \<Rightarrow> artifact_store \<Rightarrow> fs \<Rightarrow> merge_record \<Rightarrow> jobj \<Rightarrow> jobj list res" where
  "validate_merge_input_bundle h st fs r link =
     seqE (require (py_eq (jget link ''merge_input_bundle_ref'') (mr_merge_input_bundle_ref r)) (ValueError ''merge input bundle ref mismatch''))
     (seqE (raise_if (jget link ''merge_input_bundle_digest'' \<noteq> JStr (mr_merge_input_bundle_digest r))
        (ValueError ''merge input bundle digest mismatch''))
     (bindE (as_dict (mr_merge_input_bundle_ref r)) (\<lambda>d.
      bindE (ar_from_dict d) (\<lambda>ref.
      bindE (verify_artifact h st fs ref) (\<lambda>ok.
      seqE (require ok (ValueError ''merge input bundle artifact digest mismatch''))
      (bindE (read_bytes st fs ref) (\<lambda>data.
       case loads data of
         None \<Rightarrow> Inl (ValueError ''invalid JSON'')
       | Some (JObj bundle) \<Rightarrow> check_bundle h r bundle
       | Some _ \<Rightarrow> Inl (AttributeError ''get''))))))))"

definition link_fields :: "merge_record \<Rightarrow> (string \<times> string) list" where
  "link_fields r =
     [(''task_id'', mr_task_id r), (''parent_unit_id'', mr_parent_unit_id r), (''merge_plan_id'', mr_merge_plan_id r),
      (''merge_unit_id'', mr_merge_unit_id r), (''merge_input_bundle_digest'', mr_merge_input_bundle_digest r),
      (''required_slot_bindings_digest'', mr_required_slot_bindings_digest r), (''merge_policy_id'', mr_merge_policy_id r),
      (''merge_policy_version'', mr_merge_policy_version r),
      (''merge_policy_descriptor_digest'', mr_merge_policy_descriptor_digest r)]"

definition validate_merge_record_against_link :: "merge_record \<Rightarrow> jobj \<Rightarrow> unit res" where
  "validate_merge_record_against_link r link =
     checks (map (\<lambda>(f, v). raise_if (jget link f \<noteq> JStr v) (ValueError (''merge task link '' @ f @ '' mismatch''))) (link_fields r))"

definition selection_fields :: "merge_record \<Rightarrow> (string \<times> json) list" where
  "selection_fields r =
     [(''canonical_selection_id'', JStr (mr_canonical_selection_id r)),
      (''selected_verification_report_id'', JStr (mr_selected_verification_report_id r)),
      (''selected_verification_event_seq'', JInt (mr_selected_verification_event_seq r)),
      (''selected_submission_id'', JStr (mr_selected_submission_id r)),
      (''selected_submission_event_seq'', JInt (mr_selected_submission_event_seq r)),
      (''selected_attempt_id'', JStr (mr_selected_attempt_id r)),
      (''canonical_output_bundle_digest'', JStr (mr_merge_output_bundle_digest r))]"

definition check_output_ref :: "json \<Rightarrow> unit res" where
  "check_output_ref ref =
     (case ref of
        JObj d \<Rightarrow> raise_if (jget d ''artifact_type'' \<noteq> JStr ''canonical_output'') (ValueError ''merge output ref must be canonical_output'')
      | _ \<Rightarrow> Inl (ValueError ''merge output ref must be an object''))"

definition validate_merge_record_against_canonical_event :: "merge_record \<Rightarrow> ledger_event \<Rightarrow> unit res" where
  "validate_merge_record_against_canonical_event r e =
     (case jget (ev_payload e) ''canonical_selection'' of
        JObj s \<Rightarrow>
          seqE (checks (map (\<lambda>(f, v). require (py_eq (jget s f) v) (ValueError (''canonical selection '' @ f @ '' mismatch'')))
            (selection_fields r)))
          (seqE (require (py_eq (jget s ''canonical_output_refs'') (mr_merge_output_refs r))
            (ValueError ''canonical selection merge output refs mismatch''))
          (bindE (as_dict (mr_merge_output_refs r)) (\<lambda>refs. checks (map check_output_ref (dict_values refs)))))
      | _ \<Rightarrow> Inl (ValueError ''canonical selection payload missing''))"

section \<open>The resolutions\<close>

definition required_parent_outputs :: "jobj list \<Rightarrow> json list res" where
  "required_parent_outputs ms =
     mapE (\<lambda>m. bindE (jitem m ''parent_output_name'') hash_key) (filter (\<lambda>m. jget m ''resolution_kind'' = JStr ''merge_plan_output'') ms)"

definition check_resolution :: "merge_record \<Rightarrow> output_resolution \<Rightarrow> unit res" where
  "check_resolution r x =
     seqE (checks
       [raise_if (er_task_id x \<noteq> mr_task_id r) (ValueError ''expected output resolution task mismatch''),
        raise_if (er_owner_unit_id x \<noteq> mr_parent_unit_id r) (ValueError ''expected output resolution owner mismatch''),
        raise_if (er_merge_record_id x \<noteq> mr_merge_record_id r) (ValueError ''expected output resolution merge_record mismatch''),
        raise_if (er_merge_plan_id x \<noteq> mr_merge_plan_id r) (ValueError ''expected output resolution merge_plan mismatch''),
        raise_if (er_merge_unit_id x \<noteq> mr_merge_unit_id r) (ValueError ''expected output resolution merge_unit mismatch''),
        raise_if (er_merge_canonical_selection_id x \<noteq> mr_canonical_selection_id r)
          (ValueError ''expected output resolution canonical selection mismatch'')])
     (bindE (as_dict (mr_merge_output_refs r)) (\<lambda>refs.
      let expected = jget refs (er_expected_output_name x) in
      seqE (raise_if (expected = JNull) (ValueError ''expected output resolution missing merge output ref''))
      (seqE (require (py_eq (er_resolved_output_ref x) expected) (ValueError ''expected output resolution output ref mismatch''))
      (case expected of
         JObj ref \<Rightarrow> raise_if (jget ref ''content_hash'' \<noteq> JStr (er_resolved_output_digest x))
           (ValueError ''expected output resolution output digest mismatch'')
       | _ \<Rightarrow> Inl (AttributeError ''get'')))))"

definition validate_expected_output_resolutions :: "merge_record \<Rightarrow> output_resolution list \<Rightarrow> jobj list \<Rightarrow> unit res" where
  "validate_expected_output_resolutions r xs ms =
     seqE (raise_if (xs = []) (ValueError ''required parent outputs are not fully resolved''))
     (seqE (require (distinct (map er_expected_output_id xs)) (ValueError ''duplicate expected output resolution''))
     (bindE (required_parent_outputs ms) (\<lambda>required.
      seqE (raise_if (set (map (JStr \<circ> er_expected_output_name) xs) \<noteq> set required)
        (ValueError ''required parent outputs are not fully resolved''))
      (checks (map (check_resolution r) xs)))))"

definition validate_merge_resolution_prerequisites ::
  "hash \<Rightarrow> artifact_store \<Rightarrow> fs \<Rightarrow> ledger_event list \<Rightarrow> merge_record \<Rightarrow> output_resolution list \<Rightarrow> ledger_event res" where
  "validate_merge_resolution_prerequisites h st fs es r xs =
     bindE (merge_unit_canonical_event es r) (\<lambda>e.
     bindE (merge_task_link_payload es r) (\<lambda>link.
     bindE (validate_merge_input_bundle h st fs r link) (\<lambda>ms.
     seqE (validate_merge_record_against_link r link)
     (seqE (validate_merge_record_against_canonical_event r e)
     (seqE (validate_expected_output_resolutions r xs ms) (Inr e))))))"

section \<open>Recording a merge\<close>

definition merge_record_draft :: "merge_record \<Rightarrow> string \<Rightarrow> string option \<Rightarrow> event_draft" where
  "merge_record_draft r cid cause =
     engine_draft MERGE_RECORDED ''MergeRecord'' (mr_merge_record_id r) (mr_task_id r) cid cause
       (''merge_record:'' @ mr_merge_plan_id r @ '':'' @ mr_merge_unit_id r @ '':'' @ mr_canonical_selection_id r)
       [(''schema_version'', JStr ''phase5.merge_recorded.v1''),
        (''merge_record'', JObj (mr_to_dict r)),
        (''task_id'', JStr (mr_task_id r)),
        (''parent_unit_id'', JStr (mr_parent_unit_id r)),
        (''merge_plan_id'', JStr (mr_merge_plan_id r)),
        (''merge_unit_id'', JStr (mr_merge_unit_id r)),
        (''merge_task_link_id'', JStr (mr_merge_task_link_id r)),
        (''merge_input_bundle_ref'', mr_merge_input_bundle_ref r),
        (''merge_input_bundle_digest'', JStr (mr_merge_input_bundle_digest r)),
        (''required_slot_bindings_digest'', JStr (mr_required_slot_bindings_digest r)),
        (''merge_policy_id'', JStr (mr_merge_policy_id r)),
        (''merge_policy_version'', JStr (mr_merge_policy_version r)),
        (''merge_policy_descriptor_digest'', JStr (mr_merge_policy_descriptor_digest r)),
        (''merge_policy_params_digest'', JStr (mr_merge_policy_params_digest r)),
        (''canonical_selection_id'', JStr (mr_canonical_selection_id r)),
        (''canonical_event_seq'', JInt (mr_canonical_event_seq r)),
        (''selected_verification_report_id'', JStr (mr_selected_verification_report_id r)),
        (''selected_verification_event_seq'', JInt (mr_selected_verification_event_seq r)),
        (''selected_submission_id'', JStr (mr_selected_submission_id r)),
        (''selected_submission_event_seq'', JInt (mr_selected_submission_event_seq r)),
        (''selected_attempt_id'', JStr (mr_selected_attempt_id r)),
        (''merge_output_bundle_digest'', JStr (mr_merge_output_bundle_digest r)),
        (''merge_output_refs'', mr_merge_output_refs r),
        (''parent_output_mapping_digest'', JStr (mr_parent_output_mapping_digest r)),
        (''created_at'', JStr (mr_created_at r))] (mr_created_at r)"

definition resolution_draft :: "merge_record \<Rightarrow> string \<Rightarrow> string option \<Rightarrow> output_resolution \<Rightarrow> event_draft" where
  "resolution_draft r cid cause x =
     engine_draft EXPECTED_OUTPUT_RESOLVED ''ExpectedOutputRef'' (er_expected_output_id x) (er_task_id x) cid cause
       (''expected_output_resolved:'' @ er_expected_output_id x @ '':'' @ mr_merge_record_id r)
       [(''schema_version'', JStr ''phase5.expected_output_resolved.v1''),
        (''expected_output_resolution'', JObj (er_to_dict x)),
        (''task_id'', JStr (er_task_id x)),
        (''owner_unit_id'', JStr (er_owner_unit_id x)),
        (''expected_output_id'', JStr (er_expected_output_id x)),
        (''expected_output_name'', JStr (er_expected_output_name x)),
        (''resolution_source_type'', JStr (er_resolution_source_type x)),
        (''merge_record_id'', JStr (er_merge_record_id x)),
        (''merge_plan_id'', JStr (er_merge_plan_id x)),
        (''merge_unit_id'', JStr (er_merge_unit_id x)),
        (''merge_canonical_selection_id'', JStr (er_merge_canonical_selection_id x)),
        (''resolved_output_ref'', er_resolved_output_ref x),
        (''resolved_output_digest'', JStr (er_resolved_output_digest x)),
        (''resolved_at'', JStr (er_resolved_at x))] (er_resolved_at x)"

definition merge_resolution_drafts :: "merge_record \<Rightarrow> output_resolution list \<Rightarrow> string \<Rightarrow> string option \<Rightarrow> event_draft list" where
  "merge_resolution_drafts r xs cid cause = merge_record_draft r cid cause # map (resolution_draft r cid cause) xs"

text \<open>\<open>causation_event_id or event.event_id\<close>.\<close>

definition cause_or :: "string option \<Rightarrow> string \<Rightarrow> string option" where
  "cause_or cause i = Some (or_str cause i)"

record merge_resolution_flow =
  mv_merge_record :: merge_record
  mv_resolutions :: "output_resolution list"
  mv_events :: "ledger_event list"

definition record_merge_resolution ::
  "hash \<Rightarrow> artifact_store option \<Rightarrow> (nat \<Rightarrow> string) \<Rightarrow> merge_record \<Rightarrow> output_resolution list \<Rightarrow> string \<Rightarrow> string option
    \<Rightarrow> (disk_ledger, merge_resolution_flow) prog" where
  "record_merge_resolution h store clock r xs cid cause =
     bindS read_prog (\<lambda>es.
     bindS (lift_res (require_store store)) (\<lambda>st.
     bindS (lift_res (reject_incomplete_merge_resolution_batch es r)) (\<lambda>_.
     bindS (lift_res (reject_existing_merge_record_conflict es r)) (\<lambda>_.
     bindS read_disk (\<lambda>fs.
     bindS (lift_res (validate_merge_resolution_prerequisites h st fs es r xs)) (\<lambda>e.
     bindS (batch_prog h clock (merge_resolution_drafts r xs cid (cause_or cause (ev_event_id e)))
       (merge_resolution_batch_id (mr_merge_record_id r))) (\<lambda>events.
     lift_res (Inr \<lparr>mv_merge_record = r, mv_resolutions = xs, mv_events = events\<rparr>))))))))"

section \<open>The completion of a parent\<close>

definition is_complete_parent_completion_batch :: "ledger_event list \<Rightarrow> string \<Rightarrow> string \<Rightarrow> bool" where
  "is_complete_parent_completion_batch es bid owner \<longleftrightarrow>
     (let batch = recorded_batch es bid in
      batch_numbered batch \<and> is_type (hd batch) TASK_UNIT_STATE_CHANGED \<and> ev_object_id (hd batch) = owner \<and>
      jget (ev_payload (hd batch)) ''old_state'' = JStr (task_state_value TS_PROCESSING) \<and>
      jget (ev_payload (hd batch)) ''new_state'' = JStr (task_state_value TS_COMPLETED) \<and>
      list_all (\<lambda>e. is_type e CONTRIBUTION_STATE_CHANGED \<and>
        jget (ev_payload e) ''old_state'' = JStr (contribution_state_value CT_PENDING) \<and>
        jget (ev_payload e) ''new_state'' = JStr (contribution_state_value CT_ELIGIBLE)) (tl batch))"

definition starts_with :: "string \<Rightarrow> string \<Rightarrow> bool" where
  "starts_with p s \<longleftrightarrow> take (length p) s = p"

definition parent_completion_batch_id :: "string \<Rightarrow> string \<Rightarrow> string" where
  "parent_completion_batch_id owner d = ''parent_completion_batch:'' @ owner @ '':'' @ d"

text \<open>
  The code looks at the batches as a set, in no particular order; here in the order of the ledger. Only which of two
  messages is raised first can differ.
\<close>

definition reject_parent_completion_conflict :: "ledger_event list \<Rightarrow> string \<Rightarrow> string \<Rightarrow> unit res" where
  "reject_parent_completion_conflict es owner d =
     checks (map (\<lambda>bid.
         seqE (require (is_complete_parent_completion_batch es bid owner) (ValueError ''projection inconsistent: incomplete parent_completion_batch''))
         (raise_if (bid \<noteq> parent_completion_batch_id owner d) (ValueError ''parent completion conflict for owner unit'')))
       (filter (starts_with (parent_completion_batch_id owner [])) (keep_some (map ev_batch_id es))))"

text \<open>The resolution of a recorded event, when its batch is complete.\<close>

definition resolution_of_event :: "ledger_event list \<Rightarrow> ledger_event \<Rightarrow> (string \<times> jobj) option" where
  "resolution_of_event es e =
     (if \<not> is_type e EXPECTED_OUTPUT_RESOLVED then None
      else case jget (ev_payload e) ''expected_output_resolution'' of
        JObj d \<Rightarrow> (case (ev_batch_id e, jget d ''merge_record_id'', jget d ''expected_output_id'') of
            (Some bid, JStr record_id, JStr i) \<Rightarrow>
              if is_complete_merge_resolution_batch es bid record_id \<and> i \<noteq> [] then Some (i, d) else None
          | _ \<Rightarrow> None)
      | _ \<Rightarrow> None)"

definition add_resolution :: "(string, jobj) dict \<Rightarrow> string \<times> jobj \<Rightarrow> (string, jobj) dict res" where
  "add_resolution known = (\<lambda>(i, d).
     (case dict_get known i of
        Some old \<Rightarrow> if py_eq (JObj old) (JObj d) then Inr (dict_set i d known) else Inl (ValueError ''expected output resolution conflict'')
      | None \<Rightarrow> Inr (dict_set i d known)))"

definition recorded_expected_output_resolutions :: "ledger_event list \<Rightarrow> (string, jobj) dict res" where
  "recorded_expected_output_resolutions es = foldE add_resolution [] (keep_some (map (resolution_of_event es) es))"

text \<open>\<open>{... : ... for ...}\<close> that refuses a second key.\<close>

fun unique_by :: "('a \<Rightarrow> unit res) \<Rightarrow> ('a \<Rightarrow> string) \<Rightarrow> string \<Rightarrow> (string, 'a) dict \<Rightarrow> 'a list \<Rightarrow> (string, 'a) dict res" where
  "unique_by ok key duplicate known [] = Inr known"
| "unique_by ok key duplicate known (x # xs) =
     seqE (ok x)
     (if dict_has known (key x) then Inl (ValueError duplicate)
      else unique_by ok key duplicate (dict_set (key x) x known) xs)"

definition check_owner_resolution ::
  "task_unit \<Rightarrow> (string, output_resolution) dict \<Rightarrow> (string, jobj) dict \<Rightarrow> string \<times> expected_output_ref \<Rightarrow> unit res" where
  "check_owner_resolution owner by_id recorded = (\<lambda>(i, ref).
     (case dict_get by_id i of
        None \<Rightarrow> Inl (KeyError i)
      | Some x \<Rightarrow> checks
          [raise_if (er_task_id x \<noteq> tu_task_id owner) (ValueError ''expected output resolution task mismatch''),
           raise_if (er_owner_unit_id x \<noteq> tu_unit_id owner) (ValueError ''expected output resolution owner mismatch''),
           raise_if (er_expected_output_name x \<noteq> eo_output_name ref) (ValueError ''expected output resolution name mismatch''),
           (case dict_get recorded i of
              None \<Rightarrow> Inl (ValueError ''required expected outputs are not fully resolved'')
            | Some d \<Rightarrow> require (py_eq (JObj d) (JObj (er_to_dict x))) (ValueError ''expected output resolution conflict''))]))"

definition validate_parent_completion_resolutions ::
  "task_unit \<Rightarrow> expected_output_ref list \<Rightarrow> output_resolution list \<Rightarrow> ledger_event list \<Rightarrow> unit res" where
  "validate_parent_completion_resolutions owner refs xs es =
     seqE (raise_if (refs = []) (ValueError ''required expected outputs are not fully resolved''))
     (bindE (unique_by (\<lambda>ref. raise_if (eo_task_id ref \<noteq> tu_task_id owner \<or> eo_owner_unit_id ref \<noteq> tu_unit_id owner)
         (ValueError ''required expected outputs do not belong to owner unit'')) eo_expected_output_id ''duplicate required expected output'' [] refs)
      (\<lambda>refs_by_id.
      bindE (unique_by (\<lambda>_. Inr ()) er_expected_output_id ''duplicate expected output resolution'' [] xs) (\<lambda>by_id.
      seqE (raise_if (set (dict_keys by_id) \<noteq> set (dict_keys refs_by_id)) (ValueError ''required expected outputs are not fully resolved''))
      (bindE (recorded_expected_output_resolutions es) (\<lambda>recorded.
       checks (map (check_owner_resolution owner by_id recorded) refs_by_id))))))"

fun eligible_from ::
  "task_unit \<Rightarrow> string list \<Rightarrow> string \<Rightarrow> string list \<Rightarrow> contribution_record list \<Rightarrow> contribution_record list res" where
  "eligible_from owner decision_ids now seen [] = Inr []"
| "eligible_from owner decision_ids now seen (c # cs) =
     seqE (checks
       [raise_if (co_contribution_id c \<in> set seen) (ValueError ''duplicate expand contribution''),
        raise_if (co_kind c \<noteq> ''expand_canonical'') (ValueError ''parent completion requires expand_canonical contribution''),
        raise_if (co_task_id c \<noteq> tu_task_id owner \<or> co_unit_id c \<noteq> tu_unit_id owner) (ValueError ''expand contribution owner mismatch''),
        raise_if (co_state c \<noteq> CT_PENDING) (ValueError ''expand contribution must be Pending''),
        raise_if (co_source_decision_id c \<notin> Some ` set decision_ids) (ValueError ''expand contribution source decision mismatch'')])
     (bindE (transition_contribution c CT_ELIGIBLE now ''parent_completed'' None) (\<lambda>c'.
      bindE (eligible_from owner decision_ids now (co_contribution_id c # seen) cs) (\<lambda>cs'. Inr (c' # cs'))))"

definition eligible_parent_completion_contributions ::
  "task_unit \<Rightarrow> expected_output_ref list \<Rightarrow> contribution_record list \<Rightarrow> string \<Rightarrow> contribution_record list res" where
  "eligible_parent_completion_contributions owner refs cs now =
     (if cs = [] then Inl (ValueError ''expand contribution is required for parent completion'')
      else eligible_from owner (map eo_source_expansion_decision_id refs) now [] (sort_key co_contribution_id cs))"

definition resolved_output_set_digest :: "hash \<Rightarrow> output_resolution list \<Rightarrow> string" where
  "resolved_output_set_digest h xs =
     digest_json h (JArr (map (\<lambda>x. JObj [(''expected_output_id'', JStr (er_expected_output_id x)),
         (''output_name'', JStr (er_expected_output_name x)), (''resolved_output_digest'', JStr (er_resolved_output_digest x))])
       (sort_key er_expected_output_id xs)))"

record parent_completion_request =
  pr_owner :: task_unit
  pr_refs :: "expected_output_ref list"
  pr_resolutions :: "output_resolution list"
  pr_contributions :: "contribution_record list"
  pr_now :: string
  pr_correlation_id :: string
  pr_causation_event_id :: "string option"

definition parent_state_draft :: "task_unit \<Rightarrow> task_unit \<Rightarrow> string \<Rightarrow> string \<Rightarrow> string \<Rightarrow> string option \<Rightarrow> event_draft" where
  "parent_state_draft owner u d now cid cause =
     (let bid = parent_completion_batch_id (tu_unit_id owner) d in
      engine_draft TASK_UNIT_STATE_CHANGED ''TaskUnit'' (tu_unit_id u) (tu_task_id u) cid cause
       (''task_unit:state:'' @ tu_unit_id u @ '':Processing:Completed:parent_completion:'' @ d)
       [(''schema_version'', JStr ''phase5.parent_completion_task_unit_state_changed.v1''),
        (''old_state'', JStr (task_state_value (tu_state owner))),
        (''new_state'', JStr (task_state_value TS_COMPLETED)),
        (''task_unit_state_change'', JObj (task_unit_state_change u (tu_state owner) TS_COMPLETED
           ''required_expected_outputs_resolved'' ''parent_completion_batch'' cid cause now
           (Some [(''resolved_output_set_digest'', JStr d), (''parent_completion_batch_id'', JStr bid)]))),
        (''task_unit'', JObj (tu_to_dict u)),
        (''reason'', JStr ''required_expected_outputs_resolved''),
        (''resolved_output_set_digest'', JStr d),
        (''parent_completion_batch_id'', JStr bid),
        (''correlation_id'', JStr cid)] now)"

definition eligible_draft :: "string \<Rightarrow> string \<Rightarrow> string \<Rightarrow> string option \<Rightarrow> contribution_record \<Rightarrow> event_draft" where
  "eligible_draft d now cid cause c =
     engine_draft CONTRIBUTION_STATE_CHANGED ''ContributionRecord'' (co_contribution_id c) (co_task_id c) cid cause
       (''contribution:state:'' @ co_contribution_id c @ '':Pending:Eligible:parent_completion:'' @ d)
       [(''schema_version'', JStr ''phase5.contribution_state_changed.v1''),
        (''contribution'', JObj (co_to_dict c)),
        (''old_state'', JStr (contribution_state_value CT_PENDING)),
        (''new_state'', JStr (contribution_state_value CT_ELIGIBLE)),
        (''reason'', JStr ''parent_completed''),
        (''task_id'', JStr (co_task_id c)),
        (''unit_id'', JStr (co_unit_id c)),
        (''kind'', JStr (co_kind c)),
        (''canonical_selection_id'', JStr (co_canonical_selection_id c)),
        (''canonical_event_seq'', JInt (co_canonical_event_seq c)),
        (''source_batch_id'', JStr (co_source_batch_id c)),
        (''source_terminal_event_seq'', JInt (co_source_terminal_event_seq c)),
        (''resolved_output_set_digest'', JStr d),
        (''changed_at'', JStr (co_updated_at c))] now"

definition parent_completion_drafts ::
  "task_unit \<Rightarrow> task_unit \<Rightarrow> contribution_record list \<Rightarrow> string \<Rightarrow> string \<Rightarrow> string \<Rightarrow> string option \<Rightarrow> event_draft list" where
  "parent_completion_drafts owner u cs d now cid cause =
     parent_state_draft owner u d now cid cause # map (eligible_draft d now cid cause) cs"

record parent_completion_flow =
  pw_task_unit :: task_unit
  pw_resolved_output_set_digest :: string
  pw_contributions :: "contribution_record list"
  pw_events :: "ledger_event list"

definition record_parent_completion ::
  "hash \<Rightarrow> (nat \<Rightarrow> string) \<Rightarrow> parent_completion_request \<Rightarrow> (event_ledger, parent_completion_flow) prog" where
  "record_parent_completion h clock q =
     (let owner = pr_owner q; d = resolved_output_set_digest h (pr_resolutions q);
          bid = parent_completion_batch_id (tu_unit_id owner) d in
      bindS read_ledger_prog (\<lambda>es.
      bindS (lift_res (reject_parent_completion_conflict es (tu_unit_id owner) d)) (\<lambda>_.
      bindS (lift_res (validate_parent_completion_resolutions owner (pr_refs q) (pr_resolutions q) es)) (\<lambda>_.
      bindS (lift_res (transition_task_unit owner TS_COMPLETED ''required_expected_outputs_resolved'' ''parent_completion_batch'' (pr_now q)))
        (\<lambda>completed.
      bindS (lift_res (eligible_parent_completion_contributions owner (pr_refs q) (pr_contributions q) (pr_now q))) (\<lambda>cs.
      bindS (batch_ledger h clock (parent_completion_drafts owner completed cs d (pr_now q) (pr_correlation_id q)
          (cause_or (pr_causation_event_id q) (batch_first_id es bid))) bid) (\<lambda>events.
      lift_res (Inr \<lparr>pw_task_unit = completed, pw_resolved_output_set_digest = d, pw_contributions = cs, pw_events = events\<rparr>))))))))"

section \<open>The failure of a parent\<close>

text \<open>Equality of two snapshots of a unit.\<close>

definition same_unit :: "task_unit \<Rightarrow> task_unit \<Rightarrow> bool" where
  "same_unit a b \<longleftrightarrow> py_eq (JObj (tu_to_dict a)) (JObj (tu_to_dict b))"

definition current_snapshot :: "task_graph \<Rightarrow> task_unit \<Rightarrow> bool" where
  "current_snapshot g u \<longleftrightarrow> (case dict_get (tg_units g) (tu_unit_id u) of None \<Rightarrow> False | Some v \<Rightarrow> same_unit v u)"

definition recorded_child_event :: "ledger_event list \<Rightarrow> ledger_event \<Rightarrow> ledger_event res" where
  "recorded_child_event es given =
     (case find (\<lambda>e. ev_event_id e = ev_event_id given) es of
        None \<Rightarrow> Inl (ValueError ''recorded child failure event is required'')
      | Some e \<Rightarrow>
          if ev_event_seq e \<noteq> ev_event_seq given \<or> ev_event_hash e \<noteq> ev_event_hash given
          then Inl (ValueError ''recorded child failure event is required'') else Inr e)"

definition records_failed_child :: "task_graph \<Rightarrow> task_unit \<Rightarrow> ledger_event \<Rightarrow> bool" where
  "records_failed_child g child e \<longleftrightarrow> is_type e TASK_UNIT_STATE_CHANGED \<and> ev_task_id e = Some (tg_task_id g) \<and>
     ev_object_id e = tu_unit_id child \<and>
     (case jget (ev_payload e) ''task_unit'' of
        JObj u \<Rightarrow> jget u ''unit_id'' = JStr (tu_unit_id child) \<and> jget u ''state'' = JStr (task_state_value TS_FAILED)
      | _ \<Rightarrow> False)"

definition check_parent_failure :: "task_unit \<Rightarrow> task_unit \<Rightarrow> task_graph \<Rightarrow> ledger_event \<Rightarrow> unit res" where
  "check_parent_failure parent child g e = checks
     [raise_if (tg_task_id g \<noteq> tu_task_id parent \<or> tu_task_id child \<noteq> tg_task_id g)
        (ValueError ''parent failure units must belong to the graph task''),
      require (current_snapshot g parent) (ValueError ''parent failure requires the current parent graph snapshot''),
      require (current_snapshot g child) (ValueError ''parent failure requires the current failed child snapshot''),
      raise_if (tu_parent_unit_id child \<noteq> Some (tu_unit_id parent)) (ValueError ''failed child must be a direct child of the parent''),
      raise_if (tu_state child \<noteq> TS_FAILED) (ValueError ''parent failure requires a Failed child''),
      require (records_failed_child g child e) (ValueError ''child_failure_event must record the failed child snapshot'')]"

definition parent_failure_draft :: "task_unit \<Rightarrow> task_unit \<Rightarrow> task_unit \<Rightarrow> ledger_event \<Rightarrow> string \<Rightarrow> string \<Rightarrow> event_draft" where
  "parent_failure_draft parent failed child e now cid =
     engine_draft TASK_UNIT_STATE_CHANGED ''TaskUnit'' (tu_unit_id failed) (tu_task_id failed) cid (Some (ev_event_id e))
       (''task_unit:state:'' @ tu_unit_id failed @ '':'' @ task_state_value (tu_state parent) @ '':Failed:'' @ cid)
       [(''task_unit_state_change'', JObj (task_unit_state_change failed (tu_state parent) TS_FAILED ''terminal_child_failure''
           ''terminal_child_failure'' cid (Some (ev_event_id e)) now (Some [(''failed_child_unit_id'', JStr (tu_unit_id child))]))),
        (''task_unit'', JObj (tu_to_dict failed))] now"

record unit_flow =
  uf_task_unit :: task_unit
  uf_event :: ledger_event

definition record_parent_failure ::
  "hash \<Rightarrow> string \<Rightarrow> task_unit \<Rightarrow> task_unit \<Rightarrow> task_graph \<Rightarrow> ledger_event \<Rightarrow> string \<Rightarrow> string \<Rightarrow> (event_ledger, unit_flow) prog" where
  "record_parent_failure h clock parent child g given now cid =
     bindS read_ledger_prog (\<lambda>es.
     bindS (lift_res (recorded_child_event es given)) (\<lambda>e.
     bindS (lift_res (check_parent_failure parent child g e)) (\<lambda>_.
     bindS (lift_res (transition_task_unit parent TS_FAILED ''terminal_child_failure'' ''terminal_child_failure'' now)) (\<lambda>failed.
     bindS (append_ledger h clock (parent_failure_draft parent failed child e now cid)) (\<lambda>event.
     lift_res (Inr \<lparr>uf_task_unit = failed, uf_event = event\<rparr>))))))"

section \<open>The activation of a blocked unit\<close>

record dependency_scan =
  dn_refs :: jobj
  dn_unit_ids :: "string list"
  dn_cause :: "string option"

definition latest_binding :: "ledger_event list \<Rightarrow> string \<Rightarrow> string option" where
  "latest_binding es source_id =
     map_option ev_event_id (find (\<lambda>e. is_type e CANONICAL_OUTPUTS_BOUND \<and> ev_object_id e = source_id) (rev es))"

definition scan_relation :: "task_graph \<Rightarrow> ledger_event list \<Rightarrow> dependency_scan \<Rightarrow> task_relation \<Rightarrow> dependency_scan res" where
  "scan_relation g es acc r =
     (if tr_relation_type r \<noteq> ''depends_on_output'' then Inr acc
      else case dict_get (tg_units g) (tr_source_unit_id r) of
        None \<Rightarrow> Inl (KeyError (tr_source_unit_id r))
      | Some src \<Rightarrow>
          (case dict_get (dict_get_default (tg_canonical_outputs g) (tr_source_unit_id r) (tu_canonical_output_refs src))
               (opt_text (tr_source_output_name r)) of
             None \<Rightarrow> Inl (KeyError (opt_text (tr_source_output_name r)))
           | Some ref \<Rightarrow> Inr \<lparr>dn_refs = dict_set (opt_text (tr_target_input_name r)) (JObj (ar_to_dict ref)) (dn_refs acc),
               dn_unit_ids = dn_unit_ids acc @ [tr_source_unit_id r],
               dn_cause = (if or_empty (dn_cause acc) \<noteq> [] then dn_cause acc
                 else case latest_binding es (tr_source_unit_id r) of None \<Rightarrow> dn_cause acc | Some i \<Rightarrow> Some i)\<rparr>))"

definition dependency_ready_draft :: "task_unit \<Rightarrow> dependency_scan \<Rightarrow> string \<Rightarrow> string \<Rightarrow> event_draft" where
  "dependency_ready_draft u scan now cid =
     engine_draft TASK_UNIT_STATE_CHANGED ''TaskUnit'' (tu_unit_id u) (tu_task_id u) cid (dn_cause scan)
       (''task_unit:state:'' @ tu_unit_id u @ '':Blocked:Ready:'' @ cid)
       [(''task_unit_state_change'', JObj (task_unit_state_change u TS_BLOCKED TS_READY ''dependency_outputs_canonical''
           ''dependency_resolution'' cid (dn_cause scan) now
           (Some [(''dependency_source_unit_ids'', JArr (map JStr (dn_unit_ids scan))), (''dependency_output_refs'', JObj (dn_refs scan))]))),
        (''task_unit'', JObj (tu_to_dict u))] now"

definition record_dependency_ready ::
  "hash \<Rightarrow> string \<Rightarrow> task_unit \<Rightarrow> task_graph \<Rightarrow> string \<Rightarrow> string \<Rightarrow> (event_ledger, unit_flow) prog" where
  "record_dependency_ready h clock u g now cid =
     bindS (lift_res (checks
       [require (current_snapshot g u) (ValueError ''dependency activation requires current graph snapshot''),
        raise_if (tu_state u \<noteq> TS_BLOCKED) (ValueError ''dependency activation requires a Blocked unit''),
        require (tu_unit_id u \<in> set (activatable_unit_ids g)) (ValueError ''dependency activation requires canonical dependency outputs'')])) (\<lambda>_.
     bindS read_ledger_prog (\<lambda>es.
     bindS (lift_res (foldE (scan_relation g es) \<lparr>dn_refs = [], dn_unit_ids = [], dn_cause = None\<rparr>
       (dict_get_default (tg_in_edges g) (tu_unit_id u) []))) (\<lambda>scan.
     bindS (lift_res (transition_task_unit u TS_READY ''dependency_outputs_canonical'' ''dependency_resolution'' now)) (\<lambda>ready.
     bindS (append_ledger h clock (dependency_ready_draft ready scan now cid)) (\<lambda>event.
     lift_res (Inr \<lparr>uf_task_unit = ready, uf_event = event\<rparr>))))))"

end
