(* ===== verification/Engine_Settlement.thy ===== *)
theory Engine_Settlement
  imports Engine_Completion
begin

text \<open>
  \<open>protocol_engine.py\<close>: the settlement of a completed root. The contributions that the ledger has as Eligible are
  settled in one batch, whose marker refers to the entries on disk; a settlement that was recorded is read back
  and compared instead.
\<close>

section \<open>Settlement records as JSON\<close>

definition settlement_to_dict :: "settlement_record \<Rightarrow> jobj" where
  "settlement_to_dict r =
     [(''schema_version'', JStr (sr_schema_version r)),
      (''settlement_record_id'', JStr (sr_settlement_record_id r)),
      (''task_id'', JStr (sr_task_id r)),
      (''root_unit_id'', JStr (sr_root_unit_id r)),
      (''root_completion_event_seq'', JInt (sr_root_completion_event_seq r)),
      (''settlement_policy_id'', JStr (sr_settlement_policy_id r)),
      (''settlement_policy_version'', JStr (sr_settlement_policy_version r)),
      (''root_budget'', JInt (sr_root_budget r)),
      (''scale'', JStr (sr_scale r)),
      (''total_reward'', JInt (sr_total_reward r)),
      (''entry_count'', JInt (sr_entry_count r)),
      (''settlement_entries_digest'', JStr (sr_settlement_entries_digest r)),
      (''settlement_entries_ref'', sr_settlement_entries_ref r),
      (''settlement_summary'', sr_settlement_summary r),
      (''created_at'', JStr (sr_created_at r))]"

definition settlement_record_keys :: "string list" where
  "settlement_record_keys =
     [''schema_version'', ''settlement_record_id'', ''task_id'', ''root_unit_id'', ''root_completion_event_seq'',
      ''settlement_policy_id'', ''settlement_policy_version'', ''root_budget'', ''scale'', ''total_reward'', ''entry_count'',
      ''settlement_entries_digest'', ''settlement_entries_ref'', ''settlement_summary'', ''created_at'']"

text \<open>\<open>SettlementRecord(**record_payload)\<close>.\<close>

definition sr_from_kwargs :: "jobj \<Rightarrow> settlement_record res" where
  "sr_from_kwargs d =
     seqE (require (set (dict_keys d) \<subseteq> set settlement_record_keys) (TypeError ''unexpected keyword argument''))
     (missing_argument (
     bindE (str_item d ''settlement_record_id'') (\<lambda>settlement_record_id.
     bindE (str_item d ''task_id'') (\<lambda>task_id.
     bindE (str_item d ''root_unit_id'') (\<lambda>root_unit_id.
     bindE (int_item d ''root_completion_event_seq'') (\<lambda>root_seq.
     bindE (str_item d ''settlement_policy_id'') (\<lambda>policy_id.
     bindE (str_item d ''settlement_policy_version'') (\<lambda>policy_version.
     bindE (int_item d ''root_budget'') (\<lambda>root_budget.
     bindE (str_item d ''scale'') (\<lambda>scale.
     bindE (int_item d ''total_reward'') (\<lambda>total_reward.
     bindE (int_item d ''entry_count'') (\<lambda>entry_count.
     bindE (str_item d ''settlement_entries_digest'') (\<lambda>entries_digest.
     bindE (jitem d ''settlement_entries_ref'') (\<lambda>entries_ref.
     bindE (jitem d ''settlement_summary'') (\<lambda>summary.
     bindE (str_item d ''created_at'') (\<lambda>created_at.
     bindE (str_default d ''schema_version'' ''phase5.settlement_record.v1'') (\<lambda>schema_version.
     mk_settlement_record
       \<lparr>sr_settlement_record_id = settlement_record_id, sr_task_id = task_id, sr_root_unit_id = root_unit_id,
        sr_root_completion_event_seq = root_seq, sr_settlement_policy_id = policy_id,
        sr_settlement_policy_version = policy_version, sr_root_budget = root_budget, sr_scale = scale,
        sr_total_reward = total_reward, sr_entry_count = entry_count, sr_settlement_entries_digest = entries_digest,
        sr_settlement_entries_ref = entries_ref, sr_settlement_summary = summary, sr_created_at = created_at,
        sr_schema_version = schema_version\<rparr>)))))))))))))))))"

definition settlement_entry_keys :: "string list" where
  "settlement_entry_keys =
     [''schema_version'', ''settlement_entry_id'', ''contribution_id'', ''task_id'', ''unit_id'', ''kind'', ''source_client_id'',
      ''reward_weight'', ''reward_units'', ''rounding_remainder_rank'', ''reason'']"

text \<open>\<open>SettlementEntry(**entry)\<close>.\<close>

definition se_from_kwargs :: "jobj \<Rightarrow> settlement_entry res" where
  "se_from_kwargs d =
     seqE (require (set (dict_keys d) \<subseteq> set settlement_entry_keys) (TypeError ''unexpected keyword argument''))
     (missing_argument (
     bindE (str_item d ''settlement_entry_id'') (\<lambda>entry_id.
     bindE (str_item d ''contribution_id'') (\<lambda>contribution_id.
     bindE (str_item d ''task_id'') (\<lambda>task_id.
     bindE (str_item d ''unit_id'') (\<lambda>unit_id.
     bindE (str_item d ''kind'') (\<lambda>kind.
     bindE (str_item d ''source_client_id'') (\<lambda>client_id.
     bindE (int_item d ''reward_weight'') (\<lambda>weight.
     bindE (int_item d ''reward_units'') (\<lambda>units.
     bindE (int_item d ''rounding_remainder_rank'') (\<lambda>rank.
     bindE (str_item d ''reason'') (\<lambda>reason.
     bindE (str_default d ''schema_version'' ''phase5.settlement_entry.v1'') (\<lambda>schema_version.
     mk_settlement_entry
       \<lparr>se_settlement_entry_id = entry_id, se_contribution_id = contribution_id, se_task_id = task_id, se_unit_id = unit_id,
        se_kind = kind, se_source_client_id = client_id, se_reward_weight = weight, se_reward_units = units,
        se_rounding_remainder_rank = rank, se_reason = reason, se_schema_version = schema_version\<rparr>)))))))))))))"

section \<open>Eligible contributions\<close>

fun eligible_by_id ::
  "string \<Rightarrow> int \<Rightarrow> (string, contribution_record) dict \<Rightarrow> contribution_record list \<Rightarrow> (string, contribution_record) dict res" where
  "eligible_by_id task_id root_seq known [] = Inr known"
| "eligible_by_id task_id root_seq known (c # cs) =
     (if co_task_id c \<noteq> task_id \<or> co_state c \<noteq> CT_ELIGIBLE \<or> co_source_terminal_event_seq c > root_seq
      then eligible_by_id task_id root_seq known cs
      else if dict_get known (co_contribution_id c) \<notin> {None, Some c} then Inl (ValueError ''duplicate eligible contribution'')
      else eligible_by_id task_id root_seq (dict_set (co_contribution_id c) c known) cs)"

definition eligible_settlement_contributions :: "contribution_record list \<Rightarrow> string \<Rightarrow> int \<Rightarrow> contribution_record list res" where
  "eligible_settlement_contributions cs task_id root_seq =
     bindE (eligible_by_id task_id root_seq [] cs) (\<lambda>by_id. Inr (dict_values (sort_key fst by_id)))"

definition validate_root_completion_event :: "ledger_event list \<Rightarrow> string \<Rightarrow> string \<Rightarrow> int \<Rightarrow> ledger_event res" where
  "validate_root_completion_event es task_id root_unit_id root_seq =
     (case find (\<lambda>e. ev_event_seq e = root_seq) es of
        Some e \<Rightarrow>
          if is_type e TASK_UNIT_STATE_CHANGED \<and> ev_task_id e = Some task_id \<and> ev_object_id e = root_unit_id \<and>
             jget (ev_payload e) ''new_state'' = JStr (task_state_value TS_COMPLETED)
          then Inr e else Inl (ValueError ''root completion event missing'')
      | None \<Rightarrow> Inl (ValueError ''root completion event missing''))"

definition contribution_states_from_events :: "ledger_event list \<Rightarrow> (string, contribution_record) dict res" where
  "contribution_states_from_events es =
     foldE (\<lambda>states e. case jget (ev_payload e) ''contribution'' of
         JObj d \<Rightarrow> bindE (co_from_kwargs d) (\<lambda>c. Inr (dict_set (co_contribution_id c) c states))
       | _ \<Rightarrow> Inl (ValueError ''contribution state event missing contribution''))
     [] (filter (\<lambda>e. is_type e CONTRIBUTION_STATE_CHANGED) es)"

definition eligible_contributions_from_ledger :: "ledger_event list \<Rightarrow> string \<Rightarrow> int \<Rightarrow> contribution_record list res" where
  "eligible_contributions_from_ledger es task_id root_seq =
     bindE (contribution_states_from_events es) (\<lambda>states.
     let eligible = filter (\<lambda>c. co_task_id c = task_id \<and> co_state c = CT_ELIGIBLE \<and> co_source_terminal_event_seq c \<le> root_seq)
           (dict_values states) in
     if eligible = [] then Inl (ValueError ''settlement requires at least one eligible contribution'')
     else Inr (sort_key co_contribution_id eligible))"

section \<open>A settlement that was recorded\<close>

record settlement_flow =
  sw_record :: settlement_record
  sw_entries :: "settlement_entry list"
  sw_settled :: "contribution_record list"
  sw_events :: "ledger_event list"

definition settled_contributions_from_events :: "ledger_event list \<Rightarrow> contribution_record list res" where
  "settled_contributions_from_events es =
     mapE co_from_kwargs (keep_some (map (\<lambda>e. if is_type e CONTRIBUTION_STATE_CHANGED
       then (case jget (ev_payload e) ''contribution'' of JObj d \<Rightarrow> Some d | _ \<Rightarrow> None) else None) es))"

definition total_units :: "settlement_entry list \<Rightarrow> int" where
  "total_units entries = sum_list (map se_reward_units entries)"

definition settlement_entries_from_artifact :: "hash \<Rightarrow> artifact_store \<Rightarrow> fs \<Rightarrow> settlement_record \<Rightarrow> settlement_entry list res" where
  "settlement_entries_from_artifact h st fs r =
     (case sr_settlement_entries_ref r of
        JObj d \<Rightarrow>
          bindE (ar_from_dict d) (\<lambda>ref.
          bindE (verify_artifact h st fs ref) (\<lambda>ok.
          seqE (require ok (ValueError ''settlement entries artifact missing or corrupt''))
          (bindE (read_bytes st fs ref) (\<lambda>data.
          bindE (case loads data of
              None \<Rightarrow> Inl (ValueError ''invalid JSON'')
            | Some (JArr xs) \<Rightarrow> mapE (\<lambda>x. bindE (as_dict x) se_from_kwargs) xs
            | Some _ \<Rightarrow> Inl (ValueError ''settlement entries artifact must contain a list'')) (\<lambda>entries.
          seqE (checks
            [raise_if (digest_settlement_entries h entries \<noteq> sr_settlement_entries_digest r)
               (ValueError ''settlement entries artifact digest mismatch''),
             raise_if (int (length entries) \<noteq> sr_entry_count r) (ValueError ''settlement entries artifact entry_count mismatch''),
             raise_if (total_units entries \<noteq> sr_total_reward r) (ValueError ''settlement entries artifact reward total mismatch''),
             raise_if (sr_total_reward r \<noteq> sr_root_budget r) (ValueError ''settlement entries artifact reward total mismatch'')])
          (Inr entries))))))
      | _ \<Rightarrow> Inl (ValueError ''settlement_entries_ref must be an object''))"

definition entries_mismatch :: py_error where
  "entries_mismatch = ValueError ''settlement entries mismatch settled contribution events''"

text \<open>A settled event against the entry of its contribution.\<close>

definition check_settled_event :: "(string, settlement_entry) dict \<Rightarrow> ledger_event \<Rightarrow> string res" where
  "check_settled_event by_id e =
     (case (jget (ev_payload e) ''contribution'', jget (ev_payload e) ''settlement_entry'') of
        (JObj d, JObj entry_data) \<Rightarrow>
          bindE (co_from_kwargs d) (\<lambda>c.
          seqE (raise_if (co_state c \<noteq> CT_SETTLED) entries_mismatch)
          (case dict_get by_id (co_contribution_id c) of
             None \<Rightarrow> Inl entries_mismatch
           | Some x \<Rightarrow>
               seqE (require (py_eq (JObj entry_data) (JObj (se_to_dict x))) entries_mismatch)
               (seqE (raise_if (se_reward_weight x \<noteq> co_reward_weight c \<or> se_source_client_id x \<noteq> co_source_client_id c \<or>
                   se_task_id x \<noteq> co_task_id c \<or> se_unit_id x \<noteq> co_unit_id c \<or> se_kind x \<noteq> co_kind c) entries_mismatch)
               (Inr (co_contribution_id c)))))
      | _ \<Rightarrow> Inl entries_mismatch)"

definition validate_settlement_entries_against_events :: "settlement_record \<Rightarrow> settlement_entry list \<Rightarrow> ledger_event list \<Rightarrow> unit res" where
  "validate_settlement_entries_against_events r entries es =
     (let by_id = dict_update [] (map (\<lambda>x. (se_contribution_id x, x)) entries) in
      seqE (raise_if (length by_id \<noteq> length entries) (ValueError ''settlement entries mismatch: duplicate contribution''))
      (bindE (mapE (check_settled_event by_id) es) (\<lambda>ids.
       seqE (raise_if (set ids \<noteq> set (dict_keys by_id)) entries_mismatch)
       (raise_if (total_units entries \<noteq> sr_total_reward r) (ValueError ''settlement entries mismatch reward total'')))))"

definition settled_event :: "ledger_event \<Rightarrow> bool" where
  "settled_event e \<longleftrightarrow> is_type e CONTRIBUTION_STATE_CHANGED \<and>
     jget (ev_payload e) ''old_state'' = JStr (contribution_state_value CT_ELIGIBLE) \<and>
     jget (ev_payload e) ''new_state'' = JStr (contribution_state_value CT_SETTLED)"

definition validate_existing_settlement_batch ::
  "hash \<Rightarrow> artifact_store \<Rightarrow> fs \<Rightarrow> ledger_event list \<Rightarrow> string \<Rightarrow> string \<Rightarrow> int \<Rightarrow> settlement_flow res" where
  "validate_existing_settlement_batch h st fs batch task_id root_unit_id root_seq =
     seqE (checks
       [require (batch_numbered batch) (ValueError ''projection inconsistent: incomplete settlement_batch''),
        require (is_type (last batch) SETTLEMENT_RECORDED) (ValueError ''projection inconsistent: settlement_batch missing final marker''),
        require (list_all settled_event (butlast batch)) (ValueError ''projection inconsistent: settlement_batch settled events'')])
     (case jget (ev_payload (last batch)) ''settlement_record'' of
        JObj d \<Rightarrow>
          bindE (sr_from_kwargs d) (\<lambda>r.
          seqE (raise_if (sr_task_id r \<noteq> task_id \<or> sr_root_unit_id r \<noteq> root_unit_id \<or> sr_root_completion_event_seq r \<noteq> root_seq)
            (ValueError ''settlement conflict: root completion mismatch''))
          (seqE (require (py_eq (jget (ev_payload (last batch)) ''settlement_entries_ref'') (sr_settlement_entries_ref r))
            (ValueError ''settlement_entries_ref mismatch''))
          (bindE (settlement_entries_from_artifact h st fs r) (\<lambda>entries.
           seqE (raise_if (length entries \<noteq> length (butlast batch)) entries_mismatch)
           (seqE (validate_settlement_entries_against_events r entries (butlast batch))
           (bindE (settled_contributions_from_events (butlast batch)) (\<lambda>settled.
            Inr \<lparr>sw_record = r, sw_entries = entries, sw_settled = settled, sw_events = batch\<rparr>)))))))
      | _ \<Rightarrow> Inl (ValueError ''settlement_record payload missing''))"

definition settlement_marker :: "string \<Rightarrow> string \<Rightarrow> int \<Rightarrow> ledger_event \<Rightarrow> bool" where
  "settlement_marker task_id root_unit_id root_seq e \<longleftrightarrow> is_type e SETTLEMENT_RECORDED \<and>
     jget (ev_payload e) ''task_id'' = JStr task_id \<and> jget (ev_payload e) ''root_unit_id'' = JStr root_unit_id \<and>
     py_eq (jget (ev_payload e) ''root_completion_event_seq'') (JInt root_seq)"

text \<open>The batch of a marker, when there is one: what the settlement and the pruning have in common.\<close>

definition batch_of_marker :: "(ledger_event \<Rightarrow> bool) \<Rightarrow> string \<Rightarrow> string \<Rightarrow> string \<Rightarrow> ledger_event list \<Rightarrow> ledger_event list res" where
  "batch_of_marker marker many wrong bid es =
     (let markers = filter marker es in
      if markers = [] \<and> \<not> list_ex (\<lambda>e. ev_batch_id e = Some bid) es then Inr []
      else if length markers > 1 then Inl (ValueError many)
      else if markers \<noteq> [] \<and> ev_batch_id (hd markers) \<noteq> Some bid then Inl (ValueError wrong)
      else Inr (recorded_batch es bid))"

definition settlement_batch_id :: "string \<Rightarrow> string \<Rightarrow> int \<Rightarrow> string" where
  "settlement_batch_id task_id root_unit_id root_seq = ''settlement_batch:'' @ task_id @ '':'' @ root_unit_id @ '':'' @ show_int root_seq"

definition existing_root_settlement ::
  "hash \<Rightarrow> artifact_store \<Rightarrow> fs \<Rightarrow> ledger_event list \<Rightarrow> string \<Rightarrow> string \<Rightarrow> int \<Rightarrow> settlement_flow option res" where
  "existing_root_settlement h st fs es task_id root_unit_id root_seq =
     bindE (batch_of_marker (settlement_marker task_id root_unit_id root_seq)
       ''settlement conflict: multiple SETTLEMENT_RECORDED markers'' ''settlement conflict: unexpected settlement batch id''
       (settlement_batch_id task_id root_unit_id root_seq) es) (\<lambda>batch.
     if batch = [] then Inr None
     else bindE (validate_existing_settlement_batch h st fs batch task_id root_unit_id root_seq) (\<lambda>f. Inr (Some f)))"

section \<open>The settlement of a root\<close>

record settlement_request =
  sq_task_id :: string
  sq_root_unit_id :: string
  sq_root_seq :: int
  sq_contributions :: "contribution_record list"
  sq_root_budget :: int
  sq_policy_id :: string
  sq_now :: string
  sq_correlation_id :: string
  sq_causation_event_id :: "string option"

definition validate_existing_settlement_matches_request ::
  "hash \<Rightarrow> settlement_flow \<Rightarrow> settlement_entry list \<Rightarrow> string \<Rightarrow> int \<Rightarrow> unit res" where
  "validate_existing_settlement_matches_request h f expected policy_id budget =
     (let r = sw_record f in checks
     [raise_if (sr_settlement_policy_id r \<noteq> policy_id \<or> sr_settlement_policy_version r \<noteq> ''v1'' \<or> sr_root_budget r \<noteq> budget \<or>
         sr_scale r \<noteq> ''1'' \<or> sr_entry_count r \<noteq> int (length expected) \<or> sr_total_reward r \<noteq> total_units expected \<or>
         sr_settlement_entries_digest r \<noteq> digest_settlement_entries h expected) (ValueError ''settlement conflict''),
      raise_if (map se_to_dict (sw_entries f) \<noteq> map se_to_dict expected) (ValueError ''settlement conflict'')])"

definition settlement_summary :: "settlement_entry list \<Rightarrow> jobj" where
  "settlement_summary entries =
     (let kinds = sort (remdups (map se_kind entries)); clients = sort (remdups (map se_source_client_id entries)) in
     [(''entry_count'', JInt (int (length entries))),
      (''kind_counts'', JObj (map (\<lambda>k. (k, JInt (int (length (filter (\<lambda>x. se_kind x = k) entries))))) kinds)),
      (''client_count'', JInt (int (length clients))),
      (''client_reward_totals'', JObj (map (\<lambda>c. (c, JInt (total_units (filter (\<lambda>x. se_source_client_id x = c) entries)))) clients)),
      (''total_reward'', JInt (total_units entries))])"

definition settled_draft ::
  "settlement_record \<Rightarrow> (string, contribution_record) dict \<Rightarrow> string \<Rightarrow> string \<Rightarrow> string option \<Rightarrow> settlement_entry \<Rightarrow> event_draft res" where
  "settled_draft r by_id now cid cause x =
     (case dict_get by_id (se_contribution_id x) of
        None \<Rightarrow> Inl (ValueError ''settlement entries mismatch eligible contributions'')
      | Some c \<Rightarrow>
          bindE (transition_contribution c CT_SETTLED now ''settlement_batch'' (Some ''settlement_batch'')) (\<lambda>settled.
          Inr (engine_draft CONTRIBUTION_STATE_CHANGED ''ContributionRecord'' (co_contribution_id c) (co_task_id c) cid cause
            (''contribution:state:'' @ co_contribution_id c @ '':Eligible:Settled:'' @ sr_settlement_record_id r)
            [(''schema_version'', JStr ''phase5.contribution_state_changed.v1''),
             (''contribution'', JObj (co_to_dict settled)),
             (''old_state'', JStr (contribution_state_value CT_ELIGIBLE)),
             (''new_state'', JStr (contribution_state_value CT_SETTLED)),
             (''reason'', JStr ''settlement_batch''),
             (''task_id'', JStr (co_task_id c)),
             (''unit_id'', JStr (co_unit_id c)),
             (''kind'', JStr (co_kind c)),
             (''canonical_selection_id'', JStr (co_canonical_selection_id c)),
             (''canonical_event_seq'', JInt (co_canonical_event_seq c)),
             (''source_batch_id'', JStr (co_source_batch_id c)),
             (''source_terminal_event_seq'', JInt (co_source_terminal_event_seq c)),
             (''settlement_record_id'', JStr (sr_settlement_record_id r)),
             (''settlement_entry'', JObj (se_to_dict x)),
             (''changed_at'', JStr (co_updated_at settled))] now)))"

definition settlement_marker_draft :: "settlement_record \<Rightarrow> string \<Rightarrow> string \<Rightarrow> string option \<Rightarrow> event_draft" where
  "settlement_marker_draft r now cid cause =
     engine_draft SETTLEMENT_RECORDED ''SettlementRecord'' (sr_settlement_record_id r) (sr_task_id r) cid cause
       (''settlement:'' @ sr_task_id r @ '':'' @ sr_root_unit_id r @ '':'' @ show_int (sr_root_completion_event_seq r))
       [(''schema_version'', JStr ''phase5.settlement_recorded.v1''),
        (''settlement_record'', JObj (settlement_to_dict r)),
        (''task_id'', JStr (sr_task_id r)),
        (''root_unit_id'', JStr (sr_root_unit_id r)),
        (''root_completion_event_seq'', JInt (sr_root_completion_event_seq r)),
        (''settlement_policy_id'', JStr (sr_settlement_policy_id r)),
        (''settlement_policy_version'', JStr (sr_settlement_policy_version r)),
        (''root_budget'', JInt (sr_root_budget r)),
        (''scale'', JStr (sr_scale r)),
        (''total_reward'', JInt (sr_total_reward r)),
        (''entry_count'', JInt (sr_entry_count r)),
        (''settlement_entries_digest'', JStr (sr_settlement_entries_digest r)),
        (''settlement_entries_ref'', sr_settlement_entries_ref r),
        (''settlement_summary'', sr_settlement_summary r),
        (''created_at'', JStr (sr_created_at r))] now"

definition settlement_drafts ::
  "settlement_record \<Rightarrow> settlement_entry list \<Rightarrow> (string, contribution_record) dict \<Rightarrow> string \<Rightarrow> string \<Rightarrow> string option
    \<Rightarrow> event_draft list res" where
  "settlement_drafts r entries by_id now cid cause =
     bindE (mapE (settled_draft r by_id now cid cause) entries) (\<lambda>ds. Inr (ds @ [settlement_marker_draft r now cid cause]))"

definition entries_artifact_id :: "(nat \<Rightarrow> bool) \<Rightarrow> settlement_request \<Rightarrow> string" where
  "entries_artifact_id alnum q =
     ''settlement_entries_'' @ engine_id_component alnum (sq_task_id q) @ ''_'' @ engine_id_component alnum (sq_root_unit_id q) @
     ''_'' @ show_int (sq_root_seq q)"

definition entries_args :: "settlement_request \<Rightarrow> artifact_args" where
  "entries_args q = engine_args ''SettlementEntrySet'' ''phase5.settlement_entries''
     [(''task_id'', JStr (sq_task_id q)), (''root_unit_id'', JStr (sq_root_unit_id q)),
      (''root_completion_event_seq'', JInt (sq_root_seq q))] (sq_now q)"

definition save_entries ::
  "hash \<Rightarrow> (nat \<Rightarrow> bool) \<Rightarrow> artifact_store \<Rightarrow> string \<Rightarrow> settlement_request \<Rightarrow> settlement_entry list \<Rightarrow> (disk_ledger, artifact_ref) prog" where
  "save_entries h alnum st nonce q entries = (\<lambda>(fs, L).
     case save_json h st fs (JArr (map (JObj \<circ> se_to_dict) entries)) (entries_artifact_id alnum q) (entries_args q) nonce of
       Inl e \<Rightarrow> ((fs, L), Inl e) | Inr (fs', ref) \<Rightarrow> ((fs', L), Inr ref))"

definition settlement_record_of :: "hash \<Rightarrow> settlement_request \<Rightarrow> settlement_entry list \<Rightarrow> artifact_ref \<Rightarrow> settlement_record res" where
  "settlement_record_of h q entries ref =
     mk_settlement_record
       \<lparr>sr_settlement_record_id = ''settlement:'' @ sq_task_id q @ '':'' @ sq_root_unit_id q @ '':'' @ show_int (sq_root_seq q),
        sr_task_id = sq_task_id q, sr_root_unit_id = sq_root_unit_id q, sr_root_completion_event_seq = sq_root_seq q,
        sr_settlement_policy_id = sq_policy_id q, sr_settlement_policy_version = ''v1'', sr_root_budget = sq_root_budget q,
        sr_scale = ''1'', sr_total_reward = total_units entries, sr_entry_count = int (length entries),
        sr_settlement_entries_digest = digest_settlement_entries h entries,
        sr_settlement_entries_ref = JObj (ar_to_dict ref), sr_settlement_summary = JObj (settlement_summary entries),
        sr_created_at = sq_now q, sr_schema_version = ''phase5.settlement_record.v1''\<rparr>"

definition entries_for :: "settlement_request \<Rightarrow> contribution_record list \<Rightarrow> settlement_entry list res" where
  "entries_for q cs = build_settlement_entries (sq_task_id q) (sq_root_unit_id q) (sq_root_seq q) cs (sq_root_budget q)"

text \<open>The contributions to settle: those of the ledger, when the caller knows exactly them.\<close>

definition contributions_to_settle :: "ledger_event list \<Rightarrow> settlement_request \<Rightarrow> contribution_record list \<Rightarrow> contribution_record list res" where
  "contributions_to_settle es q supplied =
     bindE (validate_root_completion_event es (sq_task_id q) (sq_root_unit_id q) (sq_root_seq q)) (\<lambda>_.
     bindE (eligible_contributions_from_ledger es (sq_task_id q) (sq_root_seq q)) (\<lambda>recorded.
     let ids = co_contribution_id ` set recorded; supplied_ids = co_contribution_id ` set supplied in
     seqE (require (ids \<subseteq> supplied_ids) (ValueError ''partial settlement: must settle all eligible contributions''))
     (seqE (raise_if (supplied_ids \<noteq> ids) (ValueError ''eligible contribution set mismatch'')) (Inr recorded))))"

definition settle_root ::
  "hash \<Rightarrow> (nat \<Rightarrow> bool) \<Rightarrow> artifact_store \<Rightarrow> (nat \<Rightarrow> string) \<Rightarrow> string \<Rightarrow> settlement_request \<Rightarrow> contribution_record list
    \<Rightarrow> (disk_ledger, settlement_flow) prog" where
  "settle_root h alnum st clock nonce q recorded =
     bindS (lift_res (entries_for q recorded)) (\<lambda>entries.
     bindS (save_entries h alnum st nonce q entries) (\<lambda>ref.
     bindS (lift_res (settlement_record_of h q entries ref)) (\<lambda>r.
     bindS (lift_res (settlement_drafts r entries (dict_update [] (map (\<lambda>c. (co_contribution_id c, c)) recorded)) (sq_now q)
       (sq_correlation_id q) (sq_causation_event_id q))) (\<lambda>ds.
     bindS (batch_prog h clock ds (settlement_batch_id (sq_task_id q) (sq_root_unit_id q) (sq_root_seq q))) (\<lambda>events.
     bindS (lift_res (settled_contributions_from_events events)) (\<lambda>settled.
     lift_res (Inr \<lparr>sw_record = r, sw_entries = entries, sw_settled = settled, sw_events = events\<rparr>)))))))"

definition record_root_settlement ::
  "hash \<Rightarrow> (nat \<Rightarrow> bool) \<Rightarrow> artifact_store option \<Rightarrow> (nat \<Rightarrow> string) \<Rightarrow> string \<Rightarrow> settlement_request \<Rightarrow> (disk_ledger, settlement_flow) prog" where
  "record_root_settlement h alnum store clock nonce q =
     bindS (lift_res (require_store store)) (\<lambda>st.
     bindS read_prog (\<lambda>es.
     bindS (lift_res (eligible_settlement_contributions (sq_contributions q) (sq_task_id q) (sq_root_seq q))) (\<lambda>supplied.
     bindS read_disk (\<lambda>fs.
     bindS (lift_res (existing_root_settlement h st fs es (sq_task_id q) (sq_root_unit_id q) (sq_root_seq q))) (\<lambda>existing.
     case existing of
       Some f \<Rightarrow>
         bindS (lift_res (entries_for q supplied)) (\<lambda>expected.
         bindS (lift_res (validate_existing_settlement_matches_request h f expected (sq_policy_id q) (sq_root_budget q))) (\<lambda>_.
         lift_res (Inr f)))
     | None \<Rightarrow>
         bindS (lift_res (contributions_to_settle es q supplied)) (settle_root h alnum st clock nonce q))))))"

end
