(* ===== verification/Engine_Pruning.thy ===== *)
theory Engine_Pruning
  imports Engine_Settlement
begin

text \<open>
  \<open>protocol_engine.py\<close>: the pruning of the subtree of a completed parent. Units below it that are not finished, have no
  canonical outputs and no settled contribution are cancelled in one batch, under a merge policy that a recorded merge
  plan and the frozen descriptor of its plugin name.
\<close>

section \<open>Prune records as JSON\<close>

definition sp_to_dict :: "subtree_prune_record \<Rightarrow> jobj" where
  "sp_to_dict r =
     [(''schema_version'', JStr (sp_schema_version r)),
      (''subtree_prune_id'', JStr (sp_subtree_prune_id r)),
      (''task_id'', JStr (sp_task_id r)),
      (''parent_unit_id'', JStr (sp_parent_unit_id r)),
      (''parent_completed_event_seq'', JInt (sp_parent_completed_event_seq r)),
      (''pruning_policy_id'', JStr (sp_pruning_policy_id r)),
      (''pruning_policy_version'', JStr (sp_pruning_policy_version r)),
      (''pruning_policy_plugin_id'', JStr (sp_pruning_policy_plugin_id r)),
      (''pruning_policy_descriptor_digest'', JStr (sp_pruning_policy_descriptor_digest r)),
      (''policy_source_type'', JStr (sp_policy_source_type r)),
      (''policy_source_id'', JStr (sp_policy_source_id r)),
      (''policy_source_event_seq'', JInt (sp_policy_source_event_seq r)),
      (''cancelled_unit_count'', JInt (sp_cancelled_unit_count r)),
      (''cancelled_unit_ids_digest'', JStr (sp_cancelled_unit_ids_digest r)),
      (''preserved_completed_unit_count'', JInt (sp_preserved_completed_unit_count r)),
      (''reason'', JStr (sp_reason r)),
      (''created_at'', JStr (sp_created_at r))]"

definition prune_record_keys :: "string list" where
  "prune_record_keys =
     [''schema_version'', ''subtree_prune_id'', ''task_id'', ''parent_unit_id'', ''parent_completed_event_seq'', ''pruning_policy_id'',
      ''pruning_policy_version'', ''pruning_policy_plugin_id'', ''pruning_policy_descriptor_digest'', ''policy_source_type'',
      ''policy_source_id'', ''policy_source_event_seq'', ''cancelled_unit_count'', ''cancelled_unit_ids_digest'',
      ''preserved_completed_unit_count'', ''reason'', ''created_at'']"

text \<open>\<open>SubtreePruneRecord(**record_payload)\<close>.\<close>

definition sp_from_kwargs :: "jobj \<Rightarrow> subtree_prune_record res" where
  "sp_from_kwargs d =
     seqE (require (set (dict_keys d) \<subseteq> set prune_record_keys) (TypeError ''unexpected keyword argument''))
     (missing_argument (
     bindE (str_item d ''subtree_prune_id'') (\<lambda>prune_id.
     bindE (str_item d ''task_id'') (\<lambda>task_id.
     bindE (str_item d ''parent_unit_id'') (\<lambda>parent_unit_id.
     bindE (int_item d ''parent_completed_event_seq'') (\<lambda>completed_seq.
     bindE (str_item d ''pruning_policy_id'') (\<lambda>policy_id.
     bindE (str_item d ''pruning_policy_version'') (\<lambda>policy_version.
     bindE (str_item d ''pruning_policy_plugin_id'') (\<lambda>plugin_id.
     bindE (str_item d ''pruning_policy_descriptor_digest'') (\<lambda>descriptor_digest.
     bindE (str_item d ''policy_source_type'') (\<lambda>source_type.
     bindE (str_item d ''policy_source_id'') (\<lambda>source_id.
     bindE (int_item d ''policy_source_event_seq'') (\<lambda>source_seq.
     bindE (int_item d ''cancelled_unit_count'') (\<lambda>cancelled_count.
     bindE (str_item d ''cancelled_unit_ids_digest'') (\<lambda>cancelled_digest.
     bindE (int_item d ''preserved_completed_unit_count'') (\<lambda>preserved.
     bindE (str_item d ''reason'') (\<lambda>reason.
     bindE (str_item d ''created_at'') (\<lambda>created_at.
     bindE (str_default d ''schema_version'' ''phase5.subtree_prune_record.v1'') (\<lambda>schema_version.
     mk_subtree_prune_record
       \<lparr>sp_subtree_prune_id = prune_id, sp_task_id = task_id, sp_parent_unit_id = parent_unit_id,
        sp_parent_completed_event_seq = completed_seq, sp_pruning_policy_id = policy_id, sp_pruning_policy_version = policy_version,
        sp_pruning_policy_plugin_id = plugin_id, sp_pruning_policy_descriptor_digest = descriptor_digest,
        sp_policy_source_type = source_type, sp_policy_source_id = source_id, sp_policy_source_event_seq = source_seq,
        sp_cancelled_unit_count = cancelled_count, sp_cancelled_unit_ids_digest = cancelled_digest,
        sp_preserved_completed_unit_count = preserved, sp_reason = reason, sp_created_at = created_at,
        sp_schema_version = schema_version\<rparr>)))))))))))))))))))"

section \<open>The policy\<close>

definition validate_parent_completed_event :: "ledger_event list \<Rightarrow> string \<Rightarrow> int \<Rightarrow> ledger_event res" where
  "validate_parent_completed_event es parent_unit_id seq =
     (case find (\<lambda>e. ev_event_seq e = seq) es of
        Some e \<Rightarrow>
          if is_type e TASK_UNIT_STATE_CHANGED \<and> ev_object_id e = parent_unit_id \<and>
             jget (ev_payload e) ''new_state'' = JStr (task_state_value TS_COMPLETED)
          then Inr e else Inl (ValueError ''parent completion event missing'')
      | None \<Rightarrow> Inl (ValueError ''parent completion event missing''))"

definition pruning_fields :: "string list" where
  "pruning_fields =
     [''pruning_policy_id'', ''pruning_policy_version'', ''pruning_policy_plugin_id'', ''pruning_policy_plugin_version'',
      ''pruning_policy_descriptor_digest'', ''policy_source_type'', ''policy_source_id'', ''policy_source_event_seq'']"

definition descriptor_declares_merge_policy :: "jobj \<Rightarrow> string \<Rightarrow> bool" where
  "descriptor_declares_merge_policy descriptor policy_id \<longleftrightarrow>
     jget descriptor ''merge_policy_id'' = JStr policy_id \<or>
     (case dict_get_default descriptor ''split_strategies'' (JObj []) of
        JObj d \<Rightarrow> list_ex (\<lambda>s. case s of JObj strategy \<Rightarrow> jget strategy ''merge_policy_id'' = JStr policy_id | _ \<Rightarrow> False) (dict_values d)
      | _ \<Rightarrow> False)"

definition event_at_seq :: "ledger_event list \<Rightarrow> int \<Rightarrow> ledger_event option" where
  "event_at_seq es seq = find (\<lambda>e. ev_event_seq e = seq) es"

definition source_mismatch :: py_error where
  "source_mismatch = ValueError ''policy source event mismatch''"

definition validate_merge_plan_policy_source ::
  "hash \<Rightarrow> artifact_store \<Rightarrow> fs \<Rightarrow> ledger_event \<Rightarrow> jobj \<Rightarrow> string \<Rightarrow> string \<Rightarrow> unit res" where
  "validate_merge_plan_policy_source h st fs e p task_id parent_unit_id =
     seqE (require (is_type e MERGE_PLAN_RECORDED \<and> ev_task_id e = Some task_id \<and> JStr (ev_object_id e) = jget p ''policy_source_id'' \<and>
         py_eq (jget (ev_payload e) ''merge_plan_id'') (jget p ''policy_source_id'') \<and>
         jget (ev_payload e) ''parent_unit_id'' = JStr parent_unit_id \<and>
         py_eq (jget (ev_payload e) ''merge_policy_id'') (jget p ''pruning_policy_id'') \<and>
         py_eq (jget (ev_payload e) ''merge_policy_version'') (jget p ''pruning_policy_version'')) source_mismatch)
     (case jget (ev_payload e) ''merge_plan_ref'' of
        JObj d \<Rightarrow>
          bindE (ar_from_dict d) (\<lambda>ref.
          bindE (verify_artifact h st fs ref) (\<lambda>ok.
          seqE (require ok source_mismatch)
          (bindE (read_bytes st fs ref) (\<lambda>data.
          bindE (parse_merge_plan data) (\<lambda>m.
          let policy = mp_merge_policy_ref m in
          seqE (raise_if (JStr (digest_merge_plan_body h m) \<noteq> jget (ev_payload e) ''merge_plan_digest'') source_mismatch)
          (require (list_all (\<lambda>(k, k'). py_eq (jget policy k) (jget p k'))
             [(''plugin_id'', ''pruning_policy_plugin_id''), (''plugin_version'', ''pruning_policy_plugin_version''),
              (''merge_policy_id'', ''pruning_policy_id''), (''merge_policy_version'', ''pruning_policy_version''),
              (''merge_policy_descriptor_digest'', ''pruning_policy_descriptor_digest'')]) source_mismatch))))))
      | _ \<Rightarrow> Inl source_mismatch)"

text \<open>\<open>isinstance(seq, int) and seq > 0\<close>; a \<open>bool\<close> is an \<open>int\<close>.\<close>

fun positive_seq :: "json \<Rightarrow> int option" where
  "positive_seq (JInt i) = (if i > 0 then Some i else None)"
| "positive_seq (JBool b) = (if b then Some 1 else None)"
| "positive_seq _ = None"

text \<open>\<open>except ValueError as error: raise ValueError(...)\<close>.\<close>

fun provenance_error :: "'a res \<Rightarrow> 'a res" where
  "provenance_error (Inl (ValueError e)) = Inl (ValueError ''pruning policy descriptor provenance invalid'')"
| "provenance_error r = r"

definition validated_pruning_policy_ref ::
  "hash \<Rightarrow> artifact_store \<Rightarrow> fs \<Rightarrow> jobj \<Rightarrow> ledger_event list \<Rightarrow> string \<Rightarrow> string \<Rightarrow> jobj res" where
  "validated_pruning_policy_ref h st fs p es task_id parent_unit_id =
     seqE (require (list_all (\<lambda>f. truthy (jget p f)) pruning_fields) (ValueError ''pruning policy descriptor provenance missing''))
     (case positive_seq (jget p ''policy_source_event_seq'') of
        None \<Rightarrow> Inl source_mismatch
      | Some seq \<Rightarrow>
          bindE (provenance_error (load_frozen_plugin_descriptor h st fs es (status_text (jget p ''pruning_policy_plugin_id''))
            (status_text (jget p ''pruning_policy_plugin_version'')) (status_text (jget p ''pruning_policy_descriptor_digest'')))) (\<lambda>descriptor.
          seqE (require (descriptor_declares_merge_policy descriptor (status_text (jget p ''pruning_policy_id'')))
            (ValueError ''pruning policy is not declared by plugin descriptor''))
          (case event_at_seq es seq of
             None \<Rightarrow> Inl source_mismatch
           | Some e \<Rightarrow>
               seqE (raise_if (jget p ''policy_source_type'' \<noteq> JStr ''merge_plan'') source_mismatch)
               (seqE (validate_merge_plan_policy_source h st fs e p task_id parent_unit_id) (Inr p)))))"

section \<open>The candidates\<close>

fun unique_units :: "(string, task_unit) dict \<Rightarrow> task_unit list \<Rightarrow> (string, task_unit) dict res" where
  "unique_units known [] = Inr known"
| "unique_units known (u # us) =
     (case dict_get known (tu_unit_id u) of
        Some old \<Rightarrow> if same_unit old u then unique_units (dict_set (tu_unit_id u) u known) us
          else Inl (ValueError (''conflicting candidate descendant unit: '' @ tu_unit_id u))
      | None \<Rightarrow> unique_units (dict_set (tu_unit_id u) u known) us)"

text \<open>
  \<open>_is_descendant_unit\<close>: the walk up the parents. Every step takes a new unit of the dictionary, so the walk ends.
\<close>

function climbs :: "(string, task_unit) dict \<Rightarrow> string \<Rightarrow> string list \<Rightarrow> string option \<Rightarrow> bool" where
  "climbs units ancestor seen current =
     (case current of
        None \<Rightarrow> False
      | Some i \<Rightarrow>
          if i = [] then False
          else if i = ancestor then True
          else if i \<in> set seen then False
          else case dict_get units i of None \<Rightarrow> False | Some u \<Rightarrow> climbs units ancestor (i # seen) (tu_parent_unit_id u))"
  by pat_completeness auto

lemma climb_measure:
  assumes "i \<notin> set seen" "dict_get units i = Some u"
  shows "card (fst ` set units - insert i (set seen)) < card (fst ` set units - set seen)"
proof (rule psubset_card_mono)
  have "i \<in> fst ` set units" using dict_get_mem[OF assms(2)] by force
  then show "fst ` set units - insert i (set seen) \<subset> fst ` set units - set seen" using assms(1) by blast
qed simp

termination climbs
  by (relation "measure (\<lambda>(units, ancestor, seen, current). card (fst ` set units - set seen))") (auto intro: climb_measure)

definition is_descendant_unit :: "task_unit \<Rightarrow> string \<Rightarrow> (string, task_unit) dict \<Rightarrow> bool" where
  "is_descendant_unit u parent_unit_id units = climbs units parent_unit_id [] (tu_parent_unit_id u)"

definition canonical_unit_ids_from_events :: "ledger_event list \<Rightarrow> string list" where
  "canonical_unit_ids_from_events es =
     keep_some (map (\<lambda>e. if is_type e CANONICAL_OUTPUTS_BOUND
       then (case jget (ev_payload e) ''unit_id'' of JStr i \<Rightarrow> if i = [] then None else Some i | _ \<Rightarrow> None) else None) es)"

definition settled_unit_of :: "ledger_event \<Rightarrow> string option res" where
  "settled_unit_of e =
     (if \<not> is_type e CONTRIBUTION_STATE_CHANGED then Inr None
      else case jget (ev_payload e) ''contribution'' of
        JObj d \<Rightarrow> (case co_from_kwargs d of
            Inr c \<Rightarrow> Inr (if co_state c = CT_SETTLED then Some (co_unit_id c) else None)
          | Inl (ValueError _) \<Rightarrow> Inr None
          | Inl err \<Rightarrow> Inl err)
      | _ \<Rightarrow> Inr None)"

definition settlement_evidence_unit_ids :: "ledger_event list \<Rightarrow> string list res" where
  "settlement_evidence_unit_ids es = bindE (mapE settled_unit_of es) (\<lambda>ids. Inr (keep_some ids))"

definition prunable :: "task_unit \<Rightarrow> string list \<Rightarrow> string list \<Rightarrow> bool" where
  "prunable u canonical_ids settled_ids \<longleftrightarrow> tu_state u \<in> {TS_READY, TS_PROCESSING, TS_BLOCKED} \<and>
     \<not> (tu_state u = TS_COMPLETED \<or> tu_canonical_output_refs u \<noteq> [] \<or> tu_unit_id u \<in> set canonical_ids \<or> tu_unit_id u \<in> set settled_ids)"

definition subtree_pruning_candidates :: "string \<Rightarrow> string \<Rightarrow> task_unit list \<Rightarrow> ledger_event list \<Rightarrow> (task_unit list \<times> int) res" where
  "subtree_pruning_candidates parent_unit_id task_id units es =
     bindE (unique_units [] units) (\<lambda>by_id.
     bindE (settlement_evidence_unit_ids es) (\<lambda>settled_ids.
     let below = filter (\<lambda>u. tu_task_id u = task_id \<and> is_descendant_unit u parent_unit_id by_id)
           (sort_key tu_unit_id (dict_values by_id));
         cancellable = filter (\<lambda>u. prunable u (canonical_unit_ids_from_events es) settled_ids) below in
     Inr (cancellable, int (length below) - int (length cancellable))))"

section \<open>The pruning of a subtree\<close>

record pruning_request =
  pq_parent_unit_id :: string
  pq_completed_seq :: int
  pq_candidates :: "task_unit list"
  pq_policy_ref :: jobj
  pq_now :: string
  pq_correlation_id :: string
  pq_causation_event_id :: "string option"

definition cancelled_unit_ids_digest :: "hash \<Rightarrow> string list \<Rightarrow> string" where
  "cancelled_unit_ids_digest h ids = digest_json h (JArr (map JStr (sort ids)))"

definition subtree_prune_record_of ::
  "hash \<Rightarrow> pruning_request \<Rightarrow> ledger_event \<Rightarrow> jobj \<Rightarrow> task_unit list \<Rightarrow> int \<Rightarrow> subtree_prune_record res" where
  "subtree_prune_record_of h q e p units preserved =
     bindE (py_int (jget p ''policy_source_event_seq'')) (\<lambda>source_seq.
     mk_subtree_prune_record
       \<lparr>sp_subtree_prune_id = ''subtree_pruned:'' @ pq_parent_unit_id q @ '':'' @ show_int (pq_completed_seq q),
        sp_task_id = or_empty (ev_task_id e), sp_parent_unit_id = pq_parent_unit_id q,
        sp_parent_completed_event_seq = pq_completed_seq q, sp_pruning_policy_id = status_text (jget p ''pruning_policy_id''),
        sp_pruning_policy_version = status_text (jget p ''pruning_policy_version''),
        sp_pruning_policy_plugin_id = status_text (jget p ''pruning_policy_plugin_id''),
        sp_pruning_policy_descriptor_digest = status_text (jget p ''pruning_policy_descriptor_digest''),
        sp_policy_source_type = status_text (jget p ''policy_source_type''), sp_policy_source_id = status_text (jget p ''policy_source_id''),
        sp_policy_source_event_seq = source_seq, sp_cancelled_unit_count = int (length units),
        sp_cancelled_unit_ids_digest = cancelled_unit_ids_digest h (map tu_unit_id units),
        sp_preserved_completed_unit_count = preserved, sp_reason = ''parent_completed_post_completion_pruning'',
        sp_created_at = pq_now q, sp_schema_version = ''phase5.subtree_prune_record.v1''\<rparr>)"

record pruning_flow =
  pz_record :: "subtree_prune_record option"
  pz_cancelled_units :: "string list"
  pz_preserved_count :: int
  pz_events :: "ledger_event list"

definition cancellation_event :: "ledger_event \<Rightarrow> bool" where
  "cancellation_event e \<longleftrightarrow> is_type e TASK_UNIT_STATE_CHANGED \<and>
     jget (ev_payload e) ''old_state'' \<in> JStr ` task_state_value ` {TS_READY, TS_PROCESSING, TS_BLOCKED} \<and>
     jget (ev_payload e) ''new_state'' = JStr (task_state_value TS_CANCELLED)"

definition validate_existing_subtree_pruning_batch :: "hash \<Rightarrow> ledger_event list \<Rightarrow> string \<Rightarrow> int \<Rightarrow> pruning_flow res" where
  "validate_existing_subtree_pruning_batch h batch parent_unit_id seq =
     seqE (checks
       [require (batch_numbered batch) (ValueError ''projection inconsistent: incomplete subtree_pruning_batch''),
        require (is_type (last batch) SUBTREE_PRUNED) (ValueError ''projection inconsistent: subtree_pruning_batch missing final marker''),
        require (list_all cancellation_event (butlast batch)) (ValueError ''projection inconsistent: subtree_pruning_batch cancellations'')])
     (case jget (ev_payload (last batch)) ''subtree_prune_record'' of
        JObj d \<Rightarrow>
          bindE (sp_from_kwargs d) (\<lambda>r.
          let ids = map ev_object_id (butlast batch) in
          seqE (raise_if (sp_parent_unit_id r \<noteq> parent_unit_id \<or> sp_parent_completed_event_seq r \<noteq> seq \<or>
              sp_cancelled_unit_count r \<noteq> int (length ids) \<or> sp_cancelled_unit_ids_digest r \<noteq> cancelled_unit_ids_digest h ids \<or>
              jget (ev_payload (last batch)) ''cancelled_unit_ids_digest'' \<noteq> JStr (sp_cancelled_unit_ids_digest r))
            (ValueError ''projection inconsistent: subtree_pruning_batch marker mismatch''))
          (Inr \<lparr>pz_record = Some r, pz_cancelled_units = ids, pz_preserved_count = sp_preserved_completed_unit_count r,
            pz_events = batch\<rparr>))
      | _ \<Rightarrow> Inl (ValueError ''subtree_prune_record payload missing''))"

definition pruning_batch_id :: "string \<Rightarrow> int \<Rightarrow> string" where
  "pruning_batch_id parent_unit_id seq = ''subtree_pruning_batch:'' @ parent_unit_id @ '':'' @ show_int seq"

definition pruning_marker :: "string \<Rightarrow> int \<Rightarrow> ledger_event \<Rightarrow> bool" where
  "pruning_marker parent_unit_id seq e \<longleftrightarrow> is_type e SUBTREE_PRUNED \<and>
     jget (ev_payload e) ''parent_unit_id'' = JStr parent_unit_id \<and>
     py_eq (jget (ev_payload e) ''parent_completed_event_seq'') (JInt seq)"

definition existing_subtree_pruning :: "hash \<Rightarrow> ledger_event list \<Rightarrow> string \<Rightarrow> int \<Rightarrow> pruning_flow option res" where
  "existing_subtree_pruning h es parent_unit_id seq =
     bindE (batch_of_marker (pruning_marker parent_unit_id seq)
       ''subtree pruning conflict: multiple SUBTREE_PRUNED markers'' ''subtree pruning conflict: unexpected pruning batch id''
       (pruning_batch_id parent_unit_id seq) es) (\<lambda>batch.
     if batch = [] then Inr None
     else bindE (validate_existing_subtree_pruning_batch h batch parent_unit_id seq) (\<lambda>f. Inr (Some f)))"

definition cancelled_draft :: "subtree_prune_record \<Rightarrow> string \<Rightarrow> string \<Rightarrow> string option \<Rightarrow> task_unit \<Rightarrow> event_draft res" where
  "cancelled_draft r now cid cause u =
     bindE (transition_task_unit u TS_CANCELLED ''parent_completed_post_completion_pruning'' ''subtree_pruning_batch'' now) (\<lambda>cancelled.
     Inr (engine_draft TASK_UNIT_STATE_CHANGED ''TaskUnit'' (tu_unit_id u) (tu_task_id u) cid cause
       (''task_unit:state:'' @ tu_unit_id u @ '':'' @ task_state_value (tu_state u) @ '':Cancelled:subtree_pruning:'' @
         show_int (sp_parent_completed_event_seq r))
       [(''schema_version'', JStr ''phase5.subtree_pruning_task_unit_state_changed.v1''),
        (''old_state'', JStr (task_state_value (tu_state u))),
        (''new_state'', JStr (task_state_value TS_CANCELLED)),
        (''task_unit_state_change'', JObj (task_unit_state_change cancelled (tu_state u) TS_CANCELLED
           ''parent_completed_post_completion_pruning'' ''subtree_pruning_batch'' cid cause now
           (Some [(''subtree_prune_id'', JStr (sp_subtree_prune_id r)), (''parent_unit_id'', JStr (sp_parent_unit_id r)),
                  (''parent_completed_event_seq'', JInt (sp_parent_completed_event_seq r))]))),
        (''task_unit'', JObj (tu_to_dict cancelled)),
        (''subtree_prune_id'', JStr (sp_subtree_prune_id r)),
        (''parent_unit_id'', JStr (sp_parent_unit_id r)),
        (''parent_completed_event_seq'', JInt (sp_parent_completed_event_seq r)),
        (''reason'', JStr ''parent_completed_post_completion_pruning''),
        (''correlation_id'', JStr cid)] now))"

definition pruned_draft :: "subtree_prune_record \<Rightarrow> task_unit list \<Rightarrow> string \<Rightarrow> string \<Rightarrow> string option \<Rightarrow> event_draft" where
  "pruned_draft r units now cid cause =
     engine_draft SUBTREE_PRUNED ''SubtreePruneRecord'' (sp_subtree_prune_id r) (sp_task_id r) cid cause
       (''subtree_pruned:'' @ sp_parent_unit_id r @ '':'' @ show_int (sp_parent_completed_event_seq r))
       [(''schema_version'', JStr ''phase5.subtree_pruned.v1''),
        (''subtree_prune_record'', JObj (sp_to_dict r)),
        (''task_id'', JStr (sp_task_id r)),
        (''parent_unit_id'', JStr (sp_parent_unit_id r)),
        (''parent_completed_event_seq'', JInt (sp_parent_completed_event_seq r)),
        (''pruning_policy_id'', JStr (sp_pruning_policy_id r)),
        (''pruning_policy_version'', JStr (sp_pruning_policy_version r)),
        (''pruning_policy_plugin_id'', JStr (sp_pruning_policy_plugin_id r)),
        (''pruning_policy_descriptor_digest'', JStr (sp_pruning_policy_descriptor_digest r)),
        (''policy_source_type'', JStr (sp_policy_source_type r)),
        (''policy_source_id'', JStr (sp_policy_source_id r)),
        (''policy_source_event_seq'', JInt (sp_policy_source_event_seq r)),
        (''cancelled_unit_count'', JInt (sp_cancelled_unit_count r)),
        (''cancelled_unit_ids'', JArr (map (JStr \<circ> tu_unit_id) units)),
        (''cancelled_unit_ids_digest'', JStr (sp_cancelled_unit_ids_digest r)),
        (''preserved_completed_unit_count'', JInt (sp_preserved_completed_unit_count r)),
        (''reason'', JStr (sp_reason r)),
        (''created_at'', JStr (sp_created_at r))] now"

definition subtree_pruning_drafts :: "subtree_prune_record \<Rightarrow> task_unit list \<Rightarrow> string \<Rightarrow> string \<Rightarrow> string option \<Rightarrow> event_draft list res" where
  "subtree_pruning_drafts r units now cid cause =
     bindE (mapE (cancelled_draft r now cid cause) units) (\<lambda>ds. Inr (ds @ [pruned_draft r units now cid cause]))"

definition validate_existing_subtree_pruning_matches_request :: "pruning_flow \<Rightarrow> subtree_prune_record \<Rightarrow> string list \<Rightarrow> unit res" where
  "validate_existing_subtree_pruning_matches_request f expected ids = checks
     [raise_if (pz_record f \<noteq> Some expected) (ValueError ''subtree pruning conflict''),
      raise_if (pz_cancelled_units f \<noteq> ids) (ValueError ''subtree pruning conflict'')]"

definition record_subtree_pruning ::
  "hash \<Rightarrow> artifact_store option \<Rightarrow> (nat \<Rightarrow> string) \<Rightarrow> pruning_request \<Rightarrow> (disk_ledger, pruning_flow) prog" where
  "record_subtree_pruning h store clock q =
     bindS (lift_res (require_store store)) (\<lambda>st.
     bindS read_prog (\<lambda>es.
     bindS (lift_res (validate_parent_completed_event es (pq_parent_unit_id q) (pq_completed_seq q))) (\<lambda>e.
     bindS read_disk (\<lambda>fs.
     bindS (lift_res (validated_pruning_policy_ref h st fs (pq_policy_ref q) es (or_empty (ev_task_id e)) (pq_parent_unit_id q))) (\<lambda>p.
     bindS (lift_res (subtree_pruning_candidates (pq_parent_unit_id q) (or_empty (ev_task_id e)) (pq_candidates q) es)) (\<lambda>(units, preserved).
     bindS (lift_res (subtree_prune_record_of h q e p units preserved)) (\<lambda>r.
     bindS (lift_res (existing_subtree_pruning h es (pq_parent_unit_id q) (pq_completed_seq q))) (\<lambda>existing.
     case existing of
       Some f \<Rightarrow>
         bindS (lift_res (validate_existing_subtree_pruning_matches_request f r (map tu_unit_id units))) (\<lambda>_. lift_res (Inr f))
     | None \<Rightarrow>
         if units = [] then lift_res (Inr \<lparr>pz_record = None, pz_cancelled_units = [], pz_preserved_count = preserved, pz_events = []\<rparr>)
         else
           bindS (lift_res (subtree_pruning_drafts r units (pq_now q) (pq_correlation_id q)
             (cause_or (pq_causation_event_id q) (ev_event_id e)))) (\<lambda>ds.
           bindS (batch_prog h clock ds (pruning_batch_id (pq_parent_unit_id q) (pq_completed_seq q))) (\<lambda>events.
           lift_res (Inr \<lparr>pz_record = Some r, pz_cancelled_units = map tu_unit_id units, pz_preserved_count = preserved,
             pz_events = events\<rparr>)))))))))))"

end
