(* ===== verification/Spec2Isabelle.thy ===== *)
theory Spec2Isabelle
  imports
    Core_Leases
    Core_Registration
    Core_Settlement
    Core_Contribution_Log
    Core_Expansion
    Core_Merge_Sample
    Event_Snapshot
    Logical_Scheduler_Facts
    Fact_Pipeline
    Fact_Subject
    Exec_Registry_Facts
    Engine_Decision_Sample
    Engine_Pruning
begin

text \<open>
  TokenShare is a protocol for cooperative work on tasks: a root task is registered, its units are
  leased to clients that execute attempts, submissions are verified and the first verified bundle
  becomes canonical, canonical outputs lead to completion or to an expansion into child units, the
  outputs of the children are merged, and the contributions are settled. Every step is an event of
  an append-only, hash-chained ledger; every document is an immutable artifact on disk. The program
  is Python, under \<open>src/src/tokenshare\<close>; this development models its core and storage layers, the
  deterministic scheduler of the local runtime and the factorization plugin, operation by operation.

  Parts, in the order of the imports.

  \<^item> \<open>Py_Prelude\<close>, \<open>Py_Json\<close>, \<open>Py_Json_Read\<close>: exceptions as values of \<open>res\<close>, dictionaries as association
    lists in insertion order, JSON values, the canonical encoder \<open>json.dumps(sort_keys=True, ...)\<close> and
    the decoder \<open>json.loads\<close>. The lemmas: the canonical text can be read back and identifies a value
    up to the order of its members. \<open>Py_Clock\<close>: ISO 8601 timestamps and the proleptic Gregorian
    calendar (\<open>_parse_utc\<close>, \<open>_format_utc\<close>, \<open>_add_seconds\<close> of \<open>core/leases.py\<close>). \<open>Py_Heap\<close>: the locale of a
    priority queue and \<open>heapq\<close> as a list in key order.
  \<^item> \<open>Core_Models\<close> (\<open>core/models.py\<close>), \<open>Core_State_Machines\<close> (\<open>core/state_machines.py\<close>), \<open>Core_Task_Graph\<close> and
    \<open>Dfs_Cycle\<close> (\<open>core/task_graph.py\<close>), \<open>Core_Scheduling\<close> (\<open>core/scheduling.py\<close>), \<open>Core_Recovery\<close>
    (\<open>core/recovery.py\<close>), \<open>Core_Leases\<close> (\<open>core/leases.py\<close>): the records, the transition tables, the
    dependency graph, FIFO selection, and the life of a lease. Shown: lifecycles are monotone, the
    graph is built exactly when it is well formed and acyclic, the scheduler is fair, a lease either
    takes a heartbeat or expires, and only the current attempt's submission is accepted.
  \<^item> \<open>Event_Ledger\<close>, \<open>Event_Ledger_Integrity\<close>, \<open>Event_Log\<close>, \<open>Event_Snapshot\<close> (\<open>storage/events.py\<close>): the ledger
    file is the text of its bytes, kept beside the events, the index by idempotency key and the last
    hash. \<open>ledger_reach\<close> are the ledgers built by appends, batches and reopenings; \<open>ledger_ok\<close> is
    their invariant. \<open>Event_Log\<close> states the contract of an idempotent log as the locale \<open>event_log\<close>
    and interprets it on the ledger; registration and recording use its facts.
  \<^item> \<open>Artifact_Store\<close>, \<open>Artifact_Commit\<close> (\<open>storage/artifacts.py\<close>): the disk is a map from paths to bytes. A
    save writes temporary files, renames them and leaves commit markers; \<open>commit_spec\<close> and \<open>save_spec\<close>
    are its abstract effect on the visible files, and \<open>save_bytes_refines\<close> the refinement.
    \<open>crash_states\<close> lists the disks an interrupted save can leave.
  \<^item> \<open>Core_Registration\<close> (\<open>core/registration.py\<close>): a root task is an artifact and three events.
  \<^item> \<open>Core_Verification\<close> (\<open>core/verification.py\<close>): reports, eligibility, the choice of the canonical bundle.
  \<^item> \<open>Core_Proposal\<close>, \<open>Core_Proposal_Facts\<close>, \<open>Core_Expansion\<close> (\<open>core/expansion.py\<close>): decomposition proposals
    (a proposal is accepted exactly when it is a well-formed acyclic child graph), initial states of
    the children, decisions, merge plans, expected outputs.
  \<^item> \<open>Core_Merge\<close> (\<open>core/merge.py\<close>), \<open>Core_Merge_Coordinator\<close>, \<open>Core_Merge_Facts\<close>, \<open>Core_Merge_Sample\<close>
    (\<open>core/merge_coordinator.py\<close>): slot bindings, merge task links, and the creation of merge tasks over
    the disk and the ledger. Shown: a merge task is created only when it may be, and creating it
    again changes nothing.
  \<^item> \<open>Core_Contribution\<close>, \<open>Core_Settlement\<close>, \<open>Core_Contribution_Log\<close> (\<open>core/contribution.py\<close>): contributions
    derived from canonical batches, their lifecycle, their recording, and the exact settlement of
    an integer budget.
  \<^item> \<open>Logical_Scheduler\<close>, \<open>Logical_Scheduler_Facts\<close> (\<open>local_runtime/logical_scheduler.py\<close>): the event queue of
    the simulated clock, checkpoints, the makespan of list scheduling.
  \<^item> \<open>Py_Decimal\<close>, \<open>Fact_Models\<close>, \<open>Fact_Partition\<close>, \<open>Fact_Split\<close>, \<open>Fact_Subject\<close>, \<open>Fact_Validator\<close>, \<open>Fact_Merge\<close>
    and their facts \<open>Fact_Split_Facts\<close>, \<open>Fact_Merge_Facts\<close>, \<open>Fact_Pipeline\<close> (\<open>plugins/factorization\<close>): decimal
    texts and \<open>isqrt\<close>; the records; the partition of the candidate divisors of a number into ranges; the
    proposal, merge plan and action of the split strategy; the check of a subject against its root input; the
    recheck of range results that executors submit; the merge. Shown: the core accepts what the plugin
    proposes, the recheck is exact, and a plan, accepted results of its ranges and their merge end in a
    right factorization, so the split writes what the merge reads.
  \<^item> \<open>Exec_Contracts\<close>, \<open>Exec_Registry\<close>, \<open>Exec_Registry_Facts\<close> (\<open>plugins/contracts.py\<close>, \<open>executors/contracts.py\<close>,
    \<open>plugins/registry.py\<close>, \<open>executors/registry.py\<close>): the descriptors of plugins and executors, their registries,
    the matching of executors and the frozen snapshot. The locale \<open>registry\<close> is what both registries promise,
    the locale \<open>freezing\<close> the loop that saves their descriptors. Shown: exclusive task types are exclusive,
    matching is exact, a freeze can be repeated without effect.
  \<^item> \<open>Engine_Base\<close>, \<open>Engine_Scheduling\<close>, \<open>Engine_Scheduling_Facts\<close>, \<open>Engine_Schedule_Claims\<close>
    (\<open>protocol_engine.py\<close>): the engine keeps no state of its own; an operation reads the ledger, where the latest
    snapshot of a lease or an attempt is authoritative, and appends events. Handing out units, heartbeats,
    recovery. \<open>engine_run\<close> are the ledgers these build with any other events between them. Shown: a unit never
    has two active leases, a schedule commits four linked events, a recovery can be repeated.
  \<^item> \<open>Engine_Execution\<close>, \<open>Engine_Attempts\<close>, \<open>Engine_Execution_Facts\<close> (\<open>protocol_engine.py\<close>): registry snapshots,
    execution requests and submissions. An operation that also saves a document is a program over the pair of disk
    and ledger, which it returns even when it raises. Shown: an attempt has at most one accepted submission,
    an interrupted submission can be sent again.
  \<^item> \<open>Engine_Verification\<close>, \<open>Engine_Verification_Facts\<close>, \<open>Engine_Verification_Flow\<close> (\<open>protocol_engine.py\<close>):
    \<open>record_verification\<close> and \<open>bind_canonical_outputs\<close>. Shown: a verification moves the attempt as its layers say,
    what is canonical comes from a recorded report that passed and stays, and a Verified attempt can be bound.
  \<^item> \<open>Engine_Decision\<close>, \<open>Engine_Expansion\<close>, \<open>Engine_Decision_Facts\<close>, \<open>Engine_Decision_Sample\<close> (\<open>protocol_engine.py\<close>): split
    invocations, complete and expand decisions. What a decision rests on is read from the ledger and the disk; an
    expansion saves its documents first and is one batch. Shown: a scope is decided once, a completed unit has
    verified canonical outputs.
  \<^item> \<open>Engine_Completion\<close>, \<open>Engine_Settlement\<close>, \<open>Engine_Pruning\<close> (\<open>protocol_engine.py\<close>): the resolution of a merge into
    the expected outputs of a parent, the completion of a parent with its contributions, its failure by a child, the
    activation of a blocked unit, the settlement of a completed root, the pruning of what is left below a
    completed parent. Settlement and pruning look for their batch first and read back what it has.

  Conventions. Strings hold UTF-8 bytes, whose order is Python's. Integers are unbounded, as in
  Python. A record has one field per dataclass field, under a two-letter prefix; \<open>mk_...\<close> is
  \<open>__post_init__\<close>, \<open>..._to_dict\<close> is \<open>to_dict\<close>, \<open>..._from_kwargs\<close> a call with \<open>**data\<close>. Fields are typed: a
  document with a value of another type where the code expects, say, a string is a \<open>TypeError\<close> of
  the model, where Python would carry the value on. SHA-256 is a parameter \<open>h\<close>, any function from
  texts to texts; theorems that need it say that two different texts with the same hash exist
  otherwise. Clock readings, random nonces and generated ids are arguments. A mutable object is a
  record that each operation returns updated; an operation that may raise returns \<open>res\<close>, and one
  that may raise after a change returns the changed state beside the error. Depth-first search
  and the JSON parser recurse by fuel; \<open>Dfs_Cycle\<close> runs with one more than the number of nodes and
  \<open>loads\<close> with the length of the text, which the lemmas show to be enough.

  Not modelled, and why. \<open>storage/sqlite_index.py\<close> is SQL text for sqlite3, over an index
  that can be rebuilt from the ledger. The processes, pipes and threads of \<open>local_runtime\<close>, the HTTP transport of
  \<open>executors\<close>, the adapter, prompts and fixtures of \<open>plugins/factorization\<close> and the Lean toolchain behind \<open>plugins/lean_proof\<close> are interfaces to software outside the
  repository. Decimal texts follow CPython 3.11: the digits of Unicode 14 and the limit of 4300 digits of \<open>int\<close> and
  \<open>str\<close>; \<open>str.isalnum\<close> is a parameter. \<open>experiments\<close> is an offline harness over finished runs. \<open>fsync\<close> has no effect in the model of
  the disk: a write is durable, a crash falls between two writes or within one.
\<close>

end
